(* ===== verification/Py_Prelude.thy ===== *)
theory Py_Prelude
  imports Complex_Main "HOL-Library.AList"
begin

text \<open>
  The Python the development rests on, shared by every component.

  \<^item> Exceptions are values: \<open>Exn cls msg\<close> is a raised exception of class \<open>cls\<close> with the
    text \<open>str(err)\<close>; a fallible computation returns \<open>'a res\<close>.
  \<^item> Code with effects is a function from a world to a result and a new world
    (\<open>('w, 'a) io\<close>); the world is what the code talks to (a test server, a bucket, a file
    system), never something the code itself computes.
  \<^item> A \<open>dict\<close> is an association list in insertion order, updated as Python updates it.
  \<^item> A \<open>str\<close> is a list of characters; a character stands for a code point below 256.
  \<^item> The string methods the repository uses (\<open>split\<close>, \<open>replace\<close>, \<open>startswith\<close>, \<open>strip\<close>,
    \<open>join\<close>, \<open>int()\<close>, \<open>str()\<close> of an integer) are functions on such lists.
\<close>

named_theorems io_simps "unfolding rules of the world-passing monad"
named_theorems dict_simps "lookup and update laws of dictionaries"
named_theorems str_simps "laws of the string methods"

section \<open>Exceptions and results\<close>

datatype exn = Exn (exn_class: string) (exn_msg: string)

type_synonym 'a res = "exn + 'a"

abbreviation raise_exc :: "string \<Rightarrow> string \<Rightarrow> 'a res" where
  "raise_exc cls msg \<equiv> Inl (Exn cls msg)"

definition bindR :: "'a res \<Rightarrow> ('a \<Rightarrow> 'b res) \<Rightarrow> 'b res" where
  "bindR m f = (case m of Inl e \<Rightarrow> Inl e | Inr a \<Rightarrow> f a)"

lemma bindR_Inl [simp]: "bindR (Inl e) f = Inl e"
  by (simp add: bindR_def)

lemma bindR_Inr [simp]: "bindR (Inr a) f = f a"
  by (simp add: bindR_def)

lemma bindR_eq_Inr: "bindR m f = Inr b \<longleftrightarrow> (\<exists>a. m = Inr a \<and> f a = Inr b)"
  by (cases m) auto

lemma bindR_eq_Inl: "bindR m f = Inl e \<longleftrightarrow> m = Inl e \<or> (\<exists>a. m = Inr a \<and> f a = Inl e)"
  by (cases m) auto

lemma bindR_cong:
  "m = n \<Longrightarrow> (\<And>a. n = Inr a \<Longrightarrow> f a = g a) \<Longrightarrow> bindR m f = bindR n g"
  by (cases n) auto

text \<open>A loop that appends the result of each element stops at the first exception.\<close>

fun mapR :: "('a \<Rightarrow> 'b res) \<Rightarrow> 'a list \<Rightarrow> 'b list res" where
  "mapR f [] = Inr []"
| "mapR f (x # xs) = bindR (f x) (\<lambda>y. bindR (mapR f xs) (\<lambda>ys. Inr (y # ys)))"

lemma mapR_cong [fundef_cong]:
  "xs = ys \<Longrightarrow> (\<And>x. x \<in> set ys \<Longrightarrow> f x = g x) \<Longrightarrow> mapR f xs = mapR g ys"
  by (induction ys arbitrary: xs) auto

lemma mapR_Inr_iff: "mapR f xs = Inr ys \<longleftrightarrow> list_all2 (\<lambda>x y. f x = Inr y) xs ys"
  by (induction xs arbitrary: ys) (auto simp: bindR_eq_Inr list_all2_Cons1)

lemma mapR_Inr_mem:
  assumes "mapR f xs = Inr ys" "y \<in> set ys"
  obtains x where "x \<in> set xs" "f x = Inr y"
  using assms by (fastforce simp: mapR_Inr_iff list_all2_conv_all_nth in_set_conv_nth)

lemma mapR_all_Inr: "(\<And>x. x \<in> set xs \<Longrightarrow> f x = Inr (g x)) \<Longrightarrow> mapR f xs = Inr (map g xs)"
  by (induction xs) auto

lemma mapR_length: "mapR f xs = Inr ys \<Longrightarrow> length ys = length xs"
  by (auto simp: mapR_Inr_iff dest: list_all2_lengthD)

section \<open>Code with effects\<close>

type_synonym ('w, 'a) io = "'w \<Rightarrow> 'a res \<times> 'w"

definition returnIO :: "'a \<Rightarrow> ('w, 'a) io" where
  "returnIO a w = (Inr a, w)"

definition raiseIO :: "exn \<Rightarrow> ('w, 'a) io" where
  "raiseIO e w = (Inl e, w)"

definition liftIO :: "'a res \<Rightarrow> ('w, 'a) io" where
  "liftIO r w = (r, w)"

definition bindIO :: "('w, 'a) io \<Rightarrow> ('a \<Rightarrow> ('w, 'b) io) \<Rightarrow> ('w, 'b) io" where
  "bindIO m f w = (case m w of (Inl e, w') \<Rightarrow> (Inl e, w') | (Inr a, w') \<Rightarrow> f a w')"

definition tryIO :: "('w, 'a) io \<Rightarrow> (exn \<Rightarrow> ('w, 'a) io) \<Rightarrow> ('w, 'a) io" where
  "tryIO m h w = (case m w of (Inl e, w') \<Rightarrow> h e w' | (Inr a, w') \<Rightarrow> (Inr a, w'))"

lemma returnIO_apply [simp, io_simps]: "returnIO a w = (Inr a, w)"
  by (simp add: returnIO_def)

lemma raiseIO_apply [simp, io_simps]: "raiseIO e w = (Inl e, w)"
  by (simp add: raiseIO_def)

lemma liftIO_apply [simp, io_simps]: "liftIO r w = (r, w)"
  by (simp add: liftIO_def)

lemma bindIO_Inr [io_simps]: "m w = (Inr a, w') \<Longrightarrow> bindIO m f w = f a w'"
  by (simp add: bindIO_def)

lemma bindIO_Inl [io_simps]: "m w = (Inl e, w') \<Longrightarrow> bindIO m f w = (Inl e, w')"
  by (simp add: bindIO_def)

lemma bindIO_return [simp]: "bindIO (returnIO a) f = f a"
  by (rule ext) (simp add: bindIO_def)

lemma bindIO_raise [simp]: "bindIO (raiseIO e) f = raiseIO e"
  by (rule ext) (simp add: bindIO_def)

lemma bindIO_lift [simp]: "bindIO (liftIO (Inr a)) f = f a" "bindIO (liftIO (Inl e)) f = raiseIO e"
  by (rule ext, simp add: bindIO_def)+

lemma bindIO_assoc: "bindIO (bindIO m f) g = bindIO m (\<lambda>x. bindIO (f x) g)"
  by (rule ext) (simp add: bindIO_def split: prod.splits sum.splits)

lemma bindIO_eq_Inr: "bindIO m f w = (Inr b, w') \<longleftrightarrow> (\<exists>a v. m w = (Inr a, v) \<and> f a v = (Inr b, w'))"
  by (auto simp: bindIO_def split: prod.splits sum.splits)

text \<open>A \<open>for\<close> loop over a list, its body run for effect.\<close>

fun forIO :: "'a list \<Rightarrow> ('a \<Rightarrow> ('w, unit) io) \<Rightarrow> ('w, unit) io" where
  "forIO [] f = returnIO ()"
| "forIO (x # xs) f = bindIO (f x) (\<lambda>_. forIO xs f)"

text \<open>A \<open>for\<close> loop that threads local variables, as a fold in the monad.\<close>

fun foldIO :: "('s \<Rightarrow> 'a \<Rightarrow> ('w, 's) io) \<Rightarrow> 's \<Rightarrow> 'a list \<Rightarrow> ('w, 's) io" where
  "foldIO f s [] = returnIO s"
| "foldIO f s (x # xs) = bindIO (f s x) (\<lambda>s'. foldIO f s' xs)"

fun foldR :: "('s \<Rightarrow> 'a \<Rightarrow> 's res) \<Rightarrow> 's \<Rightarrow> 'a list \<Rightarrow> 's res" where
  "foldR f s [] = Inr s"
| "foldR f s (x # xs) = bindR (f s x) (\<lambda>s'. foldR f s' xs)"

lemma foldR_append: "foldR f s (xs @ ys) = bindR (foldR f s xs) (\<lambda>s'. foldR f s' ys)"
  by (induction xs arbitrary: s) (auto simp: bindR_def split: sum.splits)

lemma foldR_invariant:
  assumes "foldR f s xs = Inr t" "P s"
    and "\<And>s x t. P s \<Longrightarrow> x \<in> set xs \<Longrightarrow> f s x = Inr t \<Longrightarrow> P t"
  shows "P t"
  using assms
proof (induction xs arbitrary: s)
  case (Cons x xs)
  from Cons.prems(1) obtain s' where s': "f s x = Inr s'" "foldR f s' xs = Inr t"
    by (auto simp: bindR_eq_Inr)
  from Cons.prems(3) [OF Cons.prems(2) _ s'(1)] have "P s'" by simp
  then show ?case by (rule Cons.IH [OF s'(2)]) (auto intro: Cons.prems(3))
qed simp

lemma foldIO_trace:
  assumes "foldIO f s xs w = (Inr t, w')" "R ys s"
    and "\<And>ys s x v t v'. R ys s \<Longrightarrow> f s x v = (Inr t, v') \<Longrightarrow> R (ys @ [x]) t"
  shows "R (ys @ xs) t"
  using assms(1,2)
proof (induction xs arbitrary: s w ys)
  case (Cons x xs)
  then obtain s' v where "f s x w = (Inr s', v)" "foldIO f s' xs v = (Inr t, w')"
    by (auto simp: bindIO_def split: prod.splits sum.splits)
  with Cons.IH [of s' v "ys @ [x]"] Cons.prems(2) assms(3) show ?case by auto
qed simp

text \<open>
  Code with a loop that may not end: \<open>None\<close> is a run that has not returned within the fuel its
  loop was given.
\<close>

type_synonym ('w, 'a) dio = "'w \<Rightarrow> ('a res \<times> 'w) option"

definition liftD :: "('w, 'a) io \<Rightarrow> ('w, 'a) dio" where
  "liftD m w = Some (m w)"

definition bindD :: "('w, 'a) dio \<Rightarrow> ('a \<Rightarrow> ('w, 'b) dio) \<Rightarrow> ('w, 'b) dio" where
  "bindD m f w = (case m w of
       None \<Rightarrow> None
     | Some (Inl e, w') \<Rightarrow> Some (Inl e, w')
     | Some (Inr a, w') \<Rightarrow> f a w')"

lemma bindD_liftD: "bindD (liftD m) f w =
    (case m w of (Inl e, w') \<Rightarrow> Some (Inl e, w') | (Inr a, w') \<Rightarrow> f a w')"
  by (simp add: bindD_def liftD_def)

lemma bindD_returns:
  assumes "m w \<noteq> None" "\<And>a w'. m w = Some (Inr a, w') \<Longrightarrow> f a w' \<noteq> None"
  shows "bindD m f w \<noteq> None"
  using assms by (auto simp: bindD_def split: option.splits prod.splits sum.splits)

lemma bindIO_cases:
  assumes "bindIO m f w = (r, w')"
  obtains (raised) e where "m w = (Inl e, w')" "r = Inl e"
    | (ok) a v where "m w = (Inr a, v)" "f a v = (r, w')"
  using assms by (auto simp: bindIO_def split: prod.splits sum.splits)

section \<open>Dictionaries\<close>

type_synonym ('k, 'v) dict = "('k \<times> 'v) list"

definition dict_set :: "('k, 'v) dict \<Rightarrow> 'k \<Rightarrow> 'v \<Rightarrow> ('k, 'v) dict" where
  "dict_set d k v = AList.update k v d"

definition dict_get :: "('k, 'v) dict \<Rightarrow> 'k \<Rightarrow> 'v option" where
  "dict_get d k = map_of d k"

definition dict_del :: "('k, 'v) dict \<Rightarrow> 'k \<Rightarrow> ('k, 'v) dict" where
  "dict_del d k = AList.delete k d"

definition dict_has :: "('k, 'v) dict \<Rightarrow> 'k \<Rightarrow> bool" where
  "dict_has d k \<longleftrightarrow> map_of d k \<noteq> None"

abbreviation dict_keys :: "('k, 'v) dict \<Rightarrow> 'k list" where
  "dict_keys d \<equiv> map fst d"

abbreviation dict_values :: "('k, 'v) dict \<Rightarrow> 'v list" where
  "dict_values d \<equiv> map snd d"

abbreviation dict_wf :: "('k, 'v) dict \<Rightarrow> bool" where
  "dict_wf d \<equiv> distinct (map fst d)"

text \<open>\<open>d[k]\<close>, which raises \<open>KeyError\<close> for a missing key.\<close>

definition dict_index :: "(string, 'v) dict \<Rightarrow> string \<Rightarrow> 'v res" where
  "dict_index d k = (case map_of d k of None \<Rightarrow> raise_exc ''KeyError'' k | Some v \<Rightarrow> Inr v)"

text \<open>\<open>d.update(e)\<close>.\<close>

definition dict_update :: "('k, 'v) dict \<Rightarrow> ('k, 'v) dict \<Rightarrow> ('k, 'v) dict" where
  "dict_update d e = foldl (\<lambda>d kv. dict_set d (fst kv) (snd kv)) d e"

lemma dict_set_Nil [simp]: "dict_set [] k v = [(k, v)]"
  by (simp add: dict_set_def)

lemma dict_set_Cons [simp]:
  "dict_set ((k', v') # d) k v = (if k' = k then (k, v) # d else (k', v') # dict_set d k v)"
  by (simp add: dict_set_def)

lemma map_of_dict_set [simp, dict_simps]: "map_of (dict_set d k v) = (map_of d)(k \<mapsto> v)"
  by (simp add: dict_set_def update_conv')

lemma map_of_dict_del [simp, dict_simps]: "map_of (dict_del d k) = (map_of d)(k := None)"
  by (simp add: dict_del_def delete_conv')

lemma dict_get_set [dict_simps]:
  "dict_get (dict_set d k v) k' = (if k' = k then Some v else dict_get d k')"
  by (simp add: dict_get_def)

lemma dict_has_set [simp, dict_simps]: "dict_has (dict_set d k v) k' \<longleftrightarrow> k' = k \<or> dict_has d k'"
  by (auto simp: dict_has_def)

lemma dict_has_iff: "dict_has d k \<longleftrightarrow> k \<in> set (dict_keys d)"
  by (simp add: dict_has_def map_of_eq_None_iff)

lemma dict_keys_set:
  "dict_keys (dict_set d k v) = (if k \<in> set (dict_keys d) then dict_keys d else dict_keys d @ [k])"
  by (simp add: dict_set_def update_keys)

lemma set_dict_keys_set [simp]: "fst ` set (dict_set d k v) = insert k (fst ` set d)"
  by (simp add: dict_set_def dom_update)

lemma dict_wf_set [simp, intro]: "dict_wf d \<Longrightarrow> dict_wf (dict_set d k v)"
  by (simp add: dict_set_def distinct_update)

lemma dict_wf_del [simp, intro]: "dict_wf d \<Longrightarrow> dict_wf (dict_del d k)"
  by (simp add: dict_del_def distinct_delete)

lemma dict_set_fresh: "k \<notin> set (dict_keys d) \<Longrightarrow> dict_set d k v = d @ [(k, v)]"
  by (induction d) auto

lemma dict_index_Inr: "dict_index d k = Inr v \<longleftrightarrow> map_of d k = Some v"
  by (auto simp: dict_index_def split: option.splits)

lemma dict_index_set [simp]:
  "dict_index (dict_set d k v) k' = (if k' = k then Inr v else dict_index d k')"
  by (simp add: dict_index_def)

text \<open>Rebuilding a dictionary by assigning its items in order gives it back.\<close>

lemma foldl_dict_set_append:
  "dict_wf (d @ e) \<Longrightarrow> foldl (\<lambda>d kv. dict_set d (fst kv) (snd kv)) d e = d @ e"
proof (induction e arbitrary: d)
  case (Cons kv e)
  then have "dict_set d (fst kv) (snd kv) = d @ [kv]"
    by (subst dict_set_fresh) auto
  with Cons.IH [of "d @ [kv]"] Cons.prems show ?case by simp
qed simp

lemma dict_update_Nil: "dict_wf e \<Longrightarrow> dict_update [] e = e"
  using foldl_dict_set_append [of "[]" e] by (simp add: dict_update_def)

end
