(* ===== verification/Py_Strings.thy ===== *)
theory Py_Strings
  imports Py_Prelude
begin

text \<open>
  The methods of \<open>str\<close> the repository calls, and the decimal text of integers.
  Every function is total and executable; the laws at the end of each group
  (\<open>join_split_chr\<close>, \<open>split_chr_join\<close>, \<open>int_of_str_int_str\<close>) are what the components use.
  Case mapping (\<open>lower\<close>, \<open>capitalize\<close>) is that of the ASCII letters.
\<close>

abbreviation chr_dquote :: char where "chr_dquote \<equiv> CHR 0x22"
abbreviation chr_squote :: char where "chr_squote \<equiv> CHR 0x27"
abbreviation chr_bslash :: char where "chr_bslash \<equiv> CHR 0x5C"
abbreviation chr_backtick :: char where "chr_backtick \<equiv> CHR 0x60"
abbreviation chr_newline :: char where "chr_newline \<equiv> CHR 0x0A"
abbreviation chr_tab :: char where "chr_tab \<equiv> CHR 0x09"

text \<open>\<open>dq s\<close> is the text \<open>s\<close> between double quotes, \<open>nl\<close> a newline.\<close>

definition dq :: "string \<Rightarrow> string" where
  "dq s = chr_dquote # s @ [chr_dquote]"

abbreviation nl :: string where "nl \<equiv> [chr_newline]"

section \<open>Prefixes, suffixes, substrings\<close>

definition startswith :: "string \<Rightarrow> string \<Rightarrow> bool" where
  "startswith s p \<longleftrightarrow> take (length p) s = p"

definition endswith :: "string \<Rightarrow> string \<Rightarrow> bool" where
  "endswith s p \<longleftrightarrow> startswith (rev s) (rev p)"

text \<open>\<open>p in s\<close> for strings.\<close>

fun contains_str :: "string \<Rightarrow> string \<Rightarrow> bool" where
  "contains_str [] p = (p = [])"
| "contains_str (c # s) p = (startswith (c # s) p \<or> contains_str s p)"

lemma startswith_append [simp]: "startswith (p @ s) p"
  by (simp add: startswith_def)

lemma startswith_iff: "startswith s p \<longleftrightarrow> (\<exists>r. s = p @ r)"
  unfolding startswith_def by (metis append_eq_conv_conj append_take_drop_id)

lemma startswith_Nil [simp]: "startswith s []"
  by (simp add: startswith_def)

lemma startswith_Nil_left [simp]: "startswith [] p \<longleftrightarrow> p = []"
  by (auto simp: startswith_def)

lemma startswith_Cons [simp]: "startswith (c # s) (d # p) \<longleftrightarrow> c = d \<and> startswith s p"
  by (auto simp: startswith_def)

lemma endswith_iff: "endswith s p \<longleftrightarrow> (\<exists>r. s = r @ p)"
proof
  assume "endswith s p"
  then obtain r where "rev s = rev p @ r" by (auto simp: endswith_def startswith_iff)
  then have "s = rev r @ p" by (metis rev_append rev_rev_ident)
  then show "\<exists>r. s = r @ p" by blast
qed (auto simp: endswith_def)

lemma endswith_append [simp]: "endswith (r @ p) p"
  by (auto simp: endswith_iff)

lemma contains_str_iff: "contains_str s p \<longleftrightarrow> (\<exists>a b. s = a @ p @ b)"
proof (induction s)
  case (Cons c s)
  have "(\<exists>a b. c # s = a @ p @ b) \<longleftrightarrow> (\<exists>b. c # s = p @ b) \<or> (\<exists>a b. s = a @ p @ b)"
    by (metis append_Cons append_Nil list.exhaust list.inject)
  with Cons.IH show ?case by (simp add: startswith_iff)
qed simp

section \<open>Splitting and joining\<close>

text \<open>\<open>s.split(c)\<close> for a one-character separator.\<close>

fun split_chr :: "char \<Rightarrow> string \<Rightarrow> string list" where
  "split_chr c [] = [[]]"
| "split_chr c (x # xs) =
     (if x = c then [] # split_chr c xs
      else (x # hd (split_chr c xs)) # tl (split_chr c xs))"

text \<open>\<open>sep.join(xs)\<close>.\<close>

fun join :: "string \<Rightarrow> string list \<Rightarrow> string" where
  "join sep [] = []"
| "join sep [x] = x"
| "join sep (x # y # ys) = x @ sep @ join sep (y # ys)"

text \<open>\<open>s.split(sep)\<close> for a non-empty separator: \<open>n\<close> characters of a match are still to be skipped.\<close>

fun split_go :: "string \<Rightarrow> nat \<Rightarrow> string \<Rightarrow> string \<Rightarrow> string list" where
  "split_go sep n acc [] = [rev acc]"
| "split_go sep (Suc n) acc (x # xs) = split_go sep n acc xs"
| "split_go sep 0 acc (x # xs) =
     (if startswith (x # xs) sep then rev acc # split_go sep (length sep - 1) [] xs
      else split_go sep 0 (x # acc) xs)"

definition split_str :: "string \<Rightarrow> string \<Rightarrow> string list" where
  "split_str sep s = split_go sep 0 [] s"

text \<open>\<open>s.rsplit(c, 1)[0]\<close>: the text before the last \<open>c\<close>, all of it when there is none.\<close>

definition rsplit_head :: "char \<Rightarrow> string \<Rightarrow> string" where
  "rsplit_head c s =
     (if c \<in> set s then rev (tl (dropWhile (\<lambda>x. x \<noteq> c) (rev s))) else s)"

lemma split_chr_nonempty [simp]: "split_chr c s \<noteq> []"
  by (cases s) auto

lemma length_split_chr: "length (split_chr c s) = Suc (count_list s c)"
  by (induction s) auto

lemma split_chr_notin: "c \<notin> set s \<Longrightarrow> split_chr c s = [s]"
  by (induction s) auto

lemma split_chr_parts: "p \<in> set (split_chr c s) \<Longrightarrow> c \<notin> set p"
proof (induction s arbitrary: p)
  case (Cons x xs)
  have "hd (split_chr c xs) \<in> set (split_chr c xs)" by (rule hd_in_set) simp
  moreover have "set (tl (split_chr c xs)) \<subseteq> set (split_chr c xs)"
    by (cases "split_chr c xs") auto
  ultimately show ?case using Cons by (auto split: if_splits)
qed simp

lemma join_split_chr: "join [c] (split_chr c s) = s"
proof (induction s)
  case (Cons x xs)
  obtain y ys where sp: "split_chr c xs = y # ys" by (cases "split_chr c xs") auto
  show ?case using Cons.IH by (cases ys) (simp_all add: sp)
qed simp

lemma split_chr_append:
  "c \<notin> set a \<Longrightarrow> split_chr c (a @ c # b) = a # split_chr c b"
  by (induction a) auto

lemma split_chr_join:
  "xs \<noteq> [] \<Longrightarrow> (\<And>x. x \<in> set xs \<Longrightarrow> c \<notin> set x) \<Longrightarrow> split_chr c (join [c] xs) = xs"
proof (induction "[c]" xs rule: join.induct)
  case (3 x y ys)
  then show ?case by (simp add: split_chr_append)
qed (auto simp: split_chr_notin)

section \<open>Replacing\<close>

text \<open>\<open>s.replace(old, new)\<close>: leftmost matches first, never overlapping.\<close>

fun replace_go :: "string \<Rightarrow> string \<Rightarrow> nat \<Rightarrow> string \<Rightarrow> string" where
  "replace_go old new n [] = []"
| "replace_go old new (Suc n) (x # xs) = replace_go old new n xs"
| "replace_go old new 0 (x # xs) =
     (if startswith (x # xs) old then new @ replace_go old new (length old - 1) xs
      else x # replace_go old new 0 xs)"

definition replace_str :: "string \<Rightarrow> string \<Rightarrow> string \<Rightarrow> string" where
  "replace_str old new s =
     (if old = [] then new @ concat (map (\<lambda>c. c # new) s) else replace_go old new 0 s)"

text \<open>For a one-character pattern the replacement is letter by letter.\<close>

lemma replace_str_chr [str_simps]:
  "replace_str [c] new s = concat (map (\<lambda>x. if x = c then new else [x]) s)"
proof -
  have "replace_go [c] new 0 s = concat (map (\<lambda>x. if x = c then new else [x]) s)"
    by (induction s) auto
  then show ?thesis by (simp add: replace_str_def)
qed

lemma replace_str_absent:
  assumes "\<not> contains_str s old" "old \<noteq> []"
  shows "replace_str old new s = s"
proof -
  from assms have "replace_go old new 0 s = s" by (induction s) auto
  with assms show ?thesis by (simp add: replace_str_def)
qed

section \<open>Stripping and case\<close>

definition is_space :: "char \<Rightarrow> bool" where
  "is_space c \<longleftrightarrow> (let n = (of_char c :: nat)
     in 9 \<le> n \<and> n \<le> 13 \<or> 28 \<le> n \<and> n \<le> 32 \<or> n = 133 \<or> n = 160)"

definition rstrip_chars :: "string \<Rightarrow> string \<Rightarrow> string" where
  "rstrip_chars cs s = rev (dropWhile (\<lambda>c. c \<in> set cs) (rev s))"

definition py_strip :: "string \<Rightarrow> string" where
  "py_strip s = rev (dropWhile is_space (rev (dropWhile is_space s)))"

definition lower_chr :: "char \<Rightarrow> char" where
  "lower_chr c = (let n = (of_char c :: nat) in if 65 \<le> n \<and> n \<le> 90 then char_of (n + 32) else c)"

definition upper_chr :: "char \<Rightarrow> char" where
  "upper_chr c = (let n = (of_char c :: nat) in if 97 \<le> n \<and> n \<le> 122 then char_of (n - 32) else c)"

definition py_lower :: "string \<Rightarrow> string" where
  "py_lower s = map lower_chr s"

fun capitalize :: "string \<Rightarrow> string" where
  "capitalize [] = []"
| "capitalize (c # s) = upper_chr c # py_lower s"

lemma py_strip_id:
  "(s \<noteq> [] \<Longrightarrow> \<not> is_space (hd s)) \<Longrightarrow> (s \<noteq> [] \<Longrightarrow> \<not> is_space (last s)) \<Longrightarrow> py_strip s = s"
  by (cases s) (auto simp: py_strip_def hd_rev [symmetric] dropWhile_eq_self_iff)

section \<open>Decimal text\<close>

definition digit_chr :: "nat \<Rightarrow> char" where
  "digit_chr d = char_of (48 + d)"

definition is_digit :: "char \<Rightarrow> bool" where
  "is_digit c \<longleftrightarrow> 48 \<le> (of_char c :: nat) \<and> (of_char c :: nat) \<le> 57"

definition digit_val :: "char \<Rightarrow> nat" where
  "digit_val c = of_char c - 48"

fun nat_str :: "nat \<Rightarrow> string" where
  "nat_str n = (if n < 10 then [digit_chr n] else nat_str (n div 10) @ [digit_chr (n mod 10)])"

declare nat_str.simps [simp del]

definition int_str :: "int \<Rightarrow> string" where
  "int_str i = (if i < 0 then CHR ''-'' # nat_str (nat (- i)) else nat_str (nat i))"

definition digits_val :: "string \<Rightarrow> nat" where
  "digits_val s = foldl (\<lambda>a c. a * 10 + digit_val c) 0 s"

text \<open>
  The digits of an \<open>int()\<close> literal: at least one, single underscores between digits allowed.
  The flag says whether the previous character was a digit.
\<close>

fun strip_underscores :: "bool \<Rightarrow> string \<Rightarrow> string option" where
  "strip_underscores prev [] = (if prev then Some [] else None)"
| "strip_underscores prev (c # cs) =
     (if is_digit c then map_option (Cons c) (strip_underscores True cs)
      else if c = CHR ''_'' \<and> prev then strip_underscores False cs else None)"

definition nat_of_str :: "string \<Rightarrow> nat option" where
  "nat_of_str s = map_option digits_val (strip_underscores False s)"

text \<open>\<open>int(s)\<close>; \<open>None\<close> where Python raises \<open>ValueError\<close>.\<close>

definition int_of_str :: "string \<Rightarrow> int option" where
  "int_of_str s = (case py_strip s of
       [] \<Rightarrow> None
     | c # r \<Rightarrow> (if c = CHR ''-'' then map_option (\<lambda>n. - int n) (nat_of_str r)
                else if c = CHR ''+'' then map_option int (nat_of_str r)
                else map_option int (nat_of_str (c # r))))"

lemma is_digit_chr [simp]: "d < 10 \<Longrightarrow> is_digit (digit_chr d)"
  by (simp add: is_digit_def digit_chr_def)

lemma digit_val_chr [simp]: "d < 10 \<Longrightarrow> digit_val (digit_chr d) = d"
  by (simp add: digit_val_def digit_chr_def)

lemma is_digit_not_special:
  assumes "is_digit c"
  shows "c \<noteq> CHR ''-''" "c \<noteq> CHR ''+''" "c \<noteq> CHR ''.''" "c \<noteq> CHR '',''" "\<not> is_space c"
    "c \<noteq> chr_dquote" "c \<noteq> CHR ''@''"
  using assms by (auto simp: is_digit_def is_space_def Let_def)

lemma nat_str_nonempty [simp]: "nat_str n \<noteq> []"
  by (subst nat_str.simps) simp

lemma nat_str_digits: "c \<in> set (nat_str n) \<Longrightarrow> is_digit c"
proof (induction n rule: nat_str.induct)
  case (1 n)
  then show ?case by (cases "n < 10") (auto simp: nat_str.simps [of n])
qed

lemma digits_val_snoc: "digits_val (s @ [c]) = digits_val s * 10 + digit_val c"
  by (simp add: digits_val_def)

lemma digits_val_nat_str [simp]: "digits_val (nat_str n) = n"
proof (induction n rule: nat_str.induct)
  case (1 n)
  show ?case
  proof (cases "n < 10")
    case True
    then show ?thesis by (simp add: nat_str.simps [of n] digits_val_def)
  next
    case False
    with 1 show ?thesis by (simp add: nat_str.simps [of n] digits_val_snoc)
  qed
qed

lemma strip_underscores_digits:
  "(\<And>c. c \<in> set s \<Longrightarrow> is_digit c) \<Longrightarrow> s \<noteq> [] \<or> prev \<Longrightarrow> strip_underscores prev s = Some s"
  by (induction s arbitrary: prev) auto

lemma nat_of_str_nat_str [simp]: "nat_of_str (nat_str n) = Some n"
  by (simp add: nat_of_str_def strip_underscores_digits nat_str_digits)

lemma nat_str_hd_last:
  shows "is_digit (hd (nat_str n))" "is_digit (last (nat_str n))"
  by (simp_all add: nat_str_digits [of _ n])

lemma int_str_strip [simp]: "py_strip (int_str i) = int_str i"
proof (rule py_strip_id)
  have "\<not> is_space CHR ''-''" by (simp add: is_space_def)
  then show "\<not> is_space (hd (int_str i))"
    using nat_str_hd_last(1) by (auto simp: int_str_def is_digit_not_special)
  show "\<not> is_space (last (int_str i))"
    using nat_str_hd_last(2) by (auto simp: int_str_def is_digit_not_special)
qed

lemma int_str_nonempty [simp]: "int_str i \<noteq> []"
  by (simp add: int_str_def)

lemma int_of_str_int_str [simp]: "int_of_str (int_str i) = Some i"
proof (cases "i < 0")
  case True
  then show ?thesis by (simp add: int_of_str_def) (simp add: int_str_def)
next
  case False
  obtain c r where cr: "nat_str (nat i) = c # r" by (cases "nat_str (nat i)") auto
  then have "is_digit c" using nat_str_hd_last(1) [of "nat i"] by simp
  then have "c \<noteq> CHR ''-''" "c \<noteq> CHR ''+''" by (auto dest: is_digit_not_special)
  moreover have "nat_of_str (c # r) = Some (nat i)" using cr nat_of_str_nat_str [of "nat i"] by simp
  ultimately show ?thesis using False cr by (simp add: int_of_str_def) (simp add: int_str_def)
qed

lemma int_str_inject [simp]: "int_str i = int_str j \<longleftrightarrow> i = j"
  by (metis int_of_str_int_str option.inject)

lemma int_str_chars: "c \<in> set (int_str i) \<Longrightarrow> is_digit c \<or> c = CHR ''-''"
  by (auto simp: int_str_def nat_str_digits split: if_splits)

lemma nat_str_inject [simp]: "nat_str m = nat_str n \<longleftrightarrow> m = n"
  by (metis digits_val_nat_str)

lemma int_str_no_comma [simp]: "CHR '','' \<notin> set (int_str i)"
  by (auto dest: int_str_chars simp: is_digit_def)

end
