(* ===== verification/Py_Value.thy ===== *)
theory Py_Value
  imports Py_Strings
begin

text \<open>
  The dynamically typed values the repository passes around: what \<open>json\<close> can carry, byte
  strings, and the \<open>MemoryPointer\<close> handles of \<open>CBLClient\<close>. Floats are exact rationals
  (every finite double is one); the text of a float and of an object, which depends on the
  interpreter, comes from the runtime record \<open>py_runtime\<close>:
  \<open>rt_float_str\<close> is \<open>repr(x)\<close>, \<open>rt_float_of\<close> is \<open>float(s)\<close> (\<open>None\<close> where it raises),
  \<open>rt_obj_str\<close> is \<open>str\<close> of a \<open>MemoryPointer\<close> object.
\<close>

datatype pyval =
    PNone
  | PBool bool
  | PInt int
  | PFloat rat
  | PStr string
  | PBytes string
  | PList "pyval list"
  | PDict "(string \<times> pyval) list"
  | PMem string

record py_runtime =
  rt_float_str :: "rat \<Rightarrow> string"
  rt_float_of :: "string \<Rightarrow> rat option"
  rt_obj_str :: "string \<Rightarrow> string"

lemma size_dict_value [termination_simp]:
  "kv \<in> set d \<Longrightarrow> size (snd kv) < Suc (size_list (size_prod (\<lambda>_. 0) size) d)"
  by (induction d) auto

lemma size_dict_value' [termination_simp]:
  "(k, v) \<in> set d \<Longrightarrow> size v < Suc (size_list (size_prod (\<lambda>_. 0) size) d)"
  using size_dict_value [of "(k, v)"] by simp

lemma size_zip_left [termination_simp]:
  "(x, y) \<in> set (zip xs ys) \<Longrightarrow> size x < Suc (size_list size xs)"
  by (induction xs ys rule: list_induct2') auto

section \<open>Truth, text and equality\<close>

fun py_truth :: "pyval \<Rightarrow> bool" where
  "py_truth PNone = False"
| "py_truth (PBool b) = b"
| "py_truth (PInt i) = (i \<noteq> 0)"
| "py_truth (PFloat x) = (x \<noteq> 0)"
| "py_truth (PStr s) = (s \<noteq> [])"
| "py_truth (PBytes s) = (s \<noteq> [])"
| "py_truth (PList xs) = (xs \<noteq> [])"
| "py_truth (PDict d) = (d \<noteq> [])"
| "py_truth (PMem a) = True"

definition hex_chr :: "nat \<Rightarrow> char" where
  "hex_chr d = (if d < 10 then char_of (48 + d) else char_of (87 + d))"

text \<open>The escapes of \<open>repr\<close>; \<open>q\<close> is the quote, \<open>hi\<close> says which codes above 126 are printable.\<close>

definition repr_esc :: "(nat \<Rightarrow> bool) \<Rightarrow> char \<Rightarrow> char \<Rightarrow> string" where
  "repr_esc hi q c =
     (let n = (of_char c :: nat) in
      if c = chr_bslash \<or> c = q then [chr_bslash, c]
      else if n = 9 then [chr_bslash, CHR ''t'']
      else if n = 10 then [chr_bslash, CHR ''n'']
      else if n = 13 then [chr_bslash, CHR ''r'']
      else if 32 \<le> n \<and> n < 127 \<or> 127 < n \<and> hi n then [c]
      else [chr_bslash, CHR ''x'', hex_chr (n div 16), hex_chr (n mod 16)])"

definition repr_quote :: "string \<Rightarrow> char" where
  "repr_quote s = (if chr_squote \<in> set s \<and> chr_dquote \<notin> set s then chr_dquote else chr_squote)"

definition repr_str :: "string \<Rightarrow> string" where
  "repr_str s = (let q = repr_quote s in
     q # concat (map (repr_esc (\<lambda>n. 161 \<le> n \<and> n \<noteq> 173) q) s) @ [q])"

definition repr_bytes :: "string \<Rightarrow> string" where
  "repr_bytes s = (let q = repr_quote s in
     CHR ''b'' # q # concat (map (repr_esc (\<lambda>n. False) q) s) @ [q])"

fun py_repr :: "py_runtime \<Rightarrow> pyval \<Rightarrow> string" where
  "py_repr rt PNone = ''None''"
| "py_repr rt (PBool b) = (if b then ''True'' else ''False'')"
| "py_repr rt (PInt i) = int_str i"
| "py_repr rt (PFloat x) = rt_float_str rt x"
| "py_repr rt (PStr s) = repr_str s"
| "py_repr rt (PBytes s) = repr_bytes s"
| "py_repr rt (PList xs) = ''['' @ join '', '' (map (py_repr rt) xs) @ '']''"
| "py_repr rt (PDict d) =
     ''{'' @ join '', '' (map (\<lambda>kv. repr_str (fst kv) @ '': '' @ py_repr rt (snd kv)) d) @ ''}''"
| "py_repr rt (PMem a) = rt_obj_str rt a"

definition py_str :: "py_runtime \<Rightarrow> pyval \<Rightarrow> string" where
  "py_str rt v = (case v of PStr s \<Rightarrow> s | _ \<Rightarrow> py_repr rt v)"

lemma py_str_simps [simp]:
  "py_str rt (PStr s) = s" "py_str rt PNone = ''None''" "py_str rt (PInt i) = int_str i"
  "py_str rt (PBool b) = (if b then ''True'' else ''False'')"
  by (simp_all add: py_str_def)

text \<open>\<open>type(v).__name__\<close>.\<close>

fun py_type :: "pyval \<Rightarrow> string" where
  "py_type PNone = ''NoneType''"
| "py_type (PBool b) = ''bool''"
| "py_type (PInt i) = ''int''"
| "py_type (PFloat x) = ''float''"
| "py_type (PStr s) = ''str''"
| "py_type (PBytes s) = ''bytes''"
| "py_type (PList xs) = ''list''"
| "py_type (PDict d) = ''dict''"
| "py_type (PMem a) = ''MemoryPointer''"

text \<open>
  \<open>==\<close>: numbers compare by value across \<open>bool\<close>, \<open>int\<close> and \<open>float\<close>, dictionaries without
  regard to order, \<open>MemoryPointer\<close> objects by identity, which the model approximates by
  their address.
\<close>

fun py_num :: "pyval \<Rightarrow> rat option" where
  "py_num (PBool b) = Some (if b then 1 else 0)"
| "py_num (PInt i) = Some (of_int i)"
| "py_num (PFloat x) = Some x"
| "py_num _ = None"

fun py_eq :: "pyval \<Rightarrow> pyval \<Rightarrow> bool" where
  "py_eq (PList xs) (PList ys) =
     (length xs = length ys \<and> (\<forall>(x, y) \<in> set (zip xs ys). py_eq x y))"
| "py_eq (PDict d) (PDict e) =
     (length d = length e \<and>
      (\<forall>kv \<in> set d. case map_of e (fst kv) of None \<Rightarrow> False | Some w \<Rightarrow> py_eq (snd kv) w))"
| "py_eq v w = (case (py_num v, py_num w) of
       (Some a, Some b) \<Rightarrow> a = b
     | (None, None) \<Rightarrow> v = w
     | _ \<Rightarrow> False)"

text \<open>Reading a value where the source needs a particular type.\<close>

definition as_str :: "pyval \<Rightarrow> string res" where
  "as_str v = (case v of PStr s \<Rightarrow> Inr s
     | _ \<Rightarrow> raise_exc ''TypeError'' (''expected str, got '' @ py_type v))"

definition as_dict :: "pyval \<Rightarrow> (string, pyval) dict res" where
  "as_dict v = (case v of PDict d \<Rightarrow> Inr d
     | _ \<Rightarrow> raise_exc ''TypeError'' (''expected dict, got '' @ py_type v))"

definition as_list :: "pyval \<Rightarrow> pyval list res" where
  "as_list v = (case v of PList xs \<Rightarrow> Inr xs
     | _ \<Rightarrow> raise_exc ''TypeError'' (''expected list, got '' @ py_type v))"

lemma as_simps [simp]:
  "as_str (PStr s) = Inr s" "as_dict (PDict d) = Inr d" "as_list (PList xs) = Inr xs"
  by (simp_all add: as_str_def as_dict_def as_list_def)

text \<open>\<open>v[k]\<close> for a dictionary \<open>v\<close> and a string key.\<close>

definition py_item :: "pyval \<Rightarrow> string \<Rightarrow> pyval res" where
  "py_item v k = bindR (as_dict v) (\<lambda>d. dict_index d k)"

lemma py_item_dict [simp]: "py_item (PDict d) k = dict_index d k"
  by (simp add: py_item_def)

text \<open>\<open>int(s)\<close> and \<open>float(s)\<close> on text, with the exception Python raises.\<close>

definition py_int_of :: "string \<Rightarrow> int res" where
  "py_int_of s = (case int_of_str s of Some i \<Rightarrow> Inr i
     | None \<Rightarrow> raise_exc ''ValueError'' (''invalid literal for int() with base 10: '' @ repr_str s))"

definition py_float_of :: "py_runtime \<Rightarrow> string \<Rightarrow> rat res" where
  "py_float_of rt s = (case rt_float_of rt s of Some x \<Rightarrow> Inr x
     | None \<Rightarrow> raise_exc ''ValueError'' (''could not convert string to float: '' @ repr_str s))"

lemma py_int_of_int_str [simp]: "py_int_of (int_str i) = Inr i"
  by (simp add: py_int_of_def)

text \<open>\<open>len(v)\<close>, iteration over \<open>v\<close> and \<open>v + 1\<close>. Arithmetic on floats is exact here.\<close>

definition py_len :: "pyval \<Rightarrow> nat res" where
  "py_len v = (case v of
       PStr s \<Rightarrow> Inr (length s) | PBytes s \<Rightarrow> Inr (length s)
     | PList xs \<Rightarrow> Inr (length xs) | PDict d \<Rightarrow> Inr (length d)
     | _ \<Rightarrow> raise_exc ''TypeError'' (''object of type '' @ repr_str (py_type v) @ '' has no len()''))"

definition py_iter :: "pyval \<Rightarrow> pyval list res" where
  "py_iter v = (case v of
       PStr s \<Rightarrow> Inr (map (\<lambda>c. PStr [c]) s)
     | PBytes s \<Rightarrow> Inr (map (\<lambda>c. PInt (of_char c)) s)
     | PList xs \<Rightarrow> Inr xs
     | PDict d \<Rightarrow> Inr (map (\<lambda>kv. PStr (fst kv)) d)
     | _ \<Rightarrow> raise_exc ''TypeError'' (repr_str (py_type v) @ '' object is not iterable''))"

definition py_add1 :: "pyval \<Rightarrow> pyval res" where
  "py_add1 v = (case v of
       PInt i \<Rightarrow> Inr (PInt (i + 1))
     | PBool b \<Rightarrow> Inr (PInt (if b then 2 else 1))
     | PFloat x \<Rightarrow> Inr (PFloat (x + 1))
     | _ \<Rightarrow> raise_exc ''TypeError'' (''unsupported operand type(s) for +: '' @ repr_str (py_type v)
              @ '' and '' @ repr_str ''int''))"

text \<open>\<open>a < b\<close> on two values: numbers by value, text by its characters, otherwise a \<open>TypeError\<close>.\<close>

fun str_less :: "string \<Rightarrow> string \<Rightarrow> bool" where
  "str_less _ [] = False"
| "str_less [] (_ # _) = True"
| "str_less (c # s) (d # t) =
     (if (of_char c :: nat) = of_char d then str_less s t else (of_char c :: nat) < of_char d)"

definition py_less :: "pyval \<Rightarrow> pyval \<Rightarrow> bool res" where
  "py_less a b = (case (py_num a, py_num b) of
       (Some x, Some y) \<Rightarrow> Inr (x < y)
     | _ \<Rightarrow> (case (a, b) of
           (PStr s, PStr t) \<Rightarrow> Inr (str_less s t)
         | (PBytes s, PBytes t) \<Rightarrow> Inr (str_less s t)
         | _ \<Rightarrow> raise_exc ''TypeError''
             (repr_str ''<'' @ '' not supported between instances of '' @ repr_str (py_type a)
              @ '' and '' @ repr_str (py_type b))))"

lemma py_less_ints [simp]: "py_less (PInt i) (PInt j) = Inr (i < j)"
  by (simp add: py_less_def)

text \<open>\<open>s in v\<close> for a string \<open>s\<close>.\<close>

definition py_in_str :: "string \<Rightarrow> pyval \<Rightarrow> bool res" where
  "py_in_str s v = (case v of
       PStr t \<Rightarrow> Inr (contains_str t s)
     | PList xs \<Rightarrow> Inr (list_ex (py_eq (PStr s)) xs)
     | PDict d \<Rightarrow> Inr (dict_has d s)
     | PBytes t \<Rightarrow> raise_exc ''TypeError'' (''a bytes-like object is required, not '' @ repr_str ''str'')
     | _ \<Rightarrow> raise_exc ''TypeError'' (''argument of type '' @ repr_str (py_type v) @ '' is not iterable''))"

definition py_leq :: "pyval \<Rightarrow> pyval \<Rightarrow> bool res" where
  "py_leq a b = (case (py_num a, py_num b) of
       (Some x, Some y) \<Rightarrow> Inr (x \<le> y)
     | _ \<Rightarrow> (case (a, b) of
           (PStr s, PStr t) \<Rightarrow> Inr (s = t \<or> str_less s t)
         | (PBytes s, PBytes t) \<Rightarrow> Inr (s = t \<or> str_less s t)
         | _ \<Rightarrow> raise_exc ''TypeError''
             (repr_str ''<='' @ '' not supported between instances of '' @ repr_str (py_type a)
              @ '' and '' @ repr_str (py_type b))))"

text \<open>A runtime that reads and writes no floats, for examples.\<close>

definition bare_runtime :: py_runtime where
  "bare_runtime = \<lparr>rt_float_str = (\<lambda>_. []), rt_float_of = (\<lambda>_. None), rt_obj_str = (\<lambda>_. [])\<rparr>"

end
