(* ===== verification/Json.thy ===== *)
theory Json
  imports Py_Value
begin

text \<open>
  The \<open>json\<close> module of the standard library as the repository uses it: \<open>json_dumps\<close> with the
  default options (ASCII output, \<open>', '\<close> and \<open>': '\<close> as separators) and \<open>json_loads\<close>, a
  recursive-descent reader. A \<open>\uXXXX\<close> escape above 255, outside the modelled alphabet, is an
  error of the reader. The reader terminates because every call works on shorter text; the
  guards \<open>length r < length s\<close> that say so never fail (\<open>pv_shorter\<close>).
  \<open>json_roundtrip\<close>: reading what was written gives the value back.
\<close>

section \<open>Writing\<close>

definition json_esc :: "char \<Rightarrow> string" where
  "json_esc c =
     (let n = (of_char c :: nat) in
      if c = chr_dquote \<or> c = chr_bslash then [chr_bslash, c]
      else if n = 10 then [chr_bslash, CHR ''n'']
      else if n = 13 then [chr_bslash, CHR ''r'']
      else if n = 9 then [chr_bslash, CHR ''t'']
      else if n = 12 then [chr_bslash, CHR ''f'']
      else if n = 8 then [chr_bslash, CHR ''b'']
      else if 32 \<le> n \<and> n \<le> 126 then [c]
      else [chr_bslash, CHR ''u'', CHR ''0'', CHR ''0'', hex_chr (n div 16), hex_chr (n mod 16)])"

definition json_str :: "string \<Rightarrow> string" where
  "json_str s = dq (concat (map json_esc s))"

fun json_dumps :: "py_runtime \<Rightarrow> pyval \<Rightarrow> string res" where
  "json_dumps rt PNone = Inr ''null''"
| "json_dumps rt (PBool b) = Inr (if b then ''true'' else ''false'')"
| "json_dumps rt (PInt i) = Inr (int_str i)"
| "json_dumps rt (PFloat x) = Inr (rt_float_str rt x)"
| "json_dumps rt (PStr s) = Inr (json_str s)"
| "json_dumps rt (PList xs) =
     bindR (mapR (json_dumps rt) xs) (\<lambda>ts. Inr (''['' @ join '', '' ts @ '']''))"
| "json_dumps rt (PDict d) =
     bindR (mapR (\<lambda>kv. bindR (json_dumps rt (snd kv))
                         (\<lambda>t. Inr (json_str (fst kv) @ '': '' @ t))) d)
           (\<lambda>ts. Inr (''{'' @ join '', '' ts @ ''}''))"
| "json_dumps rt v =
     raise_exc ''TypeError'' (''Object of type '' @ py_type v @ '' is not JSON serializable'')"

section \<open>Reading\<close>

definition is_ws :: "char \<Rightarrow> bool" where
  "is_ws c \<longleftrightarrow> c = CHR '' '' \<or> c = chr_tab \<or> c = chr_newline \<or> c = CHR 0x0D"

definition skip_ws :: "string \<Rightarrow> string" where
  "skip_ws s = dropWhile is_ws s"

definition hex_val :: "char \<Rightarrow> nat option" where
  "hex_val c = (let n = (of_char c :: nat) in
     if 48 \<le> n \<and> n \<le> 57 then Some (n - 48)
     else if 97 \<le> n \<and> n \<le> 102 then Some (n - 87)
     else if 65 \<le> n \<and> n \<le> 70 then Some (n - 55) else None)"

definition hex4 :: "char \<Rightarrow> char \<Rightarrow> char \<Rightarrow> char \<Rightarrow> nat option" where
  "hex4 a b c d = (case (hex_val a, hex_val b, hex_val c, hex_val d) of
     (Some p, Some q, Some r, Some s) \<Rightarrow> Some (((p * 16 + q) * 16 + r) * 16 + s) | _ \<Rightarrow> None)"

definition json_unesc :: "char \<Rightarrow> char option" where
  "json_unesc e =
     (if e = chr_dquote \<or> e = chr_bslash \<or> e = CHR ''/'' then Some e
      else if e = CHR ''n'' then Some chr_newline
      else if e = CHR ''r'' then Some CHR 0x0D
      else if e = CHR ''t'' then Some chr_tab
      else if e = CHR ''f'' then Some CHR 0x0C
      else if e = CHR ''b'' then Some CHR 0x08 else None)"

text \<open>The text after an opening quote: the string and what follows its closing quote.\<close>

fun parse_jstr :: "string \<Rightarrow> (string \<times> string) option" where
  "parse_jstr [] = None"
| "parse_jstr (c # cs) =
     (if c = chr_dquote then Some ([], cs)
      else if c = chr_bslash then
        (case cs of
           [] \<Rightarrow> None
         | e # r \<Rightarrow>
             (if e = CHR ''u'' then
                (case r of
                   h1 # h2 # h3 # h4 # r' \<Rightarrow>
                     (case hex4 h1 h2 h3 h4 of
                        Some n \<Rightarrow> if n < 256
                          then map_option (\<lambda>p. (char_of n # fst p, snd p)) (parse_jstr r') else None
                      | None \<Rightarrow> None)
                 | _ \<Rightarrow> None)
              else (case json_unesc e of
                      Some u \<Rightarrow> map_option (\<lambda>p. (u # fst p, snd p)) (parse_jstr r)
                    | None \<Rightarrow> None)))
      else if (of_char c :: nat) < 32 then None
      else map_option (\<lambda>p. (c # fst p, snd p)) (parse_jstr cs))"

text \<open>Numbers: an integer part, then an optional fraction and exponent, which make a float.\<close>

definition num_int_part :: "string \<Rightarrow> string \<times> string" where
  "num_int_part s = (case s of
       [] \<Rightarrow> ([], [])
     | c # r \<Rightarrow> if c = CHR ''0'' then ([c], r) else (takeWhile is_digit s, dropWhile is_digit s))"

definition num_frac :: "string \<Rightarrow> string \<times> string" where
  "num_frac s = (case s of
       [] \<Rightarrow> ([], [])
     | c # r \<Rightarrow> if c = CHR ''.'' \<and> takeWhile is_digit r \<noteq> []
                then (c # takeWhile is_digit r, dropWhile is_digit r) else ([], s))"

definition num_exp :: "string \<Rightarrow> string \<times> string" where
  "num_exp s = (case s of
       [] \<Rightarrow> ([], [])
     | e # r \<Rightarrow>
         if e = CHR ''e'' \<or> e = CHR ''E'' then
           (let (sg, r') = (case r of [] \<Rightarrow> ([], [])
                  | c # t \<Rightarrow> if c = CHR ''-'' \<or> c = CHR ''+'' then ([c], t) else ([], r));
                ds = takeWhile is_digit r'
            in if ds = [] then ([], s) else (e # sg @ ds, dropWhile is_digit r'))
         else ([], s))"

definition parse_num :: "py_runtime \<Rightarrow> string \<Rightarrow> (pyval \<times> string) option" where
  "parse_num rt s =
     (let (sg, s1) = (case s of [] \<Rightarrow> ([], [])
            | c # r \<Rightarrow> if c = CHR ''-'' then ([c], r) else ([], s));
          (ip, s2) = num_int_part s1;
          (fr, s3) = num_frac s2;
          (ex, s4) = num_exp s3
      in if ip = [] then None
         else if fr = [] \<and> ex = [] then map_option (\<lambda>i. (PInt i, s2)) (int_of_str (sg @ ip))
         else map_option (\<lambda>x. (PFloat x, s4)) (rt_float_of rt (sg @ ip @ fr @ ex)))"

lemma skip_ws_length: "length (skip_ws s) \<le> length s"
  by (simp add: skip_ws_def length_dropWhile_le)

lemma skip_ws_Cons_length: "skip_ws s = c # r \<Longrightarrow> length r < length s"
  using skip_ws_length [of s] by simp

lemma skip_ws_measure:
  assumes "length x < n"
  shows "length (skip_ws x) < n" "2 * length (skip_ws x) < Suc (Suc (2 * n))"
    "2 * length (skip_ws x) < Suc (Suc (Suc (2 * n)))"
  using assms skip_ws_length [of x] by simp_all

lemma parse_jstr_shorter: "parse_jstr s = Some (t, r) \<Longrightarrow> length r < length s"
proof (induction s arbitrary: t r rule: parse_jstr.induct)
  case (2 c cs)
  then show ?case
    by (auto split: if_splits list.splits option.splits) fastforce+
qed simp

function (sequential) pv :: "py_runtime \<Rightarrow> string \<Rightarrow> (pyval \<times> string) option"
  and pa :: "py_runtime \<Rightarrow> string \<Rightarrow> (pyval list \<times> string) option"
  and po :: "py_runtime \<Rightarrow> string \<Rightarrow> ((string \<times> pyval) list \<times> string) option" where
  "pv rt [] = None"
| "pv rt (c # r) =
     (if c = chr_dquote then map_option (\<lambda>p. (PStr (fst p), snd p)) (parse_jstr r)
      else if c = CHR ''{'' then
        (case skip_ws r of
           [] \<Rightarrow> None
         | d # r' \<Rightarrow> if d = CHR ''}'' then Some (PDict [], r')
             else map_option (\<lambda>p. (PDict (dict_update [] (fst p)), snd p)) (po rt (skip_ws r)))
      else if c = CHR ''['' then
        (case skip_ws r of
           [] \<Rightarrow> None
         | d # r' \<Rightarrow> if d = CHR '']'' then Some (PList [], r')
             else map_option (\<lambda>p. (PList (fst p), snd p)) (pa rt (skip_ws r)))
      else if startswith (c # r) ''null'' then Some (PNone, drop 4 (c # r))
      else if startswith (c # r) ''true'' then Some (PBool True, drop 4 (c # r))
      else if startswith (c # r) ''false'' then Some (PBool False, drop 5 (c # r))
      else parse_num rt (c # r))"
| "pa rt s =
     (case pv rt s of
        None \<Rightarrow> None
      | Some (v, r) \<Rightarrow>
          (case skip_ws r of
             [] \<Rightarrow> None
           | c # r' \<Rightarrow>
               if c = CHR '']'' then Some ([v], r')
               else if c = CHR '','' \<and> length r' < length s then
                 map_option (\<lambda>p. (v # fst p, snd p)) (pa rt (skip_ws r'))
               else None))"
| "po rt [] = None"
| "po rt (q # s) =
     (if q \<noteq> chr_dquote then None
      else (case parse_jstr s of
              None \<Rightarrow> None
            | Some (k, r) \<Rightarrow>
                (case skip_ws r of
                   [] \<Rightarrow> None
                 | col # r1 \<Rightarrow>
                     if col = CHR '':'' \<and> length r1 < length s then
                       (case pv rt (skip_ws r1) of
                          None \<Rightarrow> None
                        | Some (v, r2) \<Rightarrow>
                            (case skip_ws r2 of
                               [] \<Rightarrow> None
                             | c # r3 \<Rightarrow>
                                 if c = CHR ''}'' then Some ([(k, v)], r3)
                                 else if c = CHR '','' \<and> length r3 < length s then
                                   map_option (\<lambda>p. ((k, v) # fst p, snd p)) (po rt (skip_ws r3))
                                 else None))
                     else None)))"
  by pat_completeness auto

termination
  by (relation "measure (\<lambda>x. case x of Inl (rt, s) \<Rightarrow> 2 * length s
       | Inr (Inl (rt, s)) \<Rightarrow> 2 * length s + 1 | Inr (Inr (rt, s)) \<Rightarrow> 2 * length s + 1)")
     (auto dest: skip_ws_Cons_length intro: skip_ws_measure)

declare pv.simps [simp del] pa.simps [simp del] po.simps [simp del]

definition json_loads :: "py_runtime \<Rightarrow> string \<Rightarrow> pyval res" where
  "json_loads rt s = (case pv rt (skip_ws s) of
       Some (v, r) \<Rightarrow> if skip_ws r = [] then Inr v
         else raise_exc ''JSONDecodeError'' ''Extra data''
     | None \<Rightarrow> raise_exc ''JSONDecodeError'' ''Expecting value'')"

section \<open>Reading consumes text\<close>

lemma num_parts_shorter:
  shows "num_int_part s = (ip, r) \<Longrightarrow> ip \<noteq> [] \<Longrightarrow> length r < length s"
    and "num_frac s = (fr, r) \<Longrightarrow> length r \<le> length s"
    and "num_exp s = (ex, r) \<Longrightarrow> length r \<le> length s"
proof -
  show "num_int_part s = (ip, r) \<Longrightarrow> ip \<noteq> [] \<Longrightarrow> length r < length s"
    by (auto simp: num_int_part_def length_dropWhile_le less_Suc_eq_le
        split: list.splits if_splits)
  show "num_frac s = (fr, r) \<Longrightarrow> length r \<le> length s"
    by (auto simp: num_frac_def length_dropWhile_le le_SucI split: list.splits if_splits)
  show "num_exp s = (ex, r) \<Longrightarrow> length r \<le> length s"
    by (auto simp: num_exp_def Let_def length_dropWhile_le le_SucI split: list.splits if_splits)
qed

lemma parse_num_shorter: "parse_num rt s = Some (v, r) \<Longrightarrow> length r < length s"
proof -
  assume a: "parse_num rt s = Some (v, r)"
  define p where "p = (case s of [] \<Rightarrow> ([], [])
            | c # t \<Rightarrow> if c = CHR ''-'' then ([c], t) else ([], s))"
  obtain sg s1 where p: "p = (sg, s1)" by (cases p)
  obtain ip s2 where i: "num_int_part s1 = (ip, s2)" by (cases "num_int_part s1")
  obtain fr s3 where f: "num_frac s2 = (fr, s3)" by (cases "num_frac s2")
  obtain ex s4 where e: "num_exp s3 = (ex, s4)" by (cases "num_exp s3")
  have "length s1 \<le> length s" using p by (auto simp: p_def split: list.splits if_splits)
  moreover have "ip \<noteq> []" "r = s2 \<or> r = s4"
    using a p i f e by (auto simp: parse_num_def p_def [symmetric] split: if_splits)
  ultimately show ?thesis
    using num_parts_shorter(1) [OF i] num_parts_shorter(2) [OF f] num_parts_shorter(3) [OF e]
    by auto
qed

lemma pv_shorter:
  shows "pv rt s = Some (v, r) \<Longrightarrow> length r < length s"
    and "pa rt s = Some (vs, r) \<Longrightarrow> length r < length s"
    and "po rt s = Some (kvs, r) \<Longrightarrow> length r < length s"
proof (induction rt s and rt s and rt s arbitrary: v r and vs r and kvs r rule: pv_pa_po.induct)
  case (1 rt)
  then show ?case by (simp add: pv.simps)
next
  case (2 rt c t)
  have sub: "skip_ws t = d # t' \<Longrightarrow> length (d # t') \<le> length t" for d t'
    using skip_ws_length [of t] by simp
  from 2 show ?case
    by (auto simp: pv.simps dest: parse_jstr_shorter parse_num_shorter sub
        split: if_splits list.splits option.splits) (fastforce dest: sub)+
next
  case (3 rt s)
  from "3.prems" obtain v t where vt: "pv rt s = Some (v, t)"
    by (auto simp: pa.simps [of rt s] split: option.splits)
  with "3.prems" obtain c t' where t': "skip_ws t = c # t'"
    by (auto simp: pa.simps [of rt s] split: list.splits)
  have "length t' < length s"
    using "3.IH"(1) [OF vt] skip_ws_Cons_length [OF t'] by simp
  then show ?case
    using "3.prems" "3.IH"(2) [OF vt refl t'] vt t' skip_ws_length [of t']
    by (auto simp: pa.simps [of rt s] split: if_splits)
next
  case (4 rt)
  then show ?case by (simp add: po.simps)
next
  case (5 rt q s)
  from "5.prems" obtain k t where q: "q = chr_dquote" and kt: "parse_jstr s = Some (k, t)"
    by (auto simp: po.simps split: if_splits option.splits)
  with "5.prems" obtain t1 where t1: "skip_ws t = CHR '':'' # t1" "length t1 < length s"
    by (auto simp: po.simps split: list.splits if_splits)
  with "5.prems" q kt obtain v t2 where t2: "pv rt (skip_ws t1) = Some (v, t2)"
    by (auto simp: po.simps split: option.splits)
  with "5.prems" q kt t1 obtain c t3 where t3: "skip_ws t2 = c # t3"
    by (auto simp: po.simps split: list.splits)
  have "length t2 < length s" "length t3 < length s"
    using "5.IH"(1) q kt t1 t2 skip_ws_length [of t1] skip_ws_Cons_length [OF t3] by fastforce+
  then show ?case
    using "5.prems" "5.IH"(2) q kt t1 t2 t3 skip_ws_length [of t3]
    by (auto simp: po.simps split: if_splits) fastforce+
qed

section \<open>Reading what was written\<close>

text \<open>The values \<open>json\<close> carries exactly: no floats, bytes or handles, unique keys.\<close>

fun json_ok :: "pyval \<Rightarrow> bool" where
  "json_ok (PList xs) = (\<forall>x \<in> set xs. json_ok x)"
| "json_ok (PDict d) = (dict_wf d \<and> (\<forall>kv \<in> set d. json_ok (snd kv)))"
| "json_ok (PFloat _) = False"
| "json_ok (PBytes _) = False"
| "json_ok (PMem _) = False"
| "json_ok _ = True"

text \<open>What may follow a value inside a document.\<close>

definition json_sep :: "string \<Rightarrow> bool" where
  "json_sep r \<longleftrightarrow> r = [] \<or> hd r \<in> {CHR '','', CHR '']'', CHR ''}'', chr_newline}"

lemma hex_val_hex_chr [simp]: "d < 16 \<Longrightarrow> hex_val (hex_chr d) = Some d"
  by (auto simp: hex_val_def hex_chr_def)

lemma hex_val_0 [simp]: "hex_val CHR ''0'' = Some 0"
  by (simp add: hex_val_def)

lemma hex4_byte: "n < 256 \<Longrightarrow> hex4 CHR ''0'' CHR ''0'' (hex_chr (n div 16)) (hex_chr (n mod 16)) = Some n"
  by (simp add: hex4_def)

lemma parse_jstr_esc:
  "parse_jstr (json_esc c @ r) = map_option (\<lambda>p. (c # fst p, snd p)) (parse_jstr r)"
proof -
  have of: "of_char c = (10 :: nat) \<longleftrightarrow> c = CHR 0x0A" "of_char c = (13 :: nat) \<longleftrightarrow> c = CHR 0x0D"
    "of_char c = (9 :: nat) \<longleftrightarrow> c = CHR 0x09" "of_char c = (12 :: nat) \<longleftrightarrow> c = CHR 0x0C"
    "of_char c = (8 :: nat) \<longleftrightarrow> c = CHR 0x08"
    using of_char_eq_iff [where ?'a = nat, of c "CHR 0x0A"] of_char_eq_iff [where ?'a = nat, of c "CHR 0x0D"]
      of_char_eq_iff [where ?'a = nat, of c "CHR 0x09"] of_char_eq_iff [where ?'a = nat, of c "CHR 0x0C"]
      of_char_eq_iff [where ?'a = nat, of c "CHR 0x08"]
    by simp_all
  show ?thesis
    by (auto simp: json_esc_def Let_def json_unesc_def hex4_byte of)
qed

lemma parse_jstr_concat: "parse_jstr (concat (map json_esc s) @ chr_dquote # r) = Some (s, r)"
  by (induction s) (simp_all add: parse_jstr_esc)

lemma nat_str_leading_zero: "hd (nat_str n) = CHR ''0'' \<Longrightarrow> n = 0"
proof (induction n rule: nat_str.induct)
  case (1 n)
  show ?case
  proof (cases "n < 10")
    case True
    have "digit_val (hd (nat_str n)) = n" using True by (simp add: nat_str.simps [of n])
    with 1 show ?thesis by (simp add: digit_val_def)
  next
    case False
    with 1 have "n div 10 = 0" by (simp add: nat_str.simps [of n] hd_append)
    with False show ?thesis by simp
  qed
qed

lemma digit_chr_0: "digit_chr 0 = CHR ''0''"
  by code_simp

lemma num_int_part_nat_str:
  assumes "r = [] \<or> \<not> is_digit (hd r)"
  shows "num_int_part (nat_str n @ r) = (nat_str n, r)"
proof (cases "n = 0")
  case True
  then show ?thesis by (simp add: nat_str.simps [of 0] num_int_part_def digit_chr_0)
next
  case False
  obtain c t where ct: "nat_str n = c # t" by (cases "nat_str n") auto
  with False nat_str_leading_zero [of n] have "c \<noteq> CHR ''0''" by auto
  moreover have "takeWhile is_digit (nat_str n @ r) = nat_str n"
    "dropWhile is_digit (nat_str n @ r) = r"
    using assms by (cases r; simp add: takeWhile_append2 dropWhile_append2 nat_str_digits)+
  ultimately show ?thesis by (simp add: num_int_part_def ct)
qed

lemma json_sep_stops:
  assumes "json_sep r"
  shows "r = [] \<or> \<not> is_digit (hd r)" "num_frac r = ([], r)" "num_exp r = ([], r)"
  using assms by (auto simp: json_sep_def is_digit_def num_frac_def num_exp_def split: list.splits)

lemma parse_num_int_str:
  assumes "json_sep r"
  shows "parse_num rt (int_str i @ r) = Some (PInt i, r)"
proof (cases "i < 0")
  case True
  have "int_of_str (CHR ''-'' # nat_str (nat (- i))) = Some i"
    using int_of_str_int_str [of i] True by (simp only: int_str_def if_True)
  with True assms show ?thesis
    by (simp add: parse_num_def int_str_def num_int_part_nat_str json_sep_stops)
next
  case False
  obtain c t where ct: "nat_str (nat i) = c # t" by (cases "nat_str (nat i)") auto
  then have "c \<noteq> CHR ''-''" using nat_str_hd_last(1) [of "nat i"] is_digit_not_special(1) [of c] by simp
  moreover have "int_of_str (nat_str (nat i)) = Some i"
    using int_of_str_int_str [of i] False by (simp only: int_str_def if_False)
  moreover have "num_int_part (c # t @ r) = (c # t, r)"
    using num_int_part_nat_str [of r "nat i"] json_sep_stops(1) [OF assms] ct by simp
  ultimately show ?thesis using False assms ct
    by (simp add: parse_num_def int_str_def json_sep_stops)
qed

text \<open>The first character of a written value decides how it is read.\<close>

lemma int_str_hd: "is_digit (hd (int_str i)) \<or> hd (int_str i) = CHR ''-''"
  using nat_str_hd_last(1) by (auto simp: int_str_def)

lemma pv_int_str:
  assumes "json_sep r"
  shows "pv rt (int_str i @ r) = Some (PInt i, r)"
proof -
  obtain c t where ct: "int_str i = c # t" by (cases "int_str i") auto
  with int_str_hd [of i] have "is_digit c \<or> c = CHR ''-''" by simp
  then have "c \<notin> {chr_dquote, CHR ''{'', CHR ''['', CHR ''n'', CHR ''t'', CHR ''f''}"
    by (auto simp: is_digit_def)
  then show ?thesis
    using parse_num_int_str [OF assms, of rt i] ct by (simp add: pv.simps)
qed

lemma json_dumps_hd:
  assumes "json_ok v" "json_dumps rt v = Inr t"
  shows "t \<noteq> [] \<and> \<not> is_ws (hd t) \<and> hd t \<noteq> CHR '']'' \<and> hd t \<noteq> CHR ''}''"
proof (cases v)
  case (PInt i)
  with assms int_str_hd [of i] show ?thesis by (auto simp: is_ws_def is_digit_def)
qed (use assms in \<open>auto simp: is_ws_def json_str_def dq_def bindR_eq_Inr split: if_splits\<close>)

definition reads_back :: "py_runtime \<Rightarrow> pyval \<Rightarrow> bool" where
  "reads_back rt v \<longleftrightarrow> (\<forall>t r. json_dumps rt v = Inr t \<longrightarrow> json_sep r \<longrightarrow> pv rt (t @ r) = Some (v, r))"

lemma reads_backD: "reads_back rt v \<Longrightarrow> json_dumps rt v = Inr t \<Longrightarrow> json_sep r \<Longrightarrow> pv rt (t @ r) = Some (v, r)"
  by (simp add: reads_back_def)

lemma skip_ws_id: "t \<noteq> [] \<Longrightarrow> \<not> is_ws (hd t) \<Longrightarrow> skip_ws (t @ r) = t @ r"
  by (cases t) (simp_all add: skip_ws_def)

lemma skip_ws_space: "skip_ws (CHR '' '' # s) = skip_ws s"
  by (simp add: skip_ws_def is_ws_def)

lemma skip_ws_punct: "c \<in> {CHR '','', CHR '']'', CHR ''}'', CHR '':''} \<Longrightarrow> skip_ws (c # s) = c # s"
  by (auto simp: skip_ws_def is_ws_def)

lemma join_nonempty: "ts \<noteq> [] \<Longrightarrow> hd ts \<noteq> [] \<Longrightarrow> join s ts \<noteq> [] \<and> hd (join s ts) = hd (hd ts)"
  by (induction s ts rule: join.induct) auto

lemma pa_reads_back:
  assumes "xs \<noteq> []" "mapR (json_dumps rt) xs = Inr ts"
    and "\<And>x. x \<in> set xs \<Longrightarrow> json_ok x" "\<And>x. x \<in> set xs \<Longrightarrow> reads_back rt x"
  shows "pa rt (join '', '' ts @ CHR '']'' # r) = Some (xs, r)"
  using assms
proof (induction xs arbitrary: ts)
  case (Cons x xs)
  from Cons.prems(2) obtain t us where t: "json_dumps rt x = Inr t"
    and us: "mapR (json_dumps rt) xs = Inr us" and ts: "ts = t # us"
    by (auto simp: bindR_eq_Inr)
  have rb: "json_sep q \<Longrightarrow> pv rt (t @ q) = Some (x, q)" for q
    using Cons.prems(4) t by (auto intro: reads_backD)
  show ?case
  proof (cases xs)
    case Nil
    with us have "us = []" by simp
    with Nil ts show ?thesis
      by (simp add: pa.simps rb json_sep_def skip_ws_punct)
  next
    case (Cons y ys)
    with us obtain u us' where u: "json_dumps rt y = Inr u" "us = u # us'"
      by (auto simp: bindR_eq_Inr)
    let ?m = "join '', '' us @ CHR '']'' # r"
    have hd: "join '', '' us \<noteq> [] \<and> hd (join '', '' us) = hd u"
      using join_nonempty [of us "'', ''"] u json_dumps_hd [OF _ u(1)] Cons.prems(3) Cons by auto
    then have ws: "skip_ws (CHR '' '' # ?m) = ?m"
      using json_dumps_hd [OF _ u(1)] Cons.prems(3) Cons
      by (simp add: skip_ws_space skip_ws_id)
    have pv: "pv rt (t @ CHR '','' # CHR '' '' # ?m) = Some (x, CHR '','' # CHR '' '' # ?m)"
      by (rule rb) (simp add: json_sep_def)
    have "pa rt ?m = Some (xs, r)"
      using Cons.IH [OF _ us] Cons.prems Cons by simp
    then have "pa rt (t @ CHR '','' # CHR '' '' # ?m) = Some (x # xs, r)"
      by (subst pa.simps) (simp add: pv ws skip_ws_punct)
    with ts u show ?thesis by simp
  qed
qed simp

lemma po_reads_back:
  assumes "d \<noteq> []" "mapR (\<lambda>kv. bindR (json_dumps rt (snd kv))
                         (\<lambda>t. Inr (json_str (fst kv) @ '': '' @ t))) d = Inr ts"
    and "\<And>kv. kv \<in> set d \<Longrightarrow> json_ok (snd kv)" "\<And>kv. kv \<in> set d \<Longrightarrow> reads_back rt (snd kv)"
  shows "po rt (join '', '' ts @ CHR ''}'' # r) = Some (d, r)"
  using assms
proof (induction d arbitrary: ts)
  case (Cons kv d)
  obtain k x where kv: "kv = (k, x)" by (cases kv)
  from Cons.prems(2) obtain t us where t: "json_dumps rt x = Inr t"
    and us: "mapR (\<lambda>kv. bindR (json_dumps rt (snd kv))
                         (\<lambda>t. Inr (json_str (fst kv) @ '': '' @ t))) d = Inr us"
    and ts: "ts = (json_str k @ '': '' @ t) # us"
    by (auto simp: bindR_eq_Inr kv)
  have x: "json_ok x" "reads_back rt x" using Cons.prems(3,4) [of kv] kv by simp_all
  have rb: "json_sep q \<Longrightarrow> pv rt (t @ q) = Some (x, q)" for q
    by (rule reads_backD [OF x(2) t])
  have ws: "skip_ws (CHR '' '' # t @ q) = t @ q" for q
    using json_dumps_hd [OF x(1) t] by (simp add: skip_ws_space skip_ws_id)
  have entry: "po rt (json_str k @ '': '' @ t @ c # q) =
      (if c = CHR ''}'' then Some ([(k, x)], q)
       else if c = CHR '','' then map_option (\<lambda>p. ((k, x) # fst p, snd p)) (po rt (skip_ws q))
       else None)" if "json_sep (c # q)" "skip_ws (c # q) = c # q" for c q
    using that by (simp add: json_str_def dq_def po.simps parse_jstr_concat skip_ws_punct ws rb)
  show ?case
  proof (cases d)
    case Nil
    with us ts kv show ?thesis
      using entry [of "CHR ''}''" r] by (simp add: json_sep_def skip_ws_punct)
  next
    case (Cons kv' d')
    let ?m = "join '', '' us @ CHR ''}'' # r"
    from us Cons obtain u us' where u: "us = (json_str (fst kv') @ u) # us'"
      by (auto simp: bindR_eq_Inr)
    then have "join '', '' us \<noteq> [] \<and> hd (join '', '' us) = chr_dquote"
      using join_nonempty [of us "'', ''"] by (simp add: json_str_def dq_def)
    then have wsm: "skip_ws (CHR '' '' # ?m) = ?m"
      by (simp add: skip_ws_space skip_ws_id is_ws_def)
    have "po rt ?m = Some (d, r)"
      using Cons.IH [OF _ us] Cons.prems Cons by simp
    then show ?thesis
      using entry [of "CHR '',''" "CHR '' '' # ?m"] ts u kv wsm
      by (simp add: json_sep_def skip_ws_punct)
  qed
qed simp

lemma json_ok_reads_back: "json_ok v \<Longrightarrow> reads_back rt v"
proof (induction v rule: json_ok.induct)
  case (1 xs)
  show ?case unfolding reads_back_def
  proof (intro allI impI)
    fix t r assume t: "json_dumps rt (PList xs) = Inr t" and "json_sep r"
    then obtain ts where ts: "mapR (json_dumps rt) xs = Inr ts" "t = ''['' @ join '', '' ts @ '']''"
      by (auto simp: bindR_eq_Inr)
    show "pv rt (t @ r) = Some (PList xs, r)"
    proof (cases xs)
      case Nil
      with ts show ?thesis by (simp add: pv.simps skip_ws_punct)
    next
      case (Cons x xs')
      with ts obtain u us where u: "ts = u # us" "json_dumps rt x = Inr u"
        by (auto simp: bindR_eq_Inr)
      note hd = json_dumps_hd [OF _ u(2)]
      have j: "join '', '' ts \<noteq> []" "hd (join '', '' ts) = hd u"
        using join_nonempty [of ts "'', ''"] u hd 1(2) Cons by auto
      then have "skip_ws (join '', '' ts @ CHR '']'' # r) = join '', '' ts @ CHR '']'' # r"
        using hd 1(2) Cons by (simp add: skip_ws_id)
      moreover have "pa rt (join '', '' ts @ CHR '']'' # r) = Some (xs, r)"
        by (rule pa_reads_back [OF _ ts(1)]) (use 1 Cons in auto)
      ultimately show ?thesis using j hd 1(2) Cons ts(2)
        by (cases "join '', '' ts") (auto simp: pv.simps)
    qed
  qed
next
  case (2 d)
  show ?case unfolding reads_back_def
  proof (intro allI impI)
    fix t r assume t: "json_dumps rt (PDict d) = Inr t" and "json_sep r"
    then obtain ts where ts: "mapR (\<lambda>kv. bindR (json_dumps rt (snd kv))
                         (\<lambda>t. Inr (json_str (fst kv) @ '': '' @ t))) d = Inr ts"
      "t = ''{'' @ join '', '' ts @ ''}''"
      by (auto simp: bindR_eq_Inr)
    show "pv rt (t @ r) = Some (PDict d, r)"
    proof (cases d)
      case Nil
      with ts show ?thesis by (simp add: pv.simps skip_ws_punct)
    next
      case (Cons kv d')
      with ts obtain u us where u: "ts = (json_str (fst kv) @ u) # us"
        by (auto simp: bindR_eq_Inr)
      have j: "join '', '' ts \<noteq> []" "hd (join '', '' ts) = chr_dquote"
        using join_nonempty [of ts "'', ''"] u by (simp_all add: json_str_def dq_def)
      then have "skip_ws (join '', '' ts @ CHR ''}'' # r) = join '', '' ts @ CHR ''}'' # r"
        by (simp add: skip_ws_id is_ws_def)
      moreover have "po rt (join '', '' ts @ CHR ''}'' # r) = Some (d, r)"
        by (rule po_reads_back [OF _ ts(1)]) (use 2 Cons in auto)
      ultimately show ?thesis using j ts(2) 2(2)
        by (cases "join '', '' ts") (auto simp: pv.simps dict_update_Nil)
    qed
  qed
qed (auto simp: reads_back_def pv.simps pv_int_str json_str_def dq_def parse_jstr_concat)

lemma json_roundtrip:
  assumes "json_ok v" "json_dumps rt v = Inr t"
  shows "json_loads rt t = Inr v"
proof -
  have "skip_ws t = t" using skip_ws_id [of t "[]"] json_dumps_hd [OF assms] by simp
  moreover have "pv rt t = Some (v, [])"
    using reads_backD [OF json_ok_reads_back [OF assms(1)] assms(2), of "[]"]
    by (simp add: json_sep_def)
  ultimately show ?thesis by (simp add: json_loads_def skip_ws_def)
qed

text \<open>Such values are always written.\<close>

lemma json_ok_dumps: "json_ok v \<Longrightarrow> \<exists>t. json_dumps rt v = Inr t"
proof (induction v rule: json_ok.induct)
  case (1 xs)
  then have "\<forall>x \<in> set xs. \<exists>t. json_dumps rt x = Inr t" by simp
  then obtain g where "\<And>x. x \<in> set xs \<Longrightarrow> json_dumps rt x = Inr (g x)" by metis
  then have "mapR (json_dumps rt) xs = Inr (map g xs)" by (rule mapR_all_Inr)
  then show ?case by simp
next
  case (2 d)
  then have "\<forall>kv \<in> set d. \<exists>t. json_dumps rt (snd kv) = Inr t" by simp
  then obtain g where g: "\<And>kv. kv \<in> set d \<Longrightarrow> json_dumps rt (snd kv) = Inr (g kv)" by metis
  have "mapR (\<lambda>kv. bindR (json_dumps rt (snd kv)) (\<lambda>t. Inr (json_str (fst kv) @ '': '' @ t))) d
      = Inr (map (\<lambda>kv. json_str (fst kv) @ '': '' @ g kv) d)"
    by (rule mapR_all_Inr) (simp add: g)
  then show ?case by simp
qed auto

section \<open>Weight of what was read\<close>

text \<open>The strings inside a value that was read are no longer than the text it was read from.\<close>

fun vlen :: "pyval \<Rightarrow> nat" where
  "vlen (PStr s) = length s"
| "vlen (PList xs) = sum_list (map vlen xs)"
| "vlen (PDict d) = sum_list (map (\<lambda>kv. vlen (snd kv)) d)"
| "vlen _ = 0"

lemma vlen_dict_set:
  "sum_list (map (\<lambda>kv. vlen (snd kv)) (dict_set d k v)) \<le> sum_list (map (\<lambda>kv. vlen (snd kv)) d) + vlen v"
  by (induction d) auto

lemma vlen_dict_update:
  "sum_list (map (\<lambda>kv. vlen (snd kv)) (dict_update d e)) \<le>
   sum_list (map (\<lambda>kv. vlen (snd kv)) d) + sum_list (map (\<lambda>kv. vlen (snd kv)) e)"
proof (induction e arbitrary: d)
  case (Cons kv e)
  show ?case using Cons.IH [of "dict_set d (fst kv) (snd kv)"] vlen_dict_set [of d "fst kv" "snd kv"]
    by (simp add: dict_update_def)
qed (simp add: dict_update_def)

lemma parse_jstr_weight: "parse_jstr s = Some (t, r) \<Longrightarrow> length t + length r < length s"
proof (induction s arbitrary: t r rule: parse_jstr.induct)
  case (2 c cs)
  then show ?case
    by (auto split: if_splits list.splits option.splits) fastforce+
qed simp

lemma parse_num_vlen: "parse_num rt s = Some (v, r) \<Longrightarrow> vlen v = 0"
  by (auto simp: parse_num_def Let_def split: prod.splits if_splits)

lemma pv_weight:
  shows "pv rt s = Some (v, r) \<Longrightarrow> vlen v + length r < length s"
    and "pa rt s = Some (vs, r) \<Longrightarrow> sum_list (map vlen vs) + length r < length s"
    and "po rt s = Some (kvs, r) \<Longrightarrow> sum_list (map (\<lambda>kv. vlen (snd kv)) kvs) + length r < length s"
proof (induction rt s and rt s and rt s arbitrary: v r and vs r and kvs r rule: pv_pa_po.induct)
  case (1 rt)
  then show ?case by (simp add: pv.simps)
next
  case (2 rt c t)
  have sub: "skip_ws t = d # t' \<Longrightarrow> length (d # t') \<le> length t" for d t'
    using skip_ws_length [of t] by simp
  have upd: "sum_list (map (\<lambda>kv. vlen (snd kv)) (dict_update [] e)) \<le> sum_list (map (\<lambda>kv. vlen (snd kv)) e)" for e
    using vlen_dict_update [of "[]" e] by simp
  show ?case
  proof (cases "c = CHR ''{''")
    case True
    with "2.prems" obtain d t' where sk: "skip_ws t = d # t'"
      by (auto simp: pv.simps split: list.splits)
    show ?thesis
    proof (cases "d = CHR ''}''")
      case False
      with True "2.prems" sk obtain e where e: "po rt (skip_ws t) = Some (e, r)"
        "v = PDict (dict_update [] e)"
        by (auto simp: pv.simps)
      have "sum_list (map (\<lambda>kv. vlen (snd kv)) e) + length r < length (skip_ws t)"
        by (rule "2.IH"(1) [OF _ True sk False e(1)]) (simp add: True)
      with e(2) upd [of e] skip_ws_length [of t] show ?thesis by simp
    qed (use True "2.prems" sk sub in \<open>fastforce simp: pv.simps\<close>)
  next
    case nobrace: False
    show ?thesis
    proof (cases "c = CHR ''[''")
      case True
      with "2.prems" obtain d t' where sk: "skip_ws t = d # t'"
        by (auto simp: pv.simps split: list.splits)
      show ?thesis
      proof (cases "d = CHR '']''")
        case False
        with True "2.prems" sk obtain us where us: "pa rt (skip_ws t) = Some (us, r)" "v = PList us"
          by (auto simp: pv.simps)
        have "sum_list (map vlen us) + length r < length (skip_ws t)"
          by (rule "2.IH"(2) [OF _ nobrace True sk False us(1)]) (simp add: True)
        with us(2) skip_ws_length [of t] show ?thesis by simp
      qed (use True "2.prems" sk sub in \<open>fastforce simp: pv.simps\<close>)
    next
      case False
      have "parse_num rt (c # t) = Some (v, r) \<Longrightarrow> vlen v + length r < length (c # t)"
        using parse_num_shorter [of rt "c # t" v r] parse_num_vlen [of rt "c # t" v r] by simp
      moreover have "parse_jstr t = Some (x, r) \<Longrightarrow> length x + length r < Suc (length t)" for x
        using parse_jstr_weight [of t x r] by simp
      ultimately show ?thesis using "2.prems" False nobrace
        by (auto simp: pv.simps split: if_splits)
    qed
  qed
next
  case (3 rt s)
  from "3.prems" obtain v t where vt: "pv rt s = Some (v, t)"
    by (auto simp: pa.simps [of rt s] split: option.splits)
  with "3.prems" obtain c t' where t': "skip_ws t = c # t'"
    by (auto simp: pa.simps [of rt s] split: list.splits)
  have w: "vlen v + length t' < length s"
    using "3.IH"(1) [OF vt] skip_ws_Cons_length [OF t'] by simp
  show ?case
  proof (cases "c = CHR '']''")
    case True
    with "3.prems" vt t' w show ?thesis by (auto simp: pa.simps [of rt s])
  next
    case False
    with "3.prems" vt t' obtain us where us: "pa rt (skip_ws t') = Some (us, r)" "vs = v # us"
      and g: "c = CHR '','' \<and> length t' < length s"
      by (auto simp: pa.simps [of rt s] split: if_splits)
    from "3.IH"(2) [OF vt refl t' False g us(1)] us(2) w skip_ws_length [of t']
    show ?thesis by simp
  qed
next
  case (4 rt)
  then show ?case by (simp add: po.simps)
next
  case (5 rt q s)
  from "5.prems" obtain k t where q: "q = chr_dquote" and kt: "parse_jstr s = Some (k, t)"
    by (auto simp: po.simps split: if_splits option.splits)
  with "5.prems" obtain t1 where t1: "skip_ws t = CHR '':'' # t1" "length t1 < length s"
    by (auto simp: po.simps split: list.splits if_splits)
  with "5.prems" q kt obtain v t2 where t2: "pv rt (skip_ws t1) = Some (v, t2)"
    by (auto simp: po.simps split: option.splits)
  with "5.prems" q kt t1 obtain c t3 where t3: "skip_ws t2 = c # t3"
    by (auto simp: po.simps split: list.splits)
  have nq: "\<not> q \<noteq> chr_dquote" using q by simp
  have g1: "CHR '':'' = CHR '':'' \<and> length t1 < length s" using t1(2) by simp
  have w: "vlen v + length t3 < length s"
    using "5.IH"(1) [OF nq kt refl t1(1) g1 t2] t1(2) skip_ws_length [of t1]
      skip_ws_Cons_length [OF t3] by simp
  show ?case
  proof (cases "c = CHR ''}''")
    case True
    with "5.prems" q kt t1 t2 t3 w show ?thesis by (auto simp: po.simps)
  next
    case False
    with "5.prems" q kt t1 t2 t3 obtain us where us: "po rt (skip_ws t3) = Some (us, r)" "kvs = (k, v) # us"
      and g: "c = CHR '','' \<and> length t3 < length s"
      by (auto simp: po.simps split: if_splits)
    from "5.IH"(2) [OF nq kt refl t1(1) g1 t2 refl t3 False g us(1)] us(2) w skip_ws_length [of t3]
    show ?thesis by simp
  qed
qed

lemma json_loads_weight: "json_loads rt s = Inr v \<Longrightarrow> vlen v < length s"
  using pv_weight(1) [of rt "skip_ws s" v] skip_ws_length [of s]
  by (fastforce simp: json_loads_def split: option.splits if_splits)

section \<open>Codecs\<close>

text \<open>
  What a reader and a writer promise each other: every value in the domain is written, and
  reading the text gives it back. The JSON reader and writer are such a pair, and so is the
  value serializer of the RPC client.
\<close>

locale codec =
  fixes enc :: "'a \<Rightarrow> 'b res" and dec :: "'b \<Rightarrow> 'a res" and ok :: "'a \<Rightarrow> bool"
  assumes writes: "ok a \<Longrightarrow> \<exists>b. enc a = Inr b"
    and reads: "ok a \<Longrightarrow> enc a = Inr b \<Longrightarrow> dec b = Inr a"
begin

lemma roundtrip: "ok a \<Longrightarrow> bindR (enc a) dec = Inr a"
  using writes [of a] reads [of a] by auto

lemma enc_inj: "ok a \<Longrightarrow> ok a' \<Longrightarrow> enc a = enc a' \<Longrightarrow> a = a'"
  using writes [of a] reads [of a] reads [of a'] by (metis sum.inject(2))

lemma all_writes: "(\<And>a. a \<in> set xs \<Longrightarrow> ok a) \<Longrightarrow> \<exists>ts. mapR enc xs = Inr ts"
  by (induction xs) (use writes in fastforce)+

lemma all_reads: "(\<And>a. a \<in> set xs \<Longrightarrow> ok a) \<Longrightarrow> mapR enc xs = Inr ts \<Longrightarrow> mapR dec ts = Inr xs"
  by (induction xs arbitrary: ts) (auto simp: bindR_eq_Inr reads)

text \<open>The same, value by value in a dictionary.\<close>

lemma dict_writes:
  "(\<And>kv. kv \<in> set d \<Longrightarrow> ok (snd kv)) \<Longrightarrow>
   \<exists>e. mapR (\<lambda>kv. bindR (enc (snd kv)) (\<lambda>t. Inr (fst kv, t))) d = Inr e"
proof (induction d)
  case (Cons kv d)
  then obtain e where "mapR (\<lambda>kv. bindR (enc (snd kv)) (\<lambda>t. Inr (fst kv, t))) d = Inr e" by auto
  moreover obtain t where "enc (snd kv) = Inr t" using writes Cons.prems by fastforce
  ultimately show ?case by simp
qed simp

lemma dict_reads:
  "(\<And>kv. kv \<in> set d \<Longrightarrow> ok (snd kv)) \<Longrightarrow>
   mapR (\<lambda>kv. bindR (enc (snd kv)) (\<lambda>t. Inr (fst kv, t))) d = Inr e \<Longrightarrow>
   map fst e = map fst d \<and> mapR (\<lambda>kv. bindR (dec (snd kv)) (\<lambda>v. Inr (fst kv, v))) e = Inr d"
proof (induction d arbitrary: e)
  case (Cons kv d)
  from Cons.prems(2) obtain t e' where t: "enc (snd kv) = Inr t"
    and e': "mapR (\<lambda>kv. bindR (enc (snd kv)) (\<lambda>t. Inr (fst kv, t))) d = Inr e'"
    and e: "e = (fst kv, t) # e'"
    by (auto simp: bindR_eq_Inr)
  have "dec t = Inr (snd kv)" using reads t Cons.prems(1) by simp
  with Cons.IH [OF _ e'] Cons.prems(1) e show ?case by simp
qed simp

end

interpretation json_codec: codec "json_dumps rt" "json_loads rt" json_ok for rt
  by unfold_locales (auto intro: json_ok_dumps json_roundtrip)

end
