(* ===== verification/Value_Serializer.thy ===== *)
theory Value_Serializer
  imports Json
begin

text \<open>
  \<open>CBLClient/ValueSerializer.py\<close>, \<open>CBLClient/MemoryPointer.py\<close>: the text encoding of the RPC
  protocol between the test kit and the test server application. Every value becomes one
  string: \<open>null\<close>, a handle's address, a quoted string, \<open>true\<close>/\<open>false\<close>, \<open>I\<close>/\<open>L\<close>/\<open>F\<close> and a
  number, or JSON whose leaves are such strings again.
  The main result is that \<open>deserialize\<close> undoes \<open>serialize\<close> on exactly described values.
\<close>

section \<open>UTF-8 within the modelled alphabet\<close>

definition is_cont :: "char \<Rightarrow> bool" where
  "is_cont c \<longleftrightarrow> 128 \<le> (of_char c :: nat) \<and> (of_char c :: nat) < 192"

text \<open>\<open>bytes.decode()\<close>, strict.\<close>

fun utf8_decode :: "string \<Rightarrow> string res" where
  "utf8_decode [] = Inr []"
| "utf8_decode (b # bs) =
     (if (of_char b :: nat) < 128 then bindR (utf8_decode bs) (\<lambda>t. Inr (b # t))
      else (case bs of
              c # cs \<Rightarrow>
                if (b = CHR 0xC2 \<or> b = CHR 0xC3) \<and> is_cont c
                then bindR (utf8_decode cs)
                       (\<lambda>t. Inr (char_of ((of_char b - 192) * 64 + (of_char c - 128) :: nat) # t))
                else raise_exc ''UnicodeDecodeError'' ''invalid start byte''
            | [] \<Rightarrow> raise_exc ''UnicodeDecodeError'' ''unexpected end of data''))"

text \<open>\<open>bytes.decode('utf8', 'ignore')\<close>: what does not decode is dropped.\<close>

fun utf8_decode_ignore :: "string \<Rightarrow> string" where
  "utf8_decode_ignore [] = []"
| "utf8_decode_ignore (b # bs) =
     (if (of_char b :: nat) < 128 then b # utf8_decode_ignore bs
      else (case bs of
              c # cs \<Rightarrow>
                if (b = CHR 0xC2 \<or> b = CHR 0xC3) \<and> is_cont c
                then char_of ((of_char b - 192) * 64 + (of_char c - 128) :: nat) # utf8_decode_ignore cs
                else utf8_decode_ignore bs
            | [] \<Rightarrow> []))"

definition ascii :: "string \<Rightarrow> bool" where
  "ascii s \<longleftrightarrow> (\<forall>c \<in> set s. (of_char c :: nat) < 128)"

lemma utf8_decode_ignore_ascii: "ascii s \<Longrightarrow> utf8_decode_ignore s = s"
  by (induction s) (auto simp: ascii_def)

section \<open>serialize\<close>

definition bytes_of :: "pyval \<Rightarrow> string option" where
  "bytes_of v = (case v of PBytes b \<Rightarrow> Some b | _ \<Rightarrow> None)"

text \<open>The branches of \<open>serialize\<close> for a string.\<close>

definition serialize_str :: "string \<Rightarrow> string" where
  "serialize_str s =
     (if s = ''None'' then ''null''
      else if endswith s '',LONGTYPE'' then ''L'' @ hd (split_chr CHR '','' s)
      else dq s)"

fun serialize :: "py_runtime \<Rightarrow> pyval \<Rightarrow> string res" where
  "serialize rt PNone = Inr ''null''"
| "serialize rt (PMem a) = Inr a"
| "serialize rt (PStr s) = Inr (serialize_str s)"
| "serialize rt (PBool b) = Inr (if b then ''true'' else ''false'')"
| "serialize rt (PInt i) =
     Inr (if i < 1000000 \<and> i > -1000000 then ''I'' @ int_str i else ''L'' @ int_str i)"
| "serialize rt (PFloat x) = Inr (''F'' @ rt_float_str rt x)"
| "serialize rt (PDict d) =
     bindR (mapR (\<lambda>kv. bindR
                    (case bytes_of (snd kv) of
                       Some b \<Rightarrow> bindR (utf8_decode b) (\<lambda>s. Inr (serialize_str s))
                     | None \<Rightarrow> serialize rt (snd kv))
                    (\<lambda>t. Inr (fst kv, PStr t))) d)
           (\<lambda>m. json_dumps rt (PDict m))"
| "serialize rt (PList xs) =
     bindR (mapR (\<lambda>x. bindR (serialize rt x) (\<lambda>t. Inr (PStr t))) xs)
           (\<lambda>ts. json_dumps rt (PList ts))"
| "serialize rt v =
     raise_exc ''RuntimeError''
       (''Invalid value type: '' @ py_str rt v @ '': <class '' @ repr_str (py_type v) @ ''>'')"

section \<open>deserialize\<close>

text \<open>\<open>value[1:-1]\<close> of a text that starts and ends with a quote.\<close>

definition unquote :: "string \<Rightarrow> string" where
  "unquote s = butlast (tl s)"

lemma vlen_member: "x \<in> set xs \<Longrightarrow> vlen x \<le> vlen (PList xs)"
  by (induction xs) auto

lemma vlen_value: "kv \<in> set d \<Longrightarrow> vlen (snd kv) \<le> vlen (PDict d)"
  by (induction d) auto

function deserialize :: "py_runtime \<Rightarrow> pyval \<Rightarrow> pyval res" where
  "deserialize rt v =
     (if \<not> py_truth v then Inr PNone
      else (case v of
        PStr s \<Rightarrow>
          if s = ''null'' then Inr PNone
          else if startswith s ''PK'' then Inr v
          else if startswith s ''@'' \<or> startswith s (chr_dquote # ''@'') then Inr (PMem s)
          else if startswith s [chr_dquote] \<and> endswith s [chr_dquote] then Inr (PStr (unquote s))
          else if s = ''true'' then Inr (PBool True)
          else if s = ''false'' then Inr (PBool False)
          else if startswith s ''I'' \<or> startswith s ''L'' then bindR (py_int_of (tl s)) (\<lambda>i. Inr (PInt i))
          else if startswith s ''F'' \<or> startswith s ''D'' then
            bindR (py_float_of rt (tl s)) (\<lambda>x. Inr (PFloat x))
          else if startswith s ''#'' then
            (if contains_str s ''.'' then bindR (py_float_of rt (tl s)) (\<lambda>x. Inr (PFloat x))
             else bindR (py_int_of (tl s)) (\<lambda>i. Inr (PInt i)))
          else if startswith s ''{'' then
            (case json_loads rt s of
               Inl e \<Rightarrow> Inl e
             | Inr (PDict m) \<Rightarrow>
                 bindR (mapR (\<lambda>kv. bindR (deserialize rt (snd kv)) (\<lambda>x. Inr (fst kv, x))) m)
                       (\<lambda>d. Inr (PDict d))
             | Inr _ \<Rightarrow> raise_exc ''TypeError'' ''string_map is not a dictionary'')
          else if startswith s ''['' then
            (case json_loads rt s of
               Inl e \<Rightarrow> Inl e
             | Inr (PList xs) \<Rightarrow> bindR (mapR (deserialize rt) xs) (\<lambda>ys. Inr (PList ys))
             | Inr _ \<Rightarrow> raise_exc ''TypeError'' ''string_list is not a list'')
          else raise_exc ''RuntimeError'' (''Invalid value type: '' @ s @ '': <class '' @ repr_str ''str'' @ ''>'')
      | PList _ \<Rightarrow> raise_exc ''AttributeError'' (repr_str ''list'' @ '' object has no attribute '' @ repr_str ''startswith'')
      | PDict _ \<Rightarrow> raise_exc ''AttributeError'' (repr_str ''dict'' @ '' object has no attribute '' @ repr_str ''startswith'')
      | _ \<Rightarrow> raise_exc ''TypeError'' (''object of type '' @ repr_str (py_type v) @ '' has no len()'')))"
  by pat_completeness auto

termination
proof (relation "measure (\<lambda>(rt, v). vlen v)", goal_cases)
  case (2 rt v s b m kv)
  then have "vlen (PDict m) < length s" by (auto dest: json_loads_weight)
  with 2 vlen_value [of kv m] show ?case by auto
next
  case (3 rt v s b xs x)
  then have "vlen (PList xs) < length s" by (auto dest: json_loads_weight)
  with 3 vlen_member [of x xs] show ?case by auto
qed simp

declare deserialize.simps [simp del]

section \<open>deserialize undoes serialize\<close>

text \<open>
  The values the protocol carries faithfully: no bytes; strings other than \<open>None\<close> that do not
  end with \<open>,LONGTYPE\<close> and do not start with \<open>@\<close>; handles whose address starts with \<open>@\<close>;
  floats whose text reads back as the same float.
\<close>

fun ser_ok :: "py_runtime \<Rightarrow> pyval \<Rightarrow> bool" where
  "ser_ok rt (PStr s) = (s \<noteq> ''None'' \<and> \<not> endswith s '',LONGTYPE'' \<and> \<not> startswith s ''@'')"
| "ser_ok rt (PMem a) = (startswith a ''@'' \<or> startswith a (chr_dquote # ''@''))"
| "ser_ok rt (PFloat x) = (rt_float_of rt (rt_float_str rt x) = Some x)"
| "ser_ok rt (PList xs) = (\<forall>x \<in> set xs. ser_ok rt x)"
| "ser_ok rt (PDict d) = (dict_wf d \<and> (\<forall>kv \<in> set d. ser_ok rt (snd kv)))"
| "ser_ok rt (PBytes b) = False"
| "ser_ok rt _ = True"

lemma deserialize_simple [simp]:
  "deserialize rt (PStr ''null'') = Inr PNone"
  "deserialize rt (PStr ''true'') = Inr (PBool True)"
  "deserialize rt (PStr ''false'') = Inr (PBool False)"
  "deserialize rt (PStr (CHR ''I'' # t)) = bindR (py_int_of t) (\<lambda>i. Inr (PInt i))"
  "deserialize rt (PStr (CHR ''L'' # t)) = bindR (py_int_of t) (\<lambda>i. Inr (PInt i))"
  "deserialize rt (PStr (CHR ''F'' # t)) = bindR (py_float_of rt t) (\<lambda>x. Inr (PFloat x))"
  by (simp_all add: deserialize.simps)

lemma deserialize_handle:
  "startswith a ''@'' \<or> startswith a (chr_dquote # ''@'') \<Longrightarrow> deserialize rt (PStr a) = Inr (PMem a)"
  by (cases a) (auto simp: deserialize.simps)

lemma deserialize_dq: "\<not> startswith s ''@'' \<Longrightarrow> deserialize rt (PStr (dq s)) = Inr (PStr s)"
  by (cases s) (simp_all add: deserialize.simps dq_def unquote_def endswith_def)

lemma deserialize_json_list:
  assumes "json_loads rt (CHR ''['' # t) = Inr (PList xs)"
  shows "deserialize rt (PStr (CHR ''['' # t)) = bindR (mapR (deserialize rt) xs) (\<lambda>ys. Inr (PList ys))"
  by (simp add: deserialize.simps [of rt "PStr (CHR ''['' # t)"] assms)

lemma deserialize_json_dict:
  assumes "json_loads rt (CHR ''{'' # t) = Inr (PDict m)"
  shows "deserialize rt (PStr (CHR ''{'' # t)) =
    bindR (mapR (\<lambda>kv. bindR (deserialize rt (snd kv)) (\<lambda>x. Inr (fst kv, x))) m) (\<lambda>d. Inr (PDict d))"
  by (simp add: deserialize.simps [of rt "PStr (CHR ''{'' # t)"] assms)

lemma json_dumps_list_hd: "json_dumps rt (PList xs) = Inr t \<Longrightarrow> \<exists>t'. t = CHR ''['' # t'"
  by (auto simp: bindR_eq_Inr)

lemma json_dumps_dict_hd: "json_dumps rt (PDict d) = Inr t \<Longrightarrow> \<exists>t'. t = CHR ''{'' # t'"
  by (auto simp: bindR_eq_Inr)

text \<open>The wire encoding of one value, and its reader.\<close>

definition wire_enc :: "py_runtime \<Rightarrow> pyval \<Rightarrow> pyval res" where
  "wire_enc rt v = bindR (serialize rt v) (\<lambda>t. Inr (PStr t))"

lemma wire_list:
  assumes "mapR (wire_enc rt) xs = Inr ts" "mapR (deserialize rt) ts = Inr xs"
  shows "bindR (wire_enc rt (PList xs)) (deserialize rt) = Inr (PList xs)"
proof -
  have "json_ok (PList ts)"
    using assms(1) by (induction xs arbitrary: ts) (auto simp: bindR_eq_Inr wire_enc_def)
  then obtain t where t: "json_dumps rt (PList ts) = Inr t" "json_loads rt t = Inr (PList ts)"
    using json_codec.writes json_codec.reads by blast
  then obtain t' where "t = CHR ''['' # t'" using json_dumps_list_hd by blast
  with t assms(2) have "deserialize rt (PStr t) = Inr (PList xs)"
    by (simp add: deserialize_json_list)
  moreover have "serialize rt (PList xs) = Inr t"
    using assms(1) t(1) by (simp add: wire_enc_def [abs_def])
  ultimately show ?thesis by (simp add: wire_enc_def)
qed

lemma wire_dict:
  assumes e: "mapR (\<lambda>kv. bindR (wire_enc rt (snd kv)) (\<lambda>t. Inr (fst kv, t))) d = Inr m"
    and m: "mapR (\<lambda>kv. bindR (deserialize rt (snd kv)) (\<lambda>x. Inr (fst kv, x))) m = Inr d"
    and keys: "map fst m = map fst d" and wf: "dict_wf d"
    and nobytes: "\<And>kv. kv \<in> set d \<Longrightarrow> bytes_of (snd kv) = None"
  shows "bindR (wire_enc rt (PDict d)) (deserialize rt) = Inr (PDict d)"
proof -
  have "\<forall>kv \<in> set m. json_ok (snd kv)"
    using e by (induction d arbitrary: m) (fastforce simp: bindR_eq_Inr wire_enc_def)+
  then have "json_ok (PDict m)" using wf keys by simp
  then obtain t where t: "json_dumps rt (PDict m) = Inr t" "json_loads rt t = Inr (PDict m)"
    using json_codec.writes json_codec.reads by blast
  then obtain t' where "t = CHR ''{'' # t'" using json_dumps_dict_hd by blast
  with t m have "deserialize rt (PStr t) = Inr (PDict d)"
    by (simp add: deserialize_json_dict)
  moreover have "mapR (\<lambda>kv. bindR (case bytes_of (snd kv) of
                       Some b \<Rightarrow> bindR (utf8_decode b) (\<lambda>s. Inr (serialize_str s))
                     | None \<Rightarrow> serialize rt (snd kv)) (\<lambda>t. Inr (fst kv, PStr t))) d = Inr m"
  proof -
    have "(\<lambda>r. bindR (bindR r (\<lambda>t. Inr (PStr t))) (\<lambda>t. Inr (k, t))) = (\<lambda>r. bindR r (\<lambda>t. Inr (k, PStr t)))"
      for k :: string by (auto simp: bindR_def split: sum.splits)
    then show ?thesis
      unfolding e [symmetric] by (intro mapR_cong) (auto simp: nobytes wire_enc_def fun_eq_iff)
  qed
  ultimately show ?thesis using t(1) by (simp add: wire_enc_def)
qed

lemma wire_roundtrip: "ser_ok rt v \<Longrightarrow> bindR (wire_enc rt v) (deserialize rt) = Inr v"
proof (induction rt v rule: ser_ok.induct)
  case (1 rt s)
  then show ?case by (simp add: wire_enc_def serialize_str_def deserialize_dq)
next
  case (2 rt a)
  then show ?case by (simp add: wire_enc_def deserialize_handle)
next
  case (3 rt x)
  then show ?case by (simp add: wire_enc_def py_float_of_def)
next
  case (4 rt xs)
  then have "\<And>x. x \<in> set xs \<Longrightarrow> \<exists>t. wire_enc rt x = Inr t \<and> deserialize rt t = Inr x"
    by (force simp: bindR_eq_Inr)
  then obtain g where "\<And>x. x \<in> set xs \<Longrightarrow> wire_enc rt x = Inr (g x) \<and> deserialize rt (g x) = Inr x"
    by metis
  then have "mapR (wire_enc rt) xs = Inr (map g xs)" "mapR (deserialize rt) (map g xs) = Inr xs"
    by (auto simp: mapR_Inr_iff list_all2_map1 list_all2_map2 list_all2_same)
  then show ?case by (rule wire_list)
next
  case (5 rt d)
  then have "\<And>kv. kv \<in> set d \<Longrightarrow> \<exists>t. wire_enc rt (snd kv) = Inr t \<and> deserialize rt t = Inr (snd kv)"
    by (force simp: bindR_eq_Inr)
  then obtain g where g: "\<And>kv. kv \<in> set d \<Longrightarrow>
      wire_enc rt (snd kv) = Inr (g kv) \<and> deserialize rt (g kv) = Inr (snd kv)"
    by metis
  show ?case
  proof (rule wire_dict [where m = "map (\<lambda>kv. (fst kv, g kv)) d"])
    show "mapR (\<lambda>kv. bindR (wire_enc rt (snd kv)) (\<lambda>t. Inr (fst kv, t))) d
        = Inr (map (\<lambda>kv. (fst kv, g kv)) d)"
      by (rule mapR_all_Inr) (simp add: g)
    show "mapR (\<lambda>kv. bindR (deserialize rt (snd kv)) (\<lambda>x. Inr (fst kv, x)))
        (map (\<lambda>kv. (fst kv, g kv)) d) = Inr d"
      using g by (auto simp: mapR_Inr_iff list_all2_map1 list_all2_same)
    show "bytes_of (snd kv) = None" if "kv \<in> set d" for kv
      using 5(2) that by (cases "snd kv") (auto simp: bytes_of_def)
  qed (use 5 in simp_all)
qed (auto simp: wire_enc_def)

interpretation wire_codec: codec "wire_enc rt" "deserialize rt" "ser_ok rt" for rt
proof unfold_locales
  fix v assume "ser_ok rt v"
  then show "\<exists>b. wire_enc rt v = Inr b" using wire_roundtrip by (fastforce simp: bindR_eq_Inr)
next
  fix v b assume "ser_ok rt v" "wire_enc rt v = Inr b"
  then show "deserialize rt b = Inr v" using wire_roundtrip [of rt v] by simp
qed

text \<open>For a string the conditions are exact: outside them something else is read back.\<close>

lemma wire_str_exact:
  "bindR (wire_enc rt (PStr s)) (deserialize rt) = Inr (PStr s) \<longleftrightarrow> ser_ok rt (PStr s)"
proof
  assume r: "bindR (wire_enc rt (PStr s)) (deserialize rt) = Inr (PStr s)"
  have "s \<noteq> ''None''" using r by (auto simp: wire_enc_def serialize_str_def)
  moreover have "\<not> endswith s '',LONGTYPE''"
    using r by (auto simp: wire_enc_def serialize_str_def bindR_eq_Inr split: if_splits)
  moreover have "\<not> startswith s ''@''"
  proof
    assume "startswith s ''@''"
    then have "startswith (dq s) (chr_dquote # ''@'')" by (auto simp: dq_def startswith_iff)
    then have "deserialize rt (PStr (dq s)) = Inr (PMem (dq s))" by (simp add: deserialize_handle)
    with r calculation show False by (simp add: wire_enc_def serialize_str_def)
  qed
  ultimately show "ser_ok rt (PStr s)" by simp
qed (rule wire_roundtrip)

end
