(* ===== verification/Rpc_Client.thy ===== *)
theory Rpc_Client
  imports Value_Serializer
begin

text \<open>
  \<open>CBLClient/Args.py\<close> and \<open>CBLClient/Client.py\<close>: the argument object of a remote call and the
  client that posts it. The test server application is not part of the repository: it is the
  field \<open>client_post\<close> of the client, a function of the world it changes. What the \<open>requests\<close>
  library says of a response is in the response: \<open>http_error\<close> is the exception its
  \<open>raise_for_status()\<close> raises, if any.
\<close>

section \<open>Args\<close>

record args =
  args_index :: nat
  args_items :: "(string, pyval) dict"

definition Args :: args where
  "Args = \<lparr>args_index = 0, args_items = []\<rparr>"

type_synonym arg_setter = "args \<Rightarrow> args res"

definition set_item :: "string \<Rightarrow> pyval \<Rightarrow> args \<Rightarrow> args" where
  "set_item name v a = a\<lparr>args_items := dict_set (args_items a) name v\<rparr>"

definition setMemoryPointer :: "string \<Rightarrow> pyval \<Rightarrow> arg_setter" where
  "setMemoryPointer name v a = Inr (set_item name v a)"

definition setString :: "py_runtime \<Rightarrow> string \<Rightarrow> pyval \<Rightarrow> arg_setter" where
  "setString rt name v a = Inr (set_item name (PStr (py_str rt v)) a)"

definition setInt :: "string \<Rightarrow> pyval \<Rightarrow> arg_setter" where
  "setInt name v a = Inr (set_item name v a)"

definition setLong :: "py_runtime \<Rightarrow> string \<Rightarrow> pyval \<Rightarrow> arg_setter" where
  "setLong rt name v a = Inr (set_item name (PStr (py_str rt v @ '',LONGTYPE'')) a)"

text \<open>\<open>float(f)\<close>: numbers convert, text is parsed, anything else is a \<open>TypeError\<close>.\<close>

definition py_float :: "py_runtime \<Rightarrow> pyval \<Rightarrow> rat res" where
  "py_float rt v = (case v of
       PFloat x \<Rightarrow> Inr x
     | PInt i \<Rightarrow> Inr (of_int i)
     | PBool b \<Rightarrow> Inr (if b then 1 else 0)
     | PStr s \<Rightarrow> py_float_of rt s
     | PBytes s \<Rightarrow> py_float_of rt s
     | _ \<Rightarrow> raise_exc ''TypeError''
         (''float() argument must be a string or a real number, not '' @ repr_str (py_type v)))"

definition setFloat :: "py_runtime \<Rightarrow> string \<Rightarrow> pyval \<Rightarrow> arg_setter" where
  "setFloat rt name v a = bindR (py_float rt v) (\<lambda>x. Inr (set_item name (PFloat x) a))"

definition setNumber :: "string \<Rightarrow> pyval \<Rightarrow> arg_setter" where
  "setNumber name v a = Inr (set_item name v a)"

definition setBoolean :: "string \<Rightarrow> pyval \<Rightarrow> arg_setter" where
  "setBoolean name v a = Inr (set_item name v a)"

definition setDictionary :: "string \<Rightarrow> pyval \<Rightarrow> arg_setter" where
  "setDictionary name v a = Inr (set_item name v a)"

definition setArray :: "string \<Rightarrow> pyval \<Rightarrow> arg_setter" where
  "setArray name v a = Inr (set_item name v a)"

definition getArgs :: "args \<Rightarrow> (string, pyval) dict" where
  "getArgs a = args_items a"

definition setIndex :: "nat \<Rightarrow> args \<Rightarrow> args" where
  "setIndex i a = a\<lparr>args_index := i\<rparr>"

text \<open>\<open>__next__\<close>: \<open>None\<close> is \<open>StopIteration\<close>, which rewinds the object.\<close>

definition args_next :: "args \<Rightarrow> (string \<times> pyval) option \<times> args" where
  "args_next a =
     (if args_index a \<ge> length (args_items a) then (None, setIndex 0 a)
      else (Some (args_items a ! args_index a), setIndex (args_index a + 1) a))"

text \<open>A method body: \<open>args = Args()\<close> and then the setters in order.\<close>

definition build_args :: "arg_setter list \<Rightarrow> args res" where
  "build_args fs = foldR (\<lambda>a f. f a) Args fs"

lemmas setter_defs = setMemoryPointer_def setString_def setInt_def setLong_def setNumber_def
  setBoolean_def setDictionary_def setArray_def set_item_def

section \<open>Client\<close>

record response =
  status_code :: int
  content :: string
  http_error :: "exn option"

datatype post_result = Raised exn | Responded response

record 'w client =
  client_base_url :: string
  client_runtime :: py_runtime
  client_post :: "string \<Rightarrow> string \<Rightarrow> 'w \<Rightarrow> post_result \<times> 'w"

text \<open>\<open>for k, v in args: body[k] = ValueSerializer.serialize(v)\<close>.\<close>

function args_body :: "py_runtime \<Rightarrow> args \<Rightarrow> (string, string) dict \<Rightarrow> (string, string) dict res" where
  "args_body rt a body =
     (case args_next a of
        (None, _) \<Rightarrow> Inr body
      | (Some (k, v), a') \<Rightarrow> bindR (serialize rt v) (\<lambda>t. args_body rt a' (dict_set body k t)))"
  by pat_completeness auto
termination
  by (relation "measure (\<lambda>(rt, a, body). length (args_items a) - args_index a)")
     (auto simp: args_next_def setIndex_def split: if_splits)

declare args_body.simps [simp del]

text \<open>The \<open>except\<close> clause: \<open>Exception(str(err) + cont)\<close>.\<close>

definition reraise :: "exn \<Rightarrow> string \<Rightarrow> exn" where
  "reraise e cont = Exn ''Exception'' (exn_msg e @ utf8_decode_ignore cont)"

definition handle_response :: "py_runtime \<Rightarrow> bool \<Rightarrow> response \<Rightarrow> pyval res" where
  "handle_response rt ignore_deserialize r =
     (case http_error r of
        Some e \<Rightarrow> Inl (reraise e (content r))
      | None \<Rightarrow>
          if status_code r = 200 then
            (if ignore_deserialize then Inr (PBytes (content r))
             else (case deserialize rt (PStr (utf8_decode_ignore (content r))) of
                     Inl e \<Rightarrow> Inl (reraise e (content r))
                   | Inr v \<Rightarrow> Inr v))
          else Inr PNone)"

definition request_body :: "py_runtime \<Rightarrow> args option \<Rightarrow> string res" where
  "request_body rt args =
     bindR (case args of None \<Rightarrow> Inr [] | Some a \<Rightarrow> args_body rt a [])
       (\<lambda>body. json_dumps rt (PDict (map (\<lambda>kv. (fst kv, PStr (snd kv))) body)))"

definition invokeMethod :: "'w client \<Rightarrow> string \<Rightarrow> args option \<Rightarrow> bool \<Rightarrow> ('w, pyval) io" where
  "invokeMethod cl meth args ignore_deserialize w =
     (case request_body (client_runtime cl) args of
        Inl e \<Rightarrow> (Inl (reraise e []), w)
      | Inr data \<Rightarrow>
          (case client_post cl (client_base_url cl @ ''/'' @ meth) data w of
             (Raised e, w') \<Rightarrow> (Inl (reraise e []), w')
           | (Responded r, w') \<Rightarrow> (handle_response (client_runtime cl) ignore_deserialize r, w')))"

text \<open>A wrapper method: build the arguments, then one call.\<close>

definition call :: "'w client \<Rightarrow> string \<Rightarrow> arg_setter list \<Rightarrow> ('w, pyval) io" where
  "call cl meth fs w = (case build_args fs of
       Inl e \<Rightarrow> (Inl e, w) | Inr a \<Rightarrow> invokeMethod cl meth (Some a) False w)"

definition release :: "'w client \<Rightarrow> pyval \<Rightarrow> ('w, pyval) io" where
  "release cl obj = bindIO (call cl ''release'' [setMemoryPointer ''object'' obj]) (\<lambda>_. returnIO PNone)"

text \<open>The constructor every API class shares: an empty base url is refused.\<close>

definition make_client :: "py_runtime \<Rightarrow> (string \<Rightarrow> string \<Rightarrow> 'w \<Rightarrow> post_result \<times> 'w) \<Rightarrow> string \<Rightarrow> 'w client res" where
  "make_client rt post url =
     (if url = [] then raise_exc ''Exception'' ''No base_url specified''
      else Inr \<lparr>client_base_url = url, client_runtime = rt, client_post = post\<rparr>)"

section \<open>The iteration of Args\<close>

lemma args_body_from:
  assumes "dict_wf (args_items a)" "args_index a \<le> length (args_items a)"
    and "dict_wf body" "set (dict_keys body) \<inter> set (dict_keys (drop (args_index a) (args_items a))) = {}"
  shows "args_body rt a body =
    bindR (mapR (\<lambda>kv. bindR (serialize rt (snd kv)) (\<lambda>t. Inr (fst kv, t))) (drop (args_index a) (args_items a)))
      (\<lambda>ts. Inr (body @ ts))"
  using assms
proof (induction rt a body rule: args_body.induct)
  case (1 rt a body)
  show ?case
  proof (cases "args_index a < length (args_items a)")
    case False
    with 1 show ?thesis by (simp add: args_body.simps [of rt a] args_next_def)
  next
    case True
    obtain k v where kv: "args_items a ! args_index a = (k, v)" by fastforce
    define a' where "a' = setIndex (args_index a + 1) a"
    have nx: "args_next a = (Some (k, v), a')" using True kv by (simp add: args_next_def a'_def)
    have dr: "drop (args_index a) (args_items a) = (k, v) # drop (args_index a') (args_items a')"
      using True kv by (simp add: a'_def setIndex_def Cons_nth_drop_Suc [symmetric])
    have dw: "distinct (map fst (drop (args_index a) (args_items a)))"
      using "1.prems"(1) by (simp add: drop_map [symmetric])
    show ?thesis
    proof (cases "serialize rt v")
      case (Inl e)
      with nx dr show ?thesis by (simp add: args_body.simps [of rt a])
    next
      case (Inr t)
      have kb: "k \<notin> set (dict_keys body)" using "1.prems"(4) dr by auto
      have "args_body rt a' (dict_set body k t) =
          bindR (mapR (\<lambda>kv. bindR (serialize rt (snd kv)) (\<lambda>t. Inr (fst kv, t))) (drop (args_index a') (args_items a')))
            (\<lambda>ts. Inr (dict_set body k t @ ts))"
      proof (rule "1.IH" [OF nx [symmetric] refl refl])
        show "set (dict_keys (dict_set body k t)) \<inter> set (dict_keys (drop (args_index a') (args_items a'))) = {}"
          using "1.prems"(4) dw dr by auto
      qed (use "1.prems" True in \<open>simp_all add: a'_def setIndex_def\<close>)
      then show ?thesis
        using nx dr Inr kb by (simp add: args_body.simps [of rt a] dict_set_fresh bindR_def split: sum.splits)
    qed
  qed
qed

lemma args_body_fresh:
  "args_index a = 0 \<Longrightarrow> dict_wf (args_items a) \<Longrightarrow>
   args_body rt a [] = mapR (\<lambda>kv. bindR (serialize rt (snd kv)) (\<lambda>t. Inr (fst kv, t))) (args_items a)"
  by (subst args_body_from) (auto simp: bindR_def split: sum.splits)

section \<open>What the setters build\<close>

definition args_wf :: "args \<Rightarrow> bool" where
  "args_wf a \<longleftrightarrow> args_index a = 0 \<and> dict_wf (args_items a)"

text \<open>A setter of the class keeps the object well formed.\<close>

definition setter_ok :: "arg_setter \<Rightarrow> bool" where
  "setter_ok f \<longleftrightarrow> (\<forall>a b. args_wf a \<longrightarrow> f a = Inr b \<longrightarrow> args_wf b)"

lemma setters_ok [simp, intro]:
  "setter_ok (setMemoryPointer n v)" "setter_ok (setString rt n v)" "setter_ok (setInt n v)"
  "setter_ok (setLong rt n v)" "setter_ok (setFloat rt n v)" "setter_ok (setNumber n v)"
  "setter_ok (setBoolean n v)" "setter_ok (setDictionary n v)" "setter_ok (setArray n v)"
  by (auto simp: setter_ok_def args_wf_def setter_defs setFloat_def bindR_eq_Inr)

lemma build_args_wf:
  assumes "build_args fs = Inr a" "\<And>f. f \<in> set fs \<Longrightarrow> setter_ok f"
  shows "args_wf a"
  using assms(1) unfolding build_args_def
proof (rule foldR_invariant)
  show "args_wf Args" by (simp add: args_wf_def Args_def)
  show "args_wf t" if "args_wf s" "f \<in> set fs" "f s = Inr t" for s f t
    using that assms(2) by (auto simp: setter_ok_def)
qed

end
