(* ===== verification/Rpc_Refinement.thy ===== *)
theory Rpc_Refinement
  imports Rpc_Client
begin

text \<open>
  What the RPC layer promises: a method call through \<open>Client.invokeMethod\<close> is a local call of
  the service behind the test server. The server is specified here (it is an application of
  its own, not part of the repository): it decodes the request with the protocol's reader,
  runs a service function on the decoded arguments and answers with the protocol's writer, or
  with an HTTP error carrying the text of the failure.
\<close>

section \<open>The server the protocol asks for\<close>

text \<open>\<open>str.encode()\<close> within the modelled alphabet.\<close>

definition utf8_encode :: "string \<Rightarrow> string" where
  "utf8_encode s = concat (map (\<lambda>c. let n = (of_char c :: nat) in
     if n < 128 then [c] else [char_of (192 + n div 64), char_of (128 + n mod 64)]) s)"

definition decode_request :: "py_runtime \<Rightarrow> string \<Rightarrow> (string, pyval) dict res" where
  "decode_request rt data =
     bindR (json_loads rt data) (\<lambda>v. bindR (as_dict v)
       (mapR (\<lambda>kv. bindR (deserialize rt (snd kv)) (\<lambda>x. Inr (fst kv, x)))))"

type_synonym 'w service = "string \<Rightarrow> (string, pyval) dict \<Rightarrow> 'w \<Rightarrow> pyval res \<times> 'w"

definition error_response :: "string \<Rightarrow> post_result" where
  "error_response msg = Responded \<lparr>status_code = 400, content = utf8_encode msg,
     http_error = Some (Exn ''HTTPError'' ''400 Client Error: '')\<rparr>"

definition rpc_server :: "py_runtime \<Rightarrow> string \<Rightarrow> 'w service \<Rightarrow> string \<Rightarrow> string \<Rightarrow> 'w \<Rightarrow> post_result \<times> 'w" where
  "rpc_server rt base svc url data w =
     (case decode_request rt data of
        Inl e \<Rightarrow> (error_response (exn_msg e), w)
      | Inr args \<Rightarrow>
          (case svc (drop (length base + 1) url) args w of
             (Inl e, w') \<Rightarrow> (error_response (exn_msg e), w')
           | (Inr v, w') \<Rightarrow>
               (case serialize rt v of
                  Inl e \<Rightarrow> (error_response (exn_msg e), w')
                | Inr t \<Rightarrow> (Responded \<lparr>status_code = 200, content = utf8_encode t, http_error = None\<rparr>, w'))))"

text \<open>What the caller sees of a result of the service.\<close>

definition seen_result :: "pyval res \<Rightarrow> pyval res" where
  "seen_result r = (case r of
       Inr v \<Rightarrow> Inr v
     | Inl e \<Rightarrow> raise_exc ''Exception'' (''400 Client Error: '' @ exn_msg e))"

lemma seen_result_simps [simp]:
  "seen_result (Inr v) = Inr v"
  "seen_result (Inl e) = raise_exc ''Exception'' (''400 Client Error: '' @ exn_msg e)"
  by (simp_all add: seen_result_def)

definition connected :: "'w client \<Rightarrow> 'w service \<Rightarrow> bool" where
  "connected cl svc \<longleftrightarrow> client_post cl = rpc_server (client_runtime cl) (client_base_url cl) svc"

section \<open>The call is a local call\<close>

lemma utf8_decode_encode [simp]: "utf8_decode_ignore (utf8_encode s) = s"
proof (induction s)
  case Nil
  then show ?case by (simp add: utf8_encode_def)
next
  case (Cons c s)
  define n where "n = (of_char c :: nat)"
  have n: "n < 256" and c: "c = char_of n" by (simp_all add: n_def)
  show ?case
  proof (cases "n < 128")
    case True
    with Cons show ?thesis by (simp add: utf8_encode_def n_def)
  next
    case False
    with n have "n div 64 = 2 \<or> n div 64 = 3" by auto
    then have lead: "char_of (192 + n div 64) = CHR 0xC2 \<or> char_of (192 + n div 64) = CHR 0xC3"
      by (auto simp: char_of_def bit_Suc_0_iff)
    have d: "of_char (char_of (192 + n div 64) :: char) = 192 + n div 64"
      "of_char (char_of (128 + n mod 64) :: char) = 128 + n mod 64"
      using n by (simp_all add: of_char_of)
    have "utf8_encode (c # s) = char_of (192 + n div 64) # char_of (128 + n mod 64) # utf8_encode s"
      using False by (simp add: utf8_encode_def n_def Let_def)
    with lead d Cons False show ?thesis by (simp add: is_cont_def c)
  qed
qed

lemma request_decodes:
  assumes "args_wf a" "\<forall>kv \<in> set (args_items a). ser_ok rt (snd kv)"
  obtains data where "request_body rt (Some a) = Inr data" "decode_request rt data = Inr (args_items a)"
proof -
  let ?d = "args_items a"
  obtain e where e: "mapR (\<lambda>kv. bindR (wire_enc rt (snd kv)) (\<lambda>t. Inr (fst kv, t))) ?d = Inr e"
    using wire_codec.dict_writes assms(2) by blast
  from wire_codec.dict_reads [OF _ e] assms(2) have r: "map fst e = map fst ?d"
    "mapR (\<lambda>kv. bindR (deserialize rt (snd kv)) (\<lambda>x. Inr (fst kv, x))) e = Inr ?d" by auto
  have "\<exists>ts. mapR (\<lambda>kv. bindR (serialize rt (snd kv)) (\<lambda>t. Inr (fst kv, t))) d = Inr ts \<and>
      map (\<lambda>kv. (fst kv, PStr (snd kv))) ts = e \<and> (\<forall>kv \<in> set e. json_ok (snd kv))"
    if "mapR (\<lambda>kv. bindR (wire_enc rt (snd kv)) (\<lambda>t. Inr (fst kv, t))) d = Inr e" for d e
    using that by (induction d arbitrary: e) (fastforce simp: bindR_eq_Inr wire_enc_def)+
  from this [OF e] obtain ts where ts: "args_body rt a [] = Inr ts"
    "map (\<lambda>kv. (fst kv, PStr (snd kv))) ts = e" "\<forall>kv \<in> set e. json_ok (snd kv)"
    using assms(1) by (auto simp: args_body_fresh args_wf_def)
  have "json_ok (PDict e)" using ts(3) r(1) assms(1) by (simp add: args_wf_def)
  then obtain data where "json_dumps rt (PDict e) = Inr data" "json_loads rt data = Inr (PDict e)"
    using json_codec.writes json_codec.reads by blast
  with ts r show ?thesis by (intro that [of data]) (simp_all add: request_body_def decode_request_def)
qed

lemma rpc_transparent:
  assumes "connected cl svc" "args_wf a" "\<forall>kv \<in> set (args_items a). ser_ok (client_runtime cl) (snd kv)"
    and "svc m (args_items a) w = (r, w')" "\<And>v. r = Inr v \<Longrightarrow> ser_ok (client_runtime cl) v"
  shows "invokeMethod cl m (Some a) False w = (seen_result r, w')"
proof -
  let ?rt = "client_runtime cl"
  obtain data where d: "request_body ?rt (Some a) = Inr data" "decode_request ?rt data = Inr (args_items a)"
    using assms(2,3) by (rule request_decodes)
  show ?thesis
  proof (cases r)
    case (Inl e)
    with assms(1,4) d show ?thesis
      by (simp add: invokeMethod_def connected_def rpc_server_def handle_response_def error_response_def reraise_def)
  next
    case (Inr v)
    then have "ser_ok ?rt v" by (rule assms(5))
    then obtain t where "serialize ?rt v = Inr t" "deserialize ?rt (PStr t) = Inr v"
      using wire_roundtrip [of ?rt v] by (auto simp: wire_enc_def bindR_eq_Inr)
    with assms(1,4) d Inr show ?thesis
      by (simp add: invokeMethod_def connected_def rpc_server_def handle_response_def)
  qed
qed

text \<open>The same for a wrapper method.\<close>

lemma call_transparent:
  assumes "connected cl svc" "build_args fs = Inr a" "\<And>f. f \<in> set fs \<Longrightarrow> setter_ok f"
    and "\<forall>kv \<in> set (args_items a). ser_ok (client_runtime cl) (snd kv)"
    and "svc m (args_items a) w = (r, w')" "\<And>v. r = Inr v \<Longrightarrow> ser_ok (client_runtime cl) v"
  shows "call cl m fs w = (seen_result r, w')"
  using rpc_transparent [OF assms(1) build_args_wf [OF assms(2,3)] assms(4-6)] assms(2)
  by (simp add: call_def)

text \<open>One handle argument, the shape of most methods.\<close>

lemma call_handle:
  assumes "connected cl svc" "ser_ok (client_runtime cl) obj"
    and "svc m [(n, obj)] w = (r, w')" "\<And>v. r = Inr v \<Longrightarrow> ser_ok (client_runtime cl) v"
  shows "call cl m [setMemoryPointer n obj] w = (seen_result r, w')"
  using assms(2-4) by (intro call_transparent [OF assms(1)])
    (auto simp: build_args_def setMemoryPointer_def set_item_def Args_def)

section \<open>A client for examples\<close>

definition plain_runtime :: py_runtime where
  "plain_runtime = \<lparr>rt_float_str = (\<lambda>_. ''0.0''), rt_float_of = (\<lambda>s. if s = ''0.0'' then Some 0 else None),
     rt_obj_str = (\<lambda>a. ''<MemoryPointer '' @ a @ ''>'')\<rparr>"

definition test_client :: "'w service \<Rightarrow> 'w client" where
  "test_client svc = \<lparr>client_base_url = ''http://device:8080'', client_runtime = plain_runtime,
     client_post = rpc_server plain_runtime ''http://device:8080'' svc\<rparr>"

lemma test_client_connected [simp]: "connected (test_client svc) svc"
  by (simp add: connected_def test_client_def)

lemma test_client_runtime [simp]: "client_runtime (test_client svc) = plain_runtime"
  by (simp add: test_client_def)

section \<open>Properties\<close>


definition counting_service :: "nat service" where
  "counting_service m args w =
     (if m = ''database_getCount'' then (Inr (PInt (int (length args) + int w)), w + 1)
      else (raise_exc ''KeyError'' m, w))"


text \<open>
  C15: \<open>ValueSerializer.deserialize\<close> reads back exactly what \<open>ValueSerializer.serialize\<close> wrote,
  through any nesting of lists and dictionaries, for the values the protocol can carry.
\<close>

theorem serialize_roundtrip:
  assumes "ser_ok rt v"
  shows "\<exists>t. serialize rt v = Inr t \<and> deserialize rt (PStr t) = Inr v"
  using wire_roundtrip [OF assms] by (auto simp: wire_enc_def bindR_eq_Inr)

theorem serialize_roundtrip_witness:
  "\<exists>t. serialize plain_runtime
         (PDict [(''id'', PInt (- 7)), (''tags'', PList [PStr ''x'', PNone, PBool True]), (''h'', PMem ''@9'')]) = Inr t \<and>
       deserialize plain_runtime (PStr t) =
         Inr (PDict [(''id'', PInt (- 7)), (''tags'', PList [PStr ''x'', PNone, PBool True]), (''h'', PMem ''@9'')])"
  by (rule serialize_roundtrip) code_simp

text \<open>
  A string survives the protocol exactly if it is not \<open>None\<close>, does not end with
  \<open>,LONGTYPE\<close> and does not start with \<open>@\<close>: any other string is read back as something else.
\<close>

theorem string_survives_iff:
  "(\<exists>t. serialize rt (PStr s) = Inr t \<and> deserialize rt (PStr t) = Inr (PStr s)) \<longleftrightarrow>
   s \<noteq> ''None'' \<and> \<not> endswith s '',LONGTYPE'' \<and> \<not> startswith s ''@''"
  using wire_str_exact [of rt s] by (simp add: wire_enc_def)

text \<open>
  An integer set with \<open>Args.setLong\<close> is sent as one argument whose text the reader of the
  protocol turns into the same integer.
\<close>

theorem set_long_arrives:
  "\<exists>a t. setLong rt n (PInt i) Args = Inr a \<and> args_body rt a [] = Inr [(n, t)] \<and>
     deserialize rt (PStr t) = Inr (PInt i)"
proof -
  let ?s = "int_str i @ '',LONGTYPE''"
  have "split_chr CHR '','' ?s = int_str i # split_chr CHR '','' ''LONGTYPE''"
    by (simp add: split_chr_append)
  moreover have "?s \<noteq> ''None''"
    using arg_cong [of ?s "''None''" rev] by auto
  ultimately have "serialize_str ?s = CHR ''L'' # int_str i"
    by (simp add: serialize_str_def endswith_def)
  then show ?thesis
    by (auto simp: setLong_def set_item_def Args_def args_body_fresh)
qed

text \<open>
  Every failure of \<open>invokeMethod\<close> is an \<open>Exception\<close>; an argument that cannot be serialized is
  reported without contacting the server.
\<close>

theorem invoke_failures:
  assumes "invokeMethod cl m args ig w = (Inl e, w')"
  shows "exn_class e = ''Exception'' \<and>
    (\<forall>e0. request_body (client_runtime cl) args = Inl e0 \<longrightarrow> w' = w \<and> exn_msg e = exn_msg e0)"
  using assms
  by (auto simp: invokeMethod_def handle_response_def reraise_def
      split: sum.splits prod.splits post_result.splits option.splits if_splits)

theorem invoke_failures_witness:
  "\<exists>e. invokeMethod (test_client counting_service) ''m''
     (Some \<lparr>args_index = 0, args_items = [(''b'', PBytes ''x'')]\<rparr>) False 4 = (Inl e, 4) \<and> exn_class e = ''Exception''"
proof -
  let ?m = "''Invalid value type: '' @ repr_bytes ''x'' @ '': <class '' @ repr_str ''bytes'' @ ''>''"
  have *: "invokeMethod (test_client counting_service) ''m''
     (Some \<lparr>args_index = 0, args_items = [(''b'', PBytes ''x'')]\<rparr>) False 4 = (raise_exc ''Exception'' ?m, 4)"
    by code_simp
  from invoke_failures [OF *] * show ?thesis by blast
qed

end
