(* ===== verification/Cbl_Values.thy ===== *)
theory Cbl_Values
  imports Rpc_Refinement
begin

text \<open>
  The value classes of \<open>CBLClient\<close>: \<open>Array\<close>, \<open>Blob\<close>, \<open>DataTypeInitiator\<close>, \<open>Dictionary\<close> and
  \<open>Document\<close>. Each method is one definition \<open>Class_method\<close>: the arguments it sets, in its order
  and under its conditions, and the endpoint it calls. An omitted optional argument is \<open>PNone\<close>
  (or the default the source gives, passed by the caller).
\<close>

section \<open>Array\<close>

definition Array_create :: "'w client \<Rightarrow> pyval \<Rightarrow> ('w, pyval) io" where
  "Array_create cl array =
     call cl ''array_create''
       ((if py_truth array then [setMemoryPointer ''content_array'' array]
         else []))"

definition Array_setString :: "'w client \<Rightarrow> pyval \<Rightarrow> pyval \<Rightarrow> pyval \<Rightarrow> ('w, pyval) io" where
  "Array_setString cl array key value =
     call cl ''array_setString''
       [setMemoryPointer ''array'' array,
        setInt ''key'' key,
        setString (client_runtime cl) ''value'' value]"

definition Array_getString :: "'w client \<Rightarrow> pyval \<Rightarrow> pyval \<Rightarrow> ('w, pyval) io" where
  "Array_getString cl array key =
     call cl ''array_getString''
       [setMemoryPointer ''array'' array,
        setInt ''key'' key]"

definition Array_addString :: "'w client \<Rightarrow> pyval \<Rightarrow> pyval \<Rightarrow> ('w, pyval) io" where
  "Array_addString cl array value =
     call cl ''array_addString''
       [setMemoryPointer ''array'' array,
        setString (client_runtime cl) ''value'' value]"

definition Array_addDictionary :: "'w client \<Rightarrow> pyval \<Rightarrow> pyval \<Rightarrow> ('w, pyval) io" where
  "Array_addDictionary cl array value =
     call cl ''array_addDictionary''
       [setMemoryPointer ''array'' array,
        setMemoryPointer ''value'' value]"

definition Array_getArray :: "'w client \<Rightarrow> pyval \<Rightarrow> pyval \<Rightarrow> ('w, pyval) io" where
  "Array_getArray cl array key =
     call cl ''array_getArray''
       [setMemoryPointer ''array'' array,
        setInt ''key'' key]"

section \<open>Blob\<close>

definition Blob_createUTFBytesContent :: "'w client \<Rightarrow> pyval \<Rightarrow> ('w, pyval) io" where
  "Blob_createUTFBytesContent cl content' =
     call cl ''blob_createUTFBytesContent'' [setString (client_runtime cl) ''content'' content']"

definition Blob_createImageContent :: "'w client \<Rightarrow> pyval \<Rightarrow> pyval \<Rightarrow> ('w, pyval) io" where
  "Blob_createImageContent cl image' database =
     call cl ''blob_createImageContent''
       [setString (client_runtime cl) ''image'' image',
        setMemoryPointer ''database'' database]"

definition Blob_createImageStream :: "'w client \<Rightarrow> pyval \<Rightarrow> pyval \<Rightarrow> ('w, pyval) io" where
  "Blob_createImageStream cl image' database =
     call cl ''blob_createImageStream''
       [setString (client_runtime cl) ''image'' image',
        setMemoryPointer ''database'' database]"

definition Blob_createImageFileUrl :: "'w client \<Rightarrow> pyval \<Rightarrow> ('w, pyval) io" where
  "Blob_createImageFileUrl cl image' =
     call cl ''blob_createImageFileUrl'' [setString (client_runtime cl) ''image'' image']"

definition Blob_digest :: "'w client \<Rightarrow> pyval \<Rightarrow> ('w, pyval) io" where
  "Blob_digest cl obj =
     call cl ''blob_digest'' [setMemoryPointer ''obj'' obj]"

definition Blob_fleeceEncode :: "'w client \<Rightarrow> pyval \<Rightarrow> pyval \<Rightarrow> pyval \<Rightarrow> ('w, pyval) io" where
  "Blob_fleeceEncode cl obj encoder database =
     call cl ''blob_fleeceEncode''
       [setMemoryPointer ''obj'' obj,
        setMemoryPointer ''encoder'' encoder,
        setMemoryPointer ''database'' database]"

definition Blob_getContent :: "'w client \<Rightarrow> pyval \<Rightarrow> ('w, pyval) io" where
  "Blob_getContent cl obj =
     call cl ''blob_getContent'' [setMemoryPointer ''obj'' obj]"

definition Blob_getProperties :: "'w client \<Rightarrow> pyval \<Rightarrow> ('w, pyval) io" where
  "Blob_getProperties cl obj =
     call cl ''blob_getProperties'' [setMemoryPointer ''obj'' obj]"

definition Blob_getContentStream :: "'w client \<Rightarrow> pyval \<Rightarrow> ('w, pyval) io" where
  "Blob_getContentStream cl obj =
     call cl ''blob_getContentStream'' [setMemoryPointer ''obj'' obj]"

definition Blob_getContentType :: "'w client \<Rightarrow> pyval \<Rightarrow> ('w, pyval) io" where
  "Blob_getContentType cl obj =
     call cl ''blob_getContentType'' [setMemoryPointer ''obj'' obj]"

definition Blob_length :: "'w client \<Rightarrow> pyval \<Rightarrow> ('w, pyval) io" where
  "Blob_length cl obj =
     call cl ''blob_length'' [setMemoryPointer ''obj'' obj]"

definition Blob_toString :: "'w client \<Rightarrow> pyval \<Rightarrow> ('w, pyval) io" where
  "Blob_toString cl obj =
     call cl ''blob_toString'' [setMemoryPointer ''obj'' obj]"

section \<open>DataTypeInitiator\<close>

definition DataTypeInitiator_setDate :: "'w client \<Rightarrow> ('w, pyval) io" where
  "DataTypeInitiator_setDate cl =
     call cl ''datatype_setDate'' []"

definition DataTypeInitiator_setDouble :: "'w client \<Rightarrow> pyval \<Rightarrow> ('w, pyval) io" where
  "DataTypeInitiator_setDouble cl value =
     call cl ''datatype_setDouble'' [setFloat (client_runtime cl) ''value'' value]"

definition DataTypeInitiator_setFloat :: "'w client \<Rightarrow> pyval \<Rightarrow> ('w, pyval) io" where
  "DataTypeInitiator_setFloat cl value =
     call cl ''datatype_setFloat'' [setFloat (client_runtime cl) ''value'' value]"

definition DataTypeInitiator_setLong :: "'w client \<Rightarrow> pyval \<Rightarrow> ('w, pyval) io" where
  "DataTypeInitiator_setLong cl value =
     call cl ''datatype_setLong'' [setLong (client_runtime cl) ''value'' value]"

definition DataTypeInitiator_compare :: "'w client \<Rightarrow> pyval \<Rightarrow> pyval \<Rightarrow> ('w, pyval) io" where
  "DataTypeInitiator_compare cl first' second =
     call cl ''datatype_compare''
       [setMemoryPointer ''first'' first',
        setMemoryPointer ''second'' second]"

definition DataTypeInitiator_compareHashMap :: "'w client \<Rightarrow> pyval \<Rightarrow> pyval \<Rightarrow> ('w, pyval) io" where
  "DataTypeInitiator_compareHashMap cl first' second =
     call cl ''datatype_compareHashMap''
       [setDictionary ''first'' first',
        setDictionary ''second'' second]"

definition DataTypeInitiator_hashMap :: "'w client \<Rightarrow> ('w, pyval) io" where
  "DataTypeInitiator_hashMap cl =
     call cl ''datatype_hashMap'' []"

definition DataTypeInitiator_get :: "'w client \<Rightarrow> pyval \<Rightarrow> pyval \<Rightarrow> ('w, pyval) io" where
  "DataTypeInitiator_get cl dictionary key =
     call cl ''datatype_get''
       [setMemoryPointer ''dictionary'' dictionary,
        setString (client_runtime cl) ''key'' key]"

definition DataTypeInitiator_compareDate :: "'w client \<Rightarrow> pyval \<Rightarrow> pyval \<Rightarrow> ('w, pyval) io" where
  "DataTypeInitiator_compareDate cl date1 date2 =
     call cl ''datatype_compareDate''
       [setMemoryPointer ''date1'' date1,
        setMemoryPointer ''date2'' date2]"

definition DataTypeInitiator_compareDouble :: "'w client \<Rightarrow> pyval \<Rightarrow> pyval \<Rightarrow> ('w, pyval) io" where
  "DataTypeInitiator_compareDouble cl double1 double2 =
     call cl ''datatype_compareDouble''
       [setMemoryPointer ''double1'' double1,
        setMemoryPointer ''double2'' double2]"

definition DataTypeInitiator_compareLong :: "'w client \<Rightarrow> pyval \<Rightarrow> pyval \<Rightarrow> ('w, pyval) io" where
  "DataTypeInitiator_compareLong cl long1 long2 =
     call cl ''datatype_compareLong''
       [setMemoryPointer ''long1'' long1,
        setMemoryPointer ''long2'' long2]"

section \<open>Dictionary\<close>

definition Dictionary_create :: "'w client \<Rightarrow> pyval \<Rightarrow> ('w, pyval) io" where
  "Dictionary_create cl dictionary =
     call cl ''dictionary_create''
       ((if py_truth dictionary then [setMemoryPointer ''content_dict'' dictionary]
         else []))"

definition Dictionary_toMutableDictionary :: "'w client \<Rightarrow> pyval \<Rightarrow> ('w, pyval) io" where
  "Dictionary_toMutableDictionary cl dictionary =
     call cl ''dictionary_toMutableDictionary'' [setMemoryPointer ''dictionary'' dictionary]"

definition Dictionary_getString :: "'w client \<Rightarrow> pyval \<Rightarrow> pyval \<Rightarrow> ('w, pyval) io" where
  "Dictionary_getString cl dictionary key =
     call cl ''dictionary_getString''
       [setMemoryPointer ''dictionary'' dictionary,
        setString (client_runtime cl) ''key'' key]"

definition Dictionary_setString :: "'w client \<Rightarrow> pyval \<Rightarrow> pyval \<Rightarrow> pyval \<Rightarrow> ('w, pyval) io" where
  "Dictionary_setString cl dictionary key value =
     call cl ''dictionary_setString''
       [setMemoryPointer ''dictionary'' dictionary,
        setString (client_runtime cl) ''key'' key,
        setString (client_runtime cl) ''value'' value]"

definition Dictionary_getKeys :: "'w client \<Rightarrow> pyval \<Rightarrow> ('w, pyval) io" where
  "Dictionary_getKeys cl dictionary =
     call cl ''dictionary_getKeys'' [setMemoryPointer ''dictionary'' dictionary]"

definition Dictionary_contains :: "'w client \<Rightarrow> pyval \<Rightarrow> pyval \<Rightarrow> ('w, pyval) io" where
  "Dictionary_contains cl dictionary key =
     call cl ''dictionary_contains''
       [setMemoryPointer ''dictionary'' dictionary,
        setMemoryPointer ''key'' key]"

definition Dictionary_count :: "'w client \<Rightarrow> pyval \<Rightarrow> ('w, pyval) io" where
  "Dictionary_count cl dictionary =
     call cl ''dictionary_count'' [setMemoryPointer ''dictionary'' dictionary]"

definition Dictionary_getArray :: "'w client \<Rightarrow> pyval \<Rightarrow> pyval \<Rightarrow> ('w, pyval) io" where
  "Dictionary_getArray cl dictionary key =
     call cl ''dictionary_getArray''
       [setMemoryPointer ''dictionary'' dictionary,
        setString (client_runtime cl) ''key'' key]"

definition Dictionary_setArray :: "'w client \<Rightarrow> pyval \<Rightarrow> pyval \<Rightarrow> pyval \<Rightarrow> ('w, pyval) io" where
  "Dictionary_setArray cl dictionary key value =
     call cl ''dictionary_setArray''
       [setMemoryPointer ''dictionary'' dictionary,
        setString (client_runtime cl) ''key'' key,
        setMemoryPointer ''value'' value]"

definition Dictionary_getBlob :: "'w client \<Rightarrow> pyval \<Rightarrow> pyval \<Rightarrow> ('w, pyval) io" where
  "Dictionary_getBlob cl dictionary key =
     call cl ''dictionary_getBlob''
       [setMemoryPointer ''dictionary'' dictionary,
        setString (client_runtime cl) ''key'' key]"

definition Dictionary_setBlob :: "'w client \<Rightarrow> pyval \<Rightarrow> pyval \<Rightarrow> pyval \<Rightarrow> ('w, pyval) io" where
  "Dictionary_setBlob cl dictionary key value =
     call cl ''dictionary_setBlob''
       [setMemoryPointer ''dictionary'' dictionary,
        setString (client_runtime cl) ''key'' key,
        setMemoryPointer ''value'' value]"

definition Dictionary_getBoolean :: "'w client \<Rightarrow> pyval \<Rightarrow> pyval \<Rightarrow> ('w, pyval) io" where
  "Dictionary_getBoolean cl dictionary key =
     call cl ''dictionary_getBoolean''
       [setMemoryPointer ''dictionary'' dictionary,
        setString (client_runtime cl) ''key'' key]"

definition Dictionary_setBoolean :: "'w client \<Rightarrow> pyval \<Rightarrow> pyval \<Rightarrow> pyval \<Rightarrow> ('w, pyval) io" where
  "Dictionary_setBoolean cl dictionary key value =
     call cl ''dictionary_setBoolean''
       [setMemoryPointer ''dictionary'' dictionary,
        setString (client_runtime cl) ''key'' key,
        setBoolean ''value'' value]"

definition Dictionary_getDate :: "'w client \<Rightarrow> pyval \<Rightarrow> pyval \<Rightarrow> ('w, pyval) io" where
  "Dictionary_getDate cl dictionary key =
     call cl ''dictionary_getDate''
       [setMemoryPointer ''dictionary'' dictionary,
        setString (client_runtime cl) ''key'' key]"

definition Dictionary_setDate :: "'w client \<Rightarrow> pyval \<Rightarrow> pyval \<Rightarrow> pyval \<Rightarrow> ('w, pyval) io" where
  "Dictionary_setDate cl dictionary key value =
     call cl ''dictionary_setDate''
       [setMemoryPointer ''dictionary'' dictionary,
        setString (client_runtime cl) ''key'' key,
        setMemoryPointer ''value'' value]"

definition Dictionary_getDictionary :: "'w client \<Rightarrow> pyval \<Rightarrow> pyval \<Rightarrow> ('w, pyval) io" where
  "Dictionary_getDictionary cl dictionary key =
     call cl ''dictionary_getDictionary''
       [setMemoryPointer ''dictionary'' dictionary,
        setString (client_runtime cl) ''key'' key]"

definition Dictionary_setDictionary :: "'w client \<Rightarrow> pyval \<Rightarrow> pyval \<Rightarrow> pyval \<Rightarrow> ('w, pyval) io" where
  "Dictionary_setDictionary cl dictionary key value =
     call cl ''dictionary_setDictionary''
       [setMemoryPointer ''dictionary'' dictionary,
        setString (client_runtime cl) ''key'' key,
        setMemoryPointer ''value'' value]"

definition Dictionary_getDouble :: "'w client \<Rightarrow> pyval \<Rightarrow> pyval \<Rightarrow> ('w, pyval) io" where
  "Dictionary_getDouble cl dictionary key =
     call cl ''dictionary_getDouble''
       [setMemoryPointer ''dictionary'' dictionary,
        setString (client_runtime cl) ''key'' key]"

definition Dictionary_setDouble :: "'w client \<Rightarrow> pyval \<Rightarrow> pyval \<Rightarrow> pyval \<Rightarrow> ('w, pyval) io" where
  "Dictionary_setDouble cl dictionary key value =
     call cl ''dictionary_setDouble''
       [setMemoryPointer ''dictionary'' dictionary,
        setString (client_runtime cl) ''key'' key,
        setMemoryPointer ''value'' value]"

definition Dictionary_getFloat :: "'w client \<Rightarrow> pyval \<Rightarrow> pyval \<Rightarrow> ('w, pyval) io" where
  "Dictionary_getFloat cl dictionary key =
     call cl ''dictionary_getFloat''
       [setMemoryPointer ''dictionary'' dictionary,
        setString (client_runtime cl) ''key'' key]"

definition Dictionary_setFloat :: "'w client \<Rightarrow> pyval \<Rightarrow> pyval \<Rightarrow> pyval \<Rightarrow> ('w, pyval) io" where
  "Dictionary_setFloat cl dictionary key value =
     call cl ''dictionary_setFloat''
       [setMemoryPointer ''dictionary'' dictionary,
        setString (client_runtime cl) ''key'' key,
        setMemoryPointer ''value'' value]"

definition Dictionary_getLong :: "'w client \<Rightarrow> pyval \<Rightarrow> pyval \<Rightarrow> ('w, pyval) io" where
  "Dictionary_getLong cl dictionary key =
     call cl ''dictionary_getLong''
       [setMemoryPointer ''dictionary'' dictionary,
        setString (client_runtime cl) ''key'' key]"

definition Dictionary_setLong :: "'w client \<Rightarrow> pyval \<Rightarrow> pyval \<Rightarrow> pyval \<Rightarrow> ('w, pyval) io" where
  "Dictionary_setLong cl dictionary key value =
     call cl ''dictionary_setLong''
       [setMemoryPointer ''dictionary'' dictionary,
        setString (client_runtime cl) ''key'' key,
        setLong (client_runtime cl) ''value'' value]"

definition Dictionary_setEncryptable :: "'w client \<Rightarrow> pyval \<Rightarrow> pyval \<Rightarrow> pyval \<Rightarrow> ('w, pyval) io" where
  "Dictionary_setEncryptable cl dictionary key value =
     call cl ''dictionary_setEncryptable''
       [setMemoryPointer ''dictionary'' dictionary,
        setString (client_runtime cl) ''key'' key,
        setMemoryPointer ''value'' value]"

definition Dictionary_getNumber :: "'w client \<Rightarrow> pyval \<Rightarrow> pyval \<Rightarrow> ('w, pyval) io" where
  "Dictionary_getNumber cl dictionary key =
     call cl ''dictionary_getNumber''
       [setMemoryPointer ''dictionary'' dictionary,
        setString (client_runtime cl) ''key'' key]"

definition Dictionary_setNumber :: "'w client \<Rightarrow> pyval \<Rightarrow> pyval \<Rightarrow> pyval \<Rightarrow> ('w, pyval) io" where
  "Dictionary_setNumber cl dictionary key value =
     call cl ''dictionary_setNumber''
       [setMemoryPointer ''dictionary'' dictionary,
        setString (client_runtime cl) ''key'' key,
        setMemoryPointer ''value'' value]"

definition Dictionary_getInt :: "'w client \<Rightarrow> pyval \<Rightarrow> pyval \<Rightarrow> ('w, pyval) io" where
  "Dictionary_getInt cl dictionary key =
     call cl ''dictionary_getInt''
       [setMemoryPointer ''dictionary'' dictionary,
        setString (client_runtime cl) ''key'' key]"

definition Dictionary_setInt :: "'w client \<Rightarrow> pyval \<Rightarrow> pyval \<Rightarrow> pyval \<Rightarrow> ('w, pyval) io" where
  "Dictionary_setInt cl dictionary key value =
     call cl ''dictionary_setInt''
       [setMemoryPointer ''dictionary'' dictionary,
        setString (client_runtime cl) ''key'' key,
        setInt ''value'' value]"

definition Dictionary_remove :: "'w client \<Rightarrow> pyval \<Rightarrow> pyval \<Rightarrow> ('w, pyval) io" where
  "Dictionary_remove cl dictionary key =
     call cl ''dictionary_remove''
       [setMemoryPointer ''dictionary'' dictionary,
        setString (client_runtime cl) ''key'' key]"

definition Dictionary_iterator :: "'w client \<Rightarrow> pyval \<Rightarrow> ('w, pyval) io" where
  "Dictionary_iterator cl dictionary =
     call cl ''dictionary_iterator'' [setMemoryPointer ''dictionary'' dictionary]"

definition Dictionary_toMap :: "'w client \<Rightarrow> pyval \<Rightarrow> ('w, pyval) io" where
  "Dictionary_toMap cl dictionary =
     call cl ''dictionary_toMap'' [setMemoryPointer ''dictionary'' dictionary]"

definition Dictionary_setValue :: "'w client \<Rightarrow> pyval \<Rightarrow> pyval \<Rightarrow> pyval \<Rightarrow> ('w, pyval) io" where
  "Dictionary_setValue cl dictionary key value =
     call cl ''dictionary_setValue''
       [setMemoryPointer ''dictionary'' dictionary,
        setString (client_runtime cl) ''key'' key,
        setInt ''value'' value]"

section \<open>Document\<close>

definition Document_delete :: "'w client \<Rightarrow> pyval \<Rightarrow> pyval \<Rightarrow> ('w, pyval) io" where
  "Document_delete cl database document =
     call cl ''document_delete''
       [setMemoryPointer ''database'' database,
        setMemoryPointer ''document'' document]"

definition Document_getId :: "'w client \<Rightarrow> pyval \<Rightarrow> ('w, pyval) io" where
  "Document_getId cl document =
     call cl ''document_getId'' [setMemoryPointer ''document'' document]"

definition Document_getString :: "'w client \<Rightarrow> pyval \<Rightarrow> pyval \<Rightarrow> ('w, pyval) io" where
  "Document_getString cl document key =
     call cl ''document_getString''
       [setMemoryPointer ''document'' document,
        setString (client_runtime cl) ''key'' key]"

definition Document_setString :: "'w client \<Rightarrow> pyval \<Rightarrow> pyval \<Rightarrow> pyval \<Rightarrow> ('w, pyval) io" where
  "Document_setString cl document key value =
     call cl ''document_setString''
       [setMemoryPointer ''document'' document,
        setString (client_runtime cl) ''key'' key,
        setString (client_runtime cl) ''value'' value]"

definition Document_getKeys :: "'w client \<Rightarrow> pyval \<Rightarrow> ('w, pyval) io" where
  "Document_getKeys cl document =
     call cl ''document_getKeys'' [setMemoryPointer ''document'' document]"

definition Document_contains :: "'w client \<Rightarrow> pyval \<Rightarrow> pyval \<Rightarrow> ('w, pyval) io" where
  "Document_contains cl document key =
     call cl ''document_contains''
       [setMemoryPointer ''document'' document,
        setString (client_runtime cl) ''key'' key]"

definition Document_count :: "'w client \<Rightarrow> pyval \<Rightarrow> ('w, pyval) io" where
  "Document_count cl document =
     call cl ''document_count'' [setMemoryPointer ''document'' document]"

definition Document_getArray :: "'w client \<Rightarrow> pyval \<Rightarrow> pyval \<Rightarrow> ('w, pyval) io" where
  "Document_getArray cl document key =
     call cl ''document_getArray''
       [setMemoryPointer ''document'' document,
        setString (client_runtime cl) ''key'' key]"

definition Document_setArray :: "'w client \<Rightarrow> pyval \<Rightarrow> pyval \<Rightarrow> pyval \<Rightarrow> ('w, pyval) io" where
  "Document_setArray cl document key value =
     call cl ''document_setArray''
       [setMemoryPointer ''document'' document,
        setString (client_runtime cl) ''key'' key,
        setArray ''value'' value]"

definition Document_getBlob :: "'w client \<Rightarrow> pyval \<Rightarrow> pyval \<Rightarrow> ('w, pyval) io" where
  "Document_getBlob cl document key =
     call cl ''document_getBlob''
       [setMemoryPointer ''document'' document,
        setString (client_runtime cl) ''key'' key]"

definition Document_setBlob :: "'w client \<Rightarrow> pyval \<Rightarrow> pyval \<Rightarrow> pyval \<Rightarrow> ('w, pyval) io" where
  "Document_setBlob cl document key value =
     call cl ''document_setBlob''
       [setMemoryPointer ''document'' document,
        setString (client_runtime cl) ''key'' key,
        setMemoryPointer ''value'' value]"

definition Document_getBoolean :: "'w client \<Rightarrow> pyval \<Rightarrow> pyval \<Rightarrow> ('w, pyval) io" where
  "Document_getBoolean cl document key =
     call cl ''document_getBoolean''
       [setMemoryPointer ''document'' document,
        setString (client_runtime cl) ''key'' key]"

definition Document_setBoolean :: "'w client \<Rightarrow> pyval \<Rightarrow> pyval \<Rightarrow> pyval \<Rightarrow> ('w, pyval) io" where
  "Document_setBoolean cl document key value =
     call cl ''document_setBoolean''
       [setMemoryPointer ''document'' document,
        setString (client_runtime cl) ''key'' key,
        setBoolean ''value'' value]"

definition Document_getDate :: "'w client \<Rightarrow> pyval \<Rightarrow> pyval \<Rightarrow> ('w, pyval) io" where
  "Document_getDate cl document key =
     call cl ''document_getDate''
       [setMemoryPointer ''document'' document,
        setString (client_runtime cl) ''key'' key]"

definition Document_setDate :: "'w client \<Rightarrow> pyval \<Rightarrow> pyval \<Rightarrow> pyval \<Rightarrow> ('w, pyval) io" where
  "Document_setDate cl document key value =
     call cl ''document_setDate''
       [setMemoryPointer ''document'' document,
        setString (client_runtime cl) ''key'' key,
        setMemoryPointer ''value'' value]"

definition Document_getDictionary :: "'w client \<Rightarrow> pyval \<Rightarrow> pyval \<Rightarrow> ('w, pyval) io" where
  "Document_getDictionary cl document key =
     call cl ''document_getDictionary''
       [setMemoryPointer ''document'' document,
        setString (client_runtime cl) ''key'' key]"

definition Document_setDictionary :: "'w client \<Rightarrow> pyval \<Rightarrow> pyval \<Rightarrow> pyval \<Rightarrow> ('w, pyval) io" where
  "Document_setDictionary cl document key value =
     call cl ''document_setDictionary''
       [setMemoryPointer ''document'' document,
        setString (client_runtime cl) ''key'' key,
        setDictionary ''value'' value]"

definition Document_getDouble :: "'w client \<Rightarrow> pyval \<Rightarrow> pyval \<Rightarrow> ('w, pyval) io" where
  "Document_getDouble cl document key =
     call cl ''document_getDouble''
       [setMemoryPointer ''document'' document,
        setString (client_runtime cl) ''key'' key]"

definition Document_setDouble :: "'w client \<Rightarrow> pyval \<Rightarrow> pyval \<Rightarrow> pyval \<Rightarrow> ('w, pyval) io" where
  "Document_setDouble cl document key value =
     call cl ''document_setDouble''
       [setMemoryPointer ''document'' document,
        setString (client_runtime cl) ''key'' key,
        setMemoryPointer ''value'' value]"

definition Document_getFloat :: "'w client \<Rightarrow> pyval \<Rightarrow> pyval \<Rightarrow> ('w, pyval) io" where
  "Document_getFloat cl document key =
     call cl ''document_getFloat''
       [setMemoryPointer ''document'' document,
        setString (client_runtime cl) ''key'' key]"

definition Document_setFloat :: "'w client \<Rightarrow> pyval \<Rightarrow> pyval \<Rightarrow> pyval \<Rightarrow> ('w, pyval) io" where
  "Document_setFloat cl document key value =
     call cl ''document_setFloat''
       [setMemoryPointer ''document'' document,
        setString (client_runtime cl) ''key'' key,
        setFloat (client_runtime cl) ''value'' value]"

definition Document_getLong :: "'w client \<Rightarrow> pyval \<Rightarrow> pyval \<Rightarrow> ('w, pyval) io" where
  "Document_getLong cl document key =
     call cl ''document_getLong''
       [setMemoryPointer ''document'' document,
        setString (client_runtime cl) ''key'' key]"

definition Document_setLong :: "'w client \<Rightarrow> pyval \<Rightarrow> pyval \<Rightarrow> pyval \<Rightarrow> ('w, pyval) io" where
  "Document_setLong cl document key value =
     call cl ''document_setLong''
       [setMemoryPointer ''document'' document,
        setString (client_runtime cl) ''key'' key,
        setLong (client_runtime cl) ''value'' value]"

definition Document_getNumber :: "'w client \<Rightarrow> pyval \<Rightarrow> pyval \<Rightarrow> ('w, pyval) io" where
  "Document_getNumber cl document key =
     call cl ''document_getNumber''
       [setMemoryPointer ''document'' document,
        setString (client_runtime cl) ''key'' key]"

definition Document_setNumber :: "'w client \<Rightarrow> pyval \<Rightarrow> pyval \<Rightarrow> pyval \<Rightarrow> ('w, pyval) io" where
  "Document_setNumber cl document key value =
     call cl ''document_setNumber''
       [setMemoryPointer ''document'' document,
        setString (client_runtime cl) ''key'' key,
        setMemoryPointer ''value'' value]"

definition Document_getInt :: "'w client \<Rightarrow> pyval \<Rightarrow> pyval \<Rightarrow> ('w, pyval) io" where
  "Document_getInt cl document key =
     call cl ''document_getInt''
       [setMemoryPointer ''document'' document,
        setString (client_runtime cl) ''key'' key]"

definition Document_setInt :: "'w client \<Rightarrow> pyval \<Rightarrow> pyval \<Rightarrow> pyval \<Rightarrow> ('w, pyval) io" where
  "Document_setInt cl document key value =
     call cl ''document_setInt''
       [setMemoryPointer ''document'' document,
        setString (client_runtime cl) ''key'' key,
        setInt ''value'' value]"

definition Document_remove :: "'w client \<Rightarrow> pyval \<Rightarrow> pyval \<Rightarrow> ('w, pyval) io" where
  "Document_remove cl document key =
     call cl ''document_removeKey''
       [setMemoryPointer ''document'' document,
        setString (client_runtime cl) ''key'' key]"

definition Document_toMap :: "'w client \<Rightarrow> pyval \<Rightarrow> ('w, pyval) io" where
  "Document_toMap cl document =
     call cl ''document_toMap'' [setMemoryPointer ''document'' document]"

definition Document_toMutable :: "'w client \<Rightarrow> pyval \<Rightarrow> ('w, pyval) io" where
  "Document_toMutable cl document =
     call cl ''document_toMutable'' [setMemoryPointer ''document'' document]"

definition Document_setData :: "'w client \<Rightarrow> pyval \<Rightarrow> pyval \<Rightarrow> ('w, pyval) io" where
  "Document_setData cl document data =
     call cl ''document_setData''
       [setMemoryPointer ''document'' document,
        setDictionary ''data'' data]"

definition Document_setValue :: "'w client \<Rightarrow> pyval \<Rightarrow> pyval \<Rightarrow> pyval \<Rightarrow> ('w, pyval) io" where
  "Document_setValue cl document key value =
     call cl ''document_setValue''
       [setMemoryPointer ''document'' document,
        setDictionary ''key'' key,
        setDictionary ''value'' value]"

definition Document_getValue :: "'w client \<Rightarrow> pyval \<Rightarrow> pyval \<Rightarrow> ('w, pyval) io" where
  "Document_getValue cl mutableDocument key =
     call cl ''document_getValue''
       [setMemoryPointer ''document'' mutableDocument,
        setString (client_runtime cl) ''key'' key]"

section \<open>Methods with branches\<close>

definition Blob_create :: "'w client \<Rightarrow> pyval \<Rightarrow> pyval \<Rightarrow> pyval \<Rightarrow> pyval \<Rightarrow> ('w, pyval) io" where
  "Blob_create cl content_type content' stream file_url =
     (let ct = setString (client_runtime cl) ''contentType'' content_type in
      if py_truth content' then call cl ''blob_create'' [ct, setArray ''content'' content']
      else if py_truth stream then call cl ''blob_create'' [ct, setMemoryPointer ''stream'' stream]
      else if py_truth file_url then call cl ''blob_create'' [ct, setMemoryPointer ''fileURL'' file_url]
      else raiseIO (Exn ''Exception'' ''Provide correct parameter''))"

text \<open>\<open>isinstance(value, bool)\<close> is asked before \<open>isinstance(value, int)\<close>; other values set nothing.\<close>

definition DataTypeInitiator_put :: "'w client \<Rightarrow> pyval \<Rightarrow> pyval \<Rightarrow> pyval \<Rightarrow> ('w, pyval) io" where
  "DataTypeInitiator_put cl dictionary key value =
     bindIO (call cl ''datatype_put''
       ([setMemoryPointer ''dictionary'' dictionary, setString (client_runtime cl) ''key'' key] @
        (case value of
           PStr _ \<Rightarrow> [setString (client_runtime cl) ''value'' value]
         | PBool _ \<Rightarrow> [setBoolean ''value'' value]
         | PInt _ \<Rightarrow> [setInt ''value'' value]
         | _ \<Rightarrow> [])))
       (\<lambda>_. returnIO PNone)"

definition Document_create :: "'w client \<Rightarrow> pyval \<Rightarrow> pyval \<Rightarrow> ('w, pyval) io" where
  "Document_create cl doc_id dictionary =
     (if py_truth doc_id \<and> py_truth dictionary then
        call cl ''document_create''
          [setString (client_runtime cl) ''id'' doc_id, setMemoryPointer ''dictionary'' dictionary]
      else if py_truth dictionary then
        call cl ''document_create'' [setMemoryPointer ''dictionary'' dictionary]
      else if py_truth doc_id then
        call cl ''document_create'' [setString (client_runtime cl) ''id'' doc_id]
      else call cl ''document_create'' [])"

end
