(* ===== verification/Doc_Generators.thy ===== *)
theory Doc_Generators
  imports Py_Value
begin

text \<open>
  \<open>libraries/data/doc_generators.py\<close>, \<open>keywords/types.py\<close> and the document builders of
  \<open>keywords/document.py\<close>. The modules \<open>random\<close>, \<open>uuid\<close> and \<open>datetime\<close> are the record
  \<open>entropy\<close>: functions of the world the code runs in. A literal is evaluated left to right,
  as Python evaluates it, by \<open>gdict\<close> and \<open>glist\<close>. The fixture \<open>complex_doc\<close> (3,300 lines
  of constants) is not transcribed.
\<close>

section \<open>Randomness and time\<close>

record 'w entropy =
  ent_choice :: "nat \<Rightarrow> ('w, nat) io"
  ent_randint :: "int \<Rightarrow> int \<Rightarrow> ('w, int) io"
  ent_uniform :: "rat \<Rightarrow> rat \<Rightarrow> ('w, rat) io"
  ent_uuid4 :: "('w, string) io"
  ent_now :: "('w, string) io"

definition mapIO :: "('a \<Rightarrow> 'b) \<Rightarrow> ('w, 'a) io \<Rightarrow> ('w, 'b) io" where
  "mapIO f m = bindIO m (\<lambda>x. returnIO (f x))"

fun seqIO :: "('w, 'a) io list \<Rightarrow> ('w, 'a list) io" where
  "seqIO [] = returnIO []"
| "seqIO (m # ms) = bindIO m (\<lambda>x. bindIO (seqIO ms) (\<lambda>xs. returnIO (x # xs)))"

lemma seqIO_all2:
  assumes "seqIO (map f xs) w = (Inr ys, w')"
    and "\<And>x v y v'. x \<in> set xs \<Longrightarrow> f x v = (Inr y, v') \<Longrightarrow> P x y"
  shows "list_all2 P xs ys"
  using assms
proof (induction xs arbitrary: w ys)
  case (Cons x xs)
  then obtain y v zs where "f x w = (Inr y, v)" "seqIO (map f xs) v = (Inr zs, w')" "ys = y # zs"
    by (auto simp: bindIO_def split: prod.splits sum.splits)
  with Cons show ?case by simp
qed simp

lemma mapIO_Inr: "mapIO f m w = (Inr y, w') \<longleftrightarrow> (\<exists>x. m w = (Inr x, w') \<and> y = f x)"
  by (auto simp: mapIO_def bindIO_def split: prod.splits sum.splits)

definition gval :: "pyval \<Rightarrow> ('w, pyval) io" where
  "gval v = returnIO v"

definition gstr :: "('w, string) io \<Rightarrow> ('w, pyval) io" where
  "gstr m = mapIO PStr m"

definition gint :: "('w, int) io \<Rightarrow> ('w, pyval) io" where
  "gint m = mapIO PInt m"

definition gfloat :: "('w, rat) io \<Rightarrow> ('w, pyval) io" where
  "gfloat m = mapIO PFloat m"

definition gbool :: "('w, bool) io \<Rightarrow> ('w, pyval) io" where
  "gbool m = mapIO PBool m"

definition glist :: "('w, pyval) io list \<Rightarrow> ('w, pyval) io" where
  "glist ms = mapIO PList (seqIO ms)"

definition gdict :: "(string \<times> ('w, pyval) io) list \<Rightarrow> ('w, pyval) io" where
  "gdict kms = mapIO (\<lambda>vs. PDict (zip (map fst kms) vs)) (seqIO (map snd kms))"

section \<open>doc\_generators\<close>

definition random_bool :: "'w entropy \<Rightarrow> ('w, bool) io" where
  "random_bool ent = bindIO (ent_choice ent 2) (\<lambda>i. returnIO ([True, False] ! i))"

definition random_long :: "'w entropy \<Rightarrow> ('w, int) io" where
  "random_long ent = mapIO int (ent_choice ent 10000000)"

definition random_int :: "'w entropy \<Rightarrow> ('w, int) io" where
  "random_int ent = ent_randint ent 0 9223372036854775807"

definition random_float :: "'w entropy \<Rightarrow> ('w, rat) io" where
  "random_float ent = ent_uniform ent (- 100000000000000) 100000000000000"

definition ascii_letters :: string where
  "ascii_letters = ''abcdefghijklmnopqrstuvwxyzABCDEFGHIJKLMNOPQRSTUVWXYZ''"

definition random_string :: "'w entropy \<Rightarrow> nat \<Rightarrow> ('w, string) io" where
  "random_string ent n = seqIO (replicate n (mapIO (\<lambda>i. ascii_letters ! i) (ent_choice ent 52)))"

definition doc_size_byBytes :: "'w entropy \<Rightarrow> nat \<Rightarrow> ('w, pyval) io" where
  "doc_size_byBytes ent sz =
     gdict [
       (''name'', gstr (random_string ent sz))]"

definition simple :: "'w entropy \<Rightarrow> ('w, pyval) io" where
  "simple ent =
     gdict [
       (''date_time_added'', gstr (ent_now ent)),
       (''updates'', gval (PInt 0)),
       (''location'', gval (PStr ''california'')),
       (''dict'', gdict [
          (''name'', gstr (random_string ent 10))]),
       (''list'', glist [
          gint (random_int ent),
          gint (random_int ent)]),
       (''list_of_dicts'', glist [
          gdict [
            (''friend_one'', gstr (random_string ent 10))],
          gdict [
            (''friend_two'', gstr (random_string ent 10))]]),
       (''dict_with_list'', gdict [
          (''list'', glist [
             gbool (random_bool ent),
             gbool (random_bool ent)])])]"

definition simple_user :: "'w entropy \<Rightarrow> ('w, pyval) io" where
  "simple_user ent =
     gdict [
       (''updates'', gval (PInt 0)),
       (''index'', gval (PInt 0)),
       (''date_time_added'', gstr (ent_now ent)),
       (''guid'', gstr (ent_uuid4 ent)),
       (''isActive'', gval (PBool True)),
       (''balance'', gval (PStr ''$3,175.30'')),
       (''picture'', gstr (random_string ent 10)),
       (''age'', gint (random_int ent)),
       (''eyeColor'', gstr (random_string ent 10)),
       (''name'', gdict [
          (''first'', gstr (random_string ent 10)),
          (''last'', gstr (random_string ent 10))]),
       (''company'', gstr (random_string ent 10)),
       (''email'', gstr (random_string ent 20)),
       (''phone'', gstr (random_string ent 10)),
       (''address'', gstr (random_string ent 30)),
       (''about'', gstr (random_string ent 50)),
       (''registered'', gstr (random_string ent 20)),
       (''latitude'', gfloat (random_float ent)),
       (''longitude'', gfloat (random_float ent)),
       (''tags'', glist [
          gstr (random_string ent 10),
          gstr (random_string ent 10),
          gstr (random_string ent 10)]),
       (''range'', glist [
          gint (random_int ent)]),
       (''friends'', glist [
          gdict [
            (''id'', gint (random_int ent)),
            (''name'', gstr (random_string ent 10))],
          gdict [
            (''id'', gint (random_int ent)),
            (''name'', gstr (random_string ent 10))]])]"

definition four_k :: "pyval \<Rightarrow> ('w, pyval) io" where
  "four_k channels =
     gdict [
       (''channels'', gval channels),
       (''iden'', gval (PStr ''568ff5e16b1faf957a6feeef'')),
       (''index'', gval (PInt 0)),
       (''guid'', gval (PStr ''d5dfa5fe-a19a-42fa-a421-c0f5a406d65a'')),
       (''isActive'', gval (PBool False)),
       (''balance'', gval (PStr ''$2,393.65'')),
       (''picture'', gval (PStr ''http://placehold.it/32x32'')),
       (''age'', gval (PInt 35)),
       (''eyeColor'', gval (PStr ''blue'')),
       (''name'', gval (PStr ''Ofelia Sears'')),
       (''gender'', gval (PStr ''female'')),
       (''company'', gval (PStr ''IMAGEFLOW'')),
       (''email'', gval (PStr ''ofeliasears@imageflow.com'')),
       (''phone'', gval (PStr ''+1 (939) 542-2185'')),
       (''address'', gval (PStr ''210 Kingsland Avenue, Golconda, Colorado, 7073'')),
       (''about'', gval (PStr (''Do adipisicing aliquip reprehenderit veniam. Do fugiat ad ut proident id eu aliqua laboris amet fugiat magna. Eu et enim magna do eu nisi ad do ut tempor eu ullamco esse.'' @ [CHR 0x0D] @ [CHR 0x0A]))),
       (''registered'', gval (PStr ''2015-09-27T07:45:21 +07:00'')),
       (''latitude'', gval (PFloat (- (711632354469275 / 35184372088832)))),
       (''longitude'', gval (PFloat (- (5505599878964623 / 70368744177664)))),
       (''tags'', glist [
          gval (PStr ''enim''),
          gval (PStr ''enim''),
          gval (PStr ''laborum''),
          gval (PStr ''consectetur''),
          gval (PStr ''tempor''),
          gval (PStr ''esse''),
          gval (PStr ''Lorem'')]),
       (''friends'', glist [
          gdict [
            (''id'', gval (PInt 0)),
            (''name'', gval (PStr ''Adriana Curry''))],
          gdict [
            (''id'', gval (PInt 1)),
            (''name'', gval (PStr ''Butler Delaney''))],
          gdict [
            (''id'', gval (PInt 2)),
            (''name'', gval (PStr ''Eaton Oneal''))],
          gdict [
            (''id'', gval (PInt 3)),
            (''name'', gval (PStr ''Latisha Barton''))],
          gdict [
            (''id'', gval (PInt 4)),
            (''name'', gval (PStr ''Cynthia Anthony''))],
          gdict [
            (''id'', gval (PInt 5)),
            (''name'', gval (PStr ''Vivian Mckee''))],
          gdict [
            (''id'', gval (PInt 6)),
            (''name'', gval (PStr ''Roy Foley''))],
          gdict [
            (''id'', gval (PInt 7)),
            (''name'', gval (PStr ''Marta Elliott''))],
          gdict [
            (''id'', gval (PInt 8)),
            (''name'', gval (PStr ''Daisy Kim''))],
          gdict [
            (''id'', gval (PInt 9)),
            (''name'', gval (PStr ''Socorro Benson''))],
          gdict [
            (''id'', gval (PInt 10)),
            (''name'', gval (PStr ''Whitney Fuller''))],
          gdict [
            (''id'', gval (PInt 11)),
            (''name'', gval (PStr ''Elisabeth Dennis''))],
          gdict [
            (''id'', gval (PInt 12)),
            (''name'', gval (PStr ''Kendra Rosario''))],
          gdict [
            (''id'', gval (PInt 13)),
            (''name'', gval (PStr ''Christian Miles''))],
          gdict [
            (''id'', gval (PInt 14)),
            (''name'', gval (PStr ''Noemi Acevedo''))],
          gdict [
            (''id'', gval (PInt 15)),
            (''name'', gval (PStr ''Sutton Blackwell''))],
          gdict [
            (''id'', gval (PInt 16)),
            (''name'', gval (PStr ''Andrews Meadows''))],
          gdict [
            (''id'', gval (PInt 17)),
            (''name'', gval (PStr ''Lula Roach''))],
          gdict [
            (''id'', gval (PInt 18)),
            (''name'', gval (PStr ''Lucinda Valenzuela''))],
          gdict [
            (''id'', gval (PInt 19)),
            (''name'', gval (PStr ''Hannah Marks''))],
          gdict [
            (''id'', gval (PInt 20)),
            (''name'', gval (PStr ''Moss Berry''))],
          gdict [
            (''id'', gval (PInt 21)),
            (''name'', gval (PStr ''Pearl Gray''))],
          gdict [
            (''id'', gval (PInt 22)),
            (''name'', gval (PStr ''Marisol Ingram''))],
          gdict [
            (''id'', gval (PInt 23)),
            (''name'', gval (PStr ''Rachael Wilkinson''))],
          gdict [
            (''id'', gval (PInt 24)),
            (''name'', gval (PStr ''Myrtle Hines''))],
          gdict [
            (''id'', gval (PInt 25)),
            (''name'', gval (PStr ''Hewitt Frazier''))],
          gdict [
            (''id'', gval (PInt 26)),
            (''name'', gval (PStr ''Susanne Herman''))],
          gdict [
            (''id'', gval (PInt 27)),
            (''name'', gval (PStr ''Pauline Skinner''))],
          gdict [
            (''id'', gval (PInt 28)),
            (''name'', gval (PStr ''Winters Moore''))],
          gdict [
            (''id'', gval (PInt 29)),
            (''name'', gval (PStr ''Sheree Gallagher''))],
          gdict [
            (''id'', gval (PInt 30)),
            (''name'', gval (PStr ''Kathrine Guthrie''))],
          gdict [
            (''id'', gval (PInt 31)),
            (''name'', gval (PStr ''Della Ramirez''))],
          gdict [
            (''id'', gval (PInt 32)),
            (''name'', gval (PStr ''Isabelle Ellison''))],
          gdict [
            (''id'', gval (PInt 33)),
            (''name'', gval (PStr ''Burgess Farley''))],
          gdict [
            (''id'', gval (PInt 34)),
            (''name'', gval (PStr ''Luella Villarreal''))],
          gdict [
            (''id'', gval (PInt 35)),
            (''name'', gval (PStr ''Mcclain Langley''))],
          gdict [
            (''id'', gval (PInt 36)),
            (''name'', gval (PStr ''Toni Owens''))],
          gdict [
            (''id'', gval (PInt 37)),
            (''name'', gval (PStr ''Harrell Sharp''))],
          gdict [
            (''id'', gval (PInt 38)),
            (''name'', gval (PStr ''Lara Olson''))],
          gdict [
            (''id'', gval (PInt 39)),
            (''name'', gval (PStr ''Johanna Mcclure''))],
          gdict [
            (''id'', gval (PInt 40)),
            (''name'', gval (PStr ''Arlene Bradford''))],
          gdict [
            (''id'', gval (PInt 41)),
            (''name'', gval (PStr ''Kelly Santana''))],
          gdict [
            (''id'', gval (PInt 42)),
            (''name'', gval (PStr ''Wood Rodriguez''))],
          gdict [
            (''id'', gval (PInt 43)),
            (''name'', gval (PStr ''Luz Wilson''))],
          gdict [
            (''id'', gval (PInt 44)),
            (''name'', gval (PStr ''Richmond Glover''))],
          gdict [
            (''id'', gval (PInt 45)),
            (''name'', gval (PStr ''Geneva Hopper''))],
          gdict [
            (''id'', gval (PInt 46)),
            (''name'', gval (PStr ''Natalie Bean''))],
          gdict [
            (''id'', gval (PInt 47)),
            (''name'', gval (PStr ''Valenzuela Vincent''))],
          gdict [
            (''id'', gval (PInt 48)),
            (''name'', gval (PStr ''Velasquez Washington''))],
          gdict [
            (''id'', gval (PInt 49)),
            (''name'', gval (PStr ''Bender Massey''))],
          gdict [
            (''id'', gval (PInt 50)),
            (''name'', gval (PStr ''Delia Harrington''))],
          gdict [
            (''id'', gval (PInt 51)),
            (''name'', gval (PStr ''Karin Gregory''))],
          gdict [
            (''id'', gval (PInt 52)),
            (''name'', gval (PStr ''Sallie Gonzales''))],
          gdict [
            (''id'', gval (PInt 53)),
            (''name'', gval (PStr ''Jami Randall''))],
          gdict [
            (''id'', gval (PInt 54)),
            (''name'', gval (PStr ''West Potts''))],
          gdict [
            (''id'', gval (PInt 55)),
            (''name'', gval (PStr ''Elvira Mckinney''))],
          gdict [
            (''id'', gval (PInt 56)),
            (''name'', gval (PStr ''Carol Shaffer''))],
          gdict [
            (''id'', gval (PInt 57)),
            (''name'', gval (PStr ''Farmer Snider''))],
          gdict [
            (''id'', gval (PInt 58)),
            (''name'', gval (PStr ''Taylor Moody''))],
          gdict [
            (''id'', gval (PInt 59)),
            (''name'', gval (PStr ''Farrell Black''))],
          gdict [
            (''id'', gval (PInt 60)),
            (''name'', gval (PStr ''Irma Hobbs''))],
          gdict [
            (''id'', gval (PInt 61)),
            (''name'', gval (PStr ''Bette Reed''))],
          gdict [
            (''id'', gval (PInt 62)),
            (''name'', gval (PStr ''Sweet Walls''))],
          gdict [
            (''id'', gval (PInt 63)),
            (''name'', gval (PStr ''Mercado Odonnell''))],
          gdict [
            (''id'', gval (PInt 64)),
            (''name'', gval (PStr ''Salas Yates''))],
          gdict [
            (''id'', gval (PInt 65)),
            (''name'', gval (PStr ''Shanna Guzman''))],
          gdict [
            (''id'', gval (PInt 66)),
            (''name'', gval (PStr ''Amanda Ruiz''))],
          gdict [
            (''id'', gval (PInt 67)),
            (''name'', gval (PStr ''Rosie Allison''))],
          gdict [
            (''id'', gval (PInt 68)),
            (''name'', gval (PStr ''Sykes William''))],
          gdict [
            (''id'', gval (PInt 69)),
            (''name'', gval (PStr ''Holder Nelson''))],
          gdict [
            (''id'', gval (PInt 70)),
            (''name'', gval (PStr ''Stuart Lyons''))],
          gdict [
            (''id'', gval (PInt 71)),
            (''name'', gval (PStr ''Humphrey Stewart''))],
          gdict [
            (''id'', gval (PInt 72)),
            (''name'', gval (PStr ''Carissa Bowen''))],
          gdict [
            (''id'', gval (PInt 73)),
            (''name'', gval (PStr ''Johnston Singleton''))],
          gdict [
            (''id'', gval (PInt 74)),
            (''name'', gval (PStr ''Jasmine Stanton''))],
          gdict [
            (''id'', gval (PInt 75)),
            (''name'', gval (PStr ''Elisa Gallegos''))],
          gdict [
            (''id'', gval (PInt 76)),
            (''name'', gval (PStr ''Velez Pitts''))],
          gdict [
            (''id'', gval (PInt 77)),
            (''name'', gval (PStr ''Lizzie Clements''))],
          gdict [
            (''id'', gval (PInt 78)),
            (''name'', gval (PStr ''Barker Waller''))],
          gdict [
            (''id'', gval (PInt 79)),
            (''name'', gval (PStr ''Stanley Rosales''))],
          gdict [
            (''id'', gval (PInt 80)),
            (''name'', gval (PStr ''Jeanne Willis''))],
          gdict [
            (''id'', gval (PInt 81)),
            (''name'', gval (PStr ''Washington Puckett''))],
          gdict [
            (''id'', gval (PInt 82)),
            (''name'', gval (PStr ''Hudson Knowles''))],
          gdict [
            (''id'', gval (PInt 83)),
            (''name'', gval (PStr ''Cochran Crosby''))],
          gdict [
            (''id'', gval (PInt 84)),
            (''name'', gval (PStr ''Bernard Garner''))],
          gdict [
            (''id'', gval (PInt 85)),
            (''name'', gval (PStr ''Corinne Fletcher''))],
          gdict [
            (''id'', gval (PInt 86)),
            (''name'', gval (PStr ''Vasquez Schneider''))],
          gdict [
            (''id'', gval (PInt 87)),
            (''name'', gval (PStr ''Contreras Hubbard''))],
          gdict [
            (''id'', gval (PInt 88)),
            (''name'', gval (PStr ''Glenn Landry''))],
          gdict [
            (''id'', gval (PInt 89)),
            (''name'', gval (PStr ''Bryan Carlson''))],
          gdict [
            (''id'', gval (PInt 90)),
            (''name'', gval (PStr ''Silva May''))],
          gdict [
            (''id'', gval (PInt 91)),
            (''name'', gval (PStr ''Horton Webb''))],
          gdict [
            (''id'', gval (PInt 92)),
            (''name'', gval (PStr ''Millicent Byrd''))],
          gdict [
            (''id'', gval (PInt 93)),
            (''name'', gval (PStr ''Huffman Erickson''))],
          gdict [
            (''id'', gval (PInt 94)),
            (''name'', gval (PStr ''Gilmore Hebert''))],
          gdict [
            (''id'', gval (PInt 95)),
            (''name'', gval (PStr ''Blackwell Mcknight''))],
          gdict [
            (''id'', gval (PInt 96)),
            (''name'', gval (PStr ''Erika Estes''))],
          gdict [
            (''id'', gval (PInt 97)),
            (''name'', gval (PStr ''Mills Finch''))],
          gdict [
            (''id'', gval (PInt 98)),
            (''name'', gval (PStr ''Combs Perry''))],
          gdict [
            (''id'', gval (PInt 99)),
            (''name'', gval (PStr ''Leta Macias''))]]),
       (''greeting'', gval (PStr ''Hello, Ofelia Sears! You have 4 unread messages.'')),
       (''favoriteFruit'', gval (PStr ''banana''))]"

end
