(* ===== verification/Documents.thy ===== *)
theory Documents
  imports Doc_Generators "HOL-Library.Word"
begin

text \<open>
  \<open>keywords/types.py\<close>, \<open>keywords/document.py\<close> and the attachment class of
  \<open>keywords/attachment.py\<close>: document bodies and the vBucket a key hashes to. \<open>zlib.crc32\<close>
  is the CRC of the standard on 32-bit words. A generator argument (\<open>prop_generator\<close>,
  \<open>attachments_generator\<close>) is an optional effectful computation; that it is callable is its
  type, so \<open>verify_is_callable\<close> has no branch left.
\<close>

unbundle bit_operations_syntax

section \<open>types\<close>

definition verify_is_list :: "py_runtime \<Rightarrow> pyval \<Rightarrow> unit res" where
  "verify_is_list rt obj = (if py_type obj \<noteq> ''list''
     then raise_exc ''TypeError'' (py_str rt obj @ '' must be a '' @ [chr_squote] @ ''list'' @ [chr_squote])
     else Inr ())"

lemma verify_is_list_iff: "verify_is_list rt v = Inr () \<longleftrightarrow> (\<exists>xs. v = PList xs)"
  by (cases v) (auto simp: verify_is_list_def)

lemma verify_is_list_PList [simp]: "verify_is_list rt (PList xs) = Inr ()"
  by (simp add: verify_is_list_def)

section \<open>Attachment\<close>

record attachment =
  att_name :: string
  att_data :: pyval

text \<open>\<open>{att.name: {"data": att.data} for att in attachments}\<close>.\<close>

definition attachments_dict :: "attachment list \<Rightarrow> pyval" where
  "attachments_dict atts =
     PDict (foldl (\<lambda>d att. dict_set d (att_name att) (PDict [(''data'', att_data att)])) [] atts)"

section \<open>vBuckets\<close>

definition NUM_VBUCKETS :: int where
  "NUM_VBUCKETS = 1024"

definition crc_shift :: "32 word \<Rightarrow> 32 word" where
  "crc_shift c = (if bit c 0 then drop_bit 1 c XOR 0xEDB88320 else drop_bit 1 c)"

definition crc_byte :: "32 word \<Rightarrow> char \<Rightarrow> 32 word" where
  "crc_byte c b = (crc_shift ^^ 8) (c XOR of_nat (of_char b))"

definition crc32 :: "string \<Rightarrow> 32 word" where
  "crc32 s = NOT (foldl crc_byte (NOT 0) s)"

definition get_vbucket_number :: "pyval \<Rightarrow> int res" where
  "get_vbucket_number key = (case key of
       PBytes s \<Rightarrow> Inr ((drop_bit 16 (uint (crc32 s)) AND 0x7fff) AND (NUM_VBUCKETS - 1))
     | _ \<Rightarrow> raise_exc ''TypeError''
         (''a bytes-like object is required, not '' @ repr_str (py_type key)))"

partial_function (option) vbucket_loop ::
    "'w entropy \<Rightarrow> int \<Rightarrow> 'w \<Rightarrow> (string res \<times> 'w) option" where
  "vbucket_loop ent vbucket_number w =
     (case ent_uuid4 ent w of
        (Inl e, w') \<Rightarrow> Some (Inl e, w')
      | (Inr doc_id, w') \<Rightarrow>
          (case get_vbucket_number (PStr doc_id) of
             Inl e \<Rightarrow> Some (Inl e, w')
           | Inr n \<Rightarrow> if n = vbucket_number then Some (Inr doc_id, w')
                      else vbucket_loop ent vbucket_number w'))"

definition generate_doc_id_for_vbucket ::
    "'w entropy \<Rightarrow> int \<Rightarrow> 'w \<Rightarrow> (string res \<times> 'w) option" where
  "generate_doc_id_for_vbucket ent vbucket_number w =
     (if vbucket_number < 0 \<or> vbucket_number > 1023 then
        Some (raise_exc ''DocumentError''
          ([chr_squote] @ ''vbucket_number'' @ [chr_squote] @ '' must be between 0-1023''), w)
      else vbucket_loop ent vbucket_number w)"

fun generate_doc_ids_for_vbucket ::
    "'w entropy \<Rightarrow> int \<Rightarrow> nat \<Rightarrow> 'w \<Rightarrow> (string list res \<times> 'w) option" where
  "generate_doc_ids_for_vbucket ent vb 0 w = Some (Inr [], w)"
| "generate_doc_ids_for_vbucket ent vb (Suc n) w =
     (case generate_doc_id_for_vbucket ent vb w of
        None \<Rightarrow> None
      | Some (Inl e, w') \<Rightarrow> Some (Inl e, w')
      | Some (Inr i, w') \<Rightarrow>
          (case generate_doc_ids_for_vbucket ent vb n w' of
             Some (Inr is, w'') \<Rightarrow> Some (Inr (i # is), w'')
           | r \<Rightarrow> r))"

section \<open>Document bodies\<close>

definition update_prop_generator :: "('w, pyval) io" where
  "update_prop_generator = returnIO (PDict [(''updates'', PInt 0)])"

text \<open>\<open>for k, v in list(props.items()): doc[k] = v\<close>.\<close>

definition add_props :: "(string, pyval) dict \<Rightarrow> pyval \<Rightarrow> (string, pyval) dict res" where
  "add_props doc props = bindR (as_dict props) (\<lambda>d. Inr (dict_update doc d))"

definition create_doc :: "py_runtime \<Rightarrow> pyval \<Rightarrow> pyval \<Rightarrow> attachment list option \<Rightarrow> pyval \<Rightarrow> pyval \<Rightarrow>
    ('w, pyval) io option \<Rightarrow> bool \<Rightarrow> ('w, pyval) io" where
  "create_doc rt doc_id content attachments expiry channels prop_generator non_sgw =
     (let channels = (if channels = PNone then PList [] else channels);
          attachments = (case attachments of None \<Rightarrow> [] | Some a \<Rightarrow> a) in
      bindIO (liftIO (verify_is_list rt channels)) (\<lambda>_.
        let doc = [];
            doc = (if doc_id \<noteq> PNone
                   then dict_set doc (if non_sgw then ''id'' else ''_id'') doc_id else doc);
            doc = (if expiry \<noteq> PNone then dict_set doc ''_exp'' expiry else doc);
            doc = (if content \<noteq> PNone then dict_set doc ''content'' content else doc);
            doc = dict_set doc ''channels'' channels;
            doc = (if attachments \<noteq> [] then dict_set doc ''_attachments'' (attachments_dict attachments)
                   else doc)
        in case prop_generator of
             None \<Rightarrow> returnIO (PDict doc)
           | Some gen \<Rightarrow> bindIO gen (\<lambda>props. bindIO (liftIO (add_props doc props)) (\<lambda>d. returnIO (PDict d)))))"

definition create_docs_body :: "py_runtime \<Rightarrow> 'w entropy \<Rightarrow> pyval \<Rightarrow> pyval \<Rightarrow>
    ('w, attachment list) io option \<Rightarrow> pyval \<Rightarrow> pyval \<Rightarrow> ('w, pyval) io option \<Rightarrow> bool \<Rightarrow> nat \<Rightarrow>
    ('w, pyval) io" where
  "create_docs_body rt ent doc_id_prefix content attachments_generator expiry channels prop_generator
      non_sgw i =
     bindIO (if doc_id_prefix = PNone then ent_uuid4 ent
             else returnIO (py_str rt doc_id_prefix @ ''_'' @ nat_str i)) (\<lambda>doc_id.
     bindIO (case attachments_generator of
               None \<Rightarrow> returnIO None | Some g \<Rightarrow> mapIO Some g) (\<lambda>attachments.
     create_doc rt (PStr doc_id) content attachments expiry channels prop_generator non_sgw))"

definition create_docs :: "py_runtime \<Rightarrow> 'w entropy \<Rightarrow> pyval \<Rightarrow> nat \<Rightarrow> pyval \<Rightarrow>
    ('w, attachment list) io option \<Rightarrow> pyval \<Rightarrow> pyval \<Rightarrow> ('w, pyval) io option \<Rightarrow> bool \<Rightarrow>
    ('w, pyval list) io" where
  "create_docs rt ent doc_id_prefix number content attachments_generator expiry channels prop_generator
      non_sgw =
     (let channels = (if channels = PNone then PList [] else channels) in
      bindIO (liftIO (verify_is_list rt channels)) (\<lambda>_.
        seqIO (map (create_docs_body rt ent doc_id_prefix content attachments_generator expiry
                      channels prop_generator non_sgw) [0..<number])))"

section \<open>Properties\<close>

lemma crc_shift_8: "(crc_shift ^^ 8) c =
    crc_shift (crc_shift (crc_shift (crc_shift (crc_shift (crc_shift (crc_shift (crc_shift c)))))))"
  by (simp add: eval_nat_numeral)

lemma crc32_check_value: "crc32 ''123456789'' = 0xCBF43926"
  by (simp add: crc32_def crc_byte_def crc_shift_8 crc_shift_def)

lemma vbucket_mask: "((x :: int) AND 0x7fff) AND 1023 = x mod 1024"
proof -
  have "x AND 0x7fff = take_bit 15 x" "\<And>y::int. y AND 1023 = take_bit 10 y"
    by (simp_all add: take_bit_eq_mask mask_eq_exp_minus_1)
  then have "(x AND 0x7fff) AND 1023 = take_bit 10 x" by simp
  then show ?thesis by (simp add: take_bit_eq_mod)
qed

lemma get_vbucket_number_bytes:
  "get_vbucket_number (PBytes s) = Inr ((uint (crc32 s) div 65536) mod 1024)"
  by (simp add: get_vbucket_number_def NUM_VBUCKETS_def vbucket_mask drop_bit_eq_div)

lemma vbucket_loop_raises:
  "vbucket_loop ent vb w = Some (case ent_uuid4 ent w of
     (Inl e, w') \<Rightarrow> (Inl e, w')
   | (Inr i, w') \<Rightarrow> (raise_exc ''TypeError'' (''a bytes-like object is required, not '' @ repr_str ''str''), w'))"
  by (subst vbucket_loop.simps) (simp add: get_vbucket_number_def split: prod.splits sum.splits)

text \<open>The key under which a document carries its id.\<close>

abbreviation doc_id_key :: "bool \<Rightarrow> string" where
  "doc_id_key non_sgw \<equiv> (if non_sgw then ''id'' else ''_id'')"

lemma create_doc_id:
  assumes "create_doc rt (PStr i) content atts expiry channels None non_sgw w = (Inr d, w')"
  shows "py_item d (doc_id_key non_sgw) = Inr (PStr i)"
  using assms
  by (auto simp: create_doc_def Let_def bindIO_def dict_index_def split: if_splits option.splits sum.splits prod.splits)

lemma create_docs_ids:
  assumes "create_docs rt ent (PStr p) n content gen expiry channels None non_sgw w = (Inr docs, w')"
  shows "list_all2 (\<lambda>i d. py_item d (doc_id_key non_sgw) = Inr (PStr (p @ ''_'' @ nat_str i))) [0..<n] docs"
proof -
  let ?b = "create_docs_body rt ent (PStr p) content gen expiry (if channels = PNone then PList [] else channels)
    None non_sgw"
  from assms obtain v where "seqIO (map ?b [0..<n]) v = (Inr docs, w')"
    by (auto simp: create_docs_def Let_def bindIO_def split: prod.splits sum.splits if_splits)
  then show ?thesis
  proof (rule seqIO_all2)
    fix i v d v' assume "?b i v = (Inr d, v')"
    then obtain atc u where "create_doc rt (PStr (p @ ''_'' @ nat_str i)) content atc expiry
        (if channels = PNone then PList [] else channels) None non_sgw u = (Inr d, v')"
      by (auto simp: create_docs_body_def bindIO_def split: prod.splits sum.splits option.splits)
    then show "py_item d (doc_id_key non_sgw) = Inr (PStr (p @ ''_'' @ nat_str i))"
      by (rule create_doc_id)
  qed
qed

text \<open>
  The vBucket of a key given as bytes is bits 16 to 25 of its CRC-32, a number from 0 to
  1023.
\<close>

theorem vbucket_range:
  "\<exists>n. get_vbucket_number (PBytes s) = Inr n \<and> n = uint (crc32 s) div 65536 mod 1024 \<and> 0 \<le> n \<and> n < NUM_VBUCKETS"
  by (simp add: get_vbucket_number_bytes NUM_VBUCKETS_def)

text \<open>
  \<open>generate_doc_id_for_vbucket\<close> never returns an id: its random id is text, and the CRC of
  the standard library takes bytes only, so every call ends in an exception.
\<close>

theorem generate_doc_id_always_raises:
  "\<exists>e w'. generate_doc_id_for_vbucket ent vb w = Some (Inl e, w')"
  by (auto simp: generate_doc_id_for_vbucket_def vbucket_loop_raises split: prod.splits sum.splits)

text \<open>
  With a prefix and no property generator, \<open>create_docs\<close> returns as many documents as asked
  for, the i-th of them with the id \<open>prefix_i\<close>, so that all ids differ.
\<close>

theorem create_docs_distinct_ids:
  assumes "create_docs rt ent (PStr p) n content gen expiry channels None non_sgw w = (Inr docs, w')"
  shows "length docs = n \<and> (\<forall>i<n. py_item (docs ! i) (doc_id_key non_sgw) = Inr (PStr (p @ ''_'' @ nat_str i)))
     \<and> distinct (map (\<lambda>d. py_item d (doc_id_key non_sgw)) docs)"
proof -
  from create_docs_ids [OF assms] have l: "length docs = n"
    and i: "\<And>i. i < n \<Longrightarrow> py_item (docs ! i) (doc_id_key non_sgw) = Inr (PStr (p @ ''_'' @ nat_str i))"
    by (auto simp: list_all2_conv_all_nth)
  then show ?thesis by (auto simp: distinct_conv_nth)
qed

definition fixed_entropy :: "unit entropy" where
  "fixed_entropy = \<lparr>ent_choice = (\<lambda>n. returnIO 0), ent_randint = (\<lambda>a b. returnIO a),
     ent_uniform = (\<lambda>a b. returnIO a), ent_uuid4 = returnIO ''6e9c8f41'', ent_now = returnIO ''2017-07-01''\<rparr>"

theorem create_docs_distinct_ids_witness:
  "\<exists>docs. create_docs \<lparr>rt_float_str = (\<lambda>_. []), rt_float_of = (\<lambda>_. None), rt_obj_str = (\<lambda>_. [])\<rparr> fixed_entropy
     (PStr ''doc'') 3 PNone None (PInt 5) (PList [PStr ''NBC'']) None False () = (Inr docs, ()) \<and>
     length docs = 3 \<and> distinct (map (\<lambda>d. py_item d ''_id'') docs)"
proof -
  let ?d = "\<lambda>i. PDict [(''_id'', PStr (''doc_'' @ i)), (''_exp'', PInt 5), (''channels'', PList [PStr ''NBC''])]"
  have *: "create_docs \<lparr>rt_float_str = (\<lambda>_. []), rt_float_of = (\<lambda>_. None), rt_obj_str = (\<lambda>_. [])\<rparr> fixed_entropy
     (PStr ''doc'') 3 PNone None (PInt 5) (PList [PStr ''NBC'']) None False ()
     = (Inr [?d ''0'', ?d ''1'', ?d ''2''], ())"
    by code_simp
  from create_docs_distinct_ids [OF *] * show ?thesis by auto
qed

end
