(* ===== verification/Cbl_Database.thy ===== *)
theory Cbl_Database
  imports Cbl_Values Documents
begin

text \<open>
  The database classes of \<open>CBLClient\<close>: configuration, encryption keys, scopes, collections and
  \<open>Database\<close> with its bulk operations, which are loops of remote calls.
\<close>

section \<open>DatabaseConfiguration\<close>

definition DatabaseConfiguration_getConflictResolver :: "'w client \<Rightarrow> pyval \<Rightarrow> ('w, pyval) io" where
  "DatabaseConfiguration_getConflictResolver cl config =
     call cl ''databaseConfiguration_getConflictResolver'' [setMemoryPointer ''config'' config]"

definition DatabaseConfiguration_getDirectory :: "'w client \<Rightarrow> pyval \<Rightarrow> ('w, pyval) io" where
  "DatabaseConfiguration_getDirectory cl config =
     call cl ''databaseConfiguration_getDirectory'' [setMemoryPointer ''config'' config]"

definition DatabaseConfiguration_getEncryptionKey :: "'w client \<Rightarrow> pyval \<Rightarrow> ('w, pyval) io" where
  "DatabaseConfiguration_getEncryptionKey cl config =
     call cl ''databaseConfiguration_getEncryptionKey'' [setMemoryPointer ''config'' config]"

definition DatabaseConfiguration_setConflictResolver :: "'w client \<Rightarrow> pyval \<Rightarrow> pyval \<Rightarrow> ('w, pyval) io" where
  "DatabaseConfiguration_setConflictResolver cl config conflict_resolver =
     call cl ''databaseConfiguration_setConflictResolver''
       [setMemoryPointer ''config'' config,
        setMemoryPointer ''conflictResolver'' conflict_resolver]"

definition DatabaseConfiguration_setDirectory :: "'w client \<Rightarrow> pyval \<Rightarrow> pyval \<Rightarrow> ('w, pyval) io" where
  "DatabaseConfiguration_setDirectory cl config directory =
     call cl ''databaseConfiguration_setDirectory''
       [setMemoryPointer ''config'' config,
        setMemoryPointer ''directory'' directory]"

definition DatabaseConfiguration_setEncryptionKey :: "'w client \<Rightarrow> pyval \<Rightarrow> pyval \<Rightarrow> ('w, pyval) io" where
  "DatabaseConfiguration_setEncryptionKey cl config password =
     call cl ''databaseConfiguration_setEncryptionKey''
       [setMemoryPointer ''config'' config,
        setMemoryPointer ''password'' password]"

section \<open>Scope\<close>

definition Scope_scopeName :: "'w client \<Rightarrow> pyval \<Rightarrow> ('w, pyval) io" where
  "Scope_scopeName cl scope =
     call cl ''scope_scopeName'' [setMemoryPointer ''scope'' scope]"

definition Scope_collection :: "'w client \<Rightarrow> pyval \<Rightarrow> pyval \<Rightarrow> ('w, pyval) io" where
  "Scope_collection cl scope collectionName =
     call cl ''scope_collectionObject''
       [setMemoryPointer ''scope'' scope,
        setString (client_runtime cl) ''collectionName'' collectionName]"

section \<open>Collection\<close>

definition Collection_getDocIds :: "'w client \<Rightarrow> pyval \<Rightarrow> pyval \<Rightarrow> pyval \<Rightarrow> ('w, pyval) io" where
  "Collection_getDocIds cl collection limit offset =
     call cl ''collection_getDocIds''
       [setMemoryPointer ''collection'' collection,
        setInt ''limit'' limit,
        setInt ''offset'' offset]"

definition Collection_collectionName :: "'w client \<Rightarrow> pyval \<Rightarrow> ('w, pyval) io" where
  "Collection_collectionName cl collection =
     call cl ''collection_getCollectionName'' [setMemoryPointer ''collection'' collection]"

definition Collection_allCollection :: "'w client \<Rightarrow> pyval \<Rightarrow> pyval \<Rightarrow> ('w, pyval) io" where
  "Collection_allCollection cl database scopeName =
     call cl ''collection_collectionNames''
       [setMemoryPointer ''database'' database,
        setString (client_runtime cl) ''scopeName'' scopeName]"

definition Collection_documentCount :: "'w client \<Rightarrow> pyval \<Rightarrow> ('w, pyval) io" where
  "Collection_documentCount cl collection =
     call cl ''collection_documentCount'' [setMemoryPointer ''collection'' collection]"

definition Collection_saveDocument :: "'w client \<Rightarrow> pyval \<Rightarrow> pyval \<Rightarrow> ('w, pyval) io" where
  "Collection_saveDocument cl collection document =
     call cl ''collection_saveDocument''
       [setMemoryPointer ''collection'' collection,
        setMemoryPointer ''document'' document]"

definition Collection_collectionScope :: "'w client \<Rightarrow> pyval \<Rightarrow> ('w, pyval) io" where
  "Collection_collectionScope cl collection =
     call cl ''collection_collectionScope'' [setMemoryPointer ''collection'' collection]"

definition Collection_getDocuments :: "'w client \<Rightarrow> pyval \<Rightarrow> pyval \<Rightarrow> pyval \<Rightarrow> ('w, pyval) io" where
  "Collection_getDocuments cl collection ids encrypted =
     call cl ''collection_getDocuments''
       [setMemoryPointer ''collection'' collection,
        setArray ''ids'' ids,
        setBoolean ''encrypted'' encrypted]"

definition Collection_updateDocument :: "'w client \<Rightarrow> pyval \<Rightarrow> pyval \<Rightarrow> pyval \<Rightarrow> ('w, pyval) io" where
  "Collection_updateDocument cl collection data doc_id =
     call cl ''collection_updateDocument''
       [setMemoryPointer ''collection'' collection,
        setDictionary ''data'' data,
        setString (client_runtime cl) ''id'' doc_id]"

definition Collection_getDocument :: "'w client \<Rightarrow> pyval \<Rightarrow> pyval \<Rightarrow> ('w, pyval) io" where
  "Collection_getDocument cl collection docId =
     call cl ''collection_getDocument''
       [setString (client_runtime cl) ''docId'' docId,
        setMemoryPointer ''collection'' collection]"

definition Collection_deleteDocument :: "'w client \<Rightarrow> pyval \<Rightarrow> pyval \<Rightarrow> ('w, pyval) io" where
  "Collection_deleteDocument cl collection doc =
     call cl ''collection_deleteDocument''
       [setMemoryPointer ''collection'' collection,
        setMemoryPointer ''document'' doc]"

definition Collection_purgeDocument :: "'w client \<Rightarrow> pyval \<Rightarrow> pyval \<Rightarrow> ('w, pyval) io" where
  "Collection_purgeDocument cl collection doc =
     call cl ''collection_purgeDocument''
       [setMemoryPointer ''collection'' collection,
        setMemoryPointer ''document'' doc]"

definition Collection_purgeDocumentById :: "'w client \<Rightarrow> pyval \<Rightarrow> pyval \<Rightarrow> ('w, pyval) io" where
  "Collection_purgeDocumentById cl collection docId =
     call cl ''collection_purgeDocumentID''
       [setMemoryPointer ''collection'' collection,
        setString (client_runtime cl) ''docId'' docId]"

definition Collection_getDocumentExpiration :: "'w client \<Rightarrow> pyval \<Rightarrow> pyval \<Rightarrow> ('w, pyval) io" where
  "Collection_getDocumentExpiration cl collection docId =
     call cl ''collection_getDocumentExpiration''
       [setMemoryPointer ''collection'' collection,
        setString (client_runtime cl) ''docId'' docId]"

definition Collection_setDocumentExpiration :: "'w client \<Rightarrow> pyval \<Rightarrow> pyval \<Rightarrow> pyval \<Rightarrow> ('w, pyval) io" where
  "Collection_setDocumentExpiration cl collection docId expirationTime =
     call cl ''collection_setDocumentExpiration''
       [setMemoryPointer ''collection'' collection,
        setString (client_runtime cl) ''docId'' docId,
        setInt ''expiration'' expirationTime]"

definition Collection_getMutableDocument :: "'w client \<Rightarrow> pyval \<Rightarrow> pyval \<Rightarrow> ('w, pyval) io" where
  "Collection_getMutableDocument cl collection docId =
     call cl ''collection_getMutableDocument''
       [setMemoryPointer ''collection'' collection,
        setString (client_runtime cl) ''docId'' docId]"

definition Collection_createValueIndex :: "'w client \<Rightarrow> pyval \<Rightarrow> pyval \<Rightarrow> pyval \<Rightarrow> ('w, pyval) io" where
  "Collection_createValueIndex cl collection name expression =
     call cl ''collection_createValueIndex''
       [setMemoryPointer ''collection'' collection,
        setString (client_runtime cl) ''name'' name,
        setString (client_runtime cl) ''expression'' expression]"

definition Collection_iosCreateValueIndex :: "'w client \<Rightarrow> pyval \<Rightarrow> pyval \<Rightarrow> pyval \<Rightarrow> ('w, pyval) io" where
  "Collection_iosCreateValueIndex cl collection name expression =
     call cl ''collection_createValueIndex''
       [setMemoryPointer ''collection'' collection,
        setString (client_runtime cl) ''name'' name,
        setArray ''expression'' expression]"

definition Collection_deleteIndex :: "'w client \<Rightarrow> pyval \<Rightarrow> pyval \<Rightarrow> ('w, pyval) io" where
  "Collection_deleteIndex cl collection name =
     call cl ''collection_deleteIndex''
       [setMemoryPointer ''collection'' collection,
        setString (client_runtime cl) ''name'' name]"

definition Collection_getIndexNames :: "'w client \<Rightarrow> pyval \<Rightarrow> ('w, pyval) io" where
  "Collection_getIndexNames cl collection =
     call cl ''collection_getIndexNames'' [setMemoryPointer ''collection'' collection]"

definition Collection_collectionSaveDocuments :: "'w client \<Rightarrow> pyval \<Rightarrow> pyval \<Rightarrow> pyval \<Rightarrow> ('w, pyval) io" where
  "Collection_collectionSaveDocuments cl database documents collection =
     call cl ''collection_saveDocuments''
       [setMemoryPointer ''database'' database,
        setMemoryPointer ''collection'' collection,
        setDictionary ''documents'' documents]"

definition Collection_getCollectionInstances :: "'w client \<Rightarrow> pyval \<Rightarrow> ('w, pyval) io" where
  "Collection_getCollectionInstances cl database =
     call cl ''collection_collectionInstances'' [setMemoryPointer ''database'' database]"

definition Collection_getIndex :: "'w client \<Rightarrow> pyval \<Rightarrow> pyval \<Rightarrow> ('w, pyval) io" where
  "Collection_getIndex cl collection indexName =
     call cl ''collection_getIndex''
       [setString (client_runtime cl) ''indexName'' indexName,
        setMemoryPointer ''collection'' collection]"

section \<open>Database\<close>

definition Database_configure :: "'w client \<Rightarrow> pyval \<Rightarrow> pyval \<Rightarrow> pyval \<Rightarrow> ('w, pyval) io" where
  "Database_configure cl directory conflictResolver password =
     call cl ''databaseConfiguration_configure''
       ((if directory \<noteq> PNone then [setString (client_runtime cl) ''directory'' directory]
         else []) @
        (if conflictResolver \<noteq> PNone then [setMemoryPointer ''conflictResolver'' conflictResolver]
         else []) @
        (if password \<noteq> PNone then [setString (client_runtime cl) ''password'' password]
         else []))"

definition Database_configureOld :: "'w client \<Rightarrow> pyval \<Rightarrow> pyval \<Rightarrow> pyval \<Rightarrow> ('w, pyval) io" where
  "Database_configureOld cl directory conflictResolver password =
     call cl ''databaseConfiguration_configure_old''
       ((if directory \<noteq> PNone then [setString (client_runtime cl) ''directory'' directory]
         else []) @
        (if conflictResolver \<noteq> PNone then [setMemoryPointer ''conflictResolver'' conflictResolver]
         else []) @
        (if password \<noteq> PNone then [setString (client_runtime cl) ''password'' password]
         else []))"

definition Database_create :: "'w client \<Rightarrow> pyval \<Rightarrow> pyval \<Rightarrow> ('w, pyval) io" where
  "Database_create cl name config =
     call cl ''database_create''
       ([setString (client_runtime cl) ''name'' name] @
        (if py_truth config then [setMemoryPointer ''config'' config]
         else []))"

definition Database_delete :: "'w client \<Rightarrow> pyval \<Rightarrow> pyval \<Rightarrow> ('w, pyval) io" where
  "Database_delete cl database document =
     call cl ''database_delete''
       [setMemoryPointer ''database'' database,
        setMemoryPointer ''document'' document]"

definition Database_purge :: "'w client \<Rightarrow> pyval \<Rightarrow> pyval \<Rightarrow> ('w, pyval) io" where
  "Database_purge cl database document =
     call cl ''database_purge''
       ([setMemoryPointer ''database'' database] @
        (if document \<noteq> PNone then [setMemoryPointer ''document'' document]
         else []))"

definition Database_close :: "'w client \<Rightarrow> pyval \<Rightarrow> ('w, pyval) io" where
  "Database_close cl database =
     call cl ''database_close'' [setMemoryPointer ''database'' database]"

definition Database_compact :: "'w client \<Rightarrow> pyval \<Rightarrow> ('w, pyval) io" where
  "Database_compact cl database =
     call cl ''database_compact'' [setMemoryPointer ''database'' database]"

definition Database_path :: "'w client \<Rightarrow> pyval \<Rightarrow> ('w, pyval) io" where
  "Database_path cl database =
     call cl ''database_path'' [setString (client_runtime cl) ''database'' database]"

definition Database_getName :: "'w client \<Rightarrow> pyval \<Rightarrow> ('w, pyval) io" where
  "Database_getName cl database =
     call cl ''database_getName'' [setMemoryPointer ''database'' database]"

definition Database_getPath :: "'w client \<Rightarrow> pyval \<Rightarrow> ('w, pyval) io" where
  "Database_getPath cl database =
     call cl ''database_getPath'' [setMemoryPointer ''database'' database]"

definition Database_getDocument :: "'w client \<Rightarrow> pyval \<Rightarrow> pyval \<Rightarrow> ('w, pyval) io" where
  "Database_getDocument cl database doc_id =
     call cl ''database_getDocument''
       ([setMemoryPointer ''database'' database] @
        (if doc_id \<noteq> PNone then [setString (client_runtime cl) ''id'' doc_id]
         else []))"

definition Database_getDocuments :: "'w client \<Rightarrow> pyval \<Rightarrow> pyval \<Rightarrow> pyval \<Rightarrow> ('w, pyval) io" where
  "Database_getDocuments cl database ids encrypted =
     call cl ''database_getDocuments''
       [setMemoryPointer ''database'' database,
        setArray ''ids'' ids,
        setBoolean ''encrypted'' encrypted]"

definition Database_saveDocument :: "'w client \<Rightarrow> pyval \<Rightarrow> pyval \<Rightarrow> ('w, pyval) io" where
  "Database_saveDocument cl database document =
     call cl ''database_save''
       ([setMemoryPointer ''database'' database] @
        (if document \<noteq> PNone then [setMemoryPointer ''document'' document]
         else []))"

definition Database_saveDocuments :: "'w client \<Rightarrow> pyval \<Rightarrow> pyval \<Rightarrow> ('w, pyval) io" where
  "Database_saveDocuments cl database documents =
     call cl ''database_saveDocuments''
       [setMemoryPointer ''database'' database,
        setDictionary ''documents'' documents]"

definition Database_updateDocuments :: "'w client \<Rightarrow> pyval \<Rightarrow> pyval \<Rightarrow> ('w, pyval) io" where
  "Database_updateDocuments cl database documents =
     call cl ''database_updateDocuments''
       [setMemoryPointer ''database'' database,
        setDictionary ''documents'' documents]"

definition Database_updateDocument :: "'w client \<Rightarrow> pyval \<Rightarrow> pyval \<Rightarrow> pyval \<Rightarrow> ('w, pyval) io" where
  "Database_updateDocument cl database data doc_id =
     call cl ''database_updateDocument''
       [setMemoryPointer ''database'' database,
        setDictionary ''data'' data,
        setString (client_runtime cl) ''id'' doc_id]"

definition Database_getCount :: "'w client \<Rightarrow> pyval \<Rightarrow> ('w, pyval) io" where
  "Database_getCount cl database =
     call cl ''database_getCount'' [setMemoryPointer ''database'' database]"

definition Database_addChangeListener :: "'w client \<Rightarrow> pyval \<Rightarrow> ('w, pyval) io" where
  "Database_addChangeListener cl database =
     call cl ''database_addChangeListener'' [setMemoryPointer ''database'' database]"

definition Database_removeChangeListener :: "'w client \<Rightarrow> pyval \<Rightarrow> pyval \<Rightarrow> ('w, pyval) io" where
  "Database_removeChangeListener cl database change_listener =
     call cl ''database_removeChangeListener''
       [setMemoryPointer ''database'' database,
        setMemoryPointer ''changeListener'' change_listener]"

definition Database_databaseChangeListener_changesCount :: "'w client \<Rightarrow> pyval \<Rightarrow> ('w, pyval) io" where
  "Database_databaseChangeListener_changesCount cl change_listener =
     call cl ''database_databaseChangeListenerChangesCount'' [setMemoryPointer ''changeListener'' change_listener]"

definition Database_databaseChangeListener_getChange :: "'w client \<Rightarrow> pyval \<Rightarrow> pyval \<Rightarrow> ('w, pyval) io" where
  "Database_databaseChangeListener_getChange cl change_listener index =
     call cl ''database_databaseChangeListenerGetChange''
       [setMemoryPointer ''changeListener'' change_listener,
        setInt ''index'' index]"

definition Database_databaseChange_getDocumentId :: "'w client \<Rightarrow> pyval \<Rightarrow> ('w, pyval) io" where
  "Database_databaseChange_getDocumentId cl change =
     call cl ''database_databaseChangeGetDocumentId'' [setMemoryPointer ''change'' change]"

definition Database_getDocIds :: "'w client \<Rightarrow> pyval \<Rightarrow> pyval \<Rightarrow> pyval \<Rightarrow> ('w, pyval) io" where
  "Database_getDocIds cl database limit offset =
     call cl ''database_getDocIds''
       [setMemoryPointer ''database'' database,
        setInt ''limit'' limit,
        setInt ''offset'' offset]"

definition Database_getIndexes :: "'w client \<Rightarrow> pyval \<Rightarrow> ('w, pyval) io" where
  "Database_getIndexes cl database =
     call cl ''database_getIndexes'' [setMemoryPointer ''database'' database]"

definition Database_exists :: "'w client \<Rightarrow> pyval \<Rightarrow> pyval \<Rightarrow> ('w, pyval) io" where
  "Database_exists cl name directory =
     call cl ''database_exists''
       [setString (client_runtime cl) ''name'' name,
        setString (client_runtime cl) ''directory'' directory]"

definition Database_deleteDBbyName :: "'w client \<Rightarrow> pyval \<Rightarrow> ('w, pyval) io" where
  "Database_deleteDBbyName cl name =
     call cl ''database_deleteDBbyName'' [setString (client_runtime cl) ''name'' name]"

definition Database_changeEncryptionKey :: "'w client \<Rightarrow> pyval \<Rightarrow> pyval \<Rightarrow> ('w, pyval) io" where
  "Database_changeEncryptionKey cl database password =
     call cl ''database_changeEncryptionKey''
       [setMemoryPointer ''database'' database,
        setMemoryPointer ''password'' password]"

definition Database_saveDocumentWithConcurrency :: "'w client \<Rightarrow> pyval \<Rightarrow> pyval \<Rightarrow> pyval \<Rightarrow> ('w, pyval) io" where
  "Database_saveDocumentWithConcurrency cl database document concurrencyControlType =
     call cl ''database_saveWithConcurrency''
       ([setMemoryPointer ''database'' database] @
        (if document \<noteq> PNone then [setMemoryPointer ''document'' document]
         else []) @
        (if concurrencyControlType \<noteq> PNone then [setString (client_runtime cl) ''concurrencyControlType'' concurrencyControlType]
         else []))"

definition Database_deleteDocumentWithConcurrency :: "'w client \<Rightarrow> pyval \<Rightarrow> pyval \<Rightarrow> pyval \<Rightarrow> ('w, pyval) io" where
  "Database_deleteDocumentWithConcurrency cl database document concurrencyControlType =
     call cl ''database_deleteWithConcurrency''
       ([setMemoryPointer ''database'' database] @
        (if document \<noteq> PNone then [setMemoryPointer ''document'' document]
         else []) @
        (if concurrencyControlType \<noteq> PNone then [setString (client_runtime cl) ''concurrencyControlType'' concurrencyControlType]
         else []))"

definition Database_get_pre_built_db :: "'w client \<Rightarrow> pyval \<Rightarrow> ('w, pyval) io" where
  "Database_get_pre_built_db cl db_path =
     call cl ''database_getPreBuiltDb'' [setString (client_runtime cl) ''dbPath'' db_path]"

definition Database_copyDatabase :: "'w client \<Rightarrow> pyval \<Rightarrow> pyval \<Rightarrow> pyval \<Rightarrow> ('w, pyval) io" where
  "Database_copyDatabase cl db_path db_name db_config =
     call cl ''database_copy''
       [setString (client_runtime cl) ''dbName'' db_name,
        setString (client_runtime cl) ''dbPath'' db_path,
        setMemoryPointer ''dbConfig'' db_config]"

definition Database_defaultScope :: "'w client \<Rightarrow> pyval \<Rightarrow> ('w, pyval) io" where
  "Database_defaultScope cl database =
     call cl ''scope_defaultScope'' [setMemoryPointer ''database'' database]"

definition Database_defaultCollection :: "'w client \<Rightarrow> pyval \<Rightarrow> ('w, pyval) io" where
  "Database_defaultCollection cl database =
     call cl ''collection_defaultCollection'' [setMemoryPointer ''database'' database]"

definition Database_createCollection :: "'w client \<Rightarrow> pyval \<Rightarrow> pyval \<Rightarrow> pyval \<Rightarrow> ('w, pyval) io" where
  "Database_createCollection cl database collectionName scopeName =
     call cl ''collection_createCollection''
       [setString (client_runtime cl) ''collectionName'' collectionName,
        setString (client_runtime cl) ''scopeName'' scopeName,
        setMemoryPointer ''database'' database]"

definition Database_deleteCollection :: "'w client \<Rightarrow> pyval \<Rightarrow> pyval \<Rightarrow> pyval \<Rightarrow> ('w, pyval) io" where
  "Database_deleteCollection cl database collectionName scopeName =
     call cl ''collection_deleteCollection''
       [setString (client_runtime cl) ''collectionName'' collectionName,
        setString (client_runtime cl) ''scopeName'' scopeName,
        setMemoryPointer ''database'' database]"

definition Database_collectionsInScope :: "'w client \<Rightarrow> pyval \<Rightarrow> pyval \<Rightarrow> ('w, pyval) io" where
  "Database_collectionsInScope cl database scopeName =
     call cl ''collection_collectionNames''
       [setString (client_runtime cl) ''scopeName'' scopeName,
        setMemoryPointer ''database'' database]"

definition Database_collectionObject :: "'w client \<Rightarrow> pyval \<Rightarrow> pyval \<Rightarrow> pyval \<Rightarrow> ('w, pyval) io" where
  "Database_collectionObject cl database collectionName scopeName =
     call cl ''collection_collection''
       [setString (client_runtime cl) ''collectionName'' collectionName,
        setString (client_runtime cl) ''scopeName'' scopeName,
        setMemoryPointer ''database'' database]"

section \<open>Methods with branches\<close>

definition EncryptionKey_create :: "'w client \<Rightarrow> pyval \<Rightarrow> pyval \<Rightarrow> ('w, pyval) io" where
  "EncryptionKey_create cl key password =
     (if py_truth key then call cl ''encryptionKey_create'' [setArray ''key'' key]
      else if py_truth password then call cl ''encryptionKey_create'' [setArray ''password'' password]
      else raiseIO (Exn ''Exception'' ''Incorrect parameters provided''))"

definition Database_deleteDB :: "'w client \<Rightarrow> pyval \<Rightarrow> pyval \<Rightarrow> pyval \<Rightarrow> ('w, pyval) io" where
  "Database_deleteDB cl database name path =
     (if py_truth database then
        call cl ''database_deleteDB''
          ([setMemoryPointer ''database'' database, setMemoryPointer ''database'' database] @
           (if name \<noteq> PNone \<and> path \<noteq> PNone
            then [setString (client_runtime cl) ''name'' name, setString (client_runtime cl) ''path'' path]
            else []))
      else raiseIO (Exn ''Exception'' ''Should pass atleast database to delete''))"

definition Database_deleteDBIfExists :: "'w client \<Rightarrow> pyval \<Rightarrow> ('w, pyval) io" where
  "Database_deleteDBIfExists cl db_name =
     bindIO (Database_exists cl db_name PNone) (\<lambda>ex.
       if py_truth ex then bindIO (Database_deleteDBbyName cl db_name) (\<lambda>_. returnIO PNone)
       else returnIO PNone)"

definition Database_deleteDBIfExistsCreateNew :: "'w client \<Rightarrow> pyval \<Rightarrow> ('w, pyval) io" where
  "Database_deleteDBIfExistsCreateNew cl db_name =
     bindIO (Database_exists cl db_name PNone) (\<lambda>ex.
     bindIO (if py_truth ex then Database_deleteDBbyName cl db_name else returnIO PNone) (\<lambda>_.
     Database_create cl db_name PNone))"

definition Database_getBulkDocs :: "'w client \<Rightarrow> pyval \<Rightarrow> ('w, pyval) io" where
  "Database_getBulkDocs cl cbl_db =
     bindIO (Database_getDocIds cl cbl_db (PInt 1000) (PInt 0)) (\<lambda>ids.
     Database_getDocuments cl cbl_db ids (PBool False))"

definition Database_cbl_delete_bulk_docs :: "'w client \<Rightarrow> pyval \<Rightarrow> ('w, pyval) io" where
  "Database_cbl_delete_bulk_docs cl cbl_db =
     bindIO (Database_getDocIds cl cbl_db (PInt 1000) (PInt 0)) (\<lambda>ids.
     bindIO (liftIO (py_iter ids)) (\<lambda>xs.
     bindIO (forIO xs (\<lambda>i.
       bindIO (Database_getDocument cl cbl_db i) (\<lambda>doc.
       bindIO (Database_delete cl cbl_db doc) (\<lambda>_. returnIO ())))) (\<lambda>_.
     returnIO PNone)))"

section \<open>Bulk creation and update\<close>

text \<open>The ids to work on: those given, or every id of the database (the first thousand).\<close>

definition doc_ids_or_all :: "'w client \<Rightarrow> pyval \<Rightarrow> pyval \<Rightarrow> ('w, pyval) io" where
  "doc_ids_or_all cl database doc_ids =
     (if \<not> py_truth doc_ids then Database_getDocIds cl database (PInt 1000) (PInt 0)
      else returnIO doc_ids)"

definition Database_delete_bulk_docs :: "'w client \<Rightarrow> pyval \<Rightarrow> pyval \<Rightarrow> ('w, pyval) io" where
  "Database_delete_bulk_docs cl database doc_ids =
     bindIO (doc_ids_or_all cl database doc_ids) (\<lambda>ids.
     call cl ''database_deleteBulkDocs''
       [setMemoryPointer ''database'' database, setArray ''doc_ids'' ids])"

text \<open>The fetch the three bulk updates start with.\<close>

definition fetch_docs :: "'w client \<Rightarrow> pyval \<Rightarrow> pyval \<Rightarrow> ('w, (string, pyval) dict) io" where
  "fetch_docs cl database doc_ids =
     bindIO (doc_ids_or_all cl database doc_ids) (\<lambda>ids.
     bindIO (Database_getDocuments cl database ids (PBool False)) (\<lambda>docs.
     bindIO (liftIO (py_len docs)) (\<lambda>n.
     if n < 1 then raiseIO (Exn ''Exception'' ''cbl docs are empty , cannot update docs'')
     else liftIO (as_dict docs))))"

text \<open>\<open>if key not in doc_body: doc_body[key] = 0\<close> and \<open>doc_body[key] = doc_body[key] + 1\<close>.\<close>

definition bump_key :: "string \<Rightarrow> pyval \<Rightarrow> pyval res" where
  "bump_key key doc_body =
     bindR (as_dict doc_body) (\<lambda>d.
       let d = (if \<not> dict_has d key then dict_set d key (PInt 0) else d) in
       bindR (dict_index d key) (\<lambda>v. bindR (py_add1 v) (\<lambda>v'. Inr (PDict (dict_set d key v')))))"

text \<open>
  One round over the fetched documents. The bodies are shared between \<open>docs\<close> and
  \<open>updated_docs\<close>, so both change.
\<close>

definition update_round :: "string \<Rightarrow> (string, pyval) dict \<times> (string, pyval) dict \<Rightarrow>
    ((string, pyval) dict \<times> (string, pyval) dict) res" where
  "update_round key st =
     foldR (\<lambda>(docs, updated_docs) doc.
       bindR (dict_index docs doc) (\<lambda>doc_body.
       bindR (bump_key key doc_body) (\<lambda>b.
         Inr (dict_set docs doc b, dict_set updated_docs doc b))))
       st (dict_keys (fst st))"

fun update_rounds :: "'w client \<Rightarrow> pyval \<Rightarrow> string \<Rightarrow> nat \<Rightarrow>
    (string, pyval) dict \<times> (string, pyval) dict \<Rightarrow> ('w, pyval) io" where
  "update_rounds cl database key 0 st = returnIO PNone"
| "update_rounds cl database key (Suc n) st =
     bindIO (liftIO (update_round key st)) (\<lambda>st'.
     bindIO (Database_updateDocuments cl database (PDict (snd st'))) (\<lambda>_.
     update_rounds cl database key n st'))"

definition Database_update_bulk_docs :: "'w client \<Rightarrow> pyval \<Rightarrow> nat \<Rightarrow> pyval \<Rightarrow> string \<Rightarrow> ('w, pyval) io" where
  "Database_update_bulk_docs cl database number_of_updates doc_ids key =
     bindIO (fetch_docs cl database doc_ids) (\<lambda>docs.
     update_rounds cl database key number_of_updates (docs, []))"

definition update_doc_individually :: "'w client \<Rightarrow> pyval \<Rightarrow> pyval \<Rightarrow> ('w, unit) io" where
  "update_doc_individually cl database doc_id =
     bindIO (Database_getDocument cl database doc_id) (\<lambda>doc_mem.
     bindIO (Document_toMutable cl doc_mem) (\<lambda>doc_mut.
     bindIO (Document_toMap cl doc_mut) (\<lambda>doc_body.
     bindIO (liftIO (bump_key ''updates-cbl'' doc_body)) (\<lambda>b.
     bindIO (Database_updateDocument cl database b doc_id) (\<lambda>_. returnIO ())))))"

definition Database_update_all_docs_individually :: "'w client \<Rightarrow> pyval \<Rightarrow> nat \<Rightarrow> ('w, pyval) io" where
  "Database_update_all_docs_individually cl database num_of_updates =
     bindIO (Database_getDocIds cl database (PInt 1000) (PInt 0)) (\<lambda>doc_ids.
     bindIO (forIO [0..<num_of_updates] (\<lambda>_.
       bindIO (liftIO (py_iter doc_ids)) (\<lambda>ids. forIO ids (update_doc_individually cl database)))) (\<lambda>_.
     returnIO PNone))"

text \<open>The image each platform's test server reads, and the argument of \<open>blob.create\<close> it goes to.\<close>

definition java_platforms :: "string list" where
  "java_platforms = [''xamarin-android'', ''java-macosx'', ''java-msft'', ''java-ubuntu'', ''java-centos'',
     ''javaws-macosx'', ''javaws-msft'', ''javaws-ubuntu'', ''javaws-centos'']"

definition image_blob :: "'w client \<Rightarrow> 'w client \<Rightarrow> pyval \<Rightarrow> string \<Rightarrow> ('w, pyval) io" where
  "image_blob cl blob database liteserv_platform =
     (let jpeg = PStr ''image/jpeg'';
          from_stream = (\<lambda>f. bindIO (Blob_createImageContent blob (PStr f) PNone) (\<lambda>img.
            Blob_create blob jpeg PNone img PNone)) in
      if liteserv_platform = ''android'' then from_stream ''/assets/golden_gate_large.jpg''
      else if liteserv_platform \<in> set java_platforms then from_stream ''golden_gate_large.jpg''
      else if liteserv_platform = ''ios'' then
        bindIO (Blob_createImageContent blob (PStr ''Files/golden_gate_large.jpg'') PNone) (\<lambda>img.
          Blob_create blob jpeg img PNone PNone)
      else if liteserv_platform = ''net-msft'' then
        bindIO (Database_getPath cl database) (\<lambda>p.
        bindIO (liftIO (case p of PStr s \<Rightarrow> Inr (rstrip_chars [chr_bslash] s)
            | _ \<Rightarrow> raise_exc ''AttributeError'' (repr_str (py_type p) @ '' object has no attribute ''
                     @ repr_str ''rstrip''))) (\<lambda>db_path.
          let parts = split_chr chr_bslash db_path;
              app_dir = join [chr_bslash] (take (length parts - 2) parts) in
          from_stream (app_dir @ [chr_bslash] @ ''Files'' @ [chr_bslash] @ ''golden_gate_large.jpg'')))
      else from_stream ''Files/golden_gate_large.jpg'')"

text \<open>
  The blob is put into the mutable dictionary the server made of the body; the body itself,
  which is what is written back, only has its counter increased.
\<close>

definition blob_round :: "'w client \<Rightarrow> 'w client \<Rightarrow> 'w client \<Rightarrow> pyval \<Rightarrow> string \<Rightarrow>
    (string, pyval) dict \<times> (string, pyval) dict \<Rightarrow>
    ('w, (string, pyval) dict \<times> (string, pyval) dict) io" where
  "blob_round cl dictionary blob database liteserv_platform st =
     foldIO (\<lambda>(docs, updated_docs) doc.
       bindIO (liftIO (bindR (dict_index docs doc) (bump_key ''updates-cbl''))) (\<lambda>doc_body.
       bindIO (Dictionary_toMutableDictionary dictionary doc_body) (\<lambda>mutable_dictionary.
       bindIO (image_blob cl blob database liteserv_platform) (\<lambda>blob_value.
       bindIO (Dictionary_setBlob dictionary mutable_dictionary (PStr ''_attachments'') blob_value) (\<lambda>_.
         returnIO (dict_set docs doc doc_body, dict_set updated_docs doc doc_body))))))
       st (dict_keys (fst st))"

fun blob_rounds :: "'w client \<Rightarrow> 'w client \<Rightarrow> 'w client \<Rightarrow> pyval \<Rightarrow> string \<Rightarrow> nat \<Rightarrow>
    (string, pyval) dict \<times> (string, pyval) dict \<Rightarrow> ('w, pyval) io" where
  "blob_rounds cl dictionary blob database platform 0 st = returnIO PNone"
| "blob_rounds cl dictionary blob database platform (Suc n) st =
     bindIO (blob_round cl dictionary blob database platform st) (\<lambda>st'.
     bindIO (Database_updateDocuments cl database (PDict (snd st'))) (\<lambda>_.
     blob_rounds cl dictionary blob database platform n st'))"

definition Database_update_bulk_docs_with_blob :: "'w client \<Rightarrow> pyval \<Rightarrow> 'w client \<Rightarrow> 'w client \<Rightarrow> string \<Rightarrow>
    nat \<Rightarrow> pyval \<Rightarrow> ('w, pyval) io" where
  "Database_update_bulk_docs_with_blob cl database dictionary blob liteserv_platform number_of_updates doc_ids =
     bindIO (fetch_docs cl database doc_ids) (\<lambda>docs.
     blob_rounds cl dictionary blob database liteserv_platform number_of_updates (docs, []))"

text \<open>\<open>del doc_body["_attachments"]\<close>.\<close>

definition del_attachments :: "pyval \<Rightarrow> pyval res" where
  "del_attachments doc_body =
     bindR (as_dict doc_body) (\<lambda>d.
       if dict_has d ''_attachments'' then Inr (PDict (dict_del d ''_attachments''))
       else raise_exc ''KeyError'' ''_attachments'')"

definition Database_update_bulk_docs_by_deleting_blobs :: "'w client \<Rightarrow> pyval \<Rightarrow> pyval \<Rightarrow> ('w, pyval) io" where
  "Database_update_bulk_docs_by_deleting_blobs cl database doc_ids =
     bindIO (fetch_docs cl database doc_ids) (\<lambda>docs.
     bindIO (liftIO (foldR (\<lambda>updated_docs doc.
       bindR (dict_index docs doc) (\<lambda>doc_body.
       bindR (del_attachments doc_body) (\<lambda>b. Inr (dict_set updated_docs doc b)))) [] (dict_keys docs)))
       (\<lambda>updated_docs.
     bindIO (Database_updateDocuments cl database (PDict updated_docs)) (\<lambda>_. returnIO PNone)))"

text \<open>
  \<open>create_bulk_docs\<close>: the generator is chosen by name; \<open>complex_doc\<close>, a constant fixture,
  is the argument \<open>complex\<close>.
\<close>

definition pick_generator :: "'w entropy \<Rightarrow> ('w, pyval) io \<Rightarrow> pyval \<Rightarrow> ('w, pyval) io" where
  "pick_generator ent complex generator =
     (if generator = PStr ''four_k'' then four_k (PList [])
      else if generator = PStr ''simple_user'' then simple_user ent
      else if generator = PStr ''complex_doc'' then complex
      else simple ent)"

definition bulk_doc :: "py_runtime \<Rightarrow> 'w entropy \<Rightarrow> ('w, pyval) io \<Rightarrow> pyval \<Rightarrow> pyval \<Rightarrow> pyval \<Rightarrow>
    ('w, attachment list) io option \<Rightarrow> int \<Rightarrow> ('w, string \<times> pyval) io" where
  "bulk_doc rt ent complex id_prefix channels generator attachments_generator i =
     bindIO (pick_generator ent complex generator) (\<lambda>g.
     bindIO (liftIO (as_dict g)) (\<lambda>doc_body.
       let doc_body = (if channels \<noteq> PNone then dict_set doc_body ''channels'' channels else doc_body) in
     bindIO (case attachments_generator of
               None \<Rightarrow> returnIO doc_body
             | Some gen \<Rightarrow> mapIO (\<lambda>atts. dict_set doc_body ''_attachments'' (attachments_dict atts)) gen)
       (\<lambda>doc_body.
     bindIO (if id_prefix = PNone then ent_uuid4 ent
             else returnIO (py_str rt id_prefix @ ''_'' @ int_str i)) (\<lambda>doc_id.
     returnIO (doc_id, PDict (dict_set doc_body ''id'' (PStr doc_id)))))))"

definition Database_create_bulk_docs :: "'w client \<Rightarrow> 'w entropy \<Rightarrow> ('w, pyval) io \<Rightarrow> nat \<Rightarrow> pyval \<Rightarrow> pyval \<Rightarrow>
    pyval \<Rightarrow> pyval \<Rightarrow> ('w, attachment list) io option \<Rightarrow> int \<Rightarrow> pyval \<Rightarrow> ('w, string list) io" where
  "Database_create_bulk_docs cl ent complex number id_prefix db channels generator attachments_generator
      id_start_num collection =
     bindIO (liftIO (if channels \<noteq> PNone then verify_is_list (client_runtime cl) channels else Inr ())) (\<lambda>_.
     bindIO (foldIO (\<lambda>added_docs i.
         bindIO (bulk_doc (client_runtime cl) ent complex id_prefix channels generator attachments_generator i)
           (\<lambda>(doc_id, doc_body). returnIO (dict_set added_docs doc_id doc_body)))
         [] (map (\<lambda>k. id_start_num + int k) [0..<number])) (\<lambda>added_docs.
     bindIO (if py_truth collection then Collection_collectionSaveDocuments cl db (PDict added_docs) collection
             else Database_saveDocuments cl db (PDict added_docs)) (\<lambda>_.
     returnIO (dict_keys added_docs))))"

section \<open>What the bulk operations do\<close>

text \<open>The counter a body carries, and the body after \<open>n\<close> more updates.\<close>

definition counter :: "string \<Rightarrow> pyval \<Rightarrow> int option" where
  "counter key body = (case body of
       PDict d \<Rightarrow> (case map_of d key of None \<Rightarrow> Some 0 | Some (PInt i) \<Rightarrow> Some i | _ \<Rightarrow> None)
     | _ \<Rightarrow> None)"

definition bumped :: "string \<Rightarrow> nat \<Rightarrow> pyval \<Rightarrow> pyval" where
  "bumped key n body = (case body of
       PDict d \<Rightarrow> PDict (dict_set d key (PInt (the (counter key body) + int n)))
     | _ \<Rightarrow> body)"

definition all_bumped :: "string \<Rightarrow> nat \<Rightarrow> (string, pyval) dict \<Rightarrow> (string, pyval) dict" where
  "all_bumped key n docs = map (\<lambda>kv. (fst kv, bumped key n (snd kv))) docs"

lemma dict_set_same [simp]: "dict_set (dict_set d k v) k v' = dict_set d k v'"
  by (induction d) auto

lemma counter_bumped: "counter key b = Some i \<Longrightarrow> counter key (bumped key n b) = Some (i + int n)"
  by (auto simp: counter_def bumped_def split: pyval.splits option.splits)

lemma bumped_bumped: "counter key b = Some i \<Longrightarrow> bumped key m (bumped key n b) = bumped key (n + m) b"
  using counter_bumped [of key b i n] by (cases b) (simp_all add: bumped_def add.assoc)

lemma bump_key_counter: "counter key b = Some i \<Longrightarrow> bump_key key b = Inr (bumped key 1 b)"
  by (auto simp: counter_def bump_key_def bumped_def Let_def dict_has_def dict_index_def py_add1_def
      split: pyval.splits option.splits)

lemma keys_all_bumped [simp]: "dict_keys (all_bumped key n docs) = dict_keys docs"
  by (simp add: all_bumped_def comp_def)

lemma update_fold:
  assumes "dict_wf (xs @ ys)" "\<forall>b \<in> set (dict_values ys). counter key b \<noteq> None"
    and "\<And>k. k \<in> set (dict_keys ys) \<Longrightarrow> k \<notin> set (dict_keys xs)"
  shows "foldR (\<lambda>(docs, updated_docs) doc.
       bindR (dict_index docs doc) (\<lambda>doc_body.
       bindR (bump_key key doc_body) (\<lambda>b.
         Inr (dict_set docs doc b, dict_set updated_docs doc b))))
       (xs @ ys, us) (dict_keys ys) =
     Inr (xs @ all_bumped key 1 ys, dict_update us (all_bumped key 1 ys))"
  using assms
proof (induction ys arbitrary: xs us)
  case (Cons kv ys)
  obtain k b where kv: "kv = (k, b)" by fastforce
  have idx: "dict_index (xs @ kv # ys) k = Inr b"
    using Cons.prems(1) kv map_of_eq_None_iff [of xs k] by (auto simp: dict_index_Inr map_add_def)
  obtain i where "counter key b = Some i" using Cons.prems(2) kv by auto
  then have bk: "bump_key key b = Inr (bumped key 1 b)" by (rule bump_key_counter)
  have ds: "dict_set (xs @ kv # ys) k b' = (xs @ [(k, b')]) @ ys" for b'
    using Cons.prems(1) kv by (induction xs) auto
  have step: "foldR F ((xs @ [(k, bumped key 1 b)]) @ ys, dict_set us k (bumped key 1 b)) (dict_keys ys) =
      Inr ((xs @ [(k, bumped key 1 b)]) @ all_bumped key 1 ys,
           dict_update (dict_set us k (bumped key 1 b)) (all_bumped key 1 ys))"
    if "F = (\<lambda>(docs, updated_docs) doc.
       bindR (dict_index docs doc) (\<lambda>doc_body.
       bindR (bump_key key doc_body) (\<lambda>b.
         Inr (dict_set docs doc b, dict_set updated_docs doc b))))" for F
    unfolding that by (rule Cons.IH) (use Cons.prems kv in auto)
  show ?case
    using idx bk step [OF refl] by (simp add: kv ds [unfolded kv] all_bumped_def dict_update_def)
qed (simp add: all_bumped_def dict_update_def)

lemma dict_update_same_keys:
  assumes "dict_keys us = dict_keys vs" "dict_wf vs"
  shows "dict_update us vs = vs"
proof -
  have "foldl (\<lambda>d kv. dict_set d (fst kv) (snd kv)) (ps @ us) vs = ps @ vs"
    if "dict_keys us = dict_keys vs" "dict_wf vs" "set (dict_keys ps) \<inter> set (dict_keys vs) = {}" for ps
    using that
  proof (induction us arbitrary: vs ps)
    case (Cons u us)
    then obtain v vs' where vs: "vs = v # vs'" "fst v = fst u" "dict_keys us = dict_keys vs'" by (cases vs) auto
    have "dict_set (ps @ u # us) (fst v) (snd v) = (ps @ [v]) @ us"
      using Cons.prems(3) vs(1,2) by (induction ps) (cases u; auto)+
    with Cons.IH [of vs' "ps @ [v]"] Cons.prems vs show ?case by simp
  qed simp
  from this [of "[]"] assms show ?thesis by (simp add: dict_update_def)
qed

lemma update_round_bumped:
  assumes "dict_wf docs" "\<forall>b \<in> set (dict_values docs). counter key b \<noteq> None"
    and "us = [] \<or> dict_keys us = dict_keys docs"
  shows "update_round key (docs, us) = Inr (all_bumped key 1 docs, all_bumped key 1 docs)"
proof -
  have "dict_update us (all_bumped key 1 docs) = all_bumped key 1 docs"
    using assms(1,3) by (auto intro: dict_update_same_keys simp: dict_update_Nil)
  with update_fold [of "[]" docs key us] assms show ?thesis by (simp add: update_round_def)
qed

lemma all_bumped_compose:
  assumes "\<forall>b \<in> set (dict_values docs). counter key b \<noteq> None"
  shows "all_bumped key m (all_bumped key n docs) = all_bumped key (n + m) docs"
  using assms by (auto simp: all_bumped_def bumped_bumped)

lemma update_rounds_calls:
  assumes "dict_wf docs" "\<forall>b \<in> set (dict_values docs). counter key b \<noteq> None"
    and "us = [] \<or> dict_keys us = dict_keys docs"
  shows "update_rounds cl db key n (docs, us) w =
     bindIO (forIO [1..<n + 1] (\<lambda>k.
       bindIO (Database_updateDocuments cl db (PDict (all_bumped key k docs))) (\<lambda>_. returnIO ())))
       (\<lambda>_. returnIO PNone) w"
  using assms
proof (induction n arbitrary: docs us w)
  case (Suc n)
  let ?d1 = "all_bumped key 1 docs"
  have cnt: "\<forall>b \<in> set (dict_values ?d1). counter key b \<noteq> None"
    using Suc.prems(2) by (auto simp: all_bumped_def counter_bumped)
  have IH: "update_rounds cl db key n (?d1, ?d1) =
     bindIO (forIO [1..<n + 1] (\<lambda>k.
       bindIO (Database_updateDocuments cl db (PDict (all_bumped key (Suc k) docs))) (\<lambda>_. returnIO ())))
       (\<lambda>_. returnIO PNone)"
    using Suc.IH [of ?d1 ?d1] Suc.prems cnt
    by (intro ext) (simp add: all_bumped_compose [OF Suc.prems(2)] del: upt_Suc returnIO_apply)
  have shift: "forIO [Suc a..<Suc b] f = forIO [a..<b] (\<lambda>k. f (Suc k))" for a b :: nat and f
  proof -
    have "forIO (map g xs) f = forIO xs (\<lambda>k. f (g k))" for g :: "nat \<Rightarrow> nat" and xs f
      by (induction xs) simp_all
    from this [of Suc "[a..<b]" f] show ?thesis by (simp add: map_Suc_upt)
  qed
  have up: "[1..<Suc n + 1] = 1 # [Suc 1..<Suc (n + 1)]" by (simp add: upt_rec)
  show ?case
    unfolding up update_rounds.simps
    by (simp only: forIO.simps shift update_round_bumped [OF Suc.prems] bindIO_lift snd_conv IH
        bindIO_assoc bindIO_return)
qed simp

text \<open>The ids \<open>create_bulk_docs\<close> gives: the prefix, an underscore and a running number.\<close>

lemma bulk_doc_id:
  assumes "bulk_doc rt ent complex (PStr p) channels generator gen i w = (Inr (doc_id, body), w')"
  shows "doc_id = p @ ''_'' @ int_str i \<and> py_item body ''id'' = Inr (PStr doc_id)"
  using assms
  by (auto simp: bulk_doc_def Let_def elim!: bindIO_cases)

lemma create_bulk_docs_keys:
  assumes "Database_create_bulk_docs cl ent complex n (PStr p) db channels generator gen start coll w = (Inr ids, w')"
  shows "ids = map (\<lambda>k. p @ ''_'' @ int_str (start + int k)) [0..<n]"
proof -
  let ?id = "\<lambda>i. p @ ''_'' @ int_str i"
  let ?is = "map (\<lambda>k. start + int k) [0..<n]"
  let ?f = "\<lambda>added_docs i.
         bindIO (bulk_doc (client_runtime cl) ent complex (PStr p) channels generator gen i)
           (\<lambda>(doc_id, doc_body). returnIO (dict_set added_docs doc_id doc_body))"
  define R where "R = (\<lambda>ys (acc :: (string, pyval) dict). distinct ys \<longrightarrow> dict_keys acc = map ?id ys)"
  from assms obtain acc v v' where acc: "foldIO ?f [] ?is v = (Inr acc, v')" "ids = dict_keys acc"
    unfolding Database_create_bulk_docs_def by (auto elim!: bindIO_cases)
  have "R ([] @ ?is) acc"
  proof (rule foldIO_trace [OF acc(1)])
    show "R [] []" by (simp add: R_def)
    show "R (ys @ [x]) t" if r: "R ys s" and b: "?f s x u = (Inr t, u')" for ys s x u t u'
    proof -
      from b obtain i body where i: "bulk_doc (client_runtime cl) ent complex (PStr p) channels generator gen x u
          = (Inr (i, body), u')" "t = dict_set s i body"
        by (auto elim!: bindIO_cases)
      from bulk_doc_id [OF i(1)] i(2) have "t = dict_set s (?id x) body" by simp
      with r show ?thesis by (auto simp: R_def dict_keys_set)
    qed
  qed
  moreover have "distinct ?is" by (auto simp: distinct_map inj_on_def)
  ultimately show ?thesis using acc(2) by (simp add: R_def)
qed

section \<open>Properties\<close>

text \<open>
  \<open>update_bulk_docs\<close> with \<open>n\<close> updates makes exactly \<open>n\<close> calls of \<open>updateDocuments\<close>, and
  the k-th of them writes every fetched document with its counter \<open>key\<close> increased by k
  (a missing counter counts as 0), for documents whose counter is an integer or missing.
\<close>

theorem update_bulk_docs_calls:
  assumes "fetch_docs cl db doc_ids w = (Inr docs, w1)" "dict_wf docs"
    and "\<forall>body \<in> set (dict_values docs). counter key body \<noteq> None"
  shows "Database_update_bulk_docs cl db n doc_ids key w =
     bindIO (forIO [1..<n + 1] (\<lambda>k.
       bindIO (Database_updateDocuments cl db (PDict (all_bumped key k docs))) (\<lambda>_. returnIO ())))
       (\<lambda>_. returnIO PNone) w1"
proof -
  have "Database_update_bulk_docs cl db n doc_ids key w = update_rounds cl db key n (docs, []) w1"
    by (simp add: Database_update_bulk_docs_def bindIO_def assms(1))
  also have "\<dots> = bindIO (forIO [1..<n + 1] (\<lambda>k.
       bindIO (Database_updateDocuments cl db (PDict (all_bumped key k docs))) (\<lambda>_. returnIO ())))
       (\<lambda>_. returnIO PNone) w1"
    by (rule update_rounds_calls) (use assms in simp_all)
  finally show ?thesis .
qed

text \<open>
  With a prefix, \<open>create_bulk_docs\<close> returns the ids \<open>prefix_start\<close>, \<open>prefix_(start+1)\<close>,
  ... in order, as many as asked for and all different.
\<close>

theorem create_bulk_docs_ids:
  assumes "Database_create_bulk_docs cl ent complex n (PStr p) db channels generator gen start coll w = (Inr ids, w')"
  shows "ids = map (\<lambda>k. p @ ''_'' @ int_str (start + int k)) [0..<n] \<and> length ids = n \<and> distinct ids"
  using create_bulk_docs_keys [OF assms] by (auto simp: distinct_map inj_on_def)

definition one_doc_service :: "nat service" where
  "one_doc_service m args w =
     (if m = ''database_getDocuments'' then (Inr (PDict [(''d1'', PDict [(''n'', PInt 3)]), (''d2'', PDict [])]), w)
      else (Inr PNone, w + 1))"

theorem update_bulk_docs_calls_witness:
  "Database_update_bulk_docs (test_client one_doc_service) (PMem ''@1'') 2 (PList [PStr ''d1'', PStr ''d2'']) ''n'' 0 =
     bindIO (forIO [1..<3] (\<lambda>k.
       bindIO (Database_updateDocuments (test_client one_doc_service) (PMem ''@1'')
         (PDict (all_bumped ''n'' k [(''d1'', PDict [(''n'', PInt 3)]), (''d2'', PDict [])]))) (\<lambda>_. returnIO ())))
       (\<lambda>_. returnIO PNone) 0
   \<and> all_bumped ''n'' 2 [(''d1'', PDict [(''n'', PInt 3)]), (''d2'', PDict [])]
       = [(''d1'', PDict [(''n'', PInt 5)]), (''d2'', PDict [(''n'', PInt 2)])]"
proof -
  let ?docs = "[(''d1'', PDict [(''n'', PInt 3)]), (''d2'', PDict [])]"
  have f: "fetch_docs (test_client one_doc_service) (PMem ''@1'') (PList [PStr ''d1'', PStr ''d2'']) 0 = (Inr ?docs, 0)"
    by code_simp
  have "Database_update_bulk_docs (test_client one_doc_service) (PMem ''@1'') 2 (PList [PStr ''d1'', PStr ''d2'']) ''n'' 0 =
     bindIO (forIO [1..<2 + 1] (\<lambda>k.
       bindIO (Database_updateDocuments (test_client one_doc_service) (PMem ''@1'') (PDict (all_bumped ''n'' k ?docs)))
         (\<lambda>_. returnIO ())))
       (\<lambda>_. returnIO PNone) 0"
    by (rule update_bulk_docs_calls [OF f]) (simp_all add: counter_def)
  moreover have "all_bumped ''n'' 2 ?docs = [(''d1'', PDict [(''n'', PInt 5)]), (''d2'', PDict [(''n'', PInt 2)])]"
    by code_simp
  ultimately show ?thesis by simp
qed

theorem create_bulk_docs_ids_witness:
  "\<exists>ids. Database_create_bulk_docs (test_client (\<lambda>m args w. (Inr PNone, w))) fixed_entropy (returnIO (PDict [])) 2
      (PStr ''doc'') (PMem ''@1'') PNone (PStr ''complex_doc'') None 5 PNone () = (Inr ids, ())
    \<and> ids = [''doc_5'', ''doc_6''] \<and> distinct ids"
proof -
  have *: "Database_create_bulk_docs (test_client (\<lambda>m args w. (Inr PNone, w))) fixed_entropy (returnIO (PDict [])) 2
      (PStr ''doc'') (PMem ''@1'') PNone (PStr ''complex_doc'') None 5 PNone () = (Inr [''doc_5'', ''doc_6''], ())"
    by code_simp
  from create_bulk_docs_ids [OF *] * show ?thesis by blast
qed

end
