(* ===== verification/Cbl_Query.thy ===== *)
theory Cbl_Query
  imports Rpc_Refinement
begin

text \<open>
  The query classes of \<open>CBLClient\<close>: \<open>Query\<close>, \<open>PredictiveQueries\<close> and \<open>VectorSearch\<close>.
\<close>

section \<open>Query\<close>

definition Query_query_collator_ascii :: "'w client \<Rightarrow> pyval \<Rightarrow> ('w, pyval) io" where
  "Query_query_collator_ascii cl ignore_case =
     call cl ''collator_ascii'' [setString (client_runtime cl) ''ignoreCase'' ignore_case]"

definition Query_query_collator_unicode :: "'w client \<Rightarrow> pyval \<Rightarrow> pyval \<Rightarrow> ('w, pyval) io" where
  "Query_query_collator_unicode cl ignore_case ignore_accents =
     call cl ''collator_unicode''
       [setString (client_runtime cl) ''ignoreCase'' ignore_case,
        setString (client_runtime cl) ''ignoreAccents'' ignore_accents]"

definition Query_query_expression_property :: "'w client \<Rightarrow> pyval \<Rightarrow> ('w, pyval) io" where
  "Query_query_expression_property cl prop =
     call cl ''expression_property'' [setString (client_runtime cl) ''property'' prop]"

definition Query_query_datasource_database :: "'w client \<Rightarrow> pyval \<Rightarrow> ('w, pyval) io" where
  "Query_query_datasource_database cl database =
     call cl ''datasource_database'' [setString (client_runtime cl) ''database'' database]"

definition Query_query_create :: "'w client \<Rightarrow> pyval \<Rightarrow> pyval \<Rightarrow> pyval \<Rightarrow> ('w, pyval) io" where
  "Query_query_create cl select_prop from_prop whr_key_prop =
     call cl ''query_create''
       [setString (client_runtime cl) ''select_prop'' select_prop,
        setMemoryPointer ''from_prop'' from_prop,
        setString (client_runtime cl) ''whr_key_prop'' whr_key_prop]"

definition Query_query_run :: "'w client \<Rightarrow> pyval \<Rightarrow> ('w, pyval) io" where
  "Query_query_run cl query =
     call cl ''query_run'' [setString (client_runtime cl) ''query'' query]"

definition Query_query_next_result :: "'w client \<Rightarrow> pyval \<Rightarrow> ('w, pyval) io" where
  "Query_query_next_result cl query_result_set =
     call cl ''query_nextResult'' [setString (client_runtime cl) ''query_result_set'' query_result_set]"

definition Query_query_result_string :: "'w client \<Rightarrow> pyval \<Rightarrow> pyval \<Rightarrow> ('w, pyval) io" where
  "Query_query_result_string cl query_result key =
     call cl ''result_getString''
       [setString (client_runtime cl) ''query_result'' query_result,
        setString (client_runtime cl) ''key'' key]"

definition Query_query_select_result_expression_create :: "'w client \<Rightarrow> pyval \<Rightarrow> ('w, pyval) io" where
  "Query_query_select_result_expression_create cl expression =
     call cl ''selectResult_expressionCreate'' [setMemoryPointer ''expression'' expression]"

definition Query_create_equalTo_expression :: "'w client \<Rightarrow> pyval \<Rightarrow> pyval \<Rightarrow> ('w, pyval) io" where
  "Query_create_equalTo_expression cl expression1 expression2 =
     call cl ''expression_createEqualTo''
       [setMemoryPointer ''expression1'' expression1,
        setMemoryPointer ''expression2'' expression2]"

definition Query_create_and_expression :: "'w client \<Rightarrow> pyval \<Rightarrow> pyval \<Rightarrow> ('w, pyval) io" where
  "Query_create_and_expression cl expression1 expression2 =
     call cl ''expression_createAnd''
       [setMemoryPointer ''expression1'' expression1,
        setMemoryPointer ''expression2'' expression2]"

definition Query_create_or_expression :: "'w client \<Rightarrow> pyval \<Rightarrow> pyval \<Rightarrow> ('w, pyval) io" where
  "Query_create_or_expression cl expression1 expression2 =
     call cl ''expression_createOr''
       [setMemoryPointer ''expression1'' expression1,
        setMemoryPointer ''expression2'' expression2]"

definition Query_query_get_doc :: "'w client \<Rightarrow> pyval \<Rightarrow> pyval \<Rightarrow> ('w, pyval) io" where
  "Query_query_get_doc cl database doc_id =
     call cl ''query_getDoc''
       [setMemoryPointer ''database'' database,
        setString (client_runtime cl) ''doc_id'' doc_id]"

definition Query_query_get_docs_limit_offset :: "'w client \<Rightarrow> pyval \<Rightarrow> pyval \<Rightarrow> pyval \<Rightarrow> ('w, pyval) io" where
  "Query_query_get_docs_limit_offset cl database limit offset =
     call cl ''query_docsLimitOffset''
       [setMemoryPointer ''database'' database,
        setInt ''limit'' limit,
        setInt ''offset'' offset]"

definition Query_query_multiple_selects :: "'w client \<Rightarrow> pyval \<Rightarrow> pyval \<Rightarrow> pyval \<Rightarrow> pyval \<Rightarrow> pyval \<Rightarrow> ('w, pyval) io" where
  "Query_query_multiple_selects cl database select_property1 select_property2 whr_key whr_val =
     call cl ''query_multipleSelects''
       [setMemoryPointer ''database'' database,
        setString (client_runtime cl) ''select_property1'' select_property1,
        setString (client_runtime cl) ''select_property2'' select_property2,
        setString (client_runtime cl) ''whr_key'' whr_key,
        setString (client_runtime cl) ''whr_val'' whr_val]"

definition Query_query_multiple_selects_forDoubleValue :: "'w client \<Rightarrow> pyval \<Rightarrow> pyval \<Rightarrow> pyval \<Rightarrow> pyval \<Rightarrow> pyval \<Rightarrow> ('w, pyval) io" where
  "Query_query_multiple_selects_forDoubleValue cl database select_property1 select_property2 whr_key whr_val =
     call cl ''query_multipleSelectsDoubleValue''
       [setMemoryPointer ''database'' database,
        setString (client_runtime cl) ''select_property1'' select_property1,
        setString (client_runtime cl) ''select_property2'' select_property2,
        setString (client_runtime cl) ''whr_key'' whr_key,
        setFloat (client_runtime cl) ''whr_val'' whr_val]"

definition Query_query_multiple_selects_OrderByLocaleValue :: "'w client \<Rightarrow> pyval \<Rightarrow> pyval \<Rightarrow> pyval \<Rightarrow> pyval \<Rightarrow> pyval \<Rightarrow> ('w, pyval) io" where
  "Query_query_multiple_selects_OrderByLocaleValue cl database select_property1 select_property2 whr_key locale =
     call cl ''query_multipleSelectsOrderByLocaleValue''
       [setMemoryPointer ''database'' database,
        setString (client_runtime cl) ''select_property1'' select_property1,
        setString (client_runtime cl) ''select_property2'' select_property2,
        setString (client_runtime cl) ''whr_key'' whr_key,
        setString (client_runtime cl) ''locale'' locale]"

definition Query_query_where_and_or :: "'w client \<Rightarrow> pyval \<Rightarrow> pyval \<Rightarrow> pyval \<Rightarrow> pyval \<Rightarrow> pyval \<Rightarrow> pyval \<Rightarrow> pyval \<Rightarrow> pyval \<Rightarrow> pyval \<Rightarrow> ('w, pyval) io" where
  "Query_query_where_and_or cl database whr_key1 whr_val1 whr_key2 whr_val2 whr_key3 whr_val3 whr_key4 whr_val4 =
     call cl ''query_whereAndOr''
       [setMemoryPointer ''database'' database,
        setString (client_runtime cl) ''whr_key1'' whr_key1,
        setString (client_runtime cl) ''whr_val1'' whr_val1,
        setString (client_runtime cl) ''whr_key2'' whr_key2,
        setString (client_runtime cl) ''whr_val2'' whr_val2,
        setString (client_runtime cl) ''whr_key3'' whr_key3,
        setString (client_runtime cl) ''whr_val3'' whr_val3,
        setString (client_runtime cl) ''whr_key4'' whr_key4,
        setBoolean ''whr_val4'' whr_val4]"

definition Query_query_like :: "'w client \<Rightarrow> pyval \<Rightarrow> pyval \<Rightarrow> pyval \<Rightarrow> pyval \<Rightarrow> pyval \<Rightarrow> pyval \<Rightarrow> pyval \<Rightarrow> ('w, pyval) io" where
  "Query_query_like cl database whr_key whr_val select_property1 select_property2 like_key like_val =
     call cl ''query_like''
       [setMemoryPointer ''database'' database,
        setString (client_runtime cl) ''whr_key'' whr_key,
        setString (client_runtime cl) ''select_property1'' select_property1,
        setString (client_runtime cl) ''select_property2'' select_property2,
        setString (client_runtime cl) ''whr_val'' whr_val,
        setString (client_runtime cl) ''like_key'' like_key,
        setString (client_runtime cl) ''like_val'' like_val]"

definition Query_query_regex :: "'w client \<Rightarrow> pyval \<Rightarrow> pyval \<Rightarrow> pyval \<Rightarrow> pyval \<Rightarrow> pyval \<Rightarrow> pyval \<Rightarrow> pyval \<Rightarrow> ('w, pyval) io" where
  "Query_query_regex cl database whr_key whr_val select_property1 select_property2 regex_key regex_val =
     call cl ''query_regex''
       [setMemoryPointer ''database'' database,
        setString (client_runtime cl) ''whr_key'' whr_key,
        setString (client_runtime cl) ''select_property1'' select_property1,
        setString (client_runtime cl) ''select_property2'' select_property2,
        setString (client_runtime cl) ''whr_val'' whr_val,
        setString (client_runtime cl) ''regex_key'' regex_key,
        setString (client_runtime cl) ''regex_val'' regex_val]"

definition Query_query_isNullOrMissing :: "'w client \<Rightarrow> pyval \<Rightarrow> pyval \<Rightarrow> pyval \<Rightarrow> ('w, pyval) io" where
  "Query_query_isNullOrMissing cl database select_property1 limit =
     call cl ''query_isNullOrMissing''
       [setMemoryPointer ''database'' database,
        setString (client_runtime cl) ''select_property1'' select_property1,
        setInt ''limit'' limit]"

definition Query_query_ordering :: "'w client \<Rightarrow> pyval \<Rightarrow> pyval \<Rightarrow> pyval \<Rightarrow> pyval \<Rightarrow> ('w, pyval) io" where
  "Query_query_ordering cl database select_property1 whr_key whr_val =
     call cl ''query_ordering''
       [setMemoryPointer ''database'' database,
        setString (client_runtime cl) ''select_property1'' select_property1,
        setString (client_runtime cl) ''whr_key'' whr_key,
        setString (client_runtime cl) ''whr_val'' whr_val]"

definition Query_query_substring :: "'w client \<Rightarrow> pyval \<Rightarrow> pyval \<Rightarrow> pyval \<Rightarrow> pyval \<Rightarrow> ('w, pyval) io" where
  "Query_query_substring cl database select_property1 select_property2 substring =
     call cl ''query_substring''
       [setMemoryPointer ''database'' database,
        setString (client_runtime cl) ''select_property1'' select_property1,
        setString (client_runtime cl) ''select_property2'' select_property2,
        setString (client_runtime cl) ''substring'' substring]"

definition Query_query_collation :: "'w client \<Rightarrow> pyval \<Rightarrow> pyval \<Rightarrow> pyval \<Rightarrow> pyval \<Rightarrow> pyval \<Rightarrow> pyval \<Rightarrow> pyval \<Rightarrow> ('w, pyval) io" where
  "Query_query_collation cl database select_property1 whr_key1 whr_val1 whr_key2 whr_val2 equal_to =
     call cl ''query_collation''
       [setMemoryPointer ''database'' database,
        setString (client_runtime cl) ''select_property1'' select_property1,
        setString (client_runtime cl) ''whr_key1'' whr_key1,
        setString (client_runtime cl) ''whr_val1'' whr_val1,
        setString (client_runtime cl) ''whr_key2'' whr_key2,
        setString (client_runtime cl) ''whr_val2'' whr_val2,
        setString (client_runtime cl) ''equal_to'' equal_to]"

definition Query_query_join :: "'w client \<Rightarrow> pyval \<Rightarrow> pyval \<Rightarrow> pyval \<Rightarrow> pyval \<Rightarrow> pyval \<Rightarrow> pyval \<Rightarrow> pyval \<Rightarrow> pyval \<Rightarrow> pyval \<Rightarrow> pyval \<Rightarrow> pyval \<Rightarrow> pyval \<Rightarrow> pyval \<Rightarrow> ('w, pyval) io" where
  "Query_query_join cl database select_property1 select_property2 select_property3 select_property4 select_property5 whr_key1 whr_key2 whr_key3 whr_val1 whr_val2 whr_val3 join_key =
     call cl ''query_join''
       [setMemoryPointer ''database'' database,
        setString (client_runtime cl) ''select_property1'' select_property1,
        setString (client_runtime cl) ''select_property2'' select_property2,
        setString (client_runtime cl) ''select_property3'' select_property3,
        setString (client_runtime cl) ''select_property4'' select_property4,
        setString (client_runtime cl) ''select_property5'' select_property5,
        setString (client_runtime cl) ''whr_key1'' whr_key1,
        setString (client_runtime cl) ''whr_key2'' whr_key2,
        setString (client_runtime cl) ''whr_key3'' whr_key3,
        setString (client_runtime cl) ''join_key'' join_key,
        setString (client_runtime cl) ''whr_val1'' whr_val1,
        setString (client_runtime cl) ''whr_val2'' whr_val2,
        setString (client_runtime cl) ''whr_val3'' whr_val3]"

definition Query_query_left_join :: "'w client \<Rightarrow> pyval \<Rightarrow> pyval \<Rightarrow> pyval \<Rightarrow> ('w, pyval) io" where
  "Query_query_left_join cl database select_property limit =
     call cl ''query_leftJoin''
       [setMemoryPointer ''database'' database,
        setString (client_runtime cl) ''select_property'' select_property,
        setInt ''limit'' limit]"

definition Query_query_left_outer_join :: "'w client \<Rightarrow> pyval \<Rightarrow> pyval \<Rightarrow> ('w, pyval) io" where
  "Query_query_left_outer_join cl database select_property =
     call cl ''query_leftOuterJoin''
       [setMemoryPointer ''database'' database,
        setString (client_runtime cl) ''select_property'' select_property]"

definition Query_query_inner_join :: "'w client \<Rightarrow> pyval \<Rightarrow> pyval \<Rightarrow> pyval \<Rightarrow> pyval \<Rightarrow> pyval \<Rightarrow> pyval \<Rightarrow> pyval \<Rightarrow> pyval \<Rightarrow> pyval \<Rightarrow> pyval \<Rightarrow> pyval \<Rightarrow> ('w, pyval) io" where
  "Query_query_inner_join cl database select_property1 select_property2 select_property3 whr_key1 whr_key2 whr_val1 whr_val2 join_key1 join_key2 limit =
     call cl ''query_innerJoin''
       [setMemoryPointer ''database'' database,
        setString (client_runtime cl) ''select_property1'' select_property1,
        setString (client_runtime cl) ''select_property2'' select_property2,
        setString (client_runtime cl) ''select_property3'' select_property3,
        setString (client_runtime cl) ''join_key1'' join_key1,
        setString (client_runtime cl) ''join_key2'' join_key2,
        setString (client_runtime cl) ''whr_key1'' whr_key1,
        setString (client_runtime cl) ''whr_key2'' whr_key2,
        setString (client_runtime cl) ''whr_val1'' whr_val1,
        setInt ''whr_val2'' whr_val2,
        setInt ''limit'' limit]"

definition Query_query_cross_join :: "'w client \<Rightarrow> pyval \<Rightarrow> pyval \<Rightarrow> pyval \<Rightarrow> pyval \<Rightarrow> pyval \<Rightarrow> pyval \<Rightarrow> pyval \<Rightarrow> pyval \<Rightarrow> ('w, pyval) io" where
  "Query_query_cross_join cl database select_property1 select_property2 whr_key1 whr_key2 whr_val1 whr_val2 limit =
     call cl ''query_crossJoin''
       [setMemoryPointer ''database'' database,
        setString (client_runtime cl) ''select_property1'' select_property1,
        setString (client_runtime cl) ''select_property2'' select_property2,
        setString (client_runtime cl) ''whr_key1'' whr_key1,
        setString (client_runtime cl) ''whr_key2'' whr_key2,
        setString (client_runtime cl) ''whr_val1'' whr_val1,
        setString (client_runtime cl) ''whr_val2'' whr_val2,
        setInt ''limit'' limit]"

definition Query_query_between :: "'w client \<Rightarrow> pyval \<Rightarrow> pyval \<Rightarrow> pyval \<Rightarrow> pyval \<Rightarrow> ('w, pyval) io" where
  "Query_query_between cl database prop val1 val2 =
     call cl ''query_between''
       [setMemoryPointer ''database'' database,
        setString (client_runtime cl) ''prop'' prop,
        setInt ''val1'' val1,
        setInt ''val2'' val2]"

definition Query_query_equal_to :: "'w client \<Rightarrow> pyval \<Rightarrow> pyval \<Rightarrow> pyval \<Rightarrow> ('w, pyval) io" where
  "Query_query_equal_to cl database prop val =
     call cl ''query_equalTo''
       [setMemoryPointer ''database'' database,
        setString (client_runtime cl) ''prop'' prop,
        setString (client_runtime cl) ''val'' val]"

definition Query_query_greater_than_or_equal_to :: "'w client \<Rightarrow> pyval \<Rightarrow> pyval \<Rightarrow> pyval \<Rightarrow> ('w, pyval) io" where
  "Query_query_greater_than_or_equal_to cl database prop val =
     call cl ''query_greaterThanOrEqualTo''
       [setMemoryPointer ''database'' database,
        setString (client_runtime cl) ''prop'' prop,
        setInt ''val'' val]"

definition Query_query_greater_than :: "'w client \<Rightarrow> pyval \<Rightarrow> pyval \<Rightarrow> pyval \<Rightarrow> ('w, pyval) io" where
  "Query_query_greater_than cl database prop val =
     call cl ''query_greaterThan''
       [setMemoryPointer ''database'' database,
        setString (client_runtime cl) ''prop'' prop,
        setInt ''val'' val]"

definition Query_query_less_than :: "'w client \<Rightarrow> pyval \<Rightarrow> pyval \<Rightarrow> pyval \<Rightarrow> ('w, pyval) io" where
  "Query_query_less_than cl database prop val =
     call cl ''query_lessThan''
       [setMemoryPointer ''database'' database,
        setString (client_runtime cl) ''prop'' prop,
        setInt ''val'' val]"

definition Query_query_less_than_or_equal_to :: "'w client \<Rightarrow> pyval \<Rightarrow> pyval \<Rightarrow> pyval \<Rightarrow> ('w, pyval) io" where
  "Query_query_less_than_or_equal_to cl database prop val =
     call cl ''query_lessThanOrEqualTo''
       [setMemoryPointer ''database'' database,
        setString (client_runtime cl) ''prop'' prop,
        setInt ''val'' val]"

definition Query_query_in :: "'w client \<Rightarrow> pyval \<Rightarrow> pyval \<Rightarrow> pyval \<Rightarrow> pyval \<Rightarrow> ('w, pyval) io" where
  "Query_query_in cl database prop val1 val2 =
     call cl ''query_in''
       [setMemoryPointer ''database'' database,
        setString (client_runtime cl) ''prop'' prop,
        setString (client_runtime cl) ''val1'' val1,
        setString (client_runtime cl) ''val2'' val2]"

definition Query_query_is :: "'w client \<Rightarrow> pyval \<Rightarrow> pyval \<Rightarrow> ('w, pyval) io" where
  "Query_query_is cl database prop =
     call cl ''query_is''
       [setMemoryPointer ''database'' database,
        setString (client_runtime cl) ''prop'' prop]"

definition Query_query_isNot :: "'w client \<Rightarrow> pyval \<Rightarrow> pyval \<Rightarrow> ('w, pyval) io" where
  "Query_query_isNot cl database prop =
     call cl ''query_isNot''
       [setMemoryPointer ''database'' database,
        setString (client_runtime cl) ''prop'' prop]"

definition Query_query_any_operator :: "'w client \<Rightarrow> pyval \<Rightarrow> pyval \<Rightarrow> pyval \<Rightarrow> pyval \<Rightarrow> pyval \<Rightarrow> pyval \<Rightarrow> pyval \<Rightarrow> ('w, pyval) io" where
  "Query_query_any_operator cl database schedule departure departure_prop departure_val whr_prop whr_val =
     call cl ''query_anyOperator''
       [setMemoryPointer ''database'' database,
        setString (client_runtime cl) ''schedule'' schedule,
        setString (client_runtime cl) ''departure'' departure,
        setString (client_runtime cl) ''departure_prop'' departure_prop,
        setString (client_runtime cl) ''departure_val'' departure_val,
        setString (client_runtime cl) ''whr_prop'' whr_prop,
        setString (client_runtime cl) ''whr_val'' whr_val]"

definition Query_query_not :: "'w client \<Rightarrow> pyval \<Rightarrow> pyval \<Rightarrow> pyval \<Rightarrow> pyval \<Rightarrow> ('w, pyval) io" where
  "Query_query_not cl database prop val1 val2 =
     call cl ''query_not''
       [setMemoryPointer ''database'' database,
        setString (client_runtime cl) ''prop'' prop,
        setInt ''val1'' val1,
        setInt ''val2'' val2]"

definition Query_query_not_equal_to :: "'w client \<Rightarrow> pyval \<Rightarrow> pyval \<Rightarrow> pyval \<Rightarrow> ('w, pyval) io" where
  "Query_query_not_equal_to cl database prop val =
     call cl ''query_notEqualTo''
       [setMemoryPointer ''database'' database,
        setString (client_runtime cl) ''prop'' prop,
        setString (client_runtime cl) ''val'' val]"

definition Query_query_single_property_fts :: "'w client \<Rightarrow> pyval \<Rightarrow> pyval \<Rightarrow> pyval \<Rightarrow> pyval \<Rightarrow> pyval \<Rightarrow> pyval \<Rightarrow> ('w, pyval) io" where
  "Query_query_single_property_fts cl database prop val doc_type limit stemming =
     call cl ''query_singlePropertyFTS''
       [setMemoryPointer ''database'' database,
        setString (client_runtime cl) ''prop'' prop,
        setString (client_runtime cl) ''val'' val,
        setString (client_runtime cl) ''doc_type'' doc_type,
        setBoolean ''stemming'' stemming,
        setInt ''limit'' limit]"

definition Query_query_multiple_property_fts :: "'w client \<Rightarrow> pyval \<Rightarrow> pyval \<Rightarrow> pyval \<Rightarrow> pyval \<Rightarrow> pyval \<Rightarrow> pyval \<Rightarrow> pyval \<Rightarrow> ('w, pyval) io" where
  "Query_query_multiple_property_fts cl database prop1 prop2 val doc_type limit stemming =
     call cl ''query_multiplePropertyFTS''
       [setMemoryPointer ''database'' database,
        setString (client_runtime cl) ''prop1'' prop1,
        setString (client_runtime cl) ''prop2'' prop2,
        setString (client_runtime cl) ''val'' val,
        setString (client_runtime cl) ''doc_type'' doc_type,
        setBoolean ''stemming'' stemming,
        setInt ''limit'' limit]"

definition Query_query_fts_with_ranking :: "'w client \<Rightarrow> pyval \<Rightarrow> pyval \<Rightarrow> pyval \<Rightarrow> pyval \<Rightarrow> pyval \<Rightarrow> ('w, pyval) io" where
  "Query_query_fts_with_ranking cl database prop val doc_type limit =
     call cl ''query_ftsWithRanking''
       [setMemoryPointer ''database'' database,
        setString (client_runtime cl) ''prop'' prop,
        setString (client_runtime cl) ''val'' val,
        setString (client_runtime cl) ''doc_type'' doc_type,
        setInt ''limit'' limit]"

definition Query_query_arthimetic :: "'w client \<Rightarrow> pyval \<Rightarrow> ('w, pyval) io" where
  "Query_query_arthimetic cl database =
     call cl ''query_arthimetic'' [setMemoryPointer ''database'' database]"

definition Query_addChangeListener :: "'w client \<Rightarrow> pyval \<Rightarrow> ('w, pyval) io" where
  "Query_addChangeListener cl query =
     call cl ''query_addChangeListener'' [setMemoryPointer ''query'' query]"

definition Query_removeChangeListener :: "'w client \<Rightarrow> pyval \<Rightarrow> pyval \<Rightarrow> ('w, pyval) io" where
  "Query_removeChangeListener cl query change_listener =
     call cl ''query_removeChangeListener''
       [setMemoryPointer ''query'' query,
        setMemoryPointer ''changeListener'' change_listener]"

definition Query_query_selectAll :: "'w client \<Rightarrow> pyval \<Rightarrow> ('w, pyval) io" where
  "Query_query_selectAll cl database =
     call cl ''query_selectAll'' [setMemoryPointer ''database'' database]"

definition Query_query_get_live_query_delay_time :: "'w client \<Rightarrow> pyval \<Rightarrow> ('w, pyval) io" where
  "Query_query_get_live_query_delay_time cl database =
     call cl ''query_getLiveQueryResponseTime'' [setMemoryPointer ''database'' database]"

section \<open>PredictiveQueries\<close>

definition PredictiveQueries_registerModel :: "'w client \<Rightarrow> pyval \<Rightarrow> ('w, pyval) io" where
  "PredictiveQueries_registerModel cl modelName =
     call cl ''predictiveQuery_registerModel'' [setString (client_runtime cl) ''model_name'' modelName]"

definition PredictiveQueries_unregisterModel :: "'w client \<Rightarrow> pyval \<Rightarrow> ('w, pyval) io" where
  "PredictiveQueries_unregisterModel cl modelName =
     call cl ''predictiveQuery_unRegisterModel'' [setString (client_runtime cl) ''model_name'' modelName]"

definition PredictiveQueries_getPredictionQueryResult :: "'w client \<Rightarrow> pyval \<Rightarrow> pyval \<Rightarrow> pyval \<Rightarrow> ('w, pyval) io" where
  "PredictiveQueries_getPredictionQueryResult cl model dictionary database =
     call cl ''predictiveQuery_getPredictionQueryResult''
       [setMemoryPointer ''model'' model,
        setMemoryPointer ''dictionary'' dictionary,
        setMemoryPointer ''database'' database]"

definition PredictiveQueries_queryNonDictionaryInput :: "'w client \<Rightarrow> pyval \<Rightarrow> pyval \<Rightarrow> pyval \<Rightarrow> ('w, pyval) io" where
  "PredictiveQueries_queryNonDictionaryInput cl model nonDictionary database =
     call cl ''predictiveQuery_nonDictionary''
       [setMemoryPointer ''model'' model,
        setString (client_runtime cl) ''nonDictionary'' nonDictionary,
        setMemoryPointer ''database'' database]"

definition PredictiveQueries_getNumberOfCalls :: "'w client \<Rightarrow> pyval \<Rightarrow> ('w, pyval) io" where
  "PredictiveQueries_getNumberOfCalls cl model =
     call cl ''predictiveQuery_getNumberOfCalls'' [setMemoryPointer ''model'' model]"

definition PredictiveQueries_getEuclideanDistance :: "'w client \<Rightarrow> pyval \<Rightarrow> pyval \<Rightarrow> pyval \<Rightarrow> ('w, pyval) io" where
  "PredictiveQueries_getEuclideanDistance cl database key1 key2 =
     call cl ''predictiveQuery_getEuclideanDistance''
       [setMemoryPointer ''database'' database,
        setString (client_runtime cl) ''key1'' key1,
        setString (client_runtime cl) ''key2'' key2]"

definition PredictiveQueries_getSquaredEuclideanDistance :: "'w client \<Rightarrow> pyval \<Rightarrow> pyval \<Rightarrow> pyval \<Rightarrow> ('w, pyval) io" where
  "PredictiveQueries_getSquaredEuclideanDistance cl database key1 key2 =
     call cl ''predictiveQuery_getSquaredEuclideanDistance''
       [setMemoryPointer ''database'' database,
        setString (client_runtime cl) ''key1'' key1,
        setString (client_runtime cl) ''key2'' key2]"

definition PredictiveQueries_getCosineDistance :: "'w client \<Rightarrow> pyval \<Rightarrow> pyval \<Rightarrow> pyval \<Rightarrow> ('w, pyval) io" where
  "PredictiveQueries_getCosineDistance cl database key1 key2 =
     call cl ''predictiveQuery_getCosineDistance''
       [setMemoryPointer ''database'' database,
        setString (client_runtime cl) ''key1'' key1,
        setString (client_runtime cl) ''key2'' key2]"

section \<open>VectorSearch\<close>

definition VectorSearch_testTokenizer :: "'w client \<Rightarrow> pyval \<Rightarrow> ('w, pyval) io" where
  "VectorSearch_testTokenizer cl input =
     call cl ''vectorSearch_testTokeniser''
       ((if input \<noteq> PNone then [setString (client_runtime cl) ''input'' input]
         else []))"

definition VectorSearch_testDecode :: "'w client \<Rightarrow> pyval \<Rightarrow> ('w, pyval) io" where
  "VectorSearch_testDecode cl input =
     call cl ''vectorSearch_testDecode''
       ((if input \<noteq> PNone then [setString (client_runtime cl) ''input'' input]
         else []))"

definition VectorSearch_createIndex :: "'w client \<Rightarrow> pyval \<Rightarrow> pyval \<Rightarrow> pyval \<Rightarrow> pyval \<Rightarrow> pyval \<Rightarrow> pyval \<Rightarrow> pyval \<Rightarrow> pyval \<Rightarrow> pyval \<Rightarrow> pyval \<Rightarrow> pyval \<Rightarrow> pyval \<Rightarrow> pyval \<Rightarrow> pyval \<Rightarrow> ('w, pyval) io" where
  "VectorSearch_createIndex cl database scopeName collectionName indexName expression dimensions centroids scalarEncoding subquantizers bits metric minTrainingSize maxTrainingSize isLazy =
     call cl ''vectorSearch_createIndex''
       ([setMemoryPointer ''database'' database,
         setString (client_runtime cl) ''collectionName'' collectionName,
         setString (client_runtime cl) ''scopeName'' scopeName,
         setString (client_runtime cl) ''indexName'' indexName,
         setString (client_runtime cl) ''expression'' expression,
         setInt ''dimensions'' dimensions,
         setInt ''centroids'' centroids] @
        (if py_truth scalarEncoding then [setMemoryPointer ''scalarEncoding'' scalarEncoding]
         else []) @
        (if py_truth subquantizers then [setInt ''subquantizers'' subquantizers]
         else []) @
        (if py_truth bits then [setInt ''bits'' bits]
         else []) @
        (if py_truth metric then [setString (client_runtime cl) ''metric'' metric]
         else []) @
        (if py_truth minTrainingSize then [setInt ''minTrainingSize'' minTrainingSize]
         else []) @
        (if py_truth maxTrainingSize then [setInt ''maxTrainingSize'' maxTrainingSize]
         else []) @
        (if isLazy \<noteq> PNone then [setBoolean ''isLazy'' isLazy]
         else []))"

definition VectorSearch_getEmbedding :: "'w client \<Rightarrow> pyval \<Rightarrow> ('w, pyval) io" where
  "VectorSearch_getEmbedding cl input =
     call cl ''vectorSearch_getEmbedding'' [setString (client_runtime cl) ''input'' input]"

definition VectorSearch_registerModel :: "'w client \<Rightarrow> pyval \<Rightarrow> pyval \<Rightarrow> ('w, pyval) io" where
  "VectorSearch_registerModel cl key name =
     call cl ''vectorSearch_registerModel''
       [setString (client_runtime cl) ''key'' key,
        setString (client_runtime cl) ''name'' name]"

definition VectorSearch_query :: "'w client \<Rightarrow> pyval \<Rightarrow> pyval \<Rightarrow> pyval \<Rightarrow> ('w, pyval) io" where
  "VectorSearch_query cl term sql database =
     call cl ''vectorSearch_query''
       [setString (client_runtime cl) ''term'' term,
        setString (client_runtime cl) ''sql'' sql,
        setMemoryPointer ''database'' database]"

definition VectorSearch_loadDatabase :: "'w client \<Rightarrow> pyval \<Rightarrow> ('w, pyval) io" where
  "VectorSearch_loadDatabase cl dbPath =
     call cl ''vectorSearch_loadDatabase''
       ((if py_truth dbPath then [setString (client_runtime cl) ''dbPath'' dbPath]
         else []))"

definition VectorSearch_register_model :: "'w client \<Rightarrow> pyval \<Rightarrow> pyval \<Rightarrow> ('w, pyval) io" where
  "VectorSearch_register_model cl key name =
     call cl ''vectorSearch_registerModel''
       [setString (client_runtime cl) ''key'' key,
        setString (client_runtime cl) ''name'' name]"

definition VectorSearch_updateQueryIndex :: "'w client \<Rightarrow> pyval \<Rightarrow> pyval \<Rightarrow> ('w, pyval) io" where
  "VectorSearch_updateQueryIndex cl index loopNumber =
     call cl ''vectorSearch_updateQueryIndex''
       [setMemoryPointer ''indexName'' index,
        setString (client_runtime cl) ''loopNumber'' loopNumber]"

section \<open>Methods without arguments\<close>

definition Query_query_select_result_all_create :: "'w client \<Rightarrow> ('w, pyval) io" where
  "Query_query_select_result_all_create cl = invokeMethod cl ''selectResult_all'' None False"

definition Query_query_expression_meta_id :: "'w client \<Rightarrow> ('w, pyval) io" where
  "Query_query_expression_meta_id cl = invokeMethod cl ''expression_metaId'' None False"

definition Query_query_expression_meta_sequence :: "'w client \<Rightarrow> ('w, pyval) io" where
  "Query_query_expression_meta_sequence cl = invokeMethod cl ''expression_metaSequence'' None False"

definition Query_release :: "'w client \<Rightarrow> pyval \<Rightarrow> ('w, pyval) io" where
  "Query_release cl obj = bindIO (release cl obj) (\<lambda>_. returnIO PNone)"

end
