(* ===== verification/Cluster_Config.thy ===== *)
theory Cluster_Config
  imports Json
begin

text \<open>
  \<open>utilities/cluster_config_utils.py\<close>: the questions the kit asks a cluster configuration
  file, and the one way it changes it. A file is kept by its meaning: the value of a JSON
  file, the sections of an inventory (\<open>ini\<close>) file, or plain text. Writing JSON and reading it
  again is the round trip of theory \<open>Json\<close>.
\<close>

datatype file_content =
    JsonFile pyval
  | IniFile "(string, (string, string) dict) dict"
  | TextFile string

type_synonym files = "(string, file_content) dict"

record environment =
  env_vars :: "(string, string) dict"
  env_files :: files
  env_runtime :: py_runtime

definition no_such_file :: "string \<Rightarrow> exn" where
  "no_such_file f = Exn ''FileNotFoundError'' (''No such file or directory: '' @ repr_str f)"

text \<open>\<open>json.loads(open(f).read())\<close>.\<close>

definition read_json :: "environment \<Rightarrow> string \<Rightarrow> pyval res" where
  "read_json env f = (case dict_get (env_files env) f of
       None \<Rightarrow> Inl (no_such_file f)
     | Some (JsonFile v) \<Rightarrow> Inr v
     | Some (TextFile t) \<Rightarrow> json_loads (env_runtime env) t
     | Some (IniFile _) \<Rightarrow> raise_exc ''JSONDecodeError'' ''Expecting value'')"

text \<open>\<open>os.environ[name]\<close>.\<close>

definition get_environ :: "environment \<Rightarrow> string \<Rightarrow> string res" where
  "get_environ env n = dict_index (env_vars env) n"

section \<open>Reading\<close>

definition load_cluster_config_json :: "environment \<Rightarrow> string \<Rightarrow> pyval res" where
  "load_cluster_config_json env cluster_config =
     (let f = (if \<not> contains_str cluster_config ''.json'' then cluster_config @ ''.json''
               else cluster_config)
      in read_json env f)"

text \<open>\<open>cluster["environment"][prop]\<close>.\<close>

definition env_prop :: "environment \<Rightarrow> string \<Rightarrow> string \<Rightarrow> pyval res" where
  "env_prop env cluster_config prop =
     bindR (load_cluster_config_json env cluster_config)
       (\<lambda>cluster. bindR (py_item cluster ''environment'') (\<lambda>e. py_item e prop))"

text \<open>The same inside \<open>try ... except KeyError: return False\<close>; the file is loaded before the \<open>try\<close>.\<close>

definition env_prop_or_false :: "environment \<Rightarrow> string \<Rightarrow> string \<Rightarrow> pyval res" where
  "env_prop_or_false env cluster_config prop =
     bindR (load_cluster_config_json env cluster_config)
       (\<lambda>cluster. case bindR (py_item cluster ''environment'') (\<lambda>e. py_item e prop) of
           Inr v \<Rightarrow> Inr v
         | Inl e \<Rightarrow> if exn_class e = ''KeyError'' then Inr (PBool False) else Inl e)"

definition is_cbs_ssl_enabled :: "environment \<Rightarrow> string \<Rightarrow> pyval res" where
  "is_cbs_ssl_enabled env cc = env_prop env cc ''cbs_ssl_enabled''"

definition is_x509_auth :: "environment \<Rightarrow> string \<Rightarrow> pyval res" where
  "is_x509_auth env cc = env_prop env cc ''x509_certs''"

text \<open>\<open>[node["ip"] for node in cluster[grp]]\<close>.\<close>

definition group_ips :: "pyval \<Rightarrow> string \<Rightarrow> pyval list res" where
  "group_ips cluster grp =
     bindR (py_item cluster grp) (\<lambda>nodes. bindR (as_list nodes) (mapR (\<lambda>n. py_item n ''ip'')))"

definition get_cbs_servers :: "environment \<Rightarrow> string \<Rightarrow> pyval list res" where
  "get_cbs_servers env cc =
     bindR (load_cluster_config_json env cc) (\<lambda>cluster. group_ips cluster ''couchbase_servers'')"

definition is_xattrs_enabled :: "environment \<Rightarrow> string \<Rightarrow> pyval res" where
  "is_xattrs_enabled env cc = env_prop env cc ''xattrs_enabled''"

definition is_load_balancer_enabled :: "environment \<Rightarrow> string \<Rightarrow> pyval res" where
  "is_load_balancer_enabled env cc = env_prop env cc ''sg_lb_enabled''"

definition get_load_balancer_ip :: "environment \<Rightarrow> string \<Rightarrow> pyval res" where
  "get_load_balancer_ip env cc =
     bindR (load_cluster_config_json env cc)
       (\<lambda>cluster. bindR (py_item cluster ''load_balancers'')
         (\<lambda>lbs. bindR (as_list lbs)
           (\<lambda>xs. case xs of [] \<Rightarrow> raise_exc ''IndexError'' ''list index out of range''
                 | x # _ \<Rightarrow> py_item x ''ip'')))"

definition get_sg_replicas :: "environment \<Rightarrow> string \<Rightarrow> pyval res" where
  "get_sg_replicas env cc = env_prop env cc ''number_replicas''"

definition get_sg_use_views :: "environment \<Rightarrow> string \<Rightarrow> pyval res" where
  "get_sg_use_views env cc = env_prop env cc ''sg_use_views''"

definition is_ipv6 :: "environment \<Rightarrow> string \<Rightarrow> pyval res" where
  "is_ipv6 env cc = env_prop env cc ''ipv6_enabled''"

definition get_cbs_primary_nodes_str :: "environment \<Rightarrow> string \<Rightarrow> string \<Rightarrow> string res" where
  "get_cbs_primary_nodes_str env cc cbs_nodes =
     bindR (is_ipv6 env cc) (\<lambda>v6. Inr
       (if py_truth v6 then
          (if CHR '','' \<in> set cbs_nodes then
             rstrip_chars '','' (foldl (\<lambda>node_str node. node_str @ ''['' @ node @ ''],'') []
                                   (split_chr CHR '','' cbs_nodes))
           else ''['' @ cbs_nodes @ '']'')
        else cbs_nodes))"

definition get_sg_version :: "environment \<Rightarrow> string \<Rightarrow> pyval res" where
  "get_sg_version env cc = env_prop env cc ''sync_gateway_version''"

definition get_cbs_version :: "environment \<Rightarrow> string \<Rightarrow> pyval res" where
  "get_cbs_version env cc = env_prop env cc ''server_version''"

definition no_conflicts_enabled :: "environment \<Rightarrow> string \<Rightarrow> pyval res" where
  "no_conflicts_enabled env cc = env_prop_or_false env cc ''no_conflicts_enabled''"

definition sg_ssl_enabled :: "environment \<Rightarrow> string \<Rightarrow> pyval res" where
  "sg_ssl_enabled env cc = env_prop_or_false env cc ''sync_gateway_ssl''"

definition get_revs_limit :: "environment \<Rightarrow> string \<Rightarrow> pyval res" where
  "get_revs_limit env cc = env_prop env cc ''revs_limit''"

definition get_redact_level :: "environment \<Rightarrow> string \<Rightarrow> pyval res" where
  "get_redact_level env cc = env_prop env cc ''redactlevel''"

definition get_sg_platform :: "environment \<Rightarrow> string \<Rightarrow> pyval res" where
  "get_sg_platform env cc = env_prop env cc ''sg_platform''"

definition is_delta_sync_enabled :: "environment \<Rightarrow> string \<Rightarrow> pyval res" where
  "is_delta_sync_enabled env cc = env_prop_or_false env cc ''delta_sync_enabled''"

definition is_cbs_ce_enabled :: "environment \<Rightarrow> string \<Rightarrow> pyval res" where
  "is_cbs_ce_enabled env cc = env_prop_or_false env cc ''cbs_ce''"

definition is_magma_enabled :: "environment \<Rightarrow> string \<Rightarrow> pyval res" where
  "is_magma_enabled env cc = env_prop_or_false env cc ''magma_storage_enabled''"

definition is_load_balancer_with_two_clusters_enabled :: "environment \<Rightarrow> string \<Rightarrow> pyval res" where
  "is_load_balancer_with_two_clusters_enabled env cc = env_prop_or_false env cc ''two_sg_cluster_lb_enabled''"

definition is_hide_prod_version_enabled :: "environment \<Rightarrow> string \<Rightarrow> pyval res" where
  "is_hide_prod_version_enabled env cc = env_prop_or_false env cc ''hide_product_version''"

definition is_centralized_persistent_config_disabled :: "environment \<Rightarrow> string \<Rightarrow> pyval res" where
  "is_centralized_persistent_config_disabled env cc = env_prop_or_false env cc ''disable_persistent_config''"

definition is_server_tls_skip_verify_enabled :: "environment \<Rightarrow> string \<Rightarrow> pyval res" where
  "is_server_tls_skip_verify_enabled env cc = env_prop_or_false env cc ''server_tls_skip_verify''"

definition is_tls_server_disabled :: "environment \<Rightarrow> string \<Rightarrow> pyval res" where
  "is_tls_server_disabled env cc = env_prop_or_false env cc ''disable_tls_server''"

definition is_admin_auth_disabled :: "environment \<Rightarrow> string \<Rightarrow> pyval res" where
  "is_admin_auth_disabled env cc = env_prop_or_false env cc ''disable_admin_auth''"

definition is_sgw_ce_enabled :: "environment \<Rightarrow> string \<Rightarrow> pyval res" where
  "is_sgw_ce_enabled env cc = env_prop_or_false env cc ''sg_ce''"

definition choose_logging_level :: "environment \<Rightarrow> string \<Rightarrow> string res" where
  "choose_logging_level env cc =
     bindR (env_prop_or_false env cc ''trace_logs'') (\<lambda>trace_logs. Inr
       (if py_truth trace_logs then
          dq ''logging'' @ '': {'' @ dq ''console'' @ '': {'' @ dq ''log_level'' @ '': '' @ dq ''trace'' @
          ''}, '' @ dq ''debug'' @ '': {'' @ dq ''enabled'' @ '': true}, '' @
          dq ''trace'' @ '': {'' @ dq ''enabled'' @ '': true}''
        else dq ''logging'' @ '': {'' @ dq ''debug'' @ '': {'' @ dq ''enabled'' @ '': true}''))"

section \<open>Writing\<close>

definition valid_props :: "string list" where
  "valid_props = [''cbs_ssl_enabled'', ''xattrs_enabled'', ''sg_lb_enabled'', ''sync_gateway_version'',
     ''server_version'', ''no_conflicts_enabled'', ''sync_gateway_ssl'', ''sg_use_views'',
     ''number_replicas'', ''delta_sync_enabled'', ''x509_certs'', ''hide_product_version'',
     ''cbs_developer_preview'', ''disable_persistent_config'', ''server_tls_skip_verify'',
     ''disable_tls_server'', ''disable_admin_auth'', ''trace_logs'']"

text \<open>\<open>config.read(f)\<close> ignores a missing file; \<open>config.set\<close> needs the section.\<close>

definition read_ini :: "environment \<Rightarrow> string \<Rightarrow> (string, (string, string) dict) dict" where
  "read_ini env f = (case dict_get (env_files env) f of Some (IniFile s) \<Rightarrow> s | _ \<Rightarrow> [])"

definition ini_set ::
  "(string, (string, string) dict) dict \<Rightarrow> string \<Rightarrow> string \<Rightarrow> string \<Rightarrow> (string, (string, string) dict) dict res" where
  "ini_set s sec opt v = (case dict_get s sec of
       None \<Rightarrow> raise_exc ''NoSectionError'' (''No section: '' @ repr_str sec)
     | Some d \<Rightarrow> Inr (dict_set s sec (dict_set d (py_lower opt) v)))"

definition write_file :: "environment \<Rightarrow> string \<Rightarrow> file_content \<Rightarrow> environment" where
  "write_file env f c = env\<lparr>env_files := dict_set (env_files env) f c\<rparr>"

text \<open>
  \<open>persist_cluster_config_environment_prop\<close>. The JSON file is written before the inventory
  file, so a missing section leaves the first of the two changed; the state is returned with
  the outcome.
\<close>

definition persist_cluster_config_environment_prop ::
  "string \<Rightarrow> string \<Rightarrow> pyval \<Rightarrow> bool \<Rightarrow> (environment, unit) io" where
  "persist_cluster_config_environment_prop cluster_config property_name v property_name_check env =
     (if property_name_check \<and> property_name \<notin> set valid_props then
        (raise_exc ''ProvisioningError''
           (''Make sure the property you are trying to change is one of: '' @
            py_str (env_runtime env) (PList (map PStr valid_props))), env)
      else (case bindR (read_json env (cluster_config @ ''.json''))
                   (\<lambda>cluster. bindR (as_dict cluster)
                     (\<lambda>c. bindR (dict_index c ''environment'')
                       (\<lambda>e. bindR (as_dict e)
                         (\<lambda>ed. Inr (PDict (dict_set c ''environment'' (PDict (dict_set ed property_name v)))))))) of
          Inl e \<Rightarrow> (Inl e, env)
        | Inr cluster' \<Rightarrow>
            (let env1 = write_file env (cluster_config @ ''.json'') (JsonFile cluster')
             in case ini_set (read_ini env1 cluster_config) ''environment'' property_name
                       (py_str (env_runtime env) v) of
                  Inl e \<Rightarrow> (Inl e, env1)
                | Inr s \<Rightarrow> (Inr (), write_file env1 cluster_config (IniFile s)))))"

section \<open>What a written property reads as\<close>

lemma dict_get_write [simp]:
  "dict_get (env_files (write_file env f c)) g = (if g = f then Some c else dict_get (env_files env) g)"
  by (simp add: write_file_def dict_get_def)

lemma append_json_neq [simp]: "c @ ''.json'' \<noteq> c"
  by simp

lemma contains_self_json: "contains_str (c @ ''.json'') ''.json''"
  by (auto simp: contains_str_iff)

lemma persist_files:
  assumes "persist_cluster_config_environment_prop cc p v chk env = (Inr (), env')"
  obtains c ed s where
    "read_json env (cc @ ''.json'') = Inr (PDict c)" "map_of c ''environment'' = Some (PDict ed)"
    "dict_get (env_files env') (cc @ ''.json'') =
       Some (JsonFile (PDict (dict_set c ''environment'' (PDict (dict_set ed p v)))))"
    "dict_get (env_files env') cc = Some (IniFile s)"
    "\<exists>d. dict_get (read_ini env cc) ''environment'' = Some d \<and>
         s = dict_set (read_ini env cc) ''environment'' (dict_set d (py_lower p) (py_str (env_runtime env) v))"
    "env_runtime env' = env_runtime env"
    "\<And>f. f \<noteq> cc \<Longrightarrow> f \<noteq> cc @ ''.json'' \<Longrightarrow> dict_get (env_files env') f = dict_get (env_files env) f"
proof -
  have ini: "read_ini (write_file env (cc @ ''.json'') x) cc = read_ini env cc" for x
    by (simp add: read_ini_def write_file_def dict_get_def)
  from assms obtain c ed s where 1: "read_json env (cc @ ''.json'') = Inr (PDict c)"
      "dict_index c ''environment'' = Inr (PDict ed)"
    and 2: "ini_set (read_ini env cc) ''environment'' p (py_str (env_runtime env) v) = Inr s"
    and 3: "env' = write_file (write_file env (cc @ ''.json'')
              (JsonFile (PDict (dict_set c ''environment'' (PDict (dict_set ed p v)))))) cc (IniFile s)"
    by (auto simp: persist_cluster_config_environment_prop_def as_dict_def bindR_def ini Let_def
        split: if_splits sum.splits pyval.splits)
  show ?thesis
  proof (rule that [OF 1(1)])
    show "map_of c ''environment'' = Some (PDict ed)" using 1(2) by (simp add: dict_index_Inr)
    show "\<exists>d. dict_get (read_ini env cc) ''environment'' = Some d \<and>
         s = dict_set (read_ini env cc) ''environment'' (dict_set d (py_lower p) (py_str (env_runtime env) v))"
      using 2 by (auto simp: ini_set_def split: option.splits)
  qed (use 3 in \<open>simp_all add: write_file_def dict_get_def\<close>)
qed

lemma persist_env_prop:
  assumes "persist_cluster_config_environment_prop cc p v chk env = (Inr (), env')"
    and "\<not> contains_str cc ''.json''"
  shows "env_prop env' cc q = (if q = p then Inr v else env_prop env cc q)"
proof -
  from assms(1) obtain c ed where "read_json env (cc @ ''.json'') = Inr (PDict c)"
      "map_of c ''environment'' = Some (PDict ed)"
      "dict_get (env_files env') (cc @ ''.json'') =
         Some (JsonFile (PDict (dict_set c ''environment'' (PDict (dict_set ed p v)))))"
    by (rule persist_files)
  then show ?thesis
    using assms(2)
    by (auto simp: env_prop_def load_cluster_config_json_def read_json_def dict_index_def)
qed

section \<open>Properties\<close>


definition sample_env :: environment where
  "sample_env = \<lparr>env_vars = [(''CLUSTER_CONFIG'', ''res/c1'')],
     env_files = [(''res/c1.json'', JsonFile (PDict [(''environment'', PDict [(''x509_certs'', PBool False),
                     (''sync_gateway_ssl'', PBool True)]),
                     (''couchbase_servers'', PList [PDict [(''ip'', PStr ''10.0.0.1'')], PDict [(''ip'', PStr ''10.0.0.2'')]])])),
                  (''res/c1'', IniFile [(''environment'', [(''x509_certs'', ''False'')])])],
     env_runtime = \<lparr>rt_float_str = (\<lambda>_. []), rt_float_of = (\<lambda>_. None), rt_obj_str = (\<lambda>_. [])\<rparr>\<rparr>"


text \<open>
  A property that is not one of the known names is refused, and nothing is written, when the
  name is checked.
\<close>

theorem persist_refuses_unknown:
  assumes "p \<notin> set valid_props"
  shows "\<exists>e. persist_cluster_config_environment_prop cc p v True env = (Inl e, env) \<and> exn_class e = ''ProvisioningError''"
  using assms by (simp add: persist_cluster_config_environment_prop_def)

theorem persist_refuses_unknown_witness:
  "\<exists>e. persist_cluster_config_environment_prop ''res/c1'' ''sg_ssl'' (PBool True) True sample_env = (Inl e, sample_env)
     \<and> exn_class e = ''ProvisioningError''"
  by (rule persist_refuses_unknown) code_simp

end
