(* ===== verification/Cbl_Replication.thy ===== *)
theory Cbl_Replication
  imports Rpc_Refinement Cluster_Config
begin

text \<open>
  The replication classes of \<open>CBLClient\<close>: authenticators, \<open>ReplicatorCallback\<close>,
  \<open>ReplicatorConfiguration\<close>, \<open>Replication\<close> with its polling loops, \<open>PeerToPeer\<close>, \<open>FileLogging\<close>
  and \<open>Utils\<close>.
\<close>

section \<open>Authenticator\<close>

definition Authenticator_basicAuthenticator_create :: "'w client \<Rightarrow> pyval \<Rightarrow> pyval \<Rightarrow> ('w, pyval) io" where
  "Authenticator_basicAuthenticator_create cl username password =
     call cl ''basicAuthenticator_create''
       [setString (client_runtime cl) ''username'' username,
        setString (client_runtime cl) ''password'' password]"

definition Authenticator_basicAuthenticator_getPassword :: "'w client \<Rightarrow> pyval \<Rightarrow> ('w, pyval) io" where
  "Authenticator_basicAuthenticator_getPassword cl authenticator =
     call cl ''basicAuthenticator_getPassword'' [setMemoryPointer ''authenticator'' authenticator]"

definition Authenticator_basicAuthenticator_getUsername :: "'w client \<Rightarrow> pyval \<Rightarrow> ('w, pyval) io" where
  "Authenticator_basicAuthenticator_getUsername cl authenticator =
     call cl ''basicAuthenticator_getUsername'' [setMemoryPointer ''authenticator'' authenticator]"

definition Authenticator_sessionAuthenticator_create :: "'w client \<Rightarrow> pyval \<Rightarrow> pyval \<Rightarrow> ('w, pyval) io" where
  "Authenticator_sessionAuthenticator_create cl session_id cookie_name =
     call cl ''sessionAuthenticator_create''
       [setString (client_runtime cl) ''sessionId'' session_id,
        setString (client_runtime cl) ''cookieName'' cookie_name]"

definition Authenticator_sessionAuthenticator_getSessionId :: "'w client \<Rightarrow> pyval \<Rightarrow> ('w, pyval) io" where
  "Authenticator_sessionAuthenticator_getSessionId cl session =
     call cl ''sessionAuthenticator_getSessionId'' [setMemoryPointer ''session'' session]"

definition Authenticator_sessionAuthenticator_getCookieName :: "'w client \<Rightarrow> pyval \<Rightarrow> ('w, pyval) io" where
  "Authenticator_sessionAuthenticator_getCookieName cl session =
     call cl ''sessionAuthenticator_getCookieName'' [setMemoryPointer ''session'' session]"

section \<open>BasicAuthenticator\<close>

definition BasicAuthenticator_create :: "'w client \<Rightarrow> pyval \<Rightarrow> pyval \<Rightarrow> ('w, pyval) io" where
  "BasicAuthenticator_create cl username password =
     call cl ''basicAuthenticator_create''
       [setString (client_runtime cl) ''username'' username,
        setString (client_runtime cl) ''password'' password]"

definition BasicAuthenticator_getPassword :: "'w client \<Rightarrow> pyval \<Rightarrow> ('w, pyval) io" where
  "BasicAuthenticator_getPassword cl authenticator =
     call cl ''basicAuthenticator_getPassword'' [setMemoryPointer ''authenticator'' authenticator]"

definition BasicAuthenticator_getUsername :: "'w client \<Rightarrow> pyval \<Rightarrow> ('w, pyval) io" where
  "BasicAuthenticator_getUsername cl authenticator =
     call cl ''basicAuthenticator_getUsername'' [setMemoryPointer ''authenticator'' authenticator]"

section \<open>SessionAuthenticator\<close>

definition SessionAuthenticator_create :: "'w client \<Rightarrow> pyval \<Rightarrow> pyval \<Rightarrow> pyval \<Rightarrow> ('w, pyval) io" where
  "SessionAuthenticator_create cl session_id expires cookie_name =
     call cl ''sessionAuthenticator_create''
       [setString (client_runtime cl) ''sessionId'' session_id,
        setString (client_runtime cl) ''cookieName'' cookie_name,
        setLong (client_runtime cl) ''expires'' expires]"

definition SessionAuthenticator_getSessionId :: "'w client \<Rightarrow> pyval \<Rightarrow> ('w, pyval) io" where
  "SessionAuthenticator_getSessionId cl session =
     call cl ''sessionAuthenticator_getSessionId'' [setMemoryPointer ''session'' session]"

definition SessionAuthenticator_getCookieName :: "'w client \<Rightarrow> pyval \<Rightarrow> ('w, pyval) io" where
  "SessionAuthenticator_getCookieName cl session =
     call cl ''sessionAuthenticator_getCookieName'' [setMemoryPointer ''session'' session]"

definition SessionAuthenticator_getExpires :: "'w client \<Rightarrow> pyval \<Rightarrow> ('w, pyval) io" where
  "SessionAuthenticator_getExpires cl session =
     call cl ''sessionAuthenticator_getExpires'' [setMemoryPointer ''session'' session]"

section \<open>ListenerAuthenticator\<close>

definition ListenerAuthenticator_create :: "'w client \<Rightarrow> pyval \<Rightarrow> pyval \<Rightarrow> ('w, pyval) io" where
  "ListenerAuthenticator_create cl username password =
     call cl ''listenerAuthenticator_create''
       [setString (client_runtime cl) ''username'' username,
        setString (client_runtime cl) ''password'' password]"

definition ListenerAuthenticator_listenerCertificateAuthenticator_create :: "'w client \<Rightarrow> ('w, pyval) io" where
  "ListenerAuthenticator_listenerCertificateAuthenticator_create cl =
     call cl ''listenerCertificateAuthenticator_create'' []"

section \<open>ReplicatorCallback\<close>

definition ReplicatorCallback_createEncryptor :: "'w client \<Rightarrow> pyval \<Rightarrow> pyval \<Rightarrow> ('w, pyval) io" where
  "ReplicatorCallback_createEncryptor cl algo key =
     call cl ''encryptable_createEncryptor''
       [setString (client_runtime cl) ''algo'' algo,
        setString (client_runtime cl) ''key'' key]"

definition ReplicatorCallback_get_encryptable_value :: "'w client \<Rightarrow> pyval \<Rightarrow> ('w, pyval) io" where
  "ReplicatorCallback_get_encryptable_value cl encryptable_value =
     call cl ''encryptable_getEncryptableValue'' [setString (client_runtime cl) ''encryptableValue'' encryptable_value]"

definition ReplicatorCallback_set_encryptable_value :: "'w client \<Rightarrow> pyval \<Rightarrow> ('w, pyval) io" where
  "ReplicatorCallback_set_encryptable_value cl encryptable_value =
     call cl ''encryptable_setEncryptableValue'' [setMemoryPointer ''encryptedValue'' encryptable_value]"

definition ReplicatorCallback_is_encryptable_value :: "'w client \<Rightarrow> pyval \<Rightarrow> ('w, pyval) io" where
  "ReplicatorCallback_is_encryptable_value cl encryptable_value =
     call cl ''encryptable_isEncryptableValue'' [setString (client_runtime cl) ''encryptableValue'' encryptable_value]"

section \<open>ReplicatorConfiguration\<close>

definition ReplicatorConfiguration_create :: "'w client \<Rightarrow> pyval \<Rightarrow> ('w, pyval) io" where
  "ReplicatorConfiguration_create cl replicatorBuilder =
     call cl ''replicatorConfiguration_create'' [setMemoryPointer ''replicatorBuilder'' replicatorBuilder]"

definition ReplicatorConfiguration_copy :: "'w client \<Rightarrow> pyval \<Rightarrow> ('w, pyval) io" where
  "ReplicatorConfiguration_copy cl configuration =
     call cl ''replicatorConfiguration_copy'' [setMemoryPointer ''configuration'' configuration]"

definition ReplicatorConfiguration_getAuthenticator :: "'w client \<Rightarrow> pyval \<Rightarrow> ('w, pyval) io" where
  "ReplicatorConfiguration_getAuthenticator cl configuration =
     call cl ''replicatorConfiguration_getAuthenticator'' [setMemoryPointer ''configuration'' configuration]"

definition ReplicatorConfiguration_getChannels :: "'w client \<Rightarrow> pyval \<Rightarrow> ('w, pyval) io" where
  "ReplicatorConfiguration_getChannels cl configuration =
     call cl ''replicatorConfiguration_getChannels'' [setMemoryPointer ''configuration'' configuration]"

definition ReplicatorConfiguration_getConflictResolver :: "'w client \<Rightarrow> pyval \<Rightarrow> ('w, pyval) io" where
  "ReplicatorConfiguration_getConflictResolver cl configuration =
     call cl ''replicatorConfiguration_getConflictResolver'' [setMemoryPointer ''configuration'' configuration]"

definition ReplicatorConfiguration_getDatabase :: "'w client \<Rightarrow> pyval \<Rightarrow> ('w, pyval) io" where
  "ReplicatorConfiguration_getDatabase cl configuration =
     call cl ''replicatorConfiguration_getDatabase'' [setMemoryPointer ''configuration'' configuration]"

definition ReplicatorConfiguration_getDocumentIDs :: "'w client \<Rightarrow> pyval \<Rightarrow> ('w, pyval) io" where
  "ReplicatorConfiguration_getDocumentIDs cl configuration =
     call cl ''replicatorConfiguration_getDocumentIDs'' [setMemoryPointer ''configuration'' configuration]"

definition ReplicatorConfiguration_getPinnedServerCertificate :: "'w client \<Rightarrow> pyval \<Rightarrow> ('w, pyval) io" where
  "ReplicatorConfiguration_getPinnedServerCertificate cl configuration =
     call cl ''replicatorConfiguration_getPinnedServerCertificate'' [setMemoryPointer ''configuration'' configuration]"

definition ReplicatorConfiguration_getReplicatorType :: "'w client \<Rightarrow> pyval \<Rightarrow> ('w, pyval) io" where
  "ReplicatorConfiguration_getReplicatorType cl configuration =
     call cl ''replicatorConfiguration_getReplicatorType'' [setMemoryPointer ''configuration'' configuration]"

definition ReplicatorConfiguration_getTarget :: "'w client \<Rightarrow> pyval \<Rightarrow> ('w, pyval) io" where
  "ReplicatorConfiguration_getTarget cl configuration =
     call cl ''replicatorConfiguration_getTarget'' [setMemoryPointer ''configuration'' configuration]"

definition ReplicatorConfiguration_isContinuous :: "'w client \<Rightarrow> pyval \<Rightarrow> ('w, pyval) io" where
  "ReplicatorConfiguration_isContinuous cl configuration =
     call cl ''replicatorConfiguration_isContinuous'' [setMemoryPointer ''configuration'' configuration]"

definition ReplicatorConfiguration_setAuthenticator :: "'w client \<Rightarrow> pyval \<Rightarrow> pyval \<Rightarrow> ('w, pyval) io" where
  "ReplicatorConfiguration_setAuthenticator cl replicator_builder authenticator =
     call cl ''replicatorConfiguration_setAuthenticator''
       [setMemoryPointer ''replicatorBuilder'' replicator_builder,
        setMemoryPointer ''authenticator'' authenticator]"

definition ReplicatorConfiguration_setChannels :: "'w client \<Rightarrow> pyval \<Rightarrow> pyval \<Rightarrow> ('w, pyval) io" where
  "ReplicatorConfiguration_setChannels cl replicator_builder channels =
     call cl ''replicatorConfiguration_setChannels''
       [setMemoryPointer ''replicatorBuilder'' replicator_builder,
        setArray ''channels'' channels]"

definition ReplicatorConfiguration_setConflictResolver :: "'w client \<Rightarrow> pyval \<Rightarrow> pyval \<Rightarrow> ('w, pyval) io" where
  "ReplicatorConfiguration_setConflictResolver cl replicator_builder conflict_resolver =
     call cl ''replicatorConfiguration_setConflictResolver''
       [setMemoryPointer ''replicatorBuilder'' replicator_builder,
        setMemoryPointer ''conflictResolver'' conflict_resolver]"

definition ReplicatorConfiguration_setContinuous :: "'w client \<Rightarrow> pyval \<Rightarrow> pyval \<Rightarrow> ('w, pyval) io" where
  "ReplicatorConfiguration_setContinuous cl replicator_builder continuous' =
     call cl ''replicatorConfiguration_setContinuous''
       [setMemoryPointer ''replicatorBuilder'' replicator_builder,
        setBoolean ''continuous'' continuous']"

definition ReplicatorConfiguration_setDocumentIDs :: "'w client \<Rightarrow> pyval \<Rightarrow> pyval \<Rightarrow> ('w, pyval) io" where
  "ReplicatorConfiguration_setDocumentIDs cl replicator_builder document_ids =
     call cl ''replicatorConfiguration_setDocumentIDs''
       [setMemoryPointer ''replicatorBuilder'' replicator_builder,
        setArray ''documentIds'' document_ids]"

definition ReplicatorConfiguration_setPinnedServerCertificate :: "'w client \<Rightarrow> pyval \<Rightarrow> pyval \<Rightarrow> ('w, pyval) io" where
  "ReplicatorConfiguration_setPinnedServerCertificate cl replicator_builder cert =
     call cl ''replicatorConfiguration_setPinnedServerCertificate''
       [setMemoryPointer ''replicatorBuilder'' replicator_builder,
        setArray ''cert'' cert]"

definition ReplicatorConfiguration_setReplicatorType :: "'w client \<Rightarrow> pyval \<Rightarrow> pyval \<Rightarrow> ('w, pyval) io" where
  "ReplicatorConfiguration_setReplicatorType cl replicator_builder repl_type =
     call cl ''replicatorConfiguration_setReplicatorType''
       [setMemoryPointer ''replicatorBuilder'' replicator_builder,
        setMemoryPointer ''replType'' repl_type]"

section \<open>Replication\<close>

definition Replication_getAuthenticator :: "'w client \<Rightarrow> pyval \<Rightarrow> ('w, pyval) io" where
  "Replication_getAuthenticator cl configuration =
     call cl ''replicatorConfiguration_getAuthenticator'' [setMemoryPointer ''configuration'' configuration]"

definition Replication_getChannels :: "'w client \<Rightarrow> pyval \<Rightarrow> ('w, pyval) io" where
  "Replication_getChannels cl configuration =
     call cl ''replicatorConfiguration_getChannels'' [setMemoryPointer ''configuration'' configuration]"

definition Replication_getConflictResolver :: "'w client \<Rightarrow> pyval \<Rightarrow> ('w, pyval) io" where
  "Replication_getConflictResolver cl configuration =
     call cl ''replicatorConfiguration_getConflictResolver'' [setMemoryPointer ''configuration'' configuration]"

definition Replication_getDatabase :: "'w client \<Rightarrow> pyval \<Rightarrow> ('w, pyval) io" where
  "Replication_getDatabase cl configuration =
     call cl ''replicatorConfiguration_getDatabase'' [setMemoryPointer ''configuration'' configuration]"

definition Replication_getDocumentIDs :: "'w client \<Rightarrow> pyval \<Rightarrow> ('w, pyval) io" where
  "Replication_getDocumentIDs cl configuration =
     call cl ''replicatorConfiguration_getDocumentIDs'' [setMemoryPointer ''configuration'' configuration]"

definition Replication_getPinnedServerCertificate :: "'w client \<Rightarrow> pyval \<Rightarrow> ('w, pyval) io" where
  "Replication_getPinnedServerCertificate cl configuration =
     call cl ''replicatorConfiguration_getPinnedServerCertificate'' [setMemoryPointer ''configuration'' configuration]"

definition Replication_getReplicatorType :: "'w client \<Rightarrow> pyval \<Rightarrow> ('w, pyval) io" where
  "Replication_getReplicatorType cl configuration =
     call cl ''replicatorConfiguration_getReplicatorType'' [setMemoryPointer ''configuration'' configuration]"

definition Replication_getTarget :: "'w client \<Rightarrow> pyval \<Rightarrow> ('w, pyval) io" where
  "Replication_getTarget cl configuration =
     call cl ''replicatorConfiguration_getTarget'' [setMemoryPointer ''configuration'' configuration]"

definition Replication_isContinuous :: "'w client \<Rightarrow> pyval \<Rightarrow> ('w, pyval) io" where
  "Replication_isContinuous cl configuration =
     call cl ''replicatorConfiguration_isContinuous'' [setMemoryPointer ''configuration'' configuration]"

definition Replication_setAuthenticator :: "'w client \<Rightarrow> pyval \<Rightarrow> pyval \<Rightarrow> ('w, pyval) io" where
  "Replication_setAuthenticator cl configuration authenticator =
     call cl ''replicatorConfiguration_setAuthenticator''
       [setMemoryPointer ''configuration'' configuration,
        setMemoryPointer ''authenticator'' authenticator]"

definition Replication_setChannels :: "'w client \<Rightarrow> pyval \<Rightarrow> pyval \<Rightarrow> ('w, pyval) io" where
  "Replication_setChannels cl configuration channels =
     call cl ''replicatorConfiguration_setChannels''
       [setMemoryPointer ''configuration'' configuration,
        setArray ''channels'' channels]"

definition Replication_setConflictResolver :: "'w client \<Rightarrow> pyval \<Rightarrow> pyval \<Rightarrow> ('w, pyval) io" where
  "Replication_setConflictResolver cl configuration conflict_resolver =
     call cl ''replicatorConfiguration_setConflictResolver''
       [setMemoryPointer ''configuration'' configuration,
        setMemoryPointer ''conflictResolver'' conflict_resolver]"

definition Replication_setContinuous :: "'w client \<Rightarrow> pyval \<Rightarrow> pyval \<Rightarrow> ('w, pyval) io" where
  "Replication_setContinuous cl configuration continuous' =
     call cl ''replicatorConfiguration_setContinuous''
       [setMemoryPointer ''configuration'' configuration,
        setBoolean ''continuous'' continuous']"

definition Replication_setDocumentIDs :: "'w client \<Rightarrow> pyval \<Rightarrow> pyval \<Rightarrow> ('w, pyval) io" where
  "Replication_setDocumentIDs cl configuration document_ids =
     call cl ''replicatorConfiguration_setDocumentIDs''
       [setMemoryPointer ''configuration'' configuration,
        setArray ''documentIds'' document_ids]"

definition Replication_setPinnedServerCertificate :: "'w client \<Rightarrow> pyval \<Rightarrow> pyval \<Rightarrow> ('w, pyval) io" where
  "Replication_setPinnedServerCertificate cl configuration cert =
     call cl ''replicatorConfiguration_setPinnedServerCertificate''
       [setMemoryPointer ''configuration'' configuration,
        setArray ''cert'' cert]"

definition Replication_setReplicatorType :: "'w client \<Rightarrow> pyval \<Rightarrow> pyval \<Rightarrow> ('w, pyval) io" where
  "Replication_setReplicatorType cl configuration repl_type =
     call cl ''replicatorConfiguration_setReplicatorType''
       [setMemoryPointer ''configuration'' configuration,
        setMemoryPointer ''replType'' repl_type]"

definition Replication_setAutoPurgeFlag :: "'w client \<Rightarrow> pyval \<Rightarrow> pyval \<Rightarrow> ('w, pyval) io" where
  "Replication_setAutoPurgeFlag cl configuration auto_purge_flag =
     call cl ''replicatorConfiguration_setAutoPurge''
       [setMemoryPointer ''configuration'' configuration,
        setBoolean ''auto_purge'' auto_purge_flag]"

definition Replication_create :: "'w client \<Rightarrow> pyval \<Rightarrow> ('w, pyval) io" where
  "Replication_create cl config =
     call cl ''replicator_create'' [setMemoryPointer ''config'' config]"

definition Replication_getConfig :: "'w client \<Rightarrow> pyval \<Rightarrow> ('w, pyval) io" where
  "Replication_getConfig cl replicator =
     call cl ''replicator_config'' [setMemoryPointer ''replicator'' replicator]"

definition Replication_addReplicatorEventChangeListener :: "'w client \<Rightarrow> pyval \<Rightarrow> ('w, pyval) io" where
  "Replication_addReplicatorEventChangeListener cl replicator =
     call cl ''replicator_addReplicatorEventChangeListener'' [setMemoryPointer ''replicator'' replicator]"

definition Replication_removeReplicatorEventListener :: "'w client \<Rightarrow> pyval \<Rightarrow> pyval \<Rightarrow> ('w, pyval) io" where
  "Replication_removeReplicatorEventListener cl replicator change_listener =
     call cl ''replicator_removeReplicatorEventListener''
       [setMemoryPointer ''replicator'' replicator,
        setMemoryPointer ''changeListener'' change_listener]"

definition Replication_getReplicatorEventChanges :: "'w client \<Rightarrow> pyval \<Rightarrow> ('w, pyval) io" where
  "Replication_getReplicatorEventChanges cl change_listener =
     call cl ''replicator_replicatorEventGetChanges'' [setMemoryPointer ''changeListener'' change_listener]"

definition Replication_getReplicatorEventChangesCount :: "'w client \<Rightarrow> pyval \<Rightarrow> ('w, pyval) io" where
  "Replication_getReplicatorEventChangesCount cl change_listener =
     call cl ''replicator_replicatorEventChangesCount'' [setMemoryPointer ''changeListener'' change_listener]"

definition Replication_addChangeListener :: "'w client \<Rightarrow> pyval \<Rightarrow> ('w, pyval) io" where
  "Replication_addChangeListener cl replicator =
     call cl ''replicator_addChangeListener'' [setMemoryPointer ''replicator'' replicator]"

definition Replication_removeChangeListener :: "'w client \<Rightarrow> pyval \<Rightarrow> pyval \<Rightarrow> ('w, pyval) io" where
  "Replication_removeChangeListener cl replicator change_listener =
     call cl ''replicator_removeChangeListener''
       [setMemoryPointer ''replicator'' replicator,
        setMemoryPointer ''changeListener'' change_listener]"

definition Replication_toString :: "'w client \<Rightarrow> pyval \<Rightarrow> ('w, pyval) io" where
  "Replication_toString cl replicator =
     call cl ''replicator_toString'' [setMemoryPointer ''replicator'' replicator]"

definition Replication_start :: "'w client \<Rightarrow> pyval \<Rightarrow> ('w, pyval) io" where
  "Replication_start cl replicator =
     call cl ''replicator_start'' [setMemoryPointer ''replicator'' replicator]"

definition Replication_status :: "'w client \<Rightarrow> pyval \<Rightarrow> ('w, pyval) io" where
  "Replication_status cl replicator =
     call cl ''replicator_status'' [setMemoryPointer ''replicator'' replicator]"

definition Replication_getCompleted :: "'w client \<Rightarrow> pyval \<Rightarrow> ('w, pyval) io" where
  "Replication_getCompleted cl replicator =
     call cl ''replicator_getCompleted'' [setMemoryPointer ''replicator'' replicator]"

definition Replication_getTotal :: "'w client \<Rightarrow> pyval \<Rightarrow> ('w, pyval) io" where
  "Replication_getTotal cl replicator =
     call cl ''replicator_getTotal'' [setMemoryPointer ''replicator'' replicator]"

definition Replication_getActivitylevel :: "'w client \<Rightarrow> pyval \<Rightarrow> ('w, pyval) io" where
  "Replication_getActivitylevel cl replicator =
     call cl ''replicator_getActivityLevel'' [setMemoryPointer ''replicator'' replicator]"

definition Replication_getError :: "'w client \<Rightarrow> pyval \<Rightarrow> ('w, pyval) io" where
  "Replication_getError cl replicator =
     call cl ''replicator_getError'' [setMemoryPointer ''replicator'' replicator]"

definition Replication_getChangesCount :: "'w client \<Rightarrow> pyval \<Rightarrow> ('w, pyval) io" where
  "Replication_getChangesCount cl change_listener =
     call cl ''replicator_changeListenerChangesCount'' [setMemoryPointer ''changeListener'' change_listener]"

definition Replication_getChangesChangeListener :: "'w client \<Rightarrow> pyval \<Rightarrow> ('w, pyval) io" where
  "Replication_getChangesChangeListener cl change_listener =
     call cl ''replicator_changeListenerGetChanges'' [setMemoryPointer ''changeListener'' change_listener]"

definition Replication_addCollection :: "'w client \<Rightarrow> pyval \<Rightarrow> pyval \<Rightarrow> pyval \<Rightarrow> ('w, pyval) io" where
  "Replication_addCollection cl replicationConfiguration collection collection_configuration =
     call cl ''replicatorConfiguration_addCollection''
       ([setMemoryPointer ''replicatorConfiguration'' replicationConfiguration,
         setMemoryPointer ''collections'' collection] @
        (if collection_configuration \<noteq> PNone then [setMemoryPointer ''configuration'' collection_configuration]
         else []))"

definition Replication_resetCheckPoint :: "'w client \<Rightarrow> pyval \<Rightarrow> ('w, pyval) io" where
  "Replication_resetCheckPoint cl replicator =
     call cl ''replicator_resetCheckpoint'' [setMemoryPointer ''replicator'' replicator]"

definition Replication_collectionConfigure :: "'w client \<Rightarrow> pyval \<Rightarrow> pyval \<Rightarrow> pyval \<Rightarrow> pyval \<Rightarrow> pyval \<Rightarrow> pyval \<Rightarrow> pyval \<Rightarrow> ('w, pyval) io" where
  "Replication_collectionConfigure cl conflictResolver pull_filter push_filter filter_callback_func channels documentIDs collection =
     call cl ''replicatorConfiguration_collection''
       ([setBoolean ''push_filter'' push_filter,
         setBoolean ''pull_filter'' pull_filter,
         setString (client_runtime cl) ''filter_callback_func'' filter_callback_func,
         setString (client_runtime cl) ''conflict_resolver'' conflictResolver] @
        (if channels \<noteq> PNone then [setArray ''channels'' channels]
         else []) @
        (if documentIDs \<noteq> PNone then [setArray ''documentIDs'' documentIDs]
         else []) @
        (if collection \<noteq> PNone then [setMemoryPointer ''collection'' collection]
         else []))"

section \<open>PeerToPeer\<close>

definition PeerToPeer_peer_intialize :: "'w client \<Rightarrow> pyval \<Rightarrow> pyval \<Rightarrow> pyval \<Rightarrow> pyval \<Rightarrow> ('w, pyval) io" where
  "PeerToPeer_peer_intialize cl database continuous' host port =
     call cl ''peerToPeer_initialize''
       [setMemoryPointer ''database'' database,
        setBoolean ''continuous'' continuous',
        setInt ''port'' port,
        setString (client_runtime cl) ''host'' host]"

definition PeerToPeer_start :: "'w client \<Rightarrow> pyval \<Rightarrow> ('w, pyval) io" where
  "PeerToPeer_start cl peerToPeerObj =
     call cl ''peerToPeer_start'' [setMemoryPointer ''PeerToPeerImplementation'' peerToPeerObj]"

definition PeerToPeer_stop :: "'w client \<Rightarrow> pyval \<Rightarrow> ('w, pyval) io" where
  "PeerToPeer_stop cl peerToPeerObj =
     call cl ''peerToPeer_stop'' [setMemoryPointer ''PeerToPeerImplementation'' peerToPeerObj]"

definition PeerToPeer_socket_connection :: "'w client \<Rightarrow> pyval \<Rightarrow> ('w, pyval) io" where
  "PeerToPeer_socket_connection cl port =
     call cl ''peerToPeer_socketConnection'' [setInt ''port'' port]"

definition PeerToPeer_socket_clientConnection :: "'w client \<Rightarrow> pyval \<Rightarrow> pyval \<Rightarrow> ('w, pyval) io" where
  "PeerToPeer_socket_clientConnection cl host port =
     call cl ''peerToPeer_socketClientConnection''
       [setString (client_runtime cl) ''host'' host,
        setInt ''port'' port]"

definition PeerToPeer_accept_client :: "'w client \<Rightarrow> pyval \<Rightarrow> ('w, pyval) io" where
  "PeerToPeer_accept_client cl server =
     call cl ''peerToPeer_acceptClient'' [setMemoryPointer ''server'' server]"

definition PeerToPeer_read_data_fromClient :: "'w client \<Rightarrow> pyval \<Rightarrow> ('w, pyval) io" where
  "PeerToPeer_read_data_fromClient cl socket =
     call cl ''peerToPeer_readDataFromClient'' [setInt ''socket'' socket]"

definition PeerToPeer_server_start :: "'w client \<Rightarrow> pyval \<Rightarrow> pyval \<Rightarrow> pyval \<Rightarrow> pyval \<Rightarrow> pyval \<Rightarrow> pyval \<Rightarrow> pyval \<Rightarrow> pyval \<Rightarrow> ('w, pyval) io" where
  "PeerToPeer_server_start cl database port basic_auth tls_disable tls_auth_type tls_authenticator delta_sync collections =
     call cl ''peerToPeer_serverStart''
       ([setMemoryPointer ''database'' database,
         setInt ''port'' port] @
        (if basic_auth \<noteq> PNone then [setMemoryPointer ''basic_auth'' basic_auth]
         else []) @
        (if collections \<noteq> PNone then [setArray ''collections'' collections]
         else []) @
        [setBoolean ''tls_disable'' tls_disable,
         setString (client_runtime cl) ''tls_auth_type'' tls_auth_type,
         setBoolean ''tls_authenticator'' tls_authenticator,
         setBoolean ''enable_delta_sync'' delta_sync])"

definition PeerToPeer_message_listener_start :: "'w client \<Rightarrow> pyval \<Rightarrow> pyval \<Rightarrow> ('w, pyval) io" where
  "PeerToPeer_message_listener_start cl database port =
     call cl ''peerToPeer_messageEndpointListenerStart''
       [setMemoryPointer ''database'' database,
        setInt ''port'' port]"

definition PeerToPeer_get_url_listener_port :: "'w client \<Rightarrow> pyval \<Rightarrow> ('w, pyval) io" where
  "PeerToPeer_get_url_listener_port cl url_listener =
     call cl ''peerToPeer_getListenerPort'' [setMemoryPointer ''listener'' url_listener]"

definition PeerToPeer_server_stop :: "'w client \<Rightarrow> pyval \<Rightarrow> pyval \<Rightarrow> ('w, pyval) io" where
  "PeerToPeer_server_stop cl url_listener end_point_type =
     call cl ''peerToPeer_serverStop''
       [setMemoryPointer ''listener'' url_listener,
        setString (client_runtime cl) ''endPointType'' end_point_type]"

definition PeerToPeer_configureCollection :: "'w client \<Rightarrow> pyval \<Rightarrow> pyval \<Rightarrow> pyval \<Rightarrow> pyval \<Rightarrow> pyval \<Rightarrow> pyval \<Rightarrow> pyval \<Rightarrow> pyval \<Rightarrow> ('w, pyval) io" where
  "PeerToPeer_configureCollection cl host server_db_name port continuous' replication_type endPointType collections collection_configuration =
     call cl ''peerToPeer_configureCollection''
       ([setString (client_runtime cl) ''host'' host,
         setInt ''port'' port,
         setString (client_runtime cl) ''serverDBName'' server_db_name,
         setBoolean ''tls_enable'' (PBool True)] @
        (if replication_type \<noteq> PNone then [setString (client_runtime cl) ''replicationType'' replication_type]
         else []) @
        (if continuous' \<noteq> PNone then [setBoolean ''continuous'' continuous']
         else []) @
        [setArray ''endPointType'' endPointType,
         setBoolean ''tls_disable'' (PBool True),
         setString (client_runtime cl) ''tls_auth_type'' (PStr ''tls''),
         setBoolean ''tls_authenticator'' (PBool False),
         setBoolean ''server_verification_mode'' (PBool False)] @
        (if py_truth collections then [setArray ''collections'' collections]
         else []) @
        (if py_truth collection_configuration then [setArray ''configuration'' collection_configuration]
         else []))"

definition PeerToPeer_configure :: "'w client \<Rightarrow> pyval \<Rightarrow> pyval \<Rightarrow> pyval \<Rightarrow> pyval \<Rightarrow> pyval \<Rightarrow> pyval \<Rightarrow> pyval \<Rightarrow> pyval \<Rightarrow> pyval \<Rightarrow> pyval \<Rightarrow> pyval \<Rightarrow> pyval \<Rightarrow> pyval \<Rightarrow> pyval \<Rightarrow> pyval \<Rightarrow> pyval \<Rightarrow> pyval \<Rightarrow> pyval \<Rightarrow> pyval \<Rightarrow> pyval \<Rightarrow> pyval \<Rightarrow> pyval \<Rightarrow> ('w, pyval) io" where
  "PeerToPeer_configure cl host server_db_name client_database port continuous' authenticator replication_type documentIDs endPointType basic_auth push_filter pull_filter filter_callback_func conflict_resolver tls_disable tls_auth_type tls_authenticator server_verification_mode retries max_timeout_interval collections collection_configuration =
     call cl ''peerToPeer_configure''
       ([setString (client_runtime cl) ''host'' host,
         setInt ''port'' port,
         setString (client_runtime cl) ''serverDBName'' server_db_name,
         setMemoryPointer ''database'' client_database,
         setBoolean ''push_filter'' push_filter,
         setBoolean ''pull_filter'' pull_filter,
         setString (client_runtime cl) ''filter_callback_func'' filter_callback_func,
         setString (client_runtime cl) ''conflict_resolver'' conflict_resolver,
         setBoolean ''tls_enable'' tls_disable] @
        (if authenticator \<noteq> PNone then [setMemoryPointer ''authenticator'' authenticator]
         else []) @
        (if replication_type \<noteq> PNone then [setString (client_runtime cl) ''replicationType'' replication_type]
         else []) @
        (if continuous' \<noteq> PNone then [setBoolean ''continuous'' continuous']
         else []) @
        (if documentIDs \<noteq> PNone then [setArray ''documentIDs'' documentIDs]
         else []) @
        [setArray ''endPointType'' endPointType] @
        (if basic_auth \<noteq> PNone then [setMemoryPointer ''basic_auth'' basic_auth]
         else []) @
        (if tls_disable \<noteq> PNone then [setBoolean ''tls_disable'' tls_disable]
         else []) @
        (if retries \<noteq> PNone then [setString (client_runtime cl) ''max_retries'' retries]
         else []) @
        (if max_timeout_interval \<noteq> PNone then [setString (client_runtime cl) ''max_timeout'' max_timeout_interval]
         else []) @
        [setString (client_runtime cl) ''tls_auth_type'' tls_auth_type,
         setBoolean ''tls_authenticator'' tls_authenticator,
         setBoolean ''server_verification_mode'' server_verification_mode] @
        (if py_truth collections then [setArray ''collections'' collections]
         else []) @
        (if py_truth collection_configuration then [setArray ''collection_configuration'' collection_configuration]
         else []))"

definition PeerToPeer_client_start :: "'w client \<Rightarrow> pyval \<Rightarrow> ('w, pyval) io" where
  "PeerToPeer_client_start cl replicator =
     call cl ''peerToPeer_clientStart'' [setMemoryPointer ''replicator'' replicator]"

definition PeerToPeer_client_start_mep :: "'w client \<Rightarrow> pyval \<Rightarrow> pyval \<Rightarrow> pyval \<Rightarrow> pyval \<Rightarrow> pyval \<Rightarrow> pyval \<Rightarrow> ('w, pyval) io" where
  "PeerToPeer_client_start_mep cl host server_db_name client_database continuous' authenticator replication_type =
     call cl ''peerToPeer_clientStart_mep''
       ([setString (client_runtime cl) ''host'' host,
         setString (client_runtime cl) ''serverDBName'' server_db_name,
         setMemoryPointer ''database'' client_database] @
        (if authenticator \<noteq> PNone then [setMemoryPointer ''authenticator'' authenticator]
         else []) @
        (if replication_type \<noteq> PNone then [setString (client_runtime cl) ''replication_type'' replication_type]
         else []) @
        (if continuous' \<noteq> PNone then [setBoolean ''continuous'' continuous']
         else []))"

definition PeerToPeer_addReplicatorEventChangeListener :: "'w client \<Rightarrow> pyval \<Rightarrow> ('w, pyval) io" where
  "PeerToPeer_addReplicatorEventChangeListener cl replicator =
     call cl ''peerToPeer_addReplicatorEventChangeListener'' [setMemoryPointer ''replicator'' replicator]"

definition PeerToPeer_removeReplicatorEventListener :: "'w client \<Rightarrow> pyval \<Rightarrow> pyval \<Rightarrow> ('w, pyval) io" where
  "PeerToPeer_removeReplicatorEventListener cl replicator change_listener =
     call cl ''peerToPeer_removeReplicatorEventListener''
       [setMemoryPointer ''replicator'' replicator,
        setMemoryPointer ''changeListener'' change_listener]"

definition PeerToPeer_getReplicatorEventChanges :: "'w client \<Rightarrow> pyval \<Rightarrow> ('w, pyval) io" where
  "PeerToPeer_getReplicatorEventChanges cl change_listener =
     call cl ''peerToPeer_replicatorEventGetChanges'' [setMemoryPointer ''changeListener'' change_listener]"

definition PeerToPeer_getReplicatorEventChangesCount :: "'w client \<Rightarrow> pyval \<Rightarrow> ('w, pyval) io" where
  "PeerToPeer_getReplicatorEventChangesCount cl change_listener =
     call cl ''peerToPeer_replicatorEventChangesCount'' [setMemoryPointer ''changeListener'' change_listener]"

section \<open>FileLogging\<close>

definition FileLogging_configure :: "'w client \<Rightarrow> pyval \<Rightarrow> pyval \<Rightarrow> pyval \<Rightarrow> pyval \<Rightarrow> pyval \<Rightarrow> ('w, pyval) io" where
  "FileLogging_configure cl log_level directory max_rotate_count max_size plain_text =
     call cl ''logging_configure''
       [setString (client_runtime cl) ''log_level'' log_level,
        setString (client_runtime cl) ''directory'' directory,
        setInt ''max_rotate_count'' max_rotate_count,
        setLong (client_runtime cl) ''max_size'' max_size,
        setBoolean ''plain_text'' plain_text]"

definition FileLogging_get_plain_text_status :: "'w client \<Rightarrow> ('w, pyval) io" where
  "FileLogging_get_plain_text_status cl =
     call cl ''logging_getPlainTextStatus'' []"

definition FileLogging_get_max_rotate_count :: "'w client \<Rightarrow> ('w, pyval) io" where
  "FileLogging_get_max_rotate_count cl =
     call cl ''logging_getMaxRotateCount'' []"

definition FileLogging_get_max_size :: "'w client \<Rightarrow> ('w, pyval) io" where
  "FileLogging_get_max_size cl =
     call cl ''logging_getMaxSize'' []"

definition FileLogging_get_log_level :: "'w client \<Rightarrow> ('w, pyval) io" where
  "FileLogging_get_log_level cl =
     call cl ''logging_getLogLevel'' []"

definition FileLogging_get_config :: "'w client \<Rightarrow> ('w, pyval) io" where
  "FileLogging_get_config cl =
     call cl ''logging_getConfig'' []"

definition FileLogging_get_directory :: "'w client \<Rightarrow> ('w, pyval) io" where
  "FileLogging_get_directory cl =
     call cl ''logging_getDirectory'' []"

definition FileLogging_set_plain_text_status :: "'w client \<Rightarrow> pyval \<Rightarrow> pyval \<Rightarrow> ('w, pyval) io" where
  "FileLogging_set_plain_text_status cl config plain_text =
     call cl ''logging_setPlainTextStatus''
       [setMemoryPointer ''config'' config,
        setBoolean ''plain_text'' plain_text]"

definition FileLogging_set_max_rotate_count :: "'w client \<Rightarrow> pyval \<Rightarrow> pyval \<Rightarrow> ('w, pyval) io" where
  "FileLogging_set_max_rotate_count cl config max_rotate_count =
     call cl ''logging_setMaxRotateCount''
       [setMemoryPointer ''config'' config,
        setInt ''max_rotate_count'' max_rotate_count]"

definition FileLogging_set_max_size :: "'w client \<Rightarrow> pyval \<Rightarrow> pyval \<Rightarrow> ('w, pyval) io" where
  "FileLogging_set_max_size cl config max_size =
     call cl ''logging_setMaxSize''
       [setMemoryPointer ''config'' config,
        setLong (client_runtime cl) ''max_size'' max_size]"

definition FileLogging_set_log_level :: "'w client \<Rightarrow> pyval \<Rightarrow> pyval \<Rightarrow> ('w, pyval) io" where
  "FileLogging_set_log_level cl config log_level =
     call cl ''logging_setLogLevel''
       [setMemoryPointer ''config'' config,
        setString (client_runtime cl) ''log_level'' log_level]"

section \<open>Utils\<close>

definition Utils_copy_files :: "'w client \<Rightarrow> pyval \<Rightarrow> pyval \<Rightarrow> ('w, pyval) io" where
  "Utils_copy_files cl source_path destination_path =
     call cl ''copy_files''
       [setString (client_runtime cl) ''source_path'' source_path,
        setString (client_runtime cl) ''destination_path'' destination_path]"

section \<open>Methods with branches\<close>

definition PeerToPeer_stopSession :: "'w client \<Rightarrow> ('w, pyval) io" where
  "PeerToPeer_stopSession cl = invokeMethod cl ''peerToPeer_stopSession'' None False"

definition PeerToPeer_create_connection :: "'w client \<Rightarrow> ('w, pyval) io" where
  "PeerToPeer_create_connection cl = invokeMethod cl ''peerToPeer_createConnection'' None False"

text \<open>\<open>args.SetString\<close> is not a method of \<open>Args\<close> (its setter is \<open>setString\<close>).\<close>

definition FileLogging_set_config :: "'w client \<Rightarrow> pyval \<Rightarrow> ('w, pyval) io" where
  "FileLogging_set_config cl directory =
     raiseIO (Exn ''AttributeError'' (repr_str ''Args'' @ '' object has no attribute '' @ repr_str ''SetString''))"

definition FileLogging_get_logs_in_zip :: "'w client \<Rightarrow> ('w, pyval) io" where
  "FileLogging_get_logs_in_zip cl = invokeMethod cl ''logging_getLogsInZip'' (Some Args) True"

definition Utils_release :: "'w client \<Rightarrow> pyval \<Rightarrow> ('w, pyval) io" where
  "Utils_release cl obj = (case obj of
       PList xs \<Rightarrow> bindIO (forIO xs (\<lambda>i. bindIO (release cl i) (\<lambda>_. returnIO ()))) (\<lambda>_. returnIO PNone)
     | _ \<Rightarrow> bindIO (release cl obj) (\<lambda>_. returnIO PNone))"

definition Utils_flushMemory :: "'w client \<Rightarrow> ('w, pyval) io" where
  "Utils_flushMemory cl = invokeMethod cl ''flushMemory'' None False"

definition Authenticator_authentication :: "'w client \<Rightarrow> pyval \<Rightarrow> pyval \<Rightarrow> pyval \<Rightarrow> pyval \<Rightarrow> pyval \<Rightarrow> ('w, pyval) io" where
  "Authenticator_authentication cl session_id cookie username password authentication_type =
     (if authentication_type = PStr ''session''
      then Authenticator_sessionAuthenticator_create cl session_id cookie
      else Authenticator_basicAuthenticator_create cl username password)"

definition ReplicatorCallback_create :: "'w client \<Rightarrow> pyval \<Rightarrow> pyval \<Rightarrow> ('w, pyval) io" where
  "ReplicatorCallback_create cl ty encryptable_value =
     (let rt = client_runtime cl; n = ''encryptableValue'' in
      call cl ''encryptable_createValue''
       (setString rt ''type'' ty #
        (if ty = PStr ''String'' then [setString rt n encryptable_value]
         else if ty = PStr ''Array'' then [setMemoryPointer n encryptable_value]
         else if ty = PStr ''Bool'' then [setBoolean n encryptable_value]
         else if ty = PStr ''Float'' then [setFloat rt n encryptable_value]
         else if ty = PStr ''Dict'' then [setDictionary n encryptable_value]
         else if ty = PStr ''Int'' then [setInt n encryptable_value]
         else if ty = PStr ''UInt'' then [setInt n encryptable_value]
         else if ty = PStr ''Double'' then [setFloat rt n encryptable_value]
         else [])))"

text \<open>An optional argument: nothing is set for \<open>None\<close>.\<close>

definition opt_arg :: "pyval \<Rightarrow> (pyval \<Rightarrow> arg_setter) \<Rightarrow> arg_setter list" where
  "opt_arg v f = (if v \<noteq> PNone then [f v] else [])"

text \<open>
  \<open>cluster_config = os.environ["CLUSTER_CONFIG"]\<close> and
  \<open>if sg_ssl_enabled(cluster_config): args.setString("pinnedservercert", "sg_cert")\<close>.
\<close>

definition pinned_cert :: "py_runtime \<Rightarrow> environment \<Rightarrow> arg_setter list res" where
  "pinned_cert rt env =
     bindR (get_environ env ''CLUSTER_CONFIG'') (\<lambda>cluster_config.
     bindR (sg_ssl_enabled env cluster_config) (\<lambda>ssl.
       Inr (if py_truth ssl then [setString rt ''pinnedservercert'' (PStr ''sg_cert'')] else [])))"

definition ReplicatorConfiguration_configure :: "'w client \<Rightarrow> environment \<Rightarrow> pyval \<Rightarrow> pyval \<Rightarrow> pyval \<Rightarrow> pyval \<Rightarrow>
    pyval \<Rightarrow> pyval \<Rightarrow> pyval \<Rightarrow> pyval \<Rightarrow> pyval \<Rightarrow> pyval \<Rightarrow> pyval \<Rightarrow> pyval \<Rightarrow> ('w, pyval) io" where
  "ReplicatorConfiguration_configure cl env source_db target_url target_db replication_type continuous'
      channels documentIDs replicator_authenticator headers max_timeout_interval retries encryptor =
     (let rt = client_runtime cl;
          args = [setMemoryPointer ''source_db'' source_db,
                  setString rt ''replication_type'' replication_type,
                  setBoolean ''continuous'' continuous']
               @ opt_arg retries (setString rt ''max_retries'')
               @ opt_arg max_timeout_interval (setString rt ''max_timeout'')
               @ opt_arg channels (setArray ''channels'')
               @ opt_arg documentIDs (setArray ''documentIDs'')
               @ opt_arg replicator_authenticator (setMemoryPointer ''authenticator'')
               @ opt_arg headers (setDictionary ''headers'') in
      if target_db = PNone then
        call cl ''replicator_configureRemoteDbUrl'' (args @ [setString rt ''target_url'' target_url])
      else if encryptor = PNone then
        call cl ''replicator_configureLocalDb'' (args @ [setMemoryPointer ''target_db'' target_db])
      else bindIO (liftIO (pinned_cert rt env)) (\<lambda>_. returnIO PNone))"

definition ReplicatorConfiguration_builderCreate :: "'w client \<Rightarrow> pyval \<Rightarrow> pyval \<Rightarrow> pyval \<Rightarrow> ('w, pyval) io" where
  "ReplicatorConfiguration_builderCreate cl source_db target_db target_url =
     (let src = setMemoryPointer ''sourceDb'' source_db in
      if py_truth target_db then
        call cl ''replicatorConfiguration_builderCreate'' [src, setMemoryPointer ''targetDb'' target_db]
      else if py_truth target_url then
        call cl ''replicatorConfiguration_builderCreate'' [src, setMemoryPointer ''targetURI'' target_url]
      else raiseIO (Exn ''Exception'' ''Pass either target_db or target_url.''))"

definition Replication_configure :: "'w client \<Rightarrow> environment \<Rightarrow> pyval \<Rightarrow> pyval \<Rightarrow> pyval \<Rightarrow> pyval \<Rightarrow> pyval \<Rightarrow>
    pyval \<Rightarrow> pyval \<Rightarrow> pyval \<Rightarrow> pyval \<Rightarrow> pyval \<Rightarrow> pyval \<Rightarrow> pyval \<Rightarrow> pyval \<Rightarrow> pyval \<Rightarrow> pyval \<Rightarrow> pyval \<Rightarrow> pyval \<Rightarrow>
    pyval \<Rightarrow> pyval \<Rightarrow> ('w, pyval) io" where
  "Replication_configure cl env source_db target_url target_db replication_type continuous' push_filter
      pull_filter channels documentIDs replicator_authenticator headers filter_callback_func
      conflict_resolver heartbeat max_retries max_retry_wait_time auto_purge encryptor collection =
     (let rt = client_runtime cl in
      bindIO (liftIO (pinned_cert rt env)) (\<lambda>cert.
      call cl ''replicatorConfiguration_configure''
        ([setMemoryPointer ''source_db'' source_db,
          setBoolean ''continuous'' continuous',
          setBoolean ''push_filter'' push_filter,
          setBoolean ''pull_filter'' pull_filter,
          setString rt ''filter_callback_func'' filter_callback_func,
          setString rt ''conflict_resolver'' conflict_resolver]
         @ opt_arg max_retries (setString rt ''max_retries'')
         @ opt_arg max_retry_wait_time (setString rt ''max_timeout'')
         @ opt_arg heartbeat (setString rt ''heartbeat'')
         @ opt_arg channels (setArray ''channels'')
         @ opt_arg documentIDs (setArray ''documentIDs'')
         @ opt_arg replicator_authenticator (setMemoryPointer ''authenticator'')
         @ opt_arg replication_type (setString rt ''replication_type'')
         @ opt_arg headers (setDictionary ''headers'')
         @ opt_arg target_url (setString rt ''target_url'')
         @ opt_arg target_db (setMemoryPointer ''target_db'')
         @ opt_arg auto_purge (setString rt ''auto_purge'')
         @ cert
         @ opt_arg encryptor (setMemoryPointer ''encryptor'')
         @ opt_arg collection (setArray ''collections''))))"

definition Replication_configureCollection :: "'w client \<Rightarrow> environment \<Rightarrow> pyval \<Rightarrow> pyval \<Rightarrow> pyval \<Rightarrow> pyval \<Rightarrow>
    pyval \<Rightarrow> pyval \<Rightarrow> pyval \<Rightarrow> pyval \<Rightarrow> pyval \<Rightarrow> pyval \<Rightarrow> pyval \<Rightarrow> pyval \<Rightarrow> ('w, pyval) io" where
  "Replication_configureCollection cl env target_url replication_type auto_purge continuous'
      replicator_authenticator headers heartbeat max_retries max_retry_wait_time collection
      collectionConfiguration encryptor =
     (let rt = client_runtime cl in
      bindIO (liftIO (pinned_cert rt env)) (\<lambda>cert.
      call cl ''replicatorConfiguration_configureCollection''
        ([setBoolean ''continuous'' continuous']
         @ opt_arg max_retries (setString rt ''max_retries'')
         @ opt_arg max_retry_wait_time (setString rt ''max_timeout'')
         @ opt_arg heartbeat (setString rt ''heartbeat'')
         @ opt_arg replicator_authenticator (setMemoryPointer ''authenticator'')
         @ opt_arg replication_type (setString rt ''replication_type'')
         @ opt_arg headers (setDictionary ''headers'')
         @ opt_arg target_url (setString rt ''target_url'')
         @ opt_arg auto_purge (setString rt ''auto_purge'')
         @ cert
         @ opt_arg encryptor (setMemoryPointer ''encryptor'')
         @ opt_arg collection (setArray ''collections'')
         @ opt_arg collectionConfiguration (setArray ''configuration''))))"

end
