(* ===== verification/Loops.thy ===== *)
theory Loops
  imports Py_Prelude
begin

text \<open>
  The polling loops of the kit. \<open>while_io g b n s\<close> runs \<open>while g: b\<close> on the local variables
  \<open>s\<close>: the body ends with \<open>True\<close> to go on and with \<open>False\<close> for \<open>break\<close>. \<open>n\<close> bounds the
  number of tests of the guard; running out of it is \<open>None\<close>. The locale \<open>ranked_loop\<close> is the
  contract a body owes to return, and every polling loop of the kit is an instance of it.
\<close>

fun while_io :: "('s \<Rightarrow> bool) \<Rightarrow> ('s \<Rightarrow> ('w, bool \<times> 's) io) \<Rightarrow> nat \<Rightarrow> 's \<Rightarrow> ('w, 's) dio" where
  "while_io g b 0 s w = None"
| "while_io g b (Suc n) s w =
     (if g s then
        (case b s w of
           (Inl e, w') \<Rightarrow> Some (Inl e, w')
         | (Inr (go, s'), w') \<Rightarrow> if go then while_io g b n s' w' else Some (Inr s', w'))
      else Some (Inr s, w))"

lemma while_io_mono:
  "while_io g b n s w = Some r \<Longrightarrow> n \<le> m \<Longrightarrow> while_io g b m s w = Some r"
proof (induction n arbitrary: m s w)
  case (Suc n)
  then obtain k where "m = Suc k" "n \<le> k" by (cases m) auto
  with Suc show ?case by (auto split: if_splits prod.splits sum.splits)
qed simp

lemma while_io_invariant:
  assumes "while_io g b n s w = Some (Inr t, w')" "P s"
    and "\<And>s v go s' v'. P s \<Longrightarrow> g s \<Longrightarrow> b s v = (Inr (go, s'), v') \<Longrightarrow> P s'"
  shows "P t"
  using assms(1,2)
proof (induction n arbitrary: s w)
  case (Suc n)
  then show ?case using assms(3)
    by (auto split: if_splits prod.splits sum.splits)
qed simp

text \<open>A body that always goes on under a guard that stays true never returns.\<close>

lemma while_io_diverges:
  assumes "P s w"
    and "\<And>s w. P s w \<Longrightarrow> g s \<and> (\<exists>s' w'. b s w = (Inr (True, s'), w') \<and> P s' w')"
  shows "while_io g b n s w = None"
  using assms(1)
proof (induction n arbitrary: s w)
  case (Suc n)
  with assms(2) [OF Suc.prems] show ?case by fastforce
qed simp

locale ranked_loop =
  fixes g :: "'s \<Rightarrow> bool" and b :: "'s \<Rightarrow> ('w, bool \<times> 's) io"
    and inv :: "'s \<Rightarrow> 'w \<Rightarrow> bool" and rank :: "'s \<Rightarrow> 'w \<Rightarrow> nat"
  assumes step: "inv s w \<Longrightarrow> g s \<Longrightarrow> b s w = (Inr (True, s'), w') \<Longrightarrow> inv s' w' \<and> rank s' w' < rank s w"
begin

lemma returns: "inv s w \<Longrightarrow> rank s w < n \<Longrightarrow> \<exists>r. while_io g b n s w = Some r"
proof (induction n arbitrary: s w)
  case (Suc n)
  show ?case
  proof (cases "g s")
    case True
    obtain r w' where r: "b s w = (r, w')" by fastforce
    show ?thesis
    proof (cases r)
      case (Inr p)
      obtain go s' where p: "p = (go, s')" by fastforce
      show ?thesis
      proof (cases go)
        case True
        with step [OF Suc.prems(1) \<open>g s\<close>] r Inr p have "inv s' w'" "rank s' w' < rank s w" by auto
        with Suc.IH [of s' w'] Suc.prems \<open>g s\<close> r Inr p True show ?thesis by auto
      qed (use True r Inr p in auto)
    qed (use True r in auto)
  qed auto
qed simp

lemma fuel_irrelevant:
  assumes "inv s w" "rank s w < n" "rank s w < m"
  shows "while_io g b n s w = while_io g b m s w"
proof -
  obtain r q where "while_io g b n s w = Some r" "while_io g b m s w = Some q"
    using returns assms by metis
  with while_io_mono [of g b n s w r "max n m"] while_io_mono [of g b m s w q "max n m"]
  show ?thesis by simp
qed

end

end
