(* ===== verification/Polling.thy ===== *)
theory Polling
  imports Loops
begin

text \<open>
  Waiting with a timeout. \<open>time.time()\<close> and \<open>time.sleep()\<close> are the record \<open>clock\<close>. Most loops of
  the kit have one shape: ask for the time, give up if the timeout is over, do one round, sleep and
  try again. That shape is \<open>poll\<close>; the locale \<open>polling\<close> holds what a round owes for the loop to
  return, and every loop of this shape is an instance of it.
\<close>

record 'w clock =
  clk_time :: "('w, rat) io"
  clk_sleep :: "rat \<Rightarrow> ('w, unit) io"

text \<open>A clock that sleeping advances and that asking for the time does not set back.\<close>

definition ticks :: "'w clock \<Rightarrow> ('w \<Rightarrow> rat) \<Rightarrow> bool" where
  "ticks clk time \<longleftrightarrow>
     (\<forall>w r w'. clk_time clk w = (r, w') \<longrightarrow> r = Inr (time w') \<and> time w \<le> time w') \<and>
     (\<forall>d w r w'. 0 \<le> d \<longrightarrow> clk_sleep clk d w = (r, w') \<longrightarrow> time w + d \<le> time w')"

lemma ticksD:
  assumes "ticks clk time"
  shows "clk_time clk w = (r, w') \<Longrightarrow> r = Inr (time w') \<and> time w \<le> time w'"
    and "clk_sleep clk d w = (q, w') \<Longrightarrow> 0 \<le> d \<Longrightarrow> time w + d \<le> time w'"
  using assms unfolding ticks_def by blast+

section \<open>Code that does not set the clock back\<close>

named_theorems time_intros "code during which time does not run backwards"

definition onward :: "('w \<Rightarrow> rat) \<Rightarrow> ('w, 'a) io \<Rightarrow> bool" where
  "onward time m \<longleftrightarrow> (\<forall>w r w'. m w = (r, w') \<longrightarrow> time w \<le> time w')"

lemma onwardD: "onward time m \<Longrightarrow> m w = (r, w') \<Longrightarrow> time w \<le> time w'"
  by (simp add: onward_def)

lemma onward_pure [time_intros]:
  "onward time (returnIO a)" "onward time (raiseIO e)" "onward time (liftIO r)"
  by (simp_all add: onward_def)

lemma onward_bind [time_intros]:
  assumes "onward time m" "\<And>a. onward time (f a)"
  shows "onward time (bindIO m f)"
  unfolding onward_def
proof (intro allI impI)
  fix w r w'
  assume "bindIO m f w = (r, w')"
  then show "time w \<le> time w'"
    by (cases rule: bindIO_cases) (use assms in \<open>auto dest: onwardD intro: order_trans\<close>)
qed

lemma onward_try [time_intros]:
  assumes "onward time m" "\<And>e. onward time (h e)"
  shows "onward time (tryIO m h)"
  unfolding onward_def tryIO_def
  using assms by (auto split: prod.splits sum.splits dest!: onwardD intro: order_trans)

lemma onward_for [time_intros]: "(\<And>x. onward time (f x)) \<Longrightarrow> onward time (forIO xs f)"
  by (induction xs) (auto intro: time_intros)

lemma onward_fold [time_intros]: "(\<And>s x. onward time (f s x)) \<Longrightarrow> onward time (foldIO f s xs)"
  by (induction xs arbitrary: s) (auto intro: time_intros)

lemma onward_if [time_intros]: "onward time m \<Longrightarrow> onward time n \<Longrightarrow> onward time (if c then m else n)"
  by simp

lemma onward_clock:
  assumes "ticks clk time"
  shows "onward time (clk_time clk)" "0 \<le> d \<Longrightarrow> onward time (clk_sleep clk d)"
proof -
  show "onward time (clk_time clk)" using ticksD(1) [OF assms] by (auto simp: onward_def)
  show "onward time (clk_sleep clk d)" if "0 \<le> d"
    using ticksD(2) [OF assms] that by (fastforce simp: onward_def)
qed

text \<open>A clock whose world is the time.\<close>

definition step_clock :: "rat clock" where
  "step_clock = \<lparr>clk_time = (\<lambda>w. (Inr w, w)), clk_sleep = (\<lambda>d w. (Inr (), w + d))\<rparr>"

lemma step_clock_ticks: "ticks step_clock (\<lambda>w. w)"
  by (simp add: ticks_def step_clock_def)

section \<open>poll\<close>

text \<open>
  \<open>poll_from\<close> runs rounds from the time \<open>start\<close> on. A round returns \<open>Inl s\<close> to sleep for \<open>nap\<close> seconds
  and go on with the local variables \<open>s\<close>, or \<open>Inr a\<close> to leave the loop with \<open>a\<close>; \<open>late\<close> is what
  happens when more than \<open>timeout\<close> seconds have passed. The fuel bounds the number of rounds.
\<close>

fun poll_from :: "'w clock \<Rightarrow> rat \<Rightarrow> rat \<Rightarrow> rat \<Rightarrow> ('w, 'a) io \<Rightarrow> ('s \<Rightarrow> ('w, 's + 'a) io) \<Rightarrow> nat \<Rightarrow> 's \<Rightarrow> ('w, 'a) dio" where
  "poll_from clk timeout nap start late body 0 s w = None"
| "poll_from clk timeout nap start late body (Suc n) s w =
     (case clk_time clk w of
        (Inl e, w1) \<Rightarrow> Some (Inl e, w1)
      | (Inr now, w1) \<Rightarrow>
          if now - start > timeout then Some (late w1)
          else (case body s w1 of
              (Inl e, w2) \<Rightarrow> Some (Inl e, w2)
            | (Inr (Inr a), w2) \<Rightarrow> Some (Inr a, w2)
            | (Inr (Inl s'), w2) \<Rightarrow>
                (case clk_sleep clk nap w2 of
                   (Inl e, w3) \<Rightarrow> Some (Inl e, w3)
                 | (Inr _, w3) \<Rightarrow> poll_from clk timeout nap start late body n s' w3)))"

definition poll :: "'w clock \<Rightarrow> rat \<Rightarrow> rat \<Rightarrow> ('w, 'a) io \<Rightarrow> ('s \<Rightarrow> ('w, 's + 'a) io) \<Rightarrow> nat \<Rightarrow> 's \<Rightarrow> ('w, 'a) dio" where
  "poll clk timeout nap late body fuel s =
     bindD (liftD (clk_time clk)) (\<lambda>start. poll_from clk timeout nap start late body fuel s)"

text \<open>Rounds that are enough: one per nap that fits into the timeout, and two more.\<close>

definition poll_fuel :: "rat \<Rightarrow> rat \<Rightarrow> nat" where
  "poll_fuel timeout nap = nat \<lfloor>timeout / nap\<rfloor> + 2"

definition wait_rank :: "rat \<Rightarrow> ('w \<Rightarrow> rat) \<Rightarrow> rat \<Rightarrow> 'w \<Rightarrow> nat" where
  "wait_rank nap time deadline w = (if time w \<le> deadline then nat \<lfloor>(deadline - time w) / nap\<rfloor> + 1 else 0)"

lemma wait_rank_decreases:
  assumes "0 < nap" "time w \<le> deadline" "time w + nap \<le> time w'"
  shows "wait_rank nap time deadline w' < wait_rank nap time deadline w"
proof (cases "time w' \<le> deadline")
  case True
  have "(deadline - time w') / nap \<le> (deadline - time w - nap) / nap"
    using assms by (intro divide_right_mono) auto
  also have "\<dots> = (deadline - time w) / nap - 1" using assms(1) by (simp add: field_simps)
  finally have "\<lfloor>(deadline - time w') / nap\<rfloor> \<le> \<lfloor>(deadline - time w) / nap\<rfloor> - 1" by linarith
  moreover have "0 \<le> \<lfloor>(deadline - time w') / nap\<rfloor>" using True assms(1) by simp
  ultimately have "nat \<lfloor>(deadline - time w') / nap\<rfloor> < nat \<lfloor>(deadline - time w) / nap\<rfloor>"
    by (subst nat_less_eq_zless) linarith+
  then show ?thesis using True assms(2) by (simp add: wait_rank_def)
qed (use assms in \<open>simp add: wait_rank_def\<close>)

text \<open>
  The contract: what the round relies on (\<open>lawful\<close>, the laws of the services it calls) makes it code that
  does not set the clock back.
\<close>

locale polling =
  fixes time :: "'w \<Rightarrow> rat" and nap :: rat and body :: "'s \<Rightarrow> ('w, 's + 'a) io" and lawful :: bool
  assumes nap: "0 < nap" and round: "lawful \<Longrightarrow> onward time (body s)"
begin

lemma poll_from_returns:
  assumes clock: "ticks clk time" and lawful
  shows "wait_rank nap time (start + timeout) w < n \<Longrightarrow> \<exists>r. poll_from clk timeout nap start late body n s w = Some r"
proof (induction n arbitrary: s w)
  case (Suc n)
  obtain r w1 where t: "clk_time clk w = (r, w1)" by fastforce
  with ticksD(1) [OF clock t] have r: "r = Inr (time w1)" "time w \<le> time w1" by simp_all
  show ?case
  proof (cases "time w1 - start > timeout")
    case False
    obtain q w2 where b: "body s w1 = (q, w2)" by fastforce
    have t2: "time w1 \<le> time w2" using onwardD [OF round [OF \<open>lawful\<close>] b] .
    obtain z w3 where z: "clk_sleep clk nap w2 = (z, w3)" by fastforce
    with ticksD(2) [OF clock z] nap have "time w2 + nap \<le> time w3" by simp
    with t2 r(2) have "time w + nap \<le> time w3" "time w \<le> start + timeout" using False by linarith+
    with Suc.prems nap have "wait_rank nap time (start + timeout) w3 < n"
      using wait_rank_decreases [of nap time w "start + timeout" w3] by linarith
    from Suc.IH [OF this] show ?thesis
      using False t r(1) b z by (auto split: sum.splits)
  qed (use t r(1) in auto)
qed simp

lemma returns:
  assumes "ticks clk time" lawful "0 \<le> timeout" "poll_fuel timeout nap \<le> fuel"
  shows "\<exists>r. poll clk timeout nap late body fuel s w = Some r"
proof -
  obtain r w1 where t: "clk_time clk w = (r, w1)" by fastforce
  with ticksD(1) [OF assms(1) t] have r: "r = Inr (time w1)" by simp
  have "wait_rank nap time (time w1 + timeout) w1 < fuel"
    using assms by (simp add: wait_rank_def poll_fuel_def)
  from poll_from_returns [OF assms(1,2) this] show ?thesis by (simp add: poll_def bindD_def liftD_def t r)
qed

end

text \<open>
  What a loop that leaves with \<open>a\<close> has established: its last round ended with \<open>a\<close>, from local
  variables that every round keeps.
\<close>

lemma poll_from_result:
  assumes "poll_from clk timeout nap start late body n s w = Some (Inr a, w')" "P s"
    and "\<And>s v s' v'. P s \<Longrightarrow> body s v = (Inr (Inl s'), v') \<Longrightarrow> P s'"
  shows "(\<exists>v. late v = (Inr a, w')) \<or> (\<exists>t v. P t \<and> body t v = (Inr (Inr a), w'))"
  using assms(1,2)
proof (induction n arbitrary: s w)
  case (Suc n)
  then show ?case using assms(3)
    by (auto split: prod.splits sum.splits if_splits)
qed simp

lemma poll_result:
  assumes "poll clk timeout nap late body fuel s w = Some (Inr a, w')" "P s"
    and "\<And>s v s' v'. P s \<Longrightarrow> body s v = (Inr (Inl s'), v') \<Longrightarrow> P s'"
  shows "(\<exists>v. late v = (Inr a, w')) \<or> (\<exists>t v. P t \<and> body t v = (Inr (Inr a), w'))"
proof -
  from assms(1) obtain start v n where "poll_from clk timeout nap start late body n s v = Some (Inr a, w')"
    by (auto simp: poll_def bindD_def liftD_def split: prod.splits sum.splits)
  then show ?thesis using assms(2,3) by (rule poll_from_result)
qed

end
