(* ===== verification/Replication_Loops.thy ===== *)
theory Replication_Loops
  imports Cbl_Replication Polling
begin

text \<open>
  The part of \<open>CBLClient/Replication.py\<close> that waits for a replicator: \<open>stop\<close>,
  \<open>yield_for_replicator_connected\<close>, \<open>wait_until_replicator_idle\<close> and the methods that
  configure, start and wait.
\<close>

section \<open>Connection errors\<close>

fun all_in :: "string list \<Rightarrow> pyval \<Rightarrow> bool res" where
  "all_in [] v = Inr True"
| "all_in (s # ss) v = bindR (py_in_str s v) (\<lambda>b. if b then all_in ss v else Inr False)"

fun any_all_in :: "string list list \<Rightarrow> pyval \<Rightarrow> bool res" where
  "any_all_in [] v = Inr False"
| "any_all_in (g # gs) v = bindR (all_in g v) (\<lambda>b. if b then Inr True else any_all_in gs v)"

text \<open>\<open>("111" or "61" or "5003") in error_msg\<close> is \<open>"111" in error_msg\<close>.\<close>

definition is_replicator_in_connection_retry :: "pyval \<Rightarrow> bool res" where
  "is_replicator_in_connection_retry error_msg = any_all_in
     [[''POSIXErrorDomain,111'', ''Connection refused'', ''Android''],
      [''CouchbaseLite,11001'', ''WebSocket connection closed by peer'', ''Java''],
      [''POSIXDomain / 111'', ''Connection refused''],
      [''NSPOSIXErrorDomain'', ''Connection refused'', ''Code=61''],
      [''111''],
      [''No connection could be made because the target machine actively refused it'']] error_msg"

section \<open>stop\<close>

fun stop_poll :: "'w client \<Rightarrow> 'w clock \<Rightarrow> pyval \<Rightarrow> nat \<Rightarrow> ('w, unit) io" where
  "stop_poll cl clk replicator left =
     bindIO (Replication_getActivitylevel cl replicator) (\<lambda>level.
       if level \<noteq> PStr ''stopped'' then
         (case left of
            0 \<Rightarrow> returnIO ()
          | Suc n \<Rightarrow> bindIO (clk_sleep clk 2) (\<lambda>_. stop_poll cl clk replicator n))
       else returnIO ())"

definition Replication_stop :: "'w client \<Rightarrow> 'w clock \<Rightarrow> pyval \<Rightarrow> int \<Rightarrow> ('w, pyval) io" where
  "Replication_stop cl clk replicator max_times =
     bindIO (call cl ''replicator_stop'' [setMemoryPointer ''replicator'' replicator]) (\<lambda>_.
     bindIO (stop_poll cl clk replicator (nat max_times)) (\<lambda>_.
     bindIO (Replication_getActivitylevel cl replicator) (\<lambda>level.
       if level \<noteq> PStr ''stopped'' then
         bindIO (Replication_getActivitylevel cl replicator) (\<lambda>now.
           raiseIO (Exn ''Exception'' (''Failed to stop the replicator: '' @ py_str (client_runtime cl) now)))
       else returnIO PNone)))"

section \<open>yield\_for\_replicator\_connected\<close>

text \<open>The level is read once, before the loop.\<close>

fun connect_poll :: "'w clock \<Rightarrow> rat \<Rightarrow> pyval \<Rightarrow> nat \<Rightarrow> ('w, unit) io" where
  "connect_poll clk sleep_time activity_level 0 = returnIO ()"
| "connect_poll clk sleep_time activity_level (Suc n) =
     bindIO (clk_sleep clk sleep_time) (\<lambda>_.
       if activity_level = PStr ''connecting'' then connect_poll clk sleep_time activity_level n
       else returnIO ())"

definition Replication_yield_for_replicator_connected ::
    "'w client \<Rightarrow> 'w clock \<Rightarrow> pyval \<Rightarrow> nat \<Rightarrow> rat \<Rightarrow> ('w, pyval) io" where
  "Replication_yield_for_replicator_connected cl clk repl max_times sleep_time =
     bindIO (Replication_getActivitylevel cl repl) (\<lambda>activity_level.
     bindIO (connect_poll clk sleep_time activity_level max_times) (\<lambda>_. returnIO PNone))"

section \<open>wait\_until\_replicator\_idle\<close>

record idle_state =
  idle_times :: nat
  idle_count :: nat
  idle_level :: pyval

definition max_idle_count :: nat where
  "max_idle_count = 20"

text \<open>\<open>raise Exception("Error while replicating", err)\<close>.\<close>

definition replicating_error :: "py_runtime \<Rightarrow> pyval \<Rightarrow> exn" where
  "replicating_error rt err =
     Exn ''Exception'' (''('' @ repr_str ''Error while replicating'' @ '', '' @ py_repr rt err @ '')'')"

text \<open>\<open>(getCompleted < getTotal) and getTotal != 0\<close>, each a call.\<close>

definition in_progress :: "'w client \<Rightarrow> pyval \<Rightarrow> ('w, bool) io" where
  "in_progress cl repl =
     bindIO (Replication_getCompleted cl repl) (\<lambda>completed.
     bindIO (Replication_getTotal cl repl) (\<lambda>total.
     bindIO (liftIO (py_less completed total)) (\<lambda>lt.
       if lt then bindIO (Replication_getTotal cl repl) (\<lambda>t. returnIO (\<not> py_eq t (PInt 0)))
       else returnIO False)))"

text \<open>The counters: \<open>None\<close> is the \<open>break\<close> after more than \<open>max_idle_count\<close> idle rounds.\<close>

definition count_level :: "'w client \<Rightarrow> 'w clock \<Rightarrow> pyval \<Rightarrow> rat \<Rightarrow> idle_state \<Rightarrow> ('w, idle_state option) io" where
  "count_level cl clk repl sleep_time s =
     (if idle_level s \<in> {PStr ''offline'', PStr ''connecting'', PStr ''busy''} then
        returnIO (Some (s\<lparr>idle_times := idle_times s + 1, idle_count := 0\<rparr>))
      else if idle_level s = PStr ''idle'' then
        bindIO (in_progress cl repl) (\<lambda>p.
          if p then returnIO (Some (s\<lparr>idle_times := idle_times s + 1\<rparr>))
          else bindIO (clk_sleep clk sleep_time) (\<lambda>_.
            returnIO (if idle_count s + 1 > max_idle_count then None
                      else Some (s\<lparr>idle_count := idle_count s + 1\<rparr>))))
      else returnIO (Some s))"

definition check_error :: "'w client \<Rightarrow> pyval \<Rightarrow> bool \<Rightarrow> rat \<Rightarrow> rat \<Rightarrow> ('w, unit) io" where
  "check_error cl repl isContinous elapsed max_timeout =
     bindIO (Replication_getError cl repl) (\<lambda>err.
       if err \<noteq> PNone \<and> err \<noteq> PStr ''nil'' \<and> \<not> py_eq err (PInt (- 1)) then
         (if \<not> isContinous then raiseIO (replicating_error (client_runtime cl) err)
          else bindIO (liftIO (is_replicator_in_connection_retry err)) (\<lambda>retry.
            if retry \<and> elapsed < max_timeout then returnIO ()
            else raiseIO (replicating_error (client_runtime cl) err)))
       else returnIO ())"

definition idle_body :: "'w client \<Rightarrow> 'w clock \<Rightarrow> pyval \<Rightarrow> bool \<Rightarrow> bool \<Rightarrow> rat \<Rightarrow> rat \<Rightarrow> rat \<Rightarrow>
    idle_state \<Rightarrow> ('w, bool \<times> idle_state) io" where
  "idle_body cl clk repl err_check isContinous begin_timestamp sleep_time max_timeout s =
     bindIO (Replication_getCompleted cl repl) (\<lambda>_.
     bindIO (Replication_getTotal cl repl) (\<lambda>_.
     bindIO (clk_sleep clk sleep_time) (\<lambda>_.
     bindIO (count_level cl clk repl sleep_time s) (\<lambda>counted.
     case counted of
       None \<Rightarrow> returnIO (False, s)
     | Some s' \<Rightarrow>
         bindIO (clk_time clk) (\<lambda>cur_timestamp.
         bindIO (if err_check then check_error cl repl isContinous (cur_timestamp - begin_timestamp) max_timeout
                 else returnIO ()) (\<lambda>_.
         bindIO (Replication_getActivitylevel cl repl) (\<lambda>level.
         bindIO (Replication_getTotal cl repl) (\<lambda>total.
         bindIO (Replication_getCompleted cl repl) (\<lambda>completed.
         if level = PStr ''stopped'' then
           bindIO (liftIO (py_less completed total)) (\<lambda>lt.
             if lt then raiseIO (Exn ''Exception'' ''replication progress is not completed'')
             else returnIO (False, s'\<lparr>idle_level := level\<rparr>))
         else
           bindIO (liftIO (py_less total completed)) (\<lambda>lt.
           bindIO (if lt then liftIO (py_leq total (PInt 0)) else returnIO False) (\<lambda>bad.
             if bad then raiseIO (Exn ''Exception'' ''total is less than completed'')
             else returnIO (True, s'\<lparr>idle_level := level\<rparr>))))))))))))"

definition Replication_wait_until_replicator_idle :: "'w client \<Rightarrow> 'w clock \<Rightarrow> nat \<Rightarrow> pyval \<Rightarrow> bool \<Rightarrow> nat \<Rightarrow>
    rat \<Rightarrow> rat \<Rightarrow> ('w, pyval) dio" where
  "Replication_wait_until_replicator_idle cl clk fuel repl err_check max_times sleep_time max_timeout =
     bindD (liftD (Replication_getConfig cl repl)) (\<lambda>repl_config.
     bindD (liftD (Replication_isContinuous cl repl_config)) (\<lambda>isContinous.
     bindD (liftD (Replication_getActivitylevel cl repl)) (\<lambda>activity_level.
     bindD (liftD (clk_time clk)) (\<lambda>begin_timestamp.
     bindD (while_io (\<lambda>s. idle_times s < max_times)
              (idle_body cl clk repl err_check (py_truth isContinous) begin_timestamp sleep_time max_timeout)
              fuel \<lparr>idle_times = 0, idle_count = 0, idle_level = activity_level\<rparr>) (\<lambda>_.
     liftD (returnIO PNone))))))"

section \<open>Configure, start and wait\<close>

definition Replication_configure_and_replicate :: "'w client \<Rightarrow> 'w clock \<Rightarrow> environment \<Rightarrow> nat \<Rightarrow> pyval \<Rightarrow> pyval \<Rightarrow>
    pyval \<Rightarrow> pyval \<Rightarrow> pyval \<Rightarrow> pyval \<Rightarrow> pyval \<Rightarrow> bool \<Rightarrow> bool \<Rightarrow> pyval \<Rightarrow> pyval \<Rightarrow> pyval \<Rightarrow> ('w, pyval) dio" where
  "Replication_configure_and_replicate cl clk env fuel source_db replicator_authenticator target_db target_url
      replication_type continuous' channels err_check wait_until_idle heartbeat auto_purge encryptor =
     bindD (liftD (if target_db = PNone
       then Replication_configure cl env source_db target_url PNone replication_type continuous'
              (PBool False) (PBool False) channels PNone replicator_authenticator PNone (PStr []) (PStr [])
              heartbeat PNone PNone auto_purge encryptor PNone
       else Replication_configure cl env source_db PNone target_db replication_type continuous'
              (PBool False) (PBool False) channels PNone replicator_authenticator PNone (PStr []) (PStr [])
              heartbeat PNone PNone auto_purge encryptor PNone)) (\<lambda>repl_config.
     bindD (liftD (Replication_create cl repl_config)) (\<lambda>repl.
     bindD (liftD (Replication_start cl repl)) (\<lambda>_.
     bindD (if wait_until_idle then Replication_wait_until_replicator_idle cl clk fuel repl err_check 150 2 600
            else liftD (Replication_yield_for_replicator_connected cl clk repl 5 (1 / 2))) (\<lambda>_.
     liftD (returnIO repl)))))"

text \<open>
  \<open>sg_client.create_session(sg_admin_url, sg_db, username, auth=auth)\<close> is the argument
  \<open>create_session\<close>; it returns the cookie name and the session id.
\<close>

definition Replication_create_session_configure_replicate :: "'w client \<Rightarrow> 'w clock \<Rightarrow> environment \<Rightarrow> nat \<Rightarrow>
    (pyval \<Rightarrow> pyval \<Rightarrow> pyval \<Rightarrow> pyval \<Rightarrow> ('w, pyval \<times> pyval) io) \<Rightarrow> string \<Rightarrow> pyval \<Rightarrow> pyval \<Rightarrow> pyval \<Rightarrow>
    pyval \<Rightarrow> pyval \<Rightarrow> pyval \<Rightarrow> pyval \<Rightarrow> pyval \<Rightarrow> pyval \<Rightarrow> pyval \<Rightarrow> pyval \<Rightarrow> pyval \<Rightarrow> pyval \<Rightarrow>
    ('w, (pyval \<times> pyval) \<times> pyval \<times> pyval) dio" where
  "Replication_create_session_configure_replicate cl clk env fuel create_session baseUrl sg_admin_url sg_db
      username channels cbl_db sg_blip_url replication_type continuous' max_retries max_retry_wait_time
      encryptor auth collection =
     (let authenticator = cl\<lparr>client_base_url := baseUrl\<rparr> in
     bindD (liftD (create_session sg_admin_url sg_db username auth)) (\<lambda>(cookie, session_id).
     bindD (liftD (Authenticator_authentication authenticator session_id cookie PNone PNone (PStr ''session'')))
       (\<lambda>replicator_authenticator.
     bindD (liftD (Replication_configure cl env cbl_db sg_blip_url PNone replication_type continuous'
              (PBool False) (PBool False) channels PNone replicator_authenticator PNone (PStr []) (PStr [])
              PNone max_retries max_retry_wait_time PNone encryptor collection)) (\<lambda>repl_config.
     bindD (liftD (Replication_create cl repl_config)) (\<lambda>repl.
     bindD (liftD (Replication_start cl repl)) (\<lambda>_.
     bindD (Replication_wait_until_replicator_idle cl clk fuel repl True 150 2 600) (\<lambda>_.
     liftD (returnIO ((cookie, session_id), replicator_authenticator, repl)))))))))"

definition Replication_create_session_configure_replicate_collection :: "'w client \<Rightarrow> 'w clock \<Rightarrow> environment \<Rightarrow> nat \<Rightarrow>
    (pyval \<Rightarrow> pyval \<Rightarrow> pyval \<Rightarrow> pyval \<Rightarrow> ('w, pyval \<times> pyval) io) \<Rightarrow> string \<Rightarrow> pyval \<Rightarrow> pyval \<Rightarrow> pyval \<Rightarrow>
    pyval \<Rightarrow> pyval \<Rightarrow> pyval \<Rightarrow> pyval \<Rightarrow> pyval \<Rightarrow> pyval \<Rightarrow> ('w, (pyval \<times> pyval) \<times> pyval \<times> pyval) dio" where
  "Replication_create_session_configure_replicate_collection cl clk env fuel create_session baseUrl sg_admin_url
      sg_db username sg_blip_url continuous' replication_type auth collections collection_configuration =
     (let authenticator = cl\<lparr>client_base_url := baseUrl\<rparr> in
     bindD (liftD (create_session sg_admin_url sg_db username auth)) (\<lambda>(cookie, session_id).
     bindD (liftD (Authenticator_authentication authenticator session_id cookie PNone PNone (PStr ''session'')))
       (\<lambda>replicator_authenticator.
     bindD (liftD (Replication_configureCollection cl env sg_blip_url replication_type PNone continuous'
              replicator_authenticator PNone PNone PNone PNone collections collection_configuration PNone)) (\<lambda>repl.
     bindD (liftD (Replication_start cl repl)) (\<lambda>_.
     bindD (Replication_wait_until_replicator_idle cl clk fuel repl True 150 2 600) (\<lambda>_.
     liftD (returnIO ((cookie, session_id), replicator_authenticator, repl))))))))"

section \<open>The loops return\<close>

text \<open>The activity levels of a replicator, and a server that reports only them.\<close>

definition activity_levels :: "string list" where
  "activity_levels = [''offline'', ''connecting'', ''busy'', ''idle'', ''stopped'']"

definition reports_levels :: "'w client \<Rightarrow> pyval \<Rightarrow> bool" where
  "reports_levels cl repl \<longleftrightarrow>
     (\<forall>w v w'. Replication_getActivitylevel cl repl w = (Inr v, w') \<longrightarrow> v \<in> PStr ` set activity_levels)"

definition idle_inv :: "'w client \<Rightarrow> pyval \<Rightarrow> idle_state \<Rightarrow> bool" where
  "idle_inv cl repl s \<longleftrightarrow> reports_levels cl repl \<and> idle_count s \<le> max_idle_count
     \<and> idle_level s \<in> PStr ` set activity_levels"

definition idle_rank :: "nat \<Rightarrow> idle_state \<Rightarrow> nat" where
  "idle_rank max_times s = (max_times - idle_times s) * 21 + (20 - idle_count s)
     + (if idle_level s = PStr ''stopped'' then 1 else 0)"

lemma count_level_rank:
  assumes "count_level cl clk repl t s w = (Inr (Some s'), w')" "idle_times s < m" "idle_inv cl repl s"
    "l \<noteq> PStr ''stopped''"
  shows "idle_count s' \<le> max_idle_count \<and> idle_rank m (s'\<lparr>idle_level := l\<rparr>) < idle_rank m s"
  using assms
  by (auto simp: count_level_def idle_inv_def idle_rank_def max_idle_count_def activity_levels_def
      dest!: less_imp_Suc_add elim!: bindIO_cases split: if_splits) (linarith+)

lemma idle_body_True:
  assumes "idle_body cl clk repl ec ic bt st mt s w = (Inr (True, s'), w')"
  obtains l s0 v v' u u' where "count_level cl clk repl st s v = (Inr (Some s0), v')"
    "Replication_getActivitylevel cl repl u = (Inr l, u')" "l \<noteq> PStr ''stopped''" "s' = s0\<lparr>idle_level := l\<rparr>"
  using assms unfolding idle_body_def
  by (auto elim!: bindIO_cases split: option.splits if_splits)

interpretation idle_loop: ranked_loop "\<lambda>s. idle_times s < m"
    "idle_body cl clk repl ec ic bt st mt" "\<lambda>s w. idle_inv cl repl s" "\<lambda>s w. idle_rank m s"
  for m cl clk repl ec ic bt st mt
proof
  fix s s' w w'
  assume inv: "idle_inv cl repl s" and g: "idle_times s < m"
    and b: "idle_body cl clk repl ec ic bt st mt s w = (Inr (True, s'), w')"
  from b obtain l s0 v v' u u' where *: "count_level cl clk repl st s v = (Inr (Some s0), v')"
    "Replication_getActivitylevel cl repl u = (Inr l, u')" "l \<noteq> PStr ''stopped''" "s' = s0\<lparr>idle_level := l\<rparr>"
    by (rule idle_body_True)
  from count_level_rank [OF *(1) g inv *(3)] * inv
  show "idle_inv cl repl s' \<and> idle_rank m s' < idle_rank m s"
    by (auto simp: idle_inv_def reports_levels_def)
qed

text \<open>
  A replicator that needs \<open>ttl w\<close> more waiting periods of two seconds before it reports
  \<open>stopped\<close>.
\<close>

definition stops_after :: "'w client \<Rightarrow> 'w clock \<Rightarrow> pyval \<Rightarrow> ('w \<Rightarrow> nat) \<Rightarrow> bool" where
  "stops_after cl clk repl ttl \<longleftrightarrow>
     (\<forall>u. \<exists>l u'. Replication_getActivitylevel cl repl u = (Inr l, u') \<and> ttl u' = ttl u
        \<and> (l = PStr ''stopped'' \<longleftrightarrow> ttl u = 0)) \<and>
     (\<forall>u. \<exists>u'. clk_sleep clk 2 u = (Inr (), u') \<and> ttl u' = ttl u - 1)"

lemma stops_after_level:
  assumes "stops_after cl clk repl ttl"
  obtains l u' where "Replication_getActivitylevel cl repl u = (Inr l, u')" "ttl u' = ttl u"
    "l = PStr ''stopped'' \<longleftrightarrow> ttl u = 0"
  using assms unfolding stops_after_def by metis

lemma stop_poll_ttl:
  assumes "stops_after cl clk repl ttl"
  shows "\<exists>u'. stop_poll cl clk repl n u = (Inr (), u') \<and> ttl u' = ttl u - n"
proof (induction n arbitrary: u)
  case 0
  obtain l u' where "Replication_getActivitylevel cl repl u = (Inr l, u')" "ttl u' = ttl u"
    using assms by (rule stops_after_level)
  then show ?case by (subst stop_poll.simps) (simp add: bindIO_def)
next
  case (Suc n)
  obtain l u1 where l: "Replication_getActivitylevel cl repl u = (Inr l, u1)" "ttl u1 = ttl u"
    "l = PStr ''stopped'' \<longleftrightarrow> ttl u = 0"
    using assms by (rule stops_after_level)
  obtain u2 where s: "clk_sleep clk 2 u1 = (Inr (), u2)" "ttl u2 = ttl u1 - 1"
    using assms unfolding stops_after_def by metis
  from Suc.IH [of u2] l s show ?case by (subst stop_poll.simps) (auto simp: bindIO_def)
qed

declare stop_poll.simps [simp del]

lemma connect_poll_sleeps:
  "connect_poll clk t l n =
     forIO (replicate (if l = PStr ''connecting'' then n else min n 1) ()) (\<lambda>_. clk_sleep clk t)"
  by (induction n) (auto simp: bindIO_def fun_eq_iff split: prod.splits sum.splits)

section \<open>Properties\<close>

text \<open>
  C24: \<open>wait_until_replicator_idle\<close> returns (with a result or an exception) after at most
  \<open>21 * max_times + 21\<close> rounds whatever the server answers, if the activity levels it reports
  are among the five a replicator has; more fuel does not change the outcome.
\<close>

theorem wait_until_idle_returns:
  assumes "reports_levels cl repl" "max_times * 21 + 21 < fuel"
  shows "\<exists>r. Replication_wait_until_replicator_idle cl clk fuel repl err_check max_times st mt w = Some r"
proof -
  have loop: "while_io (\<lambda>s. idle_times s < max_times) (idle_body cl clk repl err_check ic bt st mt) fuel
      \<lparr>idle_times = 0, idle_count = 0, idle_level = l\<rparr> v \<noteq> None"
    if "Replication_getActivitylevel cl repl u = (Inr l, u')" for ic bt l u u' v
  proof -
    have "\<exists>r. while_io (\<lambda>s. idle_times s < max_times) (idle_body cl clk repl err_check ic bt st mt) fuel
      \<lparr>idle_times = 0, idle_count = 0, idle_level = l\<rparr> v = Some r"
      by (rule idle_loop.returns)
         (use that assms in \<open>auto simp: idle_inv_def reports_levels_def idle_rank_def max_idle_count_def\<close>)
    then show ?thesis by simp
  qed
  have "Replication_wait_until_replicator_idle cl clk fuel repl err_check max_times st mt w \<noteq> None"
    unfolding Replication_wait_until_replicator_idle_def
    by (intro bindD_returns) (use loop in \<open>auto simp: liftD_def\<close>)
  then show ?thesis by simp
qed

definition idle_service :: "nat service" where
  "idle_service m args w =
     (if m = ''replicator_getActivityLevel'' then (Inr (PStr (if w < 5 then ''busy'' else ''idle'')), w + 1)
      else if m = ''replicator_getTotal'' then (Inr (PInt 4), w)
      else if m = ''replicator_getCompleted'' then (Inr (PInt 4), w)
      else (Inr PNone, w))"

definition still_clock :: "'w clock" where
  "still_clock = \<lparr>clk_time = returnIO 0, clk_sleep = (\<lambda>_. returnIO ())\<rparr>"

lemma idle_service_level:
  "Replication_getActivitylevel (test_client idle_service) (PMem ''@1'') w =
     (Inr (PStr (if w < 5 then ''busy'' else ''idle'')), w + 1)"
proof -
  have "call (test_client idle_service) ''replicator_getActivityLevel'' [setMemoryPointer ''replicator'' (PMem ''@1'')] w
      = (seen_result (Inr (PStr (if w < 5 then ''busy'' else ''idle''))), w + 1)"
    by (rule call_handle [where svc = idle_service]) (auto simp: idle_service_def startswith_def endswith_def)
  then show ?thesis by (simp add: Replication_getActivitylevel_def)
qed

theorem wait_until_idle_returns_witness:
  "\<exists>r. Replication_wait_until_replicator_idle (test_client idle_service) still_clock 4000 (PMem ''@1'') True 150 2 600 0
     = Some r"
  by (rule wait_until_idle_returns) (auto simp: reports_levels_def idle_service_level activity_levels_def)

text \<open>
  \<open>stop\<close> waits for a replicator that stops within \<open>max_times\<close> waiting periods and returns, and
  reports failure for one that needs longer.
\<close>

theorem stop_outcome:
  assumes "stops_after cl clk repl ttl"
    and "call cl ''replicator_stop'' [setMemoryPointer ''replicator'' repl] w = (Inr v, w1)"
  shows "if ttl w1 \<le> nat max_times then \<exists>w'. Replication_stop cl clk repl max_times w = (Inr PNone, w')
     else \<exists>e w'. Replication_stop cl clk repl max_times w = (Inl e, w') \<and> exn_class e = ''Exception''"
proof -
  obtain w2 where w2: "stop_poll cl clk repl (nat max_times) w1 = (Inr (), w2)" "ttl w2 = ttl w1 - nat max_times"
    using stop_poll_ttl [OF assms(1)] by blast
  obtain l w3 where w3: "Replication_getActivitylevel cl repl w2 = (Inr l, w3)" "l = PStr ''stopped'' \<longleftrightarrow> ttl w2 = 0"
    using assms(1) by (rule stops_after_level)
  obtain l' w4 where w4: "Replication_getActivitylevel cl repl w3 = (Inr l', w4)"
    using assms(1) by (rule stops_after_level)
  show ?thesis
    using assms(2) w2 w3 w4 by (auto simp: Replication_stop_def bindIO_def)
qed

definition stopping_service :: "nat service" where
  "stopping_service m args w =
     (if m = ''replicator_getActivityLevel'' then (Inr (PStr (if w = 0 then ''stopped'' else ''busy'')), w)
      else (Inr PNone, w))"

definition countdown_clock :: "nat clock" where
  "countdown_clock = \<lparr>clk_time = returnIO 0, clk_sleep = (\<lambda>_ w. (Inr (), w - 1))\<rparr>"

lemma stopping_service_level:
  "Replication_getActivitylevel (test_client stopping_service) (PMem ''@1'') w =
     (Inr (PStr (if w = 0 then ''stopped'' else ''busy'')), w)"
proof -
  have "call (test_client stopping_service) ''replicator_getActivityLevel'' [setMemoryPointer ''replicator'' (PMem ''@1'')] w
      = (seen_result (Inr (PStr (if w = 0 then ''stopped'' else ''busy''))), w)"
    by (rule call_handle [where svc = stopping_service]) (auto simp: stopping_service_def startswith_def endswith_def)
  then show ?thesis by (simp add: Replication_getActivitylevel_def)
qed

theorem stop_outcome_witness:
  "\<exists>w'. Replication_stop (test_client stopping_service) countdown_clock (PMem ''@1'') 15 7 = (Inr PNone, w')"
proof -
  have s: "stops_after (test_client stopping_service) countdown_clock (PMem ''@1'') (\<lambda>w. w)"
    by (auto simp: stops_after_def stopping_service_level countdown_clock_def)
  have c: "call (test_client stopping_service) ''replicator_stop'' [setMemoryPointer ''replicator'' (PMem ''@1'')] 7
      = (Inr PNone, 7)"
    by code_simp
  from stop_outcome [OF s c, of 15] show ?thesis by simp
qed

text \<open>
  \<open>yield_for_replicator_connected\<close> asks for the activity level once; a replicator that is
  connecting then is waited for the full \<open>max_times\<close> periods whatever it does meanwhile, any other
  for one period.
\<close>

theorem yield_asks_once:
  "Replication_yield_for_replicator_connected cl clk repl max_times st =
     bindIO (Replication_getActivitylevel cl repl) (\<lambda>level.
     bindIO (forIO (replicate (if level = PStr ''connecting'' then max_times else min max_times 1) ())
       (\<lambda>_. clk_sleep clk st)) (\<lambda>_. returnIO PNone))"
  by (simp add: Replication_yield_for_replicator_connected_def connect_poll_sleeps)

text \<open>
  \<open>ReplicatorConfiguration.configure\<close> for a local target database with an encryptor sends
  nothing to the server and returns \<open>None\<close> (or the failure of looking up the cluster
  configuration).
\<close>

theorem configure_encryptor_sends_nothing:
  assumes "target_db \<noteq> PNone" "encryptor \<noteq> PNone"
  shows "ReplicatorConfiguration_configure cl env source_db target_url target_db replication_type cont channels
      documentIDs authenticator headers timeout retries encryptor w
    = (bindR (pinned_cert (client_runtime cl) env) (\<lambda>_. Inr PNone), w)"
  using assms
  by (simp add: ReplicatorConfiguration_configure_def Let_def bindIO_def bindR_def split: sum.splits)

theorem configure_encryptor_sends_nothing_witness:
  "ReplicatorConfiguration_configure (test_client idle_service) sample_env (PMem ''@1'') PNone (PMem ''@2'')
      (PStr ''push_pull'') (PBool True) PNone PNone PNone PNone PNone PNone (PMem ''@3'') 6 = (Inr PNone, 6)"
proof -
  have "bindR (pinned_cert plain_runtime sample_env) (\<lambda>_. Inr PNone) = Inr PNone" by code_simp
  with configure_encryptor_sends_nothing [of "PMem ''@2''" "PMem ''@3''" "test_client idle_service" sample_env
      "PMem ''@1''" PNone "PStr ''push_pull''" "PBool True" PNone PNone PNone PNone PNone PNone 6]
  show ?thesis by simp
qed

end
