(* ===== verification/Server_Pool.thy ===== *)
theory Server_Pool
  imports Py_Value Loops "HOL-Library.Sublist"
begin

text \<open>
  \<open>utilities/mobile_server_pool.py\<close>: reserving and releasing machines of a shared pool, whose
  state is a Couchbase bucket with one document per machine. The Couchbase SDK, ssh, ping and
  the clock are the record \<open>pool_sdk\<close>; what the code relies on of the SDK is \<open>cas_store\<close>. A
  reservation of one machine by several jobs at once is the step relation \<open>pool_step\<close>.
\<close>

type_synonym node_doc = "(string, pyval) dict"

record 'w pool_sdk =
  sdk_get :: "string \<Rightarrow> ('w, node_doc \<times> int) io"
  sdk_get_quiet :: "string \<Rightarrow> ('w, (node_doc \<times> int) option) io"
  sdk_replace :: "string \<Rightarrow> node_doc \<Rightarrow> int option \<Rightarrow> ('w, unit) io"
  sdk_query :: "string \<Rightarrow> ('w, string list) io"
  sdk_couchbase_error :: "exn \<Rightarrow> bool"
  ssh_connect :: "string \<Rightarrow> ('w, unit) io"
  ping_returncode :: "string \<Rightarrow> ('w, int) io"
  pool_sleep :: "nat \<Rightarrow> ('w, unit) io"
  pool_strftime :: "('w, string) io"

definition BUCKET_NAME :: string where
  "BUCKET_NAME = ''QE-mobile-pool''"

definition SSH_NUM_RETRIES :: nat where
  "SSH_NUM_RETRIES = 3"

definition SSH_POLL_INTERVAL :: nat where
  "SSH_POLL_INTERVAL = 20"

definition MOBILE_OS :: "string list" where
  "MOBILE_OS = [''android'', ''ios'']"

definition sq :: "string \<Rightarrow> string" where
  "sq s = [chr_squote] @ s @ [chr_squote]"

section \<open>Liveness checks\<close>

text \<open>After the last attempt the loop falls through: the result is \<open>None\<close>, here \<open>False\<close>.\<close>

fun ssh_attempts :: "'w pool_sdk \<Rightarrow> string \<Rightarrow> nat \<Rightarrow> ('w, bool) io" where
  "ssh_attempts sdk server 0 = returnIO False"
| "ssh_attempts sdk server (Suc n) =
     tryIO (bindIO (ssh_connect sdk server) (\<lambda>_. returnIO True))
       (\<lambda>e. bindIO (pool_sleep sdk SSH_POLL_INTERVAL) (\<lambda>_. ssh_attempts sdk server n))"

definition check_vm_alive :: "'w pool_sdk \<Rightarrow> string \<Rightarrow> ('w, bool) io" where
  "check_vm_alive sdk server = ssh_attempts sdk server (SSH_NUM_RETRIES + 1)"

definition check_device_alive :: "'w pool_sdk \<Rightarrow> string \<Rightarrow> ('w, bool) io" where
  "check_device_alive sdk device_ip =
     bindIO (ping_returncode sdk device_ip) (\<lambda>c. returnIO (c = 0))"

section \<open>Reserving and releasing one node\<close>

definition booked_doc :: "pyval \<Rightarrow> string \<Rightarrow> node_doc \<Rightarrow> node_doc res" where
  "booked_doc job_name now doc =
     bindR (dict_index doc ''username'') (\<lambda>u.
       Inr (dict_set (dict_set (dict_set (dict_set doc ''prevUser'' u) ''username'' job_name)
              ''state'' (PStr ''booked'')) ''booked_time'' (PStr now)))"

fun reserve_attempts :: "'w pool_sdk \<Rightarrow> string \<Rightarrow> pyval \<Rightarrow> nat \<Rightarrow> ('w, bool) io" where
  "reserve_attempts sdk doc_id job_name retries =
     bindIO (sdk_get sdk doc_id) (\<lambda>(doc, curr_cas).
     bindIO (pool_strftime sdk) (\<lambda>now.
     bindIO (liftIO (booked_doc job_name now doc)) (\<lambda>doc.
     tryIO (bindIO (sdk_replace sdk doc_id doc (Some curr_cas)) (\<lambda>_. returnIO True))
       (\<lambda>err.
         if sdk_couchbase_error sdk err then
           bindIO (sdk_get sdk doc_id) (\<lambda>(doc, _).
           bindIO (liftIO (dict_index doc ''state'')) (\<lambda>st.
             case retries of
               Suc n \<Rightarrow>
                 if st \<noteq> PStr ''booked'' then reserve_attempts sdk doc_id job_name n
                 else bindIO (liftIO (dict_index doc ''username'')) (\<lambda>_. returnIO False)
             | 0 \<Rightarrow> bindIO (liftIO (dict_index doc ''username'')) (\<lambda>_. returnIO False)))
         else returnIO False))))"

declare reserve_attempts.simps [simp del]

text \<open>The attempt number \<open>counter\<close> leaves \<open>5 - counter\<close> further attempts.\<close>

definition reserve_node :: "'w pool_sdk \<Rightarrow> string \<Rightarrow> pyval \<Rightarrow> nat \<Rightarrow> ('w, bool) io" where
  "reserve_node sdk doc_id job_name counter = reserve_attempts sdk doc_id job_name (5 - counter)"

text \<open>\<open>v or ""\<close>.\<close>

definition or_empty :: "pyval \<Rightarrow> pyval" where
  "or_empty v = (if py_truth v then v else PStr [])"

definition released_doc :: "pyval \<Rightarrow> node_doc \<Rightarrow> node_doc" where
  "released_doc u doc =
     dict_set (dict_set (dict_set doc ''prevUser'' u) ''username'' (PStr [])) ''state'' (PStr ''available'')"

definition release_one :: "py_runtime \<Rightarrow> 'w pool_sdk \<Rightarrow> pyval \<Rightarrow> string \<Rightarrow> ('w, unit) io" where
  "release_one rt sdk job_name node =
     bindIO (sdk_get sdk node) (\<lambda>(doc, _).
     bindIO (liftIO (dict_index doc ''username'')) (\<lambda>u.
       if py_str rt (or_empty u) = py_str rt (or_empty job_name) then
         sdk_replace sdk node (released_doc u doc) None
       else raiseIO (Exn ''Exception'' ''Unable to release the node. Release node manually'')))"

definition release_node :: "py_runtime \<Rightarrow> 'w pool_sdk \<Rightarrow> string list \<Rightarrow> pyval \<Rightarrow> ('w, unit) io" where
  "release_node rt sdk pool_list job_name = forIO pool_list (release_one rt sdk job_name)"

section \<open>Requests for several nodes\<close>

text \<open>The version and the clause of the query that a mobile operating system needs. The two callers differ in
  the space after \<open>select\<close>.\<close>

definition pool_query :: "string \<Rightarrow> string \<Rightarrow> string \<Rightarrow> string option \<Rightarrow> string res" where
  "pool_query gap nodes_os_type node_os_version slave_ip =
     bindR (if nodes_os_type \<in> set MOBILE_OS then
              (case slave_ip of
                 None \<Rightarrow> raise_exc ''Exception'' (chr_newline # ''**** we need slave ip to get phone info on that slave ***'')
               | Some ip \<Rightarrow> Inr (''7'', ''AND slave_ip='' @ sq ip))
            else Inr (node_os_version, []))
       (\<lambda>(version, clause). Inr (''select'' @ gap @ ''meta().id from '' @ [chr_backtick] @ BUCKET_NAME @ [chr_backtick]
          @ '' where os='' @ sq nodes_os_type @ '' AND os_version='' @ sq version
          @ '' AND state='' @ sq ''available'' @ '' '' @ clause))"

definition check_alive :: "'w pool_sdk \<Rightarrow> bool \<Rightarrow> string \<Rightarrow> ('w, bool) io" where
  "check_alive sdk mobile doc_id =
     (if mobile then check_device_alive sdk doc_id else check_vm_alive sdk doc_id)"

definition get_nodes_available_from_mobile_pool ::
    "'w pool_sdk \<Rightarrow> string \<Rightarrow> string \<Rightarrow> string option \<Rightarrow> ('w, nat) io" where
  "get_nodes_available_from_mobile_pool sdk nodes_os_type node_os_version slave_ip =
     bindIO (liftIO (pool_query ''  '' nodes_os_type node_os_version slave_ip)) (\<lambda>q.
     bindIO (sdk_query sdk q) (\<lambda>rows.
     foldIO (\<lambda>count doc_id.
       bindIO (check_alive sdk (nodes_os_type \<in> set MOBILE_OS) doc_id) (\<lambda>alive.
         returnIO (if alive then count + 1 else count))) 0 rows))"

text \<open>The statement that is meant to take a dead machine out of the pool.\<close>

definition mark_dead_query :: "bool \<Rightarrow> string \<Rightarrow> string" where
  "mark_dead_query mobile doc_id =
     ''update '' @ [chr_backtick] @ doc_id @ [chr_backtick] @ '' set state='' @
     dq (if mobile then ''device_down'' else ''VM_NOT_ALLIVE'') @
     '' where meta().id='' @ sq doc_id @ '' and state='' @ sq ''available''"

fun pool_loop :: "py_runtime \<Rightarrow> 'w pool_sdk \<Rightarrow> bool \<Rightarrow> int \<Rightarrow> pyval \<Rightarrow> string list \<Rightarrow> string list \<Rightarrow>
    ('w, string list) io" where
  "pool_loop rt sdk mobile num_of_nodes job pool_list [] =
     bindIO (release_node rt sdk pool_list job) (\<lambda>_.
       raiseIO (Exn ''Exception'' ''Not enough free node/s available to satisfy the request''))"
| "pool_loop rt sdk mobile num_of_nodes job pool_list (doc_id # rows) =
     bindIO (reserve_node sdk doc_id job 0) (\<lambda>is_node_reserved.
     bindIO (check_alive sdk mobile doc_id) (\<lambda>alive.
     bindIO (if \<not> alive then bindIO (sdk_query sdk (mark_dead_query mobile doc_id)) (\<lambda>_. returnIO ())
             else returnIO ()) (\<lambda>_.
       let pool_list = (if is_node_reserved \<and> alive then pool_list @ [doc_id] else pool_list) in
       if int (length pool_list) = num_of_nodes then returnIO pool_list
       else pool_loop rt sdk mobile num_of_nodes job pool_list rows)))"

definition get_nodes_from_pool_server :: "py_runtime \<Rightarrow> 'w pool_sdk \<Rightarrow> int \<Rightarrow> string \<Rightarrow> string \<Rightarrow> pyval \<Rightarrow>
    string option \<Rightarrow> ('w, string list) io" where
  "get_nodes_from_pool_server rt sdk num_of_nodes nodes_os_type node_os_version job_name slave_ip =
     bindIO (liftIO (pool_query '' '' nodes_os_type node_os_version slave_ip)) (\<lambda>q.
     bindIO (sdk_query sdk q) (\<lambda>rows.
     pool_loop rt sdk (nodes_os_type \<in> set MOBILE_OS) num_of_nodes job_name [] rows))"

section \<open>Cleaning up\<close>

text \<open>\<open>result.value\<close> of a quiet \<open>get\<close>.\<close>

definition quiet_value :: "'w pool_sdk \<Rightarrow> string \<Rightarrow> ('w, node_doc) io" where
  "quiet_value sdk doc_id =
     bindIO (sdk_get_quiet sdk doc_id) (\<lambda>r. case r of
       None \<Rightarrow> raiseIO (Exn ''AttributeError'' (repr_str ''NoneType'' @ '' object has no attribute '' @ repr_str ''value''))
     | Some (doc, _) \<Rightarrow> returnIO doc)"

text \<open>
  The loop assigns to \<open>job_name\<close>, so the argument is replaced by the job of the first booked
  node and is not \<open>None\<close> any more.
\<close>

definition cleanup_one :: "'w pool_sdk \<Rightarrow> (string \<Rightarrow> string \<Rightarrow> ('w, bool) io) \<Rightarrow> string list \<Rightarrow> string \<Rightarrow>
    ('w, string list) io" where
  "cleanup_one sdk is_jenkins_job_running release_node_list doc_id =
     bindIO (quiet_value sdk doc_id) (\<lambda>doc.
     bindIO (liftIO (dict_index doc ''state'')) (\<lambda>st.
     if st = PStr ''available'' then returnIO release_node_list
     else
       bindIO (liftIO (dict_index doc ''username'')) (\<lambda>u.
       bindIO (liftIO (case u of
                 PStr s \<Rightarrow> Inr (if s = [] then ''test_job:123'' else s)
               | _ \<Rightarrow> raise_exc ''AttributeError'' (repr_str (py_type u) @ '' object has no attribute '' @ repr_str ''split'')))
         (\<lambda>job_id.
       let length_array = split_chr CHR '':'' job_id in
       if length length_array < 2 then raiseIO (Exn ''IndexError'' ''list index out of range'')
       else
         let job_name = PStr (length_array ! 0); build_id = length_array ! 1 in
         bindIO (if job_name \<noteq> PNone then returnIO True
                 else bindIO (is_jenkins_job_running (length_array ! 0) build_id) (\<lambda>r. returnIO (\<not> r))) (\<lambda>free.
         if free then
           bindIO (sdk_replace sdk doc_id (released_doc u doc) None) (\<lambda>_.
             returnIO (release_node_list @ [doc_id]))
         else returnIO release_node_list)))))"

definition cleanup_query :: "pyval \<Rightarrow> py_runtime \<Rightarrow> string" where
  "cleanup_query job_name rt =
     ''select meta().id from '' @ [chr_backtick] @ BUCKET_NAME @ [chr_backtick] @ '' where state='' @ dq ''booked''
     @ (if job_name \<noteq> PNone then '' and username='' @ dq (py_str rt job_name) else [])"

definition cleanup_for_blocked_nodes :: "py_runtime \<Rightarrow> 'w pool_sdk \<Rightarrow> (string \<Rightarrow> string \<Rightarrow> ('w, bool) io) \<Rightarrow> pyval \<Rightarrow>
    ('w, string list) io" where
  "cleanup_for_blocked_nodes rt sdk is_jenkins_job_running job_name =
     bindIO (sdk_query sdk (cleanup_query job_name rt)) (\<lambda>rows.
     foldIO (cleanup_one sdk is_jenkins_job_running) [] rows)"

text \<open>
  \<open>is_jenkins_job_running\<close>: the answer of the request, or the exception it raised with the
  response that was assigned before it, if any. The handler reads \<open>resp.status_code\<close>, which is
  itself an error when there is no response.
\<close>

record jenkins_response =
  jr_status :: int
  jr_error :: "exn option"
  jr_json :: "pyval res"

definition is_jenkins_job_running :: "(string \<Rightarrow> ('w, jenkins_response) io) \<Rightarrow> string \<Rightarrow> string \<Rightarrow> ('w, bool) io" where
  "is_jenkins_job_running http_get job_name build_id w =
     (case http_get (''http://uberjenkins.sc.couchbase.com:8080/job//'' @ job_name @ ''/'' @ build_id @ ''/api/json'') w of
        (Inl e, w') \<Rightarrow>
          (raise_exc ''AttributeError'' (repr_str ''NoneType'' @ '' object has no attribute '' @ repr_str ''status_code''), w')
      | (Inr resp, w') \<Rightarrow>
          (case jr_error resp of
             Some e \<Rightarrow> (Inr False, w')
           | None \<Rightarrow>
               (if jr_status resp = 200 then
                  (case bindR (jr_json resp) (\<lambda>j. py_item j ''result'') of
                     Inr v \<Rightarrow> (Inr (v = PNone), w')
                   | Inl e \<Rightarrow> (Inr False, w'))
                else (Inr False, w'))))"

section \<open>The pool file\<close>

text \<open>
  What the command line writes to \<open>resources/pool.json\<close> for the reserved nodes and the nodes
  given for Sync Gateway and the load balancers, comma separated.
\<close>

definition quoted_items :: "string \<Rightarrow> string list \<Rightarrow> string" where
  "quoted_items rest ns = concat (map (\<lambda>n. dq n @ rest @ '', '') ns)"

definition node_names :: "string option \<Rightarrow> string list" where
  "node_names opt = (case opt of None \<Rightarrow> [] | Some s \<Rightarrow> if s = [] then [] else split_chr CHR '','' (py_strip s))"

definition pool_json_str :: "string list \<Rightarrow> string option \<Rightarrow> string option \<Rightarrow> string" where
  "pool_json_str node_list sgw_nodes load_balancer_nodes =
     (let sgw_node_list = node_names sgw_nodes; lp_node_list = node_names load_balancer_nodes;
          s = ''{ '' @ dq ''ips'' @ '': ['' @ quoted_items [] node_list @ quoted_items [] sgw_node_list
              @ quoted_items [] lp_node_list;
          s = rstrip_chars '', '' s @ ''],'';
          s = (if sgw_nodes \<noteq> None \<and> sgw_nodes \<noteq> Some [] then
                 rstrip_chars '', '' (s @ dq ''ip_to_node_type'' @ '': {''
                   @ quoted_items ('': '' @ dq ''couchbase_servers'') node_list
                   @ quoted_items ('': '' @ dq ''sync_gateways'') sgw_node_list
                   @ quoted_items ('': '' @ dq ''load_balancers'') lp_node_list) @ ''},''
               else s)
      in rstrip_chars '', '' s @ ''}'')"

section \<open>Several jobs at one node\<close>

text \<open>
  \<open>reserve_node\<close> run by several jobs at once, cut at its calls of the bucket: a job reads the
  document and its CAS, writes it if the CAS is still that of the bucket, and looks again after a
  mismatch. \<open>ns_writes\<close> records which job overwrote which version.
\<close>

datatype phase = Start nat | Have node_doc nat nat | Check nat | Done bool

record node_state =
  ns_doc :: node_doc
  ns_cas :: nat
  ns_phase :: "string \<Rightarrow> phase"
  ns_writes :: "(string \<times> nat) list"

definition set_phase :: "node_state \<Rightarrow> string \<Rightarrow> phase \<Rightarrow> node_state" where
  "set_phase s j p = s\<lparr>ns_phase := (ns_phase s)(j := p)\<rparr>"

inductive pool_step :: "node_state \<Rightarrow> node_state \<Rightarrow> bool" where
  read_doc: "ns_phase s j = Start n \<Longrightarrow> pool_step s (set_phase s j (Have (ns_doc s) (ns_cas s) n))"
| write_doc: "ns_phase s j = Have doc cas n \<Longrightarrow> cas = ns_cas s \<Longrightarrow> booked_doc (PStr j) now doc = Inr doc' \<Longrightarrow>
    pool_step s (set_phase (s\<lparr>ns_doc := doc', ns_cas := ns_cas s + 1, ns_writes := ns_writes s @ [(j, cas)]\<rparr>)
      j (Done True))"
| mismatch: "ns_phase s j = Have doc cas n \<Longrightarrow> cas \<noteq> ns_cas s \<Longrightarrow> pool_step s (set_phase s j (Check n))"
| again: "ns_phase s j = Check n \<Longrightarrow> dict_index (ns_doc s) ''state'' = Inr st \<Longrightarrow> st \<noteq> PStr ''booked'' \<Longrightarrow> n < 5 \<Longrightarrow>
    pool_step s (set_phase s j (Start (n + 1)))"
| give_up: "ns_phase s j = Check n \<Longrightarrow> dict_index (ns_doc s) ''state'' = Inr st \<Longrightarrow> st = PStr ''booked'' \<or> \<not> n < 5 \<Longrightarrow>
    pool_step s (set_phase s j (Done False))"

inductive pool_reachable :: "node_doc \<Rightarrow> node_state \<Rightarrow> bool" for doc where
  init: "pool_reachable doc \<lparr>ns_doc = doc, ns_cas = 0, ns_phase = (\<lambda>_. Start 0), ns_writes = []\<rparr>"
| step: "pool_reachable doc s \<Longrightarrow> pool_step s s' \<Longrightarrow> pool_reachable doc s'"

inductive_cases pool_stepE: "pool_step s s'"

text \<open>A node that the job was told it has reserved and that was found to be up.\<close>

definition handed_out :: "'w pool_sdk \<Rightarrow> bool \<Rightarrow> pyval \<Rightarrow> string \<Rightarrow> bool" where
  "handed_out sdk mobile job k \<longleftrightarrow> (\<exists>v v'. reserve_node sdk k job 0 v = (Inr True, v')) \<and>
     (\<exists>v v'. check_alive sdk mobile k v = (Inr True, v'))"

lemma set_phase_simps [simp]:
  "ns_doc (set_phase s j p) = ns_doc s" "ns_cas (set_phase s j p) = ns_cas s"
  "ns_writes (set_phase s j p) = ns_writes s" "ns_phase (set_phase s j p) = (ns_phase s)(j := p)"
  by (simp_all add: set_phase_def)

text \<open>The writes happened in version order, one per version, and the last one made the document.\<close>

definition writes_inv :: "node_state \<Rightarrow> bool" where
  "writes_inv s \<longleftrightarrow> map snd (ns_writes s) = [0..<ns_cas s]
     \<and> (\<forall>j. ns_phase s j = Done True \<longleftrightarrow> j \<in> fst ` set (ns_writes s))
     \<and> (ns_writes s \<noteq> [] \<longrightarrow> map_of (ns_doc s) ''username'' = Some (PStr (fst (last (ns_writes s))))
          \<and> map_of (ns_doc s) ''state'' = Some (PStr ''booked''))"

lemma booked_doc_fields:
  assumes "booked_doc job now doc = Inr doc'"
  shows "map_of doc' ''username'' = Some job" "map_of doc' ''state'' = Some (PStr ''booked'')"
    "map_of doc' ''prevUser'' = map_of doc ''username''"
    "k \<notin> {''username'', ''state'', ''prevUser'', ''booked_time''} \<Longrightarrow> map_of doc' k = map_of doc k"
  using assms by (auto simp: booked_doc_def bindR_eq_Inr dict_index_Inr)

lemma writes_inv_phase:
  assumes "writes_inv s" "ns_phase s j \<noteq> Done True" "p \<noteq> Done True"
  shows "writes_inv (set_phase s j p)"
  using assms unfolding writes_inv_def by (metis fun_upd_apply set_phase_simps)

lemma writes_inv_reachable: "pool_reachable doc s \<Longrightarrow> writes_inv s"
proof (induction rule: pool_reachable.induct)
  case init
  then show ?case by (simp add: writes_inv_def)
next
  case (step s s')
  from step(2) step.IH show ?case
  proof (cases rule: pool_step.cases)
    case (write_doc j doc cas n now doc')
    from booked_doc_fields(1,2) [OF write_doc(4)] write_doc(1-3) step.IH show ?thesis
      by (auto simp: writes_inv_def)
  qed (auto intro: writes_inv_phase)
qed

section \<open>What the code relies on of the SDK\<close>

text \<open>
  \<open>view w k\<close> is the document of the bucket under \<open>k\<close> with its CAS: \<open>get\<close> returns it, \<open>replace\<close>
  writes it when no CAS or the current one is given and fails with a Couchbase error otherwise;
  the clock leaves the bucket alone.
\<close>

definition cas_store :: "'w pool_sdk \<Rightarrow> ('w \<Rightarrow> string \<Rightarrow> (node_doc \<times> int) option) \<Rightarrow> bool" where
  "cas_store sdk view \<longleftrightarrow>
     (\<forall>k w d c. view w k = Some (d, c) \<longrightarrow> sdk_get sdk k w = (Inr (d, c), w)) \<and>
     (\<forall>k d cas w d0 c. view w k = Some (d0, c) \<and> cas \<in> {None, Some c} \<longrightarrow>
        (\<exists>w' c'. sdk_replace sdk k d cas w = (Inr (), w') \<and> view w' = (view w)(k \<mapsto> (d, c')))) \<and>
     (\<forall>k d cas w d0 c. view w k = Some (d0, c) \<and> cas \<noteq> c \<longrightarrow>
        (\<exists>e. sdk_replace sdk k d (Some cas) w = (Inl e, w) \<and> sdk_couchbase_error sdk e)) \<and>
     (\<forall>w. \<exists>t. pool_strftime sdk w = (Inr t, w))"

lemma cas_storeD:
  assumes "cas_store sdk view" "view w k = Some (d, c)"
  shows "sdk_get sdk k w = (Inr (d, c), w)"
    and "\<And>d' cas. cas \<in> {None, Some c} \<Longrightarrow>
      \<exists>w' c'. sdk_replace sdk k d' cas w = (Inr (), w') \<and> view w' = (view w)(k \<mapsto> (d', c'))"
    and "\<exists>t. pool_strftime sdk w = (Inr t, w)"
  using assms unfolding cas_store_def by blast+

lemma reserve_books:
  assumes "cas_store sdk view" "view w k = Some (d, c)" "dict_has d ''username''"
  obtains w' now d' c' where "reserve_node sdk k job counter w = (Inr True, w')"
    "booked_doc job now d = Inr d'" "view w' = (view w)(k \<mapsto> (d', c'))"
proof -
  note store = cas_storeD [OF assms(1,2)]
  obtain now where now: "pool_strftime sdk w = (Inr now, w)" using store(3) by blast
  obtain d' where d': "booked_doc job now d = Inr d'"
    using assms(3) by (auto simp: booked_doc_def dict_has_def dict_index_def)
  obtain w' c' where w': "sdk_replace sdk k d' (Some c) w = (Inr (), w')" "view w' = (view w)(k \<mapsto> (d', c'))"
    using store(2) [of "Some c" d'] by auto
  have "reserve_node sdk k job counter w = (Inr True, w')"
    unfolding reserve_node_def
    by (subst reserve_attempts.simps) (simp add: bindIO_def tryIO_def store(1) now d' w'(1))
  from this d' w'(2) show ?thesis by (rule that)
qed

lemma release_frees:
  assumes "cas_store sdk view" "view w k = Some (d, c)" "map_of d ''username'' = Some u"
    and "py_str rt (or_empty u) = py_str rt (or_empty job)"
  obtains w' c' where "release_one rt sdk job k w = (Inr (), w')"
    "view w' = (view w)(k \<mapsto> (released_doc u d, c'))"
proof -
  note store = cas_storeD [OF assms(1,2)]
  obtain w' c' where "sdk_replace sdk k (released_doc u d) None w = (Inr (), w')"
    "view w' = (view w)(k \<mapsto> (released_doc u d, c'))"
    using store(2) [of None "released_doc u d"] by auto
  with assms(3,4) show ?thesis
    by (intro that) (simp_all add: release_one_def bindIO_def store(1) dict_index_def)
qed

text \<open>
  The other calls leave the bucket alone: queries, the clock, and the connections, which succeed
  exactly for the machines that are up.
\<close>

definition quiet_world :: "'w pool_sdk \<Rightarrow> ('w \<Rightarrow> string \<Rightarrow> (node_doc \<times> int) option) \<Rightarrow> (string \<Rightarrow> bool) \<Rightarrow> bool" where
  "quiet_world sdk view alive \<longleftrightarrow>
     (\<forall>q w. \<exists>rs w'. sdk_query sdk q w = (Inr rs, w') \<and> view w' = view w) \<and>
     (\<forall>k w. \<exists>r w'. ssh_connect sdk k w = (r, w') \<and> view w' = view w \<and> (alive k \<longleftrightarrow> r = Inr ())) \<and>
     (\<forall>k w. \<exists>c w'. ping_returncode sdk k w = (Inr c, w') \<and> view w' = view w \<and> (alive k \<longleftrightarrow> c = 0)) \<and>
     (\<forall>n w. \<exists>w'. pool_sleep sdk n w = (Inr (), w') \<and> view w' = view w)"

lemma ssh_attempts_alive:
  assumes "quiet_world sdk view alive"
  shows "\<exists>w'. ssh_attempts sdk k n w = (Inr (0 < n \<and> alive k), w') \<and> view w' = view w"
proof (induction n arbitrary: w)
  case (Suc n)
  from assms obtain r w1 where s: "ssh_connect sdk k w = (r, w1)" "view w1 = view w" "alive k \<longleftrightarrow> r = Inr ()"
    unfolding quiet_world_def by meson
  from assms obtain w2 where p: "pool_sleep sdk SSH_POLL_INTERVAL w1 = (Inr (), w2)" "view w2 = view w1"
    unfolding quiet_world_def by meson
  show ?case
  proof (cases r)
    case (Inl e)
    with Suc.IH [of w2] s p show ?thesis by (auto simp: tryIO_def bindIO_def)
  qed (use s in \<open>auto simp: tryIO_def bindIO_def\<close>)
qed simp

lemma check_alive_quiet:
  assumes "quiet_world sdk view alive"
  shows "\<exists>w'. check_alive sdk mobile k w = (Inr (alive k), w') \<and> view w' = view w"
proof (cases mobile)
  case True
  from assms obtain c w' where "ping_returncode sdk k w = (Inr c, w')" "view w' = view w" "alive k \<longleftrightarrow> c = 0"
    unfolding quiet_world_def by meson
  with True show ?thesis by (simp add: check_alive_def check_device_alive_def bindIO_def)
next
  case False
  with ssh_attempts_alive [OF assms, of k "SSH_NUM_RETRIES + 1" w] show ?thesis
    by (simp add: check_alive_def check_vm_alive_def)
qed

text \<open>A machine that a job holds, one that is back in the pool, and one that can be booked at all.\<close>

definition held_by :: "pyval \<Rightarrow> (node_doc \<times> int) option \<Rightarrow> bool" where
  "held_by job e \<longleftrightarrow> (\<exists>d c. e = Some (d, c) \<and> map_of d ''username'' = Some job \<and> map_of d ''state'' = Some (PStr ''booked''))"

definition given_back :: "pyval \<Rightarrow> (node_doc \<times> int) option \<Rightarrow> bool" where
  "given_back job e \<longleftrightarrow> (\<exists>d c. e = Some (d, c) \<and> map_of d ''username'' = Some (PStr []) \<and>
     map_of d ''state'' = Some (PStr ''available'') \<and> map_of d ''prevUser'' = Some job)"

definition pool_node :: "(node_doc \<times> int) option \<Rightarrow> bool" where
  "pool_node e \<longleftrightarrow> (\<exists>d c. e = Some (d, c) \<and> dict_has d ''username'')"

lemma release_all:
  assumes "cas_store sdk view" "distinct ks" "\<forall>k \<in> set ks. held_by job (view w k)"
  shows "\<exists>w'. release_node rt sdk ks job w = (Inr (), w') \<and> (\<forall>k \<in> set ks. given_back job (view w' k))
     \<and> (\<forall>k. k \<notin> set ks \<longrightarrow> view w' k = view w k)"
  using assms(2,3)
proof (induction ks arbitrary: w)
  case (Cons k ks)
  then obtain d c where d: "view w k = Some (d, c)" "map_of d ''username'' = Some job" by (auto simp: held_by_def)
  obtain w1 c1 where w1: "release_one rt sdk job k w = (Inr (), w1)" "view w1 = (view w)(k \<mapsto> (released_doc job d, c1))"
    using assms(1) d refl by (rule release_frees)
  have "\<forall>k \<in> set ks. held_by job (view w1 k)" using Cons.prems w1(2) by auto
  with Cons.IH [of w1] Cons.prems(1) obtain w2 where w2: "release_node rt sdk ks job w1 = (Inr (), w2)"
    "\<forall>k \<in> set ks. given_back job (view w2 k)" "\<forall>k. k \<notin> set ks \<longrightarrow> view w2 k = view w1 k" by auto
  have "given_back job (view w1 k)" using w1(2) by (simp add: given_back_def released_doc_def)
  moreover have "release_node rt sdk (k # ks) job w = (Inr (), w2)"
    using w1(1) w2(1) by (simp add: release_node_def bindIO_def)
  ultimately show ?case using w2 w1(2) Cons.prems(1) by auto
qed (simp add: release_node_def)

lemma pool_loop_row:
  assumes "cas_store sdk view" "quiet_world sdk view alive" "pool_node (view w k)"
  obtains w' where "held_by job (view w' k)" "\<forall>j. j \<noteq> k \<longrightarrow> view w' j = view w j"
    "pool_loop rt sdk mobile n job acc (k # rows) w =
       (let acc' = (if alive k then acc @ [k] else acc) in
        if int (length acc') = n then (Inr acc', w') else pool_loop rt sdk mobile n job acc' rows w')"
proof -
  from assms(3) obtain d c where d: "view w k = Some (d, c)" "dict_has d ''username''" by (auto simp: pool_node_def)
  obtain w1 now d1 c1 where w1: "reserve_node sdk k job 0 w = (Inr True, w1)" "booked_doc job now d = Inr d1"
    "view w1 = (view w)(k \<mapsto> (d1, c1))"
    using assms(1) d by (rule reserve_books)
  obtain w2 where w2: "check_alive sdk mobile k w1 = (Inr (alive k), w2)" "view w2 = view w1"
    using check_alive_quiet [OF assms(2)] by meson
  obtain rs w3 where w3: "sdk_query sdk (mark_dead_query mobile k) w2 = (Inr rs, w3)" "view w3 = view w2"
    using assms(2) unfolding quiet_world_def by meson
  let ?w = "if alive k then w2 else w3"
  have v: "view ?w = (view w)(k \<mapsto> (d1, c1))" using w1(3) w2(2) w3(2) by simp
  show ?thesis
  proof (rule that [of ?w])
    show "held_by job (view ?w k)" using booked_doc_fields(1,2) [OF w1(2)] v by (simp add: held_by_def)
    show "\<forall>j. j \<noteq> k \<longrightarrow> view ?w j = view w j" using v by simp
    show "pool_loop rt sdk mobile n job acc (k # rows) w =
       (let acc' = (if alive k then acc @ [k] else acc) in
        if int (length acc') = n then (Inr acc', ?w) else pool_loop rt sdk mobile n job acc' rows ?w)"
      using w1(1) w2(1) w3(1) by (simp add: bindIO_def Let_def)
  qed
qed

lemma pool_loop_outcome:
  assumes s: "cas_store sdk view" and q: "quiet_world sdk view alive"
    and "distinct (acc @ rows)" "\<forall>k \<in> set acc. held_by job (view w k)" "\<forall>k \<in> set rows. pool_node (view w k)"
    and "length acc < n"
  defines "got \<equiv> acc @ List.filter alive rows"
  shows "\<exists>w'. (if n \<le> length got
       then pool_loop rt sdk mobile (int n) job acc rows w = (Inr (take n got), w') \<and> (\<forall>k \<in> set (take n got). held_by job (view w' k))
       else pool_loop rt sdk mobile (int n) job acc rows w
           = (raise_exc ''Exception'' ''Not enough free node/s available to satisfy the request'', w') \<and>
         (\<forall>k \<in> set got. given_back job (view w' k)))
     \<and> (\<forall>k. k \<notin> set (acc @ rows) \<longrightarrow> view w' k = view w k)"
  unfolding got_def using assms(3-6)
proof (induction rows arbitrary: acc w)
  case Nil
  then have "distinct acc" by simp
  with release_all [OF s this Nil.prems(2), of rt] Nil.prems(4) show ?case by (auto simp: bindIO_def)
next
  case (Cons k rows)
  have k: "pool_node (view w k)" using Cons.prems(3) by simp
  obtain w1 where w1: "held_by job (view w1 k)" "\<forall>j. j \<noteq> k \<longrightarrow> view w1 j = view w j"
    "pool_loop rt sdk mobile (int n) job acc (k # rows) w =
       (let acc' = (if alive k then acc @ [k] else acc) in
        if int (length acc') = int n then (Inr acc', w1) else pool_loop rt sdk mobile (int n) job acc' rows w1)"
    using s q k by (rule pool_loop_row)
  define acc' where "acc' = (if alive k then acc @ [k] else acc)"
  have a: "distinct (acc' @ rows)" "\<forall>j \<in> set acc'. held_by job (view w1 j)" "\<forall>j \<in> set rows. pool_node (view w1 j)"
    using Cons.prems(1-3) w1(1,2) by (auto simp: acc'_def)
  have g: "acc @ List.filter alive (k # rows) = acc' @ List.filter alive rows" by (simp add: acc'_def)
  have set: "set acc' \<subseteq> set (acc @ k # rows)" by (auto simp: acc'_def)
  have fr: "\<forall>j. j \<notin> set (acc @ k # rows) \<longrightarrow> view w1 j = view w j" using w1(2) by auto
  show ?case
  proof (cases "length acc' = n")
    case True
    then show ?thesis unfolding g w1(3) Let_def acc'_def [symmetric] using a(2) fr by auto
  next
    case False
    with Cons.prems(4) have "length acc' < n" by (simp add: acc'_def split: if_splits)
    from Cons.IH [OF a this] obtain w2 where "if n \<le> length (acc' @ List.filter alive rows)
       then pool_loop rt sdk mobile (int n) job acc' rows w1 = (Inr (take n (acc' @ List.filter alive rows)), w2) \<and>
         (\<forall>k \<in> set (take n (acc' @ List.filter alive rows)). held_by job (view w2 k))
       else pool_loop rt sdk mobile (int n) job acc' rows w1
           = (raise_exc ''Exception'' ''Not enough free node/s available to satisfy the request'', w2) \<and>
         (\<forall>k \<in> set (acc' @ List.filter alive rows). given_back job (view w2 k))"
      "\<forall>j. j \<notin> set (acc' @ rows) \<longrightarrow> view w2 j = view w1 j" by blast
    moreover have "pool_loop rt sdk mobile (int n) job acc (k # rows) w = pool_loop rt sdk mobile (int n) job acc' rows w1"
      using False unfolding w1(3) Let_def acc'_def [symmetric] by simp
    moreover have "\<forall>j. j \<notin> set (acc @ k # rows) \<longrightarrow> view w2 j = view w j"
      using calculation(2) fr set by fastforce
    ultimately show ?thesis unfolding g by metis
  qed
qed

lemma pool_loop_handed_out:
  assumes "pool_loop rt sdk mobile n job acc rows w = (Inr nodes, w')"
    and "\<forall>k \<in> set acc. handed_out sdk mobile job k"
  shows "int (length nodes) = n \<and> (\<forall>k \<in> set nodes. handed_out sdk mobile job k)
    \<and> (\<exists>got. nodes = acc @ got \<and> subseq got rows)"
  using assms
proof (induction rows arbitrary: acc w)
  case Nil
  then show ?case by (auto simp: bindIO_def raiseIO_def split: prod.splits sum.splits)
next
  case (Cons k rows)
  from Cons.prems(1) obtain b w1 a w2 w3 where
    b: "reserve_node sdk k job 0 w = (Inr b, w1)" and a: "check_alive sdk mobile k w1 = (Inr a, w2)"
    and rest: "(if int (length (if b \<and> a then acc @ [k] else acc)) = n then (Inr (if b \<and> a then acc @ [k] else acc), w3)
      else pool_loop rt sdk mobile n job (if b \<and> a then acc @ [k] else acc) rows w3) = (Inr nodes, w')"
    by (auto simp: bindIO_def Let_def returnIO_def split: prod.splits sum.splits if_splits)
  let ?acc = "if b \<and> a then acc @ [k] else acc"
  have ok: "\<forall>k \<in> set ?acc. handed_out sdk mobile job k"
  proof (cases "b \<and> a")
    case True
    then have "handed_out sdk mobile job k" using a b unfolding handed_out_def by metis
    with Cons.prems(2) True show ?thesis by simp
  next
    case False
    with Cons.prems(2) show ?thesis by auto
  qed
  have ext: "\<exists>got'. acc @ got' = ?acc @ got \<and> subseq got' (k # rows)" if "subseq got rows" for got
    using that by (cases "b \<and> a") auto
  show ?case
  proof (cases "int (length ?acc) = n")
    case True
    with rest have "nodes = ?acc @ []" by simp
    with True ok ext [of "[]"] show ?thesis by auto
  next
    case False
    with rest have "pool_loop rt sdk mobile n job ?acc rows w3 = (Inr nodes, w')" by simp
    from Cons.IH [OF this ok] ext show ?thesis by metis
  qed
qed

lemma cleanup_one_ignores_jenkins: "cleanup_one sdk jen acc x = cleanup_one sdk jen' acc x"
  by (simp only: cleanup_one_def Let_def pyval.distinct not_False_eq_True if_True)

section \<open>Properties\<close>



text \<open>
  With no other job at work, \<open>reserve_node\<close> books the node for the job, keeps the previous
  user, and \<open>release_node\<close> by the same job makes it available again with the job as previous user.
\<close>

theorem reserve_then_release:
  assumes "cas_store sdk view" "view w k = Some (d, c)" "map_of d ''username'' = Some u"
  shows "\<exists>w1 d1 c1 w2 d2 c2. reserve_node sdk k job counter w = (Inr True, w1) \<and> view w1 = (view w)(k \<mapsto> (d1, c1))
     \<and> map_of d1 ''username'' = Some job \<and> map_of d1 ''state'' = Some (PStr ''booked'') \<and> map_of d1 ''prevUser'' = Some u
     \<and> release_node rt sdk [k] job w1 = (Inr (), w2) \<and> view w2 = (view w)(k \<mapsto> (d2, c2))
     \<and> map_of d2 ''username'' = Some (PStr []) \<and> map_of d2 ''state'' = Some (PStr ''available'')
     \<and> map_of d2 ''prevUser'' = Some job"
proof -
  have "dict_has d ''username''" using assms(3) by (simp add: dict_has_def)
  with assms(1,2) obtain w1 now d1 c1 where r: "reserve_node sdk k job counter w = (Inr True, w1)"
    "booked_doc job now d = Inr d1" "view w1 = (view w)(k \<mapsto> (d1, c1))"
    by (rule reserve_books)
  note f = booked_doc_fields [OF r(2)]
  have v1: "view w1 k = Some (d1, c1)" using r(3) by simp
  obtain w2 c2 where "release_one rt sdk job k w1 = (Inr (), w2)" "view w2 = (view w1)(k \<mapsto> (released_doc job d1, c2))"
    using release_frees [OF assms(1) v1 f(1) refl, of rt thesis] by blast
  then have "release_node rt sdk [k] job w1 = (Inr (), w2)" "view w2 = (view w)(k \<mapsto> (released_doc job d1, c2))"
    using r(3) by (simp_all add: release_node_def bindIO_def)
  moreover have "map_of (released_doc job d1) ''username'' = Some (PStr [])"
    "map_of (released_doc job d1) ''state'' = Some (PStr ''available'')"
    "map_of (released_doc job d1) ''prevUser'' = Some job"
    by (simp_all add: released_doc_def)
  moreover have "map_of d1 ''prevUser'' = Some u" using f(3) assms(3) by simp
  ultimately show ?thesis using r(1,3) f(1,2) by blast
qed

text \<open>
  \<open>release_node\<close> refuses a node that another job has booked and leaves the bucket as it is.
\<close>

theorem release_refuses_other_job:
  assumes "cas_store sdk view" "view w k = Some (d, c)" "map_of d ''username'' = Some (PStr owner)"
    and "owner \<noteq> job"
  shows "\<exists>e. release_node rt sdk (k # ks) (PStr job) w = (Inl e, w) \<and> exn_class e = ''Exception''"
proof -
  have "or_empty (PStr s) = PStr s" for s by (simp add: or_empty_def py_truth.simps)
  with cas_storeD(1) [OF assms(1,2)] assms(3,4) show ?thesis
    by (simp add: release_node_def release_one_def bindIO_def dict_index_def)
qed


text \<open>
  C33: a job that reads the document after another job has booked the node still takes it: both
  are told that they have reserved the node, and the first one's booking is gone.
\<close>

theorem double_booking_reachable:
  assumes "dict_has doc ''username''" "a \<noteq> b"
  shows "\<exists>s. pool_reachable doc s \<and> ns_phase s a = Done True \<and> ns_phase s b = Done True
    \<and> map_of (ns_doc s) ''username'' = Some (PStr b) \<and> map_of (ns_doc s) ''prevUser'' = Some (PStr a)"
proof -
  obtain d1 where d1: "booked_doc (PStr a) [] doc = Inr d1"
    using assms(1) by (auto simp: booked_doc_def dict_has_def dict_index_def)
  have "dict_has d1 ''username''" using booked_doc_fields(1) [OF d1] by (simp add: dict_has_def)
  then obtain d2 where d2: "booked_doc (PStr b) [] d1 = Inr d2"
    by (auto simp: booked_doc_def dict_has_def dict_index_def)
  let ?s0 = "\<lparr>ns_doc = doc, ns_cas = 0, ns_phase = (\<lambda>_. Start 0), ns_writes = []\<rparr>"
  let ?s1 = "set_phase ?s0 a (Have doc 0 0)"
  let ?s2 = "set_phase (?s1\<lparr>ns_doc := d1, ns_cas := ns_cas ?s1 + 1, ns_writes := ns_writes ?s1 @ [(a, 0)]\<rparr>) a (Done True)"
  let ?s3 = "set_phase ?s2 b (Have d1 1 0)"
  let ?s4 = "set_phase (?s3\<lparr>ns_doc := d2, ns_cas := ns_cas ?s3 + 1, ns_writes := ns_writes ?s3 @ [(b, 1)]\<rparr>) b (Done True)"
  have "pool_step ?s0 ?s1" using pool_step.read_doc [of ?s0 a 0] by simp
  then have r1: "pool_reachable doc ?s1" by (rule pool_reachable.step [OF pool_reachable.init])
  have "pool_step ?s1 ?s2" by (rule pool_step.write_doc [OF _ _ d1, where n = 0]) simp_all
  with r1 have r2: "pool_reachable doc ?s2" by (rule pool_reachable.step)
  have "pool_step ?s2 ?s3" using pool_step.read_doc [of ?s2 b 0] assms(2) by simp
  with r2 have r3: "pool_reachable doc ?s3" by (rule pool_reachable.step)
  have "pool_step ?s3 ?s4" by (rule pool_step.write_doc [OF _ _ d2, where n = 0]) simp_all
  with r3 have "pool_reachable doc ?s4" by (rule pool_reachable.step)
  moreover have "ns_phase ?s4 a = Done True" "ns_phase ?s4 b = Done True" using assms(2) by simp_all
  moreover have "map_of (ns_doc ?s4) ''username'' = Some (PStr b)" "map_of (ns_doc ?s4) ''prevUser'' = Some (PStr a)"
    using booked_doc_fields [OF d2] booked_doc_fields(1) [OF d1] by simp_all
  ultimately show ?thesis by blast
qed

text \<open>
  \<open>cleanup_for_blocked_nodes\<close> never asks whether the job that holds a node is running: its
  outcome does not depend on \<open>is_jenkins_job_running\<close>.
\<close>

theorem cleanup_ignores_running_jobs:
  "cleanup_for_blocked_nodes rt sdk running job w = cleanup_for_blocked_nodes rt sdk running' job w"
  unfolding cleanup_for_blocked_nodes_def using cleanup_one_ignores_jenkins [of sdk running _ _ running']
  by (metis (no_types, lifting) ext)

section \<open>Examples\<close>

text \<open>A bucket in memory: a map from ids to documents with their CAS.\<close>

definition mem_sdk :: "string list \<Rightarrow> (string \<Rightarrow> (node_doc \<times> int) option) pool_sdk" where
  "mem_sdk rows = \<lparr>
     sdk_get = (\<lambda>k w. case w k of None \<Rightarrow> (raise_exc ''DocumentNotFoundException'' k, w) | Some d \<Rightarrow> (Inr d, w)),
     sdk_get_quiet = (\<lambda>k w. (Inr (w k), w)),
     sdk_replace = (\<lambda>k d cas w. case w k of
         None \<Rightarrow> (raise_exc ''DocumentNotFoundException'' k, w)
       | Some (_, c) \<Rightarrow> if cas = None \<or> cas = Some c then (Inr (), w(k \<mapsto> (d, c + 1)))
                       else (raise_exc ''CasMismatchException'' k, w)),
     sdk_query = (\<lambda>q w. (Inr rows, w)),
     sdk_couchbase_error = (\<lambda>e. True),
     ssh_connect = (\<lambda>s w. if s = ''10.0.0.2'' then (raise_exc ''TimeoutError'' s, w) else (Inr (), w)),
     ping_returncode = (\<lambda>s w. (Inr (if s = ''10.0.0.2'' then 1 else 0), w)),
     pool_sleep = (\<lambda>n w. (Inr (), w)),
     pool_strftime = (\<lambda>w. (Inr ''2024-01-01 00:00:00'', w))\<rparr>"

lemma mem_sdk_cas_store: "cas_store (mem_sdk rows) (\<lambda>w. w)"
  by (auto simp: cas_store_def mem_sdk_def)

definition free_node :: "node_doc" where
  "free_node = [(''username'', PStr []), (''state'', PStr ''available''), (''os'', PStr ''centos'')]"

definition sample_bucket :: "string \<Rightarrow> (node_doc \<times> int) option" where
  "sample_bucket = (\<lambda>k. if k \<in> {''10.0.0.1'', ''10.0.0.2'', ''10.0.0.3''} then Some (free_node, 4) else None)"

lemma sample_nodes:
  assumes "k \<in> {''10.0.0.1'', ''10.0.0.2'', ''10.0.0.3''}"
  shows "sample_bucket k = Some ([(''username'', PStr []), (''state'', PStr ''available''), (''os'', PStr ''centos'')], 4)"
  using assms by (simp add: sample_bucket_def free_node_def)

abbreviation plain_rt :: py_runtime where
  "plain_rt \<equiv> \<lparr>rt_float_str = (\<lambda>_. []), rt_float_of = (\<lambda>_. None), rt_obj_str = (\<lambda>_. [])\<rparr>"



theorem reserve_then_release_witness:
  "\<exists>w1 w2 d2 c2. reserve_node (mem_sdk []) ''10.0.0.1'' (PStr ''job:1'') 0 sample_bucket = (Inr True, w1)
     \<and> release_node plain_rt (mem_sdk []) [''10.0.0.1''] (PStr ''job:1'') w1 = (Inr (), w2)
     \<and> w2 ''10.0.0.1'' = Some (d2, c2) \<and> map_of d2 ''prevUser'' = Some (PStr ''job:1'')"
proof -
  have v: "sample_bucket ''10.0.0.1'' = Some (free_node, 4)" and u: "map_of free_node ''username'' = Some (PStr [])"
    by (simp_all add: sample_bucket_def free_node_def)
  have "\<exists>w1 d1 c1 w2 d2 c2. reserve_node (mem_sdk []) ''10.0.0.1'' (PStr ''job:1'') 0 sample_bucket = (Inr True, w1)
     \<and> w1 = sample_bucket(''10.0.0.1'' \<mapsto> (d1, c1))
     \<and> map_of d1 ''username'' = Some (PStr ''job:1'') \<and> map_of d1 ''state'' = Some (PStr ''booked'')
     \<and> map_of d1 ''prevUser'' = Some (PStr [])
     \<and> release_node plain_rt (mem_sdk []) [''10.0.0.1''] (PStr ''job:1'') w1 = (Inr (), w2)
     \<and> w2 = sample_bucket(''10.0.0.1'' \<mapsto> (d2, c2))
     \<and> map_of d2 ''username'' = Some (PStr []) \<and> map_of d2 ''state'' = Some (PStr ''available'')
     \<and> map_of d2 ''prevUser'' = Some (PStr ''job:1'')"
    by (rule reserve_then_release [where view = "\<lambda>w. w"]) (rule mem_sdk_cas_store, rule v, rule u)
  then obtain w1 w2 d2 c2 where
    "reserve_node (mem_sdk []) ''10.0.0.1'' (PStr ''job:1'') 0 sample_bucket = (Inr True, w1)"
    "release_node plain_rt (mem_sdk []) [''10.0.0.1''] (PStr ''job:1'') w1 = (Inr (), w2)"
    "w2 = sample_bucket(''10.0.0.1'' \<mapsto> (d2, c2))" "map_of d2 ''prevUser'' = Some (PStr ''job:1'')"
    by blast
  then show ?thesis by (intro exI [of _ w1] exI [of _ w2] exI [of _ d2] exI [of _ c2]) simp
qed

theorem release_refuses_other_job_witness:
  "\<exists>e. release_node plain_rt (mem_sdk []) [''n''] (PStr ''job:2'') [''n'' \<mapsto> ([(''username'', PStr ''job:1'')], 7)]
     = (Inl e, [''n'' \<mapsto> ([(''username'', PStr ''job:1'')], 7)]) \<and> exn_class e = ''Exception''"
  by (rule release_refuses_other_job [where view = "\<lambda>w. w" and c = 7 and owner = "''job:1''"
        and d = "[(''username'', PStr ''job:1'')]"]) (simp_all add: mem_sdk_cas_store)


theorem double_booking_reachable_witness:
  "\<exists>s. pool_reachable free_node s \<and> ns_phase s ''A'' = Done True \<and> ns_phase s ''B'' = Done True
    \<and> map_of (ns_doc s) ''username'' = Some (PStr ''B'') \<and> map_of (ns_doc s) ''prevUser'' = Some (PStr ''A'')"
  by (rule double_booking_reachable) (simp_all add: free_node_def dict_has_def)

end
