(* ===== verification/Cluster_Gen.thy ===== *)
theory Cluster_Gen
  imports Cluster_Config "HOL-Library.Multiset"
begin

text \<open>
  \<open>libraries/utilities/generate_clusters_from_pool.py\<close>: the cluster configurations written from
  the pool of machines. Each configuration asks for a number of machines per role; the machines
  of a role are taken from those the roles before it have left, either in order or, if the pool
  file assigns types to addresses, the first ones of that type. The inventory file is built
  section by section, so that a failure leaves the text written so far.
\<close>

section \<open>Cluster definitions\<close>

datatype cluster_def = ClusterDef (cd_name: string) (num_sgs: nat) (num_acs: nat) (num_cbs: nat)
  (num_lgs: nat) (num_lbs: nat)

definition num_machines_required :: "cluster_def \<Rightarrow> nat" where
  "num_machines_required c = num_sgs c + num_acs c + num_cbs c + num_lgs c + num_lbs c"

section \<open>The pool file\<close>

definition get_hosts :: "environment \<Rightarrow> string \<Rightarrow> (string list \<times> (string, pyval) dict) res" where
  "get_hosts env pool_file =
     bindR (read_json env pool_file) (\<lambda>pool_dict.
     bindR (py_item pool_dict ''ips'') (\<lambda>v.
     bindR (as_list v) (\<lambda>xs.
     bindR (mapR as_str xs) (\<lambda>ips.
     bindR (as_dict pool_dict) (\<lambda>d.
     bindR (case dict_get d ''ip_to_node_type'' of None \<Rightarrow> Inr [] | Some t \<Rightarrow> as_dict t) (\<lambda>ip_to_node_type.
       if length ips \<noteq> card (set ips) then raise_exc ''SystemExit'' ''1''
       else Inr (ips, ip_to_node_type)))))))"

section \<open>Choosing the machines of a role\<close>

text \<open>The inner \<open>while\<close> loop: the first address of the role's type that is not taken yet.\<close>

fun scan_role :: "(string, pyval) dict \<Rightarrow> string \<Rightarrow> string list \<Rightarrow> string list \<Rightarrow> string option res" where
  "scan_role ip_to_node_type role removed [] = Inr None"
| "scan_role ip_to_node_type role removed (ip # ips) =
     (case dict_get ip_to_node_type ip of
        None \<Rightarrow> raise_exc ''Exception'' (ip @ '' not in ip_to_node_type'')
      | Some t \<Rightarrow>
          if t \<noteq> PStr role \<or> ip \<in> set removed then scan_role ip_to_node_type role removed ips
          else Inr (Some ip))"

datatype pick = Picked | Skipped | Failed exn

text \<open>\<open>for i in range(n)\<close>, with the addresses taken so far.\<close>

fun pick_ips :: "bool \<Rightarrow> (string, pyval) dict \<Rightarrow> string \<Rightarrow> string list \<Rightarrow> nat \<Rightarrow> nat \<Rightarrow> string list \<Rightarrow>
    string list \<times> pick" where
  "pick_ips defined types role ips i 0 removed = (removed, Picked)"
| "pick_ips defined types role ips i (Suc n) removed =
     (if defined then
        (case scan_role types role removed ips of
           Inl e \<Rightarrow> (removed, Failed e)
         | Inr None \<Rightarrow> (removed, Skipped)
         | Inr (Some ip) \<Rightarrow> pick_ips defined types role ips (i + 1) n (removed @ [ip]))
      else if i < length ips then pick_ips defined types role ips (i + 1) n (removed @ [ips ! i])
      else (removed, Failed (Exn ''IndexError'' ''list index out of range'')))"

section \<open>The sections of the inventory\<close>

record gen_state =
  gs_text :: string
  gs_ips :: "string list"
  gs_i :: "nat option"
  gs_groups :: "(string, string list) dict"

definition host_lines :: "string \<Rightarrow> string \<Rightarrow> string list \<Rightarrow> string" where
  "host_lines connection_string prefix ips =
     concat (map (\<lambda>(k, ip). prefix @ nat_str (k + 1) @ '' ansible_host='' @ ip @ '' '' @ connection_string @ nl)
       (zip [0..<length ips] ips))"

definition named_nodes :: "string \<Rightarrow> string list \<Rightarrow> pyval" where
  "named_nodes prefix ips =
     PList (map (\<lambda>(k, ip). PDict [(''name'', PStr (prefix @ nat_str (k + 1))), (''ip'', PStr ip)])
       (zip [0..<length ips] ips))"

definition write_section :: "string \<Rightarrow> bool \<Rightarrow> (string, pyval) dict \<Rightarrow> string \<Rightarrow> string \<Rightarrow> nat \<Rightarrow> gen_state \<Rightarrow>
    pick \<times> gen_state" where
  "write_section connection_string defined types role prefix n s =
     (case pick_ips defined types role (gs_ips s) 0 n [] of
        (picked, out) \<Rightarrow>
          (let s' = s\<lparr>gs_text := gs_text s @ ''['' @ role @ '']'' @ nl @ host_lines connection_string prefix picked\<rparr> in
           case out of
             Picked \<Rightarrow> (Picked, s'\<lparr>gs_text := gs_text s' @ nl,
                gs_ips := foldl (\<lambda>ips ip. remove1 ip ips) (gs_ips s) picked,
                gs_i := (if n = 0 then gs_i s else Some (n - 1)),
                gs_groups := gs_groups s @ [(role, picked)]\<rparr>)
           | _ \<Rightarrow> (out, s')))"

definition write_couchbase_servers :: "string \<Rightarrow> bool \<Rightarrow> (string, pyval) dict \<Rightarrow> cluster_def \<Rightarrow> gen_state \<Rightarrow> pick \<times> gen_state" where
  "write_couchbase_servers conn defined types config =
     write_section conn defined types ''couchbase_servers'' ''cb'' (num_cbs config)"

definition write_sync_gateways :: "string \<Rightarrow> bool \<Rightarrow> (string, pyval) dict \<Rightarrow> cluster_def \<Rightarrow> gen_state \<Rightarrow> pick \<times> gen_state" where
  "write_sync_gateways conn defined types config =
     write_section conn defined types ''sync_gateways'' ''sg'' (num_sgs config)"

definition write_sg_accels :: "string \<Rightarrow> bool \<Rightarrow> (string, pyval) dict \<Rightarrow> cluster_def \<Rightarrow> gen_state \<Rightarrow> pick \<times> gen_state" where
  "write_sg_accels conn defined types config =
     write_section conn defined types ''sg_accels'' ''ac'' (num_acs config)"

definition write_load_generators :: "string \<Rightarrow> bool \<Rightarrow> (string, pyval) dict \<Rightarrow> cluster_def \<Rightarrow> gen_state \<Rightarrow> pick \<times> gen_state" where
  "write_load_generators conn defined types config =
     write_section conn defined types ''load_generators'' ''lg'' (num_lgs config)"

definition write_load_balancers :: "string \<Rightarrow> bool \<Rightarrow> (string, pyval) dict \<Rightarrow> cluster_def \<Rightarrow> gen_state \<Rightarrow> pick \<times> gen_state" where
  "write_load_balancers conn defined types config =
     write_section conn defined types ''load_balancers'' ''lb'' (num_lbs config)"

fun run_sections :: "(gen_state \<Rightarrow> pick \<times> gen_state) list \<Rightarrow> gen_state \<Rightarrow> pick \<times> gen_state" where
  "run_sections [] s = (Picked, s)"
| "run_sections (f # fs) s = (case f s of (Picked, s') \<Rightarrow> run_sections fs s' | r \<Rightarrow> r)"

definition write_roles :: "string \<Rightarrow> bool \<Rightarrow> (string, pyval) dict \<Rightarrow> cluster_def \<Rightarrow> gen_state \<Rightarrow> pick \<times> gen_state" where
  "write_roles conn defined types config = run_sections
     [write_couchbase_servers conn defined types config,
      write_sync_gateways conn defined types config,
      write_sg_accels conn defined types config,
      write_load_generators conn defined types config,
      write_load_balancers conn defined types config]"

section \<open>The rest of the inventory and the JSON file\<close>

record gen_options =
  use_docker :: bool
  sg_windows :: bool
  sg_accel_windows :: bool
  sg_platform :: string
  ipv6 :: bool
  x509_certs :: bool
  cbs_platform :: string

definition connection_string :: "gen_options \<Rightarrow> string" where
  "connection_string opts = (if use_docker opts then ''ansible_connection=docker'' else [])"

text \<open>
  The webhook host. The number in its name is the loop variable \<open>i\<close> left over from the last
  section that had a machine; with no machine at all reading it fails, after the line is written,
  and the failure is logged.
\<close>

definition webhook_section :: "string res \<Rightarrow> string \<Rightarrow> nat option \<Rightarrow> string \<times> pyval" where
  "webhook_section local_ip conn i =
     (case local_ip of
        Inl e \<Rightarrow> (''[webhook_ip]'' @ nl, PList [])
      | Inr ip \<Rightarrow> (''[webhook_ip]'' @ nl @ ''tf1 ansible_host='' @ ip @ '' '' @ conn,
          case i of None \<Rightarrow> PList []
          | Some k \<Rightarrow> PList [PDict [(''name'', PStr (''wbhk'' @ nat_str (k + 1))), (''ip'', PStr ip)]]))"

definition lines_of :: "string list \<Rightarrow> string" where
  "lines_of ls = concat (map (\<lambda>l. l @ nl) ls)"

definition bool_str :: "bool \<Rightarrow> string" where
  "bool_str b = (if b then ''True'' else ''False'')"

definition winrm_vars :: "string list" where
  "winrm_vars = [''ansible_user=FakeUser'', ''ansible_password=FakePassword'', ''ansible_port=5986'',
     ''ansible_connection=winrm'', ''ansible_winrm_server_cert_validation=ignore'']"

definition environment_text :: "gen_options \<Rightarrow> string" where
  "environment_text opts =
     nl @ nl @ lines_of [''[environment]'', ''cbs_ssl_enabled=False'', ''xattrs_enabled=False'', ''sg_lb_enabled=False'',
       ''ipv6_enabled='' @ bool_str (ipv6 opts), ''x509_certs='' @ bool_str (x509_certs opts),
       ''delta_sync_enabled=False'', ''two_sg_cluster_lb_enabled=False''] @
     (if contains_str (py_lower (sg_platform opts)) ''macos'' then
        nl @ nl @ lines_of [''[sync_gateways:vars]'', ''ansible_user=MacOSFakeUser'', ''ansible_password=MacOSFakePassword'',
          ''ansible_sudo_pass=MacOSFakePassword''] else []) @
     (if sg_windows opts then nl @ nl @ lines_of (''[sync_gateways:vars]'' # winrm_vars) else []) @
     (if sg_accel_windows opts then nl @ nl @ lines_of (''[sg_accels:vars]'' # winrm_vars) else []) @
     (if cbs_platform opts = ''centos8'' then
        nl @ nl @ ''[couchbase_servers:vars]'' @ nl @ ''ansible_python_interpreter=/usr/bin/python3'' else []) @
     (if sg_platform opts = ''centos8'' then
        nl @ nl @ ''[sync_gateways:vars]'' @ nl @ ''ansible_python_interpreter=/usr/bin/python3'' else []) @
     (if cbs_platform opts = ''centos8'' \<and> sg_platform opts = ''centos8'' then
        nl @ nl @ ''[pool:vars]'' @ nl @ ''ansible_python_interpreter=/usr/bin/python3'' else [])"

definition group_of :: "gen_state \<Rightarrow> string \<Rightarrow> string list" where
  "group_of s role = (case dict_get (gs_groups s) role of None \<Rightarrow> [] | Some g \<Rightarrow> g)"

definition cluster_dict :: "gen_options \<Rightarrow> string list \<Rightarrow> gen_state \<Rightarrow> pyval \<Rightarrow> pyval" where
  "cluster_dict opts ips s webhook_ip =
     (let d = [(''hosts'', named_nodes ''host'' ips),
               (''couchbase_servers'', named_nodes ''cb'' (group_of s ''couchbase_servers'')),
               (''sync_gateways'', named_nodes ''sg'' (group_of s ''sync_gateways'')),
               (''sg_accels'', named_nodes ''ac'' (group_of s ''sg_accels'')),
               (''load_generators'', named_nodes ''lg'' (group_of s ''load_generators'')),
               (''load_balancers'', named_nodes ''lb'' (group_of s ''load_balancers'')),
               (''webhook_ip'', webhook_ip),
               (''environment'', PDict [(''cbs_ssl_enabled'', PBool False), (''xattrs_enabled'', PBool False),
                  (''sg_lb_enabled'', PBool False), (''ipv6_enabled'', PBool (ipv6 opts)),
                  (''x509_certs'', PBool (x509_certs opts)), (''delta_sync_enabled'', PBool False),
                  (''two_sg_cluster_lb_enabled'', PBool False)])];
          d = (if sg_windows opts then dict_set d ''sync_gateways:vars''
                 (PDict [(''ansible_user'', PStr ''FakeUser''), (''ansible_password'', PStr ''FakePassword''),
                    (''ansible_port'', PInt 5986), (''ansible_connection'', PStr ''winrm''),
                    (''ansible_winrm_server_cert_validation'', PStr ''ignore'')]) else d);
          d = (if contains_str (py_lower (sg_platform opts)) ''macos'' then dict_set d ''sync_gateways:vars''
                 (PDict [(''ansible_user'', PStr ''MacOSFakeUser''), (''ansible_password'', PStr ''MacOSFakePassword'')])
               else d)
      in PDict d)"

text \<open>\<open>os.path.dirname\<close>.\<close>

definition py_dirname :: "string \<Rightarrow> string" where
  "py_dirname p = (let h = rev (dropWhile (\<lambda>c. c \<noteq> CHR ''/'') (rev p))
     in if list_all (\<lambda>c. c = CHR ''/'') h then h else rstrip_chars ''/'' h)"

definition remove_file :: "environment \<Rightarrow> string \<Rightarrow> environment" where
  "remove_file env f = env\<lparr>env_files := dict_del (env_files env) f\<rparr>"

definition config_path :: "string \<Rightarrow> cluster_def \<Rightarrow> string" where
  "config_path pool_file config = py_dirname pool_file @ ''/cluster_configs/'' @ cd_name config"

definition write_config :: "string res \<Rightarrow> gen_options \<Rightarrow> cluster_def \<Rightarrow> string \<Rightarrow> (environment, unit) io" where
  "write_config local_ip opts config pool_file env =
     (case get_hosts env pool_file of
        Inl e \<Rightarrow> (Inl e, env)
      | Inr (ips, ip_to_node_type) \<Rightarrow>
          if length ips < num_machines_required config then (Inr (), env)
          else if ip_to_node_type \<noteq> [] \<and> length ip_to_node_type \<noteq> length ips then
            (raise_exc ''Exception''
               ''Number of IPs in resources/pool:ips and ip_to_node_type do not match. Exiting ...'', env)
          else
            (let conn = connection_string opts;
                 conf_file = config_path pool_file config;
                 s0 = \<lparr>gs_text = ''[pool]'' @ nl @ host_lines conn ''ma'' ips @ nl @ nl,
                       gs_ips = ips, gs_i = None, gs_groups = []\<rparr>
             in case write_roles conn (length ip_to_node_type > 0) ip_to_node_type config s0 of
                  (Failed e, s) \<Rightarrow> (Inl e, write_file env conf_file (TextFile (gs_text s)))
                | (Skipped, s) \<Rightarrow> (Inr (), remove_file env conf_file)
                | (Picked, s) \<Rightarrow>
                    (case webhook_section local_ip conn (gs_i s) of (t, webhook_ip) \<Rightarrow>
                       (Inr (), write_file
                          (write_file env (conf_file @ ''.json'') (JsonFile (cluster_dict opts ips s webhook_ip)))
                          conf_file (TextFile (gs_text s @ t @ environment_text opts))))))"

section \<open>All configurations\<close>

definition cluster_confs :: "cluster_def list" where
  "cluster_confs = [
      ClusterDef ''base_cc'' 1 0 1 0 0,
      ClusterDef ''base_di'' 1 1 1 0 0,
      ClusterDef ''ci_cc'' 1 0 3 0 0,
      ClusterDef ''ci_di'' 1 2 3 0 0,
      ClusterDef ''base_lb_cc'' 3 0 1 0 1,
      ClusterDef ''base_lb_di'' 3 1 1 0 1,
      ClusterDef ''ci_lb_cc'' 3 0 3 0 1,
      ClusterDef ''ci_lb_di'' 3 3 3 0 1,
      ClusterDef ''2each_lb_cc'' 2 0 2 0 1,
      ClusterDef ''2each_lb_di'' 2 2 2 0 1,
      ClusterDef ''multiple_servers_cc'' 1 0 3 0 0,
      ClusterDef ''multiple_servers_di'' 1 1 3 0 0,
      ClusterDef ''multiple_sg_accels_di'' 1 3 1 0 0,
      ClusterDef ''multiple_sync_gateways_cc'' 2 0 1 0 0,
      ClusterDef ''multiple_sync_gateways_di'' 2 1 1 0 0,
      ClusterDef ''three_sync_gateways_cc'' 3 0 1 0 0,
      ClusterDef ''four_sync_gateways_cc'' 4 0 1 0 0,
      ClusterDef ''load_balancer_cc'' 2 0 1 0 1,
      ClusterDef ''load_balancer_2_cc'' 4 0 2 0 2,
      ClusterDef ''load_balancer_di'' 2 1 1 0 1,
      ClusterDef ''1sg'' 1 0 0 0 0,
      ClusterDef ''2sgs'' 2 0 0 0 0,
      ClusterDef ''1cbs'' 0 0 1 0 0,
      ClusterDef ''1sg_1cbs_1lgs'' 1 0 1 1 0,
      ClusterDef ''1cb_1sg_1lb'' 1 0 1 0 1,
      ClusterDef ''1sg_1ac_1cbs_1lgs'' 1 1 1 1 0,
      ClusterDef ''1sg_1ac_3cbs_1lgs'' 1 1 3 1 0,
      ClusterDef ''1sg_2ac_3cbs_1lgs'' 1 2 3 1 0,
      ClusterDef ''1sg_3cbs_1lgs'' 1 0 3 1 0,
      ClusterDef ''2sg_1cbs_1lgs'' 2 0 1 1 0,
      ClusterDef ''2sg_3cbs_2lgs'' 2 0 3 2 0,
      ClusterDef ''2sg_6cbs_2lgs'' 2 0 6 2 0,
      ClusterDef ''2sg_2ac_3cbs_1lgs'' 2 2 3 1 0,
      ClusterDef ''2sg_2ac_3cbs_2lgs'' 2 2 3 2 0,
      ClusterDef ''2sg_2ac_6cbs_2lgs'' 2 2 6 2 0,
      ClusterDef ''2sg_4ac_3cbs_2lgs'' 2 4 3 2 0,
      ClusterDef ''2sg_8ac_3cbs_2lgs'' 2 8 3 2 0,
      ClusterDef ''2sg_2ac_6cbs_2lgs'' 2 2 6 2 0,
      ClusterDef ''2sg_8ac_6cbs_2lgs'' 2 8 6 2 0,
      ClusterDef ''4sg_2ac_3cbs_4lgs'' 4 2 3 4 0,
      ClusterDef ''4sg_2ac_6cbs_4lgs'' 4 2 6 4 0,
      ClusterDef ''4sg_4ac_3cbs_4lgs'' 4 4 3 4 0,
      ClusterDef ''4sg_4ac_6cbs_4lgs'' 4 4 6 4 0,
      ClusterDef ''4sg_8ac_3cbs_4lgs'' 4 8 3 4 0,
      ClusterDef ''4sg_8ac_6cbs_4lgs'' 4 8 6 4 0,
      ClusterDef ''8sg_4ac_3cbs_8lgs'' 8 4 3 8 0,
      ClusterDef ''8sg_4ac_6cbs_8lgs'' 8 4 6 8 0,
      ClusterDef ''8sg_4ac_12cbs_8lgs'' 8 4 12 8 0,
      ClusterDef ''8sg_8ac_3cbs_8lgs'' 8 8 3 8 0,
      ClusterDef ''8sg_8ac_6cbs_8lgs'' 8 8 6 8 0,
      ClusterDef ''8sg_12ac_3cbs_8lgs'' 8 12 3 8 0,
      ClusterDef ''12sg_4ac_6cbs_12lgs'' 12 4 6 12 0,
      ClusterDef ''12sg_4ac_12cbs_12lgs'' 12 4 12 12 0,
      ClusterDef ''12sg_8ac_6cbs_12lgs'' 12 8 6 12 0,
      ClusterDef ''12sg_8ac_12cbs_12lgs'' 12 8 12 12 0,
      ClusterDef ''16sg_4ac_3cbs_16lgs'' 16 4 3 16 0,
      ClusterDef ''16sg_4ac_6cbs_16lgs'' 16 4 6 16 0,
      ClusterDef ''16sg_4ac_12cbs_16lgs'' 16 4 12 16 0,
      ClusterDef ''16sg_8ac_3cbs_16lgs'' 16 8 3 16 0,
      ClusterDef ''16sg_8ac_6cbs_16lgs'' 16 8 6 16 0,
      ClusterDef ''16sg_8ac_12cbs_16lgs'' 16 8 12 16 0,
      ClusterDef ''32sg_16ac_16cbs_32lgs'' 32 16 16 32 0,
      ClusterDef ''1sg_2ac_3cbs'' 1 2 3 0 0]"

definition generate_clusters_from_pool :: "string res \<Rightarrow> gen_options \<Rightarrow> string \<Rightarrow> (environment, unit) io" where
  "generate_clusters_from_pool local_ip opts pool_file =
     (\<lambda>env. if dict_has (env_files env) pool_file then
        bindIO (\<lambda>env. (get_hosts env pool_file, env)) (\<lambda>_.
          forIO cluster_confs (\<lambda>c. write_config local_ip opts c pool_file)) env
      else (raise_exc ''SystemExit'' ''1'', env))"

section \<open>What a role gets\<close>

lemma scan_role_Some:
  "scan_role types role removed ips = Inr (Some ip) \<Longrightarrow>
     ip \<in> set ips \<and> ip \<notin> set removed \<and> dict_get types ip = Some (PStr role)"
  by (induction ips) (auto split: option.splits if_splits)

lemma pick_ips_Picked:
  assumes "pick_ips defined types role ips i n removed = (picked, Picked)" "distinct ips" "distinct removed"
    and "set removed \<subseteq> set ips" "\<not> defined \<Longrightarrow> removed = take i ips"
    and "defined \<Longrightarrow> \<forall>ip \<in> set removed. dict_get types ip = Some (PStr role)"
  shows "length picked = length removed + n \<and> distinct picked \<and> set picked \<subseteq> set ips \<and>
    (defined \<longrightarrow> (\<forall>ip \<in> set picked. dict_get types ip = Some (PStr role)))"
  using assms
proof (induction n arbitrary: i removed)
  case (Suc n)
  show ?case
  proof (cases defined)
    case True
    with Suc.prems(1) obtain ip where ip: "scan_role types role removed ips = Inr (Some ip)"
      "pick_ips defined types role ips (i + 1) n (removed @ [ip]) = (picked, Picked)"
      by (auto split: sum.splits option.splits)
    note s = scan_role_Some [OF ip(1)]
    from Suc.IH [OF ip(2) Suc.prems(2)] s Suc.prems(3-6) True show ?thesis by auto
  next
    case False
    with Suc.prems(1) have i: "i < length ips"
      "pick_ips defined types role ips (i + 1) n (removed @ [ips ! i]) = (picked, Picked)"
      by (auto split: if_splits)
    have tk: "removed @ [ips ! i] = take (i + 1) ips" using i(1) Suc.prems(5) False by (simp add: take_Suc_conv_app_nth)
    have "distinct (take (i + 1) ips)" "set (take (i + 1) ips) \<subseteq> set ips"
      using Suc.prems(2) by (auto dest: in_set_takeD)
    with Suc.IH [OF i(2) [unfolded tk] Suc.prems(2)] False Suc.prems(5) i(1) show ?thesis by simp
  qed
qed auto

lemma mset_foldl_remove1: "mset (foldl (\<lambda>ips ip. remove1 ip ips) ips xs) = mset ips - mset xs"
  by (induction xs arbitrary: ips) (simp_all add: diff_diff_add_mset)

text \<open>Nothing is lost and nothing is given twice: what is left and what was given make up the pool.\<close>

definition alloc_inv :: "string list \<Rightarrow> bool \<Rightarrow> (string, pyval) dict \<Rightarrow> gen_state \<Rightarrow> bool" where
  "alloc_inv ips defined types s \<longleftrightarrow>
     mset (gs_ips s) + mset (concat (map snd (gs_groups s))) = mset ips \<and>
     (defined \<longrightarrow> (\<forall>(role, g) \<in> set (gs_groups s). \<forall>ip \<in> set g. dict_get types ip = Some (PStr role)))"

lemma write_section_Picked:
  assumes "write_section conn defined types role prefix n s = (Picked, s')" "distinct ips" "alloc_inv ips defined types s"
  obtains g where "gs_groups s' = gs_groups s @ [(role, g)]" "length g = n" "alloc_inv ips defined types s'"
proof -
  from assms(1) obtain g where p: "pick_ips defined types role (gs_ips s) 0 n [] = (g, Picked)"
    and s': "gs_groups s' = gs_groups s @ [(role, g)]" "gs_ips s' = foldl (\<lambda>ips ip. remove1 ip ips) (gs_ips s) g"
    by (auto simp: write_section_def Let_def split: prod.splits pick.splits)
  have "distinct (gs_ips s @ concat (map snd (gs_groups s)))"
    using assms(2,3) unfolding alloc_inv_def by (metis mset_append mset_eq_imp_distinct_iff)
  then have d: "distinct (gs_ips s)" by simp
  from pick_ips_Picked [OF p d] have g: "length g = n" "distinct g" "set g \<subseteq> set (gs_ips s)"
    "defined \<longrightarrow> (\<forall>ip \<in> set g. dict_get types ip = Some (PStr role))" by simp_all
  have "mset g \<subseteq># mset (gs_ips s)"
    using g(2,3) d subset_imp_msubset_mset_set [of "set g" "set (gs_ips s)"] by (simp add: mset_set_set)
  then have m: "mset (gs_ips s) = mset g + mset (gs_ips s')"
    by (simp add: s'(2) mset_foldl_remove1)
  have "mset (gs_ips s') + mset (concat (map snd (gs_groups s'))) = mset ips"
    using assms(3) by (simp add: alloc_inv_def s'(1) m ac_simps)
  with assms(3) g(4) s'(1) have "alloc_inv ips defined types s'"
    by (auto simp: alloc_inv_def)
  with s'(1) g(1) show ?thesis by (rule that)
qed

lemma write_roles_Picked:
  assumes "write_roles conn defined types config s0 = (Picked, s)" "distinct ips"
    and "gs_ips s0 = ips" "gs_groups s0 = []"
  obtains cb sg ac lg lb where
    "gs_groups s = [(''couchbase_servers'', cb), (''sync_gateways'', sg), (''sg_accels'', ac),
       (''load_generators'', lg), (''load_balancers'', lb)]"
    "length cb = num_cbs config" "length sg = num_sgs config" "length ac = num_acs config"
    "length lg = num_lgs config" "length lb = num_lbs config" "alloc_inv ips defined types s"
proof -
  have "alloc_inv ips defined types s0" using assms(3,4) by (simp add: alloc_inv_def)
  from assms(1) obtain s1 s2 s3 s4 where
    "write_couchbase_servers conn defined types config s0 = (Picked, s1)"
    "write_sync_gateways conn defined types config s1 = (Picked, s2)"
    "write_sg_accels conn defined types config s2 = (Picked, s3)"
    "write_load_generators conn defined types config s3 = (Picked, s4)"
    "write_load_balancers conn defined types config s4 = (Picked, s)"
    unfolding write_roles_def by (auto split: prod.splits pick.splits)
  note r = this [unfolded write_couchbase_servers_def write_sync_gateways_def write_sg_accels_def
      write_load_generators_def write_load_balancers_def]
  obtain cb where cb: "gs_groups s1 = gs_groups s0 @ [(''couchbase_servers'', cb)]" "length cb = num_cbs config"
    "alloc_inv ips defined types s1"
    using r(1) assms(2) \<open>alloc_inv ips defined types s0\<close> by (rule write_section_Picked)
  obtain sg where sg: "gs_groups s2 = gs_groups s1 @ [(''sync_gateways'', sg)]" "length sg = num_sgs config"
    "alloc_inv ips defined types s2"
    using r(2) assms(2) cb(3) by (rule write_section_Picked)
  obtain ac where ac: "gs_groups s3 = gs_groups s2 @ [(''sg_accels'', ac)]" "length ac = num_acs config"
    "alloc_inv ips defined types s3"
    using r(3) assms(2) sg(3) by (rule write_section_Picked)
  obtain lg where lg: "gs_groups s4 = gs_groups s3 @ [(''load_generators'', lg)]" "length lg = num_lgs config"
    "alloc_inv ips defined types s4"
    using r(4) assms(2) ac(3) by (rule write_section_Picked)
  obtain lb where lb: "gs_groups s = gs_groups s4 @ [(''load_balancers'', lb)]" "length lb = num_lbs config"
    "alloc_inv ips defined types s"
    using r(5) assms(2) lg(3) by (rule write_section_Picked)
  show ?thesis
    by (rule that [of cb sg ac lg lb]) (use cb sg ac lg lb assms(4) in simp_all)
qed

lemma group_ips_named_nodes:
  assumes "map_of d role = Some (named_nodes prefix g)"
  shows "group_ips (PDict d) role = Inr (map PStr g)"
proof -
  have "mapR (\<lambda>n. py_item n ''ip'') (map (\<lambda>(k, ip). PDict [(''name'', PStr (f k)), (''ip'', PStr ip)]) (zip ks g))
      = Inr (map PStr g)" if "length ks = length g" for f :: "nat \<Rightarrow> string" and ks
    using that by (induction ks g rule: list_induct2) (simp_all add: dict_index_def)
  from this [of "[0..<length g]"] assms show ?thesis
    by (simp add: group_ips_def named_nodes_def dict_index_def)
qed

lemma cluster_dict_groups:
  assumes "gs_groups s = [(''couchbase_servers'', cb), (''sync_gateways'', sg), (''sg_accels'', ac),
       (''load_generators'', lg), (''load_balancers'', lb)]"
  shows "group_ips (cluster_dict opts ips s wh) ''couchbase_servers'' = Inr (map PStr cb)"
    "group_ips (cluster_dict opts ips s wh) ''sync_gateways'' = Inr (map PStr sg)"
    "group_ips (cluster_dict opts ips s wh) ''sg_accels'' = Inr (map PStr ac)"
    "group_ips (cluster_dict opts ips s wh) ''load_generators'' = Inr (map PStr lg)"
    "group_ips (cluster_dict opts ips s wh) ''load_balancers'' = Inr (map PStr lb)"
  unfolding cluster_dict_def Let_def
  by (rule group_ips_named_nodes; simp add: group_of_def dict_get_def assms)+

lemma get_hosts_distinct: "get_hosts env f = Inr (ips, types) \<Longrightarrow> distinct ips"
  by (auto simp: get_hosts_def bindR_eq_Inr split: if_splits intro: card_distinct)

lemma write_config_created:
  assumes "write_config local_ip opts config pool_file env = (Inr (), env')"
    and "dict_get (env_files env) (config_path pool_file config @ ''.json'') = None"
    and "dict_get (env_files env') (config_path pool_file config @ ''.json'') = Some c"
  obtains ips types s0 s wh where "get_hosts env pool_file = Inr (ips, types)"
    "write_roles (connection_string opts) (length types > 0) types config s0 = (Picked, s)"
    "gs_ips s0 = ips" "gs_groups s0 = []" "c = JsonFile (cluster_dict opts ips s wh)"
proof -
  let ?f = "config_path pool_file config"
  obtain ips types where h: "get_hosts env pool_file = Inr (ips, types)"
    using assms(1) by (auto simp: write_config_def split: sum.splits)
  define s0 where "s0 = \<lparr>gs_text = ''[pool]'' @ nl @ host_lines (connection_string opts) ''ma'' ips @ nl @ nl,
     gs_ips = ips, gs_i = None, gs_groups = []\<rparr>"
  obtain out s where r: "write_roles (connection_string opts) (length types > 0) types config s0 = (out, s)" by fastforce
  obtain t wh where wh: "webhook_section local_ip (connection_string opts) (gs_i s) = (t, wh)" by fastforce
  note e = assms(1) [unfolded write_config_def h sum.case prod.case Let_def s0_def [symmetric] r wh]
  show ?thesis
  proof (cases out)
    case Picked
    with e assms(2,3) have "c = JsonFile (cluster_dict opts ips s wh)" by (auto simp: dict_get_def write_file_def split: if_splits)
    with h r Picked show ?thesis by (intro that) (auto simp: s0_def)
  next
    case Skipped
    with e assms(2,3) show ?thesis by (auto simp: remove_file_def dict_get_def split: if_splits)
  next
    case (Failed x)
    with e assms(2,3) show ?thesis by (auto split: if_splits)
  qed
qed

section \<open>Properties\<close>


definition sample_pool :: environment where
  "sample_pool = \<lparr>env_vars = [], env_files = [(''resources/pool.json'', JsonFile (PDict
     [(''ips'', PList [PStr ''10.0.0.1'', PStr ''10.0.0.2'', PStr ''10.0.0.3'']),
      (''ip_to_node_type'', PDict [(''10.0.0.1'', PStr ''sync_gateways''), (''10.0.0.2'', PStr ''couchbase_servers''),
         (''10.0.0.3'', PStr ''couchbase_servers'')])]))],
     env_runtime = \<lparr>rt_float_str = (\<lambda>_. []), rt_float_of = (\<lambda>_. None), rt_obj_str = (\<lambda>_. [])\<rparr>\<rparr>"

definition plain_options :: gen_options where
  "plain_options = \<lparr>use_docker = False, sg_windows = False, sg_accel_windows = False, sg_platform = ''centos7'',
     ipv6 = False, x509_certs = False, cbs_platform = ''centos7''\<rparr>"


text \<open>
  A configuration that asks for more machines than the pool has is left out: \<open>write_config\<close>
  returns without touching any file.
\<close>

theorem write_config_skips_small_pool:
  assumes "get_hosts env pool_file = Inr (ips, types)" "length ips < num_machines_required config"
  shows "write_config local_ip opts config pool_file env = (Inr (), env)"
  using assms by (simp add: write_config_def)

theorem write_config_skips_small_pool_witness:
  "write_config (Inr ''10.0.0.9'') plain_options (ClusterDef ''ci_cc'' 1 0 3 0 0) ''resources/pool.json'' sample_pool
     = (Inr (), sample_pool)"
proof -
  have "get_hosts sample_pool ''resources/pool.json'' = Inr ([''10.0.0.1'', ''10.0.0.2'', ''10.0.0.3''],
      [(''10.0.0.1'', PStr ''sync_gateways''), (''10.0.0.2'', PStr ''couchbase_servers''),
         (''10.0.0.3'', PStr ''couchbase_servers'')])" by code_simp
  then show ?thesis by (rule write_config_skips_small_pool) (simp add: num_machines_required_def)
qed

end
