(* ===== verification/Kit_Utils.thy ===== *)
theory Kit_Utils
  imports Cluster_Gen Doc_Generators
begin

text \<open>
  \<open>keywords/utils.py\<close>: versions, urls, the server field of a Sync Gateway configuration and the
  small helpers around them. The comparison of documents is in theory \<open>Deep_Compare\<close>; logging
  has no effect the program reads and is left out.
\<close>

section \<open>Versions\<close>

definition version_is_binary :: "string \<Rightarrow> bool" where
  "version_is_binary version \<longleftrightarrow> length (split_chr CHR ''.'' version) > 1"

definition version_and_build :: "string \<Rightarrow> string \<times> string option" where
  "version_and_build full_version =
     (let version_parts = split_chr CHR ''-'' full_version in
      if length version_parts = 2 then (version_parts ! 0, Some (version_parts ! 1))
      else (version_parts ! 0, None))"

definition has_dot_net4_dot_5 :: "string \<Rightarrow> bool" where
  "has_dot_net4_dot_5 version \<longleftrightarrow>
     \<not> list_ex (startswith version) [''1.2'', ''1.3'', ''1.4.0'']"

text \<open>Padding the shorter digit string with zeros on the right.\<close>

definition pad_right :: "nat \<Rightarrow> string \<Rightarrow> string" where
  "pad_right n s = s @ replicate (n - length s) CHR ''0''"

definition compare_versions :: "string \<Rightarrow> string \<Rightarrow> int res" where
  "compare_versions version_one version_two =
     (let s1 = replace_str ''.'' [] (hd (split_chr CHR ''-'' version_one));
          s2 = replace_str ''.'' [] (hd (split_chr CHR ''-'' version_two));
          n1 = length s1; n2 = length s2;
          s1 = (if n1 < n2 then pad_right n2 s1 else s1);
          s2 = (if n1 > n2 then pad_right n1 s2 else s2) in
      bindR (py_int_of s1) (\<lambda>v1. bindR (py_int_of s2) (\<lambda>v2.
        Inr (if v1 < v2 then -1 else if v1 > v2 then 1 else 0))))"

definition check_xattr_support :: "string \<Rightarrow> string \<Rightarrow> unit res" where
  "check_xattr_support server_version sync_gateway_version =
     bindR (compare_versions server_version ''5.0.0'') (\<lambda>c.
     if c < 0 then raise_exc ''FeatureSupportedError'' ''Make sure you are using Coucbhase Server 5.0+ for xattrs''
     else bindR (compare_versions sync_gateway_version ''1.5'') (\<lambda>c.
       if c < 0 then raise_exc ''FeatureSupportedError''
         ''Make sure you are using Coucbhase Sync Gateway 1.5+ for xattrs''
       else Inr ()))"

text \<open>Here versions are compared as text.\<close>

definition check_delta_sync_support :: "string \<Rightarrow> string \<Rightarrow> unit res" where
  "check_delta_sync_support sync_gateway_version liteserv_version =
     (if str_less sync_gateway_version ''2.5.0'' then raise_exc ''FeatureSupportedError''
        ''Make sure you are using Coucbhase Sync Gateway 2.5+ for delta sync''
      else if str_less liteserv_version ''2.5.0'' then raise_exc ''FeatureSupportedError''
        ''Make sure you are using Coucbhase Lite 2.5+ for delta sync''
      else Inr ())"

definition meet_supported_version :: "string list \<Rightarrow> string \<Rightarrow> bool" where
  "meet_supported_version version_list target_version \<longleftrightarrow> \<not> list_ex (\<lambda>ver. str_less ver target_version) version_list"

section \<open>Urls\<close>

definition strip_brackets :: "string \<Rightarrow> string" where
  "strip_brackets s = List.filter (\<lambda>c. c \<noteq> CHR ''['' \<and> c \<noteq> CHR '']'') s"

definition host_for_url :: "string \<Rightarrow> string" where
  "host_for_url url =
     (let host = (if contains_str url ''https'' then replace_str ''https://'' [] url
                  else replace_str ''http://'' [] url)
      in strip_brackets (rsplit_head CHR '':'' host))"

definition ip_from_url :: "string \<Rightarrow> string" where
  "ip_from_url url =
     (let url = replace_str ''http://'' [] url;
          url = replace_str ''https://'' [] url;
          url = replace_str '':4984'' [] url;
          url = replace_str '':4985'' [] url;
          url = replace_str '':8091'' [] url;
          url = replace_str ''['' [] url
      in replace_str '']'' [] url)"

fun find_endpoint :: "string \<Rightarrow> pyval list \<Rightarrow> pyval option res" where
  "find_endpoint url [] = Inr None"
| "find_endpoint url (endpoint # endpoints) =
     bindR (py_item endpoint ''ip'') (\<lambda>ip.
       if py_eq ip (PStr url) then bindR (py_item endpoint ''name'') (\<lambda>n. Inr (Some n))
       else find_endpoint url endpoints)"

text \<open>The stripping of the url is the one of \<open>ip_from_url\<close>, written out again in the source.\<close>

definition hostname_for_url :: "environment \<Rightarrow> string \<Rightarrow> string \<Rightarrow> pyval res" where
  "hostname_for_url env cluster_config url =
     bindR (read_json env (cluster_config @ ''.json'')) (\<lambda>cluster.
     let url' = ip_from_url url;
         group = (\<lambda>k. bindR (py_item cluster k) as_list) in
     bindR (group ''sg_accels'') (\<lambda>acs. bindR (group ''sync_gateways'') (\<lambda>sgs.
     bindR (group ''couchbase_servers'') (\<lambda>cbs. bindR (group ''load_balancers'') (\<lambda>lbs.
     bindR (find_endpoint url' (acs @ sgs @ cbs @ lbs)) (\<lambda>found. case found of
         Some n \<Rightarrow> Inr n
       | None \<Rightarrow> raise_exc ''ValueError'' (''Could not find name for url: '' @ url' @ '' in cluster_config: ''
            @ cluster_config @ ''.json'')))))))"

section \<open>The server field of a Sync Gateway configuration\<close>

definition add_cbs_to_sg_config_server_field :: "environment \<Rightarrow> string \<Rightarrow> string res" where
  "add_cbs_to_sg_config_server_field env cluster_config =
     bindR (get_sg_version env cluster_config) (\<lambda>v. bindR (as_str v) (\<lambda>sg_version.
     bindR (get_cbs_servers env cluster_config) (\<lambda>cbs_servers.
     bindR (compare_versions sg_version ''1.5'') (\<lambda>c.
       if c < 0 then
         (case cbs_servers of [] \<Rightarrow> raise_exc ''IndexError'' ''list index out of range'' | s # _ \<Rightarrow> as_str s)
       else foldR (\<lambda>node (i, s). bindR (as_str s) (\<lambda>ip.
              Inr (node @ ip @ (if i + 1 < length cbs_servers then '','' else []))))
              [] (zip [0..<length cbs_servers] cbs_servers)))))"

section \<open>Other helpers\<close>

definition ascii_digits :: string where
  "ascii_digits = ''0123456789''"

text \<open>\<open>string.printable\<close>.\<close>

definition printable_chars :: string where
  "printable_chars = ascii_digits @ ascii_letters @ [CHR ''!'', chr_dquote] @ ''#$%&'' @ [chr_squote] @ ''()*+,-./:;<=>?@['' @
     [chr_bslash] @ '']^_'' @ [chr_backtick] @ ''{|}~'' @ '' '' @ [CHR 0x09, CHR 0x0A, CHR 0x0D, CHR 0x0B, CHR 0x0C]"

definition kit_random_string :: "'w entropy \<Rightarrow> nat \<Rightarrow> bool \<Rightarrow> bool \<Rightarrow> ('w, string) io" where
  "kit_random_string ent n printable digit =
     (let cs = (if digit then ascii_digits else if printable then printable_chars else ascii_letters @ ascii_digits)
      in seqIO (replicate n (mapIO (\<lambda>i. cs ! i) (ent_choice ent (length cs)))))"

definition add_new_fields_to_doc :: "'w entropy \<Rightarrow> (string, pyval) dict \<Rightarrow> ('w, (string, pyval) dict) io" where
  "add_new_fields_to_doc ent doc_body =
     bindIO (random_bool ent) (\<lambda>b.
     bindIO (kit_random_string ent 60 False False) (\<lambda>s.
     bindIO (kit_random_string ent 90 False False) (\<lambda>t.
     returnIO (dict_set (dict_set (dict_set doc_body ''new_field_1'' (PBool b)) ''new_field_2'' (PStr s))
       ''new_field_3'' (PStr t)))))"

definition add_additional_new_field_to_doc :: "'w entropy \<Rightarrow> (string, pyval) dict \<Rightarrow> ('w, (string, pyval) dict) io" where
  "add_additional_new_field_to_doc ent doc_body =
     bindIO (kit_random_string ent 20 False False) (\<lambda>s. returnIO (dict_set doc_body ''new_field_4'' (PStr s)))"

definition asset_platforms :: "string list" where
  "asset_platforms = [''android'', ''xamarin-android'', ''java-macosx'', ''java-msft'', ''java-ubuntu'', ''java-centos'',
     ''javaws-macosx'', ''javaws-msft'', ''javaws-ubuntu'', ''javaws-centos'', ''c-android'']"

text \<open>The condition \<open>"ios" or "c-ios" in cblite_platform\<close> is always true.\<close>

definition get_embedded_asset_file_path :: "string \<Rightarrow> string \<Rightarrow> string" where
  "get_embedded_asset_file_path cblite_platform file_name =
     (if cblite_platform \<in> set asset_platforms then file_name else ''Files/'' @ file_name)"

definition set_device_enabled :: "string option \<Rightarrow> nat \<Rightarrow> bool list" where
  "set_device_enabled run_on_device list_size = (case run_on_device of
       None \<Rightarrow> replicate list_size False
     | Some s \<Rightarrow> map (\<lambda>d. d = ''device'') (split_chr CHR '','' s))"

section \<open>What compare\_versions computes\<close>

text \<open>A version with one digit per component, and the order of versions component by component.\<close>

definition digit_version :: "nat list \<Rightarrow> string" where
  "digit_version ds = join ''.'' (map (\<lambda>d. [digit_chr d]) ds)"

fun component_order :: "nat list \<Rightarrow> nat list \<Rightarrow> int" where
  "component_order [] [] = 0"
| "component_order (x # xs) [] = (if x > 0 then 1 else component_order xs [])"
| "component_order [] (y # ys) = (if y > 0 then -1 else component_order [] ys)"
| "component_order (x # xs) (y # ys) =
     (if x < y then -1 else if x > y then 1 else component_order xs ys)"

definition with_build :: "string \<Rightarrow> string option \<Rightarrow> string" where
  "with_build v build = (case build of None \<Rightarrow> v | Some b \<Rightarrow> v @ ''-'' @ b)"

abbreviation digits :: "nat list \<Rightarrow> bool" where
  "digits ds \<equiv> \<forall>d \<in> set ds. d < 10"

lemma digit_version_chars: "digits ds \<Longrightarrow> c \<in> set (digit_version ds) \<Longrightarrow> is_digit c \<or> c = CHR ''.''"
  unfolding digit_version_def by (induction ds rule: induct_list012) auto

lemma strip_dots_version: "digits ds \<Longrightarrow> replace_str ''.'' [] (digit_version ds) = map digit_chr ds"
  unfolding digit_version_def replace_str_chr
  by (induction ds rule: induct_list012) (auto dest!: is_digit_chr dest: is_digit_not_special(3))

lemma version_without_build:
  assumes "digits ds"
  shows "hd (split_chr CHR ''-'' (with_build (digit_version ds) b)) = digit_version ds"
proof -
  have "CHR ''-'' \<notin> set (digit_version ds)"
    using digit_version_chars [OF assms, of "CHR ''-''"] by (auto simp: is_digit_def)
  then show ?thesis
    by (cases b) (simp_all add: with_build_def split_chr_notin split_chr_append)
qed

lemma py_int_of_digits:
  assumes "digits ds" "ds \<noteq> []"
  shows "py_int_of (map digit_chr ds) = Inr (int (digits_val (map digit_chr ds)))"
proof -
  have d: "\<And>c. c \<in> set (map digit_chr ds) \<Longrightarrow> is_digit c" using assms(1) by auto
  have h: "is_digit (digit_chr (hd ds))" "is_digit (digit_chr (last ds))" using assms by auto
  then have "py_strip (map digit_chr ds) = map digit_chr ds"
    using assms(2) by (intro py_strip_id) (auto simp: hd_map last_map is_digit_not_special(5))
  moreover obtain c s where "map digit_chr ds = c # s" using assms(2) by (cases ds) auto
  ultimately show ?thesis
    using d strip_underscores_digits [of "map digit_chr ds" False] is_digit_not_special(1,2) [of c] assms(2)
    by (simp add: py_int_of_def int_of_str_def nat_of_str_def)
qed

lemma foldl_digits: "foldl (\<lambda>a c. a * 10 + digit_val c) a s = a * 10 ^ length s + foldl (\<lambda>a c. a * 10 + digit_val c) 0 s"
proof (induction s arbitrary: a)
  case (Cons c s)
  from Cons.IH [of "a * 10 + digit_val c"] Cons.IH [of "digit_val c"] show ?case by (simp add: algebra_simps)
qed simp

lemma digits_val_Cons: "d < 10 \<Longrightarrow> digits_val (digit_chr d # s) = d * 10 ^ length s + digits_val s"
  using foldl_digits [of d s] by (simp add: digits_val_def)

lemma digits_val_bound: "digits ds \<Longrightarrow> digits_val (map digit_chr ds) < 10 ^ length ds"
proof (induction ds)
  case (Cons d ds)
  then have "d * 10 ^ length ds + digits_val (map digit_chr ds) < d * 10 ^ length ds + 10 ^ length ds" by simp
  also have "\<dots> \<le> 10 * 10 ^ length ds" using Cons.prems by (simp add: algebra_simps) 
  finally show ?case using Cons.prems by (simp add: digits_val_Cons)
qed (simp add: digits_val_def)

lemma digits_val_order:
  assumes "length xs = length ys" "digits xs" "digits ys"
  shows "(if digits_val (map digit_chr xs) < digits_val (map digit_chr ys) then -1
     else if digits_val (map digit_chr xs) > digits_val (map digit_chr ys) then 1 else 0) = component_order xs ys"
  using assms
proof (induction xs ys rule: list_induct2)
  case (Cons x xs y ys)
  let ?p = "10 ^ length ys" and ?a = "digits_val (map digit_chr xs)" and ?b = "digits_val (map digit_chr ys)"
  have ab: "?a < ?p" "?b < ?p" using digits_val_bound [of xs] digits_val_bound [of ys] Cons.prems Cons.hyps by auto
  have less: "x * ?p + ?a < y * ?p + ?b" if "x < y" "?a < ?p" for x y a b :: nat
  proof -
    from that have "x * ?p + ?a < (x + 1) * ?p" by simp
    also have "\<dots> \<le> y * ?p" using that(1) by (intro mult_right_mono) auto
    finally show ?thesis by simp
  qed
  have less': "y * ?p + ?b < x * ?p + ?a" if "y < x" for x y :: nat
  proof -
    from ab have "y * ?p + ?b < (y + 1) * ?p" by simp
    also have "\<dots> \<le> x * ?p" using that by (intro mult_right_mono) auto
    finally show ?thesis by simp
  qed
  consider "x < y" | "x = y" | "y < x" by linarith
  then show ?case
  proof cases
    case 2
    with Cons show ?thesis by (auto simp: digits_val_Cons split: if_splits)
  qed (use Cons less [of x y] less' [of y x] ab in \<open>simp_all add: digits_val_Cons\<close>)
qed (simp add: digits_val_def)

lemma component_order_pad_left: "component_order (xs @ replicate n 0) ys = component_order xs ys"
proof (induction xs ys arbitrary: n rule: component_order.induct)
  case 1
  show ?case by (induction n) simp_all
next
  case (3 y ys)
  then show ?case by (cases n) simp_all
qed simp_all

lemma component_order_pad_right: "component_order xs (ys @ replicate n 0) = component_order xs ys"
proof (induction xs ys arbitrary: n rule: component_order.induct)
  case 1
  show ?case by (induction n) simp_all
next
  case (2 x xs)
  then show ?case by (cases n) simp_all
qed simp_all

lemma pad_right_digits: "pad_right n (map digit_chr ds) = map digit_chr (ds @ replicate (n - length ds) 0)"
proof -
  have "digit_chr 0 = CHR ''0''" by code_simp
  then show ?thesis by (simp add: pad_right_def)
qed

lemma compare_versions_digits:
  assumes "digits xs" "digits ys" "xs \<noteq> []" "ys \<noteq> []"
  shows "compare_versions (with_build (digit_version xs) b) (with_build (digit_version ys) c)
     = Inr (component_order xs ys)"
proof -
  define xs' ys' where "xs' = xs @ replicate (length ys - length xs) 0" and "ys' = ys @ replicate (length xs - length ys) 0"
  have d: "digits xs'" "digits ys'" "xs' \<noteq> []" "ys' \<noteq> []" "length xs' = length ys'"
    using assms by (auto simp: xs'_def ys'_def)
  have s: "(if length xs < length ys then pad_right (length ys) (map digit_chr xs) else map digit_chr xs) = map digit_chr xs'"
    "(if length ys < length xs then pad_right (length xs) (map digit_chr ys) else map digit_chr ys) = map digit_chr ys'"
    by (auto simp: pad_right_digits xs'_def ys'_def)
  have "compare_versions (with_build (digit_version xs) b) (with_build (digit_version ys) c) = Inr (component_order xs' ys')"
    unfolding compare_versions_def version_without_build [OF assms(1)] version_without_build [OF assms(2)]
      strip_dots_version [OF assms(1)] strip_dots_version [OF assms(2)] Let_def length_map s
    using digits_val_order [OF d(5,1,2)] by (auto simp: py_int_of_digits d split: if_splits)
  also have "\<dots> = Inr (component_order xs ys)"
    by (simp add: xs'_def ys'_def component_order_pad_left component_order_pad_right)
  finally show ?thesis .
qed

section \<open>Urls and server lists\<close>

lemma no_first_char: "c \<notin> set r \<Longrightarrow> \<not> contains_str r (c # p)"
  by (auto simp: contains_str_iff)

lemma rsplit_head_last: "c \<notin> set q \<Longrightarrow> rsplit_head c (a @ c # q) = a"
proof -
  assume "c \<notin> set q"
  then have "dropWhile (\<lambda>x. x \<noteq> c) (rev q @ c # rev a) = c # rev a"
    by (subst dropWhile_append2) auto
  then show ?thesis by (simp add: rsplit_head_def)
qed

lemma strip_brackets_id: "CHR ''['' \<notin> set h \<Longrightarrow> CHR '']'' \<notin> set h \<Longrightarrow> strip_brackets h = h"
  by (auto simp: strip_brackets_def filter_id_conv)

lemma host_for_url_split:
  assumes "CHR ''h'' \<notin> set a" "CHR ''h'' \<notin> set q" "CHR '':'' \<notin> set q" "scheme = ''http://'' \<or> scheme = ''https://''"
  shows "host_for_url (scheme @ a @ '':'' @ q) = strip_brackets a"
proof -
  let ?r = "a @ '':'' @ q"
  have h: "CHR ''h'' \<notin> set ?r" using assms by simp
  have r: "replace_go (CHR ''h'' # p) [] 0 ?r = ?r" for p
    using replace_str_absent [OF no_first_char [OF h, of p], of "[]"] by (simp add: replace_str_def)
  have c: "\<not> contains_str (''http://'' @ ?r) ''https''" "contains_str (''https://'' @ ?r) ''https''"
    using no_first_char [OF h, of "''ttps''"] by simp_all
  have "host_for_url (scheme @ ?r) = strip_brackets (rsplit_head CHR '':'' ?r)"
    using assms(4)
  proof
    assume "scheme = ''http://''"
    then show ?thesis using c(1) r [of "''ttp://''"] by (simp add: host_for_url_def replace_str_def)
  next
    assume "scheme = ''https://''"
    then show ?thesis using c(2) r [of "''ttps://''"] by (simp add: host_for_url_def replace_str_def)
  qed
  with rsplit_head_last [OF assms(3)] show ?thesis by simp
qed

lemma server_field_join:
  "foldR (\<lambda>node (i, s). bindR (as_str s) (\<lambda>ip. Inr (node @ ip @ (if i + 1 < n then '','' else []))))
     acc (zip [k..<n] (map PStr ips)) = Inr (acc @ join '','' ips)" if "n = k + length ips"
  using that
proof (induction ips arbitrary: k acc rule: induct_list012)
  case (3 x y zs)
  have "[k..<n] = k # [Suc k..<n]" by (rule upt_conv_Cons) (use 3(3) in simp)
  with 3(2) [of "Suc k" "acc @ x @ '',''"] 3(3) show ?case by simp
qed (simp_all add: upt_conv_Cons)

section \<open>Properties\<close>

text \<open>
  For versions whose components are single digits, with or without a build number,
  \<open>compare_versions\<close> is the component-by-component order, a missing component counting as 0.
\<close>

theorem compare_versions_correct:
  assumes "\<forall>d \<in> set xs. d < 10" "\<forall>d \<in> set ys. d < 10" "xs \<noteq> []" "ys \<noteq> []"
  shows "compare_versions (with_build (digit_version xs) b) (with_build (digit_version ys) c)
     = Inr (component_order xs ys)"
  using assms by (rule compare_versions_digits)

theorem compare_versions_correct_witness:
  "compare_versions ''2.8.0-374'' ''2.8'' = Inr 0 \<and> compare_versions ''1.4.1'' ''1.5'' = Inr (-1)"
proof -
  have "with_build (digit_version [2, 8, 0]) (Some ''374'') = ''2.8.0-374''" "with_build (digit_version [2, 8]) None = ''2.8''"
    "with_build (digit_version [1, 4, 1]) None = ''1.4.1''" "with_build (digit_version [1, 5]) None = ''1.5''"
    "component_order [2, 8, 0] [2, 8] = 0" "component_order [1, 4, 1] [1, 5] = -1"
    by code_simp+
  with compare_versions_correct [of "[2, 8, 0]" "[2, 8]" "Some ''374''" None]
    compare_versions_correct [of "[1, 4, 1]" "[1, 5]" None None]
  show ?thesis by simp
qed

text \<open>
  With a component of two digits the order is wrong: version 1.10.0 is reported older than
  1.9.0, because the components are run together before they are compared.
\<close>

theorem compare_versions_two_digits:
  "compare_versions ''1.10.0'' ''1.9.0'' = Inr (-1) \<and> component_order [1, 10, 0] [1, 9, 0] = 1"
  by code_simp

text \<open>
  \<open>host_for_url\<close> takes the host out of a url with scheme and port, for http and https, for a
  plain host and for one in square brackets.
\<close>

theorem host_for_url_host:
  assumes "CHR ''h'' \<notin> set host" "CHR ''['' \<notin> set host" "CHR '']'' \<notin> set host"
    and "CHR ''h'' \<notin> set port" "CHR '':'' \<notin> set port" "scheme \<in> {''http://'', ''https://''}"
  shows "host_for_url (scheme @ host @ '':'' @ port) = host
     \<and> host_for_url (scheme @ (''['' @ host @ '']'') @ '':'' @ port) = host"
proof -
  have "strip_brackets (''['' @ host @ '']'') = host"
    using strip_brackets_id [OF assms(2,3)] by (simp add: strip_brackets_def)
  moreover have "host_for_url (scheme @ host @ '':'' @ port) = strip_brackets host"
    by (rule host_for_url_split) (use assms in auto)
  moreover have "host_for_url (scheme @ (''['' @ host @ '']'') @ '':'' @ port) = strip_brackets (''['' @ host @ '']'')"
    by (rule host_for_url_split) (use assms in auto)
  ultimately show ?thesis using strip_brackets_id [OF assms(2,3)] by simp
qed

theorem host_for_url_host_witness:
  "host_for_url ''http://192.168.33.10:4985'' = ''192.168.33.10'' \<and> host_for_url ''https://[fd00::1]:4985'' = ''fd00::1''"
  using host_for_url_host [of "''192.168.33.10''" "''4985''" "''http://''"]
    host_for_url_host [of "''fd00::1''" "''4985''" "''https://''"] by simp

text \<open>
  From Sync Gateway 1.5 on, the server field is the addresses of all Couchbase servers of the
  cluster configuration, in its order and separated by commas.
\<close>

theorem server_field_all_servers:
  assumes "get_sg_version env cc = Inr (PStr v)" "compare_versions v ''1.5'' = Inr c" "0 \<le> c"
    and "get_cbs_servers env cc = Inr (map PStr ips)"
  shows "add_cbs_to_sg_config_server_field env cc = Inr (join '','' ips)"
  using assms server_field_join [of "length ips" 0 ips "[]"]
  by (simp add: add_cbs_to_sg_config_server_field_def)

definition two_servers :: environment where
  "two_servers = sample_env\<lparr>env_files := [(''c.json'', JsonFile (PDict
     [(''environment'', PDict [(''sync_gateway_version'', PStr ''2.8.0'')]),
      (''couchbase_servers'', PList [PDict [(''ip'', PStr ''10.0.0.1'')], PDict [(''ip'', PStr ''10.0.0.2'')]])]))]\<rparr>"

theorem server_field_all_servers_witness:
  "add_cbs_to_sg_config_server_field two_servers ''c'' = Inr ''10.0.0.1,10.0.0.2''"
proof -
  have "add_cbs_to_sg_config_server_field two_servers ''c'' = Inr (join '','' [''10.0.0.1'', ''10.0.0.2''])"
    by (rule server_field_all_servers [where v = "''2.8.0''" and c = 1]) (code_simp, code_simp, simp, code_simp)
  then show ?thesis by simp
qed

end
