(* ===== verification/Deep_Compare.thy ===== *)
theory Deep_Compare
  imports Cbl_Database
begin

text \<open>
  The comparison of documents in \<open>keywords/utils.py\<close>: \<open>compare_generic_types\<close>,
  \<open>deep_list_compare\<close>, \<open>deep_dict_compare\<close> and the two functions that compare databases with
  them. The verdict is modelled; that the fields of an attachment stub are deleted from the
  caller's own object as well is not.
\<close>

section \<open>Scalars\<close>

text \<open>\<open>int(x)\<close> of a float: towards zero. The literal \<open>0.1\<close> is the double nearest to it.\<close>

definition py_trunc :: "rat \<Rightarrow> int" where
  "py_trunc x = (if 0 \<le> x then \<lfloor>x\<rfloor> else - \<lfloor>- x\<rfloor>)"

fun int_like :: "pyval \<Rightarrow> int option" where
  "int_like (PInt i) = Some i"
| "int_like (PBool b) = Some (if b then 1 else 0)"
| "int_like _ = None"

definition tenth :: rat where
  "tenth = 3602879701896397 / 36028797018963968"

definition compare_generic_types :: "pyval \<Rightarrow> pyval \<Rightarrow> bool \<Rightarrow> bool" where
  "compare_generic_types object1 object2 isPredictiveResult =
     (case (object1, object2) of
        (PNone, PNone) \<Rightarrow> True
      | (PStr s, PStr t) \<Rightarrow> s = t
      | (PBool a, PBool b) \<Rightarrow> a = b
      | (PFloat x, PFloat y) \<Rightarrow> if isPredictiveResult then x - y < tenth else x = y
      | (PFloat x, _) \<Rightarrow>
          (case int_like object2 of
             Some j \<Rightarrow> if isPredictiveResult then \<bar>x - of_int j\<bar> < 100 else x = of_int j
           | None \<Rightarrow> False)
      | (_, PFloat y) \<Rightarrow> (case int_like object1 of Some i \<Rightarrow> i = py_trunc y | None \<Rightarrow> False)
      | _ \<Rightarrow>
          (case (int_like object1, int_like object2) of
             (Some i, Some j) \<Rightarrow> i = j
           | _ \<Rightarrow> False))"

section \<open>Containers\<close>

text \<open>\<open>del d[k]\<close>.\<close>

definition dict_remove :: "(string, pyval) dict \<Rightarrow> string \<Rightarrow> (string, pyval) dict res" where
  "dict_remove d k = (if dict_has d k then Inr (dict_del d k) else raise_exc ''KeyError'' k)"

text \<open>
  The test of the lengths: \<open>None\<close> is the verdict \<open>False\<close>; an attachment stub loses its Sync Gateway
  fields and is compared without a further test.
\<close>

definition strip_stub :: "(string, pyval) dict \<Rightarrow> (string, pyval) dict \<Rightarrow> (string, pyval) dict option res" where
  "strip_stub object1 object2 =
     (if length object1 \<noteq> length object2 then
        (if dict_has object1 ''stub'' then
           bindR (dict_remove object1 ''stub'') (\<lambda>d.
           bindR (dict_remove d ''revpos'') (\<lambda>d.
             Inr (Some (if dict_has d ''ver'' then dict_del d ''ver'' else d))))
         else Inr None)
      else Inr (Some object1))"

lemma size_dict_del: "size_list f (dict_del d k) \<le> size_list f d"
  by (induction d) (auto simp: dict_del_def)

lemma strip_stub_size: "strip_stub d e = Inr (Some d') \<Longrightarrow> size_list f d' \<le> size_list f d"
  by (auto simp: strip_stub_def dict_remove_def bindR_eq_Inr split: if_splits
      intro: order_trans [OF size_dict_del] size_dict_del)

declare bindR_cong [fundef_cong]

function (sequential) deep_value :: "bool \<Rightarrow> pyval \<Rightarrow> pyval \<Rightarrow> bool res"
  and deep_list :: "bool \<Rightarrow> pyval list \<Rightarrow> pyval list \<Rightarrow> bool res"
  and deep_items :: "bool \<Rightarrow> (string \<times> pyval) list \<Rightarrow> (string, pyval) dict \<Rightarrow> bool res" where
  "deep_value p (PDict d) (PDict e) =
     bindR (strip_stub d e) (\<lambda>r. case r of None \<Rightarrow> Inr False | Some d' \<Rightarrow> deep_items p d' e)"
| "deep_value p (PList xs) (PList ys) = deep_list p xs ys"
| "deep_value p v w = Inr (compare_generic_types v w p)"
| "deep_list p [] ys = Inr True"
| "deep_list p (x # xs) [] = raise_exc ''IndexError'' ''list index out of range''"
| "deep_list p (x # xs) (y # ys) =
     bindR (deep_value p x y) (\<lambda>r. if r then deep_list p xs ys else Inr False)"
| "deep_items p [] e = Inr True"
| "deep_items p ((k, v) # d) e =
     bindR (dict_index e k) (\<lambda>w. bindR (deep_value p v w) (\<lambda>r. if r then deep_items p d e else Inr False))"
  by pat_completeness auto
termination
  by (relation "measure (\<lambda>x. case x of
        Inl (p, v, w) \<Rightarrow> size v
      | Inr (Inl (p, xs, ys)) \<Rightarrow> size_list size xs
      | Inr (Inr (p, d, e)) \<Rightarrow> size_list (size_prod (\<lambda>_. 0) size) d)")
     (auto simp: less_Suc_eq_le dest: strip_stub_size)

definition deep_list_compare :: "pyval list \<Rightarrow> pyval list \<Rightarrow> bool \<Rightarrow> bool res" where
  "deep_list_compare object1 object2 isPredictiveResult = deep_list isPredictiveResult object1 object2"

definition deep_dict_compare :: "(string, pyval) dict \<Rightarrow> (string, pyval) dict \<Rightarrow> bool \<Rightarrow> bool res" where
  "deep_dict_compare object1 object2 isPredictiveResult =
     deep_value isPredictiveResult (PDict object1) (PDict object2)"

section \<open>Comparing databases\<close>

text \<open>\<open>try: del d[k] except KeyError\<close>.\<close>

definition del_quiet :: "(string, pyval) dict \<Rightarrow> string \<Rightarrow> (string, pyval) dict" where
  "del_quiet d k = (if dict_has d k then dict_del d k else d)"

definition assert_equal :: "(string, pyval) dict \<Rightarrow> pyval \<Rightarrow> unit res" where
  "assert_equal d v =
     bindR (as_dict v) (\<lambda>e. bindR (deep_dict_compare d e False) (\<lambda>r.
       if r then Inr () else raise_exc ''AssertionError'' ''mismatch in the dictionary''))"

definition compare_doc :: "(string, pyval) dict \<Rightarrow> pyval \<Rightarrow> (string, pyval) dict res" where
  "compare_doc cbl_db_docs doc =
     bindR (py_item doc ''doc'') (\<lambda>b. bindR (as_dict b) (\<lambda>body.
     let body = del_quiet body ''_rev'' in
     bindR (dict_index body ''_id'') (\<lambda>i. bindR (as_str i) (\<lambda>key.
     let body = dict_del body ''_id'' in
     bindR (case dict_get cbl_db_docs key of
              None \<Rightarrow> Inr cbl_db_docs
            | Some v \<Rightarrow> bindR (as_dict v) (\<lambda>d. Inr (dict_set cbl_db_docs key (PDict (del_quiet d ''_id''))))) (\<lambda>docs.
     bindR (dict_index docs key) (\<lambda>v. bindR (assert_equal body v) (\<lambda>_. Inr docs)))))))"

definition compare_docs :: "'w client \<Rightarrow> pyval \<Rightarrow> pyval list \<Rightarrow> ('w, unit) io" where
  "compare_docs db cbl_db docs_dict =
     bindIO (Database_getDocIds db cbl_db (PInt 1000) (PInt 0)) (\<lambda>doc_ids.
     bindIO (Database_getDocuments db cbl_db doc_ids (PBool False)) (\<lambda>v.
     bindIO (liftIO (as_dict v)) (\<lambda>cbl_db_docs.
     bindIO (liftIO (foldR compare_doc cbl_db_docs docs_dict)) (\<lambda>_. returnIO ()))))"

definition compare_cbl_doc :: "(string, pyval) dict \<Rightarrow> string \<times> pyval \<Rightarrow> unit res" where
  "compare_cbl_doc docs2 kv =
     bindR (as_dict (snd kv)) (\<lambda>d1.
     let d1 = del_quiet d1 ''_id'' in
     bindR (dict_index docs2 (fst kv)) (\<lambda>v. bindR (as_dict v) (\<lambda>d2.
     assert_equal d1 (PDict (del_quiet d2 ''_id'')))))"

definition compare_cbl_docs :: "'w client \<Rightarrow> pyval \<Rightarrow> pyval \<Rightarrow> ('w, unit) io" where
  "compare_cbl_docs db cbl_db1 cbl_db2 =
     bindIO (Database_getDocIds db cbl_db1 (PInt 1000) (PInt 0)) (\<lambda>doc_ids1.
     bindIO (Database_getDocuments db cbl_db1 doc_ids1 (PBool False)) (\<lambda>v1.
     bindIO (Database_getDocIds db cbl_db2 (PInt 1000) (PInt 0)) (\<lambda>doc_ids2.
     bindIO (Database_getDocuments db cbl_db2 doc_ids2 (PBool False)) (\<lambda>v2.
     bindIO (liftIO (bindR (as_dict v1) (\<lambda>docs1. bindR (as_dict v2) (\<lambda>docs2.
       mapR (compare_cbl_doc docs2) docs1)))) (\<lambda>_. returnIO ())))))"

section \<open>What the comparison says\<close>

text \<open>Values a document can hold.\<close>

fun doc_value :: "pyval \<Rightarrow> bool" where
  "doc_value (PList xs) = (\<forall>x \<in> set xs. doc_value x)"
| "doc_value (PDict d) = (dict_wf d \<and> (\<forall>kv \<in> set d. doc_value (snd kv)))"
| "doc_value (PBytes b) = False"
| "doc_value (PMem a) = False"
| "doc_value _ = True"

lemma strip_stub_same [simp]: "strip_stub d d = Inr (Some d)"
  by (simp add: strip_stub_def)

lemma compare_generic_refl: "doc_value v \<Longrightarrow> \<not> (\<exists>xs. v = PList xs) \<Longrightarrow> \<not> (\<exists>d. v = PDict d) \<Longrightarrow> compare_generic_types v v p"
  by (cases v) (auto simp: compare_generic_types_def tenth_def)

lemma deep_value_refl: "doc_value v \<Longrightarrow> deep_value p v v = Inr True"
proof (induction v rule: doc_value.induct)
  case (1 xs)
  then have "\<And>x. x \<in> set xs \<Longrightarrow> deep_value p x x = Inr True" by simp
  then have "deep_list p xs xs = Inr True" by (induction xs) auto
  then show ?case by simp
next
  case (2 d)
  then have v: "\<And>kv. kv \<in> set d \<Longrightarrow> deep_value p (snd kv) (snd kv) = Inr True" and wf: "dict_wf d" by auto
  have "deep_items p d' d = Inr True" if "set d' \<subseteq> set d" for d'
    using that
  proof (induction d')
    case (Cons kv d')
    obtain k x where kv: "kv = (k, x)" by fastforce
    with Cons.prems have "(k, x) \<in> set d" by simp
    with wf have "map_of d k = Some x" by simp
    with v [OF \<open>(k, x) \<in> set d\<close>] Cons kv show ?case by (simp add: dict_index_def)
  qed simp
  then show ?case by simp
qed (auto simp: compare_generic_types_def tenth_def)

lemma deep_items_True:
  "deep_items p d e = Inr True \<Longrightarrow> (k, v) \<in> set d \<Longrightarrow> \<exists>w. map_of e k = Some w \<and> deep_value p v w = Inr True"
  by (induction d) (auto simp: bindR_eq_Inr dict_index_Inr split: if_splits)

lemma deep_dict_True:
  assumes "deep_dict_compare d e p = Inr True" "\<not> dict_has d ''stub''"
  shows "length d = length e \<and> (\<forall>(k, v) \<in> set d. \<exists>w. map_of e k = Some w \<and> deep_value p v w = Inr True)"
proof -
  from assms have "strip_stub d e = Inr (Some d)" "deep_items p d e = Inr True"
    by (auto simp: deep_dict_compare_def strip_stub_def bindR_eq_Inr split: if_splits option.splits)
  then show ?thesis using deep_items_True assms(2) by (auto simp: strip_stub_def split: if_splits)
qed

fun float_free_scalar :: "pyval \<Rightarrow> bool" where
  "float_free_scalar (PFloat _) = False"
| "float_free_scalar (PList _) = False"
| "float_free_scalar (PDict _) = False"
| "float_free_scalar _ = True"

lemma compare_generic_eq:
  "compare_generic_types v w False \<Longrightarrow> float_free_scalar v \<Longrightarrow> \<forall>x. w \<noteq> PFloat x \<Longrightarrow> py_eq v w"
  by (cases v; cases w) (auto simp: compare_generic_types_def)

section \<open>Properties\<close>

text \<open>
  \<open>deep_dict_compare\<close> finds every document equal to itself, in the exact and in the
  approximate mode, at any nesting of lists and dictionaries.
\<close>

theorem deep_compare_reflexive:
  assumes "doc_value (PDict d)"
  shows "deep_dict_compare d d p = Inr True"
  unfolding deep_dict_compare_def using assms by (rule deep_value_refl)

theorem deep_compare_reflexive_witness:
  "deep_dict_compare [(''a'', PList [PInt 1, PDict [(''b'', PNone)]]), (''c'', PFloat (1 / 2))]
     [(''a'', PList [PInt 1, PDict [(''b'', PNone)]]), (''c'', PFloat (1 / 2))] True = Inr True"
  by (rule deep_compare_reflexive) simp

text \<open>
  C30: two documents that \<open>deep_dict_compare\<close> accepts in the exact mode have the same fields, and
  agree on every field whose values are scalars other than floats; the first document carries no
  attachment stub.
\<close>

theorem deep_compare_sound:
  assumes "deep_dict_compare d e False = Inr True" "dict_wf d" "dict_wf e" "\<not> dict_has d ''stub''"
  shows "set (dict_keys d) = set (dict_keys e) \<and>
    (\<forall>k v w. map_of d k = Some v \<and> map_of e k = Some w \<and> float_free_scalar v \<and> float_free_scalar w \<longrightarrow> py_eq v w)"
proof -
  note t = deep_dict_True [OF assms(1,4)]
  have sub: "set (dict_keys d) \<subseteq> set (dict_keys e)"
    using t by (force dest: map_of_SomeD)
  have "card (set (dict_keys d)) = card (set (dict_keys e))"
    using t assms(2,3) by (metis distinct_card length_map)
  with sub have keys: "set (dict_keys d) = set (dict_keys e)" by (metis card_subset_eq finite_set)
  have "py_eq v w" if "map_of d k = Some v" "map_of e k = Some w" "float_free_scalar v" "float_free_scalar w" for k v w
  proof -
    from t that(1,2) have "deep_value False v w = Inr True" by (fastforce dest: map_of_SomeD)
    with that(3,4) have "compare_generic_types v w False" by (cases v; cases w) auto
    with that(3,4) show ?thesis by (intro compare_generic_eq) auto
  qed
  with keys show ?thesis by blast
qed

theorem deep_compare_sound_witness:
  "set (dict_keys [(''a'', PInt 1), (''b'', PStr ''x'')]) = set (dict_keys [(''b'', PStr ''x''), (''a'', PInt 1)])"
proof -
  have "deep_dict_compare [(''a'', PInt 1), (''b'', PStr ''x'')] [(''b'', PStr ''x''), (''a'', PInt 1)] False = Inr True"
    by code_simp
  from deep_compare_sound [OF this] show ?thesis by (simp add: dict_has_def)
qed

text \<open>
  Further elements of the second list are not looked at, and a float is truncated before it is
  compared with an integer: documents that differ in these ways are reported equal.
\<close>

theorem deep_compare_misses:
  "deep_dict_compare [(''a'', PList [PInt 1])] [(''a'', PList [PInt 1, PInt 2])] False = Inr True \<and>
   deep_dict_compare [(''a'', PInt 1)] [(''a'', PFloat (3 / 2))] False = Inr True"
  by code_simp

end
