(* ===== verification/Http.thy ===== *)
theory Http
  imports Json Polling Documents
begin

text \<open>
  What the kit uses of the \<open>requests\<close> library. A request is a record of what the call passes; the
  session that sends it is a parameter (\<open>http_send\<close>), which answers with a response or an exception
  and may change the world. \<open>raise_for_status\<close> and \<open>resp.json()\<close> are modelled, with the text of the
  errors. The authentication helper \<open>get_auth_type\<close> of \<open>keywords/MobileRestClient.py\<close> is here
  because every REST component uses it.
\<close>

section \<open>Authentication\<close>

text \<open>\<open>None\<close>, a pair, or the \<open>HTTPBasicAuth\<close> object that the pair of the full administrator is turned into.\<close>

datatype auth = NoAuth | AuthPair string string | HTTPBasicAuth string string

datatype auth_type = Auth_none | Auth_session | Auth_http_basic

definition RBAC_FULL_ADMIN_user :: string where
  "RBAC_FULL_ADMIN_user = ''Administrator''"

definition get_auth_type :: "auth \<Rightarrow> auth_type \<times> auth" where
  "get_auth_type a = (case a of
       NoAuth \<Rightarrow> (Auth_none, a)
     | AuthPair u p \<Rightarrow>
         if u = ''SyncGatewaySession'' then (Auth_session, a)
         else if u = RBAC_FULL_ADMIN_user then (Auth_http_basic, HTTPBasicAuth u p)
         else (Auth_http_basic, a)
     | HTTPBasicAuth u p \<Rightarrow> (Auth_http_basic, a))"

text \<open>\<open>auth[0]\<close> and \<open>auth[1]\<close>: an \<open>HTTPBasicAuth\<close> object is not a pair.\<close>

definition auth_item :: "auth \<Rightarrow> nat \<Rightarrow> string res" where
  "auth_item a i = (case a of
       AuthPair u p \<Rightarrow> Inr (if i = 0 then u else p)
     | NoAuth \<Rightarrow> raise_exc ''TypeError'' (repr_str ''NoneType'' @ '' object is not subscriptable'')
     | HTTPBasicAuth u p \<Rightarrow> raise_exc ''TypeError'' (repr_str ''HTTPBasicAuth'' @ '' object is not subscriptable''))"

text \<open>\<open>HTTPBasicAuth(auth[0], auth[1])\<close> if \<open>auth\<close> is true, no authentication otherwise.\<close>

definition basic_auth :: "auth \<Rightarrow> auth res" where
  "basic_auth a = (if a = NoAuth then Inr NoAuth
     else bindR (auth_item a 0) (\<lambda>u. bindR (auth_item a 1) (\<lambda>p. Inr (HTTPBasicAuth u p))))"

section \<open>Requests and responses\<close>

record http_request =
  rq_method :: string
  rq_url :: string
  rq_params :: "(string, pyval) dict"
  rq_headers :: "(string, string) dict"
  rq_data :: "string option"
  rq_cookies :: "(string, string) dict"
  rq_auth :: auth
  rq_timeout :: "rat option"

record http_response =
  rs_status :: int
  rs_reason :: string
  rs_url :: string
  rs_text :: string
  rs_headers :: "(string, string) dict"

record 'w http =
  http_send :: "http_request \<Rightarrow> ('w, http_response) io"
  http_runtime :: py_runtime

definition http_error_text :: "http_response \<Rightarrow> string option" where
  "http_error_text r =
     (if 400 \<le> rs_status r \<and> rs_status r < 500 then
        Some (int_str (rs_status r) @ '' Client Error: '' @ rs_reason r @ '' for url: '' @ rs_url r)
      else if 500 \<le> rs_status r \<and> rs_status r < 600 then
        Some (int_str (rs_status r) @ '' Server Error: '' @ rs_reason r @ '' for url: '' @ rs_url r)
      else None)"

definition raise_for_status :: "http_response \<Rightarrow> unit res" where
  "raise_for_status r = (case http_error_text r of None \<Rightarrow> Inr () | Some m \<Rightarrow> raise_exc ''HTTPError'' m)"

text \<open>
  \<open>err.response.status_code\<close> of an \<open>HTTPError\<close>: the text of the error starts with it.
\<close>

definition error_status :: "exn \<Rightarrow> int option" where
  "error_status e = (if exn_class e = ''HTTPError'' then int_of_str (takeWhile (\<lambda>c. c \<noteq> CHR '' '') (exn_msg e)) else None)"

lemma error_status_raised:
  assumes "raise_for_status r = Inl e"
  shows "error_status e = Some (rs_status r)" "exn_class e = ''HTTPError''" "400 \<le> rs_status r" "rs_status r < 600"
proof -
  have "takeWhile (\<lambda>c. c \<noteq> CHR '' '') (int_str i @ CHR '' '' # s) = int_str i" for i s
    by (rule takeWhile_tail [THEN trans]) (auto dest: int_str_chars simp: is_digit_def takeWhile_eq_all_conv)
  then show "error_status e = Some (rs_status r)" "exn_class e = ''HTTPError''" "400 \<le> rs_status r" "rs_status r < 600"
    using assms by (auto simp: raise_for_status_def http_error_text_def error_status_def split: if_splits)
qed

lemma raise_for_status_ok: "raise_for_status r = Inr () \<longleftrightarrow> \<not> (400 \<le> rs_status r \<and> rs_status r < 600)"
  by (auto simp: raise_for_status_def http_error_text_def)

definition resp_json :: "'w http \<Rightarrow> http_response \<Rightarrow> pyval res" where
  "resp_json http r = json_loads (http_runtime http) (rs_text r)"

section \<open>The calls of the session\<close>

definition session_headers :: "(string, string) dict" where
  "session_headers = [(''Content-Type'', ''application/json'')]"

definition rq :: "string \<Rightarrow> string \<Rightarrow> http_request" where
  "rq meth url = \<lparr>rq_method = meth, rq_url = url, rq_params = [], rq_headers = session_headers,
     rq_data = None, rq_cookies = [], rq_auth = NoAuth, rq_timeout = None\<rparr>"

definition with_data :: "string \<Rightarrow> http_request \<Rightarrow> http_request" where
  "with_data d r = r\<lparr>rq_data := Some d\<rparr>"

definition with_params :: "(string, pyval) dict \<Rightarrow> http_request \<Rightarrow> http_request" where
  "with_params ps r = r\<lparr>rq_params := ps\<rparr>"

definition with_header :: "string \<Rightarrow> string \<Rightarrow> http_request \<Rightarrow> http_request" where
  "with_header k v r = r\<lparr>rq_headers := dict_set (rq_headers r) k v\<rparr>"

text \<open>
  The two ways the kit passes the authentication on: \<open>if auth: ... auth=HTTPBasicAuth(auth[0], auth[1])\<close>, and
  the three branches on the type, a session cookie, basic authentication or nothing.
\<close>

definition send_basic :: "'w http \<Rightarrow> auth \<Rightarrow> http_request \<Rightarrow> ('w, http_response) io" where
  "send_basic http auth r = bindIO (liftIO (basic_auth auth)) (\<lambda>a. http_send http (r\<lparr>rq_auth := a\<rparr>))"

definition send_typed :: "'w http \<Rightarrow> auth_type \<times> auth \<Rightarrow> http_request \<Rightarrow> ('w, http_response) io" where
  "send_typed http ta r = (case fst ta of
       Auth_session \<Rightarrow> bindIO (liftIO (auth_item (snd ta) 1)) (\<lambda>c.
          http_send http (r\<lparr>rq_cookies := [(''SyncGatewaySession'', c)]\<rparr>))
     | Auth_http_basic \<Rightarrow> http_send http (r\<lparr>rq_auth := snd ta\<rparr>)
     | Auth_none \<Rightarrow> http_send http r)"

text \<open>\<open>resp.raise_for_status()\<close>, and then \<open>resp.json()\<close>.\<close>

definition checked :: "('w, http_response) io \<Rightarrow> ('w, http_response) io" where
  "checked m = bindIO m (\<lambda>r. bindIO (liftIO (raise_for_status r)) (\<lambda>_. returnIO r))"

definition checked_json :: "'w http \<Rightarrow> ('w, http_response) io \<Rightarrow> ('w, pyval) io" where
  "checked_json http m = bindIO (checked m) (\<lambda>r. liftIO (resp_json http r))"

text \<open>\<open>"{}/{}/...".format(...)\<close>.\<close>

definition path :: "string list \<Rightarrow> string" where
  "path ps = join ''/'' ps"

text \<open>\<open>db + "." + scope + "." + collection\<close> if there is a scope.\<close>

definition keyspace_of :: "string \<Rightarrow> string option \<Rightarrow> string option \<Rightarrow> string res" where
  "keyspace_of db scope collection = (case scope of
       None \<Rightarrow> Inr db
     | Some s \<Rightarrow> (case collection of
           None \<Rightarrow> raise_exc ''TypeError'' (''can only concatenate str (not '' @ dq ''NoneType'' @ '') to str'')
         | Some c \<Rightarrow> Inr (db @ ''.'' @ s @ ''.'' @ c)))"

text \<open>\<open>json.dumps(v, cls=MyEncoder)\<close>: byte strings are written as their ASCII text.\<close>

fun decode_bytes :: "pyval \<Rightarrow> pyval res" where
  "decode_bytes (PBytes b) =
     (if list_all (\<lambda>c. (of_char c :: nat) < 128) b then Inr (PStr b)
      else raise_exc ''UnicodeDecodeError'' ''ordinal not in range(128)'')"
| "decode_bytes (PList xs) = bindR (mapR decode_bytes xs) (\<lambda>ys. Inr (PList ys))"
| "decode_bytes (PDict d) =
     bindR (mapR (\<lambda>kv. bindR (decode_bytes (snd kv)) (\<lambda>v. Inr (fst kv, v))) d) (\<lambda>e. Inr (PDict e))"
| "decode_bytes v = Inr v"

definition my_dumps :: "py_runtime \<Rightarrow> pyval \<Rightarrow> string res" where
  "my_dumps rt v = bindR (decode_bytes v) (json_dumps rt)"

section \<open>Laws\<close>

text \<open>A session during whose requests time does not run backwards.\<close>

definition http_onward :: "('w \<Rightarrow> rat) \<Rightarrow> 'w http \<Rightarrow> bool" where
  "http_onward time http \<longleftrightarrow> (\<forall>r. onward time (http_send http r))"

lemma onward_send [time_intros]:
  assumes "http_onward time http"
  shows "onward time (http_send http r)" "onward time (send_basic http a r)" "onward time (send_typed http ta r)"
  using assms by (auto simp: http_onward_def send_basic_def send_typed_def intro!: time_intros split: auth_type.splits)

lemma onward_checked [time_intros]:
  "onward time m \<Longrightarrow> onward time (checked m)" "onward time m \<Longrightarrow> onward time (checked_json http m)"
  by (auto simp: checked_def checked_json_def intro!: time_intros)

lemma checked_json_Inr:
  assumes "checked_json http m w = (Inr v, w')"
  obtains r where "m w = (Inr r, w')" "raise_for_status r = Inr ()" "resp_json http r = Inr v"
  using assms by (auto simp: checked_json_def checked_def elim!: bindIO_cases)

text \<open>The answer that carries a JSON value.\<close>

definition json_answer :: "'w http \<Rightarrow> int \<Rightarrow> pyval \<Rightarrow> http_response \<Rightarrow> bool" where
  "json_answer http status v r \<longleftrightarrow> rs_status r = status \<and> json_ok v \<and> json_dumps (http_runtime http) v = Inr (rs_text r)"

lemma json_answer_json: "json_answer http st v r \<Longrightarrow> resp_json http r = Inr v"
  by (simp add: json_answer_def resp_json_def json_roundtrip)

lemma decode_bytes_json_ok: "json_ok v \<Longrightarrow> decode_bytes v = Inr v"
proof (induction v rule: json_ok.induct)
  case (1 xs)
  then have "mapR decode_bytes xs = Inr (map (\<lambda>x. x) xs)" by (intro mapR_all_Inr) auto
  then show ?case by simp
next
  case (2 d)
  then have "mapR (\<lambda>kv. bindR (decode_bytes (snd kv)) (\<lambda>v. Inr (fst kv, v))) d = Inr (map (\<lambda>kv. kv) d)"
    by (intro mapR_all_Inr) auto
  then show ?case by simp
qed auto

text \<open>A server that answers every request with the same text.\<close>

definition text_response :: "int \<Rightarrow> string \<Rightarrow> http_response" where
  "text_response status t = \<lparr>rs_status = status, rs_reason = [], rs_url = [], rs_text = t, rs_headers = []\<rparr>"

definition quiet_http :: "string \<Rightarrow> 'w http" where
  "quiet_http t = \<lparr>http_send = (\<lambda>_. returnIO (text_response 200 t)), http_runtime = bare_runtime\<rparr>"

lemma quiet_http_onward: "http_onward time (quiet_http text)"
  by (simp add: http_onward_def quiet_http_def onward_def)

text \<open>The text of a JSON value.\<close>

definition json_text :: "pyval \<Rightarrow> string" where
  "json_text v = (case json_dumps bare_runtime v of Inr t \<Rightarrow> t | Inl _ \<Rightarrow> [])"

lemma json_text_loads: "json_ok v \<Longrightarrow> json_loads bare_runtime (json_text v) = Inr v"
  using json_ok_dumps [of v bare_runtime] by (auto simp: json_text_def intro: json_roundtrip)

lemma quiet_http_json:
  "json_ok v \<Longrightarrow> checked_json (quiet_http (json_text v)) (http_send (quiet_http (json_text v)) r) w = (Inr v, w)"
  by (simp add: checked_json_def checked_def quiet_http_def bindIO_def text_response_def raise_for_status_def http_error_text_def
      resp_json_def json_text_loads)

end
