(* ===== verification/Changes_Tracker.thy ===== *)
theory Changes_Tracker
  imports Http
begin

text \<open>
  \<open>keywords/ChangesTracker.py\<close>: a follower of the changes feed of Sync Gateway. The object's
  \<open>processed_changes\<close> is the state of \<open>process_changes\<close>; for the loops, which run in different
  threads, the object lives in the world and is reached through the record \<open>tracker\<close>. The HTTP
  session is the argument \<open>http\<close> of \<open>tracker_start\<close>.
\<close>

type_synonym processed = "(string, pyval list) dict"

record 'w tracker =
  tr_processed :: "'w \<Rightarrow> processed"
  tr_store :: "processed \<Rightarrow> 'w \<Rightarrow> 'w"
  tr_cancel :: "'w \<Rightarrow> bool"
  tr_set_cancel :: "'w \<Rightarrow> 'w"
  tr_endpoint :: string

section \<open>process\_changes\<close>

definition revs_of :: "pyval list \<Rightarrow> pyval list res" where
  "revs_of changes = mapR (\<lambda>change. py_item change ''rev'') changes"

definition process_doc :: "pyval \<Rightarrow> (processed, unit) io" where
  "process_doc doc processed_changes =
     (case bindR (py_item doc ''changes'') as_list of
        Inl e \<Rightarrow> (Inl e, processed_changes)
      | Inr changes \<Rightarrow>
          if length changes > 0 then
            (case bindR (py_item doc ''id'') as_str of
               Inl e \<Rightarrow> (Inl e, processed_changes)
             | Inr i \<Rightarrow>
                 (case dict_get processed_changes i of
                    Some revs_list \<Rightarrow>
                      (case bindR (revs_of changes) (\<lambda>new. bindR (revs_of revs_list) (\<lambda>old. Inr (new, old))) of
                         Inl e \<Rightarrow> (Inl e, processed_changes)
                       | Inr (new, old) \<Rightarrow>
                           if list_ex (\<lambda>c. list_ex (py_eq c) old) new then
                             (raise_exc ''ChangesError'' ''Duplicates in changes feed!'', processed_changes)
                           else (Inr (), dict_set processed_changes i (revs_list @ changes)))
                  | None \<Rightarrow> (Inr (), dict_set processed_changes i changes)))
          else (Inr (), processed_changes))"

definition process_changes :: "pyval list \<Rightarrow> (processed, unit) io" where
  "process_changes results = forIO results process_doc"

section \<open>wait\_until\<close>

definition rev_matches :: "bool \<Rightarrow> pyval \<Rightarrow> pyval \<Rightarrow> bool res" where
  "rev_matches rev_prefix_gen doc change =
     bindR (py_item change ''rev'') (\<lambda>r. bindR (py_item doc ''rev'') (\<lambda>d.
       if rev_prefix_gen then bindR (as_str r) (\<lambda>s. bindR (as_str d) (\<lambda>p. Inr (startswith s p)))
       else Inr (py_eq r d)))"

definition doc_missing :: "bool \<Rightarrow> processed \<Rightarrow> pyval \<Rightarrow> bool res" where
  "doc_missing rev_prefix_gen processed_changes doc =
     bindR (py_item doc ''id'') (\<lambda>v. bindR (as_str v) (\<lambda>i.
       case dict_get processed_changes i of
         None \<Rightarrow> Inr True
       | Some revs \<Rightarrow> bindR (mapR (rev_matches rev_prefix_gen doc) revs) (\<lambda>bs. Inr (\<not> list_ex id bs))))"

definition wait_body :: "'w tracker \<Rightarrow> pyval list \<Rightarrow> bool \<Rightarrow> unit \<Rightarrow> ('w, unit + bool) io" where
  "wait_body tr expected_docs rev_prefix_gen s w =
     (case mapR (doc_missing rev_prefix_gen (tr_processed tr w)) expected_docs of
        Inl e \<Rightarrow> (Inl e, w)
      | Inr missing \<Rightarrow> (Inr (if \<not> list_ex id missing then Inr True else Inl ()), w))"

definition wait_until :: "'w tracker \<Rightarrow> 'w clock \<Rightarrow> nat \<Rightarrow> pyval list \<Rightarrow> rat \<Rightarrow> bool \<Rightarrow> ('w, bool) dio" where
  "wait_until tr clk fuel expected_docs timeout rev_prefix_gen =
     poll clk timeout 2 (returnIO False) (wait_body tr expected_docs rev_prefix_gen) fuel ()"

section \<open>start\<close>

definition loop_timeout :: "int \<Rightarrow> int" where
  "loop_timeout timeout = (if timeout > 1000 then timeout div 1000 * 10 else 60)"

definition feed_request :: "pyval \<Rightarrow> int \<Rightarrow> pyval \<Rightarrow> pyval" where
  "feed_request current_seq_num timeout heartbeat =
     PDict ([(''feed'', PStr ''longpoll''), (''style'', PStr ''all_docs''), (''since'', current_seq_num),
             (''timeout'', PInt timeout)]
            @ (if heartbeat \<noteq> PNone then [(''heartbeat'', heartbeat)] else []))"

text \<open>\<open>requests.post\<close> without the session: no default header.\<close>

definition post_changes :: "string \<Rightarrow> rat \<Rightarrow> string \<Rightarrow> http_request" where
  "post_changes endpoint request_timeout data =
     (with_data data (rq ''POST'' (endpoint @ ''/_changes'')))\<lparr>rq_headers := [], rq_timeout := Some request_timeout\<rparr>"

definition request_seconds :: "rat option \<Rightarrow> rat" where
  "request_seconds request_timeout = (case request_timeout of Some t \<Rightarrow> t / 1000 | None \<Rightarrow> 1000)"

text \<open>
  One round of the longpoll loop: a request that times out ends it. The state is \<open>current_seq_num\<close>.
\<close>

definition feed_body :: "'w tracker \<Rightarrow> 'w clock \<Rightarrow> 'w http \<Rightarrow> auth \<Rightarrow> rat \<Rightarrow> int \<Rightarrow> pyval \<Rightarrow> rat \<Rightarrow>
    pyval \<Rightarrow> ('w, bool \<times> pyval) io" where
  "feed_body tr clk http auth request_timeout timeout heartbeat start current_seq_num w =
     (if tr_cancel tr w then (Inr (False, current_seq_num), w)
      else bindIO (clk_time clk) (\<lambda>now.
        if now - start > of_int (loop_timeout timeout) then returnIO (False, current_seq_num)
        else bindIO (liftIO (json_dumps (http_runtime http) (feed_request current_seq_num timeout heartbeat))) (\<lambda>data.
          (\<lambda>w. case send_typed http (get_auth_type auth) (post_changes (tr_endpoint tr) request_timeout data) w of
              (Inl e, w') \<Rightarrow> if exn_class e = ''Timeout'' then (Inr (False, current_seq_num), w') else (Inl e, w')
            | (Inr resp, w') \<Rightarrow>
                bindIO (liftIO (raise_for_status resp)) (\<lambda>_.
                bindIO (liftIO (resp_json http resp)) (\<lambda>resp_obj.
                bindIO (liftIO (bindR (py_item resp_obj ''results'') as_list)) (\<lambda>results.
                bindIO (\<lambda>w. case process_changes results (tr_processed tr w) of (r, pc) \<Rightarrow> (r, tr_store tr pc w)) (\<lambda>_.
                bindIO (liftIO (py_item resp_obj ''last_seq'')) (\<lambda>seq.
                bindIO (clk_sleep clk 2) (\<lambda>_. returnIO (True, seq))))))) w'))) w)"

definition tracker_start :: "'w tracker \<Rightarrow> 'w clock \<Rightarrow> 'w http \<Rightarrow> nat \<Rightarrow> auth \<Rightarrow> int \<Rightarrow> pyval \<Rightarrow> rat option \<Rightarrow> ('w, unit) dio" where
  "tracker_start tr clk http fuel auth timeout heartbeat request_timeout =
     bindD (liftD (clk_time clk)) (\<lambda>start.
     bindD (while_io (\<lambda>_. True) (feed_body tr clk http auth (request_seconds request_timeout) timeout heartbeat start)
       fuel (PInt 0)) (\<lambda>_.
     liftD (returnIO ())))"

definition tracker_stop :: "'w tracker \<Rightarrow> ('w, unit) io" where
  "tracker_stop tr w = (Inr (), tr_set_cancel tr w)"

section \<open>The changes seen\<close>

text \<open>The changes of one document in a list of results, in the order of the feed.\<close>

definition entry :: "string \<Rightarrow> pyval list \<Rightarrow> pyval" where
  "entry i cs = PDict [(''id'', PStr i), (''changes'', PList cs)]"

definition rev_entry :: "string \<Rightarrow> pyval" where
  "rev_entry r = PDict [(''rev'', PStr r)]"

lemma revs_of_entries [simp]: "revs_of (map rev_entry rs) = Inr (map PStr rs)"
  by (induction rs) (auto simp: revs_of_def rev_entry_def dict_index_def)

lemma process_doc_entry:
  "process_doc (entry i (map rev_entry rs)) pc =
     (if rs = [] then (Inr (), pc)
      else case dict_get pc i of
        None \<Rightarrow> (Inr (), dict_set pc i (map rev_entry rs))
      | Some old \<Rightarrow>
          (case revs_of old of
             Inl e \<Rightarrow> (Inl e, pc)
           | Inr revs \<Rightarrow>
               if \<exists>r \<in> set rs. \<exists>v \<in> set revs. py_eq (PStr r) v
               then (raise_exc ''ChangesError'' ''Duplicates in changes feed!'', pc)
               else (Inr (), dict_set pc i (old @ map rev_entry rs))))"
  by (auto simp: process_doc_def entry_def dict_index_def list_ex_iff split: option.splits sum.splits)

text \<open>What the tracker holds after a feed: for each id the revisions in feed order.\<close>

definition seen :: "processed \<Rightarrow> string \<Rightarrow> string list" where
  "seen pc i = (case dict_get pc i of
       None \<Rightarrow> []
     | Some cs \<Rightarrow> (case revs_of cs of Inr vs \<Rightarrow> map (\<lambda>v. case v of PStr s \<Rightarrow> s | _ \<Rightarrow> []) vs | Inl _ \<Rightarrow> []))"

definition tracked :: "processed \<Rightarrow> bool" where
  "tracked pc \<longleftrightarrow> (\<forall>i cs. dict_get pc i = Some cs \<longrightarrow> (\<exists>rs. cs = map rev_entry rs))"

lemma seen_tracked: "dict_get pc i = Some (map rev_entry rs) \<Longrightarrow> seen pc i = rs"
  by (simp add: seen_def comp_def)

lemma process_entry_tracked:
  assumes "tracked pc"
  shows "process_doc (entry i (map rev_entry rs)) pc =
     (if set rs \<inter> set (seen pc i) = {}
      then (Inr (), if rs = [] then pc else dict_set pc i (map rev_entry (seen pc i @ rs)))
      else (raise_exc ''ChangesError'' ''Duplicates in changes feed!'', pc))"
proof (cases "dict_get pc i")
  case None
  then show ?thesis by (auto simp: process_doc_entry seen_def)
next
  case (Some cs)
  with assms obtain qs where "cs = map rev_entry qs" by (auto simp: tracked_def)
  with Some show ?thesis by (auto simp: process_doc_entry seen_tracked)
qed

lemma tracked_set: "tracked pc \<Longrightarrow> tracked (dict_set pc i (map rev_entry rs))"
  by (auto simp: tracked_def dict_get_set)

lemma seen_set: "seen (dict_set pc i (map rev_entry rs)) j = (if j = i then rs else seen pc j)"
  by (auto simp: seen_def dict_get_set comp_def)

text \<open>The specification of a whole feed: revisions per document in order, or a repeated revision.\<close>

fun feed_ok :: "(string \<times> string list) list \<Rightarrow> (string \<Rightarrow> string list) \<Rightarrow> bool" where
  "feed_ok [] f = True"
| "feed_ok ((i, rs) # fs) f = (set rs \<inter> set (f i) = {} \<and> feed_ok fs (f(i := f i @ rs)))"

definition feed_revs :: "(string \<times> string list) list \<Rightarrow> string \<Rightarrow> string list" where
  "feed_revs fs i = concat (map snd (List.filter (\<lambda>e. fst e = i) fs))"

lemma process_changes_feed:
  assumes "tracked pc"
  shows "\<exists>pc' r. process_changes (map (\<lambda>(i, rs). entry i (map rev_entry rs)) fs) pc = (r, pc') \<and> tracked pc' \<and>
     (if feed_ok fs (seen pc) then r = Inr () \<and> (\<forall>i. seen pc' i = seen pc i @ feed_revs fs i)
      else r = raise_exc ''ChangesError'' ''Duplicates in changes feed!'')"
  using assms
proof (induction fs arbitrary: pc)
  case Nil
  then show ?case by (simp add: process_changes_def feed_revs_def)
next
  case (Cons e fs)
  obtain i rs where e: "e = (i, rs)" by fastforce
  show ?case
  proof (cases "set rs \<inter> set (seen pc i) = {}")
    case False
    with e Cons.prems show ?thesis
      by (simp add: process_changes_def bindIO_def process_entry_tracked)
  next
    case True
    define pc1 where "pc1 = (if rs = [] then pc else dict_set pc i (map rev_entry (seen pc i @ rs)))"
    have t1: "tracked pc1" and s1: "seen pc1 = (seen pc)(i := seen pc i @ rs)"
      using Cons.prems by (auto simp: pc1_def tracked_set seen_set fun_eq_iff simp del: map_append)
    have "process_changes (map (\<lambda>(i, rs). entry i (map rev_entry rs)) (e # fs)) pc
        = process_changes (map (\<lambda>(i, rs). entry i (map rev_entry rs)) fs) pc1"
      using True e Cons.prems by (simp add: process_changes_def bindIO_def process_entry_tracked pc1_def)
    moreover have "feed_ok (e # fs) (seen pc) = feed_ok fs (seen pc1)" using e True s1 by simp
    moreover have "seen pc1 k @ feed_revs fs k = seen pc k @ feed_revs (e # fs) k" for k
      by (simp add: e s1 feed_revs_def)
    ultimately show ?thesis using Cons.IH [OF t1] by (metis (no_types, lifting))
  qed
qed

section \<open>Waiting\<close>

lemma wait_body_True:
  assumes "wait_body tr docs pre s w = (Inr (Inr b), w')"
  shows "w' = w \<and> b \<and> mapR (doc_missing pre (tr_processed tr w)) docs = Inr (map (\<lambda>_. False) docs)"
proof -
  from assms obtain bs where bs: "mapR (doc_missing pre (tr_processed tr w)) docs = Inr bs" "\<not> list_ex id bs" "w' = w" b
    by (auto simp: wait_body_def split: sum.splits if_splits)
  have "bs = map (\<lambda>_. False) docs"
    using mapR_length [OF bs(1)] bs(2) by (intro nth_equalityI) (auto simp: list_ex_iff in_set_conv_nth)
  with bs show ?thesis by simp
qed

lemma wait_body_onward: "onward time (wait_body tr docs pre s)"
  by (auto simp: onward_def wait_body_def split: sum.splits)

interpretation wait_loop: polling time 2 "wait_body tr docs pre" True for time tr docs pre
  by unfold_locales (auto simp: wait_body_onward)

text \<open>Neither the answer of the server nor storing the changes sets the clock back.\<close>

definition store_onward :: "('w \<Rightarrow> rat) \<Rightarrow> 'w tracker \<Rightarrow> bool" where
  "store_onward time tr \<longleftrightarrow> (\<forall>pc w. time w \<le> time (tr_store tr pc w))"

lemma feed_body_continues:
  assumes "feed_body tr clk http auth rt timeout heartbeat start s w = (Inr (True, s'), w')"
    and "ticks clk time" "http_onward time http" "store_onward time tr"
  shows "time w \<le> start + of_int (loop_timeout timeout) \<and> time w + 2 \<le> time w'"
proof -
  from assms(1) obtain now v resp u pc where v: "clk_time clk w = (Inr now, v)" "now - start \<le> of_int (loop_timeout timeout)"
    and u: "send_typed http (get_auth_type auth) (post_changes (tr_endpoint tr) rt
        (projr (json_dumps (http_runtime http) (feed_request s timeout heartbeat)))) v = (Inr resp, u)"
    and sl: "clk_sleep clk 2 (tr_store tr pc u) = (Inr (), w')"
    by (auto simp: feed_body_def not_less elim!: bindIO_cases split: if_splits prod.splits sum.splits)
  have "now = time v" "time w \<le> time v" using ticksD(1) [OF assms(2) v(1)] by auto
  moreover have "time v \<le> time u" using onward_send(3) [OF assms(3)] u by (rule onwardD)
  moreover have "time u \<le> time (tr_store tr pc u)" using assms(4) by (simp add: store_onward_def)
  moreover have "time (tr_store tr pc u) + 2 \<le> time w'" using ticksD(2) [OF assms(2) sl] by simp
  ultimately show ?thesis using v(2) by linarith
qed

interpretation feed_loop: ranked_loop "\<lambda>_. True" "feed_body tr clk http auth rt timeout heartbeat start"
    "\<lambda>s w. ticks clk time \<and> http_onward time http \<and> store_onward time tr"
    "\<lambda>s w. wait_rank 2 time (start + of_int (loop_timeout timeout)) w"
  for tr clk http auth rt timeout heartbeat start time
  by unfold_locales (metis feed_body_continues wait_rank_decreases zero_less_numeral)

section \<open>Properties\<close>

text \<open>
  C10: a feed processed by a new tracker either repeats a revision of a document in a later
  entry, and then \<open>ChangesError\<close> is raised, or the tracker ends up with exactly the revisions of
  the feed, for each document in feed order.
\<close>

theorem process_changes_exact:
  "\<exists>pc r. process_changes (map (\<lambda>(i, rs). entry i (map rev_entry rs)) fs) [] = (r, pc) \<and>
     (if feed_ok fs (\<lambda>_. []) then r = Inr () \<and> (\<forall>i. seen pc i = feed_revs fs i)
      else r = raise_exc ''ChangesError'' ''Duplicates in changes feed!'')"
proof -
  have t: "tracked []" and s: "seen [] = (\<lambda>_. [])" by (auto simp: tracked_def seen_def dict_get_def)
  from process_changes_feed [OF t, of fs] show ?thesis unfolding s append_Nil by metis
qed

text \<open>
  \<open>wait_until\<close> returns, within the timeout, whatever the feed delivers, on a clock that its
  sleeps advance; one round for each two seconds of the timeout and two more are enough.
\<close>

theorem wait_until_returns:
  assumes "ticks clk time" "0 \<le> timeout" "poll_fuel timeout 2 \<le> fuel"
  shows "\<exists>r. wait_until tr clk fuel expected_docs timeout rev_prefix_gen w = Some r"
  unfolding wait_until_def using assms(1) TrueI assms(2,3) by (rule wait_loop.returns)

definition empty_tracker :: "'w tracker" where
  "empty_tracker = \<lparr>tr_processed = (\<lambda>_. []), tr_store = (\<lambda>_ w. w), tr_cancel = (\<lambda>_. False),
     tr_set_cancel = (\<lambda>w. w), tr_endpoint = ''http://sg/db''\<rparr>"

theorem wait_until_returns_witness:
  "\<exists>r. wait_until empty_tracker step_clock 20 [entry ''d'' []] 30 False 0 = Some r"
  using step_clock_ticks by (rule wait_until_returns) (simp_all add: poll_fuel_def)

text \<open>
  The longpoll loop of \<open>start\<close> ends, whatever the server answers: on a clock that its sleeps
  advance, after at most half of the loop timeout rounds. The loop timeout is ten seconds for each
  full second of \<open>timeout\<close>, or sixty seconds.
\<close>

theorem tracker_start_returns:
  assumes "ticks clk time" "http_onward time http" "store_onward time tr" "nat (loop_timeout timeout) < fuel"
  shows "\<exists>r. tracker_start tr clk http fuel auth timeout heartbeat request_timeout w = Some r"
proof -
  obtain r w1 where w1: "clk_time clk w = (r, w1)" by fastforce
  have r: "r = Inr (time w1)" using ticksD(1) [OF assms(1) w1] by simp
  have lt: "10 \<le> loop_timeout timeout" by (simp add: loop_timeout_def) linarith
  then have "\<lfloor>(of_int (loop_timeout timeout) :: rat) / 2\<rfloor> + 1 \<le> loop_timeout timeout" by linarith
  with lt have rank: "wait_rank 2 time (time w1 + of_int (loop_timeout timeout)) w1 < fuel"
    using assms(4) by (simp add: wait_rank_def)
  have laws: "ticks clk time \<and> http_onward time http \<and> store_onward time tr" using assms(1-3) by simp
  obtain q where "while_io (\<lambda>_. True)
      (feed_body tr clk http auth (request_seconds request_timeout) timeout heartbeat (time w1)) fuel (PInt 0) w1 = Some q"
    using feed_loop.returns [where time = time, OF laws rank] by blast
  then show ?thesis
    by (cases q) (auto simp: tracker_start_def bindD_def liftD_def w1 r split: sum.splits)
qed

theorem tracker_start_returns_witness:
  "\<exists>r. tracker_start empty_tracker step_clock (quiet_http ''{}'') 61 NoAuth 1000 PNone None 0 = Some r"
  by (rule tracker_start_returns [OF step_clock_ticks])
    (auto simp: quiet_http_onward store_onward_def empty_tracker_def loop_timeout_def)


definition seen_tracker :: "'w tracker" where
  "seen_tracker = empty_tracker\<lparr>tr_processed := (\<lambda>_. [(''d'', [rev_entry ''1-a''])])\<rparr>"


end
