(* ===== verification/Pool_File.thy ===== *)
theory Pool_File
  imports Server_Pool Cluster_Gen
begin

text \<open>
  The file \<open>resources/pool.json\<close> connects two programs: \<open>utilities/mobile_server_pool.py\<close> writes it by
  pasting text (theory \<open>Server_Pool\<close>), \<open>generate_clusters_from_pool.py\<close> parses it (theory
  \<open>Cluster_Gen\<close>). Here the text is shown to be JSON for the lists of nodes it was made from.
\<close>

text \<open>A character of a host name or address: JSON does not escape it and it separates nothing.\<close>

definition name_char :: "char \<Rightarrow> bool" where
  "name_char c \<longleftrightarrow> json_esc c = [c] \<and> \<not> is_space c \<and> c \<noteq> CHR '',''"

definition node_name :: "string \<Rightarrow> bool" where
  "node_name n \<longleftrightarrow> n \<noteq> [] \<and> list_all name_char n"

lemma json_str_node_name: "node_name n \<Longrightarrow> json_str n = dq n"
proof -
  have "concat (map json_esc n) = n" if "list_all name_char n" using that
    by (induction n) (auto simp: name_char_def)
  then show "node_name n \<Longrightarrow> json_str n = dq n" by (simp add: node_name_def json_str_def)
qed

lemma rstrip_chars_keep: "c \<notin> set cs \<Longrightarrow> rstrip_chars cs (s @ [c]) = s @ [c]"
  by (simp add: rstrip_chars_def)

lemma rstrip_chars_drop: "c \<in> set cs \<Longrightarrow> rstrip_chars cs (s @ [c]) = rstrip_chars cs s"
  by (simp add: rstrip_chars_def)

lemma quoted_items_join:
  "ns \<noteq> [] \<Longrightarrow> quoted_items rest ns = join '', '' (map (\<lambda>n. dq n @ rest) ns) @ '', ''"
  unfolding quoted_items_def by (induction ns rule: induct_list012) simp_all

lemma quoted_items_append: "quoted_items rest (xs @ ys) = quoted_items rest xs @ quoted_items rest ys"
  by (simp add: quoted_items_def)

lemma set_join: "set (join sep ts) \<subseteq> set sep \<union> (\<Union>t \<in> set ts. set t)"
  by (induction sep ts rule: join.induct) auto

lemma join_last: "ts \<noteq> [] \<Longrightarrow> (\<And>t. t \<in> set ts \<Longrightarrow> \<exists>u. t = u @ [c]) \<Longrightarrow> \<exists>u. join sep ts = u @ [c]"
proof (induction sep ts rule: join.induct)
  case (3 sep x y ys)
  then obtain u where "join sep (y # ys) = u @ [c]" by auto
  then have "join sep (x # y # ys) = (x @ sep @ u) @ [c]" by simp
  then show ?case by blast
qed auto

text \<open>Stripping the last separator of a list of items that end with a double quote.\<close>

lemma rstrip_items:
  assumes "ts \<noteq> []" "\<And>t. t \<in> set ts \<Longrightarrow> \<exists>u. t = u @ [chr_dquote]"
  shows "rstrip_chars '', '' (p @ join '', '' ts @ '', '') = p @ join '', '' ts"
proof -
  obtain u where u: "join '', '' ts = u @ [chr_dquote]" using join_last [OF assms] by blast
  have "rstrip_chars '', '' ((p @ u @ [chr_dquote]) @ [CHR '','', CHR '' '']) = p @ u @ [chr_dquote]"
    by (simp add: rstrip_chars_def)
  then show ?thesis by (simp add: u)
qed

lemma node_names_join:
  assumes "list_all node_name ns" "ns \<noteq> []"
  shows "node_names (Some (join '','' ns)) = ns" "join '','' ns \<noteq> []"
proof -
  have ne: "join '','' ns \<noteq> [] \<and> hd (join '','' ns) = hd (hd ns)"
    using assms by (intro join_nonempty) (cases ns; auto simp: node_name_def)+
  have sp: "\<not> is_space (hd (hd ns))"
    using assms by (cases ns) (auto simp: node_name_def name_char_def neq_Nil_conv)
  have ch: "c \<in> set n \<Longrightarrow> \<not> is_space c" if "n \<in> set ns" for n c
    using assms(1) that by (auto simp: node_name_def name_char_def list_all_iff)
  have "\<not> is_space CHR '',''" by code_simp
  then have "\<not> is_space c" if "c \<in> set (join '','' ns)" for c
    using set_join [of "'',''" ns] that ch by auto
  then have "py_strip (join '','' ns) = join '','' ns" using ne sp last_in_set [of "join '','' ns"] by (intro py_strip_id) auto
  moreover have "split_chr CHR '','' (join '','' ns) = ns"
    using assms by (intro split_chr_join) (auto simp: node_name_def name_char_def list_all_iff)
  ultimately show "node_names (Some (join '','' ns)) = ns" using ne by (simp add: node_names_def)
  show "join '','' ns \<noteq> []" using ne by simp
qed

lemma json_dumps_names:
  assumes "list_all node_name ns"
  shows "json_dumps rt (PList (map PStr ns)) = Inr (''['' @ join '', '' (map dq ns) @ '']'')"
proof -
  have "mapR (json_dumps rt) (map PStr ns) = Inr (map dq ns)"
    using assms by (induction ns) (simp_all add: json_str_node_name)
  then show ?thesis by simp
qed

lemma json_str_role:
  "r \<in> {''couchbase_servers'', ''sync_gateways'', ''load_balancers''} \<Longrightarrow> json_str r = dq r"
  by (elim insertE emptyE; hypsubst; code_simp)

definition opt_names :: "string list \<Rightarrow> string option" where
  "opt_names ns = (if ns = [] then None else Some (join '','' ns))"

definition node_types :: "string list \<Rightarrow> string list \<Rightarrow> string list \<Rightarrow> (string \<times> string) list" where
  "node_types cbs sgs lbs = map (\<lambda>n. (n, ''couchbase_servers'')) cbs @ map (\<lambda>n. (n, ''sync_gateways'')) sgs
     @ map (\<lambda>n. (n, ''load_balancers'')) lbs"

lemma node_names_opt: "list_all node_name ns \<Longrightarrow> node_names (opt_names ns) = ns"
  using node_names_join(1) [of ns] by (simp add: opt_names_def node_names_def split: if_splits)

lemma json_dumps_types:
  assumes "list_all node_name (cbs @ sgs @ lbs)"
  shows "json_dumps rt (PDict (map (\<lambda>(n, r). (n, PStr r)) (node_types cbs sgs lbs)))
     = Inr (''{'' @ join '', '' (map (\<lambda>(n, r). dq n @ '': '' @ dq r) (node_types cbs sgs lbs)) @ ''}'')"
proof -
  have "mapR (\<lambda>kv. bindR (json_dumps rt (snd kv)) (\<lambda>t. Inr (json_str (fst kv) @ '': '' @ t))) (map (\<lambda>(n, r). (n, PStr r)) ps)
      = Inr (map (\<lambda>(n, r). dq n @ '': '' @ dq r) ps)"
    if "\<forall>(n, r) \<in> set ps. node_name n \<and> json_str r = dq r" for ps
    using that by (induction ps) (auto simp: json_str_node_name)
  moreover have "\<forall>(n, r) \<in> set (node_types cbs sgs lbs). node_name n \<and> json_str r = dq r"
    using assms by (auto simp: node_types_def json_str_role list_all_iff)
  ultimately show ?thesis by simp
qed

lemma quoted_types:
  "quoted_items ('': '' @ dq ''couchbase_servers'') cbs @ quoted_items ('': '' @ dq ''sync_gateways'') sgs
     @ quoted_items ('': '' @ dq ''load_balancers'') lbs
   = concat (map (\<lambda>t. t @ '', '') (map (\<lambda>(n, r). dq n @ '': '' @ dq r) (node_types cbs sgs lbs)))"
  by (simp add: quoted_items_def node_types_def comp_def)

lemma quoted_plain:
  "quoted_items [] cbs @ quoted_items [] sgs @ quoted_items [] lbs = concat (map (\<lambda>t. t @ '', '') (map dq (cbs @ sgs @ lbs)))"
  by (simp add: quoted_items_def comp_def)

lemma dq_snoc: "\<exists>u. s @ dq n = u @ [chr_dquote]"
  by (rule exI [of _ "s @ chr_dquote # n"]) (simp add: dq_def)

lemma dq_last: "\<forall>t \<in> set (map dq ns). \<exists>u. t = u @ [chr_dquote]"
  using dq_snoc [of "[]"] by auto

lemma dq_last2: "\<forall>t \<in> set (map (\<lambda>(n, r). dq n @ sep @ dq r) ps). \<exists>u. t = u @ [chr_dquote]"
  using dq_snoc [of "dq _ @ sep"] by auto

lemma concat_sep_join: "ts \<noteq> [] \<Longrightarrow> concat (map (\<lambda>t. t @ sep) ts) = join sep ts @ sep"
  by (induction ts rule: induct_list012) simp_all

lemma rstrip_concat_items:
  assumes "\<forall>t \<in> set ts. \<exists>u. t = u @ [chr_dquote]" "c \<notin> set '', ''"
  shows "rstrip_chars '', '' (p @ c # concat (map (\<lambda>t. t @ '', '') ts)) = p @ c # join '', '' ts"
proof (cases "ts = []")
  case True
  then show ?thesis using rstrip_chars_keep [OF assms(2)] by simp
next
  case False
  from rstrip_items [OF this bspec [OF assms(1)], of "p @ [c]"] show ?thesis by (simp add: concat_sep_join False)
qed

lemma pool_json_text:
  assumes "list_all node_name (nodes @ sgs @ lbs)"
  shows "pool_json_str nodes (opt_names sgs) (opt_names lbs) =
     ''{ '' @ dq ''ips'' @ '': '' @ (''['' @ join '', '' (map dq (nodes @ sgs @ lbs)) @ '']'') @
     (if sgs = [] then ''}''
      else '','' @ dq ''ip_to_node_type'' @ '': '' @
        (''{'' @ join '', '' (map (\<lambda>(n, r). dq n @ '': '' @ dq r) (node_types nodes sgs lbs)) @ ''}'') @ ''}'')"
proof -
  let ?p = "''{ '' @ dq ''ips'' @ '': ''" and ?ps = "map (\<lambda>(n, r). dq n @ '': '' @ dq r) (node_types nodes sgs lbs)"
  have names: "node_names (opt_names sgs) = sgs" "node_names (opt_names lbs) = lbs"
    using assms by (auto intro: node_names_opt)
  have sg: "opt_names sgs \<noteq> None \<and> opt_names sgs \<noteq> Some [] \<longleftrightarrow> sgs \<noteq> []"
    using assms node_names_join(2) [of sgs] by (auto simp: opt_names_def)
  have ips: "rstrip_chars '', '' (q @ ''['' @ quoted_items [] nodes @ quoted_items [] sgs @ quoted_items [] lbs)
      = q @ ''['' @ join '', '' (map dq (nodes @ sgs @ lbs))" for q
    using rstrip_concat_items [OF dq_last, of "CHR ''[''" q "nodes @ sgs @ lbs"] by (simp add: quoted_plain del: map_append map_map)
  have ty: "rstrip_chars '', '' (q @ ''{'' @ quoted_items ('': '' @ dq ''couchbase_servers'') nodes
        @ quoted_items ('': '' @ dq ''sync_gateways'') sgs @ quoted_items ('': '' @ dq ''load_balancers'') lbs)
      = q @ ''{'' @ join '', '' ?ps" for q
    using rstrip_concat_items [OF dq_last2, of "CHR ''{''" q "'': ''" "node_types nodes sgs lbs"]
    unfolding quoted_types by (simp del: map_append map_map)
  have drop: "rstrip_chars '', '' (q @ [c, CHR '','']) = q @ [c]" if "c \<notin> set '', ''" for q c
    using that by (simp add: rstrip_chars_def)
  let ?L = "?p @ ''['' @ join '', '' (map dq (nodes @ sgs @ lbs))"
  have 1: "rstrip_chars '', '' (''{ '' @ dq ''ips'' @ '': ['' @ quoted_items [] nodes @ quoted_items [] sgs @ quoted_items [] lbs) = ?L"
    using ips [of ?p] by simp
  have 2: "rstrip_chars '', '' ((?L @ ''],'') @ dq ''ip_to_node_type'' @ '': {'' @ quoted_items ('': '' @ dq ''couchbase_servers'') nodes
        @ quoted_items ('': '' @ dq ''sync_gateways'') sgs @ quoted_items ('': '' @ dq ''load_balancers'') lbs)
      = ?L @ ''],'' @ dq ''ip_to_node_type'' @ '': {'' @ join '', '' ?ps"
    using ty [of "(?L @ ''],'') @ dq ''ip_to_node_type'' @ '': ''"] by simp
  have 3: "rstrip_chars '', '' (q @ ''},'') = q @ ''}''" "rstrip_chars '', '' (q @ ''],'') = q @ '']''" for q
    using drop [of "CHR ''}''" q] drop [of "CHR '']''" q] by simp_all
  have "pool_json_str nodes (opt_names sgs) (opt_names lbs) =
      (if sgs \<noteq> [] then (?L @ ''],'' @ dq ''ip_to_node_type'' @ '': {'' @ join '', '' ?ps) @ ''}'' else ?L @ '']'') @ ''}''"
    unfolding pool_json_str_def Let_def names sg 1 2 if_distrib [of "rstrip_chars '', ''"] 3 by (rule refl)
  then show ?thesis by simp
qed

lemma parse_key:
  assumes "json_ok v" "json_dumps rt v = Inr t" "concat (map json_esc k) = k" "c = CHR '','' \<or> c = CHR ''}''"
  shows "po rt (dq k @ '': '' @ t @ c # r) =
     (if c = CHR ''}'' then Some ([(k, v)], r)
      else map_option (\<lambda>p. ((k, v) # fst p, snd p)) (po rt (skip_ws r)))"
proof -
  have j: "parse_jstr (k @ chr_dquote # r) = Some (k, r)" for r using parse_jstr_concat [of k r] assms(3) by simp
  have hd: "t \<noteq> [] \<and> \<not> is_ws (hd t)" using json_dumps_hd [OF assms(1,2)] by auto
  have v: "pv rt (t @ c # r) = Some (v, c # r)" using reads_backD [OF json_ok_reads_back [OF assms(1)] assms(2)] assms(4)
    by (auto simp: json_sep_def)
  have w: "skip_ws (c # r) = c # r" using assms(4) by (intro skip_ws_punct) auto
  have tw: "skip_ws (CHR '' '' # t @ c # r) = t @ c # r" using hd by (simp add: skip_ws_space skip_ws_id)
  show ?thesis
    using assms(4) by (auto simp: po.simps dq_def skip_ws_punct j v w tw)
qed


lemma keys_unescaped: "concat (map json_esc ''ips'') = ''ips''" "concat (map json_esc ''ip_to_node_type'') = ''ip_to_node_type''"
  by code_simp+

lemma pool_json_loads:
  assumes "list_all node_name (nodes @ sgs @ lbs)" "distinct (nodes @ sgs @ lbs)"
  shows "json_loads rt (pool_json_str nodes (opt_names sgs) (opt_names lbs)) = Inr (PDict
     ((''ips'', PList (map PStr (nodes @ sgs @ lbs))) #
      (if sgs = [] then [] else
         [(''ip_to_node_type'', PDict (map (\<lambda>(n, r). (n, PStr r)) (node_types nodes sgs lbs)))])))"
proof -
  let ?ips = "PList (map PStr (nodes @ sgs @ lbs))"
  let ?types = "PDict (map (\<lambda>(n, r). (n, PStr r)) (node_types nodes sgs lbs))"
  let ?I = "''['' @ join '', '' (map dq (nodes @ sgs @ lbs)) @ '']''"
  let ?T = "''{'' @ join '', '' (map (\<lambda>(n, r). dq n @ '': '' @ dq r) (node_types nodes sgs lbs)) @ ''}''"
  have i: "json_ok ?ips" "json_dumps rt ?ips = Inr ?I" using json_dumps_names [OF assms(1)] by auto
  have t: "json_ok ?types" "json_dumps rt ?types = Inr ?T"
    using json_dumps_types [OF assms(1)] assms(2)
    by (auto simp: node_types_def comp_def split_def)
  have open_brace: "pv rt (CHR ''{'' # CHR '' '' # dq k @ s) = map_option (\<lambda>p. (PDict (dict_update [] (fst p)), snd p)) (po rt (dq k @ s))"
    for k s
    by (simp add: pv.simps dq_def skip_ws_space) (simp add: skip_ws_def is_ws_def)
  have ws: "skip_ws (CHR ''{'' # s) = CHR ''{'' # s" "skip_ws (dq k @ s) = dq k @ s" "skip_ws [] = []" for s k
    by (simp_all add: skip_ws_def is_ws_def dq_def)
  show ?thesis
  proof (cases "sgs = []")
    case True
    with parse_key [OF i keys_unescaped(1), of "CHR ''}''" "[]"] show ?thesis
      unfolding pool_json_text [OF assms(1)] json_loads_def
      by (simp add: ws open_brace dict_update_def del: map_append)
  next
    case False
    let ?s = "dq ''ip_to_node_type'' @ '': '' @ ?T @ ''}''"
    from parse_key [OF t keys_unescaped(2), of "CHR ''}''" "[]"]
    have 2: "po rt ?s = Some ([(''ip_to_node_type'', ?types)], [])" by simp
    from parse_key [OF i keys_unescaped(1), of "CHR '',''" ?s]
    have "po rt (dq ''ips'' @ '': '' @ ?I @ CHR '','' # ?s) = Some ([(''ips'', ?ips), (''ip_to_node_type'', ?types)], [])"
      unfolding ws 2 by simp
    with False show ?thesis
      unfolding pool_json_text [OF assms(1)] json_loads_def
      by (simp add: ws open_brace dict_update_def del: map_append)
  qed
qed

end
