(* ===== verification/Typed_Pool.thy ===== *)
theory Typed_Pool
  imports Pool_File
begin

text \<open>
  Choosing machines from a pool whose file assigns a type to every address: each role gets the
  first machines of its type, in pool order, and the configuration is written whenever there are
  enough of each type.
\<close>

section \<open>One role\<close>

definition of_type :: "(string, pyval) dict \<Rightarrow> string \<Rightarrow> string list \<Rightarrow> string list" where
  "of_type types role ips = List.filter (\<lambda>ip. dict_get types ip = Some (PStr role)) ips"

definition typed :: "(string, pyval) dict \<Rightarrow> string list \<Rightarrow> bool" where
  "typed types ips \<longleftrightarrow> (\<forall>ip \<in> set ips. dict_get types ip \<noteq> None)"

lemma scan_role_find:
  "typed types ips \<Longrightarrow> scan_role types role removed ips
     = Inr (List.find (\<lambda>ip. dict_get types ip = Some (PStr role) \<and> ip \<notin> set removed) ips)"
  by (induction ips) (auto simp: typed_def split: option.splits)

lemma filter_not_in_take: "distinct xs \<Longrightarrow> List.filter (\<lambda>x. x \<notin> set (take n xs)) xs = drop n xs"
proof -
  assume d: "distinct xs"
  then have "set (take n xs) \<inter> set (drop n xs) = {}" by (rule set_take_disj_set_drop_if_distinct) simp
  then have "List.filter (\<lambda>x. x \<notin> set (take n xs)) (take n xs @ drop n xs) = drop n xs"
    unfolding filter_append by (auto simp: filter_id_conv filter_empty_conv)
  then show ?thesis by simp
qed

lemma find_filter: "List.find P xs = (case List.filter P xs of [] \<Rightarrow> None | x # _ \<Rightarrow> Some x)"
  by (induction xs) auto

lemma scan_role_next:
  assumes "typed types ips" "distinct ips" "i < length (of_type types role ips)"
  shows "scan_role types role (take i (of_type types role ips)) ips = Inr (Some (of_type types role ips ! i))"
proof -
  let ?F = "of_type types role ips"
  have "distinct ?F" using assms(2) by (simp add: of_type_def)
  then have "List.filter (\<lambda>ip. ip \<notin> set (take i ?F)) ?F = drop i ?F" by (rule filter_not_in_take)
  then have "List.filter (\<lambda>ip. dict_get types ip = Some (PStr role) \<and> ip \<notin> set (take i ?F)) ips = drop i ?F"
    by (simp add: of_type_def conj_commute)
  moreover have "drop i ?F = ?F ! i # drop (Suc i) ?F" using assms(3) by (simp add: Cons_nth_drop_Suc)
  ultimately show ?thesis by (simp add: scan_role_find [OF assms(1)] find_filter)
qed

lemma pick_ips_typed:
  assumes "typed types ips" "distinct ips" "i + n \<le> length (of_type types role ips)"
  shows "pick_ips True types role ips i n (take i (of_type types role ips)) = (take (i + n) (of_type types role ips), Picked)"
  using assms
proof (induction n arbitrary: i)
  case (Suc n)
  then have i: "i < length (of_type types role ips)" by simp
  then have "take i (of_type types role ips) @ [of_type types role ips ! i] = take (Suc i) (of_type types role ips)"
    by (simp add: take_Suc_conv_app_nth)
  with Suc.IH [of "Suc i"] Suc.prems scan_role_next [OF Suc.prems(1,2) i] show ?case by simp
qed simp

lemma foldl_remove1_distinct: "distinct ips \<Longrightarrow> foldl (\<lambda>ips ip. remove1 ip ips) ips xs = List.filter (\<lambda>ip. ip \<notin> set xs) ips"
proof (induction xs arbitrary: ips)
  case (Cons x xs)
  then show ?case by (simp add: distinct_remove1_removeAll removeAll_filter_not_eq) (rule arg_cong2 [of _ _ _ _ filter]; auto)
qed simp

lemma conj_absorb_right: "(Q \<Longrightarrow> P) \<Longrightarrow> (P \<and> Q) = Q"
  by blast

lemma write_section_typed:
  assumes "typed types (gs_ips s)" "distinct (gs_ips s)" "n \<le> length (of_type types role (gs_ips s))"
  obtains s' where "write_section conn True types role pre n s = (Picked, s')"
    "gs_groups s' = gs_groups s @ [(role, take n (of_type types role (gs_ips s)))]"
    "typed types (gs_ips s')" "distinct (gs_ips s')"
    "\<forall>r. r \<noteq> role \<longrightarrow> of_type types r (gs_ips s') = of_type types r (gs_ips s)"
proof -
  let ?g = "take n (of_type types role (gs_ips s))"
  have p: "pick_ips True types role (gs_ips s) 0 n [] = (?g, Picked)"
    using pick_ips_typed [OF assms(1,2), of 0 n role] assms(3) by simp
  define s' where "s' = snd (write_section conn True types role pre n s)"
  have ips: "gs_ips s' = List.filter (\<lambda>ip. ip \<notin> set ?g) (gs_ips s)"
    using assms(2) by (simp add: s'_def write_section_def p foldl_remove1_distinct)
  have g: "ip \<notin> set ?g" if "r \<noteq> role" "dict_get types ip = Some (PStr r)" for ip r
    using in_set_takeD [of ip n "of_type types role (gs_ips s)"] that by (auto simp: of_type_def)
  have "of_type types r (gs_ips s') = of_type types r (gs_ips s)" if "r \<noteq> role" for r
    unfolding ips of_type_def filter_filter by (intro filter_cong refl conj_absorb_right) (simp add: g [OF that, unfolded of_type_def])
  moreover have "write_section conn True types role pre n s = (Picked, s')"
    "gs_groups s' = gs_groups s @ [(role, ?g)]"
    by (simp_all add: s'_def write_section_def p Let_def)
  moreover have "typed types (gs_ips s')" "distinct (gs_ips s')" using assms(1,2) by (auto simp: ips typed_def)
  ultimately show ?thesis using that by blast
qed

section \<open>All roles\<close>

abbreviation enough :: "cluster_def \<Rightarrow> (string, pyval) dict \<Rightarrow> string list \<Rightarrow> bool" where
  "enough config types ips \<equiv>
     num_cbs config \<le> length (of_type types ''couchbase_servers'' ips) \<and>
     num_sgs config \<le> length (of_type types ''sync_gateways'' ips) \<and>
     num_acs config \<le> length (of_type types ''sg_accels'' ips) \<and>
     num_lgs config \<le> length (of_type types ''load_generators'' ips) \<and>
     num_lbs config \<le> length (of_type types ''load_balancers'' ips)"

lemma write_roles_typed:
  assumes "typed types (gs_ips s0)" "distinct (gs_ips s0)" "enough config types (gs_ips s0)" "gs_groups s0 = []"
  obtains s where "write_roles conn True types config s0 = (Picked, s)"
    "gs_groups s =
      [(''couchbase_servers'', take (num_cbs config) (of_type types ''couchbase_servers'' (gs_ips s0))),
       (''sync_gateways'', take (num_sgs config) (of_type types ''sync_gateways'' (gs_ips s0))),
       (''sg_accels'', take (num_acs config) (of_type types ''sg_accels'' (gs_ips s0))),
       (''load_generators'', take (num_lgs config) (of_type types ''load_generators'' (gs_ips s0))),
       (''load_balancers'', take (num_lbs config) (of_type types ''load_balancers'' (gs_ips s0)))]"
proof -
  have "num_cbs config \<le> length (of_type types ''couchbase_servers'' (gs_ips s0))"
    using assms(3)  by simp
  from write_section_typed [OF assms(1,2) this] obtain s1 where s1: "write_couchbase_servers conn True types config s0 = (Picked, s1)"
    "gs_groups s1 = gs_groups s0 @ [(''couchbase_servers'', take (num_cbs config) (of_type types ''couchbase_servers'' (gs_ips s0)))]"
    "typed types (gs_ips s1)" "distinct (gs_ips s1)"
    "\<forall>r. r \<noteq> ''couchbase_servers'' \<longrightarrow> of_type types r (gs_ips s1) = of_type types r (gs_ips s0)"
    unfolding write_couchbase_servers_def by blast
  have "num_sgs config \<le> length (of_type types ''sync_gateways'' (gs_ips s1))"
    using assms(3) s1(5) by simp
  from write_section_typed [OF s1(3,4) this] obtain s2 where s2: "write_sync_gateways conn True types config s1 = (Picked, s2)"
    "gs_groups s2 = gs_groups s1 @ [(''sync_gateways'', take (num_sgs config) (of_type types ''sync_gateways'' (gs_ips s1)))]"
    "typed types (gs_ips s2)" "distinct (gs_ips s2)"
    "\<forall>r. r \<noteq> ''sync_gateways'' \<longrightarrow> of_type types r (gs_ips s2) = of_type types r (gs_ips s1)"
    unfolding write_sync_gateways_def by blast
  have "num_acs config \<le> length (of_type types ''sg_accels'' (gs_ips s2))"
    using assms(3) s1(5) s2(5) by simp
  from write_section_typed [OF s2(3,4) this] obtain s3 where s3: "write_sg_accels conn True types config s2 = (Picked, s3)"
    "gs_groups s3 = gs_groups s2 @ [(''sg_accels'', take (num_acs config) (of_type types ''sg_accels'' (gs_ips s2)))]"
    "typed types (gs_ips s3)" "distinct (gs_ips s3)"
    "\<forall>r. r \<noteq> ''sg_accels'' \<longrightarrow> of_type types r (gs_ips s3) = of_type types r (gs_ips s2)"
    unfolding write_sg_accels_def by blast
  have "num_lgs config \<le> length (of_type types ''load_generators'' (gs_ips s3))"
    using assms(3) s1(5) s2(5) s3(5) by simp
  from write_section_typed [OF s3(3,4) this] obtain s4 where s4: "write_load_generators conn True types config s3 = (Picked, s4)"
    "gs_groups s4 = gs_groups s3 @ [(''load_generators'', take (num_lgs config) (of_type types ''load_generators'' (gs_ips s3)))]"
    "typed types (gs_ips s4)" "distinct (gs_ips s4)"
    "\<forall>r. r \<noteq> ''load_generators'' \<longrightarrow> of_type types r (gs_ips s4) = of_type types r (gs_ips s3)"
    unfolding write_load_generators_def by blast
  have "num_lbs config \<le> length (of_type types ''load_balancers'' (gs_ips s4))"
    using assms(3) s1(5) s2(5) s3(5) s4(5) by simp
  from write_section_typed [OF s4(3,4) this] obtain s5 where s5: "write_load_balancers conn True types config s4 = (Picked, s5)"
    "gs_groups s5 = gs_groups s4 @ [(''load_balancers'', take (num_lbs config) (of_type types ''load_balancers'' (gs_ips s4)))]"
    "typed types (gs_ips s5)" "distinct (gs_ips s5)"
    "\<forall>r. r \<noteq> ''load_balancers'' \<longrightarrow> of_type types r (gs_ips s5) = of_type types r (gs_ips s4)"
    unfolding write_load_balancers_def by blast
  show ?thesis
    by (rule that [of s5]) (simp_all add: write_roles_def s1(1,2,5) s2(1,2,5) s3(1,2,5) s4(1,2,5) s5(1,2) assms(4))
qed

lemma enough_machines:
  assumes "enough config types ips"
  shows "num_machines_required config \<le> length ips"
proof -
  have "length (of_type types ''couchbase_servers'' ips) + length (of_type types ''sync_gateways'' ips)
      + length (of_type types ''sg_accels'' ips) + length (of_type types ''load_generators'' ips)
      + length (of_type types ''load_balancers'' ips) \<le> length ips"
    by (induction ips) (auto simp: of_type_def)
  with assms show ?thesis unfolding num_machines_required_def by linarith
qed

text \<open>With enough machines of each type the configuration is written, and its readers find them.\<close>

lemma write_config_typed:
  assumes h: "get_hosts env pool_file = Inr (ips, types)" and t: "types \<noteq> []" "length types = length ips" "typed types ips"
    and e: "enough config types ips"
  shows "\<exists>env' cluster. write_config local_ip opts config pool_file env = (Inr (), env') \<and>
     read_json env' (config_path pool_file config @ ''.json'') = Inr cluster \<and>
     group_ips cluster ''couchbase_servers'' = Inr (map PStr (take (num_cbs config) (of_type types ''couchbase_servers'' ips))) \<and>
     group_ips cluster ''sync_gateways'' = Inr (map PStr (take (num_sgs config) (of_type types ''sync_gateways'' ips))) \<and>
     group_ips cluster ''load_balancers'' = Inr (map PStr (take (num_lbs config) (of_type types ''load_balancers'' ips)))"
proof -
  define s0 where "s0 = \<lparr>gs_text = ''[pool]'' @ nl @ host_lines (connection_string opts) ''ma'' ips @ nl @ nl,
     gs_ips = ips, gs_i = None, gs_groups = []\<rparr>"
  have s0: "gs_ips s0 = ips" "gs_groups s0 = []" by (simp_all add: s0_def)
  obtain s where r: "write_roles (connection_string opts) True types config s0 = (Picked, s)"
    and g: "gs_groups s =
      [(''couchbase_servers'', take (num_cbs config) (of_type types ''couchbase_servers'' ips)),
       (''sync_gateways'', take (num_sgs config) (of_type types ''sync_gateways'' ips)),
       (''sg_accels'', take (num_acs config) (of_type types ''sg_accels'' ips)),
       (''load_generators'', take (num_lgs config) (of_type types ''load_generators'' ips)),
       (''load_balancers'', take (num_lbs config) (of_type types ''load_balancers'' ips))]"
    using write_roles_typed [of types s0 config "connection_string opts"] t(3) e get_hosts_distinct [OF h]
    unfolding s0 by blast
  obtain t' wh where wh: "webhook_section local_ip (connection_string opts) (gs_i s) = (t', wh)" by fastforce
  let ?f = "config_path pool_file config"
  let ?env' = "write_file (write_file env (?f @ ''.json'') (JsonFile (cluster_dict opts ips s wh)))
     ?f (TextFile (gs_text s @ t' @ environment_text opts))"
  have "write_config local_ip opts config pool_file env = (Inr (), ?env')"
    using enough_machines [OF e] t(1,2)
    unfolding write_config_def h sum.case prod.case Let_def s0_def [symmetric] by (cases ips) (simp_all add: r wh)
  moreover have "read_json ?env' (?f @ ''.json'') = Inr (cluster_dict opts ips s wh)"
    by (simp add: read_json_def write_file_def dict_get_def)
  ultimately show ?thesis using cluster_dict_groups [OF g] by blast
qed

section \<open>The types that the pool writer assigns\<close>

lemma map_of_same: "map_of (map (\<lambda>n. (n, c)) xs) k = (if k \<in> set xs then Some c else None)"
  by (induction xs) auto

lemma node_types_of_type:
  assumes "distinct (nodes @ sgs @ lbs)"
  defines "types \<equiv> map (\<lambda>(n, r). (n, PStr r)) (node_types nodes sgs lbs)"
  shows "of_type types ''couchbase_servers'' (nodes @ sgs @ lbs) = nodes"
    "of_type types ''sync_gateways'' (nodes @ sgs @ lbs) = sgs"
    "of_type types ''load_balancers'' (nodes @ sgs @ lbs) = lbs"
    "typed types (nodes @ sgs @ lbs)"
proof -
  have m: "dict_get types n = (if n \<in> set nodes then Some (PStr ''couchbase_servers'')
      else if n \<in> set sgs then Some (PStr ''sync_gateways'')
      else if n \<in> set lbs then Some (PStr ''load_balancers'') else None)" for n
    by (simp add: types_def node_types_def dict_get_def map_add_def comp_def map_of_same)
  from assms(1) have t: "n \<in> set nodes \<Longrightarrow> dict_get types n = Some (PStr ''couchbase_servers'')"
    "n \<in> set sgs \<Longrightarrow> dict_get types n = Some (PStr ''sync_gateways'')"
    "n \<in> set lbs \<Longrightarrow> dict_get types n = Some (PStr ''load_balancers'')" for n
    by (auto simp: m)
  show "of_type types ''couchbase_servers'' (nodes @ sgs @ lbs) = nodes"
    "of_type types ''sync_gateways'' (nodes @ sgs @ lbs) = sgs"
    "of_type types ''load_balancers'' (nodes @ sgs @ lbs) = lbs" "typed types (nodes @ sgs @ lbs)"
    by (simp_all add: of_type_def typed_def ball_Un t)
qed

end
