(* ===== verification/Py_Ops.thy ===== *)
theory Py_Ops
  imports Http
begin

text \<open>
  Operations on dynamically typed values that the REST components share: methods called on a value whose type is
  only known at run time, item assignment, loops over a value, \<open>assert\<close>, and hashing as sets and
  dictionaries need it.
\<close>

definition py_assert :: "bool \<Rightarrow> string \<Rightarrow> unit res" where
  "py_assert b msg = (if b then Inr () else raise_exc ''AssertionError'' msg)"

lemma py_assert_Inr [simp]: "py_assert b msg = Inr u \<longleftrightarrow> b"
  by (simp add: py_assert_def)

section \<open>Access to dynamically typed values\<close>

text \<open>A method of \<open>str\<close>, \<open>dict\<close> or \<open>list\<close> called on a value.\<close>

definition no_attr :: "pyval \<Rightarrow> string \<Rightarrow> 'a res" where
  "no_attr v meth = raise_exc ''AttributeError'' (repr_str (py_type v) @ '' object has no attribute '' @ repr_str meth)"

definition str_attr :: "pyval \<Rightarrow> string \<Rightarrow> string res" where
  "str_attr v meth = (case v of PStr s \<Rightarrow> Inr s | _ \<Rightarrow> no_attr v meth)"

definition dict_attr :: "pyval \<Rightarrow> string \<Rightarrow> (string, pyval) dict res" where
  "dict_attr v meth = (case v of PDict d \<Rightarrow> Inr d | _ \<Rightarrow> no_attr v meth)"

text \<open>\<open>v[k] = x\<close> and \<open>del v[k]\<close>.\<close>

definition py_set :: "pyval \<Rightarrow> string \<Rightarrow> pyval \<Rightarrow> pyval res" where
  "py_set v k x = (case v of
       PDict d \<Rightarrow> Inr (PDict (dict_set d k x))
     | _ \<Rightarrow> raise_exc ''TypeError'' (repr_str (py_type v) @ '' object does not support item assignment''))"

definition py_del :: "pyval \<Rightarrow> string \<Rightarrow> pyval res" where
  "py_del v k = (case v of
       PDict d \<Rightarrow> if dict_has d k then Inr (PDict (dict_del d k)) else raise_exc ''KeyError'' k
     | _ \<Rightarrow> raise_exc ''TypeError'' (repr_str (py_type v) @ '' object does not support item deletion''))"

definition list_item :: "'a list \<Rightarrow> nat \<Rightarrow> 'a res" where
  "list_item xs i = (if i < length xs then Inr (xs ! i) else raise_exc ''IndexError'' ''list index out of range'')"

text \<open>\<open>v[k1][k2]\<close>.\<close>

definition py_item2 :: "pyval \<Rightarrow> string \<Rightarrow> string \<Rightarrow> pyval res" where
  "py_item2 v k1 k2 = bindR (py_item v k1) (\<lambda>u. py_item u k2)"

lemma py_set_dict [simp]: "py_set (PDict d) k x = Inr (PDict (dict_set d k x))"
  by (simp add: py_set_def)

text \<open>The loop \<open>for x in v:\<close> over a value, for effect, and collecting one result per element.\<close>

definition for_in :: "pyval \<Rightarrow> (pyval \<Rightarrow> ('w, unit) io) \<Rightarrow> ('w, unit) io" where
  "for_in v f = bindIO (liftIO (py_iter v)) (\<lambda>xs. forIO xs f)"

definition map_in :: "pyval \<Rightarrow> (pyval \<Rightarrow> ('w, 'a) io) \<Rightarrow> ('w, 'a list) io" where
  "map_in v f = bindIO (liftIO (py_iter v)) (\<lambda>xs. seqIO (map f xs))"

lemma onward_for_in [time_intros]: "(\<And>x. onward time (f x)) \<Longrightarrow> onward time (for_in v f)"
  by (auto simp: for_in_def intro!: time_intros)

definition mapR_in :: "pyval \<Rightarrow> (pyval \<Rightarrow> 'a res) \<Rightarrow> 'a list res" where
  "mapR_in v f = bindR (py_iter v) (mapR f)"

text \<open>A list or a dictionary cannot be an element of a set or a key.\<close>

definition py_hashable :: "pyval \<Rightarrow> unit res" where
  "py_hashable v = (case v of PList _ \<Rightarrow> raise_exc ''TypeError'' (''unhashable type: '' @ repr_str ''list'')
     | PDict _ \<Rightarrow> raise_exc ''TypeError'' (''unhashable type: '' @ repr_str ''dict'') | _ \<Rightarrow> Inr ())"

text \<open>\<open>m[k]\<close> for a key that is a value.\<close>

definition map_item :: "(string, pyval) dict \<Rightarrow> pyval \<Rightarrow> pyval res" where
  "map_item m k = (case k of PStr s \<Rightarrow> dict_index m s
     | _ \<Rightarrow> bindR (py_hashable k) (\<lambda>_. raise_exc ''KeyError'' (py_type k)))"

text \<open>\<open>set(xs) == set(ys)\<close>.\<close>

definition same_set :: "pyval list \<Rightarrow> pyval list \<Rightarrow> bool" where
  "same_set xs ys \<longleftrightarrow> list_all (\<lambda>x. list_ex (py_eq x) ys) xs \<and> list_all (\<lambda>y. list_ex (py_eq y) xs) ys"

text \<open>A loop that gave up.\<close>

definition timed_out :: "string \<Rightarrow> ('w, 'a) io" where
  "timed_out what = raiseIO (Exn ''TimeoutException'' (what @ '': TIMEOUT''))"

text \<open>The bytes of a character in UTF-8, and \<open>s.encode()\<close>.\<close>

definition utf8 :: "char \<Rightarrow> nat list" where
  "utf8 c = (let n = (of_char c :: nat) in if n < 128 then [n] else [192 + n div 64, 128 + n mod 64])"

definition py_encode :: "string \<Rightarrow> string" where
  "py_encode s = concat (map (\<lambda>c. map char_of (utf8 c)) s)"

text \<open>\<open>int(v)\<close>.\<close>

definition py_to_int :: "pyval \<Rightarrow> int res" where
  "py_to_int v = (case v of
       PInt i \<Rightarrow> Inr i
     | PBool b \<Rightarrow> Inr (if b then 1 else 0)
     | PFloat x \<Rightarrow> Inr (if 0 \<le> x then \<lfloor>x\<rfloor> else \<lceil>x\<rceil>)
     | PStr s \<Rightarrow> py_int_of s
     | _ \<Rightarrow> raise_exc ''TypeError'' (''int() argument must be a string, a bytes-like object or a real number, not '' @ repr_str (py_type v)))"

section \<open>Objects\<close>

text \<open>
  A method of an object that changes its attributes runs in a world that holds the object beside the world the
  object talks to.
\<close>

definition on_world :: "('w, 'a) io \<Rightarrow> ('s \<times> 'w, 'a) io" where
  "on_world m sw = (case m (snd sw) of (r, w') \<Rightarrow> (r, (fst sw, w')))"

definition self_get :: "('s \<Rightarrow> 'a) \<Rightarrow> ('s \<times> 'w, 'a) io" where
  "self_get f sw = (Inr (f (fst sw)), sw)"

definition self_set :: "('s \<Rightarrow> 's) \<Rightarrow> ('s \<times> 'w, unit) io" where
  "self_set f sw = (Inr (), (f (fst sw), snd sw))"

lemma object_simps [io_simps]:
  "on_world m (s, w) = (case m w of (r, w') \<Rightarrow> (r, (s, w')))" "self_get f (s, w) = (Inr (f s), (s, w))"
  "self_set h (s, w) = (Inr (), (h s, w))"
  by (simp_all add: on_world_def self_get_def self_set_def)

lemma bindIO_self_get [simp]: "bindIO (self_get f) g (s, w) = g (f s) (s, w)"
  by (simp add: bindIO_def self_get_def)

lemma onward_object [time_intros]:
  "onward time m \<Longrightarrow> onward (\<lambda>sw. time (snd sw)) (on_world m)"
  "onward (\<lambda>sw. time (snd sw)) (self_get f)" "onward (\<lambda>sw. time (snd sw)) (self_set h)"
  by (auto simp: onward_def on_world_def self_get_def self_set_def split: prod.splits)

text \<open>A task whose exception is kept as its result, and the tasks of a thread pool in the order the pool runs them.\<close>

definition attempt :: "('w, 'a) io \<Rightarrow> ('w, exn + 'a) io" where
  "attempt m w = (case m w of (r, w') \<Rightarrow> (Inr r, w'))"

definition pool_run :: "('x list \<Rightarrow> 'x list) \<Rightarrow> ('x \<Rightarrow> ('w, 'a) io) \<Rightarrow> 'x list \<Rightarrow> ('w, (exn + 'a) list) io" where
  "pool_run order f xs = seqIO (map (\<lambda>x. attempt (f x)) (order xs))"

end
