(* ===== verification/Rest_Admin.thy ===== *)
theory Rest_Admin
  imports Py_Ops
begin

text \<open>
  \<open>keywords/MobileRestClient.py\<close>, the administrative part: what kind of server answers, sessions,
  roles, users and databases. A method is a function of the session, its arguments and the world.
  Arguments that go into a JSON body are Python values; \<open>None\<close> is \<open>PNone\<close>.
\<close>

text \<open>\<open>json.dumps(data)\<close> and the request that carries it.\<close>

definition post_json :: "'w http \<Rightarrow> string \<Rightarrow> string \<Rightarrow> pyval \<Rightarrow> ('w, http_request) io" where
  "post_json http meth url data =
     bindIO (liftIO (json_dumps (http_runtime http) data)) (\<lambda>d. returnIO (with_data d (rq meth url)))"

definition send_json_basic :: "'w http \<Rightarrow> auth \<Rightarrow> string \<Rightarrow> string \<Rightarrow> pyval \<Rightarrow> ('w, http_response) io" where
  "send_json_basic http auth meth url data = bindIO (post_json http meth url data) (send_basic http auth)"

definition merge :: "'a list list \<Rightarrow> 'a list" where
  "merge doc_lists = foldl (\<lambda>merged_list doc_list. merged_list @ doc_list) [] doc_lists"

section \<open>Server type and platform\<close>

datatype server_type = syncgateway | listener

datatype platform = macosx | android | net | centos

text \<open>The vendor's name decides; Android answers without a vendor.\<close>

definition vendor_case :: "(string \<times> 'a) list \<Rightarrow> 'a \<Rightarrow> string \<Rightarrow> pyval \<Rightarrow> 'a res" where
  "vendor_case table android_case msg resp_obj =
     (case bindR (py_item resp_obj ''vendor'') (\<lambda>v. py_item v ''name'') of
        Inr n \<Rightarrow> (case List.find (\<lambda>e. py_eq n (PStr (fst e))) table of
            Some e \<Rightarrow> Inr (snd e) | None \<Rightarrow> raise_exc ''ValueError'' msg)
      | Inl e \<Rightarrow>
          if exn_class e = ''KeyError'' then
            bindR (py_item resp_obj ''CBLite'') (\<lambda>v.
              if py_eq v (PStr ''Welcome'') then Inr android_case else raise_exc ''ValueError'' msg)
          else Inl e)"

definition get_server_type :: "'w http \<Rightarrow> string \<Rightarrow> auth \<Rightarrow> ('w, server_type) io" where
  "get_server_type http url auth =
     bindIO (checked_json http (send_basic http auth (rq ''GET'' url))) (\<lambda>resp_obj. liftIO
       (vendor_case [(''Couchbase Sync Gateway'', syncgateway), (''Couchbase Lite (Objective-C)'', listener),
          (''Couchbase Lite (C#)'', listener)] listener ''Unsupported couchbase lite server type'' resp_obj))"

definition get_server_platform :: "'w http \<Rightarrow> string \<Rightarrow> ('w, platform) io" where
  "get_server_platform http url =
     bindIO (checked_json http (http_send http (rq ''GET'' url))) (\<lambda>resp_obj. liftIO
       (vendor_case [(''Couchbase Sync Gateway'', centos), (''Couchbase Lite (Objective-C)'', macosx),
          (''Couchbase Lite (C#)'', net)] android ''Unsupported platform type'' resp_obj))"

section \<open>Sessions\<close>

definition listener_session :: pyval where
  "listener_session = PDict [(''userCtx'', PDict [(''name'', PNone), (''roles'', PList [PStr ''_admin''])]),
     (''ok'', PBool True)]"

definition get_session :: "'w http \<Rightarrow> string \<Rightarrow> pyval \<Rightarrow> pyval \<Rightarrow> ('w, pyval) io" where
  "get_session http url db session_id =
     (let rt = http_runtime http in
      bindIO (get_server_type http url NoAuth) (\<lambda>t.
      if t = listener then
        bindIO (checked_json http (http_send http (rq ''GET'' (path [url, ''_session''])))) (\<lambda>resp_obj.
        bindIO (liftIO (py_assert (py_eq resp_obj listener_session) ''Unexpected _session response from Listener'')) (\<lambda>_.
        returnIO resp_obj))
      else
        bindIO (checked_json http (http_send http
          (rq ''GET'' (path [url, py_str rt db, ''_session'', py_str rt session_id])))) (\<lambda>resp_obj.
        bindIO (liftIO (py_item resp_obj ''ok'')) (\<lambda>ok.
        bindIO (liftIO (py_assert (py_truth ok)
          (''Make sure response includes '' @ repr_str ''ok''))) (\<lambda>_.
        returnIO resp_obj)))))"

definition request_session :: "'w http \<Rightarrow> string \<Rightarrow> string \<Rightarrow> string \<Rightarrow> pyval \<Rightarrow> pyval \<Rightarrow> auth \<Rightarrow> ('w, http_response) io" where
  "request_session http url db name password ttl auth =
     checked (send_json_basic http auth ''POST'' (path [url, db, ''_session''])
       (PDict ([(''name'', PStr name), (''ttl'', ttl)] @ (if py_truth password then [(''password'', password)] else []))))"

text \<open>\<open>re.split("=|;", s)\<close>.\<close>

fun split_cookie :: "string \<Rightarrow> string list" where
  "split_cookie [] = [[]]"
| "split_cookie (c # s) =
     (if c = CHR ''='' \<or> c = CHR '';'' then [] # split_cookie s
      else (case split_cookie s of [] \<Rightarrow> [[c]] | p # ps \<Rightarrow> (c # p) # ps))"

definition cookie_of_header :: "string \<Rightarrow> (pyval \<times> pyval) res" where
  "cookie_of_header set_cookie_header = (case split_cookie set_cookie_header of
       cookie_name # session_id # _ \<Rightarrow> Inr (PStr cookie_name, PStr session_id)
     | _ \<Rightarrow> raise_exc ''IndexError'' ''list index out of range'')"

definition create_session :: "'w http \<Rightarrow> string \<Rightarrow> string \<Rightarrow> string \<Rightarrow> pyval \<Rightarrow> pyval \<Rightarrow> auth \<Rightarrow> ('w, pyval \<times> pyval) io" where
  "create_session http url db name password ttl auth =
     bindIO (request_session http url db name password ttl auth) (\<lambda>resp. liftIO
       (bindR (resp_json http resp) (\<lambda>resp_obj.
        bindR (py_in_str ''cookie_name'' resp_obj) (\<lambda>admin.
        if admin then
          bindR (py_item resp_obj ''cookie_name'') (\<lambda>cookie_name.
          bindR (py_item resp_obj ''session_id'') (\<lambda>session_id. Inr (cookie_name, session_id)))
        else bindR (dict_index (rs_headers resp) ''Set-Cookie'') cookie_of_header))))"

definition create_session_header :: "'w http \<Rightarrow> string \<Rightarrow> string \<Rightarrow> string \<Rightarrow> pyval \<Rightarrow> pyval \<Rightarrow> ('w, string) io" where
  "create_session_header http url db name password ttl =
     bindIO (request_session http url db name password ttl NoAuth) (\<lambda>resp.
       liftIO (dict_index (rs_headers resp) ''Set-Cookie''))"

definition delete_session :: "'w http \<Rightarrow> string \<Rightarrow> string \<Rightarrow> pyval \<Rightarrow> pyval \<Rightarrow> auth \<Rightarrow> ('w, unit) io" where
  "delete_session http url db user_name session_id auth =
     (let rt = http_runtime http in
      bindIO (checked (send_basic http auth (rq ''DELETE''
        (if user_name \<noteq> PNone
         then path [url, db, ''_user'', py_str rt user_name, ''_session'', py_str rt session_id]
         else path [url, db, ''_session'', py_str rt session_id])))) (\<lambda>_. returnIO ()))"

definition db_resync :: "'w http \<Rightarrow> string \<Rightarrow> string \<Rightarrow> auth \<Rightarrow> ('w, int) io" where
  "db_resync http url db auth =
     bindIO (send_basic http auth (with_header ''Accept'' ''application/json'' (rq ''POST'' (path [url, db, ''_resync'']))))
       (\<lambda>resp. returnIO (rs_status resp))"

section \<open>Roles and users\<close>

definition get_role :: "'w http \<Rightarrow> string \<Rightarrow> string \<Rightarrow> string \<Rightarrow> auth \<Rightarrow> ('w, pyval) io" where
  "get_role http url db name auth = checked_json http (send_basic http auth (rq ''GET'' (path [url, db, ''_role'', name])))"

definition get_roles :: "'w http \<Rightarrow> string \<Rightarrow> string \<Rightarrow> auth \<Rightarrow> ('w, pyval) io" where
  "get_roles http url db auth = checked_json http (send_basic http auth (rq ''GET'' (path [url, db, ''_role'', []])))"

text \<open>\<open>if channels is None: channels = []\<close>, then \<open>verify_is_list\<close>.\<close>

definition list_or_empty :: "pyval \<Rightarrow> pyval" where
  "list_or_empty v = (if v = PNone then PList [] else v)"

definition role_data :: "py_runtime \<Rightarrow> string \<Rightarrow> pyval \<Rightarrow> pyval res" where
  "role_data rt name channels =
     (let channels = list_or_empty channels in
      bindR (verify_is_list rt channels) (\<lambda>_. Inr (PDict [(''name'', PStr name), (''admin_channels'', channels)])))"

definition create_role :: "'w http \<Rightarrow> string \<Rightarrow> string \<Rightarrow> string \<Rightarrow> pyval \<Rightarrow> auth \<Rightarrow> ('w, unit) io" where
  "create_role http url db name channels auth =
     bindIO (liftIO (role_data (http_runtime http) name channels)) (\<lambda>data.
     bindIO (checked (send_json_basic http auth ''POST'' (path [url, db, ''_role'', []]) data)) (\<lambda>_. returnIO ()))"

definition update_role :: "'w http \<Rightarrow> string \<Rightarrow> string \<Rightarrow> string \<Rightarrow> pyval \<Rightarrow> auth \<Rightarrow> ('w, unit) io" where
  "update_role http url db name channels auth =
     bindIO (liftIO (role_data (http_runtime http) name channels)) (\<lambda>data.
     bindIO (checked (send_json_basic http auth ''PUT'' (path [url, db, ''_role'', name]) data)) (\<lambda>_. returnIO ()))"

definition get_user :: "'w http \<Rightarrow> string \<Rightarrow> string \<Rightarrow> string \<Rightarrow> auth \<Rightarrow> ('w, pyval) io" where
  "get_user http url db name auth = checked_json http (send_basic http auth (rq ''GET'' (path [url, db, ''_user'', name])))"

definition get_users :: "'w http \<Rightarrow> string \<Rightarrow> string \<Rightarrow> auth \<Rightarrow> ('w, pyval) io" where
  "get_users http url db auth = checked_json http (send_basic http auth (rq ''GET'' (path [url, db, ''_user'', []])))"

definition append_usr_collection_dict :: "(string, (string, pyval) dict) dict \<Rightarrow> pyval \<Rightarrow> string \<Rightarrow> string \<Rightarrow>
    (string, (string, pyval) dict) dict" where
  "append_usr_collection_dict user_scopes_collections channels scope collection =
     (let collection_dict = PDict [(''admin_channels'', channels)];
          old = (case dict_get user_scopes_collections scope of Some d \<Rightarrow> d | None \<Rightarrow> [])
      in dict_set user_scopes_collections scope (dict_set old collection collection_dict))"

definition delete_user :: "'w http \<Rightarrow> string \<Rightarrow> string \<Rightarrow> string \<Rightarrow> auth \<Rightarrow> ('w, unit) io" where
  "delete_user http url db name auth =
     bindIO (checked (send_basic http auth (rq ''DELETE'' (path [url, db, ''_user'', name])))) (\<lambda>_. returnIO ())"

definition user_data :: "py_runtime \<Rightarrow> string \<Rightarrow> pyval \<Rightarrow> pyval \<Rightarrow> pyval \<Rightarrow> pyval \<Rightarrow> (string, pyval) dict res" where
  "user_data rt name password channels roles collection_access =
     (let channels = list_or_empty channels; roles = list_or_empty roles in
      bindR (verify_is_list rt channels) (\<lambda>_. bindR (verify_is_list rt roles) (\<lambda>_.
        Inr ([(''name'', PStr name), (''password'', password), (''admin_roles'', roles), (''admin_channels'', channels)]
             @ (if collection_access \<noteq> PNone then [(''collection_access'', collection_access)] else [])))))"

definition get_databases :: "'w http \<Rightarrow> string \<Rightarrow> ('w, pyval) io" where
  "get_databases http url = checked_json http (http_send http (rq ''GET'' (path [url, ''_all_dbs''])))"

definition create_user :: "'w http \<Rightarrow> string \<Rightarrow> string \<Rightarrow> string \<Rightarrow> pyval \<Rightarrow> pyval \<Rightarrow> pyval \<Rightarrow> auth \<Rightarrow> pyval \<Rightarrow>
    ('w, string \<times> pyval) io" where
  "create_user http url db name password channels roles auth collection_access =
     bindIO (liftIO (user_data (http_runtime http) name password channels roles collection_access)) (\<lambda>data.
     bindIO (get_databases http url) (\<lambda>_.
     bindIO (checked (send_json_basic http auth ''POST'' (path [url, db, ''_user'', []]) (PDict data))) (\<lambda>_.
     returnIO (name, password))))"

definition update_user :: "'w http \<Rightarrow> string \<Rightarrow> string \<Rightarrow> string \<Rightarrow> pyval \<Rightarrow> pyval \<Rightarrow> pyval \<Rightarrow> bool \<Rightarrow> auth \<Rightarrow> pyval \<Rightarrow>
    ('w, string \<times> pyval) io" where
  "update_user http url db name password channels roles disabled auth collection_access =
     bindIO (liftIO (user_data (http_runtime http) name password channels roles collection_access)) (\<lambda>data.
     let data = (if password \<noteq> PNone then dict_set data ''password'' password else data);
         data = (if disabled then dict_set data ''disabled'' (PBool True) else data) in
     bindIO (checked (send_json_basic http auth ''PUT'' (path [url, db, ''_user'', name]) (PDict data))) (\<lambda>_.
     returnIO (name, password)))"

section \<open>Databases\<close>

definition REGISTERED_CLIENT_DBS :: "string list" where
  "REGISTERED_CLIENT_DBS = [''ls_db'', ''ls_db1'', ''ls_db2'']"

definition CLIENT_REQUEST_TIMEOUT :: rat where
  "CLIENT_REQUEST_TIMEOUT = 180"

definition validate_sync_gateway_mode :: "pyval \<Rightarrow> unit res" where
  "validate_sync_gateway_mode mode =
     (if mode \<noteq> PStr ''cc'' \<and> mode \<noteq> PStr ''di'' then raise_exc ''ValueError''
        (''Sync Gateway mode must be '' @ repr_str ''cc'' @ '' (channel cache) or '' @ repr_str ''di'' @ '' (distributed index)'')
      else Inr ())"

text \<open>
  The body for Sync Gateway. That the mode is given is tested again after it has been validated, so
  that test never fails.
\<close>

definition database_data :: "pyval \<Rightarrow> pyval \<Rightarrow> pyval \<Rightarrow> pyval \<Rightarrow> pyval \<Rightarrow> pyval res" where
  "database_data sync_gateway_mode server_url bucket_name index_bucket_name is_index_writer =
     bindR (validate_sync_gateway_mode sync_gateway_mode) (\<lambda>_.
     if bucket_name = PNone then raise_exc ''RestError'' ''Creating database error. You must provide a couchbase server bucket name''
     else if sync_gateway_mode = PNone then raise_exc ''RestError''
       (''You must specify either '' @ repr_str ''cc'' @ '' or '' @ repr_str ''di'' @ '' for sync_gateway_mode'')
     else if sync_gateway_mode = PStr ''di'' \<and> index_bucket_name = PNone then raise_exc ''RestError''
       (''You must provide an '' @ repr_str ''index_bucket_name'' @ '' if you are running in distributed index mode'')
     else if sync_gateway_mode = PStr ''di'' \<and> is_index_writer = PNone then raise_exc ''RestError''
       (''Please make sure you set '' @ repr_str ''is_index_writer'' @ '' since you are running in '' @ repr_str ''di'' @ '' mode'')
     else Inr (PDict ([(''bucket'', bucket_name), (''enable_shared_bucket_access'', PBool True), (''import_docs'', PBool True),
         (''num_index_replicas'', PInt 0), (''sync'', PStr ''function(doc){channel(doc.channels);}'')]
       @ (if sync_gateway_mode = PStr ''di'' then [(''channel_index'', PDict [(''server'', server_url),
            (''bucket'', index_bucket_name), (''writer'', is_index_writer)])] else []))))"

definition create_database :: "'w http \<Rightarrow> string \<Rightarrow> string \<Rightarrow> pyval \<Rightarrow> pyval \<Rightarrow> pyval \<Rightarrow> pyval \<Rightarrow> pyval \<Rightarrow> ('w, pyval) io" where
  "create_database http url name sync_gateway_mode server_url bucket_name index_bucket_name is_index_writer =
     bindIO (get_server_type http url NoAuth) (\<lambda>t.
     bindIO (case t of
         listener \<Rightarrow>
           if name \<notin> set REGISTERED_CLIENT_DBS then
             raiseIO (Exn ''ValueError'' (''Make sure you have registered you db name in keywords/constants: '' @ name))
           else http_send http (rq ''PUT'' (path [url, name, []]))
       | syncgateway \<Rightarrow>
           bindIO (liftIO (database_data sync_gateway_mode server_url bucket_name index_bucket_name is_index_writer)) (\<lambda>data.
           bindIO (post_json http ''PUT'' (path [url, name, []]) data) (http_send http))) (\<lambda>resp.
     bindIO (liftIO (raise_for_status resp)) (\<lambda>_.
     bindIO (checked_json http (http_send http (rq ''GET'' (path [url, name, []])))) (\<lambda>resp_obj.
     liftIO (py_item resp_obj ''db_name'')))))"

definition get_database :: "'w http \<Rightarrow> string \<Rightarrow> string \<Rightarrow> ('w, pyval) io" where
  "get_database http url db_name = checked_json http (http_send http (rq ''GET'' (path [url, db_name])))"

definition delete_database :: "'w http \<Rightarrow> string \<Rightarrow> string \<Rightarrow> ('w, unit) io" where
  "delete_database http url name = bindIO (checked (http_send http (rq ''DELETE'' (path [url, name])))) (\<lambda>_. returnIO ())"

definition delete_databases :: "'w http \<Rightarrow> string \<Rightarrow> ('w, unit) io" where
  "delete_databases http url =
     bindIO (get_databases http url) (\<lambda>v.
     bindIO (liftIO (py_iter v)) (\<lambda>db_names.
     bindIO (forIO db_names (\<lambda>db_name. delete_database http url (py_str (http_runtime http) db_name))) (\<lambda>_.
     bindIO (get_databases http url) (\<lambda>v.
     bindIO (liftIO (py_len v)) (\<lambda>n.
     if n \<noteq> 0 then raiseIO (Exn ''LiteServError'' ''Failed to delete dbs!'') else returnIO ())))))"

lemmas rest_defs = send_basic_def send_json_basic_def post_json_def checked_json_def checked_def bindIO_def

lemma onward_post_json [time_intros]: "onward time (post_json http meth url data)"
  by (auto simp: post_json_def intro!: time_intros)

lemma onward_send_json_basic [time_intros]:
  "http_onward time http \<Longrightarrow> onward time (send_json_basic http a meth url data)"
  by (auto simp: send_json_basic_def intro!: time_intros)

lemma onward_get_server_type [time_intros]:
  "http_onward time http \<Longrightarrow> onward time (get_server_type http url auth)"
  "http_onward time http \<Longrightarrow> onward time (get_server_platform http url)"
  by (auto simp: get_server_type_def get_server_platform_def intro!: time_intros)

end
