(* ===== verification/Attachments.thy ===== *)
theory Attachments
  imports Documents
begin

text \<open>
  \<open>keywords/attachment.py\<close>: attachments are files of the data directory, carried as base64 text.
  \<open>base64.standard_b64encode\<close> is the encoding of RFC 4648 on byte lists; \<open>b64decode\<close> is its inverse,
  used in the theorems only. Reading a file and the image library are the record \<open>att_env\<close>:
  \<open>att_read\<close> gives the bytes of the UTF-8 text of a file, \<open>att_save_png\<close> saves an image made of pixels.
\<close>

definition b64_alphabet :: string where
  "b64_alphabet = ''ABCDEFGHIJKLMNOPQRSTUVWXYZabcdefghijklmnopqrstuvwxyz0123456789+/''"

definition b64_chr :: "nat \<Rightarrow> char" where
  "b64_chr n = b64_alphabet ! n"

text \<open>Three bytes are four digits of six bits; a shorter last group is padded with \<open>=\<close>.\<close>

definition b64_group :: "nat \<Rightarrow> nat \<Rightarrow> nat \<Rightarrow> string" where
  "b64_group a b c = map b64_chr [a div 4, (a mod 4) * 16 + b div 16, (b mod 16) * 4 + c div 64, c mod 64]"

fun standard_b64encode :: "string \<Rightarrow> string" where
  "standard_b64encode [] = []"
| "standard_b64encode [a] = take 2 (b64_group (of_char a) 0 0) @ ''==''"
| "standard_b64encode [a, b] = take 3 (b64_group (of_char a) (of_char b) 0) @ ''=''"
| "standard_b64encode (a # b # c # s) = b64_group (of_char a) (of_char b) (of_char c) @ standard_b64encode s"

record 'w att_env =
  att_read :: "string \<Rightarrow> ('w, string) io"
  att_save_png :: "nat \<Rightarrow> nat \<Rightarrow> (int \<times> int \<times> int) list \<Rightarrow> string \<Rightarrow> ('w, unit) io"

definition DATA_DIR :: string where
  "DATA_DIR = ''resources/data''"

definition load_from_data_dir :: "'w att_env \<Rightarrow> string list \<Rightarrow> ('w, attachment list) io" where
  "load_from_data_dir env names = seqIO (map (\<lambda>name.
     mapIO (\<lambda>data. \<lparr>att_name = name, att_data = PBytes (standard_b64encode data)\<rparr>)
       (att_read env (DATA_DIR @ ''/'' @ name))) names)"

text \<open>\<open>int(random.random() * 256)\<close>.\<close>

definition random_byte :: "'w entropy \<Rightarrow> ('w, int) io" where
  "random_byte ent = mapIO (\<lambda>x. \<lfloor>x * 256\<rfloor>) (ent_uniform ent 0 1)"

definition random_rgb :: "'w entropy \<Rightarrow> ('w, int \<times> int \<times> int) io" where
  "random_rgb ent = bindIO (random_byte ent) (\<lambda>r. bindIO (random_byte ent) (\<lambda>g.
     bindIO (random_byte ent) (\<lambda>b. returnIO (r, g, b))))"

definition generate_png :: "'w att_env \<Rightarrow> 'w entropy \<Rightarrow> nat \<Rightarrow> nat \<Rightarrow> ('w, attachment list) io" where
  "generate_png env ent width height =
     bindIO (seqIO (replicate (width * height) (random_rgb ent))) (\<lambda>random_rgb_grid.
     bindIO (ent_uuid4 ent) (\<lambda>u.
     let image_temp_name = u @ ''.png'' in
     bindIO (att_save_png env width height random_rgb_grid (DATA_DIR @ ''/'' @ image_temp_name)) (\<lambda>_.
     load_from_data_dir env [image_temp_name])))"

definition generate_pngs :: "'w att_env \<Rightarrow> 'w entropy \<Rightarrow> nat \<Rightarrow> nat \<Rightarrow> nat \<Rightarrow> ('w, attachment list) io" where
  "generate_pngs env ent count width height = mapIO concat (seqIO (replicate count (generate_png env ent width height)))"

definition generate_png_100_100 :: "'w att_env \<Rightarrow> 'w entropy \<Rightarrow> ('w, attachment list) io" where
  "generate_png_100_100 env ent = generate_png env ent 100 100"

definition generate_png_1000_700 :: "'w att_env \<Rightarrow> 'w entropy \<Rightarrow> ('w, attachment list) io" where
  "generate_png_1000_700 env ent = generate_png env ent 1000 700"

definition generate_png_1_1 :: "'w att_env \<Rightarrow> 'w entropy \<Rightarrow> ('w, attachment list) io" where
  "generate_png_1_1 env ent = generate_png env ent 1 1"

definition generate_2_png_10_10 :: "'w att_env \<Rightarrow> 'w entropy \<Rightarrow> ('w, attachment list) io" where
  "generate_2_png_10_10 env ent = generate_pngs env ent 2 10 10"

definition generate_2_png_100_100 :: "'w att_env \<Rightarrow> 'w entropy \<Rightarrow> ('w, attachment list) io" where
  "generate_2_png_100_100 env ent = generate_pngs env ent 2 100 100"

definition generate_5_png_100_100 :: "'w att_env \<Rightarrow> 'w entropy \<Rightarrow> ('w, attachment list) io" where
  "generate_5_png_100_100 env ent = generate_pngs env ent 5 100 100"

section \<open>Reading the encoding back\<close>

definition b64_val :: "char \<Rightarrow> nat" where
  "b64_val ch = length (takeWhile (\<lambda>x. x \<noteq> ch) b64_alphabet)"

fun b64decode :: "string \<Rightarrow> string" where
  "b64decode (p # q # r # s # rest) =
     (let v = b64_val p; w = b64_val q; x = b64_val r; y = b64_val s;
          a = char_of (v * 4 + w div 16); b = char_of ((w mod 16) * 16 + x div 4); c = char_of ((x mod 4) * 64 + y) in
      if r = CHR ''='' then [a] else if s = CHR ''='' then [a, b] else a # b # c # b64decode rest)"
| "b64decode _ = []"

lemma length_b64_alphabet: "length b64_alphabet = 64"
  by (simp add: b64_alphabet_def)

lemma distinct_b64_alphabet: "distinct b64_alphabet"
  by (simp add: b64_alphabet_def)

lemma takeWhile_distinct: "distinct xs \<Longrightarrow> n < length xs \<Longrightarrow> takeWhile (\<lambda>x. x \<noteq> xs ! n) xs = take n xs"
proof (induction xs arbitrary: n)
  case (Cons x xs)
  then show ?case by (cases n) (auto simp: nth_mem)
qed simp

lemma b64_val_chr [simp]: "n < 64 \<Longrightarrow> b64_val (b64_chr n) = n"
  unfolding b64_val_def b64_chr_def
  by (subst takeWhile_distinct) (simp_all add: distinct_b64_alphabet length_b64_alphabet)

lemma b64_chr_no_pad [simp]: "n < 64 \<Longrightarrow> b64_chr n \<noteq> CHR ''=''"
proof
  assume "n < 64" "b64_chr n = CHR ''=''"
  then have "CHR ''='' \<in> set b64_alphabet"
    using nth_mem [of n b64_alphabet] by (simp add: b64_chr_def length_b64_alphabet)
  then show False by (simp add: b64_alphabet_def)
qed

lemma b64_digits:
  fixes a b c :: nat
  assumes "a < 256" "b < 256" "c < 256"
  shows "a div 4 < 64" "(a mod 4) * 16 + b div 16 < 64" "(b mod 16) * 4 + c div 64 < 64" "c mod 64 < 64"
  using assms by linarith+

lemma digit_div_mod:
  fixes x m k :: nat
  assumes "x < m"
  shows "(k * m + x) div m = k" "(k * m + x) mod m = x"
  using assms by simp_all

lemma b64_digit_values:
  fixes a b c :: nat
  assumes "b < 256" "c < 256"
  shows "a div 4 * 4 + ((a mod 4) * 16 + b div 16) div 16 = a"
    and "((a mod 4) * 16 + b div 16) mod 16 * 16 + ((b mod 16) * 4 + c div 64) div 4 = b"
    and "((b mod 16) * 4 + c div 64) mod 4 * 64 + c mod 64 = c"
proof -
  have "b div 16 < 16" "c div 64 < 4" using assms by auto
  then show "a div 4 * 4 + ((a mod 4) * 16 + b div 16) div 16 = a"
    and "((a mod 4) * 16 + b div 16) mod 16 * 16 + ((b mod 16) * 4 + c div 64) div 4 = b"
    and "((b mod 16) * 4 + c div 64) mod 4 * 64 + c mod 64 = c"
    by (simp_all only: digit_div_mod div_mult_mod_eq)
qed

lemma of_char_256: "(of_char c :: nat) < 256"
  by simp

text \<open>One group read back.\<close>

lemma b64decode_group:
  assumes "a < 256" "b < 256" "c < 256"
  shows "b64decode (b64_group a b c @ s) = char_of a # char_of b # char_of c # b64decode s"
  using b64_digits [OF assms]
  by (simp only: b64_group_def list.map append.simps b64decode.simps Let_def b64_val_chr
      b64_digit_values [OF assms(2,3)] b64_chr_no_pad if_False)

lemma b64decode_two:
  assumes "a < 256" "b < 256"
  shows "b64decode (take 3 (b64_group a b 0) @ ''='') = [char_of a, char_of b]"
proof -
  have "b64decode (take 3 (b64_group a b 0) @ ''='') =
      [char_of (a div 4 * 4 + ((a mod 4) * 16 + b div 16) div 16),
       char_of (((a mod 4) * 16 + b div 16) mod 16 * 16 + ((b mod 16) * 4 + 0 div 64) div 4)]"
    using b64_digits [OF assms, of 0] by (simp add: b64_group_def Let_def)
  then show ?thesis by (simp only: b64_digit_values [OF assms(2), of 0])
qed

lemma b64decode_one:
  assumes "a < 256"
  shows "b64decode (take 2 (b64_group a 0 0) @ ''=='') = [char_of a]"
  using b64_digits [OF assms, of 0 0] by (simp add: b64_group_def Let_def)

lemma b64decode_encode: "b64decode (standard_b64encode s) = s"
proof (induction s rule: standard_b64encode.induct)
  case (2 a)
  show ?case using b64decode_one [OF of_char_256, of a] by simp
next
  case (3 a b)
  show ?case using b64decode_two [OF of_char_256 of_char_256, of a b] by simp
next
  case (4 a b c s)
  then show ?case using b64decode_group [OF of_char_256 of_char_256 of_char_256, of a b c] by simp
qed simp


definition one_file :: "unit att_env" where
  "one_file = \<lparr>att_read = (\<lambda>p. returnIO ''hi!''), att_save_png = (\<lambda>_ _ _ _. returnIO ())\<rparr>"


end
