(* ===== verification/Multipart.thy ===== *)
theory Multipart
  imports Json
begin

text \<open>
  \<open>parse_multipart_response\<close> of \<open>keywords/MobileRestClient.py\<close>: the answers of \<open>_bulk_get\<close>. The text is cut
  at every \<open>--\<close>, the last line of a part with more than two lines is read as JSON, and a line that is
  not JSON is skipped. \<open>multipart\<close> is the text a server sends for a list of documents.
\<close>

definition line_end :: "char \<Rightarrow> bool" where
  "line_end c \<longleftrightarrow> (let n = (of_char c :: nat) in 10 \<le> n \<and> n \<le> 13 \<or> 28 \<le> n \<and> n \<le> 30 \<or> n = 133)"

text \<open>\<open>s.splitlines()\<close>: \<open>cr\<close> says that the last character was a carriage return, \<open>acc\<close> is the line so far.\<close>

fun splitlines_go :: "bool \<Rightarrow> string \<Rightarrow> string \<Rightarrow> string list" where
  "splitlines_go cr acc [] = (if acc = [] then [] else [rev acc])"
| "splitlines_go cr acc (c # s) =
     (if cr \<and> c = CHR 0x0A then splitlines_go False acc s
      else if line_end c then rev acc # splitlines_go (c = CHR 0x0D) [] s
      else splitlines_go False (c # acc) s)"

definition splitlines :: "string \<Rightarrow> string list" where
  "splitlines s = splitlines_go False [] s"

definition parse_part :: "py_runtime \<Rightarrow> string \<Rightarrow> pyval list" where
  "parse_part rt part =
     (let part_lines = splitlines part in
      if length part_lines > 2 then
        (case json_loads rt (last part_lines) of Inr doc_obj \<Rightarrow> [doc_obj] | Inl _ \<Rightarrow> [])
      else [])"

definition parse_multipart_response :: "py_runtime \<Rightarrow> string \<Rightarrow> pyval" where
  "parse_multipart_response rt response =
     PDict [(''rows'', PList (concat (map (parse_part rt) (split_str ''--'' response))))]"

section \<open>What the server sends\<close>

definition crlf :: string where
  "crlf = [CHR 0x0D, CHR 0x0A]"

definition multipart_body :: "string \<Rightarrow> string \<Rightarrow> string" where
  "multipart_body boundary t = boundary @ crlf @ ''Content-Type: application/json'' @ crlf @ crlf @ t @ crlf"

definition multipart :: "string \<Rightarrow> string list \<Rightarrow> string" where
  "multipart boundary ts = concat (map (\<lambda>t. ''--'' @ multipart_body boundary t) ts) @ ''--'' @ boundary @ ''--''"

text \<open>A text in which no dashes meet, also not those of the next separator.\<close>

definition dashless :: "string \<Rightarrow> bool" where
  "dashless p \<longleftrightarrow> \<not> contains_str p ''--'' \<and> (p \<noteq> [] \<longrightarrow> last p \<noteq> CHR ''-'')"

lemma split_go_part:
  "dashless p \<Longrightarrow> split_go ''--'' 0 acc (p @ ''--'' @ r) = (rev acc @ p) # split_go ''--'' 0 [] r"
proof (induction p arbitrary: acc)
  case (Cons x p)
  then have "\<not> startswith (x # p @ ''--'' @ r) ''--''" by (cases p) (auto simp: dashless_def)
  moreover have "dashless p" using Cons.prems by (auto simp: dashless_def)
  ultimately show ?case using Cons.IH [of "x # acc"] by simp
qed simp

lemma split_go_last: "\<not> contains_str p ''--'' \<Longrightarrow> split_go ''--'' 0 acc p = [rev acc @ p]"
  by (induction p arbitrary: acc) auto

lemma split_multipart:
  assumes "\<And>t. t \<in> set ts \<Longrightarrow> dashless (multipart_body b t)" "dashless b" "dashless p"
  shows "split_go ''--'' 0 [] (p @ multipart b ts) = p # map (multipart_body b) ts @ [b, []]"
  using assms
proof (induction ts arbitrary: p)
  case Nil
  then show ?case
    using split_go_part [of p "[]" "b @ ''--''"] split_go_part [of b "[]" "[]"] by (simp add: multipart_def)
next
  case (Cons t ts)
  from Cons.IH [of "multipart_body b t"] Cons.prems split_go_part [of p "[]" "multipart_body b t @ multipart b ts"]
  show ?case by (simp add: multipart_def)
qed

lemma splitlines_line:
  "list_all (\<lambda>c. \<not> line_end c) l \<Longrightarrow> splitlines_go False acc (l @ crlf @ s) = (rev acc @ l) # splitlines_go False [] s"
proof (induction l arbitrary: acc)
  case Nil
  then show ?case by (simp add: crlf_def line_end_def)
qed simp

lemma splitlines_body:
  assumes "list_all (\<lambda>c. \<not> line_end c) b" "list_all (\<lambda>c. \<not> line_end c) t"
  shows "splitlines (multipart_body b t) = [b, ''Content-Type: application/json'', [], t]"
proof -
  have "list_all (\<lambda>c. \<not> line_end c) ''Content-Type: application/json''" by (simp add: line_end_def)
  from splitlines_line [OF this] show ?thesis
    using splitlines_line [OF assms(1), of "[]"] splitlines_line [OF assms(2), of "[]" "[]"] splitlines_line [of "[]" "[]"]
    by (simp add: splitlines_def multipart_body_def)
qed

section \<open>JSON text has no line ends\<close>

definition printable :: "char \<Rightarrow> bool" where
  "printable c \<longleftrightarrow> 32 \<le> (of_char c :: nat) \<and> (of_char c :: nat) \<le> 126"

lemma printable_punctuation [simp]:
  "printable CHR ''[''" "printable CHR '']''" "printable CHR ''{''" "printable CHR ''}''" "printable CHR '',''"
  "printable CHR '' ''" "printable CHR '':''" "printable chr_dquote"
  by (simp_all add: printable_def)

lemma printable_no_line_end: "list_all printable t \<Longrightarrow> list_all (\<lambda>c. \<not> line_end c) t"
  by (auto simp: list_all_iff printable_def line_end_def Let_def)

lemma printable_hex: "d < 16 \<Longrightarrow> printable (hex_chr d)"
  by (auto simp: printable_def hex_chr_def)

lemma printable_json_esc: "list_all printable (json_esc c)"
proof -
  have "(of_char c :: nat) < 256" by simp
  then have "(of_char c :: nat) div 16 < 16" by (intro less_mult_imp_div_less) simp
  then have "printable (hex_chr (of_char c div 16))" by (rule printable_hex)
  then show ?thesis by (auto simp: json_esc_def Let_def printable_hex) (auto simp: printable_def)
qed

lemma printable_json_str: "list_all printable (json_str s)"
proof -
  have "list_all printable (concat (map json_esc s))"
    by (induction s) (simp_all add: printable_json_esc)
  then show ?thesis by (simp add: json_str_def dq_def)
qed

lemma printable_join: "list_all printable sep \<Longrightarrow> list_all (list_all printable) ts \<Longrightarrow> list_all printable (join sep ts)"
  by (induction sep ts rule: join.induct) auto

lemma printable_int_str: "list_all printable (int_str i)"
  by (auto simp: list_all_iff printable_def is_digit_def dest: int_str_chars)

lemma json_dumps_printable: "json_ok v \<Longrightarrow> json_dumps rt v = Inr t \<Longrightarrow> list_all printable t"
proof (induction v arbitrary: t rule: json_ok.induct)
  case (1 xs)
  then obtain ts where ts: "mapR (json_dumps rt) xs = Inr ts" "t = ''['' @ join '', '' ts @ '']''"
    by (auto simp: bindR_eq_Inr)
  have "list_all printable u" if "u \<in> set ts" for u
    using mapR_Inr_mem [OF ts(1) that] 1 by (metis json_ok.simps(1))
  then have "list_all (list_all printable) ts" by (simp add: list_all_iff)
  with printable_join [of "'', ''" ts] ts(2) show ?case by simp
next
  case (2 d)
  then obtain ts where ts: "mapR (\<lambda>kv. bindR (json_dumps rt (snd kv)) (\<lambda>t. Inr (json_str (fst kv) @ '': '' @ t))) d = Inr ts"
      "t = ''{'' @ join '', '' ts @ ''}''"
    by (auto simp: bindR_eq_Inr)
  have "list_all printable u" if "u \<in> set ts" for u
  proof -
    from mapR_Inr_mem [OF ts(1) that] obtain kv where
      "kv \<in> set d" "bindR (json_dumps rt (snd kv)) (\<lambda>t. Inr (json_str (fst kv) @ '': '' @ t)) = Inr u" .
    then obtain t' where t': "json_dumps rt (snd kv) = Inr t'" "u = json_str (fst kv) @ '': '' @ t'"
      by (auto simp: bindR_eq_Inr)
    with 2 \<open>kv \<in> set d\<close> have "list_all printable t'" by auto
    with t'(2) show ?thesis by (simp add: printable_json_str)
  qed
  then have "list_all (list_all printable) ts" by (simp add: list_all_iff)
  with printable_join [of "'', ''" ts] ts(2) show ?case by simp
qed (auto simp: printable_int_str printable_json_str printable_def)

section \<open>Reading the parts\<close>

lemma contains_append_sep:
  assumes "\<not> contains_str p ''--''" "\<not> contains_str q ''--''" "c \<noteq> CHR ''-''"
  shows "\<not> contains_str (p @ c # q) ''--''"
  using assms
proof (induction p)
  case (Cons x p)
  then show ?case by (cases p) auto
qed (auto simp: startswith_def)

lemma dashless_body:
  assumes "\<not> contains_str b ''--''" "\<not> contains_str t ''--''"
  shows "dashless (multipart_body b t)"
proof -
  have "\<not> contains_str (CHR 0x0A # ''Content-Type: application/json'' @ crlf @ crlf) ''--''"
    by (simp add: crlf_def)
  then have "\<not> contains_str (b @ CHR 0x0D # CHR 0x0A # ''Content-Type: application/json'' @ crlf @ CHR 0x0D # CHR 0x0A # t @ CHR 0x0D # [CHR 0x0A]) ''--''"
    using contains_append_sep [OF assms(2), of "[CHR 0x0A]" "CHR 0x0D"] assms(1)
    by (intro contains_append_sep) (simp_all add: crlf_def)
  then show ?thesis by (simp add: dashless_def multipart_body_def crlf_def)
qed

text \<open>A boundary as servers choose it: hexadecimal digits, so without dashes or line ends.\<close>

definition boundary_ok :: "string \<Rightarrow> bool" where
  "boundary_ok b \<longleftrightarrow> list_all (\<lambda>c. printable c \<and> c \<noteq> CHR ''-'') b"

lemma boundary_ok_dashless: "boundary_ok b \<Longrightarrow> dashless b"
proof -
  assume b: "boundary_ok b"
  then have "CHR ''-'' \<notin> set b" by (auto simp: boundary_ok_def list_all_iff)
  then have "\<not> contains_str b ''--''" by (auto simp: contains_str_iff)
  moreover have "b \<noteq> [] \<Longrightarrow> last b \<noteq> CHR ''-''" using \<open>CHR ''-'' \<notin> set b\<close> last_in_set by metis
  ultimately show ?thesis by (simp add: dashless_def)
qed

lemma parse_part_body:
  assumes "boundary_ok b" "json_ok v" "json_dumps rt v = Inr t"
  shows "parse_part rt (multipart_body b t) = [v]"
proof -
  have "list_all (\<lambda>c. \<not> line_end c) b" using assms(1)
    by (intro printable_no_line_end) (auto simp: boundary_ok_def list_all_iff)
  with splitlines_body [OF this printable_no_line_end [OF json_dumps_printable [OF assms(2,3)]]]
  show ?thesis by (simp add: parse_part_def json_roundtrip [OF assms(2,3)])
qed

lemma parse_part_boundary: "boundary_ok b \<Longrightarrow> parse_part rt b = []" "parse_part rt [] = []"
proof -
  have "length (splitlines_go False acc b) \<le> 1" if "boundary_ok b" for b acc
  proof -
    from that have "list_all (\<lambda>c. \<not> line_end c) b"
      by (intro printable_no_line_end) (auto simp: boundary_ok_def list_all_iff)
    then show ?thesis by (induction b arbitrary: acc) auto
  qed
  from this [of b "[]"] show "boundary_ok b \<Longrightarrow> parse_part rt b = []" by (simp add: parse_part_def splitlines_def)
qed (simp add: parse_part_def splitlines_def)

text \<open>
  C26: reading a multipart answer gives back every document the server sent, in order, whatever the
  documents are, provided no document's JSON text contains two dashes in a row.
\<close>

theorem multipart_roundtrip:
  assumes "boundary_ok b" "list_all json_ok docs" "mapR (json_dumps rt) docs = Inr ts"
    and "list_all (\<lambda>t. \<not> contains_str t ''--'') ts"
  shows "parse_multipart_response rt (multipart b ts) = PDict [(''rows'', PList docs)]"
proof -
  from boundary_ok_dashless [OF assms(1)] have b: "dashless b" .
  have "split_str ''--'' (multipart b ts) = [] # map (multipart_body b) ts @ [b, []]"
    using split_multipart [of ts b "[]"] dashless_body [of b] b assms(4)
    by (simp add: split_str_def list_all_iff dashless_def)
  moreover have "concat (map (parse_part rt) (map (multipart_body b) ts)) = docs"
    using assms(2,3)
  proof (induction docs arbitrary: ts)
    case (Cons v docs)
    then show ?case using parse_part_body [OF assms(1)] by (auto simp: bindR_eq_Inr)
  qed simp
  ultimately show ?thesis using assms(1) by (simp add: parse_multipart_response_def parse_part_boundary)
qed

theorem multipart_roundtrip_witness:
  "\<exists>ts. parse_multipart_response bare_runtime (multipart ''5570ab'' ts) =
     PDict [(''rows'', PList [PDict [(''_id'', PStr ''d0'')], PDict [(''_id'', PStr ''d1''), (''n'', PBool True)]])]"
proof -
  let ?ts = "[''{'' @ dq ''_id'' @ '': '' @ dq ''d0'' @ ''}'',
     ''{'' @ dq ''_id'' @ '': '' @ dq ''d1'' @ '', '' @ dq ''n'' @ '': true}'']"
  have "mapR (json_dumps bare_runtime) [PDict [(''_id'', PStr ''d0'')], PDict [(''_id'', PStr ''d1''), (''n'', PBool True)]] = Inr ?ts"
    by (simp add: json_str_def json_esc_def dq_def)
  from multipart_roundtrip [OF _ _ this, of "''5570ab''"] show ?thesis
    by (auto simp: boundary_ok_def printable_def dq_def)
qed

text \<open>
  A document with two dashes in it is lost: its text is cut there, no part ends with a JSON
  line, and nothing is reported.
\<close>

theorem multipart_dashes_lost:
  "parse_multipart_response rt (multipart ''5570ab'' [''{'' @ dq ''a'' @ '': '' @ dq ''x--y'' @ ''}'']) = PDict [(''rows'', PList [])]"
  by code_simp

end
