(* ===== verification/Rest_Docs.thy ===== *)
theory Rest_Docs
  imports Rest_Admin Attachments Multipart
begin

text \<open>
  \<open>keywords/MobileRestClient.py\<close>, documents: revisions and conflicts, reading, adding, updating, deleting
  and purging documents. The lists of documents
  the methods take are Python values, as the answers of the server are; a document id that is formatted into
  a URL is written by \<open>py_str\<close>. Where a method changes a document its caller passed, the changed document
  is part of its result.
\<close>

section \<open>Reading documents\<close>

definition get_attachment_by_document :: "'w http \<Rightarrow> string \<Rightarrow> string \<Rightarrow> string \<Rightarrow> pyval \<Rightarrow> auth \<Rightarrow> ('w, pyval) io" where
  "get_attachment_by_document http url db doc att auth =
     checked_json http (send_typed http (get_auth_type auth) (rq ''GET''
       ((if py_truth att then path [url, db, doc, py_str (http_runtime http) att] else path [url, db, doc]) @ ''?meta=true'')))"

text \<open>\<open>for k in list(atts.keys()): del atts[k]["digest"]; del atts[k]["length"]\<close>.\<close>

definition strip_attachment :: "(string, pyval) dict \<Rightarrow> string \<Rightarrow> (string, pyval) dict res" where
  "strip_attachment atts k =
     bindR (dict_index atts k) (\<lambda>a. bindR (py_del a ''digest'') (\<lambda>a. bindR (py_del a ''length'') (\<lambda>a.
       Inr (dict_set atts k a))))"

definition strip_attachments :: "pyval \<Rightarrow> pyval res" where
  "strip_attachments resp_obj =
     bindR (py_in_str ''_attachments'' resp_obj) (\<lambda>has.
     if has then
       bindR (py_item resp_obj ''_attachments'') (\<lambda>a. bindR (dict_attr a ''keys'') (\<lambda>atts.
       bindR (foldR strip_attachment atts (dict_keys atts)) (\<lambda>atts. py_set resp_obj ''_attachments'' (PDict atts))))
     else Inr resp_obj)"

text \<open>A scope without a collection: the string after \<open>assert\<close> is always true, so the scope is ignored.\<close>

definition get_doc :: "'w http \<Rightarrow> string \<Rightarrow> string \<Rightarrow> string \<Rightarrow> auth \<Rightarrow> pyval \<Rightarrow> bool \<Rightarrow> string option \<Rightarrow> string option \<Rightarrow>
    ('w, pyval) io" where
  "get_doc http url db doc_id auth rev_arg revs_info scope collection =
     (let params = [(''conflicts'', PStr ''true''), (''revs'', PStr ''true'')];
          params = (if revs_info then dict_set params ''revs_info'' (PStr ''true'') else params);
          params = (if py_truth rev_arg then dict_set params ''rev'' rev_arg else params);
          params = dict_set params ''show_exp'' (PStr ''true'');
          url_string = (case collection of
              Some c \<Rightarrow> (case scope of None \<Rightarrow> path [url, db @ ''.'' @ c, doc_id]
                 | Some s \<Rightarrow> path [url, db @ ''.'' @ s @ ''.'' @ c, doc_id])
            | None \<Rightarrow> path [url, db, doc_id])
      in bindIO (checked_json http (send_typed http (get_auth_type auth) (with_params params (rq ''GET'' url_string))))
           (\<lambda>resp_obj. liftIO (strip_attachments resp_obj)))"

abbreviation get_doc_plain :: "'w http \<Rightarrow> string \<Rightarrow> string \<Rightarrow> string \<Rightarrow> auth \<Rightarrow> ('w, pyval) io" where
  "get_doc_plain http url db doc_id auth \<equiv> get_doc http url db doc_id auth PNone False None None"

definition get_raw_doc :: "'w http \<Rightarrow> string \<Rightarrow> string \<Rightarrow> string \<Rightarrow> auth \<Rightarrow> string option \<Rightarrow> string option \<Rightarrow> ('w, pyval) io" where
  "get_raw_doc http url db doc_id auth scope collection =
     bindIO (liftIO (keyspace_of db scope collection)) (\<lambda>keyspace.
     checked_json http (send_basic http auth (with_params [(''include_doc'', PStr ''true''), (''redact'', PStr ''false'')]
       (rq ''GET'' (path [url, keyspace, ''_raw'', doc_id])))))"

definition get_attachment :: "'w http \<Rightarrow> string \<Rightarrow> string \<Rightarrow> string \<Rightarrow> string \<Rightarrow> auth \<Rightarrow> ('w, string) io" where
  "get_attachment http url db doc_id attachment_name auth =
     bindIO (checked (send_typed http (get_auth_type auth) (with_header ''Accept'' ''*/*''
       (rq ''GET'' (path [url, db, doc_id, attachment_name]))))) (\<lambda>resp. returnIO (rs_text resp))"

definition get_latest_rev :: "'w http \<Rightarrow> string \<Rightarrow> string \<Rightarrow> string \<Rightarrow> auth \<Rightarrow> ('w, pyval) io" where
  "get_latest_rev http url db doc_id auth =
     bindIO (get_doc_plain http url db doc_id auth) (\<lambda>doc_resp. liftIO (py_item doc_resp ''_rev''))"

definition get_all_docs :: "'w http \<Rightarrow> string \<Rightarrow> string \<Rightarrow> auth \<Rightarrow> bool \<Rightarrow> string option \<Rightarrow> string option \<Rightarrow> ('w, pyval) io" where
  "get_all_docs http url db auth include_docs scope collection =
     (let params = (if include_docs then [(''include_docs'', PStr ''true'')] else []);
          all_docs_url = (case scope of None \<Rightarrow> path [url, db, ''_all_docs'']
            | Some s \<Rightarrow> path [url, db @ ''.'' @ s @ ''.'' @ (case collection of None \<Rightarrow> ''None'' | Some c \<Rightarrow> c), ''_all_docs''])
      in checked_json http (send_typed http (get_auth_type auth) (with_params params (rq ''GET'' all_docs_url))))"

text \<open>The documents and the errors of a \<open>_bulk_get\<close>.\<close>

definition split_rows :: "pyval list \<Rightarrow> (pyval list \<times> pyval list) res" where
  "split_rows rows = foldR (\<lambda>(docs, errors) row.
     bindR (py_in_str ''error'' row) (\<lambda>e. Inr (if e then (docs, errors @ [row]) else (docs @ [row], errors)))) ([], []) rows"

definition get_bulk_docs :: "'w http \<Rightarrow> string \<Rightarrow> string \<Rightarrow> pyval list \<Rightarrow> auth \<Rightarrow> bool \<Rightarrow> string \<Rightarrow> string option \<Rightarrow> string option \<Rightarrow>
    ('w, pyval list \<times> pyval list) io" where
  "get_bulk_docs http url db doc_ids auth validate rev_history scope collection =
     (let rt = http_runtime http;
          doc_ids_formatted = map (\<lambda>doc_id. PDict [(''id'', doc_id)]) doc_ids;
          request_body = PDict [(''docs'', PList doc_ids_formatted)] in
      bindIO (liftIO (keyspace_of db scope collection)) (\<lambda>keyspace.
      bindIO (post_json http ''POST'' (path [url, keyspace, ''_bulk_get?revs='' @ rev_history]) request_body) (\<lambda>r.
      bindIO (checked (send_typed http (get_auth_type auth) r)) (\<lambda>resp. liftIO
       (bindR (py_item (parse_multipart_response rt (rs_text resp)) ''rows'') (\<lambda>v. bindR (py_iter v) (\<lambda>rows.
        bindR (split_rows rows) (\<lambda>(docs, errors).
        if length errors > 0 \<and> validate then
          raise_exc ''RestError'' (''_bulk_get recieved errors in the response!'' @ py_str rt (PList errors))
        else Inr (docs, errors)))))))))"

section \<open>Revisions\<close>

definition split_rev :: "string \<Rightarrow> string list" where
  "split_rev r = split_chr CHR ''-'' r"

definition get_rev_generation_digest :: "pyval \<Rightarrow> (string \<times> string) res" where
  "get_rev_generation_digest rev_arg =
     bindR (str_attr rev_arg ''split'') (\<lambda>r. let rev_parts = split_rev r in
     bindR (py_assert (length rev_parts = 2) ''Revision should have a generation and a digest'') (\<lambda>_.
     Inr (rev_parts ! 0, rev_parts ! 1)))"

text \<open>\<open>len(doc["_revisions"]["ids"])\<close> of the document with that id.\<close>

definition doc_rev_ids_number :: "'w http \<Rightarrow> string \<Rightarrow> string \<Rightarrow> string \<Rightarrow> auth \<Rightarrow> ('w, nat) io" where
  "doc_rev_ids_number http url db doc_id auth =
     bindIO (get_doc_plain http url db doc_id auth) (\<lambda>doc. liftIO (bindR (py_item2 doc ''_revisions'' ''ids'') py_len))"

definition revs_num_text :: "nat \<Rightarrow> nat \<Rightarrow> string" where
  "revs_num_text expected actual = ''Expected num revs: '' @ nat_str expected @ '', Actual num revs: '' @ nat_str actual"

definition verify_revs_num :: "'w http \<Rightarrow> string \<Rightarrow> string \<Rightarrow> string \<Rightarrow> nat \<Rightarrow> auth \<Rightarrow> ('w, unit) io" where
  "verify_revs_num http url db doc_id expected_revs_per_docs auth =
     bindIO (doc_rev_ids_number http url db doc_id auth) (\<lambda>n.
       liftIO (py_assert (n = expected_revs_per_docs) (revs_num_text expected_revs_per_docs n)))"

definition verify_max_revs_num :: "'w http \<Rightarrow> string \<Rightarrow> string \<Rightarrow> string \<Rightarrow> nat \<Rightarrow> auth \<Rightarrow> ('w, unit) io" where
  "verify_max_revs_num http url db doc_id expected_max_number_revs auth =
     bindIO (doc_rev_ids_number http url db doc_id auth) (\<lambda>n.
       liftIO (py_assert (\<not> n > expected_max_number_revs) (revs_num_text expected_max_number_revs n)))"

definition verify_doc_rev_generation :: "'w http \<Rightarrow> string \<Rightarrow> string \<Rightarrow> string \<Rightarrow> int \<Rightarrow> auth \<Rightarrow> ('w, unit) io" where
  "verify_doc_rev_generation http url db doc_id expected_generation auth =
     bindIO (get_latest_rev http url db doc_id auth) (\<lambda>r. liftIO
       (bindR (str_attr r ''split'') (\<lambda>r. bindR (py_int_of (hd (split_rev r))) (\<lambda>generation.
        py_assert (generation = expected_generation)
          (''Expected generation: '' @ int_str expected_generation @ '' not found, found: '' @ int_str generation)))))"

text \<open>\<open>for doc in docs: self.verify_...(url, db, doc["id"], ...)\<close>.\<close>

definition for_doc_ids :: "'w http \<Rightarrow> pyval \<Rightarrow> (string \<Rightarrow> ('w, unit) io) \<Rightarrow> ('w, unit) io" where
  "for_doc_ids http docs f = for_in docs (\<lambda>doc.
     bindIO (liftIO (py_item doc ''id'')) (\<lambda>i. f (py_str (http_runtime http) i)))"

definition verify_revs_num_for_docs :: "'w http \<Rightarrow> string \<Rightarrow> string \<Rightarrow> pyval \<Rightarrow> nat \<Rightarrow> auth \<Rightarrow> ('w, unit) io" where
  "verify_revs_num_for_docs http url db docs expected_revs_per_doc auth =
     for_doc_ids http docs (\<lambda>i. verify_revs_num http url db i expected_revs_per_doc auth)"

definition verify_max_revs_num_for_docs :: "'w http \<Rightarrow> string \<Rightarrow> string \<Rightarrow> pyval \<Rightarrow> nat \<Rightarrow> auth \<Rightarrow> ('w, unit) io" where
  "verify_max_revs_num_for_docs http url db docs expected_max_number_revs_per_doc auth =
     for_doc_ids http docs (\<lambda>i. verify_max_revs_num http url db i expected_max_number_revs_per_doc auth)"

definition verify_docs_rev_generations :: "'w http \<Rightarrow> string \<Rightarrow> string \<Rightarrow> pyval \<Rightarrow> int \<Rightarrow> auth \<Rightarrow> ('w, unit) io" where
  "verify_docs_rev_generations http url db docs expected_generation auth =
     for_doc_ids http docs (\<lambda>i. verify_doc_rev_generation http url db i expected_generation auth)"

definition get_open_revs :: "'w http \<Rightarrow> string \<Rightarrow> string \<Rightarrow> string \<Rightarrow> auth \<Rightarrow> ('w, pyval) io" where
  "get_open_revs http url db doc_id auth =
     checked_json http (send_typed http (get_auth_type auth) (with_params [(''open_revs'', PStr ''all'')]
       (with_header ''Accept'' ''application/json'' (rq ''GET'' (path [url, db, doc_id])))))"

definition get_open_revs_ids :: "'w http \<Rightarrow> string \<Rightarrow> string \<Rightarrow> string \<Rightarrow> auth \<Rightarrow> ('w, pyval list) io" where
  "get_open_revs_ids http url db doc_id auth =
     bindIO (get_open_revs http url db doc_id auth) (\<lambda>resp_obj.
       liftIO (mapR_in resp_obj (\<lambda>obj. py_item2 obj ''ok'' ''_rev'')))"

definition deleted_rev :: "pyval \<Rightarrow> pyval list res" where
  "deleted_rev obj = (case bindR (py_item2 obj ''ok'' ''_deleted'') (\<lambda>_. py_item2 obj ''ok'' ''_rev'') of
       Inr r \<Rightarrow> Inr [r]
     | Inl e \<Rightarrow> if exn_class e = ''KeyError'' then Inr [] else Inl e)"

definition get_deleted_open_rev_ids :: "'w http \<Rightarrow> string \<Rightarrow> string \<Rightarrow> string \<Rightarrow> auth \<Rightarrow> ('w, pyval list) io" where
  "get_deleted_open_rev_ids http url db doc_id auth =
     bindIO (get_open_revs http url db doc_id auth) (\<lambda>resp_obj.
       liftIO (bindR (mapR_in resp_obj deleted_rev) (\<lambda>rs. Inr (concat rs))))"

definition verify_open_revs :: "'w http \<Rightarrow> string \<Rightarrow> string \<Rightarrow> string \<Rightarrow> pyval list \<Rightarrow> auth \<Rightarrow> ('w, unit) io" where
  "verify_open_revs http url db doc_id expected_open_revs auth =
     (let rt = http_runtime http in
      bindIO (get_open_revs_ids http url db doc_id auth) (\<lambda>open_revs. liftIO
       (if length open_revs \<noteq> length expected_open_revs then
          raise_exc ''AssertionError'' (''Unexpected open_revisions length! Expected: '' @ nat_str (length expected_open_revs)
            @ '', Actual: '' @ nat_str (length open_revs))
        else bindR (mapR py_hashable (open_revs @ expected_open_revs)) (\<lambda>_.
          py_assert (same_set open_revs expected_open_revs)
            (''Unexpected open_revisions found! Expected: '' @ py_repr rt (PList expected_open_revs)
             @ '', Actual: '' @ py_repr rt (PList open_revs))))))"

section \<open>Compaction\<close>

text \<open>The loop over the rows ends at the first document with more than 20 revisions.\<close>

fun compact_rows :: "'w http \<Rightarrow> string \<Rightarrow> string \<Rightarrow> pyval list \<Rightarrow> ('w, bool) io" where
  "compact_rows http url db [] = returnIO True"
| "compact_rows http url db (row # rows) =
     bindIO (liftIO (py_item row ''id'')) (\<lambda>doc_id.
     bindIO (get_doc http url db (py_str (http_runtime http) doc_id) NoAuth PNone True None None) (\<lambda>doc.
     bindIO (liftIO (bindR (py_item doc ''_revs_info'') py_iter)) (\<lambda>revs_info.
     if length revs_info > 20 then returnIO False
     else
       bindIO (liftIO (mapR (\<lambda>rev_info. py_item rev_info ''status'') revs_info)) (\<lambda>sts.
       bindIO (liftIO (py_assert (length (filter (py_eq (PStr ''available'')) sts) = 1) ''Revisions remain after compaction'')) (\<lambda>_.
       compact_rows http url db rows)))))"

definition compact_round :: "'w http \<Rightarrow> string \<Rightarrow> string \<Rightarrow> auth \<Rightarrow> unit \<Rightarrow> ('w, unit + unit) io" where
  "compact_round http url db auth u =
     bindIO (checked_json http (send_basic http auth (rq ''GET'' (path [url, db, ''_all_docs''])))) (\<lambda>resp_obj.
     bindIO (liftIO (bindR (py_item resp_obj ''rows'') py_iter)) (\<lambda>rows.
     bindIO (compact_rows http url db rows) (\<lambda>all_revs_compacted.
     returnIO (if all_revs_compacted then Inr () else Inl ()))))"

definition compact_database :: "'w http \<Rightarrow> 'w clock \<Rightarrow> string \<Rightarrow> string \<Rightarrow> auth \<Rightarrow> string option \<Rightarrow> string option \<Rightarrow> nat \<Rightarrow>
    ('w, unit) dio" where
  "compact_database http clk url db auth scope collection fuel =
     bindD (liftD (bindIO (liftIO (keyspace_of db scope collection)) (\<lambda>keyspace.
        checked (send_basic http auth (rq ''POST'' (path [url, keyspace, ''_compact'']))))))
     (\<lambda>_. poll clk CLIENT_REQUEST_TIMEOUT 1 (timed_out ''Verify Docs Present'') (compact_round http url db auth) fuel ())"

section \<open>Deleting and purging\<close>

definition delete_doc :: "'w http \<Rightarrow> string \<Rightarrow> string \<Rightarrow> string \<Rightarrow> pyval \<Rightarrow> auth \<Rightarrow> pyval \<Rightarrow> string option \<Rightarrow> string option \<Rightarrow>
    ('w, pyval) io" where
  "delete_doc http url db doc_id rev_arg auth timeout scope collection =
     (let ta = get_auth_type auth;
          params = (if rev_arg = PNone then [] else [(''rev'', rev_arg)]);
          params = (if timeout \<noteq> PNone then dict_set params ''timeout'' timeout else params);
          keyspace = (case (scope, collection) of (Some s, Some c) \<Rightarrow> db @ ''.'' @ s @ ''.'' @ c | _ \<Rightarrow> db);
          r = with_params params (rq ''DELETE'' (path [url, keyspace, doc_id]))
      in checked_json http (send_typed http ta
           (if fst ta = Auth_http_basic then r\<lparr>rq_timeout := py_num timeout\<rparr> else r)))"

abbreviation delete_rev :: "'w http \<Rightarrow> string \<Rightarrow> string \<Rightarrow> string \<Rightarrow> pyval \<Rightarrow> auth \<Rightarrow> ('w, pyval) io" where
  "delete_rev http url db doc_id rev_arg auth \<equiv> delete_doc http url db doc_id rev_arg auth PNone None None"

definition delete_docs :: "'w http \<Rightarrow> string \<Rightarrow> string \<Rightarrow> pyval \<Rightarrow> auth \<Rightarrow> ('w, unit) io" where
  "delete_docs http url db docs auth = for_doc_ids http docs (\<lambda>i.
     bindIO (get_latest_rev http url db i auth) (\<lambda>latest_rev.
     bindIO (delete_rev http url db i latest_rev auth) (\<lambda>_. returnIO ())))"

definition get_conflict_revs :: "'w http \<Rightarrow> string \<Rightarrow> string \<Rightarrow> pyval \<Rightarrow> auth \<Rightarrow> ('w, pyval) io" where
  "get_conflict_revs http url db doc auth =
     bindIO (liftIO (py_item doc ''id'')) (\<lambda>i.
     bindIO (get_doc_plain http url db (py_str (http_runtime http) i) auth) (\<lambda>doc_resp. liftIO (py_item doc_resp ''_conflicts'')))"

text \<open>
  The conflicting revisions are deleted without authentication; the check at the end looks for
  \<open>_conflicts\<close> in the document that was passed in, not in the answer of the server.
\<close>

definition delete_doc_conflicts :: "'w http \<Rightarrow> string \<Rightarrow> string \<Rightarrow> auth \<Rightarrow> pyval \<Rightarrow> ('w, unit) io" where
  "delete_doc_conflicts http url db auth doc =
     bindIO (liftIO (py_item doc ''id'')) (\<lambda>v. let i = py_str (http_runtime http) v in
     bindIO (get_doc_plain http url db i auth) (\<lambda>doc_resp.
     bindIO (liftIO (py_in_str ''_conflicts'' doc_resp)) (\<lambda>has.
     if has then bindIO (liftIO (py_item doc_resp ''_conflicts'')) (\<lambda>cs.
       for_in cs (\<lambda>r. bindIO (delete_rev http url db i r NoAuth) (\<lambda>_. returnIO ())))
     else returnIO ())))"

definition check_doc_conflicts :: "'w http \<Rightarrow> string \<Rightarrow> string \<Rightarrow> auth \<Rightarrow> pyval \<Rightarrow> ('w, unit) io" where
  "check_doc_conflicts http url db auth doc =
     bindIO (liftIO (py_item doc ''id'')) (\<lambda>v.
     bindIO (get_doc_plain http url db (py_str (http_runtime http) v) auth) (\<lambda>doc_resp. liftIO
      (bindR (py_in_str ''_conflicts'' doc) (\<lambda>has.
       if has then bindR (bindR (py_item doc_resp ''_conflicts'') py_len) (\<lambda>n.
         py_assert (n = 0) (''Some conflicts still present after deletion: doc='' @ py_repr (http_runtime http) doc))
       else Inr ()))))"

definition delete_conflicts :: "'w http \<Rightarrow> string \<Rightarrow> string \<Rightarrow> pyval \<Rightarrow> auth \<Rightarrow> ('w, unit) io" where
  "delete_conflicts http url db docs auth =
     bindIO (for_in docs (delete_doc_conflicts http url db auth)) (\<lambda>_. for_in docs (check_doc_conflicts http url db auth))"

text \<open>What a 404 has to say, by the kind of server.\<close>

definition has_keys :: "pyval \<Rightarrow> string list \<Rightarrow> bool res" where
  "has_keys v ks = foldR (\<lambda>b k. if b then py_in_str k v else Inr False) True ks"

definition item_is :: "pyval \<Rightarrow> string \<Rightarrow> pyval \<Rightarrow> string \<Rightarrow> unit res" where
  "item_is v k x msg = bindR (py_item v k) (\<lambda>y. py_assert (py_eq y x) msg)"

definition check_not_found :: "server_type \<Rightarrow> platform \<Rightarrow> string \<Rightarrow> pyval \<Rightarrow> unit res" where
  "check_not_found server_type server_platform reason resp_obj =
     (let err = item_is resp_obj ''error'' (PStr ''not_found'') (''error should be '' @ repr_str ''not_found'');
          stat = item_is resp_obj ''status'' (PInt 404) (''status should be '' @ repr_str ''404'');
          reas = item_is resp_obj ''reason'' (PStr reason) (''reason should be '' @ [chr_squote] @ reason @ [chr_squote]) in
      if server_type = syncgateway then
        bindR (has_keys resp_obj [''error'', ''reason'']) (\<lambda>b.
        bindR (py_assert b ''Response should have an error and reason'') (\<lambda>_. bindR err (\<lambda>_. reas)))
      else if server_type = listener \<and> server_platform = android then
        bindR (has_keys resp_obj [''error'', ''status'']) (\<lambda>b.
        bindR (py_assert b ''Response should have an error and status'') (\<lambda>_. bindR err (\<lambda>_. stat)))
      else if server_type = listener \<and> (server_platform = macosx \<or> server_platform = net) then
        bindR (has_keys resp_obj [''error'', ''status'', ''reason'']) (\<lambda>b.
        bindR (py_assert b ''Response should have an error, status, and reason'') (\<lambda>_.
        bindR err (\<lambda>_. bindR stat (\<lambda>_. reas))))
      else raise_exc ''ValueError'' ''Unsupported server type and platform'')"

definition check_deleted :: "'w http \<Rightarrow> string \<Rightarrow> string \<Rightarrow> auth_type \<times> auth \<Rightarrow> server_type \<Rightarrow> platform \<Rightarrow> string \<Rightarrow>
    pyval list \<Rightarrow> pyval \<Rightarrow> ('w, pyval list) io" where
  "check_deleted http url db ta server_type server_platform reason not_deleted doc =
     bindIO (liftIO (py_item doc ''id'')) (\<lambda>i.
     bindIO (send_typed http ta (rq ''GET'' (path [url, db, py_str (http_runtime http) i]))) (\<lambda>resp. liftIO
      (bindR (resp_json http resp) (\<lambda>resp_obj.
       if rs_status resp = 200 then Inr (not_deleted @ [resp_obj])
       else if rs_status resp = 404 then
         bindR (check_not_found server_type server_platform reason resp_obj) (\<lambda>_. Inr not_deleted)
       else raise_exc ''HTTPError'' (''Unexpected error for: '' @ int_str (rs_status resp))))))"

definition deleted_round :: "'w http \<Rightarrow> string \<Rightarrow> string \<Rightarrow> pyval \<Rightarrow> auth_type \<times> auth \<Rightarrow> server_type \<Rightarrow> platform \<Rightarrow> string \<Rightarrow>
    unit \<Rightarrow> ('w, unit + unit) io" where
  "deleted_round http url db docs ta server_type server_platform reason u =
     bindIO (liftIO (py_iter docs)) (\<lambda>ds.
     bindIO (foldIO (check_deleted http url db ta server_type server_platform reason) [] ds) (\<lambda>not_deleted.
     returnIO (if length not_deleted = 0 then Inr () else Inl ())))"

definition verify_docs_deleted :: "'w http \<Rightarrow> 'w clock \<Rightarrow> string \<Rightarrow> string \<Rightarrow> pyval \<Rightarrow> auth \<Rightarrow> string \<Rightarrow> nat \<Rightarrow> ('w, unit) dio" where
  "verify_docs_deleted http clk url db docs auth reason fuel =
     bindD (liftD (get_server_type http url NoAuth)) (\<lambda>server_type.
     bindD (liftD (get_server_platform http url)) (\<lambda>server_platform.
     poll clk CLIENT_REQUEST_TIMEOUT 1 (timed_out ''Verify Docs Deleted'')
       (deleted_round http url db docs (get_auth_type auth) server_type server_platform reason) fuel ()))"

text \<open>A value used as the key of a dictionary that is then written as JSON.\<close>

definition json_key :: "py_runtime \<Rightarrow> pyval \<Rightarrow> string res" where
  "json_key rt v = (case v of
       PBool b \<Rightarrow> Inr (if b then ''true'' else ''false'') | PNone \<Rightarrow> Inr ''null''
     | PInt _ \<Rightarrow> Inr (py_str rt v) | PFloat _ \<Rightarrow> Inr (py_str rt v) | PStr s \<Rightarrow> Inr s
     | _ \<Rightarrow> bindR (py_hashable v) (\<lambda>_. raise_exc ''TypeError''
         (''keys must be str, int, float, bool or None, not '' @ py_type v)))"

definition post_purge :: "'w http \<Rightarrow> string \<Rightarrow> string \<Rightarrow> auth \<Rightarrow> pyval \<Rightarrow> pyval \<Rightarrow> ('w, pyval) io" where
  "post_purge http url keyspace auth doc_id revs =
     bindIO (liftIO (json_key (http_runtime http) doc_id)) (\<lambda>k.
     checked_json http (send_json_basic http auth ''POST'' (path [url, keyspace, ''_purge'']) (PDict [(k, PList [revs])])))"

definition purge_doc :: "'w http \<Rightarrow> string \<Rightarrow> string \<Rightarrow> pyval \<Rightarrow> auth \<Rightarrow> string option \<Rightarrow> string option \<Rightarrow> ('w, pyval) io" where
  "purge_doc http url db doc auth scope collection =
     bindIO (get_server_type http url auth) (\<lambda>server_type.
     bindIO (liftIO (if server_type = syncgateway
        then bindR (py_item doc ''_id'') (\<lambda>i. Inr (i, PStr ''*''))
        else bindR (py_item doc ''id'') (\<lambda>i. bindR (py_item doc ''rev'') (\<lambda>r. Inr (i, r))))) (\<lambda>(i, revs).
     bindIO (liftIO (keyspace_of db scope collection)) (\<lambda>keyspace. post_purge http url keyspace auth i revs)))"

definition purge_docs :: "'w http \<Rightarrow> string \<Rightarrow> string \<Rightarrow> pyval \<Rightarrow> auth \<Rightarrow> ('w, pyval list) io" where
  "purge_docs http url db docs auth =
     bindIO (get_server_type http url auth) (\<lambda>server_type.
     map_in docs (\<lambda>doc.
       bindIO (liftIO (if server_type = syncgateway
          then bindR (py_in_str ''_id'' doc) (\<lambda>has. bindR (py_item doc (if has then ''_id'' else ''id'')) (\<lambda>i. Inr (i, PStr ''*'')))
          else bindR (py_item doc ''id'') (\<lambda>i. bindR (py_item doc ''rev'') (\<lambda>r. Inr (i, r))))) (\<lambda>(i, revs).
       post_purge http url db auth i revs)))"

section \<open>The loops return\<close>

lemma onward_get_doc [time_intros]:
  "http_onward time http \<Longrightarrow> onward time (get_doc http url db i auth r ri sc co)"
  by (auto simp: get_doc_def Let_def intro!: time_intros)

lemma onward_compact_rows [time_intros]:
  "http_onward time http \<Longrightarrow> onward time (compact_rows http url db rows)"
  by (induction rows) (auto intro!: time_intros)

lemma compact_round_onward: "http_onward time http \<Longrightarrow> onward time (compact_round http url db auth u)"
  by (auto simp: compact_round_def intro!: time_intros)

lemma deleted_round_onward: "http_onward time http \<Longrightarrow> onward time (deleted_round http url db docs ta st pf reason u)"
  by (auto simp: deleted_round_def check_deleted_def intro!: time_intros)

interpretation compact_loop: polling time 1 "compact_round http url db auth" "http_onward time http"
  for time http url db auth
  by unfold_locales (simp_all add: compact_round_onward)

interpretation deleted_loop: polling time 1 "deleted_round http url db docs ta st pf reason" "http_onward time http"
  for time http url db docs ta st pf reason
  by unfold_locales (simp_all add: deleted_round_onward)

lemma bindD_liftD_returns: "(\<And>a w'. \<exists>r. f a w' = Some r) \<Longrightarrow> \<exists>r. bindD (liftD m) f w = Some r"
  by (simp add: bindD_liftD split: prod.splits sum.splits)

text \<open>
  \<open>compact_database\<close> returns, whatever the server answers, if the clock advances and requests
  do not set it back; 182 rounds of its loop are enough.
\<close>

theorem compact_database_returns:
  assumes "ticks clk time" "http_onward time http" "182 \<le> fuel"
  shows "\<exists>r. compact_database http clk url db auth scope collection fuel w = Some r"
  unfolding compact_database_def
  by (rule bindD_liftD_returns, rule compact_loop.returns [OF assms(1,2)])
    (use assms(3) in \<open>simp_all add: CLIENT_REQUEST_TIMEOUT_def poll_fuel_def\<close>)

theorem compact_database_returns_witness:
  "\<exists>r. compact_database (quiet_http ''{}'') step_clock ''http://h:4985'' ''db'' NoAuth None None 182 0 = Some r"
  by (rule compact_database_returns [OF step_clock_ticks quiet_http_onward]) simp

lemma verify_docs_deleted_returns:
  assumes "ticks clk time" "http_onward time http" "182 \<le> fuel"
  shows "\<exists>r. verify_docs_deleted http clk url db docs auth reason fuel w = Some r"
  unfolding verify_docs_deleted_def
  by (rule bindD_liftD_returns, rule bindD_liftD_returns, rule deleted_loop.returns [OF assms(1,2)])
    (use assms(3) in \<open>simp_all add: CLIENT_REQUEST_TIMEOUT_def poll_fuel_def\<close>)

section \<open>What verification establishes\<close>

lemma check_deleted_kept:
  assumes "check_deleted http url db ta st pf reason nd doc w = (Inr nd', w')"
  obtains i v resp where "py_item doc ''id'' = Inr i"
    "send_typed http ta (rq ''GET'' (path [url, db, py_str (http_runtime http) i])) w = (Inr resp, w')"
    "nd' = nd @ [v] \<or> rs_status resp = 404 \<and> nd' = nd"
  using assms by (auto simp: check_deleted_def bindR_eq_Inr elim!: bindIO_cases split: if_splits)

lemma check_deleted_all:
  assumes "foldIO (check_deleted http url db ta st pf reason) nd ds w = (Inr nd', w')" "length nd' = 0"
  shows "nd = [] \<and> (\<forall>doc \<in> set ds. \<exists>i v resp v'. py_item doc ''id'' = Inr i \<and> rs_status resp = 404 \<and>
     send_typed http ta (rq ''GET'' (path [url, db, py_str (http_runtime http) i])) v = (Inr resp, v'))"
  using assms
proof (induction ds arbitrary: nd w)
  case (Cons doc ds)
  then obtain nd1 w1 where r: "check_deleted http url db ta st pf reason nd doc w = (Inr nd1, w1)"
    "foldIO (check_deleted http url db ta st pf reason) nd1 ds w1 = (Inr nd', w')"
    by (auto elim!: bindIO_cases)
  from Cons.IH [OF r(2) Cons.prems(2)] have "nd1 = []" "\<forall>doc \<in> set ds. \<exists>i v resp v'. py_item doc ''id'' = Inr i \<and>
     rs_status resp = 404 \<and> send_typed http ta (rq ''GET'' (path [url, db, py_str (http_runtime http) i])) v = (Inr resp, v')" by auto
  with r(1) show ?case by (elim check_deleted_kept) auto
qed auto


text \<open>A Sync Gateway that has no documents.\<close>

definition gone_http :: "rat http" where
  "gone_http = \<lparr>http_send = (\<lambda>r. returnIO (if rq_url r = ''http://h''
      then text_response 200 (''{'' @ dq ''vendor'' @ '': {'' @ dq ''name'' @ '': '' @ dq ''Couchbase Sync Gateway'' @ ''}}'')
      else text_response 404 (''{'' @ dq ''error'' @ '': '' @ dq ''not_found'' @ '', '' @ dq ''reason'' @ '': '' @ dq ''deleted'' @ ''}''))),
     http_runtime = bare_runtime\<rparr>"


end
