(* ===== verification/Rest_Write.thy ===== *)
theory Rest_Write
  imports Rest_Docs
begin

text \<open>
  \<open>keywords/MobileRestClient.py\<close>, writing documents: adding single documents and conflicting revisions,
  the update loops, and the bulk endpoints. \<open>uuid4\<close> is \<open>ent_uuid4\<close>, \<open>time.sleep\<close> the clock's; a generator or
  updater argument is an optional effectful computation. The thread pool of \<open>update_docs\<close> is a parameter that
  runs a list of tasks and collects their results.
\<close>

section \<open>Adding a document\<close>

definition my_json :: "'w http \<Rightarrow> string \<Rightarrow> string \<Rightarrow> pyval \<Rightarrow> ('w, http_request) io" where
  "my_json http meth url data =
     bindIO (liftIO (my_dumps (http_runtime http) data)) (\<lambda>d. returnIO (with_data d (rq meth url)))"

text \<open>The document passed in is changed; it is returned with the answer.\<close>

definition add_doc :: "'w http \<Rightarrow> string \<Rightarrow> string \<Rightarrow> pyval \<Rightarrow> auth \<Rightarrow> bool \<Rightarrow> string option \<Rightarrow> string option \<Rightarrow> ('w, pyval \<times> pyval) io" where
  "add_doc http url db doc auth use_post scope collection =
     bindIO (liftIO (py_set doc ''updates'' (PInt 0))) (\<lambda>doc.
     bindIO (liftIO (keyspace_of db scope collection)) (\<lambda>keyspace.
     bindIO (if use_post then my_json http ''POST'' (path [url, keyspace, []]) doc
             else bindIO (liftIO (py_item doc ''_id'')) (\<lambda>i.
               my_json http ''PUT'' (path [url, keyspace, py_str (http_runtime http) i]) doc)) (\<lambda>r.
     bindIO (checked_json http (send_typed http (get_auth_type auth) r)) (\<lambda>resp_obj. returnIO (doc, resp_obj)))))"

definition put_doc :: "'w http \<Rightarrow> string \<Rightarrow> string \<Rightarrow> string \<Rightarrow> pyval \<Rightarrow> pyval \<Rightarrow> auth \<Rightarrow> ('w, pyval) io" where
  "put_doc http url db doc_id doc_body rev_arg auth =
     bindIO (post_json http ''PUT'' (path [url, db, doc_id]) doc_body) (\<lambda>r.
     checked_json http (send_typed http (get_auth_type auth) (with_params [(''rev'', rev_arg)] r)))"

section \<open>Conflicts\<close>

definition parent_revs :: "pyval \<Rightarrow> pyval list res" where
  "parent_revs parent_revisions = (case parent_revisions of
       PStr _ \<Rightarrow> Inr [parent_revisions]
     | PList rs \<Rightarrow> Inr rs
     | _ \<Rightarrow> raise_exc ''TypeError'' ''Add Conflict expects a list or str for parent_revisions'')"

definition decoded :: "pyval \<Rightarrow> pyval" where
  "decoded v = (case v of PBytes b \<Rightarrow> PStr b | _ \<Rightarrow> v)"

definition revisions_dict :: "string list \<Rightarrow> int \<Rightarrow> pyval" where
  "revisions_dict digests generation = PDict [(''ids'', PList (map PStr digests)), (''start'', PInt generation)]"

text \<open>The document with its new revision; the generation and the digest of that revision.\<close>

definition with_new_revision :: "pyval \<Rightarrow> string \<Rightarrow> (pyval \<times> int \<times> string) res" where
  "with_new_revision doc new_revision =
     (let new_revision_parts = split_rev new_revision in
      bindR (py_int_of (hd new_revision_parts)) (\<lambda>new_revision_generation.
      bindR (list_item new_revision_parts 1) (\<lambda>new_revision_digest.
      bindR (py_set doc ''_rev'' (PStr new_revision)) (\<lambda>doc.
      bindR (py_set doc ''_revisions'' (revisions_dict [new_revision_digest] new_revision_generation)) (\<lambda>doc.
      Inr (doc, new_revision_generation, new_revision_digest))))))"

definition with_attachment :: "pyval \<Rightarrow> attachment list \<Rightarrow> pyval res" where
  "with_attachment doc atts = bindR (list_item atts 0) (\<lambda>a.
     py_set doc ''_attachments'' (PDict [(att_name a, PDict [(''data'', decoded (att_data a))])]))"

definition with_parents :: "pyval \<Rightarrow> int \<Rightarrow> string \<Rightarrow> pyval list \<Rightarrow> pyval res" where
  "with_parents doc generation digest parents =
     bindR (mapR get_rev_generation_digest parents) (\<lambda>gds.
     py_set doc ''_revisions'' (revisions_dict (digest # map snd gds) generation))"

definition add_conflict :: "'w http \<Rightarrow> 'w att_env \<Rightarrow> string \<Rightarrow> string \<Rightarrow> string \<Rightarrow> pyval \<Rightarrow> string \<Rightarrow> string option \<Rightarrow> auth \<Rightarrow>
    ('w, pyval) io" where
  "add_conflict http env url db doc_id parent_revisions new_revision attachment_name auth =
     bindIO (liftIO (parent_revs parent_revisions)) (\<lambda>parents.
     let ta = get_auth_type auth in
     bindIO (get_doc_plain http url db doc_id (snd ta)) (\<lambda>doc.
     bindIO (liftIO (with_new_revision doc new_revision)) (\<lambda>(doc, generation, digest).
     bindIO (case attachment_name of None \<Rightarrow> returnIO doc
        | Some n \<Rightarrow> bindIO (load_from_data_dir env [n]) (\<lambda>atts. liftIO (with_attachment doc atts))) (\<lambda>doc.
     bindIO (liftIO (with_parents doc generation digest parents)) (\<lambda>doc.
     bindIO (post_json http ''PUT'' (path [url, db, doc_id]) doc) (\<lambda>r.
     bindIO (checked (send_typed http ta (with_params [(''new_edits'', PStr ''false'')] r))) (\<lambda>_.
     returnIO (PDict [(''id'', PStr doc_id), (''rev'', PStr new_revision)]))))))))"

section \<open>Updates\<close>

text \<open>The arguments of \<open>update_doc\<close> that its loop reads.\<close>

record 'w update_args =
  up_attachment_name :: "string option"
  up_expiry :: pyval
  up_delay :: "rat option"
  up_channels :: pyval
  up_property_updater :: "(pyval \<Rightarrow> ('w, pyval) io) option"
  up_attachment :: pyval

text \<open>One change of the document before it is sent.\<close>

definition updated_body :: "py_runtime \<Rightarrow> 'w att_env \<Rightarrow> 'w update_args \<Rightarrow> string \<Rightarrow> pyval \<Rightarrow> pyval \<Rightarrow> pyval \<Rightarrow> ('w, pyval) io" where
  "updated_body rt env up uid current_update_number current_rev doc =
     bindIO (liftIO (bindR (py_set doc ''random'' (PStr uid)) (\<lambda>doc.
       bindR (py_set doc ''updates'' current_update_number) (\<lambda>doc. py_set doc ''_rev'' current_rev)))) (\<lambda>doc.
     bindIO (case up_attachment_name up of
         Some n \<Rightarrow> if \<not> py_truth (up_attachment up) then
             bindIO (load_from_data_dir env [n]) (\<lambda>atts. liftIO (bindR (list_item atts 0) (\<lambda>a.
               py_set doc ''_attachments'' (PDict [(att_name a, PDict [(''data'', att_data a)])]))))
           else returnIO doc
       | None \<Rightarrow> returnIO doc) (\<lambda>doc.
     bindIO (liftIO (if py_truth (up_attachment up) then py_set doc ''_attachments'' (up_attachment up) else Inr doc)) (\<lambda>doc.
     bindIO (liftIO (if up_expiry up \<noteq> PNone then py_set doc ''_exp'' (up_expiry up) else Inr doc)) (\<lambda>doc.
     bindIO (liftIO (if up_channels up \<noteq> PNone
        then bindR (verify_is_list rt (up_channels up)) (\<lambda>_. py_set doc ''channels'' (up_channels up)) else Inr doc)) (\<lambda>doc.
     (case up_property_updater up of None \<Rightarrow> returnIO doc | Some f \<Rightarrow> f doc))))))"

text \<open>The local variables of the loop; the answer is unbound before the first round.\<close>

type_synonym update_vars = "pyval \<times> pyval \<times> pyval \<times> pyval option"

definition update_doc_round :: "'w http \<Rightarrow> 'w clock \<Rightarrow> 'w entropy \<Rightarrow> 'w att_env \<Rightarrow> string \<Rightarrow> string \<Rightarrow> string \<Rightarrow>
    auth_type \<times> auth \<Rightarrow> 'w update_args \<Rightarrow> update_vars \<Rightarrow> nat \<Rightarrow> ('w, update_vars) io" where
  "update_doc_round http clk ent env url db doc_id ta up = (\<lambda>(doc, current_update_number, current_rev, _) i.
     bindIO (ent_uuid4 ent) (\<lambda>uid.
     bindIO (updated_body (http_runtime http) env up uid current_update_number current_rev doc) (\<lambda>doc.
     bindIO (my_json http ''PUT'' (path [url, db, doc_id]) doc) (\<lambda>r.
     bindIO (checked_json http (send_typed http ta r)) (\<lambda>resp_obj.
     bindIO (liftIO (py_add1 current_update_number)) (\<lambda>current_update_number.
     bindIO (liftIO (py_item resp_obj ''rev'')) (\<lambda>current_rev.
     bindIO (case up_delay up of None \<Rightarrow> returnIO () | Some d \<Rightarrow> clk_sleep clk d) (\<lambda>_.
     returnIO (doc, current_update_number, current_rev, Some resp_obj)))))))))"

text \<open>\<open>doc["updates"]\<close>, 0 where it is missing or \<open>None\<close>, plus one.\<close>

definition start_updates :: "pyval \<Rightarrow> (pyval \<times> pyval) res" where
  "start_updates doc =
     bindR (case py_item doc ''updates'' of Inr _ \<Rightarrow> Inr doc | Inl _ \<Rightarrow> py_set doc ''updates'' (PInt 0)) (\<lambda>doc.
     bindR (py_item doc ''updates'') (\<lambda>u.
     bindR (if u = PNone then py_set doc ''updates'' (PInt 0) else Inr doc) (\<lambda>doc.
     bindR (py_item doc ''updates'') (\<lambda>u. bindR (py_add1 u) (\<lambda>n. Inr (doc, n))))))"

definition update_doc :: "'w http \<Rightarrow> 'w clock \<Rightarrow> 'w entropy \<Rightarrow> 'w att_env \<Rightarrow> string \<Rightarrow> string \<Rightarrow> string \<Rightarrow> nat \<Rightarrow> auth \<Rightarrow>
    'w update_args \<Rightarrow> bool \<Rightarrow> pyval \<Rightarrow> pyval \<Rightarrow> ('w, pyval) io" where
  "update_doc http clk ent env url db doc_id number_updates auth up remove_expiry rev_arg doc_arg =
     (let ta = get_auth_type auth in
      bindIO (if doc_arg = PNone then get_doc_plain http url db doc_id (snd ta) else returnIO doc_arg) (\<lambda>doc.
      bindIO (liftIO (if rev_arg = PNone then py_item doc ''_rev'' else Inr rev_arg)) (\<lambda>current_rev.
      bindIO (liftIO (start_updates doc)) (\<lambda>(doc, current_update_number).
      bindIO (liftIO (if remove_expiry then py_del doc ''_exp'' else Inr doc)) (\<lambda>doc.
      bindIO (foldIO (update_doc_round http clk ent env url db doc_id ta up) (doc, current_update_number, current_rev, None)
        [0..<number_updates]) (\<lambda>(_, _, _, resp).
      (case resp of
         Some resp_obj \<Rightarrow> returnIO resp_obj
       | None \<Rightarrow> raiseIO (Exn ''UnboundLocalError'' (''local variable '' @ repr_str ''resp_obj'' @ '' referenced before assignment'')))))))))"

text \<open>
  The list of tasks is built first; a document without an id ends the building, and the tasks
  submitted until then still run.
\<close>

fun submitted :: "py_runtime \<Rightarrow> (string \<Rightarrow> ('w, pyval) io) \<Rightarrow> pyval list \<Rightarrow> ('w, pyval) io list \<times> exn option" where
  "submitted rt task [] = ([], None)"
| "submitted rt task (doc # docs) = (case py_item doc ''id'' of
       Inl e \<Rightarrow> ([], Some e)
     | Inr i \<Rightarrow> (let (ts, e) = submitted rt task docs in (task (py_str rt i) # ts, e)))"

definition update_docs :: "'w http \<Rightarrow> 'w clock \<Rightarrow> 'w entropy \<Rightarrow> 'w att_env \<Rightarrow> (('w, pyval) io list \<Rightarrow> ('w, pyval list) io) \<Rightarrow>
    string \<Rightarrow> string \<Rightarrow> pyval list \<Rightarrow> nat \<Rightarrow> auth \<Rightarrow> 'w update_args \<Rightarrow> ('w, pyval list) io" where
  "update_docs http clk ent env pool url db docs number_updates auth up =
     (let (tasks, e) = submitted (http_runtime http)
        (\<lambda>doc_id. update_doc http clk ent env url db doc_id number_updates auth up False PNone PNone) docs
      in case e of
           None \<Rightarrow> pool tasks
         | Some err \<Rightarrow> tryIO (bindIO (pool tasks) (\<lambda>_. raiseIO err)) (\<lambda>_. raiseIO err))"

definition update_doc_with_content :: "'w http \<Rightarrow> string \<Rightarrow> string \<Rightarrow> string \<Rightarrow> string \<Rightarrow> pyval \<Rightarrow> auth \<Rightarrow> pyval \<Rightarrow> pyval \<Rightarrow>
    ('w, pyval) io" where
  "update_doc_with_content http url db doc_id key value auth channels doc_arg =
     (let ta = get_auth_type auth in
      bindIO (if doc_arg = PNone then get_doc_plain http url db doc_id (snd ta) else returnIO doc_arg) (\<lambda>doc.
      bindIO (liftIO (if channels \<noteq> PNone
         then bindR (verify_is_list (http_runtime http) channels) (\<lambda>_. py_set doc ''channels'' channels) else Inr doc)) (\<lambda>doc.
      bindIO (liftIO (py_set doc key value)) (\<lambda>doc.
      bindIO (my_json http ''PUT'' (path [url, db, doc_id]) doc) (\<lambda>r.
      checked_json http (send_typed http ta r))))))"

section \<open>Many documents\<close>

definition add_docs_body :: "'w http \<Rightarrow> 'w entropy \<Rightarrow> string \<Rightarrow> string \<Rightarrow> pyval \<Rightarrow> auth \<Rightarrow> pyval \<Rightarrow> pyval \<Rightarrow>
    ('w, attachment list) io option \<Rightarrow> pyval \<Rightarrow> string option \<Rightarrow> string option \<Rightarrow> nat \<Rightarrow> ('w, pyval) io" where
  "add_docs_body http ent url db id_prefix auth channels generator attachments_generator expiry scope collection i =
     bindIO (if generator = PStr ''four_k'' then four_k (PList [])
             else if generator = PStr ''simple_user'' then simple_user ent else simple ent) (\<lambda>doc_body.
     bindIO (liftIO (if channels \<noteq> PNone then py_set doc_body ''channels'' channels else Inr doc_body)) (\<lambda>doc_body.
     bindIO (case attachments_generator of None \<Rightarrow> returnIO doc_body
        | Some g \<Rightarrow> bindIO g (\<lambda>attachments. liftIO (py_set doc_body ''_attachments'' (attachments_dict attachments)))) (\<lambda>doc_body.
     bindIO (liftIO (if expiry \<noteq> PNone then py_set doc_body ''_exp'' expiry else Inr doc_body)) (\<lambda>doc_body.
     bindIO (if id_prefix = PNone then ent_uuid4 ent
             else returnIO (py_str (http_runtime http) id_prefix @ ''_'' @ nat_str i)) (\<lambda>doc_id.
     bindIO (liftIO (py_set doc_body ''_id'' (PStr doc_id))) (\<lambda>doc_body.
     bindIO (add_doc http url db doc_body auth False scope collection) (\<lambda>(doc_body, doc_obj).
     liftIO (if Option.is_none attachments_generator then Inr doc_obj
       else bindR (py_item doc_body ''_attachments'') (\<lambda>a. bindR (dict_attr a ''keys'') (\<lambda>atts.
         py_set doc_obj ''attachments'' (PList (map PStr (dict_keys atts)))))))))))))"

definition add_docs :: "'w http \<Rightarrow> 'w entropy \<Rightarrow> string \<Rightarrow> string \<Rightarrow> nat \<Rightarrow> pyval \<Rightarrow> auth \<Rightarrow> pyval \<Rightarrow> pyval \<Rightarrow>
    ('w, attachment list) io option \<Rightarrow> pyval \<Rightarrow> string option \<Rightarrow> string option \<Rightarrow> ('w, pyval list) io" where
  "add_docs http ent url db number id_prefix auth channels generator attachments_generator expiry scope collection =
     bindIO (liftIO (if channels \<noteq> PNone then verify_is_list (http_runtime http) channels else Inr ())) (\<lambda>_.
     bindIO (seqIO (map (add_docs_body http ent url db id_prefix auth channels generator attachments_generator expiry
        scope collection) [0..<number])) (\<lambda>added_docs.
     if length added_docs \<noteq> number
     then raiseIO (Exn ''AssertionError'' (''Client was not able to add all docs to: '' @ url))
     else returnIO added_docs))"

text \<open>The body of \<open>_bulk_docs\<close>, and the check of its answer.\<close>

definition bulk_body :: "server_type \<Rightarrow> pyval list \<Rightarrow> pyval" where
  "bulk_body server_type docs = (if server_type = listener
     then PDict [(''docs'', PList docs), (''new_edits'', PBool True)] else PDict [(''docs'', PList docs)])"

definition no_errors :: "string \<Rightarrow> pyval \<Rightarrow> unit res" where
  "no_errors msg resp_obj = bindR (mapR_in resp_obj (\<lambda>doc_resp.
     bindR (py_in_str ''error'' doc_resp) (\<lambda>e. if e then raise_exc ''RestError'' msg else Inr ()))) (\<lambda>_. Inr ())"

definition add_bulk_docs :: "'w http \<Rightarrow> string \<Rightarrow> string \<Rightarrow> pyval list \<Rightarrow> auth \<Rightarrow> string option \<Rightarrow> string option \<Rightarrow> ('w, pyval) io" where
  "add_bulk_docs http url db docs auth scope collection =
     bindIO (get_server_type http url auth) (\<lambda>server_type.
     let ta = get_auth_type auth in
     bindIO (liftIO (keyspace_of db scope collection)) (\<lambda>keyspace.
     bindIO ((if fst ta = Auth_session then my_json else post_json) http ''POST'' (path [url, keyspace, ''_bulk_docs''])
       (bulk_body server_type docs)) (\<lambda>r.
     bindIO (checked_json http (send_typed http ta r)) (\<lambda>resp_obj.
     bindIO (liftIO (no_errors ''Error while adding bulk docs!'' resp_obj)) (\<lambda>_. returnIO resp_obj)))))"

text \<open>The server is asked for its type with the converted authentication, which is not a pair for the administrator.\<close>

definition delete_bulk_docs :: "'w http \<Rightarrow> string \<Rightarrow> string \<Rightarrow> pyval list \<Rightarrow> auth \<Rightarrow> ('w, pyval list \<times> pyval) io" where
  "delete_bulk_docs http url db docs auth =
     (let ta = get_auth_type auth in
      bindIO (get_server_type http url (snd ta)) (\<lambda>server_type.
      bindIO (liftIO (mapR (\<lambda>doc. py_set doc ''_deleted'' (PBool True)) docs)) (\<lambda>docs.
      bindIO (post_json http ''POST'' (path [url, db, ''_bulk_docs'']) (bulk_body server_type docs)) (\<lambda>r.
      bindIO (checked_json http (send_typed http ta r)) (\<lambda>resp_obj.
      bindIO (liftIO (no_errors ''Error during deleting docs in bulk'' resp_obj)) (\<lambda>_. returnIO (docs, resp_obj)))))))"

section \<open>Properties\<close>

text \<open>
  The exchanges of an update: each request carries the next counter and the revision the answer
  before it named.
\<close>

fun update_log :: "'w http \<Rightarrow> string \<Rightarrow> int \<Rightarrow> pyval \<Rightarrow> (http_request \<times> http_response) list \<Rightarrow> bool" where
  "update_log http url k r [] = True"
| "update_log http url k r ((req, resp) # xs) \<longleftrightarrow>
     rq_method req = ''PUT'' \<and> rq_url req = url \<and>
     (\<exists>d t v r'. rq_data req = Some t \<and> my_dumps (http_runtime http) (PDict d) = Inr t \<and>
        map_of d ''updates'' = Some (PInt k) \<and> map_of d ''_rev'' = Some r \<and>
        resp_json http resp = Inr v \<and> py_item v ''rev'' = Inr r' \<and> update_log http url (k + 1) r' xs)"

text \<open>A world that is the list of the exchanges so far.\<close>

definition logging :: "(http_request \<times> http_response) list http \<Rightarrow> bool" where
  "logging http \<longleftrightarrow> (\<forall>r w resp w'. http_send http r w = (Inr resp, w') \<longrightarrow> w' = w @ [(r, resp)])"

text \<open>A call that does not touch that world.\<close>

definition silent :: "('w, 'a) io \<Rightarrow> bool" where
  "silent m \<longleftrightarrow> (\<forall>w r w'. m w = (r, w') \<longrightarrow> w' = w)"

text \<open>An update of the counter only.\<close>

definition plain_update :: "'w update_args" where
  "plain_update = \<lparr>up_attachment_name = None, up_expiry = PNone, up_delay = None, up_channels = PNone,
     up_property_updater = None, up_attachment = PNone\<rparr>"

lemma plain_updated_body:
  "updated_body rt env plain_update uid n r (PDict d) =
     returnIO (PDict (dict_set (dict_set (dict_set d ''random'' (PStr uid)) ''updates'' n) ''_rev'' r))"
  by (rule ext) (simp add: updated_body_def plain_update_def)

lemma plain_delay: "up_delay plain_update = None"
  by (simp add: plain_update_def)

lemma logging_send_typed:
  assumes "logging http" "send_typed http ta r w = (Inr resp, w')"
  obtains r' where "w' = w @ [(r', resp)]" "rq_method r' = rq_method r" "rq_url r' = rq_url r" "rq_data r' = rq_data r"
  using assms
  by (auto simp: send_typed_def logging_def split: auth_type.splits elim!: bindIO_cases) fastforce+

lemma update_doc_round_log:
  assumes "logging http" "silent (ent_uuid4 ent)"
    and run: "update_doc_round http clk ent env url db doc_id ta plain_update (PDict d, PInt k, r, x) i w = (Inr s', w')"
  obtains d' r' v req resp where "s' = (PDict d', PInt (k + 1), r', Some v)" "w' = w @ [(req, resp)]"
    "\<And>xs. update_log http (path [url, db, doc_id]) (k + 1) r' xs \<Longrightarrow> update_log http (path [url, db, doc_id]) k r ((req, resp) # xs)"
proof -
  from run obtain uid t resp v r' w1 w2 where
    u: "ent_uuid4 ent w = (Inr uid, w1)" and
    t: "my_dumps (http_runtime http) (PDict (dict_set (dict_set (dict_set d ''random'' (PStr uid)) ''updates'' (PInt k)) ''_rev'' r)) = Inr t" and
    sent: "send_typed http ta (with_data t (rq ''PUT'' (path [url, db, doc_id]))) w1 = (Inr resp, w2)" and
    v: "resp_json http resp = Inr v" "py_item v ''rev'' = Inr r'" and
    s': "s' = (PDict (dict_set (dict_set (dict_set d ''random'' (PStr uid)) ''updates'' (PInt k)) ''_rev'' r), PInt (k + 1), r', Some v)" "w' = w2"
    by (auto simp: update_doc_round_def plain_updated_body my_json_def py_add1_def plain_delay elim!: bindIO_cases checked_json_Inr)
  from assms(2) u have "w1 = w" by (simp add: silent_def)
  with sent obtain req where req: "w2 = w @ [(req, resp)]" "rq_method req = ''PUT''" "rq_url req = path [url, db, doc_id]" "rq_data req = Some t"
    by (auto simp: with_data_def rq_def elim: logging_send_typed [OF assms(1)])
  show thesis
    by (rule that [OF s'(1), of req resp]) (use s'(2) req t v in auto)
qed

lemma update_rounds_log:
  assumes "logging http" "silent (ent_uuid4 ent)"
    and "foldIO (update_doc_round http clk ent env url db doc_id ta plain_update) (PDict d, PInt k, r, x) is w = (Inr s', w')"
  shows "\<exists>xs. w' = w @ xs \<and> length xs = length is \<and> update_log http (path [url, db, doc_id]) k r xs"
  using assms(3)
proof (induction "is" arbitrary: d k r x w)
  case (Cons i "is")
  then obtain s1 w1 where 1: "update_doc_round http clk ent env url db doc_id ta plain_update (PDict d, PInt k, r, x) i w = (Inr s1, w1)"
    and 2: "foldIO (update_doc_round http clk ent env url db doc_id ta plain_update) s1 is w1 = (Inr s', w')"
    by (auto elim: bindIO_cases)
  from update_doc_round_log [OF assms(1,2) 1] obtain d' r' v req resp where
    s1: "s1 = (PDict d', PInt (k + 1), r', Some v)" "w1 = w @ [(req, resp)]"
    "\<And>xs. update_log http (path [url, db, doc_id]) (k + 1) r' xs \<Longrightarrow> update_log http (path [url, db, doc_id]) k r ((req, resp) # xs)"
    by metis
  from Cons.IH [OF 2 [unfolded s1(1)]] obtain xs where
    "w' = w1 @ xs" "length xs = length is" "update_log http (path [url, db, doc_id]) (k + 1) r' xs" by blast
  with s1(2,3) show ?case by (intro exI [of _ "(req, resp) # xs"]) simp
qed simp

text \<open>
  C13: updating a document \<open>n\<close> times sends exactly \<open>n\<close> requests, all of them \<open>PUT\<close>s of that document: the first
  carries the counter after the document's own and its revision, and each later one the next counter
  and the revision the answer before it named. A normal return means \<open>n\<close> was not 0.
\<close>

theorem update_doc_chain:
  assumes "logging http" "silent (ent_uuid4 ent)"
    and "map_of d ''updates'' = Some (PInt k)" "map_of d ''_rev'' = Some r"
    and "update_doc http clk ent env url db doc_id n auth plain_update False PNone (PDict d) w = (Inr resp, w')"
  shows "n \<noteq> 0 \<and> (\<exists>xs. w' = w @ xs \<and> length xs = n \<and> update_log http (path [url, db, doc_id]) (k + 1) r xs)"
proof -
  have st: "start_updates (PDict d) = Inr (PDict d, PInt (k + 1))"
    using assms(3) by (simp add: start_updates_def dict_index_def py_add1_def)
  from assms(5) obtain s' where run: "foldIO (update_doc_round http clk ent env url db doc_id (get_auth_type auth) plain_update)
      (PDict d, PInt (k + 1), r, None) [0..<n] w = (Inr s', w')" and "n \<noteq> 0"
    by (cases n) (auto simp: update_doc_def Let_def st dict_index_def assms(4) elim!: bindIO_cases split: option.splits)
  from update_rounds_log [OF assms(1,2) run] \<open>n \<noteq> 0\<close> show ?thesis by auto
qed

text \<open>A server that accepts every revision and names the next one.\<close>

definition accepting_http :: "(http_request \<times> http_response) list http" where
  "accepting_http = \<lparr>http_send = (\<lambda>r w. let a = text_response 201 (''{'' @ dq ''rev'' @ '': '' @ dq ''2-b'' @ ''}'') in (Inr a, w @ [(r, a)])),
     http_runtime = bare_runtime\<rparr>"

definition still_entropy :: "'w entropy" where
  "still_entropy = \<lparr>ent_choice = (\<lambda>n. returnIO 0), ent_randint = (\<lambda>a b. returnIO a),
     ent_uniform = (\<lambda>a b. returnIO a), ent_uuid4 = returnIO ''u'', ent_now = returnIO ''t''\<rparr>"

definition frozen_clock :: "'w clock" where
  "frozen_clock = \<lparr>clk_time = returnIO 0, clk_sleep = (\<lambda>d. returnIO ())\<rparr>"

definition no_files :: "'w att_env" where
  "no_files = \<lparr>att_read = (\<lambda>p. returnIO []), att_save_png = (\<lambda>_ _ _ _. returnIO ())\<rparr>"

lemma accepting_logging: "logging accepting_http"
  by (simp add: logging_def accepting_http_def Let_def)

lemma still_silent: "silent (ent_uuid4 still_entropy)"
  by (simp add: silent_def still_entropy_def)

lemma accepting_update:
  "\<exists>resp w'. update_doc accepting_http frozen_clock still_entropy no_files ''http://h'' ''db'' ''d0'' 1 NoAuth plain_update False PNone
     (PDict [(''updates'', PInt 4), (''_rev'', PStr ''1-a'')]) [] = (Inr resp, w')"
proof -
  have j: "json_loads bare_runtime (''{'' @ dq ''rev'' @ '': '' @ dq ''2-b'' @ ''}'') = Inr (PDict [(''rev'', PStr ''2-b'')])"
    by (rule json_roundtrip) (simp_all add: json_str_def json_esc_def dq_def)
  obtain t where "json_dumps bare_runtime (PDict [(''updates'', PInt 5), (''_rev'', PStr ''1-a''), (''random'', PStr ''u'')]) = Inr t"
    using json_ok_dumps [of "PDict [(''updates'', PInt 5), (''_rev'', PStr ''1-a''), (''random'', PStr ''u'')]"] by auto
  with j show ?thesis
    by (simp add: update_doc_def start_updates_def py_add1_def dict_index_def update_doc_round_def plain_updated_body plain_delay
        my_json_def my_dumps_def bindIO_def checked_json_def checked_def send_typed_def get_auth_type_def accepting_http_def
        still_entropy_def Let_def text_response_def raise_for_status_def http_error_text_def resp_json_def)
qed

theorem update_doc_chain_witness:
  "\<exists>xs. length xs = 1 \<and> update_log accepting_http (path [''http://h'', ''db'', ''d0'']) (4 + 1) (PStr ''1-a'') xs"
proof -
  obtain resp w' where run: "update_doc accepting_http frozen_clock still_entropy no_files ''http://h'' ''db'' ''d0'' 1 NoAuth
     plain_update False PNone (PDict [(''updates'', PInt 4), (''_rev'', PStr ''1-a'')]) [] = (Inr resp, w')"
    using accepting_update by blast
  have "map_of [(''updates'', PInt 4), (''_rev'', PStr ''1-a'')] ''updates'' = Some (PInt 4)"
    "map_of [(''updates'', PInt 4), (''_rev'', PStr ''1-a'')] ''_rev'' = Some (PStr ''1-a'')" by simp_all
  from update_doc_chain [OF accepting_logging still_silent this run] show ?thesis by blast
qed

text \<open>
  A bulk addition returns only an answer in which no row reports an error: with one such row
  \<open>add_bulk_docs\<close> raises.
\<close>

theorem add_bulk_docs_clean:
  assumes "add_bulk_docs http url db docs auth scope collection w = (Inr (PList rows), w')"
  shows "\<forall>row \<in> set rows. py_in_str ''error'' row = Inr False"
proof
  fix row assume "row \<in> set rows"
  from assms have "no_errors ''Error while adding bulk docs!'' (PList rows) = Inr ()"
    by (auto simp: add_bulk_docs_def Let_def elim!: bindIO_cases)
  then obtain us where "mapR (\<lambda>doc_resp. bindR (py_in_str ''error'' doc_resp)
      (\<lambda>e. if e then raise_exc ''RestError'' ''Error while adding bulk docs!'' else Inr ())) rows = Inr us"
    by (auto simp: no_errors_def mapR_in_def py_iter_def bindR_eq_Inr)
  with \<open>row \<in> set rows\<close> show "py_in_str ''error'' row = Inr False"
    by (auto simp: mapR_Inr_iff list_all2_conv_all_nth in_set_conv_nth bindR_eq_Inr split: if_splits)
qed

text \<open>A Sync Gateway that accepts one document.\<close>

definition bulk_http :: "unit http" where
  "bulk_http = \<lparr>http_send = (\<lambda>r. returnIO (text_response 200 (if rq_method r = ''GET''
      then ''{'' @ dq ''vendor'' @ '': {'' @ dq ''name'' @ '': '' @ dq ''Couchbase Sync Gateway'' @ ''}}''
      else ''[{'' @ dq ''id'' @ '': '' @ dq ''d0'' @ ''}]''))),
     http_runtime = bare_runtime\<rparr>"

lemma bulk_http_texts:
  "json_loads bare_runtime (''{'' @ dq ''vendor'' @ '': {'' @ dq ''name'' @ '': '' @ dq ''Couchbase Sync Gateway'' @ ''}}'') =
     Inr (PDict [(''vendor'', PDict [(''name'', PStr ''Couchbase Sync Gateway'')])])"
  "json_loads bare_runtime (''[{'' @ dq ''id'' @ '': '' @ dq ''d0'' @ ''}]'') = Inr (PList [PDict [(''id'', PStr ''d0'')]])"
  by (rule json_roundtrip; simp add: json_str_def json_esc_def dq_def)+

theorem add_bulk_docs_clean_witness:
  "add_bulk_docs bulk_http ''http://h'' ''db'' [PDict [(''_id'', PStr ''d0'')]] NoAuth None None () =
      (Inr (PList [PDict [(''id'', PStr ''d0'')]]), ()) \<and> py_in_str ''error'' (PDict [(''id'', PStr ''d0'')]) = Inr False"
proof -
  obtain t where t: "json_dumps bare_runtime (PDict [(''docs'', PList [PDict [(''_id'', PStr ''d0'')]])]) = Inr t"
    using json_ok_dumps [of "PDict [(''docs'', PList [PDict [(''_id'', PStr ''d0'')]])]"] by auto
  have run: "add_bulk_docs bulk_http ''http://h'' ''db'' [PDict [(''_id'', PStr ''d0'')]] NoAuth None None () =
      (Inr (PList [PDict [(''id'', PStr ''d0'')]]), ())"
    using bulk_http_texts t
    by (simp add: add_bulk_docs_def get_server_type_def vendor_case_def bulk_http_def send_basic_def basic_auth_def send_typed_def
        get_auth_type_def checked_json_def checked_def bindIO_def Let_def text_response_def raise_for_status_def http_error_text_def
        resp_json_def rq_def with_data_def post_json_def bulk_body_def keyspace_of_def no_errors_def mapR_in_def py_iter_def
        py_in_str_def dict_has_def dict_index_def)
  from add_bulk_docs_clean [OF run] run show ?thesis by simp
qed

text \<open>
  With the credentials of the full administrator \<open>delete_bulk_docs\<close> raises a \<open>TypeError\<close> before it sends anything:
  the pair has already been turned into an \<open>HTTPBasicAuth\<close> object when \<open>get_server_type\<close> indexes it.
\<close>

theorem delete_bulk_docs_admin_fails:
  "delete_bulk_docs http url db docs (AuthPair RBAC_FULL_ADMIN_user password) w =
     (Inl (Exn ''TypeError'' (repr_str ''HTTPBasicAuth'' @ '' object is not subscriptable'')), w)"
  by (simp add: delete_bulk_docs_def get_auth_type_def RBAC_FULL_ADMIN_user_def get_server_type_def rest_defs basic_auth_def auth_item_def)

end
