(* ===== verification/Rest_Replication.thy ===== *)
theory Rest_Replication
  imports Rest_Write
begin

text \<open>
  \<open>keywords/MobileRestClient.py\<close>, replications and what they bring: starting and stopping a replication
  through \<open>_replicate\<close>, waiting on \<open>_active_tasks\<close>, and \<open>verify_docs_present\<close>, the polling check that a
  database holds expected revisions. A tuple is a Python list here. The keys of the map of
  expected documents are text; a document id of another type raises.
\<close>

section \<open>Starting and stopping\<close>

text \<open>\<open>v[i]\<close> for a position.\<close>

definition py_nth :: "pyval \<Rightarrow> nat \<Rightarrow> pyval res" where
  "py_nth v i = (case v of
       PList xs \<Rightarrow> list_item xs i
     | PStr s \<Rightarrow> if i < length s then Inr (PStr [s ! i]) else raise_exc ''IndexError'' ''string index out of range''
     | PBytes s \<Rightarrow> if i < length s then Inr (PInt (of_char (s ! i))) else raise_exc ''IndexError'' ''index out of range''
     | PDict _ \<Rightarrow> raise_exc ''KeyError'' (nat_str i)
     | _ \<Rightarrow> raise_exc ''TypeError'' (repr_str (py_type v) @ '' object is not subscriptable''))"

text \<open>\<open>",".join(v)\<close>.\<close>

definition join_commas :: "pyval \<Rightarrow> string res" where
  "join_commas v = bindR (mapR_in v (\<lambda>x. case x of PStr s \<Rightarrow> Inr s
     | _ \<Rightarrow> raise_exc ''TypeError'' (''sequence item: expected str instance, '' @ py_type x @ '' found''))) (\<lambda>ss. Inr (join '','' ss))"

text \<open>A database name, or the URL of a database when a URL is given.\<close>

definition endpoint :: "py_runtime \<Rightarrow> pyval \<Rightarrow> pyval \<Rightarrow> pyval" where
  "endpoint rt url db = (if url = PNone then db else PStr (py_str rt url @ ''/'' @ py_str rt db))"

text \<open>A session given as a pair is written as a cookie.\<close>

definition cookie_text :: "py_runtime \<Rightarrow> pyval \<Rightarrow> pyval res" where
  "cookie_text rt a = bindR (py_len a) (\<lambda>n.
     if n = 2 then bindR (py_nth a 0) (\<lambda>x. bindR (py_nth a 1) (\<lambda>y. Inr (PStr (py_str rt x @ ''='' @ py_str rt y))))
     else Inr a)"

text \<open>\<open>data[side]["headers"] = {"Cookie": auth}\<close>, if there is an \<open>auth\<close>.\<close>

definition add_cookie :: "py_runtime \<Rightarrow> string \<Rightarrow> pyval \<Rightarrow> (string, pyval) dict \<Rightarrow> (string, pyval) dict res" where
  "add_cookie rt side a data = (if a = PNone then Inr data
     else bindR (cookie_text rt a) (\<lambda>c. bindR (dict_index data side) (\<lambda>s.
       bindR (py_set s ''headers'' (PDict [(''Cookie'', c)])) (\<lambda>s. Inr (dict_set data side s)))))"

definition add_filters :: "pyval \<Rightarrow> pyval \<Rightarrow> pyval \<Rightarrow> (string, pyval) dict \<Rightarrow> (string, pyval) dict res" where
  "add_filters repl_filter doc_ids channels_filter data =
     (let data = (if repl_filter \<noteq> PNone then dict_set data ''filter'' repl_filter else data) in
      bindR (if channels_filter \<noteq> PNone then
          bindR (join_commas channels_filter) (\<lambda>cs.
            Inr (dict_set (dict_set data ''filter'' (PStr ''sync_gateway/bychannel'')) ''query_params'' (PDict [(''channels'', PStr cs)])))
        else Inr data) (\<lambda>data.
      Inr (if doc_ids \<noteq> PNone then dict_set data ''doc_ids'' doc_ids else data)))"

record replication_args =
  ra_continuous :: bool
  ra_from_url :: pyval
  ra_from_db :: pyval
  ra_from_auth :: pyval
  ra_to_url :: pyval
  ra_to_db :: pyval
  ra_to_auth :: pyval
  ra_filter :: pyval
  ra_doc_ids :: pyval
  ra_channels_filter :: pyval

definition start_replication_data :: "py_runtime \<Rightarrow> replication_args \<Rightarrow> (string, pyval) dict res" where
  "start_replication_data rt ra =
     (let source = endpoint rt (ra_from_url ra) (ra_from_db ra);
          target = endpoint rt (ra_to_url ra) (ra_to_db ra) in
      bindR (if ra_to_auth ra = PNone \<and> ra_from_auth ra = PNone then
          Inr [(''continuous'', PBool (ra_continuous ra)), (''source'', source), (''target'', target)]
        else
          bindR (add_cookie rt ''target'' (ra_to_auth ra)
            [(''continuous'', PBool (ra_continuous ra)), (''source'', PDict [(''url'', source)]), (''target'', PDict [(''url'', target)])])
          (add_cookie rt ''source'' (ra_from_auth ra)))
      (add_filters (ra_filter ra) (ra_doc_ids ra) (ra_channels_filter ra)))"

definition stop_replication_data :: "py_runtime \<Rightarrow> replication_args \<Rightarrow> (string, pyval) dict res" where
  "stop_replication_data rt ra =
     (let source = endpoint rt (ra_from_url ra) (ra_from_db ra);
          target = endpoint rt (ra_to_url ra) (ra_to_db ra) in
      bindR (if ra_to_auth ra = PNone \<and> ra_from_auth ra = PNone then
          Inr [(''continuous'', PBool (ra_continuous ra)), (''cancel'', PBool True), (''source'', source), (''target'', target)]
        else
          bindR (add_cookie rt ''target'' (ra_to_auth ra)
            [(''continuous'', PBool (ra_continuous ra)), (''cancel'', PBool True),
             (''source'', PDict [(''url'', source)]), (''target'', PDict [(''url'', target)])])
          (add_cookie rt ''source'' (ra_from_auth ra)))
      (add_filters (ra_filter ra) (ra_doc_ids ra) (ra_channels_filter ra)))"

definition start_replication :: "'w http \<Rightarrow> string \<Rightarrow> replication_args \<Rightarrow> ('w, pyval) io" where
  "start_replication http url ra =
     bindIO (liftIO (start_replication_data (http_runtime http) ra)) (\<lambda>data.
     bindIO (post_json http ''POST'' (path [url, ''_replicate'']) (PDict data)) (\<lambda>r.
     bindIO (checked_json http (http_send http r)) (\<lambda>resp_obj. liftIO (py_item resp_obj ''session_id''))))"

definition stop_replication :: "'w http \<Rightarrow> string \<Rightarrow> replication_args \<Rightarrow> ('w, unit) io" where
  "stop_replication http url ra =
     bindIO (liftIO (stop_replication_data (http_runtime http) ra)) (\<lambda>data.
     bindIO (post_json http ''POST'' (path [url, ''_replicate'']) (PDict data)) (\<lambda>r.
     bindIO (checked_json http (http_send http r)) (\<lambda>resp_obj. liftIO (bindR (py_in_str ''ok'' resp_obj) (\<lambda>ok.
       py_assert ok ''Unexpected response for cancelling a replication'')))))"

section \<open>Waiting for replications\<close>

definition get_replications :: "'w http \<Rightarrow> string \<Rightarrow> ('w, pyval) io" where
  "get_replications http url = checked_json http (http_send http (rq ''GET'' (path [url, ''_active_tasks''])))"

text \<open>Whether the replication was found and whether it is busy; the last task with its id counts.\<close>

definition task_step :: "pyval \<Rightarrow> bool \<times> bool \<Rightarrow> pyval \<Rightarrow> (bool \<times> bool) res" where
  "task_step replication_id s replication =
     bindR (py_item replication ''task'') (\<lambda>task.
     if py_eq task replication_id then
       bindR (py_item replication ''status'') (\<lambda>status. Inr (True, \<not> py_eq status (PStr ''Idle'')))
     else Inr s)"

definition idle_round :: "'w http \<Rightarrow> string \<Rightarrow> pyval \<Rightarrow> unit \<Rightarrow> ('w, unit + unit) io" where
  "idle_round http url replication_id u =
     bindIO (checked_json http (http_send http (rq ''GET'' (path [url, ''_active_tasks''])))) (\<lambda>resp_obj. liftIO
      (bindR (py_iter resp_obj) (\<lambda>tasks.
       bindR (foldR (task_step replication_id) (False, False) tasks) (\<lambda>(replication_found, replication_busy).
       Inr (if replication_found \<and> \<not> replication_busy then Inr () else Inl ())))))"

definition wait_for_replication_status_idle :: "'w http \<Rightarrow> 'w clock \<Rightarrow> string \<Rightarrow> pyval \<Rightarrow> nat \<Rightarrow> ('w, unit) dio" where
  "wait_for_replication_status_idle http clk url replication_id fuel =
     poll clk CLIENT_REQUEST_TIMEOUT 1 (timed_out ''Wait for Replication Status Idle'') (idle_round http url replication_id) fuel ()"

definition none_round :: "'w http \<Rightarrow> string \<Rightarrow> unit \<Rightarrow> ('w, unit + unit) io" where
  "none_round http url u =
     bindIO (checked_json http (http_send http (rq ''GET'' (path [url, ''_active_tasks''])))) (\<lambda>resp_obj.
     returnIO (if \<not> py_truth resp_obj then Inr () else Inl ()))"

definition wait_for_no_replications :: "'w http \<Rightarrow> 'w clock \<Rightarrow> string \<Rightarrow> nat \<Rightarrow> ('w, unit) dio" where
  "wait_for_no_replications http clk url fuel =
     poll clk CLIENT_REQUEST_TIMEOUT 1 (timed_out ''Verify Docs Present'') (none_round http url) fuel ()"

section \<open>Documents present\<close>

text \<open>\<open>{d["id"]: d[k] for d in docs}\<close>, from a list of documents or a single one.\<close>

definition id_map :: "string \<Rightarrow> string \<Rightarrow> pyval \<Rightarrow> (string, pyval) dict res" where
  "id_map what k expected_docs = (case expected_docs of
       PList ds \<Rightarrow> foldR (\<lambda>m d. bindR (bindR (py_item d ''id'') as_str) (\<lambda>i. bindR (py_item d k) (\<lambda>v. Inr (dict_set m i v)))) [] ds
     | PDict _ \<Rightarrow> bindR (bindR (py_item expected_docs ''id'') as_str) (\<lambda>i. bindR (py_item expected_docs k) (\<lambda>v. Inr [(i, v)]))
     | _ \<Rightarrow> raise_exc ''TypeError'' (what @ '' expects a list or dict of expected docs''))"

definition present_rows :: "'w http \<Rightarrow> string \<Rightarrow> string \<Rightarrow> auth_type \<times> auth \<Rightarrow> server_type \<Rightarrow> (string, pyval) dict \<Rightarrow> ('w, pyval) io" where
  "present_rows http url db ta server_type expected_doc_map = (case server_type of
       listener \<Rightarrow>
         bindIO (post_json http ''POST'' (path [url, db, ''_all_docs'']) (PDict [(''keys'', PList (map PStr (dict_keys expected_doc_map)))])) (\<lambda>r.
         checked_json http (http_send http r))
     | syncgateway \<Rightarrow>
         bindIO (post_json http ''POST'' (path [url, db, ''_bulk_get''])
           (PDict [(''docs'', PList (map (\<lambda>k. PDict [(''id'', PStr k)]) (dict_keys expected_doc_map)))])) (\<lambda>r.
         bindIO (checked (send_typed http ta r)) (\<lambda>resp. returnIO (parse_multipart_response (http_runtime http) (rs_text resp)))))"

text \<open>Whether the row says that the document is missing or at another revision.\<close>

definition row_missing :: "server_type \<Rightarrow> (string, pyval) dict \<Rightarrow> pyval \<Rightarrow> bool res" where
  "row_missing server_type expected_doc_map resp_doc =
     bindR (py_in_str ''error'' resp_doc) (\<lambda>err.
     if err then Inr True else
     bindR (py_in_str ''value'' resp_doc) (\<lambda>has.
     bindR (if has then bindR (bindR (py_item resp_doc ''value'') py_len) (\<lambda>n. Inr (n = 0)) else Inr False) (\<lambda>empty_value.
     if empty_value then Inr True else
     (case server_type of
        listener \<Rightarrow> bindR (py_item2 resp_doc ''value'' ''rev'') (\<lambda>r. bindR (py_item resp_doc ''id'') (\<lambda>i.
          bindR (map_item expected_doc_map i) (\<lambda>x. Inr (\<not> py_eq r x))))
      | syncgateway \<Rightarrow> bindR (py_item resp_doc ''_rev'') (\<lambda>r. bindR (py_item resp_doc ''_id'') (\<lambda>i.
          bindR (map_item expected_doc_map i) (\<lambda>x. Inr (\<not> py_eq r x))))))))"

text \<open>
  The check of the attachments of a row. The keys of \<open>doc_json["_attachments"]\<close> are read only where that entry is
  missing, so the check either passes or raises \<open>KeyError\<close>.
\<close>

definition row_attachments_missing :: "'w http \<Rightarrow> string \<Rightarrow> string \<Rightarrow> (string, pyval) dict \<Rightarrow> pyval \<Rightarrow> ('w, bool) io" where
  "row_attachments_missing http url db expected_attachment_map resp_doc =
     bindIO (liftIO (py_item resp_doc ''key'')) (\<lambda>doc_id.
     bindIO (http_send http (rq ''GET'' (path [url, db, py_str (http_runtime http) doc_id]))) (\<lambda>doc_data. liftIO
      (bindR (resp_json http doc_data) (\<lambda>doc_json.
       bindR (py_in_str ''_attachments'' doc_json) (\<lambda>has.
       if has then Inr False else
       bindR (py_in_str ''id'' resp_doc) (\<lambda>found.
       if \<not> found then Inr False else
       bindR (bindR (py_item resp_doc ''id'') (map_item expected_attachment_map)) (\<lambda>x.
       bindR (py_item doc_json ''_attachments'') (\<lambda>a. bindR (dict_attr a ''keys'') (\<lambda>atts.
       Inr (\<not> py_eq x (PList (map PStr (dict_keys atts)))))))))))))"

definition check_row :: "'w http \<Rightarrow> string \<Rightarrow> string \<Rightarrow> server_type \<Rightarrow> (string, pyval) dict \<Rightarrow> (string, pyval) dict option \<Rightarrow>
    bool \<times> bool \<Rightarrow> pyval \<Rightarrow> ('w, bool \<times> bool) io" where
  "check_row http url db server_type expected_doc_map expected_attachment_map = (\<lambda>(all_docs, all_atts) resp_doc.
     bindIO (liftIO (row_missing server_type expected_doc_map resp_doc)) (\<lambda>missing.
     bindIO (case expected_attachment_map of
         Some m \<Rightarrow> if server_type = listener then row_attachments_missing http url db m resp_doc else returnIO False
       | None \<Rightarrow> returnIO False) (\<lambda>att_missing.
     returnIO (all_docs \<and> \<not> missing, all_atts \<and> \<not> att_missing))))"

definition row_revision :: "server_type \<Rightarrow> pyval \<Rightarrow> (string \<times> pyval) res" where
  "row_revision server_type resp_doc = (case server_type of
       listener \<Rightarrow> bindR (py_item2 resp_doc ''value'' ''rev'') (\<lambda>r. bindR (bindR (py_item resp_doc ''id'') as_str) (\<lambda>i. Inr (i, r)))
     | syncgateway \<Rightarrow> bindR (py_item resp_doc ''_rev'') (\<lambda>r. bindR (bindR (py_item resp_doc ''_id'') as_str) (\<lambda>i. Inr (i, r))))"

definition resp_docs :: "server_type \<Rightarrow> pyval list \<Rightarrow> (string, pyval) dict res" where
  "resp_docs server_type rows = foldR (\<lambda>m row. bindR (row_revision server_type row) (\<lambda>ir. Inr (dict_set m (fst ir) (snd ir)))) [] rows"

definition present_round :: "'w http \<Rightarrow> string \<Rightarrow> string \<Rightarrow> auth_type \<times> auth \<Rightarrow> server_type \<Rightarrow> (string, pyval) dict \<Rightarrow>
    (string, pyval) dict option \<Rightarrow> unit \<Rightarrow> ('w, unit + unit) io" where
  "present_round http url db ta server_type expected_doc_map expected_attachment_map u =
     bindIO (present_rows http url db ta server_type expected_doc_map) (\<lambda>resp_obj.
     bindIO (liftIO (bindR (py_item resp_obj ''rows'') py_iter)) (\<lambda>rows.
     bindIO (foldIO (check_row http url db server_type expected_doc_map expected_attachment_map) (True, True) rows) (\<lambda>(all_docs, all_atts).
     if \<not> all_docs then returnIO (Inl ())
     else if expected_attachment_map \<noteq> None \<and> \<not> all_atts then returnIO (Inl ())
     else
       bindIO (liftIO (resp_docs server_type rows)) (\<lambda>found.
       bindIO (liftIO (py_assert (py_eq (PDict expected_doc_map) (PDict found))
         ''Unable to verify docs present. Dictionaries are not equal'')) (\<lambda>_. returnIO (Inr ()))))))"

definition verify_docs_present :: "'w http \<Rightarrow> 'w clock \<Rightarrow> string \<Rightarrow> string \<Rightarrow> pyval \<Rightarrow> auth \<Rightarrow> rat \<Rightarrow> bool \<Rightarrow> nat \<Rightarrow> ('w, unit) dio" where
  "verify_docs_present http clk url db expected_docs auth timeout attachments fuel =
     (let ta = get_auth_type auth in
      bindD (liftD (get_server_type http url (snd ta))) (\<lambda>server_type.
      bindD (liftD (liftIO (id_map ''Verify Docs Preset'' ''rev'' expected_docs))) (\<lambda>expected_doc_map.
      bindD (liftD (if attachments then liftIO (bindR (id_map ''Verify Docs Preset'' ''attachments'' expected_docs) (\<lambda>m. Inr (Some m)))
         else returnIO None)) (\<lambda>expected_attachment_map.
      poll clk timeout 1 (timed_out ''Verify Docs Present'')
        (present_round http url db ta server_type expected_doc_map expected_attachment_map) fuel ()))))"

section \<open>Starting and stopping agree\<close>

text \<open>The body of a cancellation is the body that started the replication with \<open>cancel\<close> in the second place.\<close>

definition insert_cancel :: "(string, pyval) dict \<Rightarrow> (string, pyval) dict" where
  "insert_cancel d = (case d of [] \<Rightarrow> [(''cancel'', PBool True)] | kv # e \<Rightarrow> kv # (''cancel'', PBool True) # e)"

abbreviation with_cancel :: "(string, pyval) dict res \<Rightarrow> (string, pyval) dict res" where
  "with_cancel r \<equiv> bindR r (\<lambda>d. Inr (insert_cancel d))"

definition continuous_first :: "(string, pyval) dict \<Rightarrow> bool" where
  "continuous_first d \<longleftrightarrow> d \<noteq> [] \<and> fst (hd d) = ''continuous''"

lemma insert_cancel_set:
  assumes "continuous_first d" "k \<noteq> ''continuous''" "k \<noteq> ''cancel''"
  shows "dict_set (insert_cancel d) k v = insert_cancel (dict_set d k v)" "continuous_first (dict_set d k v)"
    "dict_index (insert_cancel d) k = dict_index d k"
  using assms by (cases d; auto simp: insert_cancel_def continuous_first_def dict_index_def)+

lemma add_cookie_cancel:
  assumes "continuous_first d" "side = ''source'' \<or> side = ''target''"
  shows "add_cookie rt side a (insert_cancel d) = with_cancel (add_cookie rt side a d)"
    and "add_cookie rt side a d = Inr e \<Longrightarrow> continuous_first e"
proof -
  have k: "side \<noteq> ''continuous''" "side \<noteq> ''cancel''" using assms(2) by auto
  note i = insert_cancel_set [OF assms(1) k]
  show "add_cookie rt side a (insert_cancel d) = with_cancel (add_cookie rt side a d)"
    using i by (auto simp: add_cookie_def bindR_def split: sum.splits)
  show "add_cookie rt side a d = Inr e \<Longrightarrow> continuous_first e"
    using i(2) assms(1) by (auto simp: add_cookie_def bindR_eq_Inr split: if_splits)
qed

lemma add_filters_cancel:
  assumes "continuous_first d"
  shows "add_filters f ids cs (insert_cancel d) = with_cancel (add_filters f ids cs d)"
  using assms by (auto simp: add_filters_def Let_def insert_cancel_set bindR_def split: sum.splits)

text \<open>
  For the same arguments \<open>stop_replication\<close> sends exactly the body \<open>start_replication\<close> sends, with the entry
  \<open>cancel\<close> added, and it raises exactly the exceptions that building that body raises; so it names the
  replication that was started.
\<close>

theorem stop_matches_start:
  "stop_replication_data rt ra = with_cancel (start_replication_data rt ra)"
proof -
  let ?s = "endpoint rt (ra_from_url ra) (ra_from_db ra)" and ?t = "endpoint rt (ra_to_url ra) (ra_to_db ra)"
  let ?d = "[(''continuous'', PBool (ra_continuous ra)), (''source'', ?s), (''target'', ?t)]"
  let ?e = "[(''continuous'', PBool (ra_continuous ra)), (''source'', PDict [(''url'', ?s)]), (''target'', PDict [(''url'', ?t)])]"
  have c: "continuous_first ?d" "continuous_first ?e" by (simp_all add: continuous_first_def)
  show ?thesis
  proof (cases "ra_to_auth ra = PNone \<and> ra_from_auth ra = PNone")
    case True
    with add_filters_cancel [OF c(1)] show ?thesis
      by (simp add: stop_replication_data_def start_replication_data_def insert_cancel_def)
  next
    case False
    let ?A = "add_cookie rt ''target'' (ra_to_auth ra)" and ?B = "add_cookie rt ''source'' (ra_from_auth ra)"
    let ?F = "add_filters (ra_filter ra) (ra_doc_ids ra) (ra_channels_filter ra)"
    have A: "?A (insert_cancel ?e) = with_cancel (?A ?e)" by (rule add_cookie_cancel(1) [OF c(2)]) simp
    have "bindR (bindR (?A (insert_cancel ?e)) ?B) ?F = with_cancel (bindR (bindR (?A ?e) ?B) ?F)"
    proof (cases "?A ?e")
      case (Inr d1)
      then have d1: "continuous_first d1" by (rule add_cookie_cancel(2) [OF c(2), rotated]) simp
      then have B: "?B (insert_cancel d1) = with_cancel (?B d1)" by (rule add_cookie_cancel(1)) simp
      show ?thesis
      proof (cases "?B d1")
        case (Inr d2)
        then have "continuous_first d2" by (rule add_cookie_cancel(2) [OF d1, rotated]) simp
        with add_filters_cancel have "?F (insert_cancel d2) = with_cancel (?F d2)" .
        with A B Inr \<open>?A ?e = Inr d1\<close> show ?thesis by simp
      qed (use A B Inr in simp)
    qed (use A in simp)
    then show ?thesis
      unfolding stop_replication_data_def start_replication_data_def Let_def if_not_P [OF False] by (simp add: insert_cancel_def)
  qed
qed

section \<open>Waiting\<close>

lemma idle_round_onward: "http_onward time http \<Longrightarrow> onward time (idle_round http url i u)"
  by (auto simp: idle_round_def intro!: time_intros)

lemma none_round_onward: "http_onward time http \<Longrightarrow> onward time (none_round http url u)"
  by (auto simp: none_round_def intro!: time_intros)

lemma present_round_onward: "http_onward time http \<Longrightarrow> onward time (present_round http url db ta st m am u)"
  by (auto simp: present_round_def present_rows_def check_row_def row_attachments_missing_def split: server_type.splits option.splits
      intro!: time_intros)

interpretation idle_loop: polling time 1 "idle_round http url i" "http_onward time http" for time http url i
  by unfold_locales (simp_all add: idle_round_onward)

interpretation none_loop: polling time 1 "none_round http url" "http_onward time http" for time http url
  by unfold_locales (simp_all add: none_round_onward)

interpretation present_loop: polling time 1 "present_round http url db ta st m am" "http_onward time http"
  for time http url db ta st m am
  by unfold_locales (simp_all add: present_round_onward)

text \<open>The tasks of an answer, with the given replication among them and the last mention of it idle.\<close>

definition task_of :: "pyval \<Rightarrow> pyval \<Rightarrow> bool" where
  "task_of i t \<longleftrightarrow> (\<exists>x. py_item t ''task'' = Inr x \<and> py_eq x i)"

definition status_of :: "pyval \<Rightarrow> pyval \<Rightarrow> bool" where
  "status_of x t \<longleftrightarrow> (\<exists>y. py_item t ''status'' = Inr y \<and> py_eq y x)"

lemma task_steps:
  "foldR (task_step i) (fo, bu) ts = Inr (fo', bu') \<Longrightarrow>
     (let mine = filter (task_of i) ts in
      if mine = [] then fo' = fo \<and> bu' = bu else fo' \<and> (bu' \<longleftrightarrow> \<not> status_of (PStr ''Idle'') (last mine)))"
proof (induction ts arbitrary: fo bu)
  case (Cons t ts)
  then obtain s where s: "task_step i (fo, bu) t = Inr s" "foldR (task_step i) s ts = Inr (fo', bu')"
    by (auto simp: bindR_eq_Inr)
  obtain fo1 bu1 where "s = (fo1, bu1)" by fastforce
  with Cons.IH s have IH: "let mine = filter (task_of i) ts in
      if mine = [] then fo' = fo1 \<and> bu' = bu1 else fo' \<and> (bu' \<longleftrightarrow> \<not> status_of (PStr ''Idle'') (last mine))" by simp
  from s(1) \<open>s = (fo1, bu1)\<close> have "if task_of i t then fo1 \<and> (bu1 \<longleftrightarrow> \<not> status_of (PStr ''Idle'') t) else fo1 = fo \<and> bu1 = bu"
    by (auto simp: task_step_def task_of_def status_of_def bindR_eq_Inr split: if_splits)
  with IH show ?case by (auto simp: Let_def split: if_splits)
qed simp

text \<open>
  C22: \<open>wait_for_replication_status_idle\<close> returns within 182 rounds; and it returns without an exception only if an
  answer of \<open>_active_tasks\<close> listed the replication, with the status \<open>Idle\<close> where it was listed last.
\<close>

theorem wait_idle_sound:
  assumes "ticks clk time" "http_onward time http" "182 \<le> fuel"
  shows "\<exists>r w'. wait_for_replication_status_idle http clk url i fuel w = Some (r, w') \<and>
    (r = Inr () \<longrightarrow> (\<exists>v resp tasks. http_send http (rq ''GET'' (path [url, ''_active_tasks''])) v = (Inr resp, w') \<and>
       bindR (resp_json http resp) py_iter = Inr tasks \<and> filter (task_of i) tasks \<noteq> [] \<and>
       status_of (PStr ''Idle'') (last (filter (task_of i) tasks))))"
proof -
  obtain r w' where run: "wait_for_replication_status_idle http clk url i fuel w = Some (r, w')"
    using idle_loop.returns [OF assms(1,2), of CLIENT_REQUEST_TIMEOUT fuel "timed_out ''Wait for Replication Status Idle''" url i "()" w] assms(3)
    by (auto simp: wait_for_replication_status_idle_def CLIENT_REQUEST_TIMEOUT_def poll_fuel_def)
  have "\<exists>v resp tasks. http_send http (rq ''GET'' (path [url, ''_active_tasks''])) v = (Inr resp, w') \<and>
       bindR (resp_json http resp) py_iter = Inr tasks \<and> filter (task_of i) tasks \<noteq> [] \<and>
       status_of (PStr ''Idle'') (last (filter (task_of i) tasks))" if "r = Inr ()"
  proof -
    from poll_result [OF run [unfolded that wait_for_replication_status_idle_def], of "\<lambda>_. True"] obtain u where
      "idle_round http url i () u = (Inr (Inr ()), w')" by (auto simp: timed_out_def)
    then obtain resp v tasks fo bu where a: "http_send http (rq ''GET'' (path [url, ''_active_tasks''])) u = (Inr resp, w')"
      "resp_json http resp = Inr v" "py_iter v = Inr tasks" "foldR (task_step i) (False, False) tasks = Inr (fo, bu)" "fo" "\<not> bu"
      by (auto simp: idle_round_def bindR_eq_Inr elim!: bindIO_cases checked_json_Inr split: if_splits)
    from task_steps [OF a(4)] a(5,6) have "filter (task_of i) tasks \<noteq> []" "status_of (PStr ''Idle'') (last (filter (task_of i) tasks))"
      by (auto simp: Let_def split: if_splits)
    with a(1-3) show ?thesis by (intro exI [of _ u] exI [of _ resp] exI [of _ tasks]) simp
  qed
  with run show ?thesis by blast
qed

definition idle_http :: "rat http" where
  "idle_http = quiet_http (''[{'' @ dq ''task'' @ '': '' @ dq ''r1'' @ '', '' @ dq ''status'' @ '': '' @ dq ''Idle'' @ ''}]'')"

theorem wait_idle_sound_witness:
  "\<exists>r w'. wait_for_replication_status_idle idle_http step_clock ''http://h'' (PStr ''r1'') 182 0 = Some (r, w') \<and>
    (r = Inr () \<longrightarrow> (\<exists>v resp tasks. http_send idle_http (rq ''GET'' (path [''http://h'', ''_active_tasks''])) v = (Inr resp, w') \<and>
       bindR (resp_json idle_http resp) py_iter = Inr tasks \<and> filter (task_of (PStr ''r1'')) tasks \<noteq> [] \<and>
       status_of (PStr ''Idle'') (last (filter (task_of (PStr ''r1'')) tasks))))"
  by (rule wait_idle_sound [OF step_clock_ticks]) (simp_all add: idle_http_def quiet_http_onward)



end
