(* ===== verification/Rest_Changes.thy ===== *)
theory Rest_Changes
  imports Rest_Replication
begin

text \<open>
  \<open>keywords/MobileRestClient.py\<close>, the changes feed and the checks made on it, design documents and
  views, and the remaining administrative calls. The loop of \<open>verify_docs_in_changes\<close> asks for the time once
  more in each round, for the log; that call is left out.
\<close>

section \<open>The changes feed\<close>

text \<open>The filter of a continuous feed.\<close>

definition channel_filter :: "py_runtime \<Rightarrow> pyval \<Rightarrow> (string, pyval) dict \<Rightarrow> (string, pyval) dict res" where
  "channel_filter rt filter_channels body =
     (if filter_channels = PNone then
        raise_exc ''RestError'' (''channel filter need '' @ repr_str ''filter_channels'' @ '' set'')
      else bindR (verify_is_list rt filter_channels) (\<lambda>_. bindR (join_commas filter_channels) (\<lambda>cs.
        Inr (dict_set (dict_set body ''filter'' (PStr ''sync_gateway/bychannel'')) ''channels'' (PStr cs)))))"

definition stream_continuous_changes :: "'w http \<Rightarrow> string \<Rightarrow> string \<Rightarrow> pyval \<Rightarrow> auth \<Rightarrow> pyval \<Rightarrow> pyval \<Rightarrow> ('w, http_response) io" where
  "stream_continuous_changes http url db since auth filter_type filter_channels =
     (let rt = http_runtime http; body = [(''feed'', PStr ''continuous''), (''since'', since)] in
      bindIO (liftIO (if filter_type = PNone then Inr body
        else if filter_type = PStr ''sync_gateway/bychannel'' then channel_filter rt filter_channels body
        else raise_exc ''RestError'' (''Unsupported _changes filter_type: '' @ py_str rt filter_type @ ''. Use ''
          @ repr_str ''sync_gateway/bychannel'' @ ''.''))) (\<lambda>body.
      bindIO (post_json http ''POST'' (path [url, db, ''_changes'']) (PDict body)) (send_typed http (get_auth_type auth))))"

record changes_args =
  ca_feed :: string
  ca_timeout :: int
  ca_limit :: pyval
  ca_skip_user_docs :: bool
  ca_filter_type :: pyval
  ca_filter_channels :: pyval
  ca_filter_doc_ids :: pyval

definition default_changes :: changes_args where
  "default_changes = \<lparr>ca_feed = ''longpoll'', ca_timeout = 60, ca_limit = PNone, ca_skip_user_docs = False,
     ca_filter_type = PNone, ca_filter_channels = PNone, ca_filter_doc_ids = PNone\<rparr>"

definition changes_body :: "py_runtime \<Rightarrow> pyval \<Rightarrow> changes_args \<Rightarrow> (string, pyval) dict res" where
  "changes_body rt since ca =
     (let body = [(''feed'', PStr (ca_feed ca)), (''since'', since), (''timeout'', PInt (ca_timeout ca * 1000))];
          body = (if ca_limit ca \<noteq> PNone then dict_set body ''limit'' (ca_limit ca) else body) in
      if ca_filter_type ca = PNone then Inr body
      else if ca_filter_type ca = PStr ''sync_gateway/bychannel'' then channel_filter rt (ca_filter_channels ca) body
      else if ca_filter_type ca = PStr ''_doc_ids'' then
        if ca_feed ca \<noteq> ''normal'' then raise_exc ''RestError'' (repr_str ''_doc_ids'' @ '' filter only works with feed=normal'')
        else if ca_filter_doc_ids ca = PNone then
          raise_exc ''RestError'' (''channel filter need '' @ repr_str ''filter_channels'' @ '' set'')
        else bindR (verify_is_list rt (ca_filter_doc_ids ca)) (\<lambda>_.
          Inr (dict_set (dict_set body ''filter'' (PStr ''_doc_ids'')) ''doc_ids'' (ca_filter_doc_ids ca)))
      else raise_exc ''RestError'' (''Unsupported _changes filter_type: '' @ py_str rt (ca_filter_type ca) @ ''. Use ''
        @ repr_str ''sync_gateway/bychannel'' @ '' or '' @ repr_str ''_doc_ids'' @ ''.''))"

text \<open>\<open>[result for result in resp_obj["results"] if not result["id"].startswith("_user/")]\<close>.\<close>

definition without_user_docs :: "pyval \<Rightarrow> pyval res" where
  "without_user_docs resp_obj =
     bindR (bindR (py_item resp_obj ''results'') py_iter) (\<lambda>results.
     bindR (mapR (\<lambda>result. bindR (bindR (py_item result ''id'') (\<lambda>i. str_attr i ''startswith'')) (\<lambda>i.
       Inr (if startswith i ''_user/'' then [] else [result]))) results) (\<lambda>rs.
     py_set resp_obj ''results'' (PList (concat rs))))"

definition get_changes :: "'w http \<Rightarrow> string \<Rightarrow> string \<Rightarrow> pyval \<Rightarrow> auth \<Rightarrow> changes_args \<Rightarrow> ('w, pyval) io" where
  "get_changes http url db since auth ca =
     (let rt = http_runtime http; ta = get_auth_type auth in
      bindIO (get_server_type http url auth) (\<lambda>server_type.
      bindIO (case server_type of
          listener \<Rightarrow> send_typed http ta (rq ''GET'' (path [url, db, ''_changes?feed='' @ ca_feed ca @ ''&since='' @ py_str rt since]
            @ (if ca_limit ca \<noteq> PNone then ''&limit='' @ py_str rt (ca_limit ca) else [])))
        | syncgateway \<Rightarrow>
            bindIO (liftIO (changes_body rt since ca)) (\<lambda>body.
            bindIO (post_json http ''POST'' (path [url, db, ''_changes'']) (PDict body)) (send_typed http ta))) (\<lambda>resp. liftIO
       (bindR (raise_for_status resp) (\<lambda>_.
        bindR (resp_json http resp) (\<lambda>resp_obj.
        bindR (if ca_skip_user_docs ca then without_user_docs resp_obj else Inr resp_obj) (\<lambda>resp_obj.
        bindR (bindR (py_item resp_obj ''results'') py_len) (\<lambda>_. Inr resp_obj))))))))"

definition doc_id_round :: "'w http \<Rightarrow> string \<Rightarrow> string \<Rightarrow> pyval \<Rightarrow> auth \<Rightarrow> unit \<Rightarrow> ('w, unit + pyval) io" where
  "doc_id_round http url db expected_doc_id auth u =
     bindIO (get_changes http url db (PInt 0) auth default_changes) (\<lambda>resp_obj. liftIO
      (bindR (bindR (py_item resp_obj ''results'') py_iter) (\<lambda>results.
       bindR (mapR (\<lambda>change. py_item change ''id'') results) (\<lambda>doc_ids_in_changes.
       if list_ex (py_eq expected_doc_id) doc_ids_in_changes
       then bindR (py_item resp_obj ''last_seq'') (\<lambda>last_seq. Inr (Inr last_seq)) else Inr (Inl ())))))"

definition verify_doc_id_in_changes :: "'w http \<Rightarrow> 'w clock \<Rightarrow> string \<Rightarrow> string \<Rightarrow> pyval \<Rightarrow> auth \<Rightarrow> nat \<Rightarrow> ('w, pyval) dio" where
  "verify_doc_id_in_changes http clk url db expected_doc_id auth fuel =
     poll clk CLIENT_REQUEST_TIMEOUT 1 (timed_out ''Verify Docs In Changes'') (doc_id_round http url db expected_doc_id auth) fuel ()"

definition verify_is_user_doc :: "pyval \<Rightarrow> unit res" where
  "verify_is_user_doc doc =
     bindR (bindR (py_item doc ''id'') (\<lambda>i. str_attr i ''startswith'')) (\<lambda>i.
     if \<not> startswith i ''_user/'' then raise_exc ''ValueError'' (''User doc should have the prefix '' @ repr_str ''_user'') else
     bindR (py_item doc ''changes'') (\<lambda>c.
     if py_truth c then raise_exc ''ValueError'' ''User doc should have empty changes always'' else
     bindR (py_in_str ''rev'' doc) (\<lambda>r.
     if r then raise_exc ''ValueError'' ''User doc should not have a rev'' else Inr ())))"

text \<open>One change of a document: its revision is compared, and the document crossed out if it is the expected one.\<close>

definition cross_out :: "string \<Rightarrow> (string, pyval) dict \<Rightarrow> pyval \<Rightarrow> (string, pyval) dict res" where
  "cross_out i m resp_doc_change =
     bindR (py_item resp_doc_change ''rev'') (\<lambda>r. bindR (dict_index m i) (\<lambda>x. Inr (if py_eq r x then dict_del m i else m)))"

text \<open>\<open>resp_doc["id"] in expected_doc_map\<close>, and the id where it is.\<close>

definition expected_id :: "(string, pyval) dict \<Rightarrow> pyval \<Rightarrow> string option res" where
  "expected_id m i = (case i of PStr s \<Rightarrow> Inr (if dict_has m s then Some s else None)
     | _ \<Rightarrow> bindR (py_hashable i) (\<lambda>_. Inr None))"

type_synonym changes_vars = "(string, pyval) dict \<times> pyval list \<times> pyval list"

definition changes_step :: "py_runtime \<Rightarrow> changes_vars \<Rightarrow> pyval \<Rightarrow> changes_vars res" where
  "changes_step rt = (\<lambda>(m, seqs, unexpected) resp_doc.
     bindR (bindR (py_item resp_doc ''id'') (expected_id m)) (\<lambda>found. case found of
       None \<Rightarrow> Inr (m, seqs, unexpected @ [resp_doc])
     | Some i \<Rightarrow>
         bindR (py_item resp_doc ''seq'') (\<lambda>sq. bindR (py_hashable sq) (\<lambda>_.
         bindR (py_assert (\<not> list_ex (py_eq sq) seqs)
           (''Found duplicate sequence number: '' @ py_str rt sq @ '' in sequence map!!'')) (\<lambda>_.
         bindR (if startswith i ''_user/'' then bindR (verify_is_user_doc resp_doc) (\<lambda>_. Inr (dict_del m i)) else Inr m) (\<lambda>m.
         bindR (bindR (py_item resp_doc ''changes'') py_iter) (\<lambda>changes.
         bindR (foldR (cross_out i) m changes) (\<lambda>m. Inr (m, seqs @ [sq], unexpected)))))))))"

definition changes_round :: "'w http \<Rightarrow> string \<Rightarrow> string \<Rightarrow> auth \<Rightarrow> bool \<Rightarrow> int \<Rightarrow>
    (string, pyval) dict \<times> pyval list \<times> pyval \<Rightarrow> ('w, ((string, pyval) dict \<times> pyval list \<times> pyval) + unit) io" where
  "changes_round http url db auth strict polling_interval = (\<lambda>(expected_doc_map, sequence_numbers, last_seq).
     bindIO (get_changes http url db last_seq auth (default_changes\<lparr>ca_timeout := polling_interval\<rparr>)) (\<lambda>resp_obj. liftIO
      (bindR (bindR (py_item resp_obj ''results'') py_iter) (\<lambda>results.
       bindR (foldR (changes_step (http_runtime http)) (expected_doc_map, sequence_numbers, []) results) (\<lambda>(m, seqs, missing_expected_docs).
       if strict \<and> length missing_expected_docs > 0 then
         raise_exc ''ChangesError'' (''Found unexpected docs in changes feed: '' @ py_repr (http_runtime http) (PList missing_expected_docs))
       else if m = [] then Inr (Inr ())
       else bindR (py_item resp_obj ''last_seq'') (\<lambda>last_seq. Inr (Inl (m, seqs, last_seq))))))))"

definition verify_docs_in_changes :: "'w http \<Rightarrow> 'w clock \<Rightarrow> string \<Rightarrow> string \<Rightarrow> pyval \<Rightarrow> auth \<Rightarrow> bool \<Rightarrow> int \<Rightarrow> nat \<Rightarrow> ('w, unit) dio" where
  "verify_docs_in_changes http clk url db expected_docs auth strict polling_interval fuel =
     bindD (liftD (liftIO (id_map ''Verify Docs In Changes'' ''rev'' expected_docs))) (\<lambda>expected_doc_map.
     poll clk CLIENT_REQUEST_TIMEOUT 1 (timed_out ''Verify Docs In Changes'')
       (changes_round http url db auth strict polling_interval) fuel (expected_doc_map, [], PInt 0))"

definition get_changes_style_all_docs :: "'w http \<Rightarrow> string \<Rightarrow> string \<Rightarrow> auth \<Rightarrow> bool \<Rightarrow> ('w, pyval) io" where
  "get_changes_style_all_docs http url db auth include_docs =
     checked_json http (send_typed http (get_auth_type auth) (with_params
       (if include_docs then [(''include_docs'', PStr ''true''), (''style'', PStr ''all_docs'')] else [])
       (rq ''GET'' (path [url, db, ''_changes'']))))"

section \<open>Design documents and views\<close>

text \<open>Only the listener answers with a body; its entry \<open>key\<close> is returned, \<open>None\<close> otherwise.\<close>

definition listener_answer :: "'w http \<Rightarrow> string \<Rightarrow> auth \<Rightarrow> string \<Rightarrow> http_response \<Rightarrow> ('w, pyval) io" where
  "listener_answer http url auth key resp =
     bindIO (get_server_type http url auth) (\<lambda>t.
     if t = listener then liftIO (bindR (resp_json http resp) (\<lambda>resp_obj. py_item resp_obj key)) else returnIO PNone)"

definition add_design_doc :: "'w http \<Rightarrow> string \<Rightarrow> string \<Rightarrow> string \<Rightarrow> string \<Rightarrow> auth \<Rightarrow> ('w, pyval) io" where
  "add_design_doc http url db name doc auth =
     bindIO (checked (send_basic http auth (with_data doc (rq ''PUT'' (path [url, db, ''_design'', name])))))
       (listener_answer http url auth ''id'')"

definition delete_design_doc :: "'w http \<Rightarrow> string \<Rightarrow> string \<Rightarrow> string \<Rightarrow> pyval \<Rightarrow> auth \<Rightarrow> ('w, pyval) io" where
  "delete_design_doc http url db name rev_id auth =
     bindIO (checked (http_send http (rq ''DELETE''
       (path [url, db, ''_design'', name @ ''?rev='' @ py_str (http_runtime http) rev_id]))))
       (listener_answer http url auth ''id'')"

definition get_design_doc_rev :: "'w http \<Rightarrow> string \<Rightarrow> string \<Rightarrow> string \<Rightarrow> auth \<Rightarrow> ('w, pyval) io" where
  "get_design_doc_rev http url db name auth =
     bindIO (checked (http_send http (rq ''GET'' (path [url, db, ''_design'', name]))))
       (listener_answer http url auth ''_rev'')"

definition update_design_doc :: "'w http \<Rightarrow> string \<Rightarrow> string \<Rightarrow> string \<Rightarrow> string \<Rightarrow> pyval \<Rightarrow> auth \<Rightarrow> ('w, pyval) io" where
  "update_design_doc http url db name doc rev_arg auth =
     bindIO (checked (http_send http (with_data doc (rq ''PUT''
       (path [url, db, ''_design'', name @ ''?rev='' @ py_str (http_runtime http) rev_arg])))))
       (listener_answer http url auth ''id'')"

text \<open>\<open>n\<close> tries are left; only the status 500 is tried again.\<close>

fun view_tries :: "'w http \<Rightarrow> 'w clock \<Rightarrow> auth_type \<times> auth \<Rightarrow> http_request \<Rightarrow> nat \<Rightarrow> ('w, http_response) io" where
  "view_tries http clk ta r 0 = raiseIO (Exn ''RestError'' ''Could not get view after retries!'')"
| "view_tries http clk ta r (Suc n) = tryIO (checked (send_typed http ta r)) (\<lambda>he.
     if error_status he = Some 500 then bindIO (clk_sleep clk 1) (\<lambda>_. view_tries http clk ta r n) else raiseIO he)"

definition get_view :: "'w http \<Rightarrow> 'w clock \<Rightarrow> string \<Rightarrow> string \<Rightarrow> string \<Rightarrow> string \<Rightarrow> auth \<Rightarrow> ('w, pyval) io" where
  "get_view http clk url db design_doc_name view_name auth =
     (let ta = get_auth_type auth in
      bindIO (get_server_type http url (snd ta)) (\<lambda>server_type.
      let r = with_params (if server_type = syncgateway then [(''stale'', PStr ''false'')] else [])
        (rq ''GET'' (path [url, db, ''_design'', design_doc_name, ''_view'', view_name])) in
      bindIO (view_tries http clk ta r 5) (\<lambda>resp. liftIO (resp_json http resp))))"

definition view_query_through_channels :: "'w http \<Rightarrow> string \<Rightarrow> string \<Rightarrow> auth \<Rightarrow> ('w, pyval) io" where
  "view_query_through_channels http url db auth =
     checked_json http (send_basic http auth (rq ''GET'' (path [url, db, ''_view'', ''channels''])))"

definition verify_view_row_num :: "pyval \<Rightarrow> nat \<Rightarrow> unit res" where
  "verify_view_row_num view_response expected_num_rows =
     bindR (bindR (py_item view_response ''rows'') py_len) (\<lambda>num_row_entries.
     bindR (py_item view_response ''total_rows'') (\<lambda>num_total_rows.
     bindR (py_assert (num_row_entries = expected_num_rows)
       (''Expected number of rows did not match number of '' @ repr_str ''rows'')) (\<lambda>_.
     py_assert (py_eq (PInt (int num_row_entries)) num_total_rows)
       (''Expected number of rows did not match number of '' @ repr_str ''total_rows''))))"

text \<open>Every row's entry \<open>k\<close> is one of the expected values, and there are as many rows as values.\<close>

definition view_contains :: "string \<Rightarrow> string \<Rightarrow> pyval \<Rightarrow> pyval \<Rightarrow> unit res" where
  "view_contains k what view_response vals =
     (let vs = (case vals of PList xs \<Rightarrow> xs | _ \<Rightarrow> [vals]) in
      bindR (bindR (py_item view_response ''rows'') py_iter) (\<lambda>rows.
      bindR (py_assert (length rows = length vs) (''Different number of rows were returned than expected '' @ what @ ''s'')) (\<lambda>_.
      bindR (mapR (\<lambda>row. bindR (py_item row k) (\<lambda>v.
        py_assert (list_ex (py_eq v) vs) (''Did not find expected '' @ what @ '' in view response''))) rows) (\<lambda>_. Inr ()))))"

definition verify_view_contains_keys :: "pyval \<Rightarrow> pyval \<Rightarrow> unit res" where
  "verify_view_contains_keys view_response keys = view_contains ''key'' ''key'' view_response keys"

definition verify_view_contains_values :: "pyval \<Rightarrow> pyval \<Rightarrow> unit res" where
  "verify_view_contains_values view_response vals = view_contains ''value'' ''value'' view_response vals"

definition verify_doc_ids_found_in_response :: "pyval \<Rightarrow> pyval list \<Rightarrow> unit res" where
  "verify_doc_ids_found_in_response response expected_doc_ids =
     bindR (mapR_in response (\<lambda>doc. bindR (py_in_str ''error'' doc) (\<lambda>e.
       if e then Inr [] else bindR (py_item doc ''_id'') (\<lambda>i. Inr [i])))) (\<lambda>found_doc_ids.
     py_assert (py_eq (PList (concat found_doc_ids)) (PList expected_doc_ids))
       ''Found doc ids should be the same as expected doc ids'')"

definition verify_doc_ids_not_found_in_response :: "pyval \<Rightarrow> pyval list \<Rightarrow> unit res" where
  "verify_doc_ids_not_found_in_response response expected_missing_doc_ids =
     bindR (mapR_in response (\<lambda>doc. bindR (py_in_str ''error'' doc) (\<lambda>e.
       if e then bindR (py_item doc ''id'') (\<lambda>i. Inr [i]) else Inr []))) (\<lambda>missing_doc_ids.
     py_assert (py_eq (PList (concat missing_doc_ids)) (PList expected_missing_doc_ids))
       ''Found doc ids should be the same as expected doc ids'')"

section \<open>Other calls\<close>

definition get_expvars :: "'w http \<Rightarrow> string \<Rightarrow> auth \<Rightarrow> ('w, pyval) io" where
  "get_expvars http url auth = checked_json http (send_basic http auth (rq ''GET'' (path [url, ''_expvar''])))"

definition take_db_offline :: "'w http \<Rightarrow> string \<Rightarrow> string \<Rightarrow> ('w, int) io" where
  "take_db_offline http db url = bindIO (checked (http_send http (rq ''POST'' (path [url, db, ''_offline''])))) (\<lambda>_. returnIO 0)"

definition bring_db_online :: "'w http \<Rightarrow> string \<Rightarrow> string \<Rightarrow> ('w, int) io" where
  "bring_db_online http db url = bindIO (checked (http_send http (rq ''POST'' (path [url, db, ''_online''])))) (\<lambda>_. returnIO 0)"

definition get_revs_num_in_history :: "'w http \<Rightarrow> string \<Rightarrow> string \<Rightarrow> string \<Rightarrow> auth \<Rightarrow> ('w, pyval) io" where
  "get_revs_num_in_history http url db doc_id auth =
     bindIO (get_doc_plain http url db doc_id auth) (\<lambda>doc. liftIO (py_item2 doc ''_revisions'' ''ids''))"

text \<open>The optional entries of a body: \<open>if v is not None: body[k] = v\<close>.\<close>

definition given :: "(string \<times> pyval) list \<Rightarrow> (string, pyval) dict" where
  "given kvs = filter (\<lambda>kv. snd kv \<noteq> PNone) kvs"

definition sgcollect_url :: "string \<Rightarrow> string" where
  "sgcollect_url sg_host = ''http://'' @ sg_host @ '':4985/_sgcollect_info''"

record sgcollect_args =
  sc_redact_level :: pyval
  sc_redact_salt :: pyval
  sc_output_directory :: pyval
  sc_upload :: bool
  sc_upload_host :: pyval
  sc_customer :: pyval
  sc_ticket :: pyval

definition sgCollect_restCall :: "'w http \<Rightarrow> string \<Rightarrow> sgcollect_args \<Rightarrow> auth \<Rightarrow> ('w, http_response) io" where
  "sgCollect_restCall http sg_host sc auth =
     send_json_basic http auth ''POST'' (sgcollect_url sg_host)
       (PDict ((''upload'', PBool (sc_upload sc)) # given [(''redact_level'', sc_redact_level sc), (''redact_salt'', sc_redact_salt sc),
          (''output_dir'', sc_output_directory sc), (''upload_host'', sc_upload_host sc), (''customer'', sc_customer sc), (''ticket'', sc_ticket sc)]))"

definition sgCollect_info :: "'w http \<Rightarrow> string \<Rightarrow> sgcollect_args \<Rightarrow> auth \<Rightarrow> ('w, pyval) io" where
  "sgCollect_info http sg_host sc auth = checked_json http (sgCollect_restCall http sg_host sc auth)"

definition get_sgCollect_status :: "'w http \<Rightarrow> string \<Rightarrow> auth \<Rightarrow> ('w, pyval) io" where
  "get_sgCollect_status http sg_host auth =
     bindIO (checked_json http (send_basic http auth (rq ''GET'' (sgcollect_url sg_host)))) (\<lambda>resp_obj. liftIO (py_item resp_obj ''status''))"

definition stop_sgCollect :: "'w http \<Rightarrow> string \<Rightarrow> auth \<Rightarrow> ('w, unit) io" where
  "stop_sgCollect http sg_host auth =
     bindIO (checked (send_basic http auth (rq ''DELETE'' (sgcollect_url sg_host)))) (\<lambda>_. returnIO ())"

definition get_with_exp :: "'w http \<Rightarrow> string \<Rightarrow> string \<Rightarrow> string \<Rightarrow> auth \<Rightarrow> ('w, pyval) io" where
  "get_with_exp http url db doc_id auth =
     checked_json http (send_basic http auth (rq ''GET'' (path [url, db, doc_id @ ''?show_exp=true''])))"

definition get_expiration_value :: "'w http \<Rightarrow> string \<Rightarrow> string \<Rightarrow> string \<Rightarrow> auth \<Rightarrow> ('w, pyval) io" where
  "get_expiration_value http url db doc_id auth =
     bindIO (get_with_exp http url db doc_id auth) (\<lambda>resp_obj. liftIO (py_item resp_obj ''_exp''))"

text \<open>The entry is deleted from the local copy of the answer only.\<close>

definition delete_json_element :: "'w http \<Rightarrow> string \<Rightarrow> string \<Rightarrow> string \<Rightarrow> auth \<Rightarrow> ('w, unit) io" where
  "delete_json_element http url db doc_id auth =
     bindIO (get_with_exp http url db doc_id auth) (\<lambda>resp_obj. liftIO (bindR (py_del resp_obj ''_exp'') (\<lambda>_. Inr ())))"

definition create_logging_with_rest :: "'w http \<Rightarrow> string \<Rightarrow> pyval \<Rightarrow> ('w, int) io" where
  "create_logging_with_rest http url logging_json =
     bindIO (post_json http ''PUT'' (path [url, ''_config'']) logging_json) (\<lambda>r.
     bindIO (checked (http_send http r)) (\<lambda>resp. returnIO (rs_status resp)))"

text \<open>The method and the query of each action; any other action is answered with \<open>None\<close>.\<close>

definition compact_action :: "string \<Rightarrow> (string \<times> string) option" where
  "compact_action action = map_of [(''status'', (''GET'', [])), (''start'', (''POST'', ''&action=start'')),
     (''progress'', (''POST'', [])), (''stop'', (''POST'', ''&action=stop''))] action"

definition compact_attachments :: "'w http \<Rightarrow> string \<Rightarrow> string \<Rightarrow> string \<Rightarrow> auth \<Rightarrow> ('w, pyval) io" where
  "compact_attachments http url db action auth = (case compact_action action of
       None \<Rightarrow> returnIO PNone
     | Some (meth, query) \<Rightarrow>
         bindIO (http_send http ((rq meth (path [url, db, ''_compact?type=attachment'' @ query]))\<lparr>rq_auth := snd (get_auth_type auth)\<rparr>))
           (\<lambda>resp. liftIO (resp_json http resp)))"

definition does_doc_exist :: "'w http \<Rightarrow> string \<Rightarrow> string \<Rightarrow> string \<Rightarrow> auth \<Rightarrow> string option \<Rightarrow> string option \<Rightarrow> ('w, pyval) io" where
  "does_doc_exist http url db doc_id auth scope collection =
     tryIO (bindIO (get_doc http url db doc_id auth PNone False scope collection) (\<lambda>_. returnIO PNone)) (\<lambda>e.
       if exn_class e = ''HTTPError'' then
         if error_status e = Some 404 then returnIO (PBool False)
         else raiseIO (Exn ''Exception''
           (''Could not determine if the document exists due to the following error: '' @ exn_msg e))
       else raiseIO e)"

section \<open>What the checks establish\<close>

text \<open>A row of the feed that shows document \<open>i\<close> at revision \<open>x\<close>; a user document has no revisions.\<close>

definition row_shows :: "string \<Rightarrow> pyval \<Rightarrow> pyval \<Rightarrow> bool" where
  "row_shows i x row \<longleftrightarrow> py_item row ''id'' = Inr (PStr i) \<and>
     (startswith i ''_user/'' \<or>
      (\<exists>cs c r. bindR (py_item row ''changes'') py_iter = Inr cs \<and> c \<in> set cs \<and> py_item c ''rev'' = Inr r \<and> py_eq r x))"

lemma cross_out_kept:
  assumes "foldR (cross_out j) m cs = Inr m'" "map_of m i = Some x"
  shows "map_of m' i = Some x \<or> i = j \<and> (\<exists>c \<in> set cs. \<exists>r. py_item c ''rev'' = Inr r \<and> py_eq r x)"
  using assms
proof (induction cs arbitrary: m)
  case (Cons c cs)
  then obtain m1 where m1: "cross_out j m c = Inr m1" "foldR (cross_out j) m1 cs = Inr m'" by (auto simp: bindR_eq_Inr)
  show ?case
  proof (cases "map_of m1 i = Some x")
    case True
    from Cons.IH [OF m1(2) True] show ?thesis by auto
  next
    case False
    with m1(1) Cons.prems(2) show ?thesis by (auto simp: cross_out_def bindR_eq_Inr dict_index_Inr split: if_splits)
  qed
qed simp

lemma changes_step_kept:
  assumes "changes_step rt (m, sqs, un) row = Inr (m', sqs', un')" "map_of m i = Some x"
  shows "map_of m' i = Some x \<or> row_shows i x row"
proof -
  from assms(1) obtain v found where f: "py_item row ''id'' = Inr v" "expected_id m v = Inr found"
    by (auto simp: changes_step_def bindR_eq_Inr)
  show ?thesis
  proof (cases found)
    case None
    with assms f show ?thesis by (auto simp: changes_step_def)
  next
    case (Some j)
    with f(2) have v: "v = PStr j" by (auto simp: expected_id_def bindR_eq_Inr split: pyval.splits if_splits)
    from assms(1) f Some obtain m1 cs where m1: "startswith j ''_user/'' \<and> m1 = dict_del m j \<or> \<not> startswith j ''_user/'' \<and> m1 = m"
      and cs: "bindR (py_item row ''changes'') py_iter = Inr cs" "foldR (cross_out j) m1 cs = Inr m'"
      by (auto simp: changes_step_def bindR_eq_Inr split: if_splits)
    show ?thesis
    proof (cases "i = j \<and> startswith j ''_user/''")
      case True
      with f(1) v show ?thesis by (simp add: row_shows_def)
    next
      case False
      with m1 assms(2) have "map_of m1 i = Some x" by auto
      from cross_out_kept [OF cs(2) this] f(1) v cs(1) show ?thesis by (auto simp: row_shows_def)
    qed
  qed
qed

lemma changes_steps_kept:
  assumes "foldR (changes_step rt) (m, sqs, un) rows = Inr (m', sqs', un')" "map_of m i = Some x"
  shows "map_of m' i = Some x \<or> (\<exists>row \<in> set rows. row_shows i x row)"
  using assms
proof (induction rows arbitrary: m sqs un)
  case (Cons row rows)
  then obtain m1 sqs1 un1 where 1: "changes_step rt (m, sqs, un) row = Inr (m1, sqs1, un1)"
    "foldR (changes_step rt) (m1, sqs1, un1) rows = Inr (m', sqs', un')"
    by (auto simp: bindR_eq_Inr)
  from changes_step_kept [OF 1(1) Cons.prems(2)] Cons.IH [OF 1(2)] show ?case by auto
qed simp

text \<open>An answer of the feed with such a row.\<close>

definition feed_shows :: "'w http \<Rightarrow> string \<Rightarrow> string \<Rightarrow> auth \<Rightarrow> int \<Rightarrow> string \<Rightarrow> pyval \<Rightarrow> bool" where
  "feed_shows http url db auth interval i x \<longleftrightarrow> (\<exists>since v v' resp_obj rows row.
     get_changes http url db since auth (default_changes\<lparr>ca_timeout := interval\<rparr>) v = (Inr resp_obj, v') \<and>
     bindR (py_item resp_obj ''results'') py_iter = Inr rows \<and> row \<in> set rows \<and> row_shows i x row)"

lemma changes_round_kept:
  assumes "changes_round http url db auth strict interval (m, sqs, ls) w = (Inr out, w')" "map_of m i = Some x"
  shows "(\<exists>m' sqs' ls'. out = Inl (m', sqs', ls') \<and> map_of m' i = Some x) \<or> feed_shows http url db auth interval i x"
proof -
  from assms(1) obtain resp_obj rows m' sqs' un' v where
    g: "get_changes http url db ls auth (default_changes\<lparr>ca_timeout := interval\<rparr>) w = (Inr resp_obj, w')"
    "bindR (py_item resp_obj ''results'') py_iter = Inr rows" and
    f: "foldR (changes_step (http_runtime http)) (m, sqs, []) rows = Inr (m', sqs', un')" and
    out: "m' = [] \<and> out = Inr () \<or> (\<exists>l. out = Inl (m', sqs', l))"
    by (auto simp: changes_round_def bindR_eq_Inr elim!: bindIO_cases split: if_splits)
  from changes_steps_kept [OF f assms(2)] show ?thesis
  proof
    assume "map_of m' i = Some x"
    with out show ?thesis by auto
  next
    assume "\<exists>row \<in> set rows. row_shows i x row"
    with g show ?thesis unfolding feed_shows_def by blast
  qed
qed

lemma get_changes_onward [time_intros]: "http_onward time http \<Longrightarrow> onward time (get_changes http url db since auth ca)"
  by (auto simp: get_changes_def Let_def split: server_type.splits intro!: time_intros)

lemma changes_round_onward: "http_onward time http \<Longrightarrow> onward time (changes_round http url db auth strict interval s)"
  by (auto simp: changes_round_def split: prod.splits intro!: time_intros)

lemma doc_id_round_onward: "http_onward time http \<Longrightarrow> onward time (doc_id_round http url db i auth u)"
  by (auto simp: doc_id_round_def intro!: time_intros)

interpretation changes_loop: polling time 1 "changes_round http url db auth strict interval" "http_onward time http"
  for time http url db auth strict interval
  by unfold_locales (simp_all add: changes_round_onward)

interpretation doc_id_loop: polling time 1 "doc_id_round http url db i auth" "http_onward time http" for time http url db i auth
  by unfold_locales (simp_all add: doc_id_round_onward)



text \<open>
  \<open>does_doc_exist\<close> never answers \<open>True\<close>: for a document that exists it returns \<open>None\<close>, which a caller that tests
  the result reads as \<open>False\<close>, the answer for a missing document.
\<close>

theorem does_doc_exist_falsy:
  "does_doc_exist http url db doc_id auth scope collection w = (Inr v, w') \<Longrightarrow> \<not> py_truth v"
  by (auto simp: does_doc_exist_def tryIO_def split: prod.splits sum.splits if_splits elim!: bindIO_cases)

theorem does_doc_exist_falsy_witness: "\<not> py_truth PNone"
proof (rule does_doc_exist_falsy)
  have "json_loads bare_runtime ''{}'' = Inr (PDict [])" by (rule json_roundtrip) simp_all
  then show "does_doc_exist (quiet_http ''{}'') ''http://h'' ''db'' ''d0'' NoAuth None None () = (Inr PNone, ())"
    by (simp add: does_doc_exist_def get_doc_def Let_def tryIO_def bindIO_def checked_json_def checked_def send_typed_def get_auth_type_def
        quiet_http_def text_response_def raise_for_status_def http_error_text_def resp_json_def strip_attachments_def py_in_str_def dict_has_def)
qed

end
