(* ===== verification/Sg_Config.thy ===== *)
theory Sg_Config
  imports Cluster_Config Py_Ops
begin

text \<open>
  \<open>libraries/testkit/config.py\<close>: reading a Sync Gateway configuration, with the temporary copies of
  configuration files that \<open>utilities/cluster_config_utils.py\<close> makes. A configuration is JSON in which a
  sync function may stand between back quotes; it is turned into JSON character by character. The
  template engine (\<open>jinja2\<close>) is the argument \<open>render\<close>, and the order in which \<open>list(set(...))\<close> returns its
  elements is the argument \<open>ord\<close>.
\<close>

section \<open>Files\<close>

text \<open>
  The text of a file that is kept by its meaning depends on how it was written; where the code reads it as
  text, it is the argument \<open>as_text\<close>.
\<close>

definition read_text :: "(file_content \<Rightarrow> string) \<Rightarrow> environment \<Rightarrow> string \<Rightarrow> string res" where
  "read_text as_text env f = (case dict_get (env_files env) f of
       None \<Rightarrow> Inl (no_such_file f)
     | Some (TextFile t) \<Rightarrow> Inr t
     | Some c \<Rightarrow> Inr (as_text c))"

text \<open>\<open>open(f, "w+")\<close> empties the file; \<open>copyfile\<close> refuses to copy a file onto itself.\<close>

definition truncate :: "string \<Rightarrow> (environment, unit) io" where
  "truncate f env = (Inr (), write_file env f (TextFile []))"

definition copyfile :: "string \<Rightarrow> string \<Rightarrow> (environment, unit) io" where
  "copyfile src dst env =
     (if src = dst then (raise_exc ''SameFileError'' (repr_str src @ '' and '' @ repr_str dst @ '' are the same file''), env)
      else (case dict_get (env_files env) src of
          None \<Rightarrow> (Inl (no_such_file src), env)
        | Some c \<Rightarrow> (Inr (), write_file env dst c)))"

definition BUCKET_LIST :: string where
  "BUCKET_LIST = ''resources/database_configs/buckets_config_list.json''"

definition SYNC_GATEWAY_CONFIGS_CPC :: string where
  "SYNC_GATEWAY_CONFIGS_CPC = ''resources/sync_gateway_configs_cpc''"

definition copy_to_temp_conf :: "string \<Rightarrow> string \<Rightarrow> (environment, string) io" where
  "copy_to_temp_conf cluster_config mode =
     (let temp_cluster_config = ''resources/cluster_configs/temp_cluster_config_'' @ mode;
          temp_cluster_config_json = temp_cluster_config @ ''.json'' in
      bindIO (truncate temp_cluster_config) (\<lambda>_.
      bindIO (truncate temp_cluster_config_json) (\<lambda>_.
      bindIO (copyfile cluster_config temp_cluster_config) (\<lambda>_.
      bindIO (copyfile (cluster_config @ ''.json'') temp_cluster_config_json) (\<lambda>_.
      returnIO temp_cluster_config)))))"

definition get_bucket_list_cpc :: "string \<Rightarrow> (environment, pyval) io" where
  "get_bucket_list_cpc sgw_config env =
     (let sgw_conf_file_name = hd (split_str ''_cc.'' (last (split_chr CHR ''/'' sgw_config)))
      in (bindR (read_json env BUCKET_LIST) (\<lambda>json_data. py_item json_data sgw_conf_file_name), env))"

definition copy_sgconf_to_tempconfig_for_persistent_config_test :: "string \<Rightarrow> string \<Rightarrow> (environment, string \<times> string \<times> pyval) io" where
  "copy_sgconf_to_tempconfig_for_persistent_config_test sg_conf mode =
     (let temp_sg_config = ''resources/sync_gateway_configs/temp_sg_config_persistent_'' @ mode @ ''.json'' in
      bindIO (truncate temp_sg_config) (\<lambda>_.
      bindIO (copyfile sg_conf temp_sg_config) (\<lambda>_.
      bindIO (if contains_str sg_conf ''sync_gateway_configs_cpc'' then get_bucket_list_cpc sg_conf else returnIO (PList [])) (\<lambda>bucket_list.
      returnIO (temp_sg_config, ''temp_sg_config'', bucket_list)))))"

definition copy_sgconf_to_temp :: "string \<Rightarrow> string \<Rightarrow> (environment, string \<times> string) io" where
  "copy_sgconf_to_temp sg_conf mode =
     (let temp_sg_config = ''resources/sync_gateway_configs/temp_sg_config_'' @ mode @ ''.json'' in
      bindIO (truncate temp_sg_config) (\<lambda>_.
      bindIO (copyfile sg_conf temp_sg_config) (\<lambda>_.
      returnIO (temp_sg_config, ''temp_sg_config''))))"

definition copy_to_temp_cpc_config :: "string \<Rightarrow> string \<Rightarrow> (environment, unit) io" where
  "copy_to_temp_cpc_config temp_sg_config mode =
     copyfile temp_sg_config (SYNC_GATEWAY_CONFIGS_CPC @ ''/temp_sg_config_'' @ mode @ ''.json'')"

definition replace_string_on_sgw_config :: "(file_content \<Rightarrow> string) \<Rightarrow> string \<Rightarrow> string \<Rightarrow> string \<Rightarrow> (environment, string) io" where
  "replace_string_on_sgw_config as_text sg_conf replace_string new_string env =
     (case read_text as_text env sg_conf of
        Inl e \<Rightarrow> (Inl e, env)
      | Inr filedata \<Rightarrow> (Inr sg_conf, write_file env sg_conf (TextFile (replace_str replace_string new_string filedata))))"

text \<open>The file is emptied before the value is written as text, which may fail.\<close>

definition copy_json_to_temp_file :: "pyval \<Rightarrow> string \<Rightarrow> (environment, string) io" where
  "copy_json_to_temp_file conf temp_config env =
     (let env1 = write_file env temp_config (TextFile []) in
      case json_dumps (env_runtime env) conf of
        Inl e \<Rightarrow> (Inl e, env1)
      | Inr _ \<Rightarrow> (Inr temp_config, write_file env1 temp_config (JsonFile conf)))"

section \<open>Sync functions between back quotes\<close>

definition escape_json_value :: "string \<Rightarrow> string" where
  "escape_json_value raw_value =
     (let escaped = replace_str [chr_bslash] [chr_bslash, chr_bslash] raw_value;
          escaped = replace_str [chr_dquote] [chr_bslash, chr_dquote] escaped
      in replace_str [chr_squote] [chr_bslash, chr_squote] escaped)"

datatype tick_state = STATE_OUTSIDE_BACKTICK | STATE_INSIDE_BACKTICK

text \<open>One character: the state, the output so far and the buffer of the sync function.\<close>

fun tick_char :: "tick_state \<times> string \<times> string \<Rightarrow> char \<Rightarrow> tick_state \<times> string \<times> string" where
  "tick_char (state, out, buffer) json_char =
     (if json_char \<noteq> chr_backtick then
        (case state of
           STATE_OUTSIDE_BACKTICK \<Rightarrow> (state, out @ [json_char], buffer)
         | STATE_INSIDE_BACKTICK \<Rightarrow> (state, out, buffer @ [json_char]))
      else (case state of
           STATE_OUTSIDE_BACKTICK \<Rightarrow> (STATE_INSIDE_BACKTICK, out, buffer)
         | STATE_INSIDE_BACKTICK \<Rightarrow>
             (STATE_OUTSIDE_BACKTICK, out @ [chr_dquote] @ escape_json_value buffer @ [chr_dquote], [])))"

definition convert_to_valid_json :: "string \<Rightarrow> string" where
  "convert_to_valid_json invalid_json =
     (let invalid_json = replace_str [chr_newline] [] invalid_json;
          invalid_json = replace_str [chr_tab] [] invalid_json
      in fst (snd (foldl tick_char (STATE_OUTSIDE_BACKTICK, [], []) invalid_json)))"

section \<open>The configuration object\<close>

record sg_config =
  conf_path :: string
  conf_mode :: pyval
  bucket_name_set :: pyval
  conf_db :: pyval

text \<open>With a sync function in the text, the parts between back quotes are replaced by a word.\<close>

fun drop_functions :: "string list \<Rightarrow> string" where
  "drop_functions [] = []"
| "drop_functions [c] = c"
| "drop_functions (c # f # cs) = c @ '' '' @ dq ''syncfunction'' @ '' '' @ drop_functions cs"

definition without_functions :: "string \<Rightarrow> string" where
  "without_functions data =
     (if chr_backtick \<in> set data then drop_functions (split_chr chr_backtick data) else data)"

definition discover_mode :: "sg_config \<Rightarrow> pyval \<Rightarrow> sg_config res" where
  "discover_mode c conf_obj =
     bindR (dict_attr conf_obj ''keys'') (\<lambda>d. Inr (c\<lparr>conf_mode := PStr (if dict_has d ''cluster_config'' then ''di'' else ''cc'')\<rparr>))"

text \<open>The buckets of one database: the data bucket with its index bucket, and the shadow bucket.\<close>

definition data_buckets :: "pyval \<Rightarrow> pyval list res" where
  "data_buckets val = bindR (py_in_str ''bucket'' val) (\<lambda>has.
     if has then bindR (py_item val ''bucket'') (\<lambda>b. bindR (py_in_str ''channel_index'' val) (\<lambda>idx.
       if idx then bindR (py_item2 val ''channel_index'' ''bucket'') (\<lambda>i. Inr [b, i]) else Inr [b]))
     else Inr [])"

definition shadow_bucket :: "pyval \<Rightarrow> pyval list res" where
  "shadow_bucket val = bindR (py_in_str ''shadow'' val) (\<lambda>has.
     if has then bindR (py_item2 val ''shadow'' ''bucket'') (\<lambda>b. bindR (py_len b) (\<lambda>n. Inr (if n > 0 then [b] else [])))
     else Inr [])"

definition db_buckets :: "pyval \<Rightarrow> pyval list res" where
  "db_buckets val = bindR (data_buckets val) (\<lambda>bs. bindR (shadow_bucket val) (\<lambda>ss. Inr (bs @ ss)))"

definition cbgt_bucket :: "pyval \<Rightarrow> pyval list res" where
  "cbgt_bucket conf_obj = bindR (dict_attr conf_obj ''keys'') (\<lambda>d.
     if dict_has d ''cluster_config'' then bindR (py_item2 conf_obj ''cluster_config'' ''bucket'') (\<lambda>b. Inr [b]) else Inr [])"

definition discover_bucket_name_set :: "(pyval list \<Rightarrow> pyval list) \<Rightarrow> sg_config \<Rightarrow> pyval \<Rightarrow> sg_config res" where
  "discover_bucket_name_set ord c conf_obj =
     bindR (cbgt_bucket conf_obj) (\<lambda>cs.
     bindR (bindR (py_item conf_obj ''databases'') (\<lambda>dbs. dict_attr dbs ''items'')) (\<lambda>dbs.
     bindR (mapR db_buckets (dict_values dbs)) (\<lambda>bs.
     let bucket_names_from_config = cs @ concat bs in
     bindR (mapR py_hashable bucket_names_from_config) (\<lambda>_.
     Inr (c\<lparr>bucket_name_set := PList (ord bucket_names_from_config)\<rparr>)))))"

definition discover_bucket_name_set_new :: "sg_config \<Rightarrow> pyval \<Rightarrow> sg_config res" where
  "discover_bucket_name_set_new c conf_obj =
     bindR (cbgt_bucket conf_obj) (\<lambda>cs.
     bindR (dict_attr conf_obj ''items'') (\<lambda>dbs.
     bindR (mapR db_buckets (dict_values dbs)) (\<lambda>bs.
     Inr (c\<lparr>bucket_name_set := PList (cs @ concat bs)\<rparr>))))"

definition discover_bucket_name_set_3_0 :: "environment \<Rightarrow> sg_config \<Rightarrow> string \<Rightarrow> sg_config res" where
  "discover_bucket_name_set_3_0 env c sgw_config =
     bindR (read_json env BUCKET_LIST) (\<lambda>json_data.
       case py_item json_data sgw_config of
         Inr b \<Rightarrow> Inr (c\<lparr>bucket_name_set := b\<rparr>)
       | Inl e \<Rightarrow> if exn_class e = ''KeyError'' then Inr (c\<lparr>bucket_name_set := PList []\<rparr>) else Inl e)"

definition Config_init :: "(file_content \<Rightarrow> string) \<Rightarrow> (string \<Rightarrow> string res) \<Rightarrow> (pyval list \<Rightarrow> pyval list) \<Rightarrow> environment \<Rightarrow> string \<Rightarrow> pyval list \<Rightarrow>
    sg_config res" where
  "Config_init as_text render ord env path_arg bucket_list =
     bindR (read_text as_text env path_arg) (\<lambda>data.
     bindR (render (without_functions data)) (\<lambda>data.
     bindR (json_loads (env_runtime env) (convert_to_valid_json data)) (\<lambda>conf_obj.
     bindR (discover_mode \<lparr>conf_path = path_arg, conf_mode = PNone, bucket_name_set = PList [], conf_db = PNone\<rparr> conf_obj) (\<lambda>c.
     if bucket_list \<noteq> [] then Inr (c\<lparr>bucket_name_set := PList bucket_list\<rparr>)
     else discover_bucket_name_set ord c conf_obj))))"

section \<open>Server and database configuration\<close>

text \<open>The server's file still contains the databases: it is written before they are removed.\<close>

definition seperate_sgw_and_db_config_new :: "string \<Rightarrow> (environment, string \<times> string option) io" where
  "seperate_sgw_and_db_config_new sgw_conf_data env =
     bindIO (liftIO (json_loads (env_runtime env) sgw_conf_data)) (\<lambda>conf.
     bindIO (copy_json_to_temp_file conf ''resources/temp/temp_sgw_config.json'') (\<lambda>sgw_config_file.
     tryIO (bindIO (liftIO (py_item conf ''databases'')) (\<lambda>databases.
            bindIO (copy_json_to_temp_file databases ''resources/temp/temp_config_db.json'') (\<lambda>db_config_file.
            returnIO (sgw_config_file, Some db_config_file))))
       (\<lambda>e. if exn_class e = ''KeyError'' then returnIO (sgw_config_file, None) else raiseIO e))) env"

definition seperate_sgw_and_db_config :: "string \<Rightarrow> (environment, string \<times> pyval) io" where
  "seperate_sgw_and_db_config sgw_conf_data env =
     bindIO (liftIO (json_loads (env_runtime env) (convert_to_valid_json sgw_conf_data))) (\<lambda>conf.
     bindIO (copy_json_to_temp_file conf ''resources/temp/temp_sgw_config.json'') (\<lambda>sgw_config_file.
     bindIO (liftIO (dict_attr conf ''keys'')) (\<lambda>d.
     returnIO (sgw_config_file, case dict_get d ''databases'' of Some v \<Rightarrow> v | None \<Rightarrow> PDict [])))) env"

section \<open>What becomes of a sync function\<close>

text \<open>Line ends and tabs are dropped before anything else.\<close>

definition visible :: "string \<Rightarrow> string" where
  "visible s = List.filter (\<lambda>c. c \<noteq> chr_newline \<and> c \<noteq> chr_tab) s"

lemma visible_simps [simp]:
  "visible [] = []" "visible (c # s) = (if c = chr_newline \<or> c = chr_tab then visible s else c # visible s)"
  "visible (s @ t) = visible s @ visible t"
  by (simp_all add: visible_def)

lemma set_visible: "set (visible s) \<subseteq> set s"
  by (auto simp: visible_def)

lemma visible_id: "chr_newline \<notin> set s \<Longrightarrow> chr_tab \<notin> set s \<Longrightarrow> visible s = s"
  by (induction s) auto

lemma strip_layout: "replace_str [chr_tab] [] (replace_str [chr_newline] [] s) = visible s"
proof -
  have "concat (map (\<lambda>x. if x = c then [] else [x]) s) = List.filter (\<lambda>x. x \<noteq> c) s" for c and s :: string
    by (induction s) auto
  then show ?thesis by (simp add: replace_str_chr visible_def conj_commute)
qed

definition js_esc :: "char \<Rightarrow> string" where
  "js_esc c = (if c \<in> {chr_bslash, chr_dquote, chr_squote} then [chr_bslash, c] else [c])"

lemma escape_json_value_map: "escape_json_value s = concat (map js_esc s)"
  by (induction s) (auto simp: escape_json_value_def replace_str_chr js_esc_def Let_def)

lemma ticks_outside:
  "chr_backtick \<notin> set a \<Longrightarrow> foldl tick_char (STATE_OUTSIDE_BACKTICK, out, buf) a = (STATE_OUTSIDE_BACKTICK, out @ a, buf)"
  by (induction a arbitrary: out) auto

lemma ticks_inside:
  "chr_backtick \<notin> set f \<Longrightarrow> foldl tick_char (STATE_INSIDE_BACKTICK, out, buf) f = (STATE_INSIDE_BACKTICK, out, buf @ f)"
  by (induction f arbitrary: buf) auto

lemma ticks_output: "foldl tick_char (st, out @ out', buf) s = (case foldl tick_char (st, out', buf) s of (st', o', b') \<Rightarrow> (st', out @ o', b'))"
proof (induction s arbitrary: st out' buf)
  case (Cons c s)
  obtain st' o' b' where t: "tick_char (st, out', buf) c = (st', o', b')" by (metis prod_cases3)
  then have "tick_char (st, out @ out', buf) c = (st', out @ o', b')"
    by (auto split: tick_state.splits if_splits)
  with t Cons.IH show ?case by simp
qed simp

lemma convert_function:
  assumes "chr_backtick \<notin> set a" "chr_backtick \<notin> set f"
  shows "convert_to_valid_json (a @ [chr_backtick] @ f @ [chr_backtick] @ s) =
    visible a @ dq (escape_json_value (visible f)) @ convert_to_valid_json s"
proof -
  have v: "chr_backtick \<notin> set (visible a)" "chr_backtick \<notin> set (visible f)" using assms set_visible by blast+
  let ?out = "visible a @ dq (escape_json_value (visible f))"
  have "foldl tick_char (STATE_OUTSIDE_BACKTICK, [], []) (visible (a @ [chr_backtick] @ f @ [chr_backtick] @ s)) =
    foldl tick_char (STATE_OUTSIDE_BACKTICK, ?out @ [], []) (visible s)"
    using v by (simp add: ticks_outside ticks_inside dq_def)
  then show ?thesis
    by (simp only: convert_to_valid_json_def Let_def strip_layout ticks_output) (auto split: prod.splits)
qed

lemma convert_plain:
  assumes "chr_backtick \<notin> set s"
  shows "convert_to_valid_json s = visible s"
proof -
  have "chr_backtick \<notin> set (visible s)" using assms set_visible by blast
  then show ?thesis by (simp add: convert_to_valid_json_def Let_def strip_layout ticks_outside)
qed

text \<open>A text that JSON writes with the two escapes that \<open>escape_json_value\<close> knows.\<close>

definition printable_text :: "string \<Rightarrow> bool" where
  "printable_text s \<longleftrightarrow> list_all (\<lambda>c. 32 \<le> (of_char c :: nat) \<and> (of_char c :: nat) \<le> 126 \<and> c \<noteq> chr_squote) s"

lemma escape_is_json: "printable_text s \<Longrightarrow> dq (escape_json_value s) = json_str s"
proof -
  have "js_esc c = json_esc c" if "32 \<le> (of_char c :: nat)" "(of_char c :: nat) \<le> 126" "c \<noteq> chr_squote" for c
    using that by (auto simp: js_esc_def json_esc_def Let_def)
  then have "printable_text s \<Longrightarrow> concat (map js_esc s) = concat (map json_esc s)"
    by (induction s) (auto simp: printable_text_def)
  then show "printable_text s \<Longrightarrow> ?thesis" by (simp add: escape_json_value_map json_str_def)
qed

text \<open>An object with one member, the function between back quotes.\<close>

definition quoted_function :: "string \<Rightarrow> string \<Rightarrow> string" where
  "quoted_function k f = ''{'' @ json_str k @ '': '' @ [chr_backtick] @ f @ [chr_backtick] @ ''}''"

lemma hex_chr_plain: "d < 16 \<Longrightarrow> hex_chr d \<notin> {chr_backtick, chr_newline, chr_tab}"
proof -
  assume "d < 16"
  then have "of_char (hex_chr d) \<in> {48..<58} \<union> {97..<103 :: nat}" by (auto simp: hex_chr_def)
  then show ?thesis by (auto simp: hex_chr_def)
qed

lemma json_esc_plain: "set (json_esc c) \<inter> {chr_backtick, chr_newline, chr_tab} \<subseteq> {chr_backtick} \<inter> {c}"
proof -
  have "(of_char c :: nat) div 16 < 16" using nat_of_char_less_256 [of c] by (simp add: less_mult_imp_div_less)
  with hex_chr_plain [of "of_char c div 16"] hex_chr_plain [of "of_char c mod 16"] show ?thesis
    by (auto simp: json_esc_def Let_def)
qed

lemma json_str_plain: "chr_newline \<notin> set (json_str k)" "chr_tab \<notin> set (json_str k)" "chr_backtick \<in> set (json_str k) \<Longrightarrow> chr_backtick \<in> set k"
  using json_esc_plain by (force simp: json_str_def dq_def)+

lemma convert_quoted_function:
  assumes "chr_backtick \<notin> set k" "chr_backtick \<notin> set f"
  shows "convert_to_valid_json (quoted_function k f) = ''{'' @ json_str k @ '': '' @ dq (escape_json_value (visible f)) @ ''}''"
proof -
  have "chr_backtick \<notin> set (''{'' @ json_str k @ '': '')" using assms(1) json_str_plain(3) by auto
  from convert_function [OF this assms(2), of "''}''"] show ?thesis
    by (simp add: quoted_function_def convert_plain visible_id json_str_plain)
qed

text \<open>
  C17: a sync function between back quotes that has no single quote and no back quote, and of the characters
  that are not printable only line ends and tabs, is turned into the JSON string of the function
  without its line ends and tabs, whatever surrounds it; read as JSON, the configuration has the function.
\<close>

theorem sync_function_read_back:
  assumes "printable_text (visible f)" "chr_backtick \<notin> set f" "chr_backtick \<notin> set k" "chr_backtick \<notin> set a"
  shows "convert_to_valid_json (a @ [chr_backtick] @ f @ [chr_backtick] @ s) = visible a @ json_str (visible f) @ convert_to_valid_json s
    \<and> json_loads rt (convert_to_valid_json (quoted_function k f)) = Inr (PDict [(k, PStr (visible f))])"
proof
  show "convert_to_valid_json (a @ [chr_backtick] @ f @ [chr_backtick] @ s) = visible a @ json_str (visible f) @ convert_to_valid_json s"
    using convert_function [OF assms(4,2)] assms(1) by (simp add: escape_is_json)
  have "json_dumps rt (PDict [(k, PStr (visible f))]) = Inr (convert_to_valid_json (quoted_function k f))"
    using convert_quoted_function [OF assms(3,2)] assms(1) by (simp add: escape_is_json)
  then show "json_loads rt (convert_to_valid_json (quoted_function k f)) = Inr (PDict [(k, PStr (visible f))])"
    by (rule json_roundtrip [rotated]) simp
qed

theorem sync_function_read_back_witness:
  "json_loads bare_runtime (convert_to_valid_json (quoted_function ''sync'' (''function(doc) {'' @ nl @ ''channel(doc.channels);}'')))
     = Inr (PDict [(''sync'', PStr ''function(doc) {channel(doc.channels);}'')])"
proof -
  let ?f = "''function(doc) {'' @ nl @ ''channel(doc.channels);}''"
  have v: "visible ?f = ''function(doc) {channel(doc.channels);}''" by simp
  have "printable_text (visible ?f)" unfolding v by code_simp
  from sync_function_read_back [OF this, of "''sync''" "[]" "[]" bare_runtime] show ?thesis unfolding v by simp
qed

lemma parse_js_esc:
  "parse_jstr (js_esc c @ r) = (if c = chr_squote \<or> (of_char c :: nat) < 32 then None else map_option (\<lambda>p. (c # fst p, snd p)) (parse_jstr r))"
  by (auto simp: js_esc_def json_unesc_def)

lemma parse_squote_fails: "chr_squote \<in> set s \<Longrightarrow> parse_jstr (concat (map js_esc s) @ r) = None"
  by (induction s) (auto simp: parse_js_esc)

text \<open>
  C32: a sync function with a single quote is escaped to text that is not JSON: reading the configuration
  raises \<open>JSONDecodeError\<close>.
\<close>

theorem sync_function_single_quote:
  assumes "chr_squote \<in> set f" "chr_backtick \<notin> set f" "chr_backtick \<notin> set k"
  shows "\<exists>e. json_loads rt (convert_to_valid_json (quoted_function k f)) = Inl e \<and> exn_class e = ''JSONDecodeError''"
proof -
  have "chr_squote \<in> set (visible f)" using assms(1) by (auto simp: visible_def)
  then have p: "parse_jstr (escape_json_value (visible f) @ r) = None" for r
    by (simp add: escape_json_value_map parse_squote_fails)
  then have "pv rt (dq (escape_json_value (visible f)) @ ''}'') = None" by (simp add: dq_def pv.simps)
  then have "po rt (json_str k @ '': '' @ dq (escape_json_value (visible f)) @ ''}'') = None"
    by (simp add: json_str_def dq_def po.simps parse_jstr_concat skip_ws_def is_ws_def)
  then have "pv rt (skip_ws (convert_to_valid_json (quoted_function k f))) = None"
    by (simp add: convert_quoted_function [OF assms(3,2)] pv.simps json_str_def dq_def skip_ws_def is_ws_def)
  then show ?thesis by (simp add: json_loads_def)
qed

theorem sync_function_single_quote_witness:
  "\<exists>e. json_loads bare_runtime (convert_to_valid_json (quoted_function ''sync'' (''function(doc) {throw('' @ [chr_squote] @ ''no'' @ [chr_squote] @ '');}''))) = Inl e
     \<and> exn_class e = ''JSONDecodeError''"
  by (rule sync_function_single_quote) simp_all

end
