(* ===== verification/Remote_Exec.thy ===== *)
theory Remote_Exec
  imports Kit_Utils
begin

text \<open>
  \<open>keywords/remoteexecutor.py\<close>: commands over ssh. The ssh library is the parameter \<open>'w ssh\<close>: a command with the
  host, the user, the password and whether a terminal is asked for, answered with the exit status and the
  lines of both streams. The default user of ansible is an argument.
\<close>

record executor =
  ex_host :: string
  ex_platform :: string
  ex_username :: pyval
  ex_password :: pyval

record ssh_call =
  sc_host :: string
  sc_user :: pyval
  sc_password :: pyval
  sc_command :: string
  sc_pty :: bool

type_synonym 'w ssh = "ssh_call \<Rightarrow> ('w, int \<times> string list \<times> string list) io"

definition RemoteExecutor_init :: "environment \<Rightarrow> pyval \<Rightarrow> string \<Rightarrow> string \<Rightarrow> pyval \<Rightarrow> pyval \<Rightarrow> string option \<Rightarrow> executor res" where
  "RemoteExecutor_init env default_user host platform username password cluster_config =
     (let host = (if CHR ''['' \<in> set host then replace_str '']'' [] (replace_str ''['' [] host) else host) in
      bindR (case cluster_config of
          Some cc \<Rightarrow> if platform = ''windows'' \<or> contains_str platform ''macos'' then
              bindR (read_json env (cc @ ''.json'')) (\<lambda>json_cluster.
              bindR (py_item json_cluster ''sync_gateways:vars'') (\<lambda>vars.
              bindR (py_item vars ''ansible_user'') (\<lambda>u. bindR (py_item vars ''ansible_password'') (\<lambda>p. Inr (u, p)))))
            else Inr (username, password)
        | None \<Rightarrow> Inr (username, password)) (\<lambda>(username, password).
      Inr (if username \<noteq> PNone
           then \<lparr>ex_host = host, ex_platform = platform, ex_username = username, ex_password = password\<rparr>
           else \<lparr>ex_host = host, ex_platform = platform, ex_username = default_user, ex_password = PNone\<rparr>)))"

text \<open>
  An executor made without a user has no password attribute; the branches for Windows, containers and
  macOS read it. Here it is \<open>None\<close> then.
\<close>

definition RemoteExecutor_execute :: "'w ssh \<Rightarrow> executor \<Rightarrow> string \<Rightarrow> ('w, int \<times> string list \<times> string list) io" where
  "RemoteExecutor_execute ssh ex command =
     (if ex_platform ex = ''windows'' then
        ssh \<lparr>sc_host = ex_host ex, sc_user = ex_username ex, sc_password = ex_password ex, sc_command = ''cmd /c '' @ command, sc_pty = False\<rparr>
      else if startswith (ex_platform ex) ''c-'' then
        ssh \<lparr>sc_host = ex_host ex, sc_user = ex_username ex, sc_password = ex_password ex, sc_command = command, sc_pty = False\<rparr>
      else if contains_str (ex_platform ex) ''macos'' then
        ssh \<lparr>sc_host = ex_host ex, sc_user = ex_username ex, sc_password = ex_password ex, sc_command = command, sc_pty = True\<rparr>
      else
        ssh \<lparr>sc_host = ex_host ex, sc_user = ex_username ex, sc_password = PNone, sc_command = command, sc_pty = True\<rparr>)"

definition RemoteExecutor_must_execute :: "'w ssh \<Rightarrow> executor \<Rightarrow> string \<Rightarrow> ('w, string list \<times> string list) io" where
  "RemoteExecutor_must_execute ssh ex command =
     bindIO (RemoteExecutor_execute ssh ex command) (\<lambda>(status, stdout_p, stderr_p).
     if status \<noteq> 0 then raiseIO (Exn ''RemoteCommandError'' (''command: '' @ command @ '' failed on host: '' @ ex_host ex))
     else returnIO (stdout_p, stderr_p))"

end
