(* ===== verification/Cbs_Server.thy ===== *)
theory Cbs_Server
  imports Rest_Changes Remote_Exec Deep_Compare
begin

text \<open>
  \<open>keywords/couchbaseserver.py\<close>: the administration of Couchbase Server over its REST interface. The state of
  a \<open>CouchbaseServer\<close> object is the record \<open>cbserver\<close>; the session, the clock, ssh, the Couchbase SDK and ansible
  are the record \<open>'w cbs_env\<close>. A dictionary passed as \<open>data\<close> is sent as a form. The exceptions of the \<open>requests\<close>
  library are told apart by the name of their class. Float arithmetic on megabytes is exact here.
\<close>

section \<open>The object and its environment\<close>

record cbserver =
  srv_url :: string
  srv_ssl :: bool
  srv_host :: string

record 'w cbs_env =
  ce_http :: "'w http"
  ce_clock :: "'w clock"
  ce_ssh :: "'w ssh"
  ce_config :: environment
  ce_user :: pyval
  ce_connect :: "string \<Rightarrow> string \<Rightarrow> ('w, unit) io"
  ce_query :: "string \<Rightarrow> string \<Rightarrow> string \<Rightarrow> ('w, pyval list) io"
  ce_remove :: "string \<Rightarrow> string \<Rightarrow> pyval \<Rightarrow> ('w, unit) io"
  ce_insert :: "string \<Rightarrow> string \<Rightarrow> string \<Rightarrow> string \<Rightarrow> string \<Rightarrow> pyval \<Rightarrow> ('w, pyval) io"
  ce_get :: "string \<Rightarrow> string \<Rightarrow> string \<Rightarrow> string \<Rightarrow> string \<Rightarrow> ('w, pyval) io"
  ce_playbook :: "string \<Rightarrow> (string, pyval) dict \<Rightarrow> pyval \<Rightarrow> ('w, int) io"

definition cbs_max_retries :: nat where
  "cbs_max_retries = 5"

definition strip_server :: "string \<Rightarrow> string" where
  "strip_server server =
     (if contains_str server ''https'' then replace_str '':18091'' [] (replace_str ''https://'' [] server)
      else replace_str '':8091'' [] (replace_str ''http://'' [] server))"

definition CouchbaseServer_init :: "string \<Rightarrow> cbserver" where
  "CouchbaseServer_init url =
     (let u = strip_brackets url in \<lparr>srv_url = u, srv_ssl = contains_str u ''https'', srv_host = strip_server u\<rparr>)"

section \<open>Requests\<close>

text \<open>The session's own requests carry the administrator's credentials.\<close>

definition srv_rq :: "string \<Rightarrow> string \<Rightarrow> http_request" where
  "srv_rq meth url = (rq meth url)\<lparr>rq_headers := [], rq_auth := AuthPair ''Administrator'' ''password''\<rparr>"

definition hex_upper :: "nat \<Rightarrow> char" where
  "hex_upper d = (if d < 10 then char_of (48 + d) else char_of (55 + d))"

text \<open>\<open>urllib.parse.urlencode\<close>.\<close>

definition quote_plus :: "string \<Rightarrow> string" where
  "quote_plus s = concat (map (\<lambda>c.
     if is_digit c \<or> c \<in> set ascii_letters \<or> c \<in> set ''_.-~'' then [c]
     else if c = CHR '' '' then ''+''
     else concat (map (\<lambda>n. [CHR ''%'', hex_upper (n div 16), hex_upper (n mod 16)]) (utf8 c))) s)"

definition form_encode :: "(string \<times> string) list \<Rightarrow> string" where
  "form_encode kvs = join ''&'' (map (\<lambda>kv. quote_plus (fst kv) @ ''='' @ quote_plus (snd kv)) kvs)"

definition as_form :: "string \<Rightarrow> http_request \<Rightarrow> http_request" where
  "as_form body r = with_header ''Content-Type'' ''application/x-www-form-urlencoded'' (with_data body r)"

definition srv_form :: "string \<Rightarrow> string \<Rightarrow> (string \<times> string) list \<Rightarrow> http_request" where
  "srv_form meth url kvs = as_form (form_encode kvs) (srv_rq meth url)"

abbreviation send_srv :: "'w cbs_env \<Rightarrow> http_request \<Rightarrow> ('w, http_response) io" where
  "send_srv ce r \<equiv> http_send (ce_http ce) r"

section \<open>Versions\<close>

definition get_server_version :: "'w cbs_env \<Rightarrow> string \<Rightarrow> bool \<Rightarrow> ('w, string) io" where
  "get_server_version ce host cbs_ssl =
     (let server_scheme = (if cbs_ssl then ''https'' else ''http''); server_port = (if cbs_ssl then ''18091'' else ''8091'') in
      bindIO (checked_json (ce_http ce) (send_srv ce ((rq ''GET''
        (server_scheme @ ''://Administrator:password@'' @ host @ '':'' @ server_port @ ''/pools''))\<lparr>rq_headers := []\<rparr>))) (\<lambda>resp_obj. liftIO
       (bindR (py_item resp_obj ''implementationVersion'') (\<lambda>v. bindR (str_attr v ''split'') (\<lambda>running_server_version.
        let parts = split_chr CHR ''-'' running_server_version in
        bindR (list_item parts 1) (\<lambda>build. Inr (hd parts @ ''-'' @ build)))))))"

definition verify_server_version :: "'w cbs_env \<Rightarrow> string \<Rightarrow> string \<Rightarrow> bool \<Rightarrow> ('w, unit) io" where
  "verify_server_version ce host expected_server_version cbs_ssl =
     bindIO (get_server_version ce host cbs_ssl) (\<lambda>running_server_version. liftIO
      (let expected_parts = split_chr CHR ''-'' expected_server_version;
           unexpected = (\<lambda>actual. raise_exc ''ProvisioningError''
             (''Unexpected server version!! Expected: '' @ expected_server_version @ '' Actual: '' @ actual)) in
       if length expected_parts = 2 then
         (if running_server_version \<noteq> expected_server_version then unexpected running_server_version else Inr ())
       else if length expected_parts = 1 then
         (let running = hd (split_chr CHR ''-'' running_server_version) in
          if expected_server_version \<noteq> running then unexpected running else Inr ())
       else raise_exc ''ProvisioningError'' ''Unsupported version format''))"

text \<open>\<open>int(server_version.split(".")[0])\<close>.\<close>

definition major_version :: "string \<Rightarrow> int res" where
  "major_version v = py_int_of (hd (split_chr CHR ''.'' v))"

section \<open>Buckets\<close>

fun bucket_tries :: "'w cbs_env \<Rightarrow> http_request \<Rightarrow> nat \<Rightarrow> ('w, http_response) io" where
  "bucket_tries ce r 0 = raiseIO (Exn ''CBServerError'' ''Error! Could not get buckets after retries.'')"
| "bucket_tries ce r (Suc n) = tryIO (checked (send_srv ce r)) (\<lambda>e.
     if exn_class e = ''ConnectionError'' then bindIO (clk_sleep (ce_clock ce) 1) (\<lambda>_. bucket_tries ce r n) else raiseIO e)"

definition cbs_get_bucket_names :: "'w cbs_env \<Rightarrow> cbserver \<Rightarrow> ('w, pyval list) io" where
  "cbs_get_bucket_names ce sv =
     bindIO (bucket_tries ce (srv_rq ''GET'' (srv_url sv @ ''/pools/default/buckets'')) cbs_max_retries) (\<lambda>resp. liftIO
      (bindR (resp_json (ce_http ce) resp) (\<lambda>obj. mapR_in obj (\<lambda>entry. py_item entry ''name''))))"

text \<open>
  The loop that deletes the user. What raised is swallowed; the status of the last answer is
  checked after each failed round, also where there has been no answer yet.
\<close>

definition last_status :: "http_response option \<Rightarrow> unit res" where
  "last_status resp = (case resp of Some r \<Rightarrow> raise_for_status r
     | None \<Rightarrow> no_attr PNone ''raise_for_status'')"

fun rbac_delete_tries :: "'w cbs_env \<Rightarrow> http_request \<Rightarrow> nat \<Rightarrow> http_response option \<Rightarrow> ('w, unit) io" where
  "rbac_delete_tries ce r 0 resp = returnIO ()"
| "rbac_delete_tries ce r (Suc n) resp =
     bindIO (tryIO (bindIO (send_srv ce r) (\<lambda>resp. returnIO (Some resp))) (\<lambda>e.
        if exn_class e \<in> {''HTTPError'', ''ConnectionError'', ''ChunkedEncodingError''} then returnIO None else raiseIO e)) (\<lambda>answer.
     (case answer of
        Some a \<Rightarrow> if rs_status a = 200 then returnIO ()
          else bindIO (liftIO (raise_for_status a)) (\<lambda>_. rbac_delete_tries ce r n (Some a))
      | None \<Rightarrow> bindIO (liftIO (last_status resp)) (\<lambda>_. rbac_delete_tries ce r n resp)))"

text \<open>Versions are compared as text.\<close>

definition cbs_delete_internal_rbac_bucket_user :: "'w cbs_env \<Rightarrow> cbserver \<Rightarrow> string \<Rightarrow> ('w, unit) io" where
  "cbs_delete_internal_rbac_bucket_user ce sv bucketname =
     bindIO (get_server_version ce (srv_host sv) (srv_ssl sv)) (\<lambda>server_version.
     rbac_delete_tries ce (srv_form ''DELETE'' (srv_url sv @ ''/settings/rbac/users/local/'' @ bucketname) [(''name'', bucketname)])
       (if str_less server_version ''7.0.0'' then 3 else 0) None)"

text \<open>\<open>while count < n: resp = ...; if resp.status_code == 200: break\<close>: the last answer of at most \<open>n + 1\<close> requests.\<close>

fun until_200 :: "'w cbs_env \<Rightarrow> http_request \<Rightarrow> nat \<Rightarrow> ('w, http_response) io" where
  "until_200 ce r 0 = send_srv ce r"
| "until_200 ce r (Suc n) = bindIO (send_srv ce r) (\<lambda>resp.
     if rs_status resp = 200 then returnIO resp else until_200 ce r n)"

definition cbs_delete_bucket :: "'w cbs_env \<Rightarrow> cbserver \<Rightarrow> string \<Rightarrow> ('w, unit) io" where
  "cbs_delete_bucket ce sv name =
     bindIO (get_server_version ce (srv_host sv) (srv_ssl sv)) (\<lambda>server_version.
     bindIO (liftIO (major_version server_version)) (\<lambda>server_major_version.
     bindIO (if server_major_version \<ge> 5 then cbs_delete_internal_rbac_bucket_user ce sv name else returnIO ()) (\<lambda>_.
     bindIO (until_200 ce (srv_rq ''DELETE'' (srv_url sv @ ''/pools/default/buckets/'' @ name)) 4) (\<lambda>resp.
     liftIO (raise_for_status resp)))))"

text \<open>One pass over the buckets; the number of failures.\<close>

definition delete_each :: "'w cbs_env \<Rightarrow> cbserver \<Rightarrow> nat \<Rightarrow> pyval \<Rightarrow> ('w, nat) io" where
  "delete_each ce sv num_failures bucket_name =
     tryIO (bindIO (cbs_delete_bucket ce sv (py_str (http_runtime (ce_http ce)) bucket_name)) (\<lambda>_. returnIO num_failures)) (\<lambda>e.
       if exn_class e \<in> {''HTTPError'', ''ConnectionError''} then returnIO (num_failures + 1) else raiseIO e)"

fun delete_passes :: "'w cbs_env \<Rightarrow> cbserver \<Rightarrow> nat \<Rightarrow> ('w, unit) io" where
  "delete_passes ce sv 0 = raiseIO (Exn ''CBServerError'' ''Max retries for bucket creation hit. Could not delete buckets!'')"
| "delete_passes ce sv (Suc n) =
     bindIO (cbs_get_bucket_names ce sv) (\<lambda>bucket_names.
     if bucket_names = [] then returnIO ()
     else bindIO (foldIO (delete_each ce sv) 0 bucket_names) (\<lambda>num_failures.
       if num_failures > 0 then bindIO (clk_sleep (ce_clock ce) 5) (\<lambda>_. delete_passes ce sv n) else returnIO ()))"

fun index_waits :: "'w cbs_env \<Rightarrow> string \<Rightarrow> nat \<Rightarrow> ('w, unit) io" where
  "index_waits ce index_url 0 = returnIO ()"
| "index_waits ce index_url (Suc n) =
     bindIO (send_srv ce (srv_rq ''GET'' (index_url @ ''/getIndexStatus''))) (\<lambda>resp.
     bindIO (liftIO (bindR (resp_json (ce_http ce) resp) (py_in_str ''status''))) (\<lambda>has.
     if \<not> has then returnIO () else bindIO (clk_sleep (ce_clock ce) 60) (\<lambda>_. index_waits ce index_url n)))"

definition query_service :: "'w cbs_env \<Rightarrow> string \<Rightarrow> string \<Rightarrow> ('w, pyval) io" where
  "query_service ce query_url statement =
     bindIO (send_srv ce (srv_form ''POST'' (query_url @ ''/query/service'') [(''statement'', statement)])) (\<lambda>resp.
     liftIO (resp_json (ce_http ce) resp))"

text \<open>
  \<open>while count < 5\<close>: the count grows only in rounds with the status \<open>success\<close>, so the loop is one that may not end.
\<close>

definition query_round :: "'w cbs_env \<Rightarrow> string \<Rightarrow> string \<Rightarrow> nat \<Rightarrow> ('w, bool \<times> nat) io" where
  "query_round ce query_url statement tries =
     bindIO (query_service ce query_url statement) (\<lambda>resp_obj.
     bindIO (liftIO (py_item resp_obj ''status'')) (\<lambda>status.
     bindIO (liftIO (py_item2 resp_obj ''metrics'' ''resultCount'')) (\<lambda>result_count.
     if py_eq status (PStr ''success'') then
       if py_eq result_count (PInt 0) then returnIO (False, tries)
       else bindIO (clk_sleep (ce_clock ce) 15) (\<lambda>_. returnIO (True, tries + 1))
     else returnIO (True, tries))))"

definition query_empty :: "'w cbs_env \<Rightarrow> string \<Rightarrow> string \<Rightarrow> nat \<Rightarrow> ('w, nat) dio" where
  "query_empty ce query_url statement fuel = while_io (\<lambda>tries. tries < 5) (query_round ce query_url statement) fuel 0"

definition cbs_delete_buckets :: "'w cbs_env \<Rightarrow> cbserver \<Rightarrow> nat \<Rightarrow> ('w, unit) dio" where
  "cbs_delete_buckets ce sv fuel =
     (let query_url = replace_str ''8091'' ''8093'' (srv_url sv) in
      bindD (liftD (delete_passes ce sv 5)) (\<lambda>_.
      bindD (liftD (cbs_get_bucket_names ce sv)) (\<lambda>bucket_names.
      bindD (liftD (if length bucket_names \<noteq> 0 then raiseIO (Exn ''CBServerError'' ''Failed to delete all of the server buckets!'')
        else returnIO ())) (\<lambda>_.
      bindD (liftD (index_waits ce (replace_str ''8091'' ''9102'' (srv_url sv)) 5)) (\<lambda>_.
      bindD (liftD (query_service ce query_url ''delete from system:prepareds'')) (\<lambda>_.
      bindD (liftD (query_service ce query_url ''delete from system:indexes'')) (\<lambda>_.
      bindD (query_empty ce query_url ''select * from system:prepareds'' fuel) (\<lambda>_.
      bindD (query_empty ce query_url ''select * from system:indexes'' fuel) (\<lambda>_.
      liftD (returnIO ()))))))))))"

section \<open>Readiness\<close>

text \<open>The node statuses; each unhealthy node costs a second.\<close>

fun node_checks :: "'w cbs_env \<Rightarrow> pyval list \<Rightarrow> ('w, bool) io" where
  "node_checks ce [] = returnIO True"
| "node_checks ce (node # nodes) =
     bindIO (liftIO (py_item node ''status'')) (\<lambda>status.
     if \<not> py_eq status (PStr ''healthy'') then
       bindIO (clk_sleep (ce_clock ce) 1) (\<lambda>_. bindIO (node_checks ce nodes) (\<lambda>_. returnIO False))
     else node_checks ce nodes)"

definition ready_round :: "'w cbs_env \<Rightarrow> cbserver \<Rightarrow> rat \<Rightarrow> unit \<Rightarrow> ('w, bool \<times> unit) io" where
  "ready_round ce sv start u =
     bindIO (clk_time (ce_clock ce)) (\<lambda>elapsed.
     if elapsed - start > CLIENT_REQUEST_TIMEOUT then
       raiseIO (Exn ''Exception'' (''Timeout: Server not in ready state! '' @ rt_float_str (http_runtime (ce_http ce)) elapsed @ ''s''))
     else
       bindIO (tryIO (bindIO (send_srv ce (srv_rq ''GET'' (srv_url sv @ ''/pools/nodes''))) (\<lambda>resp. returnIO (Some resp))) (\<lambda>e.
         if exn_class e = ''ConnectionError'' then returnIO None else raiseIO e)) (\<lambda>answer.
       (case answer of
          None \<Rightarrow> bindIO (clk_sleep (ce_clock ce) 1) (\<lambda>_. returnIO (True, ()))
        | Some resp \<Rightarrow>
            bindIO (liftIO (bindR (resp_json (ce_http ce) resp) (\<lambda>resp_obj. bindR (py_item resp_obj ''nodes'') py_iter))) (\<lambda>nodes.
            bindIO (node_checks ce nodes) (\<lambda>all_nodes_healthy. returnIO (\<not> all_nodes_healthy, ()))))))"

definition cbs_wait_for_ready_state :: "'w cbs_env \<Rightarrow> cbserver \<Rightarrow> nat \<Rightarrow> ('w, unit) dio" where
  "cbs_wait_for_ready_state ce sv fuel =
     bindD (liftD (clk_time (ce_clock ce))) (\<lambda>start. while_io (\<lambda>_. True) (ready_round ce sv start) fuel ())"

section \<open>RBAC users\<close>

fun rbac_create_tries :: "'w cbs_env \<Rightarrow> http_request \<Rightarrow> nat \<Rightarrow> ('w, unit) io" where
  "rbac_create_tries ce r 0 = raiseIO (Exn ''RBACUserCreationError'' ''Error! Could not create RBAC user after retries. '')"
| "rbac_create_tries ce r (Suc n) = tryIO (bindIO (checked (send_srv ce r)) (\<lambda>_. returnIO ())) (\<lambda>e.
     if exn_class e = ''HTTPError'' then bindIO (clk_sleep (ce_clock ce) 1) (\<lambda>_. rbac_create_tries ce r n) else raiseIO e)"

definition cbs_create_internal_rbac_user_request :: "'w cbs_env \<Rightarrow> cbserver \<Rightarrow> string \<Rightarrow> string \<Rightarrow> string \<Rightarrow> ('w, unit) io" where
  "cbs_create_internal_rbac_user_request ce sv name roles password =
     rbac_create_tries ce (srv_form ''PUT'' (srv_url sv @ ''/settings/rbac/users/local/'' @ name)
       [(''name'', name), (''roles'', roles), (''password'', password)]) cbs_max_retries"

definition bucket_roles :: "string \<Rightarrow> bool \<Rightarrow> bool \<Rightarrow> string \<Rightarrow> string" where
  "bucket_roles cbs_version cbs_ce x509 bucketname =
     (if x509 then ''admin''
      else if \<not> str_less cbs_version ''6.6.0'' \<and> \<not> cbs_ce then ''mobile_sync_gateway['' @ bucketname @ '']''
      else ''ro_admin,bucket_full_access['' @ bucketname @ '']'')"

definition cbs_create_internal_rbac_bucket_user :: "'w cbs_env \<Rightarrow> cbserver \<Rightarrow> string \<Rightarrow> string \<Rightarrow> ('w, unit) io" where
  "cbs_create_internal_rbac_bucket_user ce sv bucketname cluster_config =
     (let env = ce_config ce in
      bindIO (liftIO (bindR (get_cbs_version env cluster_config) (\<lambda>v. str_attr v ''split''))) (\<lambda>server_version.
      bindIO (liftIO (is_cbs_ce_enabled env cluster_config)) (\<lambda>ce_enabled.
      bindIO (liftIO (is_x509_auth env cluster_config)) (\<lambda>x509.
      cbs_create_internal_rbac_user_request ce sv bucketname
        (bucket_roles (fst (version_and_build server_version)) (py_truth ce_enabled) (py_truth x509) bucketname) ''password''))))"

definition cbs_create_internal_rbac_user_by_roles :: "'w cbs_env \<Rightarrow> cbserver \<Rightarrow> string \<Rightarrow> string \<Rightarrow> string option \<Rightarrow> ('w, unit) io" where
  "cbs_create_internal_rbac_user_by_roles ce sv rbac_user roles bucketname =
     cbs_create_internal_rbac_user_request ce sv rbac_user
       (case bucketname of Some b \<Rightarrow> roles @ ''['' @ b @ '']'' | None \<Rightarrow> roles) ''password''"

section \<open>Memory\<close>

text \<open>The smallest memory that is not 0; \<open>None\<close> if every node reports 0.\<close>

definition lowest_step :: "pyval \<Rightarrow> pyval \<Rightarrow> pyval res" where
  "lowest_step mem_total_lowest node =
     bindR (py_item2 node ''systemStats'' ''mem_total'') (\<lambda>mem_total.
     if py_eq mem_total (PInt 0) then Inr mem_total_lowest
     else if mem_total_lowest = PNone then Inr mem_total
     else bindR (py_less mem_total mem_total_lowest) (\<lambda>b. Inr (if b then mem_total else mem_total_lowest)))"

definition cbs_get_mem_total_lowest :: "pyval \<Rightarrow> pyval res" where
  "cbs_get_mem_total_lowest server_info =
     bindR (bindR (py_item server_info ''nodes'') py_iter) (foldR lowest_step PNone)"

text \<open>At most \<open>n\<close> requests, until some node reports memory.\<close>

fun ram_tries :: "'w cbs_env \<Rightarrow> cbserver \<Rightarrow> nat \<Rightarrow> ('w, pyval) io" where
  "ram_tries ce sv 0 = returnIO PNone"
| "ram_tries ce sv (Suc n) =
     bindIO (checked_json (ce_http ce) (send_srv ce (srv_rq ''GET'' (srv_url sv @ ''/pools/default'')))) (\<lambda>resp_json.
     bindIO (liftIO (cbs_get_mem_total_lowest resp_json)) (\<lambda>lowest.
     bindIO (clk_sleep (ce_clock ce) 5) (\<lambda>_. if lowest = PNone then ram_tries ce sv n else returnIO lowest)))"

definition mb_of_bytes :: "pyval \<Rightarrow> int res" where
  "mb_of_bytes v = (case py_num v of Some x \<Rightarrow> Inr (py_trunc (x / (1024 * 1024)))
     | None \<Rightarrow> raise_exc ''TypeError'' (''unsupported operand type(s) for /: '' @ repr_str (py_type v) @ '' and '' @ repr_str ''int''))"

definition cbs_get_total_ram_mb :: "'w cbs_env \<Rightarrow> cbserver \<Rightarrow> ('w, int) io" where
  "cbs_get_total_ram_mb ce sv =
     bindIO (ram_tries ce sv 5) (\<lambda>lowest.
     if lowest = PNone then raiseIO (Exn ''ProvisioningError'' ''All nodes reported 0MB of RAM available'')
     else liftIO (mb_of_bytes lowest))"

definition effective_ram :: "int \<Rightarrow> int" where
  "effective_ram total_ram_mb = py_trunc (of_int total_ram_mb * (4 / 5)) - 512"

definition cbs_get_effective_ram_mb :: "'w cbs_env \<Rightarrow> cbserver \<Rightarrow> ('w, int) io" where
  "cbs_get_effective_ram_mb ce sv = bindIO (cbs_get_total_ram_mb ce sv) (\<lambda>total_ram_mb. returnIO (effective_ram total_ram_mb))"

definition cbs_get_ram_per_bucket :: "'w cbs_env \<Rightarrow> cbserver \<Rightarrow> nat \<Rightarrow> ('w, int) io" where
  "cbs_get_ram_per_bucket ce sv num_buckets =
     bindIO (cbs_get_effective_ram_mb ce sv) (\<lambda>effective_ram_mb.
     if num_buckets = 0 then raiseIO (Exn ''ZeroDivisionError'' ''division by zero'')
     else returnIO (py_trunc (of_int effective_ram_mb / of_nat num_buckets)))"

section \<open>Creating buckets\<close>

definition choose_connection_url :: "bool \<Rightarrow> bool \<Rightarrow> string \<Rightarrow> string" where
  "choose_connection_url ssl_enabled ip6 host =
     (if ssl_enabled \<and> ip6 then ''couchbases://'' @ host @ ''?ssl=no_verify&ipv6=allow''
      else if ssl_enabled \<and> \<not> ip6 then ''couchbases://'' @ host @ ''?ssl=no_verify''
      else if \<not> ssl_enabled \<and> ip6 then ''couchbase://'' @ host @ ''?ipv6=allow''
      else ''couchbase://'' @ host)"

definition bucket_form :: "string \<Rightarrow> int \<Rightarrow> bool \<Rightarrow> int \<Rightarrow> (string \<times> string) list" where
  "bucket_form name ram_quota_mb magma server_major_version =
     [(''name'', name), (''ramQuotaMB'', int_str ram_quota_mb), (''authType'', ''sasl''), (''bucketType'', ''couchbase''),
      (''flushEnabled'', ''1''), (''storageBackend'', if magma then ''magma'' else ''couchstore'')]
     @ (if server_major_version \<le> 4 then [(''saslPassword'', ''password''), (''proxyPort'', ''11211'')] else [])"

definition cbs_create_bucket :: "'w cbs_env \<Rightarrow> cbserver \<Rightarrow> string \<Rightarrow> string \<Rightarrow> int \<Rightarrow> bool \<Rightarrow> nat \<Rightarrow> ('w, string) dio" where
  "cbs_create_bucket ce sv cluster_config name ram_quota_mb ip6 fuel =
     bindD (liftD
       (bindIO (get_server_version ce (srv_host sv) (srv_ssl sv)) (\<lambda>server_version.
        bindIO (liftIO (major_version server_version)) (\<lambda>server_major_version.
        bindIO (liftIO (is_magma_enabled (ce_config ce) cluster_config)) (\<lambda>magma.
        bindIO (send_srv ce (srv_form ''POST'' (srv_url sv @ ''/pools/default/buckets'')
          (bucket_form name ram_quota_mb (py_truth magma) server_major_version))) (\<lambda>resp.
        bindIO (case raise_for_status resp of Inr _ \<Rightarrow> returnIO ()
          | Inl h \<Rightarrow> bindIO (liftIO (resp_json (ce_http ce) resp)) (\<lambda>_. raiseIO h)) (\<lambda>_.
        bindIO (if server_major_version \<ge> 5 then cbs_create_internal_rbac_bucket_user ce sv name cluster_config else returnIO ()) (\<lambda>_.
        tryIO (ce_connect ce (choose_connection_url (srv_ssl sv) ip6 (srv_host sv)) name) (\<lambda>e.
          if exn_class e \<in> {''DocumentNotFoundException'', ''CouchbaseException''} then returnIO () else raiseIO e))))))))) (\<lambda>_.
     bindD (cbs_wait_for_ready_state ce sv fuel) (\<lambda>_. liftD (returnIO name)))"

fun create_each :: "'w cbs_env \<Rightarrow> cbserver \<Rightarrow> string \<Rightarrow> int \<Rightarrow> bool \<Rightarrow> nat \<Rightarrow> string list \<Rightarrow> ('w, unit) dio" where
  "create_each ce sv cluster_config ram ip6 fuel [] = liftD (returnIO ())"
| "create_each ce sv cluster_config ram ip6 fuel (b # bs) =
     bindD (cbs_create_bucket ce sv cluster_config b ram ip6 fuel) (\<lambda>_. create_each ce sv cluster_config ram ip6 fuel bs)"

text \<open>
  \<open>list(set(bucket_names) - set(existing_bucket_names))\<close>: the order of a set is the interpreter's, the argument
  \<open>arrange\<close>; \<open>bucket_names\<close> is a list of text.
\<close>

definition buckets_to_create :: "(string list \<Rightarrow> string list) \<Rightarrow> string list \<Rightarrow> pyval list \<Rightarrow> string list" where
  "buckets_to_create arrange bucket_names existing = arrange (remdups (List.filter (\<lambda>b. PStr b \<notin> set existing) bucket_names))"

definition cbs_create_buckets :: "'w cbs_env \<Rightarrow> (string list \<Rightarrow> string list) \<Rightarrow> cbserver \<Rightarrow> string list \<Rightarrow> string \<Rightarrow> bool \<Rightarrow> nat \<Rightarrow> ('w, unit) dio" where
  "cbs_create_buckets ce arrange sv bucket_names cluster_config ip6 fuel =
     bindD (liftD (cbs_get_bucket_names ce sv)) (\<lambda>existing_bucket_names.
     let todo = buckets_to_create arrange bucket_names existing_bucket_names in
     if length todo = 0 then liftD (returnIO ())
     else bindD (liftD (cbs_get_ram_per_bucket ce sv (length todo))) (\<lambda>per_bucket_ram_mb.
       create_each ce sv cluster_config per_bucket_ram_mb ip6 fuel todo))"

section \<open>Documents in a bucket, through the SDK\<close>

definition meta_statement :: "string \<Rightarrow> string" where
  "meta_statement bucket = (let b = [chr_backtick] @ bucket @ [chr_backtick] in ''SELECT meta('' @ b @ '') FROM '' @ b)"

definition cbs_get_server_docs_with_prefix :: "'w cbs_env \<Rightarrow> cbserver \<Rightarrow> string \<Rightarrow> string \<Rightarrow> bool \<Rightarrow> ('w, pyval list) io" where
  "cbs_get_server_docs_with_prefix ce sv bucket pre ip6 =
     bindIO (ce_query ce (choose_connection_url (srv_ssl sv) ip6 (srv_host sv)) bucket (meta_statement bucket)) (\<lambda>rows. liftIO
      (bindR (mapR (\<lambda>row. bindR (py_item2 row ''$1'' ''id'') (\<lambda>i. bindR (str_attr i ''startswith'') (\<lambda>s.
        Inr (if startswith s pre then [i] else [])))) rows) (\<lambda>found. Inr (concat found))))"

definition cbs_delete_couchbase_server_cached_rev_bodies :: "'w cbs_env \<Rightarrow> cbserver \<Rightarrow> string \<Rightarrow> bool \<Rightarrow> ('w, unit) io" where
  "cbs_delete_couchbase_server_cached_rev_bodies ce sv bucket ip6 =
     bindIO (cbs_get_server_docs_with_prefix ce sv bucket ''_sync:rev'' ip6) (\<lambda>cached_rev_doc_ids.
     forIO cached_rev_doc_ids (ce_remove ce (choose_connection_url (srv_ssl sv) ip6 (srv_host sv)) bucket))"

definition cbs_add_simple_document :: "'w cbs_env \<Rightarrow> 'w entropy \<Rightarrow> cbserver \<Rightarrow> string \<Rightarrow> string \<Rightarrow> string \<Rightarrow> string \<Rightarrow> bool \<Rightarrow> ('w, pyval) io" where
  "cbs_add_simple_document ce ent sv doc_id bucket scope collection ip6 =
     bindIO (simple ent) (\<lambda>doc_body.
     bindIO (liftIO (py_set doc_body ''id'' (PStr doc_id))) (\<lambda>doc_body.
     tryIO (ce_insert ce (choose_connection_url (srv_ssl sv) ip6 (srv_host sv)) bucket scope collection doc_id doc_body) (\<lambda>e.
       if exn_class e = ''DocumentExistsException''
       then raiseIO (Exn ''Exception'' (''Tried to insert document that already exists: '' @ exn_msg e)) else raiseIO e)))"

definition cbs_get_document :: "'w cbs_env \<Rightarrow> cbserver \<Rightarrow> string \<Rightarrow> string \<Rightarrow> string \<Rightarrow> string \<Rightarrow> bool \<Rightarrow> ('w, pyval) io" where
  "cbs_get_document ce sv doc_id bucket scope collection ip6 =
     tryIO (ce_get ce (choose_connection_url (srv_ssl sv) ip6 (srv_host sv)) bucket scope collection doc_id) (\<lambda>e.
       if exn_class e = ''DocumentNotFoundException''
       then raiseIO (Exn ''Exception'' (''Tried to fetch document that does not exist: '' @ exn_msg e)) else raiseIO e)"

section \<open>Memory per bucket\<close>

lemma py_trunc_nonneg: "0 \<le> x \<Longrightarrow> 0 \<le> py_trunc x \<and> of_int (py_trunc x) \<le> x"
  by (simp add: py_trunc_def)


text \<open>An environment around a server, without ssh, SDK or ansible.\<close>

definition plain_cbs :: "'w http \<Rightarrow> 'w clock \<Rightarrow> 'w cbs_env" where
  "plain_cbs http clk = \<lparr>ce_http = http, ce_clock = clk, ce_ssh = (\<lambda>_. returnIO (0, [], [])), ce_config = two_servers, ce_user = PNone,
     ce_connect = (\<lambda>_ _. returnIO ()), ce_query = (\<lambda>_ _ _. returnIO []), ce_remove = (\<lambda>_ _ _. returnIO ()),
     ce_insert = (\<lambda>_ _ _ _ _ _. returnIO PNone), ce_get = (\<lambda>_ _ _ _ _. returnIO PNone), ce_playbook = (\<lambda>_ _ _. returnIO 0)\<rparr>"

definition node_mem :: "int \<Rightarrow> pyval" where
  "node_mem m = PDict [(''systemStats'', PDict [(''mem_total'', PInt m)])]"

definition gigabyte_cbs :: "rat cbs_env" where
  "gigabyte_cbs = plain_cbs (quiet_http (json_text (PDict [(''nodes'', PList [node_mem 1073741824])]))) step_clock"

lemma gigabyte_ram: "ram_tries gigabyte_cbs sv (Suc n) 0 = (Inr (PInt 1073741824), 5)"
proof -
  let ?v = "PDict [(''nodes'', PList [node_mem 1073741824])]"
  have "checked_json (ce_http gigabyte_cbs) (send_srv gigabyte_cbs r) 0 = (Inr ?v, 0)" for r
    unfolding gigabyte_cbs_def plain_cbs_def by (simp add: quiet_http_json node_mem_def)
  moreover have "cbs_get_mem_total_lowest ?v = Inr (PInt 1073741824)"
    by (simp add: cbs_get_mem_total_lowest_def dict_index_def py_iter_def lowest_step_def py_item2_def node_mem_def)
  ultimately show ?thesis
    by (simp add: bindIO_def) (simp add: gigabyte_cbs_def plain_cbs_def step_clock_def)
qed

lemma gigabyte_per_bucket: "cbs_get_ram_per_bucket gigabyte_cbs sv 2 0 = (Inr 153, 5)"
proof -
  have "ram_tries gigabyte_cbs sv 5 0 = (Inr (PInt 1073741824), 5)"
    using gigabyte_ram [of sv 4] by simp
  then have "cbs_get_effective_ram_mb gigabyte_cbs sv 0 = (Inr 307, 5)"
    by (simp add: cbs_get_effective_ram_mb_def cbs_get_total_ram_mb_def bindIO_def mb_of_bytes_def effective_ram_def py_trunc_def floor_eq_iff)
  then show ?thesis by (simp add: cbs_get_ram_per_bucket_def bindIO_def py_trunc_def floor_eq_iff)
qed


text \<open>
  The lowest memory of nodes that report integers: the least one that is not 0.
\<close>

lemma lowest_step_mem:
  "lowest_step PNone (node_mem m) = Inr (if m = 0 then PNone else PInt m)"
  "lowest_step (PInt a) (node_mem m) = Inr (PInt (if m = 0 then a else min a m))"
  by (auto simp: lowest_step_def node_mem_def py_item2_def dict_index_def)

lemma Min_insert2: "finite S \<Longrightarrow> Min (insert a (insert m S)) = Min (insert (min a m) S)" for a :: int
  by (cases "S = {}") (simp_all add: min.assoc)

lemma lowest_fold:
  "foldR lowest_step (PInt a) (map node_mem ms) = Inr (PInt (Min (insert a (set ms - {0}))))"
proof (induction ms arbitrary: a)
  case (Cons m ms)
  show ?case
  proof (cases "m = 0")
    case True
    with Cons show ?thesis by (simp add: lowest_step_mem insert_Diff_if)
  next
    case False
    then show ?thesis using Cons by (simp add: lowest_step_mem insert_Diff_if Min_insert2 [symmetric])
  qed
qed simp

text \<open>
  \<open>_get_mem_total_lowest\<close> is the least memory among the nodes that do not report 0, and \<open>None\<close> if all report 0.
\<close>

theorem mem_total_lowest_min:
  "cbs_get_mem_total_lowest (PDict [(''nodes'', PList (map node_mem ms))]) =
     Inr (if \<forall>m \<in> set ms. m = 0 then PNone else PInt (Min (set ms - {0})))"
proof (induction ms)
  case (Cons m ms)
  show ?case
  proof (cases "m = 0")
    case True
    with Cons show ?thesis by (simp add: cbs_get_mem_total_lowest_def dict_index_def py_iter_def lowest_step_mem)
  next
    case False
    then show ?thesis by (simp add: cbs_get_mem_total_lowest_def dict_index_def py_iter_def lowest_step_mem lowest_fold insert_Diff_if)
  qed
qed (simp add: cbs_get_mem_total_lowest_def dict_index_def py_iter_def)

section \<open>Waiting for readiness ends\<close>

lemma node_checks_time:
  assumes "ticks (ce_clock ce) time" "node_checks ce nodes w = (Inr b, w')"
  shows "time w \<le> time w' \<and> (\<not> b \<longrightarrow> time w + 1 \<le> time w')"
  using assms(2)
proof (induction nodes arbitrary: w b)
  case (Cons node nodes)
  show ?case
  proof (cases "\<exists>st. py_item node ''status'' = Inr st \<and> py_eq st (PStr ''healthy'')")
    case True
    with Cons show ?thesis by (auto elim: bindIO_cases)
  next
    case False
    with Cons.prems obtain q w1 c where "clk_sleep (ce_clock ce) 1 w = (Inr q, w1)" "node_checks ce nodes w1 = (Inr c, w')" "\<not> b"
      by (auto elim!: bindIO_cases split: if_splits)
    with ticksD(2) [OF assms(1)] Cons.IH show ?thesis by fastforce
  qed
qed simp

lemma ready_round_continues:
  assumes "ready_round ce sv start u w = (Inr (True, u'), w')" "ticks (ce_clock ce) time" "http_onward time (ce_http ce)"
  shows "time w \<le> start + CLIENT_REQUEST_TIMEOUT \<and> time w + 1 \<le> time w'"
proof -
  note tick = ticksD [OF assms(2)]
  from assms(1) obtain now w1 where w1: "clk_time (ce_clock ce) w = (Inr now, w1)" "\<not> now - start > CLIENT_REQUEST_TIMEOUT"
    by (auto simp: ready_round_def elim!: bindIO_cases split: if_splits)
  with tick(1) have now: "time w \<le> time w1" "time w1 - start \<le> CLIENT_REQUEST_TIMEOUT" by fastforce+
  obtain r w2 where send: "send_srv ce (srv_rq ''GET'' (srv_url sv @ ''/pools/nodes'')) w1 = (r, w2)" by fastforce
  have "time w1 \<le> time w2" using assms(3) send by (auto simp: http_onward_def onward_def)
  moreover have "time w2 + 1 \<le> time w'"
  proof (cases r)
    case (Inl e)
    with assms(1) w1 send have "clk_sleep (ce_clock ce) 1 w2 = (Inr (), w')"
      by (auto simp: ready_round_def tryIO_def bindIO_def split: if_splits prod.splits sum.splits)
    with tick(2) show ?thesis by fastforce
  next
    case (Inr resp)
    with assms(1) w1 send obtain nodes where "node_checks ce nodes w2 = (Inr False, w')"
      by (auto simp: ready_round_def tryIO_def bindIO_def split: if_splits prod.splits sum.splits)
    with node_checks_time [OF assms(2)] show ?thesis by fastforce
  qed
  ultimately show ?thesis using now by linarith
qed

interpretation ready_loop: ranked_loop "\<lambda>_. True" "ready_round ce sv start"
    "\<lambda>s w. ticks (ce_clock ce) time \<and> http_onward time (ce_http ce)"
    "\<lambda>s w. wait_rank 1 time (start + CLIENT_REQUEST_TIMEOUT) w"
  for ce sv start time
  by unfold_locales (metis ready_round_continues wait_rank_decreases zero_less_one)

text \<open>
  \<open>wait_for_ready_state\<close> returns, with an answer or the timeout exception, whatever the server
  answers: 182 rounds are enough.
\<close>

theorem wait_for_ready_state_returns:
  assumes "ticks (ce_clock ce) time" "http_onward time (ce_http ce)" "182 \<le> fuel"
  shows "\<exists>r. cbs_wait_for_ready_state ce sv fuel w = Some r"
proof -
  obtain r w1 where t: "clk_time (ce_clock ce) w = (r, w1)" by fastforce
  with ticksD(1) [OF assms(1)] have r: "r = Inr (time w1)" by fastforce
  have "wait_rank 1 time (time w1 + CLIENT_REQUEST_TIMEOUT) w1 < fuel"
    using assms(3) by (simp add: wait_rank_def CLIENT_REQUEST_TIMEOUT_def)
  from ready_loop.returns [OF conjI [OF assms(1,2)] this] show ?thesis
    by (simp add: cbs_wait_for_ready_state_def bindD_def liftD_def t r)
qed

theorem wait_for_ready_state_returns_witness:
  "\<exists>r. cbs_wait_for_ready_state (plain_cbs (quiet_http ''{}'') step_clock) (CouchbaseServer_init ''http://h:8091'') 182 0 = Some r"
  by (rule wait_for_ready_state_returns [where time = "\<lambda>w. w"]) (simp_all add: plain_cbs_def step_clock_ticks quiet_http_onward)

section \<open>Waiting for the query service need not end\<close>

lemma query_round_stuck:
  assumes "query_service ce url stmt w = (Inr v, w')" "py_item v ''status'' = Inr s" "\<not> py_eq s (PStr ''success'')"
    and "py_item2 v ''metrics'' ''resultCount'' = Inr n"
  shows "query_round ce url stmt k w = (Inr (True, k), w')"
  using assms by (simp add: query_round_def bindIO_def)

text \<open>
  The loops at the end of \<open>delete_buckets\<close> count only successful answers: while the query service
  answers with any other status the loop goes on for ever, without a pause.
\<close>

theorem delete_buckets_may_hang:
  assumes "\<And>w. \<exists>v w' s n. query_service ce query_url stmt w = (Inr v, w') \<and> py_item v ''status'' = Inr s \<and>
      \<not> py_eq s (PStr ''success'') \<and> py_item2 v ''metrics'' ''resultCount'' = Inr n"
  shows "query_empty ce query_url stmt fuel w = None"
  unfolding query_empty_def
proof (rule while_io_diverges [where P = "\<lambda>k w. k = 0"])
  fix k :: nat and w
  assume "k = 0"
  from assms [of w] obtain v w' s n where "query_service ce query_url stmt w = (Inr v, w')" "py_item v ''status'' = Inr s"
    "\<not> py_eq s (PStr ''success'')" "py_item2 v ''metrics'' ''resultCount'' = Inr n" by blast
  from query_round_stuck [OF this] \<open>k = 0\<close>
  show "k < 5 \<and> (\<exists>s' w'. query_round ce query_url stmt k w = (Inr (True, s'), w') \<and> s' = 0)" by auto
qed simp

definition failing_query :: pyval where
  "failing_query = PDict [(''status'', PStr ''errors''), (''metrics'', PDict [(''resultCount'', PInt 0)])]"

theorem delete_buckets_may_hang_witness:
  "query_empty (plain_cbs (quiet_http (json_text failing_query)) step_clock) ''http://h:8093'' ''select * from system:indexes'' 1000 0 = None"
proof (rule delete_buckets_may_hang)
  fix w
  have "json_ok failing_query" by (simp add: failing_query_def)
  then have "query_service (plain_cbs (quiet_http (json_text failing_query)) step_clock) ''http://h:8093'' ''select * from system:indexes'' w =
      (Inr failing_query, w)"
    by (simp add: query_service_def plain_cbs_def quiet_http_def bindIO_def text_response_def resp_json_def json_text_loads)
  then show "\<exists>v w' s n. query_service (plain_cbs (quiet_http (json_text failing_query)) step_clock) ''http://h:8093'' ''select * from system:indexes'' w = (Inr v, w') \<and>
      py_item v ''status'' = Inr s \<and> \<not> py_eq s (PStr ''success'') \<and> py_item2 v ''metrics'' ''resultCount'' = Inr n"
    by (auto simp: failing_query_def py_item2_def dict_index_def)
qed

end
