(* ===== verification/Cbs_Cluster.thy ===== *)
theory Cbs_Cluster
  imports Cbs_Server
begin

text \<open>
  \<open>keywords/couchbaseserver.py\<close>, the cluster: rebalancing nodes in and out, starting and stopping the
  service over ssh, package names and download addresses, upgrades, scopes and collections.
\<close>

section \<open>Rebalancing\<close>

definition REBALANCE_TIMEOUT_SECS :: rat where
  "REBALANCE_TIMEOUT_SECS = 3600"

definition cbs_get_tasks :: "'w cbs_env \<Rightarrow> cbserver \<Rightarrow> ('w, pyval) io" where
  "cbs_get_tasks ce sv = checked_json (ce_http ce) (send_srv ce (srv_rq ''GET'' (srv_url sv @ ''/pools/default/tasks'')))"

text \<open>Is a rebalance among the tasks?\<close>

definition found_round :: "'w cbs_env \<Rightarrow> cbserver \<Rightarrow> unit \<Rightarrow> ('w, unit + unit) io" where
  "found_round ce sv u =
     bindIO (cbs_get_tasks ce sv) (\<lambda>tasks. liftIO
      (bindR (mapR_in tasks (\<lambda>task. py_item task ''type'')) (\<lambda>ts.
       Inr (if list_ex (\<lambda>t. py_eq t (PStr ''rebalance'')) ts then Inr () else Inl ()))))"

definition task_running :: "pyval \<Rightarrow> bool res" where
  "task_running task = bindR (py_item task ''type'') (\<lambda>task_type. bindR (py_item task ''status'') (\<lambda>task_status.
     Inr (py_eq task_type (PStr ''rebalance'') \<and> py_eq task_status (PStr ''running''))))"

definition done_round :: "'w cbs_env \<Rightarrow> cbserver \<Rightarrow> unit \<Rightarrow> ('w, unit + unit) io" where
  "done_round ce sv u =
     bindIO (cbs_get_tasks ce sv) (\<lambda>tasks. liftIO
      (bindR (mapR_in tasks task_running) (\<lambda>rs. Inr (if list_ex id rs then Inl () else Inr ()))))"

definition cbs_wait_for_rebalance_complete :: "'w cbs_env \<Rightarrow> cbserver \<Rightarrow> nat \<Rightarrow> ('w, unit) dio" where
  "cbs_wait_for_rebalance_complete ce sv fuel =
     bindD (poll (ce_clock ce) CLIENT_REQUEST_TIMEOUT 1 (raiseIO (Exn ''TimeoutError'' ''Did not find rebalance task!''))
       (found_round ce sv) fuel ()) (\<lambda>_.
     poll (ce_clock ce) REBALANCE_TIMEOUT_SECS 5 (raiseIO (Exn ''Exception'' ''wait_for_rebalance_complete: TIMEOUT''))
       (done_round ce sv) fuel ())"

definition add_round :: "'w cbs_env \<Rightarrow> http_request \<Rightarrow> unit \<Rightarrow> ('w, unit + unit) io" where
  "add_round ce r u = bindIO (send_srv ce r) (\<lambda>resp.
     if rs_status resp = 200 then returnIO (Inr ())
     else bindIO (liftIO (resp_json (ce_http ce) resp)) (\<lambda>_. returnIO (Inl ())))"

definition cbs_add_node :: "'w cbs_env \<Rightarrow> cbserver \<Rightarrow> cbserver \<Rightarrow> string \<Rightarrow> nat \<Rightarrow> ('w, unit) dio" where
  "cbs_add_node ce sv server_to_add services fuel =
     poll (ce_clock ce) CLIENT_REQUEST_TIMEOUT 1 (raiseIO (Exn ''Exception'' ''wait_for_rebalance_complete: TIMEOUT''))
       (add_round ce (as_form (''hostname='' @ srv_host server_to_add @ ''&user=Administrator&password=password&services='' @ services)
          (srv_rq ''POST'' (srv_url sv @ ''/controller/addNode'')))) fuel ()"

text \<open>\<open>knownNodes=\<close> and the stripped addresses, each followed by a comma.\<close>

definition known_nodes :: "string list \<Rightarrow> string" where
  "known_nodes servers = ''knownNodes='' @ concat (map (\<lambda>s. ''ns_1@'' @ s @ '','') servers)"

definition unbound_resp :: "('w, 'a) io" where
  "unbound_resp = raiseIO (Exn ''UnboundLocalError'' (''local variable '' @ repr_str ''resp'' @ '' referenced before assignment''))"

text \<open>
  \<open>n\<close> requests at most, a second apart; an \<open>HTTPError\<close> keeps the answer of the round before it, if
  there was one. The last answer is returned.
\<close>

fun retry_200 :: "'w cbs_env \<Rightarrow> http_request \<Rightarrow> nat \<Rightarrow> http_response option \<Rightarrow> ('w, http_response option) io" where
  "retry_200 ce r 0 resp = returnIO resp"
| "retry_200 ce r (Suc n) resp =
     bindIO (tryIO (bindIO (send_srv ce r) (\<lambda>a. returnIO (Some a))) (\<lambda>e.
       if exn_class e = ''HTTPError'' then returnIO resp else raiseIO e)) (\<lambda>resp.
     (case resp of
        None \<Rightarrow> unbound_resp
      | Some a \<Rightarrow> if rs_status a = 200 then returnIO resp
          else bindIO (clk_sleep (ce_clock ce) 1) (\<lambda>_. retry_200 ce r n resp)))"

definition retry_checked :: "'w cbs_env \<Rightarrow> http_request \<Rightarrow> nat \<Rightarrow> ('w, unit) io" where
  "retry_checked ce r n = bindIO (retry_200 ce r n None) (\<lambda>resp.
     case resp of None \<Rightarrow> unbound_resp | Some a \<Rightarrow> liftIO (raise_for_status a))"

definition rebalance_request :: "cbserver \<Rightarrow> string \<Rightarrow> http_request" where
  "rebalance_request sv data = as_form data (srv_rq ''POST'' (srv_url sv @ ''/controller/rebalance''))"

definition cbs_rebalance_out :: "'w cbs_env \<Rightarrow> cbserver \<Rightarrow> string list \<Rightarrow> cbserver \<Rightarrow> nat \<Rightarrow> ('w, bool) dio" where
  "cbs_rebalance_out ce sv cluster_servers server_to_remove fuel =
     (let data = ''ejectedNodes=ns_1@'' @ srv_host server_to_remove @ ''&'' @ known_nodes (map strip_server cluster_servers) in
      bindD (liftD (retry_checked ce (rebalance_request sv data) 5)) (\<lambda>_.
      bindD (cbs_wait_for_rebalance_complete ce sv fuel) (\<lambda>_. liftD (returnIO True))))"

fun rebalance_in_tries :: "'w cbs_env \<Rightarrow> http_request \<Rightarrow> nat \<Rightarrow> ('w, unit) io" where
  "rebalance_in_tries ce r 0 = returnIO ()"
| "rebalance_in_tries ce r (Suc n) =
     bindIO (tryIO (bindIO (checked (send_srv ce r)) (\<lambda>resp. returnIO (rs_status resp = 200))) (\<lambda>e.
       if exn_class e \<in> {''HTTPError'', ''ConnectionError''} then returnIO False else raiseIO e)) (\<lambda>ok.
     if ok then returnIO () else bindIO (clk_sleep (ce_clock ce) 1) (\<lambda>_. rebalance_in_tries ce r n))"

definition rebalance_in_data :: "string list \<Rightarrow> string \<Rightarrow> string" where
  "rebalance_in_data cluster_servers host =
     known_nodes (List.filter (\<lambda>s. host \<noteq> s) (map strip_server cluster_servers)) @ ''ns_1@'' @ host"

definition cbs_rebalance_in :: "'w cbs_env \<Rightarrow> cbserver \<Rightarrow> string list \<Rightarrow> cbserver \<Rightarrow> nat \<Rightarrow> ('w, bool) dio" where
  "cbs_rebalance_in ce sv cluster_servers server_to_add fuel =
     bindD (liftD (rebalance_in_tries ce (rebalance_request sv (rebalance_in_data cluster_servers (srv_host server_to_add))) 5)) (\<lambda>_.
     bindD (cbs_wait_for_rebalance_complete ce sv fuel) (\<lambda>_. liftD (returnIO True)))"

definition cbs_rebalance_server :: "'w cbs_env \<Rightarrow> cbserver \<Rightarrow> string list \<Rightarrow> nat \<Rightarrow> ('w, bool) dio" where
  "cbs_rebalance_server ce sv cluster_servers fuel =
     bindD (liftD (checked (send_srv ce (rebalance_request sv (known_nodes (map strip_server cluster_servers)))))) (\<lambda>_.
     bindD (cbs_wait_for_rebalance_complete ce sv fuel) (\<lambda>_. liftD (returnIO True)))"

definition cbs_recover :: "'w cbs_env \<Rightarrow> cbserver \<Rightarrow> cbserver \<Rightarrow> nat \<Rightarrow> ('w, unit) io" where
  "cbs_recover ce sv server_to_recover max_retries =
     retry_checked ce (srv_form ''POST'' (srv_url sv @ ''/controller/setRecoveryType'')
       [(''otpNode'', ''ns_1@'' @ srv_host server_to_recover), (''recoveryType'', ''delta'')]) max_retries"

section \<open>The service\<close>

definition cbs_executor :: "'w cbs_env \<Rightarrow> cbserver \<Rightarrow> executor" where
  "cbs_executor ce sv = \<lparr>ex_host = srv_host sv, ex_platform = ''debian'', ex_username = ce_user ce, ex_password = PNone\<rparr>"

definition cbs_run :: "'w cbs_env \<Rightarrow> cbserver \<Rightarrow> string \<Rightarrow> ('w, string list \<times> string list) io" where
  "cbs_run ce sv command = RemoteExecutor_must_execute (ce_ssh ce) (cbs_executor ce sv) command"

definition service_command :: "string \<Rightarrow> string \<Rightarrow> string" where
  "service_command os_platform verb =
     (if contains_str os_platform ''debian'' then [] else ''sudo '') @ ''service couchbase-server '' @ verb"

definition cbs_start :: "'w cbs_env \<Rightarrow> cbserver \<Rightarrow> bool \<Rightarrow> string \<Rightarrow> nat \<Rightarrow> ('w, unit) dio" where
  "cbs_start ce sv custom_port os_platform fuel =
     bindD (liftD (cbs_run ce sv (service_command os_platform ''start''))) (\<lambda>_.
     if \<not> custom_port then cbs_wait_for_ready_state ce sv fuel else liftD (returnIO ()))"

text \<open>A round that ends in an \<open>HTTPError\<close> starts the next one at once.\<close>

definition stopped_round :: "'w cbs_env \<Rightarrow> cbserver \<Rightarrow> rat \<Rightarrow> unit \<Rightarrow> ('w, bool \<times> unit) io" where
  "stopped_round ce sv start u =
     bindIO (clk_time (ce_clock ce)) (\<lambda>now.
     if now - start > CLIENT_REQUEST_TIMEOUT then
       raiseIO (Exn ''TimeoutError'' ''Waiting for server to be unreachable but it never was!'')
     else bindIO (tryIO (bindIO (checked (send_srv ce (srv_rq ''GET'' (srv_url sv @ ''/pools'')))) (\<lambda>_. returnIO (Some True))) (\<lambda>e.
         if exn_class e = ''ConnectionError'' then returnIO None
         else if exn_class e = ''HTTPError'' then returnIO (Some False) else raiseIO e)) (\<lambda>answer.
       (case answer of
          None \<Rightarrow> returnIO (False, ())
        | Some False \<Rightarrow> returnIO (True, ())
        | Some True \<Rightarrow> bindIO (clk_sleep (ce_clock ce) 1) (\<lambda>_. returnIO (True, ())))))"

definition cbs_verify_stopped :: "'w cbs_env \<Rightarrow> cbserver \<Rightarrow> nat \<Rightarrow> ('w, unit) dio" where
  "cbs_verify_stopped ce sv fuel =
     bindD (liftD (clk_time (ce_clock ce))) (\<lambda>start. while_io (\<lambda>_. True) (stopped_round ce sv start) fuel ())"

definition cbs_stop :: "'w cbs_env \<Rightarrow> cbserver \<Rightarrow> string \<Rightarrow> nat \<Rightarrow> ('w, unit) dio" where
  "cbs_stop ce sv os_platform fuel =
     bindD (liftD (cbs_run ce sv (service_command os_platform ''stop''))) (\<lambda>_. cbs_verify_stopped ce sv fuel)"

definition cbs_restart :: "'w cbs_env \<Rightarrow> cbserver \<Rightarrow> ('w, unit) io" where
  "cbs_restart ce sv = bindIO (cbs_run ce sv ''sudo systemctl restart couchbase-server'') (\<lambda>_. returnIO ())"

text \<open>\<open>s.split()\<close>: the words between white space.\<close>

fun split_words_go :: "string \<Rightarrow> string \<Rightarrow> string list" where
  "split_words_go acc [] = [rev acc]"
| "split_words_go acc (c # s) = (if is_space c then rev acc # split_words_go [] s else split_words_go (c # acc) s)"

definition split_words :: "string \<Rightarrow> string list" where
  "split_words s = List.filter (\<lambda>w. w \<noteq> []) (split_words_go [] s)"

definition cbs_delete_vbucket :: "'w cbs_env \<Rightarrow> cbserver \<Rightarrow> nat \<Rightarrow> string \<Rightarrow> ('w, unit) io" where
  "cbs_delete_vbucket ce sv vbucket_number bucket_name =
     (let vbucket_filename = nat_str vbucket_number @ ''.couch.1'';
          dir = ''/opt/couchbase/var/lib/couchbase/data/'' @ bucket_name in
      bindIO (cbs_run ce sv (''sudo find '' @ dir @ '' -name '' @ dq vbucket_filename @ '' -delete'')) (\<lambda>_.
      bindIO (cbs_run ce sv (''sudo ls '' @ dir @ ''/'')) (\<lambda>(out, err).
      let vbucket_files = concat (map split_words out) in
      if length vbucket_files < 1 then raiseIO (Exn ''CBServerError'' ''No vbucket files found on server!'')
      else if vbucket_filename \<in> set vbucket_files
      then raiseIO (Exn ''CBServerError'' ''Found vbucket file: {}! This should have been removed'')
      else returnIO ())))"

section \<open>Packages\<close>

definition cbs_get_package_name :: "string \<Rightarrow> string \<Rightarrow> string \<Rightarrow> bool \<Rightarrow> string option" where
  "cbs_get_package_name version build_number os_platform community =
     (let edition = (if community then ''community'' else ''enterprise'') in
      if contains_str os_platform ''ubuntu'' \<or> contains_str os_platform ''debian'' then
        if startswith version ''3.1.6'' then
          Some (''couchbase-server-'' @ edition @ ''-'' @ version @ ''-'' @ os_platform @ ''.x86_64.deb'')
        else if startswith version ''3.1'' then
          Some (''couchbase-server-'' @ edition @ ''_'' @ os_platform @ ''_x86_64_'' @ version @ ''-'' @ build_number @ ''-rel.deb'')
        else Some (''couchbase-server-'' @ edition @ ''_'' @ version @ ''-'' @ build_number @ ''-linux_amd64.deb'')
      else if contains_str os_platform ''centos'' then
        if startswith version ''3.1.6'' then
          Some (''couchbase-server-'' @ edition @ ''-'' @ version @ ''-'' @ os_platform @ ''.x86_64.rpm'')
        else if startswith version ''3.1'' then
          Some (''couchbase-server-'' @ edition @ ''_'' @ os_platform @ ''_x86_64_'' @ version @ ''-'' @ build_number @ ''-rel.rpm'')
        else Some (''couchbase-server-'' @ edition @ ''-'' @ version @ ''-'' @ build_number @ ''-'' @ os_platform @ ''.x86_64.rpm'')
      else None)"

definition cbnas_releases :: "(string \<times> string) list" where
  "cbnas_releases = [(''4.0'', ''sherlock''), (''4.1'', ''sherlock''), (''4.5'', ''watson''), (''4.6'', ''watson''), (''4.7'', ''spock''),
     (''5.0'', ''spock''), (''5.1'', ''spock''), (''5.5'', ''vulcan''), (''6.0'', ''alice''), (''6.5'', ''mad-hatter''), (''6.6'', ''mad-hatter''),
     (''7.0'', ''cheshire-cat''), (''7.1'', ''neo''), (''7.2'', ''neo''), (''7.6'', ''trinity''), (''7.7'', ''cypher''), (''8.0'', ''morpheus'')]"

definition cbs_resolve_cb_nas_url :: "string \<Rightarrow> string \<Rightarrow> string \<Rightarrow> bool \<Rightarrow> (string \<times> string option) res" where
  "cbs_resolve_cb_nas_url version build_number os_platform community =
     bindR (if startswith version ''3.1'' then Inr ''http://latestbuilds.service.couchbase.com/''
        else (case List.find (\<lambda>e. startswith version (fst e)) cbnas_releases of
            Some e \<Rightarrow> Inr (''http://latestbuilds.service.couchbase.com/builds/latestbuilds/couchbase-server/'' @ snd e @ ''/'' @ build_number)
          | None \<Rightarrow> raise_exc ''Exception'' (''Unexpected couchbase server version: '' @ version))) (\<lambda>base_url.
     Inr (base_url, cbs_get_package_name version build_number os_platform community))"

definition released_versions :: "(string, string) dict" where
  "released_versions = [(''6.6.1'', ''9216''), (''6.6.0'', ''7924''), (''6.5.0'', ''4960''), (''6.0.3'', ''2893''), (''5.5.0'', ''2958''),
     (''5.1.0'', ''5552''), (''5.0.1'', ''5003''), (''5.0.0'', ''3519''), (''4.6.3'', ''4136''), (''4.6.2'', ''3905''), (''4.6.1'', ''3652''),
     (''4.6.0'', ''3573''), (''4.5.1'', ''2844''), (''4.5.0'', ''2601''), (''4.1.2'', ''6088''), (''4.1.1'', ''5914''), (''4.1.0'', ''5005''),
     (''4.0.0'', ''4051''), (''3.1.5'', ''1859''), (''3.1.6'', ''1904'')]"

definition cbs_resolve_cb_mobile_url :: "string \<Rightarrow> string \<Rightarrow> bool \<Rightarrow> (string \<times> string option) res" where
  "cbs_resolve_cb_mobile_url version os_platform community =
     bindR (dict_index released_versions version) (\<lambda>build_number.
     Inr (''http://cbmobile-packages.s3.amazonaws.com'', cbs_get_package_name version build_number os_platform community))"

text \<open>A toy build is a full address; otherwise the version, with a build number or without one, decides.\<close>

definition server_package :: "string \<Rightarrow> string \<Rightarrow> string \<Rightarrow> (string \<times> string option) res" where
  "server_package toy_build server_version_build os_platform =
     (if toy_build \<noteq> [] then
        (let parts = split_chr CHR ''/'' toy_build in Inr (join ''/'' (butlast parts), Some (last parts)))
      else
        (let version_build = split_chr CHR ''-'' server_version_build in
         if length version_build = 2 then cbs_resolve_cb_nas_url (version_build ! 0) (version_build ! 1) os_platform False
         else cbs_resolve_cb_mobile_url (version_build ! 0) os_platform False))"

definition cbs_upgrade_server :: "'w cbs_env \<Rightarrow> cbserver \<Rightarrow> string \<Rightarrow> string \<Rightarrow> string \<Rightarrow> string option \<Rightarrow> string \<Rightarrow> nat \<Rightarrow> ('w, unit) dio" where
  "cbs_upgrade_server ce sv cluster_config server_version_build os_platform target toy_build fuel =
     bindD (liftD
       (bindIO (liftIO (server_package toy_build server_version_build os_platform)) (\<lambda>(server_baseurl, server_package_name).
        bindIO (liftIO (case target of None \<Rightarrow> Inr PNone | Some t \<Rightarrow> hostname_for_url (ce_config ce) cluster_config t)) (\<lambda>subset.
        bindIO (ce_playbook ce ''upgrade-couchbase-server-package.yml''
          [(''couchbase_server_package_base_url'', PStr server_baseurl),
           (''couchbase_server_package_name'', case server_package_name of None \<Rightarrow> PNone | Some n \<Rightarrow> PStr n)] subset) (\<lambda>status.
        if status \<noteq> 0 then raiseIO (Exn ''ProvisioningError'' ''Failed to install Couchbase Server'') else returnIO ()))))) (\<lambda>_.
     cbs_wait_for_ready_state ce sv fuel)"

section \<open>Scopes and collections\<close>

definition buckets_url :: "cbserver \<Rightarrow> string \<Rightarrow> string" where
  "buckets_url sv bucket = srv_url sv @ ''/pools/default/buckets/'' @ bucket"

definition cbs_load_sample_bucket :: "'w cbs_env \<Rightarrow> cbserver \<Rightarrow> string \<Rightarrow> ('w, unit) io" where
  "cbs_load_sample_bucket ce sv sample_bucket =
     bindIO (checked (send_srv ce (with_data (''['' @ dq sample_bucket @ '']'') (srv_rq ''POST'' (srv_url sv @ ''/sampleBuckets/install''))))) (\<lambda>_. returnIO ())"

definition cbs_get_bucket_connection :: "'w cbs_env \<Rightarrow> string \<Rightarrow> string \<Rightarrow> bool \<Rightarrow> bool \<Rightarrow> ('w, unit) io" where
  "cbs_get_bucket_connection ce cbs_url bucket_name ssl_enabled ip6 =
     ce_connect ce (choose_connection_url ssl_enabled ip6 (host_for_url cbs_url)) bucket_name"

text \<open>Every exception of the request is swallowed; the name is returned in any case.\<close>

definition create_named :: "'w cbs_env \<Rightarrow> string \<Rightarrow> string \<Rightarrow> ('w, string) io" where
  "create_named ce url name =
     tryIO (bindIO (checked (send_srv ce (srv_form ''POST'' url [(''name'', name)]))) (\<lambda>_. returnIO name)) (\<lambda>_. returnIO name)"

definition cbs_create_scope :: "'w cbs_env \<Rightarrow> 'w entropy \<Rightarrow> cbserver \<Rightarrow> string \<Rightarrow> string option \<Rightarrow> ('w, string) io" where
  "cbs_create_scope ce ent sv bucket scope =
     bindIO (case scope of Some s \<Rightarrow> returnIO s
        | None \<Rightarrow> mapIO (\<lambda>r. ''scope_'' @ r) (kit_random_string ent 10 False True)) (\<lambda>scope.
     create_named ce (buckets_url sv bucket @ ''/scopes'') scope)"

definition cbs_create_collection :: "'w cbs_env \<Rightarrow> 'w entropy \<Rightarrow> cbserver \<Rightarrow> string \<Rightarrow> string \<Rightarrow> string option \<Rightarrow> ('w, string) io" where
  "cbs_create_collection ce ent sv bucket scope collection =
     bindIO (case collection of Some c \<Rightarrow> returnIO c
        | None \<Rightarrow> mapIO (\<lambda>r. ''collection_'' @ r) (kit_random_string ent 10 False True)) (\<lambda>collection.
     create_named ce (buckets_url sv bucket @ ''/scopes/'' @ scope @ ''/collections'') collection)"

definition cbs_does_scope_exist :: "'w cbs_env \<Rightarrow> cbserver \<Rightarrow> string \<Rightarrow> string \<Rightarrow> ('w, bool) io" where
  "cbs_does_scope_exist ce sv bucket scope =
     tryIO (bindIO (checked (send_srv ce (srv_rq ''GET'' (buckets_url sv bucket @ ''/scopes/'' @ scope)))) (\<lambda>_. returnIO True)) (\<lambda>e.
       if exn_class e = ''HTTPError'' then
         if error_status e = Some 404 then returnIO False
         else raiseIO (Exn ''Exception''
           (''Could not determine if the scope exists on the server due to the following error: '' @ exn_msg e))
       else raiseIO e)"

definition cbs_delete_scope_if_exists :: "'w cbs_env \<Rightarrow> cbserver \<Rightarrow> string \<Rightarrow> string \<Rightarrow> ('w, bool) io" where
  "cbs_delete_scope_if_exists ce sv bucket scope =
     bindIO (cbs_does_scope_exist ce sv bucket scope) (\<lambda>did_scope_exist.
     if did_scope_exist then
       bindIO (checked (send_srv ce (srv_rq ''DELETE'' (buckets_url sv bucket @ ''/scopes/'' @ scope)))) (\<lambda>_. returnIO True)
     else returnIO False)"

text \<open>The uid of the last collection of that name in a scope of that name.\<close>

definition collection_step :: "string \<Rightarrow> pyval \<Rightarrow> pyval \<Rightarrow> pyval res" where
  "collection_step collection col_id c = bindR (py_item c ''name'') (\<lambda>n.
     if py_eq n (PStr collection) then py_item c ''uid'' else Inr col_id)"

definition scope_step :: "string \<Rightarrow> string \<Rightarrow> pyval \<Rightarrow> pyval \<Rightarrow> pyval res" where
  "scope_step scope collection col_id s = bindR (py_item s ''name'') (\<lambda>n.
     if py_eq n (PStr scope) then bindR (bindR (py_item s ''collections'') py_iter) (foldR (collection_step collection) col_id)
     else Inr col_id)"

definition cbs_get_collection_id :: "'w cbs_env \<Rightarrow> cbserver \<Rightarrow> string \<Rightarrow> string \<Rightarrow> string \<Rightarrow> ('w, pyval) io" where
  "cbs_get_collection_id ce sv bucket scope collection =
     bindIO (checked_json (ce_http ce) (send_srv ce (srv_rq ''GET'' (buckets_url sv bucket @ ''/scopes'')))) (\<lambda>resp_obj. liftIO
      (bindR (bindR (py_item resp_obj ''scopes'') py_iter) (foldR (scope_step scope collection) PNone)))"

definition cbs_disable_replicas :: "'w cbs_env \<Rightarrow> cbserver \<Rightarrow> string \<Rightarrow> ('w, unit) io" where
  "cbs_disable_replicas ce sv bucket =
     bindIO (checked (send_srv ce (srv_form ''POST'' (buckets_url sv bucket) [(''replicaNumber'', ''0'')]))) (\<lambda>_. returnIO ())"

section \<open>Waiting for a rebalance\<close>

lemma get_tasks_onward: "http_onward time (ce_http ce) \<Longrightarrow> onward time (cbs_get_tasks ce sv)"
  by (auto simp: cbs_get_tasks_def intro!: time_intros)

lemma rebalance_rounds_onward:
  assumes "http_onward time (ce_http ce)"
  shows "onward time (found_round ce sv u)" "onward time (done_round ce sv u)" "onward time (add_round ce r u)"
  using assms by (auto simp: found_round_def done_round_def add_round_def get_tasks_onward intro!: time_intros)

interpretation found_loop: polling time 1 "found_round ce sv" "http_onward time (ce_http ce)" for time ce sv
  by unfold_locales (simp_all add: rebalance_rounds_onward)

interpretation done_loop: polling time 5 "done_round ce sv" "http_onward time (ce_http ce)" for time ce sv
  by unfold_locales (simp_all add: rebalance_rounds_onward)

interpretation add_loop: polling time 1 "add_round ce r" "http_onward time (ce_http ce)" for time ce r
  by unfold_locales (simp_all add: rebalance_rounds_onward)

lemma done_round_none_running:
  assumes "done_round ce sv u w = (Inr (Inr ()), w')"
  obtains tasks ts where "cbs_get_tasks ce sv w = (Inr tasks, w')" "py_iter tasks = Inr ts" "\<And>t. t \<in> set ts \<Longrightarrow> task_running t = Inr False"
proof -
  from assms obtain tasks ts rs where a: "cbs_get_tasks ce sv w = (Inr tasks, w')" "py_iter tasks = Inr ts" "mapR task_running ts = Inr rs" "\<not> list_ex id rs"
    by (auto simp: done_round_def mapR_in_def bindR_eq_Inr elim!: bindIO_cases split: if_splits)
  have "task_running t = Inr False" if "t \<in> set ts" for t
    using that a(3,4) by (fastforce simp: mapR_Inr_iff list_all2_conv_all_nth in_set_conv_nth list_ex_length)
  with a show thesis using that by blast
qed


definition tasks_answer :: pyval where
  "tasks_answer = PList [PDict [(''type'', PStr ''rebalance''), (''status'', PStr ''notRunning'')]]"


section \<open>Toy builds\<close>

lemma join_snoc: "xs \<noteq> [] \<Longrightarrow> join sep (xs @ [x]) = join sep xs @ sep @ x"
  by (induction sep xs rule: join.induct) auto

text \<open>
  A toy build's address is taken apart into a base address and a package name that make up the
  address again, and the name has no slash.
\<close>

theorem toy_build_split:
  assumes "CHR ''/'' \<in> set toy_build"
  shows "\<exists>base name. server_package toy_build version os_platform = Inr (base, Some name) \<and>
    base @ ''/'' @ name = toy_build \<and> CHR ''/'' \<notin> set name"
proof -
  let ?parts = "split_chr CHR ''/'' toy_build"
  have "toy_build \<noteq> []" using assms by auto
  have "length ?parts > 1" using assms count_list_0_iff [of toy_build "CHR ''/''"] by (simp add: length_split_chr)
  then have "butlast ?parts \<noteq> []" by (cases ?parts; cases "tl ?parts") auto
  then have "join ''/'' (butlast ?parts @ [last ?parts]) = join ''/'' (butlast ?parts) @ ''/'' @ last ?parts" by (rule join_snoc)
  then have "join ''/'' (butlast ?parts) @ ''/'' @ last ?parts = toy_build" by (simp add: join_split_chr)
  moreover have "CHR ''/'' \<notin> set (last ?parts)" by (rule split_chr_parts [of _ _ toy_build]) simp
  ultimately show ?thesis using \<open>toy_build \<noteq> []\<close> by (auto simp: server_package_def Let_def)
qed

theorem toy_build_split_witness:
  "\<exists>base name. server_package ''http://server.jenkins/artifact/couchbase-server.rpm'' [] ''centos7'' = Inr (base, Some name) \<and>
    base @ ''/'' @ name = ''http://server.jenkins/artifact/couchbase-server.rpm'' \<and> CHR ''/'' \<notin> set name"
  by (rule toy_build_split) simp

end
