(* ===== verification/Sg_User.thy ===== *)
theory Sg_User
  imports Attachments Multipart Py_Ops
begin

text \<open>
  \<open>libraries/testkit/user.py\<close>: a user of a Sync Gateway database. The object keeps the revision of every
  document it has written (\<open>cache\<close>) and the last changes feed (\<open>changes_data\<close>); its methods run in a world that
  holds the object beside the server. The keys of the cache are values: what the server calls the id. A thread
  pool runs its tasks one after the other, in an order that is an argument; each task is run as a whole.
\<close>

section \<open>The object\<close>

record user =
  usr_name :: pyval
  usr_password :: pyval
  usr_db :: string
  usr_cache :: "(pyval, pyval) dict"
  usr_changes_data :: pyval
  usr_channels :: "pyval list"
  usr_target_url :: string
  usr_headers :: "(string, string) dict"

definition HTTP_REQ_TIMEOUT :: rat where
  "HTTP_REQ_TIMEOUT = 120"

definition User_init :: "py_runtime \<Rightarrow> string \<Rightarrow> string \<Rightarrow> pyval \<Rightarrow> pyval \<Rightarrow> pyval list \<Rightarrow> user" where
  "User_init rt target_url db name password channels =
     \<lparr>usr_name = name, usr_password = password, usr_db = db, usr_cache = [], usr_changes_data = PNone, usr_channels = channels,
      usr_target_url = target_url,
      usr_headers = (''Content-Type'', ''application/json'') #
        (if name \<noteq> PNone then [(''Authorization'', ''Basic '' @ standard_b64encode (py_encode (py_str rt name @ '':'' @ py_str rt password)))] else [])\<rparr>"

definition User_str :: "py_runtime \<Rightarrow> user \<Rightarrow> string" where
  "User_str rt u = ''USER: name='' @ py_str rt (usr_name u) @ '' password='' @ py_str rt (usr_password u) @ '' db='' @ usr_db u @
     '' channels='' @ py_repr rt (PList (usr_channels u)) @ '' cache='' @ nat_str (length (usr_cache u))"

type_synonym ('w, 'a) user_io = "(user \<times> 'w, 'a) io"

definition usr_send :: "'w http \<Rightarrow> http_request \<Rightarrow> ('w, http_response) user_io" where
  "usr_send http r = bindIO (self_get usr_headers) (\<lambda>hs. on_world (http_send http (r\<lparr>rq_headers := hs\<rparr>)))"

definition usr_path :: "string list \<Rightarrow> ('w, string) user_io" where
  "usr_path ps = self_get (\<lambda>u. path (usr_target_url u # usr_db u # ps))"

definition usr_json :: "'w http \<Rightarrow> ('w, http_response) user_io \<Rightarrow> ('w, pyval) user_io" where
  "usr_json http m = bindIO (checked m) (\<lambda>r. liftIO (resp_json http r))"

definition usr_dumps :: "'w http \<Rightarrow> pyval \<Rightarrow> ('w, string) user_io" where
  "usr_dumps http v = liftIO (json_dumps (http_runtime http) v)"

definition cache_rev :: "pyval \<Rightarrow> pyval \<Rightarrow> ('w, unit) user_io" where
  "cache_rev doc_id rev_id = bindIO (liftIO (py_hashable doc_id)) (\<lambda>_.
     self_set (\<lambda>u. u\<lparr>usr_cache := dict_set (usr_cache u) doc_id rev_id\<rparr>))"

section \<open>Reading and deleting\<close>

definition User_get_doc :: "'w http \<Rightarrow> string \<Rightarrow> ('w, pyval) user_io" where
  "User_get_doc http doc_id = bindIO (usr_path [doc_id]) (\<lambda>url. usr_json http (usr_send http (rq ''GET'' url)))"

definition User_get_docs :: "'w http \<Rightarrow> pyval list \<Rightarrow> ('w, pyval list) user_io" where
  "User_get_docs http doc_ids =
     bindIO (usr_path [''_bulk_get'']) (\<lambda>url.
     bindIO (usr_dumps http (PDict [(''docs'', PList (map (\<lambda>i. PDict [(''id'', i)]) doc_ids))])) (\<lambda>d.
     bindIO (checked (usr_send http (with_data d (rq ''POST'' url)))) (\<lambda>resp.
     liftIO (mapR (json_loads (http_runtime http)) (List.filter (\<lambda>part. startswith part ''{'') (splitlines (rs_text resp)))))))"

definition User_get_all_docs :: "'w http \<Rightarrow> ('w, pyval) user_io" where
  "User_get_all_docs http = bindIO (usr_path [''_all_docs'']) (\<lambda>url. usr_json http (usr_send http (rq ''GET'' url)))"

definition User_delete_doc :: "'w http \<Rightarrow> string \<Rightarrow> pyval \<Rightarrow> ('w, pyval) user_io" where
  "User_delete_doc http doc_id doc_rev =
     bindIO (if doc_rev = PNone then bindIO (User_get_doc http doc_id) (\<lambda>doc. liftIO (py_item doc ''_rev'')) else returnIO doc_rev) (\<lambda>rev_id.
     bindIO (usr_path [doc_id]) (\<lambda>url.
     usr_json http (usr_send http (rq ''DELETE'' (url @ ''?rev='' @ py_str (http_runtime http) rev_id)))))"

section \<open>Adding\<close>

text \<open>The two branches for \<open>retries\<close> send the same request.\<close>

definition new_doc_body :: "pyval list \<Rightarrow> pyval \<Rightarrow> pyval" where
  "new_doc_body channels body = PDict ((''updates'', PInt 0) # (if channels \<noteq> [] then [(''channels'', PList channels)] else [])
     @ (if body \<noteq> PNone then [(''content'', body)] else []))"

text \<open>Local documents are not remembered: they do not show up in the changes feed.\<close>

definition remember_added :: "string option \<Rightarrow> http_response \<Rightarrow> pyval \<Rightarrow> ('w, pyval) user_io" where
  "remember_added doc_id resp resp_obj =
     (if rs_status resp = 200 \<or> rs_status resp = 201 then
        (case doc_id of
           None \<Rightarrow> bindIO (liftIO (py_item resp_obj ''id'')) (\<lambda>i. bindIO (liftIO (py_item resp_obj ''rev'')) (\<lambda>r.
             bindIO (cache_rev i r) (\<lambda>_. returnIO i)))
         | Some i \<Rightarrow> if \<not> startswith i ''_local/'' then
               bindIO (liftIO (py_item resp_obj ''rev'')) (\<lambda>r. bindIO (cache_rev (PStr i) r) (\<lambda>_. returnIO (PStr i)))
             else returnIO (PStr i))
      else returnIO (case doc_id of None \<Rightarrow> PNone | Some i \<Rightarrow> PStr i))"

definition User_add_doc :: "'w http \<Rightarrow> string option \<Rightarrow> pyval \<Rightarrow> ('w, pyval) user_io" where
  "User_add_doc http doc_id body =
     bindIO (self_get (\<lambda>u. new_doc_body (usr_channels u) body)) (\<lambda>doc_body.
     bindIO (usr_dumps http doc_body) (\<lambda>d.
     bindIO (case doc_id of
         None \<Rightarrow> bindIO (usr_path [[]]) (\<lambda>url. usr_send http (with_data d (rq ''POST'' url)))
       | Some i \<Rightarrow> bindIO (usr_path [i]) (\<lambda>url. usr_send http (with_data d (rq ''PUT'' url)))) (\<lambda>resp.
     bindIO (liftIO (raise_for_status resp)) (\<lambda>_.
     bindIO (liftIO (resp_json http resp)) (\<lambda>resp_obj. remember_added doc_id resp resp_obj)))))"

definition bulk_new_doc :: "pyval list \<Rightarrow> pyval \<Rightarrow> pyval" where
  "bulk_new_doc channels doc_id = PDict ((''_id'', doc_id) # (if channels \<noteq> [] then [(''channels'', PList channels)] else []) @ [(''updates'', PInt 0)])"

definition cache_row :: "pyval \<Rightarrow> ('w, pyval) user_io" where
  "cache_row doc = bindIO (liftIO (py_item doc ''id'')) (\<lambda>i. bindIO (liftIO (py_item doc ''rev'')) (\<lambda>r.
     bindIO (cache_rev i r) (\<lambda>_. returnIO i)))"

definition User_add_bulk_docs :: "'w http \<Rightarrow> pyval list \<Rightarrow> ('w, pyval list) user_io" where
  "User_add_bulk_docs http doc_ids =
     bindIO (self_get usr_channels) (\<lambda>channels.
     bindIO (usr_dumps http (PDict [(''docs'', PList (map (bulk_new_doc channels) doc_ids))])) (\<lambda>d.
     bindIO (usr_path [''_bulk_docs'']) (\<lambda>url.
     bindIO (usr_send http (with_data d (rq ''POST'' url))) (\<lambda>resp.
     bindIO (liftIO (raise_for_status resp)) (\<lambda>_.
     bindIO (liftIO (resp_json http resp)) (\<lambda>resp_obj.
     bindIO (liftIO (py_len resp_obj)) (\<lambda>n.
     if n \<noteq> length doc_ids then
       raiseIO (Exn ''Exception'' (''Number of bulk docs inconsistent: resp_json['' @ repr_str ''docs'' @ '']:'' @ nat_str n @ '' doc_ids:'' @ nat_str (length doc_ids)))
     else if rs_status resp = 201 then bindIO (liftIO (py_iter resp_obj)) (\<lambda>rows. seqIO (map cache_row rows))
     else returnIO [])))))))"

text \<open>\<open>(e.response.url, e.response.status_code)\<close> of an \<open>HTTPError\<close>; both are part of its text.\<close>

definition error_url :: "exn \<Rightarrow> string" where
  "error_url e = last (split_str '' for url: '' (exn_msg e))"

definition error_pair :: "exn \<Rightarrow> string \<times> int option" where
  "error_pair e = (error_url e, error_status e)"

text \<open>The loop over the results of a pool: \<open>HTTPError\<close>s are collected, any other exception is raised.\<close>

definition collect_errors :: "(exn + 'a) list \<Rightarrow> (string \<times> int option) list res" where
  "collect_errors results = bindR (mapR (\<lambda>r. case r of
       Inr _ \<Rightarrow> Inr []
     | Inl e \<Rightarrow> if exn_class e = ''HTTPError'' then Inr [error_pair e] else Inl e) results) (\<lambda>es. Inr (concat es))"

definition doc_names :: "'w entropy \<Rightarrow> nat \<Rightarrow> string option \<Rightarrow> ('w, string list) io" where
  "doc_names ent num_docs name_prefix = (case name_prefix of
       None \<Rightarrow> seqIO (replicate num_docs (ent_uuid4 ent))
     | Some p \<Rightarrow> returnIO (map (\<lambda>i. p @ nat_str i) [0..<num_docs]))"

definition User_add_docs :: "'w http \<Rightarrow> 'w entropy \<Rightarrow> (string list \<Rightarrow> string list) \<Rightarrow> nat \<Rightarrow> bool \<Rightarrow> string option \<Rightarrow>
    ('w, (string \<times> int option) list) user_io" where
  "User_add_docs http ent order num_docs bulk name_prefix =
     bindIO (on_world (doc_names ent num_docs name_prefix)) (\<lambda>names.
     if \<not> bulk then bindIO (pool_run order (\<lambda>n. User_add_doc http (Some n) PNone) names) (\<lambda>rs. liftIO (collect_errors rs))
     else bindIO (attempt (User_add_bulk_docs http (map PStr names))) (\<lambda>r. liftIO (collect_errors [r])))"

definition User_add_design_doc :: "'w http \<Rightarrow> string \<Rightarrow> pyval \<Rightarrow> ('w, unit) user_io" where
  "User_add_design_doc http doc_id body =
     bindIO (usr_dumps http body) (\<lambda>d. bindIO (usr_path [''_design'', doc_id]) (\<lambda>url.
     bindIO (checked (usr_send http (with_data d (rq ''PUT'' url)))) (\<lambda>_. returnIO ())))"

section \<open>Updating\<close>

definition counted_up :: "pyval \<Rightarrow> pyval \<Rightarrow> pyval res" where
  "counted_up data body =
     bindR (bindR (py_item data ''updates'') py_to_int) (\<lambda>n.
     bindR (py_set data ''updates'' (PInt (n + 1))) (\<lambda>data.
     if body \<noteq> PNone then py_set data ''content'' body else Inr data))"

text \<open>
  One revision: the document is read, and if that succeeds, written. If the PUT is not answered with 201, the value that
  is searched for the revision is still the document that was read.
\<close>

definition put_counted :: "'w http \<Rightarrow> pyval \<Rightarrow> string \<Rightarrow> (pyval, pyval) dict \<Rightarrow> pyval \<Rightarrow> ('w, (pyval, pyval) dict) user_io" where
  "put_counted http doc_id doc_url updated_docs data =
     bindIO (usr_dumps http data) (\<lambda>d.
     bindIO (usr_send http (with_data d (rq ''PUT'' doc_url))) (\<lambda>put_resp.
     bindIO (if rs_status put_resp = 201 then liftIO (resp_json http put_resp) else returnIO data) (\<lambda>data.
     bindIO (liftIO (dict_attr data ''keys'')) (\<lambda>fields.
     (case dict_get fields ''rev'' of
        None \<Rightarrow> raiseIO (Exn ''ValueError'' ''Did not find _rev property after Update response'')
      | Some r \<Rightarrow> bindIO (cache_rev doc_id r) (\<lambda>_.
          bindIO (liftIO (raise_for_status put_resp)) (\<lambda>_. returnIO (dict_set updated_docs doc_id r))))))))"

definition usr_update_round :: "'w http \<Rightarrow> pyval \<Rightarrow> pyval \<Rightarrow> (pyval, pyval) dict \<Rightarrow> ('w, (pyval, pyval) dict) user_io" where
  "usr_update_round http doc_id body updated_docs =
     bindIO (liftIO (as_str doc_id)) (\<lambda>i.
     bindIO (usr_path [i]) (\<lambda>doc_url.
     bindIO (usr_send http ((rq ''GET'' doc_url)\<lparr>rq_timeout := Some HTTP_REQ_TIMEOUT\<rparr>)) (\<lambda>resp.
     bindIO (if rs_status resp = 200 then
         bindIO (liftIO (bindR (resp_json http resp) (\<lambda>data. counted_up data body))) (put_counted http doc_id doc_url updated_docs)
       else returnIO updated_docs) (\<lambda>updated_docs.
     bindIO (liftIO (raise_for_status resp)) (\<lambda>_. returnIO updated_docs)))))"

definition User_update_doc :: "'w http \<Rightarrow> pyval \<Rightarrow> nat \<Rightarrow> pyval \<Rightarrow> ('w, (pyval, pyval) dict) user_io" where
  "User_update_doc http doc_id num_revision body =
     foldIO (\<lambda>updated_docs i. usr_update_round http doc_id body updated_docs) [] [0..<num_revision]"

definition User_update_docs :: "'w http \<Rightarrow> (pyval list \<Rightarrow> pyval list) \<Rightarrow> nat \<Rightarrow> ('w, (string \<times> int option) list) user_io" where
  "User_update_docs http order num_revs_per_doc =
     bindIO (self_get (\<lambda>u. dict_keys (usr_cache u))) (\<lambda>doc_ids.
     bindIO (pool_run order (\<lambda>i. User_update_doc http i num_revs_per_doc PNone) doc_ids) (\<lambda>rs. liftIO (collect_errors rs)))"

section \<open>The last changes feed\<close>

definition starts_user :: "string \<Rightarrow> pyval \<Rightarrow> bool res" where
  "starts_user p row = bindR (bindR (py_item row ''id'') (\<lambda>i. str_attr i ''startswith'')) (\<lambda>i. Inr (startswith i p))"

definition User_get_num_docs :: "user \<Rightarrow> int res" where
  "User_get_num_docs u =
     bindR (bindR (py_item (usr_changes_data u) ''results'') py_iter) (\<lambda>results.
     bindR (mapR (starts_user ''_user'') results) (\<lambda>bs. Inr (int (length results) - int (length (List.filter id bs)))))"

text \<open>
  \<open>re.search(r'(\d+)-\w+', s)\<close>, first group: the digits before the first dash that has digits on its left and a word
  character on its right (of ASCII text).
\<close>

definition word_chr :: "char \<Rightarrow> bool" where
  "word_chr c \<longleftrightarrow> is_digit c \<or> c \<in> set ascii_letters \<or> c = CHR ''_''"

fun rev_number_go :: "string \<Rightarrow> string \<Rightarrow> string option" where
  "rev_number_go ds [] = None"
| "rev_number_go ds (c # s) =
     (if is_digit c then rev_number_go (ds @ [c]) s
      else if c = CHR ''-'' \<and> ds \<noteq> [] \<and> s \<noteq> [] \<and> word_chr (hd s) then Some ds
      else rev_number_go [] s)"

definition rev_number :: "string \<Rightarrow> string option" where
  "rev_number s = rev_number_go [] s"

text \<open>
  \<open>revision_num\<close> keeps the number of the row before where a revision does not match, and is unbound in the first one; a repeated id raises
  a text, which is a \<open>TypeError\<close>.
\<close>

definition num_revision_step :: "(pyval, string) dict \<times> string option \<Rightarrow> pyval \<Rightarrow> ((pyval, string) dict \<times> string option) res" where
  "num_revision_step st obj = (case st of (docs, revision_num) \<Rightarrow>
     bindR (starts_user ''_user'' obj) (\<lambda>b.
     if b then Inr st
     else bindR (py_item obj ''id'') (\<lambda>i.
       bindR (bindR (py_item obj ''changes'') py_iter) (\<lambda>changes.
       bindR (bindR (list_item changes 0) (\<lambda>c. py_item c ''rev'')) (\<lambda>r. bindR (as_str r) (\<lambda>revision.
       let revision_num = (case rev_number revision of Some n \<Rightarrow> Some n | None \<Rightarrow> revision_num) in
       if dict_has docs i then raise_exc ''TypeError'' ''exceptions must derive from BaseException''
       else (case revision_num of
           None \<Rightarrow> raise_exc ''UnboundLocalError'' ''revision_num''
         | Some n \<Rightarrow> Inr (dict_set docs i n, Some n))))))))"

definition User_get_num_revisions :: "user \<Rightarrow> (pyval, string) dict res" where
  "User_get_num_revisions u =
     bindR (bindR (py_item (usr_changes_data u) ''results'') py_iter) (\<lambda>results.
     bindR (foldR num_revision_step ([], None) results) (\<lambda>st. Inr (fst st)))"

definition superset_step :: "pyval list \<Rightarrow> pyval \<Rightarrow> pyval list res" where
  "superset_step superset obj = bindR (py_item obj ''id'') (\<lambda>i.
     if list_ex (py_eq i) superset then raise_exc ''KeyError'' ''Doc id already exists'' else Inr (superset @ [i]))"

definition User_check_doc_ids_in_changes_feed :: "user \<Rightarrow> bool res" where
  "User_check_doc_ids_in_changes_feed u =
     bindR (bindR (py_item (usr_changes_data u) ''results'') py_iter) (\<lambda>results.
     bindR (foldR superset_step [] results) (\<lambda>superset.
     Inr (list_all (\<lambda>i. list_ex (py_eq i) superset) (dict_keys (usr_cache u)))))"

section \<open>Changes\<close>

record feed_args =
  fa_feed :: "string option"
  fa_limit :: pyval
  fa_heartbeat :: pyval
  fa_style :: pyval
  fa_since :: pyval
  fa_include_docs :: pyval
  fa_channels :: "string list option"
  fa_filter :: "string option"

definition no_feed_args :: feed_args where
  "no_feed_args = \<lparr>fa_feed = None, fa_limit = PNone, fa_heartbeat = PNone, fa_style = PNone, fa_since = PNone, fa_include_docs = PNone,
     fa_channels = None, fa_filter = None\<rparr>"

definition unless_none :: "string \<Rightarrow> pyval \<Rightarrow> (string, pyval) dict" where
  "unless_none k v = (if v = PNone then [] else [(k, v)])"

definition feed_params :: "feed_args \<Rightarrow> (string, pyval) dict res" where
  "feed_params a =
     bindR (case fa_feed a of None \<Rightarrow> Inr []
       | Some f \<Rightarrow> if f \<notin> {''normal'', ''continuous'', ''longpoll'', ''websocket''} then raise_exc ''Exception'' ''Invalid _changes feed type''
           else Inr [(''feed'', PStr f)]) (\<lambda>feed.
     bindR (case fa_filter a of None \<Rightarrow> Inr []
       | Some f \<Rightarrow> if f \<noteq> ''sync_gateway/bychannel'' then raise_exc ''Exception'' ''Invalid _changes filter type''
           else Inr [(''filter'', PStr f)]) (\<lambda>filt.
     Inr (feed @ unless_none ''limit'' (fa_limit a) @ unless_none ''heartbeat'' (fa_heartbeat a) @ unless_none ''style'' (fa_style a) @
       unless_none ''since'' (fa_since a) @
       (if fa_include_docs a = PNone then [] else [(''include_docs'', PBool (py_truth (fa_include_docs a)))]) @
       (case fa_channels a of None \<Rightarrow> [] | Some cs \<Rightarrow> [(''channels'', PStr (join '','' cs))]) @ filt)))"

definition User_get_changes :: "'w http \<Rightarrow> feed_args \<Rightarrow> ('w, pyval) user_io" where
  "User_get_changes http a =
     bindIO (liftIO (feed_params a)) (\<lambda>params.
     bindIO (usr_dumps http (PDict params)) (\<lambda>d.
     bindIO (usr_path [''_changes'']) (\<lambda>url.
     bindIO (checked (usr_send http ((with_data d (rq ''POST'' url))\<lparr>rq_timeout := Some HTTP_REQ_TIMEOUT\<rparr>))) (\<lambda>resp.
     bindIO (liftIO (bindR (resp_json http resp) (\<lambda>obj. bindR (bindR (py_item obj ''results'') py_len) (\<lambda>_. Inr obj)))) (\<lambda>obj.
     bindIO (self_set (\<lambda>u. u\<lparr>usr_changes_data := obj\<rparr>)) (\<lambda>_. returnIO obj))))))"

section \<open>Following a feed\<close>

record poll_state =
  ps_since :: pyval
  ps_docs :: "(pyval, pyval) dict"
  ps_polling :: bool

definition store_doc :: "(pyval, pyval) dict \<Rightarrow> pyval \<Rightarrow> (pyval, pyval) dict res" where
  "store_doc docs row = bindR (py_item2 row ''doc'' ''_id'') (\<lambda>i. bindR (py_item2 row ''doc'' ''_rev'') (\<lambda>r.
     bindR (py_hashable i) (\<lambda>_. Inr (dict_set docs i r))))"

text \<open>The rows of one answer, up to the termination document: the documents so far and whether to go on.\<close>

fun poll_rows :: "string option \<Rightarrow> (pyval, pyval) dict \<Rightarrow> pyval list \<Rightarrow> ((pyval, pyval) dict \<times> bool) res" where
  "poll_rows termination_doc_id docs [] = Inr (docs, True)"
| "poll_rows termination_doc_id docs (row # rows) =
     bindR (starts_user ''_user/'' row) (\<lambda>b.
     if b then poll_rows termination_doc_id docs rows
     else bindR (py_item2 row ''doc'' ''_id'') (\<lambda>_. bindR (py_item2 row ''doc'' ''_rev'') (\<lambda>_. bindR (py_item row ''id'') (\<lambda>i.
       if termination_doc_id \<noteq> None \<and> py_eq i (PStr (the termination_doc_id)) then Inr (docs, False)
       else bindR (store_doc docs row) (\<lambda>docs. poll_rows termination_doc_id docs rows)))))"

definition repr_docs :: "py_runtime \<Rightarrow> (pyval, pyval) dict \<Rightarrow> string" where
  "repr_docs rt docs = ''{'' @ join '', '' (map (\<lambda>kv. py_repr rt (fst kv) @ '': '' @ py_repr rt (snd kv)) docs) @ ''}''"

text \<open>The ids of an answer are collected, for a warning about repeated ids only.\<close>

definition answer_ids :: "pyval list \<Rightarrow> unit res" where
  "answer_ids rows = bindR (mapR (\<lambda>row. bindR (starts_user ''_user/'' row) (\<lambda>b.
     if b then Inr () else bindR (py_item2 row ''doc'' ''_id'') py_hashable)) rows) (\<lambda>_. Inr ())"

text \<open>
  The flag \<open>request_timed_out\<close> is set at the start and never cleared, so every round sends a request. A round ends with \<open>True\<close> to go on, with
  \<open>False\<close> for \<open>break\<close>; it sleeps unless it was cut short by \<open>continue\<close>.
\<close>

definition longpoll_round :: "'w http \<Rightarrow> 'w clock \<Rightarrow> string option \<Rightarrow> int \<Rightarrow> bool \<Rightarrow> rat \<Rightarrow> rat \<Rightarrow> poll_state \<Rightarrow> ('w, bool \<times> poll_state) user_io" where
  "longpoll_round http clk termination_doc_id timeout loop loop_timeout start st =
     bindIO (on_world (clk_time clk)) (\<lambda>now.
     if \<not> now - start < loop_timeout then returnIO (False, st)
     else
       bindIO (usr_dumps http (PDict [(''feed'', PStr ''longpoll''), (''include_docs'', PBool True), (''style'', PStr ''all_docs''), (''heartbeat'', PInt 300000),
         (''timeout'', PInt timeout), (''since'', ps_since st)])) (\<lambda>d.
       bindIO (usr_path [''_changes'']) (\<lambda>url.
       bindIO (usr_send http (with_data d (rq ''POST'' url))) (\<lambda>resp.
       if rs_status resp \<noteq> 200 then
         raiseIO (Exn ''HTTPError'' (''{'' @ repr_str ''docs'' @ '': '' @ repr_docs (http_runtime http) (ps_docs st) @ '', '' @ repr_str ''last_seq_num'' @ '': ''
           @ py_repr (http_runtime http) (ps_since st) @ ''}''))
       else
         bindIO (liftIO (bindR (resp_json http resp) (\<lambda>obj.
           bindR (bindR (py_item obj ''results'') as_list) (\<lambda>rows.
           bindR (answer_ids rows) (\<lambda>_.
           bindR (poll_rows termination_doc_id (ps_docs st) rows) (\<lambda>(docs, polling).
           bindR (py_item obj ''last_seq'') (\<lambda>seq.
           Inr (length rows, \<lparr>ps_since = seq, ps_docs = docs, ps_polling = polling\<rparr>)))))))) (\<lambda>(n, st).
         if \<not> loop then returnIO (n = 1, st)
         else bindIO (on_world (clk_sleep clk (1/10))) (\<lambda>_. returnIO (True, st)))))))"

definition User_start_longpoll_changes_tracking :: "'w http \<Rightarrow> 'w clock \<Rightarrow> string option \<Rightarrow> int \<Rightarrow> bool \<Rightarrow> rat \<Rightarrow> nat \<Rightarrow>
    (user \<times> 'w, (pyval, pyval) dict \<times> pyval) dio" where
  "User_start_longpoll_changes_tracking http clk termination_doc_id timeout loop loop_timeout fuel =
     bindD (liftD (on_world (clk_time clk))) (\<lambda>start.
     bindD (while_io ps_polling (longpoll_round http clk termination_doc_id timeout loop loop_timeout start) fuel
       \<lparr>ps_since = PStr ''0'', ps_docs = [], ps_polling = True\<rparr>) (\<lambda>st.
     liftD (returnIO (ps_docs st, ps_since st))))"

text \<open>The lines of a continuous feed, until the termination document or the end of the stream.\<close>

fun feed_lines :: "py_runtime \<Rightarrow> string option \<Rightarrow> (pyval, pyval) dict \<Rightarrow> string list \<Rightarrow> (pyval, pyval) dict res" where
  "feed_lines rt termination_doc_id docs [] = Inr docs"
| "feed_lines rt termination_doc_id docs (line # ls) =
     (if line = [] then feed_lines rt termination_doc_id docs ls
      else bindR (json_loads rt line) (\<lambda>doc.
        bindR (starts_user ''_user/'' doc) (\<lambda>b.
        bindR (if b then Inr True else bindR (py_in_str ''doc'' doc) (\<lambda>h. Inr (\<not> h))) (\<lambda>skip.
        if skip then feed_lines rt termination_doc_id docs ls
        else bindR (py_item2 doc ''doc'' ''_id'') (\<lambda>i.
          if termination_doc_id \<noteq> None \<and> py_eq i (PStr (the termination_doc_id)) then Inr docs
          else bindR (store_doc docs doc) (\<lambda>docs. feed_lines rt termination_doc_id docs ls))))))"

definition User_start_continuous_changes_tracking :: "'w http \<Rightarrow> (http_request \<Rightarrow> ('w, string list) io) \<Rightarrow> string option \<Rightarrow> ('w, (pyval, pyval) dict) user_io" where
  "User_start_continuous_changes_tracking http stream termination_doc_id =
     bindIO (usr_dumps http (PDict [(''feed'', PStr ''continuous''), (''include_docs'', PBool True)])) (\<lambda>d.
     bindIO (usr_path [''_changes'']) (\<lambda>url.
     bindIO (self_get usr_headers) (\<lambda>hs.
     bindIO (on_world (stream ((with_data d (rq ''POST'' url))\<lparr>rq_headers := hs\<rparr>))) (\<lambda>ls.
     liftIO (feed_lines (http_runtime http) termination_doc_id [] ls)))))"

section \<open>The cache and the server\<close>

text \<open>
  What the cache relies on: a server with a current revision per document, which reading does not change, and which
  a write that is answered without an error sets to the revision in the answer.
\<close>

definition local_id :: "pyval \<Rightarrow> bool" where
  "local_id i = (case i of PStr s \<Rightarrow> startswith s ''_local/'' | _ \<Rightarrow> False)"

definition revision_server :: "'w http \<Rightarrow> string \<Rightarrow> ('w \<Rightarrow> pyval \<Rightarrow> pyval option) \<Rightarrow> bool" where
  "revision_server http base rev_of \<longleftrightarrow> (\<forall>r w resp w'. http_send http r w = (Inr resp, w') \<longrightarrow>
     (rq_method r = ''GET'' \<longrightarrow> rev_of w' = rev_of w) \<and>
     (\<forall>i. rq_method r = ''PUT'' \<longrightarrow> rq_url r = base @ ''/'' @ i \<longrightarrow> raise_for_status resp = Inr () \<longrightarrow> rs_status resp = 201 \<and>
       (\<exists>fs v. resp_json http resp = Inr (PDict fs) \<and> map_of fs ''rev'' = Some v \<and> rev_of w' = (rev_of w)(PStr i \<mapsto> v))) \<and>
     (rq_method r = ''POST'' \<longrightarrow> rq_url r = base @ ''/'' \<longrightarrow> raise_for_status resp = Inr () \<longrightarrow>
       (\<exists>fs i v. resp_json http resp = Inr (PDict fs) \<and> map_of fs ''id'' = Some i \<and> map_of fs ''rev'' = Some v \<and> rev_of w' = (rev_of w)(i \<mapsto> v) \<and>
         rs_status resp = 200 \<and> \<not> local_id i)))"

lemma revision_server_get:
  assumes "revision_server http base rev_of" "http_send http r w = (Inr resp, w')" "rq_method r = ''GET''"
  shows "rev_of w' = rev_of w"
  using assms unfolding revision_server_def by blast

lemma revision_server_put:
  assumes "revision_server http base rev_of" "http_send http r w = (Inr resp, w')" "rq_method r = ''PUT''" "rq_url r = base @ ''/'' @ i"
    "raise_for_status resp = Inr ()"
  obtains fs v where "rs_status resp = 201" "resp_json http resp = Inr (PDict fs)" "map_of fs ''rev'' = Some v" "rev_of w' = (rev_of w)(PStr i \<mapsto> v)"
  using assms unfolding revision_server_def by blast

lemma revision_server_post:
  assumes "revision_server http base rev_of" "http_send http r w = (Inr resp, w')" "rq_method r = ''POST''" "rq_url r = base @ ''/''"
    "raise_for_status resp = Inr ()"
  obtains fs i v where "rs_status resp = 200" "resp_json http resp = Inr (PDict fs)" "map_of fs ''id'' = Some i" "map_of fs ''rev'' = Some v"
    "rev_of w' = (rev_of w)(i \<mapsto> v)" "\<not> local_id i"
  using assms unfolding revision_server_def by blast

definition cache_current :: "('w \<Rightarrow> pyval \<Rightarrow> pyval option) \<Rightarrow> user \<times> 'w \<Rightarrow> bool" where
  "cache_current rev_of uw \<longleftrightarrow> (\<forall>i v. map_of (usr_cache (fst uw)) i = Some v \<longrightarrow> rev_of (snd uw) i = Some v \<and> \<not> local_id i)"

abbreviation user_at :: "string \<Rightarrow> user \<Rightarrow> bool" where
  "user_at base u \<equiv> path [usr_target_url u, usr_db u] = base"

lemma usr_send_run:
  "usr_send http r (u, w) = (x, (u', w')) \<longleftrightarrow> u' = u \<and> http_send http (r\<lparr>rq_headers := usr_headers u\<rparr>) w = (x, w')"
  by (auto simp: usr_send_def io_simps split: prod.splits)

lemma usr_path_run: "usr_path ps (u, w) = (x, uw) \<longleftrightarrow> x = Inr (path (usr_target_url u # usr_db u # ps)) \<and> uw = (u, w)"
  by (auto simp: usr_path_def io_simps)

lemma path_snoc: "path [a, b, c] = path [a, b] @ ''/'' @ c"
  by (simp add: path_def)

lemma cache_rev_run:
  "cache_rev i r (u, w) = (Inr (), uw) \<Longrightarrow> uw = (u\<lparr>usr_cache := dict_set (usr_cache u) i r\<rparr>, w)"
  by (auto simp: cache_rev_def io_simps elim!: bindIO_cases)

lemma cache_current_set:
  "cache_current rev_of (u, w) \<Longrightarrow> rev_of w' = (rev_of w)(i \<mapsto> r) \<Longrightarrow> \<not> local_id i \<Longrightarrow>
     cache_current rev_of (u\<lparr>usr_cache := dict_set (usr_cache u) i r\<rparr>, w')"
  by (auto simp: cache_current_def)

lemma put_counted_current:
  assumes server: "revision_server http base rev_of" and "user_at base u" "cache_current rev_of (u, w)" "\<not> local_id (PStr i)"
    and run: "put_counted http (PStr i) (base @ ''/'' @ i) docs data (u, w) = (Inr docs', (u', w'))"
  shows "user_at base u' \<and> cache_current rev_of (u', w') \<and> (\<exists>v. rev_of w' (PStr i) = Some v \<and> docs' = dict_set docs (PStr i) v)"
proof -
  from run obtain d put_resp w1 data' fields r where
    send: "http_send http ((with_data d (rq ''PUT'' (base @ ''/'' @ i)))\<lparr>rq_headers := usr_headers u\<rparr>) w = (Inr put_resp, w1)"
    and data: "(if rs_status put_resp = 201 then resp_json http put_resp else Inr data) = Inr data'" "dict_attr data' ''keys'' = Inr fields"
      "dict_get fields ''rev'' = Some r"
    and ok: "raise_for_status put_resp = Inr ()"
    and u': "(u', w') = (u\<lparr>usr_cache := dict_set (usr_cache u) (PStr i) r\<rparr>, w1)" "docs' = dict_set docs (PStr i) r"
    by (auto simp: put_counted_def usr_dumps_def usr_send_run elim!: bindIO_cases dest!: cache_rev_run split: option.splits if_splits)
  have "rq_method ((with_data d (rq ''PUT'' (base @ ''/'' @ i)))\<lparr>rq_headers := usr_headers u\<rparr>) = ''PUT''"
    "rq_url ((with_data d (rq ''PUT'' (base @ ''/'' @ i)))\<lparr>rq_headers := usr_headers u\<rparr>) = base @ ''/'' @ i"
    by (simp_all add: with_data_def rq_def)
  from revision_server_put [OF server send this ok] obtain fs v where
    "rs_status put_resp = 201" "resp_json http put_resp = Inr (PDict fs)" "map_of fs ''rev'' = Some v" "rev_of w1 = (rev_of w)(PStr i \<mapsto> v)" .
  with data have "r = v" "rev_of w1 = (rev_of w)(PStr i \<mapsto> r)" by (auto simp: dict_attr_def dict_get_def)
  with u' assms(2,3,4) show ?thesis by (auto intro: cache_current_set)
qed

lemma update_round_current:
  assumes server: "revision_server http base rev_of" and "user_at base u" "cache_current rev_of (u, w)" "\<not> local_id doc_id"
    and run: "usr_update_round http doc_id body docs (u, w) = (Inr docs', (u', w'))"
  shows "user_at base u' \<and> cache_current rev_of (u', w')"
proof -
  from run obtain i resp w1 where i: "doc_id = PStr i"
    and send: "http_send http ((rq ''GET'' (path [usr_target_url u, usr_db u, i]))\<lparr>rq_timeout := Some HTTP_REQ_TIMEOUT, rq_headers := usr_headers u\<rparr>) w = (Inr resp, w1)"
    and rest: "(if rs_status resp = 200 then bindIO (liftIO (bindR (resp_json http resp) (\<lambda>data. counted_up data body)))
        (put_counted http doc_id (path [usr_target_url u, usr_db u, i]) docs) else returnIO docs) (u, w1) = (Inr docs', (u', w'))"
    by (auto simp: usr_update_round_def usr_send_run usr_path_run as_str_def elim!: bindIO_cases split: pyval.splits)
  have "rev_of w1 = rev_of w" by (rule revision_server_get [OF server send]) (simp add: rq_def)
  then have c: "cache_current rev_of (u, w1)" using assms(3) by (simp add: cache_current_def)
  show ?thesis
  proof (cases "rs_status resp = 200")
    case True
    with rest obtain data where "put_counted http (PStr i) (base @ ''/'' @ i) docs data (u, w1) = (Inr docs', (u', w'))"
      using assms(2) by (auto simp: i path_snoc elim!: bindIO_cases)
    from put_counted_current [OF server assms(2) c _ this] assms(4) i show ?thesis by simp
  qed (use rest c assms(2) in auto)
qed

lemma update_doc_current:
  assumes "revision_server http base rev_of" "user_at base u" "cache_current rev_of (u, w)" "\<not> local_id doc_id"
    and "User_update_doc http doc_id n body (u, w) = (Inr docs', (u', w'))"
  shows "user_at base u' \<and> cache_current rev_of (u', w')"
proof -
  have "user_at base (fst uw') \<and> cache_current rev_of uw'"
    if "foldIO (\<lambda>docs k. usr_update_round http doc_id body docs) docs ks uw = (Inr docs', uw')" "user_at base (fst uw)" "cache_current rev_of uw"
    for docs docs' ks uw uw'
    using that
  proof (induction ks arbitrary: docs uw)
    case (Cons k ks)
    obtain u w where uw: "uw = (u, w)" by fastforce
    from Cons.prems(1) obtain d u1 w1 where 1: "usr_update_round http doc_id body docs (u, w) = (Inr d, (u1, w1))"
      "foldIO (\<lambda>docs k. usr_update_round http doc_id body docs) d ks (u1, w1) = (Inr docs', uw')"
      by (auto simp: uw elim!: bindIO_cases)
    from update_round_current [OF assms(1) _ _ assms(4) 1(1)] Cons.prems(2,3) Cons.IH [OF 1(2)] show ?case by (simp add: uw)
  qed simp
  from this [OF assms(5) [unfolded User_update_doc_def]] assms(2,3) show ?thesis by simp
qed

lemma put_doc_current:
  assumes server: "revision_server http base rev_of" and "user_at base u" "cache_current rev_of (u, w)"
    and run: "User_add_doc http (Some i) body (u, w) = (Inr i', (u', w'))"
  shows "user_at base u' \<and> cache_current rev_of (u', w')"
proof -
  from run obtain d resp w1 resp_obj where
    send: "http_send http ((with_data d (rq ''PUT'' (path [usr_target_url u, usr_db u, i])))\<lparr>rq_headers := usr_headers u\<rparr>) w = (Inr resp, w1)"
    and ok: "raise_for_status resp = Inr ()" and js: "resp_json http resp = Inr resp_obj"
    and rest: "remember_added (Some i) resp resp_obj (u, w1) = (Inr i', (u', w'))"
    by (auto simp: User_add_doc_def usr_dumps_def usr_send_run usr_path_run elim!: bindIO_cases)
  have "rq_method ((with_data d (rq ''PUT'' (path [usr_target_url u, usr_db u, i])))\<lparr>rq_headers := usr_headers u\<rparr>) = ''PUT''"
    "rq_url ((with_data d (rq ''PUT'' (path [usr_target_url u, usr_db u, i])))\<lparr>rq_headers := usr_headers u\<rparr>) = base @ ''/'' @ i"
    using assms(2) by (simp_all add: with_data_def rq_def path_snoc)
  from revision_server_put [OF server send this ok] obtain fs v where
    s: "rs_status resp = 201" "resp_json http resp = Inr (PDict fs)" "map_of fs ''rev'' = Some v" "rev_of w1 = (rev_of w)(PStr i \<mapsto> v)" .
  show ?thesis
  proof (cases "startswith i ''_local/''")
    case False
    with rest s js have "(u', w') = (u\<lparr>usr_cache := dict_set (usr_cache u) (PStr i) v\<rparr>, w1)"
      by (auto simp: remember_added_def dict_index_def elim!: bindIO_cases dest!: cache_rev_run)
    with s(4) assms(2,3) False show ?thesis by (auto intro: cache_current_set simp: local_id_def)
  next
    case True
    with rest have "u' = u" "w' = w1" by (auto simp: remember_added_def split: if_splits)
    with s(4) assms(2,3) True show ?thesis by (force simp: cache_current_def local_id_def)
  qed
qed

lemma post_doc_current:
  assumes server: "revision_server http base rev_of" and "user_at base u" "cache_current rev_of (u, w)"
    and run: "User_add_doc http None body (u, w) = (Inr i', (u', w'))"
  shows "user_at base u' \<and> cache_current rev_of (u', w')"
proof -
  from run obtain d resp w1 resp_obj where
    send: "http_send http ((with_data d (rq ''POST'' (path [usr_target_url u, usr_db u, []])))\<lparr>rq_headers := usr_headers u\<rparr>) w = (Inr resp, w1)"
    and ok: "raise_for_status resp = Inr ()" and js: "resp_json http resp = Inr resp_obj"
    and rest: "remember_added None resp resp_obj (u, w1) = (Inr i', (u', w'))"
    by (auto simp: User_add_doc_def usr_dumps_def usr_send_run usr_path_run elim!: bindIO_cases)
  have "rq_method ((with_data d (rq ''POST'' (path [usr_target_url u, usr_db u, []])))\<lparr>rq_headers := usr_headers u\<rparr>) = ''POST''"
    "rq_url ((with_data d (rq ''POST'' (path [usr_target_url u, usr_db u, []])))\<lparr>rq_headers := usr_headers u\<rparr>) = base @ ''/''"
    using assms(2) by (simp_all add: with_data_def rq_def path_snoc)
  from revision_server_post [OF server send this ok] obtain fs i v where
    s: "rs_status resp = 200" "resp_json http resp = Inr (PDict fs)" "map_of fs ''id'' = Some i" "map_of fs ''rev'' = Some v"
      "rev_of w1 = (rev_of w)(i \<mapsto> v)" "\<not> local_id i" .
  with rest js have "(u', w') = (u\<lparr>usr_cache := dict_set (usr_cache u) i v\<rparr>, w1)"
    by (auto simp: remember_added_def dict_index_def elim!: bindIO_cases dest!: cache_rev_run)
  with s(5,6) assms(2,3) show ?thesis by (auto intro: cache_current_set)
qed

text \<open>Sequences of writes.\<close>

datatype user_write = AddDoc "string option" pyval | UpdateDoc pyval nat pyval

definition run_write :: "'w http \<Rightarrow> user_write \<Rightarrow> ('w, unit) user_io" where
  "run_write http wr = (case wr of
       AddDoc i body \<Rightarrow> bindIO (User_add_doc http i body) (\<lambda>_. returnIO ())
     | UpdateDoc i n body \<Rightarrow> bindIO (User_update_doc http i n body) (\<lambda>_. returnIO ()))"

definition updates_local :: "user_write \<Rightarrow> bool" where
  "updates_local wr = (case wr of AddDoc _ _ \<Rightarrow> False | UpdateDoc i _ _ \<Rightarrow> local_id i)"

lemma run_write_current:
  assumes "revision_server http base rev_of" "user_at base u" "cache_current rev_of (u, w)" "\<not> updates_local wr"
    and "run_write http wr (u, w) = (Inr (), (u', w'))"
  shows "user_at base u' \<and> cache_current rev_of (u', w')"
proof (cases wr)
  case (AddDoc i body)
  with assms(5) obtain x where "User_add_doc http i body (u, w) = (Inr x, (u', w'))" by (auto simp: run_write_def elim!: bindIO_cases)
  then show ?thesis
    using put_doc_current [OF assms(1-3)] post_doc_current [OF assms(1-3)] by (cases i) blast+
next
  case (UpdateDoc i n body)
  with assms(5) obtain x where "User_update_doc http i n body (u, w) = (Inr x, (u', w'))" by (auto simp: run_write_def elim!: bindIO_cases)
  from update_doc_current [OF assms(1-3) _ this] UpdateDoc assms(4) show ?thesis by (simp add: updates_local_def)
qed


text \<open>A server whose world is its table of revisions; every write makes the revision \<open>1-a\<close>.\<close>

definition table_http :: "string \<Rightarrow> (pyval \<Rightarrow> pyval option) http" where
  "table_http base = \<lparr>http_send = (\<lambda>r w.
     if rq_method r = ''PUT'' then
       (Inr (text_response 201 (json_text (PDict [(''rev'', PStr ''1-a'')]))), w(PStr (drop (Suc (length base)) (rq_url r)) \<mapsto> PStr ''1-a''))
     else if rq_method r = ''POST'' then
       (Inr (text_response 200 (json_text (PDict [(''id'', PStr ''new''), (''rev'', PStr ''1-a'')]))), w(PStr ''new'' \<mapsto> PStr ''1-a''))
     else (Inr (text_response 200 (json_text (PDict [(''updates'', PInt 0)]))), w)), http_runtime = bare_runtime\<rparr>"

lemma table_http_revisions: "revision_server (table_http base) base (\<lambda>w. w)"
  unfolding revision_server_def
  by (auto simp: table_http_def text_response_def resp_json_def json_text_loads local_id_def split: if_splits)


section \<open>A refused update\<close>

text \<open>
  An update that the server refuses (the document is read, the write is not answered with 201) raises \<open>ValueError\<close> and
  not the \<open>HTTPError\<close> of the answer; \<open>update_docs\<close>, which collects \<open>HTTPError\<close>s, raises it too.
\<close>

theorem refused_update_raises:
  assumes "http_send http ((rq ''GET'' (path [usr_target_url u, usr_db u, i]))\<lparr>rq_headers := usr_headers u, rq_timeout := Some HTTP_REQ_TIMEOUT\<rparr>) w = (Inr resp, w1)"
    and "rs_status resp = 200" "resp_json http resp = Inr (PDict fs)" "map_of fs ''updates'' = Some (PInt k)" "map_of fs ''rev'' = None"
    and "json_dumps (http_runtime http) (PDict (dict_set fs ''updates'' (PInt (k + 1)))) = Inr d"
    and "http_send http ((rq ''PUT'' (path [usr_target_url u, usr_db u, i]))\<lparr>rq_headers := usr_headers u, rq_data := Some d\<rparr>) w1 = (Inr put_resp, w2)"
    and "rs_status put_resp \<noteq> 201" "0 < n"
  shows "\<exists>e. User_update_doc http (PStr i) n PNone (u, w) = (Inl e, (u, w2)) \<and> exn_class e = ''ValueError'' \<and> collect_errors (Inl e # rs) = Inl e"
proof -
  have "[0..<n] = 0 # [1..<n]" using assms(9) by (simp add: upt_conv_Cons)
  with assms(1-8) show ?thesis
    by (auto simp: User_update_doc_def usr_update_round_def put_counted_def counted_up_def py_to_int_def usr_send_def usr_path_def usr_dumps_def
        dict_attr_def dict_get_def dict_index_def with_data_def rq_def bindIO_def io_simps collect_errors_def split: if_splits)
qed

definition refusing_http :: "unit http" where
  "refusing_http = \<lparr>http_send = (\<lambda>r. returnIO (if rq_method r = ''GET'' then text_response 200 (json_text (PDict [(''updates'', PInt 3)]))
     else text_response 409 [])), http_runtime = bare_runtime\<rparr>"

theorem refused_update_raises_witness:
  "\<exists>e. User_update_doc refusing_http (PStr ''d'') 1 PNone (User_init bare_runtime ''h'' ''db'' PNone PNone [], ()) =
      (Inl e, (User_init bare_runtime ''h'' ''db'' PNone PNone [], ())) \<and> exn_class e = ''ValueError'' \<and> collect_errors [Inl e] = Inl e"
proof -
  have j: "json_ok (PDict [(''updates'', PInt 3)])" by simp
  show ?thesis
    by (rule refused_update_raises [where fs = "[(''updates'', PInt 3)]" and k = 3 and rs = "[]"
        and resp = "text_response 200 (json_text (PDict [(''updates'', PInt 3)]))" and put_resp = "text_response 409 []"])
      (simp_all add: refusing_http_def text_response_def resp_json_def rq_def json_text_loads [OF j])
qed

section \<open>The longpoll loop\<close>

lemma longpoll_round_progress:
  assumes clock: "ticks clk time" and http: "http_onward time http"
    and run: "longpoll_round http clk td timeout True loop_timeout start st (u, w) = (Inr (True, st'), (u', w'))"
  shows "time w \<le> start + loop_timeout" "time w + 1/10 \<le> time w'"
proof -
  have send: "onward (\<lambda>sw. time (snd sw)) (usr_send http r)" for r
    unfolding usr_send_def by (auto intro!: time_intros http)
  from run obtain now w1 d resp u2 w2 z where now: "clk_time clk w = (Inr now, w1)" "now - start < loop_timeout"
    and sent: "usr_send http (with_data d (rq ''POST'' (path [usr_target_url u, usr_db u, ''_changes'']))) (u, w1) = (Inr resp, (u2, w2))"
    and slept: "clk_sleep clk (1/10) w2 = (Inr z, w')"
    by (auto simp: longpoll_round_def usr_dumps_def usr_path_run on_world_def split: if_splits prod.splits elim!: bindIO_cases)
  have "now = time w1" "time w \<le> time w1" using ticksD(1) [OF clock now(1)] by auto
  moreover have "time w1 \<le> time w2" using onwardD [OF send sent] by simp
  moreover have "time w2 + 1/10 \<le> time w'" using ticksD(2) [OF clock slept] by simp
  ultimately show "time w \<le> start + loop_timeout" "time w + 1/10 \<le> time w'" using now(2) by linarith+
qed

interpretation longpoll_loop: ranked_loop ps_polling "longpoll_round http clk td timeout True loop_timeout start"
    "\<lambda>st uw. ticks clk time \<and> http_onward time http" "\<lambda>st uw. wait_rank (1/10) time (start + loop_timeout) (snd uw)"
  for http clk td timeout loop_timeout start time
proof unfold_locales
  fix st uw st' uw'
  assume "ticks clk time \<and> http_onward time http"
    and "longpoll_round http clk td timeout True loop_timeout start st uw = (Inr (True, st'), uw')"
  with longpoll_round_progress [of clk time http td timeout loop_timeout start st "fst uw" "snd uw" st' "fst uw'" "snd uw'"]
  show "(ticks clk time \<and> http_onward time http) \<and>
      wait_rank (1/10) time (start + loop_timeout) (snd uw') < wait_rank (1/10) time (start + loop_timeout) (snd uw)"
    using wait_rank_decreases [of "1/10" time "snd uw" "start + loop_timeout" "snd uw'"] by simp
qed

text \<open>
  Following a longpoll feed in a loop ends after the loop timeout, whatever the server answers, within ten rounds per
  second of the timeout and two more.
\<close>

theorem longpoll_tracking_returns:
  assumes "ticks clk time" "http_onward time http" "0 \<le> loop_timeout" "nat \<lfloor>10 * loop_timeout\<rfloor> + 2 \<le> fuel"
  shows "\<exists>r uw'. User_start_longpoll_changes_tracking http clk td timeout True loop_timeout fuel (u, w) = Some (r, uw')"
proof -
  obtain r w1 where t: "clk_time clk w = (r, w1)" by fastforce
  with ticksD(1) [OF assms(1) t] have r: "r = Inr (time w1)" by simp
  have "loop_timeout / (1/10) = 10 * loop_timeout" by simp
  then have "wait_rank (1/10) time (time w1 + loop_timeout) (snd (u, w1)) < fuel" using assms(3,4) by (simp add: wait_rank_def mult.commute)
  with longpoll_loop.returns [of clk time http] assms(1,2) obtain q where
    "while_io ps_polling (longpoll_round http clk td timeout True loop_timeout (time w1)) fuel \<lparr>ps_since = PStr ''0'', ps_docs = [], ps_polling = True\<rparr> (u, w1) = Some q"
    by blast
  then show ?thesis
    by (cases q) (auto simp: User_start_longpoll_changes_tracking_def bindD_def liftD_def on_world_def t r split: sum.splits)
qed

theorem longpoll_tracking_returns_witness:
  "\<exists>r uw'. User_start_longpoll_changes_tracking (quiet_http (json_text (PDict [(''results'', PList []), (''last_seq'', PInt 7)]))) step_clock
     None 10000 True 600 6002 (User_init bare_runtime ''h'' ''db'' PNone PNone [], 0) = Some (r, uw')"
  by (rule longpoll_tracking_returns [where time = "\<lambda>w. w"]) (simp_all add: step_clock_ticks quiet_http_onward)

end
