(* ===== verification/Sg_Admin.thy ===== *)
theory Sg_Admin
  imports Sg_User Cluster_Config
begin

text \<open>
  \<open>libraries/testkit/admin.py\<close>: the administration of Sync Gateway. The object keeps the address of the
  administration port and the credentials; most methods look up first whether administrators have to authenticate and
  set the credentials if so. The configuration files are \<open>ae_config\<close>, \<open>time.perf_counter()\<close> is \<open>ae_perf\<close> and
  \<open>subprocess.check_output\<close> is \<open>ae_shell\<close>.
\<close>

section \<open>The object\<close>

record admin =
  adm_url :: string
  adm_cluster_config :: string
  adm_auth :: auth

record 'w admin_env =
  ae_http :: "'w http"
  ae_clock :: "'w clock"
  ae_perf :: "('w, rat) io"
  ae_config :: environment
  ae_shell :: "string \<Rightarrow> ('w, string) io"

type_synonym ('w, 'a) admin_io = "(admin \<times> 'w, 'a) io"

definition Admin_init :: "environment \<Rightarrow> string \<Rightarrow> admin res" where
  "Admin_init env sync_gateway_ip =
     bindR (get_environ env ''CLUSTER_CONFIG'') (\<lambda>cluster_config.
     bindR (sg_ssl_enabled env cluster_config) (\<lambda>ssl.
     Inr \<lparr>adm_url = (if py_truth ssl then ''https'' else ''http'') @ ''://'' @ sync_gateway_ip @ '':4985'',
          adm_cluster_config = cluster_config, adm_auth = NoAuth\<rparr>))"

definition RBAC_FULL_ADMIN_auth :: auth where
  "RBAC_FULL_ADMIN_auth = HTTPBasicAuth RBAC_FULL_ADMIN_user ''password''"

definition adm_refresh :: "'w admin_env \<Rightarrow> ('w, unit) admin_io" where
  "adm_refresh ae = bindIO (self_get adm_cluster_config) (\<lambda>cc.
     bindIO (liftIO (is_admin_auth_disabled (ae_config ae) cc)) (\<lambda>disabled.
     if \<not> py_truth disabled then self_set (\<lambda>a. a\<lparr>adm_auth := RBAC_FULL_ADMIN_auth\<rparr>) else returnIO ()))"

definition adm_send :: "'w admin_env \<Rightarrow> http_request \<Rightarrow> ('w, http_response) admin_io" where
  "adm_send ae r = bindIO (self_get adm_auth) (\<lambda>a. on_world (http_send (ae_http ae) (r\<lparr>rq_auth := a\<rparr>)))"

text \<open>Requests with the headers of the object and the timeout, and requests with neither.\<close>

definition adm_timed :: "string \<Rightarrow> string list \<Rightarrow> ('w, http_request) admin_io" where
  "adm_timed meth ps = self_get (\<lambda>a. (rq meth (path (adm_url a # ps)))\<lparr>rq_timeout := Some HTTP_REQ_TIMEOUT\<rparr>)"

definition adm_plain :: "string \<Rightarrow> string list \<Rightarrow> ('w, http_request) admin_io" where
  "adm_plain meth ps = self_get (\<lambda>a. (rq meth (path (adm_url a # ps)))\<lparr>rq_headers := []\<rparr>)"

definition adm_checked :: "'w admin_env \<Rightarrow> ('w, http_request) admin_io \<Rightarrow> ('w, http_response) admin_io" where
  "adm_checked ae m = bindIO (adm_refresh ae) (\<lambda>_. bindIO m (\<lambda>r. checked (adm_send ae r)))"

definition adm_json :: "'w admin_env \<Rightarrow> ('w, http_request) admin_io \<Rightarrow> ('w, pyval) admin_io" where
  "adm_json ae m = bindIO (adm_checked ae m) (\<lambda>resp. liftIO (resp_json (ae_http ae) resp))"

definition adm_status :: "'w admin_env \<Rightarrow> ('w, http_request) admin_io \<Rightarrow> ('w, int) admin_io" where
  "adm_status ae m = bindIO (adm_checked ae m) (\<lambda>resp. returnIO (rs_status resp))"

definition with_json :: "'w admin_env \<Rightarrow> pyval \<Rightarrow> ('w, http_request) admin_io \<Rightarrow> ('w, http_request) admin_io" where
  "with_json ae v m = bindIO m (\<lambda>r. bindIO (liftIO (json_dumps (http_runtime (ae_http ae)) v)) (\<lambda>d. returnIO (with_data d r)))"

section \<open>Databases\<close>

definition Admin_create_db_with_rest :: "'w admin_env \<Rightarrow> string \<Rightarrow> pyval \<Rightarrow> ('w, string) admin_io" where
  "Admin_create_db_with_rest ae db db_config =
     bindIO (liftIO (json_dumps (http_runtime (ae_http ae)) db_config)) (\<lambda>d.
     bindIO (self_get adm_url) (\<lambda>url.
     on_world (ae_shell ae (''curl -X PUT '' @ url @ ''/'' @ db @ ''/ -H '' @ dq ''Content-Type: application/json'' @ '' -d '' @
       dq (replace_str [chr_dquote] [chr_bslash, chr_dquote] d)))))"

definition Admin_create_db :: "'w admin_env \<Rightarrow> string \<Rightarrow> pyval \<Rightarrow> ('w, int) admin_io" where
  "Admin_create_db ae name db_config = adm_status ae (with_json ae db_config (adm_timed ''PUT'' [name, []]))"

definition Admin_delete_db :: "'w admin_env \<Rightarrow> string \<Rightarrow> ('w, pyval) admin_io" where
  "Admin_delete_db ae name = adm_json ae (adm_plain ''DELETE'' [name, []])"

definition Admin_get_dbs :: "'w admin_env \<Rightarrow> ('w, pyval) admin_io" where
  "Admin_get_dbs ae = adm_json ae (adm_plain ''GET'' [''_all_dbs''])"

definition Admin_get_dbs_from_config :: "'w admin_env \<Rightarrow> ('w, string list) admin_io" where
  "Admin_get_dbs_from_config ae =
     bindIO (adm_json ae (adm_plain ''GET'' [''_config''])) (\<lambda>json_config. liftIO
      (bindR (py_item json_config ''Databases'') (\<lambda>d. bindR (dict_attr d ''keys'') (\<lambda>d. Inr (dict_keys d)))))"

definition Admin_get_db_info :: "'w admin_env \<Rightarrow> string \<Rightarrow> ('w, pyval) admin_io" where
  "Admin_get_db_info ae db = adm_json ae (adm_timed ''GET'' [db, []])"

section \<open>Roles and users\<close>

definition Admin_create_role :: "'w admin_env \<Rightarrow> string \<Rightarrow> string \<Rightarrow> pyval \<Rightarrow> ('w, unit) admin_io" where
  "Admin_create_role ae db name channels =
     bindIO (adm_checked ae (with_json ae (PDict [(''name'', PStr name), (''admin_channels'', channels)]) (adm_timed ''PUT'' [db, ''_role'', name]))) (\<lambda>_. returnIO ())"

definition Admin_get_roles :: "'w admin_env \<Rightarrow> string \<Rightarrow> ('w, pyval) admin_io" where
  "Admin_get_roles ae db = adm_json ae (adm_timed ''GET'' [db, ''_role'', []])"

definition Admin_get_role :: "'w admin_env \<Rightarrow> string \<Rightarrow> string \<Rightarrow> ('w, pyval) admin_io" where
  "Admin_get_role ae db name = adm_json ae (adm_timed ''GET'' [db, ''_role'', name])"

definition user_payload :: "string \<Rightarrow> pyval \<Rightarrow> pyval \<Rightarrow> pyval \<Rightarrow> pyval" where
  "user_payload name password channels roles =
     (if password = PNone then PDict [(''name'', PStr name), (''admin_channels'', channels), (''admin_roles'', roles), (''disabled'', PBool False)]
      else PDict [(''name'', PStr name), (''password'', password), (''admin_channels'', channels), (''admin_roles'', roles)])"

definition Admin_register_user :: "'w admin_env \<Rightarrow> string \<Rightarrow> string \<Rightarrow> string \<Rightarrow> pyval \<Rightarrow> pyval \<Rightarrow> pyval \<Rightarrow> ('w, user) admin_io" where
  "Admin_register_user ae target_url db name password channels roles =
     bindIO (adm_checked ae (with_json ae (user_payload name password channels roles) (adm_timed ''PUT'' [db, ''_user'', name]))) (\<lambda>_.
     bindIO (liftIO (py_iter channels)) (\<lambda>cs. returnIO (User_init (http_runtime (ae_http ae)) target_url db (PStr name) password cs)))"

text \<open>Any exception of a task becomes a \<open>ValueError\<close>.\<close>

definition Admin_register_bulk_users :: "'w admin_env \<Rightarrow> (string list \<Rightarrow> string list) \<Rightarrow> string \<Rightarrow> string \<Rightarrow> string \<Rightarrow> nat \<Rightarrow> pyval \<Rightarrow> pyval \<Rightarrow> pyval \<Rightarrow>
    ('w, user list) admin_io" where
  "Admin_register_bulk_users ae order target_url db name_prefix number password channels roles =
     (case channels of
        PList _ \<Rightarrow>
          bindIO (pool_run order (\<lambda>name. Admin_register_user ae target_url db name password channels roles)
            (map (\<lambda>i. name_prefix @ ''_'' @ nat_str i) [0..<number])) (\<lambda>results. liftIO
          (bindR (mapR (\<lambda>r. case r of Inr u \<Rightarrow> Inr u | Inl e \<Rightarrow> raise_exc ''ValueError'' (''register_bulk_users failed: '' @ exn_msg e)) results) (\<lambda>users.
           if length users \<noteq> number then raise_exc ''ValueError'' ''Not all users added during register_bulk users'' else Inr users)))
      | _ \<Rightarrow> raiseIO (Exn ''ValueError'' ''Channels needs to be a list''))"

definition Admin_get_users_info :: "'w admin_env \<Rightarrow> string \<Rightarrow> ('w, pyval) admin_io" where
  "Admin_get_users_info ae db = adm_json ae (adm_timed ''GET'' [db, ''_user'', []])"

definition Admin_get_user_info :: "'w admin_env \<Rightarrow> string \<Rightarrow> string \<Rightarrow> ('w, pyval) admin_io" where
  "Admin_get_user_info ae db name = adm_json ae (adm_timed ''GET'' [db, ''_user'', name])"

text \<open>A lookup that answers \<open>False\<close> for one status and raises an \<open>Exception\<close> for every other error.\<close>

definition exists_by :: "string \<Rightarrow> int \<Rightarrow> ('w, pyval) admin_io \<Rightarrow> ('w, bool) admin_io" where
  "exists_by what expected_code m =
     tryIO (bindIO m (\<lambda>_. returnIO True)) (\<lambda>e.
       if exn_class e = ''HTTPError'' then
         if error_status e = Some expected_code then returnIO False
         else raiseIO (Exn ''Exception'' (''Could not determine if the '' @ what @ '' exists due to the following error: '' @ exn_msg e))
       else raiseIO e)"

definition Admin_does_user_exist :: "'w admin_env \<Rightarrow> string \<Rightarrow> string \<Rightarrow> ('w, bool) admin_io" where
  "Admin_does_user_exist ae db user = exists_by ''user'' 404 (Admin_get_user_info ae db user)"

definition Admin_does_db_exist :: "'w admin_env \<Rightarrow> string \<Rightarrow> ('w, bool) admin_io" where
  "Admin_does_db_exist ae db =
     bindIO (self_get adm_cluster_config) (\<lambda>cc.
     bindIO (liftIO (is_admin_auth_disabled (ae_config ae) cc)) (\<lambda>disabled.
     exists_by ''database'' (if \<not> py_truth disabled then 403 else 404) (Admin_get_db_info ae db)))"

text \<open>The request that deletes the user carries no credentials.\<close>

definition Admin_delete_user_if_exists :: "'w admin_env \<Rightarrow> string \<Rightarrow> string \<Rightarrow> bool \<Rightarrow> ('w, bool) admin_io" where
  "Admin_delete_user_if_exists ae db sg_username check_existence =
     bindIO (if check_existence then Admin_does_user_exist ae db sg_username else returnIO True) (\<lambda>does_user_exist.
     if does_user_exist then
       bindIO (adm_plain ''DELETE'' [db, ''_user'', sg_username]) (\<lambda>r.
       bindIO (checked (on_world (http_send (ae_http ae) r))) (\<lambda>_. returnIO True))
     else returnIO False)"

section \<open>Resync, online, offline\<close>

definition status_and_payload :: "'w admin_env \<Rightarrow> ('w, http_request) admin_io \<Rightarrow> ('w, pyval) admin_io" where
  "status_and_payload ae m =
     bindIO (adm_checked ae m) (\<lambda>resp. liftIO (bindR (resp_json (ae_http ae) resp) (\<lambda>v.
       Inr (PDict [(''status_code'', PInt (rs_status resp)), (''payload'', v)]))))"

definition Admin_db_resync :: "'w admin_env \<Rightarrow> string \<Rightarrow> ('w, pyval) admin_io" where
  "Admin_db_resync ae db = status_and_payload ae (adm_timed ''POST'' [db, ''_resync''])"

definition Admin_db_get_resync_status :: "'w admin_env \<Rightarrow> string \<Rightarrow> ('w, pyval) admin_io" where
  "Admin_db_get_resync_status ae db = status_and_payload ae (adm_timed ''GET'' [db, ''_resync''])"

definition Admin_bring_db_online :: "'w admin_env \<Rightarrow> string \<Rightarrow> pyval \<Rightarrow> ('w, int) admin_io" where
  "Admin_bring_db_online ae db delay =
     adm_status ae (with_json ae (PDict (if delay \<noteq> PNone then [(''delay'', delay)] else [])) (adm_timed ''POST'' [db, ''_online'']))"

definition Admin_take_db_offline :: "'w admin_env \<Rightarrow> string \<Rightarrow> ('w, int) admin_io" where
  "Admin_take_db_offline ae db = adm_status ae (adm_timed ''POST'' [db, ''_offline''])"

section \<open>Configuration\<close>

definition Admin_get_db_config :: "'w admin_env \<Rightarrow> string \<Rightarrow> ('w, pyval) admin_io" where
  "Admin_get_db_config ae db = adm_json ae (adm_timed ''GET'' [db, ''_config''])"

definition Admin_put_db_config :: "'w admin_env \<Rightarrow> string \<Rightarrow> pyval \<Rightarrow> ('w, int) admin_io" where
  "Admin_put_db_config ae db config = adm_status ae (with_json ae config (adm_timed ''PUT'' [db, ''_config'']))"

text \<open>This one does not look up whether to authenticate.\<close>

definition Admin_post_db_config :: "'w admin_env \<Rightarrow> string \<Rightarrow> pyval \<Rightarrow> ('w, int) admin_io" where
  "Admin_post_db_config ae db config =
     bindIO (with_json ae config (adm_timed ''POST'' [db, ''_config''])) (\<lambda>r.
     bindIO (checked (adm_send ae r)) (\<lambda>resp. returnIO (rs_status resp)))"

definition Admin_get_config :: "'w admin_env \<Rightarrow> ('w, pyval) admin_io" where
  "Admin_get_config ae = adm_json ae (adm_timed ''GET'' [''_config''])"

definition Admin_put_config :: "'w admin_env \<Rightarrow> pyval \<Rightarrow> ('w, int) admin_io" where
  "Admin_put_config ae config = adm_status ae (with_json ae config (adm_timed ''PUT'' [''_config'']))"

definition Admin_get_runtime_config :: "'w admin_env \<Rightarrow> ('w, pyval) admin_io" where
  "Admin_get_runtime_config ae = adm_json ae (adm_timed ''GET'' [''_config?include_runtime=true''])"

record cbgt_config =
  cbgt_rest :: pyval
  cbgt_p_indexes :: pyval
  cbgt_num_shards :: nat

definition CbgtConfig_init :: "pyval \<Rightarrow> cbgt_config res" where
  "CbgtConfig_init rest_config =
     bindR (py_item2 rest_config ''planPIndexes'' ''planPIndexes'') (\<lambda>ps.
     bindR (py_len ps) (\<lambda>n. Inr \<lparr>cbgt_rest = rest_config, cbgt_p_indexes = ps, cbgt_num_shards = n\<rparr>))"

definition Admin_get_cbgt_config :: "'w admin_env \<Rightarrow> ('w, cbgt_config) admin_io" where
  "Admin_get_cbgt_config ae = bindIO (adm_json ae (adm_timed ''GET'' [''_cbgt/api/cfg''])) (\<lambda>v. liftIO (CbgtConfig_init v))"

definition Admin_get_cbgt_diagnostics :: "'w admin_env \<Rightarrow> ('w, pyval) admin_io" where
  "Admin_get_cbgt_diagnostics ae = adm_json ae (adm_timed ''GET'' [''_cbgt/api/diag''])"

definition as_javascript :: "('w, http_request) admin_io \<Rightarrow> ('w, http_request) admin_io" where
  "as_javascript m = bindIO m (\<lambda>r. returnIO (r\<lparr>rq_headers := [(''Content-Type'', ''application/javascript'')]\<rparr>))"

definition with_text :: "string \<Rightarrow> ('w, http_request) admin_io \<Rightarrow> ('w, http_request) admin_io" where
  "with_text t m = bindIO m (\<lambda>r. returnIO (with_data t r))"

definition Admin_create_sync_func :: "'w admin_env \<Rightarrow> string \<Rightarrow> string \<Rightarrow> ('w, int) admin_io" where
  "Admin_create_sync_func ae db sync_func = adm_status ae (as_javascript (with_text sync_func (adm_timed ''PUT'' [db, ''_config/sync''])))"

definition Admin_delete_sync_func :: "'w admin_env \<Rightarrow> string \<Rightarrow> ('w, int) admin_io" where
  "Admin_delete_sync_func ae db = adm_status ae (as_javascript (adm_timed ''DELETE'' [db, ''_config/sync'']))"

definition Admin_create_imp_fltr_func :: "'w admin_env \<Rightarrow> string \<Rightarrow> string \<Rightarrow> string option \<Rightarrow> string option \<Rightarrow> ('w, int) admin_io" where
  "Admin_create_imp_fltr_func ae db imp_fltr_func scope collection =
     bindIO (liftIO (keyspace_of db scope collection)) (\<lambda>keyspace.
     adm_status ae (as_javascript (with_text imp_fltr_func (adm_timed ''PUT'' [keyspace, ''_config/import_filter'']))))"

definition Admin_get_db_import_filter :: "'w admin_env \<Rightarrow> string \<Rightarrow> ('w, pyval) admin_io" where
  "Admin_get_db_import_filter ae db = adm_json ae (adm_timed ''GET'' [db, ''_config/import_filter''])"

definition Admin_get_audit_logging_conf :: "'w admin_env \<Rightarrow> string \<Rightarrow> ('w, pyval) admin_io" where
  "Admin_get_audit_logging_conf ae db = adm_json ae (adm_timed ''GET'' [db, ''_config/audit''])"

definition Admin_replace_audit_config :: "'w admin_env \<Rightarrow> string \<Rightarrow> pyval \<Rightarrow> ('w, int) admin_io" where
  "Admin_replace_audit_config ae db config = adm_status ae (with_json ae config (adm_timed ''PUT'' [db, ''_config/audit'']))"

definition Admin_update_audit_config :: "'w admin_env \<Rightarrow> string \<Rightarrow> pyval \<Rightarrow> ('w, int) admin_io" where
  "Admin_update_audit_config ae db config = adm_status ae (with_json ae config (adm_timed ''POST'' [db, ''_config/audit'']))"

section \<open>Documents and tasks\<close>

definition Admin_get_global_changes :: "'w admin_env \<Rightarrow> string \<Rightarrow> ('w, pyval) admin_io" where
  "Admin_get_global_changes ae db = bindIO (adm_json ae (adm_plain ''GET'' [db, ''_changes''])) (\<lambda>v. liftIO (py_item v ''results''))"

definition Admin_get_active_tasks :: "'w admin_env \<Rightarrow> ('w, pyval) admin_io" where
  "Admin_get_active_tasks ae = adm_json ae (adm_plain ''GET'' [''_active_tasks''])"

definition Admin_get_all_docs :: "'w admin_env \<Rightarrow> string \<Rightarrow> ('w, pyval) admin_io" where
  "Admin_get_all_docs ae db = adm_json ae (adm_timed ''GET'' [db, ''_all_docs''])"

fun first_db :: "'w admin_env \<Rightarrow> string \<Rightarrow> pyval list \<Rightarrow> ('w, pyval) admin_io" where
  "first_db ae bucket [] = returnIO PNone"
| "first_db ae bucket (db # dbs) =
     bindIO (Admin_get_db_config ae (py_str (http_runtime (ae_http ae)) db)) (\<lambda>dbconfig.
     bindIO (liftIO (py_item dbconfig ''bucket'')) (\<lambda>b.
     if py_eq b (PStr bucket) then returnIO db else first_db ae bucket dbs))"

definition Admin_get_bucket_db :: "'w admin_env \<Rightarrow> string \<Rightarrow> ('w, pyval) admin_io" where
  "Admin_get_bucket_db ae bucket =
     bindIO (Admin_get_dbs ae) (\<lambda>dbs.
     if \<not> py_truth dbs then returnIO PNone else bindIO (liftIO (py_iter dbs)) (first_db ae bucket))"

section \<open>Replications\<close>

definition adm_plain_json :: "'w admin_env \<Rightarrow> string list \<Rightarrow> ('w, pyval) admin_io" where
  "adm_plain_json ae ps =
     bindIO (adm_plain ''GET'' ps) (\<lambda>r. bindIO (checked (adm_send ae r)) (\<lambda>resp. liftIO (resp_json (ae_http ae) resp)))"

abbreviation adm_sleep :: "'w admin_env \<Rightarrow> rat \<Rightarrow> ('w, unit) admin_io" where
  "adm_sleep ae d \<equiv> on_world (clk_sleep (ae_clock ae) d)"

definition repl_active :: "pyval \<Rightarrow> bool res" where
  "repl_active repl = bindR (py_item repl ''status'') (\<lambda>s.
     bindR (py_in_str ''starting'' s) (\<lambda>a. if a then Inr True else
     bindR (py_in_str ''started'' s) (\<lambda>b. if b then Inr True else py_in_str ''running'' s)))"

definition filterR :: "('a \<Rightarrow> bool res) \<Rightarrow> 'a list \<Rightarrow> 'a list res" where
  "filterR p xs = bindR (mapR (\<lambda>x. bindR (p x) (\<lambda>b. Inr (x, b))) xs) (\<lambda>ys. Inr (map fst (List.filter snd ys)))"

text \<open>The number of further rounds is the argument.\<close>

fun active_tries :: "'w admin_env \<Rightarrow> string \<Rightarrow> nat \<Rightarrow> nat \<Rightarrow> ('w, pyval list) admin_io" where
  "active_tries ae db expected_tasks n =
     bindIO (bindIO (adm_plain_json ae [db, ''_replicationStatus'']) (\<lambda>v. liftIO (bindR (py_iter v) (filterR repl_active)))) (\<lambda>active.
     if length active = expected_tasks \<or> n = 0 then returnIO active
     else bindIO (adm_sleep ae 1) (\<lambda>_. (case n of 0 \<Rightarrow> returnIO active | Suc m \<Rightarrow> active_tries ae db expected_tasks m)))"

definition Admin_get_sgreplicate2_active_tasks :: "'w admin_env \<Rightarrow> string \<Rightarrow> nat \<Rightarrow> ('w, pyval list) admin_io" where
  "Admin_get_sgreplicate2_active_tasks ae db expected_tasks = bindIO (adm_refresh ae) (\<lambda>_. active_tries ae db expected_tasks 5)"

text \<open>A timeout is logged only.\<close>

definition status_round :: "'w admin_env \<Rightarrow> string \<Rightarrow> string \<Rightarrow> rat \<Rightarrow> rat \<Rightarrow> unit \<Rightarrow> ('w, bool \<times> unit) admin_io" where
  "status_round ae db repl_id timeout start u =
     bindIO (on_world (ae_perf ae)) (\<lambda>now.
     if \<not> now - start < timeout then returnIO (False, ())
     else bindIO (adm_plain_json ae [db, ''_replicationStatus'', repl_id]) (\<lambda>resp_obj.
       bindIO (liftIO (py_item resp_obj ''status'')) (\<lambda>status.
       if py_eq status (PStr ''error'') then
         raiseIO (Exn ''ReplicationException'' ''There was a problem during the replication, please look at the logs for more details'')
       else if \<not> py_eq status (PStr ''stopped'') then bindIO (adm_sleep ae 1) (\<lambda>_. returnIO (True, ()))
       else returnIO (False, ()))))"

definition Admin_replication_status_poll :: "'w admin_env \<Rightarrow> string \<Rightarrow> string \<Rightarrow> rat \<Rightarrow> nat \<Rightarrow> (admin \<times> 'w, unit) dio" where
  "Admin_replication_status_poll ae db repl_id timeout fuel =
     bindD (liftD (bindIO (adm_refresh ae) (\<lambda>_. on_world (ae_perf ae)))) (\<lambda>start.
     bindD (while_io (\<lambda>_. True) (status_round ae db repl_id timeout start) fuel ()) (\<lambda>_.
     liftD (bindIO (on_world (ae_perf ae)) (\<lambda>elapsed. returnIO ()))))"

text \<open>One direction of a replication: the highest number of documents so far, the rounds without progress and whether it has given up.\<close>

record direction =
  dir_prev :: pyval
  dir_retry :: nat
  dir_timeout :: bool

definition count_docs :: "string \<Rightarrow> pyval \<Rightarrow> direction \<Rightarrow> direction res" where
  "count_docs field resp_obj d =
     (if dir_retry d < 120 then
        (case bindR (py_item resp_obj field) (\<lambda>c. bindR (py_less (dir_prev d) c) (\<lambda>more. Inr (c, more))) of
           Inr (c, True) \<Rightarrow> Inr (d\<lparr>dir_prev := c, dir_retry := 0\<rparr>)
         | Inr (c, False) \<Rightarrow> Inr (d\<lparr>dir_retry := dir_retry d + 1\<rparr>)
         | Inl e \<Rightarrow> if exn_class e = ''KeyError'' then Inr (d\<lparr>dir_retry := dir_retry d + 1\<rparr>) else Inl e)
      else Inr (d\<lparr>dir_timeout := True\<rparr>))"

record done_state =
  dn_count :: nat
  dn_read :: direction
  dn_write :: direction

definition replication_round :: "'w admin_env \<Rightarrow> string \<Rightarrow> string \<Rightarrow> bool \<Rightarrow> bool \<Rightarrow> done_state \<Rightarrow> ('w, bool \<times> done_state) admin_io" where
  "replication_round ae db repl_id read_flag write_flag st =
     bindIO (adm_plain_json ae [db, ''_replicationStatus'', repl_id]) (\<lambda>resp_obj.
     bindIO (liftIO (bindR (py_item resp_obj ''status'') (\<lambda>status.
       if py_eq status (PStr ''starting'') \<or> py_eq status (PStr ''started'') then Inr (Some (st\<lparr>dn_count := dn_count st + 1\<rparr>))
       else if py_eq status (PStr ''running'') then
         bindR (if read_flag then count_docs ''docs_read'' resp_obj (dn_read st) else Inr (dn_read st)) (\<lambda>r.
         bindR (if write_flag then count_docs ''docs_written'' resp_obj (dn_write st) else Inr (dn_write st)) (\<lambda>wr.
         Inr (Some (st\<lparr>dn_read := r, dn_write := wr\<rparr>))))
       else Inr None))) (\<lambda>next.
     (case next of
        None \<Rightarrow> returnIO (False, st)
      | Some st \<Rightarrow> let st = st\<lparr>dn_count := dn_count st + 1\<rparr> in
          bindIO (adm_sleep ae 1) (\<lambda>_. returnIO (\<not> (dir_timeout (dn_read st) \<and> dir_timeout (dn_write st)), st)))))"

definition fresh_direction :: "bool \<Rightarrow> direction" where
  "fresh_direction flag = \<lparr>dir_prev = PInt 0, dir_retry = 0, dir_timeout = \<not> flag\<rparr>"

definition Admin_wait_until_sgw_replication_done :: "'w admin_env \<Rightarrow> string \<Rightarrow> string \<Rightarrow> bool \<Rightarrow> bool \<Rightarrow> nat \<Rightarrow> nat \<Rightarrow> (admin \<times> 'w, unit) dio" where
  "Admin_wait_until_sgw_replication_done ae db repl_id read_flag write_flag max_times fuel =
     bindD (liftD (adm_refresh ae)) (\<lambda>_.
     bindD (while_io (\<lambda>st. dn_count st < max_times) (replication_round ae db repl_id read_flag write_flag) fuel
       \<lparr>dn_count = 0, dn_read = fresh_direction read_flag, dn_write = fresh_direction write_flag\<rparr>) (\<lambda>st.
     liftD (if dn_count st = max_times then
         raiseIO (Exn ''Exception'' ''timeout while waiting for replication to complete on sgw replication'')
       else returnIO ())))"

definition local_repl :: "pyval \<Rightarrow> pyval \<Rightarrow> bool res" where
  "local_repl resp_data repl = bindR (bindR (as_dict resp_data) (\<lambda>d. map_item d repl)) (\<lambda>body.
     bindR (py_item body ''assigned_node'') (py_in_str ''(local)''))"

fun count_tries :: "'w admin_env \<Rightarrow> string \<Rightarrow> nat \<Rightarrow> nat \<Rightarrow> ('w, nat) admin_io" where
  "count_tries ae db expected_count n =
     bindIO (bindIO (adm_plain_json ae [db, ''_replication'']) (\<lambda>v. liftIO (bindR (py_iter v) (filterR (local_repl v))))) (\<lambda>locals.
     if length locals = expected_count \<or> n = 0 then returnIO (length locals)
     else bindIO (adm_sleep ae 1) (\<lambda>_. (case n of 0 \<Rightarrow> returnIO (length locals) | Suc m \<Rightarrow> count_tries ae db expected_count m)))"

definition Admin_get_replications_count :: "'w admin_env \<Rightarrow> string \<Rightarrow> nat \<Rightarrow> ('w, nat) admin_io" where
  "Admin_get_replications_count ae db expected_count = bindIO (adm_refresh ae) (\<lambda>_. count_tries ae db expected_count 15)"

section \<open>Waiting for a database\<close>

text \<open>There is no pause between two requests.\<close>

definition online_round :: "'w admin_env \<Rightarrow> string \<Rightarrow> rat \<Rightarrow> rat \<Rightarrow> bool \<Rightarrow> ('w, bool \<times> bool) admin_io" where
  "online_round ae db timeout start is_online =
     bindIO (on_world (clk_time (ae_clock ae))) (\<lambda>now.
     if \<not> now < start + timeout then returnIO (False, False)
     else bindIO (Admin_get_db_info ae db) (\<lambda>db_info.
       bindIO (liftIO (py_item db_info ''state'')) (\<lambda>state.
       if py_eq state (PStr ''Online'') then returnIO (False, True) else returnIO (True, False))))"

definition Admin_wait_for_db_online :: "'w admin_env \<Rightarrow> string \<Rightarrow> int \<Rightarrow> nat \<Rightarrow> (admin \<times> 'w, unit) dio" where
  "Admin_wait_for_db_online ae db timeout fuel =
     bindD (liftD (on_world (clk_time (ae_clock ae)))) (\<lambda>start.
     bindD (while_io (\<lambda>_. True) (online_round ae db (of_int timeout) start) fuel False) (\<lambda>is_online.
     liftD (if is_online then returnIO ()
       else raiseIO (Exn ''ValueError'' (''The database '' @ db @ '' was not online within '' @ int_str timeout)))))"

text \<open>A timeout is not reported.\<close>

definition resync_round :: "'w admin_env \<Rightarrow> string \<Rightarrow> rat \<Rightarrow> rat \<Rightarrow> unit \<Rightarrow> ('w, bool \<times> unit) admin_io" where
  "resync_round ae db timeout start u =
     bindIO (on_world (clk_time (ae_clock ae))) (\<lambda>now.
     if \<not> now < start + timeout then returnIO (False, ())
     else bindIO (Admin_db_get_resync_status ae db) (\<lambda>resync_status.
       bindIO (liftIO (py_item2 resync_status ''payload'' ''status'')) (\<lambda>status.
       if py_eq status (PStr ''completed'') then returnIO (False, ())
       else bindIO (adm_sleep ae 1) (\<lambda>_. returnIO (True, ())))))"

definition Admin_wait_for_resync_to_complete :: "'w admin_env \<Rightarrow> string \<Rightarrow> rat \<Rightarrow> nat \<Rightarrow> (admin \<times> 'w, unit) dio" where
  "Admin_wait_for_resync_to_complete ae db timeout fuel =
     bindD (liftD (on_world (clk_time (ae_clock ae)))) (\<lambda>start.
     while_io (\<lambda>_. True) (resync_round ae db timeout start) fuel ())"

section \<open>How long a replication is waited for\<close>

lemma replication_round_counts:
  assumes "replication_round ae db repl_id rf wr st sw = (Inr (True, st'), sw')"
  shows "dn_count st < dn_count st'"
  using assms by (auto simp: replication_round_def Let_def bindR_eq_Inr elim!: bindIO_cases split: option.splits if_splits)

interpretation replication_loop: ranked_loop "\<lambda>st. dn_count st < max_times" "replication_round ae db repl_id rf wr"
    "\<lambda>st sw. True" "\<lambda>st sw. max_times - dn_count st"
  for max_times ae db repl_id rf wr
  by unfold_locales (auto dest!: replication_round_counts)

text \<open>
  Waiting for a replication returns after at most \<open>max_times\<close> rounds, whatever the server answers and whatever the clock does.
\<close>

theorem replication_wait_returns:
  assumes "max_times < fuel"
  shows "\<exists>r sw'. Admin_wait_until_sgw_replication_done ae db repl_id read_flag write_flag max_times fuel sw = Some (r, sw')"
proof -
  let ?st = "\<lparr>dn_count = 0, dn_read = fresh_direction read_flag, dn_write = fresh_direction write_flag\<rparr>"
  have "\<exists>r. while_io (\<lambda>st. dn_count st < max_times) (replication_round ae db repl_id read_flag write_flag) fuel ?st sw' = Some r" for sw'
    by (rule replication_loop.returns) (use assms in simp_all)
  then show ?thesis
    by (auto simp: Admin_wait_until_sgw_replication_done_def bindD_def liftD_def split: prod.splits sum.splits option.splits) (metis option.distinct(1))
qed

definition quiet_admin :: "pyval \<Rightarrow> rat admin_env" where
  "quiet_admin v = \<lparr>ae_http = quiet_http (json_text v), ae_clock = step_clock, ae_perf = clk_time step_clock,
     ae_config = sample_env, ae_shell = (\<lambda>_. returnIO [])\<rparr>"

abbreviation plain_admin :: admin where
  "plain_admin \<equiv> \<lparr>adm_url = ''http://h:4985'', adm_cluster_config = ''res/c1'', adm_auth = NoAuth\<rparr>"

theorem replication_wait_returns_witness:
  "\<exists>r sw'. Admin_wait_until_sgw_replication_done (quiet_admin (PDict [(''status'', PStr ''running'')])) ''db'' ''r1'' True False 180 181 (plain_admin, 0) = Some (r, sw')"
  by (rule replication_wait_returns) simp

text \<open>
  A server that answers every status request with \<open>starting\<close>: each round counts twice, so the loop is left with a count of
  \<open>max_times\<close> only if that is even.
\<close>

lemma starting_rounds:
  assumes "\<And>sw. \<exists>sw'. adm_plain_json ae [db, ''_replicationStatus'', repl_id] sw = (Inr (PDict [(''status'', PStr ''starting'')]), sw')"
    and "\<And>sw. \<exists>sw'. adm_sleep ae 1 sw = (Inr (), sw')" and "\<not> dir_timeout (dn_read st)"
  shows "max_times - dn_count st < fuel \<Longrightarrow> even (dn_count st) \<Longrightarrow> dn_count st \<le> Suc max_times \<Longrightarrow>
    \<exists>st' sw'. while_io (\<lambda>st. dn_count st < max_times) (replication_round ae db repl_id rf wr) fuel st sw = Some (Inr st', sw') \<and>
      dn_count st' = (if even max_times then max_times else Suc max_times)"
  using assms(3)
proof (induction fuel arbitrary: st sw)
  case (Suc fuel)
  show ?case
  proof (cases "dn_count st < max_times")
    case True
    from assms(1) obtain sw1 where 1: "adm_plain_json ae [db, ''_replicationStatus'', repl_id] sw = (Inr (PDict [(''status'', PStr ''starting'')]), sw1)" by blast
    from assms(2) obtain sw2 where 2: "adm_sleep ae 1 sw1 = (Inr (), sw2)" by blast
    let ?st = "st\<lparr>dn_count := dn_count st + 2\<rparr>"
    have round: "replication_round ae db repl_id rf wr st sw = (Inr (True, ?st), sw2)"
      using Suc.prems(4) by (simp add: replication_round_def bindIO_def 1 2 dict_index_def Let_def)
    have "dn_count ?st \<le> Suc max_times" using True by simp
    with Suc.IH [of ?st sw2] Suc.prems True round show ?thesis by auto
  next
    case False
    with Suc.prems(3) have "dn_count st = max_times \<or> dn_count st = Suc max_times" by linarith
    with Suc.prems(2) False show ?thesis by auto
  qed
qed simp

text \<open>
  While a replication is only starting, the wait for it gives up after \<open>max_times\<close> seconds at the latest, but it raises its timeout
  exception only if \<open>max_times\<close> is even; for an odd number it returns as if the replication were done.
\<close>

theorem starting_timeout_parity:
  assumes "\<And>sw. \<exists>sw'. adm_plain_json ae [db, ''_replicationStatus'', repl_id] sw = (Inr (PDict [(''status'', PStr ''starting'')]), sw')"
    and "\<And>sw. \<exists>sw'. adm_sleep ae 1 sw = (Inr (), sw')" and "adm_refresh ae sw = (Inr (), sw1)"
    and "max_times < fuel" and "read_flag"
  shows "\<exists>r sw'. Admin_wait_until_sgw_replication_done ae db repl_id read_flag write_flag max_times fuel sw = Some (r, sw') \<and>
    (r = Inr () \<longleftrightarrow> odd max_times)"
proof -
  let ?st = "\<lparr>dn_count = 0, dn_read = fresh_direction read_flag, dn_write = fresh_direction write_flag\<rparr>"
  have "\<not> dir_timeout (dn_read ?st)" using assms(5) by (simp add: fresh_direction_def)
  from starting_rounds [OF assms(1,2) this, of max_times fuel read_flag write_flag sw1] assms(4) obtain st' sw' where
    "while_io (\<lambda>st. dn_count st < max_times) (replication_round ae db repl_id read_flag write_flag) fuel ?st sw1 = Some (Inr st', sw')"
    "dn_count st' = (if even max_times then max_times else Suc max_times)" by auto
  then show ?thesis by (simp add: Admin_wait_until_sgw_replication_done_def bindD_def liftD_def assms(3))
qed

theorem starting_timeout_parity_witness:
  "\<exists>r sw'. Admin_wait_until_sgw_replication_done (quiet_admin (PDict [(''status'', PStr ''starting'')])) ''db'' ''r1'' True False 181 182 (plain_admin, 0)
     = Some (r, sw') \<and> (r = Inr () \<longleftrightarrow> odd (181 :: nat))"
proof (rule starting_timeout_parity)
  have j: "json_ok (PDict [(''status'', PStr ''starting'')])" by simp
  show "\<exists>sw'. adm_plain_json (quiet_admin (PDict [(''status'', PStr ''starting'')])) [''db'', ''_replicationStatus'', ''r1''] sw =
      (Inr (PDict [(''status'', PStr ''starting'')]), sw')" for sw
    by (cases sw) (simp add: adm_plain_json_def adm_plain_def adm_send_def quiet_admin_def quiet_http_def checked_def text_response_def raise_for_status_def
        http_error_text_def resp_json_def json_text_loads [OF j] bindIO_def io_simps)
  show "\<exists>sw'. adm_sleep (quiet_admin (PDict [(''status'', PStr ''starting'')])) 1 sw = (Inr (), sw')" for sw
    by (cases sw) (simp add: quiet_admin_def step_clock_def io_simps)
  have "is_admin_auth_disabled sample_env ''res/c1'' = Inr (PBool False)" by code_simp
  then show "adm_refresh (quiet_admin (PDict [(''status'', PStr ''starting'')])) (plain_admin, 0) =
      (Inr (), (plain_admin\<lparr>adm_auth := RBAC_FULL_ADMIN_auth\<rparr>, 0))"
    by (simp add: adm_refresh_def quiet_admin_def bindIO_def io_simps)
qed simp_all

end
