(* ===== verification/Playbooks.thy ===== *)
theory Playbooks
  imports Sg_Config Cbs_Cluster Sg_Admin
begin

text \<open>
  Running ansible playbooks and reading the files they are fed with: \<open>libraries/provision/ansible_runner.py\<close>,
  \<open>ansible_python_runner.py\<close>, \<open>generate_x509_certs\<close> of \<open>utilities/cluster_config_utils.py\<close> and
  \<open>get_buckets_from_sync_gateway_config\<close>. The state is the configuration files together with the dictionary that is
  the default of \<open>extra_vars\<close>, which lives as long as the program; ansible, the template engine, the file system outside
  the configuration and the order of a set are the record \<open>'w prov_ops\<close>. Files are named relative to the working
  directory.
\<close>

section \<open>State and environment\<close>

type_synonym vars = "(string, pyval) dict"

record prov_state =
  ps_env :: environment
  ps_default_vars :: vars

record 'w os_ops =
  os_exists :: "string \<Rightarrow> ('w, bool) io"
  os_rmtree :: "string \<Rightarrow> ('w, unit) io"
  os_mkdir :: "string \<Rightarrow> ('w, unit) io"
  os_copy_tree :: "string \<Rightarrow> string \<Rightarrow> ('w, unit) io"
  os_chdir :: "string \<Rightarrow> ('w, unit) io"
  os_append :: "string \<Rightarrow> string \<Rightarrow> ('w, unit) io"
  os_popen :: "string list \<Rightarrow> ('w, string \<times> string) io"

record 'w prov_ops =
  po_cbs :: "'w cbs_env"
  po_admin :: "'w admin_env"
  po_ansible :: "string \<Rightarrow> string \<Rightarrow> vars \<Rightarrow> pyval \<Rightarrow> ('w, nat \<times> nat) io"
  po_render :: "vars \<Rightarrow> string \<Rightarrow> string res"
  po_text :: "file_content \<Rightarrow> string"
  po_order :: "pyval list \<Rightarrow> pyval list"
  po_cwd :: string
  po_os :: "'w os_ops"

type_synonym ('w, 'a) prov = "(prov_state \<times> 'w, 'a) io"

definition cfg :: "(environment \<Rightarrow> 'a res) \<Rightarrow> ('w, 'a) prov" where
  "cfg f s = (f (ps_env (fst s)), s)"

definition on_files :: "(environment, 'a) io \<Rightarrow> ('w, 'a) prov" where
  "on_files m s = (case m (ps_env (fst s)) of (r, env') \<Rightarrow> (r, ((fst s)\<lparr>ps_env := env'\<rparr>, snd s)))"

definition on_worldD :: "('w, 'a) dio \<Rightarrow> ('s \<times> 'w, 'a) dio" where
  "on_worldD m s = (case m (snd s) of None \<Rightarrow> None | Some (r, w') \<Rightarrow> Some (r, (fst s, w')))"

lemma cfg_apply [simp]: "cfg f s = (f (ps_env (fst s)), s)"
  by (simp add: cfg_def)

text \<open>The environments of the administration and of the servers, with the configuration files as they are now.\<close>

definition admin_env_of :: "'w prov_ops \<Rightarrow> environment \<Rightarrow> 'w admin_env" where
  "admin_env_of ops env = (po_admin ops)\<lparr>ae_config := env\<rparr>"

definition cbs_env_of :: "'w prov_ops \<Rightarrow> environment \<Rightarrow> 'w cbs_env" where
  "cbs_env_of ops env = (po_cbs ops)\<lparr>ce_config := env\<rparr>"

abbreviation po_http :: "'w prov_ops \<Rightarrow> 'w http" where
  "po_http ops \<equiv> ce_http (po_cbs ops)"

definition nap :: "'w prov_ops \<Rightarrow> rat \<Rightarrow> ('s \<times> 'w, unit) io" where
  "nap ops d = on_world (clk_sleep (ce_clock (po_cbs ops)) d)"

section \<open>Paths\<close>

text \<open>\<open>os.path.normpath\<close> of an absolute path: empty components and dots go, two dots take one component away.\<close>

fun norm_parts :: "string list \<Rightarrow> string list \<Rightarrow> string list" where
  "norm_parts acc [] = rev acc"
| "norm_parts acc (p # ps) =
     (if p = [] \<or> p = ''.'' then norm_parts acc ps
      else if p = ''..'' then norm_parts (drop 1 acc) ps
      else norm_parts (p # acc) ps)"

definition normpath :: "string \<Rightarrow> string" where
  "normpath p = (if startswith p ''//'' \<and> \<not> startswith p ''///'' then ''//'' else ''/'') @ join ''/'' (norm_parts [] (split_chr CHR ''/'' p))"

definition abspath :: "string \<Rightarrow> string \<Rightarrow> string" where
  "abspath cwd p = normpath (if startswith p ''/'' then p else cwd @ ''/'' @ p)"

definition path_join :: "string \<Rightarrow> string \<Rightarrow> string" where
  "path_join a b = (if startswith b ''/'' then b else if a = [] \<or> last a = CHR ''/'' then a @ b else a @ ''/'' @ b)"

definition file_key :: "string \<Rightarrow> string \<Rightarrow> string" where
  "file_key cwd p = (let a = abspath cwd p in if startswith a (cwd @ ''/'') then drop (length cwd + 1) a else a)"

definition SYNC_GATEWAY_CERT :: string where
  "SYNC_GATEWAY_CERT = ''resources/sync_gateway_cert''"

abbreviation certs_dir :: "'w prov_ops \<Rightarrow> string" where
  "certs_dir ops \<equiv> path_join (po_cwd ops) ''certs''"

abbreviation sg_cert_path :: "'w prov_ops \<Rightarrow> string" where
  "sg_cert_path ops \<equiv> abspath (po_cwd ops) SYNC_GATEWAY_CERT"

section \<open>Playbooks\<close>

definition PLAYBOOKS_HOME :: string where
  "PLAYBOOKS_HOME = ''libraries/provision/ansible/playbooks''"

definition Runner_run :: "'w prov_ops \<Rightarrow> string \<Rightarrow> string \<Rightarrow> vars \<Rightarrow> pyval \<Rightarrow> ('w, nat \<times> nat) prov" where
  "Runner_run ops inventory_filename playbook extra_vars hosts =
     bindIO (on_world (os_exists (po_os ops) inventory_filename)) (\<lambda>found.
     if \<not> found then raiseIO (Exn ''Exception'' (''Cannot find inventory_filename: '' @ inventory_filename @ ''.  Current dir: '' @ po_cwd ops))
     else bindIO (on_world (os_exists (po_os ops) playbook)) (\<lambda>found.
     if \<not> found then raiseIO (Exn ''Exception'' (''Cannot find playbook: '' @ playbook @ ''.  Current dir: '' @ po_cwd ops))
     else on_world (po_ansible ops inventory_filename playbook extra_vars hosts)))"

definition with_debian :: "string \<Rightarrow> vars \<Rightarrow> vars" where
  "with_debian platform v =
     (if contains_str (py_lower platform) ''debian'' then
        dict_set (dict_set (dict_set v ''ansible_distribution'' (PStr (capitalize platform))) ''ansible_os_family'' (PStr ''Linux''))
          ''ansible_python_interpreter'' (PStr ''/usr/bin/python3'')
      else v)"

definition runner_platform :: "environment \<Rightarrow> string \<Rightarrow> string res" where
  "runner_platform env config =
     (if dict_has (env_files env) (config @ ''.json'')
      then bindR (get_sg_platform env config) (\<lambda>p. str_attr p ''lower'') else Inr ''debian'')"

text \<open>
  Without \<open>extra_vars\<close> the variables are those of the one default dictionary, which keeps what this call adds. A
  dictionary of the caller is changed too, but only by what every call with it adds again.
\<close>

definition run_ansible_playbook :: "'w prov_ops \<Rightarrow> string \<Rightarrow> string \<Rightarrow> vars option \<Rightarrow> pyval \<Rightarrow> ('w, int) prov" where
  "run_ansible_playbook ops config script_name extra_vars hosts =
     bindIO (cfg (\<lambda>env. runner_platform env config)) (\<lambda>platform.
     bindIO (case extra_vars of
         Some v \<Rightarrow> returnIO (with_debian platform v)
       | None \<Rightarrow> bindIO (self_get ps_default_vars) (\<lambda>d. let v = with_debian platform d in
           bindIO (self_set (\<lambda>s. s\<lparr>ps_default_vars := v\<rparr>)) (\<lambda>_. returnIO v))) (\<lambda>v.
     bindIO (Runner_run ops config (PLAYBOOKS_HOME @ ''/'' @ script_name) v hosts) (\<lambda>(failures, dark).
     returnIO (int (failures + dark)))))"

section \<open>Certificates\<close>

definition san_line :: "py_runtime \<Rightarrow> nat \<Rightarrow> pyval \<Rightarrow> string res" where
  "san_line rt item node = bindR (py_in_str ''couchbase'' node) (\<lambda>dns.
     Inr ((if \<not> dns then ''IP.'' else ''DNS.'') @ nat_str (item + 1) @ '' = '' @ py_str rt node @ nl))"

text \<open>\<open>v[0]\<close> of a list or a string.\<close>

definition py_first :: "pyval \<Rightarrow> pyval res" where
  "py_first v = (case v of
       PDict _ \<Rightarrow> raise_exc ''KeyError'' ''0''
     | PList xs \<Rightarrow> list_item xs 0
     | PStr s \<Rightarrow> bindR (list_item s 0) (\<lambda>c. Inr (PStr [c]))
     | _ \<Rightarrow> raise_exc ''TypeError'' (repr_str (py_type v) @ '' object is not subscriptable''))"

text \<open>
  The loop over the lines of \<open>ansible.cfg\<close> only looks for a user name that is printed. The working directory is
  changed back only if nothing in between raises.
\<close>

definition generate_x509_certs :: "'w prov_ops \<Rightarrow> string \<Rightarrow> pyval \<Rightarrow> pyval \<Rightarrow> ('w, unit) prov" where
  "generate_x509_certs ops cluster_config bucket_name platform_arg =
     bindIO (cfg (\<lambda>env. get_cbs_version env cluster_config)) (\<lambda>cbs_version.
     bindIO (cfg (\<lambda>env. load_cluster_config_json env cluster_config)) (\<lambda>cluster.
     bindIO (liftIO (str_attr platform_arg ''lower'')) (\<lambda>platform.
     bindIO (cfg (\<lambda>env. if py_lower platform \<noteq> ''windows'' \<and> py_lower platform \<noteq> ''macos''
                      then bindR (read_text (po_text ops) env ''ansible.cfg'') (\<lambda>_. Inr ()) else Inr ())) (\<lambda>_.
     bindIO (on_world (os_exists (po_os ops) (certs_dir ops))) (\<lambda>old.
     bindIO (if old then on_world (os_rmtree (po_os ops) (certs_dir ops)) else returnIO ()) (\<lambda>_.
     bindIO (on_world (os_mkdir (po_os ops) (certs_dir ops))) (\<lambda>_.
     bindIO (on_world (os_copy_tree (po_os ops) (path_join (po_cwd ops) ''resources/x509_cert_gen'') (certs_dir ops))) (\<lambda>_.
     bindIO (on_world (os_chdir (po_os ops) (certs_dir ops))) (\<lambda>_.
     bindIO (liftIO (group_ips cluster ''couchbase_servers'')) (\<lambda>cbs_nodes.
     bindIO (forIO (zip [0..<length cbs_nodes] cbs_nodes) (\<lambda>(item, node).
       bindIO (cfg (\<lambda>env. san_line (env_runtime env) item node)) (\<lambda>l.
         on_world (os_append (po_os ops) ''openssl-san.cnf'' l)))) (\<lambda>_.
     bindIO (liftIO (bindR (list_item cbs_nodes 0) (\<lambda>n. bindR (py_first bucket_name) (\<lambda>b.
       mapR as_str [PStr ''./gen_keystore.sh'', n, b, cbs_version])))) (\<lambda>cmd.
     bindIO (on_world (os_popen (po_os ops) cmd)) (\<lambda>_.
     on_world (os_chdir (po_os ops) (po_cwd ops)))))))))))))))"

section \<open>Configuration objects\<close>

definition load_config :: "'w prov_ops \<Rightarrow> string \<Rightarrow> pyval list \<Rightarrow> ('w, sg_config) prov" where
  "load_config ops path_arg bucket_list = cfg (\<lambda>env.
     bindR (Config_init (po_text ops) (po_render ops [(''is_index_writer'', PStr ''false''), (''autoimport'', PStr []), (''xattrs'', PStr [])])
       (po_order ops) env (file_key (po_cwd ops) path_arg) bucket_list) (\<lambda>c. Inr (c\<lparr>conf_path := path_arg\<rparr>)))"

fun name_functions :: "string list \<Rightarrow> string" where
  "name_functions [] = []"
| "name_functions [c] = c"
| "name_functions (c # f # cs) = c @ '' '' @ dq ''function'' @ '' '' @ name_functions cs"

definition remove_env_file :: "string \<Rightarrow> (environment, unit) io" where
  "remove_env_file f env =
     (if dict_has (env_files env) f then (Inr (), env\<lparr>env_files := dict_del (env_files env) f\<rparr>) else (Inr (), env))"

definition get_buckets_from_sync_gateway_config :: "'w prov_ops \<Rightarrow> string \<Rightarrow> ('w, pyval) prov" where
  "get_buckets_from_sync_gateway_config ops sync_gateway_config_path =
     (let key = file_key (po_cwd ops) in
      bindIO (cfg (\<lambda>env. read_text (po_text ops) env (key sync_gateway_config_path))) (\<lambda>conf_data.
      if chr_backtick \<in> set conf_data then
        let parts = split_chr CHR ''/'' sync_gateway_config_path;
            temp_config_path = join ''/'' (take (length parts - 2) parts) @ ''/temp_conf.json'' in
        bindIO (on_files (\<lambda>env. (Inr (), write_file env (key temp_config_path) (TextFile (name_functions (split_chr chr_backtick conf_data)))))) (\<lambda>_.
        bindIO (load_config ops (abspath (po_cwd ops) temp_config_path) []) (\<lambda>config.
        bindIO (on_files (remove_env_file (key temp_config_path))) (\<lambda>_.
        returnIO (bucket_name_set config))))
      else bindIO (load_config ops (abspath (po_cwd ops) sync_gateway_config_path) []) (\<lambda>config. returnIO (bucket_name_set config))))"

end
