(* ===== verification/Sg_Vars.thy ===== *)
theory Sg_Vars
  imports Playbooks
begin

text \<open>
  The variables from which the playbooks fill the templates of Sync Gateway configurations. The same blocks of code
  occur in \<open>keywords/SyncGateway.py\<close>, \<open>libraries/testkit/syncgateway.py\<close>, \<open>libraries/testkit/cluster.py\<close>,
  \<open>libraries/testkit/sgaccel.py\<close> and \<open>libraries/provision/install_sync_gateway.py\<close>: each is one step here, from
  variables to variables, and the callers are sequences of steps. A step takes the answers of the configuration as values
  that may be errors, and asks for them in the order of the code.

  Most variables are fragments of JSON, members of an object with a comma after each; theory \<open>Sg_Fragments\<close> states this as an
  invariant and shows that the steps preserve it.
\<close>

section \<open>Texts\<close>

definition raw_var :: "string \<Rightarrow> string \<Rightarrow> string" where
  "raw_var k v = dq k @ '': '' @ v @ '',''"

definition quoted_var :: "string \<Rightarrow> string \<Rightarrow> string" where
  "quoted_var k v = raw_var k (dq v)"

definition set_var :: "string \<Rightarrow> string \<Rightarrow> vars \<Rightarrow> vars" where
  "set_var k s v = dict_set v k (PStr s)"

definition blank :: "string list \<Rightarrow> vars" where
  "blank ks = map (\<lambda>k. (k, PStr [])) ks"

text \<open>\<open>ver >= "x.y.z"\<close> compares strings.\<close>

definition version_from :: "pyval \<Rightarrow> string \<Rightarrow> bool res" where
  "version_from v bound = (case v of
       PStr s \<Rightarrow> Inr (\<not> str_less s bound)
     | _ \<Rightarrow> raise_exc ''TypeError'' (repr_str ''>='' @ '' not supported between instances of '' @ repr_str (py_type v) @ '' and '' @ repr_str ''str''))"

definition at_least :: "pyval res \<Rightarrow> string \<Rightarrow> bool res" where
  "at_least ver bound = bindR ver (\<lambda>v. version_from v bound)"

definition truth_of :: "pyval res \<Rightarrow> bool res" where
  "truth_of r = bindR r (\<lambda>v. Inr (py_truth v))"

text \<open>\<open>flag and ver >= bound\<close>, from left to right.\<close>

definition both :: "pyval res \<Rightarrow> bool res \<Rightarrow> bool res" where
  "both flag b = bindR (truth_of flag) (\<lambda>t. if t then b else Inr False)"

definition not_flag :: "bool res \<Rightarrow> pyval res \<Rightarrow> bool res" where
  "not_flag b flag = bindR b (\<lambda>t. if t then bindR (truth_of flag) (\<lambda>f. Inr (\<not> f)) else Inr False)"

section \<open>Steps\<close>

definition logging_text :: "py_runtime \<Rightarrow> string res \<Rightarrow> pyval res \<Rightarrow> string res" where
  "logging_text rt logging_config redact_level =
     bindR logging_config (\<lambda>c. case redact_level of
         Inr l \<Rightarrow> Inr (c @ '', '' @ dq ''redaction_level'' @ '': '' @ dq (py_str rt l) @ '' },'')
       | Inl e \<Rightarrow> if exn_class e = ''KeyError'' then Inr (c @ '' },'') else Inl e)"

definition logging_step :: "py_runtime \<Rightarrow> string res \<Rightarrow> pyval res \<Rightarrow> vars \<Rightarrow> vars res" where
  "logging_step rt logging_config redact_level v =
     bindR (logging_text rt logging_config redact_level) (\<lambda>t. Inr (set_var ''logging'' t v))"

definition views_step :: "py_runtime \<Rightarrow> pyval res \<Rightarrow> pyval res \<Rightarrow> vars \<Rightarrow> vars res" where
  "views_step rt use_views num_replicas v =
     bindR (truth_of use_views) (\<lambda>views.
       if views then Inr (set_var ''sg_use_views'' (raw_var ''use_views'' ''true'') v)
       else bindR num_replicas (\<lambda>n. Inr (set_var ''num_index_replicas'' (raw_var ''num_index_replicas'' (py_str rt n)) v)))"

abbreviation bslash2 :: string where "bslash2 \<equiv> [chr_bslash, chr_bslash]"

definition windows_home :: string where
  "windows_home = ''C:'' @ bslash2 @ ''PROGRA~1'' @ bslash2 @ ''Couchbase'' @ bslash2 @ ''Sync Gateway''"

definition home_directory :: "pyval \<Rightarrow> string res" where
  "home_directory platform =
     bindR (py_in_str ''macos'' platform) (\<lambda>mac. Inr
       (if mac then ''/Users/sync_gateway'' else if platform = PStr ''windows'' then windows_home else ''/home/sync_gateway''))"

definition cert_text :: "pyval \<Rightarrow> string \<Rightarrow> string \<Rightarrow> string \<Rightarrow> string" where
  "cert_text platform key home file =
     (let t = quoted_var key (home @ ''/certs/'' @ file) in
      if platform = PStr ''windows'' then replace_str ''/'' bslash2 t else t)"

definition cert_vars :: "pyval \<Rightarrow> string \<times> string \<times> string \<Rightarrow> string \<Rightarrow> vars \<Rightarrow> vars" where
  "cert_vars platform keys home v =
     (case keys of (c, k, ca) \<Rightarrow>
        set_var ''cacertpath'' (cert_text platform ca home ''ca.pem'')
          (set_var ''keypath'' (cert_text platform k home ''pkey.key'')
            (set_var ''certpath'' (cert_text platform c home ''chain.pem'') v)))"

definition old_cert_keys :: "string \<times> string \<times> string" where
  "old_cert_keys = (''certpath'', ''keypath'', ''cacertpath'')"

definition new_cert_keys :: "string \<times> string \<times> string" where
  "new_cert_keys = (''x509_cert_path'', ''x509_key_path'', ''ca_cert_path'')"

definition x509_vars :: "vars \<Rightarrow> vars" where
  "x509_vars v = dict_set (set_var ''server_port'' [] (set_var ''server_scheme'' ''couchbases'' v)) ''x509_auth'' (PBool True)"

definition bucket_user :: "py_runtime \<Rightarrow> pyval \<Rightarrow> vars \<Rightarrow> vars res" where
  "bucket_user rt bucket_names v =
     bindR (py_first bucket_names) (\<lambda>b. Inr (set_var ''password'' (quoted_var ''password'' ''password'')
       (set_var ''username'' (quoted_var ''username'' (py_str rt b)) v)))"

definition xattrs_step :: "pyval res \<Rightarrow> pyval res \<Rightarrow> vars \<Rightarrow> vars res" where
  "xattrs_step flag ver v =
     bindR (truth_of flag) (\<lambda>on. if on then
         bindR (at_least ver ''2.1.0'') (\<lambda>new. Inr (set_var ''xattrs'' (raw_var ''enable_shared_bucket_access'' ''true'')
           (set_var ''autoimport'' (if new then raw_var ''import_docs'' ''true'' else quoted_var ''import_docs'' ''continuous'') v)))
       else Inr v)"

definition ssl_files :: "vars \<Rightarrow> vars" where
  "ssl_files v = set_var ''sslkey'' (quoted_var ''SSLKey'' ''sg_privkey.pem'') (set_var ''sslcert'' (quoted_var ''SSLCert'' ''sg_cert.pem'') v)"

text \<open>The member \<open>https\<close>; the copies differ in the indentation of their lines.\<close>

definition https_text :: "nat \<Rightarrow> nat \<Rightarrow> string" where
  "https_text n m = '' '' @ dq ''https'' @ '': {'' @ nl @
     replicate n CHR '' '' @ dq ''tls_cert_path'' @ '': '' @ dq ''sg_cert.pem'' @ '','' @ nl @
     replicate n CHR '' '' @ dq ''tls_key_path'' @ '': '' @ dq ''sg_privkey.pem'' @ nl @
     replicate m CHR '' '' @ ''}, ''"

definition ssl_step :: "string \<Rightarrow> pyval res \<Rightarrow> pyval res \<Rightarrow> vars \<Rightarrow> vars res" where
  "ssl_step tls_text sg_ssl persistent_disabled v =
     bindR (truth_of sg_ssl) (\<lambda>on. if on then
         bindR (truth_of persistent_disabled) (\<lambda>off. Inr (if off then ssl_files v else set_var ''tls'' tls_text v))
       else Inr v)"

definition conflicts_step :: "pyval res \<Rightarrow> vars \<Rightarrow> vars res" where
  "conflicts_step flag v =
     bindR (truth_of flag) (\<lambda>no. Inr (set_var ''no_conflicts'' (raw_var ''allow_conflicts'' (if no then ''false'' else ''true'')) v))"

text \<open>Without a limit some copies clear the variable and the others leave it as it is.\<close>

definition revs_limit_step :: "py_runtime \<Rightarrow> pyval res \<Rightarrow> (vars \<Rightarrow> vars) \<Rightarrow> vars \<Rightarrow> vars res" where
  "revs_limit_step rt revs_limit without v = (case revs_limit of
       Inr n \<Rightarrow> Inr (set_var ''revs_limit'' (raw_var ''revs_limit'' (py_str rt n)) v)
     | Inl e \<Rightarrow> if exn_class e = ''KeyError'' then Inr (without v) else Inl e)"

text \<open>A fragment that is set if a condition holds.\<close>

definition when_step :: "bool res \<Rightarrow> string \<Rightarrow> string \<Rightarrow> vars \<Rightarrow> vars res" where
  "when_step cond key t v = bindR cond (\<lambda>b. Inr (if b then set_var key t v else v))"

definition delta_text :: string where
  "delta_text = raw_var ''delta_sync'' (''{ '' @ dq ''enabled'' @ '': true}'')"

definition no_admin_auth_text :: string where
  "no_admin_auth_text = raw_var ''admin_interface_authentication'' ''false'' @ ''    '' @ nl @ raw_var ''metrics_interface_authentication'' ''false''"

text \<open>The four settings of version 3.0.0, with the answers of the configuration in the order in which they are asked for.\<close>

definition v3_steps :: "environment \<Rightarrow> string \<Rightarrow> (environment \<Rightarrow> pyval res) \<Rightarrow> (vars \<Rightarrow> vars res) list" where
  "v3_steps env cc ver =
     [when_step (both (is_centralized_persistent_config_disabled env cc) (at_least (ver env) ''3.0.0'')) ''disable_persistent_config''
        (raw_var ''disable_persistent_config'' ''true''),
      when_step (both (is_server_tls_skip_verify_enabled env cc) (at_least (ver env) ''3.0.0'')) ''server_tls_skip_verify''
        (raw_var ''server_tls_skip_verify'' ''true''),
      when_step (both (is_tls_server_disabled env cc) (at_least (ver env) ''3.0.0'')) ''disable_tls_server'' (raw_var ''use_tls_server'' ''false''),
      when_step (both (is_admin_auth_disabled env cc) (at_least (ver env) ''3.0.0'')) ''disable_admin_auth'' no_admin_auth_text]"

text \<open>Delta sync, metrics and the product version, then the settings of version 3.0.0.\<close>

definition feature_steps :: "environment \<Rightarrow> string \<Rightarrow> (environment \<Rightarrow> pyval res) \<Rightarrow> (vars \<Rightarrow> vars res) list" where
  "feature_steps env cc ver =
     [when_step (both (is_delta_sync_enabled env cc) (at_least (ver env) ''2.5.0'')) ''delta_sync'' delta_text,
      when_step (at_least (ver env) ''2.8.0'') ''prometheus'' (quoted_var ''metricsInterface'' '':4986''),
      when_step (both (is_hide_prod_version_enabled env cc) (at_least (ver env) ''2.8.1'')) ''hide_product_version''
        (raw_var ''hide_product_version'' ''true'')]"

definition seq_steps :: "(vars \<Rightarrow> vars res) list \<Rightarrow> vars \<Rightarrow> vars res" where
  "seq_steps fs v = foldR (\<lambda>v f. f v) v fs"

text \<open>A sequence of steps that read the configuration files.\<close>

definition cfg_steps :: "(environment \<Rightarrow> (vars \<Rightarrow> vars res) list) \<Rightarrow> vars \<Rightarrow> ('w, vars) prov" where
  "cfg_steps fs v = cfg (\<lambda>env. seq_steps (fs env) v)"

text \<open>Certificates if the servers want them, and otherwise what \<open>els\<close> does; \<open>home_directory\<close> is asked for before.\<close>

definition x509_step :: "'w prov_ops \<Rightarrow> string \<Rightarrow> string \<times> string \<times> string \<Rightarrow> (pyval \<Rightarrow> string res) \<Rightarrow> pyval \<Rightarrow> pyval \<Rightarrow>
    (environment \<Rightarrow> vars \<Rightarrow> vars res) \<Rightarrow> vars \<Rightarrow> ('w, vars) prov" where
  "x509_step ops cc keys home platform bucket_names els v =
     bindIO (liftIO (home platform)) (\<lambda>h.
     bindIO (cfg (\<lambda>env. truth_of (is_x509_auth env cc))) (\<lambda>on.
     if on then bindIO (generate_x509_certs ops cc bucket_names platform) (\<lambda>_. returnIO (x509_vars (cert_vars platform keys h v)))
     else cfg (\<lambda>env. els env v)))"

text \<open>
  The part that depends on version 2.1.0: logging, views or replicas, and credentials; before it, everything is logged
  and the bucket is the user.
\<close>

definition auth_step :: "'w prov_ops \<Rightarrow> string \<Rightarrow> (environment \<Rightarrow> pyval res) \<Rightarrow> string \<Rightarrow> pyval \<Rightarrow> pyval \<Rightarrow> vars \<Rightarrow> ('w, vars) prov" where
  "auth_step ops cc ver old_log platform bucket_names v =
     bindIO (cfg (\<lambda>env. at_least (ver env) ''2.1.0'')) (\<lambda>new.
     if new then
       bindIO (cfg_steps (\<lambda>env. [logging_step (env_runtime env) (choose_logging_level env cc) (get_redact_level env cc),
                                 views_step (env_runtime env) (get_sg_use_views env cc) (get_sg_replicas env cc)]) v) (\<lambda>v.
       x509_step ops cc old_cert_keys home_directory platform bucket_names (\<lambda>env. bucket_user (env_runtime env) bucket_names) v)
     else cfg (\<lambda>env. bucket_user (env_runtime env) bucket_names (set_var ''logging'' (raw_var ''log'' (''['' @ dq old_log @ '']'')) v)))"

text \<open>With an encrypted connection to the servers their plain ports are blocked.\<close>

definition block_http_ports :: "'w prov_ops \<Rightarrow> string \<Rightarrow> vars \<Rightarrow> ('w, unit) prov" where
  "block_http_ports ops inventory block_http_vars =
     bindIO (run_ansible_playbook ops inventory ''block-http-ports.yml'' (Some (set_var ''port'' ''8091:8096,11210:11211'' block_http_vars)) PNone) (\<lambda>status.
     if status \<noteq> 0 then raiseIO (Exn ''ProvisioningError'' ''Failed to block port on SGW'') else returnIO ())"

definition debian_vars :: "pyval \<Rightarrow> vars res" where
  "debian_vars platform = bindR (str_attr platform ''lower'') (\<lambda>p. Inr (with_debian p []))"

definition ssl_ports :: "vars \<Rightarrow> vars" where
  "ssl_ports v = dict_set (set_var ''server_scheme'' ''couchbases'' v) ''server_port'' (PInt 11207)"

definition cbs_ssl_step :: "'w prov_ops \<Rightarrow> string \<Rightarrow> (environment \<Rightarrow> bool res) \<Rightarrow> pyval \<Rightarrow> vars \<Rightarrow> ('w, vars) prov" where
  "cbs_ssl_step ops inventory cond platform v =
     bindIO (cfg cond) (\<lambda>on.
     if on then bindIO (liftIO (debian_vars platform)) (\<lambda>b. bindIO (block_http_ports ops inventory b) (\<lambda>_. returnIO (ssl_ports v)))
     else returnIO v)"

text \<open>The address of the servers.\<close>

definition primary_node :: "environment \<Rightarrow> string \<Rightarrow> string res" where
  "primary_node env cc = bindR (add_cbs_to_sg_config_server_field env cc) (get_cbs_primary_nodes_str env cc)"

end
