(* ===== verification/Sg_Node.thy ===== *)
theory Sg_Node
  imports Sg_Vars
begin

text \<open>
  \<open>libraries/testkit/syncgateway.py\<close>, the class \<open>SyncGateway\<close> and its helpers: starting and restarting one Sync Gateway
  with the variables of its configuration, sending it the configuration of its databases, replications, and waiting for
  documents and tasks. The object is the record \<open>sg_node\<close>, with its \<open>Admin\<close> object in it; an operation that may change
  the credentials of the latter returns the object. The methods that only choose whether to pass the credentials pass
  \<open>adm_auth\<close>.
\<close>

section \<open>The object\<close>

record sg_node =
  sgn_ip :: pyval
  sgn_url :: string
  sgn_hostname :: pyval
  sgn_admin :: admin
  sgn_config :: string
  sgn_server_port :: string
  sgn_server_scheme :: string
  sgn_primary :: string

definition SyncGateway_init :: "environment \<Rightarrow> string \<Rightarrow> pyval \<Rightarrow> sg_node res" where
  "SyncGateway_init env cluster_config target =
     bindR (py_item target ''ip'') (\<lambda>ip.
     bindR (truth_of (sg_ssl_enabled env cluster_config)) (\<lambda>sg_ssl.
     bindR (py_item target ''name'') (\<lambda>name.
     bindR (Admin_init env (py_str (env_runtime env) ip)) (\<lambda>adm.
     bindR (truth_of (is_cbs_ssl_enabled env cluster_config)) (\<lambda>cbs_ssl.
     bindR (truth_of (is_x509_auth env cluster_config)) (\<lambda>x509.
     bindR (add_cbs_to_sg_config_server_field env cluster_config) (\<lambda>node.
     Inr \<lparr>sgn_ip = ip, sgn_url = (if sg_ssl then ''https'' else ''http'') @ ''://'' @ py_str (env_runtime env) ip @ '':4984'',
          sgn_hostname = name, sgn_admin = adm, sgn_config = cluster_config, sgn_server_port = [],
          sgn_server_scheme = (if cbs_ssl \<or> x509 then ''couchbases'' else ''couchbase''), sgn_primary = node\<rparr>)))))))"

definition SyncGateway_repr :: "py_runtime \<Rightarrow> sg_node \<Rightarrow> string" where
  "SyncGateway_repr rt sg = ''SyncGateway: '' @ py_str rt (sgn_hostname sg) @ '':'' @ py_str rt (sgn_ip sg) @ nl"

text \<open>A method of the \<open>Admin\<close> object inside.\<close>

definition with_admin :: "('w, 'a) admin_io \<Rightarrow> sg_node \<Rightarrow> ('w, 'a \<times> sg_node) io" where
  "with_admin m sg w = (case m (sgn_admin sg, w) of
       (Inl e, (_, w')) \<Rightarrow> (Inl e, w')
     | (Inr a, (adm, w')) \<Rightarrow> (Inr (a, sg\<lparr>sgn_admin := adm\<rparr>), w'))"

definition bare_rq :: "string \<Rightarrow> string \<Rightarrow> http_request" where
  "bare_rq meth url = (rq meth url)\<lparr>rq_headers := []\<rparr>"

definition SyncGateway_info :: "'w http \<Rightarrow> sg_node \<Rightarrow> ('w, string) io" where
  "SyncGateway_info http sg = bindIO (checked (http_send http (bare_rq ''GET'' (sgn_url sg)))) (\<lambda>r. returnIO (rs_text r))"

definition SyncGateway_verify_launched :: "'w http \<Rightarrow> sg_node \<Rightarrow> ('w, unit) io" where
  "SyncGateway_verify_launched http sg = bindIO (checked (http_send http (bare_rq ''GET'' (sgn_url sg)))) (\<lambda>_. returnIO ())"

definition SyncGateway_stop :: "'w prov_ops \<Rightarrow> sg_node \<Rightarrow> ('w, int) prov" where
  "SyncGateway_stop ops sg = run_ansible_playbook ops (sgn_config sg) ''stop-sync-gateway.yml'' None (sgn_hostname sg)"

definition SyncGateway_create_db :: "'w admin_env \<Rightarrow> string \<Rightarrow> ('w, int) admin_io" where
  "SyncGateway_create_db ae name = Admin_create_db ae name (PDict [])"

definition SyncGateway_delete_db :: "'w admin_env \<Rightarrow> string \<Rightarrow> ('w, pyval) admin_io" where
  "SyncGateway_delete_db ae name = Admin_delete_db ae name"

definition SyncGateway_reset :: "'w admin_env \<Rightarrow> ('w, unit) admin_io" where
  "SyncGateway_reset ae = bindIO (Admin_get_dbs ae) (\<lambda>dbs.
     for_in dbs (\<lambda>db. bindIO (Admin_delete_db ae (py_str (http_runtime (ae_http ae)) db)) (\<lambda>_. returnIO ())))"

section \<open>Paths of configurations\<close>

definition SYNC_GATEWAY_CONFIGS :: string where
  "SYNC_GATEWAY_CONFIGS = ''resources/sync_gateway_configs''"

definition SGW_DB_CONFIGS :: string where
  "SGW_DB_CONFIGS = ''resources/database_configs''"

definition sync_gateway_config_path_for_mode :: "environment \<Rightarrow> string \<Rightarrow> string \<Rightarrow> bool \<Rightarrow> string res" where
  "sync_gateway_config_path_for_mode env config_prefix mode cpc =
     bindR (validate_sync_gateway_mode (PStr mode)) (\<lambda>_.
     let config = (if cpc then SYNC_GATEWAY_CONFIGS_CPC else SYNC_GATEWAY_CONFIGS) @ ''/'' @ config_prefix @ ''_'' @ mode @ ''.json'' in
     if \<not> dict_has (env_files env) config then raise_exc ''ValueError'' (''Could not file config: '' @ config) else Inr config)"

definition get_cpc_config_from_config_path :: "string \<Rightarrow> string \<Rightarrow> string res" where
  "get_cpc_config_from_config_path non_cpc_config_filename mode =
     bindR (validate_sync_gateway_mode (PStr mode)) (\<lambda>_.
     let cpc_config_prefix = hd (split_str ''_cc'' non_cpc_config_filename);
         cpc_config_prefix = last (split_chr CHR ''/'' cpc_config_prefix)
     in Inr (SYNC_GATEWAY_CONFIGS_CPC @ ''/'' @ cpc_config_prefix @ ''_'' @ mode @ ''.json''))"

definition get_cpc_sgw_config :: "string \<Rightarrow> string" where
  "get_cpc_sgw_config sg_config_path =
     (if \<not> contains_str sg_config_path SYNC_GATEWAY_CONFIGS_CPC \<and> \<not> contains_str sg_config_path ''temp_sg_config''
      then replace_str SYNC_GATEWAY_CONFIGS SYNC_GATEWAY_CONFIGS_CPC sg_config_path else sg_config_path)"

text \<open>
  Which files are the configuration of the node and of the databases: \<open>use_config\<close> is \<open>False\<close>, \<open>True\<close> or the path of
  another configuration.
\<close>

definition config_paths :: "environment \<Rightarrow> string \<Rightarrow> pyval \<Rightarrow> (string \<times> pyval) res" where
  "config_paths env sg_config_path use_config =
     bindR (sync_gateway_config_path_for_mode env ''sync_gateway_default'' ''cc'' True) (\<lambda>cpc.
     if py_truth use_config then
       if use_config = PBool True then
         bindR (get_cpc_config_from_config_path sg_config_path ''cc'') (\<lambda>cpc.
         bindR (sync_gateway_config_path_for_mode env ''sync_gateway_default'' ''cc'' False) (\<lambda>p. Inr (cpc, PStr p)))
       else Inr (sg_config_path, use_config)
     else Inr (cpc, PStr sg_config_path))"

section \<open>The variables of a configuration in one file\<close>

abbreviation persistent_config :: "environment \<Rightarrow> string \<Rightarrow> pyval res \<Rightarrow> bool res" where
  "persistent_config env cc ver \<equiv> not_flag (at_least ver ''3.0.0'') (is_centralized_persistent_config_disabled env cc)"

definition start_base :: "'w prov_ops \<Rightarrow> sg_node \<Rightarrow> string \<Rightarrow> vars" where
  "start_base ops sg config =
     (''sync_gateway_config_filepath'', PStr config) # blank [''username'', ''password'', ''certpath'', ''keypath'', ''cacertpath''] @
     [(''sg_cert_path'', PStr (sg_cert_path ops)), (''x509_certs_dir'', PStr (certs_dir ops)), (''x509_auth'', PBool False),
      (''server_port'', PStr (sgn_server_port sg)), (''server_scheme'', PStr (sgn_server_scheme sg))] @
     blank [''autoimport'', ''xattrs'', ''no_conflicts'', ''sslcert'', ''sslkey'', ''num_index_replicas'', ''sg_use_views''] @
     [(''couchbase_server_primary_node'', PStr (sgn_primary sg))] @
     blank [''delta_sync'', ''prometheus'', ''hide_product_version'', ''tls'', ''disable_persistent_config'', ''server_tls_skip_verify'',
       ''disable_tls_server'', ''disable_admin_auth'']"

text \<open>What \<open>start\<close> and \<open>restart\<close> do after the dictionary is set up; they differ in what a missing limit of
  revisions does. The playbooks run on the inventory the object was made for.\<close>

definition node_vars :: "'w prov_ops \<Rightarrow> string \<Rightarrow> string \<Rightarrow> (vars \<Rightarrow> vars) \<Rightarrow> pyval \<Rightarrow> pyval \<Rightarrow> vars \<Rightarrow> ('w, vars) prov" where
  "node_vars ops inventory cc no_limit platform bucket_names v =
     bindIO (cfg (\<lambda>env. bindR (truth_of (sg_ssl_enabled env cc)) (\<lambda>on. Inr (if on then ssl_files v else v)))) (\<lambda>v.
     bindIO (auth_step ops cc (\<lambda>env. get_sg_version env cc) ''*'' platform bucket_names v) (\<lambda>v.
     bindIO (cfg_steps (\<lambda>env. [xattrs_step (is_xattrs_enabled env cc) (get_sg_version env cc),
        conflicts_step (no_conflicts_enabled env cc), revs_limit_step (env_runtime env) (get_revs_limit env cc) no_limit] @
        feature_steps env cc (\<lambda>env. get_sg_version env cc) @ v3_steps env cc (\<lambda>env. get_sg_version env cc)) v) (\<lambda>v.
     cbs_ssl_step ops inventory (\<lambda>env. both (is_cbs_ssl_enabled env cc) (at_least (get_sg_version env cc) ''1.5.0'')) platform v)))"

definition start_vars :: "'w prov_ops \<Rightarrow> sg_node \<Rightarrow> string \<Rightarrow> ('w, vars) prov" where
  "start_vars ops sg config =
     (let conf_path = abspath (po_cwd ops) config in
      bindIO (get_buckets_from_sync_gateway_config ops conf_path) (\<lambda>bucket_names.
      bindIO (cfg (\<lambda>env. get_sg_platform env (sgn_config sg))) (\<lambda>platform.
      node_vars ops (sgn_config sg) (sgn_config sg) id platform bucket_names (start_base ops sg conf_path))))"

definition restart_base :: "'w prov_ops \<Rightarrow> sg_node \<Rightarrow> string \<Rightarrow> vars" where
  "restart_base ops sg config =
     [(''sync_gateway_config_filepath'', PStr config), (''server_port'', PStr (sgn_server_port sg)), (''server_scheme'', PStr (sgn_server_scheme sg))] @
     blank [''autoimport'', ''xattrs'', ''no_conflicts'', ''revs_limit'', ''sslcert'', ''sslkey'', ''username'', ''password'', ''certpath'',
       ''keypath'', ''cacertpath''] @
     [(''sg_cert_path'', PStr (sg_cert_path ops)), (''x509_certs_dir'', PStr (certs_dir ops)), (''x509_auth'', PBool False)] @
     blank [''num_index_replicas'', ''sg_use_views''] @ [(''couchbase_server_primary_node'', PStr (sgn_primary sg))] @
     blank [''delta_sync'', ''prometheus'', ''hide_product_version'', ''tls'', ''disable_persistent_config'', ''server_tls_skip_verify'',
       ''disable_tls_server'', ''disable_admin_auth'']"

definition restart_vars :: "'w prov_ops \<Rightarrow> sg_node \<Rightarrow> string \<Rightarrow> string \<Rightarrow> ('w, vars) prov" where
  "restart_vars ops sg cc config =
     (let conf_path = abspath (po_cwd ops) config in
      bindIO (get_buckets_from_sync_gateway_config ops conf_path) (\<lambda>bucket_names.
      bindIO (cfg (\<lambda>env. get_sg_platform env cc)) (\<lambda>platform.
      node_vars ops (sgn_config sg) cc (set_var ''revs_limit'' []) platform bucket_names (restart_base ops sg conf_path))))"

section \<open>The variables of a configuration in two files\<close>

text \<open>
  With centralised persistent configuration the node gets a bootstrap file and the databases are sent to it afterwards.
  The local variables of the function are the dictionary \<open>v\<close>, under the names they have in the bootstrap dictionary;
  \<open>username_var\<close> and \<open>password_var\<close> are those of the databases.
\<close>

definition var_of :: "vars \<Rightarrow> string \<Rightarrow> pyval" where
  "var_of v k = (case dict_get v k of Some x \<Rightarrow> x | None \<Rightarrow> PStr [])"

definition pick_vars :: "(string \<times> string) list \<Rightarrow> vars \<Rightarrow> vars" where
  "pick_vars ks v = map (\<lambda>(k, l). (k, var_of v l)) ks"

definition sgwconfig_locals :: "'w prov_ops \<Rightarrow> string \<Rightarrow> string \<Rightarrow> string \<Rightarrow> vars" where
  "sgwconfig_locals ops cpc_config_path_full scheme node =
     [(''sync_gateway_config_filepath'', PStr cpc_config_path_full), (''server_port'', PStr []), (''server_scheme'', PStr scheme),
      (''sg_cert_path'', PStr (sg_cert_path ops)), (''x509_auth'', PBool False), (''x509_certs_dir'', PStr (certs_dir ops)),
      (''couchbase_server_primary_node'', PStr node)] @
     blank [''username'', ''username_var'', ''password_var'', ''tls'', ''sslcert'', ''sslkey'', ''hide_product_version'', ''bucket_list'',
       ''disable_persistent_config'', ''prometheus'', ''certpath'', ''keypath'', ''cacertpath'', ''sg_use_views'', ''num_index_replicas''] @
     [(''autoimport'', PStr (raw_var ''import_docs'' ''false'')), (''xattrs'', PStr (raw_var ''enable_shared_bucket_access'' ''false''))] @
     blank [''no_conflicts'', ''revs_limit'', ''delta_sync'', ''server_tls_skip_verify'', ''disable_tls_server'', ''disable_admin_auth'', ''groupid'']"

definition plain_xattrs_step :: "pyval res \<Rightarrow> vars \<Rightarrow> vars res" where
  "plain_xattrs_step flag v = bindR (truth_of flag) (\<lambda>on. Inr (if on then
     set_var ''xattrs'' (raw_var ''enable_shared_bucket_access'' ''true'') (set_var ''autoimport'' (raw_var ''import_docs'' ''true'') v) else v))"

text \<open>\<open>'"buckets": {},'.format(bucket_names)\<close> writes the list as Python does.\<close>

definition bucket_list_step :: "py_runtime \<Rightarrow> pyval \<Rightarrow> vars \<Rightarrow> vars res" where
  "bucket_list_step rt bucket_names v = Inr (set_var ''bucket_list'' (raw_var ''buckets'' (py_str rt bucket_names)) v)"

definition group_step :: "py_runtime \<Rightarrow> pyval \<Rightarrow> vars \<Rightarrow> vars res" where
  "group_step rt bucket_names v = bindR (py_first bucket_names) (\<lambda>b. Inr (set_var ''groupid'' (quoted_var ''group_id'' (py_str rt b)) v))"

definition text_ports :: "vars \<Rightarrow> vars" where
  "text_ports v = set_var ''server_port'' ''11207'' (set_var ''server_scheme'' ''couchbases'' v)"

definition text_ssl_step :: "'w prov_ops \<Rightarrow> string \<Rightarrow> (environment \<Rightarrow> bool res) \<Rightarrow> pyval \<Rightarrow> vars \<Rightarrow> ('w, vars) prov" where
  "text_ssl_step ops cc cond platform v =
     bindIO (cfg cond) (\<lambda>on.
     if on then bindIO (liftIO (debian_vars platform)) (\<lambda>b. bindIO (block_http_ports ops cc b) (\<lambda>_. returnIO (text_ports v)))
     else returnIO v)"

definition template_args :: "(string \<times> string) list" where
  "template_args = map (\<lambda>k. (k, k)) [''couchbase_server_primary_node'', ''logging'', ''server_port'', ''server_scheme'', ''sg_cert_path'', ''sslcert'',
     ''sslkey'', ''prometheus'', ''hide_product_version'', ''tls'', ''bucket_list'', ''disable_persistent_config'', ''x509_certs_dir'',
     ''certpath'', ''keypath'', ''cacertpath'', ''sg_use_views'', ''num_index_replicas'', ''autoimport'', ''xattrs'', ''no_conflicts'',
     ''revs_limit'', ''delta_sync'', ''server_tls_skip_verify'', ''disable_tls_server'', ''disable_admin_auth'', ''groupid''] @
     [(''bootstrap_username'', ''username''), (''username'', ''db_username_var''), (''password'', ''db_password_var''), (''bucket'', ''db_bucket_var'')]"

definition bootstrap_keys :: "(string \<times> string) list" where
  "bootstrap_keys = map (\<lambda>k. (k, k)) [''sync_gateway_config_filepath'', ''server_port'', ''server_scheme'', ''username''] @
     [(''password'', ''db_password_var'')] @
     map (\<lambda>k. (k, k)) [''sg_cert_path'', ''sslcert'', ''sslkey'', ''prometheus'', ''hide_product_version'', ''tls'', ''bucket_list'',
     ''disable_persistent_config'', ''x509_auth'', ''x509_certs_dir'', ''couchbase_server_primary_node'', ''logging'', ''autoimport'', ''xattrs'',
     ''no_conflicts'', ''sg_use_views'', ''num_index_replicas'', ''disable_tls_server'', ''certpath'', ''keypath'', ''cacertpath'', ''delta_sync'',
     ''revs_limit'', ''server_tls_skip_verify'', ''disable_admin_auth'', ''groupid'']"

text \<open>The user of the databases: their variables are set even with certificates, to empty values.\<close>

definition node_user :: "py_runtime \<Rightarrow> pyval \<Rightarrow> vars \<Rightarrow> vars res" where
  "node_user rt bucket_names v = bindR (py_first bucket_names) (\<lambda>b. Inr
     (set_var ''password_var'' ''password'' (dict_set (set_var ''username'' (quoted_var ''username'' (py_str rt b)) v) ''username_var'' b)))"

definition db_user_step :: "py_runtime \<Rightarrow> pyval \<Rightarrow> vars \<Rightarrow> vars res" where
  "db_user_step rt bucket_names v = bindR (py_first bucket_names) (\<lambda>b. Inr
     (set_var ''db_bucket_var'' (quoted_var ''bucket'' (py_str rt b))
       (set_var ''db_password_var'' (quoted_var ''password'' (py_str rt (var_of v ''password_var'')))
         (set_var ''db_username_var'' (quoted_var ''username'' (py_str rt (var_of v ''username_var''))) v))))"

definition sgwconfig_vars :: "'w prov_ops \<Rightarrow> string \<Rightarrow> pyval \<Rightarrow> pyval \<Rightarrow> vars \<Rightarrow> ('w, vars) prov" where
  "sgwconfig_vars ops cc platform bucket_names v =
     bindIO (cfg_steps (\<lambda>env. [logging_step (env_runtime env) (choose_logging_level env cc) (get_redact_level env cc)]) v) (\<lambda>v.
     bindIO (x509_step ops cc new_cert_keys home_directory platform bucket_names (\<lambda>env. node_user (env_runtime env) bucket_names) v) (\<lambda>v.
     bindIO (text_ssl_step ops cc (\<lambda>env. truth_of (is_cbs_ssl_enabled env cc)) platform v) (\<lambda>v.
     cfg_steps (\<lambda>env. [ssl_step (https_text 28 24) (sg_ssl_enabled env cc) (is_centralized_persistent_config_disabled env cc),
        group_step (env_runtime env) bucket_names,
        when_step (truth_of (is_hide_prod_version_enabled env cc)) ''hide_product_version'' (raw_var ''hide_product_version'' ''true''),
        bucket_list_step (env_runtime env) bucket_names] @ v3_steps env cc (\<lambda>env. get_sg_version env cc) @
       [when_step (at_least (get_sg_version env cc) ''2.8.0'') ''prometheus'' (quoted_var ''metrics_interface'' '':4986''),
        views_step (env_runtime env) (get_sg_use_views env cc) (get_sg_replicas env cc),
        plain_xattrs_step (is_xattrs_enabled env cc), conflicts_step (no_conflicts_enabled env cc),
        revs_limit_step (env_runtime env) (get_revs_limit env cc) id,
        when_step (both (is_delta_sync_enabled env cc) (at_least (get_sg_version env cc) ''2.5.0'')) ''delta_sync'' delta_text,
        db_user_step (env_runtime env) bucket_names]) v)))"

definition setup_sgwconfig_db_config :: "'w prov_ops \<Rightarrow> string \<Rightarrow> string \<Rightarrow> pyval \<Rightarrow> ('w, vars \<times> pyval \<times> string) prov" where
  "setup_sgwconfig_db_config ops cc sg_config_path use_config =
     (let config_path_full = abspath (po_cwd ops) sg_config_path in
      bindIO (load_config ops config_path_full []) (\<lambda>_.
      bindIO (get_buckets_from_sync_gateway_config ops sg_config_path) (\<lambda>bucket_names.
      bindIO (cfg (\<lambda>env. config_paths env sg_config_path use_config)) (\<lambda>(cpc_sgw_config_path, _).
      bindIO (cfg (\<lambda>env. read_text (po_text ops) env (file_key (po_cwd ops) config_path_full))) (\<lambda>sgw_config_data.
      bindIO (cfg (\<lambda>env. add_cbs_to_sg_config_server_field env cc)) (\<lambda>node.
      bindIO (cfg (\<lambda>env. truth_of (is_cbs_ssl_enabled env cc))) (\<lambda>ssl.
      bindIO (cfg (\<lambda>env. get_cbs_primary_nodes_str env cc node)) (\<lambda>node.
      bindIO (cfg (\<lambda>env. get_sg_platform env cc)) (\<lambda>platform.
      bindIO (sgwconfig_vars ops cc platform bucket_names
        (sgwconfig_locals ops (abspath (po_cwd ops) cpc_sgw_config_path) (if ssl then ''couchbases'' else ''couchbase'') node)) (\<lambda>v.
      bindIO (liftIO (po_render ops (pick_vars template_args v) sgw_config_data)) (\<lambda>sgw_config_data.
      bindIO (on_files (seperate_sgw_and_db_config sgw_config_data)) (\<lambda>(_, database_config).
      bindIO (nap ops 5) (\<lambda>_.
      returnIO (pick_vars bootstrap_keys v, database_config, sgw_config_data))))))))))))))"

section \<open>Sending the configuration of the databases\<close>

text \<open>
  \<open>roles_cfg\<close>, \<open>users_cfg\<close> and \<open>orig_sgw_db_config\<close> with the flags that say whether they exist. The flags are cleared
  once per Sync Gateway, not for each database.
\<close>

record db_extras =
  dx_roles :: "pyval option"
  dx_users :: "pyval option"
  dx_oidc :: "pyval option"

definition no_extras :: db_extras where
  "no_extras = \<lparr>dx_roles = None, dx_users = None, dx_oidc = None\<rparr>"

definition server_keys :: "string list" where
  "server_keys = [''server'', ''username'', ''password'', ''ca_cert_path'', ''x509_key_path'', ''x509_cert_path'']"

definition taken :: "string \<Rightarrow> vars \<Rightarrow> pyval option \<Rightarrow> pyval option" where
  "taken k d old = (case dict_get d k of Some x \<Rightarrow> Some x | None \<Rightarrow> old)"

text \<open>What is taken out of the configuration of a database before it is sent.\<close>

definition split_db_config :: "vars \<Rightarrow> db_extras \<Rightarrow> vars \<times> db_extras" where
  "split_db_config d x =
     (let d = foldl dict_del d server_keys;
          r = taken ''roles'' d (dx_roles x); d = dict_del d ''roles'';
          u = taken ''users'' d (dx_users x); d = dict_del d ''users'';
          c = (if dict_has d ''oidc'' then Some (PDict d) else dx_oidc x); d = dict_del d ''oidc''
      in (d, \<lparr>dx_roles = r, dx_users = u, dx_oidc = c\<rparr>))"

definition sub_item :: "pyval \<Rightarrow> pyval \<Rightarrow> string \<Rightarrow> pyval res" where
  "sub_item v k field = bindR (bindR (as_dict v) (\<lambda>d. map_item d k)) (\<lambda>u. py_item u field)"

definition create_roles :: "'w admin_env \<Rightarrow> string \<Rightarrow> pyval \<Rightarrow> ('w, unit) admin_io" where
  "create_roles ae sg_db roles_cfg = for_in roles_cfg (\<lambda>role.
     bindIO (liftIO (sub_item roles_cfg role ''admin_channels'')) (\<lambda>ch.
     Admin_create_role ae sg_db (py_str (http_runtime (ae_http ae)) role) ch))"

definition register_one :: "'w admin_env \<Rightarrow> string \<Rightarrow> string \<Rightarrow> bool \<Rightarrow> pyval \<Rightarrow> pyval \<Rightarrow> ('w, unit) admin_io" where
  "register_one ae ip sg_db roles_exist users_cfg user =
     (let name = py_str (http_runtime (ae_http ae)) user in
      if roles_exist then
        bindIO (liftIO (sub_item users_cfg user ''password'')) (\<lambda>pw.
        bindIO (liftIO (sub_item users_cfg user ''admin_channels'')) (\<lambda>ch.
        bindIO (liftIO (sub_item users_cfg user ''admin_roles'')) (\<lambda>rs.
        bindIO (Admin_register_user ae ip sg_db name pw ch rs) (\<lambda>_. returnIO ()))))
      else tryIO
        (bindIO (liftIO (sub_item users_cfg user ''password'')) (\<lambda>pw.
         bindIO (liftIO (sub_item users_cfg user ''admin_channels'')) (\<lambda>ch.
         bindIO (Admin_register_user ae ip sg_db name pw ch (PList [])) (\<lambda>_. returnIO ()))))
        (\<lambda>e. if exn_class e = ''KeyError'' then
             bindIO (liftIO (sub_item users_cfg user ''admin_channels'')) (\<lambda>ch.
             bindIO (Admin_register_user ae ip sg_db name PNone ch (PList [])) (\<lambda>_. returnIO ()))
           else raiseIO e))"

definition create_users :: "'w admin_env \<Rightarrow> string \<Rightarrow> string \<Rightarrow> bool \<Rightarrow> pyval \<Rightarrow> ('w, unit) admin_io" where
  "create_users ae ip sg_db roles_exist users_cfg = for_in users_cfg (register_one ae ip sg_db roles_exist users_cfg)"

definition for_some :: "'a option \<Rightarrow> ('a \<Rightarrow> ('w, unit) io) \<Rightarrow> ('w, unit) io" where
  "for_some x f = (case x of None \<Rightarrow> returnIO () | Some a \<Rightarrow> f a)"

definition send_db :: "'w admin_env \<Rightarrow> string \<Rightarrow> string \<Rightarrow> vars \<Rightarrow> db_extras \<Rightarrow> ('w, unit) admin_io" where
  "send_db ae ip sg_db d x =
     bindIO (tryIO (Admin_create_db ae sg_db (PDict d))
       (\<lambda>e. if exn_class e = ''HTTPError'' then Admin_put_db_config ae sg_db (PDict d) else raiseIO e)) (\<lambda>_.
     bindIO (for_some (dx_oidc x) (\<lambda>c. bindIO (Admin_put_db_config ae sg_db c) (\<lambda>_. returnIO ()))) (\<lambda>_.
     bindIO (Admin_get_db_info ae sg_db) (\<lambda>db_info.
     bindIO (liftIO (py_item db_info ''state'')) (\<lambda>st.
     if py_eq st (PStr ''Online'') then
       bindIO (for_some (dx_roles x) (create_roles ae sg_db)) (\<lambda>_.
       for_some (dx_users x) (create_users ae ip sg_db (dx_roles x \<noteq> None)))
     else returnIO ()))))"

definition send_next_db :: "'w admin_env \<Rightarrow> string \<Rightarrow> vars \<times> db_extras \<Rightarrow> string \<Rightarrow> ('w, vars \<times> db_extras) admin_io" where
  "send_next_db ae ip st sg_db = (case st of (sgw_db_config, x) \<Rightarrow>
     bindIO (liftIO (bindR (dict_index sgw_db_config sg_db) (\<lambda>c. dict_attr c ''keys''))) (\<lambda>d.
     let (d', x') = split_db_config d x in
     bindIO (send_db ae ip sg_db d' x') (\<lambda>_. returnIO (dict_set sgw_db_config sg_db (PDict d'), x'))))"

definition drop_other_dbs :: "'w admin_env \<Rightarrow> vars \<Rightarrow> ('w, unit) admin_io" where
  "drop_other_dbs ae sgw_db_config = bindIO (Admin_get_dbs ae) (\<lambda>db_list.
     for_in db_list (\<lambda>single_db. bindIO (liftIO (py_hashable single_db)) (\<lambda>_.
       if (case single_db of PStr s \<Rightarrow> dict_has sgw_db_config s | _ \<Rightarrow> False) then returnIO ()
       else bindIO (Admin_delete_db ae (py_str (http_runtime (ae_http ae)) single_db)) (\<lambda>_. returnIO ()))))"

definition send_to_node :: "'w admin_env \<Rightarrow> string \<Rightarrow> string \<Rightarrow> vars \<Rightarrow> ('w, vars) admin_io" where
  "send_to_node ae cc ip sgw_db_config =
     bindIO (liftIO (truth_of (is_admin_auth_disabled (ae_config ae) cc))) (\<lambda>disabled.
     bindIO (if \<not> disabled then self_set (\<lambda>a. a\<lparr>adm_auth := RBAC_FULL_ADMIN_auth\<rparr>) else returnIO ()) (\<lambda>_.
     bindIO (drop_other_dbs ae sgw_db_config) (\<lambda>_.
     bindIO (Admin_get_dbs ae) (\<lambda>_.
     bindIO (foldIO (send_next_db ae ip) (sgw_db_config, no_extras) (dict_keys sgw_db_config)) (\<lambda>(sgw_db_config, _).
     bindIO (Admin_get_dbs ae) (\<lambda>_. returnIO sgw_db_config))))))"

definition send_dbconfig_as_restCall :: "'w prov_ops \<Rightarrow> string \<Rightarrow> pyval \<Rightarrow> sg_node list \<Rightarrow> ('w, sg_node list) prov" where
  "send_dbconfig_as_restCall ops cc db_config_json sync_gateways =
     bindIO (cfg (\<lambda>env. truth_of (is_admin_auth_disabled env cc))) (\<lambda>_.
     bindIO (self_get ps_env) (\<lambda>env. let ae = admin_env_of ops env in
     bindIO (if sync_gateways = [] then returnIO [] else liftIO (dict_attr db_config_json ''keys'')) (\<lambda>d.
     bindIO (foldIO (\<lambda>(d, done) sg.
         bindIO (on_world (with_admin (send_to_node ae cc (py_str (env_runtime env) (sgn_ip sg)) d) sg)) (\<lambda>(d', sg'). returnIO (d', done @ [sg'])))
       (d, []) sync_gateways) (\<lambda>(_, done). returnIO done))))"

definition create_logging_config :: "'w http \<Rightarrow> pyval \<Rightarrow> sg_node list \<Rightarrow> ('w, unit) io" where
  "create_logging_config http logging_config_json sync_gateways =
     forIO sync_gateways (\<lambda>sg. bindIO (create_logging_with_rest http (adm_url (sgn_admin sg)) logging_config_json) (\<lambda>_. returnIO ()))"

section \<open>Starting and restarting\<close>

definition node_config :: "('w, vars \<times> pyval \<times> string) prov \<Rightarrow> ('w, vars) prov \<Rightarrow> bool \<Rightarrow> ('w, vars \<times> pyval option) prov" where
  "node_config two one persistent =
     (if persistent then bindIO two (\<lambda>(v, db, _). returnIO (v, Some db)) else bindIO one (\<lambda>v. returnIO (v, None)))"

definition unbound :: "string \<Rightarrow> exn" where
  "unbound x = Exn ''UnboundLocalError'' (''local variable '' @ repr_str x @ '' referenced before assignment'')"

definition send_own_config :: "'w prov_ops \<Rightarrow> string \<Rightarrow> sg_node \<Rightarrow> pyval option \<Rightarrow> ('w, sg_node) prov" where
  "send_own_config ops cc sg db =
     bindIO (cfg (\<lambda>env. persistent_config env cc (get_sg_version env cc))) (\<lambda>p.
     if p then (case db of
         None \<Rightarrow> raiseIO (unbound ''db_config_json'')
       | Some c \<Rightarrow> bindIO (send_dbconfig_as_restCall ops cc c [sg]) (\<lambda>sgs. returnIO (hd sgs)))
     else returnIO sg)"

definition SyncGateway_start :: "'w prov_ops \<Rightarrow> sg_node \<Rightarrow> string \<Rightarrow> ('w, int \<times> sg_node) prov" where
  "SyncGateway_start ops sg config =
     (let cc = sgn_config sg in
      bindIO (cfg (\<lambda>env. persistent_config env cc (get_sg_version env cc))) (\<lambda>p.
      bindIO (node_config (setup_sgwconfig_db_config ops cc config (PBool False)) (start_vars ops sg config) p) (\<lambda>(playbook_vars, db).
      bindIO (run_ansible_playbook ops cc ''start-sync-gateway.yml'' (Some playbook_vars) (sgn_hostname sg)) (\<lambda>status.
      if status = 0 then bindIO (send_own_config ops cc sg db) (\<lambda>sg'. returnIO (status, sg'))
      else returnIO (status, sg)))))"

text \<open>\<open>restart\<close> turns any exception of the database configuration into the status \<open>-1\<close>.\<close>

definition SyncGateway_restart :: "'w prov_ops \<Rightarrow> sg_node \<Rightarrow> string \<Rightarrow> string option \<Rightarrow> pyval \<Rightarrow> ('w, int \<times> sg_node) prov" where
  "SyncGateway_restart ops sg config cluster_config use_config =
     (let cc = (case cluster_config of None \<Rightarrow> sgn_config sg | Some c \<Rightarrow> c) in
      bindIO (cfg (\<lambda>env. persistent_config env cc (get_sg_version env cc))) (\<lambda>p.
      bindIO (node_config (setup_sgwconfig_db_config ops cc config use_config) (restart_vars ops sg cc config) p) (\<lambda>(playbook_vars, db).
      bindIO (run_ansible_playbook ops (sgn_config sg) ''reset-sync-gateway.yml'' (Some playbook_vars) (sgn_hostname sg)) (\<lambda>status.
      if status = 0 then
        bindIO (cfg (\<lambda>env. persistent_config env cc (get_sg_version env cc))) (\<lambda>p.
        if p then tryIO (case db of
              None \<Rightarrow> raiseIO (unbound ''db_config_json'')
            | Some c \<Rightarrow> bindIO (send_dbconfig_as_restCall ops cc c [sg]) (\<lambda>sgs. returnIO (status, hd sgs)))
          (\<lambda>_. returnIO (-1, sg))
        else returnIO (status, sg))
      else returnIO (status, sg)))))"

section \<open>Which databases get which roles and users\<close>

text \<open>The last answer that exists.\<close>

fun latest :: "('a \<Rightarrow> 'b option) \<Rightarrow> 'b option \<Rightarrow> 'a list \<Rightarrow> 'b option" where
  "latest f old [] = old"
| "latest f old (d # ds) = latest f (case f d of Some x \<Rightarrow> Some x | None \<Rightarrow> old) ds"

text \<open>What is sent of a database, and what its OpenID configuration is sent with afterwards.\<close>

definition strip_db :: "vars \<Rightarrow> vars" where
  "strip_db d = foldl dict_del d (server_keys @ [''roles'', ''users'', ''oidc''])"

definition oidc_of :: "vars \<Rightarrow> pyval option" where
  "oidc_of d = (if dict_has d ''oidc'' then Some (PDict (foldl dict_del d (server_keys @ [''roles'', ''users'']))) else None)"

definition extras_after :: "db_extras \<Rightarrow> vars list \<Rightarrow> db_extras" where
  "extras_after x ds = \<lparr>dx_roles = latest (\<lambda>d. dict_get d ''roles'') (dx_roles x) ds, dx_users = latest (\<lambda>d. dict_get d ''users'') (dx_users x) ds,
     dx_oidc = latest oidc_of (dx_oidc x) ds\<rparr>"

lemma extras_after_Nil: "extras_after x [] = x"
  by (simp add: extras_after_def)

lemma extras_after_Cons: "extras_after x (d # ds) = extras_after (extras_after x [d]) ds"
  by (simp add: extras_after_def)

lemma dict_get_del: "dict_get (dict_del d k) k' = (if k' = k then None else dict_get d k')"
  by (simp add: dict_get_def)

lemma dict_has_get: "dict_has d k \<longleftrightarrow> dict_get d k \<noteq> None"
  by (simp add: dict_has_def dict_get_def)

lemma split_db_config_eq: "split_db_config d x = (strip_db d, extras_after x [d])"
  by (simp add: split_db_config_def Let_def strip_db_def extras_after_def taken_def oidc_of_def dict_has_get dict_get_del server_keys_def)

fun send_plan :: "db_extras \<Rightarrow> (string \<times> vars) list \<Rightarrow> (string \<times> vars \<times> db_extras) list" where
  "send_plan x [] = []"
| "send_plan x ((k, d) # dbs) = (k, strip_db d, extras_after x [d]) # send_plan (extras_after x [d]) dbs"

lemma send_plan_eq:
  "send_plan x dbs = map (\<lambda>i. (fst (dbs ! i), strip_db (snd (dbs ! i)), extras_after x (map snd (take (Suc i) dbs)))) [0..<length dbs]"
proof (induction x dbs rule: send_plan.induct)
  case (2 x k d dbs)
  have "[0..<length ((k, d) # dbs)] = 0 # map Suc [0..<length dbs]"
    by (simp add: upt_conv_Cons map_Suc_upt del: upt_Suc)
  then show ?case
    by (simp only: send_plan.simps 2 list.map map_map o_def nth_Cons_Suc nth_Cons_0 take_Suc_Cons fst_conv snd_conv)
      (simp add: extras_after_Cons [of x d "map _ _"])
qed simp

lemma dict_set_middle: "k \<notin> set (map fst xs) \<Longrightarrow> dict_set (xs @ (k, v) # ys) k v' = xs @ (k, v') # ys"
  by (induction xs) (auto simp: dict_set_def)

lemma send_databases_aux:
  assumes "distinct (map fst (done @ dbs))"
  shows "foldIO (send_next_db ae ip) (map (\<lambda>(k, d). (k, PDict d)) (done @ dbs), x) (map fst dbs) =
    bindIO (forIO (send_plan x dbs) (\<lambda>(k, d, y). send_db ae ip k d y))
      (\<lambda>_. returnIO (map (\<lambda>(k, d). (k, PDict d)) (done @ map (\<lambda>(k, d). (k, strip_db d)) dbs), extras_after x (map snd dbs)))"
  using assms
proof (induction dbs arbitrary: "done" x)
  case Nil
  show ?case by (rule ext) (simp add: bindIO_def extras_after_Nil)
next
  case (Cons kd dbs)
  obtain k d where kd: "kd = (k, d)" by (cases kd)
  let ?P = "map (\<lambda>(k, d). (k, PDict d))"
  have k: "k \<notin> set (map fst (?P done))" using Cons.prems kd by (auto simp: image_iff)
  then have "map_of (?P done) k = None" by (simp only: map_of_eq_None_iff set_map image_comp) simp
  then have idx: "dict_index (?P (done @ kd # dbs)) k = Inr (PDict d)"
    by (simp add: dict_index_def kd map_add_def)
  have set: "dict_set (?P (done @ kd # dbs)) k (PDict (strip_db d)) = ?P ((done @ [(k, strip_db d)]) @ dbs)"
    using dict_set_middle [OF k] by (simp add: kd)
  have IH: "foldIO (send_next_db ae ip) (?P ((done @ [(k, strip_db d)]) @ dbs), extras_after x [d]) (map fst dbs) =
    bindIO (forIO (send_plan (extras_after x [d]) dbs) (\<lambda>(k, d, y). send_db ae ip k d y))
      (\<lambda>_. returnIO (?P ((done @ [(k, strip_db d)]) @ map (\<lambda>(k, d). (k, strip_db d)) dbs), extras_after (extras_after x [d]) (map snd dbs)))"
    by (rule Cons.IH) (use Cons.prems kd in auto)
  have "send_next_db ae ip (?P (done @ kd # dbs), x) k = bindIO (send_db ae ip k (strip_db d) (extras_after x [d]))
      (\<lambda>_. returnIO (?P ((done @ [(k, strip_db d)]) @ dbs), extras_after x [d]))"
    unfolding send_next_db_def prod.case idx set [symmetric] by (simp add: dict_attr_def split_db_config_eq)
  then have "foldIO (send_next_db ae ip) (?P (done @ kd # dbs), x) (map fst (kd # dbs)) =
      bindIO (send_db ae ip k (strip_db d) (extras_after x [d])) (\<lambda>_. foldIO (send_next_db ae ip) (?P ((done @ [(k, strip_db d)]) @ dbs), extras_after x [d]) (map fst dbs))"
    by (simp only: kd list.map foldIO.simps fst_conv bindIO_assoc bindIO_return)
  then show ?case
    by (simp only: IH [unfolded append_assoc append_Cons append_Nil] kd send_plan.simps forIO.simps prod.case list.map snd_conv extras_after_Cons [of x d "map snd dbs"] bindIO_assoc append_assoc append_Cons append_Nil)
qed

text \<open>
  C12: A Sync Gateway is sent its databases one after the other, each without the settings of the server, its roles, users
  and OpenID configuration. The roles, users and OpenID configuration that are sent afterwards are those of the latest
  database so far that has any: a database without roles gets the roles of an earlier one.
\<close>

theorem databases_share_extras:
  assumes "distinct (map fst dbs)" and "config = map (\<lambda>(k, d). (k, PDict d)) dbs"
  shows "foldIO (send_next_db ae ip) (config, no_extras) (dict_keys config) =
    bindIO (forIO (map (\<lambda>i. (fst (dbs ! i), strip_db (snd (dbs ! i)), extras_after no_extras (map snd (take (Suc i) dbs)))) [0..<length dbs])
        (\<lambda>(k, d, x). send_db ae ip k d x))
      (\<lambda>_. returnIO (map (\<lambda>(k, d). (k, PDict (strip_db d))) dbs, extras_after no_extras (map snd dbs)))"
proof -
  have keys: "dict_keys (map (\<lambda>(k, d). (k, PDict d)) dbs) = map fst dbs" by (simp add: o_def case_prod_beta)
  have stripped: "map (\<lambda>(k, d). (k, PDict d)) (map (\<lambda>(k, d). (k, strip_db d)) dbs) = map (\<lambda>(k, d). (k, PDict (strip_db d))) dbs"
    by (simp add: o_def case_prod_beta)
  show ?thesis
    using send_databases_aux [of "[]" dbs ae ip no_extras, unfolded append_Nil, OF assms(1)]
    by (simp only: keys assms(2) send_plan_eq append_Nil stripped simp_thms)
qed

text \<open>The database \<open>db2\<close> has no roles and is sent with those of \<open>db1\<close>.\<close>

theorem databases_share_extras_witness:
  "\<forall>ae ip. foldIO (send_next_db ae ip)
      ([(''db1'', PDict [(''bucket'', PStr ''b1''), (''roles'', PDict [(''r1'', PDict [])])]), (''db2'', PDict [(''bucket'', PStr ''b2'')])], no_extras)
      [''db1'', ''db2''] =
    bindIO (send_db ae ip ''db1'' [(''bucket'', PStr ''b1'')] (no_extras\<lparr>dx_roles := Some (PDict [(''r1'', PDict [])])\<rparr>)) (\<lambda>_.
      bindIO (send_db ae ip ''db2'' [(''bucket'', PStr ''b2'')] (no_extras\<lparr>dx_roles := Some (PDict [(''r1'', PDict [])])\<rparr>)) (\<lambda>_.
        returnIO ([(''db1'', PDict [(''bucket'', PStr ''b1'')]), (''db2'', PDict [(''bucket'', PStr ''b2'')])],
          no_extras\<lparr>dx_roles := Some (PDict [(''r1'', PDict [])])\<rparr>)))"
proof -
  let ?dbs = "[(''db1'', [(''bucket'', PStr ''b1''), (''roles'', PDict [(''r1'', PDict [])])]), (''db2'', [(''bucket'', PStr ''b2'')])]"
  have "distinct (map fst ?dbs)" by simp
  note sent = databases_share_extras [OF this refl]
  have upt: "[0..<length ?dbs] = [0, 1]" by (simp add: upt_conv_Cons)
  have strip: "strip_db [(''bucket'', PStr ''b1''), (''roles'', PDict [(''r1'', PDict [])])] = [(''bucket'', PStr ''b1'')]"
    "strip_db [(''bucket'', PStr ''b2'')] = [(''bucket'', PStr ''b2'')]"
    by (simp_all add: strip_db_def server_keys_def dict_del_def)
  show ?thesis
    by (intro allI ext, rule trans [OF fun_cong [OF trans [OF _ sent [unfolded upt]]]])
      (auto simp: strip extras_after_def oidc_of_def no_extras_def dict_get_def dict_has_def bindIO_def split: prod.splits sum.splits)
qed

end
