(* ===== verification/Sg_Sync.thy ===== *)
theory Sg_Sync
  imports Sg_Node
begin

text \<open>
  \<open>libraries/testkit/syncgateway.py\<close>, continued: replications between Sync Gateways, bounded waiting for documents and
  tasks, the configuration of one database from its template, and the command line of the program.
\<close>

section \<open>Replications\<close>

definition post_replicate :: "'w http \<Rightarrow> string \<Rightarrow> pyval \<Rightarrow> ('w, http_response) io" where
  "post_replicate http sg_url data =
     bindIO (liftIO (json_dumps (http_runtime http) data)) (\<lambda>d. checked (http_send http (with_data d (rq ''POST'' (path [sg_url, ''_replicate''])))))"

definition replicate_json :: "'w http \<Rightarrow> string \<Rightarrow> pyval \<Rightarrow> ('w, pyval) io" where
  "replicate_json http sg_url data = bindIO (post_replicate http sg_url data) (\<lambda>r. liftIO (resp_json http r))"

definition sg_base_url :: "sg_node \<Rightarrow> bool \<Rightarrow> string" where
  "sg_base_url sg use_admin_url = (if use_admin_url then adm_url (sgn_admin sg) else sgn_url sg)"

definition by_channel :: "pyval \<Rightarrow> vars" where
  "by_channel channels = [(''filter'', PStr ''sync_gateway/bychannel''), (''query_params'', channels)]"

text \<open>\<open>None\<close> is replaced by an empty list, which adds no filter.\<close>

definition feed_channels :: "pyval \<Rightarrow> vars res" where
  "feed_channels channels = (if channels = PNone then Inr [] else bindR (py_len channels) (\<lambda>n. Inr (if n > 0 then by_channel channels else [])))"

definition SyncGateway_start_push_replication :: "'w http \<Rightarrow> sg_node \<Rightarrow> string \<Rightarrow> string \<Rightarrow> string \<Rightarrow> pyval \<Rightarrow> bool \<Rightarrow> pyval \<Rightarrow> pyval \<Rightarrow> bool \<Rightarrow> ('w, pyval) io" where
  "SyncGateway_start_push_replication http sg target source_db target_db cont use_remote_source channels repl_async use_admin_url =
     (let sg_url = sg_base_url sg use_admin_url in
      bindIO (liftIO (feed_channels channels)) (\<lambda>fl.
      replicate_json http sg_url (PDict ([(''target'', PStr (path [target, target_db])), (''continuous'', cont),
        (''source'', PStr (if use_remote_source then path [sg_url, source_db] else source_db))] @ fl @
        (if repl_async = PBool True then [(''async'', PBool True)] else [])))))"

definition SyncGateway_stop_push_replication :: "'w http \<Rightarrow> sg_node \<Rightarrow> string \<Rightarrow> string \<Rightarrow> string \<Rightarrow> pyval \<Rightarrow> bool \<Rightarrow> bool \<Rightarrow> ('w, pyval) io" where
  "SyncGateway_stop_push_replication http sg target source_db target_db cont use_remote_source use_admin_url =
     (let sg_url = sg_base_url sg use_admin_url in
      replicate_json http sg_url (PDict [(''target'', PStr (path [target, target_db])), (''cancel'', PBool True), (''continuous'', cont),
        (''source'', PStr (if use_remote_source then path [sg_url, source_db] else source_db))]))"

text \<open>On the public port the name and password go into the address.\<close>

definition with_credentials :: "py_runtime \<Rightarrow> string \<Rightarrow> pyval \<Rightarrow> pyval \<Rightarrow> string" where
  "with_credentials rt url user password = replace_str ''://'' (''://'' @ py_str rt user @ '':'' @ py_str rt password @ ''@'') url"

definition public_url :: "py_runtime \<Rightarrow> string \<Rightarrow> pyval \<Rightarrow> pyval \<Rightarrow> string res" where
  "public_url rt url user password =
     (if contains_str url ''4984'' then
        if \<not> py_truth user \<or> \<not> py_truth password then raise_exc ''Exception'' ''username and password not provided for the source''
        else Inr (with_credentials rt url user password)
      else Inr url)"

definition SyncGateway_start_pull_replication :: "'w http \<Rightarrow> sg_node \<Rightarrow> string \<Rightarrow> string \<Rightarrow> string \<Rightarrow> pyval \<Rightarrow> bool \<Rightarrow> bool \<Rightarrow> pyval \<Rightarrow> pyval \<Rightarrow> pyval \<Rightarrow>
    ('w, pyval) io" where
  "SyncGateway_start_pull_replication http sg source_url source_db target_db cont use_remote_target use_admin_url user password channels =
     (let sg_url = sg_base_url sg use_admin_url in
      bindIO (liftIO (public_url (http_runtime http) source_url user password)) (\<lambda>source_url.
      bindIO (liftIO (feed_channels channels)) (\<lambda>fl.
      replicate_json http sg_url (PDict ([(''source'', PStr (path [source_url, source_db])), (''continuous'', cont),
        (''target'', PStr (if use_remote_target then path [sg_url, target_db] else target_db))] @ fl)))))"

definition SyncGateway_stop_pull_replication :: "'w http \<Rightarrow> sg_node \<Rightarrow> string \<Rightarrow> string \<Rightarrow> string \<Rightarrow> pyval \<Rightarrow> bool \<Rightarrow> bool \<Rightarrow> ('w, pyval) io" where
  "SyncGateway_stop_pull_replication http sg source_url source_db target_db cont use_remote_target use_admin_url =
     (let sg_url = sg_base_url sg use_admin_url in
      replicate_json http sg_url (PDict [(''source'', PStr (path [source_url, source_db])), (''cancel'', PBool True), (''continuous'', cont),
        (''target'', PStr (if use_remote_target then path [sg_url, target_db] else target_db))]))"

definition SyncGateway_stop_replication_by_id :: "'w http \<Rightarrow> sg_node \<Rightarrow> string \<Rightarrow> bool \<Rightarrow> ('w, unit) io" where
  "SyncGateway_stop_replication_by_id http sg replication_id use_admin_url =
     bindIO (post_replicate http (sg_base_url sg use_admin_url) (PDict [(''replication_id'', PStr replication_id), (''cancel'', PBool True)])) (\<lambda>_. returnIO ())"

definition SyncGateway_get_num_docs :: "'w http \<Rightarrow> sg_node \<Rightarrow> string \<Rightarrow> ('w, pyval) io" where
  "SyncGateway_get_num_docs http sg db =
     bindIO (checked_json http (http_send http (bare_rq ''GET'' (path [sgn_url sg, db, ''_all_docs''])))) (\<lambda>v. liftIO (py_item v ''total_rows''))"

definition SyncGateway_start_replication :: "'w http \<Rightarrow> sg_node \<Rightarrow> string \<Rightarrow> string \<Rightarrow> string \<Rightarrow> string \<Rightarrow> pyval \<Rightarrow> pyval \<Rightarrow> pyval \<Rightarrow> pyval \<Rightarrow> pyval \<Rightarrow>
    ('w, pyval) io" where
  "SyncGateway_start_replication http sg remote_url current_db remote_db direction cont channels user password replication_id =
     bindIO (liftIO (public_url (http_runtime http) remote_url user password)) (\<lambda>remote_url.
     let here = (if direction = ''push'' then replace_str ''4984'' ''4985'' (sgn_url sg) else adm_url (sgn_admin sg));
         local = PStr (path [here, current_db]); remote = PStr (path [remote_url, remote_db]);
         (source, target) = (if direction = ''push'' then (local, remote) else (remote, local)) in
     replicate_json http (adm_url (sgn_admin sg)) (PDict ([(''source'', source), (''continuous'', cont), (''target'', target)] @
       (if channels \<noteq> PNone then by_channel channels else []) @
       (if replication_id \<noteq> PNone then [(''replication_id'', replication_id)] else []))))"

section \<open>Replications of version 2.8\<close>

record repl2_args =
  r2_direction :: pyval
  r2_purge_on_removal :: pyval
  r2_continuous :: pyval
  r2_channels :: pyval
  r2_conflict_resolution_type :: pyval
  r2_custom_conflict_resolver :: pyval
  r2_adhoc :: pyval
  r2_delta_sync :: pyval
  r2_replication_id :: "string option"
  r2_max_backoff_time :: pyval
  r2_user_credentials_url :: bool
  r2_collections_enabled :: pyval
  r2_collections_local :: "pyval list"
  r2_collections_remote :: "pyval list"

definition repl2_remote :: "py_runtime \<Rightarrow> repl2_args \<Rightarrow> string \<Rightarrow> string \<Rightarrow> pyval \<Rightarrow> pyval \<Rightarrow> string res" where
  "repl2_remote rt a remote_url remote_db remote_user remote_password =
     (if contains_str remote_url ''4984'' then
        if py_truth remote_user \<and> py_truth remote_password then
          Inr (path [if r2_user_credentials_url a then with_credentials rt remote_url remote_user remote_password else remote_url, remote_db])
        else raise_exc ''Exception'' (''No remote node'' @ [chr_squote] @ ''s username and password provided '')
      else Inr remote_url)"

definition opt_field :: "string \<Rightarrow> pyval \<Rightarrow> vars" where
  "opt_field k v = (if py_truth v then [(k, v)] else [])"

definition repl2_data :: "repl2_args \<Rightarrow> string \<Rightarrow> pyval \<Rightarrow> pyval \<Rightarrow> vars res" where
  "repl2_data a remote_url remote_user remote_password =
     (let base = [(''remote'', PStr remote_url), (''direction'', r2_direction a), (''conflict_resolution_type'', r2_conflict_resolution_type a),
            (''continuous'', r2_continuous a), (''collections_enabled'', r2_collections_enabled a),
            (''collections_local'', PList (r2_collections_local a)), (''collections_remote'', PList (r2_collections_remote a))] @
            opt_field ''purge_on_removal'' (r2_purge_on_removal a) @ (if r2_channels a \<noteq> PNone then by_channel (r2_channels a) else []) @
            opt_field ''adhoc'' (r2_adhoc a) @ opt_field ''enable_delta_sync'' (r2_delta_sync a) @
            opt_field ''max_backoff_time'' (r2_max_backoff_time a);
          cred = (if \<not> r2_user_credentials_url a then [(''username'', remote_user), (''password'', remote_password)] else [])
      in if py_eq (r2_conflict_resolution_type a) (PStr ''custom'') then
           if r2_custom_conflict_resolver a = PNone then
             raise_exc ''Exception'' ''conflict_resolution_type is selected as custom, but did not provide conflict resolver''
           else Inr (base @ [(''custom_conflict_resolver'', r2_custom_conflict_resolver a)] @ cred)
         else Inr (base @ cred))"

definition SyncGateway_start_replication2 :: "'w http \<Rightarrow> 'w clock \<Rightarrow> 'w entropy \<Rightarrow> sg_node \<Rightarrow> string \<Rightarrow> string \<Rightarrow> string \<Rightarrow> pyval \<Rightarrow> pyval \<Rightarrow> repl2_args \<Rightarrow>
    ('w, string) io" where
  "SyncGateway_start_replication2 http clk ent sg local_db remote_url remote_db remote_user remote_password a =
     bindIO (case r2_replication_id a of Some i \<Rightarrow> returnIO i
       | None \<Rightarrow> bindIO (kit_random_string ent 10 False True) (\<lambda>s. returnIO (''sgw_repl_'' @ s))) (\<lambda>replication_id.
     bindIO (liftIO (repl2_remote (http_runtime http) a remote_url remote_db remote_user remote_password)) (\<lambda>remote_url.
     if r2_collections_remote a \<noteq> [] \<and> length (r2_collections_remote a) \<noteq> length (r2_collections_local a) then
       raiseIO (Exn ''Exception'' ''explicit replication mapping requires collections_local to have the same length as collections_remote'')
     else bindIO (liftIO (repl2_data a remote_url remote_user remote_password)) (\<lambda>data.
     bindIO (liftIO (json_dumps (http_runtime http) (PDict data))) (\<lambda>d.
     bindIO (checked (http_send http ((with_data d (rq ''PUT'' (path [adm_url (sgn_admin sg), local_db, ''_replication'', replication_id])))
       \<lparr>rq_auth := adm_auth (sgn_admin sg)\<rparr>))) (\<lambda>_.
     bindIO (clk_sleep clk 1) (\<lambda>_. returnIO replication_id))))))"

definition admin_call :: "'w http \<Rightarrow> sg_node \<Rightarrow> string \<Rightarrow> string list \<Rightarrow> ('w, http_response) io" where
  "admin_call http sg meth ps =
     checked (http_send http ((bare_rq meth (path (adm_url (sgn_admin sg) # ps)))\<lparr>rq_auth := adm_auth (sgn_admin sg)\<rparr>))"

definition SyncGateway_stop_replication2_by_id :: "'w http \<Rightarrow> 'w clock \<Rightarrow> sg_node \<Rightarrow> string \<Rightarrow> string \<Rightarrow> ('w, unit) io" where
  "SyncGateway_stop_replication2_by_id http clk sg replication_id db =
     bindIO (admin_call http sg ''DELETE'' [db, ''_replication'', replication_id]) (\<lambda>_. clk_sleep clk 1)"

definition SyncGateway_get_replication2 :: "'w http \<Rightarrow> sg_node \<Rightarrow> string \<Rightarrow> ('w, pyval) io" where
  "SyncGateway_get_replication2 http sg db = bindIO (admin_call http sg ''GET'' [db, ''_replication'']) (\<lambda>r. liftIO (resp_json http r))"

definition status_action :: "string \<Rightarrow> string \<Rightarrow> string" where
  "status_action replication_id action = replication_id @ ''?action='' @ action"

definition SyncGateway_reset_replication2_checkpoint :: "'w http \<Rightarrow> 'w clock \<Rightarrow> string \<Rightarrow> string \<Rightarrow> string \<Rightarrow> auth \<Rightarrow> ('w, unit) io" where
  "SyncGateway_reset_replication2_checkpoint http clk sg_url replication_id db a =
     forIO [''stop'', ''reset'', ''start''] (\<lambda>action.
       bindIO (checked (http_send http ((bare_rq ''PUT'' (path [sg_url, db, ''_replicationStatus'', status_action replication_id action]))\<lparr>rq_auth := a\<rparr>)))
         (\<lambda>_. clk_sleep clk 1))"

definition SyncGateway_modify_replication2_status :: "'w http \<Rightarrow> 'w clock \<Rightarrow> sg_node \<Rightarrow> string \<Rightarrow> string \<Rightarrow> string \<Rightarrow> ('w, unit) io" where
  "SyncGateway_modify_replication2_status http clk sg replication_id db action =
     (if action = ''reset'' then
        SyncGateway_reset_replication2_checkpoint http clk (adm_url (sgn_admin sg)) replication_id db (adm_auth (sgn_admin sg))
      else bindIO (admin_call http sg ''PUT'' [db, ''_replicationStatus'', status_action replication_id action]) (\<lambda>_. returnIO ()))"

section \<open>Bounded waiting\<close>

text \<open>\<open>for attempt in range(n)\<close> around a check that ends the function, with a second of sleep after each failure.\<close>

fun tries :: "'w clock \<Rightarrow> ('w, bool) io \<Rightarrow> exn \<Rightarrow> nat \<Rightarrow> ('w, unit) io" where
  "tries clk check e 0 = raiseIO e"
| "tries clk check e (Suc n) = bindIO check (\<lambda>ok. if ok then returnIO () else bindIO (clk_sleep clk 1) (\<lambda>_. tries clk check e n))"

fun any_id :: "string \<Rightarrow> pyval list \<Rightarrow> bool res" where
  "any_id doc_id [] = Inr False"
| "any_id doc_id (r # rs) = bindR (py_item r ''id'') (\<lambda>i. if py_eq i (PStr doc_id) then Inr True else any_id doc_id rs)"

definition lift_clock :: "'w clock \<Rightarrow> ('s \<times> 'w) clock" where
  "lift_clock clk = \<lparr>clk_time = on_world (clk_time clk), clk_sleep = (\<lambda>d. on_world (clk_sleep clk d))\<rparr>"

definition wait_until_doc_in_changes_feed :: "'w admin_env \<Rightarrow> string \<Rightarrow> string \<Rightarrow> ('w, unit) admin_io" where
  "wait_until_doc_in_changes_feed ae db doc_id =
     tries (lift_clock (ae_clock ae)) (bindIO (Admin_get_global_changes ae db) (\<lambda>v. liftIO (bindR (py_iter v) (any_id doc_id))))
       (Exn ''Exception'' (''Tried to wait until doc '' @ doc_id @ '' showed up on changes feed, gave up'')) 10"

definition wait_until_active_tasks_empty :: "'w admin_env \<Rightarrow> ('w, unit) admin_io" where
  "wait_until_active_tasks_empty ae =
     tries (lift_clock (ae_clock ae)) (bindIO (Admin_get_active_tasks ae) (\<lambda>v. liftIO (bindR (py_len v) (\<lambda>n. Inr (n = 0)))))
       (Exn ''Exception'' ''Tried to wait until _active_tasks were empty, but they were never empty'') 10"

definition wait_until_active_tasks_non_empty :: "'w admin_env \<Rightarrow> ('w, unit) admin_io" where
  "wait_until_active_tasks_non_empty ae =
     tries (lift_clock (ae_clock ae)) (bindIO (Admin_get_active_tasks ae) (\<lambda>v. liftIO (bindR (py_len v) (\<lambda>n. Inr (n > 0)))))
       (Exn ''Exception'' ''Tried to wait until _active_tasks were non-empty, but they were never non-empty'') 10"

text \<open>Any answer but an \<open>HTTPError\<close> ends the waiting.\<close>

definition got_doc :: "'w http \<Rightarrow> string \<Rightarrow> ('w, bool) user_io" where
  "got_doc http doc_id =
     tryIO (bindIO (User_get_doc http doc_id) (\<lambda>_. returnIO True)) (\<lambda>e. if exn_class e = ''HTTPError'' then returnIO False else raiseIO e)"

definition wait_until_doc_sync :: "'w http \<Rightarrow> 'w clock \<Rightarrow> string \<Rightarrow> ('w, unit) user_io" where
  "wait_until_doc_sync http clk doc_id =
     tries (lift_clock clk) (got_doc http doc_id) (Exn ''Exception'' (''Waited for doc '' @ doc_id @ '' to sync, but it never did'')) 100"

definition wait_until_docs_sync :: "'w http \<Rightarrow> 'w clock \<Rightarrow> string list \<Rightarrow> ('w, unit) user_io" where
  "wait_until_docs_sync http clk doc_ids = forIO doc_ids (wait_until_doc_sync http clk)"

definition assert_does_not_have_doc :: "'w http \<Rightarrow> string \<Rightarrow> ('w, unit) user_io" where
  "assert_does_not_have_doc http doc_id = bindIO (got_doc http doc_id) (\<lambda>got. liftIO (py_assert (\<not> got) []))"

definition assert_has_doc :: "'w http \<Rightarrow> string \<Rightarrow> ('w, unit) user_io" where
  "assert_has_doc http doc_id = bindIO (User_get_doc http doc_id) (\<lambda>doc. liftIO
     (bindR (py_assert (doc \<noteq> PNone) []) (\<lambda>_. bindR (py_item doc ''_id'') (\<lambda>i. py_assert (py_eq i (PStr doc_id)) []))))"

section \<open>The configuration of one database\<close>

definition dbconfig_locals :: "string \<Rightarrow> pyval \<Rightarrow> vars" where
  "dbconfig_locals node bucket =
     blank [''autoimport'', ''xattrs'', ''no_conflicts'', ''sg_use_views'', ''num_index_replicas'', ''username_var''] @
     [(''password_var'', PStr ''password'')] @ blank [''cacertpath'', ''certpath'', ''keypath'', ''delta_sync'', ''server_scheme'', ''server_port'', ''revs_limit''] @
     [(''couchbase_server_primary_node'', PStr node), (''bucket_var'', bucket)]"

definition dbconfig_user :: "pyval \<Rightarrow> vars \<Rightarrow> vars res" where
  "dbconfig_user bucket_names v = bindR (py_first bucket_names) (\<lambda>b. Inr (dict_set v ''username_var'' b))"

definition dbconfig_args :: "(string \<times> string) list" where
  "dbconfig_args = map (\<lambda>k. (k, k)) [''couchbase_server_primary_node'', ''server_port'', ''server_scheme'', ''certpath'', ''keypath'', ''cacertpath''] @
     [(''username'', ''db_username_var''), (''password'', ''db_password_var''), (''bucket'', ''db_bucket_var'')] @
     map (\<lambda>k. (k, k)) [''sg_use_views'', ''num_index_replicas'', ''autoimport'', ''xattrs'', ''no_conflicts'', ''revs_limit'', ''delta_sync'']"

definition construct_dbconfig_json :: "'w prov_ops \<Rightarrow> string \<Rightarrow> string \<Rightarrow> pyval \<Rightarrow> string \<Rightarrow> ('w, pyval) prov" where
  "construct_dbconfig_json ops db_config_file cc platform sgw_config =
     (let db_config_path = SGW_DB_CONFIGS @ ''/'' @ db_config_file @ ''.json'' in
      bindIO (cfg (\<lambda>env. if dict_has (env_files env) db_config_path then Inr ()
        else raise_exc ''ValueError'' (''Could not file config: '' @ db_config_path))) (\<lambda>_.
      bindIO (cfg (\<lambda>env. primary_node env cc)) (\<lambda>node.
      bindIO (on_files (get_bucket_list_cpc sgw_config)) (\<lambda>bucket_names.
      bindIO (cfg (\<lambda>env. read_text (po_text ops) env db_config_path)) (\<lambda>db_config_data.
      bindIO (liftIO (py_first bucket_names)) (\<lambda>bucket.
      bindIO (x509_step ops cc old_cert_keys home_directory platform bucket_names (\<lambda>env. dbconfig_user bucket_names) (dbconfig_locals node bucket)) (\<lambda>v.
      bindIO (cfg (\<lambda>env. bindR (truth_of (is_cbs_ssl_enabled env cc)) (\<lambda>on. Inr (if on then text_ports v else v)))) (\<lambda>v.
      bindIO (cfg_steps (\<lambda>env. [views_step (env_runtime env) (get_sg_use_views env cc) (get_sg_replicas env cc),
        plain_xattrs_step (is_xattrs_enabled env cc), conflicts_step (no_conflicts_enabled env cc),
        revs_limit_step (env_runtime env) (get_revs_limit env cc) id,
        when_step (both (is_delta_sync_enabled env cc) (at_least (get_sg_version env cc) ''2.5.0'')) ''delta_sync'' delta_text,
        db_user_step (env_runtime env) bucket_names]) v) (\<lambda>v.
      bindIO (liftIO (po_render ops (pick_vars dbconfig_args v) db_config_data)) (\<lambda>db_config_data.
      bindIO (cfg (\<lambda>env. json_loads (env_runtime env) db_config_data)) (\<lambda>sgw_db_data.
      liftIO (py_item2 sgw_db_data ''databases'' ''db''))))))))))))"

section \<open>The command line\<close>

record sgbinary_args =
  sb_adminInterface :: "string option"
  sb_interface :: "string option"
  sb_cacertpath :: "string option"
  sb_certpath :: "string option"
  sb_configServer :: "string option"
  sb_dbname :: "string option"
  sb_defaultLogFilePath :: "string option"
  sb_disable_persistent_config :: pyval
  sb_keypath :: "string option"
  sb_log :: "string option"
  sb_logFilePath :: "string option"
  sb_profileInterface :: "string option"
  sb_url :: "string option"

definition option_text :: "string \<Rightarrow> string option \<Rightarrow> string" where
  "option_text k x = (case x of None \<Rightarrow> [] | Some s \<Rightarrow> k @ s)"

definition sgbinary_command :: "py_runtime \<Rightarrow> sgbinary_args \<Rightarrow> string \<Rightarrow> string" where
  "sgbinary_command rt a home =
     ''/opt/couchbase-sync-gateway/bin/sync_gateway '' @ join '' ''
       [option_text ''-adminInterface='' (sb_adminInterface a), option_text ''-interface='' (sb_interface a),
        option_text ''-cacertpath='' (sb_cacertpath a), option_text ''-certpath='' (sb_certpath a), option_text ''-configServer='' (sb_configServer a),
        option_text ''-dbname='' (sb_dbname a), option_text ''-defaultLogFilePath='' (sb_defaultLogFilePath a),
        (if sb_disable_persistent_config a = PNone then [] else ''-disable_persistent_config='' @ py_str rt (sb_disable_persistent_config a)),
        option_text ''-keypath='' (sb_keypath a), option_text ''-log='' (sb_log a), option_text ''-logFilePath='' (sb_logFilePath a),
        option_text ''-profileInterface '' (sb_profileInterface a), option_text ''-url='' (sb_url a), home @ ''/sync_gateway.json &'']"

definition start_sgbinary :: "'w prov_ops \<Rightarrow> sg_node \<Rightarrow> pyval \<Rightarrow> sgbinary_args \<Rightarrow> ('w, string list) prov" where
  "start_sgbinary ops sg platform a =
     bindIO (cfg (\<lambda>env. RemoteExecutor_init env (ce_user (po_cbs ops)) (py_str (env_runtime env) (sgn_ip sg)) ''debian'' PNone PNone None)) (\<lambda>ex.
     bindIO (liftIO (home_directory platform)) (\<lambda>home.
     bindIO (cfg (\<lambda>env. Inr (sgbinary_command (env_runtime env) a home))) (\<lambda>command.
     bindIO (on_world (RemoteExecutor_execute (ce_ssh (po_cbs ops)) ex command)) (\<lambda>(_, stdout, _). returnIO stdout))))"

end
