(* ===== verification/Cluster_Reset.thy ===== *)
theory Cluster_Reset
  imports Sg_Sync
begin

text \<open>
  \<open>libraries/testkit/cluster.py\<close> and \<open>libraries/testkit/sgaccel.py\<close>: the cluster of a configuration file and its reset,
  which stops Sync Gateway, deletes the buckets, creates those of the new configuration and starts Sync Gateway with it.
  The servers' loops take fuel, so the operations that wait for servers are of type \<open>dio\<close>.
\<close>

section \<open>The accelerator\<close>

record sg_accel =
  sga_ip :: pyval
  sga_url :: string
  sga_hostname :: pyval
  sga_config :: string
  sga_server_port :: int
  sga_server_scheme :: string
  sga_ssl :: pyval

definition SgAccel_init :: "environment \<Rightarrow> string \<Rightarrow> pyval \<Rightarrow> sg_accel res" where
  "SgAccel_init env cc target =
     bindR (py_item target ''ip'') (\<lambda>ip.
     bindR (py_item target ''name'') (\<lambda>name.
     bindR (sg_ssl_enabled env cc) (\<lambda>ssl.
     bindR (truth_of (is_cbs_ssl_enabled env cc)) (\<lambda>cbs_ssl.
     Inr \<lparr>sga_ip = ip, sga_url = ''http://'' @ py_str (env_runtime env) ip @ '':4985'', sga_hostname = name, sga_config = cc,
          sga_server_port = (if cbs_ssl then 18091 else 8091), sga_server_scheme = (if cbs_ssl then ''https'' else ''http''), sga_ssl = ssl\<rparr>))))"

definition SgAccel_info :: "'w http \<Rightarrow> sg_accel \<Rightarrow> ('w, string) io" where
  "SgAccel_info http sa = bindIO (checked (http_send http (bare_rq ''GET'' (sga_url sa)))) (\<lambda>r. returnIO (rs_text r))"

definition SgAccel_stop :: "'w prov_ops \<Rightarrow> sg_accel \<Rightarrow> ('w, int) prov" where
  "SgAccel_stop ops sa = run_ansible_playbook ops (sga_config sa) ''stop-sg-accel.yml'' None (sga_hostname sa)"

definition SgAccel_repr :: "py_runtime \<Rightarrow> sg_accel \<Rightarrow> string" where
  "SgAccel_repr rt sa = ''SgAccel: '' @ py_str rt (sga_hostname sa) @ '':'' @ py_str rt (sga_ip sa) @ nl"

definition accel_base :: "'w prov_ops \<Rightarrow> sg_accel \<Rightarrow> string \<Rightarrow> string \<Rightarrow> vars" where
  "accel_base ops sa config node =
     [(''sync_gateway_config_filepath'', PStr config), (''server_port'', PInt (sga_server_port sa)), (''server_scheme'', PStr (sga_server_scheme sa)),
      (''sg_cert_path'', PStr (sg_cert_path ops))] @
     blank [''autoimport'', ''xattrs'', ''no_conflicts'', ''revs_limit'', ''num_index_replicas'', ''sg_use_views'', ''sslcert'', ''sslkey'', ''logging''] @
     [(''couchbase_server_primary_node'', PStr node)] @ blank [''delta_sync'', ''prometheus'', ''hide_product_version'', ''tls'']"

definition accel_logging :: "environment \<Rightarrow> string \<Rightarrow> vars \<Rightarrow> vars res" where
  "accel_logging env cc v =
     bindR (at_least (get_sg_version env cc) ''2.1.0'') (\<lambda>new.
     if new then seq_steps [logging_step (env_runtime env) (choose_logging_level env cc) (get_redact_level env cc),
                            views_step (env_runtime env) (get_sg_use_views env cc) (get_sg_replicas env cc)] v
     else Inr (set_var ''logging'' (raw_var ''log'' (''['' @ dq ''*'' @ '']'')) v))"

definition SgAccel_start :: "'w prov_ops \<Rightarrow> sg_accel \<Rightarrow> string \<Rightarrow> ('w, int) prov" where
  "SgAccel_start ops sa config =
     (let cc = sga_config sa; conf_path = abspath (po_cwd ops) config in
      bindIO (cfg (\<lambda>env. add_cbs_to_sg_config_server_field env cc)) (\<lambda>node.
      bindIO (cfg_steps (\<lambda>env. [accel_logging env cc, plain_xattrs_step (is_xattrs_enabled env cc),
        (\<lambda>v. Inr (if py_truth (sga_ssl sa) then ssl_files v else v)), conflicts_step (no_conflicts_enabled env cc),
        revs_limit_step (env_runtime env) (get_revs_limit env cc) (set_var ''revs_limit'' []),
        when_step (both (is_delta_sync_enabled env cc) (at_least (get_sg_version env cc) ''2.5.0'')) ''delta_sync'' delta_text,
        when_step (at_least (get_sg_version env cc) ''2.8.0'') ''prometheus'' (quoted_var ''metrics_interface'' '':4986''),
        when_step (both (is_hide_prod_version_enabled env cc) (at_least (get_sg_version env cc) ''2.8.1'')) ''hide_product_version''
          (raw_var ''hide_product_version'' ''true'')]) (accel_base ops sa conf_path node)) (\<lambda>v.
      bindIO (cfg (\<lambda>env. both (is_cbs_ssl_enabled env cc) (at_least (get_sg_version env cc) ''1.5.0''))) (\<lambda>on.
      bindIO (if on then bindIO (block_http_ports ops cc []) (\<lambda>_. returnIO (ssl_ports v)) else returnIO v) (\<lambda>v.
      run_ansible_playbook ops cc ''start-sg-accel.yml'' (Some v) (sga_hostname sa))))))"

section \<open>The cluster\<close>

record cluster =
  cl_config :: string
  cl_cbs_ssl :: pyval
  cl_xattrs :: pyval
  cl_sg_ssl :: pyval
  cl_persistent :: bool
  cl_ipv6 :: pyval
  cl_sgs :: "sg_node list"
  cl_accels :: "sg_accel list"
  cl_servers :: "cbserver list"
  cl_sg_config :: "sg_config option"

definition bracketed :: "py_runtime \<Rightarrow> pyval \<Rightarrow> pyval" where
  "bracketed rt ip = PStr (''['' @ py_str rt ip @ '']'')"

definition number :: "pyval \<Rightarrow> rat res" where
  "number v = (case py_num v of Some x \<Rightarrow> Inr x | None \<Rightarrow> raise_exc ''TypeError'' (''a number is required, not '' @ py_type v))"

definition target_of :: "pyval \<Rightarrow> pyval \<Rightarrow> pyval" where
  "target_of name ip = PDict [(''name'', name), (''ip'', ip)]"

text \<open>\<open>cluster["environment"][prop]\<close>.\<close>

abbreviation env_of :: "pyval \<Rightarrow> string \<Rightarrow> pyval res" where
  "env_of cluster prop \<equiv> py_item2 cluster ''environment'' prop"

definition v6_ip :: "py_runtime \<Rightarrow> pyval \<Rightarrow> pyval \<Rightarrow> pyval res" where
  "v6_ip rt cluster ip = bindR (truth_of (env_of cluster ''ipv6_enabled'')) (\<lambda>v6. Inr (if v6 then bracketed rt ip else ip))"

definition balancer_ip :: "pyval \<Rightarrow> nat \<Rightarrow> pyval res" where
  "balancer_ip cluster i = bindR (bindR (py_item cluster ''load_balancers'') as_list) (\<lambda>lbs. bindR (list_item lbs i) (\<lambda>lb. py_item lb ''ip''))"

text \<open>
  Two balancers: the first for the first group of Sync Gateways, the second for the next; any more are left out. What is
  recorded of a Sync Gateway and the address it is reached at is the argument \<open>emit\<close>.
\<close>

definition two_balancer_target :: "py_runtime \<Rightarrow> (pyval \<Rightarrow> pyval \<Rightarrow> pyval res) \<Rightarrow> pyval \<Rightarrow> rat \<Rightarrow> nat \<times> pyval list \<Rightarrow> pyval \<Rightarrow> (nat \<times> pyval list) res" where
  "two_balancer_target rt emit cluster both_counts st sg = (case st of (seen, sgs) \<Rightarrow>
     bindR (bindR (env_of cluster ''sgw_cluster1_count'') number) (\<lambda>c1.
     bindR (if of_nat seen < c1 then Inr (Some 0) else if of_nat seen < both_counts then Inr (Some 1) else Inr None) (\<lambda>which.
     case which of
       None \<Rightarrow> Inr (seen + 1, sgs)
     | Some i \<Rightarrow> bindR (balancer_ip cluster i) (\<lambda>lb. bindR (v6_ip rt cluster lb) (\<lambda>ip.
         bindR (emit sg ip) (\<lambda>t. Inr (seen + 1, sgs @ [t])))))))"

text \<open>One balancer: its address is put into brackets again for every Sync Gateway.\<close>

definition balancer_target :: "py_runtime \<Rightarrow> (pyval \<Rightarrow> pyval \<Rightarrow> pyval res) \<Rightarrow> pyval \<Rightarrow> pyval \<times> pyval list \<Rightarrow> pyval \<Rightarrow> (pyval \<times> pyval list) res" where
  "balancer_target rt emit cluster st sg = (case st of (lb_ip, sgs) \<Rightarrow>
     bindR (v6_ip rt cluster lb_ip) (\<lambda>lb_ip. bindR (emit sg lb_ip) (\<lambda>t. Inr (lb_ip, sgs @ [t]))))"

definition plain_target :: "py_runtime \<Rightarrow> (pyval \<Rightarrow> pyval \<Rightarrow> pyval res) \<Rightarrow> pyval \<Rightarrow> pyval \<Rightarrow> pyval res" where
  "plain_target rt emit cluster sg = bindR (py_item sg ''ip'') (\<lambda>ip. bindR (v6_ip rt cluster ip) (\<lambda>ip. emit sg ip))"

definition members_of :: "pyval \<Rightarrow> string \<Rightarrow> pyval list res" where
  "members_of cluster grp = bindR (py_item cluster grp) py_iter"

definition two_balancer_targets :: "py_runtime \<Rightarrow> (pyval \<Rightarrow> pyval \<Rightarrow> pyval res) \<Rightarrow> pyval \<Rightarrow> pyval list res" where
  "two_balancer_targets rt emit cluster =
     bindR (bindR (env_of cluster ''sgw_cluster1_count'') number) (\<lambda>c1. bindR (bindR (env_of cluster ''sgw_cluster2_count'') number) (\<lambda>c2.
     bindR (members_of cluster ''sync_gateways'') (\<lambda>sgs. bindR (foldR (two_balancer_target rt emit cluster (c1 + c2)) (0, []) sgs) (\<lambda>st. Inr (snd st)))))"

definition balancer_targets :: "environment \<Rightarrow> string \<Rightarrow> (pyval \<Rightarrow> pyval \<Rightarrow> pyval res) \<Rightarrow> pyval \<Rightarrow> pyval list res" where
  "balancer_targets env cc emit cluster =
     bindR (get_load_balancer_ip env cc) (\<lambda>lb_ip. bindR (members_of cluster ''sync_gateways'') (\<lambda>sgs.
     bindR (foldR (balancer_target (env_runtime env) emit cluster) (lb_ip, []) sgs) (\<lambda>st. Inr (snd st))))"

definition named_target :: "pyval \<Rightarrow> pyval \<Rightarrow> pyval res" where
  "named_target sg ip = bindR (py_item sg ''name'') (\<lambda>name. Inr (target_of name ip))"

definition sg_targets :: "environment \<Rightarrow> string \<Rightarrow> pyval \<Rightarrow> pyval list res" where
  "sg_targets env cc cluster =
     bindR (truth_of (is_load_balancer_with_two_clusters_enabled env cc)) (\<lambda>two.
     if two then two_balancer_targets (env_runtime env) named_target cluster
     else bindR (truth_of (is_load_balancer_enabled env cc)) (\<lambda>one.
     if one then balancer_targets env cc named_target cluster
     else bindR (members_of cluster ''sync_gateways'') (mapR (plain_target (env_runtime env) named_target cluster))))"

definition server_address :: "py_runtime \<Rightarrow> pyval \<Rightarrow> pyval \<Rightarrow> pyval \<Rightarrow> string res" where
  "server_address rt cluster cbs_ssl cbs = bindR (py_item cbs ''ip'') (\<lambda>ip. bindR (v6_ip rt cluster ip) (\<lambda>ip.
     Inr (if py_truth cbs_ssl then ''https://'' @ py_str rt ip @ '':18091'' else ''http://'' @ py_str rt ip @ '':8091'')))"

definition Cluster_init :: "environment \<Rightarrow> string \<Rightarrow> cluster res" where
  "Cluster_init env config = (let rt = env_runtime env in
     if \<not> dict_has (env_files env) config then raise_exc ''OSError'' (''Cluster config not found in '' @ repr_str ''resources/cluster_configs/'')
     else bindR (read_json env (config @ ''.json'')) (\<lambda>cl.
     bindR (sg_targets env config cl) (\<lambda>sgs.
     bindR (bindR (members_of cl ''sg_accels'') (mapR (plain_target rt named_target cl))) (\<lambda>acs.
     bindR (env_of cl ''cbs_ssl_enabled'') (\<lambda>cbs_ssl.
     bindR (env_of cl ''xattrs_enabled'') (\<lambda>xattrs.
     bindR (env_of cl ''sync_gateway_ssl'') (\<lambda>sg_ssl.
     bindR (truth_of (env_of cl ''disable_persistent_config'')) (\<lambda>disabled.
     bindR (env_of cl ''ipv6_enabled'') (\<lambda>v6.
     bindR (bindR (members_of cl ''couchbase_servers'') (mapR (server_address rt cl cbs_ssl))) (\<lambda>cbs_urls.
     bindR (mapR (SyncGateway_init env config) sgs) (\<lambda>nodes.
     bindR (mapR (SgAccel_init env config) acs) (\<lambda>accels.
     Inr \<lparr>cl_config = config, cl_cbs_ssl = cbs_ssl, cl_xattrs = xattrs, cl_sg_ssl = sg_ssl, cl_persistent = \<not> disabled, cl_ipv6 = v6,
          cl_sgs = nodes, cl_accels = accels, cl_servers = map CouchbaseServer_init cbs_urls, cl_sg_config = None\<rparr>))))))))))))"

definition validate_cluster :: "sg_node list \<Rightarrow> sg_accel list \<Rightarrow> sg_config \<Rightarrow> bool \<times> string" where
  "validate_cluster sync_gateways sg_accels config =
     (if length sync_gateways = 0 then (False, ''Functional tests require at least 1 index reader'')
      else if conf_mode config = PStr ''di'' \<and> length sg_accels = 0 then
        (False, ''INVALID CONFIG: Running in Distributed Index mode but no sg_accels are defined.'')
      else (True, []))"

section \<open>The distribution of the index\<close>

text \<open>The number of partitions of each node; a partition on several nodes is an error.\<close>

definition count_pindex :: "(string, nat) dict \<Rightarrow> pyval \<Rightarrow> (string, nat) dict res" where
  "count_pindex counts bucket_val =
     bindR (py_item bucket_val ''nodes'') (\<lambda>nodes.
     bindR (py_len nodes) (\<lambda>n.
     if n > 1 then raise_exc ''Exception'' ''Unexpected: a CBGT Pindex was assigned to more than one node''
     else bindR (py_iter nodes) (\<lambda>ns. bindR (mapR as_str ns) (\<lambda>ns.
       Inr (foldl (\<lambda>counts node. dict_set counts node ((case dict_get counts node of Some c \<Rightarrow> c | None \<Rightarrow> 0) + 1)) counts ns)))))"

fun near_first :: "nat \<Rightarrow> (string, nat) dict \<Rightarrow> bool" where
  "near_first first [] = True"
| "near_first first ((node, c) # rest) = (if \<bar>int first - int c\<bar> > 1 then False else near_first first rest)"

definition evenly_spread :: "(string, nat) dict \<Rightarrow> bool" where
  "evenly_spread counts = (case counts of [] \<Rightarrow> True | (_, first) # rest \<Rightarrow> near_first first rest)"

definition validate_pindexes :: "pyval \<Rightarrow> nat \<Rightarrow> bool res" where
  "validate_pindexes plan_pindexes num_running_sg_accels =
     bindR (dict_attr plan_pindexes ''items'') (\<lambda>d.
     bindR (foldR count_pindex [] (dict_values d)) (\<lambda>counts.
     Inr (length counts = num_running_sg_accels \<and> evenly_spread counts)))"

text \<open>\<open>Admin(self.sg_accels[0])\<close>.\<close>

definition accel_admin :: "environment \<Rightarrow> sg_accel \<Rightarrow> admin res" where
  "accel_admin env sa = Admin_init env (py_str (env_runtime env) (sga_ip sa))"

definition run_admin :: "admin \<Rightarrow> ('w, 'a) admin_io \<Rightarrow> ('w, 'a) io" where
  "run_admin adm m w = (case m (adm, w) of (r, (_, w')) \<Rightarrow> (r, w'))"

definition Cluster_validate_cbgt_pindex_distribution :: "'w prov_ops \<Rightarrow> cluster \<Rightarrow> nat \<Rightarrow> ('w, bool) prov" where
  "Cluster_validate_cbgt_pindex_distribution ops cl num_running_sg_accels =
     (if num_running_sg_accels < 1 then raiseIO (Exn ''ClusterError'' ''Need at least one sg_accel running to verify pindexes'')
      else bindIO (self_get ps_env) (\<lambda>env.
      bindIO (liftIO (bindR (list_item (cl_accels cl) 0) (accel_admin env))) (\<lambda>adm.
      bindIO (on_world (run_admin adm (Admin_get_cbgt_config (admin_env_of ops env)))) (\<lambda>cbgt_cfg.
      liftIO (validate_pindexes (cbgt_p_indexes cbgt_cfg) num_running_sg_accels)))))"

fun validate_tries :: "'w prov_ops \<Rightarrow> cluster \<Rightarrow> nat \<Rightarrow> nat \<Rightarrow> ('w, bool) prov" where
  "validate_tries ops cl num 0 = returnIO False"
| "validate_tries ops cl num (Suc n) =
     bindIO (Cluster_validate_cbgt_pindex_distribution ops cl num) (\<lambda>is_valid.
     if is_valid then returnIO True else bindIO (nap ops 5) (\<lambda>_. validate_tries ops cl num n))"

definition Cluster_validate_cbgt_pindex_distribution_retry :: "'w prov_ops \<Rightarrow> cluster \<Rightarrow> nat \<Rightarrow> ('w, bool) prov" where
  "Cluster_validate_cbgt_pindex_distribution_retry ops cl num_running_sg_accels = validate_tries ops cl num_running_sg_accels 10"

definition Cluster_save_cbgt_diagnostics :: "'w prov_ops \<Rightarrow> cluster \<Rightarrow> ('w, unit) prov" where
  "Cluster_save_cbgt_diagnostics ops cl = forIO (cl_accels cl) (\<lambda>sa.
     bindIO (self_get ps_env) (\<lambda>env.
     bindIO (liftIO (accel_admin env sa)) (\<lambda>adm.
     on_world (run_admin adm (bindIO (Admin_get_cbgt_diagnostics (admin_env_of ops env)) (\<lambda>_.
       bindIO (Admin_get_cbgt_config (admin_env_of ops env)) (\<lambda>_. returnIO ())))))))"

section \<open>Checking and stopping\<close>

definition Cluster_restart_services :: "'w prov_ops \<Rightarrow> cluster \<Rightarrow> ('w, unit) prov" where
  "Cluster_restart_services ops cl =
     bindIO (run_ansible_playbook ops (cl_config cl) ''restart-services.yml'' (Some []) PNone) (\<lambda>status.
     liftIO (py_assert (status = 0) ''Failed to restart services''))"

definition down :: "'a \<Rightarrow> ('w, string) io \<Rightarrow> ('w, ('a \<times> exn) list) io" where
  "down node info = tryIO (bindIO info (\<lambda>_. returnIO [])) (\<lambda>e. if exn_class e = ''ConnectionError'' then returnIO [(node, e)] else raiseIO e)"

definition Cluster_verify_alive :: "'w http \<Rightarrow> cluster \<Rightarrow> string \<Rightarrow> ('w, ((sg_node + sg_accel) \<times> exn) list) io" where
  "Cluster_verify_alive http cl mode =
     bindIO (seqIO (map (\<lambda>sg. down (Inl sg) (SyncGateway_info http sg)) (cl_sgs cl))) (\<lambda>a.
     bindIO (if mode = ''di'' then seqIO (map (\<lambda>sa. down (Inr sa) (SgAccel_info http sa)) (cl_accels cl)) else returnIO []) (\<lambda>b.
     returnIO (concat a @ concat b)))"

definition must_stop :: "py_runtime \<Rightarrow> pyval \<Rightarrow> ('w, int) prov \<Rightarrow> ('w, unit) prov" where
  "must_stop rt hostname stop = bindIO stop (\<lambda>status.
     liftIO (py_assert (status = 0) (''Failed to stop sync gateway for host '' @ py_str rt hostname)))"

definition Cluster_stop_sg_and_accel :: "'w prov_ops \<Rightarrow> cluster \<Rightarrow> ('w, unit) prov" where
  "Cluster_stop_sg_and_accel ops cl = (let rt = http_runtime (po_http ops) in
     bindIO (forIO (cl_sgs cl) (\<lambda>sg. must_stop rt (sgn_hostname sg) (SyncGateway_stop ops sg))) (\<lambda>_.
     forIO (cl_accels cl) (\<lambda>sa. must_stop rt (sga_hostname sa) (SgAccel_stop ops sa))))"

definition Cluster_repr :: "py_runtime \<Rightarrow> (cbserver \<Rightarrow> string) \<Rightarrow> cluster \<Rightarrow> string" where
  "Cluster_repr rt server_str cl =
     nl @ nl @ ''Sync Gateways'' @ nl @ concat (map (SyncGateway_repr rt) (cl_sgs cl)) @
     nl @ ''Sync Gateway Accels'' @ nl @ concat (map (SgAccel_repr rt) (cl_accels cl)) @
     nl @ ''Couchbase Servers'' @ nl @ concat (map server_str (cl_servers cl)) @ nl"

section \<open>Setting up the servers and Sync Gateway\<close>

type_synonym ('w, 'a) provD = "(prov_state \<times> 'w, 'a) dio"

abbreviation first_server :: "cluster \<Rightarrow> cbserver res" where
  "first_server cl \<equiv> list_item (cl_servers cl) 0"

definition bucket_strings :: "pyval \<Rightarrow> string list res" where
  "bucket_strings v = bindR (py_iter v) (mapR as_str)"

definition string_order :: "'w prov_ops \<Rightarrow> string list \<Rightarrow> string list" where
  "string_order ops ss = map (\<lambda>v. case v of PStr s \<Rightarrow> s | _ \<Rightarrow> []) (po_order ops (map PStr ss))"

text \<open>The buckets are created, then the server is waited for.\<close>

definition prepare_buckets :: "'w prov_ops \<Rightarrow> cluster \<Rightarrow> pyval \<Rightarrow> nat \<Rightarrow> ('w, unit) provD" where
  "prepare_buckets ops cl bucket_names fuel =
     bindD (liftD (self_get ps_env)) (\<lambda>env. let ce = cbs_env_of ops env in
     bindD (liftD (liftIO (first_server cl))) (\<lambda>sv.
     bindD (liftD (liftIO (bucket_strings bucket_names))) (\<lambda>names.
     bindD (on_worldD (cbs_create_buckets ce (string_order ops) sv names (cl_config cl) (py_truth (cl_ipv6 cl)) fuel)) (\<lambda>_.
     on_worldD (cbs_wait_for_ready_state ce sv fuel)))))"

definition cpc_locals :: "'w prov_ops \<Rightarrow> cluster \<Rightarrow> string \<Rightarrow> string \<Rightarrow> pyval \<Rightarrow> vars" where
  "cpc_locals ops cl cpc_config_path_full node webhook_ip =
     [(''sync_gateway_config_filepath'', PStr cpc_config_path_full),
      (''server_port'', if py_truth (cl_cbs_ssl cl) then PInt 18091 else PStr []),
      (''server_scheme'', PStr (if py_truth (cl_cbs_ssl cl) then ''https'' else ''couchbase'')),
      (''sg_cert_path'', PStr (sg_cert_path ops)), (''x509_auth'', PBool False), (''x509_certs_dir'', PStr (certs_dir ops)),
      (''couchbase_server_primary_node'', PStr node)] @
     blank [''password'', ''username'', ''username_var'', ''tls'', ''sslcert'', ''sslkey'', ''hide_product_version'', ''bucket_list'',
       ''disable_persistent_config'', ''prometheus'', ''certpath'', ''keypath'', ''cacertpath'', ''sg_use_views'', ''num_index_replicas''] @
     [(''autoimport'', PStr (raw_var ''import_docs'' ''false'')), (''xattrs'', PStr (raw_var ''enable_shared_bucket_access'' ''false''))] @
     blank [''no_conflicts'', ''revs_limit'', ''delta_sync'', ''server_tls_skip_verify'', ''disable_tls_server'', ''disable_admin_auth'', ''groupid''] @
     [(''webhook_ip'', webhook_ip)]"

definition cpc_user :: "py_runtime \<Rightarrow> pyval \<Rightarrow> vars \<Rightarrow> vars res" where
  "cpc_user rt bucket_names v = bindR (py_first bucket_names) (\<lambda>b. Inr
     (set_var ''password'' (quoted_var ''password'' ''password'') (set_var ''username_var'' (quoted_var ''username'' (py_str rt b))
       (set_var ''username'' (quoted_var ''username'' ''bucket-admin'') v))))"

definition cpc_bucket :: "py_runtime \<Rightarrow> pyval \<Rightarrow> vars \<Rightarrow> vars res" where
  "cpc_bucket rt bucket_names v = bindR (py_first bucket_names) (\<lambda>b. Inr (set_var ''db_bucket_var'' (quoted_var ''bucket'' (py_str rt b)) v))"

definition cpc_vars :: "'w prov_ops \<Rightarrow> cluster \<Rightarrow> pyval res \<Rightarrow> pyval \<Rightarrow> pyval \<Rightarrow> vars \<Rightarrow> ('w, vars) prov" where
  "cpc_vars ops cl ver platform bucket_names v = (let cc = cl_config cl in
     bindIO (cfg_steps (\<lambda>env. [logging_step (env_runtime env) (choose_logging_level env cc) (get_redact_level env cc)]) v) (\<lambda>v.
     bindIO (x509_step ops cc new_cert_keys home_directory platform bucket_names (\<lambda>env. cpc_user (env_runtime env) bucket_names) v) (\<lambda>v.
     bindIO (text_ssl_step ops cc (\<lambda>env. Inr (py_truth (cl_cbs_ssl cl))) platform v) (\<lambda>v.
     cfg_steps (\<lambda>env. [ssl_step (https_text 29 28) (Inr (cl_sg_ssl cl)) (is_centralized_persistent_config_disabled env cc),
        when_step (truth_of (is_hide_prod_version_enabled env cc)) ''hide_product_version'' (raw_var ''hide_product_version'' ''true''),
        bucket_list_step (env_runtime env) bucket_names, group_step (env_runtime env) bucket_names] @ v3_steps env cc (\<lambda>env. ver) @
       [when_step (at_least ver ''2.8.0'') ''prometheus'' (quoted_var ''metrics_interface'' '':4986''),
        views_step (env_runtime env) (get_sg_use_views env cc) (get_sg_replicas env cc),
        xattrs_step (Inr (cl_xattrs cl)) ver, conflicts_step (no_conflicts_enabled env cc),
        revs_limit_step (env_runtime env) (get_revs_limit env cc) id,
        when_step (both (is_delta_sync_enabled env cc) (at_least ver ''2.5.0'')) ''delta_sync'' delta_text,
        cpc_bucket (env_runtime env) bucket_names]) v))))"

definition cpc_template_args :: "(string \<times> string) list" where
  "cpc_template_args = map (\<lambda>k. (k, k)) [''couchbase_server_primary_node'', ''logging'', ''server_port'', ''server_scheme'', ''sg_cert_path'',
     ''sslcert'', ''sslkey'', ''prometheus'', ''hide_product_version'', ''tls'', ''bucket_list'', ''disable_persistent_config'', ''x509_certs_dir'',
     ''certpath'', ''keypath'', ''cacertpath'', ''password'', ''sg_use_views'', ''num_index_replicas'', ''autoimport'', ''xattrs'',
     ''no_conflicts'', ''revs_limit'', ''delta_sync'', ''server_tls_skip_verify'', ''disable_tls_server'', ''disable_admin_auth'',
     ''webhook_ip'', ''groupid''] @
     [(''bootstrap_username'', ''username''), (''username'', ''username_var''), (''bucket'', ''db_bucket_var'')]"

definition cpc_bootstrap_keys :: "(string \<times> string) list" where
  "cpc_bootstrap_keys = map (\<lambda>k. (k, k)) [''sync_gateway_config_filepath'', ''server_port'', ''server_scheme'', ''username'', ''password'',
     ''sg_cert_path'', ''sslcert'', ''sslkey'', ''prometheus'', ''hide_product_version'', ''tls'', ''bucket_list'', ''disable_persistent_config'',
     ''x509_auth'', ''x509_certs_dir'', ''couchbase_server_primary_node'', ''logging'', ''autoimport'', ''xattrs'', ''no_conflicts'',
     ''sg_use_views'', ''num_index_replicas'', ''disable_tls_server'', ''certpath'', ''keypath'', ''cacertpath'', ''delta_sync'', ''revs_limit'',
     ''server_tls_skip_verify'', ''disable_admin_auth'', ''webhook_ip'', ''groupid'']"

text \<open>The version of an argument, or of the configuration.\<close>

definition wanted_version :: "environment \<Rightarrow> string \<Rightarrow> string option \<Rightarrow> pyval res" where
  "wanted_version env cc v = (case v of Some s \<Rightarrow> if s = [] then get_sg_version env cc else Inr (PStr (fst (version_and_build s)))
     | None \<Rightarrow> get_sg_version env cc)"

definition render_cpc :: "'w prov_ops \<Rightarrow> cluster \<Rightarrow> pyval \<Rightarrow> pyval \<Rightarrow> string \<Rightarrow> string \<Rightarrow> ('w, vars \<times> pyval \<times> string) prov" where
  "render_cpc ops cl ver bucket_names cpc_full config_full = (let cc = cl_config cl in
     bindIO (cfg (\<lambda>env. read_text (po_text ops) env (file_key (po_cwd ops) config_full))) (\<lambda>sgw_config_data.
     bindIO (cfg (\<lambda>env. read_json env (cc @ ''.json''))) (\<lambda>c.
     bindIO (cfg (\<lambda>env. primary_node env cc)) (\<lambda>node.
     bindIO (liftIO (bindR (bindR (py_item c ''webhook_ip'') as_list) (\<lambda>l. bindR (list_item l 0) (\<lambda>x. py_item x ''ip'')))) (\<lambda>webhook.
     bindIO (cfg (\<lambda>env. get_sg_platform env cc)) (\<lambda>platform.
     bindIO (cpc_vars ops cl (Inr ver) platform bucket_names (cpc_locals ops cl cpc_full node webhook)) (\<lambda>v.
     bindIO (liftIO (po_render ops (pick_vars cpc_template_args v) sgw_config_data)) (\<lambda>sgw_config_data.
     bindIO (on_files (seperate_sgw_and_db_config sgw_config_data)) (\<lambda>(_, database_config).
     bindIO (nap ops 5) (\<lambda>_.
     returnIO (pick_vars cpc_bootstrap_keys v, database_config, sgw_config_data)))))))))))"

text \<open>It also returns the configuration that becomes that of the object.\<close>

definition Cluster_setup_server_and_sgw :: "'w prov_ops \<Rightarrow> cluster \<Rightarrow> string \<Rightarrow> bool \<Rightarrow> pyval list \<Rightarrow> pyval \<Rightarrow> string option \<Rightarrow> nat \<Rightarrow>
    ('w, vars \<times> pyval \<times> string \<times> sg_config) provD" where
  "Cluster_setup_server_and_sgw ops cl sg_config_path bucket_creation bucket_list use_config sync_gateway_version fuel =
     bindD (liftD (cfg (\<lambda>env. wanted_version env (cl_config cl) sync_gateway_version))) (\<lambda>ver.
     bindD (liftD (cfg (\<lambda>env. bindR (config_paths env sg_config_path use_config) (\<lambda>(c, p). bindR (as_str p) (\<lambda>p. Inr (c, p)))))) (\<lambda>(cpc_path, config_path).
     let cpc_full = abspath (po_cwd ops) cpc_path; config_full = abspath (po_cwd ops) config_path in
     bindD (liftD (load_config ops config_full bucket_list)) (\<lambda>config.
     let names = (if bucket_list = [] then bucket_name_set config else PList bucket_list) in
     bindD (if bucket_creation then prepare_buckets ops cl names fuel else liftD (returnIO ())) (\<lambda>_.
     bindD (liftD (self_get ps_env)) (\<lambda>env.
     bindD (liftD (liftIO (first_server cl))) (\<lambda>sv.
     bindD (liftD (on_world (cbs_create_internal_rbac_user_by_roles (cbs_env_of ops env) sv ''bucket-admin'' ''mobile_sync_gateway'' (Some ''*'')))) (\<lambda>_.
     liftD (bindIO (render_cpc ops cl ver names cpc_full config_full) (\<lambda>(v, db, data). returnIO (v, db, data, config))))))))))"

section \<open>Resetting the cluster\<close>

definition reset_base :: "'w prov_ops \<Rightarrow> cluster \<Rightarrow> string \<Rightarrow> string \<Rightarrow> vars" where
  "reset_base ops cl config_path_full node =
     (''sync_gateway_config_filepath'', PStr config_path_full) # blank [''username'', ''password'', ''certpath'', ''keypath'', ''cacertpath''] @
     [(''x509_certs_dir'', PStr (certs_dir ops)), (''x509_auth'', PBool False), (''sg_cert_path'', PStr (sg_cert_path ops)),
      (''server_port'', PInt (if py_truth (cl_cbs_ssl cl) then 18091 else 8091)),
      (''server_scheme'', PStr (if py_truth (cl_cbs_ssl cl) then ''https'' else ''http''))] @
     blank [''autoimport'', ''xattrs'', ''no_conflicts'', ''revs_limit'', ''sslcert'', ''sslkey'', ''num_index_replicas'', ''sg_use_views''] @
     [(''couchbase_server_primary_node'', PStr node)] @
     blank [''delta_sync'', ''prometheus'', ''hide_product_version'', ''tls'', ''disable_persistent_config'', ''server_tls_skip_verify'',
       ''disable_tls_server'', ''disable_admin_auth'']"

definition reset_vars :: "'w prov_ops \<Rightarrow> cluster \<Rightarrow> pyval \<Rightarrow> pyval \<Rightarrow> vars \<Rightarrow> ('w, vars) prov" where
  "reset_vars ops cl platform bucket_names v = (let cc = cl_config cl in
     bindIO (auth_step ops cc (\<lambda>env. get_sg_version env cc) ''*'' platform bucket_names v) (\<lambda>v.
     bindIO (cbs_ssl_step ops cc (\<lambda>env. both (Inr (cl_cbs_ssl cl)) (at_least (get_sg_version env cc) ''1.5.0'')) platform v) (\<lambda>v.
     cfg_steps (\<lambda>env. [xattrs_step (Inr (cl_xattrs cl)) (get_sg_version env cc),
        ssl_step (https_text 29 28) (Inr (cl_sg_ssl cl)) (Inr (PBool (\<not> cl_persistent cl))), conflicts_step (no_conflicts_enabled env cc),
        revs_limit_step (env_runtime env) (get_revs_limit env cc) (set_var ''revs_limit'' [])] @
        feature_steps env cc (\<lambda>env. get_sg_version env cc) @ v3_steps env cc (\<lambda>env. get_sg_version env cc)) v)))"

text \<open>The buckets and variables of a configuration in one file.\<close>

definition reset_own_config :: "'w prov_ops \<Rightarrow> cluster \<Rightarrow> string \<Rightarrow> sg_config \<Rightarrow> pyval \<Rightarrow> nat \<Rightarrow> ('w, vars) provD" where
  "reset_own_config ops cl sg_config_path config platform fuel =
     bindD (liftD (get_buckets_from_sync_gateway_config ops sg_config_path)) (\<lambda>bucket_names.
     bindD (liftD (case validate_cluster (cl_sgs cl) (cl_accels cl) config of (is_valid, reason) \<Rightarrow>
       if is_valid then returnIO () else raiseIO (Exn ''ProvisioningError'' reason))) (\<lambda>_.
     bindD (prepare_buckets ops cl (bucket_name_set config) fuel) (\<lambda>_.
     bindD (liftD (cfg (\<lambda>env. primary_node env (cl_config cl)))) (\<lambda>node.
     bindD (liftD (reset_vars ops cl platform bucket_names (reset_base ops cl (abspath (po_cwd ops) sg_config_path) node))) (\<lambda>v.
     bindD (liftD (nap ops 5)) (\<lambda>_. liftD (returnIO v)))))))"

definition must_run :: "'w prov_ops \<Rightarrow> string \<Rightarrow> string \<Rightarrow> vars option \<Rightarrow> string \<Rightarrow> ('w, unit) prov" where
  "must_run ops cc script_name v msg = bindIO (run_ansible_playbook ops cc script_name v PNone) (\<lambda>status. liftIO (py_assert (status = 0) msg))"

definition stop_and_clean :: "'w prov_ops \<Rightarrow> string \<Rightarrow> vars \<Rightarrow> ('w, unit) prov" where
  "stop_and_clean ops cc extra_vars =
     bindIO (must_run ops cc ''stop-sync-gateway.yml'' (Some extra_vars) ''Failed to stop sync gateway'') (\<lambda>_.
     bindIO (must_run ops cc ''stop-sg-accel.yml'' None ''Failed to stop sg_accel'') (\<lambda>_.
     bindIO (must_run ops cc ''delete-sync-gateway-artifacts.yml'' None ''Failed to delete sync_gateway artifacts'') (\<lambda>_.
     must_run ops cc ''delete-sg-accel-artifacts.yml'' None ''Failed to delete sg_accel artifacts'')))"

definition start_and_validate :: "'w prov_ops \<Rightarrow> cluster \<Rightarrow> pyval \<Rightarrow> vars \<Rightarrow> ('w, unit) prov" where
  "start_and_validate ops cl mode playbook_vars = (let cc = cl_config cl in
     bindIO (must_run ops cc ''start-sync-gateway.yml'' (Some playbook_vars) ''Failed to start to Sync Gateway'') (\<lambda>_.
     if mode = PStr ''di'' then
       bindIO (must_run ops cc ''start-sg-accel.yml'' (Some playbook_vars) ''Failed to start sg_accel'') (\<lambda>_.
       bindIO (Cluster_validate_cbgt_pindex_distribution_retry ops cl (length (cl_accels cl))) (\<lambda>ok.
       if \<not> ok then bindIO (Cluster_save_cbgt_diagnostics ops cl) (\<lambda>_. raiseIO (Exn ''Exception'' ''Failed to validate CBGT Pindex distribution''))
       else returnIO ()))
     else returnIO ()))"

definition Cluster_reset :: "'w prov_ops \<Rightarrow> cluster \<Rightarrow> string \<Rightarrow> pyval list \<Rightarrow> pyval \<Rightarrow> bool \<Rightarrow> nat \<Rightarrow> ('w, pyval \<times> cluster) provD" where
  "Cluster_reset ops cl sg_config_path bucket_list use_config sgdb_creation fuel = (let cc = cl_config cl in
     bindD (liftD (cfg (\<lambda>env. get_sg_platform env cc))) (\<lambda>platform.
     bindD (liftD (liftIO (debian_vars platform))) (\<lambda>extra_vars.
     bindD (liftD (stop_and_clean ops cc extra_vars)) (\<lambda>_.
     bindD (liftD (self_get ps_env)) (\<lambda>env.
     bindD (liftD (liftIO (first_server cl))) (\<lambda>sv.
     bindD (on_worldD (cbs_delete_buckets (cbs_env_of ops env) sv fuel)) (\<lambda>_.
     bindD (liftD (load_config ops (abspath (po_cwd ops) sg_config_path) bucket_list)) (\<lambda>config.
     bindD (liftD (cfg (\<lambda>env. persistent_config env cc (get_sg_version env cc)))) (\<lambda>p.
     bindD (if p then bindD (Cluster_setup_server_and_sgw ops cl sg_config_path True bucket_list use_config None fuel) (\<lambda>(v, db, _, cf). liftD (returnIO (v, Some db, cf)))
            else bindD (reset_own_config ops cl sg_config_path config platform fuel) (\<lambda>v. liftD (returnIO (v, None, config)))) (\<lambda>(v, db, cf).
     bindD (liftD (start_and_validate ops cl (conf_mode config) v)) (\<lambda>_.
     bindD (liftD (if sgdb_creation then
         bindIO (nap ops 5) (\<lambda>_.
         bindIO (cfg (\<lambda>env. persistent_config env cc (get_sg_version env cc))) (\<lambda>p.
         if p then (case db of None \<Rightarrow> raiseIO (unbound ''db_config_json'') | Some c \<Rightarrow> send_dbconfig_as_restCall ops cc c (cl_sgs cl))
         else returnIO (cl_sgs cl)))
       else returnIO (cl_sgs cl))) (\<lambda>sgs.
     liftD (returnIO (conf_mode config, cl\<lparr>cl_sgs := sgs, cl_sg_config := Some cf\<rparr>))))))))))))))"

section \<open>The distribution is even\<close>

text \<open>The number of partitions that are on a node.\<close>

definition on_node :: "pyval \<Rightarrow> string \<Rightarrow> bool" where
  "on_node p node \<longleftrightarrow> (\<exists>ns. bindR (py_item p ''nodes'') py_iter = Inr ns \<and> PStr node \<in> set ns)"

definition pindexes_on :: "pyval list \<Rightarrow> string \<Rightarrow> nat" where
  "pindexes_on ps node = length (filter (\<lambda>p. on_node p node) ps)"

abbreviation count_of :: "(string, nat) dict \<Rightarrow> string \<Rightarrow> nat" where
  "count_of counts node \<equiv> (case dict_get counts node of Some c \<Rightarrow> c | None \<Rightarrow> 0)"

text \<open>The dictionary has the nodes with partitions and their numbers.\<close>

definition counted :: "pyval list \<Rightarrow> (string, nat) dict \<Rightarrow> bool" where
  "counted ps counts \<longleftrightarrow> dict_wf counts \<and> (\<forall>node. count_of counts node = pindexes_on ps node \<and> (dict_has counts node \<longleftrightarrow> pindexes_on ps node \<noteq> 0))"

lemma py_iter_short: "py_len v = Inr n \<Longrightarrow> py_iter v = Inr ns \<Longrightarrow> length ns = n"
  by (cases v) (auto simp: py_len_def py_iter_def)

lemma count_pindex_counted:
  assumes "count_pindex counts p = Inr counts'" "counted ps counts"
  shows "counted (ps @ [p]) counts'"
proof -
  from assms(1) obtain v n ns ss where v: "py_item p ''nodes'' = Inr v" "py_len v = Inr n" "\<not> n > 1" "py_iter v = Inr ns" "mapR as_str ns = Inr ss"
    and counts': "counts' = foldl (\<lambda>counts node. dict_set counts node (count_of counts node + 1)) counts ss"
    by (auto simp: count_pindex_def bindR_eq_Inr split: if_splits)
  have ns: "ns = map PStr ss" using v(5) by (induction ns arbitrary: ss) (auto simp: bindR_eq_Inr as_str_def split: pyval.splits)
  have on: "on_node p node \<longleftrightarrow> node \<in> set ss" for node by (auto simp: on_node_def v ns)
  have "length ss \<le> 1" using py_iter_short [OF v(2,4)] v(3) ns by simp
  then consider "ss = []" | s where "ss = [s]" by (cases ss) auto
  then show ?thesis
  proof cases
    case 1
    with assms(2) on show ?thesis by (simp add: counts' counted_def pindexes_on_def)
  next
    case 2
    with assms(2) on show ?thesis by (auto simp: counts' counted_def pindexes_on_def dict_get_set)
  qed
qed

lemma counts_counted: "foldR count_pindex counts ps = Inr counts' \<Longrightarrow> counted qs counts \<Longrightarrow> counted (qs @ ps) counts'"
proof (induction ps arbitrary: counts qs)
  case (Cons p ps)
  from Cons.prems(1) obtain c where "count_pindex counts p = Inr c" "foldR count_pindex c ps = Inr counts'" by (auto simp: bindR_eq_Inr)
  with Cons.IH [of c "qs @ [p]"] count_pindex_counted Cons.prems(2) show ?case by simp
qed simp

lemma near_first_iff: "near_first n counts \<longleftrightarrow> (\<forall>(_, c) \<in> set counts. \<bar>int n - int c\<bar> \<le> 1)"
  by (induction n counts rule: near_first.induct) auto

lemma evenly_spread_pair:
  assumes "evenly_spread counts" "(a, x) \<in> set counts" "(b, y) \<in> set counts"
  shows "\<bar>int x - int y\<bar> \<le> 2"
proof (cases counts)
  case (Cons f rest)
  obtain k n where f: "f = (k, n)" by (cases f)
  with assms(1) Cons have "\<forall>(_, c) \<in> set counts. \<bar>int n - int c\<bar> \<le> 1" by (auto simp: evenly_spread_def near_first_iff)
  with assms(2,3) have "\<bar>int n - int x\<bar> \<le> 1" "\<bar>int n - int y\<bar> \<le> 1" by auto
  then show ?thesis by linarith
qed (use assms in simp)

text \<open>
  C16: If the distribution of the index is accepted for n accelerators, exactly n nodes have partitions, none of them is
  on a second node, and the numbers of partitions of any two nodes differ by at most 2.
\<close>

theorem pindexes_spread:
  assumes "validate_pindexes (PDict d) n = Inr True"
  shows "card {node. pindexes_on (dict_values d) node \<noteq> 0} = n \<and>
    (\<forall>a b. pindexes_on (dict_values d) a \<noteq> 0 \<and> pindexes_on (dict_values d) b \<noteq> 0 \<longrightarrow>
      \<bar>int (pindexes_on (dict_values d) a) - int (pindexes_on (dict_values d) b)\<bar> \<le> 2)"
proof -
  from assms obtain counts where c: "foldR count_pindex [] (dict_values d) = Inr counts" "length counts = n" "evenly_spread counts"
    by (auto simp: validate_pindexes_def bindR_eq_Inr dict_attr_def)
  have "counted [] []" by (simp add: counted_def pindexes_on_def dict_get_def dict_has_def)
  from counts_counted [OF c(1) this] have counts: "counted (dict_values d) counts" by simp
  then have nodes: "{node. pindexes_on (dict_values d) node \<noteq> 0} = set (dict_keys counts)"
    by (force simp: counted_def dict_has_def)
  have "card (set (dict_keys counts)) = n"
    using counts c(2) distinct_card [of "dict_keys counts"] by (simp add: counted_def)
  moreover have "\<bar>int (pindexes_on (dict_values d) a) - int (pindexes_on (dict_values d) b)\<bar> \<le> 2"
    if "pindexes_on (dict_values d) a \<noteq> 0" "pindexes_on (dict_values d) b \<noteq> 0" for a b
    using that counts evenly_spread_pair [OF c(3), of a "pindexes_on (dict_values d) a" b "pindexes_on (dict_values d) b"]
    by (fastforce simp: counted_def dict_get_def dest: map_of_SomeD split: option.splits)
  ultimately show ?thesis unfolding nodes by blast
qed

text \<open>Three nodes with one, two and no more than three partitions: the bound is reached.\<close>

definition pindex_on :: "string \<Rightarrow> pyval" where
  "pindex_on node = PDict [(''nodes'', PDict [(node, PDict [])])]"

theorem pindexes_spread_witness:
  "(let d = zip [''p1'', ''p2'', ''p3'', ''p4'', ''p5'', ''p6''] (map pindex_on [''b'', ''a'', ''b'', ''c'', ''c'', ''c'']) in
     validate_pindexes (PDict d) 3 = Inr True \<and> card {node. pindexes_on (dict_values d) node \<noteq> 0} = 3 \<and>
     pindexes_on (dict_values d) ''c'' = pindexes_on (dict_values d) ''a'' + 2)"
proof -
  let ?d = "zip [''p1'', ''p2'', ''p3'', ''p4'', ''p5'', ''p6''] (map pindex_on [''b'', ''a'', ''b'', ''c'', ''c'', ''c''])"
  have accepted: "validate_pindexes (PDict ?d) 3 = Inr True"
    by (simp add: validate_pindexes_def count_pindex_def pindex_on_def dict_attr_def py_len_def py_iter_def dict_index_def dict_get_def
        dict_set_def evenly_spread_def)
  have on: "on_node (pindex_on x) y \<longleftrightarrow> y = x" for x y
    by (auto simp: on_node_def pindex_on_def py_iter_def dict_index_def dict_get_def)
  have "pindexes_on (dict_values ?d) ''c'' = pindexes_on (dict_values ?d) ''a'' + 2"
    by (simp add: pindexes_on_def on)
  with accepted pindexes_spread [OF accepted] show ?thesis by (simp only: Let_def simp_thms)
qed

end
