(* ===== verification/Sg_Versions.thy ===== *)
theory Sg_Versions
  imports Cluster_Reset
begin

text \<open>
  The module functions of \<open>keywords/SyncGateway.py\<close> that ask running Sync Gateways and accelerators for their product and
  version and compare them with what was installed, and \<open>keywords/ClusterKeywords.py\<close>: the addresses of a cluster and
  the verification of its versions. The names of the headers of a response, which \<open>requests\<close> compares without regard to case,
  are in lower case.
\<close>

section \<open>Versions of running programs\<close>

text \<open>\<open>re.split("[ /(;)]", s)\<close>: the fields between the separators.\<close>

fun split_any :: "char set \<Rightarrow> string \<Rightarrow> string list" where
  "split_any cs [] = [[]]"
| "split_any cs (c # s) = (if c \<in> cs then [] # split_any cs s else (case split_any cs s of [] \<Rightarrow> [[c]] | f # fs \<Rightarrow> (c # f) # fs))"

abbreviation version_separators :: "char set" where
  "version_separators \<equiv> {CHR '' '', CHR ''/'', CHR ''('', CHR '';'', CHR '')''}"

definition running_version_formatted :: "string \<Rightarrow> string res" where
  "running_version_formatted running_version =
     (let parts = split_any version_separators running_version in
      bindR (list_item parts 3) (\<lambda>v.
      if v = ''HEAD'' then list_item parts 6
      else bindR (list_item parts 4) (\<lambda>b. Inr (v @ ''-'' @ b))))"

definition sg_scheme :: "environment \<Rightarrow> string res" where
  "sg_scheme env = bindR (get_environ env ''CLUSTER_CONFIG'') (\<lambda>cc. bindR (truth_of (sg_ssl_enabled env cc)) (\<lambda>ssl. Inr (if ssl then ''https'' else ''http'')))"

definition ask_admin_port :: "'w prov_ops \<Rightarrow> string \<Rightarrow> ('w, http_response) prov" where
  "ask_admin_port ops host =
     bindIO (cfg sg_scheme) (\<lambda>scheme.
     on_world (checked (http_send (po_http ops) ((bare_rq ''GET'' (scheme @ ''://'' @ host @ '':4985''))\<lparr>rq_auth := HTTPBasicAuth ''Administrator'' ''password''\<rparr>))))"

definition version_field :: "pyval \<Rightarrow> string res" where
  "version_field resp_obj = bindR (py_item resp_obj ''version'') (\<lambda>v. bindR (case v of PStr s \<Rightarrow> Inr s
     | _ \<Rightarrow> raise_exc ''TypeError'' ''expected string or bytes-like object'') running_version_formatted)"

definition get_sync_gateway_version :: "'w prov_ops \<Rightarrow> string \<Rightarrow> ('w, string \<times> string) prov" where
  "get_sync_gateway_version ops host =
     bindIO (ask_admin_port ops host) (\<lambda>resp.
     bindIO (liftIO (resp_json (po_http ops) resp)) (\<lambda>resp_obj.
     bindIO (liftIO (bindR (py_item resp_obj ''version'') as_str)) (\<lambda>running_version.
     bindIO (liftIO (py_item2 resp_obj ''vendor'' ''version'')) (\<lambda>vendor.
     bindIO (liftIO (running_version_formatted running_version)) (\<lambda>f.
     returnIO (f, py_str (http_runtime (po_http ops)) vendor))))))"

definition get_sg_accel_version :: "'w prov_ops \<Rightarrow> string \<Rightarrow> ('w, string) prov" where
  "get_sg_accel_version ops host =
     bindIO (ask_admin_port ops host) (\<lambda>resp. liftIO (bindR (resp_json (po_http ops) resp) version_field))"

definition check_product :: "string \<Rightarrow> 'w http \<Rightarrow> http_response \<Rightarrow> unit res" where
  "check_product product http resp =
     bindR (resp_json http resp) (\<lambda>resp_obj.
     bindR (dict_index (rs_headers resp) ''server'') (\<lambda>server_header.
     if \<not> startswith server_header product then raise_exc ''ProvisioningError'' (''Wrong product info. Expected '' @ repr_str product)
     else bindR (py_item2 resp_obj ''vendor'' ''name'') (\<lambda>vendor_name.
     if vendor_name \<noteq> PStr product then raise_exc ''ProvisioningError'' (''Wrong vendor name. Expected '' @ repr_str product) else Inr ())))"

definition verify_sync_gateway_product_info :: "'w prov_ops \<Rightarrow> string \<Rightarrow> ('w, unit) prov" where
  "verify_sync_gateway_product_info ops host =
     bindIO (cfg sg_scheme) (\<lambda>scheme.
     bindIO (on_world (checked (http_send (po_http ops) (bare_rq ''GET'' (scheme @ ''://'' @ host @ '':4984''))))) (\<lambda>resp.
     liftIO (check_product ''Couchbase Sync Gateway'' (po_http ops) resp)))"

definition verify_sg_accel_product_info :: "'w prov_ops \<Rightarrow> string \<Rightarrow> ('w, unit) prov" where
  "verify_sg_accel_product_info ops host =
     bindIO (ask_admin_port ops host) (\<lambda>resp. liftIO (check_product ''Couchbase SG Accel'' (po_http ops) resp))"

definition sg_released_version :: "(string, string) dict" where
  "sg_released_version =
     [(''1.4.1.3'', ''1''), (''1.5.0'', ''594''), (''1.5.1'', ''4''), (''2.0.0'', ''832''), (''2.1.0'', ''121''), (''2.1.1'', ''17''),
      (''2.1.2'', ''86''), (''2.1.3.1'', ''2''), (''2.5.0'', ''271''), (''2.6.0'', ''127''), (''2.7.0'', ''166''), (''2.7.4'', ''8''),
      (''2.8.0'', ''376''), (''2.8.0.1'', ''3''), (''2.8.1'', ''15''), (''2.8.2'', ''1''), (''2.8.3'', ''9''), (''2.8.3.4'', ''3''),
      (''2.8.4'', ''9''), (''3.0.5'', ''8''), (''3.0.7'', ''3''), (''3.0.8'', ''3''), (''3.0.9'', ''13''), (''3.1.0'', ''592''),
      (''3.1.2'', ''34''), (''3.1.3'', ''6''), (''3.1.5'', ''3''), (''3.1.6'', ''5''), (''3.1.8'', ''2''), (''3.1.9'', ''13''),
      (''3.2.0'', ''514''), (''3.2.1'', ''15''), (''3.2.2'', ''21''), (''3.2.3'', ''16''), (''3.2.4'', ''6''), (''3.3.0'', ''286'')]"

text \<open>A release without a build number has the build of the table.\<close>

definition with_released_build :: "string \<Rightarrow> string res" where
  "with_released_build expected = (case version_and_build expected of
       (version, Some _) \<Rightarrow> Inr expected
     | (version, None) \<Rightarrow> bindR (dict_index sg_released_version version) (\<lambda>b. Inr (version @ ''-'' @ b)))"

definition unexpected_version :: "string \<Rightarrow> string \<Rightarrow> string \<Rightarrow> 'a res" where
  "unexpected_version what expected actual =
     raise_exc ''ProvisioningError'' (''Unexpected sync_gateway '' @ what @ '' Expected: '' @ expected @ '' Actual: '' @ actual)"

definition compare_running :: "string \<Rightarrow> string \<times> string \<Rightarrow> unit res" where
  "compare_running expected running = (case running of (running_version, vendor_version) \<Rightarrow>
     if version_is_binary expected then
       if running_version \<noteq> expected then unexpected_version ''version!!'' expected running_version
       else if \<not> startswith expected vendor_version then unexpected_version ''vendor version!!'' expected vendor_version
       else Inr ()
     else if running_version \<noteq> take 7 expected then unexpected_version ''version!!'' expected running_version else Inr ())"

definition verify_sync_gateway_version :: "'w prov_ops \<Rightarrow> string \<Rightarrow> string \<Rightarrow> ('w, unit) prov" where
  "verify_sync_gateway_version ops host expected =
     bindIO (liftIO (with_released_build expected)) (\<lambda>expected.
     bindIO (get_sync_gateway_version ops host) (\<lambda>running. liftIO (compare_running expected running)))"

definition verify_sg_accel_version :: "'w prov_ops \<Rightarrow> string \<Rightarrow> string \<Rightarrow> ('w, unit) prov" where
  "verify_sg_accel_version ops host expected =
     bindIO (get_sg_accel_version ops host) (\<lambda>running. liftIO
      (if version_is_binary expected then if running \<noteq> expected then unexpected_version ''version!!'' expected running else Inr ()
       else if running \<noteq> take 7 expected then unexpected_version ''version!!'' expected running else Inr ()))"

section \<open>The addresses of a cluster\<close>

record cluster_keywords =
  ck_sg_scheme :: string
  ck_config :: string

definition set_environ :: "string \<Rightarrow> string \<Rightarrow> (environment, unit) io" where
  "set_environ k v env = (Inr (), env\<lparr>env_vars := dict_set (env_vars env) k v\<rparr>)"

definition ClusterKeywords_init :: "string \<Rightarrow> ('w, cluster_keywords) prov" where
  "ClusterKeywords_init cc =
     bindIO (cfg (\<lambda>env. truth_of (sg_ssl_enabled env cc))) (\<lambda>ssl.
     bindIO (on_files (set_environ ''CLUSTER_CONFIG'' cc)) (\<lambda>_.
     returnIO \<lparr>ck_sg_scheme = (if ssl then ''https'' else ''http''), ck_config = cc\<rparr>))"

definition CLUSTER_CONFIGS_DIR :: string where
  "CLUSTER_CONFIGS_DIR = ''resources/cluster_configs''"

definition ClusterKeywords_set_cluster_config :: "string \<Rightarrow> ('w, unit) prov" where
  "ClusterKeywords_set_cluster_config name =
     (let p = CLUSTER_CONFIGS_DIR @ ''/'' @ name in
      bindIO (cfg (\<lambda>env. if dict_has (env_vars env) ''CLUSTER_CONFIG'' then
          raise_exc ''ProvisioningError'' ''CLUSTER_CONFIG will be set by suite setup. Make sure it is unset.''
        else if \<not> dict_has (env_files env) p then
          raise_exc ''ProvisioningError'' (p @ '' not found. Make sure you have generated your cluster configurations.'')
        else Inr ())) (\<lambda>_. on_files (set_environ ''CLUSTER_CONFIG'' p)))"

definition ClusterKeywords_unset_cluster_config :: "('w, unit) prov" where
  "ClusterKeywords_unset_cluster_config =
     bindIO (cfg (\<lambda>env. if \<not> dict_has (env_vars env) ''CLUSTER_CONFIG'' then
         raise_exc ''ProvisioningError'' ''Trying to unset CLUSTER_CONFIG but it is not defined'' else Inr ())) (\<lambda>_.
     on_files (\<lambda>env. (Inr (), env\<lparr>env_vars := dict_del (env_vars env) ''CLUSTER_CONFIG''\<rparr>)))"

definition sg_urls :: "py_runtime \<Rightarrow> string \<Rightarrow> pyval \<Rightarrow> pyval" where
  "sg_urls rt scheme ip = PDict [(''public'', PStr (scheme @ ''://'' @ py_str rt ip @ '':4984'')), (''admin'', PStr (scheme @ ''://'' @ py_str rt ip @ '':4985''))]"

text \<open>Behind a balancer the scheme is always \<open>http\<close>.\<close>

definition topology_sgs :: "environment \<Rightarrow> cluster_keywords \<Rightarrow> string \<Rightarrow> bool \<Rightarrow> pyval \<Rightarrow> pyval list res" where
  "topology_sgs env ck cc lb_enable cluster = (let rt = env_runtime env; behind = (\<lambda>sg ip. Inr (sg_urls rt ''http'' ip)) in
     bindR (truth_of (is_load_balancer_with_two_clusters_enabled env cc)) (\<lambda>two.
     if two \<and> lb_enable then two_balancer_targets rt behind cluster
     else bindR (truth_of (is_load_balancer_enabled env cc)) (\<lambda>one.
     if one \<and> lb_enable then balancer_targets env cc behind cluster
     else bindR (members_of cluster ''sync_gateways'') (mapR (plain_target rt (\<lambda>sg ip. Inr (sg_urls rt (ck_sg_scheme ck) ip)) cluster)))))"

definition ClusterKeywords_get_cluster_topology :: "environment \<Rightarrow> cluster_keywords \<Rightarrow> string \<Rightarrow> bool \<Rightarrow> pyval res" where
  "ClusterKeywords_get_cluster_topology env ck cc lb_enable = (let rt = env_runtime env in
     bindR (read_json env (cc @ ''.json'')) (\<lambda>cluster.
     bindR (topology_sgs env ck cc lb_enable cluster) (\<lambda>sgs.
     bindR (bindR (members_of cluster ''sg_accels'') (mapR (plain_target rt (\<lambda>_ ip. Inr (PStr (ck_sg_scheme ck @ ''://'' @ py_str rt ip @ '':4985''))) cluster))) (\<lambda>acs.
     bindR (bindR (members_of cluster ''load_balancers'') (mapR (plain_target rt (\<lambda>_ ip. Inr (PStr (''http://'' @ py_str rt ip))) cluster))) (\<lambda>lbs.
     bindR (env_of cluster ''cbs_ssl_enabled'') (\<lambda>ssl.
     bindR (bindR (members_of cluster ''couchbase_servers'') (mapR (server_address rt cluster ssl))) (\<lambda>cbs.
     Inr (PDict [(''sync_gateways'', PList sgs), (''sg_accels'', PList acs), (''couchbase_servers'', PList (map PStr cbs)), (''load_balancers'', PList lbs)]))))))))"

section \<open>Services and versions of a cluster\<close>

text \<open>The first lookup is \<open>cluster_obj["cbs_ssl_enabled"]\<close>, outside the environment of the file.\<close>

definition probe :: "'w http \<Rightarrow> string \<Rightarrow> ('w, string list) io" where
  "probe http url = tryIO (bindIO (http_send http (bare_rq ''GET'' url)) (\<lambda>r. returnIO [rs_url r]))
     (\<lambda>e. if exn_class e = ''ConnectionError'' then returnIO [] else raiseIO e)"

definition ClusterKeywords_verfiy_no_running_services :: "'w prov_ops \<Rightarrow> cluster_keywords \<Rightarrow> string \<Rightarrow> ('w, unit) prov" where
  "ClusterKeywords_verfiy_no_running_services ops ck cc = (let rt = http_runtime (po_http ops); probe_url = (\<lambda>u. on_world (probe (po_http ops) u)) in
     bindIO (cfg (\<lambda>env. read_json env (cc @ ''.json''))) (\<lambda>c.
     bindIO (liftIO (truth_of (py_item c ''cbs_ssl_enabled''))) (\<lambda>ssl.
     bindIO (liftIO (members_of c ''hosts'')) (\<lambda>hosts.
     bindIO (foldIO (\<lambda>running host.
         bindIO (liftIO (bindR (truth_of (env_of c ''ipv6_enabled'')) (\<lambda>v6. bindR (py_item host ''ip'') (\<lambda>ip. Inr (py_str rt (if v6 then bracketed rt ip else ip)))))) (\<lambda>ip.
         bindIO (probe_url ((if ssl then ''https'' else ''http'') @ ''://Administrator:password@'' @ ip @ (if ssl then '':18091'' else '':8091'') @ ''/pools'')) (\<lambda>a.
         bindIO (probe_url (ck_sg_scheme ck @ ''://'' @ ip @ '':4984'')) (\<lambda>b.
         bindIO (probe_url (ck_sg_scheme ck @ ''://'' @ ip @ '':4985'')) (\<lambda>d. returnIO (running @ a @ b @ d)))))) [] hosts) (\<lambda>running.
     liftIO (py_assert (length running = 0) (''Running Services Found: '' @ py_repr rt (PList (map PStr running)))))))))"

definition v6_host :: "py_runtime \<Rightarrow> pyval \<Rightarrow> pyval \<Rightarrow> string res" where
  "v6_host rt cluster server = bindR (truth_of (env_of cluster ''ipv6_enabled'')) (\<lambda>v6. bindR (py_item server ''ip'') (\<lambda>ip.
     Inr (py_str rt (if v6 then bracketed rt ip else ip))))"

definition expected_with_build :: "string \<Rightarrow> string res" where
  "expected_with_build expected = (case version_and_build expected of
       (version, Some _) \<Rightarrow> Inr expected
     | (version, None) \<Rightarrow> bindR (dict_index sg_released_version version) (\<lambda>b. Inr (expected @ ''-'' @ b)))"

definition ClusterKeywords_verify_cluster_versions :: "'w prov_ops \<Rightarrow> string \<Rightarrow> string \<Rightarrow> string \<Rightarrow> ('w, unit) prov" where
  "ClusterKeywords_verify_cluster_versions ops cc expected_server_version expected_sg = (let rt = http_runtime (po_http ops) in
     bindIO (cfg (\<lambda>env. read_json env (cc @ ''.json''))) (\<lambda>c.
     bindIO (liftIO (truth_of (env_of c ''cbs_ssl_enabled''))) (\<lambda>ssl.
     bindIO (liftIO (members_of c ''couchbase_servers'')) (\<lambda>servers.
     bindIO (forIO servers (\<lambda>server. bindIO (liftIO (v6_host rt c server)) (\<lambda>host.
       bindIO (self_get ps_env) (\<lambda>env. on_world (verify_server_version (cbs_env_of ops env) host expected_server_version ssl))))) (\<lambda>_.
     bindIO (liftIO (expected_with_build expected_sg)) (\<lambda>expected.
     bindIO (liftIO (members_of c ''sync_gateways'')) (\<lambda>sgs.
     bindIO (forIO sgs (\<lambda>sg. bindIO (liftIO (v6_host rt c sg)) (\<lambda>host.
       bindIO (verify_sync_gateway_product_info ops host) (\<lambda>_. verify_sync_gateway_version ops host expected)))) (\<lambda>_.
     bindIO (liftIO (members_of c ''sg_accels'')) (\<lambda>acs.
     forIO acs (\<lambda>ac. bindIO (liftIO (v6_host rt c ac)) (\<lambda>host.
       bindIO (liftIO (compare_versions expected ''1.5.0'')) (\<lambda>cmp.
       bindIO (if 0 \<le> cmp then verify_sg_accel_product_info ops host else returnIO ()) (\<lambda>_.
       verify_sg_accel_version ops host expected)))))))))))))"

definition ClusterKeywords_reset_cluster :: "'w prov_ops \<Rightarrow> string \<Rightarrow> string \<Rightarrow> nat \<Rightarrow> ('w, unit) provD" where
  "ClusterKeywords_reset_cluster ops cc sync_gateway_config fuel =
     bindD (liftD (cfg (\<lambda>env. Cluster_init env cc))) (\<lambda>cl.
     bindD (Cluster_reset ops cl sync_gateway_config [] (PBool False) True fuel) (\<lambda>_. liftD (returnIO ())))"

section \<open>Two views of a cluster\<close>

text \<open>
  What the loops over the Sync Gateways of a configuration emit with \<open>named_target\<close> and with a function of the address
  is the same list of addresses.
\<close>

definition target_ip :: "pyval \<Rightarrow> pyval" where
  "target_ip t = (case py_item t ''ip'' of Inr ip \<Rightarrow> ip | Inl _ \<Rightarrow> PNone)"

lemma named_target_ip: "named_target sg ip = Inr t \<Longrightarrow> target_ip t = ip"
  by (auto simp: named_target_def target_of_def target_ip_def bindR_eq_Inr dict_index_def dict_get_def)

lemma plain_targets_agree:
  assumes "mapR (plain_target rt named_target cluster) sgs = Inr ts" "mapR (plain_target rt (\<lambda>_ ip. Inr (g ip)) cluster) sgs = Inr us"
  shows "us = map (\<lambda>t. g (target_ip t)) ts"
  using assms
  by (induction sgs arbitrary: ts us) (auto simp: plain_target_def named_target_ip bindR_eq_Inr)

lemma balancer_target_Inr:
  "balancer_target rt emit cluster (lb, xs) sg = Inr s \<longleftrightarrow> (\<exists>ip t. v6_ip rt cluster lb = Inr ip \<and> emit sg ip = Inr t \<and> s = (ip, xs @ [t]))"
  by (auto simp: balancer_target_def bindR_eq_Inr)

lemma balancer_fold_agree:
  assumes "foldR (balancer_target rt named_target cluster) (lb, xs) sgs = Inr (lb1, ts)"
    "foldR (balancer_target rt (\<lambda>_ ip. Inr (g ip)) cluster) (lb, map (\<lambda>t. g (target_ip t)) xs) sgs = Inr (lb2, us)"
  shows "us = map (\<lambda>t. g (target_ip t)) ts"
  using assms
proof (induction sgs arbitrary: lb xs)
  case (Cons sg sgs)
  from Cons.prems(1) obtain ip t where ip: "v6_ip rt cluster lb = Inr ip" "named_target sg ip = Inr t"
    "foldR (balancer_target rt named_target cluster) (ip, xs @ [t]) sgs = Inr (lb1, ts)"
    by (auto simp: bindR_eq_Inr balancer_target_Inr)
  then show ?case
    using Cons.IH [OF ip(3)] Cons.prems(2) by (auto simp: balancer_target_Inr bindR_eq_Inr named_target_ip)
qed simp

lemma two_balancer_fold_agree:
  assumes "foldR (two_balancer_target rt named_target cluster n) (k, xs) sgs = Inr (k1, ts)"
    "foldR (two_balancer_target rt (\<lambda>_ ip. Inr (g ip)) cluster n) (k, map (\<lambda>t. g (target_ip t)) xs) sgs = Inr (k2, us)"
  shows "us = map (\<lambda>t. g (target_ip t)) ts"
  using assms
proof (induction sgs arbitrary: k xs)
  case (Cons sg sgs)
  have step: "\<exists>ys. two_balancer_target rt named_target cluster n (k, xs) sg = Inr (k + 1, ys) \<and>
      two_balancer_target rt (\<lambda>_ ip. Inr (g ip)) cluster n (k, map (\<lambda>t. g (target_ip t)) xs) sg = Inr (k + 1, map (\<lambda>t. g (target_ip t)) ys)"
    using Cons.prems by (fastforce simp: two_balancer_target_def named_target_ip bindR_eq_Inr split: if_splits)
  then obtain ys where "foldR (two_balancer_target rt named_target cluster n) (k + 1, ys) sgs = Inr (k1, ts)"
    "foldR (two_balancer_target rt (\<lambda>_ ip. Inr (g ip)) cluster n) (k + 1, map (\<lambda>t. g (target_ip t)) ys) sgs = Inr (k2, us)"
    using Cons.prems by auto
  then show ?case by (rule Cons.IH)
qed simp

lemma v6_ip_eq: "truth_of (env_of cluster ''ipv6_enabled'') = Inr v6 \<Longrightarrow> v6_ip rt cluster ip = Inr (if v6 then bracketed rt ip else ip)"
  by (simp add: v6_ip_def)

lemma balancer_fold_extends:
  "foldR (balancer_target rt emit cluster) (lb, xs) sgs = Inr (lb', ts) \<Longrightarrow> \<exists>zs. ts = xs @ zs"
proof (induction sgs arbitrary: lb xs)
  case (Cons sg sgs)
  then obtain ip t where "foldR (balancer_target rt emit cluster) (ip, xs @ [t]) sgs = Inr (lb', ts)"
    by (auto simp: bindR_eq_Inr balancer_target_Inr)
  from Cons.IH [OF this] show ?case by auto
qed simp

lemma balancer_fold_brackets:
  assumes "truth_of (env_of cluster ''ipv6_enabled'') = Inr v6"
    and "foldR (balancer_target rt named_target cluster) (lb, xs) sgs = Inr (lb', ts)" "i < length ts - length xs"
  shows "target_ip (ts ! (length xs + i)) = (if v6 then (bracketed rt ^^ Suc i) lb else lb)"
  using assms(2,3)
proof (induction sgs arbitrary: lb xs i)
  case (Cons sg sgs)
  then obtain t where t: "named_target sg (if v6 then bracketed rt lb else lb) = Inr t"
    "foldR (balancer_target rt named_target cluster) (if v6 then bracketed rt lb else lb, xs @ [t]) sgs = Inr (lb', ts)"
    by (auto simp: balancer_target_Inr bindR_eq_Inr v6_ip_eq [OF assms(1)])
  obtain zs where ts: "ts = (xs @ [t]) @ zs" using balancer_fold_extends [OF t(2)] by blast
  show ?case
  proof (cases i)
    case 0
    then have "ts ! (length xs + i) = t" by (simp add: ts)
    with named_target_ip [OF t(1)] 0 show ?thesis by simp
  next
    case (Suc j)
    with Cons.prems(2) Cons.IH [OF t(2), of j] show ?thesis by (simp add: funpow_swap1)
  qed
qed simp

definition behind_balancer :: "environment \<Rightarrow> string \<Rightarrow> bool" where
  "behind_balancer env cc \<longleftrightarrow> truth_of (is_load_balancer_with_two_clusters_enabled env cc) = Inr True \<or> truth_of (is_load_balancer_enabled env cc) = Inr True"

lemma topology_sgs_agree:
  assumes "sg_targets env cc cluster = Inr ts" "topology_sgs env ck cc True cluster = Inr us"
  shows "us = map (\<lambda>t. sg_urls (env_runtime env) (if behind_balancer env cc then ''http'' else ck_sg_scheme ck) (target_ip t)) ts"
  using assms
  by (auto simp: sg_targets_def topology_sgs_def Let_def behind_balancer_def two_balancer_targets_def balancer_targets_def bindR_eq_Inr
      dest!: plain_targets_agree split: if_splits
      dest: two_balancer_fold_agree [of _ _ _ _ "[]", simplified] balancer_fold_agree [of _ _ _ "[]", simplified])

lemma SyncGateway_init_ip: "SyncGateway_init env cc t = Inr sg \<Longrightarrow> sgn_ip sg = target_ip t"
  by (auto simp: SyncGateway_init_def target_ip_def bindR_eq_Inr)

lemma SgAccel_init_ip: "SgAccel_init env cc t = Inr sa \<Longrightarrow> sga_ip sa = target_ip t"
  by (auto simp: SgAccel_init_def target_ip_def bindR_eq_Inr)

lemma mapR_project: "mapR f xs = Inr ys \<Longrightarrow> (\<And>x y. f x = Inr y \<Longrightarrow> h y = k x) \<Longrightarrow> map k xs = map h ys"
  by (induction xs arbitrary: ys) (auto simp: bindR_eq_Inr)


text \<open>
  Behind one load balancer every Sync Gateway has the address of the balancer, without IPv6. With IPv6 the address is
  put into brackets once more for every Sync Gateway: the i-th has i pairs, and only the first is an address.
\<close>

theorem balancer_address_brackets:
  assumes "truth_of (is_load_balancer_with_two_clusters_enabled env cc) = Inr False" "truth_of (is_load_balancer_enabled env cc) = Inr True"
    and "get_load_balancer_ip env cc = Inr lb" "truth_of (env_of cluster ''ipv6_enabled'') = Inr v6"
    and "sg_targets env cc cluster = Inr ts" "i < length ts"
  shows "target_ip (ts ! i) = (if v6 then (bracketed (env_runtime env) ^^ Suc i) lb else lb)"
proof -
  let ?rt = "env_runtime env"
  from assms(1-3,5) obtain sgs lb' where "foldR (balancer_target ?rt named_target cluster) (lb, []) sgs = Inr (lb', ts)"
    by (auto simp: sg_targets_def balancer_targets_def bindR_eq_Inr)
  with assms(4,6) show ?thesis using balancer_fold_brackets [of cluster v6 ?rt lb "[]" sgs lb' ts i] by simp
qed

text \<open>Two Sync Gateways and two servers with IPv6, with a load balancer or without.\<close>

definition v6_cluster :: "bool \<Rightarrow> pyval" where
  "v6_cluster balanced = PDict [
     (''sync_gateways'', PList [target_of (PStr ''sg1'') (PStr ''fe80::1''), target_of (PStr ''sg2'') (PStr ''fe80::2'')]),
     (''sg_accels'', PList []), (''load_balancers'', PList [target_of (PStr ''lb1'') (PStr ''fe80::9'')]),
     (''couchbase_servers'', PList [target_of (PStr ''cb1'') (PStr ''fe80::3'')]),
     (''environment'', PDict [(''sg_lb_enabled'', PBool balanced), (''ipv6_enabled'', PBool True), (''cbs_ssl_enabled'', PBool False),
       (''xattrs_enabled'', PBool True), (''sync_gateway_ssl'', PBool False), (''x509_certs'', PBool False), (''disable_persistent_config'', PBool False),
       (''sync_gateway_version'', PStr ''3.1.0'')])]"

definition v6_env :: "bool \<Rightarrow> environment" where
  "v6_env balanced = \<lparr>env_vars = [(''CLUSTER_CONFIG'', ''c'')], env_files = [(''c'', TextFile []), (''c.json'', JsonFile (v6_cluster balanced))],
     env_runtime = bare_runtime\<rparr>"

lemma v6_env_files [simp]: "read_json (v6_env b) ''c.json'' = Inr (v6_cluster b)" "load_cluster_config_json (v6_env b) ''c'' = Inr (v6_cluster b)"
  "dict_has (env_files (v6_env b)) ''c''" "env_runtime (v6_env b) = bare_runtime" "get_environ (v6_env b) ''CLUSTER_CONFIG'' = Inr ''c''"
  by (simp_all add: v6_env_def read_json_def load_cluster_config_json_def get_environ_def dict_get_def dict_index_def dict_has_def)

lemma v6_cluster_members [simp]:
  "members_of (v6_cluster b) ''sync_gateways'' = Inr [target_of (PStr ''sg1'') (PStr ''fe80::1''), target_of (PStr ''sg2'') (PStr ''fe80::2'')]"
  "members_of (v6_cluster b) ''sg_accels'' = Inr []" "members_of (v6_cluster b) ''couchbase_servers'' = Inr [target_of (PStr ''cb1'') (PStr ''fe80::3'')]"
  "members_of (v6_cluster b) ''load_balancers'' = Inr [target_of (PStr ''lb1'') (PStr ''fe80::9'')]"
  by (simp_all add: v6_cluster_def members_of_def dict_index_def dict_get_def py_iter_def)

lemma target_of_items [simp]: "py_item (target_of n ip) ''name'' = Inr n" "py_item (target_of n ip) ''ip'' = Inr ip"
  by (simp_all add: target_of_def dict_index_def dict_get_def)

lemma v6_cluster_env [simp]: "env_of (v6_cluster b) ''ipv6_enabled'' = Inr (PBool True)" "env_of (v6_cluster b) ''cbs_ssl_enabled'' = Inr (PBool False)"
  "env_of (v6_cluster b) ''xattrs_enabled'' = Inr (PBool True)" "env_of (v6_cluster b) ''sync_gateway_ssl'' = Inr (PBool False)"
  "env_of (v6_cluster b) ''disable_persistent_config'' = Inr (PBool False)" 
  by (simp_all add: v6_cluster_def py_item2_def dict_index_def dict_get_def)

lemma v6_env_props [simp]: "is_load_balancer_with_two_clusters_enabled (v6_env b) ''c'' = Inr (PBool False)" "is_load_balancer_enabled (v6_env b) ''c'' = Inr (PBool b)"
  "get_load_balancer_ip (v6_env b) ''c'' = Inr (PStr ''fe80::9'')" "sg_ssl_enabled (v6_env b) ''c'' = Inr (PBool False)"
  "is_cbs_ssl_enabled (v6_env b) ''c'' = Inr (PBool False)" "is_x509_auth (v6_env b) ''c'' = Inr (PBool False)"
  by (simp_all add: is_load_balancer_with_two_clusters_enabled_def is_load_balancer_enabled_def get_load_balancer_ip_def sg_ssl_enabled_def
      is_cbs_ssl_enabled_def is_x509_auth_def env_prop_def env_prop_or_false_def v6_cluster_def dict_index_def dict_get_def)

lemma v6_env_primary [simp]: "add_cbs_to_sg_config_server_field (v6_env b) ''c'' = Inr ''fe80::3''"
proof -
  have "get_sg_version (v6_env b) ''c'' = Inr (PStr ''3.1.0'')" "get_cbs_servers (v6_env b) ''c'' = Inr [PStr ''fe80::3'']"
    by (simp_all add: get_sg_version_def env_prop_def get_cbs_servers_def group_ips_def v6_cluster_def dict_index_def dict_get_def)
  moreover have "compare_versions ''3.1.0'' ''1.5'' = Inr 1" by code_simp
  ultimately show ?thesis by (simp add: add_cbs_to_sg_config_server_field_def)
qed


theorem balancer_address_brackets_witness:
  "\<exists>ts. sg_targets (v6_env True) ''c'' (v6_cluster True) = Inr ts \<and> target_ip (ts ! 1) = PStr ''[[fe80::9]]''"
proof -
  have props: "truth_of (is_load_balancer_with_two_clusters_enabled (v6_env True) ''c'') = Inr False" "truth_of (is_load_balancer_enabled (v6_env True) ''c'') = Inr True"
    "get_load_balancer_ip (v6_env True) ''c'' = Inr (PStr ''fe80::9'')" "truth_of (env_of (v6_cluster True) ''ipv6_enabled'') = Inr True"
    by (simp_all add: truth_of_def)
  obtain ts where ts: "sg_targets (v6_env True) ''c'' (v6_cluster True) = Inr ts" "length ts = 2"
    by (simp add: sg_targets_def balancer_targets_def balancer_target_def named_target_def v6_ip_def truth_of_def)
  show ?thesis
    using balancer_address_brackets [OF props ts(1), of 1] ts by (simp add: bracketed_def)
qed

end
