(* ===== verification/Sg_Install.thy ===== *)
theory Sg_Install
  imports Sg_Versions
begin

text \<open>
  \<open>libraries/provision/install_sync_gateway.py\<close>: the package of a version of Sync Gateway, its installation from a
  package or from source with the variables of the configuration, and the buckets that the configuration needs.
\<close>

section \<open>What to install\<close>

record sg_build =
  sb_commit :: "string option"
  sb_version_number :: "string option"
  sb_build_number :: "string option"
  sb_config_path :: string
  sb_build_flags :: string
  sb_skip_bucketcreation :: bool

definition LATEST_BUILDS :: string where
  "LATEST_BUILDS = ''http://latestbuilds.service.couchbase.com/builds/latestbuilds''"

definition RELEASED_BUILDS :: string where
  "RELEASED_BUILDS = ''http://latestbuilds.service.couchbase.com/builds/releases/mobile''"

definition opt_text :: "string option \<Rightarrow> string" where
  "opt_text x = (case x of None \<Rightarrow> ''None'' | Some s \<Rightarrow> s)"

abbreviation given :: "string option \<Rightarrow> bool" where
  "given x \<equiv> x \<noteq> None \<and> x \<noteq> Some []"

definition SyncGatewayConfig_str :: "sg_build \<Rightarrow> string" where
  "SyncGatewayConfig_str c =
     nl @ ''  sync_gateway configuration'' @ nl @
     ''  ------------------------------------------'' @ nl @
     ''  version:          '' @ opt_text (sb_version_number c) @ nl @
     ''  build number:     '' @ opt_text (sb_build_number c) @ nl @
     ''  commit:           '' @ opt_text (sb_commit c) @ nl @
     ''  config path:      '' @ sb_config_path c @ nl @
     ''  build flags:      '' @ sb_build_flags c @ nl @
     ''  skip bucketcreation: '' @ (if sb_skip_bucketcreation c then ''True'' else ''False'') @ nl"

definition package_name :: "string \<Rightarrow> string \<Rightarrow> string \<Rightarrow> string \<Rightarrow> string \<Rightarrow> string" where
  "package_name installer sg_type version architecture extension =
     ''couchbase-'' @ installer @ ''-'' @ sg_type @ ''_'' @ version @ architecture @ ''.'' @ extension"

definition full_version :: "sg_build \<Rightarrow> string" where
  "full_version c = opt_text (sb_version_number c) @ ''-'' @ opt_text (sb_build_number c)"

definition SyncGatewayConfig_resolve_sg_sa_mobile_url :: "sg_build \<Rightarrow> string \<Rightarrow> string \<Rightarrow> string \<Rightarrow> bool \<Rightarrow> string \<Rightarrow> string option \<Rightarrow> (string \<times> string) res" where
  "SyncGatewayConfig_resolve_sg_sa_mobile_url c installer sg_type extension aws architecture custom_build =
     (if aws \<and> given custom_build then raise_exc ''AssertionError'' ''aws and custom_build cannot both be true/assigned''
      else
        let base_url = (if given custom_build then opt_text custom_build @ ''/''
               else if given (sb_build_number c) then LATEST_BUILDS @ ''/sync_gateway/'' @ opt_text (sb_version_number c) @ ''/'' @ opt_text (sb_build_number c)
               else RELEASED_BUILDS @ ''/couchbase-sync-gateway/'' @ opt_text (sb_version_number c));
            name = package_name installer sg_type
               (if given (sb_build_number c) then full_version c else opt_text (sb_version_number c)) architecture extension
        in Inr (if aws then (''https://cbmobile-packages.s3.amazonaws.com'', package_name installer sg_type (full_version c) architecture extension)
                else (base_url, name)))"

text \<open>The extension of the package and the architecture in its name; a platform without either leaves them unset.\<close>

definition sg_extension :: "string \<Rightarrow> (string \<times> string) option" where
  "sg_extension platform =
     (if contains_str platform ''windows'' then Some (''msi'', ''_x86_64'')
      else if contains_str platform ''centos'' then Some (''rpm'', ''_x86_64'')
      else if contains_str platform ''ubuntu'' \<or> contains_str platform ''debian'' then Some (''deb'', ''_x86_64'')
      else if contains_str platform ''macosarm'' then Some (''zip'', ''_arm64'')
      else if contains_str platform ''macos'' then Some (''zip'', ''_x86_64'')
      else if contains_str platform ''linuxarch'' then Some (''rpm'', ''_aarch64'') else None)"

definition sa_extension :: "string \<Rightarrow> string option" where
  "sa_extension platform = map_option fst (sg_extension platform)"

definition SyncGatewayConfig_sync_gateway_base_url_and_package ::
    "sg_build \<Rightarrow> bool \<Rightarrow> string \<Rightarrow> string \<Rightarrow> string \<Rightarrow> string \<Rightarrow> bool \<Rightarrow> string option \<Rightarrow> (string \<times> string \<times> string) res" where
  "SyncGatewayConfig_sync_gateway_base_url_and_package c ce sg_os sg_installer sa_os sa_installer aws custom_build =
     (let architecture = (case sg_extension sg_os of Some (_, a) \<Rightarrow> a | None \<Rightarrow> ''_x86_64'');
          exe = (sg_os = ''windows'' \<or> sa_os = ''windows'') \<and> (sg_installer \<noteq> ''msi'' \<or> sa_installer \<noteq> ''msi'');
          sg_ext = (if exe then Some ''exe'' else map_option fst (sg_extension sg_os));
          sa_ext = (if exe then Some ''exe'' else sa_extension sa_os);
          sg_type = (if ce then ''community'' else ''enterprise'') in
      if sb_version_number c = Some ''1.1.0'' \<or> sb_build_number c = Some ''1.1.1'' then
        raise_exc ''ProvisioningError'' ''Unsupport version of sync_gateway''
      else bindR (case sg_ext of Some e \<Rightarrow> Inr e | None \<Rightarrow> Inl (unbound ''sg_platform_extension'')) (\<lambda>sg_ext.
        bindR (SyncGatewayConfig_resolve_sg_sa_mobile_url c ''sync-gateway'' sg_type sg_ext aws architecture custom_build) (\<lambda>(_, sg_package_name).
        bindR (case sa_ext of Some e \<Rightarrow> Inr e | None \<Rightarrow> Inl (unbound ''sa_platform_extension'')) (\<lambda>sa_ext.
        bindR (SyncGatewayConfig_resolve_sg_sa_mobile_url c ''sg-accel'' sg_type sa_ext aws ''_x86_64'' custom_build) (\<lambda>(base_url, accel_package_name).
        Inr (base_url, sg_package_name, accel_package_name))))))"

definition SyncGatewayConfig_is_valid :: "environment \<Rightarrow> sg_build \<Rightarrow> bool res" where
  "SyncGatewayConfig_is_valid env c =
     (if sb_version_number c \<noteq> None \<and> sb_commit c \<noteq> None then
        raise_exc ''ProvisioningError'' ''Commit should be empty when provisioning with a binary''
      else if sb_version_number c = None \<and> sb_commit c \<noteq> None \<and> sb_build_number c \<noteq> None then
        raise_exc ''ProvisioningError'' ''Do not specify a build number when provisioning via a commit.''
      else if sb_version_number c = None \<and> sb_commit c = None then Inr False
      else Inr (dict_has (env_files env) (sb_config_path c)))"

definition SyncGatewayConfig_get_sg_version_build :: "sg_build \<Rightarrow> string option \<times> string option" where
  "SyncGatewayConfig_get_sg_version_build c = (sb_version_number c, sb_build_number c)"

section \<open>Buckets for the configuration\<close>

definition create_server_buckets :: "'w prov_ops \<Rightarrow> string \<Rightarrow> sg_build \<Rightarrow> nat \<Rightarrow> ('w, unit) provD" where
  "create_server_buckets ops cc c fuel =
     bindD (liftD (cfg (\<lambda>env. Cluster_init env cc))) (\<lambda>cl.
     bindD (liftD (ClusterKeywords_init cc)) (\<lambda>ck.
     bindD (liftD (cfg (\<lambda>env. bindR (ClusterKeywords_get_cluster_topology env ck cc True) (\<lambda>t. bindR (py_item t ''couchbase_servers'') as_list)))) (\<lambda>servers.
     if length servers = 0 then liftD (returnIO ())
     else bindD (liftD (liftIO (bindR (list_item servers 0) as_str))) (\<lambda>url.
     bindD (liftD (self_get ps_env)) (\<lambda>env. let ce = cbs_env_of ops env; sv = CouchbaseServer_init url in
     bindD (on_worldD (cbs_delete_buckets ce sv fuel)) (\<lambda>_.
     bindD (liftD (get_buckets_from_sync_gateway_config ops (sb_config_path c))) (\<lambda>bucket_names.
     bindD (liftD (liftIO (bucket_strings bucket_names))) (\<lambda>names.
     on_worldD (cbs_create_buckets ce (string_order ops) sv names cc (py_truth (cl_ipv6 cl)) fuel)))))))))"

section \<open>Installation\<close>

record install_args =
  ia_sg_ce :: bool
  ia_sg_os :: string
  ia_sg_installer :: string
  ia_sa_os :: string
  ia_sa_installer :: string
  ia_aws :: bool
  ia_url :: "string option"
  ia_version :: "string option"
  ia_custom_build :: "string option"
  ia_code_coverage :: bool

definition install_base :: "'w prov_ops \<Rightarrow> string \<Rightarrow> string \<Rightarrow> string \<Rightarrow> vars" where
  "install_base ops conf_arg scheme node =
     (''sync_gateway_config_filepath'', PStr conf_arg) # blank [''username'', ''password'', ''certpath'', ''keypath'', ''cacertpath''] @
     [(''x509_certs_dir'', PStr (certs_dir ops)), (''x509_auth'', PBool False), (''sg_cert_path'', PStr (sg_cert_path ops)),
      (''server_port'', PStr []), (''server_scheme'', PStr scheme)] @
     blank [''autoimport'', ''xattrs'', ''no_conflicts'', ''sslcert'', ''sslkey'', ''num_index_replicas'', ''sg_use_views'', ''revs_limit''] @
     [(''couchbase_server_primary_node'', PStr node)] @
     blank [''delta_sync'', ''prometheus'', ''hide_product_version'', ''tls'', ''disable_persistent_config'', ''server_tls_skip_verify'',
       ''disable_tls_server'', ''disable_admin_auth'']"

definition install_vars :: "'w prov_ops \<Rightarrow> string \<Rightarrow> pyval \<Rightarrow> string \<Rightarrow> pyval \<Rightarrow> vars \<Rightarrow> ('w, vars) prov" where
  "install_vars ops cc ver sg_os bucket_names v =
     bindIO (auth_step ops cc (\<lambda>env. Inr ver) ''*'' (PStr sg_os) bucket_names (with_debian sg_os v)) (\<lambda>v.
     bindIO (cbs_ssl_step ops cc (\<lambda>env. both (is_cbs_ssl_enabled env cc) (at_least (Inr ver) ''1.5.0'')) (PStr sg_os) v) (\<lambda>v.
     cfg_steps (\<lambda>env. [xattrs_step (is_xattrs_enabled env cc) (Inr ver), conflicts_step (no_conflicts_enabled env cc),
        ssl_step (https_text 29 28) (sg_ssl_enabled env cc) (is_centralized_persistent_config_disabled env cc),
        revs_limit_step (env_runtime env) (get_revs_limit env cc) id] @ feature_steps env cc (\<lambda>env. Inr ver) @ v3_steps env cc (\<lambda>env. Inr ver)) v))"

definition install_own_config :: "'w prov_ops \<Rightarrow> string \<Rightarrow> sg_build \<Rightarrow> pyval \<Rightarrow> string \<Rightarrow> nat \<Rightarrow> ('w, vars) provD" where
  "install_own_config ops cc c ver sg_os fuel =
     bindD (liftD (get_buckets_from_sync_gateway_config ops (sb_config_path c))) (\<lambda>bucket_names.
     bindD (liftD (cfg (\<lambda>env. add_cbs_to_sg_config_server_field env cc))) (\<lambda>node.
     bindD (if \<not> sb_skip_bucketcreation c then create_server_buckets ops cc c fuel else liftD (returnIO ())) (\<lambda>_.
     bindD (liftD (cfg (\<lambda>env. truth_of (is_cbs_ssl_enabled env cc)))) (\<lambda>ssl.
     bindD (liftD (cfg (\<lambda>env. get_cbs_primary_nodes_str env cc node))) (\<lambda>node.
     liftD (install_vars ops cc ver sg_os bucket_names
       (install_base ops (abspath (po_cwd ops) (sb_config_path c)) (if ssl then ''couchbases'' else ''couchbase'') node)))))))"

definition must_provision :: "'w prov_ops \<Rightarrow> string \<Rightarrow> string \<Rightarrow> vars option \<Rightarrow> string \<Rightarrow> ('w, unit) prov" where
  "must_provision ops cc script_name v msg =
     bindIO (run_ansible_playbook ops cc script_name v PNone) (\<lambda>status. if status \<noteq> 0 then raiseIO (Exn ''ProvisioningError'' msg) else returnIO ())"

text \<open>The playbook of the platform; only the last one measures the coverage, and its second playbook gives the status.\<close>

definition install_package :: "'w prov_ops \<Rightarrow> string \<Rightarrow> install_args \<Rightarrow> vars \<Rightarrow> pyval \<Rightarrow> ('w, int \<times> int option) prov" where
  "install_package ops cc a v target =
     (if ia_sg_os a = ''windows'' then
        bindIO (run_ansible_playbook ops cc ''install-sync-gateway-package-windows.yml'' (Some v) target) (\<lambda>status. returnIO (status, None))
      else if contains_str (ia_sg_os a) ''macos'' then
        bindIO (run_ansible_playbook ops cc ''install-sync-gateway-package-macos.yml'' (Some v) target) (\<lambda>status. returnIO (status, None))
      else
        bindIO (if ia_code_coverage a then
            bindIO (run_ansible_playbook ops cc ''setup-code-coverage-env.yml'' None target) (\<lambda>_.
            bindIO (run_ansible_playbook ops cc ''setup-code-coverage-location.yml'' None target) (\<lambda>s. returnIO (Some s)))
          else returnIO None) (\<lambda>coverage.
        bindIO (run_ansible_playbook ops cc ''install-sync-gateway-package.yml'' (Some v) target) (\<lambda>status. returnIO (status, coverage))))"

definition opt_val :: "string option \<Rightarrow> pyval" where
  "opt_val x = (case x of None \<Rightarrow> PNone | Some s \<Rightarrow> PStr s)"

definition package_vars :: "string \<times> string \<times> string \<Rightarrow> vars \<Rightarrow> vars" where
  "package_vars p v = (case p of (base_url, sg_package, accel_package) \<Rightarrow>
     set_var ''couchbase_sg_accel_package'' accel_package (set_var ''couchbase_sync_gateway_package'' sg_package
       (set_var ''couchbase_sync_gateway_package_base_url'' base_url v)))"

definition install_from_package :: "'w prov_ops \<Rightarrow> string \<Rightarrow> sg_build \<Rightarrow> install_args \<Rightarrow> vars \<Rightarrow> ('w, unit) prov" where
  "install_from_package ops cc c a v =
     bindIO (liftIO (SyncGatewayConfig_sync_gateway_base_url_and_package c (ia_sg_ce a) (ia_sg_os a) (ia_sg_installer a) (ia_sa_os a) (ia_sa_installer a)
       (ia_aws a) (ia_custom_build a))) (\<lambda>p.
     let v = dict_set (package_vars p v) ''couchbase_server_version'' (PList [opt_val (sb_version_number c), opt_val (sb_build_number c)]) in
     bindIO (case ia_url a of None \<Rightarrow> returnIO PNone | Some u \<Rightarrow> cfg (\<lambda>env. hostname_for_url env cc u)) (\<lambda>target.
     bindIO (install_package ops cc a v target) (\<lambda>(status, coverage).
     bindIO (if ia_code_coverage a then (case coverage of
           None \<Rightarrow> raiseIO (unbound ''coverage_status'')
         | Some s \<Rightarrow> if s \<noteq> 0 then raiseIO (Exn ''ProvisioningError'' ''Failed to setup environment for coe-coverage'') else returnIO ())
       else returnIO ()) (\<lambda>_.
     if status \<noteq> 0 then raiseIO (Exn ''ProvisioningError'' ''Failed to install sync_gateway package'')
     else must_provision ops cc (if ia_sa_os a = ''windows'' then ''install-sg-accel-package-windows.yml'' else ''install-sg-accel-package.yml'') (Some v)
       ''Failed to install sg_accel package''))))"

definition install_sync_gateway :: "'w prov_ops \<Rightarrow> string \<Rightarrow> sg_build \<Rightarrow> install_args \<Rightarrow> nat \<Rightarrow> ('w, unit) provD" where
  "install_sync_gateway ops cc c a fuel =
     bindD (liftD (cfg (\<lambda>env. Cluster_init env cc))) (\<lambda>cl.
     bindD (liftD (cfg (\<lambda>env. case ia_version a of Some s \<Rightarrow> Inr (PStr (fst (version_and_build s))) | None \<Rightarrow> get_sg_version env cc))) (\<lambda>ver.
     bindD (liftD (cfg (\<lambda>env. persistent_config env cc (Inr ver)))) (\<lambda>p.
     bindD (if p then bindD (Cluster_setup_server_and_sgw ops cl (sb_config_path c) (\<not> sb_skip_bucketcreation c) [] (PBool False) None fuel)
              (\<lambda>(v, _, _). liftD (returnIO v))
            else install_own_config ops cc c ver (ia_sg_os a) fuel) (\<lambda>v.
     bindD (liftD (case sb_commit c of
         Some commit \<Rightarrow> must_provision ops cc ''install-sync-gateway-source.yml'' (Some (set_var ''build_flags'' (sb_build_flags c) (set_var ''commit'' commit v)))
           ''Failed to install sync_gateway source''
       | None \<Rightarrow> install_from_package ops cc c a v)) (\<lambda>_.
     liftD (must_provision ops cc ''configure-sync-gateway-awslogs-forwarder.yml'' (Some (with_debian (ia_sg_os a) []))
       ''Failed to configure sync_gateway awslogs forwarder''))))))"

text \<open>The version on the command line.\<close>

definition command_line_version :: "string option \<Rightarrow> (string option \<times> string option) res" where
  "command_line_version v = (case v of
       None \<Rightarrow> Inr (None, None)
     | Some s \<Rightarrow> (case split_chr CHR ''-'' s of
           [version, build] \<Rightarrow> Inr (Some version, Some build)
         | _ \<Rightarrow> raise_exc ''ValueError'' (''Invalid format for sync_gateway version. Make sure to follow the patter '' @ repr_str ''1.2.3-456'')))"

end
