(* ===== verification/Sg_Control.thy ===== *)
theory Sg_Control
  imports Sg_Install
begin

text \<open>
  The class \<open>SyncGateway\<close> of \<open>keywords/SyncGateway.py\<close> and the remaining functions of the module: starting, stopping,
  upgrading and redeploying the Sync Gateways of a cluster, and preparing configuration files for tests. The object
  keeps the scheme and port of the servers: once encrypted they stay so. An operation that changes it returns it.
\<close>

section \<open>Starting\<close>

record sg_keywords =
  kw_server_port :: string
  kw_server_scheme :: string

definition SyncGateway_keywords :: sg_keywords where
  "SyncGateway_keywords = \<lparr>kw_server_port = [], kw_server_scheme = ''couchbase''\<rparr>"

definition encrypted :: "bool \<Rightarrow> sg_keywords \<Rightarrow> sg_keywords" where
  "encrypted b kw = (if b then kw\<lparr>kw_server_port := [], kw_server_scheme := ''couchbases''\<rparr> else kw)"

definition start_gateways_base :: "'w prov_ops \<Rightarrow> sg_keywords \<Rightarrow> string \<Rightarrow> string \<Rightarrow> vars" where
  "start_gateways_base ops kw conf_arg node =
     (''sync_gateway_config_filepath'', PStr conf_arg) # blank [''username'', ''password'', ''certpath'', ''keypath'', ''cacertpath''] @
     [(''x509_certs_dir'', PStr (certs_dir ops)), (''x509_auth'', PBool False), (''sg_cert_path'', PStr (sg_cert_path ops)),
      (''server_port'', PStr (kw_server_port kw)), (''server_scheme'', PStr (kw_server_scheme kw))] @
     blank [''autoimport'', ''xattrs'', ''no_conflicts'', ''revs_limit'', ''sg_use_views'', ''num_index_replicas''] @
     [(''couchbase_server_primary_node'', PStr node)] @
     blank [''delta_sync'', ''prometheus'', ''hide_product_version'', ''tls'', ''disable_persistent_config'', ''server_tls_skip_verify'',
       ''disable_tls_server'', ''disable_admin_auth'', ''groupid'']"

definition start_gateways_vars :: "'w prov_ops \<Rightarrow> string \<Rightarrow> pyval \<Rightarrow> pyval \<Rightarrow> vars \<Rightarrow> ('w, vars) prov" where
  "start_gateways_vars ops cc platform bucket_names v =
     bindIO (auth_step ops cc (\<lambda>env. get_sg_version env cc) [] platform bucket_names v) (\<lambda>v.
     cfg_steps (\<lambda>env. [xattrs_step (is_xattrs_enabled env cc) (get_sg_version env cc),
        ssl_step (https_text 29 28) (sg_ssl_enabled env cc) (is_centralized_persistent_config_disabled env cc), conflicts_step (no_conflicts_enabled env cc),
        revs_limit_step (env_runtime env) (get_revs_limit env cc) id, group_step (env_runtime env) bucket_names] @
        feature_steps env cc (\<lambda>env. get_sg_version env cc) @
       [when_step (truth_of (is_centralized_persistent_config_disabled env cc)) ''disable_persistent_config'' (raw_var ''disable_persistent_config'' ''true'')]) v)"

definition start_own_config :: "'w prov_ops \<Rightarrow> sg_keywords \<Rightarrow> string \<Rightarrow> pyval \<Rightarrow> string \<Rightarrow> ('w, vars \<times> sg_keywords) prov" where
  "start_own_config ops kw cc platform config =
     (let conf_arg = abspath (po_cwd ops) config in
      bindIO (get_buckets_from_sync_gateway_config ops conf_arg) (\<lambda>bucket_names.
      bindIO (cfg (\<lambda>env. add_cbs_to_sg_config_server_field env cc)) (\<lambda>node.
      bindIO (cfg (\<lambda>env. truth_of (is_cbs_ssl_enabled env cc))) (\<lambda>ssl.
      bindIO (cfg (\<lambda>env. truth_of (is_x509_auth env cc))) (\<lambda>x509.
      bindIO (cfg (\<lambda>env. get_cbs_primary_nodes_str env cc node)) (\<lambda>node.
      let kw = encrypted (ssl \<or> x509) kw in
      bindIO (start_gateways_vars ops cc platform bucket_names (start_gateways_base ops kw conf_arg node)) (\<lambda>v. returnIO (v, kw))))))))"

text \<open>After the settings of version 3.0.0 come again, three more times, as in the source.\<close>

definition start_tail :: "'w prov_ops \<Rightarrow> string \<Rightarrow> pyval \<Rightarrow> vars \<Rightarrow> ('w, vars) prov" where
  "start_tail ops cc platform v =
     bindIO (cfg_steps (\<lambda>env. take 1 (v3_steps env cc (\<lambda>env. get_sg_version env cc))) v) (\<lambda>v.
     bindIO (cbs_ssl_step ops cc (\<lambda>env. both (is_cbs_ssl_enabled env cc) (at_least (get_sg_version env cc) ''1.5.0'')) platform v) (\<lambda>v.
     cfg_steps (\<lambda>env. let fs = v3_steps env cc (\<lambda>env. get_sg_version env cc) in drop 1 fs @ fs @ fs @ fs) v))"

definition target_hosts :: "environment \<Rightarrow> string \<Rightarrow> string option \<Rightarrow> pyval res" where
  "target_hosts env cc url = (case url of None \<Rightarrow> Inr PNone | Some u \<Rightarrow> hostname_for_url env cc u)"

definition SyncGateway_start_sync_gateways :: "'w prov_ops \<Rightarrow> sg_keywords \<Rightarrow> string \<Rightarrow> string option \<Rightarrow> string option \<Rightarrow> pyval list \<Rightarrow> pyval \<Rightarrow> nat \<Rightarrow>
    ('w, sg_keywords) provD" where
  "SyncGateway_start_sync_gateways ops kw cc url config bucket_list use_config fuel =
     bindD (liftD (cfg (\<lambda>env. Cluster_init env cc))) (\<lambda>cl.
     case config of
       None \<Rightarrow> liftD (raiseIO (Exn ''ProvisioningError'' ''Starting a Sync Gateway requires a config''))
     | Some config \<Rightarrow>
     bindD (liftD (cfg (\<lambda>env. get_sg_platform env cc))) (\<lambda>platform.
     bindD (liftD (cfg (\<lambda>env. persistent_config env cc (get_sg_version env cc)))) (\<lambda>p.
     bindD (if p then bindD (Cluster_setup_server_and_sgw ops cl config False bucket_list use_config None fuel) (\<lambda>(v, _, _). liftD (returnIO (v, kw)))
            else liftD (start_own_config ops kw cc platform config)) (\<lambda>(v, kw).
     liftD (bindIO (start_tail ops cc platform v) (\<lambda>v.
       bindIO (cfg (\<lambda>env. target_hosts env cc url)) (\<lambda>target.
       bindIO (run_ansible_playbook ops cc ''start-sync-gateway.yml'' (Some v) target) (\<lambda>status.
       if status \<noteq> 0 then raiseIO (Exn ''ProvisioningError'' ''Could not start sync_gateway'') else returnIO kw))))))))"

section \<open>Stopping, restarting and files on the nodes\<close>

definition SyncGateway_stop_sync_gateways :: "'w prov_ops \<Rightarrow> string \<Rightarrow> string option \<Rightarrow> ('w, unit) prov" where
  "SyncGateway_stop_sync_gateways ops cc url =
     bindIO (cfg (\<lambda>env. bindR (get_sg_platform env cc) (\<lambda>p. str_attr p ''lower''))) (\<lambda>platform.
     let extra_vars = (if contains_str (py_lower platform) ''debian'' then
           [(''ansible_python_interpreter'', PStr ''/usr/bin/python3''), (''ansible_distribution'', PStr ''Debian''), (''ansible_os_family'', PStr ''Linux'')] else []) in
     bindIO (cfg (\<lambda>env. target_hosts env cc url)) (\<lambda>target.
     bindIO (run_ansible_playbook ops cc ''stop-sync-gateway.yml'' (Some extra_vars) target) (\<lambda>status.
     if status \<noteq> 0 then raiseIO (Exn ''ProvisioningError'' ''Could not stop sync_gateway'') else returnIO ())))"

definition SyncGateway_restart_sync_gateways :: "'w prov_ops \<Rightarrow> string \<Rightarrow> string option \<Rightarrow> ('w, unit) prov" where
  "SyncGateway_restart_sync_gateways ops cc url =
     bindIO (cfg (\<lambda>env. target_hosts env cc url)) (\<lambda>target.
     bindIO (run_ansible_playbook ops cc ''restart-sync-gateway.yml'' None target) (\<lambda>status.
     if status \<noteq> 0 then raiseIO (Exn ''ProvisioningError'' ''Could not restart sync_gateway'') else returnIO ()))"

text \<open>Without an address the runner and the variables of the playbook are not set.\<close>

definition SyncGateway_create_directory :: "'w prov_ops \<Rightarrow> string \<Rightarrow> string option \<Rightarrow> string option \<Rightarrow> ('w, unit) prov" where
  "SyncGateway_create_directory ops cc url dir_name = (case dir_name of
       None \<Rightarrow> raiseIO (Exn ''Error'' ''Please provide a directory to delete'')
     | Some d \<Rightarrow> (case url of
         None \<Rightarrow> raiseIO (unbound ''ansible_runner'')
       | Some u \<Rightarrow> bindIO (cfg (\<lambda>env. hostname_for_url env cc u)) (\<lambda>target.
           bindIO (run_ansible_playbook ops cc ''create-directory.yml'' (Some [(''directory'', PStr d)]) target) (\<lambda>status.
           if status \<noteq> 0 then raiseIO (Exn ''ProvisioningError'' ''Could not create the directory on sync_gateway'') else returnIO ()))))"

definition SyncGateway_create_empty_file :: "'w prov_ops \<Rightarrow> string \<Rightarrow> string option \<Rightarrow> pyval \<Rightarrow> pyval \<Rightarrow> ('w, unit) prov" where
  "SyncGateway_create_empty_file ops cc url file_name file_size =
     (if file_name = PNone \<or> file_size = PNone then raiseIO (Exn ''Error'' ''Please provide a file name and the file size to create'')
      else (case url of
         None \<Rightarrow> raiseIO (unbound ''ansible_runner'')
       | Some u \<Rightarrow> bindIO (cfg (\<lambda>env. hostname_for_url env cc u)) (\<lambda>target.
           bindIO (run_ansible_playbook ops cc ''create-empty-file.yml'' (Some [(''file_name'', file_name), (''file_size'', file_size),
             (''owner'', PStr ''sync_gateway''), (''group'', PStr ''sync_gateway'')]) target) (\<lambda>status.
           if status \<noteq> 0 then raiseIO (Exn ''ProvisioningError'' ''Could not create an empty file on sync_gateway'') else returnIO ()))))"

section \<open>Upgrading\<close>

definition upgrade_base :: "'w prov_ops \<Rightarrow> sg_keywords \<Rightarrow> string \<Rightarrow> string \<Rightarrow> vars" where
  "upgrade_base ops kw conf_arg node =
     (''sync_gateway_config_filepath'', PStr conf_arg) # blank [''username'', ''password'', ''certpath'', ''keypath'', ''cacertpath''] @
     [(''x509_auth'', PBool False), (''sg_cert_path'', PStr (sg_cert_path ops)), (''x509_certs_dir'', PStr (certs_dir ops)),
      (''server_port'', PStr (kw_server_port kw)), (''server_scheme'', PStr (kw_server_scheme kw))] @
     blank [''autoimport'', ''xattrs'', ''no_conflicts'', ''revs_limit'', ''sg_use_views'', ''num_index_replicas''] @
     [(''couchbase_server_primary_node'', PStr node)] @
     blank [''delta_sync'', ''prometheus'', ''hide_product_version'', ''tls'', ''disable_persistent_config'', ''server_tls_skip_verify'',
       ''disable_tls_server'', ''disable_admin_auth'']"

text \<open>Replicas only for servers from 5.5.0 on, and views for the others.\<close>

definition upgrade_views_step :: "py_runtime \<Rightarrow> pyval res \<Rightarrow> pyval res \<Rightarrow> string \<Rightarrow> vars \<Rightarrow> vars res" where
  "upgrade_views_step rt use_views num_replicas cbs_version v =
     bindR (truth_of use_views) (\<lambda>views.
       if \<not> views \<and> \<not> str_less cbs_version ''5.5.0''
       then bindR num_replicas (\<lambda>n. Inr (set_var ''num_index_replicas'' (raw_var ''num_index_replicas'' (py_str rt n)) v))
       else Inr (set_var ''sg_use_views'' (raw_var ''use_views'' ''true'') v))"

text \<open>Here only the platform \<open>macos\<close> itself has the home directory of macOS.\<close>

definition upgrade_home :: "pyval \<Rightarrow> string res" where
  "upgrade_home platform = Inr
     (if platform = PStr ''macos'' then ''/Users/sync_gateway'' else if platform = PStr ''windows'' then windows_home else ''/home/sync_gateway'')"

definition upgrade_tls_text :: string where
  "upgrade_tls_text = nl @ replicate 24 CHR '' '' @ dq ''tls'' @ '': {'' @ dq ''minimum_version'' @ '': '' @ dq ''tlsv1.3'' @ '','' @ nl @
     replicate 32 CHR '' '' @ dq ''SSLCert'' @ '': '' @ dq ''sg_cert.pem'' @ '','' @ nl @
     replicate 32 CHR '' '' @ dq ''SSLKey'' @ '': '' @ dq ''sg_privkey.pem'' @ nl @ replicate 32 CHR '' '' @ ''}, ''"

definition upgrade_vars :: "'w prov_ops \<Rightarrow> string \<Rightarrow> string \<Rightarrow> string \<Rightarrow> pyval \<Rightarrow> vars \<Rightarrow> ('w, vars) prov" where
  "upgrade_vars ops cc version cbs_version bucket_names v = (let ver = Inr (PStr version) in
     bindIO (if \<not> str_less version ''2.1.0'' then
         bindIO (cfg_steps (\<lambda>env. [logging_step (env_runtime env) (choose_logging_level env cc) (get_redact_level env cc),
           upgrade_views_step (env_runtime env) (get_sg_use_views env cc) (get_sg_replicas env cc) cbs_version]) v) (\<lambda>v.
         bindIO (cfg (\<lambda>env. get_sg_platform env cc)) (\<lambda>platform.
         x509_step ops cc old_cert_keys upgrade_home platform bucket_names (\<lambda>env. bucket_user (env_runtime env) bucket_names) v))
       else returnIO (set_var ''logging'' (raw_var ''log'' (''['' @ dq ''*'' @ '']'')) v)) (\<lambda>v.
     cfg_steps (\<lambda>env. [(\<lambda>v. bindR (both (is_xattrs_enabled env cc) (Inr (\<not> str_less cbs_version ''5.0.0''))) (\<lambda>on. xattrs_step (Inr (PBool on)) ver v)),
        ssl_step upgrade_tls_text (sg_ssl_enabled env cc) (is_centralized_persistent_config_disabled env cc), conflicts_step (no_conflicts_enabled env cc),
        revs_limit_step (env_runtime env) (get_revs_limit env cc) id] @ feature_steps env cc (\<lambda>env. ver) @ v3_steps env cc (\<lambda>env. ver)) v))"

definition upgrade_own_config :: "'w prov_ops \<Rightarrow> sg_keywords \<Rightarrow> string \<Rightarrow> string \<Rightarrow> string \<Rightarrow> string \<times> string \<times> string \<Rightarrow> ('w, vars \<times> sg_keywords) prov" where
  "upgrade_own_config ops kw cc sg_conf version p =
     (let conf_arg = abspath (po_cwd ops) sg_conf in
      bindIO (cfg (\<lambda>env. add_cbs_to_sg_config_server_field env cc)) (\<lambda>node.
      bindIO (get_buckets_from_sync_gateway_config ops conf_arg) (\<lambda>bucket_names.
      bindIO (cfg (\<lambda>env. bindR (truth_of (is_x509_auth env cc)) (\<lambda>x. if x then Inr True else truth_of (is_cbs_ssl_enabled env cc)))) (\<lambda>enc.
      bindIO (cfg (\<lambda>env. get_cbs_primary_nodes_str env cc node)) (\<lambda>node.
      let kw = encrypted enc kw; v = package_vars p (upgrade_base ops kw conf_arg node) in
      bindIO (cfg (\<lambda>env. bucket_user (env_runtime env) bucket_names v)) (\<lambda>v.
      bindIO (cfg (\<lambda>env. bindR (get_cbs_version env cc) as_str)) (\<lambda>server_version.
      bindIO (upgrade_vars ops cc version (fst (version_and_build server_version)) bucket_names v) (\<lambda>v. returnIO (v, kw)))))))))"

definition upgraded_build :: "string \<Rightarrow> string \<Rightarrow> sg_build" where
  "upgraded_build sync_gateway_version sg_conf =
     \<lparr>sb_commit = None, sb_version_number = Some (fst (version_and_build sync_gateway_version)), sb_build_number = snd (version_and_build sync_gateway_version),
      sb_config_path = sg_conf, sb_build_flags = [], sb_skip_bucketcreation = False\<rparr>"

definition default_package :: "sg_build \<Rightarrow> (string \<times> string \<times> string) res" where
  "default_package c = SyncGatewayConfig_sync_gateway_base_url_and_package c False ''debian'' ''msi'' ''centos'' ''msi'' False None"

definition SyncGateway_upgrade_sync_gateways :: "'w prov_ops \<Rightarrow> sg_keywords \<Rightarrow> string \<Rightarrow> string \<Rightarrow> string \<Rightarrow> string \<Rightarrow> string option \<Rightarrow> bool \<Rightarrow> nat \<Rightarrow>
    ('w, sg_keywords) provD" where
  "SyncGateway_upgrade_sync_gateways ops kw cc sg_conf sgw_previous_version sync_gateway_version url upgrade_only fuel =
     (let version = fst (version_and_build sync_gateway_version); c = upgraded_build sync_gateway_version sg_conf in
      bindD (liftD (cfg (\<lambda>env. Cluster_init env cc))) (\<lambda>cl.
      bindD (liftD (liftIO (default_package c))) (\<lambda>p.
      bindD (liftD (if \<not> str_less sgw_previous_version ''3.0.0'' \<and> \<not> str_less version ''3.0.0''
          then cfg (\<lambda>env. bindR (truth_of (is_centralized_persistent_config_disabled env cc)) (\<lambda>d. Inr (\<not> d))) else returnIO False)) (\<lambda>persistent.
      bindD (if persistent then bindD (Cluster_setup_server_and_sgw ops cl sg_conf False [] (PBool False) None fuel) (\<lambda>(v, _, _). liftD (returnIO (v, kw)))
             else liftD (upgrade_own_config ops kw cc sg_conf version p)) (\<lambda>(v, kw).
      let v = package_vars p v in
      liftD (bindIO (cfg (\<lambda>env. target_hosts env cc url)) (\<lambda>target.
        if upgrade_only then bindIO (run_ansible_playbook ops cc ''upgrade-sgw-package.yml'' (Some v) target) (\<lambda>_. returnIO kw)
        else bindIO (run_ansible_playbook ops cc ''upgrade-sg-sgaccel-package.yml'' (Some v) target) (\<lambda>status.
          if status \<noteq> 0 then raiseIO (Exn ''Exception'' ''Could not upgrade sync_gateway/sg_accel'') else returnIO kw))))))))"

text \<open>One node after the other, with its product and version checked before and after.\<close>

definition upgrade_one :: "'w prov_ops \<Rightarrow> string \<Rightarrow> string \<Rightarrow> string \<Rightarrow> string \<Rightarrow> bool \<Rightarrow> nat \<Rightarrow> sg_keywords \<Rightarrow> pyval \<Rightarrow> ('w, sg_keywords) provD" where
  "upgrade_one ops version upgraded sg_conf cc verify_version fuel kw sg =
     bindD (liftD (liftIO (bindR (bindR (py_item sg ''admin'') as_str) (\<lambda>a. Inr (host_for_url a))))) (\<lambda>sg_ip.
     bindD (liftD (verify_sync_gateway_product_info ops sg_ip)) (\<lambda>_.
     bindD (liftD (if verify_version then verify_sync_gateway_version ops sg_ip version else returnIO ())) (\<lambda>_.
     bindD (SyncGateway_upgrade_sync_gateways ops kw cc sg_conf version upgraded (Some sg_ip) False fuel) (\<lambda>kw.
     bindD (liftD (nap ops 10)) (\<lambda>_.
     bindD (liftD (verify_sync_gateway_product_info ops sg_ip)) (\<lambda>_.
     bindD (liftD (verify_sync_gateway_version ops sg_ip upgraded)) (\<lambda>_. liftD (returnIO kw))))))))"

fun foldD :: "('s \<Rightarrow> 'a \<Rightarrow> ('w, 's) dio) \<Rightarrow> 's \<Rightarrow> 'a list \<Rightarrow> ('w, 's) dio" where
  "foldD f s [] = liftD (returnIO s)"
| "foldD f s (x # xs) = bindD (f s x) (\<lambda>s'. foldD f s' xs)"

definition SyncGateway_upgrade_sync_gateway :: "'w prov_ops \<Rightarrow> sg_keywords \<Rightarrow> pyval list \<Rightarrow> string \<Rightarrow> string \<Rightarrow> string \<Rightarrow> string \<Rightarrow> bool \<Rightarrow> nat \<Rightarrow>
    ('w, sg_keywords) provD" where
  "SyncGateway_upgrade_sync_gateway ops kw sync_gateways version upgraded sg_conf cc verify_version fuel =
     foldD (upgrade_one ops version upgraded sg_conf cc verify_version fuel) kw sync_gateways"

end
