(* ===== verification/Sg_Deploy.thy ===== *)
theory Sg_Deploy
  imports Sg_Control
begin

text \<open>
  The rest of \<open>keywords/SyncGateway.py\<close>: installing and redeploying the configuration of Sync Gateways, loading a
  configuration as an object, and the functions that write replications and sync functions into a configuration file.
  The Couchbase SDK and the random module are arguments.
\<close>

section \<open>Installing\<close>

definition default_install :: "string option \<Rightarrow> string \<Rightarrow> install_args" where
  "default_install url version =
     \<lparr>ia_sg_ce = False, ia_sg_os = ''debian'', ia_sg_installer = ''msi'', ia_sa_os = ''centos'', ia_sa_installer = ''msi'', ia_aws = False,
      ia_url = url, ia_version = Some version, ia_custom_build = None, ia_code_coverage = False\<rparr>"

definition build_of :: "string \<Rightarrow> string \<Rightarrow> bool \<Rightarrow> sg_build" where
  "build_of version config skip =
     (if version_is_binary version
      then \<lparr>sb_commit = None, sb_version_number = Some (fst (version_and_build version)), sb_build_number = snd (version_and_build version),
            sb_config_path = config, sb_build_flags = [], sb_skip_bucketcreation = skip\<rparr>
      else \<lparr>sb_commit = Some version, sb_version_number = None, sb_build_number = None, sb_config_path = config, sb_build_flags = [],
            sb_skip_bucketcreation = skip\<rparr>)"

definition verify_group :: "'w prov_ops \<Rightarrow> pyval \<Rightarrow> string \<Rightarrow> (string \<Rightarrow> ('w, unit) prov) \<Rightarrow> ('w, unit) prov" where
  "verify_group ops cluster grp verify = bindIO (liftIO (members_of cluster grp)) (\<lambda>xs.
     forIO xs (\<lambda>x. bindIO (liftIO (py_item x ''ip'')) (\<lambda>ip. verify (py_str (http_runtime (po_http ops)) ip))))"

definition host_of_url :: "string \<Rightarrow> string res" where
  "host_of_url url = bindR (list_item (split_str ''//'' url) 1) (\<lambda>h. Inr (hd (split_chr CHR '':'' h)))"

definition SyncGateway_install_sync_gateway :: "'w prov_ops \<Rightarrow> string \<Rightarrow> string \<Rightarrow> string \<Rightarrow> string option \<Rightarrow> bool \<Rightarrow> nat \<Rightarrow> ('w, unit) provD" where
  "SyncGateway_install_sync_gateway ops cc sync_gateway_version sync_gateway_config url skip_bucketcreation fuel =
     bindD (install_sync_gateway ops cc (build_of sync_gateway_version sync_gateway_config skip_bucketcreation)
       (default_install url sync_gateway_version) fuel) (\<lambda>_. liftD (
     bindIO (cfg (\<lambda>env. read_json env (cc @ ''.json''))) (\<lambda>cluster.
     bindIO (case url of
         None \<Rightarrow> verify_group ops cluster ''sync_gateways'' (\<lambda>ip. verify_sync_gateway_version ops ip sync_gateway_version)
       | Some u \<Rightarrow> bindIO (liftIO (host_of_url u)) (\<lambda>ip. verify_sync_gateway_version ops ip sync_gateway_version)) (\<lambda>_.
     verify_group ops cluster ''sg_accels'' (\<lambda>ip. verify_sg_accel_version ops ip sync_gateway_version)))))"

section \<open>Redeploying a configuration\<close>

definition redeploy_base :: "'w prov_ops \<Rightarrow> string \<Rightarrow> string \<Rightarrow> vars" where
  "redeploy_base ops sg_conf scheme =
     blank [''username'', ''password'', ''certpath'', ''keypath'', ''cacertpath''] @
     [(''x509_auth'', PBool False), (''x509_certs_dir'', PStr (certs_dir ops)), (''sg_cert_path'', PStr (sg_cert_path ops)),
      (''sync_gateway_config_filepath'', PStr sg_conf), (''server_port'', PStr []), (''server_scheme'', PStr scheme)] @
     blank [''autoimport'', ''sslkey'', ''sslcert'', ''num_index_replicas'', ''sg_use_views'', ''revs_limit'', ''xattrs'', ''no_conflicts'',
       ''delta_sync'', ''prometheus'', ''hide_product_version'', ''tls'', ''disable_persistent_config'', ''server_tls_skip_verify'',
       ''disable_tls_server'', ''disable_admin_auth'', ''groupid'']"

text \<open>The path of the certificate chain is written twice, with a quotation mark in between.\<close>

definition redeploy_certpath :: "pyval \<Rightarrow> string \<Rightarrow> string" where
  "redeploy_certpath platform home =
     (let t = dq ''certpath'' @ '': '' @ dq (home @ ''/certs '') @ home @ ''/certs/chain.pem'' @ [chr_dquote] @ '','' in
      if platform = PStr ''windows'' then replace_str ''/'' bslash2 t else t)"

definition redeploy_x509_step :: "'w prov_ops \<Rightarrow> string \<Rightarrow> pyval \<Rightarrow> pyval \<Rightarrow> vars \<Rightarrow> ('w, vars) prov" where
  "redeploy_x509_step ops cc platform bucket_names v =
     bindIO (liftIO (home_directory platform)) (\<lambda>h.
     bindIO (cfg (\<lambda>env. truth_of (is_x509_auth env cc))) (\<lambda>on.
     if on then bindIO (generate_x509_certs ops cc bucket_names platform) (\<lambda>_.
       returnIO (x509_vars (set_var ''certpath'' (redeploy_certpath platform h) (cert_vars platform old_cert_keys h v))))
     else returnIO v))"

definition redeploy_vars :: "'w prov_ops \<Rightarrow> string \<Rightarrow> string \<Rightarrow> bool \<Rightarrow> pyval \<Rightarrow> vars \<Rightarrow> ('w, vars) prov" where
  "redeploy_vars ops cc version enable_import bucket_names v = (let ver = Inr (PStr version); new = \<not> str_less version ''2.1.0'' in
     bindIO (cfg (\<lambda>env. bucket_user (env_runtime env) bucket_names v)) (\<lambda>v.
     bindIO (if new then
         bindIO (cfg_steps (\<lambda>env. [logging_step (env_runtime env) (choose_logging_level env cc) (get_redact_level env cc),
           views_step (env_runtime env) (get_sg_use_views env cc) (get_sg_replicas env cc)]) v) (\<lambda>v.
         bindIO (cfg (\<lambda>env. get_sg_platform env cc)) (\<lambda>platform. redeploy_x509_step ops cc platform bucket_names v))
       else returnIO (set_var ''logging'' (raw_var ''log'' (''['' @ dq ''*'' @ '']'')) v)) (\<lambda>v.
     cfg_steps (\<lambda>env. [when_step (truth_of (is_xattrs_enabled env cc)) ''xattrs'' (raw_var ''enable_shared_bucket_access'' ''true''),
        when_step (both (is_xattrs_enabled env cc) (Inr enable_import)) ''autoimport''
          (if new then raw_var ''import_docs'' ''true'' else quoted_var ''import_docs'' ''continuous''),
        conflicts_step (no_conflicts_enabled env cc),
        ssl_step (https_text 29 28) (sg_ssl_enabled env cc) (is_centralized_persistent_config_disabled env cc),
        revs_limit_step (env_runtime env) (get_revs_limit env cc) id, group_step (env_runtime env) bucket_names] @
        feature_steps env cc (\<lambda>env. ver) @ v3_steps env cc (\<lambda>env. ver)) v)))"

definition redeploy_own_config :: "'w prov_ops \<Rightarrow> string \<Rightarrow> string \<Rightarrow> string \<Rightarrow> bool \<Rightarrow> ('w, vars) prov" where
  "redeploy_own_config ops cc sg_conf version enable_import =
     bindIO (get_buckets_from_sync_gateway_config ops sg_conf) (\<lambda>bucket_names.
     bindIO (cfg (\<lambda>env. truth_of (is_cbs_ssl_enabled env cc))) (\<lambda>ssl.
     redeploy_vars ops cc version enable_import bucket_names
       (redeploy_base ops sg_conf (if ssl then ''couchbases'' else ''couchbase''))))"

definition deploy :: "'w prov_ops \<Rightarrow> string \<Rightarrow> string \<Rightarrow> vars \<Rightarrow> string option \<Rightarrow> ('w, unit) prov" where
  "deploy ops cc script_name v url =
     bindIO (cfg (\<lambda>env. target_hosts env cc url)) (\<lambda>target.
     bindIO (run_ansible_playbook ops cc script_name (Some v) target) (\<lambda>status.
     if status \<noteq> 0 then raiseIO (Exn ''Exception'' ''Could not deploy config to sync_gateway'') else returnIO ()))"

definition send_to_url :: "'w prov_ops \<Rightarrow> string \<Rightarrow> pyval \<Rightarrow> cluster \<Rightarrow> string option \<Rightarrow> ('w, unit) prov" where
  "send_to_url ops cc db cl url = (case url of
       None \<Rightarrow> bindIO (send_dbconfig_as_restCall ops cc db (cl_sgs cl)) (\<lambda>_. returnIO ())
     | Some u \<Rightarrow> bindIO (cfg (\<lambda>env. bindR (hostname_for_url env cc u) (\<lambda>name. SyncGateway_init env cc (target_of name (PStr (ip_from_url u)))))) (\<lambda>sg.
         bindIO (send_dbconfig_as_restCall ops cc db [sg]) (\<lambda>_. returnIO ())))"

definition SyncGateway_redeploy_sync_gateway_config :: "'w prov_ops \<Rightarrow> string \<Rightarrow> string \<Rightarrow> string option \<Rightarrow> string \<Rightarrow> bool \<Rightarrow> bool \<Rightarrow> nat \<Rightarrow> ('w, unit) provD" where
  "SyncGateway_redeploy_sync_gateway_config ops cc sg_conf url sync_gateway_version enable_import deploy_only fuel =
     (let version = fst (version_and_build sync_gateway_version);
          persistent = (\<lambda>env. not_flag (Inr (\<not> str_less version ''3.0.0'')) (is_centralized_persistent_config_disabled env cc)) in
      bindD (liftD (cfg (\<lambda>env. Cluster_init env cc))) (\<lambda>cl.
      bindD (liftD (cfg persistent)) (\<lambda>p.
      bindD (if p then bindD (Cluster_setup_server_and_sgw ops cl sg_conf False [] (PBool False) (Some sync_gateway_version) fuel) (\<lambda>(v, db, _). liftD (returnIO (v, Some db)))
             else bindD (liftD (redeploy_own_config ops cc sg_conf version enable_import)) (\<lambda>v. liftD (returnIO (v, None)))) (\<lambda>(v, db).
      bindD (liftD (cfg_steps (\<lambda>env. v3_steps env cc (\<lambda>_. Inr (PStr version))) v)) (\<lambda>v.
      liftD (if deploy_only then deploy ops cc ''deploy-only-sync-gateway.yml'' v url
        else bindIO (deploy ops cc ''deploy-sync-gateway-config.yml'' v url) (\<lambda>_.
          bindIO (cfg persistent) (\<lambda>p.
          if p then (case db of None \<Rightarrow> raiseIO (unbound ''db_config_json'') | Some c \<Rightarrow> send_to_url ops cc c cl url)
          else returnIO ()))))))))"

section \<open>Loading a configuration\<close>

text \<open>
  \<open>re.match("(\w+?):\/\/(.*?):(\d+?)$", url)\<close>: a scheme, an address without line ends and a port, perhaps with a line end
  after it. Nothing but whether the address matches is used of it.
\<close>

definition matches_server_url :: "string \<Rightarrow> bool" where
  "matches_server_url url =
     (let scheme = takeWhile word_chr url; rest = dropWhile word_chr url; body = drop 3 rest;
          body = (if body \<noteq> [] \<and> last body = chr_newline then butlast body else body);
          port = takeWhile is_digit (rev body); before = dropWhile is_digit (rev body)
      in scheme \<noteq> [] \<and> startswith rest ''://'' \<and> port \<noteq> [] \<and> before \<noteq> [] \<and> hd before = CHR '':'' \<and> chr_newline \<notin> set before)"

definition loaded_base :: "'w prov_ops \<Rightarrow> vars" where
  "loaded_base ops =
     [(''is_index_writer'', PStr ''false''), (''x509_certs_dir'', PStr (certs_dir ops)), (''sg_cert_path'', PStr (sg_cert_path ops))] @
     blank [''autoimport'', ''xattrs'', ''sg_use_views'', ''num_index_replicas'', ''logging'', ''certpath'', ''x509_auth'', ''keypath'', ''cacertpath'',
       ''no_conflicts'', ''revs_limit'', ''sslcert'', ''sslkey'', ''delta_sync'', ''hide_prod_version'', ''tls'', ''disable_persistent_config'',
       ''server_tls_skip_verify'', ''disable_tls_server'', ''disable_admin_auth'', ''metrics_auth'', ''groupid'', ''server_port'']"

definition server_scheme_step :: "pyval res \<Rightarrow> pyval res \<Rightarrow> vars \<Rightarrow> vars res" where
  "server_scheme_step cbs_ssl x509 v =
     bindR (truth_of cbs_ssl) (\<lambda>a. bindR (truth_of x509) (\<lambda>b.
       Inr (set_var ''server_scheme'' (if a \<or> b then ''couchbases'' else ''couchbase'') v)))"

text \<open>The replicas are set whether views are used or not.\<close>

definition loaded_views_step :: "py_runtime \<Rightarrow> pyval res \<Rightarrow> pyval res \<Rightarrow> vars \<Rightarrow> vars res" where
  "loaded_views_step rt use_views num_replicas v =
     bindR num_replicas (\<lambda>n. bindR (truth_of use_views) (\<lambda>views.
       let v = set_var ''num_index_replicas'' (raw_var ''num_index_replicas'' (py_str rt n)) v
       in Inr (if views then set_var ''sg_use_views'' (raw_var ''use_views'' ''true'') v else v)))"

text \<open>Without certificates the logging that was just computed is replaced.\<close>

definition loaded_auth :: "'w prov_ops \<Rightarrow> string \<Rightarrow> pyval \<Rightarrow> pyval \<Rightarrow> vars \<Rightarrow> ('w, vars) prov" where
  "loaded_auth ops cc platform bucket_names v =
     bindIO (cfg_steps (\<lambda>env. [logging_step (env_runtime env) (choose_logging_level env cc) (get_redact_level env cc),
       loaded_views_step (env_runtime env) (get_sg_use_views env cc) (get_sg_replicas env cc)]) v) (\<lambda>v.
     bindIO (x509_step ops cc old_cert_keys home_directory platform bucket_names
       (\<lambda>env v. Inr (set_var ''logging'' (raw_var ''log'' (''['' @ dq ''*'' @ '']'')) v)) v) (\<lambda>v.
     cfg (\<lambda>env. bucket_user (env_runtime env) bucket_names v)))"

definition loaded_args :: "string list" where
  "loaded_args = [''couchbase_server_primary_node'', ''is_index_writer'', ''server_scheme'', ''server_port'', ''autoimport'', ''xattrs'', ''sg_use_views'',
     ''num_index_replicas'', ''logging'', ''certpath'', ''keypath'', ''cacertpath'', ''x509_auth'', ''username'', ''password'', ''x509_certs_dir'',
     ''sg_cert_path'', ''sslcert'', ''sslkey'', ''no_conflicts'', ''revs_limit'', ''delta_sync'', ''hide_prod_version'', ''tls'', ''metrics_auth'',
     ''disable_persistent_config'', ''server_tls_skip_verify'', ''disable_tls_server'', ''disable_admin_auth'', ''groupid'']"

definition loaded_vars :: "'w prov_ops \<Rightarrow> string \<Rightarrow> pyval \<Rightarrow> ('w, vars) prov" where
  "loaded_vars ops cc bucket_names =
     bindIO (cfg_steps (\<lambda>env. [xattrs_step (is_xattrs_enabled env cc) (get_sg_version env cc),
       server_scheme_step (is_cbs_ssl_enabled env cc) (is_x509_auth env cc)]) (loaded_base ops)) (\<lambda>v.
     bindIO (cfg (\<lambda>env. get_sg_platform env cc)) (\<lambda>platform.
     bindIO (cfg (\<lambda>env. at_least (get_sg_version env cc) ''2.1.0'')) (\<lambda>new.
     bindIO (if new then loaded_auth ops cc platform bucket_names v else returnIO v) (\<lambda>v.
     bindIO (cfg (\<lambda>env. primary_node env cc)) (\<lambda>node.
     cfg_steps (\<lambda>env. [ssl_step (https_text 29 28) (sg_ssl_enabled env cc) (is_centralized_persistent_config_disabled env cc),
        conflicts_step (no_conflicts_enabled env cc), revs_limit_step (env_runtime env) (get_revs_limit env cc) id,
        group_step (env_runtime env) bucket_names,
        when_step (both (is_delta_sync_enabled env cc) (at_least (get_sg_version env cc) ''2.5.0'')) ''delta_sync'' delta_text,
        when_step (both (is_hide_prod_version_enabled env cc) (at_least (get_sg_version env cc) ''2.8.1'')) ''hide_prod_version''
          (raw_var ''hide_product_version'' ''true'')] @ take 3 (v3_steps env cc (\<lambda>env. get_sg_version env cc)) @
       [when_step (both (is_admin_auth_disabled env cc) (at_least (get_sg_version env cc) ''3.0.0'')) ''disable_admin_auth''
          (raw_var ''admin_interface_authentication'' ''false'' @ nl @ raw_var ''metrics_interface_authentication'' ''false'')])
       (set_var ''couchbase_server_primary_node'' node v))))))"

text \<open>The name of the user is set only from version 2.1.0 on.\<close>

definition load_sync_gateway_config :: "'w prov_ops \<Rightarrow> string \<Rightarrow> string \<Rightarrow> string \<Rightarrow> string option \<Rightarrow> ('w, pyval) prov" where
  "load_sync_gateway_config ops sg_conf server_url cc sg_db_cfg =
     (if \<not> matches_server_url server_url then raiseIO (Exn ''Exception'' ''Regex pattern is not matching with server url format.'')
      else bindIO (cfg (\<lambda>env. read_text (po_text ops) env (file_key (po_cwd ops) sg_conf))) (\<lambda>template.
      bindIO (get_buckets_from_sync_gateway_config ops (abspath (po_cwd ops) (case sg_db_cfg of Some f \<Rightarrow> f | None \<Rightarrow> sg_conf))) (\<lambda>bucket_names.
      bindIO (loaded_vars ops cc bucket_names) (\<lambda>v.
      if \<not> dict_has v ''username'' then raiseIO (unbound ''username'')
      else bindIO (liftIO (po_render ops (pick_vars (map (\<lambda>k. (k, k)) loaded_args) v) template)) (\<lambda>temp.
      cfg (\<lambda>env. json_loads (env_runtime env) temp))))))"

section \<open>Clusters, documents and replications\<close>

definition create_sync_gateways :: "'w prov_ops \<Rightarrow> string \<Rightarrow> string \<Rightarrow> nat \<Rightarrow> ('w, sg_node \<times> sg_node) provD" where
  "create_sync_gateways ops cc sg_config_path fuel =
     bindD (liftD (cfg (\<lambda>env. Cluster_init env cc))) (\<lambda>cl.
     bindD (Cluster_reset ops cl sg_config_path [] (PBool False) True fuel) (\<lambda>(_, cl).
     liftD (liftIO (bindR (list_item (cl_sgs cl) 0) (\<lambda>sg1. bindR (list_item (cl_sgs cl) 1) (\<lambda>sg2. Inr (sg1, sg2)))))))"

definition sdk_url :: "bool \<Rightarrow> string \<Rightarrow> string" where
  "sdk_url v6 host = (if v6 then ''couchbase://'' @ strip_brackets host @ ''?ipv6=allow'' else ''couchbase://'' @ host)"

definition docs_by_id :: "py_runtime \<Rightarrow> pyval list \<Rightarrow> vars res" where
  "docs_by_id rt docs = foldR (\<lambda>d doc. bindR (py_item doc ''id'') (\<lambda>i. Inr (dict_set d (py_str rt i) doc))) [] docs"

definition create_docs_via_sdk :: "py_runtime \<Rightarrow> 'w entropy \<Rightarrow> (string \<Rightarrow> string \<Rightarrow> ('w, 'c) io) \<Rightarrow> ('c \<Rightarrow> vars \<Rightarrow> ('w, unit) io) \<Rightarrow> string \<Rightarrow> cluster \<Rightarrow>
    string \<Rightarrow> nat \<Rightarrow> string \<Rightarrow> ('w, vars \<times> 'c) io" where
  "create_docs_via_sdk rt ent get_cluster upsert_multi cbs_url cbs_cluster bucket_name num_docs doc_name =
     bindIO (get_cluster (sdk_url (py_truth (cl_ipv6 cbs_cluster)) (host_for_url cbs_url)) bucket_name) (\<lambda>sdk_client.
     bindIO (create_docs rt ent (PStr doc_name) num_docs PNone None PNone PNone None True) (\<lambda>bodies.
     bindIO (liftIO (docs_by_id rt bodies)) (\<lambda>sdk_docs.
     bindIO (upsert_multi sdk_client sdk_docs) (\<lambda>_. returnIO (sdk_docs, sdk_client)))))"

definition new_replication_id :: "'w entropy \<Rightarrow> ('w, string) io" where
  "new_replication_id ent = bindIO (kit_random_string ent 10 False True) (\<lambda>s. returnIO (''sgw_repl_'' @ s))"

definition true_text :: "string \<Rightarrow> string" where
  "true_text s = replace_str (dq ''True'') ''true'' s"

definition setup_replications_on_sgconfig :: "py_runtime \<Rightarrow> 'w entropy \<Rightarrow> string \<Rightarrow> string \<Rightarrow> pyval \<Rightarrow> pyval \<Rightarrow> pyval \<Rightarrow> pyval \<Rightarrow> pyval \<Rightarrow> string option \<Rightarrow>
    ('w, string \<times> string) io" where
  "setup_replications_on_sgconfig rt ent remote_sg_url sg_db remote_user remote_password dir channels cont replication_id =
     bindIO (case replication_id of Some i \<Rightarrow> returnIO i | None \<Rightarrow> new_replication_id ent) (\<lambda>i.
     bindIO (liftIO (json_dumps rt (PDict ([(''remote'', PStr (path [with_credentials rt remote_sg_url remote_user remote_password, sg_db])), (''direction'', dir),
       (''continuous'', cont)] @ (if channels \<noteq> PNone then by_channel channels else []))))) (\<lambda>s.
     returnIO (dq i @ '': '' @ true_text s, i)))"

definition setup_sgreplicate1_on_sgconfig :: "py_runtime \<Rightarrow> 'w entropy \<Rightarrow> string \<Rightarrow> string \<Rightarrow> string \<Rightarrow> string \<Rightarrow> pyval \<Rightarrow> pyval \<Rightarrow> ('w, string \<times> string) io" where
  "setup_sgreplicate1_on_sgconfig rt ent source_sg_url sg_db1 remote_sg_url sg_db2 channels cont =
     bindIO (new_replication_id ent) (\<lambda>i.
     bindIO (liftIO (json_dumps rt (PDict ([(''replication_id'', PStr i), (''source'', PStr (path [source_sg_url, sg_db1])), (''target'', PStr (path [remote_sg_url, sg_db2])),
       (''continuous'', cont)] @ (if channels \<noteq> PNone then by_channel channels else []))))) (\<lambda>s.
     returnIO (true_text s, i)))"

section \<open>Templates of configurations\<close>

abbreviation placeholder :: "string \<Rightarrow> string" where
  "placeholder k \<equiv> ''{{ '' @ k @ '' }}''"

definition fill_in :: "(file_content \<Rightarrow> string) \<Rightarrow> string \<Rightarrow> (string \<times> string) list \<Rightarrow> (environment, string) io" where
  "fill_in as_text conf subs = foldIO (\<lambda>conf (flag, s). replace_string_on_sgw_config as_text conf flag s) conf subs"

definition custom_resolver :: "py_runtime \<Rightarrow> pyval \<Rightarrow> string" where
  "custom_resolver rt f = dq ''custom_conflict_resolver'' @ '':'' @ [chr_backtick] @ py_str rt f @ [chr_backtick]"

definition replication_texts :: "py_runtime \<Rightarrow> string \<Rightarrow> string \<Rightarrow> string \<Rightarrow> string \<Rightarrow> pyval \<Rightarrow> pyval \<Rightarrow> pyval \<Rightarrow> (string \<times> string) list" where
  "replication_texts rt remote_url repl_id dir resolution cont params js_function =
     [(placeholder ''repl_remote'', remote_url), (placeholder ''repl_direction'', dq dir), (placeholder ''repl_conflict_resolution_type'', dq resolution),
      (placeholder ''repl_repl_id'', dq repl_id), (placeholder ''repl_continuous'', if cont \<noteq> PNone then raw_var ''continuous'' ''true'' else []),
      (placeholder ''repl_filter_query_params'', if params \<noteq> PNone then dq (py_str rt params) @ '','' else [])] @
     (if resolution = ''custom'' then [(placeholder ''custom_conflict_js_function'', custom_resolver rt js_function)] else [])"

text \<open>An address that does not name the public port is never used: \<open>remote_url\<close> is then not set.\<close>

definition update_replication_in_sgw_config :: "(file_content \<Rightarrow> string) \<Rightarrow> string \<Rightarrow> string \<Rightarrow> string \<Rightarrow> string \<Rightarrow> pyval \<Rightarrow> pyval \<Rightarrow> string \<Rightarrow> string \<Rightarrow> string \<Rightarrow>
    pyval \<Rightarrow> pyval \<Rightarrow> pyval \<Rightarrow> (environment, string) io" where
  "update_replication_in_sgw_config as_text sg_conf_name sg_mode remote remote_db user password repl_id dir resolution cont params js_function =
     bindIO (\<lambda>env. (sync_gateway_config_path_for_mode env sg_conf_name sg_mode False, env)) (\<lambda>sg_config.
     bindIO (copy_sgconf_to_temp sg_config sg_mode) (\<lambda>(temp_sg_config, _).
     bindIO (\<lambda>env. (Inr (env_runtime env), env)) (\<lambda>rt.
     bindIO (liftIO (if contains_str remote ''4984'' then
         if py_truth user \<and> py_truth password then Inr (path [with_credentials rt remote user password, remote_db])
         else raise_exc ''Exception'' (''No remote node'' @ [chr_squote] @ ''s username and password provided '')
       else Inl (unbound ''remote_url''))) (\<lambda>remote_url.
     fill_in as_text temp_sg_config (replication_texts rt remote_url repl_id dir resolution cont params js_function)))))"

definition xattrs_sync_func :: "string \<Rightarrow> string" where
  "xattrs_sync_func channel =
     '' '' @ [chr_backtick] @ ''function (doc, oldDoc, meta){'' @ nl @ ''    if(meta.xattrs.'' @ channel @ '' != undefined){'' @ nl @
     ''        channel(meta.xattrs.'' @ channel @ '');'' @ nl @ ''    }'' @ nl @ ''    }'' @ [chr_backtick] @ '' ''"

definition replace_xattrs_sync_func_in_config :: "(file_content \<Rightarrow> string) \<Rightarrow> string \<Rightarrow> string \<Rightarrow> bool \<Rightarrow> (environment, string) io" where
  "replace_xattrs_sync_func_in_config as_text sg_config channel enable_xattrs_key =
     bindIO (copy_sgconf_to_temp sg_config ''cc'') (\<lambda>(temp_sg_config, _).
     fill_in as_text temp_sg_config
       [(placeholder ''user_xattrs_key'', if enable_xattrs_key then '' '' @ quoted_var ''user_xattr_key'' channel @ '' '' else []),
        (placeholder ''sync_func'', xattrs_sync_func channel)])"

definition replace_flag_with_config :: "(file_content \<Rightarrow> string) \<Rightarrow> string \<Rightarrow> string \<Rightarrow> string \<Rightarrow> (environment, string) io" where
  "replace_flag_with_config as_text sg_config flag property =
     bindIO (copy_sgconf_to_temp sg_config ''cc'') (\<lambda>(temp_sg_config, _). fill_in as_text temp_sg_config [(flag, property)])"

section \<open>Waiting for the import of documents\<close>

definition import_count_of :: "pyval \<Rightarrow> string \<Rightarrow> pyval res" where
  "import_count_of expvars sg_db =
     bindR (py_item2 expvars ''syncgateway'' ''per_db'') (\<lambda>p. bindR (py_item p sg_db) (\<lambda>d. py_item2 d ''shared_bucket_import'' ''import_count''))"

text \<open>The state is the number of pauses so far.\<close>

definition import_round :: "'w http \<Rightarrow> 'w clock \<Rightarrow> string \<Rightarrow> string \<Rightarrow> rat \<Rightarrow> rat \<Rightarrow> auth \<Rightarrow> nat \<Rightarrow> nat \<Rightarrow> ('w, bool \<times> nat) io" where
  "import_round http clk url sg_db expected_docs prev_import_count auth timeout count_now =
     bindIO (get_expvars http url auth) (\<lambda>e.
     bindIO (liftIO (bindR (import_count_of e sg_db) number)) (\<lambda>n.
     if count_now > timeout \<or> n - prev_import_count \<ge> expected_docs then returnIO (False, count_now)
     else bindIO (clk_sleep clk 1) (\<lambda>_. returnIO (True, count_now + 1))))"

definition wait_until_docs_imported_from_server :: "'w http \<Rightarrow> 'w clock \<Rightarrow> string \<Rightarrow> string \<Rightarrow> rat \<Rightarrow> rat \<Rightarrow> auth \<Rightarrow> nat \<Rightarrow> nat \<Rightarrow> ('w, unit) dio" where
  "wait_until_docs_imported_from_server http clk url sg_db expected_docs prev_import_count auth timeout fuel =
     bindD (liftD (bindIO (get_expvars http url auth) (\<lambda>e. liftIO (import_count_of e sg_db)))) (\<lambda>_.
     bindD (while_io (\<lambda>_. True) (import_round http clk url sg_db expected_docs prev_import_count auth timeout) fuel 0) (\<lambda>_. liftD (returnIO ())))"

end
