(* ===== verification/Provision.thy ===== *)
theory Provision
  imports Sg_Deploy
begin

text \<open>
  \<open>libraries/provision/\<close>: cleaning a cluster, installing Couchbase Server, Sync Gateway, nginx and the tools they need,
  and \<open>provision_cluster\<close>, which does all of it; \<open>provision_cluster\<close> of \<open>keywords/ClusterKeywords.py\<close> runs it and
  verifies the versions.
\<close>

section \<open>Cleaning\<close>

definition debian_python :: vars where
  "debian_python = [(''ansible_python_interpreter'', PStr ''/usr/bin/python3''), (''ansible_distribution'', PStr ''Debian''), (''ansible_os_family'', PStr ''Linux'')]"

definition clean_cluster :: "'w prov_ops \<Rightarrow> string \<Rightarrow> bool \<Rightarrow> string \<Rightarrow> string \<Rightarrow> ('w, unit) prov" where
  "clean_cluster ops cc skip_couchbase_provision sg_os cbs_os =
     (let centos = contains_str sg_os ''centos''; sg_extra_vars = (if centos then [] else debian_python) in
      bindIO (if centos then must_provision ops cc ''remove-sg-centos.yml'' None ''Failed to removed previous installs''
              else must_provision ops cc ''remove-previous-installs.yml'' (Some sg_extra_vars) ''Failed to removed previous installs'') (\<lambda>_.
      bindIO (must_provision ops cc ''reset-hosts.yml'' (Some sg_extra_vars) ''Failed to reset hosts'') (\<lambda>_.
      if \<not> skip_couchbase_provision
      then must_provision ops cc ''reset-cb-hosts.yml'' (Some (if contains_str (py_lower cbs_os) ''debian'' then debian_python else [])) ''Failed to reset hosts''
      else returnIO ())))"

definition clear_firewall_rules :: "'w prov_ops \<Rightarrow> string \<Rightarrow> ('w, unit) prov" where
  "clear_firewall_rules ops cc = must_provision ops cc ''flush-firewall.yml'' None ''Failed to flush firewall''"

definition install_deps :: "'w prov_ops \<Rightarrow> string \<Rightarrow> ('w, unit) prov" where
  "install_deps ops cc =
     bindIO (must_provision ops cc ''os-level-modifications.yml'' None ''Failed to make os modifications'') (\<lambda>_.
     must_provision ops cc ''install-common-tools.yml'' None ''Failed to install dependencies'')"

definition install_aws_credentials :: "'w prov_ops \<Rightarrow> string \<Rightarrow> string \<Rightarrow> string \<Rightarrow> ('w, unit) prov" where
  "install_aws_credentials ops cc aws_access_key_id aws_secret_access_key =
     must_provision ops cc ''install-aws-credentials.yml''
       (Some [(''aws_access_key_id'', PStr aws_access_key_id), (''aws_secret_access_key'', PStr aws_secret_access_key)]) ''Failed to aws credentials''"

section \<open>Couchbase Server\<close>

record cbs_build =
  cb_version :: string
  cb_build :: "string option"

definition CouchbaseServerConfig_init :: "string \<Rightarrow> cbs_build" where
  "CouchbaseServerConfig_init version = (case split_chr CHR ''-'' version of
       [v, b] \<Rightarrow> \<lparr>cb_version = v, cb_build = Some b\<rparr>
     | parts \<Rightarrow> \<lparr>cb_version = hd parts, cb_build = None\<rparr>)"

definition CouchbaseServerConfig_get_baseurl_package :: "cbs_build \<Rightarrow> string \<Rightarrow> bool \<Rightarrow> (string \<times> string option) res" where
  "CouchbaseServerConfig_get_baseurl_package c cbs_os community = (case cb_build c of
       None \<Rightarrow> cbs_resolve_cb_mobile_url (cb_version c) cbs_os community
     | Some b \<Rightarrow> cbs_resolve_cb_nas_url (cb_version c) b cbs_os community)"

definition CouchbaseServerConfig_str :: "cbs_build \<Rightarrow> string" where
  "CouchbaseServerConfig_str c = nl @ ''  Couchbase Server configuration'' @ nl @ ''  ------------------------------------------'' @ nl @
     ''  version:      '' @ cb_version c @ nl"

text \<open>The first server of the topology.\<close>

definition topology_server :: "string \<Rightarrow> ('w, cbserver) prov" where
  "topology_server cc =
     bindIO (ClusterKeywords_init cc) (\<lambda>ck.
     cfg (\<lambda>env. bindR (ClusterKeywords_get_cluster_topology env ck cc True) (\<lambda>t.
       bindR (bindR (py_item t ''couchbase_servers'') as_list) (\<lambda>l. bindR (list_item l 0) (\<lambda>u. bindR (as_str u) (\<lambda>u. Inr (CouchbaseServer_init u)))))))"

definition install_couchbase_server :: "'w prov_ops \<Rightarrow> string \<Rightarrow> cbs_build \<Rightarrow> string \<Rightarrow> bool \<Rightarrow> nat \<Rightarrow> ('w, unit) provD" where
  "install_couchbase_server ops cc c cbs_os community fuel =
     bindD (liftD (cfg (\<lambda>env. read_json env (cc @ ''.json'')))) (\<lambda>cluster.
     bindD (liftD (topology_server cc)) (\<lambda>sv.
     bindD (liftD (liftIO (CouchbaseServerConfig_get_baseurl_package c cbs_os community))) (\<lambda>(base_url, package).
     bindD (liftD (liftIO (bindR (env_of cluster ''ipv6_enabled'') (\<lambda>v6. bindR (env_of cluster ''cbs_developer_preview'') (\<lambda>dp. Inr
       [(''couchbase_server_package_base_url'', PStr base_url), (''couchbase_server_package_name'', opt_val package), (''ipv6_enabled'', v6), (''cbs_dp_preview'', dp)]))))) (\<lambda>v.
     bindD (liftD (if contains_str (py_lower cbs_os) ''centos''
       then must_provision ops cc ''install-couchbase-server-package-centos.yml'' (Some v) ''Failed to install Couchbase Server''
       else must_provision ops cc ''install-couchbase-server-package.yml''
         (Some (if contains_str (py_lower cbs_os) ''debian'' then set_var ''ansible_distribution'' (capitalize cbs_os)
           (set_var ''ansible_python_interpreter'' ''/usr/bin/python3'' v) else v)) ''Failed to install Couchbase Server'')) (\<lambda>_.
     bindD (liftD (self_get ps_env)) (\<lambda>env. on_worldD (cbs_wait_for_ready_state (cbs_env_of ops env) sv fuel)))))))"

section \<open>The load balancer\<close>

definition initialize_extra_vars :: "environment \<Rightarrow> string \<Rightarrow> vars res" where
  "initialize_extra_vars env cc = bindR (bindR (get_sg_platform env cc) (\<lambda>p. str_attr p ''capitalize'')) (\<lambda>p. Inr
     ((''ansible_distribution'', PStr (capitalize p)) # (if contains_str (py_lower p) ''debian'' then [(''ansible_python_interpreter'', PStr ''/usr/bin/python3'')] else [])))"

text \<open>The line of a Sync Gateway; only \<open>http://\<close> is taken away from its address.\<close>

definition upstream_line :: "pyval \<Rightarrow> string \<Rightarrow> string res" where
  "upstream_line sg field = bindR (bindR (py_item sg field) (\<lambda>u. str_attr u ''replace'')) (\<lambda>u. Inr (''server '' @ replace_str ''http://'' [] u @ '';'' @ nl))"

definition upstream_lines :: "pyval \<Rightarrow> (string \<times> string) res" where
  "upstream_lines sg = bindR (upstream_line sg ''public'') (\<lambda>p. bindR (upstream_line sg ''admin'') (\<lambda>a. Inr (p, a)))"

definition upstreams :: "(string \<times> string) list \<Rightarrow> vars \<Rightarrow> vars" where
  "upstreams ls v = set_var ''upstream_sync_gatways_admin'' (concat (map snd ls)) (set_var ''upstream_sync_gatways'' (concat (map fst ls)) v)"

text \<open>The lines of the first group of Sync Gateways and of the second; those after both are left out.\<close>

definition split_upstream :: "pyval \<Rightarrow> rat \<Rightarrow> nat \<times> (string \<times> string) list \<times> (string \<times> string) list \<Rightarrow> pyval \<Rightarrow>
    (nat \<times> (string \<times> string) list \<times> (string \<times> string) list) res" where
  "split_upstream cluster both_counts st sg = (case st of (seen, ls1, ls2) \<Rightarrow>
     bindR (bindR (env_of cluster ''sgw_cluster1_count'') number) (\<lambda>c1.
     if of_nat seen < c1 then bindR (upstream_lines sg) (\<lambda>l. Inr (seen + 1, ls1 @ [l], ls2))
     else if of_nat seen < both_counts then bindR (upstream_lines sg) (\<lambda>l. Inr (seen + 1, ls1, ls2 @ [l]))
     else Inr (seen + 1, ls1, ls2)))"

definition split_upstreams :: "pyval \<Rightarrow> pyval list \<Rightarrow> ((string \<times> string) list \<times> (string \<times> string) list) res" where
  "split_upstreams cluster sgs =
     bindR (bindR (env_of cluster ''sgw_cluster1_count'') number) (\<lambda>c1. bindR (bindR (env_of cluster ''sgw_cluster2_count'') number) (\<lambda>c2.
     bindR (foldR (split_upstream cluster (c1 + c2)) (0, [], []) sgs) (\<lambda>st. Inr (snd st))))"

definition nginx_on :: "'w prov_ops \<Rightarrow> string \<Rightarrow> vars \<Rightarrow> pyval \<Rightarrow> string \<Rightarrow> ('w, unit) prov" where
  "nginx_on ops cc v hosts msg = bindIO (run_ansible_playbook ops cc ''install-nginx.yml'' (Some v) hosts) (\<lambda>status. liftIO (py_assert (status = 0) msg))"

definition proxy_vars :: "vars \<Rightarrow> vars" where
  "proxy_vars v = set_var ''proxy_socket_keepalive'' ''proxy_socket_keepalive on;'' (set_var ''proxy_read_timeout'' ''proxy_read_timeout 60s;''
     (set_var ''proxy_send_timeout'' ''proxy_send_timeout 60s;'' (set_var ''keepalive_timeout'' ''keepalive_timeout 60s 60s;'' v)))"

definition nginx_vars :: "environment \<Rightarrow> string \<Rightarrow> vars res" where
  "nginx_vars env cc =
     bindR (bindR (get_sg_platform env cc) (\<lambda>p. str_attr p ''lower'')) (\<lambda>platform. bindR (initialize_extra_vars env cc) (\<lambda>v.
     Inr (if contains_str (py_lower platform) ''debian'' then foldl (\<lambda>v (k, x). dict_set v k x) v debian_python else v)))"

definition install_nginx :: "'w prov_ops \<Rightarrow> string \<Rightarrow> bool \<Rightarrow> ('w, unit) prov" where
  "install_nginx ops cc customize_proxy =
     bindIO (ClusterKeywords_init cc) (\<lambda>ck.
     bindIO (cfg (\<lambda>env. ClusterKeywords_get_cluster_topology env ck cc False)) (\<lambda>topology.
     bindIO (cfg (\<lambda>env. nginx_vars env cc)) (\<lambda>v.
     bindIO (cfg (\<lambda>env. truth_of (is_load_balancer_with_two_clusters_enabled env cc))) (\<lambda>two.
     if two then
       bindIO (cfg (\<lambda>env. load_cluster_config_json env cc)) (\<lambda>cluster.
       bindIO (liftIO (bindR (members_of cluster ''load_balancers'') (mapR (\<lambda>lb. py_item lb ''name'')))) (\<lambda>lb_names.
       bindIO (liftIO (bindR (members_of topology ''sync_gateways'') (split_upstreams cluster))) (\<lambda>(ls1, ls2).
       bindIO (liftIO (list_item lb_names 0)) (\<lambda>lb1.
       bindIO (nginx_on ops cc (upstreams ls1 v) lb1 ''Failed to install nginx! on lb1'') (\<lambda>_.
       bindIO (liftIO (list_item lb_names 1)) (\<lambda>lb2.
       nginx_on ops cc (upstreams ls2 v) lb2 ''Failed to install nginx on lb2!''))))))
     else
       bindIO (liftIO (bindR (members_of topology ''sync_gateways'') (mapR upstream_lines))) (\<lambda>ls.
       let v = upstreams ls v in
       nginx_on ops cc (if customize_proxy then proxy_vars v else v) PNone ''Failed to install nginx! on lb1'')))))"

text \<open>
  The version for two clusters looks for \<open>environment\<close> in the topology, and checks the second installation only.
\<close>

definition install_nginx_for_2_sgw_clusters :: "'w prov_ops \<Rightarrow> string \<Rightarrow> ('w, unit) prov" where
  "install_nginx_for_2_sgw_clusters ops cc =
     bindIO (ClusterKeywords_init cc) (\<lambda>ck.
     bindIO (cfg (\<lambda>env. ClusterKeywords_get_cluster_topology env ck cc False)) (\<lambda>topology.
     bindIO (cfg (\<lambda>env. initialize_extra_vars env cc)) (\<lambda>v.
     bindIO (liftIO (bindR (env_of topology ''sgw_cluster1_count'') (\<lambda>_. bindR (members_of topology ''sync_gateways'') (split_upstreams topology)))) (\<lambda>(ls1, ls2).
     bindIO (liftIO (bindR (members_of topology ''load_balancers'') (mapR (\<lambda>lb. bindR (str_attr lb ''replace'') (\<lambda>s. Inr (replace_str ''http://'' [] s)))))) (\<lambda>lbs.
     bindIO (liftIO (list_item lbs 0)) (\<lambda>lb1.
     bindIO (run_ansible_playbook ops cc ''install-nginx.yml'' (Some (upstreams ls1 v)) (PStr lb1)) (\<lambda>_.
     bindIO (liftIO (list_item lbs 1)) (\<lambda>lb2.
     nginx_on ops cc (upstreams ls2 v) (PStr lb2) ''Failed to install nginx!''))))))))"

section \<open>Provisioning\<close>

record provision_args =
  pa_sg_ce :: bool
  pa_cbs_os :: string
  pa_sg_os :: string
  pa_sg_installer :: string
  pa_sa_os :: string
  pa_sa_installer :: string
  pa_cbs_ce :: bool
  pa_aws :: bool
  pa_skip_couchbase :: bool
  pa_custom_build :: "string option"
  pa_code_coverage :: bool

abbreviation persist :: "string \<Rightarrow> string \<Rightarrow> pyval \<Rightarrow> ('w, unit) prov" where
  "persist cc k v \<equiv> on_files (persist_cluster_config_environment_prop cc k v True)"

text \<open>A missing build is written as \<open>None\<close>.\<close>

definition persist_versions :: "string \<Rightarrow> cbs_build \<Rightarrow> sg_build \<Rightarrow> ('w, unit) prov" where
  "persist_versions cc cb c =
     bindIO (cfg (\<lambda>env. truth_of (is_cbs_ssl_enabled env cc))) (\<lambda>ssl.
     bindIO (if ssl then bindIO (persist cc ''server_tls_skip_verify'' (PBool True)) (\<lambda>_. persist cc ''disable_tls_server'' (PBool False)) else returnIO ()) (\<lambda>_.
     bindIO (persist cc ''server_version'' (PStr (cb_version cb @ ''-'' @ opt_text (cb_build cb)))) (\<lambda>_.
     persist cc ''sync_gateway_version'' (PStr (opt_text (sb_version_number c) @ ''-'' @ opt_text (sb_build_number c))))))"

definition provision_install_args :: "provision_args \<Rightarrow> install_args" where
  "provision_install_args a =
     \<lparr>ia_sg_ce = pa_sg_ce a, ia_sg_os = pa_sg_os a, ia_sg_installer = pa_sg_installer a, ia_sa_os = pa_sa_os a, ia_sa_installer = pa_sa_installer a,
      ia_aws = pa_aws a, ia_url = None, ia_version = None, ia_custom_build = pa_custom_build a, ia_code_coverage = pa_code_coverage a\<rparr>"

definition check_provision :: "'w prov_ops \<Rightarrow> string \<Rightarrow> sg_build \<Rightarrow> ('w, unit) prov" where
  "check_provision ops cc c =
     bindIO (cfg (\<lambda>env. read_text (po_text ops) env cc)) (\<lambda>_.
     bindIO (cfg (\<lambda>env. SyncGatewayConfig_is_valid env c)) (\<lambda>ok.
     if \<not> ok then raiseIO (Exn ''SystemExit'' ''1'')
     else bindIO (cfg (\<lambda>env. Cluster_init env cc)) (\<lambda>cl.
     bindIO (load_config ops (abspath (po_cwd ops) (sb_config_path c)) []) (\<lambda>config.
     case validate_cluster (cl_sgs cl) (cl_accels cl) config of (is_valid, reason) \<Rightarrow>
       if is_valid then returnIO () else raiseIO (Exn ''ProvisioningError'' reason)))))"

definition provision_cluster :: "'w prov_ops \<Rightarrow> string \<Rightarrow> cbs_build \<Rightarrow> sg_build \<Rightarrow> provision_args \<Rightarrow> nat \<Rightarrow> ('w, unit) provD" where
  "provision_cluster ops cc cb c a fuel =
     bindD (liftD (persist_versions cc cb c)) (\<lambda>_.
     bindD (liftD (check_provision ops cc c)) (\<lambda>_.
     bindD (liftD (topology_server cc)) (\<lambda>_.
     bindD (liftD (liftIO (CouchbaseServerConfig_get_baseurl_package cb (pa_cbs_os a) (pa_cbs_ce a)))) (\<lambda>_.
     bindD (liftD (clean_cluster ops cc (pa_skip_couchbase a) (pa_sg_os a) (pa_cbs_os a))) (\<lambda>_.
     bindD (if \<not> pa_skip_couchbase a then install_couchbase_server ops cc cb (pa_cbs_os a) (pa_cbs_ce a) fuel else liftD (returnIO ())) (\<lambda>_.
     bindD (install_sync_gateway ops cc c (provision_install_args a) fuel) (\<lambda>_.
     liftD (install_nginx ops cc False))))))))"

text \<open>
  The settings of the command line, which are texts: any text but the empty one is true. \<open>main\<close> are the global variables
  of the script, which do not exist when the module is imported.
\<close>

record aws_flags =
  af_sg_ssl :: pyval
  af_sg_lb :: pyval
  af_cbs_ssl :: pyval
  af_use_views :: pyval
  af_number_replicas :: pyval
  af_xattrs :: pyval
  af_no_conflicts :: pyval
  af_delta_sync :: pyval
  af_developer_preview :: pyval
  af_disable_persistent :: pyval

definition persist_flag :: "string \<Rightarrow> string \<Rightarrow> pyval \<Rightarrow> ('w, unit) prov" where
  "persist_flag cc k v = persist cc k (PBool (py_truth v))"

definition persist_flags :: "string \<Rightarrow> aws_flags \<Rightarrow> ('w, unit) prov" where
  "persist_flags cc f =
     bindIO (persist_flag cc ''sync_gateway_ssl'' (af_sg_ssl f)) (\<lambda>_.
     bindIO (persist_flag cc ''sg_lb_enabled'' (af_sg_lb f)) (\<lambda>_.
     bindIO (if py_truth (af_sg_lb f) then cfg (\<lambda>env. bindR (get_load_balancer_ip env cc) (\<lambda>_. Inr ())) else returnIO ()) (\<lambda>_.
     bindIO (persist_flag cc ''cbs_ssl_enabled'' (af_cbs_ssl f)) (\<lambda>_.
     bindIO (persist_flag cc ''sg_use_views'' (af_use_views f)) (\<lambda>_.
     bindIO (persist cc ''number_replicas'' (af_number_replicas f)) (\<lambda>_.
     bindIO (persist_flag cc ''xattrs_enabled'' (af_xattrs f)) (\<lambda>_.
     bindIO (persist_flag cc ''no_conflicts_enabled'' (af_no_conflicts f)) (\<lambda>_.
     bindIO (persist_flag cc ''delta_sync_enabled'' (af_delta_sync f)) (\<lambda>_.
     bindIO (persist_flag cc ''cbs_developer_preview'' (af_developer_preview f)) (\<lambda>_.
     persist_flag cc ''disable_persistent_config'' (af_disable_persistent f)))))))))))"

definition aws_provision_args :: "string \<Rightarrow> bool \<Rightarrow> provision_args" where
  "aws_provision_args cbs_os aws =
     \<lparr>pa_sg_ce = False, pa_cbs_os = cbs_os, pa_sg_os = ''centos'', pa_sg_installer = ''msi'', pa_sa_os = ''centos'', pa_sa_installer = ''msi'',
      pa_cbs_ce = False, pa_aws = aws, pa_skip_couchbase = False, pa_custom_build = None, pa_code_coverage = False\<rparr>"

definition provision_cluster_aws :: "'w prov_ops \<Rightarrow> (string \<times> cbs_build \<times> sg_build \<times> string) option \<Rightarrow> string \<Rightarrow> aws_flags \<Rightarrow> bool \<Rightarrow> nat \<Rightarrow> ('w, unit) provD" where
  "provision_cluster_aws ops main cc f aws fuel =
     bindD (liftD (persist_flags cc f)) (\<lambda>_. case main of
         None \<Rightarrow> liftD (raiseIO (Exn ''NameError'' (''name '' @ repr_str ''cluster_conf'' @ '' is not defined'')))
       | Some (cluster_conf, server_config, sync_gateway_conf, cbs_os) \<Rightarrow>
           provision_cluster ops cluster_conf server_config sync_gateway_conf (aws_provision_args cbs_os aws) fuel)"

section \<open>Provisioning by keyword\<close>

text \<open>The condition tests the version of Sync Gateway twice and never its configuration.\<close>

definition race_build :: "string \<Rightarrow> string \<Rightarrow> bool \<Rightarrow> sg_build res" where
  "race_build sync_gateway_version sync_gateway_config race_enabled =
     (if version_is_binary sync_gateway_version then
        if race_enabled then raise_exc ''ProvisioningError'' ''Race should only be enabled for source builds''
        else Inr (build_of sync_gateway_version sync_gateway_config False)
      else Inr ((build_of sync_gateway_version sync_gateway_config False)\<lparr>sb_build_flags := (if race_enabled then ''-race'' else [])\<rparr>))"

definition ClusterKeywords_provision_cluster :: "'w prov_ops \<Rightarrow> string \<Rightarrow> string option \<Rightarrow> string option \<Rightarrow> string \<Rightarrow> bool \<Rightarrow> provision_args \<Rightarrow> nat \<Rightarrow> ('w, unit) provD" where
  "ClusterKeywords_provision_cluster ops cc server_version sync_gateway_version sync_gateway_config race_enabled a fuel =
     (case (server_version, sync_gateway_version) of
        (Some sv, Some sgv) \<Rightarrow>
          bindD (liftD (liftIO (race_build sgv sync_gateway_config race_enabled))) (\<lambda>c.
          bindD (provision_cluster ops cc (CouchbaseServerConfig_init sv) c (a\<lparr>pa_aws := False\<rparr>) fuel) (\<lambda>_.
          liftD (ClusterKeywords_verify_cluster_versions ops cc sv sgv)))
      | _ \<Rightarrow> liftD (raiseIO (Exn ''ProvisioningError''
          ''Please make sure you have server_version, sync_gateway_version, and sync_gateway_config are set'')))"

end
