(* ===== verification/Launchers.thy ===== *)
theory Launchers
  imports Provision
begin

text \<open>
  What the launchers of the test servers and of LiteServ share: \<open>keywords/TestServerBase.py\<close> and
  \<open>keywords/LiteServBase.py\<close>. The attributes of the base class are a record, which each platform extends; a method that
  works for all of them is defined on the record scheme. Programs, files, processes, the device database and the zip
  library are the record \<open>'w launch_ops\<close>; a program answers with the text it writes, or raises. Attributes that need not
  exist are options, and reading a missing one raises \<open>AttributeError\<close>.
\<close>

section \<open>Programs, files and methods\<close>

record 'w launch_ops =
  ln_prov :: "'w prov_ops"
  ln_output :: "string list \<Rightarrow> ('w, string) io"
  ln_piped :: "string list \<Rightarrow> string list \<Rightarrow> ('w, string) io"
  ln_popen :: "string list \<Rightarrow> nat \<Rightarrow> ('w, nat) io"
  ln_kill :: "nat \<Rightarrow> ('w, unit) io"
  ln_open :: "string \<Rightarrow> string \<Rightarrow> ('w, nat) io"
  ln_close :: "nat \<Rightarrow> ('w, unit) io"
  ln_isfile :: "string \<Rightarrow> ('w, bool) io"
  ln_save :: "string \<Rightarrow> http_response \<Rightarrow> ('w, unit) io"
  ln_unzip :: "string \<Rightarrow> string \<Rightarrow> ('w, unit) io"
  ln_rmtree :: "string \<Rightarrow> ('w, unit) io"
  ln_remove :: "string \<Rightarrow> ('w, unit) io"
  ln_executable :: "string \<Rightarrow> ('w, unit) io"
  ln_move_log :: "string \<Rightarrow> string \<Rightarrow> ('w, unit) io"
  ln_connect :: "('w, unit) io"
  ln_device :: "pyval \<Rightarrow> ('w, pyval) io"

abbreviation ln_rt :: "'w launch_ops \<Rightarrow> py_runtime" where
  "ln_rt lo \<equiv> http_runtime (po_http (ln_prov lo))"

type_synonym ('b, 'w, 'a) meth = "('b \<times> prov_state \<times> 'w, 'a) io"
type_synonym ('b, 'w, 'a) methD = "('b \<times> prov_state \<times> 'w, 'a) dio"

text \<open>What only talks to the outside, and what reads the configuration.\<close>

definition outside :: "('w, 'a) io \<Rightarrow> ('b, 'w, 'a) meth" where
  "outside m = on_world (on_world m)"

definition environ :: "string \<Rightarrow> ('w, string) prov" where
  "environ k = cfg (\<lambda>env. get_environ env k)"

definition run_out :: "'w launch_ops \<Rightarrow> string list \<Rightarrow> ('b, 'w, string) meth" where
  "run_out lo cmd = outside (ln_output lo cmd)"

definition pause :: "'w launch_ops \<Rightarrow> rat \<Rightarrow> ('b, 'w, unit) meth" where
  "pause lo d = on_world (nap (ln_prov lo) d)"

definition LiteServError :: "string \<Rightarrow> exn" where
  "LiteServError msg = Exn ''LiteServError'' msg"

definition not_implemented :: "('b, 'w, 'a) meth" where
  "not_implemented = raiseIO (Exn ''NotImplementedError'' [])"

text \<open>An attribute that was perhaps never assigned.\<close>

definition attr :: "string \<Rightarrow> string \<Rightarrow> 'a option \<Rightarrow> 'a res" where
  "attr cls name v = (case v of Some x \<Rightarrow> Inr x
     | None \<Rightarrow> raise_exc ''AttributeError'' (repr_str cls @ '' object has no attribute '' @ repr_str name))"

text \<open>\<open>s.strip(cs)\<close>.\<close>

definition strip_chars :: "string \<Rightarrow> string \<Rightarrow> string" where
  "strip_chars cs s = rstrip_chars cs (dropWhile (\<lambda>c. c \<in> set cs) s)"

section \<open>Packages\<close>

definition BINARY_DIR :: string where
  "BINARY_DIR = ''deps/binaries''"

definition RESULTS_DIR :: string where
  "RESULTS_DIR = ''results''"

definition MAX_RETRIES :: nat where
  "MAX_RETRIES = 10"

abbreviation binary :: "string \<Rightarrow> string" where
  "binary f \<equiv> BINARY_DIR @ ''/'' @ f"

text \<open>\<open>version_and_build\<close> of an attribute, which has to be a text.\<close>

definition version_build_of :: "pyval \<Rightarrow> (string \<times> string option) res" where
  "version_build_of v = bindR (str_attr v ''split'') (\<lambda>s. Inr (version_and_build s))"

text \<open>A release is under its version, a build under its version and number.\<close>

definition build_url :: "string \<Rightarrow> string \<times> string option \<Rightarrow> string \<Rightarrow> string" where
  "build_url source vb package = (case vb of
       (version, None) \<Rightarrow> RELEASED_BUILDS @ ''/'' @ source @ ''/'' @ version @ ''/'' @ package
     | (version, Some build) \<Rightarrow> LATEST_BUILDS @ ''/'' @ source @ ''/'' @ version @ ''/'' @ build @ ''/'' @ package)"

text \<open>\<open>requests.get\<close>, \<open>raise_for_status\<close> and writing the answer to a file.\<close>

definition fetch :: "'w launch_ops \<Rightarrow> string \<Rightarrow> string \<Rightarrow> ('b, 'w, unit) meth" where
  "fetch lo url f = bindIO (outside (checked (http_send (po_http (ln_prov lo)) (bare_rq ''GET'' url)))) (\<lambda>resp. outside (ln_save lo f resp))"

text \<open>The archive is unpacked beside itself and removed.\<close>

definition fetch_zip :: "'w launch_ops \<Rightarrow> string \<Rightarrow> string \<Rightarrow> ('b, 'w, unit) meth" where
  "fetch_zip lo url f =
     bindIO (fetch lo url f) (\<lambda>_. bindIO (outside (ln_unzip lo f (replace_str ''.zip'' [] f))) (\<lambda>_. outside (ln_remove lo f)))"

section \<open>The base class\<close>

datatype logfile = NoLog | LogHandle nat | LogName string

record test_server =
  ts_version_build :: pyval
  ts_host :: pyval
  ts_port :: pyval
  ts_process :: "nat option"
  ts_logfile :: logfile

definition server_url :: "'w launch_ops \<Rightarrow> pyval \<Rightarrow> pyval \<Rightarrow> string" where
  "server_url lo host port = ''http://'' @ py_str (ln_rt lo) host @ '':'' @ py_str (ln_rt lo) port"

definition session_get :: "'w launch_ops \<Rightarrow> string \<Rightarrow> ('b, 'w, http_response) meth" where
  "session_get lo url = outside (http_send (po_http (ln_prov lo)) (rq ''GET'' url))"

text \<open>Whether a service answers, with any status.\<close>

definition connects :: "'w launch_ops \<Rightarrow> string \<Rightarrow> ('b, 'w, bool) meth" where
  "connects lo url = tryIO (bindIO (session_get lo url) (\<lambda>_. returnIO True))
     (\<lambda>e. if exn_class e = ''ConnectionError'' then returnIO False else raiseIO e)"

definition TestServerBase_verify_not_running :: "'w launch_ops \<Rightarrow> ('x test_server_scheme, 'w, unit) meth" where
  "TestServerBase_verify_not_running lo =
     bindIO (self_get id) (\<lambda>ts. bindIO (connects lo (server_url lo (ts_host ts) (ts_port ts) @ ''/'')) (\<lambda>running.
     if running then raiseIO (LiteServError ''There should be no service running on the port'') else returnIO ()))"

definition LiteServBase_verify_not_running :: "'w launch_ops \<Rightarrow> ('x test_server_scheme, 'w, unit) meth" where
  "LiteServBase_verify_not_running lo = TestServerBase_verify_not_running lo"

text \<open>The loop \<open>while count < MAX_RETRIES\<close>, by the tries that are left.\<close>

fun reach_tries :: "'w launch_ops \<Rightarrow> string \<Rightarrow> rat \<Rightarrow> string \<Rightarrow> nat \<Rightarrow> ('b, 'w, http_response) meth" where
  "reach_tries lo url wait msg 0 = raiseIO (LiteServError msg)"
| "reach_tries lo url wait msg (Suc n) =
     bindIO (tryIO (bindIO (session_get lo url) (\<lambda>resp. returnIO (Some resp)))
       (\<lambda>e. if exn_class e = ''ConnectionError'' then bindIO (pause lo wait) (\<lambda>_. returnIO None) else raiseIO e))
     (\<lambda>answer. case answer of Some resp \<Rightarrow> returnIO resp | None \<Rightarrow> reach_tries lo url wait msg n)"

text \<open>Without a port, or with one that is false, the port of the object.\<close>

definition chosen_port :: "pyval \<Rightarrow> pyval \<Rightarrow> pyval" where
  "chosen_port port own = (if py_truth port then port else own)"

definition TestServerBase_wait_until_reachable :: "'w launch_ops \<Rightarrow> pyval \<Rightarrow> ('x test_server_scheme, 'w, pyval) meth" where
  "TestServerBase_wait_until_reachable lo port =
     bindIO (self_get id) (\<lambda>ts.
     bindIO (reach_tries lo (server_url lo (ts_host ts) (chosen_port port (ts_port ts))) 2 ''Could not connect to Test server app'' MAX_RETRIES) (\<lambda>_.
     returnIO (PBool True)))"

definition LiteServBase_wait_until_reachable :: "'w launch_ops \<Rightarrow> pyval \<Rightarrow> ('x test_server_scheme, 'w, pyval) meth" where
  "LiteServBase_wait_until_reachable lo port =
     bindIO (self_get id) (\<lambda>ts.
     bindIO (reach_tries lo (server_url lo (ts_host ts) (chosen_port port (ts_port ts))) 1 ''Could not connect to LiteServ'' MAX_RETRIES) (\<lambda>resp.
     liftIO (resp_json (po_http (ln_prov lo)) resp)))"

text \<open>Flushing and closing the log, and ending the process; both have to exist.\<close>

definition close_log :: "'w launch_ops \<Rightarrow> logfile \<Rightarrow> ('b, 'w, unit) meth" where
  "close_log lo l = (case l of
       LogHandle h \<Rightarrow> outside (ln_close lo h)
     | NoLog \<Rightarrow> raiseIO (Exn ''AttributeError'' (repr_str ''NoneType'' @ '' object has no attribute '' @ repr_str ''flush''))
     | LogName _ \<Rightarrow> raiseIO (Exn ''AttributeError'' (repr_str ''str'' @ '' object has no attribute '' @ repr_str ''flush'')))"

definition end_process :: "'w launch_ops \<Rightarrow> nat option \<Rightarrow> ('b, 'w, unit) meth" where
  "end_process lo p = (case p of
       Some h \<Rightarrow> outside (ln_kill lo h)
     | None \<Rightarrow> raiseIO (Exn ''AttributeError'' (repr_str ''NoneType'' @ '' object has no attribute '' @ repr_str ''kill'')))"

text \<open>Opening the log and starting a program that writes to it.\<close>

definition launch_logged :: "'w launch_ops \<Rightarrow> string \<Rightarrow> string \<Rightarrow> string list \<Rightarrow> ('x test_server_scheme, 'w, unit) meth" where
  "launch_logged lo logfile_name mode args =
     bindIO (outside (ln_open lo logfile_name mode)) (\<lambda>h.
     bindIO (self_set (\<lambda>ts. ts\<lparr>ts_logfile := LogHandle h\<rparr>)) (\<lambda>_.
     bindIO (outside (ln_popen lo args h)) (\<lambda>p.
     self_set (\<lambda>ts. ts\<lparr>ts_process := Some p\<rparr>))))"

section \<open>Playbooks of the launchers\<close>

definition must_play :: "'w launch_ops \<Rightarrow> string \<Rightarrow> string \<Rightarrow> vars option \<Rightarrow> string \<Rightarrow> ('b, 'w, unit) meth" where
  "must_play lo config playbook v msg =
     bindIO (on_world (run_ansible_playbook (ln_prov lo) config playbook v PNone)) (\<lambda>status.
     if status = 0 then returnIO () else raiseIO (LiteServError msg))"

text \<open>The inventory of a host, written before the runner is made. A missing variable of the environment is an error.\<close>

definition needs_environ :: "string \<Rightarrow> string \<Rightarrow> ('w, string) prov" where
  "needs_environ k what = cfg (\<lambda>env. case dict_get (env_vars env) k of Some v \<Rightarrow> Inr v
     | None \<Rightarrow> Inl (LiteServError (''Make sure you define '' @ repr_str k @ '' as the '' @ what @ ''user for the host you are targeting'')))"

definition write_inventory :: "string \<Rightarrow> string list \<Rightarrow> ('w, unit) prov" where
  "write_inventory f lines = on_files (\<lambda>env. (Inr (), write_file env f (TextFile (join nl lines))))"

definition windows_inventory :: "py_runtime \<Rightarrow> pyval \<Rightarrow> string \<Rightarrow> string \<Rightarrow> string \<Rightarrow> string list" where
  "windows_inventory rt host user password port =
     [''[windows]'', ''win1 ansible_host='' @ py_str rt host, ''[windows:vars]'', ''ansible_user='' @ user, ''ansible_password='' @ password,
      ''ansible_port='' @ port, ''ansible_connection=winrm'',
      ''# The following is necessary for Python 2.7.9+ when using default WinRM self-signed certificates:'', ''ansible_winrm_server_cert_validation=ignore'']"

definition write_windows_inventory :: "'w launch_ops \<Rightarrow> pyval \<Rightarrow> string \<Rightarrow> string \<Rightarrow> ('w, unit) prov" where
  "write_windows_inventory lo host port f =
     bindIO (needs_environ ''LITESERV_MSFT_HOST_USER'' ''windows '') (\<lambda>user.
     bindIO (needs_environ ''LITESERV_MSFT_HOST_PASSWORD'' ''windows '') (\<lambda>password.
     write_inventory f (windows_inventory (ln_rt lo) host user password port)))"

definition host_inventory :: "py_runtime \<Rightarrow> pyval \<Rightarrow> string \<Rightarrow> string \<Rightarrow> string list" where
  "host_inventory rt host user password =
     [''[testserver]'', ''testserver ansible_host='' @ py_str rt host, ''[testserver:vars]'', ''ansible_user='' @ user, ''ansible_password='' @ password]"

definition inventory_of :: "string \<Rightarrow> string" where
  "inventory_of platform = ''resources/liteserv_configs/'' @ platform"

end
