(* ===== verification/Test_Android.thy ===== *)
theory Test_Android
  imports Launchers
begin

text \<open>
  \<open>keywords/TestServerAndroid.py\<close>: the test server on Android, on an emulator or a device. Commands go to \<open>adb\<close>;
  the identifier of the device is an attribute that only \<open>install_device\<close> assigns, from the database of devices.
\<close>

section \<open>The object\<close>

record ts_android = test_server +
  ta_platform :: string
  ta_download_source :: string
  ta_apk_name :: string
  ta_package_name :: string
  ta_installed_package_name :: string
  ta_activity_name :: string
  ta_device_enabled :: "bool option"
  ta_android_id :: "pyval option"
  ta_device_option :: pyval
  ta_serial_number :: string

definition android_names :: "py_runtime \<Rightarrow> pyval \<Rightarrow> bool \<Rightarrow> bool \<Rightarrow> string \<Rightarrow> string \<times> string \<times> string \<times> string \<times> bool option" where
  "android_names rt version_build community debug platform =
     (if platform = ''android'' then
        (''couchbase-lite-android'',
         ''CBLTestServer-Android-'' @ py_str rt version_build @ (if community then ''-community'' else ''-enterprise'') @ (if debug then ''-debug.apk'' else ''-release.apk''),
         ''com.couchbase.TestServerApp'', ''/com.couchbase.CouchbaseLiteServ.MainActivity'', Some False)
      else if platform = ''c-android'' then
        (''couchbase-lite-c'', if community then ''CBLTestServer-C-community.apk'' else ''CBLTestServer-C-enterprise.apk'',
         ''com.couchbase.testsuite'', ''/android.app.NativeActivity'', None)
      else if platform = ''maui-android'' then
        (''couchbase-lite-net'', ''TestServer.Maui.Android.apk'', ''com.couchbase.testserver.maui'', ''/crc64dd2ca96419a7f258.MainActivity'', None)
      else
        (''couchbase-lite-net'', ''TestServer.Android.apk'', ''TestServer.Android'', ''/md53466f247b9f9d18ced632d20bd2e0d5c.MainActivity'', None))"

definition TestServerAndroid_init :: "py_runtime \<Rightarrow> pyval \<Rightarrow> pyval \<Rightarrow> pyval \<Rightarrow> bool \<Rightarrow> bool \<Rightarrow> string \<Rightarrow> ts_android" where
  "TestServerAndroid_init rt version_build host port community debug platform =
     (case android_names rt version_build community debug platform of (source, apk, package, activity, enabled) \<Rightarrow>
     \<lparr>ts_version_build = version_build, ts_host = host, ts_port = port, ts_process = None, ts_logfile = NoLog,
      ta_platform = platform, ta_download_source = source, ta_apk_name = apk, ta_package_name = apk, ta_installed_package_name = package,
      ta_activity_name = package @ activity, ta_device_enabled = enabled, ta_android_id = None, ta_device_option = PStr ''-e'', ta_serial_number = []\<rparr>)"

abbreviation android_attr :: "string \<Rightarrow> 'a option \<Rightarrow> ('b, 'w, 'a) meth" where
  "android_attr name v \<equiv> liftIO (attr ''TestServerAndroid'' name v)"

text \<open>\<open>self.android_id\<close>; a command takes texts only.\<close>

definition android_id :: "(ts_android, 'w, string) meth" where
  "android_id = bindIO (self_get ta_android_id) (\<lambda>i. bindIO (android_attr ''android_id'' i) (\<lambda>v. liftIO (as_str v)))"

definition TestServerAndroid_set_device_option :: "ts_android \<Rightarrow> string list \<Rightarrow> string list" where
  "TestServerAndroid_set_device_option ts command = command"

text \<open>\<open>adb -s\<close> for the device.\<close>

definition device_cmd :: "(ts_android \<Rightarrow> string list) \<Rightarrow> (ts_android, 'w, string list) meth" where
  "device_cmd rest = bindIO android_id (\<lambda>i. self_get (\<lambda>ts. TestServerAndroid_set_device_option ts ([''adb'', ''-s'', i] @ rest ts)))"

definition device_run :: "'w launch_ops \<Rightarrow> (ts_android \<Rightarrow> string list) \<Rightarrow> (ts_android, 'w, string) meth" where
  "device_run lo rest = bindIO (device_cmd rest) (run_out lo)"

section \<open>Packages\<close>

definition new_version :: "pyval \<Rightarrow> ('x test_server_scheme, 'w, unit) meth" where
  "new_version v = self_set (\<lambda>ts. if v \<noteq> PNone then ts\<lparr>ts_version_build := v\<rparr> else ts)"

definition TestServerAndroid_download :: "'w launch_ops \<Rightarrow> pyval \<Rightarrow> (ts_android, 'w, unit) meth" where
  "TestServerAndroid_download lo version_build =
     bindIO (new_version version_build) (\<lambda>_.
     bindIO (self_get id) (\<lambda>ts.
     bindIO (liftIO (version_build_of (ts_version_build ts))) (\<lambda>vb.
     if str_less (fst vb) ''2.1.2'' then
       raiseIO (Exn ''Exception'' ''No Android app available to download for version below 2.1.2 at latestbuild. Use maven to create app.'')
     else bindIO (outside (ln_isfile lo (binary (ta_package_name ts)))) (\<lambda>found.
     if found then returnIO ()
     else fetch lo (build_url (ta_download_source ts) vb (ta_package_name ts)) (binary (ta_package_name ts))))))"

definition uninstalled :: "exn \<Rightarrow> bool" where
  "uninstalled e \<longleftrightarrow> contains_str (exn_msg e) ''returned non-zero exit status 1''"

definition TestServerAndroid_remove_android_servers :: "'w launch_ops \<Rightarrow> string \<Rightarrow> (ts_android, 'w, unit) meth" where
  "TestServerAndroid_remove_android_servers lo app_name =
     bindIO (device_cmd (\<lambda>_. [''uninstall'', app_name])) (\<lambda>command.
     bindIO (tryIO (run_out lo command) (\<lambda>e. if uninstalled e then returnIO ''Success'' else raiseIO (LiteServError ''Error uninstalling app!''))) (\<lambda>out.
     if py_strip out \<noteq> ''Success'' then raiseIO (LiteServError ''Error. Could not remove app.'') else returnIO ()))"

definition TestServerAndroid_remove :: "'w launch_ops \<Rightarrow> (ts_android, 'w, unit) meth" where
  "TestServerAndroid_remove lo =
     forIO [''com.couchbase.TestServerApp'', ''TestServer.Android'', ''com.couchbase.testserver.maui''] (TestServerAndroid_remove_android_servers lo)"

section \<open>Installing\<close>

definition already_there :: "string \<Rightarrow> bool" where
  "already_there msg \<longleftrightarrow> contains_str msg ''INSTALL_FAILED_ALREADY_EXISTS'' \<or> contains_str msg ''INSTALL_FAILED_UPDATE_INCOMPATIBLE''"

text \<open>
  One round of the loop of \<open>install\<close>. An installation that succeeds does not leave the loop; one that fails for any other
  reason than a package that is there already does.
\<close>

definition install_round :: "'w launch_ops \<Rightarrow> string \<Rightarrow> nat \<Rightarrow> (ts_android, 'w, bool \<times> nat) meth" where
  "install_round lo apk_path tried =
     (if tried > 1 then raiseIO (LiteServError ''.apk install failed!'')
      else tryIO (bindIO (run_out lo [''adb'', ''-e'', ''install'', ''-r'', apk_path]) (\<lambda>_. returnIO (True, tried)))
        (\<lambda>e. if already_there (exn_msg e) then bindIO (TestServerAndroid_remove lo) (\<lambda>_. returnIO (True, tried + 1))
             else returnIO (False, tried)))"

definition check_installed :: "(string \<Rightarrow> string) \<Rightarrow> py_runtime \<Rightarrow> ts_android \<Rightarrow> string \<Rightarrow> unit res" where
  "check_installed text rt ts out =
     (if contains_str (text out) (ta_installed_package_name ts) then Inr ()
      else Inl (LiteServError (''Failed to install package: '' @ py_str rt (PBytes out))))"

definition TestServerAndroid_install :: "'w launch_ops \<Rightarrow> nat \<Rightarrow> (ts_android, 'w, unit) methD" where
  "TestServerAndroid_install lo fuel =
     bindD (liftD (bindIO (self_set (\<lambda>ts. ts\<lparr>ta_device_enabled := Some False\<rparr>)) (\<lambda>_. tryIO (TestServerAndroid_remove lo) (\<lambda>_. returnIO ())))) (\<lambda>_.
     bindD (liftD (self_get id)) (\<lambda>ts.
     bindD (while_io (\<lambda>_. True) (install_round lo (binary (ta_apk_name ts))) fuel 0) (\<lambda>_.
     liftD (bindIO (run_out lo [''adb'', ''-e'', ''shell'', ''pm'', ''list'', ''packages'']) (\<lambda>out.
       bindIO (self_get id) (\<lambda>ts. liftIO (check_installed (\<lambda>t. py_str (ln_rt lo) (PBytes t)) (ln_rt lo) ts out)))))))"

text \<open>
  The exception of a program that fails has a number as its first argument, in which no text can be looked for; any other
  exception has no \<open>message\<close>.
\<close>

definition retry_device :: "'w launch_ops \<Rightarrow> nat \<Rightarrow> exn \<Rightarrow> (ts_android, 'w, bool \<times> nat) meth" where
  "retry_device lo tried e =
     (if exn_class e = ''CalledProcessError'' then raiseIO (Exn ''TypeError'' (''argument of type '' @ repr_str ''int'' @ '' is not iterable''))
      else if contains_str (exn_msg e) ''INSTALL_FAILED_ALREADY_EXISTS'' then bindIO (TestServerAndroid_remove lo) (\<lambda>_. returnIO (True, tried + 1))
      else raiseIO (Exn ''AttributeError'' (repr_str (exn_class e) @ '' object has no attribute '' @ repr_str ''message'')))"

definition install_device_round :: "'w launch_ops \<Rightarrow> string \<Rightarrow> nat \<Rightarrow> (ts_android, 'w, bool \<times> nat) meth" where
  "install_device_round lo apk_path tried =
     (if tried > 1 then raiseIO (LiteServError ''.apk install failed!'')
      else tryIO (bindIO (device_run lo (\<lambda>_. [''install'', ''-r'', apk_path])) (\<lambda>_. returnIO (False, tried))) (retry_device lo tried))"

text \<open>The identifier from the database; whatever goes wrong is printed.\<close>

definition find_device :: "'w launch_ops \<Rightarrow> (ts_android, 'w, unit) meth" where
  "find_device lo =
     tryIO (bindIO (self_get ts_host) (\<lambda>host. bindIO (outside (ln_device lo host)) (\<lambda>info. bindIO (liftIO (py_item info ''device_id'')) (\<lambda>i.
       if py_truth i then self_set (\<lambda>ts. ts\<lparr>ta_android_id := Some i\<rparr>) else returnIO ())))) (\<lambda>_. returnIO ())"

definition clear_device :: "'w launch_ops \<Rightarrow> (ts_android, 'w, unit) meth" where
  "clear_device lo =
     tryIO (bindIO (device_run lo (\<lambda>_. [''shell'', ''dumpsys'', ''package'', ''com.couchbase.TestServerApp'', '' | grep versionName '', ''| cut -d= -f2- '']))
       (\<lambda>_. TestServerAndroid_remove lo)) (\<lambda>_. returnIO ())"

definition TestServerAndroid_install_device :: "'w launch_ops \<Rightarrow> nat \<Rightarrow> (ts_android, 'w, unit) methD" where
  "TestServerAndroid_install_device lo fuel =
     bindD (liftD (bindIO (self_set (\<lambda>ts. ts\<lparr>ta_device_enabled := Some True,
         ta_device_option := (if ta_serial_number ts \<noteq> [] then PList [PStr ''-s'', PStr (ta_serial_number ts)] else PList [PStr ''-d''])\<rparr>)) (\<lambda>_.
       bindIO (outside (ln_connect lo)) (\<lambda>_. bindIO (find_device lo) (\<lambda>_. clear_device lo))))) (\<lambda>_.
     bindD (liftD (self_get id)) (\<lambda>ts.
     bindD (while_io (\<lambda>_. True) (install_device_round lo (binary (ta_apk_name ts))) fuel 0) (\<lambda>_.
     liftD (bindIO (device_run lo (\<lambda>_. [''shell'', ''pm'', ''list'', ''packages''])) (\<lambda>out.
       bindIO (self_get id) (\<lambda>ts. liftIO (check_installed id (ln_rt lo) ts out)))))))"

section \<open>Starting and stopping\<close>

definition emulator_or_device :: "'w launch_ops \<Rightarrow> (ts_android \<Rightarrow> string list) \<Rightarrow> (ts_android, 'w, string) meth" where
  "emulator_or_device lo rest =
     bindIO (self_get id) (\<lambda>ts. bindIO (android_attr ''device_enabled'' (ta_device_enabled ts)) (\<lambda>device.
     if device then device_run lo rest else run_out lo ([''adb'', ''-e''] @ rest ts)))"

definition TestServerAndroid_verify_launched :: "'w launch_ops \<Rightarrow> (ts_android, 'w, unit) meth" where
  "TestServerAndroid_verify_launched lo =
     bindIO (emulator_or_device lo (\<lambda>ts. [''shell'', ''pidof'', ta_installed_package_name ts, ''|'', ''wc'', ''-l''])) (\<lambda>_. returnIO ())"

definition await_launch :: "'w launch_ops \<Rightarrow> (ts_android, 'w, unit) meth" where
  "await_launch lo =
     bindIO (self_get ts_port) (\<lambda>port. bindIO (TestServerBase_wait_until_reachable lo port) (\<lambda>_. TestServerAndroid_verify_launched lo))"

definition activity_args :: "py_runtime \<Rightarrow> ts_android \<Rightarrow> string list" where
  "activity_args rt ts = [''shell'', ''am'', ''start'', ''-n'', ta_activity_name ts, ''--es'', ''username'', ''none'', ''--es'', ''password'', ''none'',
     ''--ei'', ''listen_port'', py_str rt (ts_port ts)]"

definition TestServerAndroid_start :: "'w launch_ops \<Rightarrow> string \<Rightarrow> (ts_android, 'w, unit) meth" where
  "TestServerAndroid_start lo logfile_name =
     bindIO (run_out lo [''adb'', ''-e'', ''logcat'', ''-c'']) (\<lambda>_.
     bindIO (launch_logged lo logfile_name ''w+'' [''adb'', ''logcat'']) (\<lambda>_.
     bindIO (self_get id) (\<lambda>ts.
     bindIO (run_out lo ([''adb'', ''-e''] @ activity_args (ln_rt lo) ts)) (\<lambda>_. await_launch lo))))"

definition force_stop :: "'w launch_ops \<Rightarrow> (ts_android, 'w, string) meth" where
  "force_stop lo = device_run lo (\<lambda>ts. [''shell'', ''am'', ''force-stop'', ta_installed_package_name ts])"

definition TestServerAndroid_start_device :: "'w launch_ops \<Rightarrow> string \<Rightarrow> (ts_android, 'w, unit) meth" where
  "TestServerAndroid_start_device lo logfile_name =
     bindIO (device_run lo (\<lambda>_. [''logcat'', ''-c''])) (\<lambda>_.
     bindIO (force_stop lo) (\<lambda>_.
     bindIO (outside (ln_open lo logfile_name ''w+'')) (\<lambda>h.
     bindIO (self_set (\<lambda>ts. ts\<lparr>ts_logfile := LogHandle h\<rparr>)) (\<lambda>_.
     bindIO (device_cmd (\<lambda>_. [''logcat''])) (\<lambda>command.
     bindIO (outside (ln_popen lo command h)) (\<lambda>p.
     bindIO (self_set (\<lambda>ts. ts\<lparr>ts_process := Some p\<rparr>)) (\<lambda>_.
     bindIO (device_run lo (\<lambda>ts. [''shell'', ''monkey'', ''-p'', ta_installed_package_name ts, ''-v'', ''1'', ''listen_port'', py_str (ln_rt lo) (ts_port ts)])) (\<lambda>_.
     await_launch lo))))))))"

text \<open>What goes wrong with the log and the process is not reported.\<close>

definition TestServerAndroid_stop :: "'w launch_ops \<Rightarrow> (ts_android, 'w, unit) meth" where
  "TestServerAndroid_stop lo =
     bindIO (force_stop lo) (\<lambda>_.
     bindIO (device_run lo (\<lambda>ts. [''shell'', ''pm'', ''clear'', ta_installed_package_name ts])) (\<lambda>_.
     bindIO (self_get id) (\<lambda>ts.
     tryIO (bindIO (if ts_logfile ts \<noteq> NoLog then close_log lo (ts_logfile ts) else returnIO ()) (\<lambda>_.
       if ts_process ts \<noteq> None then end_process lo (ts_process ts) else returnIO ())) (\<lambda>_. returnIO ()))))"

definition TestServerAndroid_close_app :: "'w launch_ops \<Rightarrow> (ts_android, 'w, unit) meth" where
  "TestServerAndroid_close_app lo = bindIO (emulator_or_device lo (\<lambda>_. [''shell'', ''input'', ''keyevent '', ''3''])) (\<lambda>_. returnIO ())"

definition TestServerAndroid_open_app :: "'w launch_ops \<Rightarrow> (ts_android, 'w, unit) meth" where
  "TestServerAndroid_open_app lo = bindIO (emulator_or_device lo (activity_args (ln_rt lo))) (\<lambda>_. await_launch lo)"

end
