(* ===== verification/Test_iOS.thy ===== *)
theory Test_iOS
  imports Test_Android
begin

text \<open>
  \<open>keywords/TestServeriOS.py\<close>: the test server on iOS, in the simulator or on a device, with \<open>ios-deploy\<close> or \<open>devicectl\<close>.
  The wait for the simulator is \<open>poll\<close> with fuel.
\<close>

section \<open>The object\<close>

record ts_ios = test_server +
  ti_admin_url :: string
  ti_logfile_name :: "string option"
  ti_device_id :: "string option"
  ti_device :: string
  ti_debug_mode :: bool
  ti_app_path :: string
  ti_app_name :: string
  ti_platform :: string
  ti_bundle_id :: string
  ti_using_devicectl :: bool
  ti_app_dir :: string
  ti_package_name :: string
  ti_app :: string
  ti_version :: "string option"
  ti_build :: "string option option"

definition ios_released :: "(string, int) dict" where
  "ios_released = [(''2.0.0'', 806), (''2.1.0'', 263), (''2.1.1'', 10), (''2.1.2'', 11), (''2.5.0'', 272), (''2.5.2'', 3), (''2.7.0'', 5)]"

definition TestServeriOS_is_using_devicectl :: "'w launch_ops \<Rightarrow> ('w, bool) io" where
  "TestServeriOS_is_using_devicectl lo = tryIO (bindIO (ln_output lo [''xcrun'', ''devicectl'']) (\<lambda>_. returnIO True)) (\<lambda>_. returnIO False)"

text \<open>The directory, the package, the app and the bundle.\<close>

definition ios_names :: "py_runtime \<Rightarrow> pyval \<Rightarrow> bool \<Rightarrow> string \<Rightarrow> string \<times> string \<times> string \<times> string" where
  "ios_names rt version_build community platform =
     (if platform = ''ios'' then
        let d = (if community then ''CBLTestServer-iOS-community-'' @ py_str rt version_build
                 else if version_build = PStr ''2.1.1'' then ''CBLTestServer-iOS-enterprise-2.1.1-10''
                 else ''CBLTestServer-iOS-enterprise-'' @ py_str rt version_build) in
        (d, d @ ''.zip'', if community then ''CBLTestServer-iOS'' else ''CBLTestServer-iOS-EE'', ''com.couchbase.CBLTestServer-iOS'')
      else if platform = ''c-ios'' then
        let d = (if community then ''CBLTestServer-iOS_community'' else ''CBLTestServer-iOS_enterprise'') in
        (d, d @ ''.zip'', ''TestServer'', ''com.couchbase.TestServer'')
      else (''TestServer.iOS'', ''TestServer.iOS.zip'', ''TestServer.iOS'', ''com.couchbase.TestServer.iOS''))"

definition TestServeriOS_init :: "'w launch_ops \<Rightarrow> pyval \<Rightarrow> pyval \<Rightarrow> pyval \<Rightarrow> bool \<Rightarrow> bool \<Rightarrow> string \<Rightarrow> ('w, ts_ios) io" where
  "TestServeriOS_init lo version_build host port community debug platform =
     bindIO (TestServeriOS_is_using_devicectl lo) (\<lambda>ctl.
     if version_build = PStr ''2.1.0'' then
       raiseIO (Exn ''Exception'' ''No iOS app available to download for 2.1.0 at latestbuild. Use xcode to create app.'')
     else case ios_names (ln_rt lo) version_build community platform of (app_dir, package, app, bundle) \<Rightarrow> returnIO
       \<lparr>ts_version_build = version_build, ts_host = host, ts_port = port, ts_process = None, ts_logfile = NoLog,
        ti_admin_url = server_url lo host (PInt 59850), ti_logfile_name = None, ti_device_id = (if ctl then Some ''iPhone.coredevice.local'' else None),
        ti_device = ''iPhone-8-Plus'', ti_debug_mode = debug, ti_app_path = [], ti_app_name = [], ti_platform = platform, ti_bundle_id = bundle,
        ti_using_devicectl = ctl, ti_app_dir = app_dir, ti_package_name = package, ti_app = app, ti_version = None, ti_build = None\<rparr>)"

abbreviation ios_attr :: "string \<Rightarrow> 'a option \<Rightarrow> ('b, 'w, 'a) meth" where
  "ios_attr name v \<equiv> liftIO (attr ''TestServeriOS'' name v)"

section \<open>Packages\<close>

text \<open>For a release the number of the build becomes the version of the object.\<close>

definition ios_app_name :: "py_runtime \<Rightarrow> ts_ios \<Rightarrow> string \<times> string option \<Rightarrow> (string \<times> pyval) res" where
  "ios_app_name rt ts vb =
     (if ti_platform ts = ''ios'' then
        (case vb of
           (version, None) \<Rightarrow> bindR (dict_index ios_released version) (\<lambda>b. Inr (ti_app ts @ ''-'' @ version @ ''-'' @ int_str b @ ''.app'', PInt b))
         | (version, Some _) \<Rightarrow> Inr (ti_app ts @ ''-'' @ py_str rt (ts_version_build ts) @ ''.app'', ts_version_build ts))
      else Inr (ti_app ts, ts_version_build ts))"

definition ios_url :: "ts_ios \<Rightarrow> string \<times> string option \<Rightarrow> string" where
  "ios_url ts vb =
     (if ti_platform ts = ''ios'' then
        (if snd vb = None \<and> str_less (fst vb) ''2.0.2'' then RELEASED_BUILDS @ ''/couchbase-lite/ios/'' @ fst vb @ ''/'' @ ti_package_name ts
         else build_url ''couchbase-lite-ios'' vb (ti_package_name ts))
      else if ti_platform ts = ''c-ios'' then build_url ''couchbase-lite-c'' vb (ti_package_name ts)
      else build_url ''couchbase-lite-net'' vb (ti_package_name ts))"

definition TestServeriOS_download :: "'w launch_ops \<Rightarrow> pyval \<Rightarrow> (ts_ios, 'w, unit) meth" where
  "TestServeriOS_download lo version_build =
     bindIO (new_version version_build) (\<lambda>_.
     bindIO (self_get id) (\<lambda>ts.
     bindIO (liftIO (version_build_of (ts_version_build ts))) (\<lambda>vb.
     bindIO (self_set (\<lambda>ts. ts\<lparr>ti_version := Some (fst vb), ti_build := Some (snd vb)\<rparr>)) (\<lambda>_.
     bindIO (liftIO (ios_app_name (ln_rt lo) ts vb)) (\<lambda>(app_name, vbuild).
     bindIO (self_set (\<lambda>ts. ts\<lparr>ts_version_build := vbuild\<rparr>)) (\<lambda>_.
     bindIO (outside (os_exists (po_os (ln_prov lo)) (binary (ti_app_dir ts @ ''/'' @ app_name)))) (\<lambda>found.
     if found then returnIO () else fetch_zip lo (ios_url ts vb) (binary (ti_package_name ts)))))))))"

section \<open>Stopping\<close>

text \<open>With \<open>shell=True\<close> the first word alone is the command; the script is an argument of the shell.\<close>

definition TestServeriOS_close_app :: "'w launch_ops \<Rightarrow> (ts_ios, 'w, unit) meth" where
  "TestServeriOS_close_app lo =
     tryIO (bindIO (run_out lo [''/bin/sh'', ''-c'', ''osascript'', po_cwd (ln_prov lo) @ ''/utilities/sim_close_app.scpt'']) (\<lambda>_. returnIO ())) (\<lambda>_. returnIO ())"

definition TestServeriOS_stop :: "'w launch_ops \<Rightarrow> (ts_ios, 'w, unit) meth" where
  "TestServeriOS_stop lo =
     bindIO (TestServeriOS_close_app lo) (\<lambda>_. bindIO (self_get id) (\<lambda>ts. case (ti_logfile_name ts, ti_device_id ts) of
       (Some l, Some d) \<Rightarrow>
         if l = [] \<or> d = [] then returnIO ()
         else bindIO (on_world (environ ''HOME'')) (\<lambda>home.
           tryIO (outside (ln_move_log lo (home @ ''/Library/Logs/CoreSimulator/'' @ d @ ''/system.log'') l)) (\<lambda>_. returnIO ()))
     | _ \<Rightarrow> returnIO ()))"

section \<open>Installing\<close>

text \<open>One of two commands; a command that names the device needs its identifier.\<close>

definition by_devicectl :: "'w launch_ops \<Rightarrow> (ts_ios \<Rightarrow> string list) \<Rightarrow> (ts_ios \<Rightarrow> string \<Rightarrow> string list) \<Rightarrow> (ts_ios, 'w, string) meth" where
  "by_devicectl lo dep ctl =
     bindIO (self_get id) (\<lambda>ts.
     if ti_using_devicectl ts then (case ti_device_id ts of
         Some d \<Rightarrow> run_out lo (ctl ts d)
       | None \<Rightarrow> raiseIO (Exn ''TypeError'' ''expected str, bytes or os.PathLike object, not NoneType''))
     else run_out lo (dep ts))"

definition install_app :: "ts_ios \<Rightarrow> string \<Rightarrow> string list" where
  "install_app ts d = [''xcrun'', ''devicectl'', ''device'', ''install'', ''app'', ''--device'', d, ti_app_path ts]"

definition just_launch :: "ts_ios \<Rightarrow> string list" where
  "just_launch ts = [''ios-deploy'', ''--justlaunch'', ''--bundle'', ti_app_path ts]"

definition use_app :: "string \<Rightarrow> (ts_ios, 'w, unit) meth" where
  "use_app app_name = self_set (\<lambda>ts. ts\<lparr>ti_app_name := app_name, ti_app_path := binary (ti_app_dir ts @ ''/'' @ app_name)\<rparr>)"

definition device_app_name :: "py_runtime \<Rightarrow> ts_ios \<Rightarrow> string" where
  "device_app_name rt ts =
     (if ti_platform ts = ''ios'' then ti_app ts @ ''-'' @ py_str rt (ts_version_build ts) @ (if ti_debug_mode ts then ''-Device-debug.app'' else ''-Device.app'')
      else ti_app ts @ ''-Device.app'')"

definition TestServeriOS_install_device :: "'w launch_ops \<Rightarrow> (ts_ios, 'w, unit) meth" where
  "TestServeriOS_install_device lo =
     bindIO (self_get id) (\<lambda>ts.
     bindIO (use_app (device_app_name (ln_rt lo) ts)) (\<lambda>_.
     bindIO (by_devicectl lo just_launch install_app) (\<lambda>_.
     bindIO (by_devicectl lo (\<lambda>_. [''ios-deploy'', ''--list_bundle_id'']) (\<lambda>_ d. [''xcrun'', ''devicectl'', ''device'', ''info'', ''apps'', ''--device'', d])) (\<lambda>out.
     if \<not> contains_str out (ti_bundle_id ts) then raiseIO (LiteServError ''Could not install CBLTestServer-iOS'')
     else TestServeriOS_stop lo))))"

definition simulator_app_name :: "py_runtime \<Rightarrow> ts_ios \<Rightarrow> string res" where
  "simulator_app_name rt ts =
     (if ti_platform ts = ''ios'' then
        bindR (attr ''TestServeriOS'' ''build'' (ti_build ts)) (\<lambda>build.
        bindR (if build = None then bindR (attr ''TestServeriOS'' ''version'' (ti_version ts)) (\<lambda>v. Inr (''-'' @ v)) else Inr []) (\<lambda>v.
        Inr (ti_app ts @ v @ ''-'' @ py_str rt (ts_version_build ts) @ (if ti_debug_mode ts then ''-debug.app'' else ''.app''))))
      else Inr (ti_app ts @ ''.app''))"

text \<open>\<open>re.sub(' +', ' ', s)\<close>.\<close>

fun squeeze :: "string \<Rightarrow> string" where
  "squeeze [] = []"
| "squeeze (c # s) = (if c = CHR '' '' \<and> s \<noteq> [] \<and> hd s = CHR '' '' then squeeze s else c # squeeze s)"

definition field :: "string \<Rightarrow> nat \<Rightarrow> string res" where
  "field line n = list_item (split_chr CHR '' '' (py_strip (squeeze line))) n"

definition boot_round :: "'w launch_ops \<Rightarrow> unit \<Rightarrow> ('w, unit + unit) io" where
  "boot_round lo s =
     bindIO (ln_piped lo [''xcrun'', ''simctl'', ''spawn'', ''booted'', ''launchctl'', ''print'', ''system''] [''grep'', ''com.apple.springboard.services'']) (\<lambda>out.
     bindIO (liftIO (field out 2)) (\<lambda>status. returnIO (if status = ''A'' then Inr () else Inl ())))"

definition await_boot :: "'w launch_ops \<Rightarrow> nat \<Rightarrow> ('w, unit) dio" where
  "await_boot lo fuel = poll (ce_clock (po_cbs (ln_prov lo))) CLIENT_REQUEST_TIMEOUT 1 (raiseIO (LiteServError ''iPhone Simulator failed to start'')) (boot_round lo) fuel ()"

definition booted_lines :: "'w launch_ops \<Rightarrow> (ts_ios, 'w, string list) meth" where
  "booted_lines lo = bindIO (outside (ln_piped lo [''xcrun'', ''simctl'', ''list''] [''grep'', ''Booted''])) (\<lambda>out. returnIO (splitlines out))"

text \<open>The last booted phone; a line is assigned to the attribute before its field is read.\<close>

definition find_phone :: "nat \<Rightarrow> string list \<Rightarrow> (ts_ios, 'w, unit) meth" where
  "find_phone n lines = forIO lines (\<lambda>line.
     if contains_str line ''Phone'' then
       bindIO (self_set (\<lambda>ts. ts\<lparr>ti_device_id := Some (py_strip (squeeze line))\<rparr>)) (\<lambda>_.
       bindIO (liftIO (field line n)) (\<lambda>d. self_set (\<lambda>ts. ts\<lparr>ti_device_id := Some (strip_chars '')'' (strip_chars ''('' d))\<rparr>)))
     else returnIO ())"

definition TestServeriOS_install :: "'w launch_ops \<Rightarrow> nat \<Rightarrow> (ts_ios, 'w, unit) methD" where
  "TestServeriOS_install lo fuel =
     bindD (liftD (bindIO (self_get id) (\<lambda>ts. bindIO (liftIO (simulator_app_name (ln_rt lo) ts)) (\<lambda>app_name.
       bindIO (use_app app_name) (\<lambda>_. bindIO (self_get id) (\<lambda>ts.
       bindIO (run_out lo [''ios-sim'', ''install'', ti_app_path ts, ''--devicetypeid'', ti_device ts, ''--exit'']) (\<lambda>_. booted_lines lo))))))) (\<lambda>lines.
     bindD (if length lines > 0 then on_worldD (on_worldD (await_boot lo fuel)) else liftD (returnIO ())) (\<lambda>_.
     liftD (bindIO (booted_lines lo) (\<lambda>lines.
       bindIO (find_phone 3 lines) (\<lambda>_.
       bindIO (self_get ti_device_id) (\<lambda>d.
       if d = None \<or> d = Some [] then raiseIO (LiteServError ''Could not get the device ID of the running simulator'') else returnIO ()))))))"

text \<open>The list of the apps after a removal is asked for with one word that names no program.\<close>

definition TestServeriOS_remove_device :: "'w launch_ops \<Rightarrow> (ts_ios, 'w, unit) meth" where
  "TestServeriOS_remove_device lo =
     bindIO (by_devicectl lo (\<lambda>ts. [''ios-deploy'', ''--uninstall_only'', ''--bundle_id'', ti_bundle_id ts])
       (\<lambda>ts d. [''xcrun'', ''devicectl'', ''device'', ''uninstall'', ''app'', ''--device'', d, ti_bundle_id ts])) (\<lambda>_.
     bindIO (self_get id) (\<lambda>ts.
     bindIO (run_out lo (if ti_using_devicectl ts then [''xcrun devicectl device info apps''] else [''ios-deploy'', ''--list_bundle_id''])) (\<lambda>out.
     if contains_str out (ti_bundle_id ts) then raiseIO (LiteServError ''CBLTestServer-iOS is still present after uninstall'') else returnIO ())))"

definition TestServeriOS_remove :: "'w launch_ops \<Rightarrow> (ts_ios, 'w, unit) meth" where
  "TestServeriOS_remove lo =
     bindIO (TestServeriOS_stop lo) (\<lambda>_.
     bindIO (run_out lo [''killall'', ''Simulator'']) (\<lambda>_.
     bindIO (self_get id) (\<lambda>ts.
     bindIO (case ti_device_id ts of
         None \<Rightarrow> raiseIO (Exn ''TypeError'' ''expected str, bytes or os.PathLike object, not NoneType'')
       | Some d \<Rightarrow> run_out lo [''xcrun'', ''simctl'', ''erase'', d]) (\<lambda>out.
     if contains_str out (ti_bundle_id ts) then raiseIO (LiteServError (ti_bundle_id ts @ '' is still present after uninstall'')) else returnIO ()))))"

section \<open>Starting\<close>

definition TestServeriOS_verify_running :: "'w launch_ops \<Rightarrow> (ts_ios, 'w, bool) meth" where
  "TestServeriOS_verify_running lo =
     bindIO (self_get id) (\<lambda>ts. bindIO (connects lo (server_url lo (ts_host ts) (ts_port ts) @ ''/'')) (\<lambda>running.
     if running then returnIO True else raiseIO (LiteServError ''Did not connected to Test server app'')))"

definition start_app :: "'w launch_ops \<Rightarrow> string \<Rightarrow> (ts_ios, 'w, string) meth \<Rightarrow> (ts_ios, 'w, unit) meth" where
  "start_app lo logfile_name launch =
     bindIO (self_set (\<lambda>ts. ts\<lparr>ti_logfile_name := Some logfile_name, ti_app_path := binary (ti_app_dir ts @ ''/'' @ ti_app_name ts)\<rparr>)) (\<lambda>_.
     bindIO launch (\<lambda>_.
     bindIO (self_get ts_port) (\<lambda>port.
     bindIO (TestServerBase_wait_until_reachable lo port) (\<lambda>_.
     bindIO (TestServeriOS_verify_running lo) (\<lambda>_. returnIO ())))))"

definition TestServeriOS_start :: "'w launch_ops \<Rightarrow> string \<Rightarrow> (ts_ios, 'w, unit) meth" where
  "TestServeriOS_start lo logfile_name = start_app lo logfile_name
     (bindIO (self_get id) (\<lambda>ts. run_out lo [''ios-sim'', ''launch'', ti_app_path ts, ''--devicetypeid'', ti_device ts, ''--exit'']))"

definition TestServeriOS_start_device :: "'w launch_ops \<Rightarrow> string \<Rightarrow> (ts_ios, 'w, unit) meth" where
  "TestServeriOS_start_device lo logfile_name = start_app lo logfile_name
     (by_devicectl lo just_launch (\<lambda>ts d. [''xcrun'', ''devicectl'', ''device'', ''process'', ''launch'', ''--device'', d, ti_bundle_id ts]))"

text \<open>The answer of the wait is looked into as if it were that of LiteServ.\<close>

definition objc_version :: "py_runtime \<Rightarrow> pyval \<Rightarrow> string res \<Rightarrow> unit res" where
  "objc_version rt resp_obj expected =
     bindR (py_item2 resp_obj ''vendor'' ''name'') (\<lambda>name.
     if name \<noteq> PStr ''Couchbase Lite (Objective-C)'' then Inl (LiteServError ''Unexpected LiteServ platform running!'')
     else bindR expected (\<lambda>e. bindR (py_item2 resp_obj ''vendor'' ''version'') (\<lambda>running.
     if PStr e \<noteq> running then Inl (LiteServError (''Expected version: '' @ e @ '' does not match running version: '' @ py_str rt running)) else Inr ())))"

definition version_of_build :: "pyval \<Rightarrow> string res" where
  "version_of_build v = bindR (version_build_of v) (\<lambda>(version, build). Inr (version @ '' (build '' @ opt_text build @ '')''))"

definition TestServeriOS_verify_launched :: "'w launch_ops \<Rightarrow> (ts_ios, 'w, unit) meth" where
  "TestServeriOS_verify_launched lo =
     bindIO (TestServerBase_wait_until_reachable lo PNone) (\<lambda>resp_obj.
     bindIO (self_get id) (\<lambda>ts. liftIO (objc_version (ln_rt lo) resp_obj (version_of_build (ts_version_build ts)))))"

definition TestServeriOS_open_app :: "'w launch_ops \<Rightarrow> (ts_ios, 'w, unit) meth" where
  "TestServeriOS_open_app lo =
     bindIO (self_get id) (\<lambda>ts.
     bindIO (if ts_host ts = PStr ''localhost'' then run_out lo [''xcrun'', ''simctl'', ''launch'', ''booted'', ti_bundle_id ts]
             else by_devicectl lo just_launch install_app) (\<lambda>_. pause lo 5))"

end
