(* ===== verification/Test_Remote.thy ===== *)
theory Test_Remote
  imports Test_iOS
begin

text \<open>
  The test servers on other machines: \<open>keywords/TestServerCpp.py\<close>, \<open>TestServerJava.py\<close>, \<open>TestServerJavaWS.py\<close>,
  \<open>TestServerWinBase.py\<close> with \<open>TestServerNetMsft.py\<close>, which ansible playbooks download, start and stop, and
  \<open>TestServerNetMono.py\<close>; \<open>TestServerFactory.py\<close> chooses between all of them.
\<close>

definition play :: "'w launch_ops \<Rightarrow> string \<Rightarrow> string \<Rightarrow> vars \<Rightarrow> ('b, 'w, int) meth" where
  "play lo config playbook v = on_world (run_ansible_playbook (ln_prov lo) config playbook (Some v) PNone)"

definition played :: "int \<Rightarrow> string \<Rightarrow> ('b, 'w, unit) meth" where
  "played status msg = (if status = 0 then returnIO () else raiseIO (LiteServError msg))"

abbreviation sv :: "string \<Rightarrow> string \<Rightarrow> string \<times> pyval" where
  "sv k s \<equiv> (k, PStr s)"

definition write_host_inventory :: "'w launch_ops \<Rightarrow> pyval \<Rightarrow> string list \<Rightarrow> string \<Rightarrow> ('w, unit) prov" where
  "write_host_inventory lo host further platform =
     bindIO (needs_environ ''TESTSERVER_HOST_USER'' []) (\<lambda>user.
     bindIO (needs_environ ''TESTSERVER_HOST_PASSWORD'' []) (\<lambda>password.
     write_inventory (inventory_of platform) (host_inventory (ln_rt lo) host user password @ further)))"

section \<open>C\<close>

record ts_cpp = test_server +
  tc_platform :: string
  tc_build_name :: string
  tc_package_name :: string
  tc_download_url :: string
  tc_binary_path :: string
  tc_test_host :: pyval
  tc_config :: string

definition cpp_package :: "bool \<Rightarrow> string \<Rightarrow> string" where
  "cpp_package arm64 platform =
     (if platform = ''c-macosx'' then ''testserver_macos''
      else if platform = ''c-debian'' then ''testserver_debian9-x86_64''
      else if platform = ''c-rpi'' then (if arm64 then ''testserver_raspios10-arm64'' else ''testserver_raspios10-armhf'')
      else ''testserver_ubuntu20.04-x86_64'')"

definition TestServerCpp_init :: "'w launch_ops \<Rightarrow> pyval \<Rightarrow> pyval \<Rightarrow> pyval \<Rightarrow> string \<Rightarrow> bool \<Rightarrow> ('w, ts_cpp) prov" where
  "TestServerCpp_init lo version_build host port platform community =
     bindIO (liftIO (version_build_of version_build)) (\<lambda>vb.
     bindIO (cfg (\<lambda>env. Inr (dict_has (env_vars env) ''TESTSERVER_ARM''))) (\<lambda>arm.
     let package = cpp_package arm platform; build_name = package @ ''_'' @ (if community then ''community'' else ''enterprise'') in
     bindIO (needs_environ ''TESTSERVER_HOST_USER'' []) (\<lambda>_.
     bindIO (needs_environ ''TESTSERVER_HOST_PASSWORD'' []) (\<lambda>_.
     bindIO (cfg (\<lambda>env. Inr (case dict_get (env_vars env) ''TESTSERVER_HOST'' of Some h \<Rightarrow> PStr h | None \<Rightarrow> host))) (\<lambda>test_host.
     bindIO (write_host_inventory lo test_host [] platform) (\<lambda>_.
     returnIO \<lparr>ts_version_build = version_build, ts_host = host, ts_port = port, ts_process = None, ts_logfile = NoLog, tc_platform = platform,
       tc_build_name = build_name, tc_package_name = package, tc_download_url = build_url ''couchbase-lite-c'' vb (build_name @ ''.zip''),
       tc_binary_path = binary (package @ ''.exe''), tc_test_host = test_host, tc_config = inventory_of platform\<rparr>))))))"

definition TestServerCpp_install :: "(ts_cpp, 'w, unit) meth" where
  "TestServerCpp_install = returnIO ()"

definition TestServerCpp_download :: "'w launch_ops \<Rightarrow> (ts_cpp, 'w, unit) meth" where
  "TestServerCpp_download lo =
     bindIO (self_get id) (\<lambda>ts.
     must_play lo (tc_config ts) ''download-testserver-c.yml'' (Some [sv ''testserver_download_url'' (tc_download_url ts), sv ''package_name'' (tc_build_name ts)])
       ''Failed to download Test server on remote machine'')"

text \<open>\<open>subprocess.run\<close> does not mind a program that fails.\<close>

definition run_any :: "'w launch_ops \<Rightarrow> string list \<Rightarrow> ('b, 'w, unit) meth" where
  "run_any lo cmd = tryIO (bindIO (run_out lo cmd) (\<lambda>_. returnIO ())) (\<lambda>e. if exn_class e = ''CalledProcessError'' then returnIO () else raiseIO e)"

definition kill_command :: string where
  "kill_command = ''ps -ef | grep '' @ repr_str ''testserver'' @ '' | awk '' @ repr_str ''{print $2}'' @ '' | xargs kill -9 $1''"

text \<open>The pipeline is passed as the name of a program.\<close>

definition TestServerCpp_remove :: "'w launch_ops \<Rightarrow> (ts_cpp, 'w, unit) meth" where
  "TestServerCpp_remove lo = run_any lo [''ps -ef | grep '' @ repr_str ''testserver'' @ '' | awk '' @ repr_str ''{print $2}'']"

definition kill_remote :: "'w launch_ops \<Rightarrow> pyval \<Rightarrow> string \<Rightarrow> (ts_cpp, 'w, unit) meth" where
  "kill_remote lo host platform =
     bindIO (on_world (environ ''TESTSERVER_HOST_USER'')) (\<lambda>user. bindIO (on_world (environ ''TESTSERVER_HOST_PASSWORD'')) (\<lambda>password.
     bindIO (liftIO (as_str host)) (\<lambda>h.
     bindIO (on_world (cfg (\<lambda>env. RemoteExecutor_init env (ce_user (po_cbs (ln_prov lo))) h platform (PStr user) (PStr password) None))) (\<lambda>ex.
     bindIO (outside (RemoteExecutor_execute (ce_ssh (po_cbs (ln_prov lo))) ex kill_command)) (\<lambda>_. returnIO ())))))"

definition TestServerCpp_start :: "'w launch_ops \<Rightarrow> (ts_cpp, 'w, unit) meth" where
  "TestServerCpp_start lo =
     bindIO (self_get id) (\<lambda>ts. let mac = (tc_platform ts = ''c-macosx'') in
     bindIO (if mac then run_any lo [''/bin/sh'', ''-c'', kill_command] else kill_remote lo (ts_host ts) (tc_platform ts)) (\<lambda>_.
     bindIO (play lo (tc_config ts) ''start-testserver-c-linux.yml''
       [sv ''binary_path'' (if mac then ''/Users/couchbase'' else if tc_platform ts = ''c-rpi'' then ''/home/pi'' else ''/root'')]) (\<lambda>status.
     bindIO (pause lo 15) (\<lambda>_. played status ''Failed to start TestServer on remote machine''))))"

definition TestServerCpp_verify_launched :: "'w launch_ops \<Rightarrow> (ts_cpp, 'w, bool) meth" where
  "TestServerCpp_verify_launched lo =
     bindIO (self_get id) (\<lambda>ts. bindIO (connects lo (server_url lo (ts_host ts) (ts_port ts) @ ''/'')) (\<lambda>running.
     if running then returnIO True else raiseIO (LiteServError ''Did not connected to Test server app'')))"

definition TestServerCpp_stop :: "'w launch_ops \<Rightarrow> (ts_cpp, 'w, unit) meth" where
  "TestServerCpp_stop lo = bindIO (self_get id) (\<lambda>ts. kill_remote lo (tc_test_host ts) (tc_platform ts))"

section \<open>Java\<close>

record ts_java = test_server +
  tj_platform :: string
  tj_package_name :: string
  tj_download_url :: string
  tj_core_lib :: pyval
  tj_corelib_url :: pyval
  tj_supported_libs :: pyval
  tj_build_name :: string
  tj_config :: string

text \<open>The pattern of the versions with support libraries; the dots of its last part match any character.\<close>

definition digit29 :: "char \<Rightarrow> bool" where
  "digit29 c \<longleftrightarrow> c \<in> set ''23456789''"

fun has_supportlibs :: "string \<Rightarrow> bool" where
  "has_supportlibs (a # b # c # d # e # s) \<longleftrightarrow> a \<in> set ''456789'' \<or> a = CHR ''3'' \<and> b = CHR ''.'' \<and> digit29 c \<or>
     a = CHR ''3'' \<and> b \<noteq> CHR 0x0A \<and> c = CHR ''1'' \<and> d \<noteq> CHR 0x0A \<and> digit29 e"
| "has_supportlibs (a # b # c # s) \<longleftrightarrow> a \<in> set ''456789'' \<or> a = CHR ''3'' \<and> b = CHR ''.'' \<and> digit29 c"
| "has_supportlibs (a # s) \<longleftrightarrow> a \<in> set ''456789''"
| "has_supportlibs [] \<longleftrightarrow> False"

definition java_core_lib :: "string \<Rightarrow> bool \<Rightarrow> string \<times> string option \<Rightarrow> pyval" where
  "java_core_lib version_build community vb = (case vb of
       (version, None) \<Rightarrow> PNone
     | (version, Some _) \<Rightarrow> PStr
         (if has_supportlibs version then ''couchbase-lite-java-linux-supportlibs-'' @ version_build
          else if community then ''couchbase-lite-java-'' @ version else ''couchbase-lite-java-enterprise-'' @ version))"

definition write_java_inventory :: "'w launch_ops \<Rightarrow> pyval \<Rightarrow> string list \<Rightarrow> string \<Rightarrow> bool \<Rightarrow> ('w, unit) prov" where
  "write_java_inventory lo host further platform windows =
     (if windows then write_windows_inventory lo host ''5985'' (inventory_of platform) else write_host_inventory lo host further platform)"

definition TestServerJava_init :: "'w launch_ops \<Rightarrow> pyval \<Rightarrow> pyval \<Rightarrow> pyval \<Rightarrow> string \<Rightarrow> bool \<Rightarrow> ('w, ts_java) prov" where
  "TestServerJava_init lo version_build host port platform community =
     bindIO (liftIO (str_attr version_build ''split'')) (\<lambda>v. let vb = version_and_build v in
     let package = ''CBLTestServer-Java-Desktop-'' @ v @ (if community then ''-community'' else ''-enterprise''); core = java_core_lib v community vb in
     bindIO (write_java_inventory lo host [] platform (platform = ''java-msft'')) (\<lambda>_.
     returnIO \<lparr>ts_version_build = version_build, ts_host = host, ts_port = port, ts_process = None, ts_logfile = NoLog, tj_platform = platform,
       tj_package_name = package, tj_download_url = build_url ''couchbase-lite-java'' vb (package @ ''.zip''), tj_core_lib = core,
       tj_corelib_url = (case core of PStr c \<Rightarrow> PStr (build_url ''couchbase-lite-java'' vb (c @ ''.zip'')) | _ \<Rightarrow> PNone), tj_supported_libs = PNone,
       tj_build_name = (if community then ''TestServer-java-community-'' else ''TestServer-java-'') @ v, tj_config = inventory_of platform\<rparr>))"

definition TestServerJava_download :: "'w launch_ops \<Rightarrow> (ts_java, 'w, unit) meth" where
  "TestServerJava_download lo =
     bindIO (self_get id) (\<lambda>ts.
     must_play lo (tj_config ts)
       (if tj_platform ts = ''java-msft'' then ''download-testserver-java-desktop-msft.yml'' else ''download-testserver-java-desktop.yml'')
       (Some ([sv ''download_url'' (tj_download_url ts), (''cblite_download_url'', tj_corelib_url ts), (''core_package_name'', tj_core_lib ts),
          sv ''package_name'' (tj_package_name ts)] @ (if tj_platform ts = ''java-msft'' then [sv ''build_name'' (tj_build_name ts)] else [])))
       ''Failed to download Test server on remote machine'')"

definition TestServerJava_install :: "'w launch_ops \<Rightarrow> (ts_java, 'w, unit) meth" where
  "TestServerJava_install lo =
     bindIO (self_get id) (\<lambda>ts.
     if tj_platform ts = ''java-msft'' then
       bindIO (on_world (environ ''LITESERV_MSFT_HOST_USER'')) (\<lambda>user. bindIO (on_world (environ ''LITESERV_MSFT_HOST_PASSWORD'')) (\<lambda>password.
       must_play lo (tj_config ts) ''install-testserver-java-desktop-msft.yml'' (Some [sv ''package_name'' (tj_package_name ts),
         sv ''build_name'' (tj_build_name ts), sv ''service_user'' user, sv ''service_pwd'' password]) ''Failed to install Test server on remote machine''))
     else returnIO ())"

definition java_homes :: "(ts_java, 'w, vars) meth" where
  "java_homes = bindIO (on_world (environ ''JAVA_HOME'')) (\<lambda>java. bindIO (on_world (environ ''JSVC_HOME'')) (\<lambda>jsvc.
     returnIO [sv ''java_home'' java, sv ''jsvc_home'' jsvc]))"

definition TestServerJava_start :: "'w launch_ops \<Rightarrow> (ts_java, 'w, unit) meth" where
  "TestServerJava_start lo =
     bindIO (self_get id) (\<lambda>ts. let msg = ''Failed to install Test server on remote machine'' in
     if tj_platform ts = ''java-msft'' then must_play lo (tj_config ts) ''manage-testserver-java-desktop-msft.yml'' (Some [sv ''service_status'' ''started'']) msg
     else bindIO java_homes (\<lambda>homes.
       must_play lo (tj_config ts)
         (if tj_platform ts = ''java-macosx'' then ''install-testserver-java-desktop-macos.yml'' else ''install-testserver-java-desktop.yml'')
         (Some (sv ''package_name'' (tj_package_name ts) # homes)) msg))"

definition TestServerJava_stop :: "'w launch_ops \<Rightarrow> (ts_java, 'w, unit) meth" where
  "TestServerJava_stop lo =
     bindIO (self_get id) (\<lambda>ts. let msg = ''Failed to stop TestServer service on remote machine'' in
     if tj_platform ts = ''java-msft'' then must_play lo (tj_config ts) ''manage-testserver-java-desktop-msft.yml'' (Some [sv ''service_status'' ''stopped'']) msg
     else bindIO java_homes (\<lambda>homes.
       must_play lo (tj_config ts)
         (if tj_platform ts = ''java-macosx'' then ''manage-testserver-java-desktop-macos.yml'' else ''manage-testserver-java-desktop.yml'')
         (Some ([sv ''service_status'' ''stop'', sv ''package_name'' (tj_package_name ts)] @ homes)) msg))"

definition TestServerJava_remove :: "(ts_java, 'w, unit) meth" where
  "TestServerJava_remove = not_implemented"

definition TestServerJava_verify_launched :: "(ts_java, 'w, unit) meth" where
  "TestServerJava_verify_launched = not_implemented"

section \<open>Java web service\<close>

text \<open>The address of the library of a release names the missing build.\<close>

definition ws_core_lib :: "bool \<Rightarrow> string \<times> string option \<Rightarrow> string" where
  "ws_core_lib community vb = ''couchbase-lite-java-'' @ (if community then [] else ''ee-'') @ fst vb @
     (case snd vb of None \<Rightarrow> [] | Some b \<Rightarrow> ''-'' @ b) @ ''-release''"

definition ws_urls :: "string \<Rightarrow> bool \<Rightarrow> string \<times> string option \<Rightarrow> string \<times> string \<times> string \<times> string" where
  "ws_urls version_build community vb =
     (let build_type = (if community then ''community'' else ''enterprise''); core = ws_core_lib community vb in
      case vb of
        (version, None) \<Rightarrow>
          let package = ''CBLTestServer-Java-WS-'' @ build_type @ ''-'' @ version in
          (package, build_url ''couchbase-lite-java'' vb (package @ ''.war''),
           RELEASED_BUILDS @ ''/couchbase-lite-java/'' @ version_build @ ''/couchbase-lite-java-linux-supportlibs-'' @ version_build @ ''.zip'',
           RELEASED_BUILDS @ ''/couchbase-lite-java/'' @ version @ ''/None/'' @ core @ ''.zip'')
      | (version, Some build) \<Rightarrow>
          let package = ''CBLTestServer-Java-WS-'' @ version_build @ ''-'' @ build_type in
          (package, build_url ''couchbase-lite-java'' vb (package @ ''.war''),
           build_url ''couchbase-lite-java'' vb (''couchbase-lite-java-linux-supportlibs-'' @ version @ ''-'' @ build @ ''.zip''),
           build_url ''couchbase-lite-java'' vb (core @ ''.jar'')))"

definition TestServerJavaWS_init :: "'w launch_ops \<Rightarrow> pyval \<Rightarrow> pyval \<Rightarrow> pyval \<Rightarrow> string \<Rightarrow> bool \<Rightarrow> ('w, ts_java) prov" where
  "TestServerJavaWS_init lo version_build host port platform community =
     bindIO (liftIO (str_attr version_build ''split'')) (\<lambda>v. let vb = version_and_build v in
     case ws_urls v community vb of (package, url, libs, core_url) \<Rightarrow>
     bindIO (write_java_inventory lo host [''ansible_ssh_common_args: '' @ repr_str ''-o UserKnownHostsFile=/dev/null''] platform (platform = ''javaws-msft'')) (\<lambda>_.
     returnIO \<lparr>ts_version_build = version_build, ts_host = host, ts_port = port, ts_process = None, ts_logfile = NoLog, tj_platform = platform,
       tj_package_name = package, tj_download_url = url, tj_core_lib = PStr (ws_core_lib community vb), tj_corelib_url = PStr core_url, tj_supported_libs = PStr libs,
       tj_build_name = ''TestServer-java-WS-'' @ (if community then ''community'' else ''enterprise'') @ ''-'' @ v, tj_config = inventory_of platform\<rparr>))"

definition TestServerJavaWS_download :: "'w launch_ops \<Rightarrow> (ts_java, 'w, unit) meth" where
  "TestServerJavaWS_download lo =
     bindIO (self_get id) (\<lambda>ts.
     must_play lo (tj_config ts) (if tj_platform ts = ''javaws-msft'' then ''download-testserver-java-ws-msft.yml'' else ''download-testserver-java-ws.yml'')
       (Some [sv ''testserver_download_url'' (tj_download_url ts), (''cblite_download_url'', tj_corelib_url ts), sv ''war_package_name'' (tj_package_name ts),
         (''core_package_name'', tj_core_lib ts),
         (if tj_platform ts = ''javaws-msft'' then sv ''build_name'' (tj_build_name ts) else (''supported_libs_url'', tj_supported_libs ts))])
       ''Failed to download Test server on remote machine'')"

definition tomcat :: "ts_java \<Rightarrow> (ts_java, 'w, vars) meth" where
  "tomcat ts = (if tj_platform ts = ''javaws-msft'' then returnIO []
     else bindIO (on_world (environ ''CATALINA_BASE'')) (\<lambda>b. returnIO [sv ''catalina_base'' b]))"

definition ws_playbook :: "ts_java \<Rightarrow> string \<Rightarrow> string" where
  "ws_playbook ts task = task @ ''-testserver-java-ws'' @
     (if tj_platform ts = ''javaws-msft'' then ''-msft'' else if tj_platform ts = ''javaws-macosx'' then ''-macos'' else []) @ ''.yml''"

definition TestServerJavaWS_install :: "'w launch_ops \<Rightarrow> (ts_java, 'w, unit) meth" where
  "TestServerJavaWS_install lo =
     bindIO (self_get id) (\<lambda>ts. bindIO (tomcat ts) (\<lambda>base.
     must_play lo (tj_config ts) (ws_playbook ts ''install'')
       (Some ([sv ''war_package_name'' (tj_package_name ts), (''core_package_name'', tj_core_lib ts)] @
         (if tj_platform ts = ''javaws-msft'' then [sv ''build_name'' (tj_build_name ts)] else base))) ''Failed to install Test server on remote machine''))"

definition ws_status :: "ts_java \<Rightarrow> string \<Rightarrow> string \<Rightarrow> vars" where
  "ws_status ts windows other = [sv ''service_status'' (if tj_platform ts = ''javaws-msft'' then windows else other)]"

definition TestServerJavaWS_start :: "'w launch_ops \<Rightarrow> (ts_java, 'w, unit) meth" where
  "TestServerJavaWS_start lo =
     bindIO (self_get id) (\<lambda>ts. bindIO (tomcat ts) (\<lambda>base.
     bindIO (play lo (tj_config ts) (ws_playbook ts ''manage'') (ws_status ts ''started'' ''start'' @ base)) (\<lambda>status.
     bindIO (pause lo 15) (\<lambda>_. played status ''Failed to start Tomcat on remote machine''))))"

definition TestServerJavaWS_stop :: "'w launch_ops \<Rightarrow> (ts_java, 'w, unit) meth" where
  "TestServerJavaWS_stop lo =
     bindIO (self_get id) (\<lambda>ts. bindIO (tomcat ts) (\<lambda>base.
     must_play lo (tj_config ts) (ws_playbook ts ''manage'') (Some (ws_status ts ''stopped'' ''stop'' @ base)) ''Failed to stop Tomcat on remote machine''))"

definition TestServerJavaWS_remove :: "(ts_java, 'w, unit) meth" where
  "TestServerJavaWS_remove = not_implemented"

definition TestServerJavaWS_verify_launched :: "(ts_java, 'w, unit) meth" where
  "TestServerJavaWS_verify_launched = not_implemented"

section \<open>Windows\<close>

record ts_win = test_server +
  tw_platform :: string
  tw_build_name :: string
  tw_binary_path :: string
  tw_stop_path :: "string option"
  tw_package_name :: string
  tw_download_url :: string
  tw_config :: string

text \<open>The name of the build, the program, the program that stops it, the package and the repository.\<close>

definition win_names :: "string \<Rightarrow> bool \<Rightarrow> string \<Rightarrow> string \<times> string \<times> string option \<times> string \<times> string" where
  "win_names v community platform =
     (let script = (\<lambda>d s. d @ ''-'' @ v @ [chr_bslash] @ s) in
      if platform = ''c-msft'' then
        let tag = (if community then ''testserver_windesktop-x86_64_community'' else ''testserver_windesktop-x86_64_enterprise'') in
        (tag @ ''-'' @ v, script tag ''testserver.exe'', None, tag @ ''.zip'', ''couchbase-lite-c'')
      else if platform = ''c-uwp'' then
        (''TestServer-C-UWP-'' @ v, script ''TestServer-C-UWP'' ''run.ps1'', Some (script ''TestServer-C-UWP'' ''stop.ps1''), ''TestServer.C.UWP.zip'', ''couchbase-lite-c'')
      else if platform = ''net-msft'' then
        let d = (if community then ''TestServer-Net-community'' else ''TestServer-Net'') in
        (d @ ''-'' @ v, script d ''TestServer.NetCore.dll'', None, if community then ''TestServer.NetCore-community.zip'' else ''TestServer.NetCore.zip'', ''couchbase-lite-net'')
      else if platform = ''maui-winui'' then
        (''TestServer-Maui-WinUI-'' @ v, script ''TestServer-Maui-WinUI'' ''run.ps1'', Some (script ''TestServer-Maui-WinUI'' ''stop.ps1''), ''TestServer.Maui.WinUI.zip'', ''couchbase-lite-net'')
      else
        (''TestServer-UWP-'' @ v, script ''TestServer-UWP'' ''run.ps1'', Some (script ''TestServer-UWP'' ''stop.ps1''), ''TestServer.UWP.zip'', ''couchbase-lite-net''))"

definition TestServerWinBase_init :: "'w launch_ops \<Rightarrow> pyval \<Rightarrow> pyval \<Rightarrow> ('w, string \<times> string \<times> string option) prov" where
  "TestServerWinBase_init lo version_build host =
     bindIO (write_windows_inventory lo host ''5985'' (inventory_of ''net-msft'')) (\<lambda>_.
     bindIO (liftIO (str_attr version_build ''split'')) (\<lambda>v. returnIO (v, version_and_build v)))"

definition TestServerNetMsft_init :: "'w launch_ops \<Rightarrow> pyval \<Rightarrow> pyval \<Rightarrow> pyval \<Rightarrow> bool \<Rightarrow> string \<Rightarrow> ('w, ts_win) prov" where
  "TestServerNetMsft_init lo version_build host port community platform =
     bindIO (TestServerWinBase_init lo version_build host) (\<lambda>(v, vb).
     if \<not> str_less ''2.1.0'' v then
       raiseIO (Exn ''Exception'' ''No .net based app available to download for 2.1.0 or below at latestbuild. Use nuget package to create app.'')
     else case win_names v community platform of (build_name, run, stop, package, source) \<Rightarrow>
       returnIO \<lparr>ts_version_build = version_build, ts_host = host, ts_port = port, ts_process = None, ts_logfile = NoLog, tw_platform = platform,
         tw_build_name = build_name, tw_binary_path = run, tw_stop_path = stop, tw_package_name = package,
         tw_download_url = build_url source vb package, tw_config = inventory_of ''net-msft''\<rparr>)"

text \<open>A new version does not change the names.\<close>

definition TestServerNetMsft_download :: "'w launch_ops \<Rightarrow> pyval \<Rightarrow> (ts_win, 'w, unit) meth" where
  "TestServerNetMsft_download lo version_build =
     bindIO (new_version version_build) (\<lambda>_. bindIO (self_get id) (\<lambda>ts.
     must_play lo (tw_config ts) ''download-testserver-msft.yml'' (Some [sv ''download_url'' (tw_download_url ts), sv ''package_name'' (tw_package_name ts),
       sv ''build_name'' (tw_build_name ts)]) ''Failed to download Test server on remote machine''))"

definition TestServerNetMsft_install :: "(ts_win, 'w, unit) meth" where
  "TestServerNetMsft_install = returnIO ()"

definition TestServerNetMsft_remove :: "(ts_win, 'w, unit) meth" where
  "TestServerNetMsft_remove = returnIO ()"

definition TestServerNetMsft_start :: "'w launch_ops \<Rightarrow> string \<Rightarrow> (ts_win, 'w, unit) meth" where
  "TestServerNetMsft_start lo logfile_name =
     bindIO (self_get id) (\<lambda>ts.
     bindIO (if tw_platform ts \<in> {''net-msft'', ''c-msft''} then self_set (\<lambda>ts. ts\<lparr>ts_logfile := LogName logfile_name\<rparr>) else returnIO ()) (\<lambda>_.
     bindIO (must_play lo (tw_config ts)
       (if tw_platform ts = ''net-msft'' then ''start-testserver-msft.yml'' else if tw_platform ts = ''c-msft'' then ''start-testserver-c-msft.yml''
        else if tw_platform ts = ''maui-winui'' then ''start-testserver-maui-winui.yml'' else ''start-testserver-uwp.yml'')
       (Some (sv ''binary_path'' (tw_binary_path ts) # (if tw_platform ts = ''net-msft'' then [(''version_build'', ts_version_build ts)] else [])))
       ''Could not start testserver'') (\<lambda>_.
     pause lo 15)))"

definition TestServerNetMsft_verify_launched :: "'w launch_ops \<Rightarrow> (ts_win, 'w, unit) meth" where
  "TestServerNetMsft_verify_launched lo = bindIO (TestServerBase_wait_until_reachable lo PNone) (\<lambda>_. returnIO ())"

definition log_text :: "logfile \<Rightarrow> string" where
  "log_text l = (case l of LogName f \<Rightarrow> f | NoLog \<Rightarrow> ''None'' | LogHandle h \<Rightarrow> nat_str h)"

definition TestServerNetMsft_stop :: "'w launch_ops \<Rightarrow> (ts_win, 'w, unit) meth" where
  "TestServerNetMsft_stop lo =
     bindIO (self_get id) (\<lambda>ts. let msg = ''Could not stop TestServer'' in
     if tw_platform ts = ''net-msft'' then
       must_play lo (tw_config ts) ''stop-testserver-windows.yml'' (Some [sv ''log_full_path'' (po_cwd (ln_prov lo) @ ''/'' @ log_text (ts_logfile ts))]) msg
     else if tw_platform ts = ''c-msft'' then must_play lo (tw_config ts) ''stop-testserver-c-windows.yml'' None msg
     else bindIO (liftIO (attr ''TestServerNetMsft'' ''stop_binary_path'' (tw_stop_path ts))) (\<lambda>p.
       must_play lo (tw_config ts) (if tw_platform ts = ''maui-winui'' then ''stop-testserver-maui-winui.yml'' else ''stop-testserver-uwp.yml'')
         (Some [sv ''binary_path'' p]) msg))"

end
