(* ===== verification/Lite_Serv.thy ===== *)
theory Lite_Serv
  imports Test_Remote
begin

text \<open>
  LiteServ on a desktop: \<open>keywords/LiteServMacOSX.py\<close>, \<open>LiteServNetMono.py\<close> and \<open>LiteServNetMsft.py\<close>, and
  \<open>TestServerNetMono.py\<close>, which repeats the code of \<open>LiteServNetMono\<close> on the base class of the test servers. That
  class has no storage engine, so the storage engine is an attribute that may be missing.
\<close>

section \<open>The object and its storage\<close>

record lite_serv = test_server +
  ls_storage_engine :: "string option"

definition LiteServBase_init :: "pyval \<Rightarrow> pyval \<Rightarrow> pyval \<Rightarrow> string \<Rightarrow> lite_serv" where
  "LiteServBase_init version_build host port storage_engine =
     \<lparr>ts_version_build = version_build, ts_host = host, ts_port = port, ts_process = None, ts_logfile = NoLog,
      ls_storage_engine = Some storage_engine\<rparr>"

definition forest :: "string \<Rightarrow> bool" where
  "forest e \<longleftrightarrow> e = ''ForestDB'' \<or> e = ''ForestDB+Encryption''"

definition encrypted_storage :: "string \<Rightarrow> bool" where
  "encrypted_storage e \<longleftrightarrow> e = ''SQLCipher'' \<or> e = ''ForestDB+Encryption''"

definition storage_args :: "string \<Rightarrow> string list" where
  "storage_args e = [''--storage'', if forest e then ''ForestDB'' else ''SQLite''] @
     (if encrypted_storage e then concat (map (\<lambda>db. [''--dbpassword'', db @ ''=pass'']) REGISTERED_CLIENT_DBS) else [])"

definition storage_of :: "string \<Rightarrow> ('x lite_serv_scheme, 'w, string) meth" where
  "storage_of cls = bindIO (self_get ls_storage_engine) (\<lambda>e. liftIO (attr cls ''storage_engine'' e))"

definition own_url :: "'w launch_ops \<Rightarrow> ('x test_server_scheme, 'w, string) meth" where
  "own_url lo = self_get (\<lambda>ts. server_url lo (ts_host ts) (ts_port ts))"

text \<open>\<open>has_dot_net4_dot_5\<close> decides on the directory of the program.\<close>

definition net_binary :: "string \<Rightarrow> pyval \<Rightarrow> string res" where
  "net_binary flavour version_build = bindR (str_attr version_build ''startswith'') (\<lambda>v.
     Inr (''couchbase-lite-net-'' @ flavour @ ''-'' @ v @ ''-liteserv/'' @ (if has_dot_net4_dot_5 v then ''net45/'' else []) @ ''LiteServ.exe''))"

section \<open>Mac OS X\<close>

record ls_mac = lite_serv +
  lm_released :: "(string, string) dict option"

definition mac_server :: "lite_serv \<Rightarrow> ls_mac" where
  "mac_server ts = \<lparr>ts_version_build = ts_version_build ts, ts_host = ts_host ts, ts_port = ts_port ts, ts_process = ts_process ts,
     ts_logfile = ts_logfile ts, ls_storage_engine = ls_storage_engine ts, lm_released = None\<rparr>"

definition lite_released :: "(string, string) dict" where
  "lite_released = [(''1.2.0'', ''112''), (''1.2.1'', ''13''), (''1.3.0'', ''61''), (''1.3.1'', ''6''), (''1.4.0'', ''3'')]"

text \<open>The number of a build; for a release it is looked up in the table that \<open>download\<close> assigns.\<close>

definition mac_build :: "ls_mac \<Rightarrow> string \<times> string option \<Rightarrow> string res" where
  "mac_build ts vb = (case snd vb of Some b \<Rightarrow> Inr b
     | None \<Rightarrow> bindR (attr ''LiteServMacOSX'' ''released_version'' (lm_released ts)) (\<lambda>r. dict_index r (fst vb)))"

definition mac_directory :: "py_runtime \<Rightarrow> ls_mac \<Rightarrow> string \<times> string option \<Rightarrow> string res" where
  "mac_directory rt ts vb = bindR (mac_build ts vb) (\<lambda>b.
     Inr (''couchbase-lite-macosx-enterprise_'' @ (if snd vb = None then fst vb @ ''-'' @ b else py_str rt (ts_version_build ts))))"

definition mac_url :: "string \<times> string option \<Rightarrow> string \<Rightarrow> string" where
  "mac_url vb package = (case vb of
       (version, None) \<Rightarrow> RELEASED_BUILDS @ ''/'' @ version @ ''/couchbase-lite/macosx/'' @ package
     | (version, Some build) \<Rightarrow> LATEST_BUILDS @ ''/couchbase-lite-ios/'' @ version @ ''/ios/'' @ build @ ''/'' @ package)"

definition LiteServMacOSX_download :: "'w launch_ops \<Rightarrow> pyval \<Rightarrow> (ls_mac, 'w, unit) meth" where
  "LiteServMacOSX_download lo version_build =
     bindIO (self_set (\<lambda>ts. ts\<lparr>lm_released := Some lite_released\<rparr>)) (\<lambda>_.
     bindIO (new_version version_build) (\<lambda>_.
     bindIO (self_get id) (\<lambda>ts.
     bindIO (liftIO (version_build_of (ts_version_build ts))) (\<lambda>vb.
     bindIO (liftIO (mac_directory (ln_rt lo) ts vb)) (\<lambda>directory.
     bindIO (outside (ln_isfile lo (binary (''couchbase-lite-macosx-enterprise_'' @ py_str (ln_rt lo) (ts_version_build ts) @ ''/LiteServ'')))) (\<lambda>found.
     if found then returnIO ()
     else bindIO (fetch_zip lo (mac_url vb (directory @ ''.zip'')) (binary (directory @ ''.zip''))) (\<lambda>_.
       outside (ln_executable lo (binary (directory @ ''/LiteServ''))))))))))"

definition LiteServMacOSX_install :: "(ls_mac, 'w, unit) meth" where
  "LiteServMacOSX_install = returnIO ()"

definition LiteServMacOSX_remove :: "(ls_mac, 'w, unit) meth" where
  "LiteServMacOSX_remove = returnIO ()"

definition LiteServMacOSX_verify_launched :: "'w launch_ops \<Rightarrow> (ls_mac, 'w, unit) meth" where
  "LiteServMacOSX_verify_launched lo =
     bindIO (LiteServBase_wait_until_reachable lo PNone) (\<lambda>resp_obj.
     bindIO (self_get id) (\<lambda>ts.
     liftIO (objc_version (ln_rt lo) resp_obj (bindR (version_build_of (ts_version_build ts)) (\<lambda>vb. bindR (mac_build ts vb) (\<lambda>b.
       Inr (fst vb @ '' (build '' @ b @ '')'')))))))"

definition mac_args :: "py_runtime \<Rightarrow> pyval \<Rightarrow> string list" where
  "mac_args rt port = [''-Log'', ''YES'', ''-LogSync'', ''YES'', ''-LogSyncVerbose'', ''YES'', ''-LogRouter'', ''YES'', ''-LogRemoteRequest'', ''YES'',
     ''--port'', py_str rt port, ''--dir'', RESULTS_DIR @ ''/dbs/macosx/'']"

definition LiteServMacOSX_start :: "'w launch_ops \<Rightarrow> string \<Rightarrow> (ls_mac, 'w, string) meth" where
  "LiteServMacOSX_start lo logfile_name =
     bindIO (LiteServBase_verify_not_running lo) (\<lambda>_.
     bindIO (self_get id) (\<lambda>ts.
     bindIO (liftIO (bindR (version_build_of (ts_version_build ts)) (mac_directory (ln_rt lo) ts))) (\<lambda>directory.
     bindIO (storage_of ''LiteServMacOSX'') (\<lambda>engine.
     bindIO (launch_logged lo logfile_name ''w'' (binary (directory @ ''/LiteServ'') # mac_args (ln_rt lo) (ts_port ts) @ storage_args engine)) (\<lambda>_.
     bindIO (LiteServMacOSX_verify_launched lo) (\<lambda>_. own_url lo))))))"

definition stop_process :: "'w launch_ops \<Rightarrow> ('x test_server_scheme, 'w, unit) meth" where
  "stop_process lo =
     bindIO (self_get id) (\<lambda>ts.
     bindIO (close_log lo (ts_logfile ts)) (\<lambda>_.
     bindIO (end_process lo (ts_process ts)) (\<lambda>_. TestServerBase_verify_not_running lo)))"

definition LiteServMacOSX_stop :: "'w launch_ops \<Rightarrow> (ls_mac, 'w, unit) meth" where
  "LiteServMacOSX_stop lo = stop_process lo"

section \<open>.NET\<close>

text \<open>The version of a running program: two of the fields of its text.\<close>

definition net_version :: "nat \<Rightarrow> string \<Rightarrow> string res" where
  "net_version n running = (let parts = split_any (set '' /-'') running in
     bindR (list_item parts n) (\<lambda>version.
     bindR (list_item parts (n + 1)) (\<lambda>b.
     bindR (py_int_of (strip_chars ''build'' b)) (\<lambda>build.
     Inr (version @ ''-'' @ int_str build)))))"

definition verify_net :: "py_runtime \<Rightarrow> string \<Rightarrow> (string \<Rightarrow> string) \<Rightarrow> nat \<Rightarrow> pyval \<Rightarrow> pyval \<Rightarrow> unit res" where
  "verify_net rt start invalid n resp_obj version_build =
     bindR (py_item2 resp_obj ''vendor'' ''version'') (\<lambda>v.
     bindR (str_attr v ''startswith'') (\<lambda>running.
     if \<not> startswith running start then Inl (LiteServError (invalid running))
     else bindR (net_version n running) (\<lambda>actual.
     if version_build \<noteq> PStr actual then
       Inl (LiteServError (''Expected version does not match actual version: Expected='' @ py_str rt version_build @ ''  Actual='' @ actual))
     else Inr ())))"

text \<open>Mono, for both classes: how they wait for the program differs.\<close>

definition mono_download :: "'w launch_ops \<Rightarrow> pyval \<Rightarrow> ('x test_server_scheme, 'w, unit) meth" where
  "mono_download lo version_build =
     bindIO (new_version version_build) (\<lambda>_.
     bindIO (self_get ts_version_build) (\<lambda>v.
     bindIO (liftIO (net_binary ''mono'' v)) (\<lambda>program.
     bindIO (outside (ln_isfile lo (binary program))) (\<lambda>found.
     if found then returnIO ()
     else bindIO (liftIO (version_build_of v)) (\<lambda>(version, build).
       let directory = ''couchbase-lite-net-mono-'' @ py_str (ln_rt lo) v @ ''-liteserv'' in
       bindIO (fetch_zip lo (LATEST_BUILDS @ ''/couchbase-lite-net/'' @ version @ ''/'' @ opt_text build @ ''/LiteServ.zip'') (binary (directory @ ''.zip''))) (\<lambda>_.
       if startswith version ''1.2'' \<or> startswith version ''1.3'' then
         bindIO (outside (ln_rmtree lo (binary (directory @ ''/x64'')))) (\<lambda>_. outside (ln_rmtree lo (binary (directory @ ''/x86''))))
       else returnIO ()))))))"

definition mono_verify :: "'w launch_ops \<Rightarrow> ('x test_server_scheme, 'w, pyval) meth \<Rightarrow> ('x test_server_scheme, 'w, unit) meth" where
  "mono_verify lo reach =
     bindIO reach (\<lambda>resp_obj. bindIO (self_get ts_version_build) (\<lambda>v.
     liftIO (verify_net (ln_rt lo) ''.NET OS X'' (\<lambda>running. ''Invalid platform running: '' @ running @ ''!'') 5 resp_obj v)))"

definition mono_start :: "'w launch_ops \<Rightarrow> string \<Rightarrow> (lite_serv, 'w, pyval) meth \<Rightarrow> string \<Rightarrow> (lite_serv, 'w, string) meth" where
  "mono_start lo cls reach logfile_name =
     bindIO (TestServerBase_verify_not_running lo) (\<lambda>_.
     bindIO (self_get id) (\<lambda>ts.
     bindIO (liftIO (net_binary ''mono'' (ts_version_build ts))) (\<lambda>program.
     bindIO (storage_of cls) (\<lambda>engine.
     bindIO (launch_logged lo logfile_name ''w'' ([''mono'', binary program, ''--port'', py_str (ln_rt lo) (ts_port ts), ''--dir'', RESULTS_DIR @ ''/dbs/net-mono/''] @
       storage_args engine)) (\<lambda>_.
     bindIO (mono_verify lo reach) (\<lambda>_. own_url lo))))))"

definition TestServerNetMono_init :: "pyval \<Rightarrow> pyval \<Rightarrow> pyval \<Rightarrow> lite_serv" where
  "TestServerNetMono_init version_build host port = LiteServBase_init version_build host port [] \<lparr>ls_storage_engine := None\<rparr>"

definition TestServerNetMono_download :: "'w launch_ops \<Rightarrow> pyval \<Rightarrow> (lite_serv, 'w, unit) meth" where
  "TestServerNetMono_download lo version_build = mono_download lo version_build"

definition TestServerNetMono_install :: "(lite_serv, 'w, unit) meth" where
  "TestServerNetMono_install = returnIO ()"

definition TestServerNetMono_remove :: "(lite_serv, 'w, unit) meth" where
  "TestServerNetMono_remove = returnIO ()"

definition TestServerNetMono_verify_launched :: "'w launch_ops \<Rightarrow> (lite_serv, 'w, unit) meth" where
  "TestServerNetMono_verify_launched lo = mono_verify lo (TestServerBase_wait_until_reachable lo PNone)"

definition TestServerNetMono_start :: "'w launch_ops \<Rightarrow> string \<Rightarrow> (lite_serv, 'w, string) meth" where
  "TestServerNetMono_start lo logfile_name = mono_start lo ''TestServerNetMono'' (TestServerBase_wait_until_reachable lo PNone) logfile_name"

definition TestServerNetMono_stop :: "'w launch_ops \<Rightarrow> (lite_serv, 'w, unit) meth" where
  "TestServerNetMono_stop lo = stop_process lo"

definition LiteServNetMono_download :: "'w launch_ops \<Rightarrow> pyval \<Rightarrow> (lite_serv, 'w, unit) meth" where
  "LiteServNetMono_download lo version_build = mono_download lo version_build"

definition LiteServNetMono_install :: "(lite_serv, 'w, unit) meth" where
  "LiteServNetMono_install = returnIO ()"

definition LiteServNetMono_remove :: "(lite_serv, 'w, unit) meth" where
  "LiteServNetMono_remove = returnIO ()"

definition LiteServNetMono_verify_launched :: "'w launch_ops \<Rightarrow> (lite_serv, 'w, unit) meth" where
  "LiteServNetMono_verify_launched lo = mono_verify lo (LiteServBase_wait_until_reachable lo PNone)"

definition LiteServNetMono_start :: "'w launch_ops \<Rightarrow> string \<Rightarrow> (lite_serv, 'w, string) meth" where
  "LiteServNetMono_start lo logfile_name = mono_start lo ''LiteServNetMono'' (LiteServBase_wait_until_reachable lo PNone) logfile_name"

definition LiteServNetMono_stop :: "'w launch_ops \<Rightarrow> (lite_serv, 'w, unit) meth" where
  "LiteServNetMono_stop lo = stop_process lo"

section \<open>.NET on Windows\<close>

abbreviation msft_config :: string where
  "msft_config \<equiv> inventory_of ''net-msft''"

definition LiteServNetMsft_init :: "'w launch_ops \<Rightarrow> pyval \<Rightarrow> pyval \<Rightarrow> pyval \<Rightarrow> string \<Rightarrow> ('w, lite_serv) prov" where
  "LiteServNetMsft_init lo version_build host port storage_engine =
     bindIO (write_windows_inventory lo host ''5986'' msft_config) (\<lambda>_. returnIO (LiteServBase_init version_build host port storage_engine))"

definition msft_url :: "string \<times> string option \<Rightarrow> string res" where
  "msft_url vb = (case vb of (version, build) \<Rightarrow>
     if \<not> given build then
       if str_less version ''2.0'' then
         Inr (RELEASED_BUILDS @ ''/'' @ version @ (if version = ''1.4.0.1'' then ''/couchbase-lite-net/LiteServ.zip'' else ''/couchbase-lite/net/LiteServ.zip''))
       else Inl (Exn ''Exception'' ''Test not valid for Mobile 2.0 onwards'')
     else Inr (LATEST_BUILDS @ ''/couchbase-lite-net/'' @ version @ ''/'' @ opt_text build @ ''/LiteServ.zip''))"

definition LiteServNetMsft_download :: "'w launch_ops \<Rightarrow> pyval \<Rightarrow> (lite_serv, 'w, unit) meth" where
  "LiteServNetMsft_download lo version_build =
     bindIO (new_version version_build) (\<lambda>_.
     bindIO (self_get ts_version_build) (\<lambda>v.
     bindIO (liftIO (bindR (version_build_of v) msft_url)) (\<lambda>url.
     must_play lo msft_config ''download-liteserv-msft.yml''
       (Some [sv ''download_url'' url, sv ''package_name'' (''couchbase-lite-net-msft-'' @ py_str (ln_rt lo) v @ ''-liteserv'')])
       ''Failed to download LiteServ package on remote machine'')))"

definition msft_binary :: "(lite_serv, 'w, string) meth" where
  "msft_binary = bindIO (self_get ts_version_build) (\<lambda>v. liftIO (net_binary ''msft'' v))"

definition LiteServNetMsft_install :: "'w launch_ops \<Rightarrow> (lite_serv, 'w, unit) meth" where
  "LiteServNetMsft_install lo = bindIO msft_binary (\<lambda>directory_path.
     must_play lo msft_config ''install-liteserv-windows.yml'' (Some [sv ''directory_path'' directory_path]) ''Failed to install Liteserv on Windows host'')"

definition LiteServNetMsft_remove :: "'w launch_ops \<Rightarrow> (lite_serv, 'w, unit) meth" where
  "LiteServNetMsft_remove lo = must_play lo msft_config ''remove-liteserv-msft.yml'' None ''Failed to install Liteserv on Windows host''"

definition LiteServNetMsft_verify_launched :: "'w launch_ops \<Rightarrow> (lite_serv, 'w, unit) meth" where
  "LiteServNetMsft_verify_launched lo =
     bindIO (LiteServBase_wait_until_reachable lo PNone) (\<lambda>resp_obj. bindIO (self_get ts_version_build) (\<lambda>v.
     liftIO (verify_net (ln_rt lo) ''.NET Microsoft Windows'' (\<lambda>_. ''Invalid platform running!'') 6 resp_obj v)))"

definition LiteServNetMsft_start :: "'w launch_ops \<Rightarrow> string \<Rightarrow> (lite_serv, 'w, string) meth" where
  "LiteServNetMsft_start lo logfile_name =
     bindIO (LiteServBase_verify_not_running lo) (\<lambda>_.
     bindIO (self_set (\<lambda>ts. ts\<lparr>ts_logfile := LogName logfile_name\<rparr>)) (\<lambda>_.
     bindIO (self_get ts_port) (\<lambda>port.
     bindIO (storage_of ''LiteServNetMsft'') (\<lambda>engine.
     bindIO msft_binary (\<lambda>binary_path.
     bindIO (must_play lo msft_config ''start-liteserv-msft.yml'' (Some [sv ''binary_path'' binary_path,
       sv ''launch_args'' (join '' '' ([''--port'', py_str (ln_rt lo) port, ''--dir'', ''.''] @ storage_args engine))]) ''Could not stop Liteserv'') (\<lambda>_.
     bindIO (LiteServNetMsft_verify_launched lo) (\<lambda>_. own_url lo)))))))"

definition LiteServNetMsft_stop :: "'w launch_ops \<Rightarrow> (lite_serv, 'w, unit) meth" where
  "LiteServNetMsft_stop lo =
     bindIO msft_binary (\<lambda>binary_path.
     bindIO (self_get ts_logfile) (\<lambda>l.
     must_play lo msft_config ''stop-liteserv-windows.yml'' (Some [sv ''binary_path'' binary_path,
       sv ''log_full_path'' (po_cwd (ln_prov lo) @ ''/'' @ log_text l)]) ''Could not stop Liteserv''))"

end
