(* ===== verification/Lite_Phones.thy ===== *)
theory Lite_Phones
  imports Lite_Serv
begin

text \<open>
  LiteServ on phones: \<open>keywords/LiteServAndroid.py\<close> and \<open>LiteServiOS.py\<close>. Their code looks for texts in what programs
  write, which are bytes, and reads the attribute \<open>message\<close> of exceptions; both raise, and the model says where.
\<close>

text \<open>\<open>text in output\<close>, for the bytes that a program writes.\<close>

abbreviation in_output :: "string \<Rightarrow> string \<Rightarrow> bool res" where
  "in_output s out \<equiv> py_in_str s (PBytes out)"

text \<open>The address of a release; what is compared with 2.0 is the build, of which a release has none.\<close>

definition release_url :: "string option \<Rightarrow> string \<Rightarrow> string res" where
  "release_url build url = bindR (py_less (opt_val build) (PStr ''2.0'')) (\<lambda>old.
     if old then Inr url else Inl (Exn ''Exception'' ''Test not valid for Mobile 2.0 onwards''))"

definition db_flags :: string where
  "db_flags = join '','' (map (\<lambda>db. db @ '':pass'') REGISTERED_CLIENT_DBS)"

section \<open>Android\<close>

definition sqlite_apk :: "py_runtime \<Rightarrow> pyval \<Rightarrow> string" where
  "sqlite_apk rt v = ''couchbase-lite-android-liteserv-SQLite-'' @ py_str rt v @ ''-debug.apk''"

definition cipher_apk :: "py_runtime \<Rightarrow> pyval \<Rightarrow> string" where
  "cipher_apk rt v = ''couchbase-lite-android-liteserv-SQLCipher-ForestDB-Encryption-'' @ py_str rt v @ ''-debug.apk''"

definition engine_apk :: "'w launch_ops \<Rightarrow> (lite_serv, 'w, string) meth" where
  "engine_apk lo = bindIO (storage_of ''LiteServAndroid'') (\<lambda>engine. bindIO (self_get ts_version_build) (\<lambda>v.
     returnIO (if engine = ''SQLite'' then sqlite_apk (ln_rt lo) v else cipher_apk (ln_rt lo) v)))"

definition apk_url :: "py_runtime \<Rightarrow> pyval \<Rightarrow> string \<times> string option \<Rightarrow> string \<Rightarrow> string res" where
  "apk_url rt version_build vb package = (case vb of (version, build) \<Rightarrow>
     if version = ''1.2.1'' then Inr (LATEST_BUILDS @ ''/couchbase-lite-android/release/'' @ version @ ''/'' @ py_str rt version_build @ ''/'' @ package)
     else if \<not> given build then release_url build (RELEASED_BUILDS @ ''/'' @ version @ ''/couchbase-lite/android/'' @ package)
     else Inr (LATEST_BUILDS @ ''/couchbase-lite-android/'' @ version @ ''/'' @ opt_text build @ ''/'' @ package))"

definition LiteServAndroid_download :: "'w launch_ops \<Rightarrow> pyval \<Rightarrow> (lite_serv, 'w, unit) meth" where
  "LiteServAndroid_download lo version_build =
     bindIO (new_version version_build) (\<lambda>_.
     bindIO (self_get ts_version_build) (\<lambda>v.
     bindIO (liftIO (version_build_of v)) (\<lambda>vb.
     bindIO (if fst vb = ''1.2.1'' then returnIO (sqlite_apk (ln_rt lo) v) else engine_apk lo) (\<lambda>package.
     bindIO (outside (ln_isfile lo (binary package))) (\<lambda>found.
     if found then returnIO ()
     else bindIO (liftIO (apk_url (ln_rt lo) v vb package)) (\<lambda>url. fetch lo url (binary package)))))))"

text \<open>
  Every branch of the loop leaves it: an installation that succeeds with \<open>break\<close>, one that fails because the exception has no
  attribute \<open>message\<close>.
\<close>

definition LiteServAndroid_install :: "'w launch_ops \<Rightarrow> (lite_serv, 'w, unit) meth" where
  "LiteServAndroid_install lo =
     bindIO (engine_apk lo) (\<lambda>apk_name.
     bindIO (tryIO (run_out lo [''adb'', ''install'', ''-r'', binary apk_name])
       (\<lambda>e. raiseIO (Exn ''AttributeError'' (repr_str (exn_class e) @ '' object has no attribute '' @ repr_str ''message'')))) (\<lambda>_.
     bindIO (run_out lo [''adb'', ''shell'', ''pm'', ''list'', ''packages'']) (\<lambda>out.
     bindIO (liftIO (in_output ''com.couchbase.liteservandroid'' out)) (\<lambda>present.
     if present then returnIO () else raiseIO (LiteServError (''Failed to install package: '' @ py_str (ln_rt lo) (PBytes out)))))))"

definition LiteServAndroid_remove :: "'w launch_ops \<Rightarrow> (lite_serv, 'w, unit) meth" where
  "LiteServAndroid_remove lo =
     bindIO (run_out lo [''adb'', ''uninstall'', ''com.couchbase.liteservandroid'']) (\<lambda>out.
     if \<not> py_eq (PBytes (py_strip out)) (PStr ''Success'') then raiseIO (LiteServError ''Error. Could not remove app.'')
     else bindIO (run_out lo [''adb'', ''shell'', ''pm'', ''list'', ''packages'']) (\<lambda>out.
       bindIO (liftIO (in_output ''com.couchbase.liteservandroid'' out)) (\<lambda>present.
       if present then raiseIO (LiteServError ''Error uninstalling app!'') else returnIO ())))"

definition LiteServAndroid_verify_launched :: "'w launch_ops \<Rightarrow> (lite_serv, 'w, unit) meth" where
  "LiteServAndroid_verify_launched lo =
     bindIO (LiteServBase_wait_until_reachable lo PNone) (\<lambda>resp_obj.
     bindIO (self_get ts_version_build) (\<lambda>v.
     bindIO (liftIO (py_item resp_obj ''version'')) (\<lambda>running.
     if \<not> py_eq running v then
       raiseIO (LiteServError (''Expected version: '' @ py_str (ln_rt lo) v @ '' does not match running version: '' @ py_str (ln_rt lo) running))
     else returnIO ())))"

definition lite_activity :: "py_runtime \<Rightarrow> pyval \<Rightarrow> string \<Rightarrow> string list" where
  "lite_activity rt port engine =
     [''adb'', ''shell'', ''am'', ''start'', ''-n'', ''com.couchbase.liteservandroid/com.couchbase.liteservandroid.MainActivity'',
      ''--es'', ''username'', ''none'', ''--es'', ''password'', ''none'', ''--ei'', ''listen_port'', py_str rt port] @
     (if engine = ''SQLCipher'' then [''--es'', ''storage'', ''SQLite'', ''--es'', ''dbpassword'', db_flags]
      else if engine = ''ForestDB+Encryption'' then [''--es'', ''storage'', ''ForestDB'', ''--es'', ''dbpassword'', db_flags]
      else [''--es'', ''storage'', engine])"

definition LiteServAndroid_start :: "'w launch_ops \<Rightarrow> string \<Rightarrow> (lite_serv, 'w, string) meth" where
  "LiteServAndroid_start lo logfile_name =
     bindIO (LiteServBase_verify_not_running lo) (\<lambda>_.
     bindIO (run_out lo [''adb'', ''logcat'', ''-c'']) (\<lambda>_.
     bindIO (launch_logged lo logfile_name ''w'' [''adb'', ''logcat'']) (\<lambda>_.
     bindIO (storage_of ''LiteServAndroid'') (\<lambda>engine.
     bindIO (self_get ts_port) (\<lambda>port.
     bindIO (run_out lo (lite_activity (ln_rt lo) port engine)) (\<lambda>_.
     bindIO (LiteServAndroid_verify_launched lo) (\<lambda>_. own_url lo)))))))"

definition LiteServAndroid_stop :: "'w launch_ops \<Rightarrow> (lite_serv, 'w, unit) meth" where
  "LiteServAndroid_stop lo =
     bindIO (run_out lo [''adb'', ''shell'', ''am'', ''force-stop'', ''com.couchbase.liteservandroid'']) (\<lambda>_.
     bindIO (run_out lo [''adb'', ''shell'', ''pm'', ''clear'', ''com.couchbase.liteservandroid'']) (\<lambda>_.
     bindIO (LiteServBase_verify_not_running lo) (\<lambda>_.
     bindIO (self_get id) (\<lambda>ts.
     bindIO (close_log lo (ts_logfile ts)) (\<lambda>_. end_process lo (ts_process ts))))))"

definition LiteServAndroid_close_app :: "'w launch_ops \<Rightarrow> (lite_serv, 'w, unit) meth" where
  "LiteServAndroid_close_app lo = bindIO (run_out lo [''adb'', ''shell'', ''input'', ''keyevent '', ''3'']) (\<lambda>_. returnIO ())"

section \<open>iOS\<close>

record ls_ios = lite_serv +
  li_admin_url :: string
  li_logfile_name :: "string option"
  li_device_id :: "string option"
  li_device :: "string option"
  li_app_path :: "string option"

definition LiteServiOS_init :: "'w launch_ops \<Rightarrow> pyval \<Rightarrow> pyval \<Rightarrow> pyval \<Rightarrow> string \<Rightarrow> ls_ios" where
  "LiteServiOS_init lo version_build host port storage_engine =
     \<lparr>ts_version_build = version_build, ts_host = host, ts_port = port, ts_process = None, ts_logfile = NoLog,
      ls_storage_engine = Some storage_engine, li_admin_url = server_url lo host (PInt 59850), li_logfile_name = None,
      li_device_id = None, li_device = None, li_app_path = None\<rparr>"

text \<open>The directory of the app: one for SQLCipher, one for everything else.\<close>

definition ios_dir :: "(ls_ios, 'w, string) meth" where
  "ios_dir = bindIO (storage_of ''LiteServiOS'') (\<lambda>engine. returnIO (if engine = ''SQLCipher'' then ''LiteServ-iOS-SQLCipher'' else ''LiteServ-iOS''))"

definition LiteServiOS_download :: "'w launch_ops \<Rightarrow> pyval \<Rightarrow> (ls_ios, 'w, unit) meth" where
  "LiteServiOS_download lo version_build =
     bindIO (new_version version_build) (\<lambda>_.
     bindIO (self_get ts_version_build) (\<lambda>v.
     bindIO (liftIO (version_build_of v)) (\<lambda>(version, build).
     bindIO ios_dir (\<lambda>d.
     bindIO (outside (ln_isfile lo (binary (d @ ''/'' @ d @ ''.app'')))) (\<lambda>found.
     if found then returnIO ()
     else bindIO (liftIO (case build of
         None \<Rightarrow> release_url None (RELEASED_BUILDS @ ''/'' @ version @ ''/couchbase-lite/ios/'' @ d @ ''.zip'')
       | Some b \<Rightarrow> Inr (LATEST_BUILDS @ ''/couchbase-lite-ios/'' @ version @ ''/ios/'' @ b @ ''/'' @ d @ ''.zip''))) (\<lambda>url.
     fetch_zip lo url (binary (d @ ''.zip''))))))))"

definition needs_text :: "string option \<Rightarrow> ('b, 'w, string) meth" where
  "needs_text x = (case x of Some s \<Rightarrow> returnIO s | None \<Rightarrow> raiseIO (Exn ''TypeError'' ''expected str, bytes or os.PathLike object, not NoneType''))"

definition set_app :: "string \<Rightarrow> (ls_ios, 'w, string) meth" where
  "set_app tail = bindIO ios_dir (\<lambda>d. let p = binary (d @ ''/'' @ d @ tail) in
     bindIO (self_set (\<lambda>ts. ts\<lparr>li_app_path := Some p\<rparr>)) (\<lambda>_. returnIO p))"

definition LiteServiOS_open_app :: "'w launch_ops \<Rightarrow> (ls_ios, 'w, unit) meth" where
  "LiteServiOS_open_app lo =
     bindIO (self_get id) (\<lambda>ts.
     bindIO (if ts_host ts = PStr ''localhost'' then
         bindIO (liftIO (attr ''LiteServiOS'' ''device'' (li_device ts))) (\<lambda>device. bindIO (liftIO (attr ''LiteServiOS'' ''app_path'' (li_app_path ts))) (\<lambda>p.
         run_out lo [''ios-sim'', ''--devicetypeid'', device, ''launch'', p, ''--exit'']))
       else bindIO (liftIO (attr ''LiteServiOS'' ''app_path'' (li_app_path ts))) (\<lambda>p. run_out lo [''ios-deploy'', ''--justlaunch'', ''--bundle'', p])) (\<lambda>_.
     returnIO ()))"

text \<open>The directory of the source file is an argument.\<close>

definition LiteServiOS_close_app :: "'w launch_ops \<Rightarrow> string \<Rightarrow> (ls_ios, 'w, unit) meth" where
  "LiteServiOS_close_app lo cur_dir = bindIO (run_out lo [''osascript'', cur_dir @ ''/../utilities/sim_close_app.scpt'']) (\<lambda>_. returnIO ())"

definition LiteServiOS_verify_running :: "'w launch_ops \<Rightarrow> (ls_ios, 'w, bool) meth" where
  "LiteServiOS_verify_running lo = bindIO (self_get id) (\<lambda>ts. connects lo (server_url lo (ts_host ts) (ts_port ts) @ ''/''))"

definition admin_put :: "'w launch_ops \<Rightarrow> string \<Rightarrow> string option \<Rightarrow> (ls_ios, 'w, http_response) meth" where
  "admin_put lo action body = bindIO (self_get li_admin_url) (\<lambda>u.
     outside (http_send (po_http (ln_prov lo)) ((rq ''PUT'' (u @ ''/'' @ action))\<lparr>rq_data := body\<rparr>)))"

definition stop_request :: "'w launch_ops \<Rightarrow> (ls_ios, 'w, unit) meth" where
  "stop_request lo =
     bindIO (tryIO (admin_put lo ''stop'' None) (\<lambda>e.
       if exn_class e = ''ConnectionError'' then
         bindIO (LiteServiOS_open_app lo) (\<lambda>_. bindIO (LiteServBase_wait_until_reachable lo (PInt 59850)) (\<lambda>_. admin_put lo ''stop'' None))
       else raiseIO e)) (\<lambda>resp.
     liftIO (raise_for_status resp))"

text \<open>Unlike the test server, a missing log of the simulator ends the method.\<close>

definition LiteServiOS_stop :: "'w launch_ops \<Rightarrow> (ls_ios, 'w, unit) meth" where
  "LiteServiOS_stop lo =
     bindIO (LiteServiOS_verify_running lo) (\<lambda>running.
     bindIO (if running then stop_request lo else returnIO ()) (\<lambda>_.
     bindIO (self_get id) (\<lambda>ts.
     bindIO (case (li_logfile_name ts, li_device_id ts) of
         (Some l, Some d) \<Rightarrow>
           if l = [] \<or> d = [] then returnIO ()
           else bindIO (on_world (environ ''HOME'')) (\<lambda>home. outside (ln_move_log lo (home @ ''/Library/Logs/CoreSimulator/'' @ d @ ''/system.log'') l))
       | _ \<Rightarrow> returnIO ()) (\<lambda>_.
     LiteServBase_verify_not_running lo))))"

definition LiteServiOS_install_device :: "'w launch_ops \<Rightarrow> (ls_ios, 'w, unit) meth" where
  "LiteServiOS_install_device lo =
     bindIO (set_app ''-Device.app'') (\<lambda>p.
     bindIO (run_out lo [''ios-deploy'', ''--justlaunch'', ''--bundle'', p]) (\<lambda>_.
     bindIO (run_out lo [''ios-deploy'', ''--list_bundle_id'']) (\<lambda>out.
     bindIO (liftIO (in_output ''com.couchbase.LiteServ-iOS'' out)) (\<lambda>present.
     if present then LiteServiOS_stop lo else raiseIO (LiteServError ''Could not install LiteServ-iOS'')))))"

text \<open>\<open>re.sub\<close> with a pattern of text does not take bytes.\<close>

definition sub_bytes :: "'a res" where
  "sub_bytes = raise_exc ''TypeError'' ''cannot use a string pattern on a bytes-like object''"

definition lite_boot_round :: "'w launch_ops \<Rightarrow> unit \<Rightarrow> ('w, unit + unit) io" where
  "lite_boot_round lo s =
     bindIO (ln_piped lo [''xcrun'', ''simctl'', ''spawn'', ''booted'', ''launchctl'', ''print'', ''system''] [''grep'', ''com.apple.springboard.services'']) (\<lambda>out.
     liftIO sub_bytes)"

definition lite_await_boot :: "'w launch_ops \<Rightarrow> nat \<Rightarrow> ('w, unit) dio" where
  "lite_await_boot lo fuel =
     poll (ce_clock (po_cbs (ln_prov lo))) CLIENT_REQUEST_TIMEOUT 1 (raiseIO (LiteServError ''iPhone Simulator failed to start'')) (lite_boot_round lo) fuel ()"

definition lite_booted :: "'w launch_ops \<Rightarrow> (ls_ios, 'w, string list) meth" where
  "lite_booted lo = bindIO (outside (ln_piped lo [''xcrun'', ''simctl'', ''list''] [''grep'', ''Booted''])) (\<lambda>out. returnIO (splitlines out))"

definition lite_phone :: "string list \<Rightarrow> (ls_ios, 'w, unit) meth" where
  "lite_phone lines = forIO lines (\<lambda>line. bindIO (liftIO (in_output ''Phone'' line)) (\<lambda>phone. if phone then liftIO sub_bytes else returnIO ()))"

definition LiteServiOS_install :: "'w launch_ops \<Rightarrow> nat \<Rightarrow> (ls_ios, 'w, unit) methD" where
  "LiteServiOS_install lo fuel =
     bindD (liftD (bindIO (self_set (\<lambda>ts. ts\<lparr>li_device := Some ''iPhone-7-Plus''\<rparr>)) (\<lambda>_.
       bindIO (set_app ''.app'') (\<lambda>p.
       bindIO (run_out lo [''ios-sim'', ''--devicetypeid'', ''iPhone-7-Plus'', ''start'']) (\<lambda>_.
       bindIO (run_out lo [''ios-sim'', ''--devicetypeid'', ''iPhone-7-Plus'', ''install'', p, ''--exit'']) (\<lambda>_. lite_booted lo)))))) (\<lambda>lines.
     bindD (if length lines > 0 then on_worldD (on_worldD (lite_await_boot lo fuel)) else liftD (returnIO ())) (\<lambda>_.
     liftD (bindIO (lite_booted lo) (\<lambda>lines.
       bindIO (lite_phone lines) (\<lambda>_.
       bindIO (self_get li_device_id) (\<lambda>d.
       if d = None \<or> d = Some [] then raiseIO (LiteServError ''Could not get the device ID of the running simulator'') else returnIO ()))))))"

definition LiteServiOS_remove_device :: "'w launch_ops \<Rightarrow> (ls_ios, 'w, unit) meth" where
  "LiteServiOS_remove_device lo =
     bindIO (run_out lo [''ios-deploy'', ''--uninstall_only'', ''--bundle_id'', ''com.couchbase.LiteServ-iOS'']) (\<lambda>_.
     bindIO (run_out lo [''ios-deploy'', ''--list_bundle_id'']) (\<lambda>out.
     bindIO (liftIO (in_output ''com.couchbase.LiteServ-iOS'' out)) (\<lambda>present.
     if present then raiseIO (LiteServError ''LiteServ-iOS is still present after uninstall'') else returnIO ())))"

definition LiteServiOS_remove :: "'w launch_ops \<Rightarrow> (ls_ios, 'w, unit) meth" where
  "LiteServiOS_remove lo =
     bindIO ios_dir (\<lambda>d. let bundle_id = ''com.couchbase.'' @ d in
     bindIO (LiteServiOS_stop lo) (\<lambda>_.
     bindIO (run_out lo [''killall'', ''Simulator'']) (\<lambda>_.
     bindIO (bindIO (self_get li_device_id) needs_text) (\<lambda>device.
     bindIO (run_out lo [''xcrun'', ''simctl'', ''erase'', device]) (\<lambda>out.
     bindIO (liftIO (in_output bundle_id out)) (\<lambda>present.
     if present then raiseIO (LiteServError (bundle_id @ '' is still present after uninstall'')) else returnIO ()))))))"

definition lite_build :: "string \<times> string option \<Rightarrow> string res" where
  "lite_build vb = (if given (snd vb) then Inr (opt_text (snd vb)) else dict_index lite_released (fst vb))"

definition LiteServiOS_verify_launched :: "'w launch_ops \<Rightarrow> (ls_ios, 'w, unit) meth" where
  "LiteServiOS_verify_launched lo =
     bindIO (LiteServBase_wait_until_reachable lo PNone) (\<lambda>resp_obj.
     bindIO (self_get ts_version_build) (\<lambda>v.
     liftIO (objc_version (ln_rt lo) resp_obj (bindR (version_build_of v) (\<lambda>vb. bindR (lite_build vb) (\<lambda>b. Inr (fst vb @ '' (build '' @ b @ '')'')))))))"

definition start_data :: "string \<Rightarrow> int \<Rightarrow> pyval" where
  "start_data engine port = PDict
     ((if engine = ''SQLite'' \<or> engine = ''SQLCipher'' then [(''storage'', PStr ''SQLite'')] else if forest engine then [(''storage'', PStr ''ForestDB'')] else []) @
      [(''port'', PInt port)] @ (if encrypted_storage engine then [(''dbpasswords'', PStr db_flags)] else []))"

text \<open>After the launch, for the simulator and the device: the app is asked to serve on the port.\<close>

definition lite_serve :: "'w launch_ops \<Rightarrow> (ls_ios, 'w, string) meth" where
  "lite_serve lo =
     bindIO (storage_of ''LiteServiOS'') (\<lambda>engine.
     bindIO (LiteServBase_verify_not_running lo) (\<lambda>_.
     bindIO (self_get ts_port) (\<lambda>port.
     if py_eq port (PInt 59850) then raiseIO (LiteServError ''On iOS, port 59850 is reserved for the admin port'')
     else bindIO (liftIO (py_to_int port)) (\<lambda>n.
     bindIO (LiteServBase_wait_until_reachable lo (PInt 59850)) (\<lambda>_.
     bindIO (liftIO (json_dumps (ln_rt lo) (start_data engine n))) (\<lambda>body.
     bindIO (admin_put lo ''start'' (Some body)) (\<lambda>resp.
     bindIO (liftIO (raise_for_status resp)) (\<lambda>_.
     bindIO (LiteServiOS_verify_launched lo) (\<lambda>_. own_url lo)))))))))"

definition LiteServiOS_start :: "'w launch_ops \<Rightarrow> string \<Rightarrow> (ls_ios, 'w, string) meth" where
  "LiteServiOS_start lo logfile_name =
     bindIO (self_set (\<lambda>ts. ts\<lparr>li_device := Some ''iPhone-7-Plus'', li_logfile_name := Some logfile_name\<rparr>)) (\<lambda>_.
     bindIO (set_app ''.app'') (\<lambda>p.
     bindIO (run_out lo [''ios-sim'', ''--devicetypeid'', ''iPhone-7-Plus'', ''launch'', p, ''--exit'']) (\<lambda>_. lite_serve lo)))"

definition LiteServiOS_start_device :: "'w launch_ops \<Rightarrow> string \<Rightarrow> (ls_ios, 'w, string) meth" where
  "LiteServiOS_start_device lo logfile_name =
     bindIO (self_set (\<lambda>ts. ts\<lparr>li_logfile_name := Some logfile_name\<rparr>)) (\<lambda>_.
     bindIO (set_app ''-Device.app'') (\<lambda>p.
     bindIO (run_out lo [''ios-deploy'', ''--justlaunch'', ''--bundle'', p]) (\<lambda>_. lite_serve lo)))"

end
