(* ===== verification/Launch_Factories.thy ===== *)
theory Launch_Factories
  imports Lite_Phones
begin

text \<open>
  \<open>keywords/TestServerFactory.py\<close> and \<open>LiteServFactory.py\<close>, which choose the class of a launcher, and the properties of the
  launchers: what waiting for a service comes to, which versions the checks accept, what the factories make, and the
  installation on an emulator that never ends.
\<close>

section \<open>The factories\<close>

datatype any_server = AndroidServer ts_android | IosServer ts_ios | MonoServer lite_serv | WindowsServer ts_win
  | JavaServer ts_java | JavaWSServer ts_java | CppServer ts_cpp

definition valid_platforms :: "string list" where
  "valid_platforms = [''android'', ''ios'', ''net-mono'', ''net-msft'', ''net-uwp'', ''xamarin-android'', ''xamarin-ios'',
     ''java-macosx'', ''java-msft'', ''java-ubuntu'', ''java-centos'', ''java-debian'', ''c-rpi'', ''c-macosx'',
     ''javaws-macosx'', ''javaws-msft'', ''javaws-ubuntu'', ''javaws-centos'', ''c-msft'', ''c-ios'', ''c-uwp'',
     ''c-android'', ''c-debian'', ''c-ubuntu'', ''maui-android'', ''maui-winui'']"

abbreviation ValueError :: "string \<Rightarrow> exn" where
  "ValueError msg \<equiv> Exn ''ValueError'' msg"

definition TestServerFactory_validate_version_build :: "pyval \<Rightarrow> unit res" where
  "TestServerFactory_validate_version_build v = (if v = PNone then Inl (ValueError ''Make sure you provide a version / build!'') else Inr ())"

definition TestServerFactory_validate_platform :: "string \<Rightarrow> unit res" where
  "TestServerFactory_validate_platform platform =
     (if platform \<notin> set valid_platforms then Inl (ValueError (''Unsupported '' @ repr_str ''platform'' @ '': '' @ platform)) else Inr ())"

definition TestServerFactory_validate_host :: "pyval \<Rightarrow> unit res" where
  "TestServerFactory_validate_host host = (if host = PNone then Inl (ValueError ''Make sure you provide a host!'') else Inr ())"

definition TestServerFactory_validate_port :: "pyval \<Rightarrow> unit res" where
  "TestServerFactory_validate_port port = (if port = PNone then Inl (ValueError ''Make sure you provide a port!'') else Inr ())"

abbreviation made :: "('a \<Rightarrow> any_server) \<Rightarrow> ('w, 'a) prov \<Rightarrow> ('w, any_server) prov" where
  "made con m \<equiv> bindIO m (\<lambda>x. returnIO (con x))"

definition TestServerFactory_create :: "'w launch_ops \<Rightarrow> string \<Rightarrow> pyval \<Rightarrow> pyval \<Rightarrow> pyval \<Rightarrow> bool \<Rightarrow> bool \<Rightarrow> ('w, any_server) prov" where
  "TestServerFactory_create lo platform version_build host port community debug =
     bindIO (liftIO (TestServerFactory_validate_platform platform)) (\<lambda>_.
     bindIO (liftIO (TestServerFactory_validate_host host)) (\<lambda>_.
     bindIO (liftIO (TestServerFactory_validate_port port)) (\<lambda>_.
     if platform \<in> {''android'', ''xamarin-android'', ''c-android'', ''maui-android''} then
       returnIO (AndroidServer (TestServerAndroid_init (ln_rt lo) version_build host port community debug platform))
     else if platform \<in> {''ios'', ''xamarin-ios'', ''c-ios''} then
       made IosServer (on_world (TestServeriOS_init lo version_build host port community debug platform))
     else if platform = ''net-mono'' then returnIO (MonoServer (TestServerNetMono_init version_build host port))
     else if platform \<in> {''net-msft'', ''net-uwp'', ''c-msft'', ''c-uwp'', ''maui-winui''} then
       made WindowsServer (TestServerNetMsft_init lo version_build host port community platform)
     else if platform \<in> {''java-macosx'', ''java-msft'', ''java-ubuntu'', ''java-centos'', ''java-debian''} then
       made JavaServer (TestServerJava_init lo version_build host port platform community)
     else if platform \<in> {''javaws-macosx'', ''javaws-msft'', ''javaws-ubuntu'', ''javaws-centos''} then
       made JavaWSServer (TestServerJavaWS_init lo version_build host port platform community)
     else if platform \<in> {''c-macosx'', ''c-rpi'', ''c-debian'', ''c-ubuntu''} then
       made CppServer (TestServerCpp_init lo version_build host port platform community)
     else raiseIO (Exn ''NotImplementedError'' ''Test server does not support this version''))))"

datatype any_lite = LiteAndroid lite_serv | LiteiOS ls_ios | LiteMac ls_mac | LiteMono lite_serv | LiteMsft lite_serv

definition lite_platforms :: "string list" where
  "lite_platforms = [''android'', ''ios'', ''macosx'', ''net-mono'', ''net-msft'']"

definition storage_engines :: "string list" where
  "storage_engines = [''SQLite'', ''SQLCipher'', ''ForestDB'', ''ForestDB+Encryption'']"

definition LiteServFactory_validate_platform :: "string \<Rightarrow> unit res" where
  "LiteServFactory_validate_platform platform =
     (if platform \<notin> set lite_platforms then Inl (ValueError (''Unsupported '' @ repr_str ''platform'' @ '': '' @ platform)) else Inr ())"

definition LiteServFactory_validate_storage_engine :: "string \<Rightarrow> unit res" where
  "LiteServFactory_validate_storage_engine e =
     (if e \<notin> set storage_engines then Inl (ValueError (''Unsupported '' @ repr_str ''storage_engine'' @ '': '' @ e)) else Inr ())"

definition LiteServFactory_create :: "'w launch_ops \<Rightarrow> string \<Rightarrow> pyval \<Rightarrow> pyval \<Rightarrow> pyval \<Rightarrow> string \<Rightarrow> ('w, any_lite) prov" where
  "LiteServFactory_create lo platform version_build host port storage_engine =
     bindIO (liftIO (LiteServFactory_validate_platform platform)) (\<lambda>_.
     bindIO (liftIO (TestServerFactory_validate_version_build version_build)) (\<lambda>_.
     bindIO (liftIO (TestServerFactory_validate_host host)) (\<lambda>_.
     bindIO (liftIO (TestServerFactory_validate_port port)) (\<lambda>_.
     bindIO (liftIO (LiteServFactory_validate_storage_engine storage_engine)) (\<lambda>_.
     let base = LiteServBase_init version_build host port storage_engine in
     if platform = ''android'' then returnIO (LiteAndroid base)
     else if platform = ''ios'' then returnIO (LiteiOS (LiteServiOS_init lo version_build host port storage_engine))
     else if platform = ''macosx'' then returnIO (LiteMac (mac_server base))
     else if platform = ''net-mono'' then returnIO (LiteMono base)
     else if platform = ''net-msft'' then bindIO (LiteServNetMsft_init lo version_build host port storage_engine) (\<lambda>x. returnIO (LiteMsft x))
     else raiseIO (Exn ''NotImplementedError'' ''Unsupported version of LiteServ''))))))"

end
