(* ===== verification/Sg_Fragments.thy ===== *)
theory Sg_Fragments
  imports Provision
begin

text \<open>
  The variables of the configuration templates as JSON. Most of them are fragments: members of an object with a comma
  after each, pasted before other members. \<open>members rt s ms\<close>: the text \<open>s\<close> is the members \<open>ms\<close>, whatever member follows.
  \<open>frag_vars\<close>: the invariant that every such variable is one; the steps of theory \<open>Sg_Vars\<close> and the operations made of
  them preserve it, so a template that puts the variables between braces is an object.
\<close>

section \<open>Fragments\<close>

definition members :: "py_runtime \<Rightarrow> string \<Rightarrow> vars \<Rightarrow> bool" where
  "members rt s ms \<longleftrightarrow> (\<forall>rest. po rt (skip_ws (s @ rest)) = map_option (\<lambda>p. (ms @ fst p, snd p)) (po rt (skip_ws rest)))"

definition fragment :: "py_runtime \<Rightarrow> string \<Rightarrow> bool" where
  "fragment rt s \<longleftrightarrow> (\<exists>ms. members rt s ms)"

definition value_text :: "py_runtime \<Rightarrow> string \<Rightarrow> pyval \<Rightarrow> bool" where
  "value_text rt t x \<longleftrightarrow> t \<noteq> [] \<and> \<not> is_ws (hd t) \<and> (\<forall>r. pv rt (t @ CHR '','' # r) = Some (x, CHR '','' # r))"

text \<open>Text that needs no escapes.\<close>

definition json_plain :: "string \<Rightarrow> bool" where
  "json_plain s \<longleftrightarrow> list_all (\<lambda>c. c \<noteq> chr_dquote \<and> c \<noteq> chr_bslash \<and> 32 \<le> (of_char c :: nat)) s"

lemma parse_jstr_plain: "json_plain s \<Longrightarrow> parse_jstr (s @ chr_dquote # r) = Some (s, r)"
  by (induction s) (auto simp: json_plain_def)

lemma members_Nil [simp]: "members rt [] []"
  by (simp add: members_def option.map_ident)

lemma members_append: "members rt s ms \<Longrightarrow> members rt t ns \<Longrightarrow> members rt (s @ t) (ms @ ns)"
  by (simp add: members_def option.map_comp o_def)

lemma skip_ws_append: "list_all is_ws t \<Longrightarrow> skip_ws (t @ s) = skip_ws s"
  by (induction t) (auto simp: skip_ws_def)

lemma members_spaced: "list_all is_ws t \<Longrightarrow> members rt s ms \<Longrightarrow> members rt (t @ s) ms"
  by (simp add: members_def skip_ws_append)

lemma members_then_space: "list_all is_ws t \<Longrightarrow> members rt s ms \<Longrightarrow> members rt (s @ t) ms"
  by (simp add: members_def skip_ws_append)

lemma skip_ws_quote: "skip_ws (chr_dquote # s) = chr_dquote # s"
  by (simp add: skip_ws_def is_ws_def)

lemma members_raw:
  assumes "json_plain k" "value_text rt t x"
  shows "members rt (raw_var k t) [(k, x)]"
proof -
  have "t \<noteq> []" "\<not> is_ws (hd t)" and pv: "pv rt (t @ CHR '','' # r) = Some (x, CHR '','' # r)" for r
    using assms(2) by (simp_all add: value_text_def)
  then have ws: "skip_ws (CHR '' '' # t @ r) = t @ r" for r
    by (simp add: skip_ws_space skip_ws_id)
  show ?thesis
    unfolding members_def raw_var_def dq_def
    by (simp add: skip_ws_quote po.simps parse_jstr_plain [OF assms(1)] ws pv skip_ws_punct)
qed

lemma value_quoted: "json_plain s \<Longrightarrow> value_text rt (dq s) (PStr s)"
  by (simp add: value_text_def dq_def pv.simps parse_jstr_plain is_ws_def)

lemma value_bool: "value_text rt ''true'' (PBool True)" "value_text rt ''false'' (PBool False)"
  by (simp_all add: value_text_def pv.simps is_ws_def startswith_def)

lemma value_int: "value_text rt (py_str rt (PInt i)) (PInt i)"
  using pv_int_str [of "CHR '','' # r" rt i for r] int_str_hd [of i]
  by (auto simp: value_text_def json_sep_def is_ws_def is_digit_def)


lemma fragmentI [intro]: "members rt s ms \<Longrightarrow> fragment rt s"
  by (auto simp: fragment_def)

lemma fragment_Nil [simp]: "fragment rt []"
  by (rule fragmentI) (rule members_Nil)

lemma fragment_raw: "json_plain k \<Longrightarrow> value_text rt t x \<Longrightarrow> fragment rt (raw_var k t)"
  by (rule fragmentI) (rule members_raw)

lemma fragment_append: "fragment rt s \<Longrightarrow> fragment rt t \<Longrightarrow> fragment rt (s @ t)"
  by (auto simp: fragment_def intro: members_append)

lemma fragment_spaced: "list_all is_ws t \<Longrightarrow> fragment rt s \<Longrightarrow> fragment rt (t @ s)"
  by (auto simp: fragment_def intro: members_spaced)

lemma fragment_quoted: "json_plain k \<Longrightarrow> json_plain t \<Longrightarrow> fragment rt (quoted_var k t)"
  unfolding quoted_var_def by (rule fragment_raw) (auto intro: value_quoted)

lemma fragment_flag: "json_plain k \<Longrightarrow> fragment rt (raw_var k ''true'')" "json_plain k \<Longrightarrow> fragment rt (raw_var k ''false'')"
  by (auto intro: fragment_raw value_bool)

lemma fragment_int: "json_plain k \<Longrightarrow> fragment rt (raw_var k (py_str rt (PInt i)))"
  by (rule fragment_raw [OF _ value_int])

text \<open>The fixed texts, read by the parser.\<close>

lemmas json_eval = pv.simps pa.simps po.simps skip_ws_def is_ws_def dq_def startswith_def

lemma fragment_delta: "fragment rt delta_text"
  unfolding delta_text_def
  by (rule fragment_raw [where x = "PDict [(''enabled'', PBool True)]"]) (simp_all add: json_plain_def value_text_def json_eval dict_update_def)

lemma fragment_no_admin_auth: "fragment rt no_admin_auth_text"
  unfolding no_admin_auth_text_def
  by (intro fragment_append fragment_spaced fragment_flag) (simp_all add: json_plain_def is_ws_def)

lemma fragment_log: "json_plain l \<Longrightarrow> fragment rt (raw_var ''log'' (''['' @ dq l @ '']''))"
  by (rule fragment_raw [where x = "PList [PStr l]"]) (simp_all add: json_plain_def value_text_def json_eval parse_jstr_plain)


lemma choose_logging_cases:
  assumes "choose_logging_level env cc = Inr c"
  obtains "c = dq ''logging'' @ '': {'' @ dq ''console'' @ '': {'' @ dq ''log_level'' @ '': '' @ dq ''trace'' @
          ''}, '' @ dq ''debug'' @ '': {'' @ dq ''enabled'' @ '': true}, '' @ dq ''trace'' @ '': {'' @ dq ''enabled'' @ '': true}''"
  | "c = dq ''logging'' @ '': {'' @ dq ''debug'' @ '': {'' @ dq ''enabled'' @ '': true}''"
  using assms by (auto simp: choose_logging_level_def bindR_eq_Inr split: if_splits)

lemma fragment_logging_end:
  assumes "choose_logging_level env cc = Inr c"
  shows "fragment rt (c @ '' },'')"
  using assms
proof (cases rule: choose_logging_cases)
  case 1
  have "c @ '' },'' = raw_var ''logging'' (''{'' @ dq ''console'' @ '': {'' @ dq ''log_level'' @ '': '' @ dq ''trace'' @
          ''}, '' @ dq ''debug'' @ '': {'' @ dq ''enabled'' @ '': true}, '' @ dq ''trace'' @ '': {'' @ dq ''enabled'' @ '': true} }'')"
    unfolding 1 by (simp add: raw_var_def dq_def)
  then show ?thesis
    by (simp only:) (rule fragment_raw, simp_all add: json_plain_def value_text_def json_eval)
next
  case 2
  have "c @ '' },'' = raw_var ''logging'' (''{'' @ dq ''debug'' @ '': {'' @ dq ''enabled'' @ '': true} }'')"
    unfolding 2 by (simp add: raw_var_def dq_def)
  then show ?thesis
    by (simp only:) (rule fragment_raw, simp_all add: json_plain_def value_text_def json_eval)
qed

lemma fragment_logging_redact:
  assumes "choose_logging_level env cc = Inr c" "json_plain l"
  shows "fragment rt (c @ '', '' @ dq ''redaction_level'' @ '': '' @ dq l @ '' },'')"
  using assms(1)
proof (cases rule: choose_logging_cases)
  case 1
  have "c @ '', '' @ dq ''redaction_level'' @ '': '' @ dq l @ '' },'' =
      raw_var ''logging'' (''{'' @ dq ''console'' @ '': {'' @ dq ''log_level'' @ '': '' @ dq ''trace'' @
          ''}, '' @ dq ''debug'' @ '': {'' @ dq ''enabled'' @ '': true}, '' @ dq ''trace'' @ '': {'' @ dq ''enabled'' @ '': true}, '' @
          dq ''redaction_level'' @ '': '' @ dq l @ '' }'')"
    unfolding 1 by (simp add: raw_var_def dq_def)
  then show ?thesis
    by (simp only:) (rule fragment_raw, simp_all add: json_plain_def value_text_def json_eval parse_jstr_plain [OF assms(2)])
next
  case 2
  have "c @ '', '' @ dq ''redaction_level'' @ '': '' @ dq l @ '' },'' =
      raw_var ''logging'' (''{'' @ dq ''debug'' @ '': {'' @ dq ''enabled'' @ '': true}, '' @ dq ''redaction_level'' @ '': '' @ dq l @ '' }'')"
    unfolding 2 by (simp add: raw_var_def dq_def)
  then show ?thesis
    by (simp only:) (rule fragment_raw, simp_all add: json_plain_def value_text_def json_eval parse_jstr_plain [OF assms(2)])
qed

lemma skip_spaces: "skip_ws (replicate n CHR '' '' @ s) = skip_ws s"
  by (rule skip_ws_append) (simp add: is_ws_def list_all_iff)

lemma fragment_https: "fragment rt (https_text n m)"
proof -
  let ?t = "''{'' @ nl @ replicate n CHR '' '' @ dq ''tls_cert_path'' @ '': '' @ dq ''sg_cert.pem'' @ '','' @ nl @
     replicate n CHR '' '' @ dq ''tls_key_path'' @ '': '' @ dq ''sg_privkey.pem'' @ nl @ replicate m CHR '' '' @ ''}''"
  have "https_text n m = '' '' @ raw_var ''https'' ?t @ '' ''"
    by (simp add: https_text_def raw_var_def dq_def)
  moreover have "members rt (raw_var ''https'' ?t)
      [(''https'', PDict [(''tls_cert_path'', PStr ''sg_cert.pem''), (''tls_key_path'', PStr ''sg_privkey.pem'')])]"
    by (rule members_raw)
      (simp_all add: json_plain_def value_text_def pv.simps po.simps dq_def is_ws_def skip_spaces skip_ws_punct skip_ws_space skip_ws_quote
        skip_ws_append [of "[chr_newline]" for s, simplified] dict_update_def)
  ultimately show ?thesis
    by (simp only:) (intro fragmentI members_spaced members_then_space, simp_all add: is_ws_def)
qed


lemma fragment_upgrade_tls: "fragment rt upgrade_tls_text"
proof -
  let ?t = "''{'' @ dq ''minimum_version'' @ '': '' @ dq ''tlsv1.3'' @ '','' @ nl @ replicate 32 CHR '' '' @ dq ''SSLCert'' @ '': '' @ dq ''sg_cert.pem'' @
     '','' @ nl @ replicate 32 CHR '' '' @ dq ''SSLKey'' @ '': '' @ dq ''sg_privkey.pem'' @ nl @ replicate 32 CHR '' '' @ ''}''"
  have eq: "upgrade_tls_text = (nl @ replicate 24 CHR '' '') @ raw_var ''tls'' ?t @ '' ''"
    by (simp add: upgrade_tls_text_def raw_var_def dq_def)
  have m: "members rt (raw_var ''tls'' ?t) [(''tls'', PDict [(''minimum_version'', PStr ''tlsv1.3''), (''SSLCert'', PStr ''sg_cert.pem''), (''SSLKey'', PStr ''sg_privkey.pem'')])]"
    by (rule members_raw)
      (simp_all add: json_plain_def value_text_def pv.simps po.simps dq_def is_ws_def skip_spaces [of 32, simplified] skip_ws_punct skip_ws_space skip_ws_quote
        skip_ws_append [of "[chr_newline]" for s, simplified] dict_update_def)
  show ?thesis
    unfolding eq by (rule fragmentI [OF members_spaced [OF _ members_then_space [OF _ m]]]) (simp_all add: is_ws_def list_all_iff)
qed

text \<open>A path below the home directory, on every platform.\<close>

abbreviation cert_files :: "string list" where
  "cert_files \<equiv> [''chain.pem'', ''pkey.key'', ''ca.pem'']"

lemma home_directory_cases:
  assumes "home_directory platform = Inr h"
  obtains "platform \<noteq> PStr ''windows''" "h = ''/Users/sync_gateway''" | "platform = PStr ''windows''" "h = windows_home"
  | "platform \<noteq> PStr ''windows''" "h = ''/home/sync_gateway''"
  using assms by (auto simp: home_directory_def bindR_eq_Inr py_in_str_def split: if_splits pyval.splits)

lemma concat_map_other: "c \<notin> set s \<Longrightarrow> concat (map (\<lambda>x. if x = c then new else [x]) s) = s"
  by (induction s) auto

lemma fragment_cert:
  assumes "home_directory platform = Inr h" "file \<in> set cert_files"
    "key \<in> set [''certpath'', ''keypath'', ''cacertpath'', ''x509_cert_path'', ''x509_key_path'', ''ca_cert_path'']"
  shows "fragment rt (cert_text platform key h file)"
  using assms(1)
proof (cases rule: home_directory_cases)
  case 1
  with assms(2,3) show ?thesis
    by (auto simp: cert_text_def Let_def json_plain_def intro!: fragment_quoted)
next
  case 2
  have "CHR ''/'' \<notin> set key" "CHR ''/'' \<notin> set file" using assms(2,3) by auto
  then have "cert_text platform key windows_home file = raw_var key (dq (''C:'' @ bslash2 @ ''PROGRA~1'' @ bslash2 @ ''Couchbase'' @ bslash2 @ ''Sync Gateway'' @
      bslash2 @ ''certs'' @ bslash2 @ file))"
    using 2 by (simp add: cert_text_def Let_def quoted_var_def raw_var_def dq_def windows_home_def replace_str_chr concat_map_other)
  moreover obtain x where "value_text rt (dq (''C:'' @ bslash2 @ ''PROGRA~1'' @ bslash2 @ ''Couchbase'' @ bslash2 @ ''Sync Gateway'' @
      bslash2 @ ''certs'' @ bslash2 @ file)) x"
    using assms(2) that by (auto simp: value_text_def json_eval json_unesc_def)
  moreover have "json_plain key" using assms(3) by (auto simp: json_plain_def)
  ultimately show ?thesis
    using 2 fragment_raw by metis
next
  case 3
  with assms(2,3) show ?thesis
    by (auto simp: cert_text_def Let_def json_plain_def intro!: fragment_quoted)
qed


section \<open>The invariant\<close>

definition frag_keys :: "string list" where
  "frag_keys = [''username'', ''password'', ''certpath'', ''keypath'', ''cacertpath'', ''autoimport'', ''xattrs'', ''no_conflicts'', ''revs_limit'',
     ''sslcert'', ''sslkey'', ''num_index_replicas'', ''sg_use_views'', ''logging'', ''delta_sync'', ''prometheus'', ''hide_product_version'', ''tls'',
     ''disable_persistent_config'', ''server_tls_skip_verify'', ''disable_tls_server'', ''disable_admin_auth'', ''groupid'']"

definition frag_vars :: "py_runtime \<Rightarrow> vars \<Rightarrow> bool" where
  "frag_vars rt v \<longleftrightarrow> (\<forall>k x. k \<in> set frag_keys \<longrightarrow> dict_get v k = Some x \<longrightarrow> (\<exists>s. x = PStr s \<and> fragment rt s))"

lemma frag_varsD: "frag_vars rt v \<Longrightarrow> k \<in> set frag_keys \<Longrightarrow> dict_get v k = Some x \<Longrightarrow> \<exists>s. x = PStr s \<and> fragment rt s"
  by (simp add: frag_vars_def)

lemma frag_set_var [intro]: "frag_vars rt v \<Longrightarrow> fragment rt s \<Longrightarrow> frag_vars rt (set_var k s v)"
  by (auto simp: frag_vars_def set_var_def dict_simps split: if_splits)

lemma frag_other [intro]: "frag_vars rt v \<Longrightarrow> k \<notin> set frag_keys \<Longrightarrow> frag_vars rt (dict_set v k x)"
  by (auto simp: frag_vars_def dict_simps split: if_splits)

lemma frag_set_other [intro]: "frag_vars rt v \<Longrightarrow> k \<notin> set frag_keys \<Longrightarrow> frag_vars rt (set_var k s v)"
  unfolding set_var_def by (rule frag_other)

text \<open>What the configuration and the names of the buckets must be like: numbers and texts without quotation marks.\<close>

definition int_answer :: "pyval res \<Rightarrow> bool" where
  "int_answer r \<longleftrightarrow> (\<forall>x. r = Inr x \<longrightarrow> (\<exists>i. x = PInt i))"

definition plain_answer :: "py_runtime \<Rightarrow> pyval res \<Rightarrow> bool" where
  "plain_answer rt r \<longleftrightarrow> (\<forall>x. r = Inr x \<longrightarrow> json_plain (py_str rt x))"

definition plain_config :: "environment \<Rightarrow> string \<Rightarrow> pyval \<Rightarrow> bool" where
  "plain_config env cc bucket_names \<longleftrightarrow>
     plain_answer (env_runtime env) (get_redact_level env cc) \<and> int_answer (get_sg_replicas env cc) \<and> int_answer (get_revs_limit env cc) \<and>
     plain_answer (env_runtime env) (py_first bucket_names)"

section \<open>Steps\<close>

named_theorems frag_steps

definition keeps :: "py_runtime \<Rightarrow> (vars \<Rightarrow> vars res) \<Rightarrow> bool" where
  "keeps rt f \<longleftrightarrow> (\<forall>v v'. frag_vars rt v \<longrightarrow> f v = Inr v' \<longrightarrow> frag_vars rt v')"

lemma keepsI: "(\<And>v v'. frag_vars rt v \<Longrightarrow> f v = Inr v' \<Longrightarrow> frag_vars rt v') \<Longrightarrow> keeps rt f"
  by (auto simp: keeps_def)

lemma keepsD: "keeps rt f \<Longrightarrow> frag_vars rt v \<Longrightarrow> f v = Inr v' \<Longrightarrow> frag_vars rt v'"
  by (auto simp: keeps_def)

lemma seq_steps_simps [simp]: "seq_steps [] v = Inr v" "seq_steps (f # fs) v = bindR (f v) (seq_steps fs)"
  by (simp_all add: seq_steps_def [abs_def])

lemma keeps_seq: "list_all (keeps rt) fs \<Longrightarrow> keeps rt (seq_steps fs)"
proof (induction fs)
  case (Cons f fs)
  then have f: "keeps rt f" and fs: "keeps rt (seq_steps fs)" by simp_all
  show ?case
    by (rule keepsI) (auto simp: bindR_eq_Inr dest: keepsD [OF f] intro: keepsD [OF fs])
qed (simp add: keeps_def)

lemma keeps_when [frag_steps]: "fragment rt t \<Longrightarrow> keeps rt (when_step cond k t)"
  by (rule keepsI) (auto simp: when_step_def bindR_eq_Inr split: if_splits)

lemma keeps_logging [frag_steps]:
  "plain_answer rt redact \<Longrightarrow> keeps rt (logging_step rt (choose_logging_level env cc) redact)"
proof (rule keepsI)
  fix v v' assume plain: "plain_answer rt redact" and v: "frag_vars rt v"
    and "logging_step rt (choose_logging_level env cc) redact v = Inr v'"
  then obtain c t where c: "choose_logging_level env cc = Inr c" and v': "v' = set_var ''logging'' t v"
    and "logging_text rt (choose_logging_level env cc) redact = Inr t"
    by (auto simp: logging_step_def logging_text_def bindR_eq_Inr)
  then have "fragment rt t"
    using plain fragment_logging_end [OF c] fragment_logging_redact [OF c]
    by (cases redact) (auto simp: logging_text_def plain_answer_def split: if_splits)
  with v v' show "frag_vars rt v'" by auto
qed

lemma keeps_views [frag_steps]: "int_answer n \<Longrightarrow> keeps rt (views_step rt use n)"
  by (rule keepsI) (auto simp: views_step_def bindR_eq_Inr int_answer_def json_plain_def
      intro!: frag_set_var fragment_flag fragment_raw value_int [simplified] split: if_splits)

lemma keeps_xattrs [frag_steps]: "keeps rt (xattrs_step flag ver)"
  by (rule keepsI) (auto simp: xattrs_step_def bindR_eq_Inr json_plain_def intro!: frag_set_var fragment_flag fragment_quoted split: if_splits)

lemma keeps_plain_xattrs [frag_steps]: "keeps rt (plain_xattrs_step flag)"
  by (rule keepsI) (auto simp: plain_xattrs_step_def bindR_eq_Inr json_plain_def intro!: frag_set_var fragment_flag split: if_splits)

lemma frag_ssl_files: "frag_vars rt v \<Longrightarrow> frag_vars rt (ssl_files v)"
  by (auto simp: ssl_files_def json_plain_def intro!: frag_set_var fragment_quoted)

lemma keeps_ssl [frag_steps]: "fragment rt t \<Longrightarrow> keeps rt (ssl_step t a b)"
  by (rule keepsI) (auto simp: ssl_step_def bindR_eq_Inr intro: frag_ssl_files split: if_splits)

lemma keeps_conflicts [frag_steps]: "keeps rt (conflicts_step flag)"
  by (rule keepsI) (auto simp: conflicts_step_def bindR_eq_Inr json_plain_def intro!: frag_set_var fragment_flag)

lemma keeps_revs_limit [frag_steps]:
  "int_answer n \<Longrightarrow> (\<And>v. frag_vars rt v \<Longrightarrow> frag_vars rt (without v)) \<Longrightarrow> keeps rt (revs_limit_step rt n without)"
  by (rule keepsI) (auto simp: revs_limit_step_def int_answer_def json_plain_def
      intro!: frag_set_var fragment_raw value_int [simplified] split: sum.splits if_splits)

lemma keeps_revs_cleared [frag_steps]: "int_answer n \<Longrightarrow> keeps rt (revs_limit_step rt n (set_var ''revs_limit'' []))"
  by (rule keeps_revs_limit) auto

lemma keeps_bucket_user [frag_steps]: "plain_answer rt (py_first bs) \<Longrightarrow> keeps rt (bucket_user rt bs)"
  by (rule keepsI) (auto simp: bucket_user_def bindR_eq_Inr plain_answer_def json_plain_def intro!: frag_set_var fragment_quoted)

lemma keeps_group [frag_steps]: "plain_answer rt (py_first bs) \<Longrightarrow> keeps rt (group_step rt bs)"
  by (rule keepsI) (auto simp: group_step_def bindR_eq_Inr plain_answer_def json_plain_def intro!: frag_set_var fragment_quoted)


lemma keeps_features [frag_steps]: "list_all (keeps rt) (feature_steps env cc ver)"
  by (auto simp: feature_steps_def json_plain_def intro!: keeps_when fragment_delta fragment_flag fragment_quoted)

lemma keeps_v3 [frag_steps]: "list_all (keeps rt) (v3_steps env cc ver)"
  by (auto simp: v3_steps_def json_plain_def intro!: keeps_when fragment_no_admin_auth fragment_flag)

section \<open>Operations\<close>

text \<open>
  \<open>prov_spec env m P\<close>: run with the configuration files \<open>env\<close>, the operation leaves them as they are, and what it returns
  satisfies \<open>P\<close>.
\<close>

definition prov_spec :: "environment \<Rightarrow> ('w, 'a) prov \<Rightarrow> ('a \<Rightarrow> bool) \<Rightarrow> bool" where
  "prov_spec env m P \<longleftrightarrow> (\<forall>s r s'. ps_env (fst s) = env \<longrightarrow> m s = (r, s') \<longrightarrow> ps_env (fst s') = env \<and> (\<forall>a. r = Inr a \<longrightarrow> P a))"

lemma prov_specD:
  assumes "prov_spec (ps_env (fst s)) m P" "m s = (Inr a, s')"
  shows "P a" "ps_env (fst s') = ps_env (fst s)"
  using assms unfolding prov_spec_def by blast+

named_theorems spec_rules

lemma spec_return [spec_rules]: "P a \<Longrightarrow> prov_spec env (returnIO a) P"
  by (simp add: prov_spec_def)

lemma spec_raise [spec_rules]: "prov_spec env (raiseIO e) P"
  by (simp add: prov_spec_def)

lemma spec_lift [spec_rules]: "(\<And>a. r = Inr a \<Longrightarrow> P a) \<Longrightarrow> prov_spec env (liftIO r) P"
  by (auto simp: prov_spec_def liftIO_def)

lemma spec_cfg [spec_rules]: "(\<And>a. f env = Inr a \<Longrightarrow> P a) \<Longrightarrow> prov_spec env (cfg f) P"
  by (auto simp: prov_spec_def)

lemma spec_world [spec_rules]: "(\<And>a. P a) \<Longrightarrow> prov_spec env (on_world m) P"
  by (auto simp: prov_spec_def on_world_def split: prod.splits)

lemma spec_bind:
  assumes "prov_spec env m P" "\<And>a. P a \<Longrightarrow> prov_spec env (f a) Q"
  shows "prov_spec env (bindIO m f) Q"
proof -
  have "ps_env (fst s') = env \<and> (\<forall>b. r = Inr b \<longrightarrow> Q b)" if "ps_env (fst s) = env" "bindIO m f s = (r, s')" for s r s'
  proof -
    obtain r1 s1 where m: "m s = (r1, s1)" by (rule prod.exhaust)
    with assms(1) that(1) have s1: "ps_env (fst s1) = env" and P: "\<And>a. r1 = Inr a \<Longrightarrow> P a" unfolding prov_spec_def by blast+
    show ?thesis
    proof (cases r1)
      case (Inl e)
      with m that(2) s1 show ?thesis by (auto simp: bindIO_def)
    next
      case (Inr a)
      with m that(2) have "f a s1 = (r, s')" by (simp add: bindIO_def)
      with assms(2) [OF P [OF Inr]] s1 show ?thesis unfolding prov_spec_def by blast
    qed
  qed
  then show ?thesis unfolding prov_spec_def by blast
qed

lemma spec_bind_any [spec_rules]:
  assumes "prov_spec env m (\<lambda>_. True)" "\<And>a. prov_spec env (f a) Q"
  shows "prov_spec env (bindIO m f) Q"
  by (rule spec_bind [OF assms(1)]) (rule assms(2))

lemma spec_if [spec_rules]: "(b \<Longrightarrow> prov_spec env m P) \<Longrightarrow> (\<not> b \<Longrightarrow> prov_spec env n P) \<Longrightarrow> prov_spec env (if b then m else n) P"
  by simp

lemma spec_for: "(\<And>x. prov_spec env (f x) (\<lambda>_. True)) \<Longrightarrow> prov_spec env (forIO xs f) (\<lambda>_. True)"
  by (induction xs) (auto intro!: spec_rules)


lemma spec_cfg_steps:
  assumes "list_all (keeps (env_runtime env)) (fs env)" "frag_vars (env_runtime env) v"
  shows "prov_spec env (cfg_steps fs v) (frag_vars (env_runtime env))"
  unfolding cfg_steps_def using keepsD [OF keeps_seq [OF assms(1)] assms(2)] by (intro spec_cfg)

lemma spec_run_playbook: "prov_spec env (run_ansible_playbook ops cc script (Some v) hosts) (\<lambda>_. True)"
  unfolding run_ansible_playbook_def Runner_run_def by (auto intro!: spec_rules split: prod.split)

lemma spec_generate_certs: "prov_spec env (generate_x509_certs ops cc bs platform) (\<lambda>_. True)"
  unfolding generate_x509_certs_def by (auto intro!: spec_rules spec_for split: prod.split)

lemma spec_block_ports: "prov_spec env (block_http_ports ops cc b) (\<lambda>_. True)"
  unfolding block_http_ports_def by (intro spec_rules spec_run_playbook) simp_all

lemma frag_x509:
  assumes "frag_vars rt v" "home_directory platform = Inr h" "keys \<in> {old_cert_keys, new_cert_keys}"
  shows "frag_vars rt (x509_vars (cert_vars platform keys h v))"
proof -
  have "frag_vars rt (cert_vars platform keys h v)"
    using assms(1,3) unfolding cert_vars_def
    by (auto simp: old_cert_keys_def new_cert_keys_def intro!: frag_set_var fragment_cert [OF assms(2)])
  then show ?thesis
    unfolding x509_vars_def by (intro frag_other frag_set_other) (simp_all add: frag_keys_def)
qed

lemma spec_x509_step:
  assumes "frag_vars (env_runtime env) v" "keys \<in> {old_cert_keys, new_cert_keys}" "keeps (env_runtime env) (els env)"
  shows "prov_spec env (x509_step ops cc keys home_directory platform bs els v) (frag_vars (env_runtime env))"
  unfolding x509_step_def
proof (rule spec_bind [where P = "\<lambda>h. home_directory platform = Inr h"])
  show "prov_spec env (liftIO (home_directory platform)) (\<lambda>h. home_directory platform = Inr h)" by (rule spec_lift)
next
  fix h assume h: "home_directory platform = Inr h"
  show "prov_spec env (bindIO (cfg (\<lambda>env. truth_of (is_x509_auth env cc))) (\<lambda>on.
     if on then bindIO (generate_x509_certs ops cc bs platform) (\<lambda>_. returnIO (x509_vars (cert_vars platform keys h v)))
     else cfg (\<lambda>env. els env v))) (frag_vars (env_runtime env))"
    by (intro spec_bind_any spec_if spec_return spec_generate_certs frag_x509 [OF assms(1) h assms(2)])
      (auto intro!: spec_cfg keepsD [OF assms(3) assms(1)])
qed

lemma keeps_basic:
  assumes "plain_config env cc bs"
  shows "keeps (env_runtime env) (bucket_user (env_runtime env) bs)"
    "keeps (env_runtime env) (group_step (env_runtime env) bs)"
    "keeps (env_runtime env) (logging_step (env_runtime env) (choose_logging_level env cc) (get_redact_level env cc))"
    "keeps (env_runtime env) (views_step (env_runtime env) use (get_sg_replicas env cc))"
    "(\<And>v. frag_vars (env_runtime env) v \<Longrightarrow> frag_vars (env_runtime env) (no_limit v)) \<Longrightarrow>
      keeps (env_runtime env) (revs_limit_step (env_runtime env) (get_revs_limit env cc) no_limit)"
    "keeps (env_runtime env) (revs_limit_step (env_runtime env) (get_revs_limit env cc) (set_var ''revs_limit'' []))"
  using assms by (auto simp: plain_config_def intro: frag_steps)

lemma spec_auth_step:
  assumes "frag_vars (env_runtime env) v" "plain_config env cc bs" "json_plain old_log"
  shows "prov_spec env (auth_step ops cc ver old_log platform bs v) (frag_vars (env_runtime env))"
proof -
  have new: "prov_spec env (bindIO (cfg_steps (\<lambda>env. [logging_step (env_runtime env) (choose_logging_level env cc) (get_redact_level env cc),
      views_step (env_runtime env) (get_sg_use_views env cc) (get_sg_replicas env cc)]) v)
      (\<lambda>v. x509_step ops cc old_cert_keys home_directory platform bs (\<lambda>env. bucket_user (env_runtime env) bs) v)) (frag_vars (env_runtime env))"
    by (rule spec_bind, rule spec_cfg_steps) (auto intro: keeps_basic [OF assms(2)] assms(1) spec_x509_step)
  have old: "prov_spec env (cfg (\<lambda>env. bucket_user (env_runtime env) bs (set_var ''logging'' (raw_var ''log'' (''['' @ dq old_log @ '']'')) v))) (frag_vars (env_runtime env))"
    by (rule spec_cfg, rule keepsD [OF keeps_basic(1) [OF assms(2)]]) (rule frag_set_var [OF assms(1) fragment_log [OF assms(3)]])
  show ?thesis
    unfolding auth_step_def by (rule spec_bind_any, rule spec_cfg, rule TrueI, rule spec_if, rule new, rule old)
qed

lemma spec_cbs_ssl_step:
  assumes "frag_vars rt v"
  shows "prov_spec env (cbs_ssl_step ops inventory cond platform v) (frag_vars rt)"
  unfolding cbs_ssl_step_def ssl_ports_def
  by (intro spec_rules spec_block_ports frag_other frag_set_other assms) (auto simp: frag_keys_def)

text \<open>Starting and restarting a node.\<close>

lemma spec_node_vars:
  assumes "frag_vars (env_runtime env) v" "plain_config env cc bs" "\<And>v. frag_vars (env_runtime env) v \<Longrightarrow> frag_vars (env_runtime env) (no_limit v)"
  shows "prov_spec env (node_vars ops inventory cc no_limit platform bs v) (frag_vars (env_runtime env))"
  unfolding node_vars_def
proof (rule spec_bind [where P = "frag_vars (env_runtime env)"])
  show "prov_spec env (cfg (\<lambda>env. bindR (truth_of (sg_ssl_enabled env cc)) (\<lambda>on. Inr (if on then ssl_files v else v)))) (frag_vars (env_runtime env))"
    using assms(1) by (auto simp: bindR_eq_Inr intro!: spec_cfg frag_ssl_files)
next
  fix v assume v: "frag_vars (env_runtime env) v"
  show "prov_spec env (bindIO (auth_step ops cc (\<lambda>env. get_sg_version env cc) ''*'' platform bs v) (\<lambda>v.
     bindIO (cfg_steps (\<lambda>env. [xattrs_step (is_xattrs_enabled env cc) (get_sg_version env cc),
        conflicts_step (no_conflicts_enabled env cc), revs_limit_step (env_runtime env) (get_revs_limit env cc) no_limit] @
        feature_steps env cc (\<lambda>env. get_sg_version env cc) @ v3_steps env cc (\<lambda>env. get_sg_version env cc)) v) (\<lambda>v.
     cbs_ssl_step ops inventory (\<lambda>env. both (is_cbs_ssl_enabled env cc) (at_least (get_sg_version env cc) ''1.5.0'')) platform v))) (frag_vars (env_runtime env))"
    by (rule spec_bind, rule spec_auth_step [OF v assms(2)], simp add: json_plain_def, rule spec_bind, rule spec_cfg_steps)
      (auto intro: frag_steps keeps_basic [OF assms(2)] assms(3) spec_cbs_ssl_step)
qed


text \<open>The variables of a reset, of an installation and of the keyword that starts all nodes.\<close>

lemma spec_reset_vars:
  assumes "frag_vars (env_runtime env) v" "plain_config env (cl_config cl) bs"
  shows "prov_spec env (reset_vars ops cl platform bs v) (frag_vars (env_runtime env))"
  unfolding reset_vars_def Let_def
  by (rule spec_bind, rule spec_auth_step [OF assms], simp add: json_plain_def, rule spec_bind, erule spec_cbs_ssl_step, rule spec_cfg_steps)
    (auto intro: frag_steps keeps_basic [OF assms(2)] fragment_https)

lemma spec_install_vars:
  assumes "frag_vars (env_runtime env) v" "plain_config env cc bs"
  shows "prov_spec env (install_vars ops cc ver sg_os bs v) (frag_vars (env_runtime env))"
proof -
  have v: "frag_vars (env_runtime env) (with_debian sg_os v)"
    using assms(1) unfolding with_debian_def by (auto simp: frag_keys_def intro!: frag_other)
  show ?thesis
    unfolding install_vars_def
    by (rule spec_bind, rule spec_auth_step [OF v assms(2)], simp add: json_plain_def, rule spec_bind, erule spec_cbs_ssl_step, rule spec_cfg_steps)
      (auto intro: frag_steps keeps_basic [OF assms(2)] fragment_https)
qed

lemma spec_start_gateways_vars:
  assumes "frag_vars (env_runtime env) v" "plain_config env cc bs"
  shows "prov_spec env (start_gateways_vars ops cc platform bs v) (frag_vars (env_runtime env))"
  unfolding start_gateways_vars_def
  by (rule spec_bind, rule spec_auth_step [OF assms], simp add: json_plain_def, rule spec_cfg_steps)
    (auto simp: json_plain_def intro: frag_steps keeps_basic [OF assms(2)] fragment_https intro!: keeps_when fragment_flag)

lemma frag_varsI: "list_all (\<lambda>(k, x). k \<in> set frag_keys \<longrightarrow> (\<exists>s. x = PStr s \<and> fragment rt s)) v \<Longrightarrow> frag_vars rt v"
  by (auto simp: frag_vars_def dict_get_def list_all_iff dest!: map_of_SomeD)

lemma frag_start_base: "frag_vars rt (start_base ops sg config)" "frag_vars rt (restart_base ops sg config)"
  by (rule frag_varsI, simp add: start_base_def restart_base_def blank_def frag_keys_def)+

section \<open>Rendered configurations\<close>

lemma fragment_concat: "(\<And>k. k \<in> set ks \<Longrightarrow> fragment rt (f k)) \<Longrightarrow> fragment rt (concat (map f ks))"
  by (induction ks) (auto intro: fragment_append)

lemma fragment_var: "frag_vars rt v \<Longrightarrow> k \<in> set frag_keys \<Longrightarrow> fragment rt (py_str rt (var_of v k))"
  by (auto simp: var_of_def dest: frag_varsD split: option.splits)

lemma dict_get_update_last: "dict_get (dict_update d (ms @ [(k, x)])) k = Some x"
  by (simp add: dict_update_def dict_simps)

text \<open>A fragment and one more member between braces.\<close>

lemma object_of_fragment:
  assumes "fragment rt t" "json_plain k" "json_ok x" "json_dumps rt x = Inr u"
  shows "\<exists>d. json_loads rt (''{'' @ t @ dq k @ '': '' @ u @ ''}'') = Inr (PDict d) \<and> dict_get d k = Some x"
proof -
  obtain ms where ms: "members rt t ms" using assms(1) by (auto simp: fragment_def)
  let ?r = "dq k @ '': '' @ u @ ''}''"
  have u: "u \<noteq> []" "\<not> is_ws (hd u)" using json_dumps_hd [OF assms(3,4)] by auto
  have "po rt (skip_ws ?r) = Some ([(k, x)], [])"
    using reads_backD [OF json_ok_reads_back [OF assms(3)] assms(4), of "''}''"]
    by (simp add: dq_def skip_ws_quote po.simps parse_jstr_plain [OF assms(2)] skip_ws_punct skip_ws_space skip_ws_id [OF u] json_sep_def)
  then have po: "po rt (skip_ws (t @ ?r)) = Some (ms @ [(k, x)], [])"
    using ms by (simp add: members_def)
  then obtain q s' where q: "skip_ws (t @ ?r) = q # s'" "q = chr_dquote"
    by (cases "skip_ws (t @ ?r)") (auto simp: po.simps split: if_splits)
  have "pv rt (''{'' @ t @ ?r) = Some (PDict (dict_update [] (ms @ [(k, x)])), [])"
    using po q by (simp add: pv.simps)
  then have "json_loads rt (''{'' @ t @ ?r) = Inr (PDict (dict_update [] (ms @ [(k, x)])))"
    by (simp add: json_loads_def skip_ws_def is_ws_def)
  then show ?thesis by (intro exI conjI) (assumption, rule dict_get_update_last)
qed


text \<open>
  C5: The variables that \<open>start\<close> and \<open>restart\<close> hand to the playbook are members of a JSON object: with numbers for the
  replicas and the limit of revisions, and names and levels without quotation marks, a template that puts any of these
  variables, in any order, before another member between braces is read as an object that has this member.
\<close>

theorem node_variables_are_json:
  assumes "plain_config (ps_env (fst s)) cc bucket_names"
    and "base \<in> {start_base ops sg config, restart_base ops sg config}" "no_limit \<in> {id, set_var ''revs_limit'' []}"
    and "node_vars ops inventory cc no_limit platform bucket_names base s = (Inr v, s')"
    and "rt = env_runtime (ps_env (fst s))" "set ks \<subseteq> set frag_keys"
    and "json_plain k" "json_ok x" "json_dumps rt x = Inr t"
  shows "\<exists>d. json_loads rt (''{'' @ concat (map (\<lambda>k. py_str rt (var_of v k)) ks) @ dq k @ '': '' @ t @ ''}'') = Inr (PDict d) \<and>
    dict_get d k = Some x"
proof (rule object_of_fragment)
  have "frag_vars (env_runtime (ps_env (fst s))) v"
  proof (rule prov_specD(1) [OF spec_node_vars assms(4)])
    show "frag_vars (env_runtime (ps_env (fst s))) base" using assms(2) frag_start_base by auto
    show "frag_vars (env_runtime (ps_env (fst s))) (no_limit v)" if "frag_vars (env_runtime (ps_env (fst s))) v" for v
      using assms(3) that by auto
  qed (rule assms(1))
  then show "fragment rt (concat (map (\<lambda>k. py_str rt (var_of v k)) ks))"
    using assms(5,6) by (auto intro!: fragment_concat fragment_var)
qed (rule assms)+


text \<open>A cluster with a configuration in one file, and an environment in which every playbook succeeds.\<close>

definition node_env :: environment where
  "node_env = \<lparr>env_vars = [], env_files = [(''c.json'', JsonFile (PDict [(''environment'', PDict [(''cbs_ssl_enabled'', PBool False),
     (''x509_certs'', PBool False), (''xattrs_enabled'', PBool True), (''number_replicas'', PInt 1), (''sg_use_views'', PBool False),
     (''sync_gateway_version'', PStr ''3.1.0-592''), (''revs_limit'', PInt 20), (''disable_persistent_config'', PBool True),
     (''sg_platform'', PStr ''centos'')])]))], env_runtime = bare_runtime\<rparr>"

definition quiet_prov :: "pyval \<Rightarrow> rat prov_ops" where
  "quiet_prov answer = \<lparr>po_cbs = plain_cbs (quiet_http (json_text answer)) step_clock, po_admin = quiet_admin answer,
     po_ansible = (\<lambda>_ _ _ _. returnIO (0, 0)), po_render = (\<lambda>_ t. Inr t), po_text = (\<lambda>_. []), po_order = id, po_cwd = ''/kit'',
     po_os = \<lparr>os_exists = (\<lambda>_. returnIO True), os_rmtree = (\<lambda>_. returnIO ()), os_mkdir = (\<lambda>_. returnIO ()), os_copy_tree = (\<lambda>_ _. returnIO ()),
       os_chdir = (\<lambda>_. returnIO ()), os_append = (\<lambda>_ _. returnIO ()), os_popen = (\<lambda>_. returnIO ([], []))\<rparr>\<rparr>"

lemma on_world_return [simp]: "on_world (returnIO a) = returnIO a"
  by (rule ext) (simp add: on_world_def)

lemma quiet_os [simp]: "os_exists (po_os (quiet_prov x)) f = returnIO True" "os_rmtree (po_os (quiet_prov x)) f = returnIO ()"
  "os_mkdir (po_os (quiet_prov x)) f = returnIO ()" "os_copy_tree (po_os (quiet_prov x)) f g = returnIO ()"
  "os_chdir (po_os (quiet_prov x)) f = returnIO ()" "os_append (po_os (quiet_prov x)) f t = returnIO ()"
  "os_popen (po_os (quiet_prov x)) cmd = returnIO ([], [])" "po_ansible (quiet_prov x) i p v h = returnIO (0, 0)"
  by (simp_all add: quiet_prov_def)

abbreviation node_state :: "prov_state \<times> rat" where
  "node_state \<equiv> (\<lparr>ps_env = node_env, ps_default_vars = []\<rparr>, 0)"

definition sample_node :: sg_node where
  "sample_node = \<lparr>sgn_ip = PStr ''10.0.0.1'', sgn_url = ''http://10.0.0.1:4984'', sgn_hostname = PStr ''sg1'', sgn_admin = plain_admin, sgn_config = ''c'',
     sgn_server_port = [], sgn_server_scheme = ''couchbase'', sgn_primary = ''10.0.0.2''\<rparr>"

lemma node_env_props:
  "env_prop node_env ''c'' ''cbs_ssl_enabled'' = Inr (PBool False)" "env_prop node_env ''c'' ''x509_certs'' = Inr (PBool False)"
  "env_prop node_env ''c'' ''xattrs_enabled'' = Inr (PBool True)" "env_prop node_env ''c'' ''number_replicas'' = Inr (PInt 1)"
  "env_prop node_env ''c'' ''sg_use_views'' = Inr (PBool False)" "env_prop node_env ''c'' ''sync_gateway_version'' = Inr (PStr ''3.1.0-592'')"
  "env_prop node_env ''c'' ''revs_limit'' = Inr (PInt 20)" "env_prop node_env ''c'' ''redactlevel'' = raise_exc ''KeyError'' ''redactlevel''"
  "env_prop_or_false node_env ''c'' ''disable_persistent_config'' = Inr (PBool True)"
  "k \<in> {''sync_gateway_ssl'', ''trace_logs'', ''no_conflicts_enabled'', ''delta_sync_enabled'', ''hide_product_version'', ''server_tls_skip_verify'',
     ''disable_tls_server'', ''disable_admin_auth''} \<Longrightarrow> env_prop_or_false node_env ''c'' k = Inr (PBool False)"
  by (auto simp: node_env_def env_prop_def env_prop_or_false_def load_cluster_config_json_def read_json_def py_item_def dict_index_def dict_get_def)

lemmas config_readers = is_cbs_ssl_enabled_def is_x509_auth_def is_xattrs_enabled_def get_sg_replicas_def get_sg_use_views_def get_sg_version_def
  get_revs_limit_def get_redact_level_def no_conflicts_enabled_def sg_ssl_enabled_def is_delta_sync_enabled_def is_hide_prod_version_enabled_def
  is_centralized_persistent_config_disabled_def is_server_tls_skip_verify_enabled_def is_tls_server_disabled_def is_admin_auth_disabled_def
  choose_logging_level_def

lemma node_env_plain: "plain_config node_env ''c'' (PList [PStr ''data-bucket''])"
  by (simp add: plain_config_def plain_answer_def int_answer_def config_readers node_env_props py_first_def list_item_def json_plain_def)

lemmas step_defs = node_vars_def auth_step_def cfg_steps_def x509_step_def cbs_ssl_step_def logging_step_def logging_text_def views_step_def xattrs_step_def
  conflicts_step_def revs_limit_step_def when_step_def feature_steps_def v3_steps_def at_least_def truth_of_def both_def version_from_def home_directory_def
  bucket_user_def py_first_def list_item_def

theorem node_variables_are_json_witness:
  "\<exists>v s' d. node_vars (quiet_prov PNone) ''c'' ''c'' id (PStr ''centos'') (PList [PStr ''data-bucket'']) (start_base (quiet_prov PNone) sample_node ''sg.json'') node_state = (Inr v, s') \<and>
    json_loads bare_runtime (''{'' @ concat (map (\<lambda>k. py_str bare_runtime (var_of v k)) frag_keys) @ dq ''databases'' @ '': '' @ ''{}'' @ ''}'') = Inr (PDict d) \<and>
    dict_get d ''databases'' = Some (PDict [])"
proof -
  obtain v s' where run: "node_vars (quiet_prov PNone) ''c'' ''c'' id (PStr ''centos'') (PList [PStr ''data-bucket''])
      (start_base (quiet_prov PNone) sample_node ''sg.json'') node_state = (Inr v, s')"
    by (simp add: step_defs config_readers node_env_props bindIO_def py_in_str_def)
  have "\<exists>d. json_loads bare_runtime (''{'' @ concat (map (\<lambda>k. py_str bare_runtime (var_of v k)) frag_keys) @ dq ''databases'' @ '': '' @ ''{}'' @ ''}'') = Inr (PDict d) \<and>
      dict_get d ''databases'' = Some (PDict [])"
    by (rule node_variables_are_json [where sg = sample_node and config = "''sg.json''", OF _ _ _ run]) (simp_all add: node_env_plain json_plain_def node_env_def [THEN arg_cong [where f = env_runtime]])
  with run show ?thesis by blast
qed


section \<open>The certificate path of a redeployment\<close>

text \<open>A member whose value is followed by anything but a comma or a closing brace.\<close>

lemma redeploy_certpath_po:
  assumes "home_directory platform = Inr h"
  shows "po rt (redeploy_certpath platform h @ rest) = None"
  using assms
proof (cases rule: home_directory_cases)
  case 1
  then show ?thesis by (simp add: redeploy_certpath_def Let_def json_eval)
next
  case 2
  then show ?thesis by (simp add: redeploy_certpath_def Let_def json_eval windows_home_def replace_str_chr json_unesc_def)
next
  case 3
  then show ?thesis by (simp add: redeploy_certpath_def Let_def json_eval)
qed

lemma redeploy_certpath_unreadable:
  assumes "home_directory platform = Inr h"
  shows "\<exists>e. json_loads rt (''{'' @ redeploy_certpath platform h @ rest) = Inl e"
proof -
  obtain w where w: "redeploy_certpath platform h = chr_dquote # w"
    by (cases "platform = PStr ''windows''") (simp_all add: redeploy_certpath_def Let_def dq_def replace_str_chr)
  have "pv rt (''{'' @ redeploy_certpath platform h @ rest) = None"
    using redeploy_certpath_po [OF assms, of rt rest] by (simp add: w skip_ws_quote pv.simps)
  then show ?thesis by (simp add: json_loads_def skip_ws_def is_ws_def)
qed


definition x509_env :: environment where
  "x509_env = \<lparr>env_vars = [], env_files = [(''c.json'', JsonFile (PDict [(''environment'', PDict [(''x509_certs'', PBool True), (''server_version'', PStr ''7.0.2'')]),
     (''couchbase_servers'', PList [PDict [(''ip'', PStr ''10.0.0.2'')]])])), (''ansible.cfg'', TextFile [])], env_runtime = bare_runtime\<rparr>"

lemma x509_env_props:
  "load_cluster_config_json x509_env ''c'' = Inr (PDict [(''environment'', PDict [(''x509_certs'', PBool True), (''server_version'', PStr ''7.0.2'')]),
     (''couchbase_servers'', PList [PDict [(''ip'', PStr ''10.0.0.2'')]])])"
  "read_text t x509_env ''ansible.cfg'' = Inr []" "env_runtime x509_env = bare_runtime"
  by (simp_all add: x509_env_def load_cluster_config_json_def read_json_def dict_get_def read_text_def)

lemma x509_env_certs: "generate_x509_certs (quiet_prov x) ''c'' (PList [PStr b]) (PStr ''centos'') (\<lparr>ps_env = x509_env, ps_default_vars = d\<rparr>, w) =
    (Inr (), (\<lparr>ps_env = x509_env, ps_default_vars = d\<rparr>, w))"
proof -
  have ips: "group_ips (PDict [(''environment'', PDict [(''x509_certs'', PBool True), (''server_version'', PStr ''7.0.2'')]),
     (''couchbase_servers'', PList [PDict [(''ip'', PStr ''10.0.0.2'')]])]) ''couchbase_servers'' = Inr [PStr ''10.0.0.2'']"
    by (simp add: group_ips_def py_item_def dict_index_def)
  have version: "get_cbs_version x509_env ''c'' = Inr (PStr ''7.0.2'')"
    by (simp add: get_cbs_version_def env_prop_def x509_env_props py_item_def dict_index_def)
  have san: "san_line bare_runtime 0 (PStr ''10.0.0.2'') = Inr (''IP.1 = 10.0.0.2'' @ nl)"
    by code_simp
  show ?thesis
    by (simp add: generate_x509_certs_def bindIO_def version x509_env_props str_attr_def ips san py_first_def list_item_def)
qed


end
