(* ===== verification/Provision_Checks.thy ===== *)
theory Provision_Checks
  imports Sg_Fragments
begin

text \<open>
  What the checks after an installation establish: the versions that Sync Gateways report, and how long the kit waits for
  documents that are imported.
\<close>

section \<open>Runs that return\<close>

text \<open>Operations that leave the configuration files and the default variables as they are.\<close>

definition reading :: "('s \<times> 'w, 'a) io \<Rightarrow> bool" where
  "reading m \<longleftrightarrow> (\<forall>s r s'. m s = (r, s') \<longrightarrow> fst s' = fst s)"

named_theorems reads

lemma readingD: "reading m \<Longrightarrow> m s = (r, s') \<Longrightarrow> fst s' = fst s"
  unfolding reading_def by blast

lemma reading_basic [reads]: "reading (returnIO a)" "reading (raiseIO e)" "reading (liftIO x)" "reading (on_world m)" "reading (self_get f)"
  by (auto simp: reading_def on_world_def self_get_def split: prod.splits)

lemma reading_cfg [reads]: "reading (cfg g)"
  by (simp add: reading_def)

lemma reading_bind [reads]: "reading m \<Longrightarrow> (\<And>a. reading (f a)) \<Longrightarrow> reading (bindIO m f)"
  unfolding reading_def by (intro allI impI, erule bindIO_cases) metis+

lemma reading_for [reads]: "(\<And>x. reading (f x)) \<Longrightarrow> reading (forIO xs f)"
  by (induction xs) (auto intro: reads)

lemma reading_if [reads]: "reading m \<Longrightarrow> reading n \<Longrightarrow> reading (if b then m else n)"
  by simp

section \<open>The versions that are running\<close>

definition accepted_version :: "string \<Rightarrow> string \<times> string \<Rightarrow> bool" where
  "accepted_version expected running \<longleftrightarrow>
     (if version_is_binary expected then fst running = expected \<and> startswith expected (snd running) else fst running = take 7 expected)"

lemma compare_running_iff: "compare_running expected running = Inr () \<longleftrightarrow> accepted_version expected running"
  by (cases running) (simp add: compare_running_def accepted_version_def unexpected_version_def)

text \<open>The hosts are asked one after the other, and each is what is expected.\<close>

fun verified_in_turn :: "'w prov_ops \<Rightarrow> string \<Rightarrow> string list \<Rightarrow> prov_state \<times> 'w \<Rightarrow> prov_state \<times> 'w \<Rightarrow> bool" where
  "verified_in_turn ops expected [] s s' \<longleftrightarrow> s' = s"
| "verified_in_turn ops expected (h # hs) s s' \<longleftrightarrow> (\<exists>s1 s2 running. verify_sync_gateway_product_info ops h s = (Inr (), s1) \<and>
     get_sync_gateway_version ops h s1 = (Inr running, s2) \<and> accepted_version expected running \<and> verified_in_turn ops expected hs s2 s')"

lemma verify_sync_gateway_version_iff:
  "with_released_build expected = Inr b \<Longrightarrow> verify_sync_gateway_version ops h expected s = (Inr (), s') \<longleftrightarrow>
    (\<exists>running. get_sync_gateway_version ops h s = (Inr running, s') \<and> accepted_version b running)"
  by (cases s') (auto simp: verify_sync_gateway_version_def bindIO_eq_Inr compare_running_iff)

lemma split_chr_snoc: "c \<notin> set b \<Longrightarrow> split_chr c (a @ c # b) = split_chr c a @ [b]"
  by (induction a) (auto simp: split_chr_notin hd_append tl_append2)

lemma released_build_plain: "dict_index sg_released_version v = Inr b \<Longrightarrow> CHR ''-'' \<notin> set b"
  by (auto simp: dict_index_def dict_get_def sg_released_version_def split: if_splits)

text \<open>A version that the cluster check completes is complete for the check of a Sync Gateway.\<close>

lemma expected_with_build_released:
  assumes "expected_with_build e = Inr x"
  shows "\<exists>b. with_released_build x = Inr b"
proof (cases "version_and_build e")
  case (Pair v n)
  show ?thesis
  proof (cases n)
    case None
    then obtain b where b: "dict_index sg_released_version v = Inr b" "x = e @ ''-'' @ b"
      using assms Pair by (auto simp: expected_with_build_def bindR_eq_Inr)
    have "split_chr CHR ''-'' x = split_chr CHR ''-'' e @ [b]"
      using split_chr_snoc [OF released_build_plain [OF b(1)]] b(2) by simp
    then have "fst (version_and_build x) = v"
      using Pair None by (auto simp: version_and_build_def Let_def nth_append split: if_splits)
    with b(1) show ?thesis by (cases "version_and_build x") (auto simp: with_released_build_def split: option.splits)
  qed (use assms Pair in \<open>auto simp: expected_with_build_def with_released_build_def\<close>)
qed

definition check_gateway :: "'w prov_ops \<Rightarrow> py_runtime \<Rightarrow> pyval \<Rightarrow> string \<Rightarrow> pyval \<Rightarrow> ('w, unit) prov" where
  "check_gateway ops rt c x sg = bindIO (liftIO (v6_host rt c sg)) (\<lambda>host.
     bindIO (verify_sync_gateway_product_info ops host) (\<lambda>_. verify_sync_gateway_version ops host x))"

lemma check_gateway_iff:
  assumes "with_released_build x = Inr b"
  shows "check_gateway ops rt c x sg s = (Inr (), s') \<longleftrightarrow> (\<exists>h. v6_host rt c sg = Inr h \<and> verified_in_turn ops b [h] s s')"
  by (cases "v6_host rt c sg"; cases s') (auto simp: check_gateway_def bindIO_eq_Inr verify_sync_gateway_version_iff [OF assms])

lemma verified_in_turn_append: "verified_in_turn ops b (hs @ hs') s s' \<longleftrightarrow> (\<exists>s1. verified_in_turn ops b hs s s1 \<and> verified_in_turn ops b hs' s1 s')"
  by (induction hs arbitrary: s) (auto; blast)+

lemma gateways_verified:
  assumes "with_released_build x = Inr b" and "forIO sgs (check_gateway ops rt c x) s = (Inr (), s')"
  shows "\<exists>hosts. mapR (v6_host rt c) sgs = Inr hosts \<and> verified_in_turn ops b hosts s s'"
  using assms(2)
proof (induction sgs arbitrary: s)
  case (Cons sg sgs)
  from Cons.prems obtain s1 where s1: "check_gateway ops rt c x sg s = (Inr (), s1)" and rest: "forIO sgs (check_gateway ops rt c x) s1 = (Inr (), s')"
    by (auto simp: bindIO_eq_Inr)
  from s1 obtain h where h: "v6_host rt c sg = Inr h" "verified_in_turn ops b [h] s s1" using check_gateway_iff [OF assms(1)] by blast
  from Cons.IH [OF rest] obtain hosts where "mapR (v6_host rt c) sgs = Inr hosts" "verified_in_turn ops b hosts s1 s'" by blast
  then show ?case using h verified_in_turn_append [of ops b "[h]" hosts s s'] by auto
qed simp

lemmas check_defs = verify_sync_gateway_product_info_def verify_sg_accel_product_info_def verify_sync_gateway_version_def verify_sg_accel_version_def
  get_sync_gateway_version_def get_sg_accel_version_def ask_admin_port_def

lemma reading_checks [reads]: "reading (verify_sync_gateway_product_info ops h)" "reading (verify_sg_accel_product_info ops h)"
  "reading (verify_sync_gateway_version ops h e)" "reading (verify_sg_accel_version ops h e)"
  by (auto simp: check_defs intro!: reads)

lemma verify_cluster_versions_sound:
  assumes "ClusterKeywords_verify_cluster_versions ops cc server_version sg_version s = (Inr (), s')"
  shows "fst s' = fst s \<and> (\<exists>c hosts b s1 s2. read_json (ps_env (fst s)) (cc @ ''.json'') = Inr c \<and>
    bindR (members_of c ''sync_gateways'') (mapR (v6_host (http_runtime (po_http ops)) c)) = Inr hosts \<and>
    bindR (expected_with_build sg_version) with_released_build = Inr b \<and> fst s1 = fst s \<and> verified_in_turn ops b hosts s1 s2)"
proof -
  let ?rt = "http_runtime (po_http ops)"
  have "reading (ClusterKeywords_verify_cluster_versions ops cc server_version sg_version)"
    by (auto simp: ClusterKeywords_verify_cluster_versions_def Let_def intro!: reads)
  then have same: "fst s' = fst s" using assms by (rule readingD)
  from assms obtain c servers ssl s1 x sgs s2 where
    c: "read_json (ps_env (fst s)) (cc @ ''.json'') = Inr c" and
    servers: "forIO servers (\<lambda>server. bindIO (liftIO (v6_host ?rt c server)) (\<lambda>host.
       bindIO (self_get ps_env) (\<lambda>env. on_world (verify_server_version (cbs_env_of ops env) host server_version ssl)))) s = (Inr (), s1)" and
    x: "expected_with_build sg_version = Inr x" and sgs: "members_of c ''sync_gateways'' = Inr sgs" and
    run: "forIO sgs (check_gateway ops ?rt c x) s1 = (Inr (), s2)"
    unfolding check_gateway_def [abs_def]
    by (auto simp: ClusterKeywords_verify_cluster_versions_def Let_def bindIO_eq_Inr)
  from expected_with_build_released [OF x] obtain b where b: "with_released_build x = Inr b" ..
  have "reading (forIO servers (\<lambda>server. bindIO (liftIO (v6_host ?rt c server)) (\<lambda>host.
       bindIO (self_get ps_env) (\<lambda>env. on_world (verify_server_version (cbs_env_of ops env) host server_version ssl)))))"
    by (auto intro!: reads)
  then have "fst s1 = fst s" using servers by (rule readingD)
  moreover obtain hosts where "mapR (v6_host ?rt c) sgs = Inr hosts" "verified_in_turn ops b hosts s1 s2"
    using gateways_verified [OF b run] by blast
  ultimately show ?thesis
    using c x sgs b same by (intro conjI exI [of _ c] exI [of _ hosts] exI [of _ b] exI [of _ s1] exI [of _ s2]) simp_all
qed

text \<open>The keyword that provisions a cluster returns after this check, of the cluster as it has been provisioned.\<close>

lemma provisioned_cluster_verified:
  assumes "ClusterKeywords_provision_cluster ops cc (Some server_version) (Some sg_version) config race a fuel s = Some (Inr (), s')"
  shows "\<exists>build s0. race_build sg_version config race = Inr build \<and>
    provision_cluster ops cc (CouchbaseServerConfig_init server_version) build (a\<lparr>pa_aws := False\<rparr>) fuel s = Some (Inr (), s0) \<and>
    ClusterKeywords_verify_cluster_versions ops cc server_version sg_version s0 = (Inr (), s')"
  using assms unfolding ClusterKeywords_provision_cluster_def
  by (auto simp: bindD_def liftD_def split: option.splits prod.splits sum.splits)


text \<open>A cluster with one Sync Gateway, which reports its release.\<close>

definition release_info :: pyval where
  "release_info = PDict [(''vendor'', PDict [(''name'', PStr ''Couchbase Sync Gateway''), (''version'', PStr ''3.1'')]),
     (''version'', PStr ''Couchbase Sync Gateway/3.1.0(592;49cb8b5) EE'')]"

definition release_prov :: "rat prov_ops" where
  "release_prov = (quiet_prov PNone)\<lparr>po_cbs := plain_cbs \<lparr>http_send = (\<lambda>_. returnIO ((text_response 200 (json_text release_info))
     \<lparr>rs_headers := [(''server'', ''Couchbase Sync Gateway/3.1.0 EE'')]\<rparr>)), http_runtime = bare_runtime\<rparr> step_clock\<rparr>"

definition release_cluster :: pyval where
  "release_cluster = PDict [(''environment'', PDict [(''cbs_ssl_enabled'', PBool False), (''ipv6_enabled'', PBool False)]),
     (''couchbase_servers'', PList []), (''sync_gateways'', PList [target_of (PStr ''sg1'') (PStr ''10.0.0.1'')]), (''sg_accels'', PList [])]"

definition release_state :: "prov_state \<times> rat" where
  "release_state = (\<lparr>ps_env = \<lparr>env_vars = [(''CLUSTER_CONFIG'', ''c'')], env_files = [(''c.json'', JsonFile release_cluster)], env_runtime = bare_runtime\<rparr>,
     ps_default_vars = []\<rparr>, 0)"

lemma release_files [simp]: "read_json (ps_env (fst release_state)) ''c.json'' = Inr release_cluster"
  "sg_scheme (ps_env (fst release_state)) = Inr ''http''"
  by (simp_all add: release_state_def read_json_def dict_get_def sg_scheme_def get_environ_def sg_ssl_enabled_def env_prop_or_false_def
      load_cluster_config_json_def release_cluster_def dict_index_def truth_of_def)

lemma release_members [simp]:
  "members_of release_cluster ''couchbase_servers'' = Inr []" "members_of release_cluster ''sg_accels'' = Inr []"
  "members_of release_cluster ''sync_gateways'' = Inr [target_of (PStr ''sg1'') (PStr ''10.0.0.1'')]"
  "env_of release_cluster ''cbs_ssl_enabled'' = Inr (PBool False)" "env_of release_cluster ''ipv6_enabled'' = Inr (PBool False)"
  by (simp_all add: release_cluster_def members_of_def dict_index_def dict_get_def py_iter_def py_item2_def)

lemma release_host [simp]: "v6_host rt release_cluster (target_of (PStr ''sg1'') (PStr ip)) = Inr ip"
  by (simp add: v6_host_def truth_of_def)

lemma release_json [simp]: "json_loads bare_runtime (json_text release_info) = Inr release_info"
proof -
  have "json_ok release_info" by code_simp
  then show ?thesis by (rule json_text_loads)
qed

lemma release_version: "running_version_formatted ''Couchbase Sync Gateway/3.1.0(592;49cb8b5) EE'' = Inr ''3.1.0-592''"
  by (simp add: running_version_formatted_def list_item_def)

lemma release_expected: "expected_with_build ''3.1.0'' = Inr ''3.1.0-592''" "with_released_build ''3.1.0-592'' = Inr ''3.1.0-592''"
  by (simp_all add: expected_with_build_def with_released_build_def version_and_build_def sg_released_version_def dict_index_def dict_get_def)

definition release_response :: http_response where
  "release_response = (text_response 200 (json_text release_info))\<lparr>rs_headers := [(''server'', ''Couchbase Sync Gateway/3.1.0 EE'')]\<rparr>"

lemma release_send [simp]: "on_world (checked (http_send (po_http release_prov) r)) = returnIO release_response" "http_runtime (po_http release_prov) = bare_runtime"
  by (auto simp: release_prov_def plain_cbs_def checked_def release_response_def text_response_def raise_for_status_def http_error_text_def on_world_def bindIO_def intro!: ext)

lemma release_answer [simp]: "resp_json (po_http release_prov) release_response = Inr release_info"
  by (simp add: resp_json_def release_response_def text_response_def)

lemma release_cfg [simp]: "bindIO (cfg sg_scheme) g release_state = g ''http'' release_state"
  "bindIO (cfg (\<lambda>env. read_json env ''c.json'')) g' release_state = g' release_cluster release_state"
  by (simp_all add: bindIO_def)

lemma release_fields [simp]: "py_item2 release_info ''vendor'' ''name'' = Inr (PStr ''Couchbase Sync Gateway'')"
  "py_item2 release_info ''vendor'' ''version'' = Inr (PStr ''3.1'')" "py_item release_info ''version'' = Inr (PStr ''Couchbase Sync Gateway/3.1.0(592;49cb8b5) EE'')"
  "dict_index (rs_headers release_response) ''server'' = Inr ''Couchbase Sync Gateway/3.1.0 EE''"
  by (simp_all add: release_info_def release_response_def py_item2_def dict_index_def dict_get_def)

lemma release_checks [simp]: "verify_sync_gateway_product_info release_prov h release_state = (Inr (), release_state)"
  "get_sync_gateway_version release_prov h release_state = (Inr (''3.1.0-592'', ''3.1''), release_state)"
  by (simp_all add: check_defs check_product_def release_version bindIO_assoc)


text \<open>
  A build from source cannot be verified: for a commit, which has neither a dash nor a dot, the check of the version
  raises \<open>KeyError\<close> before the Sync Gateway is asked, since it looks for the commit in the table of releases. The
  comparison of the first seven characters of a commit is never reached.
\<close>

theorem commit_never_verified:
  assumes "CHR ''-'' \<notin> set commit" "CHR ''.'' \<notin> set commit"
  shows "verify_sync_gateway_version ops host commit s = (raise_exc ''KeyError'' commit, s)"
proof -
  have "list_all (\<lambda>k. CHR ''.'' \<in> set k) (dict_keys sg_released_version)" by code_simp
  with assms(2) have "map_of sg_released_version commit = None" by (auto simp: list_all_iff map_of_eq_None_iff)
  moreover have "version_and_build commit = (commit, None)" using assms(1) by (simp add: version_and_build_def split_chr_notin)
  ultimately show ?thesis by (simp add: verify_sync_gateway_version_def with_released_build_def dict_index_def)
qed

theorem commit_never_verified_witness:
  "verify_sync_gateway_version release_prov ''10.0.0.1'' ''49cb8b5'' release_state = (raise_exc ''KeyError'' ''49cb8b5'', release_state)"
  by (rule commit_never_verified) simp_all

section \<open>Waiting for documents that are imported\<close>

interpretation import_wait: ranked_loop "\<lambda>_. True" "import_round http clk url sg_db expected_docs prev_import_count auth timeout"
  "\<lambda>k w. True" "\<lambda>k w. Suc timeout - k" for http :: "'w http" and clk url sg_db expected_docs prev_import_count auth timeout
  by unfold_locales (auto simp: import_round_def bindIO_eq_Inr split: if_splits)

text \<open>A Sync Gateway that always tells how many documents it has imported, and a clock that does not fail.\<close>

definition import_answers :: "'w http \<Rightarrow> 'w clock \<Rightarrow> string \<Rightarrow> string \<Rightarrow> auth \<Rightarrow> bool" where
  "import_answers http clk url sg_db auth \<longleftrightarrow>
     (\<forall>w. \<exists>e n w'. get_expvars http url auth w = (Inr e, w') \<and> bindR (import_count_of e sg_db) number = Inr n) \<and> (\<forall>w. \<exists>w'. clk_sleep clk 1 w = (Inr (), w'))"

lemma while_io_no_raise:
  assumes "\<And>s w. \<exists>x w'. b s w = (Inr x, w')" "while_io g b n s w = Some (r, w')"
  shows "\<exists>s'. r = Inr s'"
  using assms(2)
proof (induction n arbitrary: s w)
  case (Suc n)
  obtain go s1 w1 where "b s w = (Inr (go, s1), w1)" using assms(1) [of s w] by auto
  with Suc show ?case by (auto split: if_splits)
qed simp

lemma import_round_answers:
  assumes "import_answers http clk url sg_db auth"
  shows "\<exists>x w'. import_round http clk url sg_db expected_docs prev_import_count auth timeout k w = (Inr x, w')"
proof -
  from assms obtain e n v where "get_expvars http url auth w = (Inr e, v)" "bindR (import_count_of e sg_db) number = Inr n"
    unfolding import_answers_def by blast
  moreover from assms obtain v' where "clk_sleep clk 1 v = (Inr (), v')" unfolding import_answers_def by blast
  ultimately show ?thesis by (auto simp: import_round_def bindIO_Inr)
qed

definition no_imports :: pyval where
  "no_imports = PDict [(''syncgateway'', PDict [(''per_db'', PDict [(''db'', PDict [(''shared_bucket_import'', PDict [(''import_count'', PInt 0)])])])])]"

text \<open>
  Waiting for documents to be imported ends: whatever Sync Gateway answers, two rounds more than there are seconds in the
  timeout are enough. If Sync Gateway tells how many documents it has imported, the wait returns normally, whether they are
  as many as expected or not: a test cannot tell from it that the documents have arrived.
\<close>

theorem wait_imported_returns:
  assumes "timeout + 2 \<le> fuel"
  shows "\<exists>r w'. wait_until_docs_imported_from_server http clk url sg_db expected_docs prev_import_count auth timeout fuel w = Some (r, w') \<and>
    (import_answers http clk url sg_db auth \<longrightarrow> r = Inr ())"
proof -
  let ?loop = "while_io (\<lambda>_. True) (import_round http clk url sg_db expected_docs prev_import_count auth timeout) fuel 0"
  have "\<forall>v. \<exists>q. ?loop v = Some q" by (intro allI import_wait.returns) (use assms in simp_all)
  from choice [OF this] obtain q where loop: "?loop v = Some (fst (q v), snd (q v))" for v by auto
  have "q v \<noteq> (Inl e, v')" if "import_answers http clk url sg_db auth" for v e v'
    using while_io_no_raise [OF import_round_answers [OF that] loop, of v] by auto
  moreover have "\<exists>c v. bindIO (get_expvars http url auth) (\<lambda>e. liftIO (import_count_of e sg_db)) w = (Inr c, v)"
    if answers: "import_answers http clk url sg_db auth"
  proof -
    from answers obtain e n v where "get_expvars http url auth w = (Inr e, v)" "bindR (import_count_of e sg_db) number = Inr n"
      unfolding import_answers_def by blast
    then show ?thesis by (auto simp: bindIO_Inr bindR_eq_Inr)
  qed
  ultimately show ?thesis
    by (auto simp: wait_until_docs_imported_from_server_def bindD_def liftD_def loop split: prod.splits sum.splits) 
qed

text \<open>A Sync Gateway that has imported nothing.\<close>

theorem wait_imported_returns_witness:
  "(\<exists>r w'. wait_until_docs_imported_from_server (quiet_http (json_text no_imports)) step_clock ''http://h:4985'' ''db'' 10 0 NoAuth 3 5 0 = Some (r, w') \<and> r = Inr ())"
proof -
  have "json_ok no_imports" by code_simp
  then have "get_expvars (quiet_http (json_text no_imports)) url NoAuth w = (Inr no_imports, w)" for url and w :: rat
    by (simp add: get_expvars_def send_basic_def basic_auth_def quiet_http_json)
  moreover have "bindR (import_count_of no_imports ''db'') number = Inr 0"
    by (simp add: import_count_of_def no_imports_def py_item2_def dict_index_def dict_get_def number_def)
  ultimately have "import_answers (quiet_http (json_text no_imports)) step_clock ''http://h:4985'' ''db'' NoAuth"
    by (simp add: import_answers_def step_clock_def)
  with wait_imported_returns [of 3 5 "quiet_http (json_text no_imports)" step_clock "''http://h:4985''" "''db''" 10 0 NoAuth 0] show ?thesis by simp
qed

end
