(* ===== verification/Launch_Checks.thy ===== *)
theory Launch_Checks
  imports Launch_Factories Provision_Checks
begin

text \<open>
  What holds of the launchers: when waiting for a service ends and how, which running versions the checks accept, what the
  factory of the test servers makes, and the two launchers that cannot work, the installation on an emulator and the
  test server on Mono.
\<close>

section \<open>Waiting for a service\<close>

text \<open>The world after \<open>k\<close> requests that were refused, each followed by a nap.\<close>

fun refused :: "'w launch_ops \<Rightarrow> string \<Rightarrow> rat \<Rightarrow> nat \<Rightarrow> 'w \<Rightarrow> 'w option" where
  "refused lo url d 0 w = Some w"
| "refused lo url d (Suc k) w = (case http_send (po_http (ln_prov lo)) (rq ''GET'' url) w of
       (Inl e, w1) \<Rightarrow> if exn_class e = ''ConnectionError'' then
           (case clk_sleep (ce_clock (po_cbs (ln_prov lo))) d w1 of (Inr _, w2) \<Rightarrow> refused lo url d k w2 | _ \<Rightarrow> None) else None
     | _ \<Rightarrow> None)"

text \<open>The answer to the request after \<open>k\<close> refused ones.\<close>

definition answered :: "'w launch_ops \<Rightarrow> string \<Rightarrow> rat \<Rightarrow> nat \<Rightarrow> 'w \<Rightarrow> http_response \<Rightarrow> 'w \<Rightarrow> bool" where
  "answered lo url d k w resp w' \<longleftrightarrow> (case refused lo url d k w of None \<Rightarrow> False
     | Some w1 \<Rightarrow> http_send (po_http (ln_prov lo)) (rq ''GET'' url) w1 = (Inr resp, w'))"

lemmas launch_simps = bindIO_def tryIO_def outside_def on_world_def session_get_def pause_def nap_def

lemma reach_step:
  "reach_tries lo url d msg (Suc n) (ts, p, w) =
     (case http_send (po_http (ln_prov lo)) (rq ''GET'' url) w of
        (Inr resp, w1) \<Rightarrow> (Inr resp, (ts, p, w1))
      | (Inl e, w1) \<Rightarrow> if exn_class e = ''ConnectionError'' then
          (case clk_sleep (ce_clock (po_cbs (ln_prov lo))) d w1 of
             (Inl e, w2) \<Rightarrow> (Inl e, (ts, p, w2)) | (Inr _, w2) \<Rightarrow> reach_tries lo url d msg n (ts, p, w2))
          else (Inl e, (ts, p, w1)))"
  by (simp add: launch_simps split: prod.splits sum.splits)

lemma ex_less_Suc: "(\<exists>k. k < Suc n \<and> P k) \<longleftrightarrow> P 0 \<or> (\<exists>k. k < n \<and> P (Suc k))"
  using less_Suc_eq_0_disj by auto

lemma reach_tries_returns:
  "reach_tries lo url d msg n (ts, p, w) = (Inr resp, s') \<longleftrightarrow> (\<exists>k. k < n \<and> (\<exists>w'. answered lo url d k w resp w' \<and> s' = (ts, p, w')))"
proof (induction n arbitrary: w)
  case (Suc n)
  show ?case unfolding reach_step ex_less_Suc
    by (auto simp: Suc answered_def split: prod.splits sum.splits if_splits)
qed simp

lemma reach_tries_gives_up:
  "refused lo url d n w = Some w1 \<Longrightarrow> reach_tries lo url d msg n (ts, p, w) = (Inl (LiteServError msg), (ts, p, w1))"
proof (induction n arbitrary: w)
  case (Suc n)
  then show ?case unfolding reach_step by (auto split: prod.splits sum.splits if_splits)
qed simp

text \<open>
  C34: Waiting for a test server is bounded and exact. \<open>_wait_until_reachable\<close> returns \<open>True\<close> if and only if one of the
  first ten requests, each after a pause of two seconds behind a refused one, is answered, whatever the status of the
  answer, and the object is left as it was. When ten requests are refused it raises \<open>LiteServError\<close>.
\<close>

theorem wait_until_reachable_outcome:
  fixes ts :: "'x test_server_scheme"
  shows "(TestServerBase_wait_until_reachable lo port (ts, p, w) = (Inr v, s') \<longleftrightarrow>
      v = PBool True \<and> (\<exists>k. k < 10 \<and> (\<exists>resp w'. answered lo (server_url lo (ts_host ts) (chosen_port port (ts_port ts))) 2 k w resp w' \<and> s' = (ts, p, w')))) \<and>
    (case refused lo (server_url lo (ts_host ts) (chosen_port port (ts_port ts))) 2 10 w of None \<Rightarrow> True
     | Some w1 \<Rightarrow> TestServerBase_wait_until_reachable lo port (ts, p, w) = (Inl (LiteServError ''Could not connect to Test server app''), (ts, p, w1)))"
proof -
  let ?u = "server_url lo (ts_host ts) (chosen_port port (ts_port ts))" and ?m = "''Could not connect to Test server app''"
  have "TestServerBase_wait_until_reachable lo port (ts, p, w) = (Inr v, s') \<longleftrightarrow>
      v = PBool True \<and> (\<exists>resp. reach_tries lo ?u 2 ?m 10 (ts, p, w) = (Inr resp, s'))"
    by (cases s') (auto simp: TestServerBase_wait_until_reachable_def MAX_RETRIES_def bindIO_eq_Inr)
  moreover have "TestServerBase_wait_until_reachable lo port (ts, p, w) = (Inl (LiteServError ?m), (ts, p, w1))"
    if "refused lo ?u 2 10 w = Some w1" for w1
    using bindIO_Inl [of "reach_tries lo ?u 2 ?m 10", OF reach_tries_gives_up [OF that]] by (simp add: TestServerBase_wait_until_reachable_def MAX_RETRIES_def)
  ultimately show ?thesis unfolding reach_tries_returns by (auto split: option.split)
qed

section \<open>The test server on Mono\<close>

lemma reading_try [reads]: "reading m \<Longrightarrow> (\<And>e. reading (h e)) \<Longrightarrow> reading (tryIO m h)"
  unfolding reading_def tryIO_def by (fastforce split: prod.splits sum.splits)

lemma reading_verify_not_running: "reading (TestServerBase_verify_not_running lo)"
  unfolding TestServerBase_verify_not_running_def connects_def session_get_def outside_def by (intro reads)

lemma wait_returns_True: "TestServerBase_wait_until_reachable lo port s = (Inr v, s') \<Longrightarrow> v = PBool True"
  by (auto simp: TestServerBase_wait_until_reachable_def bindIO_eq_Inr)

lemma verify_net_True: "verify_net rt start invalid n (PBool True) v = Inr () \<Longrightarrow> False"
  by (simp add: verify_net_def py_item2_def py_item_def as_dict_def bindR_eq_Inr)

text \<open>
  C38: The test server on Mono cannot be started: neither \<open>start\<close> nor \<open>_verify_launched\<close> of an object that the constructor
  made ever returns normally, whatever the machine answers. \<open>start\<close> reads a storage engine that the base class does not have, and
  the check looks into the \<open>True\<close> that waiting returns.
\<close>

theorem mono_server_never_starts:
  "isl (fst (TestServerNetMono_start lo logfile_name (TestServerNetMono_init version_build host port, s))) \<and>
   isl (fst (TestServerNetMono_verify_launched lo (TestServerNetMono_init version_build host port, s)))"
proof -
  have "TestServerNetMono_start lo logfile_name (TestServerNetMono_init version_build host port, s) \<noteq> (Inr a, s')" for a s'
    by (auto simp: TestServerNetMono_start_def mono_start_def bindIO_eq_Inr storage_of_def attr_def TestServerNetMono_init_def self_get_def
        dest!: readingD [OF reading_verify_not_running] split: option.splits)
  moreover have "TestServerNetMono_verify_launched lo (TestServerNetMono_init version_build host port, s) \<noteq> (Inr a, s')" for a s'
    by (auto simp: TestServerNetMono_verify_launched_def mono_verify_def bindIO_eq_Inr dest!: wait_returns_True verify_net_True)
  ultimately show ?thesis by (metis isl_def prod.collapse sum.exhaust)
qed

section \<open>The version of a running program\<close>

lemma split_any_field: "set a \<inter> cs = {} \<Longrightarrow> c \<in> cs \<Longrightarrow> split_any cs (a @ c # b) = a # split_any cs b"
  by (induction a) auto

lemma split_any_last: "set a \<inter> cs = {} \<Longrightarrow> split_any cs a = [a]"
  by (induction a) auto

text \<open>A field of the version text.\<close>

definition plain_field :: "string \<Rightarrow> bool" where
  "plain_field s \<longleftrightarrow> set s \<inter> set '' /-'' = {}"

text \<open>The text that LiteServ on Mono reports, with the build padded with zeros.\<close>

definition mono_version :: "string \<Rightarrow> string \<Rightarrow> string \<Rightarrow> nat list \<Rightarrow> string \<Rightarrow> string" where
  "mono_version os arch version ds commit = ''.NET'' @ CHR '' '' # ''OS'' @ CHR '' '' # ''X'' @ CHR '' '' # os @ CHR ''/'' # arch @ CHR '' '' #
     version @ CHR ''-'' # (''build'' @ map digit_chr ds) @ CHR ''/'' # commit"

lemma digit_not_sep: "d < 10 \<Longrightarrow> digit_chr d \<notin> set '' /-'' \<and> digit_chr d \<notin> set ''build''"
  using is_digit_chr [of d] by (auto simp: is_digit_def)

lemma split_mono_version:
  assumes "plain_field os" "plain_field arch" "plain_field version" "plain_field commit" "digits ds"
  shows "split_any (set '' /-'') (mono_version os arch version ds commit) =
     [''.NET'', ''OS'', ''X'', os, arch, version, ''build'' @ map digit_chr ds, commit]"
proof -
  have "plain_field (''build'' @ map digit_chr ds)" using assms(5) digit_not_sep by (fastforce simp: plain_field_def)
  moreover have "plain_field ''.NET''" "plain_field ''OS''" "plain_field ''X''" by (simp_all add: plain_field_def)
  ultimately show ?thesis
    using assms unfolding mono_version_def plain_field_def by (simp add: split_any_field split_any_last del: append.simps append_assoc)
qed

lemma strip_build: "digits ds \<Longrightarrow> strip_chars ''build'' (''build'' @ map digit_chr ds) = map digit_chr ds"
proof -
  assume "digits ds"
  then have *: "c \<notin> set ''build''" if "c \<in> set (map digit_chr ds)" for c using that digit_not_sep by auto
  have keep: "dropWhile (\<lambda>c. c \<in> set ''build'') xs = xs" if "set xs \<subseteq> set (map digit_chr ds)" for xs
    unfolding dropWhile_eq_self_iff using that * by (meson hd_in_set subsetD)
  have "dropWhile (\<lambda>c. c \<in> set ''build'') (''build'' @ map digit_chr ds) = dropWhile (\<lambda>c. c \<in> set ''build'') (map digit_chr ds)" by simp
  then have "strip_chars ''build'' (''build'' @ map digit_chr ds) = rstrip_chars ''build'' (map digit_chr ds)"
    unfolding strip_chars_def by (simp only: keep [OF subset_refl])
  also have "\<dots> = map digit_chr ds" unfolding rstrip_chars_def using keep [of "rev (map digit_chr ds)"] by (simp only: set_rev subset_refl rev_rev_ident)
  finally show ?thesis .
qed

lemma net_version_mono:
  assumes "plain_field os" "plain_field arch" "plain_field version" "plain_field commit" "digits ds" "ds \<noteq> []"
  shows "net_version 5 (mono_version os arch version ds commit) = Inr (version @ ''-'' @ nat_str (digits_val (map digit_chr ds)))"
  using strip_build [OF assms(5)] unfolding net_version_def split_mono_version [OF assms(1-5)] Let_def
  by (simp add: list_item_def py_int_of_digits [OF assms(5,6)] int_str_def)

lemma reading_wait: "reading (LiteServBase_wait_until_reachable lo port)"
proof -
  have "reading (reach_tries lo url d msg n)" for url d msg n
  proof (induction n)
    case (Suc n)
    then show ?case unfolding reach_tries.simps session_get_def outside_def pause_def nap_def by (intro reads) (auto intro: reads split: option.splits)
  qed (simp add: reading_def)
  then show ?thesis unfolding LiteServBase_wait_until_reachable_def by (intro reads)
qed

text \<open>
  The check of a LiteServ on Mono accepts exactly the version that runs. When the program reports the text of its
  format, with a system, an architecture, a version, a build padded with zeros to any width and a commit, none of them
  with a separator inside, \<open>_verify_launched\<close> returns if and only if the launcher was made for that version and that build
  number without the zeros.
\<close>

theorem mono_version_verified:
  assumes "LiteServBase_wait_until_reachable lo PNone (ts, s) = (Inr resp_obj, s')"
    and "py_item2 resp_obj ''vendor'' ''version'' = Inr (PStr (mono_version os arch version ds commit))"
    and "plain_field os" "plain_field arch" "plain_field version" "plain_field commit" "digits ds" "ds \<noteq> []"
  shows "fst (LiteServNetMono_verify_launched lo (ts, s)) = Inr () \<longleftrightarrow>
    ts_version_build ts = PStr (version @ ''-'' @ nat_str (digits_val (map digit_chr ds)))"
proof -
  obtain s1 where s': "s' = (ts, s1)" using readingD [OF reading_wait assms(1)] by (cases s') auto
  have "startswith (mono_version os arch version ds commit) ''.NET OS X''" by (simp add: mono_version_def startswith_iff)
  then have "verify_net rt ''.NET OS X'' invalid 5 resp_obj v = Inr () \<longleftrightarrow>
      v = PStr (version @ ''-'' @ nat_str (digits_val (map digit_chr ds)))" for rt invalid v
    using assms(2) net_version_mono [OF assms(3-8)] by (simp add: verify_net_def str_attr_def)
  moreover have "fst (LiteServNetMono_verify_launched lo (ts, s)) =
      verify_net (ln_rt lo) ''.NET OS X'' (\<lambda>running. ''Invalid platform running: '' @ running @ ''!'') 5 resp_obj (ts_version_build ts)"
    unfolding LiteServNetMono_verify_launched_def mono_verify_def by (simp add: assms(1) bindIO_def self_get_def s')
  ultimately show ?thesis by simp
qed

text \<open>A machine on which every program succeeds and the service answers every request with the same value.\<close>

definition idle_launch :: "pyval \<Rightarrow> rat launch_ops" where
  "idle_launch answer = \<lparr>ln_prov = quiet_prov answer, ln_output = (\<lambda>_. returnIO []), ln_piped = (\<lambda>_ _. returnIO []), ln_popen = (\<lambda>_ _. returnIO 1),
     ln_kill = (\<lambda>_. returnIO ()), ln_open = (\<lambda>_ _. returnIO 2), ln_close = (\<lambda>_. returnIO ()), ln_isfile = (\<lambda>_. returnIO True),
     ln_save = (\<lambda>_ _. returnIO ()), ln_unzip = (\<lambda>_ _. returnIO ()), ln_rmtree = (\<lambda>_. returnIO ()), ln_remove = (\<lambda>_. returnIO ()),
     ln_executable = (\<lambda>_. returnIO ()), ln_move_log = (\<lambda>_ _. returnIO ()), ln_connect = returnIO (), ln_device = (\<lambda>_. returnIO PNone)\<rparr>"

lemma idle_send: "http_send (po_http (ln_prov (idle_launch v))) r w = (Inr (text_response 200 (json_text v)), w)"
  by (simp add: idle_launch_def quiet_prov_def plain_cbs_def quiet_http_def)

lemma idle_wait: "json_ok v \<Longrightarrow> LiteServBase_wait_until_reachable (idle_launch v) port (ts, p, w) = (Inr v, (ts, p, w))"
proof -
  assume "json_ok v"
  then have "resp_json (po_http (ln_prov (idle_launch v))) (text_response 200 (json_text v)) = Inr v"
    by (simp add: idle_launch_def quiet_prov_def plain_cbs_def quiet_http_def resp_json_def text_response_def json_text_loads)
  moreover have "reach_tries (idle_launch v) url d msg (Suc n) (ts, p, w) = (Inr (text_response 200 (json_text v)), (ts, p, w))" for url d msg n
    unfolding reach_step by (simp add: idle_send)
  note this [of _ _ _ 9]
  ultimately show ?thesis unfolding LiteServBase_wait_until_reachable_def MAX_RETRIES_def by (simp add: bindIO_def self_get_def)
qed

definition sample_version :: pyval where
  "sample_version = PDict [(''vendor'', PDict [(''version'', PStr (mono_version ''10.12'' ''x86_64'' ''1.3.1'' [0, 0, 1, 3] ''5d1553d''))])]"

theorem mono_version_verified_witness:
  "fst (LiteServNetMono_verify_launched (idle_launch sample_version)
     (LiteServBase_init (PStr ''1.3.1-13'') (PStr ''localhost'') (PInt 59840) ''SQLite'', node_state)) = Inr ()"
proof -
  have ok: "json_ok sample_version" by code_simp
  have run: "py_item2 sample_version ''vendor'' ''version'' = Inr (PStr (mono_version ''10.12'' ''x86_64'' ''1.3.1'' [0, 0, 1, 3] ''5d1553d''))"
    by (simp add: sample_version_def py_item2_def dict_index_def)
  have "nat_str (digits_val (map digit_chr [0, 0, 1, 3])) = ''13''" by code_simp
  then show ?thesis
    using mono_version_verified [OF idle_wait [OF ok, of PNone "LiteServBase_init (PStr ''1.3.1-13'') (PStr ''localhost'') (PInt 59840) ''SQLite''" "fst node_state" "snd node_state"] run]
    by (simp add: plain_field_def LiteServBase_init_def)
qed

text \<open>
  The text in the comment of the check on Windows is one field shorter than the texts the check reads: the build is taken
  from the field of the commit.
\<close>

lemma windows_comment_version_rejected:
  "net_version 6 ''.NET Microsoft Windows 10.12/x86_64 1.3.1-build0013/5d1553d'' =
     Inl (Exn ''ValueError'' (''invalid literal for int() with base 10: '' @ repr_str ''5d1553''))"
proof -
  have "split_any (set '' /-'') ''.NET Microsoft Windows 10.12/x86_64 1.3.1-build0013/5d1553d'' =
      [''.NET'', ''Microsoft'', ''Windows'', ''10.12'', ''x86_64'', ''1.3.1'', ''build0013'', ''5d1553d'']"
  proof -
    have "split_any (set '' /-'') (''.NET'' @ CHR '' '' # ''Microsoft'' @ CHR '' '' # ''Windows'' @ CHR '' '' # ''10.12'' @ CHR ''/'' # ''x86_64'' @ CHR '' '' #
        ''1.3.1'' @ CHR ''-'' # ''build0013'' @ CHR ''/'' # ''5d1553d'') =
      [''.NET'', ''Microsoft'', ''Windows'', ''10.12'', ''x86_64'', ''1.3.1'', ''build0013'', ''5d1553d'']"
      by (simp add: split_any_field split_any_last del: append.simps)
    then show ?thesis by simp
  qed
  moreover have "strip_chars ''build'' ''5d1553d'' = ''5d1553''" by (simp add: strip_chars_def rstrip_chars_def)
  moreover have "int_of_str ''5d1553'' = None" by (simp add: int_of_str_def py_strip_def is_space_def nat_of_str_def is_digit_def)
  ultimately show ?thesis by (simp add: net_version_def list_item_def py_int_of_def)
qed

section \<open>Installing on an emulator\<close>

lemma ignored_returns: "\<exists>w'. tryIO m (\<lambda>_. returnIO ()) w = (Inr (), w')"
  by (cases "m w"; cases "fst (m w)") (auto simp: tryIO_def)

text \<open>
  C37: The installation on an emulator does not end when it succeeds. If \<open>adb install\<close> succeeds, the loop of \<open>install\<close>
  starts it again, since only a failure leaves the loop; however many rounds are allowed, the method has not returned.
\<close>

theorem emulator_install_never_returns:
  assumes "\<And>p w. \<exists>out w'. ln_output lo [''adb'', ''-e'', ''install'', ''-r'', p] w = (Inr out, w')"
  shows "TestServerAndroid_install lo fuel s = None"
proof -
  have "\<exists>w'. install_round lo p 0 w = (Inr (True, 0), w')" for p w
    using assms [of p "snd (snd w)"] by (auto simp: install_round_def run_out_def launch_simps split: prod.splits)
  then have *: "while_io (\<lambda>_. True) (install_round lo p) fuel 0 w = None" for p w
    by (intro while_io_diverges [where P = "\<lambda>k _. k = 0"]) auto
  let ?first = "bindIO (self_set (\<lambda>ts. ts\<lparr>ta_device_enabled := Some False\<rparr>)) (\<lambda>_. tryIO (TestServerAndroid_remove lo) (\<lambda>_. returnIO ()))"
  obtain w' where "tryIO (TestServerAndroid_remove lo) (\<lambda>_. returnIO ()) ((fst s)\<lparr>ta_device_enabled := Some False\<rparr>, snd s) = (Inr (), w')"
    by (rule exE [OF ignored_returns])
  then have "?first s = (Inr (), w')" by (simp add: bindIO_def self_set_def)
  then show ?thesis
    unfolding TestServerAndroid_install_def by (simp add: bindD_def liftD_def self_get_def *)
qed

theorem emulator_install_never_returns_witness:
  "TestServerAndroid_install (idle_launch PNone) 100
     (TestServerAndroid_init bare_runtime (PStr ''3.1.0-10'') (PStr ''10.0.0.9'') (PInt 8080) False False ''android'', node_state) = None"
  by (rule emulator_install_never_returns) (simp add: idle_launch_def)

section \<open>The factory of the test servers\<close>

text \<open>The version, the host and the port of a test server, and the platforms of its class.\<close>

fun server_of :: "any_server \<Rightarrow> pyval \<times> pyval \<times> pyval" where
  "server_of (AndroidServer ts) = (ts_version_build ts, ts_host ts, ts_port ts)"
| "server_of (IosServer ts) = (ts_version_build ts, ts_host ts, ts_port ts)"
| "server_of (MonoServer ts) = (ts_version_build ts, ts_host ts, ts_port ts)"
| "server_of (WindowsServer ts) = (ts_version_build ts, ts_host ts, ts_port ts)"
| "server_of (JavaServer ts) = (ts_version_build ts, ts_host ts, ts_port ts)"
| "server_of (JavaWSServer ts) = (ts_version_build ts, ts_host ts, ts_port ts)"
| "server_of (CppServer ts) = (ts_version_build ts, ts_host ts, ts_port ts)"

fun serves :: "any_server \<Rightarrow> string \<Rightarrow> bool" where
  "serves (AndroidServer _) platform \<longleftrightarrow> endswith platform ''android''"
| "serves (IosServer _) platform \<longleftrightarrow> endswith platform ''ios''"
| "serves (MonoServer _) platform \<longleftrightarrow> endswith platform ''mono''"
| "serves (WindowsServer _) platform \<longleftrightarrow> endswith platform ''msft'' \<or> endswith platform ''uwp'' \<or> endswith platform ''winui''"
| "serves (JavaServer _) platform \<longleftrightarrow> startswith platform ''java-''"
| "serves (JavaWSServer _) platform \<longleftrightarrow> startswith platform ''javaws-''"
| "serves (CppServer _) platform \<longleftrightarrow> startswith platform ''c-''"

text \<open>What a constructor comes to: an object with the given attributes, or an exception other than \<open>NotImplementedError\<close>.\<close>

definition makes :: "('a \<Rightarrow> bool) \<Rightarrow> exn + 'a \<Rightarrow> bool" where
  "makes P r = (case r of Inl e \<Rightarrow> exn_class e \<noteq> ''NotImplementedError'' | Inr a \<Rightarrow> P a)"

named_theorems making

lemma makes_simps [simp]: "makes P (Inr a) = P a" "makes P (Inl (Exn c m)) \<longleftrightarrow> c \<noteq> ''NotImplementedError''"
  by (simp_all add: makes_def)

lemma makes_bind: "makes Q (fst (m s)) \<Longrightarrow> (\<And>a s'. Q a \<Longrightarrow> makes P (fst (f a s'))) \<Longrightarrow> makes P (fst (bindIO m f s))"
proof (cases "m s")
  fix r s'
  assume "makes Q (fst (m s))" "\<And>a s'. Q a \<Longrightarrow> makes P (fst (f a s'))" "m s = (r, s')"
  then show ?thesis by (cases r) (simp_all add: bindIO_def makes_def)
qed

lemma makes_next [making]: "makes (\<lambda>_. True) (fst (m s)) \<Longrightarrow> (\<And>a s'. makes P (fst (f a s'))) \<Longrightarrow> makes P (fst (bindIO m f s))"
  by (rule makes_bind)

lemma makes_basic [making]: "makes (\<lambda>_. True) (str_attr v k)" "makes (\<lambda>_. True) (version_build_of v)" "makes (\<lambda>_. True) (fst (needs_environ k what s))"
  "makes (\<lambda>_. True) (fst (write_inventory f lines s))"
  by (auto simp: makes_def str_attr_def no_attr_def version_build_of_def needs_environ_def LiteServError_def cfg_def write_inventory_def on_files_def
      split: pyval.splits option.splits)

lemma makes_return [making]: "P a \<Longrightarrow> makes P (fst (returnIO a s))" "makes P r \<Longrightarrow> makes P (fst (liftIO r s))"
  "exn_class e \<noteq> ''NotImplementedError'' \<Longrightarrow> makes P (fst (raiseIO e s))" "makes P (fst (m (snd s))) \<Longrightarrow> makes P (fst (on_world m s))"
  by (auto simp: makes_def on_world_def split: prod.splits sum.splits)

lemma makes_cfg [making]: "(\<And>env. \<exists>a. f env = Inr a) \<Longrightarrow> makes (\<lambda>_. True) (fst (cfg f s))"
  unfolding cfg_def by (metis makes_simps(1) fst_conv)

lemma makes_inventories [making]: "makes (\<lambda>_. True) (fst (write_windows_inventory lo host port f s))" "makes (\<lambda>_. True) (fst (write_host_inventory lo host ls f s))"
  "makes (\<lambda>_. True) (fst (write_java_inventory lo host ls f b s))"
  by (auto intro!: making simp: write_windows_inventory_def write_host_inventory_def write_java_inventory_def)

lemma makes_if: "(b \<Longrightarrow> makes P (fst (m s))) \<Longrightarrow> (\<not> b \<Longrightarrow> makes P (fst (n s))) \<Longrightarrow> makes P (fst ((if b then m else n) s))"
  by simp

abbreviation given_server :: "pyval \<Rightarrow> pyval \<Rightarrow> pyval \<Rightarrow> 'x test_server_scheme \<Rightarrow> bool" where
  "given_server v h p ts \<equiv> ts_version_build ts = v \<and> ts_host ts = h \<and> ts_port ts = p"

lemma makes_ios: "makes (given_server v h p) (fst (TestServeriOS_init lo v h p c d pf s))"
proof -
  have "makes (\<lambda>_. True) (fst (TestServeriOS_is_using_devicectl lo s))"
    by (simp add: TestServeriOS_is_using_devicectl_def tryIO_def bindIO_def split: prod.splits sum.splits)
  then show ?thesis unfolding TestServeriOS_init_def by (rule makes_bind) (auto split: prod.splits)
qed

lemma makes_windows: "makes (given_server v h p) (fst (TestServerNetMsft_init lo v h p c pf s))"
  unfolding TestServerNetMsft_init_def TestServerWinBase_init_def bindIO_assoc by (intro making) (auto intro!: making split: prod.split)

lemma makes_java: "makes (given_server v h p) (fst (TestServerJava_init lo v h p pf c s))"
  unfolding TestServerJava_init_def Let_def by (intro making) simp

lemma makes_javaws: "makes (given_server v h p) (fst (TestServerJavaWS_init lo v h p pf c s))"
  unfolding TestServerJavaWS_init_def Let_def by (intro making) (auto intro!: making split: prod.split)

lemma makes_cpp: "makes (given_server v h p) (fst (TestServerCpp_init lo v h p pf c s))"
  unfolding TestServerCpp_init_def Let_def by (intro making) simp_all

lemma makes_made:
  assumes "makes (given_server v h p) (fst (m s))" "\<And>ts. given_server v h p ts \<Longrightarrow> P (con ts)"
  shows "makes P (fst (made con m s))"
  using assms(1) by (rule makes_bind) (rule makes_return(1), rule assms(2))

lemma platform_class:
  "p \<in> {''android'', ''xamarin-android'', ''c-android'', ''maui-android''} \<Longrightarrow> endswith p ''android''"
  "p \<in> {''ios'', ''xamarin-ios'', ''c-ios''} \<Longrightarrow> endswith p ''ios''"
  "p \<in> {''net-msft'', ''net-uwp'', ''c-msft'', ''c-uwp'', ''maui-winui''} \<Longrightarrow> endswith p ''msft'' \<or> endswith p ''uwp'' \<or> endswith p ''winui''"
  "p \<in> {''java-macosx'', ''java-msft'', ''java-ubuntu'', ''java-centos'', ''java-debian''} \<Longrightarrow> startswith p ''java-''"
  "p \<in> {''javaws-macosx'', ''javaws-msft'', ''javaws-ubuntu'', ''javaws-centos''} \<Longrightarrow> startswith p ''javaws-''"
  "p \<in> {''c-macosx'', ''c-rpi'', ''c-debian'', ''c-ubuntu''} \<Longrightarrow> startswith p ''c-''"
  by (auto simp: endswith_def)

lemma valid_covered: "\<forall>p \<in> set valid_platforms. p \<in> {''android'', ''xamarin-android'', ''c-android'', ''maui-android''} \<or> p \<in> {''ios'', ''xamarin-ios'', ''c-ios''} \<or>
    p = ''net-mono'' \<or> p \<in> {''net-msft'', ''net-uwp'', ''c-msft'', ''c-uwp'', ''maui-winui''} \<or>
    p \<in> {''java-macosx'', ''java-msft'', ''java-ubuntu'', ''java-centos'', ''java-debian''} \<or>
    p \<in> {''javaws-macosx'', ''javaws-msft'', ''javaws-ubuntu'', ''javaws-centos''} \<or> p \<in> {''c-macosx'', ''c-rpi'', ''c-debian'', ''c-ubuntu''}"
  unfolding valid_platforms_def by code_simp

text \<open>
  C36: The factory serves every platform it admits: it never comes to the \<open>NotImplementedError\<close> at its end. What it returns is
  made for a platform of its list, has the version, host and port it was asked for, and is of the class whose code is
  written for that platform.
\<close>

theorem factory_serves_platform:
  "case fst (TestServerFactory_create lo platform version_build host port community debug s) of
     Inl e \<Rightarrow> exn_class e \<noteq> ''NotImplementedError''
   | Inr server \<Rightarrow> platform \<in> set valid_platforms \<and> server_of server = (version_build, host, port) \<and> serves server platform"
proof -
  let ?good = "\<lambda>server. platform \<in> set valid_platforms \<and> server_of server = (version_build, host, port) \<and> serves server platform"
  have valid: "makes (\<lambda>_. platform \<in> set valid_platforms) (TestServerFactory_validate_platform platform)"
    "makes (\<lambda>_. True) (TestServerFactory_validate_host host)" "makes (\<lambda>_. True) (TestServerFactory_validate_port port)"
    by (simp_all add: TestServerFactory_validate_platform_def TestServerFactory_validate_host_def TestServerFactory_validate_port_def)
  have "makes ?good (fst (TestServerFactory_create lo platform version_build host port community debug s))"
    unfolding TestServerFactory_create_def
    apply (rule makes_bind, rule makes_return(2), rule valid)
    apply (rule makes_bind, rule makes_return(2), rule valid)
    apply (rule makes_bind, rule makes_return(2), rule valid)
    apply (intro makes_if)
    subgoal by (rule makes_return(1)) (simp add: TestServerAndroid_init_def platform_class(1) split: prod.split)
    subgoal by (rule makes_made [OF makes_return(4) [OF makes_ios]]) (simp add: platform_class(2))
    subgoal by (rule makes_return(1)) (simp add: TestServerNetMono_init_def LiteServBase_init_def endswith_def)
    subgoal by (rule makes_made [OF makes_windows]) (simp add: platform_class(3))
    subgoal by (rule makes_made [OF makes_java]) (simp add: platform_class(4))
    subgoal by (rule makes_made [OF makes_javaws]) (simp add: platform_class(5))
    subgoal by (rule makes_made [OF makes_cpp]) (simp add: platform_class(6))
    subgoal by (drule bspec [OF valid_covered], elim disjE, (erule (1) notE)+)
    done
  then show ?thesis by (simp add: makes_def)
qed

end
