(* ===== verification/Verify.thy ===== *)
theory Verify
  imports Py_Ops
begin

text \<open>
  \<open>libraries/testkit/verify.py\<close>: the checks of the changes feeds of users against the documents the test has
  written. A user is its name and what \<open>get_changes(include_docs=True)\<close> returns. Each check counts errors
  by name and asserts at the end of each user that none has been counted.
\<close>

record 'w feed_user =
  fu_name :: string
  fu_changes :: "('w, pyval) io"

section \<open>Comparing two dictionaries\<close>

definition same_value :: "(string, pyval) dict \<Rightarrow> (string, pyval) dict \<Rightarrow> string \<Rightarrow> unit res" where
  "same_value one two k = bindR (dict_index one k) (\<lambda>v. bindR (dict_index two k) (\<lambda>u. py_assert (py_eq v u) []))"

definition verify_same_docs :: "int \<Rightarrow> (string, pyval) dict \<Rightarrow> (string, pyval) dict \<Rightarrow> unit res" where
  "verify_same_docs expected_num_docs doc_dict_one doc_dict_two =
     bindR (py_assert (int (length doc_dict_one) = expected_num_docs) []) (\<lambda>_.
     bindR (py_assert (int (length doc_dict_two) = expected_num_docs) []) (\<lambda>_.
     bindR (py_assert (set (dict_keys doc_dict_one) = set (dict_keys doc_dict_two)) []) (\<lambda>_.
     bindR (mapR (same_value doc_dict_one doc_dict_two) (dict_keys doc_dict_one)) (\<lambda>_. Inr ()))))"

section \<open>Rows of a feed\<close>

text \<open>\<open>len(set(xs))\<close> counts what remains after leaving out repetitions.\<close>

definition dedupe :: "pyval list \<Rightarrow> pyval list" where
  "dedupe xs = foldl (\<lambda>acc x. if list_ex (py_eq x) acc then acc else acc @ [x]) [] xs"

text \<open>The rows that are not about user documents: id, revision and one more field of the document.\<close>

definition change_row :: "string \<Rightarrow> pyval \<Rightarrow> (pyval \<times> pyval \<times> pyval) list res" where
  "change_row field result =
     bindR (bindR (py_item result ''id'') (\<lambda>i. str_attr i ''startswith'')) (\<lambda>i.
     if startswith i ''_user'' then Inr []
     else bindR (py_item2 result ''doc'' ''_id'') (\<lambda>doc_id. bindR (py_item2 result ''doc'' ''_rev'') (\<lambda>rev_id.
       bindR (py_item2 result ''doc'' field) (\<lambda>v. Inr [(doc_id, rev_id, v)]))))"

definition feed_rows :: "string \<Rightarrow> pyval \<Rightarrow> (pyval \<times> pyval \<times> pyval) list res" where
  "feed_rows field changes =
     bindR (py_item changes ''results'') (\<lambda>results. bindR (mapR_in results (change_row field)) (\<lambda>rs. Inr (concat rs)))"

type_synonym errors = "(string, nat) dict"

definition bump :: "errors \<Rightarrow> string \<Rightarrow> bool \<Rightarrow> errors" where
  "bump errors name failed = (if failed then (case dict_get errors name of Some n \<Rightarrow> dict_set errors name (n + 1) | None \<Rightarrow> errors) else errors)"

text \<open>The five checks that both functions make: lengths, repetitions and the set of ids.\<close>

definition count_lengths :: "int \<Rightarrow> (string, pyval) dict \<Rightarrow> pyval list \<Rightarrow> errors \<Rightarrow> errors res" where
  "count_lengths expected_num_docs expected_docs ids errors =
     (let expected_doc_ids = dict_keys expected_docs;
          errors = bump errors ''unexpected_changes_length'' (expected_num_docs \<noteq> int (length ids));
          errors = bump errors ''invalid_expected_docs_length'' (expected_num_docs \<noteq> int (length expected_docs));
          errors = bump errors ''duplicate_expected_ids'' (length expected_doc_ids \<noteq> card (set expected_doc_ids)) in
      bindR (mapR py_hashable ids) (\<lambda>_.
      let errors = bump errors ''duplicate_changes_doc_ids'' (length ids \<noteq> length (dedupe ids)) in
      Inr (bump errors ''expected_doc_ids_differ_from_changes_doc_ids'' (\<not> same_set (map PStr expected_doc_ids) ids))))"

text \<open>\<open>assert error_count == 0\<close>.\<close>

definition assert_no_errors :: "errors \<Rightarrow> unit res" where
  "assert_no_errors errors = py_assert (list_all (\<lambda>e. snd e = 0) errors) []"

definition zeros :: "string list \<Rightarrow> errors" where
  "zeros names = map (\<lambda>n. (n, 0)) names"

definition for_users :: "pyval \<Rightarrow> 'w feed_user list \<Rightarrow> ((string, pyval) dict \<Rightarrow> 'w feed_user \<Rightarrow> errors \<Rightarrow> ('w, errors) io) \<Rightarrow> errors \<Rightarrow> ('w, unit) io" where
  "for_users expected_docs users check errors =
     (case expected_docs of
        PDict d \<Rightarrow> bindIO (foldIO (\<lambda>errors user. check d user errors) errors users) (\<lambda>_. returnIO ())
      | _ \<Rightarrow> raiseIO (Exn ''Exception'' (''Make sure '' @ repr_str ''expected_docs'' @ '' is a dictionary'')))"

section \<open>Removed documents\<close>

definition removed_errors :: "string list" where
  "removed_errors = [''unexpected_changes_length'', ''invalid_expected_docs_length'', ''duplicate_expected_ids'', ''duplicate_changes_doc_ids'',
     ''expected_doc_ids_differ_from_changes_doc_ids'', ''doc_not_removed'', ''invalid_rev_id'']"

definition removed_row :: "(string, pyval) dict \<Rightarrow> errors \<Rightarrow> pyval \<times> pyval \<times> pyval \<Rightarrow> errors res" where
  "removed_row expected_docs errors row = (case row of (doc_id, rev_id, removed) \<Rightarrow>
     let errors = bump errors ''doc_not_removed'' (removed \<noteq> PBool True) in
     bindR (map_item expected_docs doc_id) (\<lambda>r. Inr (bump errors ''invalid_rev_id'' (\<not> py_eq r rev_id))))"

definition removed_check :: "int \<Rightarrow> (string, pyval) dict \<Rightarrow> pyval \<Rightarrow> errors \<Rightarrow> errors res" where
  "removed_check expected_num_docs expected_docs changes errors =
     bindR (feed_rows ''_removed'' changes) (\<lambda>changes_results.
     bindR (count_lengths expected_num_docs expected_docs (map fst changes_results) errors) (\<lambda>errors.
     bindR (foldR (removed_row expected_docs) errors changes_results) (\<lambda>errors.
     bindR (assert_no_errors errors) (\<lambda>_. Inr errors))))"

definition verify_docs_removed :: "'w feed_user list \<Rightarrow> int \<Rightarrow> pyval \<Rightarrow> ('w, unit) io" where
  "verify_docs_removed users expected_num_docs expected_docs =
     for_users expected_docs users (\<lambda>d user errors.
       bindIO (fu_changes user) (\<lambda>changes. liftIO (removed_check expected_num_docs d changes errors))) (zeros removed_errors)"

section \<open>Changes\<close>

definition changes_errors :: "string list" where
  "changes_errors = [''unexpected_changes_length'', ''invalid_expected_docs_length'', ''duplicate_expected_ids'', ''duplicate_changes_doc_ids'',
     ''expected_doc_ids_differ_from_changes_doc_ids'', ''invalid_rev_id'', ''unexpected_rev_id_prefix'', ''unexpected_num_updates'']"

definition rev_prefix :: "pyval \<Rightarrow> int res" where
  "rev_prefix rev_id = bindR (str_attr rev_id ''split'') (\<lambda>r. py_int_of (hd (split_chr CHR ''-'' r)))"

definition changed_row :: "(string, pyval) dict \<Rightarrow> int \<Rightarrow> bool \<Rightarrow> errors \<Rightarrow> pyval \<times> pyval \<times> pyval \<Rightarrow> errors res" where
  "changed_row expected_docs expected_num_revisions ignore_rev_ids errors row = (case row of (doc_id, rev_id, updates) \<Rightarrow>
     bindR (if \<not> ignore_rev_ids then bindR (map_item expected_docs doc_id) (\<lambda>r. Inr (bump errors ''invalid_rev_id'' (\<not> py_eq r rev_id)))
            else Inr errors) (\<lambda>errors.
     bindR (rev_prefix rev_id) (\<lambda>rev_id_prefix.
     let errors = bump errors ''unexpected_rev_id_prefix'' (expected_num_revisions \<noteq> rev_id_prefix - 1) in
     Inr (bump errors ''unexpected_num_updates'' (\<not> py_eq (PInt expected_num_revisions) updates)))))"

definition changes_check :: "int \<Rightarrow> int \<Rightarrow> bool \<Rightarrow> (string, pyval) dict \<Rightarrow> pyval \<Rightarrow> errors \<Rightarrow> errors res" where
  "changes_check expected_num_docs expected_num_revisions ignore_rev_ids expected_docs changes errors =
     bindR (feed_rows ''updates'' changes) (\<lambda>changes_results.
     bindR (count_lengths expected_num_docs expected_docs (map fst changes_results) errors) (\<lambda>errors.
     bindR (foldR (changed_row expected_docs expected_num_revisions ignore_rev_ids) errors changes_results) (\<lambda>errors.
     bindR (assert_no_errors errors) (\<lambda>_. Inr errors))))"

definition verify_changes :: "'w feed_user list \<Rightarrow> int \<Rightarrow> int \<Rightarrow> pyval \<Rightarrow> bool \<Rightarrow> ('w, unit) io" where
  "verify_changes users expected_num_docs expected_num_revisions expected_docs ignore_rev_ids =
     for_users expected_docs users (\<lambda>d user errors.
       bindIO (fu_changes user) (\<lambda>changes.
       liftIO (changes_check expected_num_docs expected_num_revisions ignore_rev_ids d changes errors))) (zeros changes_errors)"

section \<open>A clean count\<close>

abbreviation clean :: "errors \<Rightarrow> bool" where
  "clean errors \<equiv> list_all (\<lambda>e. snd e = 0) errors"

lemma clean_bump: "clean (bump errors n b) \<longleftrightarrow> clean errors \<and> \<not> (b \<and> n \<in> set (dict_keys errors))"
proof (cases "map_of errors n")
  case (Some m)
  then have "n \<in> set (dict_keys errors)" by (force dest: map_of_SomeD)
  moreover have "(n, Suc m) \<in> set (dict_set errors n (Suc m))" by (rule map_of_SomeD) simp
  then have "\<not> clean (dict_set errors n (Suc m))" by (force simp: list_all_iff)
  ultimately show ?thesis using Some by (simp add: bump_def dict_get_def)
next
  case None
  then show ?thesis by (simp add: bump_def dict_get_def) (simp add: map_of_eq_None_iff)
qed

lemma keys_bump [simp]: "dict_keys (bump errors n b) = dict_keys errors"
  using map_of_eq_None_iff [of errors n] by (auto simp: bump_def dict_get_def dict_keys_set split: option.splits)

lemma clean_zeros [simp]: "clean (zeros ns)" "dict_keys (zeros ns) = ns"
  by (simp_all add: zeros_def list_all_iff comp_def)

lemma assert_no_errors_Inr [simp]: "assert_no_errors e = Inr u \<longleftrightarrow> clean e"
  by (simp add: assert_no_errors_def)

section \<open>Sets of ids\<close>

lemma py_eq_PStr: "py_eq (PStr s) v \<longleftrightarrow> v = PStr s" "py_eq v (PStr s) \<longleftrightarrow> v = PStr s"
  by (cases v, auto)+

lemma same_set_strings: "same_set (map PStr ks) xs \<longleftrightarrow> set xs = PStr ` set ks"
  by (auto simp: same_set_def list_all_iff list_ex_iff py_eq_PStr simp del: py_eq.simps)

lemma dedupe_go_length:
  assumes "set xs \<subseteq> range PStr"
  shows "length (foldl (\<lambda>acc x. if list_ex (py_eq x) acc then acc else acc @ [x]) acc xs) \<le> length acc + length xs
    \<and> (length (foldl (\<lambda>acc x. if list_ex (py_eq x) acc then acc else acc @ [x]) acc xs) = length acc + length xs \<longleftrightarrow>
       distinct xs \<and> set xs \<inter> set acc = {})"
  using assms
proof (induction xs arbitrary: acc)
  case (Cons x xs)
  then obtain s where x: "x = PStr s" and xs: "set xs \<subseteq> range PStr" by auto
  show ?case
    using Cons.IH [OF xs, of acc] Cons.IH [OF xs, of "acc @ [x]"] x by (auto simp: list_ex_iff py_eq_PStr simp del: py_eq.simps)
qed simp

lemma dedupe_length: "set xs \<subseteq> range PStr \<Longrightarrow> length xs = length (dedupe xs) \<longleftrightarrow> distinct xs"
  using dedupe_go_length [of xs "[]"] by (auto simp: dedupe_def)

lemma hashable_strings: "set xs \<subseteq> range PStr \<Longrightarrow> \<exists>us. mapR py_hashable xs = Inr us"
  by (induction xs) (auto simp: py_hashable_def)

definition ids_agree :: "int \<Rightarrow> (string, pyval) dict \<Rightarrow> pyval list \<Rightarrow> bool" where
  "ids_agree n expected ids \<longleftrightarrow> int (length ids) = n \<and> int (length expected) = n \<and> distinct ids \<and> set ids = PStr ` set (dict_keys expected)"

definition length_errors :: "string list" where
  "length_errors = [''unexpected_changes_length'', ''invalid_expected_docs_length'', ''duplicate_expected_ids'', ''duplicate_changes_doc_ids'',
     ''expected_doc_ids_differ_from_changes_doc_ids'']"

lemma count_lengths_clean:
  assumes "dict_wf expected" "set length_errors \<subseteq> set (dict_keys errors)"
  shows "(\<exists>e. count_lengths n expected ids errors = Inr e \<and> clean e) \<longleftrightarrow> clean errors \<and> ids_agree n expected ids"
    and "count_lengths n expected ids errors = Inr e \<Longrightarrow> dict_keys e = dict_keys errors"
proof -
  have card: "card (set (dict_keys expected)) = length (dict_keys expected)" by (rule distinct_card [OF assms(1)])
  have sub: "set ids \<subseteq> range PStr" if "set ids = PStr ` set (dict_keys expected)" using that by auto
  show "(\<exists>e. count_lengths n expected ids errors = Inr e \<and> clean e) \<longleftrightarrow> clean errors \<and> ids_agree n expected ids"
  proof (cases "set ids = PStr ` set (dict_keys expected)")
    case True
    from hashable_strings [OF sub [OF True]] obtain us where "mapR py_hashable ids = Inr us" by blast
    with True dedupe_length [OF sub [OF True]] card assms(2) show ?thesis
      by (auto simp: count_lengths_def Let_def clean_bump same_set_strings ids_agree_def length_errors_def)
  next
    case False
    with assms(2) show ?thesis
      by (auto simp: count_lengths_def Let_def clean_bump same_set_strings ids_agree_def length_errors_def bindR_eq_Inr)
  qed
  show "count_lengths n expected ids errors = Inr e \<Longrightarrow> dict_keys e = dict_keys errors"
    by (auto simp: count_lengths_def Let_def bindR_eq_Inr)
qed

section \<open>Rows\<close>

text \<open>A fold of row checks that each keep the names of the counters.\<close>

lemma foldR_clean:
  assumes "\<And>errors row. dict_keys errors = ns \<Longrightarrow> (\<exists>e. check errors row = Inr e \<and> clean e) \<longleftrightarrow> clean errors \<and> ok row"
    and "\<And>errors row e. dict_keys errors = ns \<Longrightarrow> check errors row = Inr e \<Longrightarrow> dict_keys e = ns \<and> (clean e \<longrightarrow> clean errors)"
    and "dict_keys errors = ns"
  shows "(\<exists>e. foldR check errors rows = Inr e \<and> clean e) \<longleftrightarrow> clean errors \<and> list_all ok rows"
  using assms(3)
proof (induction rows arbitrary: errors)
  case (Cons row rows)
  have "(\<exists>e. foldR check errors (row # rows) = Inr e \<and> clean e) \<longleftrightarrow>
    (\<exists>d. check errors row = Inr d \<and> (\<exists>e. foldR check d rows = Inr e \<and> clean e))"
    by (auto simp: bindR_eq_Inr)
  also have "\<dots> \<longleftrightarrow> (\<exists>d. check errors row = Inr d \<and> clean d \<and> list_all ok rows)"
    using Cons.IH assms(2) [OF Cons.prems] by blast
  finally show ?case using assms(1) [OF Cons.prems, of row] by auto
qed simp

definition row_agrees :: "int \<Rightarrow> bool \<Rightarrow> (string, pyval) dict \<Rightarrow> pyval \<times> pyval \<times> pyval \<Rightarrow> bool" where
  "row_agrees revs ignore expected row \<longleftrightarrow> (case row of (doc_id, rev_id, updates) \<Rightarrow>
     (\<not> ignore \<longrightarrow> (case map_item expected doc_id of Inl _ \<Rightarrow> False | Inr x \<Rightarrow> py_eq x rev_id)) \<and>
     rev_prefix rev_id = Inr (revs + 1) \<and> py_eq (PInt revs) updates)"

lemma changed_row_clean:
  assumes "dict_keys errors = changes_errors"
  shows "(\<exists>e. changed_row expected revs ignore errors row = Inr e \<and> clean e) \<longleftrightarrow> clean errors \<and> row_agrees revs ignore expected row"
    and "changed_row expected revs ignore errors row = Inr e \<Longrightarrow> dict_keys e = changes_errors \<and> (clean e \<longrightarrow> clean errors)"
  using assms
  by (auto simp: changed_row_def row_agrees_def clean_bump bindR_eq_Inr Let_def changes_errors_def split: if_splits prod.splits sum.splits)

definition feed_agrees :: "int \<Rightarrow> int \<Rightarrow> bool \<Rightarrow> (string, pyval) dict \<Rightarrow> pyval \<Rightarrow> bool" where
  "feed_agrees n revs ignore expected changes \<longleftrightarrow> (case feed_rows ''updates'' changes of
       Inl _ \<Rightarrow> False
     | Inr rows \<Rightarrow> ids_agree n expected (map fst rows) \<and> list_all (row_agrees revs ignore expected) rows)"

lemma changes_check_exact:
  assumes "dict_wf expected" "dict_keys errors = changes_errors" "clean errors"
  shows "(\<exists>e. changes_check n revs ignore expected changes errors = Inr e) \<longleftrightarrow> feed_agrees n revs ignore expected changes"
    and "changes_check n revs ignore expected changes errors = Inr e \<Longrightarrow> dict_keys e = changes_errors \<and> clean e"
proof -
  have names: "set length_errors \<subseteq> set (dict_keys errors)" by (simp add: assms(2) length_errors_def changes_errors_def)
  note lengths = count_lengths_clean [OF assms(1) names]
  have rows: "(\<exists>e. foldR (changed_row expected revs ignore) d rows = Inr e \<and> clean e) \<longleftrightarrow> clean d \<and> list_all (row_agrees revs ignore expected) rows"
    if "dict_keys d = changes_errors" for d rows
    by (rule foldR_clean [OF _ _ that]) (use changed_row_clean in blast)+
  have keys: "dict_keys e = changes_errors" if "foldR (changed_row expected revs ignore) d rows = Inr e" "dict_keys d = changes_errors" for d e rows
    using that by (rule foldR_invariant [where P = "\<lambda>d. dict_keys d = changes_errors"]) (use changed_row_clean(2) in blast)
  show "(\<exists>e. changes_check n revs ignore expected changes errors = Inr e) \<longleftrightarrow> feed_agrees n revs ignore expected changes"
  proof (cases "feed_rows ''updates'' changes")
    case (Inr rs)
    then have "(\<exists>e. changes_check n revs ignore expected changes errors = Inr e) \<longleftrightarrow>
      (\<exists>d. count_lengths n expected (map fst rs) errors = Inr d \<and> (\<exists>e. foldR (changed_row expected revs ignore) d rs = Inr e \<and> clean e))"
      by (auto simp: changes_check_def bindR_eq_Inr)
    also have "\<dots> \<longleftrightarrow> (\<exists>d. count_lengths n expected (map fst rs) errors = Inr d \<and> clean d \<and> list_all (row_agrees revs ignore expected) rs)"
      using rows lengths(2) assms(2) by metis
    finally show ?thesis using Inr lengths(1) [of n "map fst rs"] assms(3) by (auto simp: feed_agrees_def)
  qed (simp add: changes_check_def feed_agrees_def)
  show "dict_keys e = changes_errors \<and> clean e" if "changes_check n revs ignore expected changes errors = Inr e"
    using that keys lengths(2) assms(2) by (auto simp: changes_check_def bindR_eq_Inr)
qed

text \<open>
  C3: \<open>verify_changes\<close> returns exactly if every user's feed can be read and agrees with the documents the test
  expects: as many rows as expected, each expected id exactly once and no other, the expected revision (unless
  revisions are ignored), a revision id whose number is one more than the number of updates, and that number
  of updates in the document.
\<close>

theorem verify_changes_exact:
  assumes "dict_wf expected"
  shows "verify_changes users n revs (PDict expected) ignore w = (Inr (), w') \<longleftrightarrow>
    (\<exists>feeds. seqIO (map fu_changes users) w = (Inr feeds, w') \<and> list_all (feed_agrees n revs ignore expected) feeds)"
proof -
  let ?check = "\<lambda>errors user. bindIO (fu_changes user) (\<lambda>changes. liftIO (changes_check n revs ignore expected changes errors))"
  have "(\<exists>e. foldIO ?check errors users w = (Inr e, w')) \<longleftrightarrow>
    (\<exists>feeds. seqIO (map fu_changes users) w = (Inr feeds, w') \<and> list_all (feed_agrees n revs ignore expected) feeds)"
    if "dict_keys errors = changes_errors" "clean errors" for errors
    using that
  proof (induction users arbitrary: errors w)
    case (Cons user users)
    obtain c v where u: "fu_changes user w = (c, v)" by fastforce
    show ?case
    proof (cases c)
      case (Inr changes)
      note exact = changes_check_exact [OF assms Cons.prems, of n revs ignore changes]
      show ?thesis
      proof (cases "changes_check n revs ignore expected changes errors")
        case (Inr e)
        from Cons.IH [of e v] exact Inr u \<open>c = Inr changes\<close> show ?thesis
          by (auto simp: bindIO_def split: prod.splits sum.splits)
      next
        case (Inl e)
        with exact(1) u \<open>c = Inr changes\<close> show ?thesis by (auto simp: bindIO_def split: prod.splits sum.splits)
      qed
    qed (use u in \<open>simp add: bindIO_def\<close>)
  qed simp
  from this [OF clean_zeros(2) clean_zeros(1)] show ?thesis
    by (auto simp: verify_changes_def for_users_def bindIO_def split: prod.splits sum.splits)
qed

definition sample_user :: "pyval \<Rightarrow> unit feed_user" where
  "sample_user rows = \<lparr>fu_name = ''seth'', fu_changes = returnIO (PDict [(''results'', rows)])\<rparr>"

definition sample_rows :: pyval where
  "sample_rows = PList [PDict [(''id'', PStr ''_user/seth'')],
     PDict [(''id'', PStr ''d1''), (''doc'', PDict [(''_id'', PStr ''d1''), (''_rev'', PStr ''3-ab''), (''updates'', PInt 2)])]]"

theorem verify_changes_exact_witness:
  "verify_changes [sample_user sample_rows] 1 2 (PDict [(''d1'', PStr ''3-ab'')]) False () = (Inr (), ())"
proof -
  have "feed_agrees 1 2 False [(''d1'', PStr ''3-ab'')] (PDict [(''results'', sample_rows)])" by code_simp
  moreover have "dict_wf [(''d1'', PStr ''3-ab'')]" by simp
  note verify_changes_exact [OF this, of "[sample_user sample_rows]" 1 2 False "()" "()"]
  ultimately show ?thesis by (auto simp: sample_user_def bindIO_def)
qed

end
