(* ===== verification/Json_Pretty.thy ===== *)
theory Json_Pretty
  imports Json
begin

text \<open>
  \<open>json.dumps(v, indent=4)\<close>: each element of a list and each member of an object on a line of its own. What it writes is
  read back by \<open>json.loads\<close>, so it is a codec like the plain writer.
\<close>

definition indent :: "nat \<Rightarrow> string" where
  "indent n = chr_newline # replicate (4 * n) CHR '' ''"

fun json_pretty :: "py_runtime \<Rightarrow> nat \<Rightarrow> pyval \<Rightarrow> string res" where
  "json_pretty rt n (PList xs) =
     (if xs = [] then Inr ''[]'' else bindR (mapR (json_pretty rt (n + 1)) xs) (\<lambda>ts.
        Inr (''['' @ indent (n + 1) @ join (CHR '','' # indent (n + 1)) ts @ indent n @ '']'')))"
| "json_pretty rt n (PDict d) =
     (if d = [] then Inr ''{}'' else bindR (mapR (\<lambda>kv. bindR (json_pretty rt (n + 1) (snd kv)) (\<lambda>t. Inr (json_str (fst kv) @ '': '' @ t))) d) (\<lambda>ts.
        Inr (''{'' @ indent (n + 1) @ join (CHR '','' # indent (n + 1)) ts @ indent n @ ''}'')))"
| "json_pretty rt n v = json_dumps rt v"

section \<open>Reading it\<close>

lemma skip_indent [simp]: "skip_ws (indent n @ s) = skip_ws s"
proof -
  have "dropWhile is_ws (replicate k CHR '' '' @ s) = dropWhile is_ws s" for k
    by (induction k) (simp_all add: is_ws_def)
  then show ?thesis by (simp add: skip_ws_def indent_def is_ws_def)
qed

lemma indent_sep: "json_sep (indent n @ s)"
  by (simp add: indent_def json_sep_def)

text \<open>The text of a value: how it begins, and that it is read as the value.\<close>

definition text_of :: "py_runtime \<Rightarrow> string \<Rightarrow> pyval \<Rightarrow> bool" where
  "text_of rt t v \<longleftrightarrow> t \<noteq> [] \<and> \<not> is_ws (hd t) \<and> hd t \<noteq> CHR '']'' \<and> (\<forall>r. json_sep r \<longrightarrow> pv rt (t @ r) = Some (v, r))"

lemma text_of_pv: "text_of rt t v \<Longrightarrow> json_sep r \<Longrightarrow> pv rt (t @ r) = Some (v, r)"
  by (simp add: text_of_def)

lemma text_of_skip: "text_of rt t v \<Longrightarrow> skip_ws (t @ s) = t @ s"
  by (simp add: text_of_def skip_ws_id)

lemma text_of_plain: "json_ok v \<Longrightarrow> json_dumps rt v = Inr t \<Longrightarrow> text_of rt t v"
  using json_dumps_hd [of v rt t] reads_backD [OF json_ok_reads_back] by (auto simp: text_of_def)

lemma elements_read:
  assumes "list_all2 (text_of rt) ts vs" "ts \<noteq> []"
  shows "pa rt (join (CHR '','' # indent m) ts @ indent n @ CHR '']'' # r) = Some (vs, r)"
  using assms
proof (induction ts vs rule: list_all2_induct)
  case (Cons t ts v vs)
  show ?case
  proof (cases ts)
    case Nil
    with Cons.hyps show ?thesis
      by (subst pa.simps) (simp add: text_of_pv [OF Cons.hyps(1) indent_sep] skip_ws_punct)
  next
    case (Cons u us)
    let ?m = "join (CHR '','' # indent m) ts @ indent n @ CHR '']'' # r"
    obtain w where "text_of rt u w" using Cons.hyps(2) Cons by (cases vs) auto
    then have "skip_ws ?m = ?m" using text_of_skip [of rt u w] Cons by (cases us) simp_all
    moreover have "pv rt (t @ CHR '','' # indent m @ ?m) = Some (v, CHR '','' # indent m @ ?m)"
      by (rule text_of_pv [OF Cons.hyps(1)]) (simp add: json_sep_def)
    moreover have "pa rt ?m = Some (vs, r)" using Cons.IH Cons by simp
    ultimately have "pa rt (t @ CHR '','' # indent m @ ?m) = Some (v # vs, r)"
      by (subst pa.simps) (simp add: skip_ws_punct)
    then show ?thesis using Cons by simp
  qed
qed simp

definition member_of :: "py_runtime \<Rightarrow> string \<Rightarrow> string \<times> pyval \<Rightarrow> bool" where
  "member_of rt t kv \<longleftrightarrow> (\<exists>u. t = json_str (fst kv) @ '': '' @ u \<and> text_of rt u (snd kv))"

lemma member_read:
  assumes "member_of rt t (k, v)" "json_sep (c # q)"
  shows "po rt (t @ c # q) = (case skip_ws (c # q) of [] \<Rightarrow> None | d # q' \<Rightarrow>
     if d = CHR ''}'' then Some ([(k, v)], q')
     else if d = CHR '','' then map_option (\<lambda>p. ((k, v) # fst p, snd p)) (po rt (skip_ws q')) else None)"
proof -
  obtain u where u: "t = json_str k @ '': '' @ u" "text_of rt u v" using assms(1) by (auto simp: member_of_def)
  show ?thesis
    using assms(2) text_of_pv [OF u(2) assms(2)] text_of_skip [OF u(2), of "c # q"]
    by (auto simp: u(1) json_str_def dq_def po.simps parse_jstr_concat skip_ws_punct skip_ws_space dest: skip_ws_Cons_length split: list.split)
qed

lemma members_read:
  assumes "list_all2 (member_of rt) ts kvs" "ts \<noteq> []"
  shows "po rt (join (CHR '','' # indent m) ts @ indent n @ CHR ''}'' # r) = Some (kvs, r)"
  using assms
proof (induction ts kvs rule: list_all2_induct)
  case (Cons t ts kv kvs)
  obtain k v where kv: "kv = (k, v)" by fastforce
  have ind: "indent j = chr_newline # replicate (4 * j) CHR '' ''" for j by (simp add: indent_def)
  show ?case
  proof (cases ts)
    case Nil
    with Cons.hyps member_read [of rt t k v chr_newline "replicate (4 * n) CHR '' '' @ CHR ''}'' # r"] skip_indent [of n "CHR ''}'' # r"]
    show ?thesis by (simp add: kv ind json_sep_def skip_ws_punct)
  next
    case (Cons u us)
    let ?m = "join (CHR '','' # indent m) ts @ indent n @ CHR ''}'' # r"
    obtain w where "member_of rt u w" using Cons.hyps(2) Cons by (cases kvs) auto
    then have "skip_ws ?m = ?m" using Cons by (cases us) (auto simp: member_of_def json_str_def dq_def intro!: skip_ws_id simp: is_ws_def skip_ws_def)
    moreover have "po rt ?m = Some (kvs, r)" using Cons.IH Cons by simp
    ultimately have "po rt (t @ CHR '','' # indent m @ ?m) = Some (kv # kvs, r)"
      using Cons.hyps(1) member_read [of rt t k v "CHR '',''" "indent m @ ?m"] by (simp add: kv json_sep_def skip_ws_punct)
    then show ?thesis using Cons by simp
  qed
qed simp

lemma pv_open:
  "skip_ws s = c # s' \<Longrightarrow> c \<noteq> CHR '']'' \<Longrightarrow> pa rt (c # s') = Some (xs, r) \<Longrightarrow> pv rt (CHR ''['' # s) = Some (PList xs, r)"
  "skip_ws s = c # s' \<Longrightarrow> c \<noteq> CHR ''}'' \<Longrightarrow> po rt (c # s') = Some (d, r) \<Longrightarrow> dict_wf d \<Longrightarrow> pv rt (CHR ''{'' # s) = Some (PDict d, r)"
  by (simp_all add: pv.simps dict_update_Nil)

lemma pretty_list:
  assumes "list_all2 (text_of rt) ts xs" "ts \<noteq> []"
  shows "text_of rt (''['' @ indent m @ join (CHR '','' # indent m) ts @ indent n @ '']'') (PList xs)"
proof -
  obtain t us v where t: "ts = t # us" "text_of rt t v" using assms by (cases ts; cases xs) auto
  have "pv rt (CHR ''['' # indent m @ j) = Some (PList xs, r)" if j: "j = join (CHR '','' # indent m) ts @ indent n @ CHR '']'' # r" for j r
  proof -
    obtain c s where cs: "j = c # s" "skip_ws j = j" "c \<noteq> CHR '']''"
      using t text_of_skip [OF t(2)] j by (cases us; cases t) (auto simp: text_of_def)
    then show ?thesis using elements_read [OF assms, of m n r] j by (intro pv_open(1) [of _ c s]) simp_all
  qed
  then show ?thesis by (auto simp: text_of_def is_ws_def)
qed

lemma pretty_dict:
  assumes "list_all2 (member_of rt) ts d" "ts \<noteq> []" "dict_wf d"
  shows "text_of rt (''{'' @ indent m @ join (CHR '','' # indent m) ts @ indent n @ ''}'') (PDict d)"
proof -
  obtain t us kv where t: "ts = t # us" "member_of rt t kv" using assms by (cases ts; cases d) auto
  have "pv rt (CHR ''{'' # indent m @ j) = Some (PDict d, r)" if j: "j = join (CHR '','' # indent m) ts @ indent n @ CHR ''}'' # r" for j r
  proof -
    obtain s where cs: "j = chr_dquote # s"
      using t j by (cases us) (auto simp: member_of_def json_str_def dq_def)
    then have "skip_ws j = chr_dquote # s" by (simp add: skip_ws_def is_ws_def)
    then show ?thesis using members_read [OF assms(1,2), of m n r] j cs assms(3) by (intro pv_open(2) [of _ chr_dquote s]) simp_all
  qed
  then show ?thesis by (auto simp: text_of_def is_ws_def)
qed

lemma pretty_text: "json_ok v \<Longrightarrow> \<exists>t. json_pretty rt n v = Inr t \<and> text_of rt t v"
proof (induction v arbitrary: n rule: json_ok.induct)
  case (1 xs)
  show ?case
  proof (cases "xs = []")
    case False
    have "\<forall>x \<in> set xs. \<exists>t. json_pretty rt (n + 1) x = Inr t \<and> text_of rt t x" using 1 by simp
    from bchoice [OF this] obtain g where g: "\<And>x. x \<in> set xs \<Longrightarrow> json_pretty rt (n + 1) x = Inr (g x) \<and> text_of rt (g x) x" by blast
    then have "mapR (json_pretty rt (n + 1)) xs = Inr (map g xs)" by (intro mapR_all_Inr) simp
    moreover have "list_all2 (text_of rt) (map g xs) xs" using g by (simp add: list_all2_map1 list.rel_refl_strong)
    ultimately show ?thesis using False pretty_list [of rt "map g xs" xs "n + 1" n] by simp
  qed (simp add: text_of_def is_ws_def pv.simps skip_ws_punct)
next
  case (2 d)
  show ?case
  proof (cases "d = []")
    case False
    have "\<forall>kv \<in> set d. \<exists>t. json_pretty rt (n + 1) (snd kv) = Inr t \<and> text_of rt t (snd kv)" using 2 by simp
    from bchoice [OF this] obtain g
      where g: "\<And>kv. kv \<in> set d \<Longrightarrow> json_pretty rt (n + 1) (snd kv) = Inr (g kv) \<and> text_of rt (g kv) (snd kv)" by blast
    let ?h = "\<lambda>kv. json_str (fst kv) @ '': '' @ g kv"
    have "mapR (\<lambda>kv. bindR (json_pretty rt (n + 1) (snd kv)) (\<lambda>t. Inr (json_str (fst kv) @ '': '' @ t))) d = Inr (map ?h d)"
      using g by (intro mapR_all_Inr) simp
    moreover have "list_all2 (member_of rt) (map ?h d) d" using g by (auto simp: list_all2_map1 member_of_def intro!: list.rel_refl_strong)
    ultimately show ?thesis using False 2(2) pretty_dict [of rt "map ?h d" d "n + 1" n] by simp
  qed (simp add: text_of_def is_ws_def pv.simps skip_ws_punct)
qed (auto simp: text_of_plain json_ok_dumps intro!: text_of_plain)

interpretation pretty_codec: codec "json_pretty rt n" "json_loads rt" json_ok for rt n
proof unfold_locales
  fix v :: pyval assume v: "json_ok v"
  then show "\<exists>t. json_pretty rt n v = Inr t" using pretty_text by blast
  show "json_loads rt t = Inr v" if "json_pretty rt n v = Inr t" for t
  proof -
    have t: "text_of rt t v" using pretty_text [OF v, of rt n] that by auto
    then show ?thesis using text_of_skip [OF t, of "[]"] text_of_pv [OF t, of "[]"] by (simp add: json_loads_def skip_ws_def json_sep_def)
  qed
qed

end
