(* ===== verification/Local_Pools.thy ===== *)
theory Local_Pools
  imports Json_Pretty Cluster_Gen Py_Ops
begin

text \<open>
  The two scripts that make a cluster and write the pool file for the generator of configurations: \<open>docker/cluster.py\<close>
  starts containers on one machine, \<open>libraries/provision/generate_pools_json_from_aws.py\<close> waits for the machines of a stack.
  The docker library, the AWS library, directories and sockets are parameters; the world of a function is the files of the kit
  and the outside.
\<close>

type_synonym ('w, 'a) on_env = "(environment \<times> 'w, 'a) io"

definition save :: "string \<Rightarrow> string \<Rightarrow> ('w, unit) on_env" where
  "save f t = self_set (\<lambda>env. write_file env f (TextFile t))"

definition save_json :: "(py_runtime \<Rightarrow> pyval \<Rightarrow> string res) \<Rightarrow> string \<Rightarrow> pyval \<Rightarrow> ('w, unit) on_env" where
  "save_json enc f v = bindIO (self_get env_runtime) (\<lambda>rt. bindIO (liftIO (enc rt v)) (save f))"

section \<open>Containers\<close>

record docker_net =
  dn_id :: nat
  dn_name :: string

record 'w docker_ops =
  dk_pull :: "string \<Rightarrow> ('w, unit) io"
  dk_networks :: "('w, docker_net list) io"
  dk_create :: "string \<Rightarrow> ('w, docker_net) io"
  dk_run :: "string \<Rightarrow> (string, pyval) dict \<Rightarrow> (string, pyval) dict \<Rightarrow> ('w, nat) io"
  dk_connect :: "docker_net \<Rightarrow> nat \<Rightarrow> ('w, unit) io"
  dk_containers :: "docker_net \<Rightarrow> ('w, string list) io"
  dk_remove :: "docker_net \<Rightarrow> ('w, unit) io"
  dk_isdir :: "string \<Rightarrow> ('w, bool) io"
  dk_rmtree :: "string \<Rightarrow> ('w, unit) io"
  dk_mkdir :: "string \<Rightarrow> ('w, unit) io"
  dk_call :: "string list \<Rightarrow> ('w, unit) io"

definition DockerError :: "string \<Rightarrow> exn" where
  "DockerError msg = Exn ''DockerError'' msg"

definition ports_to_map :: "string list" where
  "ports_to_map = [''8091/tcp'', ''4984/tcp'', ''4985/tcp'', ''18091/tcp'', ''18093/tcp'']"

definition setup_port_mapping :: "int \<Rightarrow> (string, pyval) dict \<times> int" where
  "setup_port_mapping current_port = foldl (\<lambda>(port_map, p) port. (dict_set port_map port (PInt p), p + 1)) ([], current_port) ports_to_map"

definition fresh_dir :: "'w docker_ops \<Rightarrow> string \<Rightarrow> ('w, unit) io" where
  "fresh_dir dk tmp_dir =
     bindIO (dk_isdir dk tmp_dir) (\<lambda>present. bindIO (if present then dk_rmtree dk tmp_dir else returnIO ()) (\<lambda>_. dk_mkdir dk tmp_dir))"

definition create_and_bind_tmp_dirs :: "'w docker_ops \<Rightarrow> string \<Rightarrow> (string, pyval) dict \<Rightarrow> ('w, (string, pyval) dict) io" where
  "create_and_bind_tmp_dirs dk container_name volume_map =
     (let sg = ''/tmp/'' @ container_name @ ''-sg''; cbs = ''/tmp/'' @ container_name @ ''-cbs'' in
      bindIO (forIO [sg, cbs] (fresh_dir dk)) (\<lambda>_.
      returnIO (dict_set (dict_set volume_map sg (PDict [(''bind'', PStr ''/home'')])) cbs (PDict [(''bind'', PStr ''/opt/couchbase/var/lib/couchbase/'')]))))"

text \<open>One container. The state of the loop is the next free port and the port maps so far.\<close>

definition start_container :: "'w docker_ops \<Rightarrow> docker_net \<Rightarrow> bool \<Rightarrow> int \<times> pyval list \<Rightarrow> string \<Rightarrow> ('w, int \<times> pyval list) io" where
  "start_container dk network dev = (\<lambda>(current_port, port_map_list) container_name.
     let volume_map = [(''/sys/fs/cgroup'', PDict [(''bind'', PStr ''/sys/fs/cgroup''), (''mode'', PStr ''ro'')])] in
     bindIO (if dev then
         bindIO (create_and_bind_tmp_dirs dk container_name volume_map) (\<lambda>volume_map.
         case setup_port_mapping current_port of (port_map, current_port) \<Rightarrow>
         returnIO (volume_map, port_map, current_port, port_map_list @ [PDict [(container_name, PDict port_map)]]))
       else returnIO (volume_map, [], current_port, port_map_list)) (\<lambda>(volume_map, port_map, current_port, port_map_list).
     bindIO (dk_run dk container_name volume_map port_map) (\<lambda>container.
     bindIO (dk_connect dk network container) (\<lambda>_. returnIO (current_port, port_map_list)))))"

definition container_names :: "string \<Rightarrow> int \<Rightarrow> string list" where
  "container_names network_name number_of_nodes = map (\<lambda>i. network_name @ ''.'' @ nat_str i) [0..<nat number_of_nodes]"

text \<open>The network of the name: an old one only in a development environment.\<close>

definition use_network :: "'w docker_ops \<Rightarrow> string \<Rightarrow> bool \<Rightarrow> ('w, docker_net) io" where
  "use_network dk network_name dev =
     bindIO (dk_networks dk) (\<lambda>networks.
     case filter (\<lambda>net. dn_name net = network_name) networks of
       net # _ \<Rightarrow> if \<not> dev then raiseIO (DockerError ''ERROR!! Network already defined'') else returnIO net
     | [] \<Rightarrow> dk_create dk network_name)"

definition create_cluster :: "'w docker_ops \<Rightarrow> string \<Rightarrow> int \<Rightarrow> bool \<Rightarrow> bool \<Rightarrow> ('w, unit) on_env" where
  "create_cluster dk network_name number_of_nodes dev pull =
     bindIO (if pull then forIO [''couchbase/centos7-systemd'', ''couchbase/mobile-testkit''] (\<lambda>i. on_world (dk_pull dk i)) else returnIO ()) (\<lambda>_.
     bindIO (on_world (use_network dk network_name dev)) (\<lambda>network.
     let names = container_names network_name number_of_nodes in
     bindIO (on_world (foldIO (start_container dk network dev) (30000, []) names)) (\<lambda>(current_port, port_map_list).
     bindIO (if dev then save_json (\<lambda>rt. json_pretty rt 0) ''portmaps.json'' (PList port_map_list) else returnIO ()) (\<lambda>_.
     save_json json_dumps ''resources/pool.json'' (PDict [(''ips'', PList (map PStr names))])))))"

text \<open>Asking for the containers has to fail once they are gone.\<close>

definition destroy_cluster :: "'w docker_ops \<Rightarrow> string \<Rightarrow> ('w, unit) io" where
  "destroy_cluster dk network_name =
     bindIO (dk_networks dk) (\<lambda>networks.
     case filter (\<lambda>net. dn_name net = network_name) networks of
       [] \<Rightarrow> raiseIO (DockerError (''Error removing network. Network not defined: '' @ network_name))
     | [network] \<Rightarrow>
         bindIO (dk_containers dk network) (\<lambda>containers.
         bindIO (forIO containers (\<lambda>c. bindIO (dk_call dk [''docker'', ''stop'', c]) (\<lambda>_. dk_call dk [''docker'', ''rm'', ''-f'', c]))) (\<lambda>_.
         bindIO (tryIO (bindIO (dk_containers dk network) (\<lambda>_. raiseIO (DockerError ''During network cleanup, Docker containers still remain!'')))
           (\<lambda>e. if exn_class e = ''NotFound'' then returnIO () else raiseIO e)) (\<lambda>_.
         bindIO (dk_remove dk network) (\<lambda>_.
         bindIO (dk_networks dk) (\<lambda>networks.
         if filter (\<lambda>net. dn_name net = network_name) networks \<noteq> [] then raiseIO (DockerError ''Failed to remove all networks!'') else returnIO ())))))
     | _ \<Rightarrow> raiseIO (DockerError (''Error removing network. Multiple defined: '' @ network_name)))"

section \<open>Machines of a stack\<close>

record ec2_instance =
  ei_state :: string
  ei_ip_address :: pyval
  ei_public_dns_name :: string
  ei_private_dns_name :: string
  ei_tags :: "(string, string) dict"

record stack_event =
  se_stack_name :: string
  se_resource_type :: string
  se_resource_status :: string

record 'w aws_ops =
  aws_describe_stacks :: "string \<Rightarrow> ('w, unit) io"
  aws_describe_stack_events :: "string \<Rightarrow> ('w, stack_event list) io"
  aws_describe_stack_resources :: "string \<Rightarrow> ('w, (string \<times> string) list) io"
  aws_get_all_instances :: "string list \<Rightarrow> ('w, ec2_instance list list) io"
  aws_connect :: "pyval \<Rightarrow> ('w, unit) io"
  aws_sleep :: "rat \<Rightarrow> ('w, unit) io"

definition NUM_RETRIES :: nat where
  "NUM_RETRIES = 200"

text \<open>\<open>for x in range(n)\<close> with a body that returns or goes on.\<close>

fun attempts :: "nat \<Rightarrow> ('s \<Rightarrow> ('w, 's + 'a) io) \<Rightarrow> 's \<Rightarrow> ('w, 's + 'a) io" where
  "attempts 0 body s = returnIO (Inl s)"
| "attempts (Suc n) body s = bindIO (body s) (\<lambda>r. case r of Inr a \<Rightarrow> returnIO (Inr a) | Inl s' \<Rightarrow> attempts n body s')"

definition again_after :: "'w aws_ops \<Rightarrow> 's \<Rightarrow> ('w, 's + 'a) io" where
  "again_after ao s = bindIO (aws_sleep ao 5) (\<lambda>_. returnIO (Inl s))"

definition stack_complete :: "string \<Rightarrow> stack_event \<Rightarrow> bool" where
  "stack_complete stackname e \<longleftrightarrow> se_stack_name e = stackname \<and> se_resource_type e = ''AWS::CloudFormation::Stack'' \<and>
     se_resource_status e \<in> {''CREATE_COMPLETE'', ''UPDATE_COMPLETE''}"

text \<open>A stack that cannot be described is asked for again at once; after the last attempt the function returns all the same.\<close>

definition stack_round :: "'w aws_ops \<Rightarrow> string \<Rightarrow> unit \<Rightarrow> ('w, unit + unit) io" where
  "stack_round ao stackname s =
     bindIO (tryIO (bindIO (aws_describe_stacks ao stackname) (\<lambda>_. returnIO True)) (\<lambda>e. if exn_class e = ''BotoServerError'' then returnIO False else raiseIO e)) (\<lambda>described.
     if \<not> described then returnIO (Inl ())
     else bindIO (aws_describe_stack_events ao stackname) (\<lambda>events.
       if list_ex (stack_complete stackname) events then returnIO (Inr ()) else again_after ao ()))"

definition wait_until_stack_create_complete :: "'w aws_ops \<Rightarrow> string \<Rightarrow> ('w, unit) io" where
  "wait_until_stack_create_complete ao stackname = bindIO (attempts NUM_RETRIES (stack_round ao stackname) ()) (\<lambda>_. returnIO ())"

definition get_instance_ids_for_stack :: "'w aws_ops \<Rightarrow> string \<Rightarrow> ('w, string list) io" where
  "get_instance_ids_for_stack ao stackname =
     bindIO (aws_describe_stack_resources ao stackname) (\<lambda>resources. returnIO (map snd (filter (\<lambda>r. fst r = ''AWS::EC2::Instance'') resources)))"

definition lookup_instances_from_ids :: "'w aws_ops \<Rightarrow> string list \<Rightarrow> ('w, ec2_instance list) io" where
  "lookup_instances_from_ids ao instance_ids = bindIO (aws_get_all_instances ao instance_ids) (\<lambda>reservations. returnIO (concat reservations))"

definition state_round :: "'w aws_ops \<Rightarrow> string list \<Rightarrow> string \<Rightarrow> ec2_instance list \<Rightarrow> ('w, ec2_instance list + unit) io" where
  "state_round ao instance_ids state instances =
     (if list_all (\<lambda>i. ei_state i = state) instances then returnIO (Inr ())
      else bindIO (aws_sleep ao 5) (\<lambda>_. bindIO (lookup_instances_from_ids ao instance_ids) (\<lambda>instances. returnIO (Inl instances))))"

definition wait_until_state :: "'w aws_ops \<Rightarrow> ec2_instance list \<Rightarrow> string list \<Rightarrow> string \<Rightarrow> ('w, unit) io" where
  "wait_until_state ao instances instance_ids state =
     bindIO (attempts NUM_RETRIES (state_round ao instance_ids state) instances) (\<lambda>r. case r of Inr _ \<Rightarrow> returnIO ()
       | Inl _ \<Rightarrow> raiseIO (Exn ''Exception'' (''Gave up waiting for instances '' @ ''['' @ join '', '' (map repr_str instance_ids) @ '']'' @ '' to reach state '' @ state)))"

text \<open>All machines are tried in each round.\<close>

definition listening :: "'w aws_ops \<Rightarrow> ec2_instance \<Rightarrow> ('w, bool) io" where
  "listening ao i = tryIO (bindIO (aws_connect ao (ei_ip_address i)) (\<lambda>_. returnIO True)) (\<lambda>_. returnIO False)"

definition sshd_step :: "'w aws_ops \<Rightarrow> bool \<Rightarrow> ec2_instance \<Rightarrow> ('w, bool) io" where
  "sshd_step ao all_listening i = bindIO (listening ao i) (\<lambda>b. returnIO (all_listening \<and> b))"

definition sshd_round :: "'w aws_ops \<Rightarrow> ec2_instance list \<Rightarrow> unit \<Rightarrow> ('w, unit + unit) io" where
  "sshd_round ao instances s =
     bindIO (foldIO (sshd_step ao) True instances) (\<lambda>all_listening.
     if all_listening then returnIO (Inr ()) else again_after ao ())"

definition wait_until_sshd_port_listening :: "'w aws_ops \<Rightarrow> ec2_instance list \<Rightarrow> ('w, unit) io" where
  "wait_until_sshd_port_listening ao instances =
     bindIO (attempts NUM_RETRIES (sshd_round ao instances) ()) (\<lambda>r. case r of Inr _ \<Rightarrow> returnIO ()
       | Inl _ \<Rightarrow> raiseIO (Exn ''Exception'' ''Gave up waiting for instances to be listening on port 22''))"

text \<open>What is returned are the objects of the first look, made before the machines were running.\<close>

definition get_running_instances_for_cloudformation_stack :: "'w aws_ops \<Rightarrow> string \<Rightarrow> ('w, ec2_instance list) io" where
  "get_running_instances_for_cloudformation_stack ao stackname =
     bindIO (wait_until_stack_create_complete ao stackname) (\<lambda>_.
     bindIO (get_instance_ids_for_stack ao stackname) (\<lambda>ids.
     bindIO (lookup_instances_from_ids ao ids) (\<lambda>instances.
     bindIO (wait_until_state ao instances ids ''running'') (\<lambda>_.
     bindIO (wait_until_sshd_port_listening ao instances) (\<lambda>_. returnIO instances)))))"

definition get_public_dns_names_cloudformation_stack :: "'w aws_ops \<Rightarrow> string \<Rightarrow> ('w, string list) io" where
  "get_public_dns_names_cloudformation_stack ao stackname =
     bindIO (get_running_instances_for_cloudformation_stack ao stackname) (\<lambda>instances. returnIO (map ei_public_dns_name instances))"

definition get_private_dns_names_cloudformation_stack :: "'w aws_ops \<Rightarrow> string \<Rightarrow> ('w, string list) io" where
  "get_private_dns_names_cloudformation_stack ao stackname =
     bindIO (get_running_instances_for_cloudformation_stack ao stackname) (\<lambda>instances. returnIO (map ei_private_dns_name instances))"

definition instance_type_to_ansible_group :: "(string, string) dict" where
  "instance_type_to_ansible_group = [(''couchbaseserver'', ''couchbase_servers''), (''syncgateway'', ''sync_gateways''),
     (''gateload'', ''load_generators''), (''loadbalancer'', ''load_balancers''), (''loadgenerator'', ''load_generators''), (''unknown'', ''unknown'')]"

definition get_ansible_group_for_instance :: "ec2_instance \<Rightarrow> string res" where
  "get_ansible_group_for_instance i =
     (let instance_type = (case dict_get (ei_tags i) ''Type'' of None \<Rightarrow> ''unknown'' | Some t \<Rightarrow> t) in
      if instance_type = ''syncgateway'' \<and> dict_has (ei_tags i) ''CacheType'' then Inr ''sg_accels''
      else dict_index instance_type_to_ansible_group instance_type)"

definition ansible_groups :: "ec2_instance list \<Rightarrow> (string, pyval) dict res" where
  "ansible_groups instances = foldR (\<lambda>d i. bindR (get_ansible_group_for_instance i) (\<lambda>g. Inr (dict_set d (ei_public_dns_name i) (PStr g)))) [] instances"

definition ip_to_ansible_group_for_cloudformation_stack :: "'w aws_ops \<Rightarrow> string \<Rightarrow> ('w, (string, pyval) dict) io" where
  "ip_to_ansible_group_for_cloudformation_stack ao stackname =
     bindIO (get_running_instances_for_cloudformation_stack ao stackname) (\<lambda>instances. liftIO (ansible_groups instances))"

text \<open>\<open>sort_keys=True\<close>.\<close>

fun insert_item :: "string \<times> 'v \<Rightarrow> (string \<times> 'v) list \<Rightarrow> (string \<times> 'v) list" where
  "insert_item kv [] = [kv]"
| "insert_item kv (e # d) = (if str_less (fst e) (fst kv) then e # insert_item kv d else kv # e # d)"

definition sorted_items :: "(string \<times> 'v) list \<Rightarrow> (string \<times> 'v) list" where
  "sorted_items d = foldr insert_item d []"

definition write_to_file :: "string list \<Rightarrow> string list \<Rightarrow> (string, pyval) dict \<Rightarrow> string \<Rightarrow> ('w, unit) on_env" where
  "write_to_file public_dns_names private_dns_names ip_to_ansible_group filename =
     save_json (\<lambda>rt. json_pretty rt 0) filename (PDict (sorted_items [(''ip_to_node_type'', PDict (sorted_items ip_to_ansible_group)),
       (''private_dns_names'', PList (map PStr private_dns_names)), (''ips'', PList (map PStr public_dns_names))]))"

definition aws_main :: "'w aws_ops \<Rightarrow> string option \<Rightarrow> string option \<Rightarrow> ('w, unit) on_env" where
  "aws_main ao stackname targetfile = (case (stackname, targetfile) of
       (Some s, Some f) \<Rightarrow>
         bindIO (on_world (get_public_dns_names_cloudformation_stack ao s)) (\<lambda>public.
         bindIO (on_world (get_private_dns_names_cloudformation_stack ao s)) (\<lambda>private.
         bindIO (on_world (ip_to_ansible_group_for_cloudformation_stack ao s)) (\<lambda>groups. write_to_file public private groups f)))
     | _ \<Rightarrow> raiseIO (Exn ''SystemExit'' ''1''))"

section \<open>The pool file is what the generator reads\<close>

lemma on_world_Inr: "on_world m sw = (Inr a, sw') \<longleftrightarrow> (m (snd sw) = (Inr a, snd sw') \<and> fst sw' = fst sw)"
  by (cases sw') (auto simp: on_world_def split: prod.splits)

lemma pull_keeps: "forIO xs (\<lambda>i. on_world (f i)) sw = (Inr u, sw') \<Longrightarrow> fst sw' = fst sw"
  by (induction xs arbitrary: sw) (auto simp: bindIO_eq_Inr on_world_Inr)

lemma save_json_result: "save_json enc f v (env, w) = (Inr u, sw') \<Longrightarrow> snd sw' = w"
  by (auto simp: save_json_def save_def bindIO_eq_Inr io_simps)

lemma save_json_Inr:
  assumes "\<And>rt. codec (enc rt) (json_loads rt) json_ok" "json_ok v"
  shows "\<exists>t. save_json enc f v (env, w) = (Inr (), (write_file env f (TextFile t), w)) \<and> json_loads (env_runtime env) t = Inr v"
proof -
  obtain t where t: "enc (env_runtime env) v = Inr t" using codec.writes [OF assms] by blast
  with codec.reads [OF assms] have "json_loads (env_runtime env) t = Inr v" by blast
  with t show ?thesis by (auto simp: save_json_def save_def bindIO_def io_simps)
qed

lemma mapR_as_str: "mapR as_str (map PStr xs) = Inr xs"
  by (induction xs) simp_all

lemma get_hosts_of_text:
  assumes "dict_get (env_files env) f = Some (TextFile t)" "json_loads (env_runtime env) t = Inr (PDict d)"
    and "map_of d ''ips'' = Some (PList (map PStr ips))" "distinct ips"
    and "case map_of d ''ip_to_node_type'' of None \<Rightarrow> types = [] | Some v \<Rightarrow> v = PDict types"
  shows "get_hosts env f = Inr (ips, types)"
  using assms distinct_card [OF assms(4)]
  by (auto simp: get_hosts_def read_json_def dict_index_def dict_get_def mapR_as_str split: option.splits)

lemma container_names_distinct: "distinct (container_names n k)"
  by (auto simp: container_names_def distinct_map inj_on_def)

text \<open>The entry of the i-th container in the file of port maps.\<close>

definition port_entry :: "string \<Rightarrow> nat \<Rightarrow> pyval" where
  "port_entry network_name i = PDict [(network_name @ ''.'' @ nat_str i, PDict [(''8091/tcp'', PInt (30000 + 5 * int i)), (''4984/tcp'', PInt (30001 + 5 * int i)),
     (''4985/tcp'', PInt (30002 + 5 * int i)), (''18091/tcp'', PInt (30003 + 5 * int i)), (''18093/tcp'', PInt (30004 + 5 * int i))])]"

lemma setup_port_mapping_eq:
  "setup_port_mapping p = ([(''8091/tcp'', PInt p), (''4984/tcp'', PInt (p + 1)), (''4985/tcp'', PInt (p + 2)),
     (''18091/tcp'', PInt (p + 3)), (''18093/tcp'', PInt (p + 4))], p + 5)"
  by (simp add: setup_port_mapping_def ports_to_map_def dict_set_def)

lemma start_container_result:
  "start_container dk net dev (p, pms) c w = (Inr r, w') \<Longrightarrow>
     r = (if dev then (p + 5, pms @ [PDict [(c, PDict (fst (setup_port_mapping p)))]]) else (p, pms))"
  by (auto simp: start_container_def bindIO_eq_Inr setup_port_mapping_eq Let_def io_simps split: if_splits)

lemma start_containers:
  assumes "foldIO (start_container dk net dev) (30000 + 5 * int i, map (port_entry n) [0..<i]) (map (\<lambda>i. n @ ''.'' @ nat_str i) [i..<i + k]) w = (Inr r, w')" dev
  shows "snd r = map (port_entry n) [0..<i + k]"
  using assms
proof (induction k arbitrary: i w)
  case (Suc k)
  have "[i..<i + Suc k] = i # [Suc i..<Suc i + k]" by (simp add: upt_conv_Cons del: upt_Suc)
  from Suc.prems(1) [unfolded this] obtain s w1 where
    1: "start_container dk net dev (30000 + 5 * int i, map (port_entry n) [0..<i]) (n @ ''.'' @ nat_str i) w = (Inr s, w1)"
    and 2: "foldIO (start_container dk net dev) s (map (\<lambda>i. n @ ''.'' @ nat_str i) [Suc i..<Suc i + k]) w1 = (Inr r, w')"
    by (auto simp: bindIO_eq_Inr simp del: upt_Suc)
  from start_container_result [OF 1] Suc.prems(2) have "s = (30000 + 5 * int (Suc i), map (port_entry n) [0..<Suc i])"
    by (simp add: setup_port_mapping_eq port_entry_def)
  with Suc.IH [of "Suc i" w1] 2 Suc.prems(2) show ?case by simp
qed (auto simp: io_simps)


text \<open>
  C28: what \<open>docker/cluster.py\<close> writes is what \<open>generate_clusters_from_pool.py\<close> reads: when \<open>create_cluster\<close> returns, \<open>get_hosts\<close> gives
  the names of the containers in order and no node types, and for development the file of port maps has for the i-th
  container the five ports from 30000 + 5 i on.
\<close>

theorem docker_pool_read_back:
  assumes "create_cluster dk network_name number_of_nodes dev pull (env, w) = (Inr (), (env', w'))"
  shows "get_hosts env' ''resources/pool.json'' = Inr (map (\<lambda>i. network_name @ ''.'' @ nat_str i) [0..<nat number_of_nodes], []) \<and>
    (dev \<longrightarrow> read_json env' ''portmaps.json'' = Inr (PList (map (port_entry network_name) [0..<nat number_of_nodes])))"
proof -
  let ?names = "container_names network_name number_of_nodes"
  let ?pool = "PDict [(''ips'', PList (map PStr ?names))]"
  from assms obtain w1 net pm w2 sw where
    1: "foldIO (start_container dk net dev) (30000, []) ?names w1 = (Inr pm, w2)"
    and 2: "(if dev then save_json (\<lambda>rt. json_pretty rt 0) ''portmaps.json'' (PList (snd pm)) else returnIO ()) (env, w2) = (Inr (), sw)"
    and 3: "save_json json_dumps ''resources/pool.json'' ?pool sw = (Inr (), (env', w'))"
    unfolding create_cluster_def by (fastforce simp: bindIO_eq_Inr on_world_Inr Let_def split: if_splits dest: pull_keeps)
  from 2 obtain env1 where sw: "sw = (env1, w2)" by (cases sw) (auto dest: save_json_result split: if_splits)
  have pool: "json_ok ?pool" by simp
  from save_json_Inr [OF json_codec.codec_axioms pool, of "''resources/pool.json''" env1 w2] 3 [unfolded sw] obtain t where
    t: "env' = write_file env1 ''resources/pool.json'' (TextFile t)" "json_loads (env_runtime env1) t = Inr ?pool" by auto
  have "get_hosts env' ''resources/pool.json'' = Inr (?names, [])"
    using t container_names_distinct by (intro get_hosts_of_text [where t = t]) (auto simp: write_file_def dict_get_def)
  moreover have "read_json env' ''portmaps.json'' = Inr (PList (map (port_entry network_name) [0..<nat number_of_nodes]))" if dev
  proof -
    have "snd pm = map (port_entry network_name) [0..<nat number_of_nodes]"
      using start_containers [where i = 0 and k = "nat number_of_nodes"] 1 that by (simp add: container_names_def)
    moreover have "json_ok (PList (snd pm))" unfolding calculation by (auto simp: port_entry_def)
    ultimately show ?thesis
      using save_json_Inr [where enc = "\<lambda>rt. json_pretty rt 0" and v = "PList (snd pm)" and f = "''portmaps.json''" and env = env and w = w2,
        OF pretty_codec.codec_axioms] 2 [unfolded sw] that t(1)
      by (auto simp: read_json_def write_file_def dict_get_def)
  qed
  ultimately show ?thesis by (simp add: container_names_def)
qed


definition sample_docker :: "unit docker_ops" where
  "sample_docker = \<lparr>dk_pull = (\<lambda>_. returnIO ()), dk_networks = returnIO [], dk_create = (\<lambda>n. returnIO \<lparr>dn_id = 1, dn_name = n\<rparr>),
     dk_run = (\<lambda>_ _ _. returnIO 7), dk_connect = (\<lambda>_ _. returnIO ()), dk_containers = (\<lambda>_. returnIO []), dk_remove = (\<lambda>_. returnIO ()),
     dk_isdir = (\<lambda>_. returnIO False), dk_rmtree = (\<lambda>_. returnIO ()), dk_mkdir = (\<lambda>_. returnIO ()), dk_call = (\<lambda>_. returnIO ())\<rparr>"

theorem docker_pool_read_back_witness:
  "case create_cluster sample_docker ''cbl'' 2 True True (sample_pool, ()) of (r, (env', _)) \<Rightarrow> r = Inr () \<and>
     get_hosts env' ''resources/pool.json'' = Inr ([''cbl.0'', ''cbl.1''], []) \<and>
     read_json env' ''portmaps.json'' = Inr (PList [port_entry ''cbl'' 0, port_entry ''cbl'' 1])"
proof -
  have c: "container_names ''cbl'' 2 = [''cbl.0'', ''cbl.1'']" by code_simp
  have f: "foldIO (start_container sample_docker \<lparr>dn_id = 1, dn_name = ''cbl''\<rparr> True) (30000, []) [''cbl.0'', ''cbl.1''] ()
     = (Inr (30010, [port_entry ''cbl'' 0, port_entry ''cbl'' 1]), ())" by code_simp
  have "json_ok (PList [port_entry ''cbl'' 0, port_entry ''cbl'' 1])" by (simp add: port_entry_def)
  from save_json_Inr [where enc = "\<lambda>rt. json_pretty rt 0" and f = "''portmaps.json''" and env = sample_pool and w = "()", OF pretty_codec.codec_axioms this]
  obtain env1 where p: "save_json (\<lambda>rt. json_pretty rt 0) ''portmaps.json'' (PList [port_entry ''cbl'' 0, port_entry ''cbl'' 1]) (sample_pool, ()) = (Inr (), (env1, ()))"
    by blast
  have "json_ok (PDict [(''ips'', PList (map PStr [''cbl.0'', ''cbl.1'']))])" by simp
  from save_json_Inr [where enc = json_dumps and f = "''resources/pool.json''" and env = env1 and w = "()", OF json_codec.codec_axioms this]
  obtain env' where "save_json json_dumps ''resources/pool.json'' (PDict [(''ips'', PList (map PStr [''cbl.0'', ''cbl.1'']))]) (env1, ()) = (Inr (), (env', ()))"
    by blast
  moreover have "use_network sample_docker ''cbl'' True () = (Inr \<lparr>dn_id = 1, dn_name = ''cbl''\<rparr>, ())" by code_simp
  moreover have "dk_pull sample_docker i = returnIO ()" for i by (simp add: sample_docker_def)
  ultimately have e: "create_cluster sample_docker ''cbl'' 2 True True (sample_pool, ()) = (Inr (), (env', ()))"
    unfolding create_cluster_def c using f p by (simp add: bindIO_eq_Inr on_world_Inr Let_def del: foldIO.simps)
  have n: "nat_str 0 = ''0''" "nat_str 1 = ''1''" by code_simp+
  have u: "[0..<nat 2] = [0, 1]" by (simp add: upt_rec)
  from docker_pool_read_back [OF e] show ?thesis unfolding e u by (simp add: n del: One_nat_def)
qed

lemma mset_sorted_items: "mset (sorted_items d) = mset d"
proof -
  have "mset (insert_item kv d) = add_mset kv (mset d)" for kv :: "string \<times> 'a" and d by (induction kv d rule: insert_item.induct) auto
  then show ?thesis unfolding sorted_items_def by (induction d) simp_all
qed

lemma sorted_items_dict:
  assumes "dict_wf d"
  shows "dict_wf (sorted_items d)" "map_of (sorted_items d) = map_of d" "set (sorted_items d) = set d"
proof -
  show s: "set (sorted_items d) = set d" using mset_sorted_items by (metis set_mset_mset)
  have "mset (map fst (sorted_items d)) = mset (map fst d)" by (simp add: mset_sorted_items)
  then show "dict_wf (sorted_items d)" using assms by (metis mset_eq_imp_distinct_iff)
  with s assms show "map_of (sorted_items d) = map_of d" by (metis map_of_inject_set)
qed

abbreviation add_group :: "(string, pyval) dict \<Rightarrow> ec2_instance \<Rightarrow> (string, pyval) dict res" where
  "add_group d i \<equiv> bindR (get_ansible_group_for_instance i) (\<lambda>g. Inr (dict_set d (ei_public_dns_name i) (PStr g)))"

lemma json_ok_dict_set: "\<forall>kv \<in> set d. json_ok (snd kv) \<Longrightarrow> \<forall>kv \<in> set (dict_set d k (PStr g)). json_ok (snd kv)"
  by (induction d) (auto simp: dict_set_def)

lemma groups_wf:
  "foldR add_group d instances = Inr d' \<Longrightarrow> dict_wf d \<Longrightarrow> \<forall>kv \<in> set d. json_ok (snd kv) \<Longrightarrow> dict_wf d' \<and> (\<forall>kv \<in> set d'. json_ok (snd kv))"
proof (induction instances arbitrary: d)
  case (Cons i instances)
  then obtain g where "foldR add_group (dict_set d (ei_public_dns_name i) (PStr g)) instances = Inr d'" by (auto simp: bindR_eq_Inr)
  from Cons.IH [OF this] Cons.prems(2) json_ok_dict_set [OF Cons.prems(3)] show ?case by blast
qed simp

lemma groups_other: "foldR add_group d instances = Inr d' \<Longrightarrow> n \<notin> ei_public_dns_name ` set instances \<Longrightarrow> map_of d' n = map_of d n"
  by (induction instances arbitrary: d) (auto simp: bindR_eq_Inr)

lemma groups_member:
  "foldR add_group d instances = Inr d' \<Longrightarrow> distinct (map ei_public_dns_name instances) \<Longrightarrow> i \<in> set instances \<Longrightarrow>
     \<exists>g. get_ansible_group_for_instance i = Inr g \<and> map_of d' (ei_public_dns_name i) = Some (PStr g)"
proof (induction instances arbitrary: d)
  case (Cons x xs)
  then obtain g where g: "get_ansible_group_for_instance x = Inr g" "foldR add_group (dict_set d (ei_public_dns_name x) (PStr g)) xs = Inr d'"
    by (auto simp: bindR_eq_Inr)
  show ?case
  proof (cases "i = x")
    case True
    with g groups_other [OF g(2), of "ei_public_dns_name x"] Cons.prems(2) show ?thesis by simp
  next
    case False
    with Cons.IH [OF g(2)] Cons.prems(2,3) show ?thesis by simp
  qed
qed simp

text \<open>
  C29: for instances with distinct public names whose group is known, \<open>write_to_file\<close> of \<open>generate_pools_json_from_aws.py\<close> writes a pool file from
  which \<open>get_hosts\<close> reads the public names in order and, for each instance, the Ansible group of its tags.
\<close>

theorem aws_pool_read_back:
  assumes groups: "ansible_groups instances = Inr groups" and names: "distinct (map ei_public_dns_name instances)"
  shows "\<exists>env' types. write_to_file (map ei_public_dns_name instances) (map ei_private_dns_name instances) groups f (env, w) = (Inr (), (env', w)) \<and>
     get_hosts env' f = Inr (map ei_public_dns_name instances, types) \<and>
     (\<forall>i \<in> set instances. \<exists>g. get_ansible_group_for_instance i = Inr g \<and> map_of types (ei_public_dns_name i) = Some (PStr g))"
proof -
  note g = groups [unfolded ansible_groups_def]
  have wf: "dict_wf groups" "\<forall>kv \<in> set groups. json_ok (snd kv)" using groups_wf [OF g] by simp_all
  note s = sorted_items_dict [OF wf(1)]
  let ?ips = "map ei_public_dns_name instances" and ?private = "map ei_private_dns_name instances"
  let ?d = "[(''ip_to_node_type'', PDict (sorted_items groups)), (''ips'', PList (map PStr ?ips)), (''private_dns_names'', PList (map PStr ?private))]"
  have items: "sorted_items [(''ip_to_node_type'', PDict (sorted_items groups)), (''private_dns_names'', PList (map PStr ?private)),
      (''ips'', PList (map PStr ?ips))] = ?d"
    by (simp add: sorted_items_def)
  have "json_ok (PDict ?d)" using s wf by auto
  from save_json_Inr [where enc = "\<lambda>rt. json_pretty rt 0" and f = f and env = env and w = w, OF pretty_codec.codec_axioms this] obtain t where
    t: "write_to_file ?ips ?private groups f (env, w) = (Inr (), (write_file env f (TextFile t), w))" "json_loads (env_runtime env) t = Inr (PDict ?d)"
    unfolding write_to_file_def items by blast
  have "get_hosts (write_file env f (TextFile t)) f = Inr (?ips, sorted_items groups)"
    using t(2) names by (intro get_hosts_of_text [where t = t and d = ?d]) (auto simp: write_file_def dict_get_def)
  with t(1) groups_member [OF g names] show ?thesis unfolding s(2) [symmetric] by blast
qed

definition sample_machine :: "string \<Rightarrow> (string, string) dict \<Rightarrow> ec2_instance" where
  "sample_machine n tags = \<lparr>ei_state = ''running'', ei_ip_address = PStr ''54.0.0.1'', ei_public_dns_name = n, ei_private_dns_name = n, ei_tags = tags\<rparr>"

theorem aws_pool_read_back_witness:
  "\<exists>env' types. get_hosts env' ''p'' = Inr ([''ec2-b'', ''ec2-a''], types) \<and> map_of types ''ec2-a'' = Some (PStr ''sg_accels'')"
proof -
  let ?m = "[sample_machine ''ec2-b'' [(''Type'', ''couchbaseserver'')], sample_machine ''ec2-a'' [(''Type'', ''syncgateway''), (''CacheType'', ''writer'')]]"
  have g: "ansible_groups ?m = Inr [(''ec2-b'', PStr ''couchbase_servers''), (''ec2-a'', PStr ''sg_accels'')]" by code_simp
  have d: "distinct (map ei_public_dns_name ?m)" by code_simp
  have "get_ansible_group_for_instance (?m ! 1) = Inr ''sg_accels''" by code_simp
  with aws_pool_read_back [OF g d, of "''p''" sample_pool "()"] show ?thesis by (auto simp: sample_machine_def)
qed

lemma attempts_fail:
  assumes "\<And>s w r w'. body s w = (Inr r, w') \<Longrightarrow> \<exists>s'. r = Inl s'" "attempts n body s w = (Inr r, w')"
  shows "\<exists>s'. r = Inl s'"
  using assms(2) by (induction n arbitrary: s w) (fastforce simp: bindIO_eq_Inr dest: assms(1))+

lemma sshd_step_eq: "sshd_step ao ok i w = (Inr b, w') \<longleftrightarrow> (\<exists>a. listening ao i w = (Inr a, w') \<and> b = (ok \<and> a))"
  by (auto simp: sshd_step_def bindIO_eq_Inr)

lemma sshd_fold_False:
  assumes "\<And>w. \<exists>e w'. aws_connect ao (ei_ip_address i) w = (Inl e, w')" "i \<in> set instances"
    "foldIO (sshd_step ao) ok instances w = (Inr all_listening, w')"
  shows "\<not> all_listening"
proof -
  have stays: "\<not> b" if "foldIO (sshd_step ao) False xs v = (Inr b, v')" for xs b v v'
    using that by (induction xs arbitrary: v) (auto simp: bindIO_eq_Inr sshd_step_eq)
  have here: "\<not> b" if "listening ao i v = (Inr b, v')" for b v v'
    using that assms(1) [of v] by (auto simp: listening_def tryIO_def bindIO_def)
  from assms(2,3) show ?thesis
  proof (induction instances arbitrary: ok w)
    case (Cons x xs)
    then obtain b v where 1: "listening ao x w = (Inr b, v)"
      and 2: "foldIO (sshd_step ao) (ok \<and> b) xs v = (Inr all_listening, w')"
      by (auto simp: bindIO_eq_Inr sshd_step_eq)
    show ?case
    proof (cases "x = i")
      case True
      with here [of w b v] 1 have "\<not> b" by simp
      with 2 have "foldIO (sshd_step ao) False xs v = (Inr all_listening, w')" by simp
      then show ?thesis by (rule stays)
    qed (use Cons 2 in auto)
  qed simp
qed

text \<open>
  C39: the machines of a stack are looked up once before they run, and these objects are used from then on: if one of them has no
  address yet (and nothing can connect to no address), \<open>get_running_instances_for_cloudformation_stack\<close> raises, however the
  machines develop.
\<close>

theorem stale_instance_never_ready:
  assumes "\<And>w. \<exists>e w'. aws_connect ao PNone w = (Inl e, w')"
    and "wait_until_stack_create_complete ao stackname w = (Inr (), w1)" "get_instance_ids_for_stack ao stackname w1 = (Inr ids, w2)"
    and "lookup_instances_from_ids ao ids w2 = (Inr instances, w3)" "i \<in> set instances" "ei_ip_address i = PNone"
  shows "\<exists>e w'. get_running_instances_for_cloudformation_stack ao stackname w = (Inl e, w')"
proof -
  have "r = Inl ()" if "attempts NUM_RETRIES (sshd_round ao instances) () v = (Inr r, v')" for r v v'
    using attempts_fail [OF _ that] sshd_fold_False [of ao i instances] assms(1,5,6)
    by (fastforce simp: sshd_round_def again_after_def bindIO_eq_Inr split: if_splits)
  then have "\<nexists>u v'. wait_until_sshd_port_listening ao instances v = (Inr u, v')" for v
    unfolding wait_until_sshd_port_listening_def bindIO_eq_Inr by (metis (no_types, lifting) old.sum.simps(5) prod.inject raiseIO_apply sum.distinct(1))
  then have "\<nexists>r v'. get_running_instances_for_cloudformation_stack ao stackname w = (Inr r, v')"
    using assms(2-4) by (auto simp: get_running_instances_for_cloudformation_stack_def bindIO_eq_Inr)
  then show ?thesis by (metis obj_sumE surj_pair)
qed

text \<open>A stack with one machine that has its address from the second look on.\<close>

definition sample_aws :: "nat aws_ops" where
  "sample_aws = \<lparr>aws_describe_stacks = (\<lambda>_. returnIO ()),
     aws_describe_stack_events = (\<lambda>s. returnIO [\<lparr>se_stack_name = s, se_resource_type = ''AWS::CloudFormation::Stack'', se_resource_status = ''CREATE_COMPLETE''\<rparr>]),
     aws_describe_stack_resources = (\<lambda>_. returnIO [(''AWS::EC2::Instance'', ''i-1'')]),
     aws_get_all_instances = (\<lambda>_ n. (Inr [[(sample_machine ''ec2-a'' [])\<lparr>ei_state := (if n = 0 then ''pending'' else ''running''),
       ei_ip_address := (if n = 0 then PNone else PStr ''54.0.0.1'')\<rparr>]], n + 1)),
     aws_connect = (\<lambda>a. if a = PNone then raiseIO (Exn ''TypeError'' ''str, bytes or bytearray expected, not NoneType'') else returnIO ()),
     aws_sleep = (\<lambda>_. returnIO ())\<rparr>"

theorem stale_instance_never_ready_witness:
  "\<exists>e w'. get_running_instances_for_cloudformation_stack sample_aws ''s'' 0 = (Inl e, w')"
proof -
  let ?i = "(sample_machine ''ec2-a'' [])\<lparr>ei_state := ''pending'', ei_ip_address := PNone\<rparr>"
  have c: "\<exists>e w'. aws_connect sample_aws PNone w = (Inl e, w')" for w by (simp add: sample_aws_def)
  have 1: "wait_until_stack_create_complete sample_aws ''s'' 0 = (Inr (), 0)" by code_simp
  have 2: "get_instance_ids_for_stack sample_aws ''s'' 0 = (Inr [''i-1''], 0)" by code_simp
  have 3: "lookup_instances_from_ids sample_aws [''i-1''] 0 = (Inr [?i], 1)" by code_simp
  show ?thesis by (rule stale_instance_never_ready [OF c 1 2 3, of ?i]) simp_all
qed

end
