(* ===== verification/Log_Tools.thy ===== *)
theory Log_Tools
  imports Sg_Node
begin

text \<open>
  Tools around a test run: \<open>utilities/scan_logs.py\<close> looks for errors in collected logs, \<open>libraries/utilities/log_expvars.py\<close> records
  the statistics of load generators and Sync Gateways while they run, \<open>libraries/testkit/prometheus.py\<close> starts and asks a
  Prometheus. Directory walks, archives, programs and the inventory of ansible are parameters.
\<close>

section \<open>Scanning logs\<close>

record 'w scan_ops =
  so_walk :: "string \<Rightarrow> ('w, (string \<times> string list) list) io"
  so_unzip :: "string \<Rightarrow> string \<Rightarrow> ('w, unit) io"
  so_lines :: "string \<Rightarrow> ('w, string list) io"

definition LogScanningError :: "string \<Rightarrow> exn" where
  "LogScanningError msg = Exn ''LogScanningError'' msg"

text \<open>The paths of a directory walk with an ending.\<close>

definition walk_paths :: "(string \<times> string list) list \<Rightarrow> string \<Rightarrow> string list" where
  "walk_paths tree extension = filter (\<lambda>p. endswith p extension) (concat (map (\<lambda>(root, file_names). map (path_join root) file_names) tree))"

definition get_file_paths_with_extension :: "'w scan_ops \<Rightarrow> string \<Rightarrow> string \<Rightarrow> ('w, string list) io" where
  "get_file_paths_with_extension so directory extension =
     bindIO (so_walk so directory) (\<lambda>tree. returnIO (walk_paths tree extension))"

definition unzip_log_files :: "'w scan_ops \<Rightarrow> string \<Rightarrow> ('w, unit) io" where
  "unzip_log_files so directory =
     bindIO (if \<not> contains_str directory ''.zip'' then get_file_paths_with_extension so directory ''.zip'' else returnIO [directory]) (\<lambda>zip_files.
     forIO zip_files (\<lambda>z. so_unzip so z (replace_str ''.zip'' [] z)))"

text \<open>A word in a line, without regard to case.\<close>

definition line_has :: "string \<Rightarrow> string \<Rightarrow> bool" where
  "line_has line word \<longleftrightarrow> contains_str (py_lower line) (py_lower word)"

definition scan_line :: "string \<Rightarrow> pyval list \<Rightarrow> string \<Rightarrow> unit res" where
  "scan_line log_file_path words line =
     foldR (\<lambda>_ v. bindR (str_attr v ''lower'') (\<lambda>word.
       if line_has line word then Inl (LogScanningError (word @ '' found!! Please review: '' @ log_file_path @ '' '')) else Inr ())) () words"

definition scan_for_errors :: "'w scan_ops \<Rightarrow> string \<Rightarrow> pyval \<Rightarrow> ('w, unit) io" where
  "scan_for_errors so log_file_path error_strings = (case error_strings of
       PList words \<Rightarrow> bindIO (so_lines so log_file_path) (\<lambda>lines. liftIO (foldR (\<lambda>_. scan_line log_file_path words) () lines))
     | _ \<Rightarrow> raiseIO (Exn ''ValueError'' ''error_strings must be a list''))"

text \<open>Every line and every word is looked at, also after the first hit.\<close>

definition find_in_line :: "pyval list \<Rightarrow> bool \<Rightarrow> string \<Rightarrow> bool res" where
  "find_in_line words flag line = foldR (\<lambda>f v. bindR (str_attr v ''lower'') (\<lambda>word. Inr (f \<or> line_has line word))) flag words"

definition scan_for_pattern :: "'w scan_ops \<Rightarrow> py_runtime \<Rightarrow> string \<Rightarrow> pyval \<Rightarrow> ('w, unit) io" where
  "scan_for_pattern so rt logfile_path pattern_list = (case pattern_list of
       PList words \<Rightarrow> bindIO (so_lines so logfile_path) (\<lambda>lines. bindIO (liftIO (foldR (find_in_line words) False lines)) (\<lambda>flag.
         if flag then returnIO ()
         else raiseIO (LogScanningError (py_str rt pattern_list @ '' Did not find the words !! Please review: '' @ logfile_path @ '' ''))))
     | _ \<Rightarrow> raiseIO (Exn ''ValueError'' ''error_strings must be a list''))"

definition log_errors :: pyval where
  "log_errors = PList [PStr ''panic'', PStr ''data race'']"

definition scan_file :: "'w scan_ops \<Rightarrow> bool \<Rightarrow> string \<Rightarrow> ('w, bool) io" where
  "scan_file so found_errors logfile_path = tryIO (bindIO (scan_for_errors so logfile_path log_errors) (\<lambda>_. returnIO found_errors))
     (\<lambda>e. if exn_class e = ''LogScanningError'' then returnIO True else raiseIO e)"

definition scan_logs :: "'w scan_ops \<Rightarrow> string \<Rightarrow> ('w, unit) io" where
  "scan_logs so directory =
     bindIO (unzip_log_files so directory) (\<lambda>_.
     bindIO (get_file_paths_with_extension so directory ''.log'') (\<lambda>log_file_paths.
     bindIO (foldIO (scan_file so) False log_file_paths) (\<lambda>found_errors.
     if found_errors then raiseIO (LogScanningError ''Found errors in the sync gateway / sg accel logs!!'') else returnIO ())))"

section \<open>Recording statistics\<close>

record 'w stat_ops =
  st_http :: "'w http"
  st_clock :: "'w clock"
  st_now :: "('w, string) io"
  st_hosts :: "string \<Rightarrow> ('w, (string, pyval) dict list) io"
  st_write :: "string \<Rightarrow> string \<Rightarrow> ('w, unit) io"

definition stat_rq :: "string \<Rightarrow> http_request" where
  "stat_rq url = (bare_rq ''GET'' url)\<lparr>rq_timeout := Some HTTP_REQ_TIMEOUT\<rparr>"

definition dump_results :: "'w stat_ops \<Rightarrow> string \<Rightarrow> (string, pyval) dict \<Rightarrow> (string, pyval) dict \<Rightarrow> ('w, unit) io" where
  "dump_results so test_folder gateload_results sync_gateway_results =
     (let file = (\<lambda>n. ''testsuites/syncgateway/performance/results/'' @ test_folder @ ''/'' @ n @ ''_expvars.json'');
          dump = (\<lambda>n r. bindIO (liftIO (json_dumps (http_runtime (st_http so)) (PDict r))) (st_write so (file n))) in
      bindIO (dump ''gateload'' gateload_results) (\<lambda>_. dump ''sync_gateway'' sync_gateway_results))"

definition write_expvars :: "'w stat_ops \<Rightarrow> (string, pyval) dict \<Rightarrow> string \<Rightarrow> ('w, (string, pyval) dict) io" where
  "write_expvars so results ep =
     bindIO (checked_json (st_http so) (http_send (st_http so) (stat_rq (''http://'' @ ep)))) (\<lambda>expvars.
     bindIO (st_now so) (\<lambda>now. returnIO (dict_set results now (PDict [(''endpoint'', PStr ep), (''expvars'', expvars)]))))"

text \<open>Every endpoint is asked in each attempt; the pause grows with the attempts.\<close>

definition endpoint_up :: "'w stat_ops \<Rightarrow> string \<Rightarrow> ('w, bool) io" where
  "endpoint_up so ep =
     tryIO (bindIO (checked (http_send (st_http so) (stat_rq (if startswith ep ''http'' then ep else ''http://'' @ ep)))) (\<lambda>_. returnIO True))
       (\<lambda>_. returnIO False)"

fun endpoint_attempts :: "'w stat_ops \<Rightarrow> string list \<Rightarrow> nat list \<Rightarrow> ('w, bool) io" where
  "endpoint_attempts so endpoints [] = returnIO False"
| "endpoint_attempts so endpoints (i # is) =
     bindIO (foldIO (\<lambda>up e. bindIO (endpoint_up so e) (\<lambda>b. returnIO (up \<and> b))) True endpoints) (\<lambda>up.
     if up then returnIO True else bindIO (clk_sleep (st_clock so) (of_nat (i * 2))) (\<lambda>_. endpoint_attempts so endpoints is))"

definition wait_for_endpoints_alive_or_raise :: "'w stat_ops \<Rightarrow> string list \<Rightarrow> nat \<Rightarrow> ('w, unit) io" where
  "wait_for_endpoints_alive_or_raise so endpoints num_attempts =
     bindIO (endpoint_attempts so endpoints [0..<num_attempts]) (\<lambda>up.
     if up then returnIO () else raiseIO (Exn ''RuntimeError'' (''Give up waiting for endpoints after '' @ nat_str num_attempts @ '' attempts'')))"

definition host_endpoints :: "string \<Rightarrow> (string, pyval) dict list \<Rightarrow> string list res" where
  "host_endpoints tail hosts = mapR (\<lambda>h. bindR (dict_index h ''ansible_host'') (\<lambda>v. bindR (as_str v) (\<lambda>s. Inr (s @ tail)))) hosts"

record expvar_state =
  ev_gateload :: "(string, pyval) dict"
  ev_gateway :: "(string, pyval) dict"
  ev_gateload_running :: bool
  ev_gateway_running :: bool
  ev_success :: bool

definition dump_state :: "'w stat_ops \<Rightarrow> string \<Rightarrow> expvar_state \<Rightarrow> ('w, expvar_state) io" where
  "dump_state so folder s = bindIO (dump_results so folder (ev_gateload s) (ev_gateway s)) (\<lambda>_. returnIO s)"

text \<open>The exceptions of \<open>requests\<close> (version 2.19: a body that is not JSON is a \<open>ValueError\<close> and not one of them).\<close>

definition request_exception :: "exn \<Rightarrow> bool" where
  "request_exception e \<longleftrightarrow> exn_class e \<in> {''RequestException'', ''ConnectionError'', ''HTTPError'', ''Timeout'', ''ReadTimeout'', ''ConnectTimeout''}"

definition gateload_step :: "'w stat_ops \<Rightarrow> string \<Rightarrow> expvar_state \<Rightarrow> string \<Rightarrow> ('w, expvar_state) io" where
  "gateload_step so folder s ep =
     tryIO (bindIO (write_expvars so (ev_gateload s) ep) (\<lambda>r. dump_state so folder (s\<lparr>ev_gateload := r\<rparr>)))
       (\<lambda>e. if request_exception e then bindIO (dump_state so folder s) (\<lambda>_. returnIO (s\<lparr>ev_gateload_running := False\<rparr>)) else raiseIO e)"

definition gateway_step :: "'w stat_ops \<Rightarrow> string \<Rightarrow> expvar_state \<Rightarrow> string \<Rightarrow> ('w, expvar_state) io" where
  "gateway_step so folder s ep =
     tryIO (bindIO (write_expvars so (ev_gateway s) ep) (\<lambda>r. dump_state so folder (s\<lparr>ev_gateway := r\<rparr>)))
       (\<lambda>e. if request_exception e then bindIO (dump_state so folder s) (\<lambda>_. returnIO (s\<lparr>ev_gateway_running := False, ev_success := False\<rparr>)) else raiseIO e)"

definition expvar_round :: "'w stat_ops \<Rightarrow> string \<Rightarrow> rat \<Rightarrow> string list \<Rightarrow> string list \<Rightarrow> expvar_state \<Rightarrow> ('w, bool \<times> expvar_state) io" where
  "expvar_round so folder sleep_time lgs sgs s =
     bindIO (foldIO (gateload_step so folder) s lgs) (\<lambda>s.
     bindIO (foldIO (gateway_step so folder) s sgs) (\<lambda>s.
     bindIO (dump_state so folder s) (\<lambda>s.
     bindIO (clk_sleep (st_clock so) sleep_time) (\<lambda>_. returnIO (True, s)))))"

definition expvar_targets :: "'w stat_ops \<Rightarrow> ('w, string list \<times> string list) io" where
  "expvar_targets so =
     bindIO (st_hosts so ''load_generators'') (\<lambda>hosts. bindIO (liftIO (host_endpoints '':9876/debug/vars'' hosts)) (\<lambda>lgs.
     bindIO (st_hosts so ''sync_gateways'') (\<lambda>hosts. bindIO (liftIO (host_endpoints '':4985/_expvar'' hosts)) (\<lambda>sgs.
     bindIO (wait_for_endpoints_alive_or_raise so sgs 5) (\<lambda>_.
     bindIO (wait_for_endpoints_alive_or_raise so lgs 5) (\<lambda>_. returnIO (lgs, sgs)))))))"

text \<open>The loop ends when a service is gone; with fuel. An error of the run time is the answer \<open>False\<close>.\<close>

definition log_expvars :: "'w stat_ops \<Rightarrow> string \<Rightarrow> rat \<Rightarrow> nat \<Rightarrow> ('w, bool) dio" where
  "log_expvars so folder_name sleep_time fuel w =
     (case bindD (liftD (expvar_targets so)) (\<lambda>(lgs, sgs).
        while_io (\<lambda>s. ev_gateload_running s \<and> ev_gateway_running s) (expvar_round so folder_name sleep_time lgs sgs) fuel
          \<lparr>ev_gateload = [], ev_gateway = [], ev_gateload_running = True, ev_gateway_running = True, ev_success = True\<rparr>) w of
       None \<Rightarrow> None
     | Some (Inr s, w') \<Rightarrow> Some (Inr (ev_success s), w')
     | Some (Inl e, w') \<Rightarrow> Some (if exn_class e = ''RuntimeError'' then Inr False else Inl e, w'))"

section \<open>Prometheus\<close>

record 'w prom_ops =
  pm_http :: "'w http"
  pm_output :: "string list \<Rightarrow> ('w, string) io"
  pm_shell :: "string \<Rightarrow> ('w, bool) io"
  pm_popen :: "string list \<Rightarrow> ('w, unit) io"
  pm_kill :: "int \<Rightarrow> ('w, unit) io"
  pm_cwd :: string
  pm_platform :: string

definition kill_prometheus_process :: "'w prom_ops \<Rightarrow> ('w, unit) io" where
  "kill_prometheus_process pm =
     bindIO (pm_output pm [''pgrep'', ''prometheus'']) (\<lambda>pids.
     forIO (filter (\<lambda>p. p \<noteq> []) (split_chr chr_newline pids)) (\<lambda>p. bindIO (liftIO (py_int_of p)) (pm_kill pm)))"

definition prometheus_file :: "'w prom_ops \<Rightarrow> bool \<Rightarrow> string" where
  "prometheus_file pm need_auth = pm_cwd pm @ ''/libraries/provision/ansible/playbooks/'' @ (if need_auth then ''prometheus_with_auth.yml'' else ''prometheus.yml'')"

definition sed :: "'w prom_ops \<Rightarrow> string \<Rightarrow> string \<Rightarrow> string \<Rightarrow> ('w, unit) io" where
  "sed pm old new f = bindIO (pm_shell pm (''sed -i -e '' @ [CHR 0x27] @ ''s/'' @ old @ ''/'' @ new @ ''/g'' @ [CHR 0x27] @ '' '' @ f)) (\<lambda>_. returnIO ())"

definition start_prometheus :: "'w prom_ops \<Rightarrow> string \<Rightarrow> bool \<Rightarrow> bool \<Rightarrow> ('w, unit) io" where
  "start_prometheus pm sg_ip ssl need_auth = (let f = prometheus_file pm need_auth in
     bindIO (kill_prometheus_process pm) (\<lambda>_.
     bindIO (sed pm ''promotheus_sg_ip'' sg_ip f) (\<lambda>_.
     bindIO (if ssl then sed pm ''http'' ''https'' f else returnIO ()) (\<lambda>_.
     pm_popen pm [''prometheus'', ''--config.file='' @ f]))))"

definition stop_prometheus :: "'w prom_ops \<Rightarrow> string \<Rightarrow> bool \<Rightarrow> bool \<Rightarrow> ('w, unit) io" where
  "stop_prometheus pm sg_ip ssl need_auth = (let f = prometheus_file pm need_auth in
     bindIO (sed pm sg_ip ''promotheus_sg_ip'' f) (\<lambda>_.
     bindIO (if ssl then sed pm ''https'' ''http'' f else returnIO ()) (\<lambda>_. kill_prometheus_process pm)))"

text \<open>The shell answers whether the command succeeded; with \<open>check=True\<close> a failure raises.\<close>

definition shell_checked :: "'w prom_ops \<Rightarrow> string \<Rightarrow> ('w, unit) io" where
  "shell_checked pm cmd = bindIO (pm_shell pm cmd) (\<lambda>ok. if ok then returnIO () else raiseIO (Exn ''CalledProcessError'' cmd))"

definition is_prometheus_installed :: "'w prom_ops \<Rightarrow> ('w, bool) io" where
  "is_prometheus_installed pm = tryIO (bindIO (shell_checked pm ''prometheus --version'') (\<lambda>_. returnIO True)) (\<lambda>_. returnIO False)"

text \<open>A response with an error status is an \<open>HTTPError\<close> without arguments.\<close>

definition query_prometheus :: "'w prom_ops \<Rightarrow> string \<Rightarrow> ('w, pyval) io" where
  "query_prometheus pm stat_name =
     tryIO (checked_json (pm_http pm) (http_send (pm_http pm) (bare_rq ''GET'' (''http://localhost:9090/api/v1/query?query='' @ stat_name))))
       (\<lambda>e. raiseIO (if exn_class e = ''HTTPError'' then Exn ''HTTPError'' [] else e))"

definition first_value :: "pyval \<Rightarrow> pyval res" where
  "first_value v = bindR (as_list v) (\<lambda>xs. list_item xs 0)"

definition verify_stat_on_prometheus :: "'w prom_ops \<Rightarrow> string \<Rightarrow> ('w, pyval) io" where
  "verify_stat_on_prometheus pm stat_name =
     bindIO (query_prometheus pm stat_name) (\<lambda>stats_data.
     liftIO (bindR (py_item2 stats_data ''data'' ''result'') (\<lambda>rs. bindR (first_value rs) (\<lambda>r. bindR (py_item r ''value'') first_value))))"

definition install_prometheus :: "'w prom_ops \<Rightarrow> ('w, bool) io" where
  "install_prometheus pm =
     (if pm_platform pm = ''darwin'' then bindIO (shell_checked pm ''brew install prometheus'') (\<lambda>_. is_prometheus_installed pm)
      else bindIO (forIO [''wget https://github.com/prometheus/prometheus/releases/download/v2.3.2/prometheus-2.3.2.linux-amd64.tar.gz'',
          ''tar -xvzf prometheus-2.3.2.linux-amd64.tar.gz'', ''cp prometheus-2.3.2.linux-amd64/prometheus /usr/local/bin/'',
          ''cp prometheus-2.3.2.linux-amd64/promtool /usr/local/bin/''] (\<lambda>cmd. bindIO (pm_shell pm cmd) (\<lambda>_. returnIO ()))) (\<lambda>_. is_prometheus_installed pm))"

section \<open>What a scan finds\<close>

lemma scan_line_str:
  "scan_line p (map PStr words) line = (case find (line_has line) words of
     None \<Rightarrow> Inr () | Some word \<Rightarrow> Inl (LogScanningError (word @ '' found!! Please review: '' @ p @ '' '')))"
  by (induction words) (auto simp: scan_line_def str_attr_def)

text \<open>A line that no scan lets through.\<close>

definition bad_line :: "string \<Rightarrow> bool" where
  "bad_line line \<longleftrightarrow> line_has line ''panic'' \<or> line_has line ''data race''"

lemma scan_for_log_errors:
  assumes "so_lines so p w = (Inr lines, w')"
  shows "if list_ex bad_line lines then \<exists>msg. scan_for_errors so p log_errors w = (Inl (LogScanningError msg), w')
    else scan_for_errors so p log_errors w = (Inr (), w')"
proof -
  have words: "[PStr ''panic'', PStr ''data race''] = map PStr [''panic'', ''data race'']" by simp
  have "if list_ex bad_line lines then \<exists>msg. foldR (\<lambda>_. scan_line p (map PStr [''panic'', ''data race''])) () lines = Inl (LogScanningError msg)
      else foldR (\<lambda>_. scan_line p (map PStr [''panic'', ''data race''])) () lines = Inr ()"
    by (induction lines) (auto simp: scan_line_str bad_line_def simp del: list.map split: if_splits)
  then show ?thesis using assms unfolding scan_for_errors_def log_errors_def words by (auto simp: io_simps split: if_splits)
qed

lemma scan_files:
  assumes "\<And>p. p \<in> set ps \<Longrightarrow> so_lines so p w = (Inr (lines p), w)"
  shows "foldIO (scan_file so) found ps w
     = (Inr (found \<or> list_ex (\<lambda>p. list_ex bad_line (lines p)) ps), w)"
  using assms
proof (induction ps arbitrary: found)
  case (Cons p ps)
  from scan_for_log_errors [of so p w "lines p" w] Cons.prems
  have "if list_ex bad_line (lines p) then \<exists>msg. scan_for_errors so p log_errors w = (Inl (LogScanningError msg), w)
    else scan_for_errors so p log_errors w = (Inr (), w)" by simp
  then have "scan_file so found p w = (Inr (found \<or> list_ex bad_line (lines p)), w)"
    by (auto simp: scan_file_def tryIO_def bindIO_def LogScanningError_def split: if_splits)
  with Cons show ?case by (simp add: io_simps disj_assoc)
qed (simp add: io_simps)

text \<open>
  C35: \<open>scan_logs\<close> is exact: when the archives have been unpacked, it returns if no line of a \<open>.log\<close> file below the directory contains
  "panic" or "data race" in any mixture of cases, and raises \<open>LogScanningError\<close> otherwise.
\<close>

theorem scan_logs_exact:
  assumes "unzip_log_files so directory w = (Inr (), w')" "so_walk so directory w' = (Inr tree, w')"
    and "\<And>p. p \<in> set (walk_paths tree ''.log'') \<Longrightarrow> so_lines so p w' = (Inr (lines p), w')"
  shows "scan_logs so directory w = (if \<exists>p \<in> set (walk_paths tree ''.log''). \<exists>line \<in> set (lines p).
      contains_str (py_lower line) ''panic'' \<or> contains_str (py_lower line) ''data race''
    then (Inl (LogScanningError ''Found errors in the sync gateway / sg accel logs!!''), w') else (Inr (), w'))"
proof -
  have lower: "py_lower ''panic'' = ''panic''" "py_lower ''data race'' = ''data race''" by code_simp+
  have "list_ex (\<lambda>p. list_ex bad_line (lines p)) (walk_paths tree ''.log'') \<longleftrightarrow> (\<exists>p \<in> set (walk_paths tree ''.log''). \<exists>line \<in> set (lines p).
      contains_str (py_lower line) ''panic'' \<or> contains_str (py_lower line) ''data race'')"
    by (simp add: list_ex_iff bad_line_def line_has_def lower)
  then show ?thesis using assms scan_files [of "walk_paths tree ''.log''" so w' lines False]
    by (simp add: scan_logs_def get_file_paths_with_extension_def io_simps)
qed

definition sample_logs :: "unit scan_ops" where
  "sample_logs = \<lparr>so_walk = (\<lambda>_. returnIO [(''/logs'', [''sg.log'', ''notes.txt''])]), so_unzip = (\<lambda>_ _. returnIO ()),
     so_lines = (\<lambda>p. returnIO (if p = ''/logs/sg.log'' then [''started'', ''WARNING: DATA RACE''] else []))\<rparr>"

theorem scan_logs_exact_witness:
  "scan_logs sample_logs ''/logs'' () = (Inl (LogScanningError ''Found errors in the sync gateway / sg accel logs!!''), ())"
proof -
  have u: "unzip_log_files sample_logs ''/logs'' () = (Inr (), ())" by code_simp
  have t: "so_walk sample_logs ''/logs'' () = (Inr [(''/logs'', [''sg.log'', ''notes.txt''])], ())" by code_simp
  have p: "walk_paths [(''/logs'', [''sg.log'', ''notes.txt''])] ''.log'' = [''/logs/sg.log'']" by code_simp
  have c: "contains_str (py_lower ''WARNING: DATA RACE'') ''data race''" by code_simp
  show ?thesis
    using scan_logs_exact [OF u t, of "\<lambda>_. [''started'', ''WARNING: DATA RACE'']"] c
    unfolding p by (simp add: sample_logs_def returnIO_def)
qed

end
