(* ===== verification/Spec2Isabelle.thy ===== *)
theory Spec2Isabelle
  imports Cbl_Database Cbl_Query Replication_Loops Server_Pool Kit_Utils Deep_Compare Changes_Tracker Typed_Pool
    Rest_Write Rest_Replication Rest_Changes Launch_Checks Verify Local_Pools Log_Tools
begin

text \<open>
  \<^bold>\<open>A verification library for the Couchbase mobile test kit\<close>

  The kit provisions clusters of Couchbase Server and Sync Gateway nodes, drives them and the Couchbase Lite
  clients through HTTP, and checks what they answer. Its parts, under \<open>src/\<close>, and the theories that model them:

  \<^item> \<^emph>\<open>Test server client\<close> (\<open>CBLClient/\<close>): every method of a client class turns its arguments into text
    (\<open>ValueSerializer.py\<close>), posts them to the test server and reads the answer (\<open>Client.py\<close>, \<open>Args.py\<close>).
    \<open>Value_Serializer\<close>, \<open>Rpc_Client\<close>; one definition per method in \<open>Cbl_Values\<close>, \<open>Cbl_Database\<close>, \<open>Cbl_Query\<close>,
    \<open>Cbl_Replication\<close>; the loops that wait for a replicator in \<open>Replication_Loops\<close>. \<open>Rpc_Refinement\<close> shows that a call
    against a server that follows the protocol is a local call of its service.
  \<^item> \<^emph>\<open>Machine pool and cluster files\<close> (\<open>utilities/mobile_server_pool.py\<close>,
    \<open>libraries/utilities/generate_clusters_from_pool.py\<close>, \<open>utilities/cluster_config_utils.py\<close>): nodes are
    reserved in a bucket, written to a pool file, and turned into cluster configurations that the rest of the kit
    reads. \<open>Server_Pool\<close>, \<open>Pool_File\<close>, \<open>Cluster_Gen\<close>, \<open>Typed_Pool\<close>, \<open>Cluster_Config\<close>; the path from a
    reservation to a readable configuration is proved below. \<open>Local_Pools\<close> is the two other writers of pool files, \<open>docker/cluster.py\<close>
    and \<open>libraries/provision/generate_pools_json_from_aws.py\<close>, with indented JSON in \<open>Json_Pretty\<close>.
  \<^item> \<^emph>\<open>REST client\<close> (\<open>keywords/MobileRestClient.py\<close>): \<open>Http\<close> is what it uses of \<open>requests\<close>; \<open>Rest_Admin\<close>,
    \<open>Rest_Docs\<close>, \<open>Rest_Write\<close>, \<open>Rest_Replication\<close> and \<open>Rest_Changes\<close> hold its methods in the order of the file,
    \<open>Multipart\<close> the parser of bulk answers, \<open>Attachments\<close> the files it sends (\<open>keywords/attachment.py\<close>).
  \<^item> \<^emph>\<open>Couchbase Server\<close> (\<open>keywords/couchbaseserver.py\<close>, \<open>keywords/remoteexecutor.py\<close>): \<open>Cbs_Server\<close> (buckets, users,
    memory), \<open>Cbs_Cluster\<close> (rebalance, start and stop, packages, scopes), \<open>Remote_Exec\<close> (commands over ssh).
  \<^item> \<^emph>\<open>Sync Gateway\<close> (\<open>libraries/testkit/\<close>): \<open>Sg_Config\<close> (\<open>config.py\<close>: configurations with sync functions),
    \<open>Sg_Admin\<close> (\<open>admin.py\<close>), \<open>Sg_User\<close> (\<open>user.py\<close>: users with their cache of revisions), \<open>Verify\<close> (\<open>verify.py\<close>), \<open>Sg_Vars\<close>,
    \<open>Sg_Node\<close> and \<open>Sg_Sync\<close> (\<open>syncgateway.py\<close>: the variables of a configuration template, starting a node and sending its
    databases, replications), \<open>Cluster_Reset\<close> (\<open>cluster.py\<close>, \<open>sgaccel.py\<close>: the nodes of a cluster and their reset).
  \<^item> \<^emph>\<open>Provisioning\<close> (\<open>libraries/provision/\<close>, \<open>keywords/SyncGateway.py\<close>, \<open>keywords/ClusterKeywords.py\<close>): \<open>Playbooks\<close> (the ansible
    runner, paths, certificates, the state \<open>prov_state\<close> of configuration files and default variables), \<open>Sg_Versions\<close> (topology
    and versions that are running), \<open>Sg_Install\<close> (packages and playbooks), \<open>Sg_Control\<close> and \<open>Sg_Deploy\<close> (the keywords that start,
    stop, upgrade, install and redeploy), \<open>Provision\<close> (the whole cluster). \<open>Sg_Fragments\<close> shows that the variables of a
    node are pieces of JSON, \<open>Provision_Checks\<close> what the checks of versions and imports establish.
  \<^item> \<^emph>\<open>Launchers\<close> (\<open>keywords/TestServer*.py\<close>, \<open>keywords/LiteServ*.py\<close>): downloading, installing, starting and stopping the
    applications under test. \<open>Launchers\<close> is the two base classes, as a record that the platforms extend; \<open>Test_Android\<close>, \<open>Test_iOS\<close>,
    \<open>Test_Remote\<close> (C, Java, Windows), \<open>Lite_Serv\<close> (desktop), \<open>Lite_Phones\<close> and \<open>Launch_Factories\<close> are the classes; \<open>Launch_Checks\<close>
    holds their properties.
  \<^item> \<^emph>\<open>Logs and statistics\<close> (\<open>utilities/scan_logs.py\<close>, \<open>libraries/utilities/log_expvars.py\<close>, \<open>libraries/testkit/prometheus.py\<close>):
    \<open>Log_Tools\<close>.
  \<^item> \<^emph>\<open>Changes tracker\<close> (\<open>keywords/ChangesTracker.py\<close>): \<open>Changes_Tracker\<close>.
  \<^item> \<^emph>\<open>Documents and utilities\<close> (\<open>libraries/data/doc_generators.py\<close>, \<open>keywords/document.py\<close>, \<open>keywords/utils.py\<close>):
    \<open>Doc_Generators\<close>, \<open>Documents\<close>, \<open>Kit_Utils\<close>, \<open>Deep_Compare\<close>.

  \<^bold>\<open>How the code is modelled.\<close> \<open>Py_Prelude\<close>, \<open>Py_Strings\<close>, \<open>Py_Value\<close> and \<open>Py_Ops\<close> are the Python the code is written in:
  exceptions as values, a world-passing monad \<open>('w, 'a) io\<close>, dictionaries in insertion order, dynamically typed
  values, string methods. \<open>Json\<close> is \<open>json.dumps\<close> and \<open>json.loads\<close> with their round trip. A method of an object that changes its
  attributes runs in a world that holds the object (\<open>on_world\<close>, \<open>self_get\<close>, \<open>self_set\<close>). Code outside the
  repository is a parameter: the HTTP session (\<open>http\<close>), the clock (\<open>clock\<close>), random numbers (\<open>entropy\<close>), the Couchbase SDK,
  ssh, ansible playbooks, the template engine, the order in which a set or a thread pool delivers its elements.
  What a theorem needs of them is a named hypothesis (\<open>ticks\<close>: sleeping advances the clock; \<open>http_onward\<close>: time does not run
  backwards during a request; \<open>revision_server\<close>: a write is answered with the new revision), and each has a witness.
  Arithmetic is exact, a character stands for a code point below 256.

  \<^bold>\<open>Loops and fuel.\<close> A loop that may run forever is \<open>while_io\<close> (theory \<open>Loops\<close>) or \<open>poll\<close> (theory \<open>Polling\<close>) with fuel; \<open>None\<close> is
  a run that has not returned. Termination theorems give the fuel that is enough, from the timeout and the pause of the loop
  (\<open>poll_fuel\<close>: one round per pause and two more), for any answers of the server. The contracts are the locales \<open>ranked_loop\<close>
  and \<open>polling\<close>, interpreted for the loops of each component; \<open>codec\<close> in \<open>Json\<close> is the contract of the
  encoders. Where a loop need not end, that is proved as well (\<open>delete_buckets_may_hang\<close>, \<open>emulator_install_never_returns\<close>).

  \<^bold>\<open>What the theorems show.\<close> Refinement: a remote call is a local call. Invariants: interleaved reservations, the
  user's cache against the server. Safety of the checks: a check that returns normally has seen what it claims
  (\<open>verify_docs_present\<close>, \<open>verify_docs_in_changes\<close>, \<open>verify_docs_deleted\<close>, \<open>verify_changes\<close>, the changes tracker, waiting for a
  rebalance or an idle replication, the versions of a provisioned cluster). Equivalence: the two views of a cluster, the topology and
  the objects of its nodes, agree. Types: the variables of a Sync Gateway configuration are members of a JSON object, and the
  factory of the test servers has a class for every platform. Functional behaviour: the databases that are sent to a
  node, the pool that is handed out, what a scan of logs reports. Termination of the waiting loops, round trips of the
  encodings and files, bounds on the memory of buckets and on the distribution of an index, allocation of machines, and the
  errors that the code raises where it should not; these are the findings.

  \<^bold>\<open>Not modelled.\<close> \<open>complex_doc\<close>, a constant of 3,500 lines; logging; command lines; the parser of INI files; methods that only
  read an image or stream a feed; the dynamic inventory of EC2 (a script of the ansible project), the templates and calls of the
  AWS library that create a stack; the scripts around performance results; the tests themselves and the
  applications in other languages.
\<close>

section \<open>From the pool to a cluster configuration\<close>

abbreviation with_pool :: "environment \<Rightarrow> string \<Rightarrow> string list \<Rightarrow> string list \<Rightarrow> string list \<Rightarrow> environment" where
  "with_pool env pool_file nodes sgs lbs \<equiv>
     write_file env pool_file (TextFile (pool_json_str nodes (opt_names sgs) (opt_names lbs)))"

lemma get_hosts_pool_file:
  assumes "list_all node_name (nodes @ sgs @ lbs)" "distinct (nodes @ sgs @ lbs)"
  shows "get_hosts (with_pool env pool_file nodes sgs lbs) pool_file = Inr (nodes @ sgs @ lbs,
     if sgs = [] then [] else map (\<lambda>(n, r). (n, PStr r)) (node_types nodes sgs lbs))"
proof -
  have strs: "mapR as_str (map PStr xs) = Inr xs" for xs by (induction xs) simp_all
  have card: "length (nodes @ sgs @ lbs) = card (set (nodes @ sgs @ lbs))"
    using distinct_card [OF assms(2)] by simp
  have "read_json (with_pool env pool_file nodes sgs lbs) pool_file = Inr (PDict
     ((''ips'', PList (map PStr (nodes @ sgs @ lbs))) #
      (if sgs = [] then [] else
         [(''ip_to_node_type'', PDict (map (\<lambda>(n, r). (n, PStr r)) (node_types nodes sgs lbs)))])))"
    using pool_json_loads [OF assms] by (simp add: read_json_def write_file_def dict_get_def del: map_append)
  with strs [of "nodes @ sgs @ lbs"] card show ?thesis
    unfolding get_hosts_def by (auto simp: dict_index_def dict_get_def simp del: map_append)
qed

text \<open>
  The file that \<open>mobile_server_pool.py\<close> pastes together for a reservation is what
  \<open>generate_clusters_from_pool.py\<close> reads: for distinct nodes whose names have no blank, comma, quote or
  backslash, \<open>get_hosts\<close> returns the reserved nodes, the Sync Gateway nodes and the load balancers, in this
  order, with the node type of each if there are Sync Gateway nodes.
\<close>

theorem pool_file_read_back:
  assumes "list_all node_name (nodes @ sgs @ lbs)" "distinct (nodes @ sgs @ lbs)"
  shows "get_hosts (write_file env pool_file (TextFile (pool_json_str nodes (opt_names sgs) (opt_names lbs)))) pool_file
     = Inr (nodes @ sgs @ lbs, if sgs = [] then [] else map (\<lambda>(n, r). (n, PStr r)) (node_types nodes sgs lbs))"
  by (rule get_hosts_pool_file) (fact assms)+

theorem pool_file_read_back_witness:
  "get_hosts (write_file sample_pool ''p'' (TextFile (pool_json_str [''10.0.0.1''] (Some ''10.0.0.2'') None))) ''p''
     = Inr ([''10.0.0.1'', ''10.0.0.2''], [(''10.0.0.1'', PStr ''couchbase_servers''), (''10.0.0.2'', PStr ''sync_gateways'')])"
proof -
  have "list_all node_name ([''10.0.0.1''] @ [''10.0.0.2''] @ [])" by code_simp
  from pool_file_read_back [OF this, of sample_pool "''p''"] show ?thesis
    by (simp add: opt_names_def node_types_def)
qed

text \<open>
  C8: a reservation followed by the generator gives the cluster that was asked for: if the pool
  has at least the machines a configuration needs of each kind, \<open>write_config\<close> creates it, with the first
  reserved nodes as Couchbase Servers, the first Sync Gateway nodes as Sync Gateways and the first
  load balancers as load balancers, and \<open>get_cbs_servers\<close> finds the servers in the new file.
\<close>

theorem reserved_pool_configures:
  assumes names: "list_all node_name (nodes @ sgs @ lbs)" "distinct (nodes @ sgs @ lbs)" and sgs: "sgs \<noteq> []"
    and counts: "num_cbs config \<le> length nodes" "num_sgs config \<le> length sgs" "num_lbs config \<le> length lbs"
      "num_acs config = 0" "num_lgs config = 0"
    and env: "env' = write_file env pool_file (TextFile (pool_json_str nodes (opt_names sgs) (opt_names lbs)))"
  shows "\<exists>env'' cluster. write_config local_ip opts config pool_file env' = (Inr (), env'') \<and>
     read_json env'' (config_path pool_file config @ ''.json'') = Inr cluster \<and>
     get_cbs_servers env'' (config_path pool_file config @ ''.json'') = Inr (map PStr (take (num_cbs config) nodes)) \<and>
     group_ips cluster ''sync_gateways'' = Inr (map PStr (take (num_sgs config) sgs)) \<and>
     group_ips cluster ''load_balancers'' = Inr (map PStr (take (num_lbs config) lbs))"
proof -
  let ?ips = "nodes @ sgs @ lbs" and ?types = "map (\<lambda>(n, r). (n, PStr r)) (node_types nodes sgs lbs)"
  have h: "get_hosts env' pool_file = Inr (?ips, ?types)"
    using get_hosts_pool_file [OF names, of env pool_file] sgs unfolding env by simp
  note ty = node_types_of_type [OF names(2)]
  have "?types \<noteq> []" "length ?types = length ?ips" using sgs by (simp_all add: node_types_def)
  moreover have "enough config ?types ?ips" using counts unfolding ty by simp
  ultimately obtain env'' cluster where
    w: "write_config local_ip opts config pool_file env' = (Inr (), env'')"
    "read_json env'' (config_path pool_file config @ ''.json'') = Inr cluster"
    "group_ips cluster ''couchbase_servers'' = Inr (map PStr (take (num_cbs config) nodes))"
    "group_ips cluster ''sync_gateways'' = Inr (map PStr (take (num_sgs config) sgs))"
    "group_ips cluster ''load_balancers'' = Inr (map PStr (take (num_lbs config) lbs))"
    using write_config_typed [OF h _ _ ty(4), of config local_ip opts] unfolding ty(1-3) by blast
  have "contains_str (config_path pool_file config @ ''.json'') ''.json''" by (auto simp: contains_str_iff)
  then have "get_cbs_servers env'' (config_path pool_file config @ ''.json'') = Inr (map PStr (take (num_cbs config) nodes))"
    by (simp add: get_cbs_servers_def load_cluster_config_json_def w(2,3))
  with w show ?thesis by blast
qed

theorem reserved_pool_configures_witness:
  "\<exists>env'' cluster. write_config (Inr ''10.0.0.9'') plain_options (ClusterDef ''base_cc'' 1 0 1 0 0) ''resources/pool.json''
       (write_file sample_pool ''resources/pool.json'' (TextFile (pool_json_str [''10.0.0.1''] (Some ''10.0.0.2'') None)))
       = (Inr (), env'') \<and>
     get_cbs_servers env'' (config_path ''resources/pool.json'' (ClusterDef ''base_cc'' 1 0 1 0 0) @ ''.json'') = Inr [PStr ''10.0.0.1''] \<and>
     group_ips cluster ''sync_gateways'' = Inr [PStr ''10.0.0.2'']"
proof -
  have n: "list_all node_name ([''10.0.0.1''] @ [''10.0.0.2''] @ [])" by code_simp
  have d: "distinct ([''10.0.0.1''] @ [''10.0.0.2''] @ [])" by simp
  have o: "opt_names [''10.0.0.2''] = Some ''10.0.0.2''" "opt_names [] = None" by (simp_all add: opt_names_def)
  show ?thesis
    using reserved_pool_configures [OF n d, where config = "ClusterDef ''base_cc'' 1 0 1 0 0" and env = sample_pool
        and pool_file = "''resources/pool.json''", OF _ _ _ _ _ _ refl]
    unfolding o by simp blast
qed

end
